(* ===== verification/GoPrelude.thy ===== *)
theory GoPrelude
  imports Main "HOL-Library.Sublist"
begin

text \<open>
  The prelude of the development: the parts of the Go language and of its standard library that
  the controllers under \<open>src/\<close> use, and the lemmas about them that every component shares.

  \<^item> Control flow: \<open>outcome\<close> (a call returns or panics), \<open>goerr\<close> (one constructor per place
    where the code builds an error, plus \<open>EExternal\<close> for errors handed over by code outside the
    repository), and the effect type \<open>('w, 'a) io\<close>: a state transformer over an arbitrary world
    \<open>'w\<close>, so that a theorem about an operation holds for every behaviour of the outside.
  \<^item> Package \<open>strings\<close>: \<open>HasPrefix\<close>, \<open>HasSuffix\<close>, \<open>Contains\<close>, \<open>TrimPrefix\<close>, \<open>TrimSuffix\<close>, \<open>Split\<close>,
    \<open>Join\<close>, \<open>ReplaceAll\<close>, \<open>ToLower\<close> (on ASCII; other bytes are left as they are).
  \<^item> Package \<open>fmt\<close>: the decimal rendering of \<open>%d\<close>.
  \<^item> Package \<open>filepath\<close> (Unix): \<open>Clean\<close>, \<open>Join\<close>, \<open>Base\<close>, \<open>Dir\<close>.

  A Go \<open>string\<close> is a \<open>string\<close> of bytes; a Go \<open>[]byte\<close>, which can be nil, is a \<open>string option\<close>.
\<close>

named_theorems go_simps \<open>equations that evaluate the modelled library functions\<close>

section \<open>Control flow\<close>

datatype 'a outcome = Returned 'a | Panicked

type_synonym ('w, 'a) io = "'w \<Rightarrow> 'a \<times> 'w"

type_synonym bytes = "string option"

definition blen :: "bytes \<Rightarrow> nat" where
  "blen b = (case b of None \<Rightarrow> 0 | Some s \<Rightarrow> length s)"

definition bstr :: "bytes \<Rightarrow> string" where
  "bstr b = (case b of None \<Rightarrow> '''' | Some s \<Rightarrow> s)"

lemma blen_simps [simp]: "blen None = 0" "blen (Some s) = length s"
  by (simp_all add: blen_def)

lemma bstr_simps [simp]: "bstr None = ''''" "bstr (Some s) = s"
  by (simp_all add: bstr_def)

text \<open>
  The errors of the program. Wrapping with \<open>%w\<close> keeps the wrapped error, so the constructors for
  wrapped errors carry it.
\<close>

datatype goerr =
    EExternal string                      \<comment> \<open>an error of code outside the repository\<close>
  | ENotFound                             \<comment> \<open>an API error for which \<open>apierrors.IsNotFound\<close> holds\<close>
  | ESecretRefEmpty
  | ESecretKeyMissing string string
  | EKnownHostsKeyMissing string string
  | ESshKeyForHttpsUrl string
  | ETokenForSshUrl string
  | EBadPrivateKey goerr
  | EUnknownUrlScheme string
  | ENoKnownHosts
  | EKnownHostsTemp goerr
  | EKnownHostsWrite "goerr option"
  | EKnownHostsClose goerr
  | EInvalidRepoUrl string string
  | EUnsupportedProvider string
  | EExecuteRequest goerr
  | EUnexpectedStatus int
  | EDecodeResponse goerr
  | EGithubRequest goerr
  | EGitlabRequest goerr
  | EBitbucketRequest goerr
  | EInvalidObject string "(string \<times> string \<times> string) list"
  | EControllerRef goerr
  | EParameterNil string

definition isNotFound :: "goerr \<Rightarrow> bool" where
  "isNotFound e = (e = ENotFound)"

section \<open>Package strings\<close>

definition hasPrefix :: "string \<Rightarrow> string \<Rightarrow> bool" where
  "hasPrefix s p = prefix p s"

definition hasSuffix :: "string \<Rightarrow> string \<Rightarrow> bool" where
  "hasSuffix s p = suffix p s"

definition contains :: "string \<Rightarrow> string \<Rightarrow> bool" where
  "contains s p = sublist p s"

definition trimPrefix :: "string \<Rightarrow> string \<Rightarrow> string" where
  "trimPrefix s p = (if hasPrefix s p then drop (length p) s else s)"

definition trimSuffix :: "string \<Rightarrow> string \<Rightarrow> string" where
  "trimSuffix s p = (if hasSuffix s p then take (length s - length p) s else s)"

definition asciiLower :: "char \<Rightarrow> char" where
  "asciiLower c = (if 65 \<le> (of_char c :: nat) \<and> (of_char c :: nat) \<le> 90
                   then char_of ((of_char c :: nat) + 32) else c)"

definition toLower :: "string \<Rightarrow> string" where
  "toLower s = map asciiLower s"

text \<open>\<open>strings.Split\<close> at a one-byte separator: never the empty list.\<close>

fun splitOn :: "char \<Rightarrow> string \<Rightarrow> string list" where
  "splitOn c [] = [[]]"
| "splitOn c (x # xs) =
     (if x = c then [] # splitOn c xs
      else (case splitOn c xs of [] \<Rightarrow> [[x]] | y # ys \<Rightarrow> (x # y) # ys))"

fun joinWith :: "string \<Rightarrow> string list \<Rightarrow> string" where
  "joinWith sep [] = ''''"
| "joinWith sep [x] = x"
| "joinWith sep (x # y # ys) = x @ sep @ joinWith sep (y # ys)"

text \<open>\<open>strings.ReplaceAll\<close> of a one-byte pattern.\<close>

definition replaceByte :: "char \<Rightarrow> string \<Rightarrow> string \<Rightarrow> string" where
  "replaceByte c r s = concat (map (\<lambda>x. if x = c then r else [x]) s)"

lemma hasPrefix_code [go_simps]:
  "hasPrefix s [] = True"
  "hasPrefix [] (x # p) = False"
  "hasPrefix (y # s) (x # p) = (x = y \<and> hasPrefix s p)"
  by (auto simp: hasPrefix_def)

lemma hasSuffix_code [go_simps]: "hasSuffix s p = hasPrefix (rev s) (rev p)"
  by (simp add: hasSuffix_def hasPrefix_def suffix_to_prefix)

lemma contains_code [go_simps]:
  "contains s [] = True"
  "contains [] (x # p) = False"
  "contains (y # s) (x # p) = (hasPrefix (y # s) (x # p) \<or> contains s (x # p))"
  by (auto simp: contains_def hasPrefix_def sublist_code)

lemma hasPrefix_append [simp]: "hasPrefix (p @ s) p"
  by (simp add: hasPrefix_def)

lemma hasPrefixE:
  assumes "hasPrefix s p"
  obtains t where "s = p @ t"
  using assms by (auto simp: hasPrefix_def elim: prefixE)

lemma hasSuffix_append [simp]: "hasSuffix (s @ p) p"
  by (auto simp: hasSuffix_def suffix_def)

lemma hasSuffixE:
  assumes "hasSuffix s p"
  obtains t where "s = t @ p"
  using assms by (auto simp: hasSuffix_def elim: suffixE)

lemma trimPrefix_append [simp]: "trimPrefix (p @ s) p = s"
  by (simp add: trimPrefix_def)

lemma trimSuffix_append [simp]: "trimSuffix (s @ p) p = s"
  by (simp add: trimSuffix_def)

lemma trimSuffix_cases:
  obtains "s = trimSuffix s p" | "s = trimSuffix s p @ p"
  by (metis hasSuffixE trimSuffix_append trimSuffix_def)

lemma contains_char_iff: "contains s [c] \<longleftrightarrow> c \<in> set s"
  by (induction s) (auto simp: go_simps)

lemma contains_append1: "contains s p \<Longrightarrow> contains (s @ t) p"
  by (auto simp: contains_def sublist_append)

lemma toLower_simps [simp]:
  "toLower [] = []"
  "toLower (x # xs) = asciiLower x # toLower xs"
  "toLower (xs @ ys) = toLower xs @ toLower ys"
  by (simp_all add: toLower_def)

lemma asciiLower_idem [simp]: "asciiLower (asciiLower c) = asciiLower c"
  by (simp add: asciiLower_def)

lemma toLower_idem [simp]: "toLower (toLower s) = toLower s"
  by (simp add: toLower_def)

subsection \<open>Split and Join\<close>

lemma splitOn_not_Nil [simp]: "splitOn c s \<noteq> []"
  by (induction s) (auto split: list.splits)

lemma joinWith_Cons: "ys \<noteq> [] \<Longrightarrow> joinWith sep (x # ys) = x @ sep @ joinWith sep ys"
  by (cases ys) auto

lemma join_split: "joinWith [c] (splitOn c s) = s"
proof (induction s)
  case Nil
  then show ?case by simp
next
  case (Cons x xs)
  obtain y ys where y: "splitOn c xs = y # ys"
    by (cases "splitOn c xs") auto
  with Cons show ?case
    by (cases ys) (auto simp: joinWith_Cons)
qed

lemma splitOn_no_sep: "c \<notin> set s \<Longrightarrow> splitOn c s = [s]"
  by (induction s) auto

lemma splitOn_append_sep: "c \<notin> set a \<Longrightarrow> splitOn c (a @ c # b) = a # splitOn c b"
  by (induction a) auto

lemma splitOn_elems: "p \<in> set (splitOn c s) \<Longrightarrow> c \<notin> set p"
proof (induction s arbitrary: p)
  case Nil
  then show ?case by simp
next
  case (Cons x xs)
  then show ?case
    by (cases "splitOn c xs") (auto split: if_splits)
qed

lemma splitOn_join:
  "xs \<noteq> [] \<Longrightarrow> (\<And>x. x \<in> set xs \<Longrightarrow> c \<notin> set x) \<Longrightarrow> splitOn c (joinWith [c] xs) = xs"
proof (induction xs)
  case Nil
  then show ?case by simp
next
  case (Cons x xs)
  then show ?case
    by (cases xs) (auto simp: splitOn_no_sep splitOn_append_sep)
qed

lemma replaceByte_simps [simp]:
  "replaceByte c r [] = []"
  "replaceByte c r (x # xs) = (if x = c then r else [x]) @ replaceByte c r xs"
  "replaceByte c r (xs @ ys) = replaceByte c r xs @ replaceByte c r ys"
  by (simp_all add: replaceByte_def)

lemma set_replaceByte: "set (replaceByte c r s) \<subseteq> (set s - {c}) \<union> set r"
  by (induction s) auto

section \<open>Package fmt: decimal numbers\<close>

definition digitChar :: "nat \<Rightarrow> char" where
  "digitChar d = char_of (48 + d)"

fun showNat :: "nat \<Rightarrow> string" where
  "showNat n = (if n < 10 then [digitChar n] else showNat (n div 10) @ [digitChar (n mod 10)])"

declare showNat.simps [simp del]

definition showInt :: "int \<Rightarrow> string" where
  "showInt i = (if i < 0 then CHR ''-'' # showNat (nat (- i)) else showNat (nat i))"

fun readNat :: "nat \<Rightarrow> string \<Rightarrow> nat" where
  "readNat acc [] = acc"
| "readNat acc (c # cs) = readNat (10 * acc + (of_char c - 48)) cs"

lemma readNat_append: "readNat a (xs @ ys) = readNat (readNat a xs) ys"
  by (induction xs arbitrary: a) auto

lemma of_digitChar: "d < 10 \<Longrightarrow> (of_char (digitChar d) :: nat) = 48 + d"
  by (simp add: digitChar_def)

lemma readNat_showNat: "readNat 0 (showNat n) = n"
proof (induction n rule: showNat.induct)
  case (1 n)
  show ?case
  proof (cases "n < 10")
    case True
    then show ?thesis by (simp add: showNat.simps [of n] of_digitChar)
  next
    case False
    with 1 have "readNat 0 (showNat (n div 10)) = n div 10" by simp
    with False show ?thesis
      by (simp add: showNat.simps [of n] readNat_append of_digitChar)
  qed
qed

lemma showNat_inject: "showNat m = showNat n \<Longrightarrow> m = n"
  by (metis readNat_showNat)

lemma showNat_digits: "c \<in> set (showNat n) \<Longrightarrow> 48 \<le> (of_char c :: nat) \<and> (of_char c :: nat) \<le> 57"
proof (induction n arbitrary: c rule: showNat.induct)
  case (1 n)
  have last: "48 \<le> (of_char (digitChar (n mod 10)) :: nat) \<and> (of_char (digitChar (n mod 10)) :: nat) \<le> 57"
    by (simp add: of_digitChar)
  show ?case
  proof (cases "n < 10")
    case True
    with "1.prems" show ?thesis by (auto simp: showNat.simps [of n] of_digitChar)
  next
    case False
    with "1.prems" have "c \<in> set (showNat (n div 10)) \<or> c = digitChar (n mod 10)"
      by (auto simp: showNat.simps [of n])
    with False last show ?thesis using "1.IH" by blast
  qed
qed

lemma showInt_chars:
  assumes "c \<in> set (showInt i)"
  shows "c = CHR ''-'' \<or> 48 \<le> (of_char c :: nat) \<and> (of_char c :: nat) \<le> 57"
  using assms by (auto simp: showInt_def dest: showNat_digits split: if_splits)

lemma showNat_no_minus: "CHR ''-'' \<notin> set (showNat n)"
  using showNat_digits [of "CHR ''-''" n] by auto

lemma showInt_inject: "showInt i = showInt j \<Longrightarrow> i = j"
proof -
  assume eq: "showInt i = showInt j"
  have neg: "showNat n \<noteq> CHR ''-'' # t" for n t
    using showNat_no_minus [of n] by auto
  show "i = j"
    using eq neg neg [symmetric]
    by (auto simp: showInt_def dest: showNat_inject split: if_splits)
qed

section \<open>Package filepath (Unix)\<close>

definition pathElems :: "string \<Rightarrow> string list" where
  "pathElems s = filter (\<lambda>e. e \<noteq> '''' \<and> e \<noteq> ''.'') (splitOn (CHR ''/'') s)"

text \<open>One path element against the stack of the elements kept so far (the last one first).\<close>

fun cleanStep :: "bool \<Rightarrow> string list \<Rightarrow> string \<Rightarrow> string list" where
  "cleanStep rooted stack e =
     (if e = ''..'' then
        (case stack of
           [] \<Rightarrow> if rooted then [] else [''..'']
         | t # ts \<Rightarrow> if t = ''..'' then ''..'' # stack else ts)
      else e # stack)"

definition cleanElems :: "bool \<Rightarrow> string \<Rightarrow> string list" where
  "cleanElems rooted s = rev (foldl (cleanStep rooted) [] (pathElems s))"

definition cleanPath :: "string \<Rightarrow> string" where
  "cleanPath s =
     (if s = '''' then ''.''
      else if hasPrefix s ''/'' then ''/'' @ joinWith ''/'' (cleanElems True s)
      else if cleanElems False s = [] then ''.''
      else joinWith ''/'' (cleanElems False s))"

definition joinPath :: "string list \<Rightarrow> string" where
  "joinPath es =
     (case dropWhile (\<lambda>e. e = '''') es of
        [] \<Rightarrow> ''''
      | e # rest \<Rightarrow> cleanPath (joinWith ''/'' (e # rest)))"

definition basePath :: "string \<Rightarrow> string" where
  "basePath s =
     (if s = '''' then ''.''
      else let t = dropWhile (\<lambda>c. c = CHR ''/'') (rev s);
               b = rev (takeWhile (\<lambda>c. c \<noteq> CHR ''/'') t)
           in if b = '''' then ''/'' else b)"

definition dirPath :: "string \<Rightarrow> string" where
  "dirPath s = cleanPath (rev (dropWhile (\<lambda>c. c \<noteq> CHR ''/'') (rev s)))"

lemmas path_simps = pathElems_def cleanElems_def cleanPath_def joinPath_def basePath_def dirPath_def

lemma basePath_join:
  assumes "n \<noteq> ''''" and "CHR ''/'' \<notin> set n"
  shows "basePath (d @ ''/'' @ n) = n"
proof -
  have "last n \<in> set n" using assms(1) by (rule last_in_set)
  with assms(2) have "last n \<noteq> CHR ''/''" by metis
  then have hd: "rev n \<noteq> []" "hd (rev n) \<noteq> CHR ''/''"
    using assms(1) by (simp_all add: hd_rev)
  then obtain y ys where y: "rev n = y # ys" "y \<noteq> CHR ''/''"
    by (cases "rev n") auto
  have "dropWhile (\<lambda>c. c = CHR ''/'') (rev (d @ ''/'' @ n)) = rev n @ CHR ''/'' # rev d"
    using y by simp
  moreover have "takeWhile (\<lambda>c. c \<noteq> CHR ''/'') (rev n @ CHR ''/'' # rev d) = rev n"
    using assms by (subst takeWhile_append2) auto
  ultimately show ?thesis
    using assms by (simp add: basePath_def Let_def)
qed

subsection \<open>Lexical paths\<close>

text \<open>
  A plain path element is a file name proper. On a rooted path \<open>Clean\<close> leaves only plain elements,
  appending a plain element appends it to the cleaned elements, and \<open>Base\<close> and \<open>Dir\<close> take it off
  again.
\<close>

definition plainElem :: "string \<Rightarrow> bool" where
  "plainElem e = (e \<noteq> '''' \<and> e \<noteq> ''.'' \<and> e \<noteq> ''..'' \<and> CHR ''/'' \<notin> set e)"

lemma splitOn_append: "splitOn c (a @ c # b) = splitOn c a @ splitOn c b"
proof (induction a)
  case Nil
  then show ?case by simp
next
  case (Cons x xs)
  then show ?case by (cases "splitOn c xs") auto
qed

lemma joinWith_snoc: "joinWith sep (xs @ [x]) = (if xs = [] then x else joinWith sep xs @ sep @ x)"
  by (induction xs) (auto simp: joinWith_Cons)

lemma cleanStep_plain:
  "list_all plainElem stack \<Longrightarrow> CHR ''/'' \<notin> set e \<Longrightarrow> e \<noteq> '''' \<Longrightarrow> e \<noteq> ''.'' \<Longrightarrow>
     list_all plainElem (cleanStep True stack e)"
  by (cases stack) (auto simp: plainElem_def)

lemma foldl_cleanStep_plain:
  "list_all plainElem stack \<Longrightarrow> (\<And>e. e \<in> set es \<Longrightarrow> CHR ''/'' \<notin> set e \<and> e \<noteq> '''' \<and> e \<noteq> ''.'') \<Longrightarrow>
     list_all plainElem (foldl (cleanStep True) stack es)"
  by (induction es arbitrary: stack) (auto intro!: cleanStep_plain simp del: cleanStep.simps)

lemma pathElems_elem: "e \<in> set (pathElems s) \<Longrightarrow> CHR ''/'' \<notin> set e \<and> e \<noteq> '''' \<and> e \<noteq> ''.''"
  by (auto simp: pathElems_def dest: splitOn_elems)

lemma cleanElems_plain: "e \<in> set (cleanElems True s) \<Longrightarrow> plainElem e"
  using foldl_cleanStep_plain [of "[]" "pathElems s"] pathElems_elem [of _ s]
  by (auto simp: cleanElems_def list_all_iff)

lemma foldl_cleanStep_id:
  "(\<And>e. e \<in> set es \<Longrightarrow> plainElem e) \<Longrightarrow> foldl (cleanStep r) stack es = rev es @ stack"
  by (induction es arbitrary: stack) (auto simp: plainElem_def)

lemma pathElems_join:
  assumes "\<And>e. e \<in> set es \<Longrightarrow> plainElem e"
  shows "pathElems (joinWith ''/'' es) = es"
proof (cases "es = []")
  case True
  then show ?thesis by (simp add: pathElems_def)
next
  case False
  then have "splitOn (CHR ''/'') (joinWith ''/'' es) = es"
    using assms by (intro splitOn_join) (auto simp: plainElem_def)
  with assms show ?thesis
    by (auto simp: pathElems_def plainElem_def intro: filter_True)
qed

lemma pathElems_slash: "pathElems (''/'' @ s) = pathElems s"
  by (simp add: pathElems_def)

lemma cleanElems_slash_join:
  assumes "\<And>e. e \<in> set es \<Longrightarrow> plainElem e"
  shows "cleanElems r (''/'' @ joinWith ''/'' es) = es"
  using assms foldl_cleanStep_id [of es r "[]"]
  by (simp add: cleanElems_def pathElems_slash [simplified] pathElems_join)

lemma cleanPath_rooted:
  "hasPrefix s ''/'' \<Longrightarrow> cleanPath s = ''/'' @ joinWith ''/'' (cleanElems True s)"
  by (auto simp: cleanPath_def hasPrefix_def)

lemma cleanElems_cleanPath:
  "hasPrefix s ''/'' \<Longrightarrow> cleanElems True (cleanPath s) = cleanElems True s"
  using cleanElems_slash_join [of "cleanElems True s" True] cleanElems_plain [of _ s]
  by (simp add: cleanPath_rooted)

lemma cleanElems_snoc:
  assumes "plainElem n"
  shows "cleanElems r (p @ ''/'' @ n) = cleanElems r p @ [n]"
proof -
  have "pathElems (p @ ''/'' @ n) = pathElems p @ [n]"
    using assms splitOn_append [of "CHR ''/''" p n]
    by (simp add: pathElems_def splitOn_no_sep plainElem_def)
  with assms show ?thesis by (simp add: cleanElems_def plainElem_def)
qed

lemma joinPath_child:
  assumes "hasPrefix d ''/''" and "plainElem n"
  shows "joinPath [d, n] = ''/'' @ joinWith ''/'' (cleanElems True d @ [n])"
proof -
  from assms(1) obtain t where d: "d = CHR ''/'' # t" by (auto elim: hasPrefixE)
  have "joinPath [d, n] = cleanPath (d @ ''/'' @ n)"
    by (simp add: joinPath_def d)
  also have "\<dots> = ''/'' @ joinWith ''/'' (cleanElems True (d @ ''/'' @ n))"
    by (rule cleanPath_rooted) (simp add: d hasPrefix_code)
  finally show ?thesis by (simp only: cleanElems_snoc [OF assms(2)])
qed

lemma joinPath_rooted: "hasPrefix d ''/'' \<Longrightarrow> plainElem n \<Longrightarrow> hasPrefix (joinPath [d, n]) ''/''"
  by (simp add: joinPath_child hasPrefix_code)

lemma basePath_child:
  assumes "hasPrefix d ''/''" and "plainElem n"
  shows "basePath (joinPath [d, n]) = n"
proof -
  have n: "n \<noteq> ''''" "CHR ''/'' \<notin> set n" using assms(2) by (auto simp: plainElem_def)
  show ?thesis
  proof (cases "cleanElems True d = []")
    case True
    then show ?thesis
      using basePath_join [OF n, of "''''"] by (simp add: joinPath_child [OF assms])
  next
    case False
    then show ?thesis
      using basePath_join [OF n, of "''/'' @ joinWith ''/'' (cleanElems True d)"]
      by (simp add: joinPath_child [OF assms] joinWith_snoc)
  qed
qed

lemma cleanElems_trailing: "cleanElems r (s @ ''/'') = cleanElems r s"
  using splitOn_append [of "CHR ''/''" s "''''"] by (simp add: cleanElems_def pathElems_def)

lemma dirPath_child:
  assumes "hasPrefix d ''/''" and "plainElem n"
  shows "dirPath (joinPath [d, n]) = cleanPath d"
proof -
  have n: "CHR ''/'' \<notin> set n" using assms(2) by (auto simp: plainElem_def)
  define p where "p = (if cleanElems True d = [] then '''' else ''/'' @ joinWith ''/'' (cleanElems True d))"
  have "joinPath [d, n] = p @ ''/'' @ n"
    by (simp add: joinPath_child [OF assms] joinWith_snoc p_def)
  moreover have "dropWhile (\<lambda>c. c \<noteq> CHR ''/'') (rev n @ CHR ''/'' # rev p) = CHR ''/'' # rev p"
    using n by (subst dropWhile_append2) auto
  ultimately have "dirPath (joinPath [d, n]) = cleanPath (p @ ''/'')"
    by (simp add: dirPath_def)
  also have "\<dots> = ''/'' @ joinWith ''/'' (cleanElems True (p @ ''/''))"
    by (rule cleanPath_rooted) (simp add: p_def hasPrefix_code)
  also have "cleanElems True (p @ ''/'') = cleanElems True p"
    by (rule cleanElems_trailing)
  also have "cleanElems True p = cleanElems True d"
    using cleanElems_slash_join [of "cleanElems True d" True] cleanElems_plain [of _ d]
    by (auto simp: p_def) (simp add: cleanElems_def pathElems_def)
  finally show ?thesis by (simp add: cleanPath_rooted [OF assms(1)])
qed

end
