(* ===== verification/ApiTypes.thy ===== *)
theory ApiTypes
  imports GoPrelude
begin

text \<open>
  The API types of \<open>src/api/v1alpha1\<close>: the custom resources \<open>Cdk8sAppProxy\<close> and
  \<open>Cdk8sAppProxyGenerator\<close> with their specs and statuses, field by field. A pointer field of the
  Go struct that may be nil is an option. Of the Kubernetes types the structs embed
  (\<open>metav1.ObjectMeta\<close>, \<open>metav1.LabelSelector\<close>, \<open>metav1.Condition\<close>) the fields the program reads
  or writes are kept. A Go map that may be nil is an optional map.
\<close>

section \<open>Metadata\<close>

type_synonym labels = "string \<rightharpoonup> string"

record LabelSelector =
  matchLabels :: "(string \<times> string) list"
  matchExpressions :: "(string \<times> string \<times> string list) list"

record Condition =
  condType :: string
  condStatus :: string
  condReason :: string
  condMessage :: string

record OwnerReference =
  ownerKind :: string
  ownerName :: string
  ownerController :: bool

record ObjectMeta =
  Name :: string
  Namespace :: string
  Labels :: "labels option"
  Annotations :: "labels option"
  OwnerReferences :: "OwnerReference list"

section \<open>Cdk8sAppProxy\<close>

record GitRepositorySpec =
  URL :: string
  Reference :: string
  Path :: string
  SecretRef :: string
  SecretKey :: string
  KnownHostsKey :: string

record Cdk8sAppProxySpec =
  GitRepository :: "GitRepositorySpec option"
  ClusterSelector :: LabelSelector

record Cdk8sAppProxyStatus =
  Conditions :: "Condition list"

record Cdk8sAppProxy =
  proxyMeta :: ObjectMeta
  proxySpec :: Cdk8sAppProxySpec
  proxyStatus :: Cdk8sAppProxyStatus

definition GetConditions :: "Cdk8sAppProxy \<Rightarrow> Condition list" where
  "GetConditions c = Conditions (proxyStatus c)"

definition SetConditions :: "Cdk8sAppProxy \<Rightarrow> Condition list \<Rightarrow> Cdk8sAppProxy" where
  "SetConditions c conds = c\<lparr>proxyStatus := (proxyStatus c)\<lparr>Conditions := conds\<rparr>\<rparr>"

section \<open>Cdk8sAppProxyGenerator\<close>

record PRFilter =
  BranchMatch :: string

record Cdk8sAppProxyTemplate =
  templateMetadata :: ObjectMeta
  templateSpec :: Cdk8sAppProxySpec

text \<open>\<open>PollInterval\<close> is a duration in nanoseconds, \<open>LastPolledTime\<close> an instant in nanoseconds.\<close>

record Cdk8sAppProxyGeneratorSpec =
  Source :: GitRepositorySpec
  Filters :: "PRFilter list"
  Template :: Cdk8sAppProxyTemplate
  genPath :: string
  PollInterval :: "int option"

record Cdk8sAppProxyGeneratorStatus =
  genConditions :: "Condition list"
  LastPolledTime :: "int option"

record Cdk8sAppProxyGenerator =
  genMeta :: ObjectMeta
  genSpec :: Cdk8sAppProxyGeneratorSpec
  genStatus :: Cdk8sAppProxyGeneratorStatus

section \<open>Shared lemmas\<close>

lemma GetConditions_SetConditions [simp]: "GetConditions (SetConditions c conds) = conds"
  by (simp add: GetConditions_def SetConditions_def)

lemma SetConditions_frame [simp]:
  "proxyMeta (SetConditions c conds) = proxyMeta c"
  "proxySpec (SetConditions c conds) = proxySpec c"
  by (simp_all add: SetConditions_def)

lemma SetConditions_twice [simp]:
  "SetConditions (SetConditions c xs) ys = SetConditions c ys"
  by (simp add: SetConditions_def)

section \<open>Conditions and reasons\<close>

text \<open>The names of conditions and reasons of \<open>condition_consts.go\<close>; the reconcilers use others.\<close>

definition DeploymentProgressingCondition :: string where
  "DeploymentProgressingCondition = ''DeploymentProgressing''"

definition SynthCondition :: string where
  "SynthCondition = ''SynthProgressing''"

definition SynthFailedReason :: string where
  "SynthFailedReason = ''SynthFailed''"

definition ApplyResourcesCondition :: string where
  "ApplyResourcesCondition = ''ApplyingResources''"

definition ApplyResourcesFailedReason :: string where
  "ApplyResourcesFailedReason = ''ApplyingResourcesFailed''"

definition GitCloneCondition :: string where
  "GitCloneCondition = ''GitCloningProgressing''"

definition GitCloneFailedReason :: string where
  "GitCloneFailedReason = ''GitCloneFailed''"

lemmas condition_constants =
  DeploymentProgressingCondition_def SynthCondition_def SynthFailedReason_def ApplyResourcesCondition_def
  ApplyResourcesFailedReason_def GitCloneCondition_def GitCloneFailedReason_def

lemma condition_constants_distinct:
  "distinct [DeploymentProgressingCondition, SynthCondition, SynthFailedReason, ApplyResourcesCondition,
     ApplyResourcesFailedReason, GitCloneCondition, GitCloneFailedReason]"
  by (simp add: condition_constants)

section \<open>Sample objects\<close>

definition sampleRepository :: GitRepositorySpec where
  "sampleRepository = \<lparr>URL = ''https://github.com/eitco/app'', Reference = '''', Path = '''',
     SecretRef = ''git-credentials'', SecretKey = ''token'', KnownHostsKey = ''''\<rparr>"

definition sampleSelector :: LabelSelector where
  "sampleSelector = \<lparr>matchLabels = [(''environment'', ''preview'')], matchExpressions = []\<rparr>"

definition sampleProxy :: Cdk8sAppProxy where
  "sampleProxy =
     \<lparr>proxyMeta = \<lparr>Name = ''app'', Namespace = ''default'', Labels = None, Annotations = None,
        OwnerReferences = []\<rparr>,
      proxySpec = \<lparr>GitRepository = Some sampleRepository, ClusterSelector = sampleSelector\<rparr>,
      proxyStatus = \<lparr>Conditions = []\<rparr>\<rparr>"

end
