(* ===== verification/Admission.thy ===== *)
theory Admission
  imports GoPrelude
begin

text \<open>
  The life of the objects of one custom resource behind admission webhooks. The markers of
  \<open>cdk8sappproxy_webook.go\<close> register a defaulter and a validator for the verbs create and update
  with \<open>failurePolicy=fail\<close>: the API server runs the defaulter, then the validator, and stores the
  object only when both return without an error; a webhook that panics is a failed call and hence a
  refusal. The status is a subresource: writing it runs no webhook and changes nothing else, and a
  write of the object itself leaves the status alone. Deletion is not validated.

  The relation \<open>admStep\<close> is parametric in the webhook and in the two strategies of the resource
  (\<open>prep\<close>: what a write of the object keeps of the stored one; \<open>withStatus\<close>). The locale
  \<open>admission\<close> states what a webhook promises and proves what then holds of every reachable store;
  the theory \<open>Webhook\<close> interprets it.
\<close>

type_synonym ('k, 'o) objstore = "'k \<Rightarrow> 'o option"

inductive admStep ::
  "('o \<Rightarrow> 'o outcome) \<Rightarrow> ('o \<Rightarrow> goerr option outcome) \<Rightarrow> ('o \<Rightarrow> 'o \<Rightarrow> goerr option outcome) \<Rightarrow>
   ('o option \<Rightarrow> 'o \<Rightarrow> 'o) \<Rightarrow> ('s \<Rightarrow> 'o \<Rightarrow> 'o) \<Rightarrow> ('k, 'o) objstore \<Rightarrow> ('k, 'o) objstore \<Rightarrow> bool"
  for dflt vcreate vupdate prep withStatus
where
  create: "st k = None \<Longrightarrow> dflt (prep None ob) = Returned ob' \<Longrightarrow> vcreate ob' = Returned None \<Longrightarrow>
     admStep dflt vcreate vupdate prep withStatus st (st(k \<mapsto> ob'))"
| update: "st k = Some old \<Longrightarrow> dflt (prep (Some old) new) = Returned new' \<Longrightarrow>
     vupdate old new' = Returned None \<Longrightarrow>
     admStep dflt vcreate vupdate prep withStatus st (st(k \<mapsto> new'))"
| status: "st k = Some old \<Longrightarrow>
     admStep dflt vcreate vupdate prep withStatus st (st(k \<mapsto> withStatus s old))"
| delete: "admStep dflt vcreate vupdate prep withStatus st (st(k := None))"

inductive_cases admStepE: "admStep dflt vcreate vupdate prep withStatus st st'"

locale admission =
  fixes dflt :: "'o \<Rightarrow> 'o outcome"
    and vcreate :: "'o \<Rightarrow> goerr option outcome"
    and vupdate :: "'o \<Rightarrow> 'o \<Rightarrow> goerr option outcome"
    and prep :: "'o option \<Rightarrow> 'o \<Rightarrow> 'o"
    and withStatus :: "'s \<Rightarrow> 'o \<Rightarrow> 'o"
    and wf :: "'o \<Rightarrow> bool"
    and ident :: "'o \<Rightarrow> 'i"
  assumes create_wf: "dflt ob = Returned ob' \<Longrightarrow> vcreate ob' = Returned None \<Longrightarrow> wf ob'"
    and update_wf: "wf old \<Longrightarrow> dflt new = Returned new' \<Longrightarrow> vupdate old new' = Returned None \<Longrightarrow> wf new'"
    and update_ident: "wf old \<Longrightarrow> dflt new = Returned new' \<Longrightarrow> vupdate old new' = Returned None \<Longrightarrow>
           ident new' = ident old"
    and status_wf: "wf old \<Longrightarrow> wf (withStatus s old)"
    and status_ident: "ident (withStatus s old) = ident old"
begin

definition wfStore :: "('k, 'o) objstore \<Rightarrow> bool" where
  "wfStore st \<longleftrightarrow> (\<forall>k ob. st k = Some ob \<longrightarrow> wf ob)"

lemma wfStoreD: "wfStore st \<Longrightarrow> st k = Some ob \<Longrightarrow> wf ob"
  by (auto simp: wfStore_def)

lemma wfStore_upd: "wfStore st \<Longrightarrow> wf ob \<Longrightarrow> wfStore (st(k \<mapsto> ob))"
  by (auto simp: wfStore_def)

lemma wfStore_del: "wfStore st \<Longrightarrow> wfStore (st(k := None))"
  by (auto simp: wfStore_def)

lemma step_wf:
  assumes "admStep dflt vcreate vupdate prep withStatus st st'" and "wfStore st"
  shows "wfStore st'"
  using assms
proof (cases rule: admStep.cases)
  case (create k ob ob')
  then show ?thesis using assms(2) by (auto intro: wfStore_upd create_wf)
next
  case (update k old new new')
  then show ?thesis using assms(2) by (auto intro: wfStore_upd update_wf dest: wfStoreD)
next
  case (status k old s)
  then show ?thesis using assms(2) by (auto intro: wfStore_upd status_wf dest: wfStoreD)
next
  case (delete k)
  then show ?thesis using assms(2) by (simp add: wfStore_del)
qed

lemma reach_wf:
  assumes "(admStep dflt vcreate vupdate prep withStatus)\<^sup>*\<^sup>* st st'" and "wfStore st"
  shows "wfStore st'"
  using assms by (induction rule: rtranclp_induct) (auto intro: step_wf)

text \<open>One step never changes the identity of an object that is there before and after it.\<close>

lemma step_ident:
  assumes "admStep dflt vcreate vupdate prep withStatus st st'" and "wfStore st"
    and "st k = Some a" and "st' k = Some b"
  shows "ident b = ident a"
  using assms
  by (cases rule: admStep.cases)
    (auto simp: status_ident split: if_splits dest: wfStoreD intro: update_ident)

text \<open>
  Along a run the identity is kept for as long as the object is never absent: an inductive
  predicate for the runs in which \<open>k\<close> always holds an object.
\<close>

lemma run_ident:
  assumes "(\<lambda>x y. admStep dflt vcreate vupdate prep withStatus x y \<and> y k \<noteq> None)\<^sup>*\<^sup>* st st'"
    and "wfStore st" and "st k = Some a"
  shows "wfStore st' \<and> (\<exists>b. st' k = Some b \<and> ident b = ident a)"
  using assms
proof (induction rule: rtranclp_induct)
  case base
  then show ?case by auto
next
  case (step y z)
  then obtain b where b: "wfStore y" "y k = Some b" "ident b = ident a" by auto
  from step.hyps(2) obtain c where c: "z k = Some c" by auto
  have "wfStore z" using step.hyps(2) b(1) by (auto intro: step_wf)
  moreover have "ident c = ident b"
    using step.hyps(2) b(1,2) c by (blast intro: step_ident)
  ultimately show ?case using b c by auto
qed

end

end
