(* ===== verification/Webhook.thy ===== *)
theory Webhook
  imports ApiTypes Admission
begin

text \<open>
  The admission webhook of \<open>Cdk8sAppProxy\<close> (\<open>api/v1alpha1/cdk8sappproxy_webook.go\<close>): the defaulter
  and the three validators, and what they make of the stored objects. \<open>Spec.GitRepository\<close> is a
  pointer that the schema allows to be absent; reading a field through the nil pointer panics, so
  the handlers return an \<open>outcome\<close>.
\<close>

section \<open>The handlers\<close>

definition setRepository :: "Cdk8sAppProxy \<Rightarrow> GitRepositorySpec \<Rightarrow> Cdk8sAppProxy" where
  "setRepository p r = p\<lparr>proxySpec := (proxySpec p)\<lparr>GitRepository := Some r\<rparr>\<rparr>"

definition defaultRepository :: "GitRepositorySpec \<Rightarrow> GitRepositorySpec" where
  "defaultRepository r =
     (let r1 = (if Reference r = '''' then r\<lparr>Reference := ''main''\<rparr> else r);
          r2 = (if Path r1 = '''' then r1\<lparr>Path := ''.''\<rparr> else r1)
      in r2)"

definition webhookDefault :: "Cdk8sAppProxy \<Rightarrow> Cdk8sAppProxy outcome" where
  "webhookDefault obj =
     (case GitRepository (proxySpec obj) of
        None \<Rightarrow> Panicked
      | Some r \<Rightarrow> Returned (setRepository obj (defaultRepository r)))"

definition ValidateCreate :: "Cdk8sAppProxy \<Rightarrow> goerr option outcome" where
  "ValidateCreate obj =
     (case GitRepository (proxySpec obj) of
        None \<Rightarrow> Panicked
      | Some r \<Rightarrow>
          let allErrs = (if URL r = ''''
                         then [(''spec.GitRepository.URL'', URL r, ''GitRepository.URL must be specified'')]
                         else [])
          in if length allErrs > 0
             then Returned (Some (EInvalidObject (Name (proxyMeta obj)) allErrs))
             else Returned None)"

definition ValidateUpdate :: "Cdk8sAppProxy \<Rightarrow> Cdk8sAppProxy \<Rightarrow> goerr option outcome" where
  "ValidateUpdate oldObj newObj =
     (case (GitRepository (proxySpec newObj), GitRepository (proxySpec oldObj)) of
        (Some n, Some old) \<Rightarrow>
          let allErrs = (if URL n \<noteq> URL old
                         then [(''spec.GitRepository.URL'', URL n, ''field is immutable'')]
                         else [])
          in if length allErrs > 0
             then Returned (Some (EInvalidObject (Name (proxyMeta newObj)) allErrs))
             else Returned None
      | _ \<Rightarrow> Panicked)"

definition ValidateDelete :: "Cdk8sAppProxy \<Rightarrow> goerr option outcome" where
  "ValidateDelete obj = Returned None"

section \<open>The stored objects\<close>

text \<open>
  What the API server's strategy for a resource with a status subresource makes of a write before
  admission: a new object has no status, an update keeps the stored one.
\<close>

definition prepareProxy :: "Cdk8sAppProxy option \<Rightarrow> Cdk8sAppProxy \<Rightarrow> Cdk8sAppProxy" where
  "prepareProxy old new =
     (case old of None \<Rightarrow> SetConditions new [] | Some ob \<Rightarrow> SetConditions new (GetConditions ob))"

definition withConditions :: "Condition list \<Rightarrow> Cdk8sAppProxy \<Rightarrow> Cdk8sAppProxy" where
  "withConditions conds p = SetConditions p conds"

abbreviation proxyStep ::
  "('k, Cdk8sAppProxy) objstore \<Rightarrow> ('k, Cdk8sAppProxy) objstore \<Rightarrow> bool" where
  "proxyStep \<equiv> admStep webhookDefault ValidateCreate ValidateUpdate prepareProxy withConditions"

text \<open>What the reconcilers may rely on for a stored proxy.\<close>

definition admitted :: "Cdk8sAppProxy \<Rightarrow> bool" where
  "admitted p =
     (case GitRepository (proxySpec p) of
        None \<Rightarrow> False
      | Some r \<Rightarrow> URL r \<noteq> '''' \<and> Reference r \<noteq> '''' \<and> Path r \<noteq> '''')"

definition proxyURL :: "Cdk8sAppProxy \<Rightarrow> string option" where
  "proxyURL p = map_option URL (GitRepository (proxySpec p))"

section \<open>Lemmas\<close>

lemma setRepository_simps [simp]:
  "GitRepository (proxySpec (setRepository p r)) = Some r"
  "ClusterSelector (proxySpec (setRepository p r)) = ClusterSelector (proxySpec p)"
  "proxyMeta (setRepository p r) = proxyMeta p"
  "proxyStatus (setRepository p r) = proxyStatus p"
  by (simp_all add: setRepository_def)

lemma setRepository_twice [simp]: "setRepository (setRepository p r) r' = setRepository p r'"
  by (simp add: setRepository_def)

lemma defaultRepository_simps [simp]:
  "URL (defaultRepository r) = URL r"
  "Reference (defaultRepository r) = (if Reference r = '''' then ''main'' else Reference r)"
  "Path (defaultRepository r) = (if Path r = '''' then ''.'' else Path r)"
  "SecretRef (defaultRepository r) = SecretRef r"
  "SecretKey (defaultRepository r) = SecretKey r"
  "KnownHostsKey (defaultRepository r) = KnownHostsKey r"
  by (simp_all add: defaultRepository_def Let_def)

lemma defaultRepository_id: "Reference r \<noteq> '''' \<Longrightarrow> Path r \<noteq> '''' \<Longrightarrow> defaultRepository r = r"
  by (simp add: defaultRepository_def Let_def)

lemma defaultRepository_idem [simp]: "defaultRepository (defaultRepository r) = defaultRepository r"
  by (rule defaultRepository_id) simp_all

lemma webhookDefault_Returned:
  "webhookDefault p = Returned p' \<longleftrightarrow>
     (\<exists>r. GitRepository (proxySpec p) = Some r \<and> p' = setRepository p (defaultRepository r))"
  by (auto simp: webhookDefault_def split: option.splits)

lemma ValidateCreate_ok:
  "ValidateCreate p = Returned None \<longleftrightarrow> (\<exists>r. GitRepository (proxySpec p) = Some r \<and> URL r \<noteq> '''')"
  by (auto simp: ValidateCreate_def split: option.splits)

lemma ValidateUpdate_ok:
  "ValidateUpdate old new = Returned None \<longleftrightarrow>
     (\<exists>r r'. GitRepository (proxySpec old) = Some r \<and> GitRepository (proxySpec new) = Some r' \<and> URL r' = URL r)"
  by (auto simp: ValidateUpdate_def split: option.splits)

lemma admitted_iff:
  "admitted p \<longleftrightarrow>
     (\<exists>r. GitRepository (proxySpec p) = Some r \<and> URL r \<noteq> '''' \<and> Reference r \<noteq> '''' \<and> Path r \<noteq> '''')"
  by (auto simp: admitted_def split: option.splits)

lemmas webhook_ok = webhookDefault_Returned ValidateCreate_ok ValidateUpdate_ok admitted_iff proxyURL_def

interpretation adm: admission webhookDefault ValidateCreate ValidateUpdate prepareProxy
    withConditions admitted proxyURL
  by unfold_locales (auto simp: webhook_ok withConditions_def split: if_splits)

lemma wfStore_empty: "adm.wfStore (Map.empty :: ('k, Cdk8sAppProxy) objstore)"
  by (simp add: adm.wfStore_def)

section \<open>Properties\<close>

text \<open>
  C15. Whatever sequence of creates, updates, status writes and deletes the API server goes through
  from an empty store, every stored proxy has a git repository with a non-empty URL, reference and
  path: the reconciler, which reads \<open>Spec.GitRepository.URL\<close> without a nil check, never meets a nil
  repository.
\<close>

theorem reachable_proxies_admitted:
  assumes "proxyStep\<^sup>*\<^sup>* Map.empty st" and "st k = Some p"
  shows "admitted p"
  using adm.reach_wf [OF assms(1) wfStore_empty] assms(2) by (rule adm.wfStoreD)

text \<open>
  C16. The repository URL of a stored proxy is fixed for as long as the proxy exists: along every
  run in which the object is never deleted it keeps the URL it was created with.
\<close>

theorem repository_url_immutable:
  assumes "proxyStep\<^sup>*\<^sup>* Map.empty st" and "st k = Some p"
    and "(\<lambda>x y. proxyStep x y \<and> y k \<noteq> None)\<^sup>*\<^sup>* st st'"
  shows "\<exists>p'. st' k = Some p' \<and> proxyURL p' = proxyURL p"
  using adm.run_ident [OF assms(3) adm.reach_wf [OF assms(1) wfStore_empty] assms(2)] by simp

text \<open>
  The handlers answer every object with a repository and panic on every object without one
  (the schema allows it): the defaulter and the validator of creates on the new object, the validator of
  updates on either object. The defaulter leaves its own results alone.
\<close>

theorem handlers_panic_iff_no_repository:
  "(webhookDefault p = Panicked \<longleftrightarrow> proxyURL p = None) \<and>
   (ValidateCreate p = Panicked \<longleftrightarrow> proxyURL p = None) \<and>
   (ValidateUpdate old p = Panicked \<longleftrightarrow> proxyURL old = None \<or> proxyURL p = None) \<and>
   (case webhookDefault p of Panicked \<Rightarrow> True | Returned q \<Rightarrow> webhookDefault q = Returned q \<and> proxyURL q = proxyURL p)"
  by (auto simp: webhookDefault_def ValidateCreate_def ValidateUpdate_def proxyURL_def Let_def split: option.splits)

section \<open>Witnesses\<close>

definition admittedSample :: Cdk8sAppProxy where
  "admittedSample = setRepository sampleProxy (sampleRepository\<lparr>Reference := ''main'', Path := ''.''\<rparr>)"

definition sampleConditions :: "Condition list" where
  "sampleConditions = [\<lparr>condType = ''Ready'', condStatus = ''True'', condReason = ''Successful'',
     condMessage = ''''\<rparr>]"

lemma sample_created: "proxyStep Map.empty [0 :: nat \<mapsto> admittedSample]"
  by (rule admStep.create [where ob = sampleProxy])
    (simp_all add: webhook_ok admittedSample_def sampleProxy_def sampleRepository_def
      prepareProxy_def SetConditions_def setRepository_def defaultRepository_def)

lemma sample_reached: "proxyStep\<^sup>*\<^sup>* Map.empty [0 :: nat \<mapsto> admittedSample]"
  by (intro r_into_rtranclp sample_created)

theorem reachable_proxies_admitted_witness: "admitted admittedSample"
  by (rule reachable_proxies_admitted [OF sample_reached, of 0]) simp

lemma sample_status_run:
  "(\<lambda>x y. proxyStep x y \<and> y 0 \<noteq> None)\<^sup>*\<^sup>* [0 :: nat \<mapsto> admittedSample]
     [0 \<mapsto> withConditions sampleConditions admittedSample]"
  using admStep.status [of "[0 :: nat \<mapsto> admittedSample]" 0 admittedSample webhookDefault
      ValidateCreate ValidateUpdate prepareProxy withConditions sampleConditions]
  by (intro r_into_rtranclp) auto

theorem repository_url_immutable_witness:
  "\<exists>p'. [0 :: nat \<mapsto> withConditions sampleConditions admittedSample] 0 = Some p' \<and>
     proxyURL p' = proxyURL admittedSample"
  by (rule repository_url_immutable [OF sample_reached _ sample_status_run]) simp

end
