(* ===== verification/Credentials.thy ===== *)
theory Credentials
  imports ApiTypes
begin

text \<open>
  Fetching the git credential and the optional \<open>known_hosts\<close> entry from the Kubernetes secret a
  \<open>GitRepositorySpec\<close> names (\<open>controllers/utils/utils.go\<close>). The API client's \<open>Get\<close> of a secret is
  the parameter \<open>getSecret\<close>: namespace, name and world to the secret's \<open>Data\<close> or an error.

  The locale \<open>credential_source\<close> is what the two reconcilers rely on.
\<close>

type_synonym 'w secret_get = "string \<Rightarrow> string \<Rightarrow> ('w, goerr + (string \<rightharpoonup> bytes)) io"

definition FetchSecret ::
  "'w secret_get \<Rightarrow> string \<Rightarrow> GitRepositorySpec option \<Rightarrow> ('w, goerr + bytes) io" where
  "FetchSecret getSecret namespace spec w =
     (case spec of
        None \<Rightarrow> (Inl ESecretRefEmpty, w)
      | Some s \<Rightarrow>
          if SecretRef s = '''' then (Inl ESecretRefEmpty, w)
          else
            (case getSecret namespace (SecretRef s) w of
               (Inl e, w1) \<Rightarrow> (Inl e, w1)
             | (Inr data, w1) \<Rightarrow>
                 (case data (SecretKey s) of
                    None \<Rightarrow> (Inl (ESecretKeyMissing (SecretRef s) (SecretKey s)), w1)
                  | Some b \<Rightarrow> (Inr b, w1))))"

definition FetchKnownHosts ::
  "'w secret_get \<Rightarrow> string \<Rightarrow> GitRepositorySpec option \<Rightarrow> ('w, goerr + bytes) io" where
  "FetchKnownHosts getSecret namespace spec w =
     (case spec of
        None \<Rightarrow> (Inr None, w)
      | Some s \<Rightarrow>
          if SecretRef s = '''' \<or> KnownHostsKey s = '''' then (Inr None, w)
          else
            (case getSecret namespace (SecretRef s) w of
               (Inl e, w1) \<Rightarrow> (Inl e, w1)
             | (Inr data, w1) \<Rightarrow>
                 (case data (KnownHostsKey s) of
                    None \<Rightarrow> (Inl (EKnownHostsKeyMissing (SecretRef s) (KnownHostsKey s)), w1)
                  | Some b \<Rightarrow> (Inr b, w1))))"

section \<open>The interface\<close>

text \<open>
  A credential source yields a credential only for a spec that names a secret, and does not touch
  the world for a spec that names none.
\<close>

locale credential_source =
  fixes fetch :: "string \<Rightarrow> GitRepositorySpec option \<Rightarrow> ('w, goerr + bytes) io"
  assumes fetch_named: "fetch ns spec w = (Inr b, w') \<Longrightarrow> \<exists>s. spec = Some s \<and> SecretRef s \<noteq> ''''"
    and fetch_unnamed: "(case spec of None \<Rightarrow> True | Some s \<Rightarrow> SecretRef s = '''') \<Longrightarrow>
          fetch ns spec w = (Inl ESecretRefEmpty, w)"
begin

lemma fetch_no_ref: "SecretRef s = '''' \<Longrightarrow> fetch ns (Some s) w = (Inl ESecretRefEmpty, w)"
  by (rule fetch_unnamed) simp

end

interpretation cred: credential_source "FetchSecret getSecret" for getSecret :: "'w secret_get"
  by unfold_locales
    (auto simp: FetchSecret_def split: option.splits if_splits sum.splits prod.splits)

section \<open>Properties\<close>

text \<open>
  Only the secret that the spec names, in the namespace given, is ever read: whatever the other
  secrets hold makes no difference to either function. When the spec names no secret none is read.
\<close>

theorem secret_access_confined:
  assumes "\<And>v. other ns (SecretRef s) v = getSecret ns (SecretRef s) v"
  shows "FetchSecret other ns (Some s) w = FetchSecret getSecret ns (Some s) w \<and>
    FetchKnownHosts other ns (Some s) w = FetchKnownHosts getSecret ns (Some s) w \<and>
    (SecretRef s = '''' \<longrightarrow> snd (FetchSecret getSecret ns (Some s) w) = w \<and>
       FetchKnownHosts getSecret ns (Some s) w = (Inr None, w))"
  by (simp add: FetchSecret_def FetchKnownHosts_def assms)

section \<open>Witnesses\<close>

definition sampleSource :: GitRepositorySpec where
  "sampleSource = \<lparr>URL = ''https://github.com/eitco/app'', Reference = ''main'', Path = ''.'',
     SecretRef = ''git-credentials'', SecretKey = ''token'', KnownHostsKey = ''''\<rparr>"

definition sampleSecrets :: "string \<Rightarrow> string \<Rightarrow> (string list, goerr + (string \<rightharpoonup> bytes)) io" where
  "sampleSecrets ns name log =
     (if ns = ''default'' \<and> name = ''git-credentials''
      then (Inr [''token'' \<mapsto> Some ''ghp''], log @ [name]) else (Inl ENotFound, log @ [name]))"

theorem secret_access_confined_witness:
  "FetchSecret (\<lambda>ns n. if n = ''git-credentials'' then sampleSecrets ns n else (\<lambda>w. (Inl ENotFound, w)))
     ''default'' (Some sampleSource) [] = FetchSecret sampleSecrets ''default'' (Some sampleSource) []"
  using secret_access_confined [of "\<lambda>ns n. if n = ''git-credentials'' then sampleSecrets ns n else (\<lambda>w. (Inl ENotFound, w))"
      "''default''" sampleSource sampleSecrets "[]"]
  by (simp add: sampleSource_def)

end
