(* ===== verification/Provider.thy ===== *)
theory Provider
  imports ApiTypes
begin

text \<open>
  The pull request listing of the hosted git providers: \<open>controllers/git/provider_client.go\<close> and the
  URL parser at the end of \<open>controllers/git/git.go\<close>.

  The network and the JSON reader are the fields of \<open>http_env\<close>. The response of a provider is a
  \<open>json\<close> value; how \<open>encoding/json\<close> stores such a value in the anonymous structs of the code (unknown
  keys ignored, keys matched up to case, null leaves a field alone, a value of the wrong type is an
  error) is modelled by \<open>decodeStruct\<close>, \<open>decodeSlice\<close>, \<open>decodeInt\<close> and \<open>decodeString\<close>.
\<close>

section \<open>Types\<close>

datatype providerType = ProviderNone | ProviderGitHub | ProviderGitLab | ProviderBitbucket

record PullRequest =
  ID :: int
  Number :: int
  Branch :: string
  HeadSHA :: string
  BaseBranch :: string

datatype httpClient = DefaultClient | CustomClient nat

record Client =
  clientHTTP :: "httpClient option"
  provider :: providerType
  host :: string
  allowNested :: bool

datatype json =
    JNull | JBool bool | JInt int | JFrac | JStr string
  | JArr "json list" | JObj "(string \<times> json) list"

record 'w http_env =
  newRequest :: "string \<Rightarrow> goerr option"
  httpDo :: "httpClient \<Rightarrow> string \<Rightarrow> (string \<rightharpoonup> string) \<Rightarrow> ('w, goerr + (int \<times> string)) io"
  bodyClose :: "'w \<Rightarrow> 'w"
  jsonParse :: "string \<Rightarrow> goerr + json"

section \<open>Repository URLs\<close>

definition urlPathEscape :: "string \<Rightarrow> string" where
  "urlPathEscape s = replaceByte (CHR ''/'') ''%2F'' s"

definition parseRepoPath :: "string \<Rightarrow> bool \<Rightarrow> (string \<times> string) option" where
  "parseRepoPath repoPath nested =
     (case splitOn (CHR ''/'') repoPath of
        owner # second # rest \<Rightarrow>
          Some (owner, if nested then joinWith ''/'' (second # rest) else second)
      | _ \<Rightarrow> None)"

fun parsePrefixes :: "string list \<Rightarrow> string \<Rightarrow> bool \<Rightarrow> (string \<times> string) option" where
  "parsePrefixes [] url nested = None"
| "parsePrefixes (p # ps) url nested =
     (if hasPrefix url p then
        (case parseRepoPath (trimPrefix url p) nested of
           Some r \<Rightarrow> Some r
         | None \<Rightarrow> parsePrefixes ps url nested)
      else parsePrefixes ps url nested)"

definition repoPrefixes :: "string \<Rightarrow> string list" where
  "repoPrefixes h = [''https://'' @ h @ ''/'', ''git@'' @ h @ '':'']"

definition parseRepoURL :: "string \<Rightarrow> string \<Rightarrow> bool \<Rightarrow> goerr + (string \<times> string)" where
  "parseRepoURL repoURL h nested =
     (let trimmedRepoURL = trimSuffix repoURL ''.git''
      in case parsePrefixes (repoPrefixes h) trimmedRepoURL nested of
           Some r \<Rightarrow> Inr r
         | None \<Rightarrow> Inl (EInvalidRepoUrl h trimmedRepoURL))"

definition detectProvider :: "string \<Rightarrow> providerType" where
  "detectProvider repoURL =
     (let u = toLower repoURL
      in if contains u ''github.com'' then ProviderGitHub
         else if contains u ''gitlab.com'' then ProviderGitLab
         else if contains u ''bitbucket.org'' then ProviderBitbucket
         else ProviderNone)"

definition NewProviderClient :: "string \<Rightarrow> httpClient option \<Rightarrow> Client" where
  "NewProviderClient repoURL hc =
     (let p = detectProvider repoURL
      in \<lparr>clientHTTP = hc, provider = p,
          host = (case p of ProviderGitHub \<Rightarrow> ''github.com'' | ProviderGitLab \<Rightarrow> ''gitlab.com''
                  | ProviderBitbucket \<Rightarrow> ''bitbucket.org'' | ProviderNone \<Rightarrow> ''''),
          allowNested = (p = ProviderGitLab)\<rparr>)"

section \<open>Decoding responses\<close>

definition keyMatches :: "string \<Rightarrow> string \<Rightarrow> bool" where
  "keyMatches k field = (toLower k = toLower field)"

fun decodeInt :: "json \<Rightarrow> int \<Rightarrow> int option" where
  "decodeInt (JInt n) old = (if - (2 ^ 63) \<le> n \<and> n < 2 ^ 63 then Some n else None)"
| "decodeInt JNull old = Some old"
| "decodeInt _ old = None"

fun decodeString :: "json \<Rightarrow> string \<Rightarrow> string option" where
  "decodeString (JStr s) old = Some s"
| "decodeString JNull old = Some old"
| "decodeString _ old = None"

fun decodeFields :: "(string \<Rightarrow> json \<Rightarrow> 'r \<Rightarrow> 'r option) \<Rightarrow> (string \<times> json) list \<Rightarrow> 'r \<Rightarrow> 'r option" where
  "decodeFields field [] r = Some r"
| "decodeFields field ((k, v) # kvs) r =
     (case field k v r of None \<Rightarrow> None | Some r' \<Rightarrow> decodeFields field kvs r')"

fun decodeStruct :: "(string \<Rightarrow> json \<Rightarrow> 'r \<Rightarrow> 'r option) \<Rightarrow> json \<Rightarrow> 'r \<Rightarrow> 'r option" where
  "decodeStruct field (JObj kvs) r = decodeFields field kvs r"
| "decodeStruct field JNull r = Some r"
| "decodeStruct field _ r = None"

fun decodeElems :: "(json \<Rightarrow> 'a option) \<Rightarrow> json list \<Rightarrow> 'a list option" where
  "decodeElems elem [] = Some []"
| "decodeElems elem (v # vs) =
     (case elem v of None \<Rightarrow> None
      | Some x \<Rightarrow> (case decodeElems elem vs of None \<Rightarrow> None | Some xs \<Rightarrow> Some (x # xs)))"

fun decodeSlice :: "(json \<Rightarrow> 'a option) \<Rightarrow> json \<Rightarrow> 'a list option" where
  "decodeSlice elem (JArr vs) = decodeElems elem vs"
| "decodeSlice elem JNull = Some []"
| "decodeSlice elem _ = None"

text \<open>The anonymous structs, and the assignment of one key to its field.\<close>

record ghPR =
  ghNumber :: int
  ghHeadRef :: string
  ghHeadSHA :: string
  ghBaseRef :: string

definition ghHeadField :: "string \<Rightarrow> json \<Rightarrow> ghPR \<Rightarrow> ghPR option" where
  "ghHeadField k v r =
     (if keyMatches k ''ref'' then map_option (\<lambda>s. r\<lparr>ghHeadRef := s\<rparr>) (decodeString v (ghHeadRef r))
      else if keyMatches k ''sha'' then map_option (\<lambda>s. r\<lparr>ghHeadSHA := s\<rparr>) (decodeString v (ghHeadSHA r))
      else Some r)"

definition ghBaseField :: "string \<Rightarrow> json \<Rightarrow> ghPR \<Rightarrow> ghPR option" where
  "ghBaseField k v r =
     (if keyMatches k ''ref'' then map_option (\<lambda>s. r\<lparr>ghBaseRef := s\<rparr>) (decodeString v (ghBaseRef r))
      else Some r)"

definition ghField :: "string \<Rightarrow> json \<Rightarrow> ghPR \<Rightarrow> ghPR option" where
  "ghField k v r =
     (if keyMatches k ''number'' then map_option (\<lambda>n. r\<lparr>ghNumber := n\<rparr>) (decodeInt v (ghNumber r))
      else if keyMatches k ''head'' then decodeStruct ghHeadField v r
      else if keyMatches k ''base'' then decodeStruct ghBaseField v r
      else Some r)"

definition decodeGitHub :: "json \<Rightarrow> ghPR list option" where
  "decodeGitHub =
     decodeSlice (\<lambda>v. decodeStruct ghField v \<lparr>ghNumber = 0, ghHeadRef = '''', ghHeadSHA = '''', ghBaseRef = ''''\<rparr>)"

record glMR =
  glIID :: int
  glSourceBranch :: string
  glTargetBranch :: string
  glSHA :: string

definition glField :: "string \<Rightarrow> json \<Rightarrow> glMR \<Rightarrow> glMR option" where
  "glField k v r =
     (if keyMatches k ''iid'' then map_option (\<lambda>n. r\<lparr>glIID := n\<rparr>) (decodeInt v (glIID r))
      else if keyMatches k ''source_branch''
        then map_option (\<lambda>s. r\<lparr>glSourceBranch := s\<rparr>) (decodeString v (glSourceBranch r))
      else if keyMatches k ''target_branch''
        then map_option (\<lambda>s. r\<lparr>glTargetBranch := s\<rparr>) (decodeString v (glTargetBranch r))
      else if keyMatches k ''sha'' then map_option (\<lambda>s. r\<lparr>glSHA := s\<rparr>) (decodeString v (glSHA r))
      else Some r)"

definition decodeGitLab :: "json \<Rightarrow> glMR list option" where
  "decodeGitLab =
     decodeSlice (\<lambda>v. decodeStruct glField v \<lparr>glIID = 0, glSourceBranch = '''', glTargetBranch = '''', glSHA = ''''\<rparr>)"

record bbPR =
  bbID :: int
  bbSourceBranch :: string
  bbSourceHash :: string
  bbDestinationBranch :: string

definition bbNameField :: "(string \<Rightarrow> bbPR \<Rightarrow> bbPR) \<Rightarrow> (bbPR \<Rightarrow> string) \<Rightarrow> string \<Rightarrow>
    string \<Rightarrow> json \<Rightarrow> bbPR \<Rightarrow> bbPR option" where
  "bbNameField put get name k v r =
     (if keyMatches k name then map_option (\<lambda>s. put s r) (decodeString v (get r)) else Some r)"

definition bbSourceField :: "string \<Rightarrow> json \<Rightarrow> bbPR \<Rightarrow> bbPR option" where
  "bbSourceField k v r =
     (if keyMatches k ''branch''
        then decodeStruct (bbNameField (\<lambda>s x. x\<lparr>bbSourceBranch := s\<rparr>) bbSourceBranch ''name'') v r
      else if keyMatches k ''commit''
        then decodeStruct (bbNameField (\<lambda>s x. x\<lparr>bbSourceHash := s\<rparr>) bbSourceHash ''hash'') v r
      else Some r)"

definition bbDestinationField :: "string \<Rightarrow> json \<Rightarrow> bbPR \<Rightarrow> bbPR option" where
  "bbDestinationField k v r =
     (if keyMatches k ''branch''
        then decodeStruct (bbNameField (\<lambda>s x. x\<lparr>bbDestinationBranch := s\<rparr>) bbDestinationBranch ''name'') v r
      else Some r)"

definition bbField :: "string \<Rightarrow> json \<Rightarrow> bbPR \<Rightarrow> bbPR option" where
  "bbField k v r =
     (if keyMatches k ''id'' then map_option (\<lambda>n. r\<lparr>bbID := n\<rparr>) (decodeInt v (bbID r))
      else if keyMatches k ''source'' then decodeStruct bbSourceField v r
      else if keyMatches k ''destination'' then decodeStruct bbDestinationField v r
      else Some r)"

definition bbValuesField :: "string \<Rightarrow> json \<Rightarrow> bbPR list \<Rightarrow> bbPR list option" where
  "bbValuesField k v r =
     (if keyMatches k ''values''
      then decodeSlice (\<lambda>x. decodeStruct bbField x
             \<lparr>bbID = 0, bbSourceBranch = '''', bbSourceHash = '''', bbDestinationBranch = ''''\<rparr>) v
      else Some r)"

definition decodeBitbucket :: "json \<Rightarrow> bbPR list option" where
  "decodeBitbucket v = decodeStruct bbValuesField v []"

section \<open>Requests\<close>

definition getHTTPClient :: "Client \<Rightarrow> httpClient" where
  "getHTTPClient c = (case clientHTTP c of None \<Rightarrow> DefaultClient | Some h \<Rightarrow> h)"

definition doJSONRequest ::
  "'w http_env \<Rightarrow> Client \<Rightarrow> string \<Rightarrow> (string \<rightharpoonup> string) \<Rightarrow> (json \<Rightarrow> 'a option) \<Rightarrow> ('w, goerr + 'a) io" where
  "doJSONRequest env c apiURL headers decode w =
     (case newRequest env apiURL of
        Some e \<Rightarrow> (Inl e, w)
      | None \<Rightarrow>
          (case httpDo env (getHTTPClient c) apiURL headers w of
             (Inl e, w1) \<Rightarrow> (Inl (EExecuteRequest e), w1)
           | (Inr (code, body), w1) \<Rightarrow>
               (if code \<noteq> 200 then (Inl (EUnexpectedStatus code), bodyClose env w1)
                else
                  (case jsonParse env body of
                     Inl e \<Rightarrow> (Inl (EDecodeResponse e), bodyClose env w1)
                   | Inr v \<Rightarrow>
                       (case decode v of
                          None \<Rightarrow> (Inl (EDecodeResponse (EExternal ''cannot unmarshal'')), bodyClose env w1)
                        | Some r \<Rightarrow> (Inr r, bodyClose env w1))))))"

definition ghPullRequest :: "ghPR \<Rightarrow> PullRequest" where
  "ghPullRequest r = \<lparr>ID = 0, Number = ghNumber r, Branch = ghHeadRef r, HeadSHA = ghHeadSHA r,
     BaseBranch = ghBaseRef r\<rparr>"

definition glPullRequest :: "glMR \<Rightarrow> PullRequest" where
  "glPullRequest r = \<lparr>ID = 0, Number = glIID r, Branch = glSourceBranch r, HeadSHA = glSHA r,
     BaseBranch = glTargetBranch r\<rparr>"

definition bbPullRequest :: "bbPR \<Rightarrow> PullRequest" where
  "bbPullRequest r = \<lparr>ID = 0, Number = bbID r, Branch = bbSourceBranch r, HeadSHA = bbSourceHash r,
     BaseBranch = bbDestinationBranch r\<rparr>"

definition fetchGitHubPRs ::
  "'w http_env \<Rightarrow> Client \<Rightarrow> string \<Rightarrow> (string \<rightharpoonup> string) \<Rightarrow> ('w, goerr + PullRequest list) io" where
  "fetchGitHubPRs env c apiURL headers w =
     (case doJSONRequest env c apiURL headers decodeGitHub w of
        (Inl e, w1) \<Rightarrow> (Inl (EGithubRequest e), w1)
      | (Inr ghPRs, w1) \<Rightarrow> (Inr (map ghPullRequest ghPRs), w1))"

definition fetchGitLabMRs ::
  "'w http_env \<Rightarrow> Client \<Rightarrow> string \<Rightarrow> (string \<rightharpoonup> string) \<Rightarrow> ('w, goerr + PullRequest list) io" where
  "fetchGitLabMRs env c apiURL headers w =
     (case doJSONRequest env c apiURL headers decodeGitLab w of
        (Inl e, w1) \<Rightarrow> (Inl (EGitlabRequest e), w1)
      | (Inr glMRs, w1) \<Rightarrow> (Inr (map glPullRequest glMRs), w1))"

definition fetchBitbucketPRs ::
  "'w http_env \<Rightarrow> Client \<Rightarrow> string \<Rightarrow> (string \<rightharpoonup> string) \<Rightarrow> ('w, goerr + PullRequest list) io" where
  "fetchBitbucketPRs env c apiURL headers w =
     (case doJSONRequest env c apiURL headers decodeBitbucket w of
        (Inl e, w1) \<Rightarrow> (Inl (EBitbucketRequest e), w1)
      | (Inr bbPRs, w1) \<Rightarrow> (Inr (map bbPullRequest bbPRs), w1))"

definition ListPullRequests ::
  "'w http_env \<Rightarrow> Client \<Rightarrow> string \<Rightarrow> bytes \<Rightarrow> ('w, goerr + PullRequest list) io" where
  "ListPullRequests env c repoURL secretRef w =
     (case parseRepoURL repoURL (host c) (allowNested c) of
        Inl e \<Rightarrow> (Inl e, w)
      | Inr (owner, repo) \<Rightarrow>
          (case provider c of
             ProviderGitHub \<Rightarrow>
               fetchGitHubPRs env c (''https://api.github.com/repos/'' @ owner @ ''/'' @ repo @ ''/pulls?state=open'')
                 (let h = [''Accept'' \<mapsto> ''application/vnd.github.v3+json'']
                  in if blen secretRef > 0 then h(''Authorization'' \<mapsto> ''token '' @ bstr secretRef) else h) w
           | ProviderGitLab \<Rightarrow>
               fetchGitLabMRs env c (''https://gitlab.com/api/v4/projects/'' @
                   urlPathEscape (owner @ ''/'' @ repo) @ ''/merge_requests?state=opened'')
                 (if blen secretRef > 0 then [''Private-Token'' \<mapsto> bstr secretRef] else Map.empty) w
           | ProviderBitbucket \<Rightarrow>
               fetchBitbucketPRs env c (''https://api.bitbucket.org/2.0/repositories/'' @ owner @ ''/'' @ repo @
                   ''/pullrequests?state=OPEN'')
                 (if blen secretRef > 0 then [''Authorization'' \<mapsto> ''Bearer '' @ bstr secretRef] else Map.empty) w
           | ProviderNone \<Rightarrow> (Inl (EUnsupportedProvider ''''), w)))"

section \<open>Lemmas: repository URLs\<close>

lemma parseRepoPath_owner:
  assumes "CHR ''/'' \<notin> set ow"
  shows "parseRepoPath (ow @ ''/'' @ r) nested =
    Some (ow, if nested then r else hd (splitOn (CHR ''/'') r))"
proof -
  obtain y ys where y: "splitOn (CHR ''/'') r = y # ys"
    using splitOn_not_Nil [of "CHR ''/''" r] by (cases "splitOn (CHR ''/'') r") auto
  with join_split [of "CHR ''/''" r] assms show ?thesis
    by (simp add: parseRepoPath_def splitOn_append_sep)
qed

lemma parseRepoPath_Some:
  assumes "parseRepoPath q nested = Some (ow, r)"
  obtains t where "q = ow @ ''/'' @ t" and "CHR ''/'' \<notin> set ow"
    and "r = (if nested then t else hd (splitOn (CHR ''/'') t))"
proof -
  from assms obtain b c where split: "splitOn (CHR ''/'') q = ow # b # c"
    by (auto simp: parseRepoPath_def split: list.splits)
  define t where "t = joinWith ''/'' (b # c)"
  have q: "q = ow @ ''/'' @ t"
    using join_split [of "CHR ''/''" q] by (simp add: split t_def)
  have ow: "CHR ''/'' \<notin> set ow"
    using splitOn_elems [of ow "CHR ''/''" q] by (simp add: split)
  have "parseRepoPath q nested = Some (ow, if nested then t else hd (splitOn (CHR ''/'') t))"
    unfolding q by (rule parseRepoPath_owner [OF ow])
  with assms have "r = (if nested then t else hd (splitOn (CHR ''/'') t))" by simp
  with q ow show thesis by (rule that)
qed

lemma parsePrefixes_Some:
  assumes "parsePrefixes ps u nested = Some res"
  shows "\<exists>p q. p \<in> set ps \<and> u = p @ q \<and> parseRepoPath q nested = Some res"
  using assms
proof (induction ps)
  case Nil
  then show ?case by simp
next
  case (Cons p ps)
  show ?case
  proof (cases "hasPrefix u p \<and> parseRepoPath (trimPrefix u p) nested \<noteq> None")
    case True
    then obtain q where "u = p @ q" by (auto elim: hasPrefixE)
    with True Cons.prems show ?thesis by auto
  next
    case False
    with Cons.prems have "parsePrefixes ps u nested = Some res"
      by (auto split: if_splits option.splits)
    with Cons.IH show ?thesis by auto
  qed
qed

lemma parsePrefixes_first:
  assumes "p \<in> set (repoPrefixes h)" and "parseRepoPath q nested = Some res"
  shows "parsePrefixes (repoPrefixes h) (p @ q) nested = Some res"
  using assms hasPrefix_append [of p q] trimPrefix_append [of p q]
  by (auto simp: repoPrefixes_def hasPrefix_code simp del: hasPrefix_append trimPrefix_append)

lemma parsePrefixes_prefix: "parsePrefixes ps u nested \<noteq> None \<Longrightarrow> \<exists>p\<in>set ps. hasPrefix u p"
  by (induction ps) (auto split: if_splits)

lemma trimSuffix_prefix: "hasPrefix (trimSuffix u sfx) p \<Longrightarrow> hasPrefix u p"
  by (metis append.assoc hasPrefixE hasPrefix_append trimSuffix_cases)

text \<open>The host of a client and the API its provider answers under.\<close>

definition providerHost :: "providerType \<Rightarrow> string" where
  "providerHost p = (case p of ProviderGitHub \<Rightarrow> ''github.com'' | ProviderGitLab \<Rightarrow> ''gitlab.com''
     | ProviderBitbucket \<Rightarrow> ''bitbucket.org'' | ProviderNone \<Rightarrow> '''')"

definition apiBase :: "providerType \<Rightarrow> string" where
  "apiBase p = (case p of ProviderGitHub \<Rightarrow> ''https://api.github.com/repos/''
     | ProviderGitLab \<Rightarrow> ''https://gitlab.com/api/v4/projects/''
     | ProviderBitbucket \<Rightarrow> ''https://api.bitbucket.org/2.0/repositories/'' | ProviderNone \<Rightarrow> '''')"

lemma NewProviderClient_simps [simp]:
  "provider (NewProviderClient u hc) = detectProvider u"
  "host (NewProviderClient u hc) = providerHost (detectProvider u)"
  "allowNested (NewProviderClient u hc) = (detectProvider u = ProviderGitLab)"
  "clientHTTP (NewProviderClient u hc) = hc"
  by (simp_all add: NewProviderClient_def providerHost_def Let_def split: providerType.splits)

lemma escape_no_slash: "CHR ''/'' \<notin> set (urlPathEscape s)"
  using set_replaceByte [of "CHR ''/''" "''%2F''" s] by (auto simp: urlPathEscape_def)

section \<open>Lemmas: decoding\<close>

lemma decodeFields_append:
  "decodeFields f (xs @ ys) r =
     (case decodeFields f xs r of None \<Rightarrow> None | Some r' \<Rightarrow> decodeFields f ys r')"
  by (induction f xs r rule: decodeFields.induct) (auto split: option.splits)

lemma decodeFields_ignored:
  assumes "\<And>k v r. (k, v) \<in> set kvs \<Longrightarrow> f k v r = Some r"
  shows "decodeFields f kvs r = Some r"
  using assms by (induction kvs arbitrary: r) auto

definition int64 :: "int \<Rightarrow> bool" where
  "int64 n = (- (2 ^ 63) \<le> n \<and> n < 2 ^ 63)"

lemma decodeInt_int64: "int64 n \<Longrightarrow> decodeInt (JInt n) old = Some n"
  by (simp add: int64_def)

text \<open>
  A pull request as the client reports it: the number fits Go's \<open>int\<close> and \<open>ID\<close> is never set.
\<close>

definition wfPR :: "PullRequest \<Rightarrow> bool" where
  "wfPR pr = (int64 (Number pr) \<and> ID pr = 0)"

text \<open>
  The providers' documented response bodies: an object per pull request with the keys the code
  reads, after any number of keys it does not read.
\<close>

definition ghJson :: "(string \<times> json) list \<Rightarrow> PullRequest \<Rightarrow> json" where
  "ghJson extra pr = JObj (extra @
     [(''number'', JInt (Number pr)),
      (''head'', JObj [(''ref'', JStr (Branch pr)), (''sha'', JStr (HeadSHA pr))]),
      (''base'', JObj [(''ref'', JStr (BaseBranch pr))])])"

definition glJson :: "(string \<times> json) list \<Rightarrow> PullRequest \<Rightarrow> json" where
  "glJson extra pr = JObj (extra @
     [(''iid'', JInt (Number pr)), (''source_branch'', JStr (Branch pr)),
      (''target_branch'', JStr (BaseBranch pr)), (''sha'', JStr (HeadSHA pr))])"

definition bbJson :: "(string \<times> json) list \<Rightarrow> PullRequest \<Rightarrow> json" where
  "bbJson extra pr = JObj (extra @
     [(''id'', JInt (Number pr)),
      (''source'', JObj [(''branch'', JObj [(''name'', JStr (Branch pr))]),
                         (''commit'', JObj [(''hash'', JStr (HeadSHA pr))])]),
      (''destination'', JObj [(''branch'', JObj [(''name'', JStr (BaseBranch pr))])])])"

definition unread :: "string list \<Rightarrow> (string \<times> json) list \<Rightarrow> bool" where
  "unread names extra = list_all (\<lambda>(k, v). list_all (\<lambda>f. \<not> keyMatches k f) names) extra"

lemma unreadD: "unread names extra \<Longrightarrow> (k, v) \<in> set extra \<Longrightarrow> f \<in> set names \<Longrightarrow> \<not> keyMatches k f"
  by (auto simp: unread_def list_all_iff)

lemmas key_simps = keyMatches_def asciiLower_def

lemma ghJson_decode:
  assumes "unread [''number'', ''head'', ''base''] extra" and "wfPR pr"
  shows "\<exists>raw. decodeStruct ghField (ghJson extra pr) r = Some raw \<and> ghPullRequest raw = pr"
proof -
  have "decodeFields ghField extra r' = Some r'" for r'
    using assms(1) by (intro decodeFields_ignored) (auto simp: ghField_def dest: unreadD)
  with assms(2) show ?thesis
    by (simp add: ghJson_def decodeFields_append ghField_def ghHeadField_def ghBaseField_def key_simps
        ghPullRequest_def wfPR_def decodeInt_int64 del: decodeInt.simps)
qed

lemma glJson_decode:
  assumes "unread [''iid'', ''source_branch'', ''target_branch'', ''sha''] extra" and "wfPR pr"
  shows "\<exists>raw. decodeStruct glField (glJson extra pr) r = Some raw \<and> glPullRequest raw = pr"
proof -
  have "decodeFields glField extra r' = Some r'" for r'
    using assms(1) by (intro decodeFields_ignored) (auto simp: glField_def dest: unreadD)
  with assms(2) show ?thesis
    by (simp add: glJson_def decodeFields_append glField_def key_simps
        glPullRequest_def wfPR_def decodeInt_int64 del: decodeInt.simps)
qed

lemma bbJson_decode:
  assumes "unread [''id'', ''source'', ''destination''] extra" and "wfPR pr"
  shows "\<exists>raw. decodeStruct bbField (bbJson extra pr) r = Some raw \<and> bbPullRequest raw = pr"
proof -
  have "decodeFields bbField extra r' = Some r'" for r'
    using assms(1) by (intro decodeFields_ignored) (auto simp: bbField_def dest: unreadD)
  with assms(2) show ?thesis
    by (simp add: bbJson_def decodeFields_append bbField_def bbSourceField_def bbDestinationField_def
        bbNameField_def key_simps bbPullRequest_def wfPR_def decodeInt_int64 del: decodeInt.simps)
qed

lemma decodeElems_exists:
  assumes "\<And>x. x \<in> set xs \<Longrightarrow> \<exists>raw. elem (g x) = Some raw \<and> f raw = x"
  shows "\<exists>raws. decodeElems elem (map g xs) = Some raws \<and> map f raws = xs"
  using assms
proof (induction xs)
  case Nil
  then show ?case by simp
next
  case (Cons x xs)
  then obtain raws where "decodeElems elem (map g xs) = Some raws" "map f raws = xs"
    by fastforce
  moreover obtain raw where "elem (g x) = Some raw" "f raw = x"
    using Cons.prems by fastforce
  ultimately show ?case by auto
qed

section \<open>The interface of the three fetchers\<close>

text \<open>
  The three fetchers share a contract: they send one request, wrap every error in the provider's
  own, and recover exactly the pull requests, in the order of the response, from the body that
  \<open>render\<close> describes.
\<close>

locale pr_fetcher =
  fixes fetch :: "'w http_env \<Rightarrow> Client \<Rightarrow> string \<Rightarrow> (string \<rightharpoonup> string) \<Rightarrow> ('w, goerr + PullRequest list) io"
    and decode :: "json \<Rightarrow> 'raw list option"
    and prOf :: "'raw \<Rightarrow> PullRequest"
    and wrap :: "goerr \<Rightarrow> goerr"
    and render :: "(PullRequest \<Rightarrow> (string \<times> json) list) \<Rightarrow> PullRequest list \<Rightarrow> json"
    and keys :: "string list"
  assumes fetch_eq: "fetch env c u h w =
       (case doJSONRequest env c u h decode w of
          (Inl e, w1) \<Rightarrow> (Inl (wrap e), w1) | (Inr rs, w1) \<Rightarrow> (Inr (map prOf rs), w1))"
    and decode_render: "(\<And>pr. unread keys (extra pr)) \<Longrightarrow> list_all wfPR prs \<Longrightarrow>
       \<exists>raws. decode (render extra prs) = Some raws \<and> map prOf raws = prs"
begin

lemma fetch_ok:
  assumes "newRequest env u = None" and "httpDo env (getHTTPClient c) u h w = (Inr (200, body), w1)"
    and "jsonParse env body = Inr (render extra prs)"
    and "\<And>pr. unread keys (extra pr)" and "list_all wfPR prs"
  shows "fetch env c u h w = (Inr prs, bodyClose env w1)"
proof -
  obtain raws where "decode (render extra prs) = Some raws" "map prOf raws = prs"
    using decode_render [of extra prs] assms(4,5) by blast
  with assms(1-3) show ?thesis by (simp add: fetch_eq doJSONRequest_def)
qed

lemma fetch_confined:
  assumes "f (getHTTPClient c) u h w = httpDo env (getHTTPClient c) u h w"
  shows "fetch (env\<lparr>httpDo := f\<rparr>) c u h w = fetch env c u h w"
proof -
  have "doJSONRequest (env\<lparr>httpDo := f\<rparr>) c u h decode w = doJSONRequest env c u h decode w"
    using assms by (simp add: doJSONRequest_def split: option.split sum.split prod.split)
  then show ?thesis by (simp add: fetch_eq)
qed

end

interpretation gh: pr_fetcher fetchGitHubPRs decodeGitHub ghPullRequest EGithubRequest
    "\<lambda>extra prs. JArr (map (\<lambda>pr. ghJson (extra pr) pr) prs)" "[''number'', ''head'', ''base'']"
proof
  fix extra :: "PullRequest \<Rightarrow> (string \<times> json) list" and prs
  assume "\<And>pr. unread [''number'', ''head'', ''base''] (extra pr)" and "list_all wfPR prs"
  then show "\<exists>raws. decodeGitHub (JArr (map (\<lambda>pr. ghJson (extra pr) pr) prs)) = Some raws \<and>
      map ghPullRequest raws = prs"
    unfolding decodeGitHub_def decodeSlice.simps
    by (intro decodeElems_exists ghJson_decode) (auto simp: list_all_iff)
qed (simp add: fetchGitHubPRs_def)

interpretation gl: pr_fetcher fetchGitLabMRs decodeGitLab glPullRequest EGitlabRequest
    "\<lambda>extra prs. JArr (map (\<lambda>pr. glJson (extra pr) pr) prs)"
    "[''iid'', ''source_branch'', ''target_branch'', ''sha'']"
proof
  fix extra :: "PullRequest \<Rightarrow> (string \<times> json) list" and prs
  assume "\<And>pr. unread [''iid'', ''source_branch'', ''target_branch'', ''sha''] (extra pr)"
    and "list_all wfPR prs"
  then show "\<exists>raws. decodeGitLab (JArr (map (\<lambda>pr. glJson (extra pr) pr) prs)) = Some raws \<and>
      map glPullRequest raws = prs"
    unfolding decodeGitLab_def decodeSlice.simps
    by (intro decodeElems_exists glJson_decode) (auto simp: list_all_iff)
qed (simp add: fetchGitLabMRs_def)

definition bbPage :: "(PullRequest \<Rightarrow> (string \<times> json) list) \<Rightarrow> PullRequest list \<Rightarrow> json" where
  "bbPage extra prs = JObj [(''values'', JArr (map (\<lambda>pr. bbJson (extra pr) pr) prs)),
     (''pagelen'', JInt 10), (''size'', JInt (int (length prs))), (''page'', JInt 1)]"

interpretation bb: pr_fetcher fetchBitbucketPRs decodeBitbucket bbPullRequest EBitbucketRequest
    bbPage "[''id'', ''source'', ''destination'']"
proof
  fix extra :: "PullRequest \<Rightarrow> (string \<times> json) list" and prs
  assume "\<And>pr. unread [''id'', ''source'', ''destination''] (extra pr)" and "list_all wfPR prs"
  then have "\<exists>raws. decodeElems (\<lambda>x. decodeStruct bbField x
        \<lparr>bbID = 0, bbSourceBranch = '''', bbSourceHash = '''', bbDestinationBranch = ''''\<rparr>)
        (map (\<lambda>pr. bbJson (extra pr) pr) prs) = Some raws \<and> map bbPullRequest raws = prs"
    by (intro decodeElems_exists bbJson_decode) (auto simp: list_all_iff)
  then show "\<exists>raws. decodeBitbucket (bbPage extra prs) = Some raws \<and> map bbPullRequest raws = prs"
    by (auto simp: decodeBitbucket_def bbPage_def bbValuesField_def key_simps)
qed (simp add: fetchBitbucketPRs_def)

lemma parse_repo_url:
  assumes "p \<in> set (repoPrefixes h)" and "CHR ''/'' \<notin> set ow" and "nested \<or> CHR ''/'' \<notin> set r"
    and "u = p @ ow @ ''/'' @ r @ ''.git'' \<or>
         u = p @ ow @ ''/'' @ r \<and> \<not> hasSuffix (p @ ow @ ''/'' @ r) ''.git''"
  shows "parseRepoURL u h nested = Inr (ow, r)"
proof -
  have trimmed: "trimSuffix u ''.git'' = p @ ow @ ''/'' @ r"
    using assms(4) trimSuffix_append [of "p @ ow @ ''/'' @ r" "''.git''"]
    by (auto simp: trimSuffix_def simp del: trimSuffix_append)
  have "parseRepoPath (ow @ ''/'' @ r) nested = Some (ow, r)"
    using parseRepoPath_owner [OF assms(2), of r nested] assms(3) splitOn_no_sep [of "CHR ''/''" r]
    by auto
  with parsePrefixes_first [OF assms(1)] trimmed show ?thesis
    by (simp add: parseRepoURL_def)
qed

lemma github_listing:
  fixes env :: "'w http_env"
  defines "url ow r \<equiv> ''https://api.github.com/repos/'' @ ow @ ''/'' @ r @ ''/pulls?state=open''"
  assumes "CHR ''/'' \<notin> set ow" and "CHR ''/'' \<notin> set r" and "tok \<noteq> ''''"
    and "newRequest env (url ow r) = None"
    and "httpDo env (case hc of None \<Rightarrow> DefaultClient | Some h \<Rightarrow> h) (url ow r)
           [''Accept'' \<mapsto> ''application/vnd.github.v3+json'', ''Authorization'' \<mapsto> ''token '' @ tok] w =
         (Inr (200, body), w1)"
    and "jsonParse env body = Inr (JArr (map (\<lambda>pr. ghJson (extra pr) pr) prs))"
    and "\<And>pr. unread [''number'', ''head'', ''base''] (extra pr)" and "list_all wfPR prs"
    and "u = ''https://github.com/'' @ ow @ ''/'' @ r @ ''.git''"
  shows "ListPullRequests env (NewProviderClient u hc) u (Some tok) w = (Inr prs, bodyClose env w1)"
proof -
  let ?c = "NewProviderClient u hc"
  have u: "u = (''https://'' @ ''github.com'' @ ''/'') @ ow @ ''/'' @ r @ ''.git''"
    using assms(10) by simp
  have detect: "detectProvider u = ProviderGitHub"
    using contains_append1 [of "''https://github.com/''" "''github.com''" "toLower (ow @ ''/'' @ r @ ''.git'')"]
    by (simp add: assms(10) detectProvider_def Let_def asciiLower_def go_simps)
  have parse: "parseRepoURL u (providerHost ProviderGitHub) False = Inr (ow, r)"
    by (rule parse_repo_url [where p = "''https://'' @ ''github.com'' @ ''/''"])
      (use assms(2,3) u in \<open>simp_all add: repoPrefixes_def providerHost_def\<close>)
  have client: "getHTTPClient ?c = (case hc of None \<Rightarrow> DefaultClient | Some h \<Rightarrow> h)"
    by (simp add: getHTTPClient_def)
  have "fetchGitHubPRs env ?c (url ow r)
      [''Accept'' \<mapsto> ''application/vnd.github.v3+json'', ''Authorization'' \<mapsto> ''token '' @ tok] w =
      (Inr prs, bodyClose env w1)"
    using assms(5,6,7,8,9) by (intro gh.fetch_ok) (simp_all add: client)
  with assms(4) show ?thesis
    by (simp add: ListPullRequests_def detect parse url_def Let_def)
qed

section \<open>Properties\<close>

text \<open>
  C29. Parsing recovers owner and repository from both documented URL forms, with or without the
  \<open>.git\<close> suffix; the repository may contain slashes exactly for a provider with nested groups.
\<close>

theorem parse_repo_url_roundtrip:
  assumes "p \<in> set (repoPrefixes h)" and "CHR ''/'' \<notin> set ow" and "nested \<or> CHR ''/'' \<notin> set r"
    and "u = p @ ow @ ''/'' @ r @ ''.git'' \<or>
         u = p @ ow @ ''/'' @ r \<and> \<not> hasSuffix (p @ ow @ ''/'' @ r) ''.git''"
  shows "parseRepoURL u h nested = Inr (ow, r)"
  using assms by (rule parse_repo_url)

text \<open>
  What parsing accepts: the URL, less a \<open>.git\<close> suffix, starts with \<open>https://host/\<close> or \<open>git@host:\<close>
  for the client's own host, the owner is the first path segment, and the repository is the rest of
  the path, or its next segment only for a provider without nested groups.
\<close>

theorem parse_repo_url_sound:
  assumes "parseRepoURL u h nested = Inr (ow, r)"
  shows "CHR ''/'' \<notin> set ow \<and>
    (\<exists>p t. p \<in> set (repoPrefixes h) \<and> trimSuffix u ''.git'' = p @ ow @ ''/'' @ t \<and>
       r = (if nested then t else hd (splitOn (CHR ''/'') t)))"
proof -
  from assms have "parsePrefixes (repoPrefixes h) (trimSuffix u ''.git'') nested = Some (ow, r)"
    by (auto simp: parseRepoURL_def Let_def split: option.splits)
  then obtain p q where p: "p \<in> set (repoPrefixes h)" "trimSuffix u ''.git'' = p @ q"
      "parseRepoPath q nested = Some (ow, r)"
    using parsePrefixes_Some by blast
  from parseRepoPath_Some [OF p(3)] obtain t where "q = ow @ ''/'' @ t" "CHR ''/'' \<notin> set ow"
      "r = (if nested then t else hd (splitOn (CHR ''/'') t))" .
  with p show ?thesis by auto
qed

text \<open>
  A URL that does not start with \<open>https://\<close> or \<open>git@\<close> and one of the three hosts, such as an
  \<open>http://\<close> or \<open>ssh://\<close> URL, a self-hosted server, or a URL that only mentions a provider's name
  somewhere, is refused without any request: the credential is not sent anywhere.
\<close>

theorem no_request_off_host:
  assumes "\<And>h. h \<in> {''github.com'', ''gitlab.com'', ''bitbucket.org''} \<Longrightarrow>
      \<not> hasPrefix u (''https://'' @ h @ ''/'') \<and> \<not> hasPrefix u (''git@'' @ h @ '':'')"
  shows "\<exists>e. ListPullRequests env (NewProviderClient u hc) u s w = (Inl e, w)"
proof (cases "detectProvider u = ProviderNone")
  case True
  then show ?thesis
    by (auto simp: ListPullRequests_def split: sum.splits prod.splits)
next
  case False
  then have "providerHost (detectProvider u) \<in> {''github.com'', ''gitlab.com'', ''bitbucket.org''}"
    by (cases "detectProvider u") (simp_all add: providerHost_def)
  from assms [OF this] have "\<not> (\<exists>p\<in>set (repoPrefixes (providerHost (detectProvider u))). hasPrefix u p)"
    by (simp add: repoPrefixes_def)
  then have "parsePrefixes (repoPrefixes (providerHost (detectProvider u))) (trimSuffix u ''.git'') nested = None"
    for nested
    using parsePrefixes_prefix trimSuffix_prefix by blast
  then show ?thesis
    by (simp add: ListPullRequests_def parseRepoURL_def)
qed

text \<open>
  C27. Every request, and with it the credential in its headers, goes to the API of the client's
  provider: replacing the network everywhere else changes neither the result nor the world.
\<close>

theorem requests_confined_to_provider:
  assumes "\<And>cl url h v. hasPrefix url (apiBase (provider c)) \<Longrightarrow> f cl url h v = httpDo env cl url h v"
  shows "ListPullRequests (env\<lparr>httpDo := f\<rparr>) c u s w = ListPullRequests env c u s w"
proof (cases "parseRepoURL u (host c) (allowNested c)")
  case (Inl e)
  then show ?thesis by (simp add: ListPullRequests_def)
next
  case (Inr res)
  obtain ow r where res: "res = (ow, r)" by (cases res)
  have same: "f cl (apiBase (provider c) @ t) h v = httpDo env cl (apiBase (provider c) @ t) h v" for cl t h v
    by (rule assms) simp
  show ?thesis
    using same
    by (cases "provider c")
      (simp_all add: ListPullRequests_def Inr res apiBase_def gh.fetch_confined gl.fetch_confined
        bb.fetch_confined)
qed

text \<open>
  The project id of a GitLab request is a single path segment, and different projects have
  different ids as long as the path holds no percent sign.
\<close>

theorem gitlab_project_id:
  assumes "CHR ''%'' \<notin> set s" and "CHR ''%'' \<notin> set t"
  shows "CHR ''/'' \<notin> set (urlPathEscape s) \<and> (urlPathEscape s = urlPathEscape t \<longleftrightarrow> s = t)"
proof -
  have "urlPathEscape s = urlPathEscape t \<Longrightarrow> s = t"
    using assms
  proof (induction s arbitrary: t)
    case Nil
    then show ?case by (cases t) (auto simp: urlPathEscape_def split: if_splits)
  next
    case (Cons x xs)
    then show ?case by (cases t) (auto simp: urlPathEscape_def split: if_splits)
  qed
  then show ?thesis using escape_no_slash by auto
qed


text \<open>
  The same for a repository in nested GitLab groups, reached over its SSH URL: the whole group
  path goes into the escaped project id and the token into the \<open>Private-Token\<close> header.
\<close>

theorem list_gitlab_merge_requests:
  fixes env :: "'w http_env"
  defines "url ow r \<equiv> ''https://gitlab.com/api/v4/projects/'' @ urlPathEscape (ow @ ''/'' @ r) @
      ''/merge_requests?state=opened''"
  assumes "CHR ''/'' \<notin> set ow" and "tok \<noteq> ''''"
    and "\<not> contains (toLower (ow @ ''/'' @ r @ ''.git'')) ''github.com''"
    and "newRequest env (url ow r) = None"
    and "httpDo env (case hc of None \<Rightarrow> DefaultClient | Some h \<Rightarrow> h) (url ow r) [''Private-Token'' \<mapsto> tok] w =
         (Inr (200, body), w1)"
    and "jsonParse env body = Inr (JArr (map (\<lambda>pr. glJson (extra pr) pr) prs))"
    and "\<And>pr. unread [''iid'', ''source_branch'', ''target_branch'', ''sha''] (extra pr)"
    and "list_all wfPR prs"
    and "u = ''git@gitlab.com:'' @ ow @ ''/'' @ r @ ''.git''"
  shows "ListPullRequests env (NewProviderClient u hc) u (Some tok) w = (Inr prs, bodyClose env w1)"
proof -
  let ?c = "NewProviderClient u hc"
  have u: "u = (''git@'' @ ''gitlab.com'' @ '':'') @ ow @ ''/'' @ r @ ''.git''"
    using assms(10) by simp
  have "\<not> contains (toLower u) ''github.com''"
    using assms(4) by (simp add: assms(10) asciiLower_def go_simps)
  moreover have "contains (toLower u) ''gitlab.com''"
    using contains_append1 [of "''git@gitlab.com:''" "''gitlab.com''" "toLower (ow @ ''/'' @ r @ ''.git'')"]
    by (simp add: assms(10) asciiLower_def go_simps)
  ultimately have detect: "detectProvider u = ProviderGitLab"
    by (simp add: detectProvider_def Let_def)
  have parse: "parseRepoURL u (providerHost ProviderGitLab) True = Inr (ow, r)"
    by (rule parse_repo_url [where p = "''git@'' @ ''gitlab.com'' @ '':''"])
      (use assms(2) u in \<open>simp_all add: repoPrefixes_def providerHost_def\<close>)
  have client: "getHTTPClient ?c = (case hc of None \<Rightarrow> DefaultClient | Some h \<Rightarrow> h)"
    by (simp add: getHTTPClient_def)
  have "fetchGitLabMRs env ?c (url ow r) [''Private-Token'' \<mapsto> tok] w = (Inr prs, bodyClose env w1)"
    using assms(5,6,7,8,9) by (intro gl.fetch_ok) (simp_all add: client)
  with assms(3) show ?thesis
    by (simp add: ListPullRequests_def detect parse url_def Let_def)
qed

section \<open>Witnesses\<close>

definition samplePR :: PullRequest where
  "samplePR = \<lparr>ID = 0, Number = 42, Branch = ''feature-express'', HeadSHA = ''c0ffee'',
     BaseBranch = ''main''\<rparr>"

text \<open>A network on which every host answers with one pull request under an unread key.\<close>

definition sampleHttp :: "string list http_env" where
  "sampleHttp =
     \<lparr>newRequest = (\<lambda>u. None),
      httpDo = (\<lambda>cl u h log. (Inr (200, u), log @ [u])),
      bodyClose = (\<lambda>log. log @ [''close'']),
      jsonParse = (\<lambda>body.
        if hasPrefix body ''https://gitlab.com''
        then Inr (JArr (map (\<lambda>pr. glJson ((\<lambda>_. [(''title'', JStr ''x'')]) pr) pr) [samplePR]))
        else Inr (JArr (map (\<lambda>pr. ghJson ((\<lambda>_. [(''title'', JStr ''x'')]) pr) pr) [samplePR])))\<rparr>"

theorem parse_repo_url_roundtrip_witness:
  "parseRepoURL ''git@gitlab.com:owner/group/repo.git'' ''gitlab.com'' True = Inr (''owner'', ''group/repo'')"
  by (rule parse_repo_url_roundtrip [where p = "''git@gitlab.com:''"]) (simp_all add: repoPrefixes_def)

theorem parse_repo_url_sound_witness:
  "\<exists>p t. p \<in> set (repoPrefixes ''github.com'') \<and>
     trimSuffix ''https://github.com/o/r/tree'' ''.git'' = p @ ''o'' @ ''/'' @ t \<and>
     ''r'' = (if False then t else hd (splitOn (CHR ''/'') t))"
proof -
  have "parseRepoURL ''https://github.com/o/r/tree'' ''github.com'' False = Inr (''o'', ''r'')"
    by (simp add: parseRepoURL_def repoPrefixes_def trimSuffix_def trimPrefix_def go_simps
        parseRepoPath_def)
  from parse_repo_url_sound [OF this] show ?thesis by blast
qed

theorem no_request_off_host_witness:
  "\<exists>e. ListPullRequests sampleHttp (NewProviderClient ''ssh://git@github.com/o/r.git'' None)
     ''ssh://git@github.com/o/r.git'' (Some ''ghp'') [] = (Inl e, [])"
  by (rule no_request_off_host) (auto simp: go_simps)

theorem requests_confined_to_provider_witness:
  "ListPullRequests (sampleHttp\<lparr>httpDo := \<lambda>cl u h v.
        if hasPrefix u ''https://api.github.com/repos/'' then httpDo sampleHttp cl u h v
        else (Inl (EExternal ''unreachable''), v)\<rparr>)
     (NewProviderClient ''https://github.com/o/r'' None) ''https://github.com/o/r'' (Some ''ghp'') [] =
   ListPullRequests sampleHttp (NewProviderClient ''https://github.com/o/r'' None)
     ''https://github.com/o/r'' (Some ''ghp'') []"
proof -
  have "detectProvider ''https://github.com/o/r'' = ProviderGitHub"
    by (simp add: detectProvider_def Let_def asciiLower_def go_simps)
  then show ?thesis by (intro requests_confined_to_provider) (simp add: apiBase_def)
qed

theorem gitlab_project_id_witness:
  "CHR ''/'' \<notin> set (urlPathEscape ''o/g/r'') \<and> (urlPathEscape ''o/g/r'' = urlPathEscape ''o/gr'' \<longleftrightarrow> ''o/g/r'' = ''o/gr'')"
  by (rule gitlab_project_id) simp_all


theorem list_gitlab_merge_requests_witness:
  "fst (ListPullRequests sampleHttp (NewProviderClient ''git@gitlab.com:o/g/r.git'' None)
     ''git@gitlab.com:o/g/r.git'' (Some ''glpat'') []) = Inr [samplePR]"
  using list_gitlab_merge_requests [of "''o''" "''glpat''" "''g/r''" sampleHttp None "[]"
      "''https://gitlab.com/api/v4/projects/o%2Fg%2Fr/merge_requests?state=opened''"
      "[''https://gitlab.com/api/v4/projects/o%2Fg%2Fr/merge_requests?state=opened'']"
      "\<lambda>_. [(''title'', JStr ''x'')]" "[samplePR]" "''git@gitlab.com:o/g/r.git''"]
  by (simp add: sampleHttp_def unread_def key_simps wfPR_def samplePR_def int64_def go_simps
      urlPathEscape_def)

end
