(* ===== verification/Synthesizer.thy ===== *)
theory Synthesizer
  imports ApiTypes
begin

text \<open>
  Turning a cloned repository into manifests (\<open>controllers/synthesizer/synthesizer.go\<close>): detecting
  the kind of cdk8s application, running \<open>npm install\<close> and \<open>cdk8s synth\<close>, finding the generated
  files under \<open>dist\<close>, and parsing them.

  The file tree is a value, \<open>fsnode\<close>: a file with its content (or the error that reading it gives),
  a directory with its entries in the order \<open>os.ReadDir\<close> returns them (sorted by name), or a
  directory whose entries cannot be read. \<open>os.ReadDir\<close>, \<open>os.ReadFile\<close> and \<open>filepath.WalkDir\<close> are
  modelled on it. A symbolic link is a file whose content is what reading it gives; links to directories
  are not followed. The commands and the YAML library are the fields of \<open>synth_env\<close>; \<open>yamlStream\<close> gives
  what successive calls of \<open>decoder.Decode\<close> yield (nil for an empty document) and how the stream
  ends: at EOF (\<open>None\<close>) or with an error.
\<close>

section \<open>The file tree\<close>

datatype fsnode =
    FileNode "goerr + string"
  | DirNode "(string \<times> fsnode) list"
  | BadDir goerr

definition eNoEnt :: goerr where
  "eNoEnt = EExternal ''no such file or directory''"

definition eNotDir :: goerr where
  "eNotDir = EExternal ''not a directory''"

definition eIsDir :: goerr where
  "eIsDir = EExternal ''is a directory''"

fun fsLookup :: "fsnode \<Rightarrow> string list \<Rightarrow> fsnode option" where
  "fsLookup n [] = Some n"
| "fsLookup (DirNode es) (p # ps) =
     (case map_of es p of None \<Rightarrow> None | Some n \<Rightarrow> fsLookup n ps)"
| "fsLookup _ (p # ps) = None"

definition nodeAt :: "fsnode \<Rightarrow> string \<Rightarrow> fsnode option" where
  "nodeAt root path = fsLookup root (cleanElems True path)"

definition readDir :: "fsnode \<Rightarrow> string \<Rightarrow> goerr + (string \<times> fsnode) list" where
  "readDir root path =
     (case nodeAt root path of
        None \<Rightarrow> Inl eNoEnt
      | Some (FileNode _) \<Rightarrow> Inl eNotDir
      | Some (BadDir e) \<Rightarrow> Inl e
      | Some (DirNode es) \<Rightarrow> Inr es)"

definition readFile :: "fsnode \<Rightarrow> string \<Rightarrow> goerr + string" where
  "readFile root path =
     (case nodeAt root path of
        None \<Rightarrow> Inl eNoEnt
      | Some (FileNode c) \<Rightarrow> c
      | Some _ \<Rightarrow> Inl eIsDir)"

definition isDir :: "fsnode \<Rightarrow> bool" where
  "isDir n = (case n of FileNode _ \<Rightarrow> False | _ \<Rightarrow> True)"

section \<open>Types and parameters\<close>

record KustomizationFile =
  kustAPIVersion :: string
  kustKind :: string
  kustName :: string
  kustNamespace :: string
  Resources :: "string list"

record Unstructured =
  resGroup :: string
  resVersion :: string
  resKind :: string
  resNamespace :: string
  resName :: string
  resContent :: string

record 'w synth_env =
  fsTree :: "'w \<Rightarrow> fsnode"
  runCommand :: "string list \<Rightarrow> string \<Rightarrow> ('w, goerr option) io"
  yamlUnmarshal :: "string \<Rightarrow> goerr + KustomizationFile"
  yamlStream :: "string \<Rightarrow> string option list \<times> goerr option"
  decodeUnstructured :: "string \<Rightarrow> goerr + Unstructured"

section \<open>Finding manifests\<close>

definition kustomizationNames :: "string list" where
  "kustomizationNames =
     [''kustomization.yaml'', ''kustomization.yml'', ''kustomization.k8s.yaml'', ''Kustomization'']"

definition isKustomization :: "string \<Rightarrow> bool" where
  "isKustomization path = list_ex (\<lambda>k. path = k) kustomizationNames"

text \<open>The visitor of \<open>findManifests\<close>, on a file: the two slices it appends to are the state.\<close>

definition visitManifest ::
  "string \<Rightarrow> string \<Rightarrow> string list \<times> string list \<Rightarrow> string list \<times> string list" where
  "visitManifest path fileName acc =
     (case acc of (kustomizeFiles, regularManifests) \<Rightarrow>
        if hasSuffix fileName ''.yaml'' \<or> hasSuffix fileName ''.yml'' then
          (if isKustomization fileName then (kustomizeFiles @ [path], regularManifests)
           else (kustomizeFiles, regularManifests @ [path]))
        else (kustomizeFiles, regularManifests))"

text \<open>\<open>filepath.WalkDir\<close> with a visitor that returns the error it is given and nil otherwise.\<close>

fun walkDir :: "(string \<Rightarrow> string \<Rightarrow> 'a \<Rightarrow> 'a) \<Rightarrow> string \<Rightarrow> string \<Rightarrow> fsnode \<Rightarrow> 'a \<Rightarrow> goerr option \<times> 'a"
  and walkEntries :: "(string \<Rightarrow> string \<Rightarrow> 'a \<Rightarrow> 'a) \<Rightarrow> string \<Rightarrow> (string \<times> fsnode) list \<Rightarrow> 'a \<Rightarrow> goerr option \<times> 'a"
where
  "walkDir visit path name (FileNode c) acc = (None, visit path name acc)"
| "walkDir visit path name (BadDir e) acc = (Some e, acc)"
| "walkDir visit path name (DirNode es) acc = walkEntries visit path es acc"
| "walkEntries visit path [] acc = (None, acc)"
| "walkEntries visit path ((n, d) # es) acc =
     (case walkDir visit (joinPath [path, n]) n d acc of
        (Some e, acc') \<Rightarrow> (Some e, acc')
      | (None, acc') \<Rightarrow> walkEntries visit path es acc')"

definition findManifests :: "fsnode \<Rightarrow> string \<Rightarrow> goerr + string list" where
  "findManifests root directory =
     (let distPath = joinPath [directory, ''dist'']
      in case nodeAt root distPath of
           None \<Rightarrow> Inl eNoEnt
         | Some d \<Rightarrow>
             (case walkDir visitManifest distPath (basePath distPath) d ([], []) of
                (Some e, _) \<Rightarrow> Inl e
              | (None, (kustomizeFiles, regularManifests)) \<Rightarrow>
                  Inr (if length kustomizeFiles > 0 then kustomizeFiles else regularManifests)))"

section \<open>Parsing\<close>

fun parseDocs ::
  "'w synth_env \<Rightarrow> string option list \<Rightarrow> Unstructured list \<Rightarrow> Unstructured list \<times> goerr option" where
  "parseDocs env [] parsed = (parsed, None)"
| "parseDocs env (None # docs) parsed = parseDocs env docs parsed"
| "parseDocs env (Some raw # docs) parsed =
     (case decodeUnstructured env raw of
        Inl e \<Rightarrow> (parsed, Some e)
      | Inr u \<Rightarrow> parseDocs env docs (parsed @ [u]))"

fun parseManifestsFrom ::
  "'w synth_env \<Rightarrow> fsnode \<Rightarrow> string list \<Rightarrow> Unstructured list \<Rightarrow> Unstructured list \<times> goerr option" where
  "parseManifestsFrom env root [] parsed = (parsed, None)"
| "parseManifestsFrom env root (manifest # ms) parsed =
     (case readFile root manifest of
        Inl e \<Rightarrow> (parsed, Some e)
      | Inr content \<Rightarrow>
          (case yamlStream env content of
             (docs, ending) \<Rightarrow>
               (case parseDocs env docs parsed of
                  (parsed', Some e) \<Rightarrow> (parsed', Some e)
                | (parsed', None) \<Rightarrow>
                    (case ending of
                       Some e \<Rightarrow> (parsed', Some e)
                     | None \<Rightarrow> parseManifestsFrom env root ms parsed'))))"

definition parseManifests ::
  "'w synth_env \<Rightarrow> fsnode \<Rightarrow> string list \<Rightarrow> Unstructured list \<times> goerr option" where
  "parseManifests env root manifests = parseManifestsFrom env root manifests []"

definition parseKustomization :: "'w synth_env \<Rightarrow> fsnode \<Rightarrow> string \<Rightarrow> goerr + string list" where
  "parseKustomization env root kustomizationPath =
     (case readFile root kustomizationPath of
        Inl e \<Rightarrow> Inl e
      | Inr content \<Rightarrow>
          (case yamlUnmarshal env content of
             Inl e \<Rightarrow> Inl e
           | Inr k \<Rightarrow>
               Inr (map (\<lambda>resource. joinPath [dirPath kustomizationPath, resource]) (Resources k))))"

section \<open>The kind of application\<close>

fun firstKind :: "(string \<times> fsnode) list \<Rightarrow> string" where
  "firstKind [] = ''''"
| "firstKind ((fileName, d) # es) =
     (if isDir d then firstKind es
      else if hasSuffix fileName ''.go'' then ''go''
      else if hasSuffix fileName ''.ts'' then ''typescript''
      else if hasSuffix fileName ''.py'' then ''python''
      else firstKind es)"

definition cdk8sType :: "fsnode \<Rightarrow> string \<Rightarrow> string" where
  "cdk8sType root directory =
     (case readDir root directory of Inl e \<Rightarrow> '''' | Inr entries \<Rightarrow> firstKind entries)"

section \<open>Synthesize\<close>

text \<open>Lines 47-56: \<open>npm install\<close> for a TypeScript application; its failure is only logged.\<close>

definition installDependencies :: "'w synth_env \<Rightarrow> string \<Rightarrow> string \<Rightarrow> 'w \<Rightarrow> 'w" where
  "installDependencies env directory apiPath w =
     (if cdk8sType (fsTree env w) directory = ''typescript''
      then snd (runCommand env [''npm'', ''install''] apiPath w) else w)"

text \<open>Lines 76-88: the manifests the kustomization files name, in order.\<close>

fun kustomizationManifests ::
  "'w synth_env \<Rightarrow> fsnode \<Rightarrow> string list \<Rightarrow> string list \<Rightarrow> goerr + string list" where
  "kustomizationManifests env root [] allManifests = Inr allManifests"
| "kustomizationManifests env root (k # ks) allManifests =
     (case parseKustomization env root k of
        Inl e \<Rightarrow> Inl e
      | Inr manifestPaths \<Rightarrow> kustomizationManifests env root ks (allManifests @ manifestPaths))"

text \<open>Lines 69-103: from the tree that \<open>cdk8s synth\<close> left behind to the parsed resources.\<close>

definition collectResources ::
  "'w synth_env \<Rightarrow> fsnode \<Rightarrow> string \<Rightarrow> Unstructured list \<times> goerr option" where
  "collectResources env root apiPath =
     (case findManifests root apiPath of
        Inl e \<Rightarrow> ([], Some e)
      | Inr foundManifests \<Rightarrow>
          (if length foundManifests > 0 \<and> isKustomization (basePath (hd foundManifests)) then
             (case kustomizationManifests env root foundManifests [] of
                Inl e \<Rightarrow> ([], Some e)
              | Inr allManifests \<Rightarrow> parseManifests env root allManifests)
           else parseManifests env root foundManifests))"

definition Synthesize ::
  "'w synth_env \<Rightarrow> string \<Rightarrow> Cdk8sAppProxy \<Rightarrow>
     'w \<Rightarrow> (Unstructured list \<times> goerr option) outcome \<times> 'w" where
  "Synthesize env directory proxy w =
     (case GitRepository (proxySpec proxy) of
        None \<Rightarrow> (Panicked, w)
      | Some repo \<Rightarrow>
          (let apiPath = joinPath [directory, Path repo];
               w1 = installDependencies env directory apiPath w
           in case runCommand env [''cdk8s'', ''synth''] apiPath w1 of
                (Some e, w2) \<Rightarrow> (Returned ([], Some e), w2)
              | (None, w2) \<Rightarrow> (Returned (collectResources env (fsTree env w2) apiPath), w2)))"

section \<open>Reference definitions\<close>

text \<open>
  All files of a tree with their names, in the order \<open>WalkDir\<close> visits them; whether every directory
  of the tree can be read; and whether all its entries have proper names.
\<close>

fun treeFiles :: "string \<Rightarrow> string \<Rightarrow> fsnode \<Rightarrow> (string \<times> string) list"
  and entryFiles :: "string \<Rightarrow> (string \<times> fsnode) list \<Rightarrow> (string \<times> string) list"
where
  "treeFiles path name (FileNode c) = [(path, name)]"
| "treeFiles path name (BadDir e) = []"
| "treeFiles path name (DirNode es) = entryFiles path es"
| "entryFiles path [] = []"
| "entryFiles path ((n, d) # es) = treeFiles (joinPath [path, n]) n d @ entryFiles path es"

fun readable :: "fsnode \<Rightarrow> bool" where
  "readable (FileNode c) = True"
| "readable (BadDir e) = False"
| "readable (DirNode es) = list_all (\<lambda>(n, d). readable d) es"

fun properNames :: "fsnode \<Rightarrow> bool" where
  "properNames (FileNode c) = True"
| "properNames (BadDir e) = True"
| "properNames (DirNode es) = list_all (\<lambda>(n, d). plainElem n \<and> properNames d) es"

definition isYaml :: "string \<Rightarrow> bool" where
  "isYaml n = (hasSuffix n ''.yaml'' \<or> hasSuffix n ''.yml'')"

text \<open>What one manifest file contributes: nothing when any part of reading it fails.\<close>

fun docResources :: "'w synth_env \<Rightarrow> string option list \<Rightarrow> Unstructured list option" where
  "docResources env [] = Some []"
| "docResources env (None # ds) = docResources env ds"
| "docResources env (Some raw # ds) =
     (case decodeUnstructured env raw of
        Inl _ \<Rightarrow> None
      | Inr u \<Rightarrow> map_option (\<lambda>us. u # us) (docResources env ds))"

definition fileResources :: "'w synth_env \<Rightarrow> fsnode \<Rightarrow> string \<Rightarrow> Unstructured list option" where
  "fileResources env root m =
     (case readFile root m of
        Inl _ \<Rightarrow> None
      | Inr content \<Rightarrow>
          (case yamlStream env content of
             (docs, None) \<Rightarrow> docResources env docs
           | (docs, Some _) \<Rightarrow> None))"

section \<open>Lemmas\<close>

lemma walkDir_fold:
  "readable d \<Longrightarrow> walkDir v path n d acc = (None, fold (\<lambda>(p, m). v p m) (treeFiles path n d) acc)"
  "list_all (\<lambda>(n, d). readable d) es \<Longrightarrow>
     walkEntries v path es acc = (None, fold (\<lambda>(p, m). v p m) (entryFiles path es) acc)"
  by (induction v path n d acc and v path es acc rule: walkDir_walkEntries.induct) auto

lemma walkDir_unreadable:
  "\<not> readable d \<Longrightarrow> fst (walkDir v path n d acc) \<noteq> None"
  "\<not> list_all (\<lambda>(n, d). readable d) es \<Longrightarrow> fst (walkEntries v path es acc) \<noteq> None"
  by (induction v path n d acc and v path es acc rule: walkDir_walkEntries.induct)
    (auto split: prod.splits option.splits)

lemma visitManifest_yaml:
  "visitManifest p m (ks, rs) =
     (if isYaml m then (if isKustomization m then (ks @ [p], rs) else (ks, rs @ [p])) else (ks, rs))"
  by (simp add: visitManifest_def isYaml_def)

lemma fold_visitManifest:
  "fold (\<lambda>(p, m). visitManifest p m) fs (ks, rs) =
     (ks @ map fst (filter (\<lambda>(p, m). isYaml m \<and> isKustomization m) fs),
      rs @ map fst (filter (\<lambda>(p, m). isYaml m \<and> \<not> isKustomization m) fs))"
  by (induction fs arbitrary: ks rs) (simp_all add: visitManifest_yaml split: prod.splits)

lemma treeFiles_base:
  "properNames d \<Longrightarrow> hasPrefix path ''/'' \<Longrightarrow> basePath path = n \<Longrightarrow>
     (q, m) \<in> set (treeFiles path n d) \<Longrightarrow> basePath q = m"
  "list_all (\<lambda>(n, d). plainElem n \<and> properNames d) es \<Longrightarrow> hasPrefix path ''/'' \<Longrightarrow>
     (q, m) \<in> set (entryFiles path es) \<Longrightarrow> basePath q = m"
  by (induction path n d and path es rule: treeFiles_entryFiles.induct)
    (auto simp: basePath_child joinPath_rooted)

lemma fsLookup_proper: "properNames root \<Longrightarrow> fsLookup root ps = Some d \<Longrightarrow> properNames d"
proof (induction root ps rule: fsLookup.induct)
  case (2 es p ps)
  then obtain n where n: "map_of es p = Some n" "fsLookup n ps = Some d"
    by (auto split: option.splits)
  then have "properNames n"
    using 2(2) map_of_SomeD [of es p n] by (auto simp: list_all_iff)
  with 2(1) n show ?case by auto
qed auto

lemma plain_dist: "plainElem ''dist''"
  by (simp add: plainElem_def)

lemma findManifests_files:
  assumes "nodeAt root (joinPath [dir, ''dist'']) = Some d" and "readable d"
  shows "findManifests root dir =
    Inr (let ys = filter (\<lambda>(p, m). isYaml m) (treeFiles (joinPath [dir, ''dist'']) (basePath (joinPath [dir, ''dist''])) d);
             ks = filter (\<lambda>(p, m). isKustomization m) ys
         in map fst (if ks = [] then ys else ks))"
proof -
  let ?dist = "joinPath [dir, ''dist'']"
  let ?fs = "treeFiles ?dist (basePath ?dist) d"
  have twice: "filter (\<lambda>(p, m). isKustomization m) (filter (\<lambda>(p, m). isYaml m) fs) =
      filter (\<lambda>(p, m). isYaml m \<and> isKustomization m) fs" for fs :: "(string \<times> string) list"
    by (induction fs) auto
  have rest: "filter (\<lambda>(p, m). isYaml m \<and> \<not> isKustomization m) fs = filter (\<lambda>(p, m). isYaml m) fs"
    if "filter (\<lambda>(p, m). isYaml m \<and> isKustomization m) fs = []" for fs :: "(string \<times> string) list"
    using that by (induction fs) (auto split: if_splits)
  have walk: "walkDir visitManifest ?dist (basePath ?dist) d ([], []) =
      (None, map fst (filter (\<lambda>(p, m). isYaml m \<and> isKustomization m) ?fs),
       map fst (filter (\<lambda>(p, m). isYaml m \<and> \<not> isKustomization m) ?fs))"
    by (simp only: walkDir_fold(1) [OF assms(2)] fold_visitManifest append_Nil)
  show ?thesis
    using rest [of ?fs] by (simp add: findManifests_def Let_def assms(1) walk twice del: filter_filter)
qed

lemma findManifests_names:
  assumes "properNames root" and "hasPrefix dir ''/''" and "findManifests root dir = Inr found"
    and "q \<in> set found"
  shows "isYaml (basePath q) \<and> (isKustomization (basePath q) \<longleftrightarrow> isKustomization (basePath (hd found)))"
proof -
  let ?dist = "joinPath [dir, ''dist'']"
  obtain d where d: "nodeAt root ?dist = Some d"
    using assms(3) by (auto simp: findManifests_def Let_def split: option.splits)
  have "readable d"
    using assms(3) d walkDir_unreadable(1) [of d visitManifest ?dist "basePath ?dist" "([], [])"]
    by (auto simp: findManifests_def Let_def split: prod.splits option.splits)
  note found = findManifests_files [OF d this, unfolded assms(3)]
  have "properNames d" using assms(1) d by (auto simp: nodeAt_def intro: fsLookup_proper)
  then have base: "basePath p = m" if "(p, m) \<in> set (treeFiles ?dist (basePath ?dist) d)" for p m
    using that treeFiles_base(1) joinPath_rooted [OF assms(2) plain_dist] by blast
  define ys where "ys = filter (\<lambda>(p, m). isYaml m) (treeFiles ?dist (basePath ?dist) d)"
  define ks where "ks = filter (\<lambda>(p, m). isKustomization m) ys"
  have ys: "isYaml (basePath p) \<and> basePath p = m" if "(p, m) \<in> set ys" for p m
    using that base by (auto simp: ys_def)
  have found: "found = map fst (if ks = [] then ys else ks)"
    using found by (simp add: ys_def ks_def Let_def)
  have names: "isYaml (basePath p) \<and> (isKustomization (basePath p) \<longleftrightarrow> ks \<noteq> [])"
    if "p \<in> set found" for p
  proof -
    obtain m where m: "(p, m) \<in> set (if ks = [] then ys else ks)" using \<open>p \<in> set found\<close> found by auto
    then have "(p, m) \<in> set ys" by (auto simp: ks_def split: if_splits)
    with m ys show ?thesis by (auto simp: ks_def filter_empty_conv split: if_splits)
  qed
  have "hd found \<in> set found" using assms(4) by (cases found) auto
  with names assms(4) show ?thesis by blast
qed

lemma parseDocs_spec:
  "parseDocs env ds acc = (acc', err) \<Longrightarrow>
     (case docResources env ds of None \<Rightarrow> err \<noteq> None | Some us \<Rightarrow> err = None \<and> acc' = acc @ us)"
proof (induction env ds acc rule: parseDocs.induct)
  case (3 env raw ds acc)
  then show ?case
    by (cases "decodeUnstructured env raw"; cases "docResources env ds") auto
qed auto

lemma parseManifestsFrom_spec:
  "parseManifestsFrom env root ms acc = (acc', err) \<Longrightarrow>
     (case those (map (fileResources env root) ms) of
        None \<Rightarrow> err \<noteq> None
      | Some uss \<Rightarrow> err = None \<and> acc' = acc @ concat uss)"
proof (induction ms arbitrary: acc)
  case Nil
  then show ?case by simp
next
  case (Cons m ms)
  show ?case
  proof (cases "fileResources env root m")
    case None
    with Cons.prems show ?thesis
      by (auto simp: fileResources_def split: sum.splits prod.splits option.splits dest: parseDocs_spec)
  next
    case (Some us)
    then obtain content docs where r: "readFile root m = Inr content"
      "yamlStream env content = (docs, None)" "docResources env docs = Some us"
      by (auto simp: fileResources_def split: sum.splits prod.splits option.splits)
    then have "parseDocs env docs acc = (acc @ us, None)"
      using parseDocs_spec [of env docs acc] by (cases "parseDocs env docs acc") auto
    with r Cons.prems have "parseManifestsFrom env root ms (acc @ us) = (acc', err)" by simp
    from Cons.IH [OF this] Some show ?thesis by (auto split: option.splits)
  qed
qed

lemma firstKind_no_ts:
  "(\<And>n d. (n, d) \<in> set es \<Longrightarrow> isDir d \<or> \<not> hasSuffix n ''.ts'') \<Longrightarrow> firstKind es \<noteq> ''typescript''"
  by (induction es rule: firstKind.induct) auto

lemma joinPath_clean_dir:
  assumes "hasPrefix d ''/''" and "plainElem n"
  shows "joinPath [cleanPath d, n] = joinPath [d, n]"
  using assms cleanElems_cleanPath [OF assms(1)]
  by (simp add: joinPath_child cleanPath_rooted hasPrefix_code)

section \<open>Sample data\<close>

text \<open>
  A clone in \<open>/app\<close> whose \<open>cdk8s\<close> output holds two manifests and a text file, and an environment
  that logs commands; the YAML of the sample is one document per file, its text the resource's name.
\<close>

definition sampleTree :: fsnode where
  "sampleTree = DirNode [(''app'', DirNode
     [(''dist'', DirNode
        [(''a.yaml'', FileNode (Inr ''a'')),
         (''notes.txt'', FileNode (Inr ''n'')),
         (''sub'', DirNode [(''b.yml'', FileNode (Inr ''b'')),
                            (''kustomization.yaml'', FileNode (Inr ''k''))])]),
      (''files'', DirNode [(''app.ts'', FileNode (Inr ''t''))]),
      (''main.go'', FileNode (Inr ''g''))])]"

definition sampleResource :: "string \<Rightarrow> Unstructured" where
  "sampleResource n = \<lparr>resGroup = ''apps'', resVersion = ''v1'', resKind = ''Deployment'',
     resNamespace = ''default'', resName = n, resContent = n\<rparr>"

definition sampleSynth :: "string list synth_env" where
  "sampleSynth = \<lparr>fsTree = (\<lambda>_. sampleTree), runCommand = (\<lambda>c d w. (None, w @ [joinWith '' '' c])),
     yamlUnmarshal = (\<lambda>c. Inr \<lparr>kustAPIVersion = '''', kustKind = ''Kustomization'', kustName = '''',
       kustNamespace = '''', Resources = [''b.yml'']\<rparr>),
     yamlStream = (\<lambda>c. ([Some c, None], None)),
     decodeUnstructured = (\<lambda>c. Inr (sampleResource c))\<rparr>"

lemmas sample_synth_simps = sampleTree_def sampleSynth_def sampleResource_def nodeAt_def readDir_def
  readFile_def isYaml_def isKustomization_def kustomizationNames_def isDir_def

definition sampleDist :: fsnode where
  "sampleDist = DirNode
     [(''a.yaml'', FileNode (Inr ''a'')),
      (''notes.txt'', FileNode (Inr ''n'')),
      (''sub'', DirNode [(''b.yml'', FileNode (Inr ''b'')), (''kustomization.yaml'', FileNode (Inr ''k''))])]"

lemma sample_synth_ops:
  "fsTree sampleSynth w = sampleTree"
  "runCommand sampleSynth c d w = (None, w @ [joinWith '' '' c])"
  "yamlUnmarshal sampleSynth s = Inr \<lparr>kustAPIVersion = '''', kustKind = ''Kustomization'', kustName = '''',
     kustNamespace = '''', Resources = [''b.yml'']\<rparr>"
  "yamlStream sampleSynth s = ([Some s, None], None)"
  "decodeUnstructured sampleSynth s = Inr (sampleResource s)"
  by (simp_all add: sampleSynth_def)

lemma sample_paths:
  "joinPath [''/app'', ''dist''] = ''/app/dist''" "basePath ''/app/dist'' = ''dist''"
  "joinPath [''/app/dist'', ''a.yaml''] = ''/app/dist/a.yaml''"
  "joinPath [''/app/dist'', ''notes.txt''] = ''/app/dist/notes.txt''"
  "joinPath [''/app/dist'', ''sub''] = ''/app/dist/sub''"
  "joinPath [''/app/dist/sub'', ''b.yml''] = ''/app/dist/sub/b.yml''"
  "joinPath [''/app/dist/sub'', ''kustomization.yaml''] = ''/app/dist/sub/kustomization.yaml''"
  "basePath ''/app/dist/sub/kustomization.yaml'' = ''kustomization.yaml''"
  by (simp_all add: path_simps go_simps)

lemma sample_dist: "nodeAt sampleTree ''/app/dist'' = Some sampleDist" "readable sampleDist"
  by (simp_all add: sampleTree_def sampleDist_def nodeAt_def path_simps go_simps)

lemma sample_found: "findManifests sampleTree ''/app'' = Inr [''/app/dist/sub/kustomization.yaml'']"
  using findManifests_files [of sampleTree "''/app''" sampleDist]
  by (simp add: sample_paths sample_dist)
    (simp add: sampleDist_def sample_paths isYaml_def isKustomization_def kustomizationNames_def go_simps)

section \<open>Properties\<close>

text \<open>
  C30. \<open>findManifests\<close> against its specification: if \<open>dist\<close> exists and can be read throughout, the
  result is the list, in walk order, of all kustomization files below it, or, when there is none,
  of all files with a YAML extension.
\<close>

theorem find_manifests_complete:
  assumes "nodeAt root (joinPath [dir, ''dist'']) = Some d" and "readable d"
  shows "findManifests root dir =
    Inr (let ys = filter (\<lambda>(p, m). isYaml m) (treeFiles (joinPath [dir, ''dist'']) (basePath (joinPath [dir, ''dist''])) d);
             ks = filter (\<lambda>(p, m). isKustomization m) ys
         in map fst (if ks = [] then ys else ks))"
  using assms by (rule findManifests_files)

theorem find_manifests_complete_witness:
  "findManifests sampleTree ''/app'' = Inr [''/app/dist/sub/kustomization.yaml'']"
  using find_manifests_complete [of sampleTree "''/app''" sampleDist]
  by (simp add: sample_paths sample_dist)
    (simp add: sampleDist_def sample_paths isYaml_def isKustomization_def kustomizationNames_def go_simps)

text \<open>
  \<open>Synthesize\<close> looks at the first found file only to decide whether the list holds kustomization
  files. That is enough: either all found files are kustomization files or none is. And the
  name \<open>Kustomization\<close>, although in the list of kustomization names, is never found, since it
  has no YAML extension.
\<close>

theorem manifest_mode_uniform:
  assumes "properNames root" and "hasPrefix dir ''/''" and "findManifests root dir = Inr found"
  shows "((\<forall>q\<in>set found. isKustomization (basePath q)) \<or> (\<forall>q\<in>set found. \<not> isKustomization (basePath q)))
    \<and> ''Kustomization'' \<notin> basePath ` set found"
proof
  have names: "isYaml (basePath q)" "isKustomization (basePath q) = isKustomization (basePath (hd found))"
    if "q \<in> set found" for q
    using findManifests_names [OF assms that] by auto
  then show "(\<forall>q\<in>set found. isKustomization (basePath q)) \<or> (\<forall>q\<in>set found. \<not> isKustomization (basePath q))"
    by auto
  have "\<not> isYaml ''Kustomization''" by (simp add: isYaml_def go_simps)
  with names(1) show "''Kustomization'' \<notin> basePath ` set found" by force
qed

theorem manifest_mode_uniform_witness:
  "list_all (\<lambda>q. isKustomization (basePath q)) [''/app/dist/sub/kustomization.yaml'']"
proof -
  have "properNames sampleTree" by (simp add: sampleTree_def plainElem_def)
  from manifest_mode_uniform [OF this _ sample_found] show ?thesis
    by (simp add: sample_paths isKustomization_def kustomizationNames_def go_simps)
qed

text \<open>
  C31. \<open>parseManifests\<close> succeeds exactly when every file can be read, every document of it decodes
  and its stream ends at EOF; then it returns the documents of all files in order, empty documents
  left out, and nothing else.
\<close>

theorem parse_manifests_complete:
  "case those (map (fileResources env root) ms) of
     Some uss \<Rightarrow> parseManifests env root ms = (concat uss, None)
   | None \<Rightarrow> snd (parseManifests env root ms) \<noteq> None"
  using parseManifestsFrom_spec [of env root ms "[]"]
  by (cases "parseManifestsFrom env root ms []")
    (auto simp: parseManifests_def split: option.splits)

text \<open>
  A kustomization file in a directory \<open>d\<close> that lists plain file names refers to the files of
  those names in the same directory, in the order listed.
\<close>

theorem kustomization_resources_are_siblings:
  assumes "hasPrefix d ''/''" and "plainElem k" and "readFile root (joinPath [d, k]) = Inr content"
    and "yamlUnmarshal env content = Inr kust" and "list_all plainElem (Resources kust)"
  shows "parseKustomization env root (joinPath [d, k]) = Inr (map (\<lambda>r. joinPath [d, r]) (Resources kust))"
  using assms
  by (auto simp: parseKustomization_def dirPath_child joinPath_clean_dir list_all_iff)

theorem kustomization_resources_are_siblings_witness:
  "parseKustomization sampleSynth sampleTree ''/app/dist/sub/kustomization.yaml'' = Inr [''/app/dist/sub/b.yml'']"
proof -
  have "readFile sampleTree ''/app/dist/sub/kustomization.yaml'' = Inr ''k''"
    by (simp add: sampleTree_def readFile_def nodeAt_def path_simps)
  then show ?thesis
    using kustomization_resources_are_siblings [of "''/app/dist/sub''" "''kustomization.yaml''" sampleTree "''k''" sampleSynth]
    by (simp add: sample_paths sampleSynth_def plainElem_def go_simps)
qed

text \<open>
  The kind of application is detected in the root of the clone, not in the configured path:
  when no file of the root itself has the extension \<open>.ts\<close>, \<open>npm install\<close> is not run, whatever
  the configured path contains, and \<open>cdk8s synth\<close> is the first and only command.
\<close>

theorem npm_install_only_for_root_typescript:
  assumes "readDir (fsTree env w) directory = Inr es"
    and "\<And>n d. (n, d) \<in> set es \<Longrightarrow> isDir d \<or> \<not> hasSuffix n ''.ts''"
    and "GitRepository (proxySpec p) = Some repo"
  shows "Synthesize env directory p w =
    (case runCommand env [''cdk8s'', ''synth''] (joinPath [directory, Path repo]) w of
       (Some e, w2) \<Rightarrow> (Returned ([], Some e), w2)
     | (None, w2) \<Rightarrow> (Returned (collectResources env (fsTree env w2) (joinPath [directory, Path repo])), w2))"
  using assms firstKind_no_ts [of es]
  by (simp add: Synthesize_def Let_def installDependencies_def cdk8sType_def)

theorem npm_install_only_for_root_typescript_witness:
  "snd (Synthesize sampleSynth ''/app'' sampleProxy []) = [''cdk8s synth'']"
proof -
  have dir: "readDir (fsTree sampleSynth []) ''/app'' =
      Inr [(''dist'', sampleDist), (''files'', DirNode [(''app.ts'', FileNode (Inr ''t''))]),
           (''main.go'', FileNode (Inr ''g''))]"
    by (simp add: sampleSynth_def sampleTree_def sampleDist_def readDir_def nodeAt_def path_simps)
  show ?thesis
    by (subst npm_install_only_for_root_typescript [OF dir])
      (auto simp: sampleDist_def isDir_def sampleProxy_def sampleSynth_def go_simps)
qed

end
