(* ===== verification/Resourcer.thy ===== *)
theory Resourcer
  imports Synthesizer Credentials
begin

text \<open>
  Deploying the parsed resources to the selected clusters and checking that they are there
  (\<open>controllers/resourcer/resourcer.go\<close>).

  The management cluster's API (\<open>List\<close> of clusters, \<open>Get\<close> of secrets), the label-selector
  conversion, the kubeconfig parser and the dynamic client are the fields of \<open>resource_env\<close>. A
  REST configuration and a dynamic client are opaque handles; a nil \<open>dynamic.Interface\<close> is \<open>None\<close>,
  and calling a method of it panics.
\<close>

section \<open>Types and parameters\<close>

type_synonym restConfig = nat
type_synonym dynClient = nat

record Cluster =
  clusterNamespace :: string
  clusterName :: string
  clusterLabels :: labels

record GroupVersionResource =
  gvrGroup :: string
  gvrVersion :: string
  gvrResource :: string

record ApplyOptions =
  FieldManager :: string
  Force :: bool

record 'w resource_env =
  asSelector :: "LabelSelector \<Rightarrow> goerr + (labels \<Rightarrow> bool)"
  listClusters :: "(labels \<Rightarrow> bool) \<Rightarrow> ('w, goerr + Cluster list) io"
  secretGet :: "'w secret_get"
  restConfigFromKubeConfig :: "bytes \<Rightarrow> goerr + restConfig"
  dynamicNewForConfig :: "restConfig \<Rightarrow> goerr + dynClient"
  dynApply :: "dynClient \<Rightarrow> GroupVersionResource \<Rightarrow> string \<Rightarrow> string \<Rightarrow> Unstructured \<Rightarrow>
                 ApplyOptions \<Rightarrow> ('w, goerr option) io"
  dynGet :: "dynClient \<Rightarrow> GroupVersionResource \<Rightarrow> string option \<Rightarrow> string \<Rightarrow> ('w, goerr option) io"

section \<open>Names of resources\<close>

definition getPluralFromKind :: "string \<Rightarrow> string" where
  "getPluralFromKind kind =
     (let lowerKind = toLower kind
      in if hasSuffix lowerKind ''s'' then lowerKind @ ''es''
         else if hasSuffix lowerKind ''y'' then trimSuffix lowerKind ''y'' @ ''ies''
         else lowerKind @ ''s'')"

definition resourceGVR :: "Unstructured \<Rightarrow> GroupVersionResource" where
  "resourceGVR resource =
     \<lparr>gvrGroup = resGroup resource, gvrVersion = resVersion resource,
      gvrResource = getPluralFromKind (resKind resource)\<rparr>"

section \<open>Clusters\<close>

definition clusterList :: "'w resource_env \<Rightarrow> Cdk8sAppProxy \<Rightarrow> ('w, goerr + Cluster list) io" where
  "clusterList env proxy w =
     (case asSelector env (ClusterSelector (proxySpec proxy)) of
        Inl e \<Rightarrow> (Inl e, w)
      | Inr selector \<Rightarrow> listClusters env selector w)"

definition clusterClient ::
  "'w resource_env \<Rightarrow> string \<Rightarrow> string \<Rightarrow> ('w, goerr + dynClient option) io" where
  "clusterClient env secretNamespace cluster w =
     (case secretGet env secretNamespace (cluster @ ''-kubeconfig'') w of
        (Inl e, w1) \<Rightarrow> (Inl e, w1)
      | (Inr data, w1) \<Rightarrow>
          (case data ''value'' of
             None \<Rightarrow> (Inr None, w1)
           | Some kubeconfigData \<Rightarrow>
               if blen kubeconfigData = 0 then (Inr None, w1)
               else
                 (case restConfigFromKubeConfig env kubeconfigData of
                    Inl e \<Rightarrow> (Inl e, w1)
                  | Inr cfg \<Rightarrow>
                      (case dynamicNewForConfig env cfg of
                         Inl e \<Rightarrow> (Inl e, w1)
                       | Inr c \<Rightarrow> (Inr (Some c), w1)))))"

section \<open>Apply\<close>

definition applyOpts :: ApplyOptions where
  "applyOpts = \<lparr>FieldManager = ''cdk8sappproxy-controller'', Force = True\<rparr>"

text \<open>
  The inner loop. The \<open>err\<close> it assigns is the one declared by \<open>c, err :=\<close> in the body of the outer
  loop; after the \<open>break\<close> nothing reads it.
\<close>

fun applyResources ::
  "'w resource_env \<Rightarrow> dynClient option \<Rightarrow> Unstructured list \<Rightarrow> 'w \<Rightarrow> unit outcome \<times> 'w" where
  "applyResources env c [] w = (Returned (), w)"
| "applyResources env c (resource # rs) w =
     (case c of
        None \<Rightarrow> (Panicked, w)
      | Some cl \<Rightarrow>
          (case dynApply env cl (resourceGVR resource) (resNamespace resource) (resName resource)
                  resource applyOpts w of
             (Some e, w1) \<Rightarrow> (Returned (), w1)
           | (None, w1) \<Rightarrow> applyResources env c rs w1))"

fun applyClusters ::
  "'w resource_env \<Rightarrow> Unstructured list \<Rightarrow> Cluster list \<Rightarrow> 'w \<Rightarrow> unit outcome \<times> 'w" where
  "applyClusters env resources [] w = (Returned (), w)"
| "applyClusters env resources (cluster # cs) w =
     (case clusterClient env (clusterNamespace cluster) (clusterName cluster) w of
        (Inl e, w1) \<Rightarrow> (Returned (), w1)
      | (Inr c, w1) \<Rightarrow>
          (case applyResources env c resources w1 of
             (Panicked, w2) \<Rightarrow> (Panicked, w2)
           | (Returned _, w2) \<Rightarrow> applyClusters env resources cs w2))"

text \<open>The value returned at the end is the function's own \<open>err\<close>, nil since the clusters were listed.\<close>

definition Apply ::
  "'w resource_env \<Rightarrow> Cdk8sAppProxy \<Rightarrow> Unstructured list \<Rightarrow> 'w \<Rightarrow> goerr option outcome \<times> 'w" where
  "Apply env proxy parsedResources w =
     (case clusterList env proxy w of
        (Inl e, w1) \<Rightarrow> (Returned (Some e), w1)
      | (Inr clusters, w1) \<Rightarrow>
          (case applyClusters env parsedResources clusters w1 of
             (Panicked, w2) \<Rightarrow> (Panicked, w2)
           | (Returned _, w2) \<Rightarrow> (Returned None, w2)))"

section \<open>Check\<close>

definition getResource ::
  "'w resource_env \<Rightarrow> dynClient \<Rightarrow> Unstructured \<Rightarrow> ('w, goerr option) io" where
  "getResource env cl resource =
     dynGet env cl (resourceGVR resource)
       (if resNamespace resource \<noteq> '''' then Some (resNamespace resource) else None) (resName resource)"

text \<open>\<open>missing\<close> is the variable \<open>missingResources\<close>; an error of the result ends the whole check.\<close>

fun checkResources ::
  "'w resource_env \<Rightarrow> dynClient option \<Rightarrow> Unstructured list \<Rightarrow> bool \<Rightarrow>
     'w \<Rightarrow> (bool \<times> goerr option) outcome \<times> 'w" where
  "checkResources env c [] missing w = (Returned (missing, None), w)"
| "checkResources env c (resource # rs) missing w =
     (case c of
        None \<Rightarrow> (Panicked, w)
      | Some cl \<Rightarrow>
          (case getResource env cl resource w of
             (None, w1) \<Rightarrow> checkResources env c rs missing w1
           | (Some e, w1) \<Rightarrow>
               if isNotFound e then checkResources env c rs True w1
               else (Returned (missing, Some e), w1)))"

fun checkClusters ::
  "'w resource_env \<Rightarrow> Unstructured list \<Rightarrow> Cluster list \<Rightarrow> bool \<Rightarrow>
     'w \<Rightarrow> (bool \<times> goerr option) outcome \<times> 'w" where
  "checkClusters env resources [] missing w = (Returned (missing, None), w)"
| "checkClusters env resources (cluster # cs) missing w =
     (case clusterClient env (clusterNamespace cluster) (clusterName cluster) w of
        (Inl e, w1) \<Rightarrow> (Returned (missing, Some e), w1)
      | (Inr c, w1) \<Rightarrow>
          (case checkResources env c resources missing w1 of
             (Panicked, w2) \<Rightarrow> (Panicked, w2)
           | (Returned (missing', Some e), w2) \<Rightarrow> (Returned (missing', Some e), w2)
           | (Returned (missing', None), w2) \<Rightarrow> checkClusters env resources cs missing' w2))"

definition Check ::
  "'w resource_env \<Rightarrow> Cdk8sAppProxy \<Rightarrow> Unstructured list \<Rightarrow>
     'w \<Rightarrow> (bool \<times> goerr option) outcome \<times> 'w" where
  "Check env proxy parsedResources w =
     (case clusterList env proxy w of
        (Inl e, w1) \<Rightarrow> (Returned (False, Some e), w1)
      | (Inr clusters, w1) \<Rightarrow> checkClusters env parsedResources clusters False w1)"

section \<open>The interface\<close>

text \<open>
  What both operations of the \<open>Resourcer\<close> promise about the listing of the clusters they start with:
  its error is their error, and without a selected cluster they do nothing.
\<close>

locale cluster_operation =
  fixes listing :: "('w, goerr + Cluster list) io"
    and operation :: "'w \<Rightarrow> 'r outcome \<times> 'w"
    and failed :: "goerr \<Rightarrow> 'r"
    and idle :: 'r
  assumes listing_error: "listing w = (Inl e, w') \<Longrightarrow> operation w = (Returned (failed e), w')"
    and no_clusters: "listing w = (Inr [], w') \<Longrightarrow> operation w = (Returned idle, w')"
begin

lemma panic_needs_cluster: "fst (operation w) = Panicked \<Longrightarrow> \<exists>c cs. fst (listing w) = Inr (c # cs)"
proof -
  assume panic: "fst (operation w) = Panicked"
  obtain r w' where l: "listing w = (r, w')" by fastforce
  show ?thesis
  proof (cases r)
    case (Inl e)
    with l panic listing_error show ?thesis by simp
  next
    case (Inr cs)
    with l panic no_clusters show ?thesis by (cases cs) auto
  qed
qed

end

interpretation applyOp: cluster_operation "clusterList env proxy" "Apply env proxy resources" Some None
  for env :: "'w resource_env" and proxy resources
  by unfold_locales (auto simp: Apply_def)

interpretation checkOp: cluster_operation "clusterList env proxy" "Check env proxy resources"
  "\<lambda>e. (False, Some e)" "(False, None)"
  for env :: "'w resource_env" and proxy resources
  by unfold_locales (auto simp: Check_def)

section \<open>Reference definitions\<close>

text \<open>Reads of the two APIs do not change the state of the clusters.\<close>

definition readOnly :: "'w resource_env \<Rightarrow> bool" where
  "readOnly env \<longleftrightarrow>
     (\<forall>f w. snd (listClusters env f w) = w) \<and> (\<forall>ns n w. snd (secretGet env ns n w) = w) \<and>
     (\<forall>cl g ns n w. snd (dynGet env cl g ns n w) = w)"

text \<open>
  Everything is there: the client of every cluster was obtained, and each resource can be read with
  it. (Without resources the client may be nil.)
\<close>

definition present :: "'w resource_env \<Rightarrow> Unstructured list \<Rightarrow> 'w \<Rightarrow> Cluster \<Rightarrow> bool" where
  "present env resources w c =
     (case fst (clusterClient env (clusterNamespace c) (clusterName c) w) of
        Inl _ \<Rightarrow> False
      | Inr None \<Rightarrow> resources = []
      | Inr (Some cl) \<Rightarrow> list_all (\<lambda>r. fst (getResource env cl r w) = None) resources)"

text \<open>Deploying to one cluster when nothing fails: one server-side apply per resource, in order.\<close>

definition deployTo :: "'w resource_env \<Rightarrow> Unstructured list \<Rightarrow> Cluster \<Rightarrow> 'w \<Rightarrow> 'w" where
  "deployTo env resources c w =
     (case clusterClient env (clusterNamespace c) (clusterName c) w of
        (Inr (Some cl), w1) \<Rightarrow>
          fold (\<lambda>r v. snd (dynApply env cl (resourceGVR r) (resNamespace r) (resName r) r applyOpts v))
            resources w1
      | (_, w1) \<Rightarrow> w1)"

section \<open>Lemmas\<close>

lemma clusterClient_readOnly [simp]: "readOnly env \<Longrightarrow> snd (clusterClient env ns n w) = w"
  by (auto simp: readOnly_def clusterClient_def split: prod.splits sum.splits option.splits)
    (metis snd_conv)+

lemma getResource_readOnly [simp]: "readOnly env \<Longrightarrow> snd (getResource env cl r w) = w"
  by (simp add: readOnly_def getResource_def)

lemma clusterList_readOnly [simp]: "readOnly env \<Longrightarrow> snd (clusterList env p w) = w"
  by (auto simp: readOnly_def clusterList_def split: sum.splits)

lemma readOnly_client:
  assumes "readOnly env"
  obtains r where "clusterClient env ns n w = (r, w)"
  using clusterClient_readOnly [OF assms, of ns n w] by (cases "clusterClient env ns n w") auto

lemma readOnly_get:
  assumes "readOnly env"
  obtains g where "getResource env cl r w = (g, w)"
  using getResource_readOnly [OF assms, of cl r w] by (cases "getResource env cl r w") auto

lemma checkResources_snd: "readOnly env \<Longrightarrow> snd (checkResources env c rs m w) = w"
proof (induction rs arbitrary: m)
  case (Cons r rs)
  show ?case
  proof (cases c)
    case (Some cl)
    obtain g where "getResource env cl r w = (g, w)" using readOnly_get [OF Cons.prems] .
    with Some Cons show ?thesis by (cases g) auto
  qed simp
qed simp

lemma checkResources_present:
  assumes "readOnly env"
  shows "fst (checkResources env c rs m w) = Returned (False, None) \<longleftrightarrow>
     \<not> m \<and> (rs = [] \<or> (\<exists>cl. c = Some cl \<and> list_all (\<lambda>r. fst (getResource env cl r w) = None) rs))"
proof (induction rs arbitrary: m)
  case (Cons r rs)
  show ?case
  proof (cases c)
    case (Some cl)
    obtain g where "getResource env cl r w = (g, w)" using readOnly_get [OF assms] .
    with Some Cons.IH show ?thesis by (cases g; cases rs) simp_all
  qed simp
qed simp

lemma checkResources_monotone: "fst (checkResources env c rs True w) \<noteq> Returned (False, x)"
  by (induction rs arbitrary: w) (auto split: option.splits prod.splits)

lemma checkClusters_monotone: "fst (checkClusters env rs cs True w) \<noteq> Returned (False, x)"
proof (induction cs arbitrary: w)
  case (Cons c cs)
  obtain r w1 where r: "clusterClient env (clusterNamespace c) (clusterName c) w = (r, w1)" by fastforce
  show ?case
  proof (cases r)
    case (Inr co)
    obtain res w2 where res: "checkResources env co rs True w1 = (res, w2)" by fastforce
    show ?thesis
    proof (cases res)
      case (Returned me)
      obtain m err where me: "me = (m, err)" by fastforce
      have m using checkResources_monotone [of env co rs w1 err] res Returned me by (cases m) auto
      with r res Inr Returned me Cons.IH show ?thesis by (cases err) auto
    qed (use r res Inr in simp)
  qed (use r in simp)
qed simp

lemma checkClusters_present:
  assumes "readOnly env"
  shows "fst (checkClusters env rs cs False w) = Returned (False, None) \<longleftrightarrow> list_all (present env rs w) cs"
proof (induction cs)
  case (Cons c cs)
  obtain r where r: "clusterClient env (clusterNamespace c) (clusterName c) w = (r, w)"
    using readOnly_client [OF assms] .
  show ?case
  proof (cases r)
    case (Inl e)
    with r show ?thesis by (simp add: present_def)
  next
    case (Inr co)
    obtain res where res: "checkResources env co rs False w = (res, w)"
      using checkResources_snd [OF assms, of co rs False w]
      by (cases "checkResources env co rs False w") auto
    have pres: "present env rs w c \<longleftrightarrow> res = Returned (False, None)"
      using checkResources_present [OF assms, of co rs False w] r Inr res
      by (cases co) (auto simp: present_def)
    show ?thesis
    proof (cases res)
      case Panicked
      with res r Inr pres show ?thesis by simp
    next
      case (Returned me)
      obtain m err where me: "me = (m, err)" by fastforce
      show ?thesis
        using res r Inr pres Returned me Cons.IH checkClusters_monotone [of env rs cs w None]
        by (cases err; cases m) auto
    qed
  qed
qed simp

lemma checkClusters_snd: "readOnly env \<Longrightarrow> snd (checkClusters env rs cs m w) = w"
proof (induction cs arbitrary: m)
  case (Cons c cs)
  obtain r where r: "clusterClient env (clusterNamespace c) (clusterName c) w = (r, w)"
    using readOnly_client [OF Cons.prems] .
  show ?case
  proof (cases r)
    case (Inr co)
    obtain res where "checkResources env co rs m w = (res, w)"
      using checkResources_snd [OF Cons.prems, of co rs m w] by (cases "checkResources env co rs m w") auto
    with r Inr Cons show ?thesis by (auto split: outcome.splits option.splits)
  qed (use r in simp)
qed simp

lemma Check_readOnly:
  assumes "readOnly env"
  shows "snd (Check env p rs w) = w"
    and "fst (Check env p rs w) = Returned (False, None) \<longleftrightarrow>
      (\<exists>cs. fst (clusterList env p w) = Inr cs \<and> list_all (present env rs w) cs)"
proof -
  obtain r where r: "clusterList env p w = (r, w)"
    using clusterList_readOnly [OF assms, of p w] by (cases "clusterList env p w") auto
  then show "snd (Check env p rs w) = w"
    by (cases r) (simp_all add: Check_def checkClusters_snd [OF assms])
  from r show "fst (Check env p rs w) = Returned (False, None) \<longleftrightarrow>
      (\<exists>cs. fst (clusterList env p w) = Inr cs \<and> list_all (present env rs w) cs)"
    by (cases r) (simp_all add: Check_def checkClusters_present [OF assms])
qed

lemma applyResources_ok:
  assumes "\<And>r v. r \<in> set rs \<Longrightarrow> fst (dynApply env cl (resourceGVR r) (resNamespace r) (resName r) r applyOpts v) = None"
  shows "applyResources env (Some cl) rs w =
    (Returned (), fold (\<lambda>r v. snd (dynApply env cl (resourceGVR r) (resNamespace r) (resName r) r applyOpts v)) rs w)"
  using assms
proof (induction rs arbitrary: w)
  case (Cons r rs)
  from Cons.prems [of r w] obtain w1 where
    "dynApply env cl (resourceGVR r) (resNamespace r) (resName r) r applyOpts w = (None, w1)"
    by (cases "dynApply env cl (resourceGVR r) (resNamespace r) (resName r) r applyOpts w") auto
  with Cons show ?case by simp
qed simp

lemma applyClusters_ok:
  assumes "\<And>c v. c \<in> set cs \<Longrightarrow>
      \<exists>cl. fst (clusterClient env (clusterNamespace c) (clusterName c) v) = Inr (Some cl)"
    and "\<And>cl r v. r \<in> set rs \<Longrightarrow>
      fst (dynApply env cl (resourceGVR r) (resNamespace r) (resName r) r applyOpts v) = None"
  shows "applyClusters env rs cs w = (Returned (), fold (deployTo env rs) cs w)"
  using assms(1)
proof (induction cs arbitrary: w)
  case (Cons c cs)
  from Cons.prems [of c w] obtain cl w1 where
    "clusterClient env (clusterNamespace c) (clusterName c) w = (Inr (Some cl), w1)"
    by (cases "clusterClient env (clusterNamespace c) (clusterName c) w") auto
  with Cons applyResources_ok [OF assms(2)] show ?case by (simp add: deployTo_def)
qed simp

lemma applyClusters_no_panic:
  assumes "\<And>ns n v. fst (clusterClient env ns n v) \<noteq> Inr None"
  shows "fst (applyClusters env rs cs w) \<noteq> Panicked"
proof (induction cs arbitrary: w)
  case (Cons c cs)
  have inner: "fst (applyResources env (Some cl) rs v) \<noteq> Panicked" for cl v
    by (induction rs arbitrary: v) (simp_all split: prod.splits option.splits)
  obtain r w1 where r: "clusterClient env (clusterNamespace c) (clusterName c) w = (r, w1)" by fastforce
  then have "r \<noteq> Inr None" using assms [of "clusterNamespace c" "clusterName c" w] by simp
  then show ?case
    using r inner Cons.IH
    by (cases r; cases "projr r") (auto split: prod.splits outcome.splits, metis fst_conv)
qed simp

lemma checkClusters_no_panic:
  assumes "\<And>ns n v. fst (clusterClient env ns n v) \<noteq> Inr None"
  shows "fst (checkClusters env rs cs m w) \<noteq> Panicked"
proof (induction cs arbitrary: m w)
  case (Cons c cs)
  have inner: "fst (checkResources env (Some cl) rs m' v) \<noteq> Panicked" for cl m' v
    by (induction rs arbitrary: m' v) (simp_all split: prod.splits option.splits)
  obtain r w1 where r: "clusterClient env (clusterNamespace c) (clusterName c) w = (r, w1)" by fastforce
  then have "r \<noteq> Inr None" using assms [of "clusterNamespace c" "clusterName c" w] by simp
  then show ?case
    using r inner Cons.IH
    by (cases r; cases "projr r") (auto split: prod.splits outcome.splits option.splits, metis fst_conv)
qed simp

lemma no_panic:
  assumes "\<And>ns n v. fst (clusterClient env ns n v) \<noteq> Inr None"
  shows "fst (Apply env p rs w) \<noteq> Panicked" and "fst (Check env p rs w) \<noteq> Panicked"
  using applyClusters_no_panic [OF assms] checkClusters_no_panic [OF assms]
  by (auto simp: Apply_def Check_def split: prod.splits sum.splits outcome.splits) (metis fst_conv)+

lemma nil_client:
  assumes "fst (secretGet env ns (c @ ''-kubeconfig'') w) = Inr data"
    and "case data ''value'' of None \<Rightarrow> True | Some b \<Rightarrow> blen b = 0"
  shows "clusterClient env ns c w = (Inr None, snd (secretGet env ns (c @ ''-kubeconfig'') w))"
  using assms by (auto simp: clusterClient_def split: prod.splits sum.splits option.splits)

text \<open>
  The kinds that the naive pluralisation confuses with \<open>x\<close>: it maps both \<open>xs\<close>-like and \<open>xse\<close>-like
  kinds, and both \<open>-y\<close> and \<open>-ie\<close> kinds, to the same resource.
\<close>

definition pluralClash :: "string \<Rightarrow> string \<Rightarrow> bool" where
  "pluralClash x y =
     (hasSuffix x ''s'' \<and> y = x @ ''e'' \<or> hasSuffix x ''y'' \<and> y = trimSuffix x ''y'' @ ''ie'')"

lemma plural_cases:
  obtains (s) x where "toLower k = x @ ''s''" "getPluralFromKind k = x @ ''ses''"
  | (y) x where "toLower k = x @ ''y''" "getPluralFromKind k = x @ ''ies''"
  | (other) "\<not> hasSuffix (toLower k) ''s''" "\<not> hasSuffix (toLower k) ''y''"
      "\<And>x. x @ ''s'' \<noteq> toLower k" "\<And>x. x @ ''y'' \<noteq> toLower k"
      "getPluralFromKind k = toLower k @ ''s''"
proof -
  have s: "hasSuffix (x @ ''s'') ''s''" "hasSuffix (x @ ''y'') ''y''" "\<not> hasSuffix (x @ ''y'') ''s''" for x
    by (simp_all add: go_simps)
  show ?thesis
  proof (cases "hasSuffix (toLower k) ''s''")
    case True
    then obtain x where "toLower k = x @ ''s''" by (rule hasSuffixE)
    with s that(1) show ?thesis by (auto simp: getPluralFromKind_def)
  next
    case no_s: False
    show ?thesis
    proof (cases "hasSuffix (toLower k) ''y''")
      case True
      then obtain x where "toLower k = x @ ''y''" by (rule hasSuffixE)
      with s that(2) show ?thesis by (auto simp: getPluralFromKind_def)
    next
      case False
      with no_s have "x @ ''s'' \<noteq> toLower k" "x @ ''y'' \<noteq> toLower k" for x
        using s [of x] by metis+
      with no_s False that(3) show ?thesis by (simp add: getPluralFromKind_def)
    qed
  qed
qed

lemma snoc_suffix_simps:
  "hasSuffix (x @ [c]) [d] \<longleftrightarrow> c = d" "trimSuffix (x @ [c]) [c] = x"
  using trimSuffix_append [of x "[c]"] by (auto simp: go_simps)

section \<open>Sample data\<close>

text \<open>
  One cluster, whose state is the list of the names of the resources applied to it; an API server
  that has every kubeconfig secret.
\<close>

definition sampleCluster :: Cluster where
  "sampleCluster = \<lparr>clusterNamespace = ''default'', clusterName = ''dev'',
     clusterLabels = [''environment'' \<mapsto> ''preview'']\<rparr>"

definition sampleResourcer :: "string list resource_env" where
  "sampleResourcer =
     \<lparr>asSelector = (\<lambda>s. if matchExpressions s = []
         then Inr (\<lambda>l. list_all (\<lambda>(k, v). l k = Some v) (matchLabels s)) else Inl (EExternal ''selector'')),
      listClusters = (\<lambda>f w. (Inr (if f (clusterLabels sampleCluster) then [sampleCluster] else []), w)),
      secretGet = (\<lambda>ns n w. (if ns = ''default'' then Inr [''value'' \<mapsto> Some ''kubeconfig'', ''token'' \<mapsto> Some ''ghp'']
        else Inl ENotFound, w)),
      restConfigFromKubeConfig = (\<lambda>b. Inr 0), dynamicNewForConfig = (\<lambda>c. Inr c),
      dynApply = (\<lambda>cl g ns n r opts w. (None, w @ [n])),
      dynGet = (\<lambda>cl g ns n w. (if n \<in> set w then None else Some ENotFound, w))\<rparr>"

lemma sample_clusterList: "clusterList sampleResourcer sampleProxy w = (Inr [sampleCluster], w)"
  by (simp add: clusterList_def sampleResourcer_def sampleProxy_def sampleSelector_def sampleCluster_def)

lemma sample_clusterClient:
  "clusterClient sampleResourcer (clusterNamespace sampleCluster) (clusterName sampleCluster) w = (Inr (Some 0), w)"
  by (simp add: clusterClient_def sampleResourcer_def sampleCluster_def)

section \<open>Properties\<close>

text \<open>
  \<open>Apply\<close> reports nothing but the failure to list the clusters. Once they are listed it
  returns nil, whatever fails while the resources are applied, unless it panics, which takes at least
  one selected cluster.
\<close>

theorem apply_error_only_from_listing:
  "case clusterList env p w of
     (Inl e, w1) \<Rightarrow> Apply env p rs w = (Returned (Some e), w1)
   | (Inr cs, w1) \<Rightarrow> fst (Apply env p rs w) = Returned None \<or> cs \<noteq> [] \<and> fst (Apply env p rs w) = Panicked"
proof -
  obtain r w1 where r: "clusterList env p w = (r, w1)" by fastforce
  show ?thesis
  proof (cases r)
    case (Inl e)
    with r show ?thesis by (simp add: applyOp.listing_error)
  next
    case (Inr cs)
    have "fst (Apply env p rs w) = Returned None \<or> fst (Apply env p rs w) = Panicked"
      by (simp add: Apply_def r Inr split: prod.splits outcome.splits)
    then show ?thesis using applyOp.panic_needs_cluster [of env p rs w] r Inr by auto
  qed
qed

text \<open>
  C24. When the client of every selected cluster can be obtained and the clusters accept every
  resource, \<open>Apply\<close> deploys all the resources, in order, to all the selected clusters, in order, by
  a forced server-side apply each.
\<close>

theorem apply_complete:
  assumes "clusterList env p w = (Inr cs, w1)"
    and "\<And>c v. c \<in> set cs \<Longrightarrow>
      \<exists>cl. fst (clusterClient env (clusterNamespace c) (clusterName c) v) = Inr (Some cl)"
    and "\<And>cl r v. r \<in> set rs \<Longrightarrow>
      fst (dynApply env cl (resourceGVR r) (resNamespace r) (resName r) r applyOpts v) = None"
  shows "Apply env p rs w = (Returned None, fold (deployTo env rs) cs w1)"
  using assms(1) applyClusters_ok [OF assms(2,3)] by (simp add: Apply_def)

theorem apply_complete_witness:
  "Apply sampleResourcer sampleProxy [sampleResource ''a'', sampleResource ''b''] [] = (Returned None, [''a'', ''b''])"
proof -
  have ok: "fst (dynApply sampleResourcer cl g ns n r applyOpts v) = None" for cl g ns n r v
    by (simp add: sampleResourcer_def)
  have cl: "\<exists>cl. fst (clusterClient sampleResourcer (clusterNamespace c) (clusterName c) v) = Inr (Some cl)"
    if "c \<in> set [sampleCluster]" for c v
    using that sample_clusterClient by simp
  show ?thesis
    by (subst apply_complete [OF sample_clusterList cl ok])
      (simp_all add: deployTo_def sample_clusterClient, simp_all add: sampleResourcer_def sampleResource_def)
qed

text \<open>
  C23. With reads that do not change the clusters, \<open>Check\<close> answers \<open>missing = false\<close> without an
  error exactly when the clusters could be listed and on every one of them every resource exists.
\<close>

theorem check_none_missing_iff:
  assumes "readOnly env"
  shows "fst (Check env p rs w) = Returned (False, None) \<longleftrightarrow>
    (\<exists>cs. fst (clusterList env p w) = Inr cs \<and> list_all (present env rs w) cs)"
  by (rule Check_readOnly(2) [OF assms])

theorem check_none_missing_iff_witness:
  "fst (Check sampleResourcer sampleProxy [sampleResource ''a''] [''a'']) = Returned (False, None) \<and>
   fst (Check sampleResourcer sampleProxy [sampleResource ''b''] [''a'']) \<noteq> Returned (False, None)"
proof -
  have ro: "readOnly sampleResourcer" by (simp add: readOnly_def sampleResourcer_def)
  show ?thesis
    unfolding check_none_missing_iff [OF ro]
    by (simp add: sample_clusterList present_def sample_clusterClient getResource_def)
      (simp add: sampleResourcer_def sampleResource_def)
qed



text \<open>
  The naive pluralisation is case-insensitive and confuses two kinds in exactly two cases: a
  kind ending in \<open>s\<close> with the same kind followed by \<open>e\<close>, and a kind in \<open>-y\<close> with the one in \<open>-ie\<close>.
\<close>

theorem plural_collisions:
  "getPluralFromKind a = getPluralFromKind b \<longleftrightarrow>
     toLower a = toLower b \<or> pluralClash (toLower a) (toLower b) \<or> pluralClash (toLower b) (toLower a)"
proof (cases rule: plural_cases [of a])
  case (s x)
  show ?thesis
    by (cases rule: plural_cases [of b])
      (use s in \<open>auto simp: pluralClash_def snoc_suffix_simps\<close>)
next
  case (y x)
  show ?thesis
    by (cases rule: plural_cases [of b])
      (use y in \<open>auto simp: pluralClash_def snoc_suffix_simps\<close>)
next
  case other
  show ?thesis
    by (cases rule: plural_cases [of b])
      (use other in \<open>auto simp: pluralClash_def snoc_suffix_simps\<close>)
qed

end
