(* ===== verification/Controller.thy ===== *)
theory Controller
  imports Git Synthesizer Resourcer
begin

text \<open>
  The reconciler of \<open>Cdk8sAppProxy\<close> objects (\<open>controllers/controller.go\<close>): fetch the credentials,
  check the access to the repository, clone it, synthesize the manifests, apply them to the selected
  clusters, check that they are there, write the status; and the mapping of a cluster event to the
  proxies to reconcile.

  \<open>controller_env\<close> holds the environments of the components it calls, the API client, the file
  system's \<open>RemoveAll\<close>, the library function \<open>conditions.Set\<close> on a list of conditions and the
  library's condition constants.
\<close>

section \<open>Types and parameters\<close>

record condition_names =
  AvailableCondition :: string
  ReadyCondition :: string
  ConditionTrue :: string
  ConditionFalse :: string
  StatusFailure :: string

record 'w controller_env =
  gitOps :: "'w git_env"
  synthOps :: "'w synth_env"
  resOps :: "'w resource_env"
  getProxy :: "string \<Rightarrow> string \<Rightarrow> ('w, goerr + Cdk8sAppProxy) io"
  listProxies :: "string \<Rightarrow> ('w, goerr + Cdk8sAppProxy list) io"
  updateStatus :: "Cdk8sAppProxy \<Rightarrow> ('w, goerr option) io"
  removeAll :: "string \<Rightarrow> ('w, goerr option) io"
  insertCondition :: "Condition list \<Rightarrow> Condition \<Rightarrow> Condition list"
  condNames :: condition_names

text \<open>\<open>ctrl.Result\<close>: a duration in nanoseconds, 0 for the empty result.\<close>

record Result =
  RequeueAfter :: int

definition emptyResult :: Result where
  "emptyResult = \<lparr>RequeueAfter = 0\<rparr>"

definition conditionsSet :: "'w controller_env \<Rightarrow> Cdk8sAppProxy \<Rightarrow> Condition \<Rightarrow> Cdk8sAppProxy" where
  "conditionsSet env proxy c = SetConditions proxy (insertCondition env (GetConditions proxy) c)"

section \<open>Reconcile\<close>

definition workDirectory :: "string \<Rightarrow> string \<Rightarrow> string \<Rightarrow> string" where
  "workDirectory namespace name branch = ''/tmp/cdk8s-'' @ namespace @ ''-'' @ name @ ''-'' @ branch"

definition failedCondition :: "'w controller_env \<Rightarrow> string \<Rightarrow> string \<Rightarrow> Condition" where
  "failedCondition env ctype msg =
     \<lparr>condType = ctype, condStatus = ConditionFalse (condNames env),
      condReason = StatusFailure (condNames env), condMessage = msg\<rparr>"

definition readyCondition :: "'w controller_env \<Rightarrow> Condition" where
  "readyCondition env =
     \<lparr>condType = ReadyCondition (condNames env), condStatus = ConditionTrue (condNames env),
      condReason = ''Successful'', condMessage = ''Cdk8sAppProxy is ready''\<rparr>"

text \<open>
  From the synthesis to the status update. The result is the local object as it is at the return,
  with the error that is returned.
\<close>

definition deploy ::
  "'w controller_env \<Rightarrow> Cdk8sAppProxy \<Rightarrow> string \<Rightarrow>
     'w \<Rightarrow> (Cdk8sAppProxy \<times> goerr option) outcome \<times> 'w" where
  "deploy env proxy directory w =
     (case Synthesize (synthOps env) directory proxy w of
        (Panicked, w1) \<Rightarrow> (Panicked, w1)
      | (Returned (_, Some e), w1) \<Rightarrow>
          (Returned (conditionsSet env proxy
             (failedCondition env (AvailableCondition (condNames env)) ''Failed to synth cdk8s code''), Some e), w1)
      | (Returned (parsedResources, None), w1) \<Rightarrow>
          (case Apply (resOps env) proxy parsedResources w1 of
             (Panicked, w2) \<Rightarrow> (Panicked, w2)
           | (Returned (Some e), w2) \<Rightarrow>
               (Returned (conditionsSet env proxy
                  (failedCondition env (ReadyCondition (condNames env)) ''Failed to apply resources''), Some e), w2)
           | (Returned None, w2) \<Rightarrow>
               (case Check (resOps env) proxy parsedResources w2 of
                  (Panicked, w3) \<Rightarrow> (Panicked, w3)
                | (Returned (_, Some e), w3) \<Rightarrow> (Returned (proxy, Some e), w3)
                | (Returned (missingResource, None), w3) \<Rightarrow>
                    (let proxy' = (if \<not> missingResource then conditionsSet env proxy (readyCondition env) else proxy)
                     in case updateStatus env proxy' w3 of (err, w4) \<Rightarrow> (Returned (proxy', err), w4)))))"

text \<open>What is executed after the cleanup has been deferred.\<close>

definition reconcileBody ::
  "'w controller_env \<Rightarrow> Cdk8sAppProxy \<Rightarrow> GitRepositorySpec \<Rightarrow> string \<Rightarrow>
     'w \<Rightarrow> (Cdk8sAppProxy \<times> goerr option) outcome \<times> 'w" where
  "reconcileBody env proxy repo directory w =
     (case FetchSecret (secretGet (resOps env)) (Namespace (proxyMeta proxy)) (Some repo) w of
        (Inl e, w1) \<Rightarrow> (Returned (proxy, Some e), w1)
      | (Inr secretRef, w1) \<Rightarrow>
          (case FetchKnownHosts (secretGet (resOps env)) (Namespace (proxyMeta proxy)) (Some repo) w1 of
             (Inl e, w2) \<Rightarrow> (Returned (proxy, Some e), w2)
           | (Inr knownHosts, w2) \<Rightarrow>
               (let gitImpl = \<lparr>KnownHosts = knownHosts\<rparr> in
                case CheckAccess (gitOps env) gitImpl (URL repo) secretRef w2 of
                  ((accessible, requiredAuth, Some e), w3) \<Rightarrow> (Returned (proxy, Some e), w3)
                | ((accessible, requiredAuth, None), w3) \<Rightarrow>
                    (if requiredAuth \<and> blen secretRef = 0 then (Returned (proxy, None), w3)
                     else if \<not> accessible then (Returned (proxy, None), w3)
                     else
                       (case Clone (gitOps env) gitImpl (URL repo) (if \<not> requiredAuth then None else secretRef)
                               (Reference repo) directory w3 of
                          (Some e, w4) \<Rightarrow>
                            (Returned (conditionsSet env proxy
                               (failedCondition env (AvailableCondition (condNames env))
                                  ''Failed to clone Git Repository''), Some e), w4)
                        | (None, w4) \<Rightarrow> deploy env proxy directory w4)))))"

text \<open>
  \<open>Reconcile\<close>. The deferred function assigns the result of \<open>RemoveAll\<close> to the named result \<open>err\<close>,
  which replaces the value the return statement has put there; it also runs when the body panics.
  Without a \<open>GitRepository\<close> the nil pointer is dereferenced before anything is deferred.
\<close>

definition Reconcile ::
  "'w controller_env \<Rightarrow> string \<Rightarrow> string \<Rightarrow> 'w \<Rightarrow> (Result \<times> goerr option) outcome \<times> 'w" where
  "Reconcile env namespace name w =
     (case getProxy env namespace name w of
        (Inl e, w1) \<Rightarrow> (Returned (emptyResult, Some e), w1)
      | (Inr proxy, w1) \<Rightarrow>
          (case GitRepository (proxySpec proxy) of
             None \<Rightarrow> (Panicked, w1)
           | Some repo \<Rightarrow>
               (let directory = workDirectory (Namespace (proxyMeta proxy)) (Name (proxyMeta proxy)) (Reference repo) in
                case reconcileBody env proxy repo directory w1 of
                  (Panicked, w2) \<Rightarrow> (case removeAll env directory w2 of (_, w3) \<Rightarrow> (Panicked, w3))
                | (Returned (_, bodyErr), w2) \<Rightarrow>
                    (case removeAll env directory w2 of (err, w3) \<Rightarrow> (Returned (emptyResult, err), w3)))))"

section \<open>Cluster events\<close>

definition proxyKey :: "Cdk8sAppProxy \<Rightarrow> string \<times> string" where
  "proxyKey p = (Namespace (proxyMeta p), Name (proxyMeta p))"

fun mapProxies ::
  "'w controller_env \<Rightarrow> Cluster \<Rightarrow> Cdk8sAppProxy list \<Rightarrow> (string \<times> string) list \<Rightarrow> (string \<times> string) list" where
  "mapProxies env cluster [] results = results"
| "mapProxies env cluster (p # ps) results =
     (case asSelector (resOps env) (ClusterSelector (proxySpec p)) of
        Inl e \<Rightarrow> results
      | Inr selector \<Rightarrow>
          mapProxies env cluster ps
            (if selector (clusterLabels cluster) then results @ [proxyKey p] else results))"

text \<open>The object is \<open>None\<close> when it is not a \<open>Cluster\<close>.\<close>

definition ClusterToCdk8sAppProxyMapper ::
  "'w controller_env \<Rightarrow> Cluster option \<Rightarrow> ('w, (string \<times> string) list) io" where
  "ClusterToCdk8sAppProxyMapper env o' w =
     (case o' of
        None \<Rightarrow> ([], w)
      | Some cluster \<Rightarrow>
          (case listProxies env (clusterNamespace cluster) w of
             (Inl e, w1) \<Rightarrow> ([], w1)
           | (Inr proxies, w1) \<Rightarrow> (mapProxies env cluster proxies [], w1)))"

section \<open>The abstract pipeline\<close>

text \<open>
  The specification of a reconciliation: stages in a fixed order, each of which may panic, fail or
  pass a value on; the first failure ends it. Only the complete pipeline has a report, which says
  whether resources are missing.
\<close>

type_synonym ('w, 'a) stage = "'w \<Rightarrow> (goerr + 'a) outcome \<times> 'w"

definition andThen :: "('w, 'a) stage \<Rightarrow> ('a \<Rightarrow> ('w, 'b) stage) \<Rightarrow> ('w, 'b) stage" where
  "andThen s k w =
     (case s w of
        (Panicked, w1) \<Rightarrow> (Panicked, w1)
      | (Returned (Inl e), w1) \<Rightarrow> (Returned (Inl e), w1)
      | (Returned (Inr a), w1) \<Rightarrow> k a w1)"

definition orError :: "goerr option \<Rightarrow> 'a \<Rightarrow> goerr + 'a" where
  "orError err a = (case err of Some e \<Rightarrow> Inl e | None \<Rightarrow> Inr a)"

definition ioStage :: "('w, goerr + 'a) io \<Rightarrow> ('w, 'a) stage" where
  "ioStage f w = (case f w of (r, w1) \<Rightarrow> (Returned r, w1))"

definition accessStage :: "'w git_env \<Rightarrow> bytes \<Rightarrow> string \<Rightarrow> bytes \<Rightarrow> ('w, bool) stage" where
  "accessStage env kh u s w =
     (case CheckAccess env \<lparr>KnownHosts = kh\<rparr> u s w of ((_, req, err), w1) \<Rightarrow> (Returned (orError err req), w1))"

definition cloneStage :: "'w git_env \<Rightarrow> bytes \<Rightarrow> string \<Rightarrow> bytes \<Rightarrow> string \<Rightarrow> string \<Rightarrow> ('w, unit) stage" where
  "cloneStage env kh u s branch dir w =
     (case Clone env \<lparr>KnownHosts = kh\<rparr> u s branch dir w of (err, w1) \<Rightarrow> (Returned (orError err ()), w1))"

definition synthStage :: "'w synth_env \<Rightarrow> string \<Rightarrow> Cdk8sAppProxy \<Rightarrow> ('w, Unstructured list) stage" where
  "synthStage env dir p w =
     (case Synthesize env dir p w of
        (Panicked, w1) \<Rightarrow> (Panicked, w1)
      | (Returned (rs, err), w1) \<Rightarrow> (Returned (orError err rs), w1))"

definition applyStage :: "'w resource_env \<Rightarrow> Cdk8sAppProxy \<Rightarrow> Unstructured list \<Rightarrow> ('w, unit) stage" where
  "applyStage env p rs w =
     (case Apply env p rs w of
        (Panicked, w1) \<Rightarrow> (Panicked, w1)
      | (Returned err, w1) \<Rightarrow> (Returned (orError err ()), w1))"

definition checkStage :: "'w resource_env \<Rightarrow> Cdk8sAppProxy \<Rightarrow> Unstructured list \<Rightarrow> ('w, bool) stage" where
  "checkStage env p rs w =
     (case Check env p rs w of
        (Panicked, w1) \<Rightarrow> (Panicked, w1)
      | (Returned (missing, err), w1) \<Rightarrow> (Returned (orError err missing), w1))"

definition deployStages :: "'w controller_env \<Rightarrow> Cdk8sAppProxy \<Rightarrow> string \<Rightarrow> ('w, bool) stage" where
  "deployStages env p dir =
     andThen (synthStage (synthOps env) dir p)
       (\<lambda>rs. andThen (applyStage (resOps env) p rs) (\<lambda>_. checkStage (resOps env) p rs))"

definition pipeline :: "'w controller_env \<Rightarrow> Cdk8sAppProxy \<Rightarrow> GitRepositorySpec \<Rightarrow> string \<Rightarrow> ('w, bool) stage" where
  "pipeline env p repo dir =
     andThen (ioStage (FetchSecret (secretGet (resOps env)) (Namespace (proxyMeta p)) (Some repo)))
       (\<lambda>s. andThen (ioStage (FetchKnownHosts (secretGet (resOps env)) (Namespace (proxyMeta p)) (Some repo)))
         (\<lambda>kh. andThen (accessStage (gitOps env) kh (URL repo) s)
           (\<lambda>req. andThen (cloneStage (gitOps env) kh (URL repo) (if req then s else None) (Reference repo) dir)
             (\<lambda>_. deployStages env p dir))))"

definition report :: "'w controller_env \<Rightarrow> Cdk8sAppProxy \<Rightarrow> bool \<Rightarrow> Cdk8sAppProxy" where
  "report env p missing = (if missing then p else conditionsSet env p (readyCondition env))"

text \<open>The worlds a pipeline's result leads to, before the cleanup: the status is written in one case.\<close>

definition finish ::
  "'w controller_env \<Rightarrow> Cdk8sAppProxy \<Rightarrow> (goerr + bool) outcome \<times> 'w \<Rightarrow> goerr option outcome \<times> 'w" where
  "finish env p r =
     (case r of
        (Panicked, w) \<Rightarrow> (Panicked, w)
      | (Returned (Inl e), w) \<Rightarrow> (Returned (Some e), w)
      | (Returned (Inr missing), w) \<Rightarrow>
          (case updateStatus env (report env p missing) w of (err, w1) \<Rightarrow> (Returned err, w1)))"

definition dropObject :: "('p \<times> goerr option) outcome \<times> 'w \<Rightarrow> goerr option outcome \<times> 'w" where
  "dropObject r = (case r of (Panicked, w) \<Rightarrow> (Panicked, w) | (Returned (_, err), w) \<Rightarrow> (Returned err, w))"

section \<open>Lemmas\<close>

lemmas stage_defs = andThen_def orError_def ioStage_def accessStage_def cloneStage_def synthStage_def
  applyStage_def checkStage_def

lemma deploy_stages: "dropObject (deploy env p dir w) = finish env p (deployStages env p dir w)"
  by (auto simp: deploy_def deployStages_def stage_defs finish_def dropObject_def report_def Let_def
      split: outcome.splits prod.splits option.splits)

lemma dropObject_simps [simp]:
  "dropObject (Panicked, w) = (Panicked, w)" "dropObject (Returned (p, err), w) = (Returned err, w)"
  by (simp_all add: dropObject_def)

lemma finish_simps [simp]:
  "finish env p (Panicked, w) = (Panicked, w)" "finish env p (Returned (Inl e), w) = (Returned (Some e), w)"
  by (simp_all add: finish_def)

text \<open>The two guards after the access check drop out by the contract of \<open>CheckAccess\<close>.\<close>

lemma reconcileBody_stages: "dropObject (reconcileBody env p repo dir w) = finish env p (pipeline env p repo dir w)"
proof -
  let ?get = "secretGet (resOps env)" and ?ns = "Namespace (proxyMeta p)"
  obtain rs w1 where s: "FetchSecret ?get ?ns (Some repo) w = (rs, w1)" by fastforce
  obtain rk w2 where k: "FetchKnownHosts ?get ?ns (Some repo) w1 = (rk, w2)" by fastforce
  show ?thesis
  proof (cases rs)
    case (Inl e)
    with s show ?thesis by (simp add: reconcileBody_def pipeline_def stage_defs)
  next
    case s': (Inr sec)
    show ?thesis
    proof (cases rk)
      case (Inl e)
      with s s' k show ?thesis by (simp add: reconcileBody_def pipeline_def stage_defs)
    next
      case k': (Inr kh)
      obtain acc req err w3 where a: "CheckAccess (gitOps env) \<lparr>KnownHosts = kh\<rparr> (URL repo) sec w2 = ((acc, req, err), w3)"
        by (metis prod_cases3 surj_pair)
      show ?thesis
      proof (cases err)
        case (Some e)
        with s s' k k' a show ?thesis by (simp add: reconcileBody_def pipeline_def stage_defs)
      next
        case None
        note dead = ca.guards_dead [OF a [unfolded None]]
        obtain ec w4 where c: "Clone (gitOps env) \<lparr>KnownHosts = kh\<rparr> (URL repo) (if req then sec else None)
            (Reference repo) dir w3 = (ec, w4)" by fastforce
        have body: "reconcileBody env p repo dir w = (case (ec, w4) of
            (Some e, w4) \<Rightarrow> (Returned (conditionsSet env p (failedCondition env (AvailableCondition (condNames env))
               ''Failed to clone Git Repository''), Some e), w4)
          | (None, w4) \<Rightarrow> deploy env p dir w4)"
          using s s' k k' a None dead c by (simp add: reconcileBody_def split: if_splits)
        show ?thesis
          using s s' k k' a None c by (cases ec) (simp_all add: body pipeline_def stage_defs deploy_stages)
      qed
    qed
  qed
qed

lemma Reconcile_body:
  assumes "getProxy env ns n w = (Inr p, w1)" and "GitRepository (proxySpec p) = Some repo"
  shows "Reconcile env ns n w =
    (let dir = workDirectory (Namespace (proxyMeta p)) (Name (proxyMeta p)) (Reference repo)
     in case dropObject (reconcileBody env p repo dir w1) of
          (Panicked, w2) \<Rightarrow> (Panicked, snd (removeAll env dir w2))
        | (Returned _, w2) \<Rightarrow> (Returned (emptyResult, fst (removeAll env dir w2)), snd (removeAll env dir w2)))"
  using assms
  by (auto simp: Reconcile_def dropObject_def Let_def split: prod.splits outcome.splits)

lemma mapProxies_spec:
  "mapProxies env c ps rs = rs @ map proxyKey
     (filter (\<lambda>p. case asSelector (resOps env) (ClusterSelector (proxySpec p)) of
                    Inr sel \<Rightarrow> sel (clusterLabels c) | Inl _ \<Rightarrow> False)
       (takeWhile (\<lambda>p. \<not> isl (asSelector (resOps env) (ClusterSelector (proxySpec p)))) ps))"
  by (induction ps arbitrary: rs) (auto split: sum.splits)

text \<open>What a work directory is as a path: its name in \<open>/tmp\<close>, when no part of it has a slash.\<close>

lemma workDirectory_child:
  assumes "CHR ''/'' \<notin> set ns" and "CHR ''/'' \<notin> set n" and "CHR ''/'' \<notin> set branch"
  shows "cleanElems True (workDirectory ns n branch) = [''tmp'', ''cdk8s-'' @ ns @ ''-'' @ n @ ''-'' @ branch]"
  using assms
  by (simp add: workDirectory_def cleanElems_def pathElems_def splitOn_no_sep)

lemma workDirectory_escape:
  assumes "CHR ''/'' \<notin> set ns" and "CHR ''/'' \<notin> set n"
  shows "cleanElems True (workDirectory ns n ''x/../../etc'') = [''etc'']"
proof -
  define a where "a = ''cdk8s-'' @ ns @ ''-'' @ n @ ''-x''"
  have a: "CHR ''/'' \<notin> set a" "a \<noteq> ''''" "a \<noteq> ''.''" "a \<noteq> ''..''"
    using assms by (simp_all add: a_def)
  have "workDirectory ns n ''x/../../etc'' = ''/'' @ joinWith ''/'' [''tmp'', a, ''..'', ''..'', ''etc'']"
    by (simp add: workDirectory_def a_def)
  moreover have "splitOn (CHR ''/'') (joinWith ''/'' [''tmp'', a, ''..'', ''..'', ''etc'']) = [''tmp'', a, ''..'', ''..'', ''etc'']"
    using a by (intro splitOn_join) auto
  ultimately have "pathElems (workDirectory ns n ''x/../../etc'') = [''tmp'', a, ''..'', ''..'', ''etc'']"
    using a by (simp only: pathElems_slash pathElems_def) simp
  then show ?thesis using a by (simp add: cleanElems_def)
qed

section \<open>Sample data\<close>

definition sampleController :: "string list controller_env" where
  "sampleController =
     \<lparr>gitOps = sampleGit, synthOps = sampleSynth, resOps = sampleResourcer,
      getProxy = (\<lambda>ns n w. (if ns = ''default'' \<and> n = ''app'' then Inr sampleProxy else Inl ENotFound, w)),
      listProxies = (\<lambda>ns w. (Inr (if ns = ''default'' then [sampleProxy] else []), w)),
      updateStatus = (\<lambda>p w. (None, w @ [''status''])),
      removeAll = (\<lambda>d w. (None, w @ [''rm '' @ d])),
      insertCondition = (\<lambda>cs c. c # filter (\<lambda>d. condType d \<noteq> condType c) cs),
      condNames = \<lparr>AvailableCondition = ''Available'', ReadyCondition = ''Ready'', ConditionTrue = ''True'',
        ConditionFalse = ''False'', StatusFailure = ''Failure''\<rparr>\<rparr>"

lemma sample_get: "getProxy sampleController ''default'' ''app'' w = (Inr sampleProxy, w)"
  by (simp add: sampleController_def)

lemma sample_repo: "GitRepository (proxySpec sampleProxy) = Some sampleRepository"
  by (simp add: sampleProxy_def)

lemma sample_readOnly: "readOnly sampleResourcer"
  by (simp add: readOnly_def sampleResourcer_def)

section \<open>Properties\<close>

text \<open>
  C2. \<open>Reconcile\<close> implements the abstract pipeline: for an object with a repository it is the
  stages in their order up to the first failure, the status update only after all of them (with the
  ready condition exactly when nothing is missing), and then the cleanup of the work directory,
  whose error is the only one that is returned.
\<close>

theorem reconcile_refines_pipeline:
  assumes "getProxy env ns n w = (Inr p, w1)" and "GitRepository (proxySpec p) = Some repo"
  shows "Reconcile env ns n w =
    (let dir = workDirectory (Namespace (proxyMeta p)) (Name (proxyMeta p)) (Reference repo)
     in case finish env p (pipeline env p repo dir w1) of
          (Panicked, w2) \<Rightarrow> (Panicked, snd (removeAll env dir w2))
        | (Returned _, w2) \<Rightarrow> (Returned (emptyResult, fst (removeAll env dir w2)), snd (removeAll env dir w2)))"
  by (simp only: Reconcile_body [OF assms] reconcileBody_stages)

theorem reconcile_refines_pipeline_witness:
  "Reconcile sampleController ''default'' ''app'' [] =
    (let dir = workDirectory ''default'' ''app'' ''''
     in case finish sampleController sampleProxy (pipeline sampleController sampleProxy sampleRepository dir []) of
          (Panicked, w2) \<Rightarrow> (Panicked, w2 @ [''rm '' @ dir])
        | (Returned _, w2) \<Rightarrow> (Returned (emptyResult, None), w2 @ [''rm '' @ dir]))"
proof -
  have "Name (proxyMeta sampleProxy) = ''app''" "Namespace (proxyMeta sampleProxy) = ''default''"
    "Reference sampleRepository = ''''" "removeAll sampleController d w = (None, w @ [''rm '' @ d])" for d w
    by (simp_all add: sampleProxy_def sampleRepository_def sampleController_def)
  then show ?thesis
    by (simp only: reconcile_refines_pipeline [OF sample_get sample_repo] fst_conv snd_conv)
qed

text \<open>
  Errors are lost: once the object has been read, \<open>Reconcile\<close> returns an empty result with a
  nil error whenever the cleanup succeeds, whatever has failed before. A failed reconciliation
  is never retried by the controller's rate limiter.
\<close>

theorem reconcile_swallows_errors:
  assumes "getProxy env ns n w = (Inr p, w1)" and "GitRepository (proxySpec p) = Some repo"
    and "\<And>d v. fst (removeAll env d v) = None"
  shows "fst (Reconcile env ns n w) = Returned (emptyResult, None) \<or> fst (Reconcile env ns n w) = Panicked"
  using assms(3)
  by (auto simp: Reconcile_body [OF assms(1,2)] Let_def split: prod.splits outcome.splits)

theorem reconcile_swallows_errors_witness:
  "let env = sampleController\<lparr>resOps := sampleResourcer\<lparr>secretGet := \<lambda>_ _ w. (Inl ENotFound, w)\<rparr>\<rparr>
   in fst (Reconcile env ''default'' ''app'' []) = Returned (emptyResult, None) \<or>
      fst (Reconcile env ''default'' ''app'' []) = Panicked"
  unfolding Let_def
  by (rule reconcile_swallows_errors [OF _ sample_repo, of _ _ _ _ "[]"]) (simp_all add: sampleController_def)

text \<open>
  The work directory never survives: whatever \<open>RemoveAll\<close> of it establishes holds at the
  end of every reconciliation of an object with a repository, failures and panics included.
\<close>

theorem work_directory_removed:
  assumes "getProxy env ns n w = (Inr p, w1)" and "GitRepository (proxySpec p) = Some repo"
    and "\<And>v. gone (snd (removeAll env (workDirectory (Namespace (proxyMeta p)) (Name (proxyMeta p)) (Reference repo)) v))"
  shows "gone (snd (Reconcile env ns n w))"
  using assms(3)
  by (auto simp: Reconcile_body [OF assms(1,2)] Let_def split: prod.splits outcome.splits)

theorem work_directory_removed_witness:
  "last (snd (Reconcile sampleController ''default'' ''app'' [])) = ''rm /tmp/cdk8s-default-app-''"
  by (rule work_directory_removed [OF sample_get sample_repo,
        where gone = "\<lambda>w. last w = ''rm /tmp/cdk8s-default-app-''"])
    (simp add: sampleController_def workDirectory_def sampleProxy_def sampleRepository_def)

text \<open>
  An object that names no secret, the documented setting for a public repository, is never
  cloned or deployed: its reconciliation is the removal of the work directory and nothing else.
\<close>

theorem no_secret_no_clone:
  assumes "getProxy env ns n w = (Inr p, w1)" and "GitRepository (proxySpec p) = Some repo"
    and "SecretRef repo = ''''"
  shows "Reconcile env ns n w =
    (let dir = workDirectory (Namespace (proxyMeta p)) (Name (proxyMeta p)) (Reference repo)
     in (Returned (emptyResult, fst (removeAll env dir w1)), snd (removeAll env dir w1)))"
  by (simp add: Reconcile_body [OF assms(1,2)] reconcileBody_def cred.fetch_no_ref [OF assms(3)])

theorem no_secret_no_clone_witness:
  "let p = sampleProxy\<lparr>proxySpec := (proxySpec sampleProxy)\<lparr>GitRepository := Some (sampleRepository\<lparr>SecretRef := ''''\<rparr>)\<rparr>\<rparr>
   in snd (Reconcile (sampleController\<lparr>getProxy := \<lambda>_ _ w. (Inr p, w)\<rparr>) ''default'' ''app'' []) =
      [''rm /tmp/cdk8s-default-app-'']"
  unfolding Let_def
  by (subst no_secret_no_clone [of _ _ _ _
        "sampleProxy\<lparr>proxySpec := (proxySpec sampleProxy)\<lparr>GitRepository := Some (sampleRepository\<lparr>SecretRef := ''''\<rparr>)\<rparr>\<rparr>"
        "[]" "sampleRepository\<lparr>SecretRef := ''''\<rparr>"])
    (simp_all add: sampleController_def workDirectory_def sampleProxy_def sampleRepository_def)



text \<open>
  C3. After a successful synthesis and deployment, with reads that do not change the clusters and a
  check that does not fail, the status is written exactly once, and the ready condition is set in it
  exactly when every synthesized resource exists on every selected cluster. (When some resource is
  missing the conditions are written as they were read, an earlier ready condition included.)
\<close>

theorem ready_iff_everything_present:
  assumes "readOnly (resOps env)"
    and "Synthesize (synthOps env) dir p w = (Returned (rs, None), w1)"
    and "Apply (resOps env) p rs w1 = (Returned None, w2)"
    and "fst (Check (resOps env) p rs w2) = Returned (missing, None)"
  shows "deploy env p dir w =
    (let p' = (if \<exists>cs. fst (clusterList (resOps env) p w2) = Inr cs \<and> list_all (present (resOps env) rs w2) cs
               then conditionsSet env p (readyCondition env) else p)
     in (Returned (p', fst (updateStatus env p' w2)), snd (updateStatus env p' w2)))"
proof -
  note ready = Check_readOnly(2) [OF assms(1), of p rs w2]
  have "Check (resOps env) p rs w2 = (Returned (missing, None), w2)"
    using assms(4) Check_readOnly(1) [OF assms(1), of p rs w2] by (metis prod.collapse)
  with ready assms(2,3) show ?thesis
    by (cases missing) (auto simp: deploy_def Let_def split: prod.splits)
qed

theorem ready_iff_everything_present_witness:
  "deploy sampleController sampleProxy ''/app'' [] =
     (Returned (conditionsSet sampleController sampleProxy (readyCondition sampleController), None),
      [''cdk8s synth'', ''b'', ''status''])"
proof -
  let ?rs = "[sampleResource ''b'']"
  have kust: "readFile sampleTree ''/app/dist/sub/kustomization.yaml'' = Inr ''k''"
    and res: "readFile sampleTree ''/app/dist/sub/b.yml'' = Inr ''b''"
    and dirs: "dirPath ''/app/dist/sub/kustomization.yaml'' = ''/app/dist/sub''" "joinPath [''/app'', ''''] = ''/app''"
    by (simp_all add: sampleTree_def readFile_def nodeAt_def path_simps go_simps)
  have kustomization: "kustomizationManifests sampleSynth sampleTree [''/app/dist/sub/kustomization.yaml''] [] =
      Inr [''/app/dist/sub/b.yml'']"
    by (simp add: parseKustomization_def kust dirs sample_synth_ops sample_paths)
  have "collectResources sampleSynth sampleTree ''/app'' = (?rs, None)"
    by (simp add: collectResources_def sample_found sample_paths isKustomization_def kustomizationNames_def
        kustomization parseManifests_def res sample_synth_ops del: kustomizationManifests.simps)
  moreover have "cdk8sType sampleTree ''/app'' = ''go''"
    by (simp add: cdk8sType_def readDir_def nodeAt_def sampleTree_def isDir_def path_simps go_simps)
  ultimately have synth: "Synthesize sampleSynth ''/app'' sampleProxy [] = (Returned (?rs, None), [''cdk8s synth''])"
    by (simp add: Synthesize_def installDependencies_def sample_repo dirs sampleRepository_def sample_synth_ops)
  have apply_b: "Apply sampleResourcer sampleProxy ?rs [''cdk8s synth''] = (Returned None, [''cdk8s synth'', ''b''])"
    by (simp add: Apply_def sample_clusterList sample_clusterClient)
      (simp add: sampleResourcer_def sampleResource_def)
  have there: "list_all (present sampleResourcer ?rs [''cdk8s synth'', ''b'']) [sampleCluster]"
    by (simp add: present_def sample_clusterClient getResource_def)
      (simp add: sampleResourcer_def sampleResource_def)
  then have check_b: "fst (Check sampleResourcer sampleProxy ?rs [''cdk8s synth'', ''b'']) = Returned (False, None)"
    by (simp add: Check_readOnly(2) [OF sample_readOnly] sample_clusterList)
  have ops: "resOps sampleController = sampleResourcer" "synthOps sampleController = sampleSynth"
    "updateStatus sampleController q v = (None, v @ [''status''])" for q v
    by (simp_all add: sampleController_def)
  show ?thesis
    using ready_iff_everything_present [of sampleController "''/app''" sampleProxy "[]" ?rs "[''cdk8s synth'']"
        "[''cdk8s synth'', ''b'']" False]
      sample_readOnly synth apply_b check_b there
    by (simp add: ops sample_clusterList)
qed

text \<open>
  The mapping of a cluster event: the proxies of the cluster's namespace whose selector
  matches the cluster's labels, in the order listed, as long as every selector before them is valid;
  a proxy with an invalid selector cuts off all the proxies listed after it.
\<close>

theorem mapper_functional:
  "ClusterToCdk8sAppProxyMapper env (Some c) w =
     (case listProxies env (clusterNamespace c) w of
        (Inl e, w1) \<Rightarrow> ([], w1)
      | (Inr ps, w1) \<Rightarrow>
          (map proxyKey
             (filter (\<lambda>p. case asSelector (resOps env) (ClusterSelector (proxySpec p)) of
                            Inr sel \<Rightarrow> sel (clusterLabels c) | Inl _ \<Rightarrow> False)
               (takeWhile (\<lambda>p. \<not> isl (asSelector (resOps env) (ClusterSelector (proxySpec p)))) ps)), w1))"
  by (auto simp: ClusterToCdk8sAppProxyMapper_def mapProxies_spec split: prod.splits sum.splits)

text \<open>
  The mapper against the deployment. With an API server that lists exactly the stored objects
  that match, and valid selectors, an event of a cluster enqueues a proxy exactly when the cluster
  is among those the proxy is deployed to and is in the proxy's namespace: the deployment
  reaches clusters of other namespaces, whose events never lead back to the proxy.
\<close>

theorem mapper_vs_cluster_list:
  assumes "\<And>ns. listProxies env ns w = (Inr (filter (\<lambda>p. Namespace (proxyMeta p) = ns) ps), w)"
    and "\<And>f. listClusters (resOps env) f w = (Inr (filter (\<lambda>c. f (clusterLabels c)) cs), w)"
    and "\<And>q. q \<in> set ps \<Longrightarrow> \<not> isl (asSelector (resOps env) (ClusterSelector (proxySpec q)))"
    and "distinct (map proxyKey ps)" and "p \<in> set ps" and "c \<in> set cs"
  shows "proxyKey p \<in> set (fst (ClusterToCdk8sAppProxyMapper env (Some c) w)) \<longleftrightarrow>
    Namespace (proxyMeta p) = clusterNamespace c \<and>
    (\<exists>cl. fst (clusterList (resOps env) p w) = Inr cl \<and> c \<in> set cl)"
proof -
  have uniq: "q = p" if "q \<in> set ps" "proxyKey q = proxyKey p" for q
    using that assms(4,5) by (auto simp: distinct_map dest: inj_onD)
  obtain sel where sel: "asSelector (resOps env) (ClusterSelector (proxySpec p)) = Inr sel"
    using assms(3) [OF assms(5)] by (cases "asSelector (resOps env) (ClusterSelector (proxySpec p))") auto
  have all: "takeWhile (\<lambda>q. \<not> isl (asSelector (resOps env) (ClusterSelector (proxySpec q))))
      (filter (\<lambda>q. Namespace (proxyMeta q) = ns) ps) = filter (\<lambda>q. Namespace (proxyMeta q) = ns) ps" for ns
    using assms(3) by (simp add: takeWhile_eq_all_conv)
  let ?F = "\<lambda>q. case asSelector (resOps env) (ClusterSelector (proxySpec q)) of
    Inr sel \<Rightarrow> sel (clusterLabels c) | Inl _ \<Rightarrow> False"
  have "proxyKey p \<in> set (fst (ClusterToCdk8sAppProxyMapper env (Some c) w)) \<longleftrightarrow>
      (\<exists>q\<in>set ps. Namespace (proxyMeta q) = clusterNamespace c \<and> ?F q \<and> proxyKey q = proxyKey p)"
    by (simp add: ClusterToCdk8sAppProxyMapper_def assms(1) mapProxies_spec all image_iff)
      (auto simp: eq_commute [of "proxyKey p"])
  also have "\<dots> \<longleftrightarrow> Namespace (proxyMeta p) = clusterNamespace c \<and> ?F p"
    using uniq assms(5) by blast
  finally show ?thesis using assms(6) by (simp add: clusterList_def sel assms(2))
qed

theorem mapper_vs_cluster_list_witness:
  "proxyKey sampleProxy \<in> set (fst (ClusterToCdk8sAppProxyMapper
     (sampleController\<lparr>listProxies := \<lambda>ns w. (Inr (filter (\<lambda>p. Namespace (proxyMeta p) = ns) [sampleProxy]), w),
        resOps := sampleResourcer\<lparr>listClusters := \<lambda>f w. (Inr (filter (\<lambda>c. f (clusterLabels c)) [sampleCluster]), w)\<rparr>\<rparr>)
     (Some sampleCluster) []))"
  by (subst mapper_vs_cluster_list [where ps = "[sampleProxy]" and cs = "[sampleCluster]"])
    (simp_all add: clusterList_def, simp_all add: sampleResourcer_def sampleProxy_def sampleSelector_def sampleCluster_def)

text \<open>
  As long as namespace, name and reference have no slash, the work directory is a direct child of
  \<open>/tmp\<close>. The reference is not checked, though: with dots and slashes in it, the path that is
  cloned into and finally removed can be any other directory.
\<close>

theorem work_directory_confinement:
  assumes "CHR ''/'' \<notin> set ns" and "CHR ''/'' \<notin> set n"
  shows "(CHR ''/'' \<notin> set branch \<longrightarrow>
      cleanPath (workDirectory ns n branch) = ''/tmp/cdk8s-'' @ ns @ ''-'' @ n @ ''-'' @ branch) \<and>
    cleanPath (workDirectory ns n ''x/../../etc'') = ''/etc''"
proof -
  have "cleanPath (workDirectory ns n branch) = ''/tmp/cdk8s-'' @ ns @ ''-'' @ n @ ''-'' @ branch"
    if "CHR ''/'' \<notin> set branch"
    using workDirectory_child [OF assms that] by (simp add: cleanPath_def workDirectory_def go_simps)
  moreover have "cleanElems True (workDirectory ns n ''x/../../etc'') = [''etc'']"
    by (rule workDirectory_escape [OF assms])
  then have "cleanPath (workDirectory ns n ''x/../../etc'') = ''/etc''"
    by (simp add: cleanPath_def workDirectory_def go_simps)
  ultimately show ?thesis by blast
qed

theorem work_directory_confinement_witness:
  "cleanPath (workDirectory ''default'' ''app'' ''x/../../etc'') = ''/etc'' \<and>
   cleanPath (workDirectory ''default'' ''app'' ''main'') = ''/tmp/cdk8s-default-app-main''"
  using work_directory_confinement [of "''default''" "''app''" "''main''"] by simp

end
