(* ===== verification/Generator.thy ===== *)
theory Generator
  imports Controller Provider Webhook
begin

text \<open>
  The reconciler of \<open>Cdk8sAppProxyGenerator\<close> objects (\<open>controllers/generator_controller.go\<close>): poll
  the open pull requests of the source repository and create or update one proxy per request.

  \<open>generator_env\<close> holds the environments of the components it calls, the API client, the clock and
  the two library functions \<open>ctrl.SetControllerReference\<close> (the owner references of the object after
  the call, or an error) and \<open>retry.RetryOnConflict\<close>. Instants and durations are in nanoseconds.

  The Go code copies the template's struct, but the label and annotation maps and the git repository
  behind its pointer are shared between the template and the proxy that is rendered from it. The
  generator object is therefore threaded through: \<open>shareBack\<close> writes what happened to the shared parts
  of the proxy back into the template. The API calls return the object as it is after the call,
  since the client decodes the server's response into it.
\<close>

section \<open>Parameters\<close>

record 'w generator_env =
  genGitOps :: "'w git_env"
  genHttp :: "'w http_env"
  genSecretGet :: "'w secret_get"
  getGenerator :: "string \<Rightarrow> string \<Rightarrow> ('w, goerr + Cdk8sAppProxyGenerator) io"
  getExisting :: "string \<Rightarrow> string \<Rightarrow> ('w, goerr + Cdk8sAppProxy) io"
  createProxy :: "Cdk8sAppProxy \<Rightarrow> ('w, goerr option \<times> Cdk8sAppProxy) io"
  updateProxy :: "Cdk8sAppProxy \<Rightarrow> ('w, goerr option \<times> Cdk8sAppProxy) io"
  updateGenStatus :: "Cdk8sAppProxyGenerator \<Rightarrow> ('w, goerr option) io"
  clockNow :: "('w, int) io"
  controllerReference :: "ObjectMeta \<Rightarrow> ObjectMeta \<Rightarrow> goerr + OwnerReference list"
  retryOnConflict :: "('w, goerr option) io \<Rightarrow> ('w, goerr option) io"

section \<open>Rendering a proxy\<close>

definition matchesFilters :: "PRFilter list \<Rightarrow> string \<Rightarrow> bool" where
  "matchesFilters filters baseBranch =
     (if length filters > 0 then list_ex (\<lambda>f. BranchMatch f = '''' \<or> BranchMatch f = baseBranch) filters
      else True)"

definition genProxyName :: "string \<Rightarrow> int \<Rightarrow> string" where
  "genProxyName generator number = generator @ ''-pr-'' @ showInt number"

definition proxyLabels :: "labels option \<Rightarrow> string \<Rightarrow> int \<Rightarrow> labels" where
  "proxyLabels template generator number =
     (case template of None \<Rightarrow> Map.empty | Some m \<Rightarrow> m)
       (''addons.cluster.x-k8s.io/generator-name'' \<mapsto> generator,
        ''addons.cluster.x-k8s.io/pr-number'' \<mapsto> showInt number)"

definition emptyRepository :: GitRepositorySpec where
  "emptyRepository = \<lparr>URL = '''', Reference = '''', Path = '''', SecretRef = '''', SecretKey = '''',
     KnownHostsKey = ''''\<rparr>"

text \<open>Lines 199-213: the template's repository, with the specifics of the pull request written into it.\<close>

definition proxyRepository :: "Cdk8sAppProxyGeneratorSpec \<Rightarrow> PullRequest \<Rightarrow> GitRepositorySpec" where
  "proxyRepository spec pr =
     (let r0 = (case GitRepository (templateSpec (Template spec)) of None \<Rightarrow> emptyRepository | Some r \<Rightarrow> r);
          r1 = r0\<lparr>URL := URL (Source spec), Reference := Branch pr, SecretRef := SecretRef (Source spec),
                  SecretKey := SecretKey (Source spec)\<rparr>;
          r2 = (if Path (Source spec) \<noteq> '''' then r1\<lparr>Path := Path (Source spec)\<rparr> else r1)
      in if genPath spec \<noteq> '''' then r2\<lparr>Path := genPath spec\<rparr> else r2)"

definition proxyObjectMeta :: "Cdk8sAppProxyGenerator \<Rightarrow> PullRequest \<Rightarrow> ObjectMeta" where
  "proxyObjectMeta generator pr =
     \<lparr>Name = genProxyName (Name (genMeta generator)) (Number pr),
      Namespace = Namespace (genMeta generator),
      Labels = Some (proxyLabels (Labels (templateMetadata (Template (genSpec generator))))
                       (Name (genMeta generator)) (Number pr)),
      Annotations = Annotations (templateMetadata (Template (genSpec generator))),
      OwnerReferences = []\<rparr>"

definition proxyObject :: "Cdk8sAppProxyGenerator \<Rightarrow> PullRequest \<Rightarrow> OwnerReference list \<Rightarrow> Cdk8sAppProxy" where
  "proxyObject generator pr refs =
     \<lparr>proxyMeta = (proxyObjectMeta generator pr)\<lparr>OwnerReferences := refs\<rparr>,
      proxySpec = (templateSpec (Template (genSpec generator)))
        \<lparr>GitRepository := Some (proxyRepository (genSpec generator) pr)\<rparr>,
      proxyStatus = \<lparr>Conditions = []\<rparr>\<rparr>"

text \<open>
  The parts of a template that are shared with a rendered proxy, after the proxy has become as given:
  a map or a repository that was nil in the template was made new for the proxy and is not shared.
\<close>

definition shareLabels :: "labels option \<Rightarrow> Cdk8sAppProxyGenerator \<Rightarrow> Cdk8sAppProxyGenerator" where
  "shareLabels ls generator =
     (let t = Template (genSpec generator); m = templateMetadata t
      in if Labels m = None then generator
         else generator\<lparr>genSpec := (genSpec generator)\<lparr>Template := t\<lparr>templateMetadata := m\<lparr>Labels := ls\<rparr>\<rparr>\<rparr>\<rparr>)"

definition shareAnnotations :: "labels option \<Rightarrow> Cdk8sAppProxyGenerator \<Rightarrow> Cdk8sAppProxyGenerator" where
  "shareAnnotations an generator =
     (let t = Template (genSpec generator); m = templateMetadata t
      in if Annotations m = None then generator
         else generator\<lparr>genSpec := (genSpec generator)\<lparr>Template := t\<lparr>templateMetadata := m\<lparr>Annotations := an\<rparr>\<rparr>\<rparr>\<rparr>)"

definition shareRepository :: "GitRepositorySpec option \<Rightarrow> Cdk8sAppProxyGenerator \<Rightarrow> Cdk8sAppProxyGenerator" where
  "shareRepository r generator =
     (let t = Template (genSpec generator); s = templateSpec t
      in if GitRepository s = None then generator
         else generator\<lparr>genSpec := (genSpec generator)\<lparr>Template := t\<lparr>templateSpec := s\<lparr>GitRepository := r\<rparr>\<rparr>\<rparr>\<rparr>)"

definition shareBack :: "Cdk8sAppProxy \<Rightarrow> Cdk8sAppProxyGenerator \<Rightarrow> Cdk8sAppProxyGenerator" where
  "shareBack p generator =
     shareRepository (GitRepository (proxySpec p))
       (shareAnnotations (Annotations (proxyMeta p)) (shareLabels (Labels (proxyMeta p)) generator))"

section \<open>One pull request\<close>

definition reconcilePR ::
  "'w generator_env \<Rightarrow> Cdk8sAppProxyGenerator \<Rightarrow> PullRequest \<Rightarrow>
     ('w, goerr option \<times> Cdk8sAppProxyGenerator) io" where
  "reconcilePR env generator pr w =
     (if \<not> matchesFilters (Filters (genSpec generator)) (BaseBranch pr) then ((None, generator), w)
      else
        (let meta = proxyObjectMeta generator pr in
         case controllerReference env (genMeta generator) meta of
           Inl e \<Rightarrow> ((Some (EControllerRef e), shareLabels (Labels meta) generator), w)
         | Inr refs \<Rightarrow>
             (let proxy = proxyObject generator pr refs in
              case getExisting env (Namespace meta) (Name meta) w of
                (Inl e, w1) \<Rightarrow>
                  (if isNotFound e then
                     (case createProxy env proxy w1 of ((err, p), w2) \<Rightarrow> ((err, shareBack p generator), w2))
                   else ((Some e, shareBack proxy generator), w1))
              | (Inr existing, w1) \<Rightarrow>
                  (case updateProxy env
                          (existing\<lparr>proxySpec := proxySpec proxy,
                             proxyMeta := (proxyMeta existing)\<lparr>Labels := Labels meta, Annotations := Annotations meta\<rparr>\<rparr>)
                          w1 of
                     ((err, p), w2) \<Rightarrow> ((err, shareBack p generator), w2)))))"

section \<open>Reconcile\<close>

text \<open>The loop over the pull requests: its errors are logged and the next one is processed.\<close>

fun reconcilePRs ::
  "'w generator_env \<Rightarrow> Cdk8sAppProxyGenerator \<Rightarrow> PullRequest list \<Rightarrow> 'w \<Rightarrow> 'w" where
  "reconcilePRs env generator [] w = w"
| "reconcilePRs env generator (pr # prs) w =
     (case reconcilePR env generator pr w of ((_, generator'), w1) \<Rightarrow> reconcilePRs env generator' prs w1)"

definition setLastPolled :: "int \<Rightarrow> Cdk8sAppProxyGenerator \<Rightarrow> Cdk8sAppProxyGenerator" where
  "setLastPolled t g = g\<lparr>genStatus := (genStatus g)\<lparr>LastPolledTime := Some t\<rparr>\<rparr>"

definition touchStatus :: "'w generator_env \<Rightarrow> string \<Rightarrow> string \<Rightarrow> ('w, goerr option) io" where
  "touchStatus env namespace name w =
     (case getGenerator env namespace name w of
        (Inl e, w1) \<Rightarrow> (Some e, w1)
      | (Inr latest, w1) \<Rightarrow> (case clockNow env w1 of (t, w2) \<Rightarrow> updateGenStatus env (setLastPolled t latest) w2))"

text \<open>Lines 87-152: everything after the test whether it is time to poll.\<close>

definition poll ::
  "'w generator_env \<Rightarrow> string \<Rightarrow> string \<Rightarrow> Cdk8sAppProxyGenerator \<Rightarrow> int \<Rightarrow> ('w, Result \<times> goerr option) io" where
  "poll env namespace name generator pollInterval w =
     (case FetchSecret (genSecretGet env) (Namespace (genMeta generator)) (Some (Source (genSpec generator))) w of
        (Inl e, w1) \<Rightarrow> ((emptyResult, Some e), w1)
      | (Inr secretRef, w1) \<Rightarrow>
          (case CheckAccess (genGitOps env) \<lparr>KnownHosts = None\<rparr> (URL (Source (genSpec generator))) secretRef w1 of
             ((accessible, requiredAuth, Some e), w2) \<Rightarrow> ((emptyResult, Some e), w2)
           | ((accessible, requiredAuth, None), w2) \<Rightarrow>
               (if requiredAuth \<and> blen secretRef = 0 then ((emptyResult, None), w2)
                else if \<not> accessible then ((emptyResult, None), w2)
                else
                  (let providerClient = NewProviderClient (URL (Source (genSpec generator))) None in
                   case ListPullRequests (genHttp env) providerClient (URL (Source (genSpec generator))) secretRef w2 of
                     (Inl e, w3) \<Rightarrow> ((emptyResult, Some e), w3)
                   | (Inr prs, w3) \<Rightarrow>
                       (case retryOnConflict env (touchStatus env namespace name) (reconcilePRs env generator prs w3) of
                          (Some e, w4) \<Rightarrow> ((emptyResult, Some e), w4)
                        | (None, w4) \<Rightarrow> ((\<lparr>RequeueAfter = pollInterval\<rparr>, None), w4))))))"

definition pollIntervalOf :: "Cdk8sAppProxyGeneratorSpec \<Rightarrow> int" where
  "pollIntervalOf spec = (case PollInterval spec of None \<Rightarrow> 5 * 60 * 1000000000 | Some d \<Rightarrow> d)"

text \<open>The difference of two instants as a \<open>time.Duration\<close>: saturated to 64 bits.\<close>

definition asDuration :: "int \<Rightarrow> int" where
  "asDuration d = max (- (2 ^ 63)) (min (2 ^ 63 - 1) d)"

definition GenReconcile ::
  "'w generator_env \<Rightarrow> string \<Rightarrow> string \<Rightarrow> ('w, Result \<times> goerr option) io" where
  "GenReconcile env namespace name w =
     (case getGenerator env namespace name w of
        (Inl e, w1) \<Rightarrow> ((emptyResult, Some e), w1)
      | (Inr generator, w1) \<Rightarrow>
          (let pollInterval = pollIntervalOf (genSpec generator) in
           case LastPolledTime (genStatus generator) of
             None \<Rightarrow> poll env namespace name generator pollInterval w1
           | Some t \<Rightarrow>
               (let nextPoll = t + pollInterval in
                case clockNow env w1 of
                  (now, w2) \<Rightarrow>
                    (if now < nextPoll then
                       (case clockNow env w2 of
                          (now', w3) \<Rightarrow> ((\<lparr>RequeueAfter = asDuration (nextPoll - now')\<rparr>, None), w3))
                     else poll env namespace name generator pollInterval w2))))"

section \<open>Reference definitions\<close>

text \<open>
  What the API server is relied on for: the mutating webhook is called on every create and update,
  so objects that are equal after defaulting are treated alike; and the response repeats the labels
  and annotations sent and the repository, defaulted or not.
\<close>

definition echoes :: "Cdk8sAppProxy \<Rightarrow> Cdk8sAppProxy \<Rightarrow> bool" where
  "echoes p q =
     (Labels (proxyMeta q) = Labels (proxyMeta p) \<and> Annotations (proxyMeta q) = Annotations (proxyMeta p) \<and>
      (GitRepository (proxySpec q) = GitRepository (proxySpec p) \<or>
       GitRepository (proxySpec q) = map_option defaultRepository (GitRepository (proxySpec p))))"

definition admitting :: "(Cdk8sAppProxy \<Rightarrow> ('w, goerr option \<times> Cdk8sAppProxy) io) \<Rightarrow> bool" where
  "admitting call \<longleftrightarrow>
     (\<forall>p w. echoes p (snd (fst (call p w)))) \<and>
     (\<forall>p q w. webhookDefault p = webhookDefault q \<longrightarrow>
        fst (fst (call p w)) = fst (fst (call q w)) \<and> snd (call p w) = snd (call q w))"

text \<open>
  Two generators that render the same proxies up to the defaults: they differ at most in the
  template's two labels that are always overwritten and in the fields of its repository that are.
\<close>

definition samePath :: "string \<Rightarrow> string \<Rightarrow> bool" where
  "samePath a b = ((if a = '''' then ''.'' else a) = (if b = '''' then ''.'' else b))"

definition forgetPR :: "labels \<Rightarrow> labels" where
  "forgetPR m = m(''addons.cluster.x-k8s.io/generator-name'' := None, ''addons.cluster.x-k8s.io/pr-number'' := None)"

definition alike :: "Cdk8sAppProxyGenerator \<Rightarrow> Cdk8sAppProxyGenerator \<Rightarrow> bool" where
  "alike g h =
     (let t = Template (genSpec g); u = Template (genSpec h) in
      genMeta h = genMeta g \<and> Filters (genSpec h) = Filters (genSpec g) \<and> Source (genSpec h) = Source (genSpec g) \<and>
      genPath (genSpec h) = genPath (genSpec g) \<and>
      ClusterSelector (templateSpec u) = ClusterSelector (templateSpec t) \<and>
      Annotations (templateMetadata u) = Annotations (templateMetadata t) \<and>
      map_option forgetPR (Labels (templateMetadata u)) = map_option forgetPR (Labels (templateMetadata t)) \<and>
      (case (GitRepository (templateSpec u), GitRepository (templateSpec t)) of
         (None, None) \<Rightarrow> True
       | (Some r, Some s) \<Rightarrow> KnownHostsKey r = KnownHostsKey s \<and>
           (genPath (genSpec g) \<noteq> '''' \<or> Path (Source (genSpec g)) \<noteq> '''' \<or> samePath (Path r) (Path s))
       | _ \<Rightarrow> False))"

section \<open>Lemmas\<close>

lemma genProxyName_inject:
  assumes "genProxyName g n = genProxyName h m"
  shows "g = h \<and> n = m"
proof -
  have no_r: "CHR ''r'' \<notin> set (showInt i)" for i
    using showInt_chars [of "CHR ''r''" i] by auto
  have tail: "takeWhile (\<lambda>c. c \<noteq> CHR ''r'') (rev (genProxyName a i)) = rev (showInt i) @ ''-''" for a i
  proof -
    have "rev (genProxyName a i) = (rev (showInt i) @ ''-'') @ CHR ''r'' # ''p-'' @ rev a"
      by (simp add: genProxyName_def)
    then show ?thesis using no_r [of i] by (simp add: takeWhile_append2 takeWhile_tail) (auto simp: takeWhile_append)
  qed
  have "rev (showInt n) = rev (showInt m)" using tail [of g n] tail [of h m] assms by simp
  then have "n = m" by (auto dest: showInt_inject)
  with assms show ?thesis by (simp add: genProxyName_def)
qed

lemma proxyLabels_forget:
  "map_option forgetPR l = map_option forgetPR l' \<Longrightarrow> proxyLabels l g n = proxyLabels l' g n"
proof -
  assume eq: "map_option forgetPR l = map_option forgetPR l'"
  have over: "m(k \<mapsto> a, k' \<mapsto> b) = (m(k := None, k' := None))(k \<mapsto> a, k' \<mapsto> b)"
    for m :: labels and k k' :: string and a b
    by (rule ext) simp
  have "proxyLabels (Some m) g n = proxyLabels (Some (forgetPR m)) g n" for m
    unfolding proxyLabels_def forgetPR_def option.case by (rule over)
  with eq show ?thesis by (cases l; cases l') (simp_all, metis)
qed

lemma forget_proxyLabels: "forgetPR (proxyLabels (Some m) g n) = forgetPR m"
  by (auto simp: proxyLabels_def forgetPR_def)

lemma alike_refl [simp]: "alike g g"
  by (auto simp: alike_def samePath_def Let_def split: option.splits)

lemma alike_meta: "alike g h \<Longrightarrow> proxyObjectMeta h pr = proxyObjectMeta g pr"
  by (auto simp: alike_def proxyObjectMeta_def Let_def intro: proxyLabels_forget)

definition templateRepository :: "Cdk8sAppProxyGenerator \<Rightarrow> GitRepositorySpec" where
  "templateRepository g =
     (case GitRepository (templateSpec (Template (genSpec g))) of None \<Rightarrow> emptyRepository | Some r \<Rightarrow> r)"

lemma proxyRepository_fields:
  "URL (proxyRepository (genSpec g) pr) = URL (Source (genSpec g))"
  "Reference (proxyRepository (genSpec g) pr) = Branch pr"
  "SecretRef (proxyRepository (genSpec g) pr) = SecretRef (Source (genSpec g))"
  "SecretKey (proxyRepository (genSpec g) pr) = SecretKey (Source (genSpec g))"
  "KnownHostsKey (proxyRepository (genSpec g) pr) = KnownHostsKey (templateRepository g)"
  "Path (proxyRepository (genSpec g) pr) =
     (if genPath (genSpec g) \<noteq> '''' then genPath (genSpec g)
      else if Path (Source (genSpec g)) \<noteq> '''' then Path (Source (genSpec g))
      else Path (templateRepository g))"
  by (simp_all add: proxyRepository_def templateRepository_def Let_def)

lemma alike_templateRepository:
  assumes "alike g h"
  shows "KnownHostsKey (templateRepository h) = KnownHostsKey (templateRepository g)"
    and "genPath (genSpec g) = '''' \<Longrightarrow> Path (Source (genSpec g)) = '''' \<Longrightarrow>
      samePath (Path (templateRepository h)) (Path (templateRepository g))"
  using assms by (auto simp: alike_def templateRepository_def samePath_def Let_def split: option.splits)

lemma alike_repository:
  assumes "alike g h"
  shows "defaultRepository (proxyRepository (genSpec h) pr) = defaultRepository (proxyRepository (genSpec g) pr)"
proof -
  have "Source (genSpec h) = Source (genSpec g)" "genPath (genSpec h) = genPath (genSpec g)"
    using assms by (simp_all add: alike_def Let_def)
  then show ?thesis
    using alike_templateRepository [OF assms]
    by (cases "genPath (genSpec g) = '''' \<and> Path (Source (genSpec g)) = ''''")
      (intro GitRepositorySpec.equality; auto simp: proxyRepository_fields samePath_def split: if_splits)+
qed

lemma alike_object:
  assumes "alike g h"
  shows "webhookDefault (proxyObject h pr refs) = webhookDefault (proxyObject g pr refs)"
proof -
  have "ClusterSelector (templateSpec (Template (genSpec h))) = ClusterSelector (templateSpec (Template (genSpec g)))"
    using assms by (simp add: alike_def Let_def)
  then show ?thesis
    using alike_repository [OF assms, of pr] alike_meta [OF assms, of pr]
    by (simp add: webhookDefault_def proxyObject_def setRepository_def)
qed

lemma samePath_trans: "samePath c b \<Longrightarrow> samePath b a \<Longrightarrow> samePath c a"
  by (simp add: samePath_def)

lemma alike_trans:
  assumes "alike g h" and "alike h k"
  shows "alike g k"
proof (cases "GitRepository (templateSpec (Template (genSpec g)))")
  case None
  with assms show ?thesis by (simp add: alike_def Let_def split: option.splits)
next
  case (Some r)
  then obtain s where s: "GitRepository (templateSpec (Template (genSpec h))) = Some s"
    using assms(1) by (auto simp: alike_def Let_def split: option.splits)
  then obtain t where "GitRepository (templateSpec (Template (genSpec k))) = Some t"
    using assms(2) by (auto simp: alike_def Let_def split: option.splits)
  with Some s assms show ?thesis by (auto simp: alike_def Let_def dest: samePath_trans)
qed

lemma share_frame [simp]:
  "genMeta (shareBack q g) = genMeta g"
  "Filters (genSpec (shareBack q g)) = Filters (genSpec g)"
  "Source (genSpec (shareBack q g)) = Source (genSpec g)"
  "genPath (genSpec (shareBack q g)) = genPath (genSpec g)"
  "ClusterSelector (templateSpec (Template (genSpec (shareBack q g)))) =
     ClusterSelector (templateSpec (Template (genSpec g)))"
  by (simp_all add: shareBack_def shareRepository_def shareAnnotations_def shareLabels_def Let_def)

lemma share_fields:
  "Labels (templateMetadata (Template (genSpec (shareBack q g)))) =
     (if Labels (templateMetadata (Template (genSpec g))) = None then None else Labels (proxyMeta q))"
  "Annotations (templateMetadata (Template (genSpec (shareBack q g)))) =
     (if Annotations (templateMetadata (Template (genSpec g))) = None then None else Annotations (proxyMeta q))"
  "GitRepository (templateSpec (Template (genSpec (shareBack q g)))) =
     (if GitRepository (templateSpec (Template (genSpec g))) = None then None else GitRepository (proxySpec q))"
  by (cases "Labels (templateMetadata (Template (genSpec g)))";
      cases "Annotations (templateMetadata (Template (genSpec g)))";
      cases "GitRepository (templateSpec (Template (genSpec g)))";
      simp add: shareBack_def shareRepository_def shareAnnotations_def shareLabels_def Let_def)+

lemma shareBack_alike:
  assumes "Labels (proxyMeta q) = Labels (proxyObjectMeta g pr)"
    and "Annotations (proxyMeta q) = Annotations (proxyObjectMeta g pr)"
    and "GitRepository (proxySpec q) = Some r"
    and "r = proxyRepository (genSpec g) pr \<or> r = defaultRepository (proxyRepository (genSpec g) pr)"
  shows "alike g (shareBack q g)"
proof -
  let ?m = "templateMetadata (Template (genSpec g))"
  have labels: "map_option forgetPR (if Labels ?m = None then None else Labels (proxyMeta q)) =
      map_option forgetPR (Labels ?m)"
    using assms(1) by (cases "Labels ?m") (simp_all add: proxyObjectMeta_def forget_proxyLabels)
  have annotations: "(if Annotations ?m = None then None else Annotations (proxyMeta q)) = Annotations ?m"
    using assms(2) by (simp add: proxyObjectMeta_def)
  have repo: "KnownHostsKey r = KnownHostsKey s \<and>
      (genPath (genSpec g) \<noteq> '''' \<or> Path (Source (genSpec g)) \<noteq> '''' \<or> samePath (Path r) (Path s))"
    if "GitRepository (templateSpec (Template (genSpec g))) = Some s" for s
  proof -
    have "templateRepository g = s" using that by (simp add: templateRepository_def)
    then show ?thesis using assms(4) by (auto simp: proxyRepository_fields samePath_def)
  qed
  show ?thesis
    using repo assms(3)
    by (cases "GitRepository (templateSpec (Template (genSpec g)))")
      (simp_all add: alike_def Let_def share_fields labels annotations)
qed

lemma alike_update:
  assumes "alike g h"
  shows "webhookDefault (ex\<lparr>proxySpec := proxySpec (proxyObject h pr refs), proxyMeta := m\<rparr>) =
         webhookDefault (ex\<lparr>proxySpec := proxySpec (proxyObject g pr refs), proxyMeta := m\<rparr>)"
proof -
  have "ClusterSelector (templateSpec (Template (genSpec h))) = ClusterSelector (templateSpec (Template (genSpec g)))"
    using assms by (simp add: alike_def Let_def)
  then show ?thesis
    using alike_repository [OF assms, of pr]
    by (simp add: webhookDefault_def proxyObject_def setRepository_def)
qed

lemma shareLabels_alike: "alike g (shareLabels (Labels (proxyObjectMeta g pr)) g)"
  by (auto simp: alike_def shareLabels_def proxyObjectMeta_def forget_proxyLabels samePath_def Let_def
      split: option.splits)

lemma proxyObject_simps [simp]:
  "proxyMeta (proxyObject g pr refs) = (proxyObjectMeta g pr)\<lparr>OwnerReferences := refs\<rparr>"
  "GitRepository (proxySpec (proxyObject g pr refs)) = Some (proxyRepository (genSpec g) pr)"
  by (simp_all add: proxyObject_def)

lemma echo_alike:
  assumes "echoes p q" and "GitRepository (proxySpec p) = Some (proxyRepository (genSpec g) pr)"
    and "Labels (proxyMeta p) = Labels (proxyObjectMeta g pr)"
    and "Annotations (proxyMeta p) = Annotations (proxyObjectMeta g pr)"
  shows "alike g (shareBack q g)"
proof -
  from assms obtain r where "GitRepository (proxySpec q) = Some r"
    "r = proxyRepository (genSpec g) pr \<or> r = defaultRepository (proxyRepository (genSpec g) pr)"
    by (auto simp: echoes_def)
  with assms show ?thesis by (intro shareBack_alike [of q g pr r]) (auto simp: echoes_def)
qed

lemma admitting_echo: "admitting call \<Longrightarrow> call p w = ((err, q), w') \<Longrightarrow> echoes p q"
  by (auto simp: admitting_def) (metis fst_conv snd_conv)

lemma admitting_same:
  assumes "admitting call" and "webhookDefault p = webhookDefault p'" and "call p w = ((err, q), w')"
  shows "\<exists>q'. call p' w = ((err, q'), w')"
proof -
  have "fst (fst (call p' w)) = err \<and> snd (call p' w) = w'"
    using assms unfolding admitting_def by (metis fst_conv snd_conv)
  then show ?thesis by (cases "call p' w") (auto simp: prod_eq_iff)
qed

text \<open>One pull request on a generator alike to the original: same effects, and the result is alike.\<close>

lemma reconcilePR_alike:
  assumes "admitting (createProxy env)" and "admitting (updateProxy env)" and "alike g h"
  shows "\<exists>err g' h' w'. reconcilePR env g pr w = ((err, g'), w') \<and> reconcilePR env h pr w = ((err, h'), w') \<and>
    alike g h'"
proof (cases "matchesFilters (Filters (genSpec g)) (BaseBranch pr)")
  case False
  then show ?thesis using assms(3) by (simp add: reconcilePR_def alike_def Let_def)
next
  case True
  then have match: "matchesFilters (Filters (genSpec h)) (BaseBranch pr)" "genMeta h = genMeta g"
    using assms(3) by (simp_all add: alike_def Let_def)
  note meta = alike_meta [OF assms(3), of pr]
  have shared: "alike g (shareBack q h)" if "echoes p q" "GitRepository (proxySpec p) = Some (proxyRepository (genSpec h) pr)"
    "Labels (proxyMeta p) = Labels (proxyObjectMeta h pr)" "Annotations (proxyMeta p) = Annotations (proxyObjectMeta h pr)" for p q
    using alike_trans [OF assms(3)] echo_alike [OF that] by blast
  show ?thesis
  proof (cases "controllerReference env (genMeta g) (proxyObjectMeta g pr)")
    case (Inl e)
    with True match meta shareLabels_alike [of h pr] alike_trans [OF assms(3)] show ?thesis
      by (simp add: reconcilePR_def)
  next
    case (Inr refs)
    obtain r w1 where r: "getExisting env (Namespace (proxyObjectMeta g pr)) (Name (proxyObjectMeta g pr)) w = (r, w1)"
      by fastforce
    show ?thesis
    proof (cases r)
      case (Inl e)
      show ?thesis
      proof (cases "isNotFound e")
        case True': True
        obtain err q w2 where c: "createProxy env (proxyObject g pr refs) w1 = ((err, q), w2)" by (metis prod.collapse)
        then obtain q' where c': "createProxy env (proxyObject h pr refs) w1 = ((err, q'), w2)"
          using admitting_same [OF assms(1) alike_object [OF assms(3), symmetric]] by blast
        have "alike g (shareBack q' h)"
          by (rule shared [OF admitting_echo [OF assms(1) c']]) simp_all
        with c c' True True' match meta Inr r Inl show ?thesis by (simp add: reconcilePR_def)
      next
        case False
        have "echoes (proxyObject h pr refs) (proxyObject h pr refs)" by (simp add: echoes_def)
        then have "alike g (shareBack (proxyObject h pr refs) h)" by (rule shared) simp_all
        with False True match meta Inr r Inl show ?thesis by (simp add: reconcilePR_def)
      qed
    next
      case r': (Inr ex)
      let ?m = "(proxyMeta ex)\<lparr>Labels := Labels (proxyObjectMeta g pr), Annotations := Annotations (proxyObjectMeta g pr)\<rparr>"
      obtain err q w2 where c: "updateProxy env (ex\<lparr>proxySpec := proxySpec (proxyObject g pr refs), proxyMeta := ?m\<rparr>) w1 =
          ((err, q), w2)" by (metis prod.collapse)
      then obtain q' where c': "updateProxy env (ex\<lparr>proxySpec := proxySpec (proxyObject h pr refs), proxyMeta := ?m\<rparr>) w1 =
          ((err, q'), w2)"
        using admitting_same [OF assms(2) alike_update [OF assms(3), symmetric]] by blast
      have "alike g (shareBack q' h)"
        by (rule shared [OF admitting_echo [OF assms(2) c']]) (simp_all add: meta)
      with c c' True match meta Inr r r' show ?thesis by (simp add: reconcilePR_def)
    qed
  qed
qed

lemma reconcilePRs_alike:
  assumes "admitting (createProxy env)" and "admitting (updateProxy env)" and "alike g h"
  shows "reconcilePRs env h prs w = fold (\<lambda>pr v. snd (reconcilePR env g pr v)) prs w"
  using assms(3)
proof (induction prs arbitrary: h w)
  case (Cons pr prs)
  obtain err g' h' w' where "reconcilePR env g pr w = ((err, g'), w')" "reconcilePR env h pr w = ((err, h'), w')"
    "alike g h'"
    using reconcilePR_alike [OF assms(1,2) Cons.prems] by metis
  with Cons.IH show ?case by simp
qed simp

lemma reconcilePR_meta: "genMeta (snd (fst (reconcilePR env g pr w))) = genMeta g"
  by (auto simp: reconcilePR_def shareLabels_def Let_def split: prod.splits sum.splits)

lemma reconcilePR_confined:
  assumes "\<And>p v. proxyKey p = (Namespace (genMeta g), genProxyName (Name (genMeta g)) (Number pr)) \<Longrightarrow>
      create' p v = createProxy env p v \<and> update' p v = updateProxy env p v"
    and "\<And>ns n v p v'. getExisting env ns n v = (Inr p, v') \<Longrightarrow> proxyKey p = (ns, n)"
  shows "reconcilePR (env\<lparr>createProxy := create', updateProxy := update'\<rparr>) g pr w = reconcilePR env g pr w"
proof -
  let ?meta = "proxyObjectMeta g pr"
  have meta: "Namespace ?meta = Namespace (genMeta g)" "Name ?meta = genProxyName (Name (genMeta g)) (Number pr)"
    by (simp_all add: proxyObjectMeta_def)
  obtain r w1 where r: "getExisting env (Namespace ?meta) (Name ?meta) w = (r, w1)" by fastforce
  have create: "create' (proxyObject g pr refs) v = createProxy env (proxyObject g pr refs) v" for refs v
    using assms(1) [of "proxyObject g pr refs" v] meta by (simp add: proxyKey_def)
  have update: "update' (ex\<lparr>proxySpec := s, proxyMeta := (proxyMeta ex)\<lparr>Labels := l, Annotations := a\<rparr>\<rparr>) v =
      updateProxy env (ex\<lparr>proxySpec := s, proxyMeta := (proxyMeta ex)\<lparr>Labels := l, Annotations := a\<rparr>\<rparr>) v"
    if "r = Inr ex" for ex s l a v
    using assms(1) [of "ex\<lparr>proxySpec := s, proxyMeta := (proxyMeta ex)\<lparr>Labels := l, Annotations := a\<rparr>\<rparr>" v]
      assms(2) [OF r [unfolded that]] meta by (simp add: proxyKey_def)
  show ?thesis
    using r create update
    by (cases r) (simp_all add: reconcilePR_def Let_def split: sum.splits)
qed

lemma reconcilePRs_confined:
  assumes "\<And>pr p v. pr \<in> set prs \<Longrightarrow>
      proxyKey p = (Namespace (genMeta g), genProxyName (Name (genMeta g)) (Number pr)) \<Longrightarrow>
      create' p v = createProxy env p v \<and> update' p v = updateProxy env p v"
    and "\<And>ns n v p v'. getExisting env ns n v = (Inr p, v') \<Longrightarrow> proxyKey p = (ns, n)"
  shows "reconcilePRs (env\<lparr>createProxy := create', updateProxy := update'\<rparr>) g prs w = reconcilePRs env g prs w"
  using assms(1)
proof (induction prs arbitrary: g w)
  case (Cons pr prs)
  have one: "reconcilePR (env\<lparr>createProxy := create', updateProxy := update'\<rparr>) g pr w = reconcilePR env g pr w"
    by (rule reconcilePR_confined [OF _ assms(2)]) (rule Cons.prems, simp_all)
  obtain err g' w1 where step: "reconcilePR env g pr w = ((err, g'), w1)" by (metis prod.collapse)
  then have "genMeta g' = genMeta g" using reconcilePR_meta [of env g pr w] by simp
  then have "reconcilePRs (env\<lparr>createProxy := create', updateProxy := update'\<rparr>) g' prs w1 = reconcilePRs env g' prs w1"
    by (intro Cons.IH Cons.prems) simp_all
  then show ?case by (simp add: one step)
qed simp

section \<open>Sample data\<close>

definition sampleGenerator :: Cdk8sAppProxyGenerator where
  "sampleGenerator =
     \<lparr>genMeta = \<lparr>Name = ''preview'', Namespace = ''default'', Labels = None, Annotations = None, OwnerReferences = []\<rparr>,
      genSpec = \<lparr>Source = sampleRepository\<lparr>URL := ''https://github.com/o/r.git''\<rparr>, Filters = [],
        Template = \<lparr>templateMetadata = \<lparr>Name = '''', Namespace = '''', Labels = Some [''team'' \<mapsto> ''a''],
            Annotations = None, OwnerReferences = []\<rparr>,
          templateSpec = \<lparr>GitRepository = Some emptyRepository, ClusterSelector = sampleSelector\<rparr>\<rparr>,
        genPath = '''', PollInterval = Some 60\<rparr>,
      genStatus = \<lparr>genConditions = [], LastPolledTime = Some 100\<rparr>\<rparr>"

definition sampleCall :: "string \<Rightarrow> Cdk8sAppProxy \<Rightarrow> (string list, goerr option \<times> Cdk8sAppProxy) io" where
  "sampleCall verb p w =
     (case webhookDefault p of
        Panicked \<Rightarrow> ((Some (EExternal ''webhook''), p), w)
      | Returned q \<Rightarrow> ((None, q), w @ [verb @ Name (proxyMeta q)]))"

definition sampleGenEnv :: "string list generator_env" where
  "sampleGenEnv =
     \<lparr>genGitOps = sampleGit, genHttp = sampleHttp, genSecretGet = secretGet sampleResourcer,
      getGenerator = (\<lambda>ns n w. (Inr sampleGenerator, w)),
      getExisting = (\<lambda>ns n w. (Inl ENotFound, w)),
      createProxy = sampleCall ''create '', updateProxy = sampleCall ''update '',
      updateGenStatus = (\<lambda>g w. (None, w @ [''status''])),
      clockNow = (\<lambda>w. (150, w)),
      controllerReference = (\<lambda>o' m. Inr [\<lparr>ownerKind = ''Cdk8sAppProxyGenerator'', ownerName = Name o', ownerController = True\<rparr>]),
      retryOnConflict = (\<lambda>f w. f w)\<rparr>"

lemma sampleCall_admitting: "admitting (sampleCall verb)"
  by (auto simp: admitting_def sampleCall_def echoes_def webhookDefault_def split: outcome.splits option.splits)

section \<open>Properties\<close>

text \<open>
  C20. The label and annotation maps and the repository that all rendered proxies share with the
  template make no difference: with an API server that defaults the objects by the webhook and
  echoes them, processing the pull requests one after the other has the effects of processing each
  with the generator as it was read.
\<close>

theorem shared_template_harmless:
  assumes "admitting (createProxy env)" and "admitting (updateProxy env)"
  shows "reconcilePRs env g prs w = fold (\<lambda>pr v. snd (reconcilePR env g pr v)) prs w"
  by (rule reconcilePRs_alike [OF assms alike_refl])

theorem shared_template_harmless_witness:
  "reconcilePRs sampleGenEnv sampleGenerator [samplePR, samplePR\<lparr>Number := 8\<rparr>] [] =
   fold (\<lambda>pr v. snd (reconcilePR sampleGenEnv sampleGenerator pr v)) [samplePR, samplePR\<lparr>Number := 8\<rparr>] []"
  by (rule shared_template_harmless) (simp_all add: sampleGenEnv_def sampleCall_admitting)

text \<open>
  The names of generated proxies are unique: two pull requests of two generators get the same
  proxy name only if the generators have the same name and the requests the same number.
\<close>

theorem generated_names_unique:
  "genProxyName g n = genProxyName h m \<longleftrightarrow> g = h \<and> n = m"
  using genProxyName_inject by blast

text \<open>
  C21. A generator only ever creates or updates the proxies of the pull requests that are listed:
  whatever the API did for all other objects makes no difference. In particular the proxies of
  pull requests that are no longer open are left as they are.
\<close>

theorem only_listed_proxies_touched:
  assumes "\<And>pr p v. pr \<in> set prs \<Longrightarrow>
      proxyKey p = (Namespace (genMeta g), genProxyName (Name (genMeta g)) (Number pr)) \<Longrightarrow>
      create' p v = createProxy env p v \<and> update' p v = updateProxy env p v"
    and "\<And>ns n v p v'. getExisting env ns n v = (Inr p, v') \<Longrightarrow> proxyKey p = (ns, n)"
  shows "reconcilePRs (env\<lparr>createProxy := create', updateProxy := update'\<rparr>) g prs w = reconcilePRs env g prs w"
  using reconcilePRs_confined [OF assms] .

theorem only_listed_proxies_touched_witness:
  "reconcilePRs (sampleGenEnv\<lparr>createProxy := \<lambda>p v. if Name (proxyMeta p) = genProxyName ''preview'' 7
       then createProxy sampleGenEnv p v else ((None, p), v @ [''other'']),
     updateProxy := updateProxy sampleGenEnv\<rparr>) sampleGenerator [samplePR\<lparr>Number := 7\<rparr>] [] =
   reconcilePRs sampleGenEnv sampleGenerator [samplePR\<lparr>Number := 7\<rparr>] []"
  by (rule only_listed_proxies_touched) (auto simp: proxyKey_def sampleGenerator_def sampleGenEnv_def)

text \<open>
  The objects a generator sends against the admission of proxies: an update of an existing proxy
  passes the webhooks exactly when the existing proxy has the source's URL (after a change of the
  source's URL the existing proxies can no longer be updated), and a new proxy exactly when the
  source has a URL at all.
\<close>

theorem generated_objects_admitted:
  "((\<exists>q. webhookDefault (existing\<lparr>proxySpec := proxySpec (proxyObject g pr refs), proxyMeta := m\<rparr>) = Returned q \<and>
         ValidateUpdate existing q = Returned None) \<longleftrightarrow> proxyURL existing = Some (URL (Source (genSpec g)))) \<and>
   ((\<exists>q. webhookDefault (proxyObject g pr refs) = Returned q \<and> ValidateCreate q = Returned None) \<longleftrightarrow>
         URL (Source (genSpec g)) \<noteq> '''')"
  by (auto simp: webhook_ok proxyRepository_fields)

text \<open>
  C32. Before the next poll is due a reconciliation reads the generator and the clock and does nothing
  else. It asks to be called again when the poll is due; if that moment passes between the two
  readings of the clock the delay is not positive, and no further call is asked for.
\<close>

theorem poll_gate:
  assumes "getGenerator env ns n w = (Inr g, w1)" and "LastPolledTime (genStatus g) = Some t"
    and "clockNow env w1 = (now, w2)" and "now < t + pollIntervalOf (genSpec g)"
    and "clockNow env w2 = (now', w3)"
  shows "\<exists>d. GenReconcile env ns n w = ((\<lparr>RequeueAfter = d\<rparr>, None), w3) \<and>
    (0 < d \<longleftrightarrow> now' < t + pollIntervalOf (genSpec g)) \<and> - (2 ^ 63) \<le> d \<and> d < 2 ^ 63"
  using assms by (auto simp: GenReconcile_def Let_def asDuration_def)

theorem poll_gate_witness:
  "\<exists>d. GenReconcile sampleGenEnv ''default'' ''preview'' [] = ((\<lparr>RequeueAfter = d\<rparr>, None), []) \<and>
    (0 < d \<longleftrightarrow> (150 :: int) < 100 + pollIntervalOf (genSpec sampleGenerator)) \<and> - (2 ^ 63) \<le> d \<and> d < 2 ^ 63"
  by (rule poll_gate [of _ _ _ "[]" _ "[]" _ 150 "[]"])
    (simp_all add: sampleGenEnv_def sampleGenerator_def pollIntervalOf_def)

text \<open>
  A poll that gets as far as the list of pull requests processes them all, then sets the poll
  time, and reports nothing but the outcome of the latter: failures of single pull requests are not
  seen in the result, which asks for the next poll after the interval.
\<close>

theorem poll_complete:
  assumes "FetchSecret (genSecretGet env) (Namespace (genMeta g)) (Some (Source (genSpec g))) w = (Inr s, w1)"
    and "CheckAccess (genGitOps env) \<lparr>KnownHosts = None\<rparr> (URL (Source (genSpec g))) s w1 = ((acc, req, None), w2)"
    and "ListPullRequests (genHttp env) (NewProviderClient (URL (Source (genSpec g))) None)
           (URL (Source (genSpec g))) s w2 = (Inr prs, w3)"
    and "\<And>f v. fst (f v) = None \<Longrightarrow> retryOnConflict env f v = f v"
    and "touchStatus env ns n (reconcilePRs env g prs w3) = (None, w4)"
  shows "poll env ns n g interval w = ((\<lparr>RequeueAfter = interval\<rparr>, None), w4)"
proof -
  have "retryOnConflict env (touchStatus env ns n) (reconcilePRs env g prs w3) = (None, w4)"
    using assms(4) [of "touchStatus env ns n"] assms(5) by simp
  with assms(1-3) ca.guards_dead [OF assms(2)] show ?thesis by (auto simp: poll_def)
qed

theorem poll_complete_witness:
  "poll sampleGenEnv ''default'' ''preview'' sampleGenerator 60 [] =
     ((\<lparr>RequeueAfter = 60\<rparr>, None),
      [''list'', ''list'', ''https://api.github.com/repos/o/r/pulls?state=open'', ''close'',
       ''create '' @ genProxyName ''preview'' 42, ''status''])"
proof -
  let ?u = "''https://github.com/o/r.git''" and ?log = "[''list'', ''list'']"
  have source: "Source (genSpec sampleGenerator) = sampleRepository\<lparr>URL := ?u\<rparr>"
    "Namespace (genMeta sampleGenerator) = ''default''"
    by (simp_all add: sampleGenerator_def)
  have secret: "FetchSecret (genSecretGet sampleGenEnv) ''default'' (Some (sampleRepository\<lparr>URL := ?u\<rparr>)) [] =
      (Inr (Some ''ghp''), [])"
    by (simp add: FetchSecret_def sampleGenEnv_def sampleResourcer_def sampleRepository_def)
  have access: "CheckAccess (genGitOps sampleGenEnv) \<lparr>KnownHosts = None\<rparr> ?u (Some ''ghp'') [] =
      ((True, True, None), ?log)"
    by (simp add: CheckAccess_def getAuth_def getURLType_def looksLikePrivateKey_def sampleGenEnv_def sample_git go_simps)
  have prs: "ListPullRequests (genHttp sampleGenEnv) (NewProviderClient ?u None) ?u (Some ''ghp'') ?log =
      (Inr [samplePR], ?log @ [''https://api.github.com/repos/o/r/pulls?state=open'', ''close''])"
    using github_listing [of "''o''" "''r''" "''ghp''" sampleHttp None ?log
        "''https://api.github.com/repos/o/r/pulls?state=open''"
        "?log @ [''https://api.github.com/repos/o/r/pulls?state=open'']" "\<lambda>_. [(''title'', JStr ''x'')]" "[samplePR]" ?u]
    by (simp add: sampleGenEnv_def)
      (simp add: sampleHttp_def unread_def key_simps wfPR_def samplePR_def int64_def go_simps)
  have one: "reconcilePRs sampleGenEnv sampleGenerator [samplePR] v = v @ [''create '' @ genProxyName ''preview'' 42]" for v
    by (simp add: reconcilePR_def Let_def sampleGenEnv_def sampleGenerator_def matchesFilters_def sampleCall_def
        webhookDefault_def proxyObject_def proxyObjectMeta_def samplePR_def isNotFound_def setRepository_def)
  have retry: "retryOnConflict sampleGenEnv f v = f v" for f v
    by (simp add: sampleGenEnv_def)
  have touch: "touchStatus sampleGenEnv ''default'' ''preview'' v = (None, v @ [''status''])" for v
    by (simp add: touchStatus_def sampleGenEnv_def)
  show ?thesis
    using poll_complete [of sampleGenEnv sampleGenerator "[]" "Some ''ghp''" "[]" True True ?log "[samplePR]"
        "?log @ [''https://api.github.com/repos/o/r/pulls?state=open'', ''close'']" "''default''" "''preview''"
        "?log @ [''https://api.github.com/repos/o/r/pulls?state=open'', ''close'',
           ''create '' @ genProxyName ''preview'' 42, ''status'']" 60]
    by (simp add: source secret access prs one touch retry del: reconcilePRs.simps)
qed

end
