(* ===== verification/Previews.thy ===== *)
theory Previews
  imports Generator
begin

text \<open>
  What a generator (\<open>controllers/generator_controller.go\<close>) makes of the objects in the API server over
  several polls. \<open>servesProxies\<close> is what is documented of a server without faults, with the webhook of the
  proxies: \<open>view w\<close> are the proxies it holds in the world \<open>w\<close>; a read returns them, a create or update
  that the webhook admits stores the object after defaulting.

  \<open>renderOn\<close> is the specification: the proxy of a pull request, new or made from the one that is there.
  One poll brings every listed request to its specification and leaves all else alone
  (\<open>poll_brings_up_to_date\<close>), a second one with the same list changes nothing
  (\<open>repeated_poll_changes_nothing\<close>), and after any number of polls a proxy is what the last poll that
  listed its request made it (\<open>previews_outlive_requests\<close>).
\<close>

section \<open>The server\<close>

type_synonym proxies = "string \<times> string \<Rightarrow> Cdk8sAppProxy option"

definition servesProxies :: "'w generator_env \<Rightarrow> ('w \<Rightarrow> proxies) \<Rightarrow> bool" where
  "servesProxies env view \<longleftrightarrow>
     admitting (createProxy env) \<and> admitting (updateProxy env) \<and>
     (\<forall>w k p. view w k = Some p \<longrightarrow> proxyKey p = k) \<and>
     (\<forall>ns n w. view (snd (getExisting env ns n w)) = view w \<and>
        fst (getExisting env ns n w) = (case view w (ns, n) of None \<Rightarrow> Inl ENotFound | Some p \<Rightarrow> Inr p)) \<and>
     (\<forall>p q w. view w (proxyKey p) = None \<longrightarrow> webhookDefault (prepareProxy None p) = Returned q \<longrightarrow>
        ValidateCreate q = Returned None \<longrightarrow> view (snd (createProxy env p w)) = (view w)(proxyKey p \<mapsto> q)) \<and>
     (\<forall>p q old w. view w (proxyKey p) = Some old \<longrightarrow> webhookDefault (prepareProxy (Some old) p) = Returned q \<longrightarrow>
        ValidateUpdate old q = Returned None \<longrightarrow> view (snd (updateProxy env p w)) = (view w)(proxyKey p \<mapsto> q))"

section \<open>The specification of a poll\<close>

definition prKey :: "Cdk8sAppProxyGenerator \<Rightarrow> PullRequest \<Rightarrow> string \<times> string" where
  "prKey g pr = (Namespace (genMeta g), genProxyName (Name (genMeta g)) (Number pr))"

definition selected :: "Cdk8sAppProxyGenerator \<Rightarrow> PullRequest \<Rightarrow> bool" where
  "selected g pr = matchesFilters (Filters (genSpec g)) (BaseBranch pr)"

text \<open>The path is the first one that is set: the generator's, the source's, the template's, or the default.\<close>

definition renderedRepository :: "Cdk8sAppProxyGenerator \<Rightarrow> PullRequest \<Rightarrow> GitRepositorySpec" where
  "renderedRepository g pr =
     (let source = Source (genSpec g);
          paths = [genPath (genSpec g), Path source, Path (templateRepository g), ''.''] in
      \<lparr>URL = URL source, Reference = (if Branch pr = '''' then ''main'' else Branch pr),
       Path = hd (filter (\<lambda>p. p \<noteq> '''') paths),
       SecretRef = SecretRef source, SecretKey = SecretKey source,
       KnownHostsKey = KnownHostsKey (templateRepository g)\<rparr>)"

definition renderedSpec :: "Cdk8sAppProxyGenerator \<Rightarrow> PullRequest \<Rightarrow> Cdk8sAppProxySpec" where
  "renderedSpec g pr =
     \<lparr>GitRepository = Some (renderedRepository g pr),
      ClusterSelector = ClusterSelector (templateSpec (Template (genSpec g)))\<rparr>"

definition renderOn ::
  "Cdk8sAppProxyGenerator \<Rightarrow> PullRequest \<Rightarrow> OwnerReference list \<Rightarrow> Cdk8sAppProxy option \<Rightarrow> Cdk8sAppProxy" where
  "renderOn g pr refs old =
     (let meta = proxyObjectMeta g pr in
      case old of
        None \<Rightarrow> \<lparr>proxyMeta = meta\<lparr>OwnerReferences := refs\<rparr>, proxySpec = renderedSpec g pr,
                  proxyStatus = \<lparr>Conditions = []\<rparr>\<rparr>
      | Some p \<Rightarrow> p\<lparr>proxySpec := renderedSpec g pr,
                    proxyMeta := (proxyMeta p)\<lparr>Labels := Labels meta, Annotations := Annotations meta\<rparr>\<rparr>)"

definition ownURL :: "Cdk8sAppProxyGenerator \<Rightarrow> proxies \<Rightarrow> PullRequest list \<Rightarrow> bool" where
  "ownURL g v prs \<longleftrightarrow>
     (\<forall>pr\<in>set prs. \<forall>p. v (prKey g pr) = Some p \<longrightarrow> proxyURL p = Some (URL (Source (genSpec g))))"

definition pollAll :: "'w generator_env \<Rightarrow> Cdk8sAppProxyGenerator \<Rightarrow> PullRequest list list \<Rightarrow> 'w \<Rightarrow> 'w" where
  "pollAll env g polls w = fold (reconcilePRs env g) polls w"

section \<open>One pull request\<close>

lemma servesD:
  assumes "servesProxies env view"
  shows "admitting (createProxy env)" and "admitting (updateProxy env)"
    and "view w k = Some p \<Longrightarrow> proxyKey p = k"
    and "view (snd (getExisting env ns n w)) = view w"
    and "fst (getExisting env ns n w) = (case view w (ns, n) of None \<Rightarrow> Inl ENotFound | Some p \<Rightarrow> Inr p)"
    and "view w (proxyKey p) = None \<Longrightarrow> webhookDefault (prepareProxy None p) = Returned q \<Longrightarrow>
      ValidateCreate q = Returned None \<Longrightarrow> view (snd (createProxy env p w)) = (view w)(proxyKey p \<mapsto> q)"
    and "view w (proxyKey p) = Some old \<Longrightarrow> webhookDefault (prepareProxy (Some old) p) = Returned q \<Longrightarrow>
      ValidateUpdate old q = Returned None \<Longrightarrow> view (snd (updateProxy env p w)) = (view w)(proxyKey p \<mapsto> q)"
  using assms unfolding servesProxies_def by blast+

lemma prKey_meta: "prKey g pr = (Namespace (proxyObjectMeta g pr), Name (proxyObjectMeta g pr))"
  by (simp add: prKey_def proxyObjectMeta_def)

lemma prKey_inject: "prKey g pr = prKey g pr' \<longleftrightarrow> Number pr = Number pr'"
  by (auto simp: prKey_def dest: genProxyName_inject)

lemma default_proxyRepository: "defaultRepository (proxyRepository (genSpec g) pr) = renderedRepository g pr"
  by (rule GitRepositorySpec.equality) (simp_all add: renderedRepository_def proxyRepository_fields Let_def)

lemma rendered_proxyObject: "(proxySpec (proxyObject g pr refs))\<lparr>GitRepository := Some (renderedRepository g pr)\<rparr> = renderedSpec g pr"
  by (simp add: renderedSpec_def proxyObject_def)

lemma rendered_fields [simp]:
  "GitRepository (renderedSpec g pr) = Some (renderedRepository g pr)"
  "URL (renderedRepository g pr) = URL (Source (genSpec g))"
  by (simp_all add: renderedSpec_def renderedRepository_def Let_def)

lemma renderOn_spec [simp]: "proxySpec (renderOn g pr refs old) = renderedSpec g pr"
  by (simp add: renderOn_def Let_def split: option.split)

lemma renderOn_again [simp]: "renderOn g pr refs' (Some (renderOn g pr refs old)) = renderOn g pr refs old"
  by (cases old) (simp_all add: renderOn_def Let_def)

lemma rendered_URL: "proxyURL (renderOn g pr refs old) = Some (URL (Source (genSpec g)))"
  by (simp add: proxyURL_def)

lemma render_new:
  "webhookDefault (prepareProxy None (proxyObject g pr refs)) = Returned (renderOn g pr refs None)"
  by (simp add: webhookDefault_def prepareProxy_def renderOn_def default_proxyRepository Let_def setRepository_def
      SetConditions_def) (simp add: proxyObject_def renderedSpec_def)

lemma render_existing:
  "webhookDefault (prepareProxy (Some old) (old\<lparr>proxySpec := proxySpec (proxyObject g pr refs),
     proxyMeta := (proxyMeta old)\<lparr>Labels := Labels (proxyObjectMeta g pr),
       Annotations := Annotations (proxyObjectMeta g pr)\<rparr>\<rparr>)) = Returned (renderOn g pr refs (Some old))"
  by (simp add: webhookDefault_def prepareProxy_def renderOn_def default_proxyRepository rendered_proxyObject Let_def
      setRepository_def SetConditions_def GetConditions_def)

lemma render_create_valid:
  "URL (Source (genSpec g)) \<noteq> '''' \<Longrightarrow> ValidateCreate (renderOn g pr refs old) = Returned None"
  by (simp add: ValidateCreate_def)

lemma render_update_valid:
  "proxyURL old = Some (URL (Source (genSpec g))) \<Longrightarrow> ValidateUpdate old (renderOn g pr refs (Some old)) = Returned None"
  by (cases "GitRepository (proxySpec old)")
    (simp_all add: ValidateUpdate_def proxyURL_def)

lemma reconcilePR_view:
  assumes srv: "servesProxies env view" and url: "URL (Source (genSpec g)) \<noteq> ''''"
    and refs: "controllerReference env (genMeta g) (proxyObjectMeta g pr) = Inr refs"
    and own: "\<And>p. view w (prKey g pr) = Some p \<Longrightarrow> proxyURL p = Some (URL (Source (genSpec g)))"
  shows "view (snd (reconcilePR env g pr w)) =
    (if selected g pr then (view w)(prKey g pr \<mapsto> renderOn g pr refs (view w (prKey g pr))) else view w)"
proof (cases "selected g pr")
  case False
  then show ?thesis by (simp add: reconcilePR_def selected_def)
next
  case True
  let ?m = "proxyObjectMeta g pr"
  obtain r w1 where get: "getExisting env (Namespace ?m) (Name ?m) w = (r, w1)" by fastforce
  then have w1: "view w1 = view w" and r: "r = (case view w (prKey g pr) of None \<Rightarrow> Inl ENotFound | Some p \<Rightarrow> Inr p)"
    using servesD(4,5) [OF srv, of "Namespace ?m" "Name ?m" w] by (simp_all add: prKey_meta)
  show ?thesis
  proof (cases "view w (prKey g pr)")
    case None
    have "proxyKey (proxyObject g pr refs) = prKey g pr" by (simp add: proxyKey_def prKey_meta)
    then have "view (snd (createProxy env (proxyObject g pr refs) w1)) =
        (view w1)(prKey g pr \<mapsto> renderOn g pr refs None)"
      using servesD(6) [OF srv _ render_new render_create_valid [OF url]] None w1 by simp
    then show ?thesis
      using True refs get r None w1 by (simp add: reconcilePR_def selected_def isNotFound_def split_beta Let_def)
  next
    case (Some old)
    let ?p = "old\<lparr>proxySpec := proxySpec (proxyObject g pr refs),
      proxyMeta := (proxyMeta old)\<lparr>Labels := Labels ?m, Annotations := Annotations ?m\<rparr>\<rparr>"
    have "proxyKey ?p = prKey g pr" using servesD(3) [OF srv Some] by (simp add: proxyKey_def)
    then have "view (snd (updateProxy env ?p w1)) = (view w1)(prKey g pr \<mapsto> renderOn g pr refs (Some old))"
      using servesD(7) [OF srv _ render_existing render_update_valid [OF own [OF Some]], of w1] Some w1 by simp
    then show ?thesis
      using True refs get r Some w1 by (simp add: reconcilePR_def selected_def split_beta Let_def)
  qed
qed

section \<open>A poll\<close>

lemma ownURL_step:
  assumes "ownURL g (view w) (pr # prs)"
    and "view w' = (if selected g pr then (view w)(prKey g pr \<mapsto> renderOn g pr refs (view w (prKey g pr))) else view w)"
  shows "ownURL g (view w') prs"
  using assms by (auto simp: ownURL_def rendered_URL split: if_splits)

lemma ownURL_member:
  "ownURL g v prs \<Longrightarrow> pr \<in> set prs \<Longrightarrow> v (prKey g pr) = Some p \<Longrightarrow> proxyURL p = Some (URL (Source (genSpec g)))"
  by (auto simp: ownURL_def)

lemma fold_view:
  assumes srv: "servesProxies env view" and url: "URL (Source (genSpec g)) \<noteq> ''''"
    and refs: "\<And>m. controllerReference env (genMeta g) m = Inr (owners m)"
    and own: "ownURL g (view w) prs" and dist: "distinct (map Number prs)"
  shows "view (fold (\<lambda>pr v. snd (reconcilePR env g pr v)) prs w) k =
    (case find (\<lambda>pr. selected g pr \<and> prKey g pr = k) prs of None \<Rightarrow> view w k
     | Some pr \<Rightarrow> Some (renderOn g pr (owners (proxyObjectMeta g pr)) (view w k)))"
  using own dist
proof (induction prs arbitrary: w)
  case (Cons pr prs)
  let ?w = "snd (reconcilePR env g pr w)"
  have step: "view ?w = (if selected g pr
      then (view w)(prKey g pr \<mapsto> renderOn g pr (owners (proxyObjectMeta g pr)) (view w (prKey g pr))) else view w)"
    by (rule reconcilePR_view [OF srv url refs ownURL_member [OF Cons.prems(1)]]) simp_all
  have rest: "find (\<lambda>q. selected g q \<and> prKey g q = prKey g pr) prs = None"
    using Cons.prems(2) by (auto simp: find_None_iff prKey_inject image_iff)
  show ?case
    using Cons.IH [OF ownURL_step [OF Cons.prems(1) step]] Cons.prems(2) rest
    by (auto simp: step split: option.split)
qed simp

lemma poll_view:
  assumes "servesProxies env view" and "URL (Source (genSpec g)) \<noteq> ''''"
    and "\<And>m. controllerReference env (genMeta g) m = Inr (owners m)"
    and "ownURL g (view w) prs" and "distinct (map Number prs)"
  shows "view (reconcilePRs env g prs w) k =
    (case find (\<lambda>pr. selected g pr \<and> prKey g pr = k) prs of None \<Rightarrow> view w k
     | Some pr \<Rightarrow> Some (renderOn g pr (owners (proxyObjectMeta g pr)) (view w k)))"
  using fold_view [OF assms] reconcilePRs_alike [OF servesD(1,2) [OF assms(1)] alike_refl, of g prs w] by simp

lemma find_selected:
  assumes "pr \<in> set prs" and "selected g pr" and "distinct (map Number prs)"
  shows "find (\<lambda>q. selected g q \<and> prKey g q = prKey g pr) prs = Some pr"
  using assms by (induction prs) (auto simp: prKey_inject)

lemma poll_selected:
  assumes "servesProxies env view" and "URL (Source (genSpec g)) \<noteq> ''''"
    and "\<And>m. controllerReference env (genMeta g) m = Inr (owners m)"
    and "ownURL g (view w) prs" and "distinct (map Number prs)"
    and "pr \<in> set prs" and "selected g pr"
  shows "view (reconcilePRs env g prs w) (prKey g pr) =
    Some (renderOn g pr (owners (proxyObjectMeta g pr)) (view w (prKey g pr)))"
  using poll_view [OF assms(1-5), of "prKey g pr"] find_selected [OF assms(6,7,5)] by simp

lemma poll_ownURL:
  assumes "servesProxies env view" and "URL (Source (genSpec g)) \<noteq> ''''"
    and "\<And>m. controllerReference env (genMeta g) m = Inr (owners m)"
    and "ownURL g (view w) prs" and "distinct (map Number prs)" and "ownURL g (view w) qs"
  shows "ownURL g (view (reconcilePRs env g prs w)) qs"
  using assms(6) unfolding ownURL_def poll_view [OF assms(1-5)] by (auto simp: rendered_URL split: option.splits)

section \<open>Many polls\<close>

definition pollable :: "Cdk8sAppProxyGenerator \<Rightarrow> proxies \<Rightarrow> PullRequest list list \<Rightarrow> bool" where
  "pollable g v polls \<longleftrightarrow> list_all (\<lambda>prs. distinct (map Number prs) \<and> ownURL g v prs) polls"

lemma pollable_step:
  assumes "servesProxies env view" and "URL (Source (genSpec g)) \<noteq> ''''"
    and "\<And>m. controllerReference env (genMeta g) m = Inr (owners m)"
    and "pollable g (view w) (prs # polls)"
  shows "pollable g (view (reconcilePRs env g prs w)) polls"
  using assms(4) poll_ownURL [OF assms(1-3), of w prs] by (auto simp: pollable_def list_all_iff)

lemma polls_keep:
  assumes "servesProxies env view" and "URL (Source (genSpec g)) \<noteq> ''''"
    and "\<And>m. controllerReference env (genMeta g) m = Inr (owners m)"
    and "pollable g (view w) polls"
    and "list_all (\<lambda>prs. list_all (\<lambda>q. \<not> (selected g q \<and> prKey g q = k)) prs) polls"
  shows "view (pollAll env g polls w) k = view w k"
  using assms(4,5)
proof (induction polls arbitrary: w)
  case (Cons prs polls)
  have "find (\<lambda>q. selected g q \<and> prKey g q = k) prs = None"
    using Cons.prems(2) by (auto simp: find_None_iff list_all_iff)
  then have "view (reconcilePRs env g prs w) k = view w k"
    using poll_view [OF assms(1-3), of w prs k] Cons.prems(1) by (simp add: pollable_def)
  with Cons.IH [OF pollable_step [OF assms(1-3) Cons.prems(1)]] Cons.prems(2) show ?case
    by (simp add: pollAll_def)
qed (simp add: pollAll_def)

lemma pollable_append:
  assumes "servesProxies env view" and "URL (Source (genSpec g)) \<noteq> ''''"
    and "\<And>m. controllerReference env (genMeta g) m = Inr (owners m)"
    and "pollable g (view w) (before @ polls)"
  shows "pollable g (view (pollAll env g before w)) polls"
  using assms(4)
proof (induction before arbitrary: w)
  case (Cons prs before)
  have "pollable g (view (reconcilePRs env g prs w)) (before @ polls)"
    using Cons.prems by (intro pollable_step [OF assms(1-3)]) simp
  from Cons.IH [OF this] show ?case by (simp add: pollAll_def)
qed (simp add: pollAll_def)

section \<open>A server\<close>

text \<open>A world that consists of the stored proxies, with the webhook.\<close>

definition storeView :: "proxies \<Rightarrow> proxies" where
  "storeView s k = (case s k of None \<Rightarrow> None | Some p \<Rightarrow> if proxyKey p = k then Some p else None)"

definition storeCreate :: "Cdk8sAppProxy \<Rightarrow> (proxies, goerr option \<times> Cdk8sAppProxy) io" where
  "storeCreate p s =
     (case webhookDefault p of
        Panicked \<Rightarrow> ((Some (EExternal ''webhook''), p), s)
      | Returned p' \<Rightarrow>
          (let q = prepareProxy None p' in
           if storeView s (proxyKey q) = None \<and> ValidateCreate q = Returned None
           then ((None, q), s(proxyKey q \<mapsto> q))
           else ((Some (EExternal ''refused''), p), s)))"

definition storeUpdate :: "Cdk8sAppProxy \<Rightarrow> (proxies, goerr option \<times> Cdk8sAppProxy) io" where
  "storeUpdate p s =
     (case webhookDefault p of
        Panicked \<Rightarrow> ((Some (EExternal ''webhook''), p), s)
      | Returned p' \<Rightarrow>
          (case storeView s (proxyKey p') of
             None \<Rightarrow> ((Some ENotFound, p), s)
           | Some old \<Rightarrow>
               (let q = prepareProxy (Some old) p' in
                if ValidateUpdate old q = Returned None then ((None, q), s(proxyKey q \<mapsto> q))
                else ((Some (EExternal ''refused''), p), s))))"

definition storeEnv :: "proxies git_env \<Rightarrow> proxies http_env \<Rightarrow> proxies generator_env" where
  "storeEnv git http =
     \<lparr>genGitOps = git, genHttp = http, genSecretGet = (\<lambda>ns n s. (Inl ENotFound, s)),
      getGenerator = (\<lambda>ns n s. (Inr sampleGenerator, s)),
      getExisting = (\<lambda>ns n s. (case storeView s (ns, n) of None \<Rightarrow> Inl ENotFound | Some p \<Rightarrow> Inr p, s)),
      createProxy = storeCreate, updateProxy = storeUpdate,
      updateGenStatus = (\<lambda>g s. (None, s)), clockNow = (\<lambda>s. (150, s)),
      controllerReference = (\<lambda>o' m. Inr [\<lparr>ownerKind = ''Cdk8sAppProxyGenerator'', ownerName = Name o', ownerController = True\<rparr>]),
      retryOnConflict = (\<lambda>f s. f s)\<rparr>"

lemma webhookDefault_prepare:
  "webhookDefault (prepareProxy old p) =
    (case webhookDefault p of Panicked \<Rightarrow> Panicked | Returned q \<Rightarrow> Returned (prepareProxy old q))"
  by (auto simp: webhookDefault_def prepareProxy_def setRepository_def SetConditions_def split: option.split)

lemma prepareProxy_simps [simp]:
  "proxyKey (prepareProxy old p) = proxyKey p" "proxyMeta (prepareProxy old p) = proxyMeta p"
  "proxySpec (prepareProxy old p) = proxySpec p"
  by (simp_all add: prepareProxy_def proxyKey_def split: option.split)

lemma webhookDefault_fields:
  assumes "webhookDefault p = Returned q"
  shows "proxyKey q = proxyKey p" and "proxyMeta q = proxyMeta p"
    and "GitRepository (proxySpec q) = map_option defaultRepository (GitRepository (proxySpec p))"
  using assms by (auto simp: webhookDefault_def proxyKey_def split: option.splits)

lemma store_admitting: "admitting storeCreate" "admitting storeUpdate"
  by (auto simp: admitting_def storeCreate_def storeUpdate_def echoes_def Let_def webhookDefault_fields
      split: outcome.splits option.splits)

lemma storeView_upd: "proxyKey q = k \<Longrightarrow> storeView (s(k \<mapsto> q)) = (storeView s)(k \<mapsto> q)"
  by (auto simp: storeView_def)

lemma store_serves: "servesProxies (storeEnv git http) storeView"
proof -
  have create: "storeView (snd (storeCreate p s)) = (storeView s)(proxyKey p \<mapsto> q)"
    if "storeView s (proxyKey p) = None" "webhookDefault (prepareProxy None p) = Returned q"
      "ValidateCreate q = Returned None" for p q s
    using that unfolding webhookDefault_prepare
    by (auto simp: storeCreate_def Let_def webhookDefault_fields storeView_upd split: outcome.splits)
  have update: "storeView (snd (storeUpdate p s)) = (storeView s)(proxyKey p \<mapsto> q)"
    if "storeView s (proxyKey p) = Some old" "webhookDefault (prepareProxy (Some old) p) = Returned q"
      "ValidateUpdate old q = Returned None" for p q old s
    using that unfolding webhookDefault_prepare
    by (auto simp: storeUpdate_def Let_def webhookDefault_fields storeView_upd split: outcome.splits)
  have key: "proxyKey p = k" if "storeView s k = Some p" for s k p
    using that by (auto simp: storeView_def split: option.splits if_splits)
  show ?thesis
    unfolding servesProxies_def using create update key store_admitting by (simp add: storeEnv_def)
qed

section \<open>Properties\<close>


definition sampleOwners :: "ObjectMeta \<Rightarrow> OwnerReference list" where
  "sampleOwners m = [\<lparr>ownerKind = ''Cdk8sAppProxyGenerator'', ownerName = ''preview'', ownerController = True\<rparr>]"

lemma store_owners: "controllerReference (storeEnv git http) (genMeta sampleGenerator) m = Inr (sampleOwners m)"
  by (simp add: storeEnv_def sampleGenerator_def sampleOwners_def)

lemma sample_selected [simp]: "selected sampleGenerator pr"
  by (simp add: selected_def matchesFilters_def sampleGenerator_def)

lemma sample_URL: "URL (Source (genSpec sampleGenerator)) \<noteq> ''''"
  by (simp add: sampleGenerator_def)

lemma ownURL_empty: "ownURL g (storeView Map.empty) prs"
  by (simp add: ownURL_def storeView_def)


text \<open>
  C19. Polling is idempotent: a second poll with the same list changes nothing.
\<close>

theorem repeated_poll_changes_nothing:
  assumes "servesProxies env view" and "URL (Source (genSpec g)) \<noteq> ''''"
    and "\<And>m. controllerReference env (genMeta g) m = Inr (owners m)"
    and "ownURL g (view w) prs" and "distinct (map Number prs)"
  shows "view (reconcilePRs env g prs (reconcilePRs env g prs w)) = view (reconcilePRs env g prs w)"
proof
  fix k
  have "ownURL g (view (reconcilePRs env g prs w)) prs" by (rule poll_ownURL [OF assms assms(4)])
  from poll_view [OF assms(1-3) this assms(5), of k] poll_view [OF assms, of k]
  show "view (reconcilePRs env g prs (reconcilePRs env g prs w)) k = view (reconcilePRs env g prs w) k"
    by (auto split: option.splits)
qed

theorem repeated_poll_changes_nothing_witness:
  "\<forall>git http. storeView (reconcilePRs (storeEnv git http) sampleGenerator [samplePR]
       (reconcilePRs (storeEnv git http) sampleGenerator [samplePR] Map.empty)) =
     storeView (reconcilePRs (storeEnv git http) sampleGenerator [samplePR] Map.empty)"
  by (intro allI, rule repeated_poll_changes_nothing [where view = storeView and owners = sampleOwners])
    (simp_all add: store_serves store_owners sample_URL ownURL_empty del: reconcilePRs.simps)

text \<open>
  C18. Previews outlive their requests: the proxy of a pull request is, after any later polls that do not list a
  request of its number, what the last poll that listed it made it, with the branch that the request had
  then. It is never removed.
\<close>

theorem previews_outlive_requests:
  assumes "servesProxies env view" and "URL (Source (genSpec g)) \<noteq> ''''"
    and "\<And>m. controllerReference env (genMeta g) m = Inr (owners m)"
    and "pollable g (view w) (before @ prs # after)"
    and "pr \<in> set prs" and "selected g pr" and "list_all (\<lambda>qs. Number pr \<notin> Number ` set qs) after"
  shows "view (pollAll env g (before @ prs # after) w) (prKey g pr) =
     Some (renderOn g pr (owners (proxyObjectMeta g pr)) (view (pollAll env g before w) (prKey g pr)))"
proof -
  let ?v = "pollAll env g before w"
  have pollable: "pollable g (view ?v) (prs # after)" by (rule pollable_append [OF assms(1-4)])
  then have here: "view (reconcilePRs env g prs ?v) (prKey g pr) =
      Some (renderOn g pr (owners (proxyObjectMeta g pr)) (view ?v (prKey g pr)))"
    using assms(5,6) by (intro poll_selected [OF assms(1-3)]) (simp_all add: pollable_def)
  have "list_all (\<lambda>qs. list_all (\<lambda>q. \<not> (selected g q \<and> prKey g q = prKey g pr)) qs) after"
    using assms(7) unfolding list_all_iff prKey_inject by (metis imageI)
  from polls_keep [OF assms(1-3) pollable_step [OF assms(1-3) pollable] this] here
  show ?thesis by (simp add: pollAll_def)
qed

theorem previews_outlive_requests_witness:
  "\<forall>git http. storeView (pollAll (storeEnv git http) sampleGenerator ([] @ [samplePR] # [[], [samplePR\<lparr>Number := 8\<rparr>]]) Map.empty)
     (prKey sampleGenerator samplePR) =
   Some (renderOn sampleGenerator samplePR
     (sampleOwners (proxyObjectMeta sampleGenerator samplePR)) None)"
proof (intro allI)
  fix git http
  have "pollable sampleGenerator (storeView Map.empty) ([] @ [samplePR] # [[], [samplePR\<lparr>Number := 8\<rparr>]])"
    by (simp add: pollable_def ownURL_empty)
  from previews_outlive_requests [where env = "storeEnv git http" and view = storeView and owners = sampleOwners and
      g = sampleGenerator and w = Map.empty,
      OF store_serves sample_URL store_owners this, of samplePR]
  show "storeView (pollAll (storeEnv git http) sampleGenerator ([] @ [samplePR] # [[], [samplePR\<lparr>Number := 8\<rparr>]]) Map.empty)
     (prKey sampleGenerator samplePR) =
   Some (renderOn sampleGenerator samplePR
     (sampleOwners (proxyObjectMeta sampleGenerator samplePR)) None)"
    by (simp add: pollAll_def storeView_def samplePR_def)
qed

end
