(* ===== verification/Delivery.thy ===== *)
theory Delivery
  imports Previews
begin

text \<open>
  The operator as a whole, while the outside works: what a reconciliation
  (\<open>controllers/controller.go\<close> with the components it calls) does to the observable situation, stated as a
  function on situations, \<open>reconcileSpec\<close>, and what follows for the previews that a generator
  (\<open>controllers/generator_controller.go\<close>) creates.

  A \<open>situation\<close> is which repository each work directory holds a clone of, which resources were last
  applied to each cluster, and which proxies the API server stores. \<open>outside\<close> describes
  the fixed surroundings: clusters, secrets, who may read a repository, and the application that is
  in a repository. \<open>faultless\<close> is what the commands and libraries are documented to do in such
  surroundings when nothing fails, each law an equation for one call; \<open>observe\<close> reads the
  situation off a world.
\<close>

section \<open>Situations\<close>

type_synonym objKey = "GroupVersionResource \<times> string \<times> string"

type_synonym deployment = "objKey \<Rightarrow> Unstructured option"

definition objKey :: "Unstructured \<Rightarrow> objKey" where
  "objKey r = (resourceGVR r, resNamespace r, resName r)"

record situation =
  disk :: "string \<Rightarrow> (string \<times> string) option"
  live :: "dynClient \<Rightarrow> deployment"
  stored :: proxies

text \<open>Resources applied one after the other; resources applied to several clusters.\<close>

definition applied :: "Unstructured list \<Rightarrow> deployment \<Rightarrow> deployment" where
  "applied rs m = m ++ map_of (rev (map (\<lambda>r. (objKey r, r)) rs))"

definition deliver :: "dynClient list \<Rightarrow> Unstructured list \<Rightarrow> (dynClient \<Rightarrow> deployment) \<Rightarrow> dynClient \<Rightarrow> deployment" where
  "deliver cls rs lv = (\<lambda>cl. if cl \<in> set cls then applied rs (lv cl) else lv cl)"

section \<open>The outside\<close>

record outside =
  selectedBy :: "LabelSelector \<Rightarrow> Cluster list"
  clientFor :: "Cluster \<Rightarrow> dynClient"
  secretData :: "string \<Rightarrow> string \<Rightarrow> string \<Rightarrow> bytes option"
  accepts :: "string \<Rightarrow> authMethod option \<Rightarrow> bool"
  application :: "string \<Rightarrow> string \<Rightarrow> string \<Rightarrow> Unstructured list"

definition clientsOf :: "outside \<Rightarrow> LabelSelector \<Rightarrow> dynClient list" where
  "clientsOf out ls = map (clientFor out) (selectedBy out ls)"

text \<open>The management cluster: clusters, kubeconfigs, secrets and proxies can be read and statuses written.\<close>

definition managementLaws :: "'w controller_env \<Rightarrow> outside \<Rightarrow> ('w \<Rightarrow> situation) \<Rightarrow> bool" where
  "managementLaws env out observe \<longleftrightarrow>
     (\<forall>ls. \<exists>f. asSelector (resOps env) ls = Inr f \<and>
        (\<forall>w. listClusters (resOps env) f w = (Inr (selectedBy out ls), w))) \<and>
     (\<forall>ns n w. secretGet (resOps env) ns n w = (Inr (secretData out ns n), w)) \<and>
     (\<forall>ls. \<forall>c\<in>set (selectedBy out ls). \<exists>b cfg.
        secretData out (clusterNamespace c) (clusterName c @ ''-kubeconfig'') ''value'' = Some b \<and> 0 < blen b \<and>
        restConfigFromKubeConfig (resOps env) b = Inr cfg \<and>
        dynamicNewForConfig (resOps env) cfg = Inr (clientFor out c)) \<and>
     (\<forall>ns n w. getProxy env ns n w =
        ((case stored (observe w) (ns, n) of None \<Rightarrow> Inl ENotFound | Some p \<Rightarrow> Inr p), w)) \<and>
     (\<forall>p old w. stored (observe w) (proxyKey p) = Some old \<longrightarrow>
        fst (updateStatus env p w) = None \<and>
        observe (snd (updateStatus env p w)) =
          (observe w)\<lparr>stored := (stored (observe w))(proxyKey p \<mapsto> SetConditions old (GetConditions p))\<rparr>) \<and>
     (\<forall>w k p. stored (observe w) k = Some p \<longrightarrow> proxyKey p = k)"

text \<open>The workload clusters: an apply succeeds and is seen by later reads.\<close>

definition clusterLaws :: "'w resource_env \<Rightarrow> ('w \<Rightarrow> situation) \<Rightarrow> bool" where
  "clusterLaws env observe \<longleftrightarrow>
     (\<forall>cl g ns n r opts w. fst (dynApply env cl g ns n r opts w) = None \<and>
        observe (snd (dynApply env cl g ns n r opts w)) =
          (observe w)\<lparr>live := (live (observe w))(cl := (live (observe w) cl)((g, ns, n) \<mapsto> r))\<rparr>) \<and>
     (\<forall>cl g ns n w. live (observe w) cl (g, ns, n) \<noteq> None \<longrightarrow>
        dynGet env cl g (if ns \<noteq> '''' then Some ns else None) n w = (None, w))"

text \<open>
  The repositories and the commands: a repository can be listed with the credentials it accepts, a clone
  into a directory without one succeeds with them, and the synthesis of a clone yields its application.
  \<open>D\<close> are the pairs of a work directory and an application path for which this is asked.
\<close>

definition repositoryLaws ::
  "'w controller_env \<Rightarrow> outside \<Rightarrow> ('w \<Rightarrow> situation) \<Rightarrow> (string \<times> string) set \<Rightarrow> bool" where
  "repositoryLaws env out observe D \<longleftrightarrow>
     (\<forall>u a w. \<exists>e refs. remoteList (gitOps env) u a w = (if accepts out u a then Inr refs else Inl e, w)) \<and>
     (\<forall>d w. mkdirAll (gitOps env) d w = (None, w)) \<and>
     (\<forall>d u a b w. accepts out u a \<longrightarrow> disk (observe w) d = None \<longrightarrow>
        (\<exists>w'. plainClone (gitOps env) d
            \<lparr>cloneURL = u, cloneAuth = a, cloneReferenceName = newBranchReferenceName b, cloneDepth = 1\<rparr> w = (None, w') \<and>
          observe w' = (observe w)\<lparr>disk := (disk (observe w))(d \<mapsto> (u, b))\<rparr>)) \<and>
     (\<forall>d p r u b w. GitRepository (proxySpec p) = Some r \<longrightarrow> (d, Path r) \<in> D \<longrightarrow>
        disk (observe w) d = Some (u, b) \<longrightarrow>
        (\<exists>w'. Synthesize (synthOps env) d p w = (Returned (application out u b (Path r), None), w') \<and>
          observe w' = observe w)) \<and>
     (\<forall>d w. fst (removeAll env d w) = None \<and>
        observe (snd (removeAll env d w)) = (observe w)\<lparr>disk := (disk (observe w))(d := None)\<rparr>)"

definition faultless ::
  "'w controller_env \<Rightarrow> outside \<Rightarrow> ('w \<Rightarrow> situation) \<Rightarrow> (string \<times> string) set \<Rightarrow> bool" where
  "faultless env out observe D \<longleftrightarrow>
     managementLaws env out observe \<and> clusterLaws (resOps env) observe \<and> repositoryLaws env out observe D"

text \<open>
  The secret of a repository holds a credential, and the repository accepts no credential or the one
  that is made from it.
\<close>

definition authorised :: "'w controller_env \<Rightarrow> outside \<Rightarrow> string \<Rightarrow> GitRepositorySpec \<Rightarrow> bool" where
  "authorised env out ns repo \<longleftrightarrow>
     (\<exists>s kh. SecretRef repo \<noteq> '''' \<and> secretData out ns (SecretRef repo) (SecretKey repo) = Some (Some s) \<and>
        (if KnownHostsKey repo = '''' then kh = None
         else secretData out ns (SecretRef repo) (KnownHostsKey repo) = Some kh) \<and>
        (accepts out (URL repo) None \<or>
         (\<exists>a. accepts out (URL repo) (Some a) \<and> (\<forall>w. getAuth (gitOps env) (URL repo) (Some s) kh w = (Inr a, w)))))"

section \<open>The specification of a reconciliation\<close>

definition reconcileSpec ::
  "'w controller_env \<Rightarrow> outside \<Rightarrow> string \<times> string \<Rightarrow> situation \<Rightarrow> situation" where
  "reconcileSpec env out k s =
     (case stored s k of
        None \<Rightarrow> s
      | Some p \<Rightarrow>
          (case GitRepository (proxySpec p) of
             None \<Rightarrow> s
           | Some r \<Rightarrow>
               \<lparr>disk = (disk s)(workDirectory (fst k) (snd k) (Reference r) := None),
                live = deliver (clientsOf out (ClusterSelector (proxySpec p)))
                         (application out (URL r) (Reference r) (Path r)) (live s),
                stored = (stored s)(k \<mapsto> conditionsSet env p (readyCondition env))\<rparr>))"

section \<open>Laws as rules\<close>

lemma managementD:
  assumes "managementLaws env out observe"
  shows "\<exists>f. asSelector (resOps env) ls = Inr f \<and> (\<forall>w. listClusters (resOps env) f w = (Inr (selectedBy out ls), w))"
    and "secretGet (resOps env) ns n w = (Inr (secretData out ns n), w)"
    and "c \<in> set (selectedBy out ls) \<Longrightarrow> \<exists>b cfg.
        secretData out (clusterNamespace c) (clusterName c @ ''-kubeconfig'') ''value'' = Some b \<and> 0 < blen b \<and>
        restConfigFromKubeConfig (resOps env) b = Inr cfg \<and>
        dynamicNewForConfig (resOps env) cfg = Inr (clientFor out c)"
    and "getProxy env ns n w =
        ((case stored (observe w) (ns, n) of None \<Rightarrow> Inl ENotFound | Some p \<Rightarrow> Inr p), w)"
    and "stored (observe w) (proxyKey p) = Some old \<Longrightarrow> fst (updateStatus env p w) = None \<and>
        observe (snd (updateStatus env p w)) =
          (observe w)\<lparr>stored := (stored (observe w))(proxyKey p \<mapsto> SetConditions old (GetConditions p))\<rparr>"
    and "stored (observe w) k = Some p \<Longrightarrow> proxyKey p = k"
  using assms unfolding managementLaws_def by blast+

lemma clusterD:
  assumes "clusterLaws env observe"
  shows "fst (dynApply env cl g ns n r opts w) = None"
    and "observe (snd (dynApply env cl g ns n r opts w)) =
      (observe w)\<lparr>live := (live (observe w))(cl := (live (observe w) cl)((g, ns, n) \<mapsto> r))\<rparr>"
    and "live (observe w) cl (g, ns, n) \<noteq> None \<Longrightarrow>
      dynGet env cl g (if ns \<noteq> '''' then Some ns else None) n w = (None, w)"
  using assms unfolding clusterLaws_def by blast+

lemma repositoryD:
  assumes "repositoryLaws env out observe D"
  shows "\<exists>e refs. remoteList (gitOps env) u a w = (if accepts out u a then Inr refs else Inl e, w)"
    and "mkdirAll (gitOps env) d w = (None, w)"
    and "accepts out u a \<Longrightarrow> disk (observe w) d = None \<Longrightarrow>
      \<exists>w'. plainClone (gitOps env) d
            \<lparr>cloneURL = u, cloneAuth = a, cloneReferenceName = newBranchReferenceName b, cloneDepth = 1\<rparr> w = (None, w') \<and>
          observe w' = (observe w)\<lparr>disk := (disk (observe w))(d \<mapsto> (u, b))\<rparr>"
    and "GitRepository (proxySpec p) = Some r \<Longrightarrow> (d, Path r) \<in> D \<Longrightarrow> disk (observe w) d = Some (u, b) \<Longrightarrow>
      \<exists>w'. Synthesize (synthOps env) d p w = (Returned (application out u b (Path r), None), w') \<and> observe w' = observe w"
    and "fst (removeAll env d w) = None"
    and "observe (snd (removeAll env d w)) = (observe w)\<lparr>disk := (disk (observe w))(d := None)\<rparr>"
  using assms unfolding repositoryLaws_def by blast+

section \<open>Deliveries\<close>

lemma applied_simps [simp]:
  "applied [] m = m"
  "applied (r # rs) m = applied rs (m(objKey r \<mapsto> r))"
  by (simp_all add: applied_def)

lemma applied_again [simp]: "applied rs (applied rs m) = applied rs m"
  by (simp add: applied_def map_add_assoc [symmetric] map_add_subsumed1)

lemma applied_None: "applied rs m k = None \<longleftrightarrow> m k = None \<and> k \<notin> objKey ` set rs"
  by (auto simp: applied_def map_of_eq_None_iff image_image)

lemma applied_member: "r \<in> set rs \<Longrightarrow> applied rs m (objKey r) \<noteq> None"
  by (auto simp: applied_None simp del: not_None_eq)

lemma applied_last:
  assumes "distinct (map objKey rs)" and "r \<in> set rs"
  shows "applied rs m (objKey r) = Some r"
proof -
  have "map_of (map (\<lambda>r. (objKey r, r)) (rev rs)) (objKey r) = Some r"
    using assms by (intro map_of_is_SomeI) (simp_all add: comp_def rev_map [symmetric])
  then show ?thesis by (simp add: applied_def rev_map map_add_Some_iff)
qed

lemma deliver_Nil [simp]: "deliver [] rs lv = lv"
  by (simp add: deliver_def)

lemma deliver_again [simp]: "deliver cls rs (deliver cls rs lv) = deliver cls rs lv"
  by (auto simp: deliver_def)

lemma deliver_Cons: "deliver (cl # cls) rs lv = deliver cls rs (lv(cl := applied rs (lv cl)))"
  by (auto simp: deliver_def)

section \<open>Apply and Check\<close>

lemma applyResources_delivers:
  assumes "clusterLaws env observe"
  shows "\<exists>w'. applyResources env (Some cl) rs w = (Returned (), w') \<and>
    observe w' = (observe w)\<lparr>live := (live (observe w))(cl := applied rs (live (observe w) cl))\<rparr>"
proof (induction rs arbitrary: w)
  case (Cons r rs)
  obtain w1 where a: "dynApply env cl (resourceGVR r) (resNamespace r) (resName r) r applyOpts w = (None, w1)"
    using clusterD(1) [OF assms] by (metis prod.collapse)
  have o1: "observe w1 = (observe w)\<lparr>live := (live (observe w))(cl := (live (observe w) cl)(objKey r \<mapsto> r))\<rparr>"
    using clusterD(2) [OF assms, of cl "resourceGVR r" "resNamespace r" "resName r" r applyOpts w] a
    by (simp add: objKey_def)
  obtain w' where "applyResources env (Some cl) rs w1 = (Returned (), w')"
    "observe w' = (observe w1)\<lparr>live := (live (observe w1))(cl := applied rs (live (observe w1) cl))\<rparr>"
    using Cons.IH by blast
  then show ?case using a by (simp add: o1 fun_upd_def cong: if_cong)
qed auto

lemma clusterClient_faultless:
  assumes "managementLaws env out observe" and "c \<in> set (selectedBy out ls)"
  shows "clusterClient (resOps env) (clusterNamespace c) (clusterName c) w = (Inr (Some (clientFor out c)), w)"
proof -
  obtain b cfg where "secretData out (clusterNamespace c) (clusterName c @ ''-kubeconfig'') ''value'' = Some b"
      "0 < blen b" "restConfigFromKubeConfig (resOps env) b = Inr cfg"
      "dynamicNewForConfig (resOps env) cfg = Inr (clientFor out c)"
    using managementD(3) [OF assms] by blast
  then show ?thesis by (simp add: clusterClient_def managementD(2) [OF assms(1)])
qed

lemma clusterList_faultless:
  assumes "managementLaws env out observe"
  shows "clusterList (resOps env) p w = (Inr (selectedBy out (ClusterSelector (proxySpec p))), w)"
  using managementD(1) [OF assms, of "ClusterSelector (proxySpec p)"] by (auto simp: clusterList_def)

lemma applyClusters_delivers:
  assumes "managementLaws env out observe" and "clusterLaws (resOps env) observe"
    and "set cs \<subseteq> set (selectedBy out ls)"
  shows "\<exists>w'. applyClusters (resOps env) rs cs w = (Returned (), w') \<and>
    observe w' = (observe w)\<lparr>live := deliver (map (clientFor out) cs) rs (live (observe w))\<rparr>"
  using assms(3)
proof (induction cs arbitrary: w)
  case (Cons c cs)
  note client = clusterClient_faultless [OF assms(1), of c ls w]
  obtain w1 where a: "applyResources (resOps env) (Some (clientFor out c)) rs w = (Returned (), w1)"
    and o1: "observe w1 = (observe w)\<lparr>live := (live (observe w))(clientFor out c := applied rs (live (observe w) (clientFor out c)))\<rparr>"
    using applyResources_delivers [OF assms(2)] by blast
  obtain w' where "applyClusters (resOps env) rs cs w1 = (Returned (), w')"
    "observe w' = (observe w1)\<lparr>live := deliver (map (clientFor out) cs) rs (live (observe w1))\<rparr>"
    using Cons by auto
  then show ?case using client a Cons.prems by (simp add: o1 deliver_Cons)
qed auto

lemma applyStage_delivers:
  assumes "managementLaws env out observe" and "clusterLaws (resOps env) observe"
  shows "\<exists>w'. applyStage (resOps env) p rs w = (Returned (Inr ()), w') \<and>
    observe w' = (observe w)\<lparr>live := deliver (clientsOf out (ClusterSelector (proxySpec p))) rs (live (observe w))\<rparr>"
proof -
  obtain w' where "applyClusters (resOps env) rs (selectedBy out (ClusterSelector (proxySpec p))) w = (Returned (), w')"
    "observe w' = (observe w)\<lparr>live := deliver (clientsOf out (ClusterSelector (proxySpec p))) rs (live (observe w))\<rparr>"
    using applyClusters_delivers [OF assms subset_refl] unfolding clientsOf_def by blast
  then show ?thesis by (simp add: applyStage_def Apply_def clusterList_faultless [OF assms(1)] orError_def)
qed

lemma checkResources_delivered:
  assumes "clusterLaws env observe" and "\<And>r. r \<in> set rs \<Longrightarrow> live (observe w) cl (objKey r) \<noteq> None"
  shows "checkResources env (Some cl) rs False w = (Returned (False, None), w)"
  using assms(2)
proof (induction rs)
  case (Cons r rs)
  then have "getResource env cl r w = (None, w)"
    using clusterD(3) [OF assms(1), of w cl "resourceGVR r" "resNamespace r" "resName r"]
    by (simp add: getResource_def objKey_def)
  with Cons show ?case by simp
qed simp

lemma checkClusters_delivered:
  assumes "managementLaws env out observe" and "clusterLaws (resOps env) observe"
    and "set cs \<subseteq> set (selectedBy out ls)"
    and "\<And>c r. c \<in> set cs \<Longrightarrow> r \<in> set rs \<Longrightarrow> live (observe w) (clientFor out c) (objKey r) \<noteq> None"
  shows "checkClusters (resOps env) rs cs False w = (Returned (False, None), w)"
  using assms(3,4)
proof (induction cs)
  case (Cons c cs)
  then have "clusterClient (resOps env) (clusterNamespace c) (clusterName c) w = (Inr (Some (clientFor out c)), w)"
    by (intro clusterClient_faultless [OF assms(1), of c ls]) simp
  moreover have "checkResources (resOps env) (Some (clientFor out c)) rs False w = (Returned (False, None), w)"
    using Cons.prems(2) by (intro checkResources_delivered [OF assms(2)]) simp
  ultimately show ?case using Cons by simp
qed simp

lemma checkStage_delivered:
  assumes "managementLaws env out observe" and "clusterLaws (resOps env) observe"
    and "live (observe w) = deliver (clientsOf out (ClusterSelector (proxySpec p))) rs lv"
  shows "checkStage (resOps env) p rs w = (Returned (Inr False), w)"
proof -
  have "live (observe w) (clientFor out c) (objKey r) \<noteq> None"
    if "c \<in> set (selectedBy out (ClusterSelector (proxySpec p)))" "r \<in> set rs" for c r
    using that applied_member [of r rs] by (simp add: assms(3) deliver_def clientsOf_def)
  then have "checkClusters (resOps env) rs (selectedBy out (ClusterSelector (proxySpec p))) False w = (Returned (False, None), w)"
    by (intro checkClusters_delivered [OF assms(1,2) subset_refl]) simp_all
  then show ?thesis by (simp add: checkStage_def Check_def clusterList_faultless [OF assms(1)] orError_def)
qed

section \<open>The stages\<close>

lemma fetch_faultless:
  assumes "managementLaws env out observe" and "SecretRef repo \<noteq> ''''"
    and "secretData out ns (SecretRef repo) (SecretKey repo) = Some b"
    and "if KnownHostsKey repo = '''' then kh = None
         else secretData out ns (SecretRef repo) (KnownHostsKey repo) = Some kh"
  shows "ioStage (FetchSecret (secretGet (resOps env)) ns (Some repo)) w = (Returned (Inr b), w)"
    and "ioStage (FetchKnownHosts (secretGet (resOps env)) ns (Some repo)) w = (Returned (Inr kh), w)"
  using assms(2-4) by (simp_all add: ioStage_def FetchSecret_def FetchKnownHosts_def managementD(2) [OF assms(1)]
      split: if_splits)

lemma access_faultless:
  assumes "repositoryLaws env out observe D"
    and "accepts out u None \<or> (\<exists>a. accepts out u (Some a) \<and> (\<forall>w. getAuth (gitOps env) u s kh w = (Inr a, w)))"
  shows "accessStage (gitOps env) kh u s w = (Returned (Inr (\<not> accepts out u None)), w)"
proof (cases "accepts out u None")
  case True
  then show ?thesis
    using repositoryD(1) [OF assms(1), of u None w] by (auto simp: accessStage_def CheckAccess_def orError_def)
next
  case False
  then obtain a where a: "accepts out u (Some a)" "\<And>w. getAuth (gitOps env) u s kh w = (Inr a, w)"
    using assms(2) by blast
  show ?thesis
    using repositoryD(1) [OF assms(1), of u None w] repositoryD(1) [OF assms(1), of u "Some a" w] False a
    by (auto simp: accessStage_def CheckAccess_def orError_def)
qed

lemma clone_faultless:
  assumes laws: "repositoryLaws env out observe D"
    and "accepts out u None \<or> (\<exists>a. accepts out u (Some a) \<and> (\<forall>w. getAuth (gitOps env) u (Some s) kh w = (Inr a, w)))"
    and free: "disk (observe w) d = None"
  shows "\<exists>w'. cloneStage (gitOps env) kh u (if \<not> accepts out u None then Some s else None) b d w = (Returned (Inr ()), w') \<and>
    observe w' = (observe w)\<lparr>disk := (disk (observe w))(d \<mapsto> (u, b))\<rparr>"
proof -
  note mk = repositoryD(2) [OF laws]
  show ?thesis
  proof (cases "accepts out u None")
    case True
    from repositoryD(3) [OF laws this free, of b] show ?thesis
      using True by (auto simp: cloneStage_def Clone_def mk orError_def)
  next
    case False
    then obtain a where a: "accepts out u (Some a)" "\<And>w. getAuth (gitOps env) u (Some s) kh w = (Inr a, w)"
      using assms(2) by blast
    from repositoryD(3) [OF laws a(1) free, of b] show ?thesis
      using False a(2) by (auto simp: cloneStage_def Clone_def mk orError_def)
  qed
qed

lemma synth_faultless:
  assumes "repositoryLaws env out observe D" and "GitRepository (proxySpec p) = Some r" and "(d, Path r) \<in> D"
    and "disk (observe w) d = Some (u, b)"
  shows "\<exists>w'. synthStage (synthOps env) d p w = (Returned (Inr (application out u b (Path r))), w') \<and> observe w' = observe w"
  using repositoryD(4) [OF assms] by (auto simp: synthStage_def orError_def)

lemma andThen_Inr: "s w = (Returned (Inr a), w1) \<Longrightarrow> andThen s k w = k a w1"
  by (simp add: andThen_def)

lemma pipeline_delivers:
  assumes laws: "faultless env out observe D" and repo: "GitRepository (proxySpec p) = Some r"
    and auth: "authorised env out (Namespace (proxyMeta p)) r" and D: "(d, Path r) \<in> D"
    and free: "disk (observe w) d = None"
  shows "\<exists>w'. pipeline env p r d w = (Returned (Inr False), w') \<and>
    observe w' = (observe w)\<lparr>disk := (disk (observe w))(d \<mapsto> (URL r, Reference r)),
      live := deliver (clientsOf out (ClusterSelector (proxySpec p)))
        (application out (URL r) (Reference r) (Path r)) (live (observe w))\<rparr>"
proof -
  have man: "managementLaws env out observe" and clu: "clusterLaws (resOps env) observe" and rep: "repositoryLaws env out observe D"
    using laws by (simp_all add: faultless_def)
  obtain s kh where s: "SecretRef r \<noteq> ''''" "secretData out (Namespace (proxyMeta p)) (SecretRef r) (SecretKey r) = Some (Some s)"
      "if KnownHostsKey r = '''' then kh = None
       else secretData out (Namespace (proxyMeta p)) (SecretRef r) (KnownHostsKey r) = Some kh"
    and a: "accepts out (URL r) None \<or>
         (\<exists>a. accepts out (URL r) (Some a) \<and> (\<forall>w. getAuth (gitOps env) (URL r) (Some s) kh w = (Inr a, w)))"
    using auth unfolding authorised_def by blast
  let ?rs = "application out (URL r) (Reference r) (Path r)"
  obtain w1 where w1: "cloneStage (gitOps env) kh (URL r) (if \<not> accepts out (URL r) None then Some s else None) (Reference r) d w =
      (Returned (Inr ()), w1)" and o1: "observe w1 = (observe w)\<lparr>disk := (disk (observe w))(d \<mapsto> (URL r, Reference r))\<rparr>"
    using clone_faultless [OF rep a free] by blast
  then have "disk (observe w1) d = Some (URL r, Reference r)" by simp
  then obtain w2 where w2: "synthStage (synthOps env) d p w1 = (Returned (Inr ?rs), w2)" and o2: "observe w2 = observe w1"
    using synth_faultless [OF rep repo D] by blast
  obtain w3 where w3: "applyStage (resOps env) p ?rs w2 = (Returned (Inr ()), w3)"
    and o3: "observe w3 = (observe w2)\<lparr>live := deliver (clientsOf out (ClusterSelector (proxySpec p))) ?rs (live (observe w2))\<rparr>"
    using applyStage_delivers [OF man clu] by blast
  then have w4: "checkStage (resOps env) p ?rs w3 = (Returned (Inr False), w3)"
    by (intro checkStage_delivered [OF man clu]) simp
  have "pipeline env p r d w = (Returned (Inr False), w3)"
    unfolding pipeline_def deployStages_def
    by (subst andThen_Inr, rule fetch_faultless(1) [OF man s(1,2,3)], subst andThen_Inr,
        rule fetch_faultless(2) [OF man s(1,2,3)], subst andThen_Inr, rule access_faultless [OF rep a],
        subst andThen_Inr, rule w1, subst andThen_Inr, rule w2, subst andThen_Inr, rule w3, rule w4)
  then show ?thesis using o1 o2 o3 by simp
qed

lemma reconcile_delivers:
  assumes laws: "faultless env out observe D" and p: "stored (observe w) (ns, n) = Some p"
    and repo: "GitRepository (proxySpec p) = Some r" and auth: "authorised env out ns r"
    and D: "(workDirectory ns n (Reference r), Path r) \<in> D"
    and free: "disk (observe w) (workDirectory ns n (Reference r)) = None"
  shows "fst (Reconcile env ns n w) = Returned (emptyResult, None) \<and>
    observe (snd (Reconcile env ns n w)) = reconcileSpec env out (ns, n) (observe w)"
proof -
  have man: "managementLaws env out observe" and rep: "repositoryLaws env out observe D"
    using laws by (simp_all add: faultless_def)
  let ?d = "workDirectory ns n (Reference r)" and ?p = "conditionsSet env p (readyCondition env)"
  have key: "Namespace (proxyMeta p) = ns" "Name (proxyMeta p) = n"
    using managementD(6) [OF man p] by (simp_all add: proxyKey_def)
  have get: "getProxy env ns n w = (Inr p, w)" using managementD(4) [OF man] p by simp
  obtain w1 where w1: "pipeline env p r ?d w = (Returned (Inr False), w1)"
    and o1: "observe w1 = (observe w)\<lparr>disk := (disk (observe w))(?d \<mapsto> (URL r, Reference r)),
      live := deliver (clientsOf out (ClusterSelector (proxySpec p)))
        (application out (URL r) (Reference r) (Path r)) (live (observe w))\<rparr>"
    using pipeline_delivers [OF laws repo _ D free] auth key by auto
  have set_p: "proxyKey ?p = (ns, n)" "SetConditions p (GetConditions ?p) = ?p"
    by (simp_all add: conditionsSet_def proxyKey_def key)
  have upd: "fst (updateStatus env ?p w1) = None"
      "observe (snd (updateStatus env ?p w1)) = (observe w1)\<lparr>stored := (stored (observe w1))((ns, n) \<mapsto> ?p)\<rparr>"
    using managementD(5) [OF man, of w1 ?p p] p by (simp_all add: o1 set_p)
  then obtain w2 where w2: "updateStatus env ?p w1 = (None, w2)" by (metis prod.collapse)
  have fin: "dropObject (reconcileBody env p r ?d w) = (Returned None, w2)"
    by (simp add: reconcileBody_stages w1 finish_def report_def w2)
  show ?thesis
    using upd(2) w2 repositoryD(5,6) [OF rep, of ?d] p repo
    by (simp add: Reconcile_body [OF get repo] key fin reconcileSpec_def o1)
qed

section \<open>Reconciliations one after the other\<close>

definition reconcileKeys :: "'w controller_env \<Rightarrow> (string \<times> string) list \<Rightarrow> 'w \<Rightarrow> 'w" where
  "reconcileKeys env = fold (\<lambda>k w. snd (Reconcile env (fst k) (snd k) w))"

definition resourcesOf :: "outside \<Rightarrow> Cdk8sAppProxySpec \<Rightarrow> Unstructured list" where
  "resourcesOf out sp = (case GitRepository sp of None \<Rightarrow> []
     | Some r \<Rightarrow> application out (URL r) (Reference r) (Path r))"

text \<open>Each object brings its resources to its clusters.\<close>

definition deployAll ::
  "outside \<Rightarrow> ((string \<times> string) \<times> Cdk8sAppProxySpec) list \<Rightarrow> (dynClient \<Rightarrow> deployment) \<Rightarrow> dynClient \<Rightarrow> deployment" where
  "deployAll out = fold (\<lambda>x. deliver (clientsOf out (ClusterSelector (snd x))) (resourcesOf out (snd x)))"

text \<open>The object is stored with the given specification, and it can be deployed.\<close>

definition deployable ::
  "'w controller_env \<Rightarrow> outside \<Rightarrow> (string \<times> string) set \<Rightarrow> situation \<Rightarrow> (string \<times> string) \<times> Cdk8sAppProxySpec \<Rightarrow> bool" where
  "deployable env out D s x \<longleftrightarrow>
     (\<exists>p. stored s (fst x) = Some p \<and> proxySpec p = snd x) \<and>
     (\<exists>r. GitRepository (snd x) = Some r \<and> authorised env out (fst (fst x)) r \<and>
        (workDirectory (fst (fst x)) (snd (fst x)) (Reference r), Path r) \<in> D \<and>
        disk s (workDirectory (fst (fst x)) (snd (fst x)) (Reference r)) = None)"

lemma reconcile_deployable:
  assumes laws: "faultless env out observe D" and x: "deployable env out D (observe w) x"
  defines "w' \<equiv> snd (Reconcile env (fst (fst x)) (snd (fst x)) w)"
  shows "live (observe w') = deliver (clientsOf out (ClusterSelector (snd x))) (resourcesOf out (snd x)) (live (observe w))"
    and "deployable env out D (observe w) y \<Longrightarrow> deployable env out D (observe w') y"
proof -
  obtain p r where p: "stored (observe w) (fst (fst x), snd (fst x)) = Some p" "proxySpec p = snd x"
    and repo: "GitRepository (proxySpec p) = Some r" and ok: "authorised env out (fst (fst x)) r"
      "(workDirectory (fst (fst x)) (snd (fst x)) (Reference r), Path r) \<in> D"
      "disk (observe w) (workDirectory (fst (fst x)) (snd (fst x)) (Reference r)) = None"
    using x by (auto simp: deployable_def)
  have spec: "observe w' = reconcileSpec env out (fst (fst x), snd (fst x)) (observe w)"
    using reconcile_delivers [OF laws p(1) repo ok] by (simp add: w'_def)
  then show "live (observe w') = deliver (clientsOf out (ClusterSelector (snd x))) (resourcesOf out (snd x)) (live (observe w))"
    using p repo by (simp add: reconcileSpec_def resourcesOf_def)
  have "disk (observe w') = (disk (observe w))(workDirectory (fst (fst x)) (snd (fst x)) (Reference r) := None)"
      "stored (observe w') = (stored (observe w))(fst x \<mapsto> conditionsSet env p (readyCondition env))"
    using spec p repo by (simp_all add: reconcileSpec_def)
  moreover assume "deployable env out D (observe w) y"
  ultimately show "deployable env out D (observe w') y"
    using p by (auto simp: deployable_def conditionsSet_def)
qed

lemma reconcileKeys_deploys:
  assumes "faultless env out observe D" and "list_all (deployable env out D (observe w)) xs"
  shows "live (observe (reconcileKeys env (map fst xs) w)) = deployAll out xs (live (observe w))"
  using assms(2)
proof (induction xs arbitrary: w)
  case (Cons x xs)
  then have "list_all (deployable env out D (observe (snd (Reconcile env (fst (fst x)) (snd (fst x)) w)))) xs"
    using reconcile_deployable(2) [OF assms(1)] by (auto simp: list_all_iff)
  with Cons show ?case
    using reconcile_deployable(1) [OF assms(1), of w x] by (simp add: reconcileKeys_def deployAll_def)
qed (simp add: reconcileKeys_def deployAll_def)

section \<open>Generated proxies\<close>

text \<open>The calls of a generator leave work directories and clusters alone.\<close>

definition proxiesOnly :: "'w generator_env \<Rightarrow> ('w \<Rightarrow> situation) \<Rightarrow> bool" where
  "proxiesOnly genv observe \<longleftrightarrow>
     (\<forall>ns n p w.
        (\<forall>w'\<in>{snd (getExisting genv ns n w), snd (createProxy genv p w), snd (updateProxy genv p w)}.
           disk (observe w') = disk (observe w) \<and> live (observe w') = live (observe w)))"

lemma proxiesOnlyD:
  assumes "proxiesOnly genv observe"
  shows "disk (observe (snd (getExisting genv ns n w))) = disk (observe w)"
    and "live (observe (snd (getExisting genv ns n w))) = live (observe w)"
    and "disk (observe (snd (createProxy genv p w))) = disk (observe w)"
    and "live (observe (snd (createProxy genv p w))) = live (observe w)"
    and "disk (observe (snd (updateProxy genv p w))) = disk (observe w)"
    and "live (observe (snd (updateProxy genv p w))) = live (observe w)"
  using assms unfolding proxiesOnly_def by blast+

lemma reconcilePR_proxiesOnly:
  assumes "proxiesOnly genv observe"
  shows "disk (observe (snd (reconcilePR genv g pr w))) = disk (observe w) \<and>
    live (observe (snd (reconcilePR genv g pr w))) = live (observe w)"
  using proxiesOnlyD [OF assms]
  by (auto simp: reconcilePR_def Let_def split_beta split: sum.split)

lemma poll_proxiesOnly:
  assumes "proxiesOnly genv observe"
  shows "disk (observe (reconcilePRs genv g prs w)) = disk (observe w) \<and>
    live (observe (reconcilePRs genv g prs w)) = live (observe w)"
proof (induction prs arbitrary: g w)
  case (Cons pr prs)
  then show ?case using reconcilePR_proxiesOnly [OF assms, of g pr w] by (simp add: split_beta)
qed simp

section \<open>Previews\<close>

definition previewDir :: "Cdk8sAppProxyGenerator \<Rightarrow> PullRequest \<Rightarrow> string" where
  "previewDir g pr = workDirectory (fst (prKey g pr)) (snd (prKey g pr)) (Reference (renderedRepository g pr))"

definition previewClients :: "outside \<Rightarrow> Cdk8sAppProxyGenerator \<Rightarrow> dynClient list" where
  "previewClients out g = clientsOf out (ClusterSelector (templateSpec (Template (genSpec g))))"

definition previewResources :: "outside \<Rightarrow> Cdk8sAppProxyGenerator \<Rightarrow> PullRequest \<Rightarrow> Unstructured list" where
  "previewResources out g pr =
     (let r = renderedRepository g pr in application out (URL r) (Reference r) (Path r))"

text \<open>What is needed of a listed pull request for its preview to be deployed.\<close>

definition previewable ::
  "'w controller_env \<Rightarrow> outside \<Rightarrow> Cdk8sAppProxyGenerator \<Rightarrow> (string \<times> string) set \<Rightarrow> situation \<Rightarrow> PullRequest \<Rightarrow> bool" where
  "previewable env out g D s pr \<longleftrightarrow>
     selected g pr \<and> authorised env out (Namespace (genMeta g)) (renderedRepository g pr) \<and>
     (previewDir g pr, Path (renderedRepository g pr)) \<in> D \<and> disk s (previewDir g pr) = None"

text \<open>The reconciliations of the proxies of some pull requests, one after the other.\<close>

definition reconcileAll :: "'w controller_env \<Rightarrow> Cdk8sAppProxyGenerator \<Rightarrow> PullRequest list \<Rightarrow> 'w \<Rightarrow> 'w" where
  "reconcileAll env g prs = reconcileKeys env (map (prKey g) prs)"

text \<open>The proxy of the request is stored as rendered, and it can be deployed.\<close>

definition generated ::
  "'w controller_env \<Rightarrow> outside \<Rightarrow> Cdk8sAppProxyGenerator \<Rightarrow> (string \<times> string) set \<Rightarrow> situation \<Rightarrow> PullRequest \<Rightarrow> bool" where
  "generated env out g D s pr \<longleftrightarrow> previewable env out g D s pr \<and>
     (\<exists>p. stored s (prKey g pr) = Some p \<and> proxySpec p = renderedSpec g pr)"

lemma renderedSpec_selector: "ClusterSelector (renderedSpec g pr) = ClusterSelector (templateSpec (Template (genSpec g)))"
  by (simp add: renderedSpec_def)

lemma generated_deployable:
  "generated env out g D s pr \<longleftrightarrow> selected g pr \<and> deployable env out D s (prKey g pr, renderedSpec g pr)"
  by (auto simp: generated_def previewable_def deployable_def previewDir_def prKey_def)

lemma reconcileAll_generated:
  assumes "faultless env out observe D" and "\<And>pr. pr \<in> set qs \<Longrightarrow> generated env out g D (observe w) pr"
  shows "live (observe (reconcileAll env g qs w)) =
    fold (\<lambda>pr. deliver (previewClients out g) (previewResources out g pr)) qs (live (observe w))"
proof -
  have "deployAll out (map (\<lambda>pr. (prKey g pr, renderedSpec g pr)) qs) =
      fold (\<lambda>pr. deliver (previewClients out g) (previewResources out g pr)) qs"
    by (simp add: deployAll_def fold_map comp_def resourcesOf_def previewClients_def previewResources_def
        renderedSpec_selector Let_def)
  then show ?thesis
    using reconcileKeys_deploys [OF assms(1), of w "map (\<lambda>pr. (prKey g pr, renderedSpec g pr)) qs"] assms(2)
    by (simp add: reconcileAll_def comp_def generated_deployable list.pred_map list_all_iff)
qed

lemma poll_generates:
  assumes srv: "servesProxies genv (\<lambda>w. stored (observe w))" and only: "proxiesOnly genv observe"
    and url: "URL (Source (genSpec g)) \<noteq> ''''"
    and own: "\<And>m. controllerReference genv (genMeta g) m = Inr (owners m)"
    and poll: "ownURL g (stored (observe w)) prs" "distinct (map Number prs)"
    and pr: "pr \<in> set prs" "previewable env out g D (observe w) pr"
  shows "generated env out g D (observe (reconcilePRs genv g prs w)) pr"
proof -
  have "selected g pr" using pr(2) by (simp add: previewable_def)
  from poll_selected [OF srv url own poll pr(1) this] show ?thesis
    using pr(2) poll_proxiesOnly [OF only, of g prs w] by (simp add: generated_def previewable_def)
qed

lemma fold_deliver_last:
  assumes "cl \<in> set cls" and "distinct (map objKey rs)" and "r \<in> set rs"
  shows "deliver cls rs lv cl (objKey r) = Some r"
  using assms applied_last [OF assms(2,3)] by (simp add: deliver_def)

section \<open>A small world\<close>

text \<open>
  A world that is a situation: one cluster, a repository whose application is one deployment that has the
  branch as its content, and three work directories.
\<close>

definition webResource :: "string \<Rightarrow> Unstructured" where
  "webResource b = (sampleResource ''web'')\<lparr>resContent := b\<rparr>"

definition smallCluster :: Cluster where
  "smallCluster = \<lparr>clusterNamespace = ''default'', clusterName = ''c1'', clusterLabels = Map.empty\<rparr>"

definition sampleOutside :: outside where
  "sampleOutside = \<lparr>
     selectedBy = (\<lambda>ls. [smallCluster]),
     clientFor = (\<lambda>c. 1),
     secretData = (\<lambda>ns n k. if k = ''value'' \<or> k = ''token'' then Some (Some ''x'') else None),
     accepts = (\<lambda>u a. True),
     application = (\<lambda>u b p. [webResource b])\<rparr>"

definition workNames :: "string list" where
  "workNames = [''cdk8s-default-app-main'', ''cdk8s-default-preview-pr-42-feature-express'',
     ''cdk8s-default-preview-pr-8-hotfix'']"

definition repositoryTree :: "(string \<times> string) option \<Rightarrow> fsnode" where
  "repositoryTree c = (case c of None \<Rightarrow> DirNode []
     | Some (u, b) \<Rightarrow> DirNode [(''dist'', DirNode [(''m.yaml'', FileNode (Inr b))])])"

definition situationTree :: "situation \<Rightarrow> fsnode" where
  "situationTree s = DirNode [(''tmp'', DirNode (map (\<lambda>n. (n, repositoryTree (disk s (''/tmp/'' @ n)))) workNames))]"

definition branchOf :: "string \<Rightarrow> string" where
  "branchOf r = drop (length ''refs/heads/'') r"

definition situationEnv :: "situation controller_env" where
  "situationEnv = \<lparr>
     gitOps = \<lparr>remoteList = (\<lambda>u auth w. (Inr [], w)),
        plainClone = (\<lambda>d opts w. if disk w d = None
           then (None, w\<lparr>disk := (disk w)(d \<mapsto> (cloneURL opts, branchOf (cloneReferenceName opts)))\<rparr>)
           else (Some (EExternal ''repository already exists''), w)),
        plainOpen = (\<lambda>p w. (Inl ENotFound, w)), repoHead = (\<lambda>h w. (Inl ENotFound, w)),
        newPublicKeys = (\<lambda>u p s. Inl ENotFound), knownhostsNew = (\<lambda>fs w. (Inl ENotFound, w)),
        createTemp = (\<lambda>w. (Inl ENotFound, w)), fileWrite = (\<lambda>n s w. (None, w)),
        fileClose = (\<lambda>n w. (None, w)), fileRemove = (\<lambda>n w. (None, w)), fileStat = (\<lambda>n w. (None, w)),
        mkdirAll = (\<lambda>d w. (None, w)), userHomeDir = Inr ''/root'', uriHierOk = (\<lambda>s r. True)\<rparr>,
     synthOps = \<lparr>fsTree = situationTree, runCommand = (\<lambda>c d w. (None, w)), yamlUnmarshal = (\<lambda>c. Inl ENotFound),
        yamlStream = (\<lambda>c. ([Some c], None)), decodeUnstructured = (\<lambda>c. Inr (webResource c))\<rparr>,
     resOps = \<lparr>asSelector = (\<lambda>s. Inr (\<lambda>l. True)),
        listClusters = (\<lambda>f w. (Inr [smallCluster], w)),
        secretGet = (\<lambda>ns n w. (Inr (secretData sampleOutside ns n), w)),
        restConfigFromKubeConfig = (\<lambda>b. Inr 0), dynamicNewForConfig = (\<lambda>c. Inr 1),
        dynApply = (\<lambda>cl g ns n r opts w. (None, w\<lparr>live := (live w)(cl := (live w cl)((g, ns, n) \<mapsto> r))\<rparr>)),
        dynGet = (\<lambda>cl g ns n w.
          (case live w cl (g, (case ns of None \<Rightarrow> '''' | Some m \<Rightarrow> m), n) of None \<Rightarrow> Some ENotFound | Some r \<Rightarrow> None, w))\<rparr>,
     getProxy = (\<lambda>ns n w. ((case storeView (stored w) (ns, n) of None \<Rightarrow> Inl ENotFound | Some p \<Rightarrow> Inr p), w)),
     listProxies = (\<lambda>ns w. (Inr (filter (\<lambda>p. Namespace (proxyMeta p) = ns)
        (List.map_filter (storeView (stored w)) [(''default'', ''app'')])), w)),
     updateStatus = (\<lambda>p w. case storeView (stored w) (proxyKey p) of None \<Rightarrow> (Some ENotFound, w)
        | Some old \<Rightarrow> (None, w\<lparr>stored := (stored w)(proxyKey p \<mapsto> SetConditions old (GetConditions p))\<rparr>)),
     removeAll = (\<lambda>d w. (None, w\<lparr>disk := (disk w)(d := None)\<rparr>)),
     insertCondition = (\<lambda>cs c. [c]),
     condNames = \<lparr>AvailableCondition = ''Available'', ReadyCondition = ''Ready'', ConditionTrue = ''True'',
        ConditionFalse = ''False'', StatusFailure = ''Failure''\<rparr>\<rparr>"

definition seen :: "situation \<Rightarrow> situation" where
  "seen s = s\<lparr>stored := storeView (stored s)\<rparr>"

definition workPaths :: "(string \<times> string) set" where
  "workPaths = set (map (\<lambda>n. (''/tmp/'' @ n, ''.'')) workNames)"

definition onStore :: "(proxies, 'a) io \<Rightarrow> (situation, 'a) io" where
  "onStore f w = (case f (stored w) of (r, s) \<Rightarrow> (r, w\<lparr>stored := s\<rparr>))"

definition situationGen :: "situation generator_env" where
  "situationGen =
     \<lparr>genGitOps = gitOps situationEnv, genHttp = \<lparr>newRequest = (\<lambda>u. None), httpDo = (\<lambda>c u h w. (Inl ENotFound, w)), bodyClose = (\<lambda>w. w),
        jsonParse = (\<lambda>s. Inl ENotFound)\<rparr>,
      genSecretGet = secretGet (resOps situationEnv), getGenerator = (\<lambda>ns n w. (Inr sampleGenerator, w)),
      getExisting = getProxy situationEnv, createProxy = (\<lambda>p. onStore (storeCreate p)),
      updateProxy = (\<lambda>p. onStore (storeUpdate p)), updateGenStatus = (\<lambda>g w. (None, w)), clockNow = (\<lambda>w. (150, w)),
      controllerReference = (\<lambda>o' m. Inr (sampleOwners m)), retryOnConflict = (\<lambda>f w. f w)\<rparr>"

lemma seen_simps [simp]:
  "disk (seen s) = disk s" "live (seen s) = live s" "stored (seen s) = storeView (stored s)"
  "seen (s\<lparr>disk := a\<rparr>) = (seen s)\<lparr>disk := a\<rparr>" "seen (s\<lparr>live := b\<rparr>) = (seen s)\<lparr>live := b\<rparr>"
  by (simp_all add: seen_def)

lemma storeView_key: "storeView s k = Some p \<Longrightarrow> proxyKey p = k"
  by (auto simp: storeView_def split: option.splits if_splits)

lemma small_management: "managementLaws situationEnv sampleOutside seen"
proof -
  have upd: "fst (updateStatus situationEnv p w) = None \<and> seen (snd (updateStatus situationEnv p w)) =
      (seen w)\<lparr>stored := (storeView (stored w))(proxyKey p \<mapsto> SetConditions old (GetConditions p))\<rparr>"
    if "storeView (stored w) (proxyKey p) = Some old" for p old w
    using that storeView_key [OF that] storeView_upd [of "SetConditions old (GetConditions p)" "proxyKey p" "stored w"]
    by (simp add: situationEnv_def seen_def proxyKey_def)
  show ?thesis
    unfolding managementLaws_def using upd storeView_key
    by (simp add: sampleOutside_def situationEnv_def)
qed

lemma small_clusters: "clusterLaws (resOps situationEnv) seen"
  by (auto simp: clusterLaws_def situationEnv_def split: option.split)

lemma work_nodes:
  "d \<in> set workNames \<Longrightarrow> nodeAt (situationTree s) (''/tmp/'' @ d) = Some (repositoryTree (disk s (''/tmp/'' @ d)))"
  by (auto simp: workNames_def nodeAt_def situationTree_def path_simps go_simps)

lemma small_collect:
  "d \<in> set workNames \<Longrightarrow> disk s (''/tmp/'' @ d) = Some (u, b) \<Longrightarrow>
   collectResources (synthOps situationEnv) (situationTree s) (''/tmp/'' @ d) = ([webResource b], None)"
  by (auto simp: workNames_def collectResources_def findManifests_def nodeAt_def situationTree_def repositoryTree_def
      visitManifest_def isKustomization_def kustomizationNames_def parseManifests_def readFile_def situationEnv_def
      path_simps go_simps)

lemma small_path: "d \<in> set workNames \<Longrightarrow> joinPath [''/tmp/'' @ d, ''.''] = ''/tmp/'' @ d"
  by (auto simp: workNames_def path_simps go_simps)

lemma small_synth:
  assumes "GitRepository (proxySpec p) = Some r" and "(d, Path r) \<in> workPaths" and "disk s d = Some (u, b)"
  shows "Synthesize (synthOps situationEnv) d p s = (Returned ([webResource b], None), s)"
proof -
  obtain n where n: "n \<in> set workNames" "d = ''/tmp/'' @ n" and path: "Path r = ''.''"
    using assms(2) unfolding workPaths_def by auto
  have ops: "fsTree (synthOps situationEnv) = situationTree" "runCommand (synthOps situationEnv) c p v = (None, v)" for c p v
    by (simp_all add: situationEnv_def)
  have join: "joinPath [d, Path r] = d" using small_path [OF n(1)] path n(2) by simp
  have coll: "collectResources (synthOps situationEnv) (situationTree s) d = ([webResource b], None)"
    using small_collect [OF n(1)] assms(3) n(2) by simp
  show ?thesis
    unfolding Synthesize_def assms(1) option.case Let_def join installDependencies_def ops
    by (simp add: coll)
qed

lemma branchOf_new [simp]: "branchOf (newBranchReferenceName b) = b"
  by (simp add: branchOf_def newBranchReferenceName_def)

lemma small_repository: "repositoryLaws situationEnv sampleOutside seen workPaths"
proof -
  have plain: "plainClone (gitOps situationEnv) d opts s =
      (None, s\<lparr>disk := (disk s)(d \<mapsto> (cloneURL opts, branchOf (cloneReferenceName opts)))\<rparr>)" if "disk s d = None" for d opts s
    using that by (simp add: situationEnv_def)
  have ops: "remoteList (gitOps situationEnv) u a s = (Inr [], s)" "mkdirAll (gitOps situationEnv) d s = (None, s)"
      "removeAll situationEnv d s = (None, s\<lparr>disk := (disk s)(d := None)\<rparr>)" for u a d s
    by (simp_all add: situationEnv_def)
  have out: "accepts sampleOutside u a" "application sampleOutside u b q = [webResource b]" for u a b q
    by (simp_all add: sampleOutside_def)
  show ?thesis
    unfolding repositoryLaws_def using plain small_synth by (simp add: ops out)
qed

lemma small_faultless: "faultless situationEnv sampleOutside seen workPaths"
  using small_management small_clusters small_repository by (simp add: faultless_def)

lemma small_authorised: "SecretRef r \<noteq> '''' \<Longrightarrow> SecretKey r = ''token'' \<Longrightarrow> KnownHostsKey r = '''' \<Longrightarrow>
    authorised situationEnv sampleOutside ns r"
  by (simp add: authorised_def sampleOutside_def)

lemma onStore_admitting: "admitting f \<Longrightarrow> admitting (\<lambda>p. onStore (f p))"
  by (auto simp: admitting_def onStore_def split: prod.splits) (metis fst_conv snd_conv)+

lemma small_serves: "servesProxies situationGen (\<lambda>w. stored (seen w))"
proof -
  note srv = servesD [OF store_serves]
  have get: "getExisting situationGen ns n w =
      ((case storeView (stored w) (ns, n) of None \<Rightarrow> Inl ENotFound | Some p \<Rightarrow> Inr p), w)" for ns n w
    by (simp add: situationGen_def situationEnv_def)
  have ops: "createProxy situationGen = (\<lambda>p. onStore (storeCreate p))"
      "updateProxy situationGen = (\<lambda>p. onStore (storeUpdate p))"
    by (simp_all add: situationGen_def)
  have env: "createProxy (storeEnv git http) = storeCreate" "updateProxy (storeEnv git http) = storeUpdate" for git http
    by (simp_all add: storeEnv_def)
  have view: "storeView (stored (snd (onStore f w))) = storeView (snd (f (stored w)))" for f :: "(proxies, 'z) io" and w
    by (simp add: onStore_def split: prod.split)
  show ?thesis
    unfolding servesProxies_def ops
    using onStore_admitting [OF store_admitting(1)] onStore_admitting [OF store_admitting(2)]
      srv(6,7) [unfolded env] storeView_key
    by (simp add: view get)
qed

lemma small_proxiesOnly: "proxiesOnly situationGen seen"
  by (simp add: proxiesOnly_def situationGen_def situationEnv_def onStore_def split: prod.split)

definition smallStart :: situation where
  "smallStart = \<lparr>disk = Map.empty, live = (\<lambda>cl. Map.empty), stored = Map.empty\<rparr>"

definition smallProxy :: Cdk8sAppProxy where
  "smallProxy = setRepository sampleProxy (defaultRepository sampleRepository)"

lemma small_stored:
  "stored (seen (smallStart\<lparr>stored := [(''default'', ''app'') \<mapsto> smallProxy]\<rparr>)) (''default'', ''app'') = Some smallProxy"
  by (simp add: storeView_def smallProxy_def proxyKey_def sampleProxy_def)

lemma small_repo: "GitRepository (proxySpec smallProxy) = Some (defaultRepository sampleRepository)"
  by (simp add: smallProxy_def)

lemma small_auth: "authorised situationEnv sampleOutside ns (defaultRepository sampleRepository)"
  by (rule small_authorised) (simp_all add: sampleRepository_def)

lemma small_path_in:
  "(workDirectory ''default'' ''app'' (Reference (defaultRepository sampleRepository)),
    Path (defaultRepository sampleRepository)) \<in> workPaths"
  by (simp add: sampleRepository_def workPaths_def workNames_def workDirectory_def)

lemma small_app: "clientsOf sampleOutside ls = [1]" "application sampleOutside u b q = [webResource b]"
  by (simp_all add: clientsOf_def sampleOutside_def)

text \<open>The rendered repositories of two pull requests of the sample generator.\<close>

definition secondPR :: PullRequest where
  "secondPR = samplePR\<lparr>Number := 8, Branch := ''hotfix''\<rparr>"

lemma small_numbers: "showInt 42 = ''42''" "showInt 8 = ''8''"
  by code_simp+

lemma small_previewable:
  assumes "pr = samplePR \<or> pr = secondPR"
  shows "previewable situationEnv sampleOutside sampleGenerator workPaths (seen smallStart) pr"
proof -
  have r: "renderedRepository sampleGenerator pr = \<lparr>URL = ''https://github.com/o/r.git'', Reference = Branch pr,
      Path = ''.'', SecretRef = ''git-credentials'', SecretKey = ''token'', KnownHostsKey = ''''\<rparr>"
    using assms by (auto simp: renderedRepository_def sampleGenerator_def sampleRepository_def templateRepository_def
        emptyRepository_def samplePR_def secondPR_def Let_def)
  have d: "previewDir sampleGenerator pr = ''/tmp/cdk8s-default-preview-pr-'' @ showInt (Number pr) @ ''-'' @ Branch pr"
    by (simp add: previewDir_def workDirectory_def prKey_def genProxyName_def r) (simp add: sampleGenerator_def)
  have "(previewDir sampleGenerator pr, ''.'') \<in> workPaths"
    using assms by (auto simp: d workPaths_def workNames_def samplePR_def secondPR_def small_numbers)
  moreover have "authorised situationEnv sampleOutside ns (renderedRepository sampleGenerator pr)" for ns
    by (rule small_authorised) (simp_all add: r)
  ultimately show ?thesis by (simp add: previewable_def r smallStart_def)
qed

lemma small_owned: "ownURL sampleGenerator (stored (seen smallStart)) prs"
  by (simp add: ownURL_empty smallStart_def)

lemma small_owners: "controllerReference situationGen (genMeta sampleGenerator) m = Inr (sampleOwners m)"
  by (simp add: situationGen_def)

section \<open>Properties\<close>





text \<open>
  From a pull request to the clusters: after a poll that lists them, reconciling the proxies of any of the
  pull requests, in any order and number, brings the application at the branch of each to
  every cluster that the generator's template selects, and changes nothing else on the clusters.
\<close>

theorem previews_delivered:
  assumes "faultless env out observe D" and "servesProxies genv (\<lambda>w. stored (observe w))"
    and "proxiesOnly genv observe" and "URL (Source (genSpec g)) \<noteq> ''''"
    and "\<And>m. controllerReference genv (genMeta g) m = Inr (owners m)"
    and "ownURL g (stored (observe w)) prs" and "distinct (map Number prs)"
    and "set qs \<subseteq> set prs" and "list_all (previewable env out g D (observe w)) qs"
  shows "live (observe (reconcileAll env g qs (reconcilePRs genv g prs w))) =
    fold (\<lambda>pr. deliver (previewClients out g) (previewResources out g pr)) qs (live (observe w))"
proof -
  have "generated env out g D (observe (reconcilePRs genv g prs w)) pr" if "pr \<in> set qs" for pr
    using that assms(8,9) by (intro poll_generates [OF assms(2-7)]) (auto simp: list_all_iff)
  from reconcileAll_generated [OF assms(1) this] show ?thesis
    using poll_proxiesOnly [OF assms(3)] by simp
qed

theorem previews_delivered_witness:
  "live (seen (reconcileAll situationEnv sampleGenerator [secondPR]
     (reconcilePRs situationGen sampleGenerator [samplePR, secondPR] smallStart))) 1 (objKey (webResource ''hotfix'')) =
   Some (webResource ''hotfix'')"
proof -
  have "distinct (map Number [samplePR, secondPR])" "set [secondPR] \<subseteq> set [samplePR, secondPR]"
      "list_all (previewable situationEnv sampleOutside sampleGenerator workPaths (seen smallStart)) [secondPR]"
    using small_previewable by (simp_all add: samplePR_def secondPR_def)
  note live = previews_delivered [where observe = seen and w = smallStart, OF small_faultless small_serves
      small_proxiesOnly sample_URL small_owners small_owned this]
  have "previewResources sampleOutside sampleGenerator secondPR = [webResource ''hotfix'']"
      "previewClients sampleOutside sampleGenerator = [1]"
    by (simp_all add: previewResources_def previewClients_def small_app renderedRepository_def Let_def secondPR_def)
  then show ?thesis by (simp only: live) (simp add: deliver_def)
qed



end
