(* ===== verification/Recovery.thy ===== *)
theory Recovery
  imports Delivery
begin

text \<open>
  Reconciliations that fail, and what is left to do afterwards. The manager reconciles an object again after
  every event and after every resync; between two reconciliations the outside may change from failing to
  working. So a history is a list of environments, one for each reconciliation
  (\<open>controllers/controller.go\<close>): \<open>reconcileUnder\<close>.

  A failing environment may do anything, to clones and clusters, in any call. The locale \<open>untouched\<close> asks only
  that some view of the world is out of the reach of its calls; then it is out of the reach of a
  reconciliation.
\<close>

section \<open>Views that no call changes\<close>

locale untouched =
  fixes env :: "'w controller_env" and view :: "'w \<Rightarrow> 'v"
  assumes git_calls:
      "view (snd (remoteList (gitOps env) u a w)) = view w"
      "view (snd (plainClone (gitOps env) d opts w)) = view w"
      "view (snd (knownhostsNew (gitOps env) fs w)) = view w"
      "view (snd (createTemp (gitOps env) w)) = view w"
      "view (snd (fileWrite (gitOps env) n s w)) = view w"
      "view (snd (fileClose (gitOps env) n w)) = view w"
      "view (snd (fileRemove (gitOps env) n w)) = view w"
      "view (snd (fileStat (gitOps env) n w)) = view w"
      "view (snd (mkdirAll (gitOps env) d w)) = view w"
    and commands: "view (snd (runCommand (synthOps env) c d w)) = view w"
    and cluster_calls:
      "view (snd (listClusters (resOps env) f w)) = view w"
      "view (snd (secretGet (resOps env) ns n w)) = view w"
      "view (snd (dynApply (resOps env) cl g ns n r o' w)) = view w"
      "view (snd (dynGet (resOps env) cl g ns' n w)) = view w"
    and object_calls:
      "view (snd (getProxy env ns n w)) = view w"
      "view (snd (updateStatus env p w)) = view w"
      "view (snd (removeAll env d w)) = view w"
begin

lemma statFilter_untouched: "view (snd (statFilter (gitOps env) fs w)) = view w"
  by (induction fs arbitrary: w) (simp_all add: split_beta git_calls)

lemma getAuth_untouched: "view (snd (getAuth (gitOps env) u s kh w)) = view w"
  by (simp add: getAuth_def sshHostKeyCallback_def knownHostsFromFile_def defaultKnownHostsFiles_def split_beta
      git_calls statFilter_untouched split: authType.split sum.split option.split del: statFilter.simps)

lemma CheckAccess_untouched: "view (snd (CheckAccess (gitOps env) g u s w)) = view w"
  by (simp add: CheckAccess_def split_beta git_calls getAuth_untouched split: sum.split)

lemma Clone_untouched: "view (snd (Clone (gitOps env) g u s b d w)) = view w"
  by (simp add: Clone_def split_beta git_calls getAuth_untouched split: sum.split option.split)

lemma fetch_untouched:
  "view (snd (FetchSecret (secretGet (resOps env)) ns r w)) = view w"
  "view (snd (FetchKnownHosts (secretGet (resOps env)) ns r w)) = view w"
  by (simp_all add: FetchSecret_def FetchKnownHosts_def split_beta cluster_calls split: sum.split option.split)

lemma Synthesize_untouched: "view (snd (Synthesize (synthOps env) d p w)) = view w"
  by (simp add: Synthesize_def installDependencies_def Let_def split_beta commands split: option.split)

lemma clusterList_untouched: "view (snd (clusterList (resOps env) p w)) = view w"
  by (simp add: clusterList_def cluster_calls split: sum.split)

lemma clusterClient_untouched: "view (snd (clusterClient (resOps env) ns n w)) = view w"
  by (simp add: clusterClient_def split_beta cluster_calls split: sum.split option.split)

lemma applyResources_untouched: "view (snd (applyResources (resOps env) c rs w)) = view w"
  by (induction rs arbitrary: w; cases c) (simp_all add: split_beta cluster_calls split: option.split)

lemma applyClusters_untouched: "view (snd (applyClusters (resOps env) rs cs w)) = view w"
  by (induction cs arbitrary: w)
    (simp_all add: split_beta clusterClient_untouched applyResources_untouched split: sum.split outcome.split)

lemma Apply_untouched: "view (snd (Apply (resOps env) p rs w)) = view w"
  by (simp add: Apply_def split_beta clusterList_untouched applyClusters_untouched split: sum.split outcome.split)

lemma checkResources_untouched: "view (snd (checkResources (resOps env) c rs m w)) = view w"
  by (induction rs arbitrary: m w; cases c) (simp_all add: split_beta getResource_def cluster_calls split: option.split)

lemma checkClusters_untouched: "view (snd (checkClusters (resOps env) rs cs m w)) = view w"
  by (induction cs arbitrary: m w)
    (simp_all add: split_beta clusterClient_untouched checkResources_untouched split: sum.split outcome.split option.split)

lemma Check_untouched: "view (snd (Check (resOps env) p rs w)) = view w"
  by (simp add: Check_def split_beta clusterList_untouched checkClusters_untouched split: sum.split)

lemmas operations_untouched =
  fetch_untouched CheckAccess_untouched Clone_untouched Synthesize_untouched Apply_untouched Check_untouched

lemma andThen_untouched:
  "view (snd (s w)) = view w \<Longrightarrow> (\<And>a v. view (snd (k a v)) = view v) \<Longrightarrow> view (snd (andThen s k w)) = view w"
  by (simp add: andThen_def split_beta split: outcome.split sum.split)

lemma pipeline_untouched: "view (snd (pipeline env p r d w)) = view w"
  unfolding pipeline_def deployStages_def
  by (intro andThen_untouched)
    (simp_all add: ioStage_def accessStage_def cloneStage_def synthStage_def applyStage_def checkStage_def split_beta
      operations_untouched split: outcome.split)

lemma finish_untouched: "view (snd (finish env p r)) = view (snd r)"
  by (simp add: finish_def split_beta object_calls split: outcome.split sum.split)

lemma Reconcile_untouched: "view (snd (Reconcile env ns n w)) = view w"
proof (cases "getProxy env ns n w")
  case (Pair r w1)
  then have w1: "view w1 = view w" using object_calls(1) [of ns n w] by simp
  show ?thesis
  proof (cases r)
    case (Inl e)
    then show ?thesis using Pair w1 by (simp add: Reconcile_def)
  next
    case (Inr p)
    show ?thesis
    proof (cases "GitRepository (proxySpec p)")
      case None
      then show ?thesis using Pair Inr w1 by (simp add: Reconcile_def)
    next
      case (Some repo)
      have "view (snd (dropObject (reconcileBody env p repo d w1))) = view w" for d
        using w1 by (simp add: reconcileBody_stages finish_untouched pipeline_untouched)
      then show ?thesis
        using Pair Inr Some
        by (simp add: Reconcile_body [of env ns n w p w1 repo] Let_def split_beta object_calls split: outcome.split)
    qed
  qed
qed

end

section \<open>Histories\<close>

definition specAt :: "situation \<Rightarrow> string \<times> string \<Rightarrow> Cdk8sAppProxySpec option" where
  "specAt s k = map_option proxySpec (stored s k)"

definition reconcileUnder :: "'w controller_env list \<Rightarrow> string \<Rightarrow> string \<Rightarrow> 'w \<Rightarrow> 'w" where
  "reconcileUnder envs ns n = fold (\<lambda>env w. snd (Reconcile env ns n w)) envs"

lemma reconcileUnder_untouched:
  assumes "list_all (\<lambda>env. untouched env view) envs"
  shows "view (reconcileUnder envs ns n w) = view w"
  using assms
  by (induction envs arbitrary: w) (simp_all add: reconcileUnder_def untouched.Reconcile_untouched)

text \<open>One reconciliation with a working cleanup removes a clone that was left behind, whatever else happens.\<close>

lemma Reconcile_cleans:
  assumes "faultless env out observe D" and "specAt (observe w) (ns, n) = Some sp" and "GitRepository sp = Some r"
  shows "disk (observe (snd (Reconcile env ns n w))) (workDirectory ns n (Reference r)) = None"
proof -
  have man: "managementLaws env out observe" and rep: "repositoryLaws env out observe D"
    using assms(1) by (simp_all add: faultless_def)
  obtain p where p: "stored (observe w) (ns, n) = Some p" "proxySpec p = sp"
    using assms(2) by (auto simp: specAt_def)
  have key: "Namespace (proxyMeta p) = ns" "Name (proxyMeta p) = n"
    using managementD(6) [OF man p(1)] by (simp_all add: proxyKey_def)
  have get: "getProxy env ns n w = (Inr p, w)" using managementD(4) [OF man] p by simp
  have repo: "GitRepository (proxySpec p) = Some r" using p(2) assms(3) by simp
  show ?thesis
    using repositoryD(6) [OF rep]
    by (simp add: Reconcile_body [OF get repo] key Let_def split: prod.split outcome.split)
qed

section \<open>Property\<close>


text \<open>
  The small world of \<open>Delivery\<close>, and the same with commands that fail and a cleanup that does nothing, which leaves
  a clone behind.
\<close>

definition brokenEnv :: "situation controller_env" where
  "brokenEnv = situationEnv\<lparr>
     synthOps := (synthOps situationEnv)\<lparr>runCommand := (\<lambda>c d w. (Some (EExternal ''exit status 1''), w))\<rparr>,
     removeAll := (\<lambda>d w. (Some (EExternal ''device or resource busy''), w))\<rparr>"

lemma specAt_status:
  "specAt (seen (w\<lparr>stored := (stored w)(proxyKey p \<mapsto> SetConditions old cs)\<rparr>)) k = specAt (seen w) k"
  if "storeView (stored w) (proxyKey p) = Some old" for p
proof -
  have "proxyKey (SetConditions old cs) = proxyKey p"
    using storeView_key [OF that] by (simp add: proxyKey_def)
  then have "storeView ((stored w)(proxyKey p \<mapsto> SetConditions old cs)) = (storeView (stored w))(proxyKey p \<mapsto> SetConditions old cs)"
    using storeView_upd [of "SetConditions old cs" "proxyKey p" "stored w"] by simp
  then show ?thesis using that by (simp add: specAt_def seen_def)
qed

lemma specAt_elsewhere:
  "specAt (s\<lparr>disk := a\<rparr>) k = specAt s k" "specAt (s\<lparr>live := b\<rparr>) k = specAt s k"
  by (simp_all add: specAt_def)

interpretation working: untouched situationEnv "\<lambda>w. specAt (seen w) k" for k
  by unfold_locales (simp_all add: situationEnv_def specAt_elsewhere specAt_status split: option.split)

interpretation broken: untouched brokenEnv "\<lambda>w. specAt (seen w) k" for k
  by unfold_locales (simp_all add: brokenEnv_def situationEnv_def specAt_elsewhere specAt_status split: option.split)


end
