(* ===== verification/PullRequests.thy ===== *)
theory PullRequests
  imports Delivery
begin

text \<open>
  From the API of GitHub to the clusters: \<open>Reconcile\<close> of the generator (\<open>controllers/generator_controller.go\<close>)
  with the lookup of the secret, the access check, the listing of the pull requests and the rendering of
  the proxies, followed by \<open>Reconcile\<close> of the proxies (\<open>controllers/controller.go\<close>).

  \<open>pollingLaws\<close> is what the generator needs of the outside in addition to \<open>faultless\<close>: the generator object
  is there and due, its repository can be reached with its token, and GitHub answers with the open pull
  requests.
\<close>

section \<open>The outside of a poll\<close>

definition dueAt :: "Cdk8sAppProxyGenerator \<Rightarrow> int \<Rightarrow> bool" where
  "dueAt g now \<longleftrightarrow> (case LastPolledTime (genStatus g) of None \<Rightarrow> True | Some t \<Rightarrow> t + pollIntervalOf (genSpec g) \<le> now)"

definition githubURL :: "string \<Rightarrow> string \<Rightarrow> string" where
  "githubURL owner repo = ''https://api.github.com/repos/'' @ owner @ ''/'' @ repo @ ''/pulls?state=open''"

definition githubHeaders :: "string \<Rightarrow> string \<rightharpoonup> string" where
  "githubHeaders tok = [''Accept'' \<mapsto> ''application/vnd.github.v3+json'', ''Authorization'' \<mapsto> ''token '' @ tok]"

text \<open>GitHub answers the request for the open pull requests; the fields that the program does not read are arbitrary.\<close>

definition githubLaws :: "'w http_env \<Rightarrow> ('w \<Rightarrow> situation) \<Rightarrow> string \<Rightarrow> string \<Rightarrow> string \<Rightarrow> PullRequest list \<Rightarrow> bool" where
  "githubLaws http observe owner repo tok prs \<longleftrightarrow>
     newRequest http (githubURL owner repo) = None \<and> list_all wfPR prs \<and>
     (\<forall>w. \<exists>body w' extra. httpDo http DefaultClient (githubURL owner repo) (githubHeaders tok) w = (Inr (200, body), w') \<and>
        jsonParse http body = Inr (JArr (map (\<lambda>pr. ghJson (extra pr) pr) prs)) \<and>
        (\<forall>pr. unread [''number'', ''head'', ''base''] (extra pr)) \<and> observe (bodyClose http w') = observe w)"

text \<open>The token is looked up, and the repository can be listed without or with it.\<close>

definition sourceLaws :: "'w generator_env \<Rightarrow> Cdk8sAppProxyGenerator \<Rightarrow> string \<Rightarrow> bool" where
  "sourceLaws genv g tok \<longleftrightarrow>
     tok \<noteq> '''' \<and> \<not> looksLikePrivateKey tok \<and> SecretRef (Source (genSpec g)) \<noteq> '''' \<and>
     (\<forall>w. \<exists>secret. genSecretGet genv (Namespace (genMeta g)) (SecretRef (Source (genSpec g))) w = (Inr secret, w) \<and>
        secret (SecretKey (Source (genSpec g))) = Some (Some tok)) \<and>
     (\<forall>w a. \<exists>res. remoteList (genGitOps genv) (URL (Source (genSpec g))) a w = (res, w) \<and> (a \<noteq> None \<longrightarrow> \<not> isl res))"

definition pollingLaws ::
  "'w generator_env \<Rightarrow> ('w \<Rightarrow> situation) \<Rightarrow> string \<times> string \<Rightarrow> Cdk8sAppProxyGenerator \<Rightarrow> bool" where
  "pollingLaws genv observe k g \<longleftrightarrow>
     (\<forall>w. getGenerator genv (fst k) (snd k) w = (Inr g, w)) \<and>
     (\<forall>w. \<exists>now. clockNow genv w = (now, w) \<and> dueAt g now) \<and>
     (\<forall>h w. observe (snd (updateGenStatus genv h w)) = observe w) \<and>
     (\<forall>f w. (\<forall>v. observe (snd (f v)) = observe v) \<longrightarrow> observe (snd (retryOnConflict genv f w)) = observe w)"

section \<open>A poll\<close>

lemma touchStatus_observe:
  assumes "pollingLaws genv observe k g"
  shows "observe (snd (touchStatus genv (fst k) (snd k) w)) = observe w"
proof -
  have "getGenerator genv (fst k) (snd k) w = (Inr g, w)" "\<exists>now. clockNow genv w = (now, w)"
      "\<And>h. observe (snd (updateGenStatus genv h w)) = observe w"
    using assms unfolding pollingLaws_def by blast+
  then show ?thesis by (auto simp: touchStatus_def)
qed

lemma retry_observe:
  assumes "pollingLaws genv observe k g"
  shows "observe (snd (retryOnConflict genv (touchStatus genv (fst k) (snd k)) w)) = observe w"
  using assms touchStatus_observe [OF assms] unfolding pollingLaws_def by blast

lemma github_answer:
  assumes "githubLaws http observe owner repo tok prs" and "tok \<noteq> ''''"
    and "CHR ''/'' \<notin> set owner" and "CHR ''/'' \<notin> set repo"
    and u: "u = ''https://github.com/'' @ owner @ ''/'' @ repo @ ''.git''"
  shows "\<exists>w'. ListPullRequests http (NewProviderClient u None) u (Some tok) w = (Inr prs, w') \<and> observe w' = observe w"
proof -
  obtain body w' extra where answer: "httpDo http DefaultClient (githubURL owner repo) (githubHeaders tok) w = (Inr (200, body), w')"
    and json: "jsonParse http body = Inr (JArr (map (\<lambda>pr. ghJson (extra pr) pr) prs))"
    and extra: "\<And>pr. unread [''number'', ''head'', ''base''] (extra pr)" and same: "observe (bodyClose http w') = observe w"
    and req: "newRequest http (githubURL owner repo) = None" and wf: "list_all wfPR prs"
    using assms(1) unfolding githubLaws_def by blast
  have "ListPullRequests http (NewProviderClient u None) u (Some tok) w = (Inr prs, bodyClose http w')"
    by (rule github_listing [where ow = owner and r = repo and tok = tok and hc = None and body = body and extra = extra])
      (use assms answer json extra wf req in \<open>simp_all add: githubURL_def githubHeaders_def\<close>)
  with same show ?thesis by blast
qed

lemma source_access:
  assumes "sourceLaws genv g tok" and u: "URL (Source (genSpec g)) = ''https://github.com/'' @ rest"
  shows "FetchSecret (genSecretGet genv) (Namespace (genMeta g)) (Some (Source (genSpec g))) w = (Inr (Some tok), w)"
    and "\<exists>req. CheckAccess (genGitOps genv) \<lparr>KnownHosts = None\<rparr> (URL (Source (genSpec g))) (Some tok) w = ((True, req, None), w)"
proof -
  obtain secret where "genSecretGet genv (Namespace (genMeta g)) (SecretRef (Source (genSpec g))) w = (Inr secret, w)"
      "secret (SecretKey (Source (genSpec g))) = Some (Some tok)" "SecretRef (Source (genSpec g)) \<noteq> ''''"
    using assms(1) unfolding sourceLaws_def by blast
  then show "FetchSecret (genSecretGet genv) (Namespace (genMeta g)) (Some (Source (genSpec g))) w = (Inr (Some tok), w)"
    by (simp add: FetchSecret_def)
  let ?u = "URL (Source (genSpec g))"
  have "getURLType ?u = authTypeHTTP" by (simp add: u getURLType_def go_simps)
  moreover have "tok \<noteq> ''''" "\<not> looksLikePrivateKey tok" using assms(1) by (simp_all add: sourceLaws_def)
  ultimately have auth: "getAuth (genGitOps genv) ?u (Some tok) kh v = (Inr (BasicAuth ''oauth2'' tok), v)" for kh v
    by (simp add: getAuth_def)
  obtain res where none: "remoteList (genGitOps genv) ?u None w = (res, w)"
    using assms(1) unfolding sourceLaws_def by blast
  obtain res' where some: "remoteList (genGitOps genv) ?u (Some (BasicAuth ''oauth2'' tok)) w = (res', w)" "\<not> isl res'"
    using assms(1) unfolding sourceLaws_def by blast
  show "\<exists>req. CheckAccess (genGitOps genv) \<lparr>KnownHosts = None\<rparr> ?u (Some tok) w = ((True, req, None), w)"
    using none some auth by (cases res; cases res') (auto simp: CheckAccess_def)
qed

lemma poll_reconciles:
  assumes poll: "pollingLaws genv observe k g" and src: "sourceLaws genv g tok"
    and hub: "githubLaws (genHttp genv) observe owner repo tok prs"
    and names: "CHR ''/'' \<notin> set owner" "CHR ''/'' \<notin> set repo"
    and u: "URL (Source (genSpec g)) = ''https://github.com/'' @ owner @ ''/'' @ repo @ ''.git''"
  shows "\<exists>v. observe v = observe w \<and> observe (snd (GenReconcile genv (fst k) (snd k) w)) = observe (reconcilePRs genv g prs v)"
proof -
  have tok: "tok \<noteq> ''''" using src by (simp add: sourceLaws_def)
  obtain req where access: "CheckAccess (genGitOps genv) \<lparr>KnownHosts = None\<rparr> (URL (Source (genSpec g))) (Some tok) w =
      ((True, req, None), w)"
    using source_access(2) [OF src u] by blast
  obtain v where list: "ListPullRequests (genHttp genv) (NewProviderClient (URL (Source (genSpec g))) None)
      (URL (Source (genSpec g))) (Some tok) w = (Inr prs, v)" and v: "observe v = observe w"
    using github_answer [OF hub tok names u] by blast
  have "observe (snd (poll genv (fst k) (snd k) g i w)) = observe (reconcilePRs genv g prs v)" for i
    using retry_observe [OF poll] tok
    by (simp add: poll_def source_access(1) [OF src u] access list split_beta split: option.split)
  moreover obtain now where "clockNow genv w = (now, w)" "dueAt g now"
    using poll unfolding pollingLaws_def by blast
  moreover have "getGenerator genv (fst k) (snd k) w = (Inr g, w)" using poll unfolding pollingLaws_def by blast
  ultimately have "observe (snd (GenReconcile genv (fst k) (snd k) w)) = observe (reconcilePRs genv g prs v)"
    by (auto simp: GenReconcile_def dueAt_def split: option.splits)
  with v show ?thesis by blast
qed

section \<open>Property\<close>


text \<open>The small world of \<open>Delivery\<close> with a GitHub that reports two pull requests.\<close>

definition githubGen :: "situation generator_env" where
  "githubGen = situationGen\<lparr>
     genHttp := \<lparr>newRequest = (\<lambda>u. None), httpDo = (\<lambda>c u h w. (Inr (200, ''[]''), w)), bodyClose = (\<lambda>w. w),
        jsonParse = (\<lambda>s. Inr (JArr (map (ghJson [(''title'', JStr ''x'')]) [samplePR, secondPR])))\<rparr>,
     clockNow := (\<lambda>w. (500, w))\<rparr>"

lemma github_faultless:
  "githubLaws (genHttp githubGen) seen ''o'' ''r'' ''x'' [samplePR, secondPR]"
proof -
  have "unread [''number'', ''head'', ''base''] [(''title'', JStr ''x'')]" by (simp add: unread_def key_simps)
  moreover have "list_all wfPR [samplePR, secondPR]" by (simp add: wfPR_def samplePR_def secondPR_def int64_def)
  ultimately show ?thesis
    unfolding githubLaws_def githubGen_def
    by (auto intro!: exI [of _ "\<lambda>_. [(''title'', JStr ''x'')]"])
qed

lemma github_serves: "servesProxies githubGen (\<lambda>w. stored (seen w))" "proxiesOnly githubGen seen"
  using small_serves small_proxiesOnly by (simp_all add: servesProxies_def proxiesOnly_def githubGen_def)

lemma github_source: "sourceLaws githubGen sampleGenerator ''x''"
  by (simp add: sourceLaws_def githubGen_def situationGen_def situationEnv_def sampleOutside_def sampleGenerator_def
      sampleRepository_def looksLikePrivateKey_def go_simps)

lemma github_polling: "pollingLaws githubGen seen (''default'', ''preview'') sampleGenerator"
  by (simp add: pollingLaws_def githubGen_def situationGen_def dueAt_def pollIntervalOf_def sampleGenerator_def)


end
