(* ===== verification/Concurrency.thy ===== *)
theory Concurrency
  imports Controller
begin

text \<open>
  Several reconciliations at once. The controller is started with up to
  \<open>cdk8s-app-proxy-concurrency\<close> workers (10 by default, \<open>main.go\<close>); two of them never work on the same
  object, but they share the file system, the clusters and the API server. A reconciliation is a
  \<open>task\<close> that is cut into steps where \<open>Reconcile\<close> (\<open>controllers/controller.go\<close>) calls another
  component; \<open>advance\<close> is one step, \<open>sysStep\<close> one step of any of the tasks. Run by itself a task is
  \<open>Reconcile\<close> (\<open>run_alone_is_Reconcile\<close>).

  Tasks with different work directories do not disturb each other, when the commands and libraries
  keep to the directory they are given (\<open>confined\<close>); but different objects can have the same work
  directory.
\<close>

section \<open>Steps of a reconciliation\<close>

type_synonym task = "Cdk8sAppProxy \<times> GitRepositorySpec"

definition taskDir :: "task \<Rightarrow> string" where
  "taskDir t = workDirectory (Namespace (proxyMeta (fst t))) (Name (proxyMeta (fst t))) (Reference (snd t))"

datatype phase =
    PSecret
  | PKnownHosts bytes
  | PAccess bytes bytes
  | PClone bytes bytes
  | PSynth
  | PApply "Unstructured list"
  | PCheck "Unstructured list"
  | PReport bool
  | PCleanup
  | PDone

definition proceed :: "('w, 'a) stage \<Rightarrow> ('a \<Rightarrow> phase) \<Rightarrow> 'w \<Rightarrow> phase \<times> 'w" where
  "proceed s k w =
     (case s w of
        (Panicked, w1) \<Rightarrow> (PCleanup, w1)
      | (Returned (Inl e), w1) \<Rightarrow> (PCleanup, w1)
      | (Returned (Inr a), w1) \<Rightarrow> (k a, w1))"

fun advance :: "'w controller_env \<Rightarrow> task \<Rightarrow> phase \<Rightarrow> 'w \<Rightarrow> phase \<times> 'w" where
  "advance env t PSecret w =
     proceed (ioStage (FetchSecret (secretGet (resOps env)) (Namespace (proxyMeta (fst t))) (Some (snd t))))
       PKnownHosts w"
| "advance env t (PKnownHosts s) w =
     proceed (ioStage (FetchKnownHosts (secretGet (resOps env)) (Namespace (proxyMeta (fst t))) (Some (snd t))))
       (PAccess s) w"
| "advance env t (PAccess s kh) w =
     proceed (accessStage (gitOps env) kh (URL (snd t)) s) (\<lambda>req. PClone kh (if req then s else None)) w"
| "advance env t (PClone kh s) w =
     proceed (cloneStage (gitOps env) kh (URL (snd t)) s (Reference (snd t)) (taskDir t)) (\<lambda>_. PSynth) w"
| "advance env t PSynth w = proceed (synthStage (synthOps env) (taskDir t) (fst t)) PApply w"
| "advance env t (PApply rs) w = proceed (applyStage (resOps env) (fst t) rs) (\<lambda>_. PCheck rs) w"
| "advance env t (PCheck rs) w = proceed (checkStage (resOps env) (fst t) rs) PReport w"
| "advance env t (PReport missing) w = (PCleanup, snd (updateStatus env (report env (fst t) missing) w))"
| "advance env t PCleanup w = (PDone, snd (removeAll env (taskDir t) w))"
| "advance env t PDone w = (PDone, w)"

fun runAlone :: "'w controller_env \<Rightarrow> task \<Rightarrow> nat \<Rightarrow> phase \<times> 'w \<Rightarrow> phase \<times> 'w" where
  "runAlone env t 0 c = c"
| "runAlone env t (Suc n) c = runAlone env t n (advance env t (fst c) (snd c))"

inductive sysStep ::
  "'w controller_env \<Rightarrow> task list \<Rightarrow> phase list \<times> 'w \<Rightarrow> phase list \<times> 'w \<Rightarrow> bool"
  for env ts
where
  step: "i < length ts \<Longrightarrow> advance env (ts ! i) (phs ! i) w = (ph, w') \<Longrightarrow>
     sysStep env ts (phs, w) (phs[i := ph], w')"

inductive_cases sysStepE: "sysStep env ts c c'"

section \<open>A task by itself\<close>

lemma runAlone_done [simp]: "runAlone env t n (PDone, w) = (PDone, w)"
  by (induction n) simp_all

lemma runAlone_cleanup: "runAlone env t (Suc n) (PCleanup, w) = (PDone, snd (removeAll env (taskDir t) w))"
  by simp

text \<open>What remains to be done from the stages of the abstract pipeline on.\<close>

lemma runAlone_proceed:
  "runAlone env t (Suc (Suc n)) (ph, w) = runAlone env t (Suc n) (advance env t ph w)"
  by simp

lemma run_report:
  "runAlone env t 2 (PReport m, w) =
    (PDone, snd (removeAll env (taskDir t) (snd (updateStatus env (report env (fst t) m) w))))"
  by (simp add: numeral_2_eq_2)

definition finalWorld :: "'w controller_env \<Rightarrow> task \<Rightarrow> (goerr + bool) outcome \<times> 'w \<Rightarrow> 'w" where
  "finalWorld env t r = snd (removeAll env (taskDir t) (snd (finish env (fst t) r)))"

lemma proceed_run:
  assumes "\<And>a w. runAlone env t (Suc n) (k a, w) = (PDone, finalWorld env t (l a w))"
  shows "runAlone env t (Suc n) (proceed s k w) = (PDone, finalWorld env t (andThen s l w))"
  using assms
  by (auto simp: proceed_def andThen_def finalWorld_def simp del: runAlone.simps
      intro: runAlone_cleanup split: prod.splits outcome.splits sum.splits)

lemma run_check:
  "runAlone env t 3 (PCheck rs, w) = (PDone, finalWorld env t (checkStage (resOps env) (fst t) rs w))"
  by (auto simp: numeral_3_eq_3 proceed_def finalWorld_def finish_def
      split: prod.splits outcome.splits sum.splits)

lemma run_pipeline:
  "runAlone env t 9 (PSecret, w) = (PDone, finalWorld env t (pipeline env (fst t) (snd t) (taskDir t) w))"
proof -
  note three = run_check [unfolded numeral_3_eq_3]
  have four: "runAlone env t (Suc (Suc (Suc (Suc 0)))) (PApply rs, w) =
      (PDone, finalWorld env t (andThen (applyStage (resOps env) (fst t) rs) (\<lambda>_. checkStage (resOps env) (fst t) rs) w))"
    for rs w
    by (subst runAlone_proceed) (simp only: advance.simps, rule proceed_run, rule three)
  have five: "runAlone env t (Suc (Suc (Suc (Suc (Suc 0))))) (PSynth, w) =
      (PDone, finalWorld env t (deployStages env (fst t) (taskDir t) w))" for w
    unfolding deployStages_def
    by (subst runAlone_proceed) (simp only: advance.simps, rule proceed_run, rule four)
  have six: "runAlone env t (Suc (Suc (Suc (Suc (Suc (Suc 0)))))) (PClone kh s, w) =
      (PDone, finalWorld env t (andThen (cloneStage (gitOps env) kh (URL (snd t)) s (Reference (snd t)) (taskDir t))
         (\<lambda>_. deployStages env (fst t) (taskDir t)) w))" for kh s w
    by (subst runAlone_proceed) (simp only: advance.simps, rule proceed_run, rule five)
  have "runAlone env t (Suc (Suc (Suc (Suc (Suc (Suc (Suc (Suc (Suc 0))))))))) (PSecret, w) =
      (PDone, finalWorld env t (pipeline env (fst t) (snd t) (taskDir t) w))"
    unfolding pipeline_def
    by (subst runAlone_proceed, simp only: advance.simps, rule proceed_run, subst runAlone_proceed,
        simp only: advance.simps, rule proceed_run, subst runAlone_proceed, simp only: advance.simps,
        rule proceed_run, rule six)
  then show ?thesis by (simp only: eval_nat_numeral BitM.simps One_nat_def)
qed

section \<open>Non-interference\<close>

text \<open>
  \<open>node w d\<close> is what the file system holds below the directory \<open>d\<close>, \<open>cloned u b\<close> what a clone of the
  branch \<open>b\<close> of \<open>u\<close> puts there, \<open>synthOf t c\<close> the outcome of the synthesis of a directory with the content
  \<open>c\<close>. The laws for the tasks of a system: credentials, access checks, cluster operations and status
  updates do not touch the work directories; clone, synthesis and cleanup touch no work directory but the one
  they are given; a successful clone puts the repository there; and the synthesis depends on its
  directory only.
\<close>

definition keeps :: "('w \<Rightarrow> string \<Rightarrow> 'c) \<Rightarrow> string set \<Rightarrow> ('w \<Rightarrow> 'w) \<Rightarrow> bool" where
  "keeps node D f \<longleftrightarrow> (\<forall>w. \<forall>d\<in>D. node (f w) d = node w d)"

definition confined ::
  "'w controller_env \<Rightarrow> ('w \<Rightarrow> string \<Rightarrow> 'c) \<Rightarrow> (string \<Rightarrow> string \<Rightarrow> 'c) \<Rightarrow>
   (task \<Rightarrow> 'c \<Rightarrow> (goerr + Unstructured list) outcome) \<Rightarrow> task set \<Rightarrow> bool" where
  "confined env node cloned synthOf T \<longleftrightarrow>
     (let D = taskDir ` T in
      (\<forall>ns n. keeps node D (\<lambda>w. snd (secretGet (resOps env) ns n w))) \<and>
      (\<forall>kh u s. keeps node D (\<lambda>w. snd (accessStage (gitOps env) kh u s w))) \<and>
      (\<forall>p rs. keeps node D (\<lambda>w. snd (applyStage (resOps env) p rs w))) \<and>
      (\<forall>p rs. keeps node D (\<lambda>w. snd (checkStage (resOps env) p rs w))) \<and>
      (\<forall>p. keeps node D (\<lambda>w. snd (updateStatus env p w))) \<and>
      (\<forall>t\<in>T.
         (\<forall>kh s. keeps node (D - {taskDir t})
            (\<lambda>w. snd (cloneStage (gitOps env) kh (URL (snd t)) s (Reference (snd t)) (taskDir t) w))) \<and>
         keeps node (D - {taskDir t}) (\<lambda>w. snd (synthStage (synthOps env) (taskDir t) (fst t) w)) \<and>
         keeps node (D - {taskDir t}) (\<lambda>w. snd (removeAll env (taskDir t) w)) \<and>
         (\<forall>kh s w w'. cloneStage (gitOps env) kh (URL (snd t)) s (Reference (snd t)) (taskDir t) w = (Returned (Inr ()), w') \<longrightarrow>
            node w' (taskDir t) = cloned (URL (snd t)) (Reference (snd t))) \<and>
         (\<forall>w. fst (synthStage (synthOps env) (taskDir t) (fst t) w) = synthOf t (node w (taskDir t)))))"

text \<open>What holds of a task on its way, whatever the others do.\<close>

fun onTrack :: "('w \<Rightarrow> string \<Rightarrow> 'c) \<Rightarrow> (string \<Rightarrow> string \<Rightarrow> 'c) \<Rightarrow>
   (task \<Rightarrow> 'c \<Rightarrow> (goerr + Unstructured list) outcome) \<Rightarrow> task \<Rightarrow> phase \<Rightarrow> 'w \<Rightarrow> bool" where
  "onTrack node cloned synthOf t PSynth w \<longleftrightarrow> node w (taskDir t) = cloned (URL (snd t)) (Reference (snd t))"
| "onTrack node cloned synthOf t (PApply rs) w \<longleftrightarrow>
     synthOf t (cloned (URL (snd t)) (Reference (snd t))) = Returned (Inr rs)"
| "onTrack node cloned synthOf t (PCheck rs) w \<longleftrightarrow>
     synthOf t (cloned (URL (snd t)) (Reference (snd t))) = Returned (Inr rs)"
| "onTrack node cloned synthOf t ph w \<longleftrightarrow> True"

lemma snd_proceed: "snd (proceed s k w) = snd (s w)"
  by (simp add: proceed_def split: prod.splits outcome.splits sum.splits)

lemma proceed_cases:
  assumes "proceed s k w = (ph, w')"
  obtains "ph = PCleanup" | a where "s w = (Returned (Inr a), w')" and "ph = k a"
  using assms by (auto simp: proceed_def split: prod.splits outcome.splits sum.splits)

lemma fetch_keeps:
  assumes "\<And>ns n. keeps node D (\<lambda>w. snd (secretGet (resOps env) ns n w))"
  shows "keeps node D (\<lambda>w. snd (FetchSecret (secretGet (resOps env)) ns spec w))"
    and "keeps node D (\<lambda>w. snd (FetchKnownHosts (secretGet (resOps env)) ns spec w))"
  using assms unfolding keeps_def FetchSecret_def FetchKnownHosts_def
  by (auto split: option.splits sum.splits prod.splits) (metis snd_conv)+

lemma keepsD: "keeps node D f \<Longrightarrow> d \<in> D \<Longrightarrow> node (f w) d = node w d"
  by (simp add: keeps_def)

lemma confinedD:
  assumes "confined env node cloned synthOf T"
  shows "keeps node (taskDir ` T) (\<lambda>w. snd (secretGet (resOps env) ns n w))"
    and "keeps node (taskDir ` T) (\<lambda>w. snd (accessStage (gitOps env) kh u s w))"
    and "keeps node (taskDir ` T) (\<lambda>w. snd (applyStage (resOps env) p rs w))"
    and "keeps node (taskDir ` T) (\<lambda>w. snd (checkStage (resOps env) p rs w))"
    and "keeps node (taskDir ` T) (\<lambda>w. snd (updateStatus env p w))"
    and "t \<in> T \<Longrightarrow> keeps node (taskDir ` T - {taskDir t})
      (\<lambda>w. snd (cloneStage (gitOps env) kh (URL (snd t)) s (Reference (snd t)) (taskDir t) w))"
    and "t \<in> T \<Longrightarrow> keeps node (taskDir ` T - {taskDir t}) (\<lambda>w. snd (synthStage (synthOps env) (taskDir t) (fst t) w))"
    and "t \<in> T \<Longrightarrow> keeps node (taskDir ` T - {taskDir t}) (\<lambda>w. snd (removeAll env (taskDir t) w))"
    and "t \<in> T \<Longrightarrow> cloneStage (gitOps env) kh (URL (snd t)) s (Reference (snd t)) (taskDir t) w = (Returned (Inr ()), w') \<Longrightarrow>
      node w' (taskDir t) = cloned (URL (snd t)) (Reference (snd t))"
    and "t \<in> T \<Longrightarrow> fst (synthStage (synthOps env) (taskDir t) (fst t) w) = synthOf t (node w (taskDir t))"
  using assms unfolding confined_def Let_def by blast+

lemma advance_others:
  assumes conf: "confined env node cloned synthOf T" and tu: "t \<in> T" "u \<in> T" "taskDir u \<noteq> taskDir t"
  shows "node (snd (advance env t ph w)) (taskDir u) = node w (taskDir u)"
proof -
  have D: "taskDir u \<in> taskDir ` T" "taskDir u \<in> taskDir ` T - {taskDir t}" using tu by auto
  note c = confinedD [OF conf]
  note fetch = fetch_keeps [where env = env and node = node and D = "taskDir ` T", OF c(1)]
  show ?thesis
    using keepsD [OF fetch(1) D(1)] keepsD [OF fetch(2) D(1)] keepsD [OF c(2) D(1)] keepsD [OF c(3) D(1)]
      keepsD [OF c(4) D(1)] keepsD [OF c(5) D(1)] keepsD [OF c(6) D(2)] keepsD [OF c(7) D(2)] keepsD [OF c(8) D(2)] tu(1)
    by (cases ph) (simp_all add: snd_proceed ioStage_def split_beta)
qed

lemma advance_onTrack:
  assumes conf: "confined env node cloned synthOf T" and t: "t \<in> T"
    and on: "onTrack node cloned synthOf t ph w" and adv: "advance env t ph w = (ph', w')"
  shows "onTrack node cloned synthOf t ph' w'"
proof -
  note c = confinedD [OF conf]
  show ?thesis
  proof (cases ph)
    case (PClone kh s)
    then have "proceed (cloneStage (gitOps env) kh (URL (snd t)) s (Reference (snd t)) (taskDir t)) (\<lambda>_. PSynth) w = (ph', w')"
      using adv by simp
    then show ?thesis using c(9) [OF t] by (cases rule: proceed_cases) auto
  next
    case PSynth
    then have "proceed (synthStage (synthOps env) (taskDir t) (fst t)) PApply w = (ph', w')" using adv by simp
    then show ?thesis
    proof (cases rule: proceed_cases)
      case (2 rs)
      then have "fst (synthStage (synthOps env) (taskDir t) (fst t) w) = Returned (Inr rs)" by simp
      then show ?thesis using c(10) [OF t, of w] on PSynth 2(2) by simp
    qed simp
  next
    case (PApply rs)
    then have "proceed (applyStage (resOps env) (fst t) rs) (\<lambda>_. PCheck rs) w = (ph', w')" using adv by simp
    then show ?thesis using on PApply by (cases rule: proceed_cases) auto
  qed (use adv in \<open>auto elim!: proceed_cases\<close>)
qed

lemma onTrack_node:
  "node w' (taskDir t) = node w (taskDir t) \<Longrightarrow> onTrack node cloned synthOf t ph w \<Longrightarrow> onTrack node cloned synthOf t ph w'"
  by (cases ph) auto

definition allOnTrack :: "('w \<Rightarrow> string \<Rightarrow> 'c) \<Rightarrow> (string \<Rightarrow> string \<Rightarrow> 'c) \<Rightarrow>
   (task \<Rightarrow> 'c \<Rightarrow> (goerr + Unstructured list) outcome) \<Rightarrow> task list \<Rightarrow> phase list \<times> 'w \<Rightarrow> bool" where
  "allOnTrack node cloned synthOf ts c \<longleftrightarrow> length (fst c) = length ts \<and>
     (\<forall>i<length ts. onTrack node cloned synthOf (ts ! i) (fst c ! i) (snd c))"

lemma sysStep_onTrack:
  assumes "confined env node cloned synthOf (set ts)" and "distinct (map taskDir ts)"
    and "sysStep env ts c c'" and "allOnTrack node cloned synthOf ts c"
  shows "allOnTrack node cloned synthOf ts c'"
  using assms(3)
proof cases
  case (step i phs w ph w')
  have len: "length phs = length ts" using assms(4) step(1) by (simp add: allOnTrack_def)
  have "onTrack node cloned synthOf (ts ! j) (phs[i := ph] ! j) w'" if j: "j < length ts" for j
  proof (cases "j = i")
    case True
    have "onTrack node cloned synthOf (ts ! i) (phs ! i) w" using assms(4) step(1,3) by (simp add: allOnTrack_def)
    then show ?thesis
      using advance_onTrack [OF assms(1) _ _ step(4)] step(3) True len by simp
  next
    case False
    then have "taskDir (ts ! j) \<noteq> taskDir (ts ! i)"
      using assms(2) j step(3) by (metis length_map nth_eq_iff_index_eq nth_map)
    then have "node (snd (advance env (ts ! i) (phs ! i) w)) (taskDir (ts ! j)) = node w (taskDir (ts ! j))"
      using j step(3) by (intro advance_others [OF assms(1)]) simp_all
    then have "node w' (taskDir (ts ! j)) = node w (taskDir (ts ! j))" using step(4) by simp
    moreover have "onTrack node cloned synthOf (ts ! j) (phs ! j) w" using assms(4) step(1) j by (simp add: allOnTrack_def)
    ultimately show ?thesis using False onTrack_node by (metis nth_list_update_neq)
  qed
  then show ?thesis using step(2) len by (simp add: allOnTrack_def)
qed

lemma sysSteps_onTrack:
  assumes "(sysStep env ts)\<^sup>*\<^sup>* c c'" and "confined env node cloned synthOf (set ts)" and "distinct (map taskDir ts)"
    and "allOnTrack node cloned synthOf ts c"
  shows "allOnTrack node cloned synthOf ts c'"
  using assms(1,4) by (induction rule: rtranclp_induct) (auto intro: sysStep_onTrack [OF assms(2,3)])

section \<open>A small system\<close>

text \<open>
  A world is what each directory holds: nothing, or a clone of the repository of a URL. Cloning into a
  directory that holds a clone already fails, as in go-git; the application of a repository consists of
  one resource with the name of its URL. The file tree shows two work directories.
\<close>

definition dirABC :: string where
  "dirABC = ''/tmp/cdk8s-a-b-c-main''"

definition dirXY :: string where
  "dirXY = ''/tmp/cdk8s-x-y-main''"

definition cloneTree :: "string option \<Rightarrow> fsnode" where
  "cloneTree c = (case c of None \<Rightarrow> DirNode []
     | Some u \<Rightarrow> DirNode [(''dist'', DirNode [(''m.yaml'', FileNode (Inr u))])])"

type_synonym dirs = "string \<Rightarrow> string option"

definition dirTree :: "dirs \<Rightarrow> fsnode" where
  "dirTree w = DirNode [(''tmp'', DirNode
     [(''cdk8s-a-b-c-main'', cloneTree (w dirABC)), (''cdk8s-x-y-main'', cloneTree (w dirXY))])]"

definition systemEnv :: "dirs controller_env" where
  "systemEnv = \<lparr>
     gitOps = \<lparr>remoteList = (\<lambda>u auth w. (Inr [], w)),
        plainClone = (\<lambda>d opts w. if w d = None then (None, w(d \<mapsto> cloneURL opts))
                                 else (Some (EExternal ''repository already exists''), w)),
        plainOpen = (\<lambda>p w. (Inl ENotFound, w)), repoHead = (\<lambda>h w. (Inl ENotFound, w)),
        newPublicKeys = (\<lambda>u p s. Inl ENotFound), knownhostsNew = (\<lambda>fs w. (Inl ENotFound, w)),
        createTemp = (\<lambda>w. (Inl ENotFound, w)), fileWrite = (\<lambda>n s w. (None, w)),
        fileClose = (\<lambda>n w. (None, w)), fileRemove = (\<lambda>n w. (None, w)), fileStat = (\<lambda>n w. (None, w)),
        mkdirAll = (\<lambda>d w. (None, w)), userHomeDir = Inr ''/root'', uriHierOk = (\<lambda>s r. True)\<rparr>,
     synthOps = \<lparr>fsTree = dirTree, runCommand = (\<lambda>c d w. (None, w)), yamlUnmarshal = (\<lambda>c. Inl ENotFound),
        yamlStream = (\<lambda>c. ([Some c], None)), decodeUnstructured = (\<lambda>c. Inr (sampleResource c))\<rparr>,
     resOps = \<lparr>asSelector = (\<lambda>s. Inr (\<lambda>l. True)), listClusters = (\<lambda>f w. (Inr [], w)),
        secretGet = (\<lambda>ns n w. (Inr [''token'' \<mapsto> Some ''t''], w)), restConfigFromKubeConfig = (\<lambda>b. Inr 0),
        dynamicNewForConfig = (\<lambda>c. Inr c), dynApply = (\<lambda>cl g ns n r opts w. (None, w)),
        dynGet = (\<lambda>cl g ns n w. (None, w))\<rparr>,
     getProxy = (\<lambda>ns n w. (Inl ENotFound, w)), listProxies = (\<lambda>ns w. (Inr [], w)),
     updateStatus = (\<lambda>p w. (None, w)), removeAll = (\<lambda>d w. (None, w(d := None))),
     insertCondition = (\<lambda>cs c. c # cs),
     condNames = \<lparr>AvailableCondition = ''Available'', ReadyCondition = ''Ready'', ConditionTrue = ''True'',
        ConditionFalse = ''False'', StatusFailure = ''Failure''\<rparr>\<rparr>"

definition systemTask :: "string \<Rightarrow> string \<Rightarrow> string \<Rightarrow> task" where
  "systemTask ns n u =
     (let r = \<lparr>URL = u, Reference = ''main'', Path = '''', SecretRef = ''s'', SecretKey = ''token'', KnownHostsKey = ''''\<rparr> in
      (\<lparr>proxyMeta = \<lparr>Name = n, Namespace = ns, Labels = None, Annotations = None, OwnerReferences = []\<rparr>,
        proxySpec = \<lparr>GitRepository = Some r, ClusterSelector = sampleSelector\<rparr>,
        proxyStatus = \<lparr>Conditions = []\<rparr>\<rparr>, r))"

definition systemSynth :: "task \<Rightarrow> string option \<Rightarrow> (goerr + Unstructured list) outcome" where
  "systemSynth t c = (case c of None \<Rightarrow> Returned (Inl eNoEnt) | Some u \<Rightarrow> Returned (Inr [sampleResource u]))"

lemma systemTask_simps [simp]:
  "snd (systemTask ns n u) = \<lparr>URL = u, Reference = ''main'', Path = '''', SecretRef = ''s'', SecretKey = ''token'', KnownHostsKey = ''''\<rparr>"
  "GitRepository (proxySpec (fst (systemTask ns n u))) = Some (snd (systemTask ns n u))"
  "taskDir (systemTask ns n u) = workDirectory ns n ''main''"
  by (simp_all add: systemTask_def taskDir_def Let_def)

lemma system_dirs:
  "workDirectory ''a'' ''b-c'' ''main'' = dirABC" "workDirectory ''a-b'' ''c'' ''main'' = dirABC"
  "workDirectory ''x'' ''y'' ''main'' = dirXY" "dirABC \<noteq> dirXY"
  by (simp_all add: workDirectory_def dirABC_def dirXY_def)

lemma dir_paths:
  "joinPath [dirABC, ''''] = dirABC" "joinPath [dirABC, ''dist''] = dirABC @ ''/dist''"
  "joinPath [dirXY, ''''] = dirXY" "joinPath [dirXY, ''dist''] = dirXY @ ''/dist''"
  "joinPath [dirABC @ ''/dist'', ''m.yaml''] = dirABC @ ''/dist/m.yaml''"
  "joinPath [dirXY @ ''/dist'', ''m.yaml''] = dirXY @ ''/dist/m.yaml''"
  "basePath (dirABC @ ''/dist'') = ''dist''" "basePath (dirXY @ ''/dist'') = ''dist''"
  "basePath (dirABC @ ''/dist/m.yaml'') = ''m.yaml''" "basePath (dirXY @ ''/dist/m.yaml'') = ''m.yaml''"
  by (simp_all add: dirABC_def dirXY_def path_simps go_simps)

lemma dir_nodes:
  "nodeAt (dirTree w) dirABC = Some (cloneTree (w dirABC))"
  "nodeAt (dirTree w) dirXY = Some (cloneTree (w dirXY))"
  "nodeAt (dirTree w) (dirABC @ ''/dist'') = fsLookup (cloneTree (w dirABC)) [''dist'']"
  "nodeAt (dirTree w) (dirXY @ ''/dist'') = fsLookup (cloneTree (w dirXY)) [''dist'']"
  "nodeAt (dirTree w) (dirABC @ ''/dist/m.yaml'') = fsLookup (cloneTree (w dirABC)) [''dist'', ''m.yaml'']"
  "nodeAt (dirTree w) (dirXY @ ''/dist/m.yaml'') = fsLookup (cloneTree (w dirXY)) [''dist'', ''m.yaml'']"
  by (simp_all add: nodeAt_def dirTree_def dirABC_def dirXY_def path_simps go_simps)

lemma system_collect:
  assumes "d = dirABC \<or> d = dirXY"
  shows "collectResources (synthOps systemEnv) (dirTree w) d =
    (case w d of None \<Rightarrow> ([], Some eNoEnt) | Some u \<Rightarrow> ([sampleResource u], None))"
  using assms
  by (elim disjE) (simp_all add: collectResources_def findManifests_def dir_paths dir_nodes cloneTree_def
      visitManifest_def isKustomization_def kustomizationNames_def parseManifests_def readFile_def systemEnv_def
      go_simps split: option.splits)

lemma system_synth:
  assumes "taskDir (systemTask ns n u) = dirABC \<or> taskDir (systemTask ns n u) = dirXY"
  shows "synthStage (synthOps systemEnv) (taskDir (systemTask ns n u)) (fst (systemTask ns n u)) w =
    (systemSynth (systemTask ns n u) (w (taskDir (systemTask ns n u))), w)"
proof -
  let ?d = "taskDir (systemTask ns n u)"
  have join: "joinPath [?d, ''''] = ?d" using assms dir_paths(1,3) by auto
  have ops: "fsTree (synthOps systemEnv) = dirTree" "runCommand (synthOps systemEnv) c p v = (None, v)" for c p v
    by (simp_all add: systemEnv_def)
  have "Synthesize (synthOps systemEnv) ?d (fst (systemTask ns n u)) w =
      (Returned (collectResources (synthOps systemEnv) (dirTree w) ?d), w)"
    using join by (simp add: Synthesize_def installDependencies_def ops del: systemTask_simps(3))
      (simp add: Let_def ops del: systemTask_simps(3))
  then show ?thesis
    using system_collect [OF assms] by (simp add: synthStage_def systemSynth_def orError_def split: option.splits)
qed

lemma system_stages:
  "ioStage (FetchSecret (secretGet (resOps systemEnv)) ns (Some (snd (systemTask m n u)))) w = (Returned (Inr (Some ''t'')), w)"
  "ioStage (FetchKnownHosts (secretGet (resOps systemEnv)) ns (Some (snd (systemTask m n u)))) w = (Returned (Inr None), w)"
  "accessStage (gitOps systemEnv) kh v s w = (Returned (Inr False), w)"
  "cloneStage (gitOps systemEnv) kh v None b d w =
     (if w d = None then (Returned (Inr ()), w(d \<mapsto> v))
      else (Returned (Inl (EExternal ''repository already exists'')), w))"
  "removeAll systemEnv d w = (None, w(d := None))"
  by (simp_all add: ioStage_def FetchSecret_def FetchKnownHosts_def accessStage_def CheckAccess_def cloneStage_def
      Clone_def orError_def systemEnv_def)

section \<open>Schedules\<close>

fun runSchedule :: "'w controller_env \<Rightarrow> task list \<Rightarrow> nat list \<Rightarrow> phase list \<times> 'w \<Rightarrow> phase list \<times> 'w" where
  "runSchedule env ts [] c = c"
| "runSchedule env ts (i # is) c =
     (case advance env (ts ! i) (fst c ! i) (snd c) of (ph, w') \<Rightarrow> runSchedule env ts is ((fst c)[i := ph], w'))"

lemma runSchedule_reaches:
  "list_all (\<lambda>i. i < length ts) is \<Longrightarrow> (sysStep env ts)\<^sup>*\<^sup>* c (runSchedule env ts is c)"
proof (induction "is" arbitrary: c)
  case (Cons i "is")
  obtain ph w' where a: "advance env (ts ! i) (fst c ! i) (snd c) = (ph, w')" by fastforce
  then have "sysStep env ts c ((fst c)[i := ph], w')"
    using sysStep.step [of i ts env "fst c" "snd c" ph w'] Cons.prems by simp
  then show ?case using Cons a by (auto intro: converse_rtranclp_into_rtranclp)
qed simp

text \<open>How many steps a task has left at most.\<close>

fun stepsLeft :: "phase \<Rightarrow> nat" where
  "stepsLeft PSecret = 9"
| "stepsLeft (PKnownHosts s) = 8"
| "stepsLeft (PAccess s kh) = 7"
| "stepsLeft (PClone kh s) = 6"
| "stepsLeft PSynth = 5"
| "stepsLeft (PApply rs) = 4"
| "stepsLeft (PCheck rs) = 3"
| "stepsLeft (PReport m) = 2"
| "stepsLeft PCleanup = 1"
| "stepsLeft PDone = 0"

lemma stepsLeft_0: "stepsLeft ph = 0 \<longleftrightarrow> ph = PDone"
  by (cases ph) simp_all

lemma proceed_stepsLeft:
  "(\<And>a. stepsLeft (k a) \<le> n) \<Longrightarrow> 1 \<le> n \<Longrightarrow> stepsLeft (fst (proceed s k w)) \<le> n"
  by (simp add: proceed_def split: prod.splits outcome.splits sum.splits)

lemma advance_stepsLeft: "stepsLeft (fst (advance env t ph w)) \<le> stepsLeft ph - 1"
  by (cases ph) (auto intro!: proceed_stepsLeft)

lemma runSchedule_stepsLeft:
  assumes "j < length phs"
  shows "stepsLeft (fst (runSchedule env ts is (phs, w)) ! j) \<le> stepsLeft (phs ! j) - count_list is j"
  using assms
proof (induction "is" arbitrary: phs w)
  case (Cons i "is")
  obtain ph w' where a: "advance env (ts ! i) (phs ! i) w = (ph, w')" by fastforce
  have "stepsLeft (fst (runSchedule env ts is (phs[i := ph], w')) ! j) \<le>
      stepsLeft (phs[i := ph] ! j) - count_list is j"
    using Cons by simp
  moreover have "stepsLeft (phs[i := ph] ! j) \<le> stepsLeft (phs ! j) - (if i = j then 1 else 0)"
    using advance_stepsLeft [of env "ts ! i" "phs ! i" w] a Cons.prems by auto
  ultimately show ?case using a by auto
qed simp

lemma system_advance:
  "advance systemEnv (systemTask ns n u) PSecret w = (PKnownHosts (Some ''t''), w)"
  "advance systemEnv (systemTask ns n u) (PKnownHosts s) w = (PAccess s None, w)"
  "advance systemEnv (systemTask ns n u) (PAccess s kh) w = (PClone kh None, w)"
  "advance systemEnv (systemTask ns n u) (PClone kh None) w =
     (if w (workDirectory ns n ''main'') = None then (PSynth, w(workDirectory ns n ''main'' \<mapsto> u)) else (PCleanup, w))"
  "advance systemEnv (systemTask ns n u) PCleanup w = (PDone, w(workDirectory ns n ''main'' := None))"
  by (simp_all add: proceed_def system_stages del: systemTask_simps(1)) simp_all

lemma system_advance_synth:
  assumes "workDirectory ns n ''main'' = dirABC \<or> workDirectory ns n ''main'' = dirXY"
    and "w (workDirectory ns n ''main'') = Some v"
  shows "advance systemEnv (systemTask ns n u) PSynth w = (PApply [sampleResource v], w)"
  using system_synth [of ns n u w] assms by (simp add: proceed_def systemSynth_def)

text \<open>The calls of the small system keep to their directories.\<close>

lemma system_keeps:
  "snd (secretGet (resOps systemEnv) ns n w) = w"
  "snd (accessStage (gitOps systemEnv) kh u s w) = w"
  "snd (applyStage (resOps systemEnv) p rs w) = w"
  "snd (checkStage (resOps systemEnv) p rs w) = w"
  "snd (updateStatus systemEnv p w) = w"
  "snd (removeAll systemEnv d w) = w(d := None)"
  by (simp_all add: systemEnv_def accessStage_def CheckAccess_def applyStage_def Apply_def checkStage_def
      Check_def clusterList_def)

lemma system_clone_world:
  "snd (cloneStage (gitOps systemEnv) kh u s b d w) = w \<or> snd (cloneStage (gitOps systemEnv) kh u s b d w) = w(d \<mapsto> u)"
  by (simp add: systemEnv_def cloneStage_def Clone_def getAuth_def split: prod.splits authType.splits)

lemma system_clone_done:
  "cloneStage (gitOps systemEnv) kh u s b d w = (Returned (Inr ()), w') \<Longrightarrow> w' d = Some u"
  by (auto simp: systemEnv_def cloneStage_def Clone_def getAuth_def orError_def
      split: prod.splits authType.splits if_splits)

lemma system_confined:
  assumes T: "\<And>t. t \<in> T \<Longrightarrow> \<exists>ns n u. t = systemTask ns n u \<and> (taskDir t = dirABC \<or> taskDir t = dirXY)"
  shows "confined systemEnv (\<lambda>w d. w d) (\<lambda>u b. Some u) systemSynth T"
proof -
  have synth: "synthStage (synthOps systemEnv) (taskDir t) (fst t) w = (systemSynth t (w (taskDir t)), w)"
    if t: "t \<in> T" for t w
  proof -
    from T [OF t] obtain ns n u where "t = systemTask ns n u" "taskDir t = dirABC \<or> taskDir t = dirXY" by blast
    then show ?thesis using system_synth by blast
  qed
  have clone: "snd (cloneStage (gitOps systemEnv) kh u s b d w) d' = w d'" if "d' \<noteq> d" for kh u s b d d' and w :: dirs
    using system_clone_world [of kh u s b d w] that by auto
  show ?thesis
    using system_clone_done by (auto simp: confined_def Let_def keeps_def system_keeps synth clone)
qed

section \<open>Properties\<close>







text \<open>
  C13. Collision: the object \<open>b-c\<close> of the namespace \<open>a\<close> and the object \<open>c\<close> of the namespace \<open>a-b\<close> have the same
  work directory, although each of the calls keeps to it. While the first is about to synthesize, a
  reconciliation of the second fails to clone into the directory and removes it, the next one clones its own
  repository, and the first goes on to apply the resources of the second to its own clusters.
\<close>

theorem work_directories_collide:
  "let t = systemTask ''a'' ''b-c'' ''https://one''; u = systemTask ''a-b'' ''c'' ''https://two'' in
   taskDir t = taskDir u \<and>
   (\<exists>w. (sysStep systemEnv [t, u, u])\<^sup>*\<^sup>* ([PSecret, PSecret, PSecret], Map.empty)
      ([PApply [sampleResource ''https://two''], PDone, PSynth], w))"
proof -
  let ?t = "systemTask ''a'' ''b-c'' ''https://one''" and ?u = "systemTask ''a-b'' ''c'' ''https://two''"
  let ?is = "[0, 0, 0, 0, 1, 1, 1, 1, 1, 2, 2, 2, 2, 0]"
  have "runSchedule systemEnv [?t, ?u, ?u] ?is ([PSecret, PSecret, PSecret], Map.empty) =
      ([PApply [sampleResource ''https://two''], PDone, PSynth], [dirABC \<mapsto> ''https://two''])"
    using system_dirs
    by (simp add: system_advance system_advance_synth numeral_2_eq_2 del: advance.simps systemTask_simps(1))
  then have "(sysStep systemEnv [?t, ?u, ?u])\<^sup>*\<^sup>* ([PSecret, PSecret, PSecret], Map.empty)
      ([PApply [sampleResource ''https://two''], PDone, PSynth], [dirABC \<mapsto> ''https://two''])"
    using runSchedule_reaches [of "[?t, ?u, ?u]" ?is systemEnv "([PSecret, PSecret, PSecret], Map.empty)"] by simp
  then show ?thesis using system_dirs by (auto simp: Let_def)
qed

end
