(* ===== verification/GoHeap.thy ===== *)
theory GoHeap
  imports GoPrelude
begin

text \<open>
  Memory with pointers, for the functions whose point is what they share: a heap maps addresses to
  arrays (a pointer refers to an array of one element), a value is an atom (a string, number or other
  value without pointers), a pointer, a slice, or a struct with named fields. A type says how deep a value
  is to be read: \<open>content\<close> reads a value of a type out of the heap as a tree, \<open>reach\<close> is the set of
  addresses that the reading visits. A slice is the array it refers to; capacity beyond the length and
  sharing of parts of an array are not needed here.

  \<open>deepCopier c ty\<close> is the contract of a deep copy: the copy reads as the same tree, lies in newly
  allocated memory only, and nothing that existed changes. \<open>copyPtr\<close>, \<open>copySlice\<close> and \<open>copyStruct\<close> are
  the forms of code that controller-gen emits, and each keeps the contract.
\<close>

section \<open>Values, types, heaps\<close>

datatype mval = Atom string | PtrV "nat option" | SliceV "nat option" | StructV "(string \<times> mval) list"

datatype mtype = TyAtom | TyPtr mtype | TySlice mtype | TyStruct "(string \<times> mtype) list"

datatype mtree = TrAtom string | TrNil | TrPtr mtree | TrSlice "mtree list" | TrStruct "(string \<times> mtree) list"

record heap =
  cells :: "nat \<Rightarrow> mval list option"
  nextAddr :: nat

definition wfHeap :: "heap \<Rightarrow> bool" where
  "wfHeap h \<longleftrightarrow> (\<forall>a\<ge>nextAddr h. cells h a = None)"

definition alloc :: "mval list \<Rightarrow> heap \<Rightarrow> nat \<times> heap" where
  "alloc vs h = (nextAddr h, h\<lparr>cells := (cells h)(nextAddr h := Some vs), nextAddr := Suc (nextAddr h)\<rparr>)"

definition store :: "nat \<Rightarrow> mval list \<Rightarrow> heap \<Rightarrow> heap" where
  "store a vs h = h\<lparr>cells := (cells h)(a := Some vs)\<rparr>"

definition extends :: "heap \<Rightarrow> heap \<Rightarrow> bool" where
  "extends h h' \<longleftrightarrow> nextAddr h \<le> nextAddr h' \<and> (\<forall>a<nextAddr h. cells h' a = cells h a)"

text \<open>Reading a value at a type.\<close>

fun content :: "heap \<Rightarrow> mtype \<Rightarrow> mval \<Rightarrow> mtree option"
  and contentFields :: "heap \<Rightarrow> (string \<times> mtype) list \<Rightarrow> (string \<times> mval) list \<Rightarrow> (string \<times> mtree) list option"
where
  "content h TyAtom (Atom s) = Some (TrAtom s)"
| "content h (TyPtr ty) (PtrV None) = Some TrNil"
| "content h (TyPtr ty) (PtrV (Some a)) =
     (case cells h a of Some [v] \<Rightarrow> map_option TrPtr (content h ty v) | _ \<Rightarrow> None)"
| "content h (TySlice ty) (SliceV None) = Some TrNil"
| "content h (TySlice ty) (SliceV (Some a)) =
     (case cells h a of Some vs \<Rightarrow> map_option TrSlice (those (map (content h ty) vs)) | None \<Rightarrow> None)"
| "content h (TyStruct ftys) (StructV fvs) = map_option TrStruct (contentFields h ftys fvs)"
| "content h _ _ = None"
| "contentFields h [] [] = Some []"
| "contentFields h ((f, ty) # ftys) ((g, v) # fvs) =
     (if f = g then (case content h ty v of None \<Rightarrow> None
        | Some t \<Rightarrow> map_option (Cons (f, t)) (contentFields h ftys fvs)) else None)"
| "contentFields h _ _ = None"

fun reach :: "heap \<Rightarrow> mtype \<Rightarrow> mval \<Rightarrow> nat set"
  and reachFields :: "heap \<Rightarrow> (string \<times> mtype) list \<Rightarrow> (string \<times> mval) list \<Rightarrow> nat set"
where
  "reach h (TyPtr ty) (PtrV (Some a)) =
     insert a (case cells h a of Some [v] \<Rightarrow> reach h ty v | _ \<Rightarrow> {})"
| "reach h (TySlice ty) (SliceV (Some a)) =
     insert a (case cells h a of Some vs \<Rightarrow> \<Union> (set (map (reach h ty) vs)) | None \<Rightarrow> {})"
| "reach h (TyStruct ftys) (StructV fvs) = reachFields h ftys fvs"
| "reach h _ _ = {}"
| "reachFields h ((f, ty) # ftys) ((g, v) # fvs) = reach h ty v \<union> reachFields h ftys fvs"
| "reachFields h _ _ = {}"

text \<open>Types without pointers.\<close>

fun flat :: "mtype \<Rightarrow> bool" where
  "flat TyAtom = True"
| "flat (TyPtr ty) = False"
| "flat (TySlice ty) = False"
| "flat (TyStruct ftys) = list_all (\<lambda>fty. flat (snd fty)) ftys"

section \<open>Reading and changing the heap\<close>

lemma reach_frame:
  shows "(\<And>a. a \<in> reach h ty v \<Longrightarrow> cells h' a = cells h a) \<Longrightarrow> reach h' ty v = reach h ty v"
    and "(\<And>a. a \<in> reachFields h ftys fvs \<Longrightarrow> cells h' a = cells h a) \<Longrightarrow>
      reachFields h' ftys fvs = reachFields h ftys fvs"
proof (induction h ty v and h ftys fvs rule: reach_reachFields.induct)
  case (2 h ty a)
  then have c: "cells h' a = cells h a" by simp
  show ?case
  proof (cases "cells h a")
    case (Some vs)
    have "reach h' ty v = reach h ty v" if "v \<in> set vs" for v
      using "2.IH" [OF Some that] "2.prems" Some that by auto
    then have "map (reach h' ty) vs = map (reach h ty) vs" by simp
    then show ?thesis using c Some by (simp only: reach.simps option.case)
  qed (use c in simp)
qed (auto split: option.splits list.splits)

lemma content_frame:
  shows "(\<And>a. a \<in> reach h ty v \<Longrightarrow> cells h' a = cells h a) \<Longrightarrow> content h' ty v = content h ty v"
    and "(\<And>a. a \<in> reachFields h ftys fvs \<Longrightarrow> cells h' a = cells h a) \<Longrightarrow>
      contentFields h' ftys fvs = contentFields h ftys fvs"
proof (induction h ty v and h ftys fvs rule: content_contentFields.induct)
  case (5 h ty a)
  then have c: "cells h' a = cells h a" by simp
  show ?case
  proof (cases "cells h a")
    case (Some vs)
    have "content h' ty v = content h ty v" if "v \<in> set vs" for v
      using "5.IH" [OF Some that] "5.prems" Some that by auto
    then have "map (content h' ty) vs = map (content h ty) vs" by simp
    then show ?thesis using c Some by (simp only: content.simps option.case)
  qed (use c in simp)
qed (auto split: option.splits list.splits)

lemma those_map_Some: "those (map f xs) = Some ys \<Longrightarrow> x \<in> set xs \<Longrightarrow> \<exists>y. f x = Some y"
  by (induction xs arbitrary: ys) (auto split: option.splits)

lemma wfHeap_below: "wfHeap h \<Longrightarrow> cells h a = Some vs \<Longrightarrow> a < nextAddr h"
  unfolding wfHeap_def by (metis leI option.simps(3))

lemma reach_below:
  shows "wfHeap h \<Longrightarrow> content h ty v = Some t \<Longrightarrow> reach h ty v \<subseteq> {..<nextAddr h}"
    and "wfHeap h \<Longrightarrow> contentFields h ftys fvs = Some ts \<Longrightarrow> reachFields h ftys fvs \<subseteq> {..<nextAddr h}"
proof (induction h ty v and h ftys fvs arbitrary: t and ts rule: content_contentFields.induct)
  case (3 h ty a)
  then show ?case by (auto dest: wfHeap_below split: option.splits list.splits)
next
  case (5 h ty a)
  then obtain vs ts where vs: "cells h a = Some vs" "those (map (content h ty) vs) = Some ts"
    by (auto split: option.splits)
  have "reach h ty v \<subseteq> {..<nextAddr h}" if "v \<in> set vs" for v
    using "5.IH" [OF vs(1) that "5.prems"(1)] those_map_Some [OF vs(2) that] by auto
  then show ?case using vs(1) wfHeap_below [OF "5.prems"(1) vs(1)] by auto
qed (auto split: option.splits if_splits)

lemma extends_refl [simp]: "extends h h"
  by (simp add: extends_def)

lemma extends_trans: "extends h h1 \<Longrightarrow> extends h1 h2 \<Longrightarrow> extends h h2"
  by (auto simp: extends_def)

lemma extends_content:
  assumes "wfHeap h" and "content h ty v = Some t" and "extends h h'"
  shows "content h' ty v = Some t" and "reach h' ty v = reach h ty v"
proof -
  have "cells h' a = cells h a" if "a \<in> reach h ty v" for a
    using reach_below(1) [OF assms(1,2)] assms(3) that by (auto simp: extends_def)
  from content_frame(1) [OF this] reach_frame(1) [OF this] assms(2) show "content h' ty v = Some t" "reach h' ty v = reach h ty v"
    by auto
qed

lemma alloc_facts:
  "alloc vs h = (b, h') \<Longrightarrow> wfHeap h \<Longrightarrow>
     b = nextAddr h \<and> wfHeap h' \<and> extends h h' \<and> nextAddr h' = Suc b \<and> cells h' b = Some vs"
  by (auto simp: alloc_def wfHeap_def extends_def)

lemma store_facts:
  assumes "wfHeap h" and "a < nextAddr h"
  shows "wfHeap (store a vs h)" and "cells (store a vs h) a = Some vs"
    and "nextAddr (store a vs h) = nextAddr h"
    and "extends h0 h \<Longrightarrow> nextAddr h0 \<le> a \<Longrightarrow> extends h0 (store a vs h)"
  using assms by (auto simp: wfHeap_def store_def extends_def)

lemma store_content: "a \<notin> reach h ty v \<Longrightarrow>
    content (store a vs h) ty v = content h ty v \<and> reach (store a vs h) ty v = reach h ty v"
  by (rule conjI, rule content_frame, (auto simp: store_def)[1], rule reach_frame, auto simp: store_def)

lemma flat_content:
  shows "flat ty \<Longrightarrow> reach h ty v = {}"
    and "list_all (\<lambda>fty. flat (snd fty)) ftys \<Longrightarrow> reachFields h ftys fvs = {}"
  by (induction h ty v and h ftys fvs rule: reach_reachFields.induct) auto

section \<open>Deep copies\<close>

type_synonym copier = "mval \<Rightarrow> heap \<Rightarrow> mval \<times> heap"

definition copies :: "mtype \<Rightarrow> mtree \<Rightarrow> heap \<Rightarrow> mval \<Rightarrow> heap \<Rightarrow> bool" where
  "copies ty t h v' h' \<longleftrightarrow> wfHeap h' \<and> extends h h' \<and> content h' ty v' = Some t \<and>
     reach h' ty v' \<subseteq> {nextAddr h..<nextAddr h'}"

definition deepCopier :: "copier \<Rightarrow> mtype \<Rightarrow> bool" where
  "deepCopier c ty \<longleftrightarrow> (\<forall>h v t. wfHeap h \<longrightarrow> content h ty v = Some t \<longrightarrow>
     copies ty t h (fst (c v h)) (snd (c v h)))"

lemma deepCopierI:
  "(\<And>h v t v' h'. wfHeap h \<Longrightarrow> content h ty v = Some t \<Longrightarrow> c v h = (v', h') \<Longrightarrow> copies ty t h v' h') \<Longrightarrow>
   deepCopier c ty"
  unfolding deepCopier_def by (metis prod.collapse)

lemma deepCopierD:
  "deepCopier c ty \<Longrightarrow> wfHeap h \<Longrightarrow> content h ty v = Some t \<Longrightarrow> c v h = (v', h') \<Longrightarrow> copies ty t h v' h'"
  unfolding deepCopier_def by (metis fst_conv snd_conv)

text \<open>A later allocation does not disturb a copy.\<close>

lemma copies_later:
  assumes "copies ty t h v h1" and "extends h1 h2" and "wfHeap h2"
  shows "copies ty t h v h2"
  using assms extends_content [of h1 ty v t h2] extends_trans [of h h1 h2]
  by (fastforce simp: copies_def extends_def)

text \<open>The assignment \<open>*out = *in\<close> of a value without pointers.\<close>

definition assign :: copier where
  "assign v h = (v, h)"

lemma assign_deep: "flat ty \<Longrightarrow> deepCopier assign ty"
  by (rule deepCopierI) (auto simp: assign_def copies_def flat_content)

text \<open>\<open>*out = new(T); (*in).DeepCopyInto(*out)\<close>, which starts with \<open>*out = *in\<close>.\<close>

definition copyPtr :: "copier \<Rightarrow> copier" where
  "copyPtr c p h = (case p of
      PtrV (Some a) \<Rightarrow> (case cells h a of
          Some [v] \<Rightarrow> (case alloc [v] h of (b, h1) \<Rightarrow>
            (case c v h1 of (v', h2) \<Rightarrow> (PtrV (Some b), store b [v'] h2)))
        | _ \<Rightarrow> (p, h))
    | _ \<Rightarrow> (p, h))"

text \<open>\<open>*out = make([]T, len(*in))\<close> and a loop that copies the elements into it.\<close>

fun mapCopy :: "copier \<Rightarrow> mval list \<Rightarrow> heap \<Rightarrow> mval list \<times> heap" where
  "mapCopy c [] h = ([], h)"
| "mapCopy c (v # vs) h =
     (case c v h of (v', h1) \<Rightarrow> (case mapCopy c vs h1 of (vs', h2) \<Rightarrow> (v' # vs', h2)))"

definition copySlice :: "copier \<Rightarrow> copier" where
  "copySlice c s h = (case s of
      SliceV (Some a) \<Rightarrow> (case cells h a of
          Some vs \<Rightarrow> (case alloc vs h of (b, h1) \<Rightarrow>
            (case mapCopy c vs h1 of (vs', h2) \<Rightarrow> (SliceV (Some b), store b vs' h2)))
        | None \<Rightarrow> (s, h))
    | _ \<Rightarrow> (s, h))"

text \<open>
  \<open>*out = *in\<close> and then a step for each field that holds pointers: the field of \<open>in\<close> is copied and
  assigned to that of \<open>out\<close>.
\<close>

definition fieldV :: "string \<Rightarrow> (string \<times> mval) list \<Rightarrow> mval" where
  "fieldV f fvs = (case map_of fvs f of None \<Rightarrow> PtrV None | Some v \<Rightarrow> v)"

definition setField :: "string \<Rightarrow> mval \<Rightarrow> (string \<times> mval) list \<Rightarrow> (string \<times> mval) list" where
  "setField f x fvs = map (\<lambda>(g, v). (g, if g = f then x else v)) fvs"

fun copyFields ::
  "(string \<times> copier) list \<Rightarrow> (string \<times> mval) list \<Rightarrow> (string \<times> mval) list \<Rightarrow> heap \<Rightarrow> (string \<times> mval) list \<times> heap"
where
  "copyFields [] inp out h = (out, h)"
| "copyFields ((f, c) # cs) inp out h =
     (case c (fieldV f inp) h of (x, h1) \<Rightarrow> copyFields cs inp (setField f x out) h1)"

definition copyStruct :: "(string \<times> copier) list \<Rightarrow> copier" where
  "copyStruct steps v h = (case v of
      StructV fvs \<Rightarrow> (case copyFields steps fvs fvs h of (out, h') \<Rightarrow> (StructV out, h'))
    | _ \<Rightarrow> (v, h))"

section \<open>The forms of code keep the contract\<close>

lemma fresh_store:
  assumes "alloc vs h = (b, h1)" and "wfHeap h" and "extends h1 h2" and "wfHeap h2"
  shows "wfHeap (store b ws h2)" and "extends h (store b ws h2)" and "nextAddr h \<le> b"
    and "b < nextAddr (store b ws h2)"
  using alloc_facts [OF assms(1,2)] assms(3,4) store_facts [OF assms(4), of b]
  by (auto simp: extends_def)

lemma copyPtr_deep:
  assumes "deepCopier c ty"
  shows "deepCopier (copyPtr c) (TyPtr ty)"
proof (rule deepCopierI)
  fix h p t p' h'
  assume wf: "wfHeap h" and t: "content h (TyPtr ty) p = Some t" and p': "copyPtr c p h = (p', h')"
  show "copies (TyPtr ty) t h p' h'"
  proof (cases "p = PtrV None")
    case False
    then obtain a v u where a: "p = PtrV (Some a)" "cells h a = Some [v]" "content h ty v = Some u" "t = TrPtr u"
      using t by (cases p) (auto split: option.splits list.splits elim: content.elims)
    obtain b h1 where b: "alloc [v] h = (b, h1)" by fastforce
    obtain v' h2 where v': "c v h1 = (v', h2)" by fastforce
    have u: "content h1 ty v = Some u" using extends_content(1) [OF wf a(3)] alloc_facts [OF b wf] by blast
    have cp: "copies ty u h1 v' h2" using deepCopierD [OF assms _ u v'] alloc_facts [OF b wf] by blast
    have ext: "wfHeap h2" "extends h1 h2" using cp by (simp_all add: copies_def)
    note st = fresh_store [OF b wf ext(2,1)]
    have "b \<notin> reach h2 ty v'" using cp alloc_facts [OF b wf] by (auto simp: copies_def)
    from store_content [OF this, of "[v']"]
    have "content (store b [v'] h2) (TyPtr ty) (PtrV (Some b)) = Some t"
        "reach (store b [v'] h2) (TyPtr ty) (PtrV (Some b)) = insert b (reach h2 ty v')"
      using cp a(4) by (simp_all add: copies_def store_facts(2) [OF ext(1)] store_def)
    moreover have "reach h2 ty v' \<subseteq> {nextAddr h..<nextAddr (store b [v'] h2)}"
      using cp st(3) alloc_facts [OF b wf] by (fastforce simp: copies_def store_def)
    moreover have "p' = PtrV (Some b)" "h' = store b [v'] h2"
      using p' a(1,2) b v' by (simp_all add: copyPtr_def)
    ultimately show ?thesis using st by (auto simp: copies_def simp del: content.simps reach.simps)
  qed (use p' t wf in \<open>auto simp: copyPtr_def copies_def\<close>)
qed

definition copiesAll :: "mtype \<Rightarrow> mtree list \<Rightarrow> heap \<Rightarrow> mval list \<Rightarrow> heap \<Rightarrow> bool" where
  "copiesAll ty ts h vs h' \<longleftrightarrow> wfHeap h' \<and> extends h h' \<and> those (map (content h' ty) vs) = Some ts \<and>
     (\<forall>v\<in>set vs. reach h' ty v \<subseteq> {nextAddr h..<nextAddr h'})"

lemma contents_later:
  assumes "wfHeap h" and "those (map (content h ty) vs) = Some ts" and "extends h h'"
  shows "those (map (content h' ty) vs) = Some ts"
proof -
  have "content h' ty v = content h ty v" if "v \<in> set vs" for v
    using those_map_Some [OF assms(2) that] extends_content(1) [OF assms(1) _ assms(3)] by auto
  then have "map (content h' ty) vs = map (content h ty) vs" by simp
  then show ?thesis using assms(2) by (simp only:)
qed

lemma mapCopy_deep:
  "deepCopier c ty \<Longrightarrow> wfHeap h \<Longrightarrow> those (map (content h ty) vs) = Some ts \<Longrightarrow> mapCopy c vs h = (vs', h') \<Longrightarrow>
   copiesAll ty ts h vs' h'"
proof (induction vs arbitrary: h ts vs')
  case Nil
  then show ?case by (simp add: copiesAll_def)
next
  case (Cons v vs)
  obtain u us where u: "content h ty v = Some u" "those (map (content h ty) vs) = Some us" "ts = u # us"
    using Cons.prems(3) by (auto split: option.splits)
  obtain x h1 where x: "c v h = (x, h1)" by fastforce
  obtain xs where xs: "mapCopy c vs h1 = (xs, h')" "vs' = x # xs"
    using Cons.prems(4) x by (auto split: prod.splits)
  have cp: "copies ty u h x h1" by (rule deepCopierD [OF Cons.prems(1,2) u(1) x])
  then have h1: "wfHeap h1" "extends h h1" by (simp_all add: copies_def)
  have IH: "copiesAll ty us h1 xs h'"
    by (rule Cons.IH [OF Cons.prems(1) h1(1) contents_later [OF Cons.prems(2) u(2) h1(2)] xs(1)])
  then have h': "wfHeap h'" "extends h1 h'" by (simp_all add: copiesAll_def)
  have "copies ty u h x h'" by (rule copies_later [OF cp h'(2,1)])
  moreover have "\<forall>v\<in>set xs. reach h' ty v \<subseteq> {nextAddr h..<nextAddr h'}"
    using IH h1(2) by (fastforce simp: copiesAll_def extends_def)
  moreover have "those (map (content h' ty) xs) = Some us" using IH by (simp add: copiesAll_def)
  ultimately show ?case by (simp add: copiesAll_def copies_def u(3) xs(2))
qed

lemma copySlice_deep:
  assumes "deepCopier c ty"
  shows "deepCopier (copySlice c) (TySlice ty)"
proof (rule deepCopierI)
  fix h s t s' h'
  assume wf: "wfHeap h" and t: "content h (TySlice ty) s = Some t" and s': "copySlice c s h = (s', h')"
  show "copies (TySlice ty) t h s' h'"
  proof (cases "s = SliceV None")
    case False
    then obtain a vs us where a: "s = SliceV (Some a)" "cells h a = Some vs"
        "those (map (content h ty) vs) = Some us" "t = TrSlice us"
      using t by (cases s) (auto split: option.splits elim: content.elims)
    obtain b h1 where b: "alloc vs h = (b, h1)" by fastforce
    obtain ws h2 where ws: "mapCopy c vs h1 = (ws, h2)" by fastforce
    note h1 = alloc_facts [OF b wf]
    have "copiesAll ty us h1 ws h2"
      by (rule mapCopy_deep [OF assms _ contents_later [OF wf a(3)] ws]) (use h1 in blast)+
    then have cp: "wfHeap h2" "extends h1 h2" "those (map (content h2 ty) ws) = Some us"
        "\<And>v. v \<in> set ws \<Longrightarrow> reach h2 ty v \<subseteq> {nextAddr h1..<nextAddr h2}"
      by (auto simp: copiesAll_def)
    note st = fresh_store [OF b wf cp(2,1)]
    have "b \<notin> reach h2 ty v" if "v \<in> set ws" for v using cp(4) [OF that] h1 by auto
    from store_content [OF this, of _ ws]
    have eq: "map (content (store b ws h2) ty) ws = map (content h2 ty) ws"
        "map (reach (store b ws h2) ty) ws = map (reach h2 ty) ws" by auto
    have cell: "cells (store b ws h2) b = Some ws" by (simp add: store_def)
    have "content (store b ws h2) (TySlice ty) (SliceV (Some b)) = Some t"
      by (simp only: content.simps cell option.case eq cp(3) a(4) option.map)
    moreover have "reach (store b ws h2) (TySlice ty) (SliceV (Some b)) = insert b (\<Union> (set (map (reach h2 ty) ws)))"
      by (simp only: reach.simps cell option.case eq)
    moreover have "\<Union> (set (map (reach h2 ty) ws)) \<subseteq> {nextAddr h..<nextAddr (store b ws h2)}"
      using cp(4) h1 by (fastforce simp: store_def)
    moreover have "s' = SliceV (Some b)" "h' = store b ws h2"
      using s' a(1,2) b ws by (simp_all add: copySlice_def)
    ultimately show ?thesis using st by (auto simp: copies_def simp del: set_map)
  qed (use s' t wf in \<open>auto simp: copySlice_def copies_def\<close>)
qed

text \<open>The fields of a struct one by one.\<close>

lemma contentFields_names: "contentFields h ftys fvs = Some ts \<Longrightarrow> map fst fvs = map fst ftys \<and> map fst ts = map fst ftys"
proof (induction ftys arbitrary: fvs ts)
  case Nil
  then show ?case by (cases fvs) auto
next
  case (Cons fty ftys)
  then show ?case by (cases fty; cases fvs) (fastforce split: if_splits option.splits)+
qed

lemma contentFields_iff:
  assumes "distinct (map fst ftys)" and "map fst fvs = map fst ftys" and "map fst ts = map fst ftys"
  shows "contentFields h ftys fvs = Some ts \<longleftrightarrow>
    (\<forall>(f, ty) \<in> set ftys. content h ty (the (map_of fvs f)) = Some (the (map_of ts f)))"
  using assms
proof (induction ftys arbitrary: fvs ts)
  case (Cons fty ftys)
  obtain f ty where fty: "fty = (f, ty)" by fastforce
  obtain v fvs' where fvs: "fvs = (f, v) # fvs'" "map fst fvs' = map fst ftys"
    using Cons.prems(2) fty by (cases fvs) auto
  obtain t ts' where ts: "ts = (f, t) # ts'" "map fst ts' = map fst ftys"
    using Cons.prems(3) fty by (cases ts) auto
  have "f \<notin> fst ` set ftys" using Cons.prems(1) fty by simp
  then have "(\<forall>(g, u) \<in> set ftys. content h u (the (map_of fvs g)) = Some (the (map_of ts g))) \<longleftrightarrow>
      (\<forall>(g, u) \<in> set ftys. content h u (the (map_of fvs' g)) = Some (the (map_of ts' g)))"
    unfolding fvs(1) ts(1) by (intro ball_cong refl) (auto simp: image_iff)
  then show ?case
    using Cons.IH [OF _ fvs(2) ts(2)] Cons.prems(1) unfolding fty fvs(1) ts(1)
    by (auto split: option.splits)
qed simp

lemma reachFields_sub:
  assumes "distinct (map fst ftys)" and "map fst fvs = map fst ftys"
    and "\<And>f ty. (f, ty) \<in> set ftys \<Longrightarrow> reach h ty (the (map_of fvs f)) \<subseteq> A"
  shows "reachFields h ftys fvs \<subseteq> A"
  using assms
proof (induction ftys arbitrary: fvs)
  case (Cons fty ftys)
  obtain f ty where fty: "fty = (f, ty)" by fastforce
  obtain v fvs' where fvs: "fvs = (f, v) # fvs'" "map fst fvs' = map fst ftys"
    using Cons.prems(2) fty by (cases fvs) auto
  have f: "f \<notin> fst ` set ftys" using Cons.prems(1) fty by simp
  have "reach h u (the (map_of fvs' g)) \<subseteq> A" if "(g, u) \<in> set ftys" for g u
  proof -
    have "g \<noteq> f" using that f by force
    then show ?thesis using Cons.prems(3) [of g u] that fvs(1) by auto
  qed
  then have "reachFields h ftys fvs' \<subseteq> A" using Cons.IH [OF _ fvs(2)] Cons.prems(1) by auto
  moreover have "reach h ty v \<subseteq> A" using Cons.prems(3) [of f ty] fty fvs(1) by auto
  ultimately show ?case unfolding fty fvs(1) by auto
qed simp

lemma setField_names [simp]: "map fst (setField f x fvs) = map fst fvs"
  by (induction fvs) (auto simp: setField_def)

lemma map_of_setField:
  "map_of (setField f x fvs) g = (if g = f \<and> g \<in> fst ` set fvs then Some x else map_of fvs g)"
  by (induction fvs) (force simp: setField_def)+

lemma map_of_in_names: "f \<in> fst ` set fvs \<Longrightarrow> map_of fvs f = Some (the (map_of fvs f))"
  by (metis domIff dom_map_of_conv_image_fst option.exhaust_sel)

lemma copyFields_deep:
  assumes "distinct (map fst ftys)"
  shows "distinct (map fst steps) \<Longrightarrow> fst ` set steps \<subseteq> fst ` set ftys \<Longrightarrow>
    (\<And>f c ty. (f, c) \<in> set steps \<Longrightarrow> (f, ty) \<in> set ftys \<Longrightarrow> deepCopier c ty) \<Longrightarrow>
    wfHeap h \<Longrightarrow> contentFields h ftys fvs = Some ts \<Longrightarrow> map fst out = map fst ftys \<Longrightarrow>
    copyFields steps fvs out h = (out', h') \<Longrightarrow>
    wfHeap h' \<and> extends h h' \<and> map fst out' = map fst ftys \<and>
    (\<forall>f. f \<notin> fst ` set steps \<longrightarrow> map_of out' f = map_of out f) \<and>
    (\<forall>(f, ty) \<in> set ftys. f \<in> fst ` set steps \<longrightarrow> copies ty (the (map_of ts f)) h (the (map_of out' f)) h')"
proof (induction steps arbitrary: h out)
  case (Cons step steps)
  obtain f c where step: "step = (f, c)" by fastforce
  obtain x h1 where x: "c (fieldV f fvs) h = (x, h1)" by fastforce
  note names = contentFields_names [OF Cons.prems(5)]
  obtain ty where ty: "(f, ty) \<in> set ftys" using Cons.prems(2) step by auto
  have f: "f \<in> fst ` set fvs" using ty names by (metis fst_conv image_eqI set_map)
  have "content h ty (fieldV f fvs) = Some (the (map_of ts f))"
    using contentFields_iff [OF assms, of fvs ts h] names Cons.prems(5) ty map_of_in_names [OF f]
    by (auto simp: fieldV_def split: option.splits)
  then have cp: "copies ty (the (map_of ts f)) h x h1"
    using deepCopierD [of c ty h "fieldV f fvs"] Cons.prems(3) [of f c ty] Cons.prems(4) step ty x by auto
  then have h1: "wfHeap h1" "extends h h1" by (simp_all add: copies_def)
  have ts1: "contentFields h1 ftys fvs = Some ts"
    using extends_content(1) [OF Cons.prems(4) _ h1(2)] Cons.prems(5) names
      contentFields_iff [OF assms, of fvs ts] by fastforce
  have run: "copyFields steps fvs (setField f x out) h1 = (out', h')"
    using Cons.prems(7) step x by simp
  have IH: "wfHeap h' \<and> extends h1 h' \<and> map fst out' = map fst ftys \<and>
      (\<forall>g. g \<notin> fst ` set steps \<longrightarrow> map_of out' g = map_of (setField f x out) g) \<and>
      (\<forall>(g, u) \<in> set ftys. g \<in> fst ` set steps \<longrightarrow> copies u (the (map_of ts g)) h1 (the (map_of out' g)) h')"
    using Cons.prems(1,2,3,6) step by (intro Cons.IH [OF _ _ _ h1(1) ts1 _ run]) auto
  have fin: "f \<notin> fst ` set steps" using Cons.prems(1) step by auto
  have fout: "f \<in> fst ` set out" using f names Cons.prems(6) by (metis list.set_map)
  have "copies u (the (map_of ts g)) h (the (map_of out' g)) h'" if "(g, u) \<in> set ftys" "g \<in> fst ` set (step # steps)" for g u
  proof (cases "g = f")
    case True
    then have "u = ty" using that(1) ty assms by (metis map_of_eq_Some_iff option.inject)
    then show ?thesis
      using True IH fin fout copies_later [OF cp, of h'] by (simp add: map_of_setField)
  next
    case False
    then have "copies u (the (map_of ts g)) h1 (the (map_of out' g)) h'" using IH that step by auto
    then show ?thesis using h1(2) extends_trans [OF h1(2)] by (fastforce simp: copies_def extends_def)
  qed
  then show ?case
    using IH step extends_trans [OF h1(2)] by (auto simp: map_of_setField)
qed auto

text \<open>
  A struct is copied deeply when every field that is not copied by a step has a type without
  pointers.
\<close>

definition covers :: "(string \<times> copier) list \<Rightarrow> (string \<times> mtype) list \<Rightarrow> bool" where
  "covers steps ftys \<longleftrightarrow> distinct (map fst ftys) \<and> distinct (map fst steps) \<and>
     fst ` set steps \<subseteq> fst ` set ftys \<and>
     (\<forall>(f, ty) \<in> set ftys. case map_of steps f of None \<Rightarrow> flat ty | Some c \<Rightarrow> deepCopier c ty)"

lemma copyStruct_deep:
  assumes "covers steps ftys"
  shows "deepCopier (copyStruct steps) (TyStruct ftys)"
proof (rule deepCopierI)
  fix h v t v' h'
  assume wf: "wfHeap h" and t: "content h (TyStruct ftys) v = Some t" and v': "copyStruct steps v h = (v', h')"
  obtain fvs ts where fvs: "v = StructV fvs" "contentFields h ftys fvs = Some ts" "t = TrStruct ts"
    using t by (cases v) auto
  obtain out where out: "copyFields steps fvs fvs h = (out, h')" "v' = StructV out"
    using v' fvs(1) by (auto simp: copyStruct_def split: prod.splits)
  note names = contentFields_names [OF fvs(2)]
  have dist: "distinct (map fst ftys)" using assms by (simp add: covers_def)
  have deep: "deepCopier c ty" if "(f, c) \<in> set steps" "(f, ty) \<in> set ftys" for f c ty
    using assms that map_of_is_SomeI [of steps f c] by (fastforce simp: covers_def)
  have run: "wfHeap h' \<and> extends h h' \<and> map fst out = map fst ftys \<and>
      (\<forall>f. f \<notin> fst ` set steps \<longrightarrow> map_of out f = map_of fvs f) \<and>
      (\<forall>(f, ty) \<in> set ftys. f \<in> fst ` set steps \<longrightarrow> copies ty (the (map_of ts f)) h (the (map_of out f)) h')"
    by (rule copyFields_deep [OF dist _ _ deep wf fvs(2) _ out(1)]) (use assms names in \<open>auto simp: covers_def\<close>)
  have field: "content h' ty (the (map_of out f)) = Some (the (map_of ts f)) \<and>
      reach h' ty (the (map_of out f)) \<subseteq> {nextAddr h..<nextAddr h'}" if "(f, ty) \<in> set ftys" for f ty
  proof (cases "f \<in> fst ` set steps")
    case True
    then show ?thesis using run that by (auto simp: copies_def)
  next
    case False
    then have "flat ty" using assms that by (auto simp: covers_def map_of_eq_None_iff split: option.splits)
    have "\<forall>(f, ty) \<in> set ftys. content h ty (the (map_of fvs f)) = Some (the (map_of ts f))"
      using contentFields_iff [OF dist, of fvs ts h] names fvs(2) by blast
    then have c: "content h ty (the (map_of fvs f)) = Some (the (map_of ts f))" using that by blast
    have "extends h h'" and eq: "map_of out f = map_of fvs f" using run False by blast+
    then have "content h' ty (the (map_of out f)) = Some (the (map_of ts f))"
      using extends_content(1) [OF wf c] by simp
    then show ?thesis using flat_content(1) [OF \<open>flat ty\<close>] by simp
  qed
  have "contentFields h' ftys out = Some ts"
    using contentFields_iff [OF dist, of out ts h'] run names field by auto
  moreover have "reachFields h' ftys out \<subseteq> {nextAddr h..<nextAddr h'}"
    using reachFields_sub [OF dist, of out h'] run field by blast
  ultimately show "copies (TyStruct ftys) t h v' h'" using run fvs(3) out(2) by (simp add: copies_def)
qed

end
