(* ===== verification/DeepCopy.thy ===== *)
theory DeepCopy
  imports GoHeap
begin

text \<open>
  The deep copies that controller-gen emits for the custom resources
  (\<open>api/v1alpha1/zz_generated.deepcopy.go\<close>), on the memory of \<open>GoHeap\<close>: for every type \<open>T\<close> its layout
  (the fields of \<open>cdk8sappproxy_types.go\<close> and \<open>cdk8sappproxygenerator_types.go\<close>), \<open>T_DeepCopyInto\<close>,
  which returns what \<open>*out\<close> becomes, \<open>T_DeepCopy\<close> on pointers, and \<open>T_DeepCopyObject\<close> of the types that
  are objects.

  The types of the Kubernetes libraries have layouts and copy functions that are parameters
  (\<open>copy_env\<close>); \<open>copyLaws\<close> says that those copies are deep. \<open>TypeMeta\<close> is two strings and
  \<open>metav1.Duration\<close> a number, as the generated code relies on when it copies them by assignment.
\<close>

record copy_env =
  metaTy :: mtype
  listMetaTy :: mtype
  selectorTy :: mtype
  conditionTy :: mtype
  timeTy :: mtype
  copyMeta :: copier
  copyListMeta :: copier
  copySelector :: copier
  copyCondition :: copier
  copyTime :: copier

definition copyLaws :: "copy_env \<Rightarrow> bool" where
  "copyLaws env \<longleftrightarrow> deepCopier (copyMeta env) (metaTy env) \<and> deepCopier (copyListMeta env) (listMetaTy env) \<and>
     deepCopier (copySelector env) (selectorTy env) \<and> deepCopier (copyCondition env) (conditionTy env) \<and>
     deepCopier (copyTime env) (TyPtr (timeTy env))"

section \<open>Layouts\<close>

definition typeMetaTy :: mtype where
  "typeMetaTy = TyStruct [(''Kind'', TyAtom), (''APIVersion'', TyAtom)]"

definition gitRepositoryTy :: mtype where
  "gitRepositoryTy = TyStruct
     [(''URL'', TyAtom), (''Reference'', TyAtom), (''Path'', TyAtom), (''SecretRef'', TyAtom),
      (''SecretKey'', TyAtom), (''KnownHostsKey'', TyAtom)]"

definition proxySpecTy :: "copy_env \<Rightarrow> mtype" where
  "proxySpecTy env = TyStruct
     [(''GitRepository'', TyPtr gitRepositoryTy), (''ClusterSelector'', selectorTy env)]"

definition proxyStatusTy :: "copy_env \<Rightarrow> mtype" where
  "proxyStatusTy env = TyStruct [(''Conditions'', TySlice (conditionTy env))]"

definition proxyTy :: "copy_env \<Rightarrow> mtype" where
  "proxyTy env = TyStruct
     [(''TypeMeta'', typeMetaTy), (''ObjectMeta'', metaTy env), (''Spec'', proxySpecTy env),
      (''Status'', proxyStatusTy env)]"

definition proxyListTy :: "copy_env \<Rightarrow> mtype" where
  "proxyListTy env = TyStruct
     [(''TypeMeta'', typeMetaTy), (''ListMeta'', listMetaTy env), (''Items'', TySlice (proxyTy env))]"

definition prFilterTy :: mtype where
  "prFilterTy = TyStruct [(''BranchMatch'', TyAtom)]"

definition templateTy :: "copy_env \<Rightarrow> mtype" where
  "templateTy env = TyStruct [(''Metadata'', metaTy env), (''Spec'', proxySpecTy env)]"

definition generatorSpecTy :: "copy_env \<Rightarrow> mtype" where
  "generatorSpecTy env = TyStruct
     [(''Source'', gitRepositoryTy), (''Filters'', TySlice prFilterTy), (''Template'', templateTy env),
      (''Path'', TyAtom), (''PollInterval'', TyPtr TyAtom)]"

definition generatorStatusTy :: "copy_env \<Rightarrow> mtype" where
  "generatorStatusTy env = TyStruct
     [(''Conditions'', TySlice (conditionTy env)), (''LastPolledTime'', TyPtr (timeTy env))]"

definition generatorTy :: "copy_env \<Rightarrow> mtype" where
  "generatorTy env = TyStruct
     [(''TypeMeta'', typeMetaTy), (''ObjectMeta'', metaTy env), (''Spec'', generatorSpecTy env),
      (''Status'', generatorStatusTy env)]"

definition generatorListTy :: "copy_env \<Rightarrow> mtype" where
  "generatorListTy env = TyStruct
     [(''TypeMeta'', typeMetaTy), (''ListMeta'', listMetaTy env), (''Items'', TySlice (generatorTy env))]"

lemmas layout_defs =
  typeMetaTy_def gitRepositoryTy_def proxySpecTy_def proxyStatusTy_def proxyTy_def proxyListTy_def
  prFilterTy_def templateTy_def generatorSpecTy_def generatorStatusTy_def generatorTy_def generatorListTy_def

section \<open>The copy functions\<close>

text \<open>\<open>if in.F != nil\<close>: a nil pointer is left as the assignment \<open>*out = *in\<close> made it.\<close>

definition ifNonNil :: "copier \<Rightarrow> copier" where
  "ifNonNil c v h = (if v = PtrV None then (v, h) else c v h)"

definition GitRepositorySpec_DeepCopyInto :: "copier" where
  "GitRepositorySpec_DeepCopyInto = assign"

definition Cdk8sAppProxySpec_DeepCopyInto :: "copy_env \<Rightarrow> copier" where
  "Cdk8sAppProxySpec_DeepCopyInto env = copyStruct
     [(''GitRepository'', copyPtr assign), (''ClusterSelector'', copySelector env)]"

definition Cdk8sAppProxyStatus_DeepCopyInto :: "copy_env \<Rightarrow> copier" where
  "Cdk8sAppProxyStatus_DeepCopyInto env = copyStruct [(''Conditions'', copySlice (copyCondition env))]"

definition Cdk8sAppProxy_DeepCopyInto :: "copy_env \<Rightarrow> copier" where
  "Cdk8sAppProxy_DeepCopyInto env = copyStruct
     [(''TypeMeta'', assign), (''ObjectMeta'', copyMeta env), (''Spec'', Cdk8sAppProxySpec_DeepCopyInto env),
      (''Status'', Cdk8sAppProxyStatus_DeepCopyInto env)]"

definition Cdk8sAppProxyList_DeepCopyInto :: "copy_env \<Rightarrow> copier" where
  "Cdk8sAppProxyList_DeepCopyInto env = copyStruct
     [(''TypeMeta'', assign), (''ListMeta'', copyListMeta env),
      (''Items'', copySlice (Cdk8sAppProxy_DeepCopyInto env))]"

definition PRFilter_DeepCopyInto :: "copier" where
  "PRFilter_DeepCopyInto = assign"

definition Cdk8sAppProxyTemplate_DeepCopyInto :: "copy_env \<Rightarrow> copier" where
  "Cdk8sAppProxyTemplate_DeepCopyInto env = copyStruct
     [(''Metadata'', copyMeta env), (''Spec'', Cdk8sAppProxySpec_DeepCopyInto env)]"

definition Cdk8sAppProxyGeneratorSpec_DeepCopyInto :: "copy_env \<Rightarrow> copier" where
  "Cdk8sAppProxyGeneratorSpec_DeepCopyInto env = copyStruct
     [(''Source'', assign), (''Filters'', copySlice assign),
      (''Template'', Cdk8sAppProxyTemplate_DeepCopyInto env), (''PollInterval'', copyPtr assign)]"

definition Cdk8sAppProxyGeneratorStatus_DeepCopyInto :: "copy_env \<Rightarrow> copier" where
  "Cdk8sAppProxyGeneratorStatus_DeepCopyInto env = copyStruct
     [(''Conditions'', copySlice (copyCondition env)), (''LastPolledTime'', ifNonNil (copyTime env))]"

definition Cdk8sAppProxyGenerator_DeepCopyInto :: "copy_env \<Rightarrow> copier" where
  "Cdk8sAppProxyGenerator_DeepCopyInto env = copyStruct
     [(''TypeMeta'', assign), (''ObjectMeta'', copyMeta env), (''Spec'', Cdk8sAppProxyGeneratorSpec_DeepCopyInto env),
      (''Status'', Cdk8sAppProxyGeneratorStatus_DeepCopyInto env)]"

definition Cdk8sAppProxyGeneratorList_DeepCopyInto :: "copy_env \<Rightarrow> copier" where
  "Cdk8sAppProxyGeneratorList_DeepCopyInto env = copyStruct
     [(''TypeMeta'', assign), (''ListMeta'', copyListMeta env),
      (''Items'', copySlice (Cdk8sAppProxyGenerator_DeepCopyInto env))]"

text \<open>
  \<open>DeepCopy\<close>: nil for nil; otherwise \<open>out := new(T); in.DeepCopyInto(out)\<close>.
\<close>

definition GitRepositorySpec_DeepCopy :: "copier" where
  "GitRepositorySpec_DeepCopy p h = (if p = PtrV None then (PtrV None, h) else copyPtr GitRepositorySpec_DeepCopyInto p h)"

definition Cdk8sAppProxySpec_DeepCopy :: "copy_env \<Rightarrow> copier" where
  "Cdk8sAppProxySpec_DeepCopy env p h = (if p = PtrV None then (PtrV None, h) else copyPtr (Cdk8sAppProxySpec_DeepCopyInto env) p h)"

definition Cdk8sAppProxyStatus_DeepCopy :: "copy_env \<Rightarrow> copier" where
  "Cdk8sAppProxyStatus_DeepCopy env p h = (if p = PtrV None then (PtrV None, h) else copyPtr (Cdk8sAppProxyStatus_DeepCopyInto env) p h)"

definition Cdk8sAppProxy_DeepCopy :: "copy_env \<Rightarrow> copier" where
  "Cdk8sAppProxy_DeepCopy env p h = (if p = PtrV None then (PtrV None, h) else copyPtr (Cdk8sAppProxy_DeepCopyInto env) p h)"

definition Cdk8sAppProxyList_DeepCopy :: "copy_env \<Rightarrow> copier" where
  "Cdk8sAppProxyList_DeepCopy env p h = (if p = PtrV None then (PtrV None, h) else copyPtr (Cdk8sAppProxyList_DeepCopyInto env) p h)"

definition PRFilter_DeepCopy :: "copier" where
  "PRFilter_DeepCopy p h = (if p = PtrV None then (PtrV None, h) else copyPtr PRFilter_DeepCopyInto p h)"

definition Cdk8sAppProxyTemplate_DeepCopy :: "copy_env \<Rightarrow> copier" where
  "Cdk8sAppProxyTemplate_DeepCopy env p h = (if p = PtrV None then (PtrV None, h) else copyPtr (Cdk8sAppProxyTemplate_DeepCopyInto env) p h)"

definition Cdk8sAppProxyGeneratorSpec_DeepCopy :: "copy_env \<Rightarrow> copier" where
  "Cdk8sAppProxyGeneratorSpec_DeepCopy env p h = (if p = PtrV None then (PtrV None, h) else copyPtr (Cdk8sAppProxyGeneratorSpec_DeepCopyInto env) p h)"

definition Cdk8sAppProxyGeneratorStatus_DeepCopy :: "copy_env \<Rightarrow> copier" where
  "Cdk8sAppProxyGeneratorStatus_DeepCopy env p h = (if p = PtrV None then (PtrV None, h) else copyPtr (Cdk8sAppProxyGeneratorStatus_DeepCopyInto env) p h)"

definition Cdk8sAppProxyGenerator_DeepCopy :: "copy_env \<Rightarrow> copier" where
  "Cdk8sAppProxyGenerator_DeepCopy env p h = (if p = PtrV None then (PtrV None, h) else copyPtr (Cdk8sAppProxyGenerator_DeepCopyInto env) p h)"

definition Cdk8sAppProxyGeneratorList_DeepCopy :: "copy_env \<Rightarrow> copier" where
  "Cdk8sAppProxyGeneratorList_DeepCopy env p h = (if p = PtrV None then (PtrV None, h) else copyPtr (Cdk8sAppProxyGeneratorList_DeepCopyInto env) p h)"

text \<open>\<open>DeepCopyObject\<close>: an interface holding the copy, or nil.\<close>

definition Cdk8sAppProxy_DeepCopyObject :: "copy_env \<Rightarrow> copier" where
  "Cdk8sAppProxy_DeepCopyObject env p h =
     (case Cdk8sAppProxy_DeepCopy env p h of (c, h1) \<Rightarrow> if c \<noteq> PtrV None then (c, h1) else (PtrV None, h1))"

definition Cdk8sAppProxyList_DeepCopyObject :: "copy_env \<Rightarrow> copier" where
  "Cdk8sAppProxyList_DeepCopyObject env p h =
     (case Cdk8sAppProxyList_DeepCopy env p h of (c, h1) \<Rightarrow> if c \<noteq> PtrV None then (c, h1) else (PtrV None, h1))"

definition Cdk8sAppProxyGenerator_DeepCopyObject :: "copy_env \<Rightarrow> copier" where
  "Cdk8sAppProxyGenerator_DeepCopyObject env p h =
     (case Cdk8sAppProxyGenerator_DeepCopy env p h of (c, h1) \<Rightarrow> if c \<noteq> PtrV None then (c, h1) else (PtrV None, h1))"

definition Cdk8sAppProxyGeneratorList_DeepCopyObject :: "copy_env \<Rightarrow> copier" where
  "Cdk8sAppProxyGeneratorList_DeepCopyObject env p h =
     (case Cdk8sAppProxyGeneratorList_DeepCopy env p h of (c, h1) \<Rightarrow> if c \<noteq> PtrV None then (c, h1) else (PtrV None, h1))"

section \<open>All of them are deep\<close>

named_theorems deep \<open>the copy functions that are known to be deep\<close>

lemma copyLaws_D:
  assumes "copyLaws env"
  shows "deepCopier (copyMeta env) (metaTy env)" and "deepCopier (copyListMeta env) (listMetaTy env)"
    and "deepCopier (copySelector env) (selectorTy env)" and "deepCopier (copyCondition env) (conditionTy env)"
    and "deepCopier (copyTime env) (TyPtr (timeTy env))"
  using assms by (simp_all add: copyLaws_def)

lemma ifNonNil_deep:
  assumes "deepCopier c (TyPtr ty)"
  shows "deepCopier (ifNonNil c) (TyPtr ty)"
proof (rule deepCopierI)
  fix h v t v' h'
  assume wf: "wfHeap h" and t: "content h (TyPtr ty) v = Some t" and v': "ifNonNil c v h = (v', h')"
  show "copies (TyPtr ty) t h v' h'"
  proof (cases "v = PtrV None")
    case True
    then show ?thesis using wf t v' by (auto simp: ifNonNil_def copies_def)
  next
    case False
    then have "c v h = (v', h')" using v' by (simp add: ifNonNil_def)
    then show ?thesis by (rule deepCopierD [OF assms wf t])
  qed
qed

lemmas deep_intros = copyStruct_deep copySlice_deep copyPtr_deep ifNonNil_deep

lemma assign_flat [deep]:
  "deepCopier assign typeMetaTy" "deepCopier assign gitRepositoryTy" "deepCopier assign prFilterTy"
  "deepCopier assign TyAtom"
  by (rule assign_deep, simp add: layout_defs)+

lemma GitRepositorySpec_deep [deep]: "deepCopier GitRepositorySpec_DeepCopyInto gitRepositoryTy"
  unfolding GitRepositorySpec_DeepCopyInto_def by (rule deep)

lemma Cdk8sAppProxySpec_deep [deep]: "copyLaws env \<Longrightarrow> deepCopier (Cdk8sAppProxySpec_DeepCopyInto env) (proxySpecTy env)"
  unfolding Cdk8sAppProxySpec_DeepCopyInto_def proxySpecTy_def
  by (rule copyStruct_deep) (auto simp: covers_def copyLaws_D deep intro: deep_intros)

lemma Cdk8sAppProxyStatus_deep [deep]: "copyLaws env \<Longrightarrow> deepCopier (Cdk8sAppProxyStatus_DeepCopyInto env) (proxyStatusTy env)"
  unfolding Cdk8sAppProxyStatus_DeepCopyInto_def proxyStatusTy_def
  by (rule copyStruct_deep) (auto simp: covers_def copyLaws_D deep intro: deep_intros)

lemma Cdk8sAppProxy_deep [deep]: "copyLaws env \<Longrightarrow> deepCopier (Cdk8sAppProxy_DeepCopyInto env) (proxyTy env)"
  unfolding Cdk8sAppProxy_DeepCopyInto_def proxyTy_def
  by (rule copyStruct_deep) (auto simp: covers_def copyLaws_D deep intro: deep_intros)

lemma Cdk8sAppProxyList_deep [deep]: "copyLaws env \<Longrightarrow> deepCopier (Cdk8sAppProxyList_DeepCopyInto env) (proxyListTy env)"
  unfolding Cdk8sAppProxyList_DeepCopyInto_def proxyListTy_def
  by (rule copyStruct_deep) (auto simp: covers_def copyLaws_D deep intro: deep_intros)

lemma PRFilter_deep [deep]: "deepCopier PRFilter_DeepCopyInto prFilterTy"
  unfolding PRFilter_DeepCopyInto_def by (rule deep)

lemma Cdk8sAppProxyTemplate_deep [deep]: "copyLaws env \<Longrightarrow> deepCopier (Cdk8sAppProxyTemplate_DeepCopyInto env) (templateTy env)"
  unfolding Cdk8sAppProxyTemplate_DeepCopyInto_def templateTy_def
  by (rule copyStruct_deep) (auto simp: covers_def copyLaws_D deep intro: deep_intros)

lemma Cdk8sAppProxyGeneratorSpec_deep [deep]: "copyLaws env \<Longrightarrow> deepCopier (Cdk8sAppProxyGeneratorSpec_DeepCopyInto env) (generatorSpecTy env)"
  unfolding Cdk8sAppProxyGeneratorSpec_DeepCopyInto_def generatorSpecTy_def
  by (rule copyStruct_deep) (auto simp: covers_def copyLaws_D deep intro: deep_intros)

lemma Cdk8sAppProxyGeneratorStatus_deep [deep]: "copyLaws env \<Longrightarrow> deepCopier (Cdk8sAppProxyGeneratorStatus_DeepCopyInto env) (generatorStatusTy env)"
  unfolding Cdk8sAppProxyGeneratorStatus_DeepCopyInto_def generatorStatusTy_def
  by (rule copyStruct_deep) (auto simp: covers_def copyLaws_D deep intro: deep_intros)

lemma Cdk8sAppProxyGenerator_deep [deep]: "copyLaws env \<Longrightarrow> deepCopier (Cdk8sAppProxyGenerator_DeepCopyInto env) (generatorTy env)"
  unfolding Cdk8sAppProxyGenerator_DeepCopyInto_def generatorTy_def
  by (rule copyStruct_deep) (auto simp: covers_def copyLaws_D deep intro: deep_intros)

lemma Cdk8sAppProxyGeneratorList_deep [deep]: "copyLaws env \<Longrightarrow> deepCopier (Cdk8sAppProxyGeneratorList_DeepCopyInto env) (generatorListTy env)"
  unfolding Cdk8sAppProxyGeneratorList_DeepCopyInto_def generatorListTy_def
  by (rule copyStruct_deep) (auto simp: covers_def copyLaws_D deep intro: deep_intros)

lemma deepCopy_deep:
  assumes "deepCopier c ty"
  shows "deepCopier (\<lambda>p h. if p = PtrV None then (PtrV None, h) else copyPtr c p h) (TyPtr ty)"
proof -
  have "(\<lambda>p h. if p = PtrV None then (PtrV None, h) else copyPtr c p h) = ifNonNil (copyPtr c)"
    by (auto simp: ifNonNil_def fun_eq_iff)
  then show ?thesis using ifNonNil_deep [OF copyPtr_deep [OF assms]] by simp
qed

lemma deepCopyObject_eq:
  "Cdk8sAppProxy_DeepCopyObject env = Cdk8sAppProxy_DeepCopy env"
  "Cdk8sAppProxyList_DeepCopyObject env = Cdk8sAppProxyList_DeepCopy env"
  "Cdk8sAppProxyGenerator_DeepCopyObject env = Cdk8sAppProxyGenerator_DeepCopy env"
  "Cdk8sAppProxyGeneratorList_DeepCopyObject env = Cdk8sAppProxyGeneratorList_DeepCopy env"
  by (auto simp: fun_eq_iff Cdk8sAppProxy_DeepCopyObject_def Cdk8sAppProxyList_DeepCopyObject_def
      Cdk8sAppProxyGenerator_DeepCopyObject_def Cdk8sAppProxyGeneratorList_DeepCopyObject_def split: prod.split)

lemma GitRepositorySpec_DeepCopy_deep [deep]: "deepCopier GitRepositorySpec_DeepCopy (TyPtr gitRepositoryTy)"
  using deepCopy_deep [OF GitRepositorySpec_deep] by (simp add: GitRepositorySpec_DeepCopy_def [abs_def])

lemma Cdk8sAppProxySpec_DeepCopy_deep [deep]: "copyLaws env \<Longrightarrow> deepCopier (Cdk8sAppProxySpec_DeepCopy env) (TyPtr (proxySpecTy env))"
  using deepCopy_deep [OF Cdk8sAppProxySpec_deep] by (simp add: Cdk8sAppProxySpec_DeepCopy_def [abs_def])

lemma Cdk8sAppProxyStatus_DeepCopy_deep [deep]: "copyLaws env \<Longrightarrow> deepCopier (Cdk8sAppProxyStatus_DeepCopy env) (TyPtr (proxyStatusTy env))"
  using deepCopy_deep [OF Cdk8sAppProxyStatus_deep] by (simp add: Cdk8sAppProxyStatus_DeepCopy_def [abs_def])

lemma Cdk8sAppProxy_DeepCopy_deep [deep]: "copyLaws env \<Longrightarrow> deepCopier (Cdk8sAppProxy_DeepCopy env) (TyPtr (proxyTy env))"
  using deepCopy_deep [OF Cdk8sAppProxy_deep] by (simp add: Cdk8sAppProxy_DeepCopy_def [abs_def])

lemma Cdk8sAppProxyList_DeepCopy_deep [deep]: "copyLaws env \<Longrightarrow> deepCopier (Cdk8sAppProxyList_DeepCopy env) (TyPtr (proxyListTy env))"
  using deepCopy_deep [OF Cdk8sAppProxyList_deep] by (simp add: Cdk8sAppProxyList_DeepCopy_def [abs_def])

lemma PRFilter_DeepCopy_deep [deep]: "deepCopier PRFilter_DeepCopy (TyPtr prFilterTy)"
  using deepCopy_deep [OF PRFilter_deep] by (simp add: PRFilter_DeepCopy_def [abs_def])

lemma Cdk8sAppProxyTemplate_DeepCopy_deep [deep]: "copyLaws env \<Longrightarrow> deepCopier (Cdk8sAppProxyTemplate_DeepCopy env) (TyPtr (templateTy env))"
  using deepCopy_deep [OF Cdk8sAppProxyTemplate_deep] by (simp add: Cdk8sAppProxyTemplate_DeepCopy_def [abs_def])

lemma Cdk8sAppProxyGeneratorSpec_DeepCopy_deep [deep]: "copyLaws env \<Longrightarrow> deepCopier (Cdk8sAppProxyGeneratorSpec_DeepCopy env) (TyPtr (generatorSpecTy env))"
  using deepCopy_deep [OF Cdk8sAppProxyGeneratorSpec_deep] by (simp add: Cdk8sAppProxyGeneratorSpec_DeepCopy_def [abs_def])

lemma Cdk8sAppProxyGeneratorStatus_DeepCopy_deep [deep]: "copyLaws env \<Longrightarrow> deepCopier (Cdk8sAppProxyGeneratorStatus_DeepCopy env) (TyPtr (generatorStatusTy env))"
  using deepCopy_deep [OF Cdk8sAppProxyGeneratorStatus_deep] by (simp add: Cdk8sAppProxyGeneratorStatus_DeepCopy_def [abs_def])

lemma Cdk8sAppProxyGenerator_DeepCopy_deep [deep]: "copyLaws env \<Longrightarrow> deepCopier (Cdk8sAppProxyGenerator_DeepCopy env) (TyPtr (generatorTy env))"
  using deepCopy_deep [OF Cdk8sAppProxyGenerator_deep] by (simp add: Cdk8sAppProxyGenerator_DeepCopy_def [abs_def])

lemma Cdk8sAppProxyGeneratorList_DeepCopy_deep [deep]: "copyLaws env \<Longrightarrow> deepCopier (Cdk8sAppProxyGeneratorList_DeepCopy env) (TyPtr (generatorListTy env))"
  using deepCopy_deep [OF Cdk8sAppProxyGeneratorList_deep] by (simp add: Cdk8sAppProxyGeneratorList_DeepCopy_def [abs_def])

text \<open>What the contract means for the holders of the two objects: neither sees a change made through the other.\<close>

lemma copies_independent:
  assumes "wfHeap h" and "content h ty v = Some t" and "copies ty t h v' h'"
  shows "content h' ty v' = Some t" and "content h' ty v = Some t"
    and "reach h' ty v' \<inter> reach h' ty v = {}"
    and "a \<in> reach h' ty v' \<Longrightarrow> content (store a ws h') ty v = Some t"
    and "a \<in> reach h' ty v \<Longrightarrow> content (store a ws h') ty v' = Some t"
proof -
  have ext: "extends h h'" and c: "content h' ty v' = Some t" and r: "reach h' ty v' \<subseteq> {nextAddr h..<nextAddr h'}"
    using assms(3) by (auto simp: copies_def)
  note frame = extends_content [OF assms(1,2) ext]
  show dis: "reach h' ty v' \<inter> reach h' ty v = {}"
    using r frame(2) reach_below(1) [OF assms(1,2)] by fastforce
  show "content h' ty v' = Some t" "content h' ty v = Some t" using c frame(1) by auto
  show "content (store a ws h') ty v = Some t" if "a \<in> reach h' ty v'"
    using store_content [of a h' ty v ws] that dis frame(1) by auto
  show "content (store a ws h') ty v' = Some t" if "a \<in> reach h' ty v"
    using store_content [of a h' ty v' ws] that dis c by auto
qed

section \<open>Sample data\<close>

text \<open>
  Copy functions for layouts in which the library types are a string or, for the object meta data, a pointer to one,
  and a heap with a proxy at address 2, whose repository is at address 0 and conditions at address 1.
\<close>

definition sampleCopyEnv :: copy_env where
  "sampleCopyEnv = \<lparr>metaTy = TyPtr TyAtom, listMetaTy = TyAtom, selectorTy = TyAtom, conditionTy = TyAtom,
     timeTy = TyAtom, copyMeta = copyPtr assign, copyListMeta = assign, copySelector = assign,
     copyCondition = assign, copyTime = copyPtr assign\<rparr>"

definition sampleRepo :: mval where
  "sampleRepo = StructV
     [(''URL'', Atom ''https://github.com/o/r''), (''Reference'', Atom ''main''), (''Path'', Atom ''.''),
      (''SecretRef'', Atom ''s''), (''SecretKey'', Atom ''k''), (''KnownHostsKey'', Atom '''')]"

definition sampleProxyVal :: mval where
  "sampleProxyVal = StructV
     [(''TypeMeta'', StructV [(''Kind'', Atom ''Cdk8sAppProxy''), (''APIVersion'', Atom ''v1alpha1'')]),
      (''ObjectMeta'', PtrV None),
      (''Spec'', StructV [(''GitRepository'', PtrV (Some 0)), (''ClusterSelector'', Atom ''all'')]),
      (''Status'', StructV [(''Conditions'', SliceV (Some 1))])]"

definition sampleHeap :: heap where
  "sampleHeap = \<lparr>cells = [0 \<mapsto> [sampleRepo], 1 \<mapsto> [Atom ''Ready''], 2 \<mapsto> [sampleProxyVal]], nextAddr = 3\<rparr>"

lemma sampleCopyLaws: "copyLaws sampleCopyEnv"
  by (simp add: copyLaws_def sampleCopyEnv_def assign_deep copyPtr_deep)

lemma sampleHeap_wf: "wfHeap sampleHeap"
  by (auto simp: wfHeap_def sampleHeap_def)

lemmas sample_copy_simps =
  sampleCopyEnv_def sampleRepo_def sampleProxyVal_def sampleHeap_def layout_defs

section \<open>Properties\<close>

text \<open>
  C14. The copy of a proxy object is deep: it has the content of the original, shares no memory with it, and a
  write to any memory that one of the two objects reaches leaves the content of the other as it was.
\<close>

theorem proxy_deep_copy:
  assumes "copyLaws env" and "wfHeap h" and "content h (TyPtr (proxyTy env)) p = Some t"
    and "Cdk8sAppProxy_DeepCopyObject env p h = (q, h')"
  shows "content h' (TyPtr (proxyTy env)) q = Some t \<and> content h' (TyPtr (proxyTy env)) p = Some t \<and>
    reach h' (TyPtr (proxyTy env)) q \<inter> reach h' (TyPtr (proxyTy env)) p = {} \<and>
    (\<forall>a ws. a \<in> reach h' (TyPtr (proxyTy env)) q \<longrightarrow> content (store a ws h') (TyPtr (proxyTy env)) p = Some t) \<and>
    (\<forall>a ws. a \<in> reach h' (TyPtr (proxyTy env)) p \<longrightarrow> content (store a ws h') (TyPtr (proxyTy env)) q = Some t)"
proof -
  have "copies (TyPtr (proxyTy env)) t h q h'"
    using assms(4) deepCopierD [OF Cdk8sAppProxy_DeepCopy_deep [OF assms(1)] assms(2,3)]
    by (simp add: deepCopyObject_eq)
  from copies_independent [OF assms(2,3) this] show ?thesis by blast
qed

theorem proxy_deep_copy_witness:
  "case Cdk8sAppProxy_DeepCopyObject sampleCopyEnv (PtrV (Some 2)) sampleHeap of (q, h') \<Rightarrow>
     content h' (TyPtr (proxyTy sampleCopyEnv)) q = content sampleHeap (TyPtr (proxyTy sampleCopyEnv)) (PtrV (Some 2)) \<and>
     reach h' (TyPtr (proxyTy sampleCopyEnv)) q \<inter> reach h' (TyPtr (proxyTy sampleCopyEnv)) (PtrV (Some 2)) = {}"
proof -
  obtain t where t: "content sampleHeap (TyPtr (proxyTy sampleCopyEnv)) (PtrV (Some 2)) = Some t"
    by (simp add: sample_copy_simps)
  show ?thesis
    using proxy_deep_copy [OF sampleCopyLaws sampleHeap_wf t] t
    by (auto split: prod.split)
qed

text \<open>
  The copy of a list of generators is deep, too, through the items, their filters, templates, poll
  intervals, conditions and poll times; and the copy of nil is nil.
\<close>

theorem generator_list_deep_copy:
  assumes "copyLaws env" and "wfHeap h" and "content h (TyPtr (generatorListTy env)) p = Some t"
    and "Cdk8sAppProxyGeneratorList_DeepCopyObject env p h = (q, h')"
  shows "content h' (TyPtr (generatorListTy env)) q = Some t \<and>
    reach h' (TyPtr (generatorListTy env)) q \<inter> reach h' (TyPtr (generatorListTy env)) p = {} \<and>
    (\<forall>a ws. a \<in> reach h' (TyPtr (generatorListTy env)) q \<longrightarrow>
       content (store a ws h') (TyPtr (generatorListTy env)) p = Some t) \<and>
    (p = PtrV None \<longrightarrow> q = PtrV None)"
proof -
  have "copies (TyPtr (generatorListTy env)) t h q h'"
    using assms(4) deepCopierD [OF Cdk8sAppProxyGeneratorList_DeepCopy_deep [OF assms(1)] assms(2,3)]
    by (simp add: deepCopyObject_eq)
  from copies_independent [OF assms(2,3) this] show ?thesis
    using assms(4) by (auto simp: deepCopyObject_eq Cdk8sAppProxyGeneratorList_DeepCopy_def)
qed

definition sampleGeneratorVal :: mval where
  "sampleGeneratorVal = StructV
     [(''TypeMeta'', StructV [(''Kind'', Atom ''Cdk8sAppProxyGenerator''), (''APIVersion'', Atom ''v1alpha1'')]),
      (''ObjectMeta'', PtrV None),
      (''Spec'', StructV
         [(''Source'', sampleRepo), (''Filters'', SliceV (Some 0)),
          (''Template'', StructV [(''Metadata'', PtrV None),
             (''Spec'', StructV [(''GitRepository'', PtrV None), (''ClusterSelector'', Atom ''all'')])]),
          (''Path'', Atom ''.''), (''PollInterval'', PtrV (Some 1))]),
      (''Status'', StructV [(''Conditions'', SliceV None), (''LastPolledTime'', PtrV (Some 2))])]"

definition sampleGeneratorHeap :: heap where
  "sampleGeneratorHeap = \<lparr>cells =
     [0 \<mapsto> [StructV [(''BranchMatch'', Atom ''main'')]], 1 \<mapsto> [Atom ''60s''], 2 \<mapsto> [Atom ''now''],
      3 \<mapsto> [sampleGeneratorVal, sampleGeneratorVal],
      4 \<mapsto> [StructV [(''TypeMeta'', StructV [(''Kind'', Atom ''List''), (''APIVersion'', Atom ''v1alpha1'')]),
               (''ListMeta'', Atom ''1''), (''Items'', SliceV (Some 3))]]],
     nextAddr = 5\<rparr>"

theorem generator_list_deep_copy_witness:
  "case Cdk8sAppProxyGeneratorList_DeepCopyObject sampleCopyEnv (PtrV (Some 4)) sampleGeneratorHeap of (q, h') \<Rightarrow>
     content h' (TyPtr (generatorListTy sampleCopyEnv)) q =
       content sampleGeneratorHeap (TyPtr (generatorListTy sampleCopyEnv)) (PtrV (Some 4)) \<and>
     reach h' (TyPtr (generatorListTy sampleCopyEnv)) q \<inter>
       reach h' (TyPtr (generatorListTy sampleCopyEnv)) (PtrV (Some 4)) = {}"
proof -
  have wf: "wfHeap sampleGeneratorHeap" by (auto simp: wfHeap_def sampleGeneratorHeap_def)
  obtain t where t: "content sampleGeneratorHeap (TyPtr (generatorListTy sampleCopyEnv)) (PtrV (Some 4)) = Some t"
    by (simp add: sample_copy_simps sampleGeneratorHeap_def sampleGeneratorVal_def)
  show ?thesis
    using generator_list_deep_copy [OF sampleCopyLaws wf t] t by (auto split: prod.split)
qed

end
