(* ===== verification/Startup.thy ===== *)
theory Startup
  imports Generator
begin

text \<open>
  The start of the operator (\<open>main.go\<close>), its version (\<open>version/version.go\<close>) and the registration of its
  types (\<open>api/v1alpha1/groupversion_info.go\<close> with the \<open>init\<close> functions of the two type files): the flags
  and their defaults, the sequence of steps of \<open>main\<close>, each of which ends the process with status 1 when
  it fails, and what the manager is configured with.

  controller-runtime, the flag library and the loggers are the fields of \<open>startup_env\<close>. Durations are
  nanoseconds; the two limits of the REST client are whole numbers where they are set, and kept as \<open>int\<close>.
  The functions \<open>SetupWithManager\<close> (\<open>controllers/controller.go\<close>, \<open>generator_controller.go\<close>) and
  \<open>SetupWebhookWithManager\<close> (\<open>api/v1alpha1/cdk8sappproxy_webook.go\<close>) fill a builder of controller-runtime
  with the functions of the reconcilers and of the webhook and complete it. The builders are records of
  what they were given, here the definitions of \<open>Controller\<close>, \<open>Generator\<close> and \<open>Webhook\<close>; to complete one is
  a parameter.
\<close>

section \<open>Flags\<close>

record settings =
  enableLeaderElection :: bool
  leaderElectionLeaseDuration :: int
  leaderElectionRenewDeadline :: int
  leaderElectionRetryPeriod :: int
  watchNamespace :: string
  watchFilterValue :: string
  profilerAddress :: string
  cdk8sAppProxyConcurrency :: int
  syncPeriod :: int
  restConfigQPS :: int
  restConfigBurst :: int
  healthAddr :: string
  webhookPort :: int
  webhookCertDir :: string

definition seconds :: "int \<Rightarrow> int" where
  "seconds n = n * 1000000000"

text \<open>The flags in the order in which \<open>InitFlags\<close> defines them, between those of the libraries.\<close>

definition flagNames :: "string list" where
  "flagNames =
     [''leader-elect'', ''leader-elect-lease-duration'', ''leader-elect-renew-deadline'',
      ''leader-elect-retry-period'', ''namespace'', ''watch-filter'', ''profiler-address'',
      ''cdk8s-app-proxy-concurrency'', ''sync-period'', ''kube-api-qps'', ''kube-api-burst'',
      ''webhook-port'', ''webhook-cert-dir'', ''health-addr'']"

definition flagDefaults :: settings where
  "flagDefaults = \<lparr>
     enableLeaderElection = False,
     leaderElectionLeaseDuration = seconds 15,
     leaderElectionRenewDeadline = seconds 10,
     leaderElectionRetryPeriod = seconds 2,
     watchNamespace = '''',
     watchFilterValue = '''',
     profilerAddress = '''',
     cdk8sAppProxyConcurrency = 10,
     syncPeriod = 2 * seconds 60,
     restConfigQPS = 20,
     restConfigBurst = 30,
     healthAddr = '':9440'',
     webhookPort = 9443,
     webhookCertDir = ''/tmp/k8s-webhook-server/serving-certs/''\<rparr>"

text \<open>
  Defining a flag that is defined already panics, so the flag set is a list of distinct names or
  the definition has panicked.
\<close>

fun defineFlags :: "string list \<Rightarrow> string list \<Rightarrow> string list outcome" where
  "defineFlags [] fs = Returned fs"
| "defineFlags (n # ns) fs = (if n \<in> set fs then Panicked else defineFlags ns (fs @ [n]))"

definition InitFlags :: "string list \<Rightarrow> string list \<Rightarrow> string list \<Rightarrow> string list \<Rightarrow> (string list \<times> settings) outcome" where
  "InitFlags logFlags managerFlags gateFlags fs =
     (case defineFlags (logFlags @ flagNames @ managerFlags @ gateFlags) fs of
        Panicked \<Rightarrow> Panicked | Returned fs' \<Rightarrow> Returned (fs', flagDefaults))"

text \<open>
  The flag set of \<open>main\<close>: a Go flag is added unless a flag of its name is there already.
\<close>

definition addGoFlagSet :: "string list \<Rightarrow> string list \<Rightarrow> string list" where
  "addGoFlagSet goFlags fs = fs @ filter (\<lambda>n. n \<notin> set fs) goFlags"

definition mainFlags ::
  "string list \<Rightarrow> string list \<Rightarrow> string list \<Rightarrow> string list \<Rightarrow> (string list \<times> settings) outcome" where
  "mainFlags logFlags managerFlags gateFlags goFlags =
     (case InitFlags logFlags managerFlags gateFlags [] of
        Panicked \<Rightarrow> Panicked | Returned (fs, s) \<Rightarrow> Returned (addGoFlagSet goFlags fs, s))"

section \<open>Version\<close>

record Info =
  infoMajor :: string
  infoMinor :: string
  infoGitVersion :: string
  infoGitCommit :: string
  infoGitTreeState :: string
  infoBuildDate :: string
  infoGoVersion :: string
  infoCompiler :: string
  infoPlatform :: string

record version_vars =
  gitMajor :: string
  gitMinor :: string
  gitVersion :: string
  gitCommit :: string
  gitTreeState :: string
  buildDate :: string
  runtimeVersion :: string
  runtimeCompiler :: string
  runtimeGOOS :: string
  runtimeGOARCH :: string

definition Get :: "version_vars \<Rightarrow> Info" where
  "Get v = \<lparr>
     infoMajor = gitMajor v,
     infoMinor = gitMinor v,
     infoGitVersion = gitVersion v,
     infoGitCommit = gitCommit v,
     infoGitTreeState = gitTreeState v,
     infoBuildDate = buildDate v,
     infoGoVersion = runtimeVersion v,
     infoCompiler = runtimeCompiler v,
     infoPlatform = runtimeGOOS v @ ''/'' @ runtimeGOARCH v\<rparr>"

definition infoString :: "Info \<Rightarrow> string" where
  "infoString info = infoGitVersion info"

section \<open>The types of the API group\<close>

definition GroupVersion :: "string \<times> string" where
  "GroupVersion = (''addons.cluster.x-k8s.io'', ''v1alpha1'')"

text \<open>The two \<open>init\<close> functions; the files of a package are initialised in the order of their names.\<close>

definition initProxyTypes :: "string list \<Rightarrow> string list" where
  "initProxyTypes objectTypes = objectTypes @ [''Cdk8sAppProxy'', ''Cdk8sAppProxyList'']"

definition initGeneratorTypes :: "string list \<Rightarrow> string list" where
  "initGeneratorTypes objectTypes = objectTypes @ [''Cdk8sAppProxyGenerator'', ''Cdk8sAppProxyGeneratorList'']"

definition objectTypes :: "string list" where
  "objectTypes = initGeneratorTypes (initProxyTypes [])"

definition addKnownTypes ::
  "(string \<times> string \<Rightarrow> string list \<Rightarrow> 's \<Rightarrow> 's) \<Rightarrow> (string \<times> string \<Rightarrow> 's \<Rightarrow> 's) \<Rightarrow> 's \<Rightarrow> goerr option \<times> 's" where
  "addKnownTypes schemeAdd addToGroupVersion scheme =
     (None, addToGroupVersion GroupVersion (schemeAdd GroupVersion objectTypes scheme))"

text \<open>
  The \<open>init\<close> function of \<open>main.go\<close>: the client types and the types of the API group are added to the
  scheme; \<open>utilruntime.Must\<close> panics on an error.
\<close>

definition must :: "goerr option \<times> 's \<Rightarrow> ('s, unit outcome) io \<Rightarrow> unit outcome \<times> 's" where
  "must r k = (case r of (Some e, s) \<Rightarrow> (Panicked, s) | (None, s) \<Rightarrow> k s)"

definition initScheme ::
  "('s \<Rightarrow> goerr option \<times> 's) \<Rightarrow> (string \<times> string \<Rightarrow> string list \<Rightarrow> 's \<Rightarrow> 's) \<Rightarrow> (string \<times> string \<Rightarrow> 's \<Rightarrow> 's) \<Rightarrow>
     ('s, unit outcome) io" where
  "initScheme addClientTypes schemeAdd addToGroupVersion scheme =
     must (addClientTypes scheme) (\<lambda>s1.
       must (addKnownTypes schemeAdd addToGroupVersion s1) (\<lambda>s2. (Returned (), s2)))"

section \<open>The process\<close>

datatype ending = ExitStatus int | Ended

record 'r restConfig =
  restBase :: 'r
  QPS :: int
  Burst :: int
  UserAgent :: string

record ('t, 'x) managerOptions =
  LeaderElection :: bool
  LeaderElectionID :: string
  LeaseDuration :: int
  RenewDeadline :: int
  RetryPeriod :: int
  HealthProbeBindAddress :: string
  PprofBindAddress :: string
  Metrics :: 'x
  DefaultNamespaces :: "string list option"
  SyncPeriod :: int
  WebhookPort :: int
  WebhookCertDir :: string
  WebhookTLSOpts :: 't

text \<open>
  The builders of controllers and webhooks. A map function is given the object of an event as a cluster, nil
  when it is none; types are named as in the scheme.
\<close>

record 'w controllerBuilder =
  MaxConcurrentReconciles :: int
  ForType :: string
  OwnsTypes :: "string list"
  WatchesTypes :: "(string \<times> (Cluster option \<Rightarrow> ('w, (string \<times> string) list) io)) list"
  reconciler :: "string \<Rightarrow> string \<Rightarrow> ('w, (Result \<times> goerr option) outcome) io"

record webhookBuilder =
  webhookFor :: string
  defaulter :: "Cdk8sAppProxy \<Rightarrow> Cdk8sAppProxy outcome"
  createValidator :: "Cdk8sAppProxy \<Rightarrow> goerr option outcome"
  updateValidator :: "Cdk8sAppProxy \<Rightarrow> Cdk8sAppProxy \<Rightarrow> goerr option outcome"
  deleteValidator :: "Cdk8sAppProxy \<Rightarrow> goerr option outcome"

definition Reconciler_SetupWithManager ::
  "('w controllerBuilder \<Rightarrow> ('w, goerr option) io) \<Rightarrow> 'w controller_env \<Rightarrow> int \<Rightarrow> ('w, goerr option) io" where
  "Reconciler_SetupWithManager complete r options =
     complete \<lparr>
       MaxConcurrentReconciles = options,
       ForType = ''Cdk8sAppProxy'',
       OwnsTypes = [],
       WatchesTypes = [(''Cluster'', ClusterToCdk8sAppProxyMapper r)],
       reconciler = Reconcile r\<rparr>"

definition GeneratorReconciler_SetupWithManager ::
  "('w controllerBuilder \<Rightarrow> ('w, goerr option) io) \<Rightarrow> 'w generator_env \<Rightarrow> int \<Rightarrow> ('w, goerr option) io" where
  "GeneratorReconciler_SetupWithManager complete r options =
     complete \<lparr>
       MaxConcurrentReconciles = options,
       ForType = ''Cdk8sAppProxyGenerator'',
       OwnsTypes = [''Cdk8sAppProxy''],
       WatchesTypes = [],
       reconciler = (\<lambda>ns n w. case GenReconcile r ns n w of (res, w1) \<Rightarrow> (Returned res, w1))\<rparr>"

definition SetupWebhookWithManager :: "(webhookBuilder \<Rightarrow> ('w, goerr option) io) \<Rightarrow> ('w, goerr option) io" where
  "SetupWebhookWithManager complete =
     complete \<lparr>
       webhookFor = ''Cdk8sAppProxy'',
       defaulter = webhookDefault,
       createValidator = ValidateCreate,
       updateValidator = ValidateUpdate,
       deleteValidator = ValidateDelete\<rparr>"

text \<open>
  The outside of the process. \<open>proxyReconciler\<close> and \<open>generatorReconciler\<close> are the surroundings that the
  reconcilers work in, with the client and the recorder of the manager.
\<close>

record ('w, 'm, 'r, 't, 'x) startup_env =
  setVerbosity :: "('w, goerr option) io"
  parseFlags :: "settings \<Rightarrow> ('w, int + settings) io"
  getManagerOptions :: "('w, goerr + ('t \<times> 'x)) io"
  applyLogOptions :: "('w, goerr option) io"
  getConfigOrDie :: "('w, int + 'r) io"
  defaultUserAgent :: "string \<Rightarrow> string"
  newManager :: "'r restConfig \<Rightarrow> ('t, 'x) managerOptions \<Rightarrow> ('w, goerr + 'm) io"
  addClusterTypes :: "'m \<Rightarrow> ('w, goerr option) io"
  addControlPlaneTypes :: "'m \<Rightarrow> ('w, goerr option) io"
  proxyReconciler :: "'m \<Rightarrow> 'w controller_env"
  generatorReconciler :: "'m \<Rightarrow> 'w generator_env"
  completeController :: "'m \<Rightarrow> 'w controllerBuilder \<Rightarrow> ('w, goerr option) io"
  completeWebhook :: "'m \<Rightarrow> webhookBuilder \<Rightarrow> ('w, goerr option) io"
  addHealthzCheck :: "'m \<Rightarrow> string \<Rightarrow> ('w, goerr option) io"
  addReadyzCheck :: "'m \<Rightarrow> string \<Rightarrow> ('w, goerr option) io"
  managerStart :: "'m \<Rightarrow> ('w, goerr option) io"

text \<open>A step of \<open>main\<close>: on an error the process ends with status 1 (the message goes to the log).\<close>

definition orExit :: "('w, goerr option) io \<Rightarrow> ('w, ending) io \<Rightarrow> ('w, ending) io" where
  "orExit s k w = (case s w of (Some e, w1) \<Rightarrow> (ExitStatus 1, w1) | (None, w1) \<Rightarrow> k w1)"

definition orExitWith :: "('w, goerr + 'a) io \<Rightarrow> ('a \<Rightarrow> ('w, ending) io) \<Rightarrow> ('w, ending) io" where
  "orExitWith s k w = (case s w of (Inl e, w1) \<Rightarrow> (ExitStatus 1, w1) | (Inr a, w1) \<Rightarrow> k a w1)"

text \<open>A call that ends the process itself when it fails.\<close>

definition orDie :: "('w, int + 'a) io \<Rightarrow> ('a \<Rightarrow> ('w, ending) io) \<Rightarrow> ('w, ending) io" where
  "orDie s k w = (case s w of (Inl c, w1) \<Rightarrow> (ExitStatus c, w1) | (Inr a, w1) \<Rightarrow> k a w1)"

definition controllerName :: string where
  "controllerName = ''cluster-api-cdk8s-controller-manager''"

definition restConfigOf :: "(string \<Rightarrow> string) \<Rightarrow> settings \<Rightarrow> 'r \<Rightarrow> 'r restConfig" where
  "restConfigOf userAgent s r =
     \<lparr>restBase = r, QPS = restConfigQPS s, Burst = restConfigBurst s, UserAgent = userAgent controllerName\<rparr>"

definition watchNamespaces :: "settings \<Rightarrow> string list option" where
  "watchNamespaces s = (if watchNamespace s \<noteq> '''' then Some [watchNamespace s] else None)"

definition managerOptionsOf :: "settings \<Rightarrow> 't \<Rightarrow> 'x \<Rightarrow> ('t, 'x) managerOptions" where
  "managerOptionsOf s tls metrics = \<lparr>
     LeaderElection = enableLeaderElection s,
     LeaderElectionID = ''controller-leader-election-caapc'',
     LeaseDuration = leaderElectionLeaseDuration s,
     RenewDeadline = leaderElectionRenewDeadline s,
     RetryPeriod = leaderElectionRetryPeriod s,
     HealthProbeBindAddress = healthAddr s,
     PprofBindAddress = profilerAddress s,
     Metrics = metrics,
     DefaultNamespaces = watchNamespaces s,
     SyncPeriod = syncPeriod s,
     WebhookPort = webhookPort s,
     WebhookCertDir = webhookCertDir s,
     WebhookTLSOpts = tls\<rparr>"

text \<open>
  From the new manager to its start; the errors of the two registrations of foreign types are
  discarded.
\<close>

definition runManager ::
  "('w, 'm, 'r, 't, 'x) startup_env \<Rightarrow> settings \<Rightarrow> 'm \<Rightarrow> ('w, ending) io" where
  "runManager env s mgr w =
     (let w1 = snd (addClusterTypes env mgr w);
          w2 = snd (addControlPlaneTypes env mgr w1) in
      orExit (Reconciler_SetupWithManager (completeController env mgr) (proxyReconciler env mgr)
               (cdk8sAppProxyConcurrency s))
        (orExit (GeneratorReconciler_SetupWithManager (completeController env mgr) (generatorReconciler env mgr)
                  (cdk8sAppProxyConcurrency s))
          (orExit (SetupWebhookWithManager (completeWebhook env mgr))
            (orExit (addHealthzCheck env mgr ''healthz'')
              (orExit (addReadyzCheck env mgr ''readyz'')
                (orExit (managerStart env mgr)
                  (\<lambda>w. (Ended, w))))))) w2)"

text \<open>\<open>main\<close> after the flags have been defined.\<close>

definition startMain :: "('w, 'm, 'r, 't, 'x) startup_env \<Rightarrow> settings \<Rightarrow> ('w, ending) io" where
  "startMain env defaults =
     orExit (setVerbosity env)
       (orDie (parseFlags env defaults) (\<lambda>s.
         orExitWith (getManagerOptions env) (\<lambda>(tls, metrics).
           orExit (applyLogOptions env)
             (orDie (getConfigOrDie env) (\<lambda>r.
               orExitWith (newManager env (restConfigOf (defaultUserAgent env) s r) (managerOptionsOf s tls metrics))
                 (runManager env s))))))"

section \<open>Lemmas\<close>

lemma defineFlags_iff:
  "distinct fs \<Longrightarrow> defineFlags ns fs = (if distinct (fs @ ns) then Returned (fs @ ns) else Panicked)"
proof (induction ns arbitrary: fs)
  case (Cons n ns)
  then show ?case using Cons.IH [of "fs @ [n]"] by auto
qed simp

text \<open>Steps in order until the first error.\<close>

fun untilError :: "('w, goerr option) io list \<Rightarrow> ('w, goerr option) io" where
  "untilError [] w = (None, w)"
| "untilError (s # ss) w = (case s w of (Some e, w1) \<Rightarrow> (Some e, w1) | (None, w1) \<Rightarrow> untilError ss w1)"

definition endingOf :: "goerr option \<Rightarrow> ending" where
  "endingOf e = (case e of None \<Rightarrow> Ended | Some _ \<Rightarrow> ExitStatus 1)"

lemma orExit_untilError:
  "orExit s (\<lambda>w. (case untilError ss w of (e, w1) \<Rightarrow> (endingOf e, w1))) w =
   (case untilError (s # ss) w of (e, w1) \<Rightarrow> (endingOf e, w1))"
  by (simp add: orExit_def endingOf_def split: prod.splits option.splits)

lemma orExit_last: "(\<lambda>w. (Ended, w)) = (\<lambda>w. case untilError [] w of (e, w1) \<Rightarrow> (endingOf e, w1))"
  by (simp add: endingOf_def)

definition startupSteps :: "('w, 'm, 'r, 't, 'x) startup_env \<Rightarrow> settings \<Rightarrow> 'm \<Rightarrow> ('w, goerr option) io list" where
  "startupSteps env s mgr =
     [completeController env mgr
        \<lparr>MaxConcurrentReconciles = cdk8sAppProxyConcurrency s, ForType = ''Cdk8sAppProxy'', OwnsTypes = [],
         WatchesTypes = [(''Cluster'', ClusterToCdk8sAppProxyMapper (proxyReconciler env mgr))],
         reconciler = Reconcile (proxyReconciler env mgr)\<rparr>,
      completeController env mgr
        \<lparr>MaxConcurrentReconciles = cdk8sAppProxyConcurrency s, ForType = ''Cdk8sAppProxyGenerator'',
         OwnsTypes = [''Cdk8sAppProxy''], WatchesTypes = [],
         reconciler = (\<lambda>ns n w. case GenReconcile (generatorReconciler env mgr) ns n w of (res, w1) \<Rightarrow> (Returned res, w1))\<rparr>,
      completeWebhook env mgr
        \<lparr>webhookFor = ''Cdk8sAppProxy'', defaulter = webhookDefault, createValidator = ValidateCreate,
         updateValidator = ValidateUpdate, deleteValidator = ValidateDelete\<rparr>,
      addHealthzCheck env mgr ''healthz'', addReadyzCheck env mgr ''readyz'', managerStart env mgr]"

lemma runManager_steps:
  "runManager env s mgr w =
   (case untilError (startupSteps env s mgr)
           (snd (addControlPlaneTypes env mgr (snd (addClusterTypes env mgr w)))) of
      (e, w1) \<Rightarrow> (endingOf e, w1))"
  unfolding runManager_def startupSteps_def Let_def orExit_last
    Reconciler_SetupWithManager_def GeneratorReconciler_SetupWithManager_def SetupWebhookWithManager_def
  by (simp only: orExit_untilError [abs_def])

section \<open>Properties\<close>


text \<open>
  C35. The process ends normally only after the manager has run and stopped without an error, and the manager
  is started only when both controllers, the webhook and both checks have been set up, in this order: the
  controllers with the reconcilers, the number of workers from the flag and the mapper of cluster events,
  the webhook with the defaulter and the three validators. After a step that fails nothing more is done.
\<close>

theorem ends_normally_only_after_manager:
  assumes "startMain env defaults w = (Ended, w')"
  shows "\<exists>s r tls metrics w0 mgr w1.
    newManager env (restConfigOf (defaultUserAgent env) s r) (managerOptionsOf s tls metrics) w0 = (Inr mgr, w1) \<and>
    untilError (startupSteps env s mgr)
      (snd (addControlPlaneTypes env mgr (snd (addClusterTypes env mgr w1)))) = (None, w')"
  using assms
  by (fastforce simp: startMain_def orExit_def orExitWith_def orDie_def runManager_steps endingOf_def
      split: prod.splits option.splits sum.splits)

definition sampleStartup :: "(string list, unit, unit, unit, unit) startup_env" where
  "sampleStartup = \<lparr>
     setVerbosity = (\<lambda>w. (None, w)), parseFlags = (\<lambda>s w. (Inr s, w)),
     getManagerOptions = (\<lambda>w. (Inr ((), ()), w)), applyLogOptions = (\<lambda>w. (None, w)),
     getConfigOrDie = (\<lambda>w. (Inr (), w)), defaultUserAgent = (\<lambda>n. n),
     newManager = (\<lambda>r opts w. (Inr (), w @ [LeaderElectionID opts])),
     addClusterTypes = (\<lambda>m w. (None, w)), addControlPlaneTypes = (\<lambda>m w. (None, w)),
     proxyReconciler = (\<lambda>m. sampleController), generatorReconciler = (\<lambda>m. sampleGenEnv),
     completeController = (\<lambda>m b w. (None, w @ [ForType b])),
     completeWebhook = (\<lambda>m b w. (None, w @ [''webhook''])),
     addHealthzCheck = (\<lambda>m n w. (None, w @ [n])), addReadyzCheck = (\<lambda>m n w. (None, w @ [n])),
     managerStart = (\<lambda>m w. (None, w @ [''start'']))\<rparr>"

theorem ends_normally_only_after_manager_witness:
  "\<exists>s r tls metrics w0 mgr w1.
    newManager sampleStartup (restConfigOf (defaultUserAgent sampleStartup) s r) (managerOptionsOf s tls metrics) w0
      = (Inr mgr, w1) \<and>
    untilError (startupSteps sampleStartup s mgr)
      (snd (addControlPlaneTypes sampleStartup mgr (snd (addClusterTypes sampleStartup mgr w1)))) = (None,
     [''controller-leader-election-caapc'', ''Cdk8sAppProxy'', ''Cdk8sAppProxyGenerator'', ''webhook'', ''healthz'',
      ''readyz'', ''start''])"
  by (rule ends_normally_only_after_manager [of _ flagDefaults "[]"])
    (simp add: sampleStartup_def startMain_def orExit_def orExitWith_def orDie_def runManager_def Let_def
      managerOptionsOf_def Reconciler_SetupWithManager_def GeneratorReconciler_SetupWithManager_def
      SetupWebhookWithManager_def)

end
