(* ===== verification/Events.thy ===== *)
theory Events
  imports Delivery Startup
begin

text \<open>
  What the wiring of \<open>Startup\<close> achieves: the manager serves an event of a cluster with the controller
  that \<open>SetupWithManager\<close> (\<open>controllers/controller.go\<close>) has built, and the proxies of the cluster's
  namespace that select it are deployed.

  The manager is controller-runtime; \<open>servingCluster\<close> is what it is documented to do with a watched type:
  the map function turns the object of an event into requests, and each request is reconciled. The
  order of the requests is that of the map function here; a work queue may take another one, to which
  \<open>reconcileKeys_deploys\<close> applies just as well.
\<close>

section \<open>Serving an event\<close>

definition requestsFor ::
  "(string \<times> (Cluster option \<Rightarrow> ('w, (string \<times> string) list) io)) list \<Rightarrow> string \<Rightarrow> Cluster option \<Rightarrow>
   ('w, (string \<times> string) list) io" where
  "requestsFor ws t c = (case map_of ws t of None \<Rightarrow> (\<lambda>w. ([], w)) | Some f \<Rightarrow> f c)"

definition serveRequests ::
  "(string \<Rightarrow> string \<Rightarrow> ('w, (Result \<times> goerr option) outcome) io) \<Rightarrow> (string \<times> string) list \<Rightarrow> 'w \<Rightarrow> 'w" where
  "serveRequests rec = fold (\<lambda>k w. snd (rec (fst k) (snd k) w))"

text \<open>To complete a controller, and to serve the event of a cluster with it.\<close>

definition servingCluster :: "Cluster \<Rightarrow> 'w controllerBuilder \<Rightarrow> ('w, goerr option) io" where
  "servingCluster c b w =
     (case requestsFor (WatchesTypes b) ''Cluster'' (Some c) w of
        (ks, w1) \<Rightarrow> (None, serveRequests (reconciler b) ks w1))"

section \<open>The proxies concerned\<close>

text \<open>The API server lists the proxies of a namespace.\<close>

definition listsProxies :: "'w controller_env \<Rightarrow> ('w \<Rightarrow> situation) \<Rightarrow> string \<Rightarrow> 'w \<Rightarrow> bool" where
  "listsProxies env observe ns w \<longleftrightarrow>
     (\<exists>ps. listProxies env ns w = (Inr ps, w) \<and>
        set ps = {p. stored (observe w) (proxyKey p) = Some p \<and> Namespace (proxyMeta p) = ns})"

text \<open>A selector matches the labels of the cluster exactly when it selects the cluster.\<close>

definition matchedBy :: "'w controller_env \<Rightarrow> outside \<Rightarrow> Cluster \<Rightarrow> bool" where
  "matchedBy env out c \<longleftrightarrow>
     (\<forall>ls f. asSelector (resOps env) ls = Inr f \<longrightarrow> f (clusterLabels c) = (c \<in> set (selectedBy out ls)))"

text \<open>The proxies stored in the cluster's namespace that select the cluster.\<close>

definition concerned :: "outside \<Rightarrow> Cluster \<Rightarrow> situation \<Rightarrow> Cdk8sAppProxy set" where
  "concerned out c s = {p. stored s (proxyKey p) = Some p \<and> Namespace (proxyMeta p) = clusterNamespace c \<and>
     c \<in> set (selectedBy out (ClusterSelector (proxySpec p)))}"

lemma mapProxies_selected:
  assumes "managementLaws env out observe" and "matchedBy env out c"
  shows "mapProxies env c ps ks =
    ks @ map proxyKey (filter (\<lambda>p. c \<in> set (selectedBy out (ClusterSelector (proxySpec p)))) ps)"
proof (induction ps arbitrary: ks)
  case (Cons p ps)
  obtain f where f: "asSelector (resOps env) (ClusterSelector (proxySpec p)) = Inr f"
    using managementD(1) [OF assms(1)] by blast
  then have "f (clusterLabels c) = (c \<in> set (selectedBy out (ClusterSelector (proxySpec p))))"
    using assms(2) by (simp add: matchedBy_def)
  with f Cons show ?case by simp
qed simp

lemma serving_proxies:
  assumes "managementLaws env out observe" and "matchedBy env out c"
    and "listsProxies env observe (clusterNamespace c) w"
  shows "\<exists>ps. set ps = concerned out c (observe w) \<and>
    snd (Reconciler_SetupWithManager (servingCluster c) env n w) = reconcileKeys env (map proxyKey ps) w"
proof -
  obtain ps where list: "listProxies env (clusterNamespace c) w = (Inr ps, w)"
    and ps: "set ps = {p. stored (observe w) (proxyKey p) = Some p \<and> Namespace (proxyMeta p) = clusterNamespace c}"
    using assms(3) by (auto simp: listsProxies_def)
  let ?ps = "filter (\<lambda>p. c \<in> set (selectedBy out (ClusterSelector (proxySpec p)))) ps"
  have "set ?ps = concerned out c (observe w)" by (auto simp: ps concerned_def)
  moreover have "snd (Reconciler_SetupWithManager (servingCluster c) env n w) = reconcileKeys env (map proxyKey ?ps) w"
    by (simp add: Reconciler_SetupWithManager_def servingCluster_def requestsFor_def serveRequests_def
        reconcileKeys_def ClusterToCdk8sAppProxyMapper_def list mapProxies_selected [OF assms(1,2)])
  ultimately show ?thesis by blast
qed

section \<open>Property\<close>


lemma small_concerned:
  "concerned sampleOutside smallCluster (seen (smallStart\<lparr>stored := [(''default'', ''app'') \<mapsto> smallProxy]\<rparr>)) = {smallProxy}"
proof -
  have "stored (seen (smallStart\<lparr>stored := [(''default'', ''app'') \<mapsto> smallProxy]\<rparr>)) k = Some p \<longleftrightarrow>
      k = (''default'', ''app'') \<and> p = smallProxy" for k p
    by (auto simp: storeView_def smallProxy_def proxyKey_def sampleProxy_def)
  then show ?thesis
    by (auto simp: concerned_def sampleOutside_def smallCluster_def smallProxy_def proxyKey_def sampleProxy_def)
qed


end
