(* ===== verification/Registry.thy ===== *)
theory Registry
  imports GoPrelude "HOL-Library.List_Lexorder" "HOL-Library.Char_ord"
begin

text \<open>
  The registrations that the Kubernetes bindings of the sample application
  (\<open>examples/cdk8s-sample-deployment/imports/k8s/main.go\<close>) make with the jsii runtime when the program
  starts. A call \<open>RegisterStruct\<close>, \<open>RegisterClass\<close> or \<open>RegisterEnum\<close> is a value of \<open>registration\<close>:
  its name on the JavaScript side, the Go type (\<open>reflect.TypeOf((*T)(nil)).Elem()\<close> is the type named
  \<open>T\<close> of the package), the table of members of a class and its maker (the type of the proxy that it
  allocates, and the embedded proxies that it initialises), the values of an enum.

  The runtime is not part of the repository: \<open>register\<close> and \<open>entry\<close> are parameters, and \<open>registryLaw\<close> is
  what is used of them, that a type is accepted when neither its name nor its Go type is taken, and is
  found under its name from then on. The package's registrations are the theories \<open>K8sInitA\<close> to
  \<open>K8sInitD\<close>, one list for each stretch of the function \<open>init\<close>; \<open>K8sInit\<close> puts them together.
\<close>

named_theorems ascends_checks \<open>the evaluated checks of each stretch: the names ascend\<close>

named_theorems named_checks \<open>names and Go types correspond\<close>

named_theorems made_checks \<open>members, proxies and enum values\<close>

named_theorems props_checks \<open>properties structs of the API object classes\<close>

section \<open>Registrations\<close>

datatype member = MemberMethod string string | MemberProperty string string

datatype maker = NewProxy string "string list"

datatype registration =
    RegisterStruct string string
  | RegisterClass string string "member list" maker
  | RegisterEnum string string "(string \<times> string) list"

fun fqn :: "registration \<Rightarrow> string" where
  "fqn (RegisterStruct n t) = n"
| "fqn (RegisterClass n t ms k) = n"
| "fqn (RegisterEnum n t vs) = n"

fun goType :: "registration \<Rightarrow> string" where
  "goType (RegisterStruct n t) = t"
| "goType (RegisterClass n t ms k) = t"
| "goType (RegisterEnum n t vs) = t"

fun jsiiMember :: "member \<Rightarrow> string" where
  "jsiiMember (MemberMethod js go) = js"
| "jsiiMember (MemberProperty js go) = js"

fun goMember :: "member \<Rightarrow> string" where
  "goMember (MemberMethod js go) = go"
| "goMember (MemberProperty js go) = go"

text \<open>The calls of an \<open>init\<close> function in order; a call that panics ends it.\<close>

fun registerAll :: "(registration \<Rightarrow> 'r \<Rightarrow> 'r outcome) \<Rightarrow> registration list \<Rightarrow> 'r \<Rightarrow> 'r outcome" where
  "registerAll register [] r = Returned r"
| "registerAll register (g # gs) r =
     (case register g r of Panicked \<Rightarrow> Panicked | Returned r' \<Rightarrow> registerAll register gs r')"

definition free :: "('r \<Rightarrow> string \<Rightarrow> registration option) \<Rightarrow> registration \<Rightarrow> 'r \<Rightarrow> bool" where
  "free entry g r \<longleftrightarrow> (\<forall>n h. entry r n = Some h \<longrightarrow> n \<noteq> fqn g \<and> goType h \<noteq> goType g)"

definition registryLaw ::
  "(registration \<Rightarrow> 'r \<Rightarrow> 'r outcome) \<Rightarrow> ('r \<Rightarrow> string \<Rightarrow> registration option) \<Rightarrow> bool" where
  "registryLaw register entry \<longleftrightarrow> (\<forall>g r. free entry g r \<longrightarrow>
     (\<exists>r'. register g r = Returned r' \<and> entry r' = (entry r)(fqn g \<mapsto> g)))"

section \<open>Tables in the order of their names\<close>

text \<open>
  \<open>ascends lo gs hi\<close>: the names of \<open>gs\<close> ascend strictly from above \<open>lo\<close> up to \<open>hi\<close>. The list of a stretch
  of the source is checked by evaluation; the lemma \<open>ascends_append\<close> joins the stretches.
\<close>

fun ascends :: "string \<Rightarrow> registration list \<Rightarrow> string \<Rightarrow> bool" where
  "ascends lo [] hi \<longleftrightarrow> lo \<le> hi"
| "ascends lo (g # gs) hi \<longleftrightarrow> lo < fqn g \<and> ascends (fqn g) gs hi"

lemma ascends_append: "ascends lo gs mid \<Longrightarrow> ascends mid hs hi \<Longrightarrow> ascends lo (gs @ hs) hi"
proof (induction gs arbitrary: lo)
  case Nil
  then show ?case by (cases hs) auto
qed simp

lemma ascends_above: "ascends lo gs hi \<Longrightarrow> g \<in> set gs \<Longrightarrow> lo < fqn g"
  by (induction gs arbitrary: lo) (auto dest: order.strict_trans)

lemma ascends_distinct: "ascends lo gs hi \<Longrightarrow> distinct (map fqn gs)"
proof (induction gs arbitrary: lo)
  case (Cons g gs)
  then have "ascends (fqn g) gs hi" by simp
  then have "fqn g \<notin> fqn ` set gs" by (auto dest: ascends_above)
  with Cons show ?case by auto
qed simp

section \<open>What a registration of the package looks like\<close>

definition asciiUpper :: "char \<Rightarrow> char" where
  "asciiUpper c = (if 97 \<le> (of_char c :: nat) \<and> (of_char c :: nat) \<le> 122
     then char_of (of_char c - 32 :: nat) else c)"

fun capitalize :: "string \<Rightarrow> string" where
  "capitalize [] = []"
| "capitalize (c # cs) = asciiUpper c # cs"

text \<open>The members that every API object inherits from \<open>cdk8s.ApiObject\<close>.\<close>

definition apiObjectMembers :: "member list" where
  "apiObjectMembers =
    [MemberMethod ''addDependency'' ''AddDependency'', MemberMethod ''addJsonPatch'' ''AddJsonPatch'',
     MemberProperty ''apiGroup'' ''ApiGroup'', MemberProperty ''apiVersion'' ''ApiVersion'',
     MemberProperty ''chart'' ''Chart'', MemberProperty ''kind'' ''Kind'',
     MemberProperty ''metadata'' ''Metadata'', MemberProperty ''name'' ''Name'',
     MemberProperty ''node'' ''Node'', MemberMethod ''toJson'' ''ToJson'',
     MemberMethod ''toString'' ''ToString'']"

definition isApiObject :: "registration \<Rightarrow> bool" where
  "isApiObject g = (case g of RegisterClass n t ms k \<Rightarrow> hasPrefix t ''Kube'' | _ \<Rightarrow> False)"

definition isStruct :: "registration \<Rightarrow> bool" where
  "isStruct g = (case g of RegisterStruct n t \<Rightarrow> True | _ \<Rightarrow> False)"

definition wellNamed :: "registration \<Rightarrow> bool" where
  "wellNamed g \<longleftrightarrow> fqn g = ''k8s.'' @ goType g"

definition wellMade :: "registration \<Rightarrow> bool" where
  "wellMade g = (case g of
      RegisterStruct n t \<Rightarrow> True
    | RegisterClass n t ms (NewProxy p es) \<Rightarrow>
        p = ''jsiiProxy_'' @ t \<and> list_all (\<lambda>m. goMember m = capitalize (jsiiMember m)) ms \<and>
        (if isApiObject g then ms = apiObjectMembers \<and> es = [''Type__cdk8sApiObject'']
         else ms = [MemberProperty ''value'' ''Value''] \<and> es = [])
    | RegisterEnum n t vs \<Rightarrow> list_all (\<lambda>(v, c). c = t @ ''_'' @ v) vs)"

text \<open>\<open>propsIn hs gs\<close>: the properties struct of every API object class of \<open>gs\<close> is registered in \<open>hs\<close>.\<close>

definition propsIn :: "registration list \<Rightarrow> registration list \<Rightarrow> bool" where
  "propsIn hs gs = list_all (\<lambda>g. isApiObject g \<longrightarrow>
     RegisterStruct (fqn g @ ''Props'') (goType g @ ''Props'') \<in> set hs) gs"

text \<open>
  The rules that evaluate the checks on a list written out. They are used with \<open>simp only\<close>: the
  strings compared are equal once both sides are evaluated, and no character needs to be compared.
\<close>

lemma asciiUpper_letters:
  "asciiUpper (CHR ''a'') = CHR ''A''" "asciiUpper (CHR ''c'') = CHR ''C''"
  "asciiUpper (CHR ''k'') = CHR ''K''" "asciiUpper (CHR ''m'') = CHR ''M''"
  "asciiUpper (CHR ''n'') = CHR ''N''" "asciiUpper (CHR ''t'') = CHR ''T''"
  "asciiUpper (CHR ''v'') = CHR ''V''"
  by code_simp+

lemma isStruct_simps:
  "isStruct (RegisterStruct n t) = True" "isStruct (RegisterClass n t ms k) = False"
  "isStruct (RegisterEnum n t vs) = False"
  by (simp_all add: isStruct_def)

lemma propsIn_simps:
  "propsIn hs []"
  "propsIn hs (RegisterStruct n t # gs) = propsIn hs gs"
  "propsIn hs (RegisterEnum n t vs # gs) = propsIn hs gs"
  "propsIn hs (RegisterClass n t ms k # gs) =
    ((hasPrefix t ''Kube'' \<longrightarrow> RegisterStruct (n @ ''Props'') (t @ ''Props'') \<in> set hs) \<and> propsIn hs gs)"
  by (simp_all add: propsIn_def isApiObject_def)

lemma hasPrefix_Kube:
  "hasPrefix (CHR ''K'' # CHR ''u'' # CHR ''b'' # CHR ''e'' # t) ''Kube'' = True"
  "hasPrefix (CHR ''I'' # t) ''Kube'' = False" "hasPrefix (CHR ''Q'' # t) ''Kube'' = False"
  by (simp_all add: hasPrefix_def)

lemma filter_isStruct:
  "filter isStruct [] = []"
  "filter isStruct (RegisterStruct n t # gs) = RegisterStruct n t # filter isStruct gs"
  "filter isStruct (RegisterClass n t ms k # gs) = filter isStruct gs"
  "filter isStruct (RegisterEnum n t vs # gs) = filter isStruct gs"
  by (simp_all add: isStruct_simps)

lemmas table_eval =
  list.pred_inject list.map filter_isStruct append.simps registration.case maker.case fqn.simps goType.simps
  isStruct_simps simp_thms if_True if_False not_True_eq_False not_False_eq_True

lemmas made_eval =
  wellMade_def apiObjectMembers_def isApiObject_def hasPrefix_Kube asciiUpper_letters capitalize.simps
  goMember.simps jsiiMember.simps prod.case

lemmas props_eval =
  propsIn_simps hasPrefix_Kube append.simps simp_thms list.set_intros set_simps insert_iff registration.inject

lemma propsIn_join: "propsIn gs gs \<Longrightarrow> propsIn hs hs \<Longrightarrow> propsIn (gs @ hs) (gs @ hs)"
  by (auto simp: propsIn_def list_all_iff)

lemma wellNamed_distinct:
  assumes "distinct (map fqn gs)" and "list_all wellNamed gs"
  shows "distinct (map goType gs)"
proof -
  have "map fqn gs = map (append ''k8s.'') (map goType gs)"
    using assms(2) by (induction gs) (auto simp: wellNamed_def)
  then show ?thesis using assms(1) by (metis distinct_map)
qed

section \<open>Registering a table\<close>

lemma registerAll_fresh:
  assumes "registryLaw register entry" and "distinct (map fqn gs)" and "distinct (map goType gs)"
    and "\<And>g. g \<in> set gs \<Longrightarrow> free entry g r"
  shows "\<exists>r'. registerAll register gs r = Returned r' \<and>
    entry r' = entry r ++ map_of (map (\<lambda>g. (fqn g, g)) gs)"
  using assms
proof (induction gs arbitrary: r)
  case (Cons g gs)
  obtain r1 where r1: "register g r = Returned r1" "entry r1 = (entry r)(fqn g \<mapsto> g)"
    using Cons.prems(1,4) unfolding registryLaw_def by (metis list.set_intros(1))
  have free1: "free entry h r1" if "h \<in> set gs" for h
    using Cons.prems(2,3) Cons.prems(4) [of h] that by (auto simp: free_def r1(2))
  then obtain r' where r': "registerAll register gs r1 = Returned r'"
      "entry r' = entry r1 ++ map_of (map (\<lambda>g. (fqn g, g)) gs)"
    using Cons.IH [OF assms(1), of r1] Cons.prems(2,3) free1 by auto
  have "map_of (map (\<lambda>g. (fqn g, g)) gs) (fqn g) = None"
    using Cons.prems(2) by (force simp: map_of_eq_None_iff)
  then have "entry r' = entry r ++ map_of (map (\<lambda>g. (fqn g, g)) (g # gs))"
    unfolding r'(2) r1(2) by (auto simp: map_add_def fun_eq_iff split: option.splits)
  moreover have "registerAll register (g # gs) r = Returned r'" using r1(1) r'(1) by simp
  ultimately show ?case by blast
qed simp

text \<open>A registry that is just the table of what has been registered.\<close>

definition tableRegister :: "registration \<Rightarrow> (string \<rightharpoonup> registration) \<Rightarrow> (string \<rightharpoonup> registration) outcome" where
  "tableRegister g r = (if r (fqn g) = None then Returned (r(fqn g \<mapsto> g)) else Panicked)"

lemma tableRegister_law: "registryLaw tableRegister (\<lambda>r. r)"
  by (auto simp: registryLaw_def free_def tableRegister_def)

end
