(* ===== verification/K8sInitA.thy ===== *)
theory K8sInitA
  imports Registry
begin

text \<open>
  Lines 11 to 1185 of \<open>examples/cdk8s-sample-deployment/imports/k8s/main.go\<close>: the registrations of the types
  \<open>Affinity\<close> to \<open>KubeCsiStorageCapacityV1Beta1Props\<close>, in stretches of at most 150 lines, with the evaluation of the checks
  of \<open>Registry\<close> on each.
\<close>

definition init_1 :: "registration list" where
  "init_1 =
   [RegisterStruct ''k8s.Affinity'' ''Affinity'',
    RegisterStruct ''k8s.AggregationRule'' ''AggregationRule'',
    RegisterStruct ''k8s.ApiServiceSpec'' ''ApiServiceSpec'',
    RegisterStruct ''k8s.AwsElasticBlockStoreVolumeSource'' ''AwsElasticBlockStoreVolumeSource'',
    RegisterStruct ''k8s.AzureDiskVolumeSource'' ''AzureDiskVolumeSource'',
    RegisterStruct ''k8s.AzureFilePersistentVolumeSource'' ''AzureFilePersistentVolumeSource'',
    RegisterStruct ''k8s.AzureFileVolumeSource'' ''AzureFileVolumeSource'',
    RegisterStruct ''k8s.BoundObjectReference'' ''BoundObjectReference'',
    RegisterStruct ''k8s.Capabilities'' ''Capabilities'',
    RegisterStruct ''k8s.CephFsPersistentVolumeSource'' ''CephFsPersistentVolumeSource'',
    RegisterStruct ''k8s.CephFsVolumeSource'' ''CephFsVolumeSource'',
    RegisterStruct ''k8s.CertificateSigningRequestSpec'' ''CertificateSigningRequestSpec'',
    RegisterStruct ''k8s.CinderPersistentVolumeSource'' ''CinderPersistentVolumeSource'',
    RegisterStruct ''k8s.CinderVolumeSource'' ''CinderVolumeSource'',
    RegisterStruct ''k8s.ClientIpConfig'' ''ClientIpConfig'',
    RegisterStruct ''k8s.ClusterCidrSpecV1Alpha1'' ''ClusterCidrSpecV1Alpha1'',
    RegisterStruct ''k8s.ComponentCondition'' ''ComponentCondition'',
    RegisterStruct ''k8s.ConfigMapEnvSource'' ''ConfigMapEnvSource'',
    RegisterStruct ''k8s.ConfigMapKeySelector'' ''ConfigMapKeySelector'',
    RegisterStruct ''k8s.ConfigMapNodeConfigSource'' ''ConfigMapNodeConfigSource'',
    RegisterStruct ''k8s.ConfigMapProjection'' ''ConfigMapProjection'',
    RegisterStruct ''k8s.ConfigMapVolumeSource'' ''ConfigMapVolumeSource'',
    RegisterStruct ''k8s.Container'' ''Container'',
    RegisterStruct ''k8s.ContainerPort'' ''ContainerPort'',
    RegisterStruct ''k8s.ContainerResourceMetricSourceV2'' ''ContainerResourceMetricSourceV2'',
    RegisterStruct ''k8s.ContainerResourceMetricSourceV2Beta2'' ''ContainerResourceMetricSourceV2Beta2'',
    RegisterStruct ''k8s.CronJobSpec'' ''CronJobSpec'',
    RegisterStruct ''k8s.CrossVersionObjectReference'' ''CrossVersionObjectReference'',
    RegisterStruct ''k8s.CrossVersionObjectReferenceV2'' ''CrossVersionObjectReferenceV2'',
    RegisterStruct ''k8s.CrossVersionObjectReferenceV2Beta2'' ''CrossVersionObjectReferenceV2Beta2'',
    RegisterStruct ''k8s.CsiDriverSpec'' ''CsiDriverSpec'',
    RegisterStruct ''k8s.CsiNodeDriver'' ''CsiNodeDriver'',
    RegisterStruct ''k8s.CsiNodeSpec'' ''CsiNodeSpec'',
    RegisterStruct ''k8s.CsiPersistentVolumeSource'' ''CsiPersistentVolumeSource'',
    RegisterStruct ''k8s.CsiVolumeSource'' ''CsiVolumeSource'',
    RegisterStruct ''k8s.CustomResourceColumnDefinition'' ''CustomResourceColumnDefinition'',
    RegisterStruct ''k8s.CustomResourceConversion'' ''CustomResourceConversion'']"

lemma init_1_ascends [ascends_checks]: "ascends '''' init_1 ''k8s.CustomResourceConversion''"
  by (simp add: init_1_def)

lemma init_1_named [named_checks]: "list_all wellNamed init_1"
  by (simp only: init_1_def wellNamed_def table_eval)

lemma init_1_props [props_checks]: "propsIn init_1 init_1"
  by (simp only: init_1_def props_eval)

lemma init_1_made [made_checks]: "list_all wellMade init_1"
  by (simp only: init_1_def made_eval table_eval)

definition init_2 :: "registration list" where
  "init_2 =
   [RegisterStruct ''k8s.CustomResourceDefinitionNames'' ''CustomResourceDefinitionNames'',
    RegisterStruct ''k8s.CustomResourceDefinitionSpec'' ''CustomResourceDefinitionSpec'',
    RegisterStruct ''k8s.CustomResourceDefinitionVersion'' ''CustomResourceDefinitionVersion'',
    RegisterStruct ''k8s.CustomResourceSubresourceScale'' ''CustomResourceSubresourceScale'',
    RegisterStruct ''k8s.CustomResourceSubresources'' ''CustomResourceSubresources'',
    RegisterStruct ''k8s.CustomResourceValidation'' ''CustomResourceValidation'',
    RegisterStruct ''k8s.DaemonSetSpec'' ''DaemonSetSpec'',
    RegisterStruct ''k8s.DaemonSetUpdateStrategy'' ''DaemonSetUpdateStrategy'',
    RegisterStruct ''k8s.DeleteOptions'' ''DeleteOptions'',
    RegisterStruct ''k8s.DeploymentSpec'' ''DeploymentSpec'',
    RegisterStruct ''k8s.DeploymentStrategy'' ''DeploymentStrategy'',
    RegisterStruct ''k8s.DownwardApiProjection'' ''DownwardApiProjection'',
    RegisterStruct ''k8s.DownwardApiVolumeFile'' ''DownwardApiVolumeFile'',
    RegisterStruct ''k8s.DownwardApiVolumeSource'' ''DownwardApiVolumeSource'',
    RegisterStruct ''k8s.EmptyDirVolumeSource'' ''EmptyDirVolumeSource'',
    RegisterStruct ''k8s.Endpoint'' ''Endpoint'',
    RegisterStruct ''k8s.EndpointAddress'' ''EndpointAddress'',
    RegisterStruct ''k8s.EndpointConditions'' ''EndpointConditions'',
    RegisterStruct ''k8s.EndpointHints'' ''EndpointHints'',
    RegisterStruct ''k8s.EndpointPort'' ''EndpointPort'',
    RegisterStruct ''k8s.EndpointSubset'' ''EndpointSubset'',
    RegisterStruct ''k8s.EnvFromSource'' ''EnvFromSource'',
    RegisterStruct ''k8s.EnvVar'' ''EnvVar'',
    RegisterStruct ''k8s.EnvVarSource'' ''EnvVarSource'',
    RegisterStruct ''k8s.EphemeralContainer'' ''EphemeralContainer'',
    RegisterStruct ''k8s.EphemeralVolumeSource'' ''EphemeralVolumeSource'',
    RegisterStruct ''k8s.EventSeries'' ''EventSeries'',
    RegisterStruct ''k8s.EventSource'' ''EventSource'',
    RegisterStruct ''k8s.ExecAction'' ''ExecAction'',
    RegisterStruct ''k8s.ExternalDocumentation'' ''ExternalDocumentation'',
    RegisterStruct ''k8s.ExternalMetricSourceV2'' ''ExternalMetricSourceV2'',
    RegisterStruct ''k8s.ExternalMetricSourceV2Beta2'' ''ExternalMetricSourceV2Beta2'',
    RegisterStruct ''k8s.FcVolumeSource'' ''FcVolumeSource'',
    RegisterStruct ''k8s.FlexPersistentVolumeSource'' ''FlexPersistentVolumeSource'',
    RegisterStruct ''k8s.FlexVolumeSource'' ''FlexVolumeSource'',
    RegisterStruct ''k8s.FlockerVolumeSource'' ''FlockerVolumeSource'',
    RegisterStruct ''k8s.FlowDistinguisherMethodV1Beta1'' ''FlowDistinguisherMethodV1Beta1'']"

lemma init_2_ascends [ascends_checks]: "ascends ''k8s.CustomResourceConversion'' init_2 ''k8s.FlowDistinguisherMethodV1Beta1''"
  by (simp add: init_2_def)

lemma init_2_named [named_checks]: "list_all wellNamed init_2"
  by (simp only: init_2_def wellNamed_def table_eval)

lemma init_2_props [props_checks]: "propsIn init_2 init_2"
  by (simp only: init_2_def props_eval)

lemma init_2_made [made_checks]: "list_all wellMade init_2"
  by (simp only: init_2_def made_eval table_eval)

definition init_3 :: "registration list" where
  "init_3 =
   [RegisterStruct ''k8s.FlowDistinguisherMethodV1Beta2'' ''FlowDistinguisherMethodV1Beta2'',
    RegisterStruct ''k8s.FlowSchemaSpecV1Beta1'' ''FlowSchemaSpecV1Beta1'',
    RegisterStruct ''k8s.FlowSchemaSpecV1Beta2'' ''FlowSchemaSpecV1Beta2'',
    RegisterStruct ''k8s.ForZone'' ''ForZone'',
    RegisterStruct ''k8s.GcePersistentDiskVolumeSource'' ''GcePersistentDiskVolumeSource'',
    RegisterStruct ''k8s.GitRepoVolumeSource'' ''GitRepoVolumeSource'',
    RegisterStruct ''k8s.GlusterfsPersistentVolumeSource'' ''GlusterfsPersistentVolumeSource'',
    RegisterStruct ''k8s.GlusterfsVolumeSource'' ''GlusterfsVolumeSource'',
    RegisterStruct ''k8s.GroupSubjectV1Beta1'' ''GroupSubjectV1Beta1'',
    RegisterStruct ''k8s.GroupSubjectV1Beta2'' ''GroupSubjectV1Beta2'',
    RegisterStruct ''k8s.GrpcAction'' ''GrpcAction'',
    RegisterStruct ''k8s.HorizontalPodAutoscalerBehaviorV2'' ''HorizontalPodAutoscalerBehaviorV2'',
    RegisterStruct ''k8s.HorizontalPodAutoscalerBehaviorV2Beta2'' ''HorizontalPodAutoscalerBehaviorV2Beta2'',
    RegisterStruct ''k8s.HorizontalPodAutoscalerSpec'' ''HorizontalPodAutoscalerSpec'',
    RegisterStruct ''k8s.HorizontalPodAutoscalerSpecV2'' ''HorizontalPodAutoscalerSpecV2'',
    RegisterStruct ''k8s.HorizontalPodAutoscalerSpecV2Beta2'' ''HorizontalPodAutoscalerSpecV2Beta2'',
    RegisterStruct ''k8s.HostAlias'' ''HostAlias'',
    RegisterStruct ''k8s.HostPathVolumeSource'' ''HostPathVolumeSource'',
    RegisterStruct ''k8s.HpaScalingPolicyV2'' ''HpaScalingPolicyV2'',
    RegisterStruct ''k8s.HpaScalingPolicyV2Beta2'' ''HpaScalingPolicyV2Beta2'',
    RegisterStruct ''k8s.HpaScalingRulesV2'' ''HpaScalingRulesV2'',
    RegisterStruct ''k8s.HpaScalingRulesV2Beta2'' ''HpaScalingRulesV2Beta2'',
    RegisterStruct ''k8s.HttpGetAction'' ''HttpGetAction'',
    RegisterStruct ''k8s.HttpHeader'' ''HttpHeader'',
    RegisterStruct ''k8s.HttpIngressPath'' ''HttpIngressPath'',
    RegisterStruct ''k8s.HttpIngressRuleValue'' ''HttpIngressRuleValue'',
    RegisterStruct ''k8s.IngressBackend'' ''IngressBackend'',
    RegisterStruct ''k8s.IngressClassParametersReference'' ''IngressClassParametersReference'',
    RegisterStruct ''k8s.IngressClassSpec'' ''IngressClassSpec'',
    RegisterStruct ''k8s.IngressRule'' ''IngressRule'',
    RegisterStruct ''k8s.IngressServiceBackend'' ''IngressServiceBackend'',
    RegisterStruct ''k8s.IngressSpec'' ''IngressSpec'',
    RegisterStruct ''k8s.IngressTls'' ''IngressTls'',
    RegisterClass ''k8s.IntOrString'' ''IntOrString''
     [MemberProperty ''value'' ''Value'']
     (NewProxy ''jsiiProxy_IntOrString'' []),
    RegisterEnum ''k8s.IoK8SApimachineryPkgApisMetaV1DeleteOptionsKind'' ''IoK8SApimachineryPkgApisMetaV1DeleteOptionsKind''
     [(''DELETE_OPTIONS'', ''IoK8SApimachineryPkgApisMetaV1DeleteOptionsKind_DELETE_OPTIONS'')]]"

lemma init_3_ascends [ascends_checks]: "ascends ''k8s.FlowDistinguisherMethodV1Beta1'' init_3 ''k8s.IoK8SApimachineryPkgApisMetaV1DeleteOptionsKind''"
  by (simp add: init_3_def)

lemma init_3_named [named_checks]: "list_all wellNamed init_3"
  by (simp only: init_3_def wellNamed_def table_eval)

lemma init_3_props [props_checks]: "propsIn init_3 init_3"
  by (simp only: init_3_def props_eval)

lemma init_3_made [made_checks]: "list_all wellMade init_3"
  by (simp only: init_3_def made_eval table_eval)

definition init_4 :: "registration list" where
  "init_4 =
   [RegisterStruct ''k8s.IpBlock'' ''IpBlock'',
    RegisterStruct ''k8s.IscsiPersistentVolumeSource'' ''IscsiPersistentVolumeSource'',
    RegisterStruct ''k8s.IscsiVolumeSource'' ''IscsiVolumeSource'',
    RegisterStruct ''k8s.JobSpec'' ''JobSpec'',
    RegisterStruct ''k8s.JobTemplateSpec'' ''JobTemplateSpec'',
    RegisterStruct ''k8s.JsonSchemaProps'' ''JsonSchemaProps'',
    RegisterStruct ''k8s.KeyToPath'' ''KeyToPath'',
    RegisterClass ''k8s.KubeApiService'' ''KubeApiService''
     [MemberMethod ''addDependency'' ''AddDependency'',
      MemberMethod ''addJsonPatch'' ''AddJsonPatch'', MemberProperty ''apiGroup'' ''ApiGroup'',
      MemberProperty ''apiVersion'' ''ApiVersion'', MemberProperty ''chart'' ''Chart'',
      MemberProperty ''kind'' ''Kind'', MemberProperty ''metadata'' ''Metadata'',
      MemberProperty ''name'' ''Name'', MemberProperty ''node'' ''Node'',
      MemberMethod ''toJson'' ''ToJson'', MemberMethod ''toString'' ''ToString'']
     (NewProxy ''jsiiProxy_KubeApiService'' [''Type__cdk8sApiObject'']),
    RegisterClass ''k8s.KubeApiServiceList'' ''KubeApiServiceList''
     [MemberMethod ''addDependency'' ''AddDependency'',
      MemberMethod ''addJsonPatch'' ''AddJsonPatch'', MemberProperty ''apiGroup'' ''ApiGroup'',
      MemberProperty ''apiVersion'' ''ApiVersion'', MemberProperty ''chart'' ''Chart'',
      MemberProperty ''kind'' ''Kind'', MemberProperty ''metadata'' ''Metadata'',
      MemberProperty ''name'' ''Name'', MemberProperty ''node'' ''Node'',
      MemberMethod ''toJson'' ''ToJson'', MemberMethod ''toString'' ''ToString'']
     (NewProxy ''jsiiProxy_KubeApiServiceList'' [''Type__cdk8sApiObject'']),
    RegisterStruct ''k8s.KubeApiServiceListProps'' ''KubeApiServiceListProps'',
    RegisterStruct ''k8s.KubeApiServiceProps'' ''KubeApiServiceProps'',
    RegisterClass ''k8s.KubeBinding'' ''KubeBinding''
     [MemberMethod ''addDependency'' ''AddDependency'',
      MemberMethod ''addJsonPatch'' ''AddJsonPatch'', MemberProperty ''apiGroup'' ''ApiGroup'',
      MemberProperty ''apiVersion'' ''ApiVersion'', MemberProperty ''chart'' ''Chart'',
      MemberProperty ''kind'' ''Kind'', MemberProperty ''metadata'' ''Metadata'',
      MemberProperty ''name'' ''Name'', MemberProperty ''node'' ''Node'',
      MemberMethod ''toJson'' ''ToJson'', MemberMethod ''toString'' ''ToString'']
     (NewProxy ''jsiiProxy_KubeBinding'' [''Type__cdk8sApiObject'']),
    RegisterStruct ''k8s.KubeBindingProps'' ''KubeBindingProps'']"

lemma init_4_ascends [ascends_checks]: "ascends ''k8s.IoK8SApimachineryPkgApisMetaV1DeleteOptionsKind'' init_4 ''k8s.KubeBindingProps''"
  by (simp add: init_4_def)

lemma init_4_named [named_checks]: "list_all wellNamed init_4"
  by (simp only: init_4_def wellNamed_def table_eval)

lemma init_4_props [props_checks]: "propsIn init_4 init_4"
  by (simp only: init_4_def props_eval)

lemma init_4_made [made_checks]: "list_all wellMade init_4"
  by (simp only: init_4_def made_eval table_eval)

definition init_5 :: "registration list" where
  "init_5 =
   [RegisterClass ''k8s.KubeCertificateSigningRequest'' ''KubeCertificateSigningRequest''
     [MemberMethod ''addDependency'' ''AddDependency'',
      MemberMethod ''addJsonPatch'' ''AddJsonPatch'', MemberProperty ''apiGroup'' ''ApiGroup'',
      MemberProperty ''apiVersion'' ''ApiVersion'', MemberProperty ''chart'' ''Chart'',
      MemberProperty ''kind'' ''Kind'', MemberProperty ''metadata'' ''Metadata'',
      MemberProperty ''name'' ''Name'', MemberProperty ''node'' ''Node'',
      MemberMethod ''toJson'' ''ToJson'', MemberMethod ''toString'' ''ToString'']
     (NewProxy ''jsiiProxy_KubeCertificateSigningRequest'' [''Type__cdk8sApiObject'']),
    RegisterClass ''k8s.KubeCertificateSigningRequestList'' ''KubeCertificateSigningRequestList''
     [MemberMethod ''addDependency'' ''AddDependency'',
      MemberMethod ''addJsonPatch'' ''AddJsonPatch'', MemberProperty ''apiGroup'' ''ApiGroup'',
      MemberProperty ''apiVersion'' ''ApiVersion'', MemberProperty ''chart'' ''Chart'',
      MemberProperty ''kind'' ''Kind'', MemberProperty ''metadata'' ''Metadata'',
      MemberProperty ''name'' ''Name'', MemberProperty ''node'' ''Node'',
      MemberMethod ''toJson'' ''ToJson'', MemberMethod ''toString'' ''ToString'']
     (NewProxy ''jsiiProxy_KubeCertificateSigningRequestList'' [''Type__cdk8sApiObject'']),
    RegisterStruct ''k8s.KubeCertificateSigningRequestListProps'' ''KubeCertificateSigningRequestListProps'',
    RegisterStruct ''k8s.KubeCertificateSigningRequestProps'' ''KubeCertificateSigningRequestProps'',
    RegisterClass ''k8s.KubeClusterCidrListV1Alpha1'' ''KubeClusterCidrListV1Alpha1''
     [MemberMethod ''addDependency'' ''AddDependency'',
      MemberMethod ''addJsonPatch'' ''AddJsonPatch'', MemberProperty ''apiGroup'' ''ApiGroup'',
      MemberProperty ''apiVersion'' ''ApiVersion'', MemberProperty ''chart'' ''Chart'',
      MemberProperty ''kind'' ''Kind'', MemberProperty ''metadata'' ''Metadata'',
      MemberProperty ''name'' ''Name'', MemberProperty ''node'' ''Node'',
      MemberMethod ''toJson'' ''ToJson'', MemberMethod ''toString'' ''ToString'']
     (NewProxy ''jsiiProxy_KubeClusterCidrListV1Alpha1'' [''Type__cdk8sApiObject'']),
    RegisterStruct ''k8s.KubeClusterCidrListV1Alpha1Props'' ''KubeClusterCidrListV1Alpha1Props'',
    RegisterClass ''k8s.KubeClusterCidrv1Alpha1'' ''KubeClusterCidrv1Alpha1''
     [MemberMethod ''addDependency'' ''AddDependency'',
      MemberMethod ''addJsonPatch'' ''AddJsonPatch'', MemberProperty ''apiGroup'' ''ApiGroup'',
      MemberProperty ''apiVersion'' ''ApiVersion'', MemberProperty ''chart'' ''Chart'',
      MemberProperty ''kind'' ''Kind'', MemberProperty ''metadata'' ''Metadata'',
      MemberProperty ''name'' ''Name'', MemberProperty ''node'' ''Node'',
      MemberMethod ''toJson'' ''ToJson'', MemberMethod ''toString'' ''ToString'']
     (NewProxy ''jsiiProxy_KubeClusterCidrv1Alpha1'' [''Type__cdk8sApiObject'']),
    RegisterStruct ''k8s.KubeClusterCidrv1Alpha1Props'' ''KubeClusterCidrv1Alpha1Props'']"

lemma init_5_ascends [ascends_checks]: "ascends ''k8s.KubeBindingProps'' init_5 ''k8s.KubeClusterCidrv1Alpha1Props''"
  by (simp add: init_5_def)

lemma init_5_named [named_checks]: "list_all wellNamed init_5"
  by (simp only: init_5_def wellNamed_def table_eval)

lemma init_5_props [props_checks]: "propsIn init_5 init_5"
  by (simp only: init_5_def props_eval)

lemma init_5_made [made_checks]: "list_all wellMade init_5"
  by (simp only: init_5_def made_eval table_eval)

definition init_6 :: "registration list" where
  "init_6 =
   [RegisterClass ''k8s.KubeClusterRole'' ''KubeClusterRole''
     [MemberMethod ''addDependency'' ''AddDependency'',
      MemberMethod ''addJsonPatch'' ''AddJsonPatch'', MemberProperty ''apiGroup'' ''ApiGroup'',
      MemberProperty ''apiVersion'' ''ApiVersion'', MemberProperty ''chart'' ''Chart'',
      MemberProperty ''kind'' ''Kind'', MemberProperty ''metadata'' ''Metadata'',
      MemberProperty ''name'' ''Name'', MemberProperty ''node'' ''Node'',
      MemberMethod ''toJson'' ''ToJson'', MemberMethod ''toString'' ''ToString'']
     (NewProxy ''jsiiProxy_KubeClusterRole'' [''Type__cdk8sApiObject'']),
    RegisterClass ''k8s.KubeClusterRoleBinding'' ''KubeClusterRoleBinding''
     [MemberMethod ''addDependency'' ''AddDependency'',
      MemberMethod ''addJsonPatch'' ''AddJsonPatch'', MemberProperty ''apiGroup'' ''ApiGroup'',
      MemberProperty ''apiVersion'' ''ApiVersion'', MemberProperty ''chart'' ''Chart'',
      MemberProperty ''kind'' ''Kind'', MemberProperty ''metadata'' ''Metadata'',
      MemberProperty ''name'' ''Name'', MemberProperty ''node'' ''Node'',
      MemberMethod ''toJson'' ''ToJson'', MemberMethod ''toString'' ''ToString'']
     (NewProxy ''jsiiProxy_KubeClusterRoleBinding'' [''Type__cdk8sApiObject'']),
    RegisterClass ''k8s.KubeClusterRoleBindingList'' ''KubeClusterRoleBindingList''
     [MemberMethod ''addDependency'' ''AddDependency'',
      MemberMethod ''addJsonPatch'' ''AddJsonPatch'', MemberProperty ''apiGroup'' ''ApiGroup'',
      MemberProperty ''apiVersion'' ''ApiVersion'', MemberProperty ''chart'' ''Chart'',
      MemberProperty ''kind'' ''Kind'', MemberProperty ''metadata'' ''Metadata'',
      MemberProperty ''name'' ''Name'', MemberProperty ''node'' ''Node'',
      MemberMethod ''toJson'' ''ToJson'', MemberMethod ''toString'' ''ToString'']
     (NewProxy ''jsiiProxy_KubeClusterRoleBindingList'' [''Type__cdk8sApiObject'']),
    RegisterStruct ''k8s.KubeClusterRoleBindingListProps'' ''KubeClusterRoleBindingListProps'',
    RegisterStruct ''k8s.KubeClusterRoleBindingProps'' ''KubeClusterRoleBindingProps'',
    RegisterClass ''k8s.KubeClusterRoleList'' ''KubeClusterRoleList''
     [MemberMethod ''addDependency'' ''AddDependency'',
      MemberMethod ''addJsonPatch'' ''AddJsonPatch'', MemberProperty ''apiGroup'' ''ApiGroup'',
      MemberProperty ''apiVersion'' ''ApiVersion'', MemberProperty ''chart'' ''Chart'',
      MemberProperty ''kind'' ''Kind'', MemberProperty ''metadata'' ''Metadata'',
      MemberProperty ''name'' ''Name'', MemberProperty ''node'' ''Node'',
      MemberMethod ''toJson'' ''ToJson'', MemberMethod ''toString'' ''ToString'']
     (NewProxy ''jsiiProxy_KubeClusterRoleList'' [''Type__cdk8sApiObject'']),
    RegisterStruct ''k8s.KubeClusterRoleListProps'' ''KubeClusterRoleListProps'',
    RegisterStruct ''k8s.KubeClusterRoleProps'' ''KubeClusterRoleProps'']"

lemma init_6_ascends [ascends_checks]: "ascends ''k8s.KubeClusterCidrv1Alpha1Props'' init_6 ''k8s.KubeClusterRoleProps''"
  by (simp add: init_6_def)

lemma init_6_named [named_checks]: "list_all wellNamed init_6"
  by (simp only: init_6_def wellNamed_def table_eval)

lemma init_6_props [props_checks]: "propsIn init_6 init_6"
  by (simp only: init_6_def props_eval)

lemma init_6_made [made_checks]: "list_all wellMade init_6"
  by (simp only: init_6_def made_eval table_eval)

definition init_7 :: "registration list" where
  "init_7 =
   [RegisterClass ''k8s.KubeComponentStatus'' ''KubeComponentStatus''
     [MemberMethod ''addDependency'' ''AddDependency'',
      MemberMethod ''addJsonPatch'' ''AddJsonPatch'', MemberProperty ''apiGroup'' ''ApiGroup'',
      MemberProperty ''apiVersion'' ''ApiVersion'', MemberProperty ''chart'' ''Chart'',
      MemberProperty ''kind'' ''Kind'', MemberProperty ''metadata'' ''Metadata'',
      MemberProperty ''name'' ''Name'', MemberProperty ''node'' ''Node'',
      MemberMethod ''toJson'' ''ToJson'', MemberMethod ''toString'' ''ToString'']
     (NewProxy ''jsiiProxy_KubeComponentStatus'' [''Type__cdk8sApiObject'']),
    RegisterClass ''k8s.KubeComponentStatusList'' ''KubeComponentStatusList''
     [MemberMethod ''addDependency'' ''AddDependency'',
      MemberMethod ''addJsonPatch'' ''AddJsonPatch'', MemberProperty ''apiGroup'' ''ApiGroup'',
      MemberProperty ''apiVersion'' ''ApiVersion'', MemberProperty ''chart'' ''Chart'',
      MemberProperty ''kind'' ''Kind'', MemberProperty ''metadata'' ''Metadata'',
      MemberProperty ''name'' ''Name'', MemberProperty ''node'' ''Node'',
      MemberMethod ''toJson'' ''ToJson'', MemberMethod ''toString'' ''ToString'']
     (NewProxy ''jsiiProxy_KubeComponentStatusList'' [''Type__cdk8sApiObject'']),
    RegisterStruct ''k8s.KubeComponentStatusListProps'' ''KubeComponentStatusListProps'',
    RegisterStruct ''k8s.KubeComponentStatusProps'' ''KubeComponentStatusProps'',
    RegisterClass ''k8s.KubeConfigMap'' ''KubeConfigMap''
     [MemberMethod ''addDependency'' ''AddDependency'',
      MemberMethod ''addJsonPatch'' ''AddJsonPatch'', MemberProperty ''apiGroup'' ''ApiGroup'',
      MemberProperty ''apiVersion'' ''ApiVersion'', MemberProperty ''chart'' ''Chart'',
      MemberProperty ''kind'' ''Kind'', MemberProperty ''metadata'' ''Metadata'',
      MemberProperty ''name'' ''Name'', MemberProperty ''node'' ''Node'',
      MemberMethod ''toJson'' ''ToJson'', MemberMethod ''toString'' ''ToString'']
     (NewProxy ''jsiiProxy_KubeConfigMap'' [''Type__cdk8sApiObject'']),
    RegisterClass ''k8s.KubeConfigMapList'' ''KubeConfigMapList''
     [MemberMethod ''addDependency'' ''AddDependency'',
      MemberMethod ''addJsonPatch'' ''AddJsonPatch'', MemberProperty ''apiGroup'' ''ApiGroup'',
      MemberProperty ''apiVersion'' ''ApiVersion'', MemberProperty ''chart'' ''Chart'',
      MemberProperty ''kind'' ''Kind'', MemberProperty ''metadata'' ''Metadata'',
      MemberProperty ''name'' ''Name'', MemberProperty ''node'' ''Node'',
      MemberMethod ''toJson'' ''ToJson'', MemberMethod ''toString'' ''ToString'']
     (NewProxy ''jsiiProxy_KubeConfigMapList'' [''Type__cdk8sApiObject'']),
    RegisterStruct ''k8s.KubeConfigMapListProps'' ''KubeConfigMapListProps'',
    RegisterStruct ''k8s.KubeConfigMapProps'' ''KubeConfigMapProps'']"

lemma init_7_ascends [ascends_checks]: "ascends ''k8s.KubeClusterRoleProps'' init_7 ''k8s.KubeConfigMapProps''"
  by (simp add: init_7_def)

lemma init_7_named [named_checks]: "list_all wellNamed init_7"
  by (simp only: init_7_def wellNamed_def table_eval)

lemma init_7_props [props_checks]: "propsIn init_7 init_7"
  by (simp only: init_7_def props_eval)

lemma init_7_made [made_checks]: "list_all wellMade init_7"
  by (simp only: init_7_def made_eval table_eval)

definition init_8 :: "registration list" where
  "init_8 =
   [RegisterClass ''k8s.KubeControllerRevision'' ''KubeControllerRevision''
     [MemberMethod ''addDependency'' ''AddDependency'',
      MemberMethod ''addJsonPatch'' ''AddJsonPatch'', MemberProperty ''apiGroup'' ''ApiGroup'',
      MemberProperty ''apiVersion'' ''ApiVersion'', MemberProperty ''chart'' ''Chart'',
      MemberProperty ''kind'' ''Kind'', MemberProperty ''metadata'' ''Metadata'',
      MemberProperty ''name'' ''Name'', MemberProperty ''node'' ''Node'',
      MemberMethod ''toJson'' ''ToJson'', MemberMethod ''toString'' ''ToString'']
     (NewProxy ''jsiiProxy_KubeControllerRevision'' [''Type__cdk8sApiObject'']),
    RegisterClass ''k8s.KubeControllerRevisionList'' ''KubeControllerRevisionList''
     [MemberMethod ''addDependency'' ''AddDependency'',
      MemberMethod ''addJsonPatch'' ''AddJsonPatch'', MemberProperty ''apiGroup'' ''ApiGroup'',
      MemberProperty ''apiVersion'' ''ApiVersion'', MemberProperty ''chart'' ''Chart'',
      MemberProperty ''kind'' ''Kind'', MemberProperty ''metadata'' ''Metadata'',
      MemberProperty ''name'' ''Name'', MemberProperty ''node'' ''Node'',
      MemberMethod ''toJson'' ''ToJson'', MemberMethod ''toString'' ''ToString'']
     (NewProxy ''jsiiProxy_KubeControllerRevisionList'' [''Type__cdk8sApiObject'']),
    RegisterStruct ''k8s.KubeControllerRevisionListProps'' ''KubeControllerRevisionListProps'',
    RegisterStruct ''k8s.KubeControllerRevisionProps'' ''KubeControllerRevisionProps'',
    RegisterClass ''k8s.KubeCronJob'' ''KubeCronJob''
     [MemberMethod ''addDependency'' ''AddDependency'',
      MemberMethod ''addJsonPatch'' ''AddJsonPatch'', MemberProperty ''apiGroup'' ''ApiGroup'',
      MemberProperty ''apiVersion'' ''ApiVersion'', MemberProperty ''chart'' ''Chart'',
      MemberProperty ''kind'' ''Kind'', MemberProperty ''metadata'' ''Metadata'',
      MemberProperty ''name'' ''Name'', MemberProperty ''node'' ''Node'',
      MemberMethod ''toJson'' ''ToJson'', MemberMethod ''toString'' ''ToString'']
     (NewProxy ''jsiiProxy_KubeCronJob'' [''Type__cdk8sApiObject'']),
    RegisterClass ''k8s.KubeCronJobList'' ''KubeCronJobList''
     [MemberMethod ''addDependency'' ''AddDependency'',
      MemberMethod ''addJsonPatch'' ''AddJsonPatch'', MemberProperty ''apiGroup'' ''ApiGroup'',
      MemberProperty ''apiVersion'' ''ApiVersion'', MemberProperty ''chart'' ''Chart'',
      MemberProperty ''kind'' ''Kind'', MemberProperty ''metadata'' ''Metadata'',
      MemberProperty ''name'' ''Name'', MemberProperty ''node'' ''Node'',
      MemberMethod ''toJson'' ''ToJson'', MemberMethod ''toString'' ''ToString'']
     (NewProxy ''jsiiProxy_KubeCronJobList'' [''Type__cdk8sApiObject'']),
    RegisterStruct ''k8s.KubeCronJobListProps'' ''KubeCronJobListProps'',
    RegisterStruct ''k8s.KubeCronJobProps'' ''KubeCronJobProps'']"

lemma init_8_ascends [ascends_checks]: "ascends ''k8s.KubeConfigMapProps'' init_8 ''k8s.KubeCronJobProps''"
  by (simp add: init_8_def)

lemma init_8_named [named_checks]: "list_all wellNamed init_8"
  by (simp only: init_8_def wellNamed_def table_eval)

lemma init_8_props [props_checks]: "propsIn init_8 init_8"
  by (simp only: init_8_def props_eval)

lemma init_8_made [made_checks]: "list_all wellMade init_8"
  by (simp only: init_8_def made_eval table_eval)

definition init_9 :: "registration list" where
  "init_9 =
   [RegisterClass ''k8s.KubeCsiDriver'' ''KubeCsiDriver''
     [MemberMethod ''addDependency'' ''AddDependency'',
      MemberMethod ''addJsonPatch'' ''AddJsonPatch'', MemberProperty ''apiGroup'' ''ApiGroup'',
      MemberProperty ''apiVersion'' ''ApiVersion'', MemberProperty ''chart'' ''Chart'',
      MemberProperty ''kind'' ''Kind'', MemberProperty ''metadata'' ''Metadata'',
      MemberProperty ''name'' ''Name'', MemberProperty ''node'' ''Node'',
      MemberMethod ''toJson'' ''ToJson'', MemberMethod ''toString'' ''ToString'']
     (NewProxy ''jsiiProxy_KubeCsiDriver'' [''Type__cdk8sApiObject'']),
    RegisterClass ''k8s.KubeCsiDriverList'' ''KubeCsiDriverList''
     [MemberMethod ''addDependency'' ''AddDependency'',
      MemberMethod ''addJsonPatch'' ''AddJsonPatch'', MemberProperty ''apiGroup'' ''ApiGroup'',
      MemberProperty ''apiVersion'' ''ApiVersion'', MemberProperty ''chart'' ''Chart'',
      MemberProperty ''kind'' ''Kind'', MemberProperty ''metadata'' ''Metadata'',
      MemberProperty ''name'' ''Name'', MemberProperty ''node'' ''Node'',
      MemberMethod ''toJson'' ''ToJson'', MemberMethod ''toString'' ''ToString'']
     (NewProxy ''jsiiProxy_KubeCsiDriverList'' [''Type__cdk8sApiObject'']),
    RegisterStruct ''k8s.KubeCsiDriverListProps'' ''KubeCsiDriverListProps'',
    RegisterStruct ''k8s.KubeCsiDriverProps'' ''KubeCsiDriverProps'',
    RegisterClass ''k8s.KubeCsiNode'' ''KubeCsiNode''
     [MemberMethod ''addDependency'' ''AddDependency'',
      MemberMethod ''addJsonPatch'' ''AddJsonPatch'', MemberProperty ''apiGroup'' ''ApiGroup'',
      MemberProperty ''apiVersion'' ''ApiVersion'', MemberProperty ''chart'' ''Chart'',
      MemberProperty ''kind'' ''Kind'', MemberProperty ''metadata'' ''Metadata'',
      MemberProperty ''name'' ''Name'', MemberProperty ''node'' ''Node'',
      MemberMethod ''toJson'' ''ToJson'', MemberMethod ''toString'' ''ToString'']
     (NewProxy ''jsiiProxy_KubeCsiNode'' [''Type__cdk8sApiObject'']),
    RegisterClass ''k8s.KubeCsiNodeList'' ''KubeCsiNodeList''
     [MemberMethod ''addDependency'' ''AddDependency'',
      MemberMethod ''addJsonPatch'' ''AddJsonPatch'', MemberProperty ''apiGroup'' ''ApiGroup'',
      MemberProperty ''apiVersion'' ''ApiVersion'', MemberProperty ''chart'' ''Chart'',
      MemberProperty ''kind'' ''Kind'', MemberProperty ''metadata'' ''Metadata'',
      MemberProperty ''name'' ''Name'', MemberProperty ''node'' ''Node'',
      MemberMethod ''toJson'' ''ToJson'', MemberMethod ''toString'' ''ToString'']
     (NewProxy ''jsiiProxy_KubeCsiNodeList'' [''Type__cdk8sApiObject'']),
    RegisterStruct ''k8s.KubeCsiNodeListProps'' ''KubeCsiNodeListProps'',
    RegisterStruct ''k8s.KubeCsiNodeProps'' ''KubeCsiNodeProps'']"

lemma init_9_ascends [ascends_checks]: "ascends ''k8s.KubeCronJobProps'' init_9 ''k8s.KubeCsiNodeProps''"
  by (simp add: init_9_def)

lemma init_9_named [named_checks]: "list_all wellNamed init_9"
  by (simp only: init_9_def wellNamed_def table_eval)

lemma init_9_props [props_checks]: "propsIn init_9 init_9"
  by (simp only: init_9_def props_eval)

lemma init_9_made [made_checks]: "list_all wellMade init_9"
  by (simp only: init_9_def made_eval table_eval)

definition init_10 :: "registration list" where
  "init_10 =
   [RegisterClass ''k8s.KubeCsiStorageCapacity'' ''KubeCsiStorageCapacity''
     [MemberMethod ''addDependency'' ''AddDependency'',
      MemberMethod ''addJsonPatch'' ''AddJsonPatch'', MemberProperty ''apiGroup'' ''ApiGroup'',
      MemberProperty ''apiVersion'' ''ApiVersion'', MemberProperty ''chart'' ''Chart'',
      MemberProperty ''kind'' ''Kind'', MemberProperty ''metadata'' ''Metadata'',
      MemberProperty ''name'' ''Name'', MemberProperty ''node'' ''Node'',
      MemberMethod ''toJson'' ''ToJson'', MemberMethod ''toString'' ''ToString'']
     (NewProxy ''jsiiProxy_KubeCsiStorageCapacity'' [''Type__cdk8sApiObject'']),
    RegisterClass ''k8s.KubeCsiStorageCapacityList'' ''KubeCsiStorageCapacityList''
     [MemberMethod ''addDependency'' ''AddDependency'',
      MemberMethod ''addJsonPatch'' ''AddJsonPatch'', MemberProperty ''apiGroup'' ''ApiGroup'',
      MemberProperty ''apiVersion'' ''ApiVersion'', MemberProperty ''chart'' ''Chart'',
      MemberProperty ''kind'' ''Kind'', MemberProperty ''metadata'' ''Metadata'',
      MemberProperty ''name'' ''Name'', MemberProperty ''node'' ''Node'',
      MemberMethod ''toJson'' ''ToJson'', MemberMethod ''toString'' ''ToString'']
     (NewProxy ''jsiiProxy_KubeCsiStorageCapacityList'' [''Type__cdk8sApiObject'']),
    RegisterStruct ''k8s.KubeCsiStorageCapacityListProps'' ''KubeCsiStorageCapacityListProps'',
    RegisterClass ''k8s.KubeCsiStorageCapacityListV1Beta1'' ''KubeCsiStorageCapacityListV1Beta1''
     [MemberMethod ''addDependency'' ''AddDependency'',
      MemberMethod ''addJsonPatch'' ''AddJsonPatch'', MemberProperty ''apiGroup'' ''ApiGroup'',
      MemberProperty ''apiVersion'' ''ApiVersion'', MemberProperty ''chart'' ''Chart'',
      MemberProperty ''kind'' ''Kind'', MemberProperty ''metadata'' ''Metadata'',
      MemberProperty ''name'' ''Name'', MemberProperty ''node'' ''Node'',
      MemberMethod ''toJson'' ''ToJson'', MemberMethod ''toString'' ''ToString'']
     (NewProxy ''jsiiProxy_KubeCsiStorageCapacityListV1Beta1'' [''Type__cdk8sApiObject'']),
    RegisterStruct ''k8s.KubeCsiStorageCapacityListV1Beta1Props'' ''KubeCsiStorageCapacityListV1Beta1Props'',
    RegisterStruct ''k8s.KubeCsiStorageCapacityProps'' ''KubeCsiStorageCapacityProps'',
    RegisterClass ''k8s.KubeCsiStorageCapacityV1Beta1'' ''KubeCsiStorageCapacityV1Beta1''
     [MemberMethod ''addDependency'' ''AddDependency'',
      MemberMethod ''addJsonPatch'' ''AddJsonPatch'', MemberProperty ''apiGroup'' ''ApiGroup'',
      MemberProperty ''apiVersion'' ''ApiVersion'', MemberProperty ''chart'' ''Chart'',
      MemberProperty ''kind'' ''Kind'', MemberProperty ''metadata'' ''Metadata'',
      MemberProperty ''name'' ''Name'', MemberProperty ''node'' ''Node'',
      MemberMethod ''toJson'' ''ToJson'', MemberMethod ''toString'' ''ToString'']
     (NewProxy ''jsiiProxy_KubeCsiStorageCapacityV1Beta1'' [''Type__cdk8sApiObject'']),
    RegisterStruct ''k8s.KubeCsiStorageCapacityV1Beta1Props'' ''KubeCsiStorageCapacityV1Beta1Props'']"

lemma init_10_ascends [ascends_checks]: "ascends ''k8s.KubeCsiNodeProps'' init_10 ''k8s.KubeCsiStorageCapacityV1Beta1Props''"
  by (simp add: init_10_def)

lemma init_10_named [named_checks]: "list_all wellNamed init_10"
  by (simp only: init_10_def wellNamed_def table_eval)

lemma init_10_props [props_checks]: "propsIn init_10 init_10"
  by (simp only: init_10_def props_eval)

lemma init_10_made [made_checks]: "list_all wellMade init_10"
  by (simp only: init_10_def made_eval table_eval)

end
