(* ===== verification/K8sInitB.thy ===== *)
theory K8sInitB
  imports Registry
begin

text \<open>
  Lines 1186 to 2225 of \<open>examples/cdk8s-sample-deployment/imports/k8s/main.go\<close>: the registrations of the types
  \<open>KubeCustomResourceDefinition\<close> to \<open>KubeNetworkPolicyProps\<close>, in stretches of at most 150 lines, with the evaluation of the checks
  of \<open>Registry\<close> on each.
\<close>

definition init_11 :: "registration list" where
  "init_11 =
   [RegisterClass ''k8s.KubeCustomResourceDefinition'' ''KubeCustomResourceDefinition''
     [MemberMethod ''addDependency'' ''AddDependency'',
      MemberMethod ''addJsonPatch'' ''AddJsonPatch'', MemberProperty ''apiGroup'' ''ApiGroup'',
      MemberProperty ''apiVersion'' ''ApiVersion'', MemberProperty ''chart'' ''Chart'',
      MemberProperty ''kind'' ''Kind'', MemberProperty ''metadata'' ''Metadata'',
      MemberProperty ''name'' ''Name'', MemberProperty ''node'' ''Node'',
      MemberMethod ''toJson'' ''ToJson'', MemberMethod ''toString'' ''ToString'']
     (NewProxy ''jsiiProxy_KubeCustomResourceDefinition'' [''Type__cdk8sApiObject'']),
    RegisterClass ''k8s.KubeCustomResourceDefinitionList'' ''KubeCustomResourceDefinitionList''
     [MemberMethod ''addDependency'' ''AddDependency'',
      MemberMethod ''addJsonPatch'' ''AddJsonPatch'', MemberProperty ''apiGroup'' ''ApiGroup'',
      MemberProperty ''apiVersion'' ''ApiVersion'', MemberProperty ''chart'' ''Chart'',
      MemberProperty ''kind'' ''Kind'', MemberProperty ''metadata'' ''Metadata'',
      MemberProperty ''name'' ''Name'', MemberProperty ''node'' ''Node'',
      MemberMethod ''toJson'' ''ToJson'', MemberMethod ''toString'' ''ToString'']
     (NewProxy ''jsiiProxy_KubeCustomResourceDefinitionList'' [''Type__cdk8sApiObject'']),
    RegisterStruct ''k8s.KubeCustomResourceDefinitionListProps'' ''KubeCustomResourceDefinitionListProps'',
    RegisterStruct ''k8s.KubeCustomResourceDefinitionProps'' ''KubeCustomResourceDefinitionProps'',
    RegisterClass ''k8s.KubeDaemonSet'' ''KubeDaemonSet''
     [MemberMethod ''addDependency'' ''AddDependency'',
      MemberMethod ''addJsonPatch'' ''AddJsonPatch'', MemberProperty ''apiGroup'' ''ApiGroup'',
      MemberProperty ''apiVersion'' ''ApiVersion'', MemberProperty ''chart'' ''Chart'',
      MemberProperty ''kind'' ''Kind'', MemberProperty ''metadata'' ''Metadata'',
      MemberProperty ''name'' ''Name'', MemberProperty ''node'' ''Node'',
      MemberMethod ''toJson'' ''ToJson'', MemberMethod ''toString'' ''ToString'']
     (NewProxy ''jsiiProxy_KubeDaemonSet'' [''Type__cdk8sApiObject'']),
    RegisterClass ''k8s.KubeDaemonSetList'' ''KubeDaemonSetList''
     [MemberMethod ''addDependency'' ''AddDependency'',
      MemberMethod ''addJsonPatch'' ''AddJsonPatch'', MemberProperty ''apiGroup'' ''ApiGroup'',
      MemberProperty ''apiVersion'' ''ApiVersion'', MemberProperty ''chart'' ''Chart'',
      MemberProperty ''kind'' ''Kind'', MemberProperty ''metadata'' ''Metadata'',
      MemberProperty ''name'' ''Name'', MemberProperty ''node'' ''Node'',
      MemberMethod ''toJson'' ''ToJson'', MemberMethod ''toString'' ''ToString'']
     (NewProxy ''jsiiProxy_KubeDaemonSetList'' [''Type__cdk8sApiObject'']),
    RegisterStruct ''k8s.KubeDaemonSetListProps'' ''KubeDaemonSetListProps'',
    RegisterStruct ''k8s.KubeDaemonSetProps'' ''KubeDaemonSetProps'']"

lemma init_11_ascends [ascends_checks]: "ascends ''k8s.KubeCsiStorageCapacityV1Beta1Props'' init_11 ''k8s.KubeDaemonSetProps''"
  by (simp add: init_11_def)

lemma init_11_named [named_checks]: "list_all wellNamed init_11"
  by (simp only: init_11_def wellNamed_def table_eval)

lemma init_11_props [props_checks]: "propsIn init_11 init_11"
  by (simp only: init_11_def props_eval)

lemma init_11_made [made_checks]: "list_all wellMade init_11"
  by (simp only: init_11_def made_eval table_eval)

definition init_12 :: "registration list" where
  "init_12 =
   [RegisterClass ''k8s.KubeDeployment'' ''KubeDeployment''
     [MemberMethod ''addDependency'' ''AddDependency'',
      MemberMethod ''addJsonPatch'' ''AddJsonPatch'', MemberProperty ''apiGroup'' ''ApiGroup'',
      MemberProperty ''apiVersion'' ''ApiVersion'', MemberProperty ''chart'' ''Chart'',
      MemberProperty ''kind'' ''Kind'', MemberProperty ''metadata'' ''Metadata'',
      MemberProperty ''name'' ''Name'', MemberProperty ''node'' ''Node'',
      MemberMethod ''toJson'' ''ToJson'', MemberMethod ''toString'' ''ToString'']
     (NewProxy ''jsiiProxy_KubeDeployment'' [''Type__cdk8sApiObject'']),
    RegisterClass ''k8s.KubeDeploymentList'' ''KubeDeploymentList''
     [MemberMethod ''addDependency'' ''AddDependency'',
      MemberMethod ''addJsonPatch'' ''AddJsonPatch'', MemberProperty ''apiGroup'' ''ApiGroup'',
      MemberProperty ''apiVersion'' ''ApiVersion'', MemberProperty ''chart'' ''Chart'',
      MemberProperty ''kind'' ''Kind'', MemberProperty ''metadata'' ''Metadata'',
      MemberProperty ''name'' ''Name'', MemberProperty ''node'' ''Node'',
      MemberMethod ''toJson'' ''ToJson'', MemberMethod ''toString'' ''ToString'']
     (NewProxy ''jsiiProxy_KubeDeploymentList'' [''Type__cdk8sApiObject'']),
    RegisterStruct ''k8s.KubeDeploymentListProps'' ''KubeDeploymentListProps'',
    RegisterStruct ''k8s.KubeDeploymentProps'' ''KubeDeploymentProps'',
    RegisterClass ''k8s.KubeEndpointSlice'' ''KubeEndpointSlice''
     [MemberMethod ''addDependency'' ''AddDependency'',
      MemberMethod ''addJsonPatch'' ''AddJsonPatch'', MemberProperty ''apiGroup'' ''ApiGroup'',
      MemberProperty ''apiVersion'' ''ApiVersion'', MemberProperty ''chart'' ''Chart'',
      MemberProperty ''kind'' ''Kind'', MemberProperty ''metadata'' ''Metadata'',
      MemberProperty ''name'' ''Name'', MemberProperty ''node'' ''Node'',
      MemberMethod ''toJson'' ''ToJson'', MemberMethod ''toString'' ''ToString'']
     (NewProxy ''jsiiProxy_KubeEndpointSlice'' [''Type__cdk8sApiObject'']),
    RegisterClass ''k8s.KubeEndpointSliceList'' ''KubeEndpointSliceList''
     [MemberMethod ''addDependency'' ''AddDependency'',
      MemberMethod ''addJsonPatch'' ''AddJsonPatch'', MemberProperty ''apiGroup'' ''ApiGroup'',
      MemberProperty ''apiVersion'' ''ApiVersion'', MemberProperty ''chart'' ''Chart'',
      MemberProperty ''kind'' ''Kind'', MemberProperty ''metadata'' ''Metadata'',
      MemberProperty ''name'' ''Name'', MemberProperty ''node'' ''Node'',
      MemberMethod ''toJson'' ''ToJson'', MemberMethod ''toString'' ''ToString'']
     (NewProxy ''jsiiProxy_KubeEndpointSliceList'' [''Type__cdk8sApiObject'']),
    RegisterStruct ''k8s.KubeEndpointSliceListProps'' ''KubeEndpointSliceListProps'',
    RegisterStruct ''k8s.KubeEndpointSliceProps'' ''KubeEndpointSliceProps'']"

lemma init_12_ascends [ascends_checks]: "ascends ''k8s.KubeDaemonSetProps'' init_12 ''k8s.KubeEndpointSliceProps''"
  by (simp add: init_12_def)

lemma init_12_named [named_checks]: "list_all wellNamed init_12"
  by (simp only: init_12_def wellNamed_def table_eval)

lemma init_12_props [props_checks]: "propsIn init_12 init_12"
  by (simp only: init_12_def props_eval)

lemma init_12_made [made_checks]: "list_all wellMade init_12"
  by (simp only: init_12_def made_eval table_eval)

definition init_13 :: "registration list" where
  "init_13 =
   [RegisterClass ''k8s.KubeEndpoints'' ''KubeEndpoints''
     [MemberMethod ''addDependency'' ''AddDependency'',
      MemberMethod ''addJsonPatch'' ''AddJsonPatch'', MemberProperty ''apiGroup'' ''ApiGroup'',
      MemberProperty ''apiVersion'' ''ApiVersion'', MemberProperty ''chart'' ''Chart'',
      MemberProperty ''kind'' ''Kind'', MemberProperty ''metadata'' ''Metadata'',
      MemberProperty ''name'' ''Name'', MemberProperty ''node'' ''Node'',
      MemberMethod ''toJson'' ''ToJson'', MemberMethod ''toString'' ''ToString'']
     (NewProxy ''jsiiProxy_KubeEndpoints'' [''Type__cdk8sApiObject'']),
    RegisterClass ''k8s.KubeEndpointsList'' ''KubeEndpointsList''
     [MemberMethod ''addDependency'' ''AddDependency'',
      MemberMethod ''addJsonPatch'' ''AddJsonPatch'', MemberProperty ''apiGroup'' ''ApiGroup'',
      MemberProperty ''apiVersion'' ''ApiVersion'', MemberProperty ''chart'' ''Chart'',
      MemberProperty ''kind'' ''Kind'', MemberProperty ''metadata'' ''Metadata'',
      MemberProperty ''name'' ''Name'', MemberProperty ''node'' ''Node'',
      MemberMethod ''toJson'' ''ToJson'', MemberMethod ''toString'' ''ToString'']
     (NewProxy ''jsiiProxy_KubeEndpointsList'' [''Type__cdk8sApiObject'']),
    RegisterStruct ''k8s.KubeEndpointsListProps'' ''KubeEndpointsListProps'',
    RegisterStruct ''k8s.KubeEndpointsProps'' ''KubeEndpointsProps'',
    RegisterClass ''k8s.KubeEvent'' ''KubeEvent''
     [MemberMethod ''addDependency'' ''AddDependency'',
      MemberMethod ''addJsonPatch'' ''AddJsonPatch'', MemberProperty ''apiGroup'' ''ApiGroup'',
      MemberProperty ''apiVersion'' ''ApiVersion'', MemberProperty ''chart'' ''Chart'',
      MemberProperty ''kind'' ''Kind'', MemberProperty ''metadata'' ''Metadata'',
      MemberProperty ''name'' ''Name'', MemberProperty ''node'' ''Node'',
      MemberMethod ''toJson'' ''ToJson'', MemberMethod ''toString'' ''ToString'']
     (NewProxy ''jsiiProxy_KubeEvent'' [''Type__cdk8sApiObject'']),
    RegisterClass ''k8s.KubeEventList'' ''KubeEventList''
     [MemberMethod ''addDependency'' ''AddDependency'',
      MemberMethod ''addJsonPatch'' ''AddJsonPatch'', MemberProperty ''apiGroup'' ''ApiGroup'',
      MemberProperty ''apiVersion'' ''ApiVersion'', MemberProperty ''chart'' ''Chart'',
      MemberProperty ''kind'' ''Kind'', MemberProperty ''metadata'' ''Metadata'',
      MemberProperty ''name'' ''Name'', MemberProperty ''node'' ''Node'',
      MemberMethod ''toJson'' ''ToJson'', MemberMethod ''toString'' ''ToString'']
     (NewProxy ''jsiiProxy_KubeEventList'' [''Type__cdk8sApiObject'']),
    RegisterStruct ''k8s.KubeEventListProps'' ''KubeEventListProps'',
    RegisterStruct ''k8s.KubeEventProps'' ''KubeEventProps'',
    RegisterClass ''k8s.KubeEviction'' ''KubeEviction''
     [MemberMethod ''addDependency'' ''AddDependency'',
      MemberMethod ''addJsonPatch'' ''AddJsonPatch'', MemberProperty ''apiGroup'' ''ApiGroup'',
      MemberProperty ''apiVersion'' ''ApiVersion'', MemberProperty ''chart'' ''Chart'',
      MemberProperty ''kind'' ''Kind'', MemberProperty ''metadata'' ''Metadata'',
      MemberProperty ''name'' ''Name'', MemberProperty ''node'' ''Node'',
      MemberMethod ''toJson'' ''ToJson'', MemberMethod ''toString'' ''ToString'']
     (NewProxy ''jsiiProxy_KubeEviction'' [''Type__cdk8sApiObject'']),
    RegisterStruct ''k8s.KubeEvictionProps'' ''KubeEvictionProps'']"

lemma init_13_ascends [ascends_checks]: "ascends ''k8s.KubeEndpointSliceProps'' init_13 ''k8s.KubeEvictionProps''"
  by (simp add: init_13_def)

lemma init_13_named [named_checks]: "list_all wellNamed init_13"
  by (simp only: init_13_def wellNamed_def table_eval)

lemma init_13_props [props_checks]: "propsIn init_13 init_13"
  by (simp only: init_13_def props_eval)

lemma init_13_made [made_checks]: "list_all wellMade init_13"
  by (simp only: init_13_def made_eval table_eval)

definition init_14 :: "registration list" where
  "init_14 =
   [RegisterClass ''k8s.KubeFlowSchemaListV1Beta1'' ''KubeFlowSchemaListV1Beta1''
     [MemberMethod ''addDependency'' ''AddDependency'',
      MemberMethod ''addJsonPatch'' ''AddJsonPatch'', MemberProperty ''apiGroup'' ''ApiGroup'',
      MemberProperty ''apiVersion'' ''ApiVersion'', MemberProperty ''chart'' ''Chart'',
      MemberProperty ''kind'' ''Kind'', MemberProperty ''metadata'' ''Metadata'',
      MemberProperty ''name'' ''Name'', MemberProperty ''node'' ''Node'',
      MemberMethod ''toJson'' ''ToJson'', MemberMethod ''toString'' ''ToString'']
     (NewProxy ''jsiiProxy_KubeFlowSchemaListV1Beta1'' [''Type__cdk8sApiObject'']),
    RegisterStruct ''k8s.KubeFlowSchemaListV1Beta1Props'' ''KubeFlowSchemaListV1Beta1Props'',
    RegisterClass ''k8s.KubeFlowSchemaListV1Beta2'' ''KubeFlowSchemaListV1Beta2''
     [MemberMethod ''addDependency'' ''AddDependency'',
      MemberMethod ''addJsonPatch'' ''AddJsonPatch'', MemberProperty ''apiGroup'' ''ApiGroup'',
      MemberProperty ''apiVersion'' ''ApiVersion'', MemberProperty ''chart'' ''Chart'',
      MemberProperty ''kind'' ''Kind'', MemberProperty ''metadata'' ''Metadata'',
      MemberProperty ''name'' ''Name'', MemberProperty ''node'' ''Node'',
      MemberMethod ''toJson'' ''ToJson'', MemberMethod ''toString'' ''ToString'']
     (NewProxy ''jsiiProxy_KubeFlowSchemaListV1Beta2'' [''Type__cdk8sApiObject'']),
    RegisterStruct ''k8s.KubeFlowSchemaListV1Beta2Props'' ''KubeFlowSchemaListV1Beta2Props'',
    RegisterClass ''k8s.KubeFlowSchemaV1Beta1'' ''KubeFlowSchemaV1Beta1''
     [MemberMethod ''addDependency'' ''AddDependency'',
      MemberMethod ''addJsonPatch'' ''AddJsonPatch'', MemberProperty ''apiGroup'' ''ApiGroup'',
      MemberProperty ''apiVersion'' ''ApiVersion'', MemberProperty ''chart'' ''Chart'',
      MemberProperty ''kind'' ''Kind'', MemberProperty ''metadata'' ''Metadata'',
      MemberProperty ''name'' ''Name'', MemberProperty ''node'' ''Node'',
      MemberMethod ''toJson'' ''ToJson'', MemberMethod ''toString'' ''ToString'']
     (NewProxy ''jsiiProxy_KubeFlowSchemaV1Beta1'' [''Type__cdk8sApiObject'']),
    RegisterStruct ''k8s.KubeFlowSchemaV1Beta1Props'' ''KubeFlowSchemaV1Beta1Props'',
    RegisterClass ''k8s.KubeFlowSchemaV1Beta2'' ''KubeFlowSchemaV1Beta2''
     [MemberMethod ''addDependency'' ''AddDependency'',
      MemberMethod ''addJsonPatch'' ''AddJsonPatch'', MemberProperty ''apiGroup'' ''ApiGroup'',
      MemberProperty ''apiVersion'' ''ApiVersion'', MemberProperty ''chart'' ''Chart'',
      MemberProperty ''kind'' ''Kind'', MemberProperty ''metadata'' ''Metadata'',
      MemberProperty ''name'' ''Name'', MemberProperty ''node'' ''Node'',
      MemberMethod ''toJson'' ''ToJson'', MemberMethod ''toString'' ''ToString'']
     (NewProxy ''jsiiProxy_KubeFlowSchemaV1Beta2'' [''Type__cdk8sApiObject'']),
    RegisterStruct ''k8s.KubeFlowSchemaV1Beta2Props'' ''KubeFlowSchemaV1Beta2Props'']"

lemma init_14_ascends [ascends_checks]: "ascends ''k8s.KubeEvictionProps'' init_14 ''k8s.KubeFlowSchemaV1Beta2Props''"
  by (simp add: init_14_def)

lemma init_14_named [named_checks]: "list_all wellNamed init_14"
  by (simp only: init_14_def wellNamed_def table_eval)

lemma init_14_props [props_checks]: "propsIn init_14 init_14"
  by (simp only: init_14_def props_eval)

lemma init_14_made [made_checks]: "list_all wellMade init_14"
  by (simp only: init_14_def made_eval table_eval)

definition init_15 :: "registration list" where
  "init_15 =
   [RegisterClass ''k8s.KubeHorizontalPodAutoscaler'' ''KubeHorizontalPodAutoscaler''
     [MemberMethod ''addDependency'' ''AddDependency'',
      MemberMethod ''addJsonPatch'' ''AddJsonPatch'', MemberProperty ''apiGroup'' ''ApiGroup'',
      MemberProperty ''apiVersion'' ''ApiVersion'', MemberProperty ''chart'' ''Chart'',
      MemberProperty ''kind'' ''Kind'', MemberProperty ''metadata'' ''Metadata'',
      MemberProperty ''name'' ''Name'', MemberProperty ''node'' ''Node'',
      MemberMethod ''toJson'' ''ToJson'', MemberMethod ''toString'' ''ToString'']
     (NewProxy ''jsiiProxy_KubeHorizontalPodAutoscaler'' [''Type__cdk8sApiObject'']),
    RegisterClass ''k8s.KubeHorizontalPodAutoscalerList'' ''KubeHorizontalPodAutoscalerList''
     [MemberMethod ''addDependency'' ''AddDependency'',
      MemberMethod ''addJsonPatch'' ''AddJsonPatch'', MemberProperty ''apiGroup'' ''ApiGroup'',
      MemberProperty ''apiVersion'' ''ApiVersion'', MemberProperty ''chart'' ''Chart'',
      MemberProperty ''kind'' ''Kind'', MemberProperty ''metadata'' ''Metadata'',
      MemberProperty ''name'' ''Name'', MemberProperty ''node'' ''Node'',
      MemberMethod ''toJson'' ''ToJson'', MemberMethod ''toString'' ''ToString'']
     (NewProxy ''jsiiProxy_KubeHorizontalPodAutoscalerList'' [''Type__cdk8sApiObject'']),
    RegisterStruct ''k8s.KubeHorizontalPodAutoscalerListProps'' ''KubeHorizontalPodAutoscalerListProps'',
    RegisterClass ''k8s.KubeHorizontalPodAutoscalerListV2'' ''KubeHorizontalPodAutoscalerListV2''
     [MemberMethod ''addDependency'' ''AddDependency'',
      MemberMethod ''addJsonPatch'' ''AddJsonPatch'', MemberProperty ''apiGroup'' ''ApiGroup'',
      MemberProperty ''apiVersion'' ''ApiVersion'', MemberProperty ''chart'' ''Chart'',
      MemberProperty ''kind'' ''Kind'', MemberProperty ''metadata'' ''Metadata'',
      MemberProperty ''name'' ''Name'', MemberProperty ''node'' ''Node'',
      MemberMethod ''toJson'' ''ToJson'', MemberMethod ''toString'' ''ToString'']
     (NewProxy ''jsiiProxy_KubeHorizontalPodAutoscalerListV2'' [''Type__cdk8sApiObject'']),
    RegisterClass ''k8s.KubeHorizontalPodAutoscalerListV2Beta2'' ''KubeHorizontalPodAutoscalerListV2Beta2''
     [MemberMethod ''addDependency'' ''AddDependency'',
      MemberMethod ''addJsonPatch'' ''AddJsonPatch'', MemberProperty ''apiGroup'' ''ApiGroup'',
      MemberProperty ''apiVersion'' ''ApiVersion'', MemberProperty ''chart'' ''Chart'',
      MemberProperty ''kind'' ''Kind'', MemberProperty ''metadata'' ''Metadata'',
      MemberProperty ''name'' ''Name'', MemberProperty ''node'' ''Node'',
      MemberMethod ''toJson'' ''ToJson'', MemberMethod ''toString'' ''ToString'']
     (NewProxy ''jsiiProxy_KubeHorizontalPodAutoscalerListV2Beta2'' [''Type__cdk8sApiObject'']),
    RegisterStruct ''k8s.KubeHorizontalPodAutoscalerListV2Beta2Props'' ''KubeHorizontalPodAutoscalerListV2Beta2Props'',
    RegisterStruct ''k8s.KubeHorizontalPodAutoscalerListV2Props'' ''KubeHorizontalPodAutoscalerListV2Props'',
    RegisterStruct ''k8s.KubeHorizontalPodAutoscalerProps'' ''KubeHorizontalPodAutoscalerProps'']"

lemma init_15_ascends [ascends_checks]: "ascends ''k8s.KubeFlowSchemaV1Beta2Props'' init_15 ''k8s.KubeHorizontalPodAutoscalerProps''"
  by (simp add: init_15_def)

lemma init_15_named [named_checks]: "list_all wellNamed init_15"
  by (simp only: init_15_def wellNamed_def table_eval)

lemma init_15_props [props_checks]: "propsIn init_15 init_15"
  by (simp only: init_15_def props_eval)

lemma init_15_made [made_checks]: "list_all wellMade init_15"
  by (simp only: init_15_def made_eval table_eval)

definition init_16 :: "registration list" where
  "init_16 =
   [RegisterClass ''k8s.KubeHorizontalPodAutoscalerV2'' ''KubeHorizontalPodAutoscalerV2''
     [MemberMethod ''addDependency'' ''AddDependency'',
      MemberMethod ''addJsonPatch'' ''AddJsonPatch'', MemberProperty ''apiGroup'' ''ApiGroup'',
      MemberProperty ''apiVersion'' ''ApiVersion'', MemberProperty ''chart'' ''Chart'',
      MemberProperty ''kind'' ''Kind'', MemberProperty ''metadata'' ''Metadata'',
      MemberProperty ''name'' ''Name'', MemberProperty ''node'' ''Node'',
      MemberMethod ''toJson'' ''ToJson'', MemberMethod ''toString'' ''ToString'']
     (NewProxy ''jsiiProxy_KubeHorizontalPodAutoscalerV2'' [''Type__cdk8sApiObject'']),
    RegisterClass ''k8s.KubeHorizontalPodAutoscalerV2Beta2'' ''KubeHorizontalPodAutoscalerV2Beta2''
     [MemberMethod ''addDependency'' ''AddDependency'',
      MemberMethod ''addJsonPatch'' ''AddJsonPatch'', MemberProperty ''apiGroup'' ''ApiGroup'',
      MemberProperty ''apiVersion'' ''ApiVersion'', MemberProperty ''chart'' ''Chart'',
      MemberProperty ''kind'' ''Kind'', MemberProperty ''metadata'' ''Metadata'',
      MemberProperty ''name'' ''Name'', MemberProperty ''node'' ''Node'',
      MemberMethod ''toJson'' ''ToJson'', MemberMethod ''toString'' ''ToString'']
     (NewProxy ''jsiiProxy_KubeHorizontalPodAutoscalerV2Beta2'' [''Type__cdk8sApiObject'']),
    RegisterStruct ''k8s.KubeHorizontalPodAutoscalerV2Beta2Props'' ''KubeHorizontalPodAutoscalerV2Beta2Props'',
    RegisterStruct ''k8s.KubeHorizontalPodAutoscalerV2Props'' ''KubeHorizontalPodAutoscalerV2Props'']"

lemma init_16_ascends [ascends_checks]: "ascends ''k8s.KubeHorizontalPodAutoscalerProps'' init_16 ''k8s.KubeHorizontalPodAutoscalerV2Props''"
  by (simp add: init_16_def)

lemma init_16_named [named_checks]: "list_all wellNamed init_16"
  by (simp only: init_16_def wellNamed_def table_eval)

lemma init_16_props [props_checks]: "propsIn init_16 init_16"
  by (simp only: init_16_def props_eval)

lemma init_16_made [made_checks]: "list_all wellMade init_16"
  by (simp only: init_16_def made_eval table_eval)

definition init_17 :: "registration list" where
  "init_17 =
   [RegisterClass ''k8s.KubeIngress'' ''KubeIngress''
     [MemberMethod ''addDependency'' ''AddDependency'',
      MemberMethod ''addJsonPatch'' ''AddJsonPatch'', MemberProperty ''apiGroup'' ''ApiGroup'',
      MemberProperty ''apiVersion'' ''ApiVersion'', MemberProperty ''chart'' ''Chart'',
      MemberProperty ''kind'' ''Kind'', MemberProperty ''metadata'' ''Metadata'',
      MemberProperty ''name'' ''Name'', MemberProperty ''node'' ''Node'',
      MemberMethod ''toJson'' ''ToJson'', MemberMethod ''toString'' ''ToString'']
     (NewProxy ''jsiiProxy_KubeIngress'' [''Type__cdk8sApiObject'']),
    RegisterClass ''k8s.KubeIngressClass'' ''KubeIngressClass''
     [MemberMethod ''addDependency'' ''AddDependency'',
      MemberMethod ''addJsonPatch'' ''AddJsonPatch'', MemberProperty ''apiGroup'' ''ApiGroup'',
      MemberProperty ''apiVersion'' ''ApiVersion'', MemberProperty ''chart'' ''Chart'',
      MemberProperty ''kind'' ''Kind'', MemberProperty ''metadata'' ''Metadata'',
      MemberProperty ''name'' ''Name'', MemberProperty ''node'' ''Node'',
      MemberMethod ''toJson'' ''ToJson'', MemberMethod ''toString'' ''ToString'']
     (NewProxy ''jsiiProxy_KubeIngressClass'' [''Type__cdk8sApiObject'']),
    RegisterClass ''k8s.KubeIngressClassList'' ''KubeIngressClassList''
     [MemberMethod ''addDependency'' ''AddDependency'',
      MemberMethod ''addJsonPatch'' ''AddJsonPatch'', MemberProperty ''apiGroup'' ''ApiGroup'',
      MemberProperty ''apiVersion'' ''ApiVersion'', MemberProperty ''chart'' ''Chart'',
      MemberProperty ''kind'' ''Kind'', MemberProperty ''metadata'' ''Metadata'',
      MemberProperty ''name'' ''Name'', MemberProperty ''node'' ''Node'',
      MemberMethod ''toJson'' ''ToJson'', MemberMethod ''toString'' ''ToString'']
     (NewProxy ''jsiiProxy_KubeIngressClassList'' [''Type__cdk8sApiObject'']),
    RegisterStruct ''k8s.KubeIngressClassListProps'' ''KubeIngressClassListProps'',
    RegisterStruct ''k8s.KubeIngressClassProps'' ''KubeIngressClassProps'',
    RegisterClass ''k8s.KubeIngressList'' ''KubeIngressList''
     [MemberMethod ''addDependency'' ''AddDependency'',
      MemberMethod ''addJsonPatch'' ''AddJsonPatch'', MemberProperty ''apiGroup'' ''ApiGroup'',
      MemberProperty ''apiVersion'' ''ApiVersion'', MemberProperty ''chart'' ''Chart'',
      MemberProperty ''kind'' ''Kind'', MemberProperty ''metadata'' ''Metadata'',
      MemberProperty ''name'' ''Name'', MemberProperty ''node'' ''Node'',
      MemberMethod ''toJson'' ''ToJson'', MemberMethod ''toString'' ''ToString'']
     (NewProxy ''jsiiProxy_KubeIngressList'' [''Type__cdk8sApiObject'']),
    RegisterStruct ''k8s.KubeIngressListProps'' ''KubeIngressListProps'',
    RegisterStruct ''k8s.KubeIngressProps'' ''KubeIngressProps'']"

lemma init_17_ascends [ascends_checks]: "ascends ''k8s.KubeHorizontalPodAutoscalerV2Props'' init_17 ''k8s.KubeIngressProps''"
  by (simp add: init_17_def)

lemma init_17_named [named_checks]: "list_all wellNamed init_17"
  by (simp only: init_17_def wellNamed_def table_eval)

lemma init_17_props [props_checks]: "propsIn init_17 init_17"
  by (simp only: init_17_def props_eval)

lemma init_17_made [made_checks]: "list_all wellMade init_17"
  by (simp only: init_17_def made_eval table_eval)

definition init_18 :: "registration list" where
  "init_18 =
   [RegisterClass ''k8s.KubeJob'' ''KubeJob''
     [MemberMethod ''addDependency'' ''AddDependency'',
      MemberMethod ''addJsonPatch'' ''AddJsonPatch'', MemberProperty ''apiGroup'' ''ApiGroup'',
      MemberProperty ''apiVersion'' ''ApiVersion'', MemberProperty ''chart'' ''Chart'',
      MemberProperty ''kind'' ''Kind'', MemberProperty ''metadata'' ''Metadata'',
      MemberProperty ''name'' ''Name'', MemberProperty ''node'' ''Node'',
      MemberMethod ''toJson'' ''ToJson'', MemberMethod ''toString'' ''ToString'']
     (NewProxy ''jsiiProxy_KubeJob'' [''Type__cdk8sApiObject'']),
    RegisterClass ''k8s.KubeJobList'' ''KubeJobList''
     [MemberMethod ''addDependency'' ''AddDependency'',
      MemberMethod ''addJsonPatch'' ''AddJsonPatch'', MemberProperty ''apiGroup'' ''ApiGroup'',
      MemberProperty ''apiVersion'' ''ApiVersion'', MemberProperty ''chart'' ''Chart'',
      MemberProperty ''kind'' ''Kind'', MemberProperty ''metadata'' ''Metadata'',
      MemberProperty ''name'' ''Name'', MemberProperty ''node'' ''Node'',
      MemberMethod ''toJson'' ''ToJson'', MemberMethod ''toString'' ''ToString'']
     (NewProxy ''jsiiProxy_KubeJobList'' [''Type__cdk8sApiObject'']),
    RegisterStruct ''k8s.KubeJobListProps'' ''KubeJobListProps'',
    RegisterStruct ''k8s.KubeJobProps'' ''KubeJobProps'',
    RegisterClass ''k8s.KubeLease'' ''KubeLease''
     [MemberMethod ''addDependency'' ''AddDependency'',
      MemberMethod ''addJsonPatch'' ''AddJsonPatch'', MemberProperty ''apiGroup'' ''ApiGroup'',
      MemberProperty ''apiVersion'' ''ApiVersion'', MemberProperty ''chart'' ''Chart'',
      MemberProperty ''kind'' ''Kind'', MemberProperty ''metadata'' ''Metadata'',
      MemberProperty ''name'' ''Name'', MemberProperty ''node'' ''Node'',
      MemberMethod ''toJson'' ''ToJson'', MemberMethod ''toString'' ''ToString'']
     (NewProxy ''jsiiProxy_KubeLease'' [''Type__cdk8sApiObject'']),
    RegisterClass ''k8s.KubeLeaseList'' ''KubeLeaseList''
     [MemberMethod ''addDependency'' ''AddDependency'',
      MemberMethod ''addJsonPatch'' ''AddJsonPatch'', MemberProperty ''apiGroup'' ''ApiGroup'',
      MemberProperty ''apiVersion'' ''ApiVersion'', MemberProperty ''chart'' ''Chart'',
      MemberProperty ''kind'' ''Kind'', MemberProperty ''metadata'' ''Metadata'',
      MemberProperty ''name'' ''Name'', MemberProperty ''node'' ''Node'',
      MemberMethod ''toJson'' ''ToJson'', MemberMethod ''toString'' ''ToString'']
     (NewProxy ''jsiiProxy_KubeLeaseList'' [''Type__cdk8sApiObject'']),
    RegisterStruct ''k8s.KubeLeaseListProps'' ''KubeLeaseListProps'',
    RegisterStruct ''k8s.KubeLeaseProps'' ''KubeLeaseProps'']"

lemma init_18_ascends [ascends_checks]: "ascends ''k8s.KubeIngressProps'' init_18 ''k8s.KubeLeaseProps''"
  by (simp add: init_18_def)

lemma init_18_named [named_checks]: "list_all wellNamed init_18"
  by (simp only: init_18_def wellNamed_def table_eval)

lemma init_18_props [props_checks]: "propsIn init_18 init_18"
  by (simp only: init_18_def props_eval)

lemma init_18_made [made_checks]: "list_all wellMade init_18"
  by (simp only: init_18_def made_eval table_eval)

definition init_19 :: "registration list" where
  "init_19 =
   [RegisterClass ''k8s.KubeLimitRange'' ''KubeLimitRange''
     [MemberMethod ''addDependency'' ''AddDependency'',
      MemberMethod ''addJsonPatch'' ''AddJsonPatch'', MemberProperty ''apiGroup'' ''ApiGroup'',
      MemberProperty ''apiVersion'' ''ApiVersion'', MemberProperty ''chart'' ''Chart'',
      MemberProperty ''kind'' ''Kind'', MemberProperty ''metadata'' ''Metadata'',
      MemberProperty ''name'' ''Name'', MemberProperty ''node'' ''Node'',
      MemberMethod ''toJson'' ''ToJson'', MemberMethod ''toString'' ''ToString'']
     (NewProxy ''jsiiProxy_KubeLimitRange'' [''Type__cdk8sApiObject'']),
    RegisterClass ''k8s.KubeLimitRangeList'' ''KubeLimitRangeList''
     [MemberMethod ''addDependency'' ''AddDependency'',
      MemberMethod ''addJsonPatch'' ''AddJsonPatch'', MemberProperty ''apiGroup'' ''ApiGroup'',
      MemberProperty ''apiVersion'' ''ApiVersion'', MemberProperty ''chart'' ''Chart'',
      MemberProperty ''kind'' ''Kind'', MemberProperty ''metadata'' ''Metadata'',
      MemberProperty ''name'' ''Name'', MemberProperty ''node'' ''Node'',
      MemberMethod ''toJson'' ''ToJson'', MemberMethod ''toString'' ''ToString'']
     (NewProxy ''jsiiProxy_KubeLimitRangeList'' [''Type__cdk8sApiObject'']),
    RegisterStruct ''k8s.KubeLimitRangeListProps'' ''KubeLimitRangeListProps'',
    RegisterStruct ''k8s.KubeLimitRangeProps'' ''KubeLimitRangeProps'',
    RegisterClass ''k8s.KubeLocalSubjectAccessReview'' ''KubeLocalSubjectAccessReview''
     [MemberMethod ''addDependency'' ''AddDependency'',
      MemberMethod ''addJsonPatch'' ''AddJsonPatch'', MemberProperty ''apiGroup'' ''ApiGroup'',
      MemberProperty ''apiVersion'' ''ApiVersion'', MemberProperty ''chart'' ''Chart'',
      MemberProperty ''kind'' ''Kind'', MemberProperty ''metadata'' ''Metadata'',
      MemberProperty ''name'' ''Name'', MemberProperty ''node'' ''Node'',
      MemberMethod ''toJson'' ''ToJson'', MemberMethod ''toString'' ''ToString'']
     (NewProxy ''jsiiProxy_KubeLocalSubjectAccessReview'' [''Type__cdk8sApiObject'']),
    RegisterStruct ''k8s.KubeLocalSubjectAccessReviewProps'' ''KubeLocalSubjectAccessReviewProps'',
    RegisterClass ''k8s.KubeMutatingWebhookConfiguration'' ''KubeMutatingWebhookConfiguration''
     [MemberMethod ''addDependency'' ''AddDependency'',
      MemberMethod ''addJsonPatch'' ''AddJsonPatch'', MemberProperty ''apiGroup'' ''ApiGroup'',
      MemberProperty ''apiVersion'' ''ApiVersion'', MemberProperty ''chart'' ''Chart'',
      MemberProperty ''kind'' ''Kind'', MemberProperty ''metadata'' ''Metadata'',
      MemberProperty ''name'' ''Name'', MemberProperty ''node'' ''Node'',
      MemberMethod ''toJson'' ''ToJson'', MemberMethod ''toString'' ''ToString'']
     (NewProxy ''jsiiProxy_KubeMutatingWebhookConfiguration'' [''Type__cdk8sApiObject'']),
    RegisterClass ''k8s.KubeMutatingWebhookConfigurationList'' ''KubeMutatingWebhookConfigurationList''
     [MemberMethod ''addDependency'' ''AddDependency'',
      MemberMethod ''addJsonPatch'' ''AddJsonPatch'', MemberProperty ''apiGroup'' ''ApiGroup'',
      MemberProperty ''apiVersion'' ''ApiVersion'', MemberProperty ''chart'' ''Chart'',
      MemberProperty ''kind'' ''Kind'', MemberProperty ''metadata'' ''Metadata'',
      MemberProperty ''name'' ''Name'', MemberProperty ''node'' ''Node'',
      MemberMethod ''toJson'' ''ToJson'', MemberMethod ''toString'' ''ToString'']
     (NewProxy ''jsiiProxy_KubeMutatingWebhookConfigurationList'' [''Type__cdk8sApiObject'']),
    RegisterStruct ''k8s.KubeMutatingWebhookConfigurationListProps'' ''KubeMutatingWebhookConfigurationListProps'',
    RegisterStruct ''k8s.KubeMutatingWebhookConfigurationProps'' ''KubeMutatingWebhookConfigurationProps'']"

lemma init_19_ascends [ascends_checks]: "ascends ''k8s.KubeLeaseProps'' init_19 ''k8s.KubeMutatingWebhookConfigurationProps''"
  by (simp add: init_19_def)

lemma init_19_named [named_checks]: "list_all wellNamed init_19"
  by (simp only: init_19_def wellNamed_def table_eval)

lemma init_19_props [props_checks]: "propsIn init_19 init_19"
  by (simp only: init_19_def props_eval)

lemma init_19_made [made_checks]: "list_all wellMade init_19"
  by (simp only: init_19_def made_eval table_eval)

definition init_20 :: "registration list" where
  "init_20 =
   [RegisterClass ''k8s.KubeNamespace'' ''KubeNamespace''
     [MemberMethod ''addDependency'' ''AddDependency'',
      MemberMethod ''addJsonPatch'' ''AddJsonPatch'', MemberProperty ''apiGroup'' ''ApiGroup'',
      MemberProperty ''apiVersion'' ''ApiVersion'', MemberProperty ''chart'' ''Chart'',
      MemberProperty ''kind'' ''Kind'', MemberProperty ''metadata'' ''Metadata'',
      MemberProperty ''name'' ''Name'', MemberProperty ''node'' ''Node'',
      MemberMethod ''toJson'' ''ToJson'', MemberMethod ''toString'' ''ToString'']
     (NewProxy ''jsiiProxy_KubeNamespace'' [''Type__cdk8sApiObject'']),
    RegisterClass ''k8s.KubeNamespaceList'' ''KubeNamespaceList''
     [MemberMethod ''addDependency'' ''AddDependency'',
      MemberMethod ''addJsonPatch'' ''AddJsonPatch'', MemberProperty ''apiGroup'' ''ApiGroup'',
      MemberProperty ''apiVersion'' ''ApiVersion'', MemberProperty ''chart'' ''Chart'',
      MemberProperty ''kind'' ''Kind'', MemberProperty ''metadata'' ''Metadata'',
      MemberProperty ''name'' ''Name'', MemberProperty ''node'' ''Node'',
      MemberMethod ''toJson'' ''ToJson'', MemberMethod ''toString'' ''ToString'']
     (NewProxy ''jsiiProxy_KubeNamespaceList'' [''Type__cdk8sApiObject'']),
    RegisterStruct ''k8s.KubeNamespaceListProps'' ''KubeNamespaceListProps'',
    RegisterStruct ''k8s.KubeNamespaceProps'' ''KubeNamespaceProps'',
    RegisterClass ''k8s.KubeNetworkPolicy'' ''KubeNetworkPolicy''
     [MemberMethod ''addDependency'' ''AddDependency'',
      MemberMethod ''addJsonPatch'' ''AddJsonPatch'', MemberProperty ''apiGroup'' ''ApiGroup'',
      MemberProperty ''apiVersion'' ''ApiVersion'', MemberProperty ''chart'' ''Chart'',
      MemberProperty ''kind'' ''Kind'', MemberProperty ''metadata'' ''Metadata'',
      MemberProperty ''name'' ''Name'', MemberProperty ''node'' ''Node'',
      MemberMethod ''toJson'' ''ToJson'', MemberMethod ''toString'' ''ToString'']
     (NewProxy ''jsiiProxy_KubeNetworkPolicy'' [''Type__cdk8sApiObject'']),
    RegisterClass ''k8s.KubeNetworkPolicyList'' ''KubeNetworkPolicyList''
     [MemberMethod ''addDependency'' ''AddDependency'',
      MemberMethod ''addJsonPatch'' ''AddJsonPatch'', MemberProperty ''apiGroup'' ''ApiGroup'',
      MemberProperty ''apiVersion'' ''ApiVersion'', MemberProperty ''chart'' ''Chart'',
      MemberProperty ''kind'' ''Kind'', MemberProperty ''metadata'' ''Metadata'',
      MemberProperty ''name'' ''Name'', MemberProperty ''node'' ''Node'',
      MemberMethod ''toJson'' ''ToJson'', MemberMethod ''toString'' ''ToString'']
     (NewProxy ''jsiiProxy_KubeNetworkPolicyList'' [''Type__cdk8sApiObject'']),
    RegisterStruct ''k8s.KubeNetworkPolicyListProps'' ''KubeNetworkPolicyListProps'',
    RegisterStruct ''k8s.KubeNetworkPolicyProps'' ''KubeNetworkPolicyProps'']"

lemma init_20_ascends [ascends_checks]: "ascends ''k8s.KubeMutatingWebhookConfigurationProps'' init_20 ''k8s.KubeNetworkPolicyProps''"
  by (simp add: init_20_def)

lemma init_20_named [named_checks]: "list_all wellNamed init_20"
  by (simp only: init_20_def wellNamed_def table_eval)

lemma init_20_props [props_checks]: "propsIn init_20 init_20"
  by (simp only: init_20_def props_eval)

lemma init_20_made [made_checks]: "list_all wellMade init_20"
  by (simp only: init_20_def made_eval table_eval)

end
