(* ===== verification/K8sInitC.thy ===== *)
theory K8sInitC
  imports Registry
begin

text \<open>
  Lines 2226 to 3135 of \<open>examples/cdk8s-sample-deployment/imports/k8s/main.go\<close>: the registrations of the types
  \<open>KubeNode\<close> to \<open>KubeSelfSubjectRulesReviewProps\<close>, in stretches of at most 150 lines, with the evaluation of the checks
  of \<open>Registry\<close> on each.
\<close>

definition init_21 :: "registration list" where
  "init_21 =
   [RegisterClass ''k8s.KubeNode'' ''KubeNode''
     [MemberMethod ''addDependency'' ''AddDependency'',
      MemberMethod ''addJsonPatch'' ''AddJsonPatch'', MemberProperty ''apiGroup'' ''ApiGroup'',
      MemberProperty ''apiVersion'' ''ApiVersion'', MemberProperty ''chart'' ''Chart'',
      MemberProperty ''kind'' ''Kind'', MemberProperty ''metadata'' ''Metadata'',
      MemberProperty ''name'' ''Name'', MemberProperty ''node'' ''Node'',
      MemberMethod ''toJson'' ''ToJson'', MemberMethod ''toString'' ''ToString'']
     (NewProxy ''jsiiProxy_KubeNode'' [''Type__cdk8sApiObject'']),
    RegisterClass ''k8s.KubeNodeList'' ''KubeNodeList''
     [MemberMethod ''addDependency'' ''AddDependency'',
      MemberMethod ''addJsonPatch'' ''AddJsonPatch'', MemberProperty ''apiGroup'' ''ApiGroup'',
      MemberProperty ''apiVersion'' ''ApiVersion'', MemberProperty ''chart'' ''Chart'',
      MemberProperty ''kind'' ''Kind'', MemberProperty ''metadata'' ''Metadata'',
      MemberProperty ''name'' ''Name'', MemberProperty ''node'' ''Node'',
      MemberMethod ''toJson'' ''ToJson'', MemberMethod ''toString'' ''ToString'']
     (NewProxy ''jsiiProxy_KubeNodeList'' [''Type__cdk8sApiObject'']),
    RegisterStruct ''k8s.KubeNodeListProps'' ''KubeNodeListProps'',
    RegisterStruct ''k8s.KubeNodeProps'' ''KubeNodeProps'']"

lemma init_21_ascends [ascends_checks]: "ascends ''k8s.KubeNetworkPolicyProps'' init_21 ''k8s.KubeNodeProps''"
  by (simp add: init_21_def)

lemma init_21_named [named_checks]: "list_all wellNamed init_21"
  by (simp only: init_21_def wellNamed_def table_eval)

lemma init_21_props [props_checks]: "propsIn init_21 init_21"
  by (simp only: init_21_def props_eval)

lemma init_21_made [made_checks]: "list_all wellMade init_21"
  by (simp only: init_21_def made_eval table_eval)

definition init_22 :: "registration list" where
  "init_22 =
   [RegisterClass ''k8s.KubePersistentVolume'' ''KubePersistentVolume''
     [MemberMethod ''addDependency'' ''AddDependency'',
      MemberMethod ''addJsonPatch'' ''AddJsonPatch'', MemberProperty ''apiGroup'' ''ApiGroup'',
      MemberProperty ''apiVersion'' ''ApiVersion'', MemberProperty ''chart'' ''Chart'',
      MemberProperty ''kind'' ''Kind'', MemberProperty ''metadata'' ''Metadata'',
      MemberProperty ''name'' ''Name'', MemberProperty ''node'' ''Node'',
      MemberMethod ''toJson'' ''ToJson'', MemberMethod ''toString'' ''ToString'']
     (NewProxy ''jsiiProxy_KubePersistentVolume'' [''Type__cdk8sApiObject'']),
    RegisterClass ''k8s.KubePersistentVolumeClaim'' ''KubePersistentVolumeClaim''
     [MemberMethod ''addDependency'' ''AddDependency'',
      MemberMethod ''addJsonPatch'' ''AddJsonPatch'', MemberProperty ''apiGroup'' ''ApiGroup'',
      MemberProperty ''apiVersion'' ''ApiVersion'', MemberProperty ''chart'' ''Chart'',
      MemberProperty ''kind'' ''Kind'', MemberProperty ''metadata'' ''Metadata'',
      MemberProperty ''name'' ''Name'', MemberProperty ''node'' ''Node'',
      MemberMethod ''toJson'' ''ToJson'', MemberMethod ''toString'' ''ToString'']
     (NewProxy ''jsiiProxy_KubePersistentVolumeClaim'' [''Type__cdk8sApiObject'']),
    RegisterClass ''k8s.KubePersistentVolumeClaimList'' ''KubePersistentVolumeClaimList''
     [MemberMethod ''addDependency'' ''AddDependency'',
      MemberMethod ''addJsonPatch'' ''AddJsonPatch'', MemberProperty ''apiGroup'' ''ApiGroup'',
      MemberProperty ''apiVersion'' ''ApiVersion'', MemberProperty ''chart'' ''Chart'',
      MemberProperty ''kind'' ''Kind'', MemberProperty ''metadata'' ''Metadata'',
      MemberProperty ''name'' ''Name'', MemberProperty ''node'' ''Node'',
      MemberMethod ''toJson'' ''ToJson'', MemberMethod ''toString'' ''ToString'']
     (NewProxy ''jsiiProxy_KubePersistentVolumeClaimList'' [''Type__cdk8sApiObject'']),
    RegisterStruct ''k8s.KubePersistentVolumeClaimListProps'' ''KubePersistentVolumeClaimListProps'',
    RegisterStruct ''k8s.KubePersistentVolumeClaimProps'' ''KubePersistentVolumeClaimProps'',
    RegisterClass ''k8s.KubePersistentVolumeList'' ''KubePersistentVolumeList''
     [MemberMethod ''addDependency'' ''AddDependency'',
      MemberMethod ''addJsonPatch'' ''AddJsonPatch'', MemberProperty ''apiGroup'' ''ApiGroup'',
      MemberProperty ''apiVersion'' ''ApiVersion'', MemberProperty ''chart'' ''Chart'',
      MemberProperty ''kind'' ''Kind'', MemberProperty ''metadata'' ''Metadata'',
      MemberProperty ''name'' ''Name'', MemberProperty ''node'' ''Node'',
      MemberMethod ''toJson'' ''ToJson'', MemberMethod ''toString'' ''ToString'']
     (NewProxy ''jsiiProxy_KubePersistentVolumeList'' [''Type__cdk8sApiObject'']),
    RegisterStruct ''k8s.KubePersistentVolumeListProps'' ''KubePersistentVolumeListProps'',
    RegisterStruct ''k8s.KubePersistentVolumeProps'' ''KubePersistentVolumeProps'']"

lemma init_22_ascends [ascends_checks]: "ascends ''k8s.KubeNodeProps'' init_22 ''k8s.KubePersistentVolumeProps''"
  by (simp add: init_22_def)

lemma init_22_named [named_checks]: "list_all wellNamed init_22"
  by (simp only: init_22_def wellNamed_def table_eval)

lemma init_22_props [props_checks]: "propsIn init_22 init_22"
  by (simp only: init_22_def props_eval)

lemma init_22_made [made_checks]: "list_all wellMade init_22"
  by (simp only: init_22_def made_eval table_eval)

definition init_23 :: "registration list" where
  "init_23 =
   [RegisterClass ''k8s.KubePod'' ''KubePod''
     [MemberMethod ''addDependency'' ''AddDependency'',
      MemberMethod ''addJsonPatch'' ''AddJsonPatch'', MemberProperty ''apiGroup'' ''ApiGroup'',
      MemberProperty ''apiVersion'' ''ApiVersion'', MemberProperty ''chart'' ''Chart'',
      MemberProperty ''kind'' ''Kind'', MemberProperty ''metadata'' ''Metadata'',
      MemberProperty ''name'' ''Name'', MemberProperty ''node'' ''Node'',
      MemberMethod ''toJson'' ''ToJson'', MemberMethod ''toString'' ''ToString'']
     (NewProxy ''jsiiProxy_KubePod'' [''Type__cdk8sApiObject'']),
    RegisterClass ''k8s.KubePodDisruptionBudget'' ''KubePodDisruptionBudget''
     [MemberMethod ''addDependency'' ''AddDependency'',
      MemberMethod ''addJsonPatch'' ''AddJsonPatch'', MemberProperty ''apiGroup'' ''ApiGroup'',
      MemberProperty ''apiVersion'' ''ApiVersion'', MemberProperty ''chart'' ''Chart'',
      MemberProperty ''kind'' ''Kind'', MemberProperty ''metadata'' ''Metadata'',
      MemberProperty ''name'' ''Name'', MemberProperty ''node'' ''Node'',
      MemberMethod ''toJson'' ''ToJson'', MemberMethod ''toString'' ''ToString'']
     (NewProxy ''jsiiProxy_KubePodDisruptionBudget'' [''Type__cdk8sApiObject'']),
    RegisterClass ''k8s.KubePodDisruptionBudgetList'' ''KubePodDisruptionBudgetList''
     [MemberMethod ''addDependency'' ''AddDependency'',
      MemberMethod ''addJsonPatch'' ''AddJsonPatch'', MemberProperty ''apiGroup'' ''ApiGroup'',
      MemberProperty ''apiVersion'' ''ApiVersion'', MemberProperty ''chart'' ''Chart'',
      MemberProperty ''kind'' ''Kind'', MemberProperty ''metadata'' ''Metadata'',
      MemberProperty ''name'' ''Name'', MemberProperty ''node'' ''Node'',
      MemberMethod ''toJson'' ''ToJson'', MemberMethod ''toString'' ''ToString'']
     (NewProxy ''jsiiProxy_KubePodDisruptionBudgetList'' [''Type__cdk8sApiObject'']),
    RegisterStruct ''k8s.KubePodDisruptionBudgetListProps'' ''KubePodDisruptionBudgetListProps'',
    RegisterStruct ''k8s.KubePodDisruptionBudgetProps'' ''KubePodDisruptionBudgetProps'',
    RegisterClass ''k8s.KubePodList'' ''KubePodList''
     [MemberMethod ''addDependency'' ''AddDependency'',
      MemberMethod ''addJsonPatch'' ''AddJsonPatch'', MemberProperty ''apiGroup'' ''ApiGroup'',
      MemberProperty ''apiVersion'' ''ApiVersion'', MemberProperty ''chart'' ''Chart'',
      MemberProperty ''kind'' ''Kind'', MemberProperty ''metadata'' ''Metadata'',
      MemberProperty ''name'' ''Name'', MemberProperty ''node'' ''Node'',
      MemberMethod ''toJson'' ''ToJson'', MemberMethod ''toString'' ''ToString'']
     (NewProxy ''jsiiProxy_KubePodList'' [''Type__cdk8sApiObject'']),
    RegisterStruct ''k8s.KubePodListProps'' ''KubePodListProps'',
    RegisterStruct ''k8s.KubePodProps'' ''KubePodProps'']"

lemma init_23_ascends [ascends_checks]: "ascends ''k8s.KubePersistentVolumeProps'' init_23 ''k8s.KubePodProps''"
  by (simp add: init_23_def)

lemma init_23_named [named_checks]: "list_all wellNamed init_23"
  by (simp only: init_23_def wellNamed_def table_eval)

lemma init_23_props [props_checks]: "propsIn init_23 init_23"
  by (simp only: init_23_def props_eval)

lemma init_23_made [made_checks]: "list_all wellMade init_23"
  by (simp only: init_23_def made_eval table_eval)

definition init_24 :: "registration list" where
  "init_24 =
   [RegisterClass ''k8s.KubePodTemplate'' ''KubePodTemplate''
     [MemberMethod ''addDependency'' ''AddDependency'',
      MemberMethod ''addJsonPatch'' ''AddJsonPatch'', MemberProperty ''apiGroup'' ''ApiGroup'',
      MemberProperty ''apiVersion'' ''ApiVersion'', MemberProperty ''chart'' ''Chart'',
      MemberProperty ''kind'' ''Kind'', MemberProperty ''metadata'' ''Metadata'',
      MemberProperty ''name'' ''Name'', MemberProperty ''node'' ''Node'',
      MemberMethod ''toJson'' ''ToJson'', MemberMethod ''toString'' ''ToString'']
     (NewProxy ''jsiiProxy_KubePodTemplate'' [''Type__cdk8sApiObject'']),
    RegisterClass ''k8s.KubePodTemplateList'' ''KubePodTemplateList''
     [MemberMethod ''addDependency'' ''AddDependency'',
      MemberMethod ''addJsonPatch'' ''AddJsonPatch'', MemberProperty ''apiGroup'' ''ApiGroup'',
      MemberProperty ''apiVersion'' ''ApiVersion'', MemberProperty ''chart'' ''Chart'',
      MemberProperty ''kind'' ''Kind'', MemberProperty ''metadata'' ''Metadata'',
      MemberProperty ''name'' ''Name'', MemberProperty ''node'' ''Node'',
      MemberMethod ''toJson'' ''ToJson'', MemberMethod ''toString'' ''ToString'']
     (NewProxy ''jsiiProxy_KubePodTemplateList'' [''Type__cdk8sApiObject'']),
    RegisterStruct ''k8s.KubePodTemplateListProps'' ''KubePodTemplateListProps'',
    RegisterStruct ''k8s.KubePodTemplateProps'' ''KubePodTemplateProps'',
    RegisterClass ''k8s.KubePriorityClass'' ''KubePriorityClass''
     [MemberMethod ''addDependency'' ''AddDependency'',
      MemberMethod ''addJsonPatch'' ''AddJsonPatch'', MemberProperty ''apiGroup'' ''ApiGroup'',
      MemberProperty ''apiVersion'' ''ApiVersion'', MemberProperty ''chart'' ''Chart'',
      MemberProperty ''kind'' ''Kind'', MemberProperty ''metadata'' ''Metadata'',
      MemberProperty ''name'' ''Name'', MemberProperty ''node'' ''Node'',
      MemberMethod ''toJson'' ''ToJson'', MemberMethod ''toString'' ''ToString'']
     (NewProxy ''jsiiProxy_KubePriorityClass'' [''Type__cdk8sApiObject'']),
    RegisterClass ''k8s.KubePriorityClassList'' ''KubePriorityClassList''
     [MemberMethod ''addDependency'' ''AddDependency'',
      MemberMethod ''addJsonPatch'' ''AddJsonPatch'', MemberProperty ''apiGroup'' ''ApiGroup'',
      MemberProperty ''apiVersion'' ''ApiVersion'', MemberProperty ''chart'' ''Chart'',
      MemberProperty ''kind'' ''Kind'', MemberProperty ''metadata'' ''Metadata'',
      MemberProperty ''name'' ''Name'', MemberProperty ''node'' ''Node'',
      MemberMethod ''toJson'' ''ToJson'', MemberMethod ''toString'' ''ToString'']
     (NewProxy ''jsiiProxy_KubePriorityClassList'' [''Type__cdk8sApiObject'']),
    RegisterStruct ''k8s.KubePriorityClassListProps'' ''KubePriorityClassListProps'',
    RegisterStruct ''k8s.KubePriorityClassProps'' ''KubePriorityClassProps'',
    RegisterClass ''k8s.KubePriorityLevelConfigurationListV1Beta1'' ''KubePriorityLevelConfigurationListV1Beta1''
     [MemberMethod ''addDependency'' ''AddDependency'',
      MemberMethod ''addJsonPatch'' ''AddJsonPatch'', MemberProperty ''apiGroup'' ''ApiGroup'',
      MemberProperty ''apiVersion'' ''ApiVersion'', MemberProperty ''chart'' ''Chart'',
      MemberProperty ''kind'' ''Kind'', MemberProperty ''metadata'' ''Metadata'',
      MemberProperty ''name'' ''Name'', MemberProperty ''node'' ''Node'',
      MemberMethod ''toJson'' ''ToJson'', MemberMethod ''toString'' ''ToString'']
     (NewProxy ''jsiiProxy_KubePriorityLevelConfigurationListV1Beta1'' [''Type__cdk8sApiObject'']),
    RegisterStruct ''k8s.KubePriorityLevelConfigurationListV1Beta1Props'' ''KubePriorityLevelConfigurationListV1Beta1Props'']"

lemma init_24_ascends [ascends_checks]: "ascends ''k8s.KubePodProps'' init_24 ''k8s.KubePriorityLevelConfigurationListV1Beta1Props''"
  by (simp add: init_24_def)

lemma init_24_named [named_checks]: "list_all wellNamed init_24"
  by (simp only: init_24_def wellNamed_def table_eval)

lemma init_24_props [props_checks]: "propsIn init_24 init_24"
  by (simp only: init_24_def props_eval)

lemma init_24_made [made_checks]: "list_all wellMade init_24"
  by (simp only: init_24_def made_eval table_eval)

definition init_25 :: "registration list" where
  "init_25 =
   [RegisterClass ''k8s.KubePriorityLevelConfigurationListV1Beta2'' ''KubePriorityLevelConfigurationListV1Beta2''
     [MemberMethod ''addDependency'' ''AddDependency'',
      MemberMethod ''addJsonPatch'' ''AddJsonPatch'', MemberProperty ''apiGroup'' ''ApiGroup'',
      MemberProperty ''apiVersion'' ''ApiVersion'', MemberProperty ''chart'' ''Chart'',
      MemberProperty ''kind'' ''Kind'', MemberProperty ''metadata'' ''Metadata'',
      MemberProperty ''name'' ''Name'', MemberProperty ''node'' ''Node'',
      MemberMethod ''toJson'' ''ToJson'', MemberMethod ''toString'' ''ToString'']
     (NewProxy ''jsiiProxy_KubePriorityLevelConfigurationListV1Beta2'' [''Type__cdk8sApiObject'']),
    RegisterStruct ''k8s.KubePriorityLevelConfigurationListV1Beta2Props'' ''KubePriorityLevelConfigurationListV1Beta2Props'',
    RegisterClass ''k8s.KubePriorityLevelConfigurationV1Beta1'' ''KubePriorityLevelConfigurationV1Beta1''
     [MemberMethod ''addDependency'' ''AddDependency'',
      MemberMethod ''addJsonPatch'' ''AddJsonPatch'', MemberProperty ''apiGroup'' ''ApiGroup'',
      MemberProperty ''apiVersion'' ''ApiVersion'', MemberProperty ''chart'' ''Chart'',
      MemberProperty ''kind'' ''Kind'', MemberProperty ''metadata'' ''Metadata'',
      MemberProperty ''name'' ''Name'', MemberProperty ''node'' ''Node'',
      MemberMethod ''toJson'' ''ToJson'', MemberMethod ''toString'' ''ToString'']
     (NewProxy ''jsiiProxy_KubePriorityLevelConfigurationV1Beta1'' [''Type__cdk8sApiObject'']),
    RegisterStruct ''k8s.KubePriorityLevelConfigurationV1Beta1Props'' ''KubePriorityLevelConfigurationV1Beta1Props'',
    RegisterClass ''k8s.KubePriorityLevelConfigurationV1Beta2'' ''KubePriorityLevelConfigurationV1Beta2''
     [MemberMethod ''addDependency'' ''AddDependency'',
      MemberMethod ''addJsonPatch'' ''AddJsonPatch'', MemberProperty ''apiGroup'' ''ApiGroup'',
      MemberProperty ''apiVersion'' ''ApiVersion'', MemberProperty ''chart'' ''Chart'',
      MemberProperty ''kind'' ''Kind'', MemberProperty ''metadata'' ''Metadata'',
      MemberProperty ''name'' ''Name'', MemberProperty ''node'' ''Node'',
      MemberMethod ''toJson'' ''ToJson'', MemberMethod ''toString'' ''ToString'']
     (NewProxy ''jsiiProxy_KubePriorityLevelConfigurationV1Beta2'' [''Type__cdk8sApiObject'']),
    RegisterStruct ''k8s.KubePriorityLevelConfigurationV1Beta2Props'' ''KubePriorityLevelConfigurationV1Beta2Props'',
    RegisterClass ''k8s.KubeReplicaSet'' ''KubeReplicaSet''
     [MemberMethod ''addDependency'' ''AddDependency'',
      MemberMethod ''addJsonPatch'' ''AddJsonPatch'', MemberProperty ''apiGroup'' ''ApiGroup'',
      MemberProperty ''apiVersion'' ''ApiVersion'', MemberProperty ''chart'' ''Chart'',
      MemberProperty ''kind'' ''Kind'', MemberProperty ''metadata'' ''Metadata'',
      MemberProperty ''name'' ''Name'', MemberProperty ''node'' ''Node'',
      MemberMethod ''toJson'' ''ToJson'', MemberMethod ''toString'' ''ToString'']
     (NewProxy ''jsiiProxy_KubeReplicaSet'' [''Type__cdk8sApiObject'']),
    RegisterClass ''k8s.KubeReplicaSetList'' ''KubeReplicaSetList''
     [MemberMethod ''addDependency'' ''AddDependency'',
      MemberMethod ''addJsonPatch'' ''AddJsonPatch'', MemberProperty ''apiGroup'' ''ApiGroup'',
      MemberProperty ''apiVersion'' ''ApiVersion'', MemberProperty ''chart'' ''Chart'',
      MemberProperty ''kind'' ''Kind'', MemberProperty ''metadata'' ''Metadata'',
      MemberProperty ''name'' ''Name'', MemberProperty ''node'' ''Node'',
      MemberMethod ''toJson'' ''ToJson'', MemberMethod ''toString'' ''ToString'']
     (NewProxy ''jsiiProxy_KubeReplicaSetList'' [''Type__cdk8sApiObject'']),
    RegisterStruct ''k8s.KubeReplicaSetListProps'' ''KubeReplicaSetListProps'',
    RegisterStruct ''k8s.KubeReplicaSetProps'' ''KubeReplicaSetProps'']"

lemma init_25_ascends [ascends_checks]: "ascends ''k8s.KubePriorityLevelConfigurationListV1Beta1Props'' init_25 ''k8s.KubeReplicaSetProps''"
  by (simp add: init_25_def)

lemma init_25_named [named_checks]: "list_all wellNamed init_25"
  by (simp only: init_25_def wellNamed_def table_eval)

lemma init_25_props [props_checks]: "propsIn init_25 init_25"
  by (simp only: init_25_def props_eval)

lemma init_25_made [made_checks]: "list_all wellMade init_25"
  by (simp only: init_25_def made_eval table_eval)

definition init_26 :: "registration list" where
  "init_26 =
   [RegisterClass ''k8s.KubeReplicationController'' ''KubeReplicationController''
     [MemberMethod ''addDependency'' ''AddDependency'',
      MemberMethod ''addJsonPatch'' ''AddJsonPatch'', MemberProperty ''apiGroup'' ''ApiGroup'',
      MemberProperty ''apiVersion'' ''ApiVersion'', MemberProperty ''chart'' ''Chart'',
      MemberProperty ''kind'' ''Kind'', MemberProperty ''metadata'' ''Metadata'',
      MemberProperty ''name'' ''Name'', MemberProperty ''node'' ''Node'',
      MemberMethod ''toJson'' ''ToJson'', MemberMethod ''toString'' ''ToString'']
     (NewProxy ''jsiiProxy_KubeReplicationController'' [''Type__cdk8sApiObject'']),
    RegisterClass ''k8s.KubeReplicationControllerList'' ''KubeReplicationControllerList''
     [MemberMethod ''addDependency'' ''AddDependency'',
      MemberMethod ''addJsonPatch'' ''AddJsonPatch'', MemberProperty ''apiGroup'' ''ApiGroup'',
      MemberProperty ''apiVersion'' ''ApiVersion'', MemberProperty ''chart'' ''Chart'',
      MemberProperty ''kind'' ''Kind'', MemberProperty ''metadata'' ''Metadata'',
      MemberProperty ''name'' ''Name'', MemberProperty ''node'' ''Node'',
      MemberMethod ''toJson'' ''ToJson'', MemberMethod ''toString'' ''ToString'']
     (NewProxy ''jsiiProxy_KubeReplicationControllerList'' [''Type__cdk8sApiObject'']),
    RegisterStruct ''k8s.KubeReplicationControllerListProps'' ''KubeReplicationControllerListProps'',
    RegisterStruct ''k8s.KubeReplicationControllerProps'' ''KubeReplicationControllerProps'',
    RegisterClass ''k8s.KubeResourceQuota'' ''KubeResourceQuota''
     [MemberMethod ''addDependency'' ''AddDependency'',
      MemberMethod ''addJsonPatch'' ''AddJsonPatch'', MemberProperty ''apiGroup'' ''ApiGroup'',
      MemberProperty ''apiVersion'' ''ApiVersion'', MemberProperty ''chart'' ''Chart'',
      MemberProperty ''kind'' ''Kind'', MemberProperty ''metadata'' ''Metadata'',
      MemberProperty ''name'' ''Name'', MemberProperty ''node'' ''Node'',
      MemberMethod ''toJson'' ''ToJson'', MemberMethod ''toString'' ''ToString'']
     (NewProxy ''jsiiProxy_KubeResourceQuota'' [''Type__cdk8sApiObject'']),
    RegisterClass ''k8s.KubeResourceQuotaList'' ''KubeResourceQuotaList''
     [MemberMethod ''addDependency'' ''AddDependency'',
      MemberMethod ''addJsonPatch'' ''AddJsonPatch'', MemberProperty ''apiGroup'' ''ApiGroup'',
      MemberProperty ''apiVersion'' ''ApiVersion'', MemberProperty ''chart'' ''Chart'',
      MemberProperty ''kind'' ''Kind'', MemberProperty ''metadata'' ''Metadata'',
      MemberProperty ''name'' ''Name'', MemberProperty ''node'' ''Node'',
      MemberMethod ''toJson'' ''ToJson'', MemberMethod ''toString'' ''ToString'']
     (NewProxy ''jsiiProxy_KubeResourceQuotaList'' [''Type__cdk8sApiObject'']),
    RegisterStruct ''k8s.KubeResourceQuotaListProps'' ''KubeResourceQuotaListProps'',
    RegisterStruct ''k8s.KubeResourceQuotaProps'' ''KubeResourceQuotaProps'']"

lemma init_26_ascends [ascends_checks]: "ascends ''k8s.KubeReplicaSetProps'' init_26 ''k8s.KubeResourceQuotaProps''"
  by (simp add: init_26_def)

lemma init_26_named [named_checks]: "list_all wellNamed init_26"
  by (simp only: init_26_def wellNamed_def table_eval)

lemma init_26_props [props_checks]: "propsIn init_26 init_26"
  by (simp only: init_26_def props_eval)

lemma init_26_made [made_checks]: "list_all wellMade init_26"
  by (simp only: init_26_def made_eval table_eval)

definition init_27 :: "registration list" where
  "init_27 =
   [RegisterClass ''k8s.KubeRole'' ''KubeRole''
     [MemberMethod ''addDependency'' ''AddDependency'',
      MemberMethod ''addJsonPatch'' ''AddJsonPatch'', MemberProperty ''apiGroup'' ''ApiGroup'',
      MemberProperty ''apiVersion'' ''ApiVersion'', MemberProperty ''chart'' ''Chart'',
      MemberProperty ''kind'' ''Kind'', MemberProperty ''metadata'' ''Metadata'',
      MemberProperty ''name'' ''Name'', MemberProperty ''node'' ''Node'',
      MemberMethod ''toJson'' ''ToJson'', MemberMethod ''toString'' ''ToString'']
     (NewProxy ''jsiiProxy_KubeRole'' [''Type__cdk8sApiObject'']),
    RegisterClass ''k8s.KubeRoleBinding'' ''KubeRoleBinding''
     [MemberMethod ''addDependency'' ''AddDependency'',
      MemberMethod ''addJsonPatch'' ''AddJsonPatch'', MemberProperty ''apiGroup'' ''ApiGroup'',
      MemberProperty ''apiVersion'' ''ApiVersion'', MemberProperty ''chart'' ''Chart'',
      MemberProperty ''kind'' ''Kind'', MemberProperty ''metadata'' ''Metadata'',
      MemberProperty ''name'' ''Name'', MemberProperty ''node'' ''Node'',
      MemberMethod ''toJson'' ''ToJson'', MemberMethod ''toString'' ''ToString'']
     (NewProxy ''jsiiProxy_KubeRoleBinding'' [''Type__cdk8sApiObject'']),
    RegisterClass ''k8s.KubeRoleBindingList'' ''KubeRoleBindingList''
     [MemberMethod ''addDependency'' ''AddDependency'',
      MemberMethod ''addJsonPatch'' ''AddJsonPatch'', MemberProperty ''apiGroup'' ''ApiGroup'',
      MemberProperty ''apiVersion'' ''ApiVersion'', MemberProperty ''chart'' ''Chart'',
      MemberProperty ''kind'' ''Kind'', MemberProperty ''metadata'' ''Metadata'',
      MemberProperty ''name'' ''Name'', MemberProperty ''node'' ''Node'',
      MemberMethod ''toJson'' ''ToJson'', MemberMethod ''toString'' ''ToString'']
     (NewProxy ''jsiiProxy_KubeRoleBindingList'' [''Type__cdk8sApiObject'']),
    RegisterStruct ''k8s.KubeRoleBindingListProps'' ''KubeRoleBindingListProps'',
    RegisterStruct ''k8s.KubeRoleBindingProps'' ''KubeRoleBindingProps'',
    RegisterClass ''k8s.KubeRoleList'' ''KubeRoleList''
     [MemberMethod ''addDependency'' ''AddDependency'',
      MemberMethod ''addJsonPatch'' ''AddJsonPatch'', MemberProperty ''apiGroup'' ''ApiGroup'',
      MemberProperty ''apiVersion'' ''ApiVersion'', MemberProperty ''chart'' ''Chart'',
      MemberProperty ''kind'' ''Kind'', MemberProperty ''metadata'' ''Metadata'',
      MemberProperty ''name'' ''Name'', MemberProperty ''node'' ''Node'',
      MemberMethod ''toJson'' ''ToJson'', MemberMethod ''toString'' ''ToString'']
     (NewProxy ''jsiiProxy_KubeRoleList'' [''Type__cdk8sApiObject'']),
    RegisterStruct ''k8s.KubeRoleListProps'' ''KubeRoleListProps'',
    RegisterStruct ''k8s.KubeRoleProps'' ''KubeRoleProps'']"

lemma init_27_ascends [ascends_checks]: "ascends ''k8s.KubeResourceQuotaProps'' init_27 ''k8s.KubeRoleProps''"
  by (simp add: init_27_def)

lemma init_27_named [named_checks]: "list_all wellNamed init_27"
  by (simp only: init_27_def wellNamed_def table_eval)

lemma init_27_props [props_checks]: "propsIn init_27 init_27"
  by (simp only: init_27_def props_eval)

lemma init_27_made [made_checks]: "list_all wellMade init_27"
  by (simp only: init_27_def made_eval table_eval)

definition init_28 :: "registration list" where
  "init_28 =
   [RegisterClass ''k8s.KubeRuntimeClass'' ''KubeRuntimeClass''
     [MemberMethod ''addDependency'' ''AddDependency'',
      MemberMethod ''addJsonPatch'' ''AddJsonPatch'', MemberProperty ''apiGroup'' ''ApiGroup'',
      MemberProperty ''apiVersion'' ''ApiVersion'', MemberProperty ''chart'' ''Chart'',
      MemberProperty ''kind'' ''Kind'', MemberProperty ''metadata'' ''Metadata'',
      MemberProperty ''name'' ''Name'', MemberProperty ''node'' ''Node'',
      MemberMethod ''toJson'' ''ToJson'', MemberMethod ''toString'' ''ToString'']
     (NewProxy ''jsiiProxy_KubeRuntimeClass'' [''Type__cdk8sApiObject'']),
    RegisterClass ''k8s.KubeRuntimeClassList'' ''KubeRuntimeClassList''
     [MemberMethod ''addDependency'' ''AddDependency'',
      MemberMethod ''addJsonPatch'' ''AddJsonPatch'', MemberProperty ''apiGroup'' ''ApiGroup'',
      MemberProperty ''apiVersion'' ''ApiVersion'', MemberProperty ''chart'' ''Chart'',
      MemberProperty ''kind'' ''Kind'', MemberProperty ''metadata'' ''Metadata'',
      MemberProperty ''name'' ''Name'', MemberProperty ''node'' ''Node'',
      MemberMethod ''toJson'' ''ToJson'', MemberMethod ''toString'' ''ToString'']
     (NewProxy ''jsiiProxy_KubeRuntimeClassList'' [''Type__cdk8sApiObject'']),
    RegisterStruct ''k8s.KubeRuntimeClassListProps'' ''KubeRuntimeClassListProps'',
    RegisterStruct ''k8s.KubeRuntimeClassProps'' ''KubeRuntimeClassProps'',
    RegisterClass ''k8s.KubeScale'' ''KubeScale''
     [MemberMethod ''addDependency'' ''AddDependency'',
      MemberMethod ''addJsonPatch'' ''AddJsonPatch'', MemberProperty ''apiGroup'' ''ApiGroup'',
      MemberProperty ''apiVersion'' ''ApiVersion'', MemberProperty ''chart'' ''Chart'',
      MemberProperty ''kind'' ''Kind'', MemberProperty ''metadata'' ''Metadata'',
      MemberProperty ''name'' ''Name'', MemberProperty ''node'' ''Node'',
      MemberMethod ''toJson'' ''ToJson'', MemberMethod ''toString'' ''ToString'']
     (NewProxy ''jsiiProxy_KubeScale'' [''Type__cdk8sApiObject'']),
    RegisterStruct ''k8s.KubeScaleProps'' ''KubeScaleProps'',
    RegisterClass ''k8s.KubeSecret'' ''KubeSecret''
     [MemberMethod ''addDependency'' ''AddDependency'',
      MemberMethod ''addJsonPatch'' ''AddJsonPatch'', MemberProperty ''apiGroup'' ''ApiGroup'',
      MemberProperty ''apiVersion'' ''ApiVersion'', MemberProperty ''chart'' ''Chart'',
      MemberProperty ''kind'' ''Kind'', MemberProperty ''metadata'' ''Metadata'',
      MemberProperty ''name'' ''Name'', MemberProperty ''node'' ''Node'',
      MemberMethod ''toJson'' ''ToJson'', MemberMethod ''toString'' ''ToString'']
     (NewProxy ''jsiiProxy_KubeSecret'' [''Type__cdk8sApiObject'']),
    RegisterClass ''k8s.KubeSecretList'' ''KubeSecretList''
     [MemberMethod ''addDependency'' ''AddDependency'',
      MemberMethod ''addJsonPatch'' ''AddJsonPatch'', MemberProperty ''apiGroup'' ''ApiGroup'',
      MemberProperty ''apiVersion'' ''ApiVersion'', MemberProperty ''chart'' ''Chart'',
      MemberProperty ''kind'' ''Kind'', MemberProperty ''metadata'' ''Metadata'',
      MemberProperty ''name'' ''Name'', MemberProperty ''node'' ''Node'',
      MemberMethod ''toJson'' ''ToJson'', MemberMethod ''toString'' ''ToString'']
     (NewProxy ''jsiiProxy_KubeSecretList'' [''Type__cdk8sApiObject'']),
    RegisterStruct ''k8s.KubeSecretListProps'' ''KubeSecretListProps'',
    RegisterStruct ''k8s.KubeSecretProps'' ''KubeSecretProps'']"

lemma init_28_ascends [ascends_checks]: "ascends ''k8s.KubeRoleProps'' init_28 ''k8s.KubeSecretProps''"
  by (simp add: init_28_def)

lemma init_28_named [named_checks]: "list_all wellNamed init_28"
  by (simp only: init_28_def wellNamed_def table_eval)

lemma init_28_props [props_checks]: "propsIn init_28 init_28"
  by (simp only: init_28_def props_eval)

lemma init_28_made [made_checks]: "list_all wellMade init_28"
  by (simp only: init_28_def made_eval table_eval)

definition init_29 :: "registration list" where
  "init_29 =
   [RegisterClass ''k8s.KubeSelfSubjectAccessReview'' ''KubeSelfSubjectAccessReview''
     [MemberMethod ''addDependency'' ''AddDependency'',
      MemberMethod ''addJsonPatch'' ''AddJsonPatch'', MemberProperty ''apiGroup'' ''ApiGroup'',
      MemberProperty ''apiVersion'' ''ApiVersion'', MemberProperty ''chart'' ''Chart'',
      MemberProperty ''kind'' ''Kind'', MemberProperty ''metadata'' ''Metadata'',
      MemberProperty ''name'' ''Name'', MemberProperty ''node'' ''Node'',
      MemberMethod ''toJson'' ''ToJson'', MemberMethod ''toString'' ''ToString'']
     (NewProxy ''jsiiProxy_KubeSelfSubjectAccessReview'' [''Type__cdk8sApiObject'']),
    RegisterStruct ''k8s.KubeSelfSubjectAccessReviewProps'' ''KubeSelfSubjectAccessReviewProps'',
    RegisterClass ''k8s.KubeSelfSubjectRulesReview'' ''KubeSelfSubjectRulesReview''
     [MemberMethod ''addDependency'' ''AddDependency'',
      MemberMethod ''addJsonPatch'' ''AddJsonPatch'', MemberProperty ''apiGroup'' ''ApiGroup'',
      MemberProperty ''apiVersion'' ''ApiVersion'', MemberProperty ''chart'' ''Chart'',
      MemberProperty ''kind'' ''Kind'', MemberProperty ''metadata'' ''Metadata'',
      MemberProperty ''name'' ''Name'', MemberProperty ''node'' ''Node'',
      MemberMethod ''toJson'' ''ToJson'', MemberMethod ''toString'' ''ToString'']
     (NewProxy ''jsiiProxy_KubeSelfSubjectRulesReview'' [''Type__cdk8sApiObject'']),
    RegisterStruct ''k8s.KubeSelfSubjectRulesReviewProps'' ''KubeSelfSubjectRulesReviewProps'']"

lemma init_29_ascends [ascends_checks]: "ascends ''k8s.KubeSecretProps'' init_29 ''k8s.KubeSelfSubjectRulesReviewProps''"
  by (simp add: init_29_def)

lemma init_29_named [named_checks]: "list_all wellNamed init_29"
  by (simp only: init_29_def wellNamed_def table_eval)

lemma init_29_props [props_checks]: "propsIn init_29 init_29"
  by (simp only: init_29_def props_eval)

lemma init_29_made [made_checks]: "list_all wellMade init_29"
  by (simp only: init_29_def made_eval table_eval)

end
