(* ===== verification/K8sInitD.thy ===== *)
theory K8sInitD
  imports Registry
begin

text \<open>
  Lines 3136 to 4261 of \<open>examples/cdk8s-sample-deployment/imports/k8s/main.go\<close>: the registrations of the types
  \<open>KubeService\<close> to \<open>WindowsSecurityContextOptions\<close>, in stretches of at most 150 lines, with the evaluation of the checks
  of \<open>Registry\<close> on each.
\<close>

definition init_30 :: "registration list" where
  "init_30 =
   [RegisterClass ''k8s.KubeService'' ''KubeService''
     [MemberMethod ''addDependency'' ''AddDependency'',
      MemberMethod ''addJsonPatch'' ''AddJsonPatch'', MemberProperty ''apiGroup'' ''ApiGroup'',
      MemberProperty ''apiVersion'' ''ApiVersion'', MemberProperty ''chart'' ''Chart'',
      MemberProperty ''kind'' ''Kind'', MemberProperty ''metadata'' ''Metadata'',
      MemberProperty ''name'' ''Name'', MemberProperty ''node'' ''Node'',
      MemberMethod ''toJson'' ''ToJson'', MemberMethod ''toString'' ''ToString'']
     (NewProxy ''jsiiProxy_KubeService'' [''Type__cdk8sApiObject'']),
    RegisterClass ''k8s.KubeServiceAccount'' ''KubeServiceAccount''
     [MemberMethod ''addDependency'' ''AddDependency'',
      MemberMethod ''addJsonPatch'' ''AddJsonPatch'', MemberProperty ''apiGroup'' ''ApiGroup'',
      MemberProperty ''apiVersion'' ''ApiVersion'', MemberProperty ''chart'' ''Chart'',
      MemberProperty ''kind'' ''Kind'', MemberProperty ''metadata'' ''Metadata'',
      MemberProperty ''name'' ''Name'', MemberProperty ''node'' ''Node'',
      MemberMethod ''toJson'' ''ToJson'', MemberMethod ''toString'' ''ToString'']
     (NewProxy ''jsiiProxy_KubeServiceAccount'' [''Type__cdk8sApiObject'']),
    RegisterClass ''k8s.KubeServiceAccountList'' ''KubeServiceAccountList''
     [MemberMethod ''addDependency'' ''AddDependency'',
      MemberMethod ''addJsonPatch'' ''AddJsonPatch'', MemberProperty ''apiGroup'' ''ApiGroup'',
      MemberProperty ''apiVersion'' ''ApiVersion'', MemberProperty ''chart'' ''Chart'',
      MemberProperty ''kind'' ''Kind'', MemberProperty ''metadata'' ''Metadata'',
      MemberProperty ''name'' ''Name'', MemberProperty ''node'' ''Node'',
      MemberMethod ''toJson'' ''ToJson'', MemberMethod ''toString'' ''ToString'']
     (NewProxy ''jsiiProxy_KubeServiceAccountList'' [''Type__cdk8sApiObject'']),
    RegisterStruct ''k8s.KubeServiceAccountListProps'' ''KubeServiceAccountListProps'',
    RegisterStruct ''k8s.KubeServiceAccountProps'' ''KubeServiceAccountProps'',
    RegisterClass ''k8s.KubeServiceList'' ''KubeServiceList''
     [MemberMethod ''addDependency'' ''AddDependency'',
      MemberMethod ''addJsonPatch'' ''AddJsonPatch'', MemberProperty ''apiGroup'' ''ApiGroup'',
      MemberProperty ''apiVersion'' ''ApiVersion'', MemberProperty ''chart'' ''Chart'',
      MemberProperty ''kind'' ''Kind'', MemberProperty ''metadata'' ''Metadata'',
      MemberProperty ''name'' ''Name'', MemberProperty ''node'' ''Node'',
      MemberMethod ''toJson'' ''ToJson'', MemberMethod ''toString'' ''ToString'']
     (NewProxy ''jsiiProxy_KubeServiceList'' [''Type__cdk8sApiObject'']),
    RegisterStruct ''k8s.KubeServiceListProps'' ''KubeServiceListProps'',
    RegisterStruct ''k8s.KubeServiceProps'' ''KubeServiceProps'']"

lemma init_30_ascends [ascends_checks]: "ascends ''k8s.KubeSelfSubjectRulesReviewProps'' init_30 ''k8s.KubeServiceProps''"
  by (simp add: init_30_def)

lemma init_30_named [named_checks]: "list_all wellNamed init_30"
  by (simp only: init_30_def wellNamed_def table_eval)

lemma init_30_props [props_checks]: "propsIn init_30 init_30"
  by (simp only: init_30_def props_eval)

lemma init_30_made [made_checks]: "list_all wellMade init_30"
  by (simp only: init_30_def made_eval table_eval)

definition init_31 :: "registration list" where
  "init_31 =
   [RegisterClass ''k8s.KubeStatefulSet'' ''KubeStatefulSet''
     [MemberMethod ''addDependency'' ''AddDependency'',
      MemberMethod ''addJsonPatch'' ''AddJsonPatch'', MemberProperty ''apiGroup'' ''ApiGroup'',
      MemberProperty ''apiVersion'' ''ApiVersion'', MemberProperty ''chart'' ''Chart'',
      MemberProperty ''kind'' ''Kind'', MemberProperty ''metadata'' ''Metadata'',
      MemberProperty ''name'' ''Name'', MemberProperty ''node'' ''Node'',
      MemberMethod ''toJson'' ''ToJson'', MemberMethod ''toString'' ''ToString'']
     (NewProxy ''jsiiProxy_KubeStatefulSet'' [''Type__cdk8sApiObject'']),
    RegisterClass ''k8s.KubeStatefulSetList'' ''KubeStatefulSetList''
     [MemberMethod ''addDependency'' ''AddDependency'',
      MemberMethod ''addJsonPatch'' ''AddJsonPatch'', MemberProperty ''apiGroup'' ''ApiGroup'',
      MemberProperty ''apiVersion'' ''ApiVersion'', MemberProperty ''chart'' ''Chart'',
      MemberProperty ''kind'' ''Kind'', MemberProperty ''metadata'' ''Metadata'',
      MemberProperty ''name'' ''Name'', MemberProperty ''node'' ''Node'',
      MemberMethod ''toJson'' ''ToJson'', MemberMethod ''toString'' ''ToString'']
     (NewProxy ''jsiiProxy_KubeStatefulSetList'' [''Type__cdk8sApiObject'']),
    RegisterStruct ''k8s.KubeStatefulSetListProps'' ''KubeStatefulSetListProps'',
    RegisterStruct ''k8s.KubeStatefulSetProps'' ''KubeStatefulSetProps'',
    RegisterClass ''k8s.KubeStatus'' ''KubeStatus''
     [MemberMethod ''addDependency'' ''AddDependency'',
      MemberMethod ''addJsonPatch'' ''AddJsonPatch'', MemberProperty ''apiGroup'' ''ApiGroup'',
      MemberProperty ''apiVersion'' ''ApiVersion'', MemberProperty ''chart'' ''Chart'',
      MemberProperty ''kind'' ''Kind'', MemberProperty ''metadata'' ''Metadata'',
      MemberProperty ''name'' ''Name'', MemberProperty ''node'' ''Node'',
      MemberMethod ''toJson'' ''ToJson'', MemberMethod ''toString'' ''ToString'']
     (NewProxy ''jsiiProxy_KubeStatus'' [''Type__cdk8sApiObject'']),
    RegisterStruct ''k8s.KubeStatusProps'' ''KubeStatusProps'',
    RegisterClass ''k8s.KubeStorageClass'' ''KubeStorageClass''
     [MemberMethod ''addDependency'' ''AddDependency'',
      MemberMethod ''addJsonPatch'' ''AddJsonPatch'', MemberProperty ''apiGroup'' ''ApiGroup'',
      MemberProperty ''apiVersion'' ''ApiVersion'', MemberProperty ''chart'' ''Chart'',
      MemberProperty ''kind'' ''Kind'', MemberProperty ''metadata'' ''Metadata'',
      MemberProperty ''name'' ''Name'', MemberProperty ''node'' ''Node'',
      MemberMethod ''toJson'' ''ToJson'', MemberMethod ''toString'' ''ToString'']
     (NewProxy ''jsiiProxy_KubeStorageClass'' [''Type__cdk8sApiObject'']),
    RegisterClass ''k8s.KubeStorageClassList'' ''KubeStorageClassList''
     [MemberMethod ''addDependency'' ''AddDependency'',
      MemberMethod ''addJsonPatch'' ''AddJsonPatch'', MemberProperty ''apiGroup'' ''ApiGroup'',
      MemberProperty ''apiVersion'' ''ApiVersion'', MemberProperty ''chart'' ''Chart'',
      MemberProperty ''kind'' ''Kind'', MemberProperty ''metadata'' ''Metadata'',
      MemberProperty ''name'' ''Name'', MemberProperty ''node'' ''Node'',
      MemberMethod ''toJson'' ''ToJson'', MemberMethod ''toString'' ''ToString'']
     (NewProxy ''jsiiProxy_KubeStorageClassList'' [''Type__cdk8sApiObject'']),
    RegisterStruct ''k8s.KubeStorageClassListProps'' ''KubeStorageClassListProps'',
    RegisterStruct ''k8s.KubeStorageClassProps'' ''KubeStorageClassProps'']"

lemma init_31_ascends [ascends_checks]: "ascends ''k8s.KubeServiceProps'' init_31 ''k8s.KubeStorageClassProps''"
  by (simp add: init_31_def)

lemma init_31_named [named_checks]: "list_all wellNamed init_31"
  by (simp only: init_31_def wellNamed_def table_eval)

lemma init_31_props [props_checks]: "propsIn init_31 init_31"
  by (simp only: init_31_def props_eval)

lemma init_31_made [made_checks]: "list_all wellMade init_31"
  by (simp only: init_31_def made_eval table_eval)

definition init_32 :: "registration list" where
  "init_32 =
   [RegisterClass ''k8s.KubeStorageVersionListV1Alpha1'' ''KubeStorageVersionListV1Alpha1''
     [MemberMethod ''addDependency'' ''AddDependency'',
      MemberMethod ''addJsonPatch'' ''AddJsonPatch'', MemberProperty ''apiGroup'' ''ApiGroup'',
      MemberProperty ''apiVersion'' ''ApiVersion'', MemberProperty ''chart'' ''Chart'',
      MemberProperty ''kind'' ''Kind'', MemberProperty ''metadata'' ''Metadata'',
      MemberProperty ''name'' ''Name'', MemberProperty ''node'' ''Node'',
      MemberMethod ''toJson'' ''ToJson'', MemberMethod ''toString'' ''ToString'']
     (NewProxy ''jsiiProxy_KubeStorageVersionListV1Alpha1'' [''Type__cdk8sApiObject'']),
    RegisterStruct ''k8s.KubeStorageVersionListV1Alpha1Props'' ''KubeStorageVersionListV1Alpha1Props'',
    RegisterClass ''k8s.KubeStorageVersionV1Alpha1'' ''KubeStorageVersionV1Alpha1''
     [MemberMethod ''addDependency'' ''AddDependency'',
      MemberMethod ''addJsonPatch'' ''AddJsonPatch'', MemberProperty ''apiGroup'' ''ApiGroup'',
      MemberProperty ''apiVersion'' ''ApiVersion'', MemberProperty ''chart'' ''Chart'',
      MemberProperty ''kind'' ''Kind'', MemberProperty ''metadata'' ''Metadata'',
      MemberProperty ''name'' ''Name'', MemberProperty ''node'' ''Node'',
      MemberMethod ''toJson'' ''ToJson'', MemberMethod ''toString'' ''ToString'']
     (NewProxy ''jsiiProxy_KubeStorageVersionV1Alpha1'' [''Type__cdk8sApiObject'']),
    RegisterStruct ''k8s.KubeStorageVersionV1Alpha1Props'' ''KubeStorageVersionV1Alpha1Props'',
    RegisterClass ''k8s.KubeSubjectAccessReview'' ''KubeSubjectAccessReview''
     [MemberMethod ''addDependency'' ''AddDependency'',
      MemberMethod ''addJsonPatch'' ''AddJsonPatch'', MemberProperty ''apiGroup'' ''ApiGroup'',
      MemberProperty ''apiVersion'' ''ApiVersion'', MemberProperty ''chart'' ''Chart'',
      MemberProperty ''kind'' ''Kind'', MemberProperty ''metadata'' ''Metadata'',
      MemberProperty ''name'' ''Name'', MemberProperty ''node'' ''Node'',
      MemberMethod ''toJson'' ''ToJson'', MemberMethod ''toString'' ''ToString'']
     (NewProxy ''jsiiProxy_KubeSubjectAccessReview'' [''Type__cdk8sApiObject'']),
    RegisterStruct ''k8s.KubeSubjectAccessReviewProps'' ''KubeSubjectAccessReviewProps'',
    RegisterClass ''k8s.KubeTokenRequest'' ''KubeTokenRequest''
     [MemberMethod ''addDependency'' ''AddDependency'',
      MemberMethod ''addJsonPatch'' ''AddJsonPatch'', MemberProperty ''apiGroup'' ''ApiGroup'',
      MemberProperty ''apiVersion'' ''ApiVersion'', MemberProperty ''chart'' ''Chart'',
      MemberProperty ''kind'' ''Kind'', MemberProperty ''metadata'' ''Metadata'',
      MemberProperty ''name'' ''Name'', MemberProperty ''node'' ''Node'',
      MemberMethod ''toJson'' ''ToJson'', MemberMethod ''toString'' ''ToString'']
     (NewProxy ''jsiiProxy_KubeTokenRequest'' [''Type__cdk8sApiObject'']),
    RegisterStruct ''k8s.KubeTokenRequestProps'' ''KubeTokenRequestProps'',
    RegisterClass ''k8s.KubeTokenReview'' ''KubeTokenReview''
     [MemberMethod ''addDependency'' ''AddDependency'',
      MemberMethod ''addJsonPatch'' ''AddJsonPatch'', MemberProperty ''apiGroup'' ''ApiGroup'',
      MemberProperty ''apiVersion'' ''ApiVersion'', MemberProperty ''chart'' ''Chart'',
      MemberProperty ''kind'' ''Kind'', MemberProperty ''metadata'' ''Metadata'',
      MemberProperty ''name'' ''Name'', MemberProperty ''node'' ''Node'',
      MemberMethod ''toJson'' ''ToJson'', MemberMethod ''toString'' ''ToString'']
     (NewProxy ''jsiiProxy_KubeTokenReview'' [''Type__cdk8sApiObject'']),
    RegisterStruct ''k8s.KubeTokenReviewProps'' ''KubeTokenReviewProps'']"

lemma init_32_ascends [ascends_checks]: "ascends ''k8s.KubeStorageClassProps'' init_32 ''k8s.KubeTokenReviewProps''"
  by (simp add: init_32_def)

lemma init_32_named [named_checks]: "list_all wellNamed init_32"
  by (simp only: init_32_def wellNamed_def table_eval)

lemma init_32_props [props_checks]: "propsIn init_32 init_32"
  by (simp only: init_32_def props_eval)

lemma init_32_made [made_checks]: "list_all wellMade init_32"
  by (simp only: init_32_def made_eval table_eval)

definition init_33 :: "registration list" where
  "init_33 =
   [RegisterClass ''k8s.KubeValidatingWebhookConfiguration'' ''KubeValidatingWebhookConfiguration''
     [MemberMethod ''addDependency'' ''AddDependency'',
      MemberMethod ''addJsonPatch'' ''AddJsonPatch'', MemberProperty ''apiGroup'' ''ApiGroup'',
      MemberProperty ''apiVersion'' ''ApiVersion'', MemberProperty ''chart'' ''Chart'',
      MemberProperty ''kind'' ''Kind'', MemberProperty ''metadata'' ''Metadata'',
      MemberProperty ''name'' ''Name'', MemberProperty ''node'' ''Node'',
      MemberMethod ''toJson'' ''ToJson'', MemberMethod ''toString'' ''ToString'']
     (NewProxy ''jsiiProxy_KubeValidatingWebhookConfiguration'' [''Type__cdk8sApiObject'']),
    RegisterClass ''k8s.KubeValidatingWebhookConfigurationList'' ''KubeValidatingWebhookConfigurationList''
     [MemberMethod ''addDependency'' ''AddDependency'',
      MemberMethod ''addJsonPatch'' ''AddJsonPatch'', MemberProperty ''apiGroup'' ''ApiGroup'',
      MemberProperty ''apiVersion'' ''ApiVersion'', MemberProperty ''chart'' ''Chart'',
      MemberProperty ''kind'' ''Kind'', MemberProperty ''metadata'' ''Metadata'',
      MemberProperty ''name'' ''Name'', MemberProperty ''node'' ''Node'',
      MemberMethod ''toJson'' ''ToJson'', MemberMethod ''toString'' ''ToString'']
     (NewProxy ''jsiiProxy_KubeValidatingWebhookConfigurationList'' [''Type__cdk8sApiObject'']),
    RegisterStruct ''k8s.KubeValidatingWebhookConfigurationListProps'' ''KubeValidatingWebhookConfigurationListProps'',
    RegisterStruct ''k8s.KubeValidatingWebhookConfigurationProps'' ''KubeValidatingWebhookConfigurationProps'',
    RegisterClass ''k8s.KubeVolumeAttachment'' ''KubeVolumeAttachment''
     [MemberMethod ''addDependency'' ''AddDependency'',
      MemberMethod ''addJsonPatch'' ''AddJsonPatch'', MemberProperty ''apiGroup'' ''ApiGroup'',
      MemberProperty ''apiVersion'' ''ApiVersion'', MemberProperty ''chart'' ''Chart'',
      MemberProperty ''kind'' ''Kind'', MemberProperty ''metadata'' ''Metadata'',
      MemberProperty ''name'' ''Name'', MemberProperty ''node'' ''Node'',
      MemberMethod ''toJson'' ''ToJson'', MemberMethod ''toString'' ''ToString'']
     (NewProxy ''jsiiProxy_KubeVolumeAttachment'' [''Type__cdk8sApiObject'']),
    RegisterClass ''k8s.KubeVolumeAttachmentList'' ''KubeVolumeAttachmentList''
     [MemberMethod ''addDependency'' ''AddDependency'',
      MemberMethod ''addJsonPatch'' ''AddJsonPatch'', MemberProperty ''apiGroup'' ''ApiGroup'',
      MemberProperty ''apiVersion'' ''ApiVersion'', MemberProperty ''chart'' ''Chart'',
      MemberProperty ''kind'' ''Kind'', MemberProperty ''metadata'' ''Metadata'',
      MemberProperty ''name'' ''Name'', MemberProperty ''node'' ''Node'',
      MemberMethod ''toJson'' ''ToJson'', MemberMethod ''toString'' ''ToString'']
     (NewProxy ''jsiiProxy_KubeVolumeAttachmentList'' [''Type__cdk8sApiObject'']),
    RegisterStruct ''k8s.KubeVolumeAttachmentListProps'' ''KubeVolumeAttachmentListProps'',
    RegisterStruct ''k8s.KubeVolumeAttachmentProps'' ''KubeVolumeAttachmentProps'',
    RegisterStruct ''k8s.LabelSelector'' ''LabelSelector'',
    RegisterStruct ''k8s.LabelSelectorRequirement'' ''LabelSelectorRequirement'',
    RegisterStruct ''k8s.LeaseSpec'' ''LeaseSpec'',
    RegisterStruct ''k8s.Lifecycle'' ''Lifecycle'',
    RegisterStruct ''k8s.LifecycleHandler'' ''LifecycleHandler'',
    RegisterStruct ''k8s.LimitRangeItem'' ''LimitRangeItem'',
    RegisterStruct ''k8s.LimitRangeSpec'' ''LimitRangeSpec'',
    RegisterStruct ''k8s.LimitResponseV1Beta1'' ''LimitResponseV1Beta1'',
    RegisterStruct ''k8s.LimitResponseV1Beta2'' ''LimitResponseV1Beta2'',
    RegisterStruct ''k8s.LimitedPriorityLevelConfigurationV1Beta1'' ''LimitedPriorityLevelConfigurationV1Beta1'',
    RegisterStruct ''k8s.LimitedPriorityLevelConfigurationV1Beta2'' ''LimitedPriorityLevelConfigurationV1Beta2'']"

lemma init_33_ascends [ascends_checks]: "ascends ''k8s.KubeTokenReviewProps'' init_33 ''k8s.LimitedPriorityLevelConfigurationV1Beta2''"
  by (simp add: init_33_def)

lemma init_33_named [named_checks]: "list_all wellNamed init_33"
  by (simp only: init_33_def wellNamed_def table_eval)

lemma init_33_props [props_checks]: "propsIn init_33 init_33"
  by (simp only: init_33_def props_eval)

lemma init_33_made [made_checks]: "list_all wellMade init_33"
  by (simp only: init_33_def made_eval table_eval)

definition init_34 :: "registration list" where
  "init_34 =
   [RegisterStruct ''k8s.ListMeta'' ''ListMeta'',
    RegisterStruct ''k8s.LocalObjectReference'' ''LocalObjectReference'',
    RegisterStruct ''k8s.LocalVolumeSource'' ''LocalVolumeSource'',
    RegisterStruct ''k8s.ManagedFieldsEntry'' ''ManagedFieldsEntry'',
    RegisterStruct ''k8s.MetricIdentifierV2'' ''MetricIdentifierV2'',
    RegisterStruct ''k8s.MetricIdentifierV2Beta2'' ''MetricIdentifierV2Beta2'',
    RegisterStruct ''k8s.MetricSpecV2'' ''MetricSpecV2'',
    RegisterStruct ''k8s.MetricSpecV2Beta2'' ''MetricSpecV2Beta2'',
    RegisterStruct ''k8s.MetricTargetV2'' ''MetricTargetV2'',
    RegisterStruct ''k8s.MetricTargetV2Beta2'' ''MetricTargetV2Beta2'',
    RegisterStruct ''k8s.MutatingWebhook'' ''MutatingWebhook'',
    RegisterStruct ''k8s.NamespaceSpec'' ''NamespaceSpec'',
    RegisterStruct ''k8s.NetworkPolicyEgressRule'' ''NetworkPolicyEgressRule'',
    RegisterStruct ''k8s.NetworkPolicyIngressRule'' ''NetworkPolicyIngressRule'',
    RegisterStruct ''k8s.NetworkPolicyPeer'' ''NetworkPolicyPeer'',
    RegisterStruct ''k8s.NetworkPolicyPort'' ''NetworkPolicyPort'',
    RegisterStruct ''k8s.NetworkPolicySpec'' ''NetworkPolicySpec'',
    RegisterStruct ''k8s.NfsVolumeSource'' ''NfsVolumeSource'',
    RegisterStruct ''k8s.NodeAffinity'' ''NodeAffinity'',
    RegisterStruct ''k8s.NodeConfigSource'' ''NodeConfigSource'',
    RegisterStruct ''k8s.NodeSelector'' ''NodeSelector'',
    RegisterStruct ''k8s.NodeSelectorRequirement'' ''NodeSelectorRequirement'',
    RegisterStruct ''k8s.NodeSelectorTerm'' ''NodeSelectorTerm'',
    RegisterStruct ''k8s.NodeSpec'' ''NodeSpec'',
    RegisterStruct ''k8s.NonResourceAttributes'' ''NonResourceAttributes'',
    RegisterStruct ''k8s.NonResourcePolicyRuleV1Beta1'' ''NonResourcePolicyRuleV1Beta1'',
    RegisterStruct ''k8s.NonResourcePolicyRuleV1Beta2'' ''NonResourcePolicyRuleV1Beta2'',
    RegisterStruct ''k8s.ObjectFieldSelector'' ''ObjectFieldSelector'',
    RegisterStruct ''k8s.ObjectMeta'' ''ObjectMeta'',
    RegisterStruct ''k8s.ObjectMetricSourceV2'' ''ObjectMetricSourceV2'',
    RegisterStruct ''k8s.ObjectMetricSourceV2Beta2'' ''ObjectMetricSourceV2Beta2'',
    RegisterStruct ''k8s.ObjectReference'' ''ObjectReference'',
    RegisterStruct ''k8s.Overhead'' ''Overhead'',
    RegisterStruct ''k8s.OwnerReference'' ''OwnerReference'',
    RegisterStruct ''k8s.PersistentVolumeClaimSpec'' ''PersistentVolumeClaimSpec'',
    RegisterStruct ''k8s.PersistentVolumeClaimTemplate'' ''PersistentVolumeClaimTemplate'',
    RegisterStruct ''k8s.PersistentVolumeClaimVolumeSource'' ''PersistentVolumeClaimVolumeSource'']"

lemma init_34_ascends [ascends_checks]: "ascends ''k8s.LimitedPriorityLevelConfigurationV1Beta2'' init_34 ''k8s.PersistentVolumeClaimVolumeSource''"
  by (simp add: init_34_def)

lemma init_34_named [named_checks]: "list_all wellNamed init_34"
  by (simp only: init_34_def wellNamed_def table_eval)

lemma init_34_props [props_checks]: "propsIn init_34 init_34"
  by (simp only: init_34_def props_eval)

lemma init_34_made [made_checks]: "list_all wellMade init_34"
  by (simp only: init_34_def made_eval table_eval)

definition init_35 :: "registration list" where
  "init_35 =
   [RegisterStruct ''k8s.PersistentVolumeSpec'' ''PersistentVolumeSpec'',
    RegisterStruct ''k8s.PhotonPersistentDiskVolumeSource'' ''PhotonPersistentDiskVolumeSource'',
    RegisterStruct ''k8s.PodAffinity'' ''PodAffinity'',
    RegisterStruct ''k8s.PodAffinityTerm'' ''PodAffinityTerm'',
    RegisterStruct ''k8s.PodAntiAffinity'' ''PodAntiAffinity'',
    RegisterStruct ''k8s.PodDisruptionBudgetSpec'' ''PodDisruptionBudgetSpec'',
    RegisterStruct ''k8s.PodDnsConfig'' ''PodDnsConfig'',
    RegisterStruct ''k8s.PodDnsConfigOption'' ''PodDnsConfigOption'',
    RegisterStruct ''k8s.PodFailurePolicy'' ''PodFailurePolicy'',
    RegisterStruct ''k8s.PodFailurePolicyOnExitCodesRequirement'' ''PodFailurePolicyOnExitCodesRequirement'',
    RegisterStruct ''k8s.PodFailurePolicyOnPodConditionsPattern'' ''PodFailurePolicyOnPodConditionsPattern'',
    RegisterStruct ''k8s.PodFailurePolicyRule'' ''PodFailurePolicyRule'',
    RegisterStruct ''k8s.PodOs'' ''PodOs'',
    RegisterStruct ''k8s.PodReadinessGate'' ''PodReadinessGate'',
    RegisterStruct ''k8s.PodSecurityContext'' ''PodSecurityContext'',
    RegisterStruct ''k8s.PodSpec'' ''PodSpec'',
    RegisterStruct ''k8s.PodTemplateSpec'' ''PodTemplateSpec'',
    RegisterStruct ''k8s.PodsMetricSourceV2'' ''PodsMetricSourceV2'',
    RegisterStruct ''k8s.PodsMetricSourceV2Beta2'' ''PodsMetricSourceV2Beta2'',
    RegisterStruct ''k8s.PolicyRule'' ''PolicyRule'',
    RegisterStruct ''k8s.PolicyRulesWithSubjectsV1Beta1'' ''PolicyRulesWithSubjectsV1Beta1'',
    RegisterStruct ''k8s.PolicyRulesWithSubjectsV1Beta2'' ''PolicyRulesWithSubjectsV1Beta2'',
    RegisterStruct ''k8s.PortworxVolumeSource'' ''PortworxVolumeSource'',
    RegisterStruct ''k8s.Preconditions'' ''Preconditions'',
    RegisterStruct ''k8s.PreferredSchedulingTerm'' ''PreferredSchedulingTerm'',
    RegisterStruct ''k8s.PriorityLevelConfigurationReferenceV1Beta1'' ''PriorityLevelConfigurationReferenceV1Beta1'',
    RegisterStruct ''k8s.PriorityLevelConfigurationReferenceV1Beta2'' ''PriorityLevelConfigurationReferenceV1Beta2'',
    RegisterStruct ''k8s.PriorityLevelConfigurationSpecV1Beta1'' ''PriorityLevelConfigurationSpecV1Beta1'',
    RegisterStruct ''k8s.PriorityLevelConfigurationSpecV1Beta2'' ''PriorityLevelConfigurationSpecV1Beta2'',
    RegisterStruct ''k8s.Probe'' ''Probe'',
    RegisterStruct ''k8s.ProjectedVolumeSource'' ''ProjectedVolumeSource'',
    RegisterClass ''k8s.Quantity'' ''Quantity''
     [MemberProperty ''value'' ''Value'']
     (NewProxy ''jsiiProxy_Quantity'' []),
    RegisterStruct ''k8s.QueuingConfigurationV1Beta1'' ''QueuingConfigurationV1Beta1'',
    RegisterStruct ''k8s.QueuingConfigurationV1Beta2'' ''QueuingConfigurationV1Beta2'',
    RegisterStruct ''k8s.QuobyteVolumeSource'' ''QuobyteVolumeSource'',
    RegisterStruct ''k8s.RbdPersistentVolumeSource'' ''RbdPersistentVolumeSource'']"

lemma init_35_ascends [ascends_checks]: "ascends ''k8s.PersistentVolumeClaimVolumeSource'' init_35 ''k8s.RbdPersistentVolumeSource''"
  by (simp add: init_35_def)

lemma init_35_named [named_checks]: "list_all wellNamed init_35"
  by (simp only: init_35_def wellNamed_def table_eval)

lemma init_35_props [props_checks]: "propsIn init_35 init_35"
  by (simp only: init_35_def props_eval)

lemma init_35_made [made_checks]: "list_all wellMade init_35"
  by (simp only: init_35_def made_eval table_eval)

definition init_36 :: "registration list" where
  "init_36 =
   [RegisterStruct ''k8s.RbdVolumeSource'' ''RbdVolumeSource'',
    RegisterStruct ''k8s.ReplicaSetSpec'' ''ReplicaSetSpec'',
    RegisterStruct ''k8s.ReplicationControllerSpec'' ''ReplicationControllerSpec'',
    RegisterStruct ''k8s.ResourceAttributes'' ''ResourceAttributes'',
    RegisterStruct ''k8s.ResourceFieldSelector'' ''ResourceFieldSelector'',
    RegisterStruct ''k8s.ResourceMetricSourceV2'' ''ResourceMetricSourceV2'',
    RegisterStruct ''k8s.ResourceMetricSourceV2Beta2'' ''ResourceMetricSourceV2Beta2'',
    RegisterStruct ''k8s.ResourcePolicyRuleV1Beta1'' ''ResourcePolicyRuleV1Beta1'',
    RegisterStruct ''k8s.ResourcePolicyRuleV1Beta2'' ''ResourcePolicyRuleV1Beta2'',
    RegisterStruct ''k8s.ResourceQuotaSpec'' ''ResourceQuotaSpec'',
    RegisterStruct ''k8s.ResourceRequirements'' ''ResourceRequirements'',
    RegisterStruct ''k8s.RoleRef'' ''RoleRef'',
    RegisterStruct ''k8s.RollingUpdateDaemonSet'' ''RollingUpdateDaemonSet'',
    RegisterStruct ''k8s.RollingUpdateDeployment'' ''RollingUpdateDeployment'',
    RegisterStruct ''k8s.RollingUpdateStatefulSetStrategy'' ''RollingUpdateStatefulSetStrategy'',
    RegisterStruct ''k8s.RuleWithOperations'' ''RuleWithOperations'',
    RegisterStruct ''k8s.ScaleIoPersistentVolumeSource'' ''ScaleIoPersistentVolumeSource'',
    RegisterStruct ''k8s.ScaleIoVolumeSource'' ''ScaleIoVolumeSource'',
    RegisterStruct ''k8s.ScaleSpec'' ''ScaleSpec'',
    RegisterStruct ''k8s.Scheduling'' ''Scheduling'',
    RegisterStruct ''k8s.ScopeSelector'' ''ScopeSelector'',
    RegisterStruct ''k8s.ScopedResourceSelectorRequirement'' ''ScopedResourceSelectorRequirement'',
    RegisterStruct ''k8s.SeLinuxOptions'' ''SeLinuxOptions'',
    RegisterStruct ''k8s.SeccompProfile'' ''SeccompProfile'',
    RegisterStruct ''k8s.SecretEnvSource'' ''SecretEnvSource'',
    RegisterStruct ''k8s.SecretKeySelector'' ''SecretKeySelector'',
    RegisterStruct ''k8s.SecretProjection'' ''SecretProjection'',
    RegisterStruct ''k8s.SecretReference'' ''SecretReference'',
    RegisterStruct ''k8s.SecretVolumeSource'' ''SecretVolumeSource'',
    RegisterStruct ''k8s.SecurityContext'' ''SecurityContext'',
    RegisterStruct ''k8s.SelfSubjectAccessReviewSpec'' ''SelfSubjectAccessReviewSpec'',
    RegisterStruct ''k8s.SelfSubjectRulesReviewSpec'' ''SelfSubjectRulesReviewSpec'',
    RegisterStruct ''k8s.ServiceAccountSubjectV1Beta1'' ''ServiceAccountSubjectV1Beta1'',
    RegisterStruct ''k8s.ServiceAccountSubjectV1Beta2'' ''ServiceAccountSubjectV1Beta2'',
    RegisterStruct ''k8s.ServiceAccountTokenProjection'' ''ServiceAccountTokenProjection'',
    RegisterStruct ''k8s.ServiceBackendPort'' ''ServiceBackendPort'',
    RegisterStruct ''k8s.ServicePort'' ''ServicePort'']"

lemma init_36_ascends [ascends_checks]: "ascends ''k8s.RbdPersistentVolumeSource'' init_36 ''k8s.ServicePort''"
  by (simp add: init_36_def)

lemma init_36_named [named_checks]: "list_all wellNamed init_36"
  by (simp only: init_36_def wellNamed_def table_eval)

lemma init_36_props [props_checks]: "propsIn init_36 init_36"
  by (simp only: init_36_def props_eval)

lemma init_36_made [made_checks]: "list_all wellMade init_36"
  by (simp only: init_36_def made_eval table_eval)

definition init_37 :: "registration list" where
  "init_37 =
   [RegisterStruct ''k8s.ServiceReference'' ''ServiceReference'',
    RegisterStruct ''k8s.ServiceSpec'' ''ServiceSpec'',
    RegisterStruct ''k8s.SessionAffinityConfig'' ''SessionAffinityConfig'',
    RegisterStruct ''k8s.StatefulSetPersistentVolumeClaimRetentionPolicy'' ''StatefulSetPersistentVolumeClaimRetentionPolicy'',
    RegisterStruct ''k8s.StatefulSetSpec'' ''StatefulSetSpec'',
    RegisterStruct ''k8s.StatefulSetUpdateStrategy'' ''StatefulSetUpdateStrategy'',
    RegisterStruct ''k8s.StatusCause'' ''StatusCause'',
    RegisterStruct ''k8s.StatusDetails'' ''StatusDetails'',
    RegisterStruct ''k8s.StorageOsPersistentVolumeSource'' ''StorageOsPersistentVolumeSource'',
    RegisterStruct ''k8s.StorageOsVolumeSource'' ''StorageOsVolumeSource'',
    RegisterStruct ''k8s.Subject'' ''Subject'',
    RegisterStruct ''k8s.SubjectAccessReviewSpec'' ''SubjectAccessReviewSpec'',
    RegisterStruct ''k8s.SubjectV1Beta1'' ''SubjectV1Beta1'',
    RegisterStruct ''k8s.SubjectV1Beta2'' ''SubjectV1Beta2'',
    RegisterStruct ''k8s.Sysctl'' ''Sysctl'',
    RegisterStruct ''k8s.Taint'' ''Taint'',
    RegisterStruct ''k8s.TcpSocketAction'' ''TcpSocketAction'',
    RegisterStruct ''k8s.TokenRequest'' ''TokenRequest'',
    RegisterStruct ''k8s.TokenRequestSpec'' ''TokenRequestSpec'',
    RegisterStruct ''k8s.TokenReviewSpec'' ''TokenReviewSpec'',
    RegisterStruct ''k8s.Toleration'' ''Toleration'',
    RegisterStruct ''k8s.TopologySelectorLabelRequirement'' ''TopologySelectorLabelRequirement'',
    RegisterStruct ''k8s.TopologySelectorTerm'' ''TopologySelectorTerm'',
    RegisterStruct ''k8s.TopologySpreadConstraint'' ''TopologySpreadConstraint'',
    RegisterStruct ''k8s.TypedLocalObjectReference'' ''TypedLocalObjectReference'',
    RegisterStruct ''k8s.UserSubjectV1Beta1'' ''UserSubjectV1Beta1'',
    RegisterStruct ''k8s.UserSubjectV1Beta2'' ''UserSubjectV1Beta2'',
    RegisterStruct ''k8s.ValidatingWebhook'' ''ValidatingWebhook'',
    RegisterStruct ''k8s.ValidationRule'' ''ValidationRule'',
    RegisterStruct ''k8s.Volume'' ''Volume'',
    RegisterStruct ''k8s.VolumeAttachmentSource'' ''VolumeAttachmentSource'',
    RegisterStruct ''k8s.VolumeAttachmentSpec'' ''VolumeAttachmentSpec'',
    RegisterStruct ''k8s.VolumeDevice'' ''VolumeDevice'',
    RegisterStruct ''k8s.VolumeMount'' ''VolumeMount'',
    RegisterStruct ''k8s.VolumeNodeAffinity'' ''VolumeNodeAffinity'',
    RegisterStruct ''k8s.VolumeNodeResources'' ''VolumeNodeResources'',
    RegisterStruct ''k8s.VolumeProjection'' ''VolumeProjection'']"

lemma init_37_ascends [ascends_checks]: "ascends ''k8s.ServicePort'' init_37 ''k8s.VolumeProjection''"
  by (simp add: init_37_def)

lemma init_37_named [named_checks]: "list_all wellNamed init_37"
  by (simp only: init_37_def wellNamed_def table_eval)

lemma init_37_props [props_checks]: "propsIn init_37 init_37"
  by (simp only: init_37_def props_eval)

lemma init_37_made [made_checks]: "list_all wellMade init_37"
  by (simp only: init_37_def made_eval table_eval)

definition init_38 :: "registration list" where
  "init_38 =
   [RegisterStruct ''k8s.VsphereVirtualDiskVolumeSource'' ''VsphereVirtualDiskVolumeSource'',
    RegisterStruct ''k8s.WebhookClientConfig'' ''WebhookClientConfig'',
    RegisterStruct ''k8s.WebhookConversion'' ''WebhookConversion'',
    RegisterStruct ''k8s.WeightedPodAffinityTerm'' ''WeightedPodAffinityTerm'',
    RegisterStruct ''k8s.WindowsSecurityContextOptions'' ''WindowsSecurityContextOptions'']"

lemma init_38_ascends [ascends_checks]: "ascends ''k8s.VolumeProjection'' init_38 ''k8s.WindowsSecurityContextOptions''"
  by (simp add: init_38_def)

lemma init_38_named [named_checks]: "list_all wellNamed init_38"
  by (simp only: init_38_def wellNamed_def table_eval)

lemma init_38_props [props_checks]: "propsIn init_38 init_38"
  by (simp only: init_38_def props_eval)

lemma init_38_made [made_checks]: "list_all wellMade init_38"
  by (simp only: init_38_def made_eval table_eval)

end
