(* ===== verification/K8sInit.thy ===== *)
theory K8sInit
  imports K8sInitA K8sInitB K8sInitC K8sInitD
begin

text \<open>
  The function \<open>init\<close> of the Kubernetes bindings
  (\<open>examples/cdk8s-sample-deployment/imports/k8s/main.go\<close>): all its registrations, in order, and what
  holds of the table as a whole.
\<close>

definition init :: "registration list" where
  "init =
    init_1 @ init_2 @ init_3 @ init_4 @ init_5 @ init_6 @ init_7 @ init_8 @ init_9 @ init_10 @
     init_11 @ init_12 @ init_13 @ init_14 @ init_15 @ init_16 @ init_17 @ init_18 @ init_19 @
     init_20 @ init_21 @ init_22 @ init_23 @ init_24 @ init_25 @ init_26 @ init_27 @ init_28 @
     init_29 @ init_30 @ init_31 @ init_32 @ init_33 @ init_34 @ init_35 @ init_36 @ init_37 @
     init_38"

section \<open>The checks of the stretches together\<close>

lemma init_ascends: "ascends [] init ''k8s.WindowsSecurityContextOptions''"
  unfolding init_def
  by (rule ascends_append ascends_checks)+

lemma init_named: "list_all wellNamed init"
  unfolding init_def by (simp only: list_all_append HOL.simp_thms named_checks)

lemma init_made: "list_all wellMade init"
  unfolding init_def by (simp only: list_all_append HOL.simp_thms made_checks)

lemma init_props: "propsIn init init"
  unfolding init_def by (intro propsIn_join props_checks)

lemma init_distinct: "distinct (map fqn init)" "distinct (map goType init)"
  using ascends_distinct [OF init_ascends] wellNamed_distinct [OF _ init_named] by blast+

section \<open>Properties\<close>

text \<open>
  Every registration of the package names its type \<open>k8s.T\<close> where \<open>T\<close> is the Go type, and is complete:
  a class has a proxy \<open>jsiiProxy_T\<close> and Go members that are the capitalised JavaScript members; the
  class of an API object has exactly the members of \<open>cdk8s.ApiObject\<close>, whose proxy it initialises, and
  its properties struct is registered, too; the values of an enum are constants of its type.
\<close>

theorem init_well_formed: "list_all wellNamed init \<and> list_all wellMade init \<and> propsIn init init"
  using init_named init_made init_props by simp

text \<open>
  With a runtime that accepts a type whose name and Go type are not taken, the start of the program does
  not panic in \<open>init\<close>: all types are accepted, and afterwards each is found under its name.
\<close>

theorem init_registers_every_type:
  assumes "registryLaw register entry" and "entry r = Map.empty"
  shows "\<exists>r'. registerAll register init r = Returned r' \<and>
    entry r' = map_of (map (\<lambda>g. (fqn g, g)) init)"
  using registerAll_fresh [OF assms(1) init_distinct, of r] assms(2) by (simp add: free_def)

theorem init_registers_every_type_witness:
  "\<exists>r'. registerAll tableRegister init Map.empty = Returned r' \<and>
    r' = map_of (map (\<lambda>g. (fqn g, g)) init)"
  by (rule init_registers_every_type [OF tableRegister_law]) simp

end
