(* ===== verification/Structs.thy ===== *)
theory Structs
  imports Registry
begin

text \<open>
  The struct types of the Kubernetes bindings of the sample application
  (\<open>examples/cdk8s-sample-deployment/imports/k8s/*.go\<close>), one Go file each: a list of fields with the
  type, the tag \<open>field:"required"\<close> or \<open>field:"optional"\<close>, and the JSON name (the tags \<open>json\<close> and \<open>yaml\<close>
  of a field are the same string throughout, so it is kept once). The theories \<open>K8sTypesA\<close> to
  \<open>K8sTypesD\<close> translate the files, in the order in which \<open>init\<close> registers them; \<open>K8sTypes\<close> shows what
  holds of all of them.

  Here are the language of types and fields, the checks on a table of structs, and the values: a Go
  composite literal is a \<open>VStruct\<close> with the fields that it sets, the others being nil. \<open>hasType\<close> is
  the typing of such a value, \<open>complete\<close> what the tags ask for: at every level all required fields
  are there. \<open>VObj n\<close> stands for a value of an interface type of the bindings, \<open>VTime\<close> for one of
  \<open>time.Time\<close>; the literals of the program contain only integers, so a \<open>float64\<close> is an \<open>int\<close>.
\<close>

named_theorems struct_defs \<open>the definitions of the structs\<close>

named_theorems json_checks \<open>the evaluated checks of each group of structs: JSON names\<close>

named_theorems names_checks \<open>the structs are those registered\<close>

named_theorems type_checks \<open>the types of the fields are registered\<close>

named_theorems rank_checks \<open>the required fields are well-founded\<close>

section \<open>Types, fields and structs\<close>

datatype gotype =
    GoString | GoFloat64 | GoBool | GoTime | GoAny
  | GoNamed string
  | GoPtr gotype
  | GoSlice gotype
  | GoMap gotype

datatype field = Required string gotype string | Optional string gotype string

datatype structdef = Struct string "field list"

fun fieldName :: "field \<Rightarrow> string" where
  "fieldName (Required n t j) = n"
| "fieldName (Optional n t j) = n"

fun fieldType :: "field \<Rightarrow> gotype" where
  "fieldType (Required n t j) = t"
| "fieldType (Optional n t j) = t"

fun jsonName :: "field \<Rightarrow> string" where
  "jsonName (Required n t j) = j"
| "jsonName (Optional n t j) = j"

fun isRequired :: "field \<Rightarrow> bool" where
  "isRequired (Required n t j) = True"
| "isRequired (Optional n t j) = False"

fun structName :: "structdef \<Rightarrow> string" where
  "structName (Struct n fs) = n"

fun structFields :: "structdef \<Rightarrow> field list" where
  "structFields (Struct n fs) = fs"

definition fieldsOf :: "structdef list \<Rightarrow> string \<Rightarrow> field list option" where
  "fieldsOf tab n = map_of (map (\<lambda>s. (structName s, structFields s)) tab) n"

definition fieldOf :: "field list \<Rightarrow> string \<Rightarrow> field option" where
  "fieldOf fs n = find (\<lambda>f. fieldName f = n) fs"

section \<open>Checks on a table of structs\<close>

text \<open>Go name and JSON name of a field correspond, and the names within a struct differ.\<close>

definition jsonNamed :: "structdef \<Rightarrow> bool" where
  "jsonNamed s \<longleftrightarrow> list_all (\<lambda>f. fieldName f = capitalize (jsonName f)) (structFields s) \<and>
     distinct (map fieldName (structFields s))"

definition isInterface :: "registration list \<Rightarrow> string \<Rightarrow> bool" where
  "isInterface gs t \<longleftrightarrow> list_ex (\<lambda>g. goType g = t \<and> \<not> isStruct g) gs"

text \<open>
  A type of a field resolves in a table of registrations: what a pointer to a named type refers to is a
  registered struct; a named type without a pointer is an interface or an enum that is registered.
\<close>

fun resolves :: "registration list \<Rightarrow> gotype \<Rightarrow> bool" where
  "resolves gs (GoPtr (GoNamed t)) \<longleftrightarrow> RegisterStruct (''k8s.'' @ t) t \<in> set gs"
| "resolves gs (GoPtr t) = resolves gs t"
| "resolves gs (GoSlice t) = resolves gs t"
| "resolves gs (GoMap t) = resolves gs t"
| "resolves gs (GoNamed t) = isInterface gs t"
| "resolves gs _ = True"

definition structsIn :: "registration list \<Rightarrow> registration list \<Rightarrow> bool" where
  "structsIn gs hs \<longleftrightarrow> (\<forall>g\<in>set hs. isStruct g \<longrightarrow> g \<in> set gs)"

lemma structsIn_simps:
  "structsIn gs [] = True"
  "structsIn gs (RegisterStruct n t # hs) = (RegisterStruct n t \<in> set gs \<and> structsIn gs hs)"
  "structsIn gs (RegisterClass n t ms k # hs) = structsIn gs hs"
  "structsIn gs (RegisterEnum n t vs # hs) = structsIn gs hs"
  by (auto simp: structsIn_def isStruct_simps)

text \<open>The named type a value of the type cannot do without: none behind a slice or a map, which may be empty.\<close>

fun refersTo :: "gotype \<Rightarrow> string option" where
  "refersTo (GoPtr t) = refersTo t"
| "refersTo (GoNamed n) = Some n"
| "refersTo _ = None"

definition requires :: "structdef \<Rightarrow> string list" where
  "requires s = List.map_filter (\<lambda>f. if isRequired f then refersTo (fieldType f) else None) (structFields s)"

definition ranked :: "(string \<Rightarrow> nat) \<Rightarrow> structdef \<Rightarrow> bool" where
  "ranked rank s \<longleftrightarrow> list_all (\<lambda>n. rank n < rank (structName s)) (requires s)"

text \<open>The rules that evaluate the checks on structs written out.\<close>

lemma asciiUpper_alphabet:
  "asciiUpper (CHR ''b'') = CHR ''B''" "asciiUpper (CHR ''d'') = CHR ''D''"
  "asciiUpper (CHR ''e'') = CHR ''E''" "asciiUpper (CHR ''f'') = CHR ''F''"
  "asciiUpper (CHR ''g'') = CHR ''G''" "asciiUpper (CHR ''h'') = CHR ''H''"
  "asciiUpper (CHR ''i'') = CHR ''I''" "asciiUpper (CHR ''j'') = CHR ''J''"
  "asciiUpper (CHR ''l'') = CHR ''L''" "asciiUpper (CHR ''o'') = CHR ''O''"
  "asciiUpper (CHR ''p'') = CHR ''P''" "asciiUpper (CHR ''q'') = CHR ''Q''"
  "asciiUpper (CHR ''r'') = CHR ''R''" "asciiUpper (CHR ''s'') = CHR ''S''"
  "asciiUpper (CHR ''u'') = CHR ''U''" "asciiUpper (CHR ''w'') = CHR ''W''"
  "asciiUpper (CHR ''x'') = CHR ''X''" "asciiUpper (CHR ''y'') = CHR ''Y''"
  "asciiUpper (CHR ''z'') = CHR ''Z''"
  by code_simp+

lemmas json_simps = jsonNamed_def asciiUpper_letters asciiUpper_alphabet

lemmas field_eval =
  structName.simps structFields.simps fieldName.simps fieldType.simps jsonName.simps isRequired.simps
  resolves.simps

lemma ranked_simps:
  "ranked rank (Struct n []) = True"
  "ranked rank (Struct n (Optional a t j # fs)) = ranked rank (Struct n fs)"
  "ranked rank (Struct n (Required a t j # fs)) =
    ((case refersTo t of None \<Rightarrow> True | Some m \<Rightarrow> rank m < rank n) \<and> ranked rank (Struct n fs))"
  by (simp_all add: ranked_def requires_def map_filter_simps split: option.split)

definition anyRequired :: "structdef \<Rightarrow> bool" where
  "anyRequired s = list_ex isRequired (structFields s)"

lemma anyRequired_simps:
  "anyRequired (Struct n []) = False"
  "anyRequired (Struct n (Required a t j # fs)) = True"
  "anyRequired (Struct n (Optional a t j # fs)) = anyRequired (Struct n fs)"
  by (simp_all add: anyRequired_def)

section \<open>Values\<close>

datatype gval =
    VNil | VString string | VFloat64 int | VBool bool | VTime int
  | VObj string
  | VPtr gval
  | VSlice "gval list"
  | VMap "(string \<times> gval) list"
  | VStruct string "(string \<times> gval) list"

lemma size_snd_le: "(k, v) \<in> set kvs \<Longrightarrow> size v \<le> size_list (size_prod (\<lambda>_. 0) size) kvs"
  by (induction kvs) (auto simp: size_prod_def split: prod.splits)

function hasType :: "structdef list \<Rightarrow> gotype \<Rightarrow> gval \<Rightarrow> bool" where
  "hasType tab t (VString s) \<longleftrightarrow> t = GoString \<or> t = GoAny"
| "hasType tab t (VFloat64 n) \<longleftrightarrow> t = GoFloat64 \<or> t = GoAny"
| "hasType tab t (VBool b) \<longleftrightarrow> t = GoBool \<or> t = GoAny"
| "hasType tab t (VTime i) \<longleftrightarrow> t = GoTime \<or> t = GoAny"
| "hasType tab t (VObj n) \<longleftrightarrow> t = GoNamed n \<and> fieldsOf tab n = None \<or> t = GoAny"
| "hasType tab t VNil \<longleftrightarrow> (case t of GoNamed n \<Rightarrow> fieldsOf tab n = None
     | GoAny \<Rightarrow> True | GoPtr _ \<Rightarrow> True | GoSlice _ \<Rightarrow> True | GoMap _ \<Rightarrow> True | _ \<Rightarrow> False)"
| "hasType tab t (VPtr v) \<longleftrightarrow> (case t of GoPtr u \<Rightarrow> hasType tab u v | _ \<Rightarrow> False)"
| "hasType tab t (VSlice vs) \<longleftrightarrow> (case t of GoSlice u \<Rightarrow> list_all (hasType tab u) vs | _ \<Rightarrow> False)"
| "hasType tab t (VMap kvs) \<longleftrightarrow>
     (case t of GoMap u \<Rightarrow> list_all (\<lambda>kv. hasType tab u (snd kv)) kvs | _ \<Rightarrow> False)"
| "hasType tab t (VStruct n fvs) \<longleftrightarrow> t = GoNamed n \<and> distinct (map fst fvs) \<and>
     (case fieldsOf tab n of None \<Rightarrow> False
      | Some fs \<Rightarrow> list_all (\<lambda>kv. case fieldOf fs (fst kv) of None \<Rightarrow> False
          | Some f \<Rightarrow> hasType tab (fieldType f) (snd kv)) fvs)"
  by pat_completeness auto
termination
  by (relation "measure (\<lambda>(tab, t, v). size v)")
    (auto simp: less_Suc_eq_le size_snd_le dest: size_list_estimation')

definition present :: "(string \<times> gval) list \<Rightarrow> field \<Rightarrow> bool" where
  "present fvs f \<longleftrightarrow> (case map_of fvs (fieldName f) of None \<Rightarrow> False | Some v \<Rightarrow> v \<noteq> VNil)"

function complete :: "structdef list \<Rightarrow> gval \<Rightarrow> bool" where
  "complete tab (VPtr v) = complete tab v"
| "complete tab (VSlice vs) = list_all (complete tab) vs"
| "complete tab (VMap kvs) = list_all (\<lambda>kv. complete tab (snd kv)) kvs"
| "complete tab (VStruct n fvs) \<longleftrightarrow>
     (case fieldsOf tab n of None \<Rightarrow> False
      | Some fs \<Rightarrow> list_all (\<lambda>f. isRequired f \<longrightarrow> present fvs f) fs) \<and>
     list_all (\<lambda>kv. complete tab (snd kv)) fvs"
| "complete tab (VString s) = True"
| "complete tab (VFloat64 n) = True"
| "complete tab (VBool b) = True"
| "complete tab (VTime i) = True"
| "complete tab (VObj n) = True"
| "complete tab VNil = True"
  by pat_completeness auto
termination
  by (relation "measure (\<lambda>(tab, v). size v)")
    (auto simp: less_Suc_eq_le size_snd_le dest: size_list_estimation')

section \<open>Every struct has a complete value\<close>

definition inhabits :: "structdef list \<Rightarrow> gotype \<Rightarrow> gval \<Rightarrow> bool" where
  "inhabits tab t v \<longleftrightarrow> v \<noteq> VNil \<and> hasType tab t v \<and> complete tab v"

lemma inhabits_simps [simp]:
  "inhabits tab GoString (VString [])" "inhabits tab GoFloat64 (VFloat64 0)" "inhabits tab GoBool (VBool b)"
  "inhabits tab GoTime (VTime 0)" "inhabits tab GoAny (VString [])"
  "inhabits tab (GoPtr t) (VPtr v) \<longleftrightarrow> hasType tab t v \<and> complete tab v"
  "inhabits tab (GoSlice t) (VSlice [])" "inhabits tab (GoMap t) (VMap [])"
  "inhabits tab (GoNamed n) (VObj n) \<longleftrightarrow> fieldsOf tab n = None"
  by (auto simp: inhabits_def)

lemma inhabited_type:
  "(\<And>n. refersTo t = Some n \<Longrightarrow> \<exists>v. inhabits tab (GoNamed n) v) \<Longrightarrow> \<exists>v. inhabits tab t v"
proof (induction t)
  case (GoPtr t)
  then obtain v where "inhabits tab t v" by auto
  then have "inhabits tab (GoPtr t) (VPtr v)" by (simp add: inhabits_def)
  then show ?case ..
next
  case (GoNamed n)
  then show ?case by simp
next
  case (GoSlice t)
  show ?case using inhabits_simps(7) ..
next
  case (GoMap t)
  show ?case using inhabits_simps(8) ..
qed (blast intro: inhabits_simps)+

lemma fieldOf_distinct:
  "distinct (map fieldName fs) \<Longrightarrow> f \<in> set fs \<Longrightarrow> fieldOf fs (fieldName f) = Some f"
  unfolding fieldOf_def by (induction fs) auto

lemma requires_iff:
  "n \<in> set (requires s) \<longleftrightarrow> (\<exists>f\<in>set (structFields s). isRequired f \<and> refersTo (fieldType f) = Some n)"
  by (force simp: requires_def List.map_filter_def split: if_splits)

lemma inhabited_struct:
  assumes tab: "fieldsOf tab n = Some fs" and "distinct (map fieldName fs)"
    and ex: "\<And>f. f \<in> set fs \<Longrightarrow> isRequired f \<Longrightarrow> \<exists>v. inhabits tab (fieldType f) v"
  shows "\<exists>v. inhabits tab (GoNamed n) v"
proof -
  obtain val where val: "inhabits tab (fieldType f) (val f)" if "f \<in> set fs" "isRequired f" for f
    using ex by metis
  let ?fvs = "map (\<lambda>f. (fieldName f, val f)) (filter isRequired fs)"
  have dist: "distinct (map fst ?fvs)"
    using assms(2) by (simp add: comp_def distinct_map inj_on_def)
  have "present ?fvs f" if "f \<in> set fs" "isRequired f" for f
    using map_of_is_SomeI [OF dist, of "fieldName f" "val f"] val [OF that] that
    by (force simp: present_def inhabits_def)
  moreover have "hasType tab (GoNamed n) (VStruct n ?fvs)"
    using dist tab val fieldOf_distinct [OF assms(2)]
    by (auto simp: list_all_iff inhabits_def split: option.splits)
  ultimately have "inhabits tab (GoNamed n) (VStruct n ?fvs)"
    using tab val by (auto simp: inhabits_def list_all_iff)
  then show ?thesis ..
qed

lemma fieldsOf_SomeD: "fieldsOf tab n = Some fs \<Longrightarrow> Struct n fs \<in> set tab"
  by (auto simp: fieldsOf_def dest!: map_of_SomeD) (metis structFields.simps structName.simps structdef.exhaust)

lemma all_inhabited:
  assumes "list_all jsonNamed tab" and "list_all (ranked rank) tab"
  shows "\<exists>v. inhabits tab (GoNamed n) v"
proof (induction n rule: measure_induct_rule [of rank])
  case (less n)
  show ?case
  proof (cases "fieldsOf tab n")
    case None
    then have "inhabits tab (GoNamed n) (VObj n)" by simp
    then show ?thesis ..
  next
    case (Some fs)
    have s: "jsonNamed (Struct n fs)" "ranked rank (Struct n fs)"
      using fieldsOf_SomeD [OF Some] assms by (auto simp: list_all_iff)
    have "\<exists>v. inhabits tab (fieldType f) v" if "f \<in> set fs" "isRequired f" for f
    proof (rule inhabited_type)
      fix m
      assume "refersTo (fieldType f) = Some m"
      then have "rank m < rank n"
        using that s(2) requires_iff [of m "Struct n fs"] by (auto simp: ranked_def list_all_iff)
      then show "\<exists>v. inhabits tab (GoNamed m) v" by (rule less.IH)
    qed
    then show ?thesis using s(1) by (intro inhabited_struct [OF Some]) (auto simp: jsonNamed_def)
  qed
qed

end
