(* ===== verification/K8sTypesA.thy ===== *)
theory K8sTypesA
  imports Structs
begin

text \<open>
  The structs \<open>Affinity\<close> to \<open>CustomResourceConversion\<close> of the Kubernetes bindings, one for each file of that name, in
  the groups of the stretches of \<open>init\<close> that register them.
\<close>

definition Affinity :: structdef where
  [struct_defs]: "Affinity = Struct ''Affinity'' [
    Optional ''NodeAffinity'' (GoPtr (GoNamed ''NodeAffinity'')) ''nodeAffinity'',
    Optional ''PodAffinity'' (GoPtr (GoNamed ''PodAffinity'')) ''podAffinity'',
    Optional ''PodAntiAffinity'' (GoPtr (GoNamed ''PodAntiAffinity'')) ''podAntiAffinity'']"

definition AggregationRule :: structdef where
  [struct_defs]: "AggregationRule = Struct ''AggregationRule'' [
    Optional ''ClusterRoleSelectors'' (GoPtr (GoSlice (GoPtr (GoNamed ''LabelSelector'')))) ''clusterRoleSelectors'']"

definition ApiServiceSpec :: structdef where
  [struct_defs]: "ApiServiceSpec = Struct ''ApiServiceSpec'' [
    Required ''GroupPriorityMinimum'' (GoPtr GoFloat64) ''groupPriorityMinimum'',
    Required ''VersionPriority'' (GoPtr GoFloat64) ''versionPriority'',
    Optional ''CaBundle'' (GoPtr GoString) ''caBundle'',
    Optional ''Group'' (GoPtr GoString) ''group'',
    Optional ''InsecureSkipTlsVerify'' (GoPtr GoBool) ''insecureSkipTlsVerify'',
    Optional ''Service'' (GoPtr (GoNamed ''ServiceReference'')) ''service'',
    Optional ''Version'' (GoPtr GoString) ''version'']"

definition AwsElasticBlockStoreVolumeSource :: structdef where
  [struct_defs]: "AwsElasticBlockStoreVolumeSource = Struct ''AwsElasticBlockStoreVolumeSource'' [
    Required ''VolumeId'' (GoPtr GoString) ''volumeId'',
    Optional ''FsType'' (GoPtr GoString) ''fsType'',
    Optional ''Partition'' (GoPtr GoFloat64) ''partition'',
    Optional ''ReadOnly'' (GoPtr GoBool) ''readOnly'']"

definition AzureDiskVolumeSource :: structdef where
  [struct_defs]: "AzureDiskVolumeSource = Struct ''AzureDiskVolumeSource'' [
    Required ''DiskName'' (GoPtr GoString) ''diskName'',
    Required ''DiskUri'' (GoPtr GoString) ''diskUri'',
    Optional ''CachingMode'' (GoPtr GoString) ''cachingMode'',
    Optional ''FsType'' (GoPtr GoString) ''fsType'',
    Optional ''Kind'' (GoPtr GoString) ''kind'',
    Optional ''ReadOnly'' (GoPtr GoBool) ''readOnly'']"

definition AzureFilePersistentVolumeSource :: structdef where
  [struct_defs]: "AzureFilePersistentVolumeSource = Struct ''AzureFilePersistentVolumeSource'' [
    Required ''SecretName'' (GoPtr GoString) ''secretName'',
    Required ''ShareName'' (GoPtr GoString) ''shareName'',
    Optional ''ReadOnly'' (GoPtr GoBool) ''readOnly'',
    Optional ''SecretNamespace'' (GoPtr GoString) ''secretNamespace'']"

definition AzureFileVolumeSource :: structdef where
  [struct_defs]: "AzureFileVolumeSource = Struct ''AzureFileVolumeSource'' [
    Required ''SecretName'' (GoPtr GoString) ''secretName'',
    Required ''ShareName'' (GoPtr GoString) ''shareName'',
    Optional ''ReadOnly'' (GoPtr GoBool) ''readOnly'']"

definition BoundObjectReference :: structdef where
  [struct_defs]: "BoundObjectReference = Struct ''BoundObjectReference'' [
    Optional ''ApiVersion'' (GoPtr GoString) ''apiVersion'',
    Optional ''Kind'' (GoPtr GoString) ''kind'',
    Optional ''Name'' (GoPtr GoString) ''name'',
    Optional ''Uid'' (GoPtr GoString) ''uid'']"

definition Capabilities :: structdef where
  [struct_defs]: "Capabilities = Struct ''Capabilities'' [
    Optional ''Add'' (GoPtr (GoSlice (GoPtr GoString))) ''add'',
    Optional ''Drop'' (GoPtr (GoSlice (GoPtr GoString))) ''drop'']"

definition CephFsPersistentVolumeSource :: structdef where
  [struct_defs]: "CephFsPersistentVolumeSource = Struct ''CephFsPersistentVolumeSource'' [
    Required ''Monitors'' (GoPtr (GoSlice (GoPtr GoString))) ''monitors'',
    Optional ''Path'' (GoPtr GoString) ''path'',
    Optional ''ReadOnly'' (GoPtr GoBool) ''readOnly'',
    Optional ''SecretFile'' (GoPtr GoString) ''secretFile'',
    Optional ''SecretRef'' (GoPtr (GoNamed ''SecretReference'')) ''secretRef'',
    Optional ''User'' (GoPtr GoString) ''user'']"

definition CephFsVolumeSource :: structdef where
  [struct_defs]: "CephFsVolumeSource = Struct ''CephFsVolumeSource'' [
    Required ''Monitors'' (GoPtr (GoSlice (GoPtr GoString))) ''monitors'',
    Optional ''Path'' (GoPtr GoString) ''path'',
    Optional ''ReadOnly'' (GoPtr GoBool) ''readOnly'',
    Optional ''SecretFile'' (GoPtr GoString) ''secretFile'',
    Optional ''SecretRef'' (GoPtr (GoNamed ''LocalObjectReference'')) ''secretRef'',
    Optional ''User'' (GoPtr GoString) ''user'']"

definition CertificateSigningRequestSpec :: structdef where
  [struct_defs]: "CertificateSigningRequestSpec = Struct ''CertificateSigningRequestSpec'' [
    Required ''Request'' (GoPtr GoString) ''request'',
    Required ''SignerName'' (GoPtr GoString) ''signerName'',
    Optional ''ExpirationSeconds'' (GoPtr GoFloat64) ''expirationSeconds'',
    Optional ''Extra'' (GoPtr (GoMap (GoPtr (GoSlice (GoPtr GoString))))) ''extra'',
    Optional ''Groups'' (GoPtr (GoSlice (GoPtr GoString))) ''groups'',
    Optional ''Uid'' (GoPtr GoString) ''uid'',
    Optional ''Usages'' (GoPtr (GoSlice (GoPtr GoString))) ''usages'',
    Optional ''Username'' (GoPtr GoString) ''username'']"

definition CinderPersistentVolumeSource :: structdef where
  [struct_defs]: "CinderPersistentVolumeSource = Struct ''CinderPersistentVolumeSource'' [
    Required ''VolumeId'' (GoPtr GoString) ''volumeId'',
    Optional ''FsType'' (GoPtr GoString) ''fsType'',
    Optional ''ReadOnly'' (GoPtr GoBool) ''readOnly'',
    Optional ''SecretRef'' (GoPtr (GoNamed ''SecretReference'')) ''secretRef'']"

definition CinderVolumeSource :: structdef where
  [struct_defs]: "CinderVolumeSource = Struct ''CinderVolumeSource'' [
    Required ''VolumeId'' (GoPtr GoString) ''volumeId'',
    Optional ''FsType'' (GoPtr GoString) ''fsType'',
    Optional ''ReadOnly'' (GoPtr GoBool) ''readOnly'',
    Optional ''SecretRef'' (GoPtr (GoNamed ''LocalObjectReference'')) ''secretRef'']"

definition ClientIpConfig :: structdef where
  [struct_defs]: "ClientIpConfig = Struct ''ClientIpConfig'' [
    Optional ''TimeoutSeconds'' (GoPtr GoFloat64) ''timeoutSeconds'']"

definition ClusterCidrSpecV1Alpha1 :: structdef where
  [struct_defs]: "ClusterCidrSpecV1Alpha1 = Struct ''ClusterCidrSpecV1Alpha1'' [
    Required ''PerNodeHostBits'' (GoPtr GoFloat64) ''perNodeHostBits'',
    Optional ''Ipv4'' (GoPtr GoString) ''ipv4'',
    Optional ''Ipv6'' (GoPtr GoString) ''ipv6'',
    Optional ''NodeSelector'' (GoPtr (GoNamed ''NodeSelector'')) ''nodeSelector'']"

definition ComponentCondition :: structdef where
  [struct_defs]: "ComponentCondition = Struct ''ComponentCondition'' [
    Required ''Status'' (GoPtr GoString) ''status'',
    Required ''Type'' (GoPtr GoString) ''type'',
    Optional ''Error'' (GoPtr GoString) ''error'',
    Optional ''Message'' (GoPtr GoString) ''message'']"

definition ConfigMapEnvSource :: structdef where
  [struct_defs]: "ConfigMapEnvSource = Struct ''ConfigMapEnvSource'' [
    Optional ''Name'' (GoPtr GoString) ''name'',
    Optional ''Optional'' (GoPtr GoBool) ''optional'']"

definition ConfigMapKeySelector :: structdef where
  [struct_defs]: "ConfigMapKeySelector = Struct ''ConfigMapKeySelector'' [
    Required ''Key'' (GoPtr GoString) ''key'',
    Optional ''Name'' (GoPtr GoString) ''name'',
    Optional ''Optional'' (GoPtr GoBool) ''optional'']"

definition ConfigMapNodeConfigSource :: structdef where
  [struct_defs]: "ConfigMapNodeConfigSource = Struct ''ConfigMapNodeConfigSource'' [
    Required ''KubeletConfigKey'' (GoPtr GoString) ''kubeletConfigKey'',
    Required ''Name'' (GoPtr GoString) ''name'',
    Required ''Namespace'' (GoPtr GoString) ''namespace'',
    Optional ''ResourceVersion'' (GoPtr GoString) ''resourceVersion'',
    Optional ''Uid'' (GoPtr GoString) ''uid'']"

definition ConfigMapProjection :: structdef where
  [struct_defs]: "ConfigMapProjection = Struct ''ConfigMapProjection'' [
    Optional ''Items'' (GoPtr (GoSlice (GoPtr (GoNamed ''KeyToPath'')))) ''items'',
    Optional ''Name'' (GoPtr GoString) ''name'',
    Optional ''Optional'' (GoPtr GoBool) ''optional'']"

definition ConfigMapVolumeSource :: structdef where
  [struct_defs]: "ConfigMapVolumeSource = Struct ''ConfigMapVolumeSource'' [
    Optional ''DefaultMode'' (GoPtr GoFloat64) ''defaultMode'',
    Optional ''Items'' (GoPtr (GoSlice (GoPtr (GoNamed ''KeyToPath'')))) ''items'',
    Optional ''Name'' (GoPtr GoString) ''name'',
    Optional ''Optional'' (GoPtr GoBool) ''optional'']"

definition Container :: structdef where
  [struct_defs]: "Container = Struct ''Container'' [
    Required ''Name'' (GoPtr GoString) ''name'',
    Optional ''Args'' (GoPtr (GoSlice (GoPtr GoString))) ''args'',
    Optional ''Command'' (GoPtr (GoSlice (GoPtr GoString))) ''command'',
    Optional ''Env'' (GoPtr (GoSlice (GoPtr (GoNamed ''EnvVar'')))) ''env'',
    Optional ''EnvFrom'' (GoPtr (GoSlice (GoPtr (GoNamed ''EnvFromSource'')))) ''envFrom'',
    Optional ''Image'' (GoPtr GoString) ''image'',
    Optional ''ImagePullPolicy'' (GoPtr GoString) ''imagePullPolicy'',
    Optional ''Lifecycle'' (GoPtr (GoNamed ''Lifecycle'')) ''lifecycle'',
    Optional ''LivenessProbe'' (GoPtr (GoNamed ''Probe'')) ''livenessProbe'',
    Optional ''Ports'' (GoPtr (GoSlice (GoPtr (GoNamed ''ContainerPort'')))) ''ports'',
    Optional ''ReadinessProbe'' (GoPtr (GoNamed ''Probe'')) ''readinessProbe'',
    Optional ''Resources'' (GoPtr (GoNamed ''ResourceRequirements'')) ''resources'',
    Optional ''SecurityContext'' (GoPtr (GoNamed ''SecurityContext'')) ''securityContext'',
    Optional ''StartupProbe'' (GoPtr (GoNamed ''Probe'')) ''startupProbe'',
    Optional ''Stdin'' (GoPtr GoBool) ''stdin'',
    Optional ''StdinOnce'' (GoPtr GoBool) ''stdinOnce'',
    Optional ''TerminationMessagePath'' (GoPtr GoString) ''terminationMessagePath'',
    Optional ''TerminationMessagePolicy'' (GoPtr GoString) ''terminationMessagePolicy'',
    Optional ''Tty'' (GoPtr GoBool) ''tty'',
    Optional ''VolumeDevices'' (GoPtr (GoSlice (GoPtr (GoNamed ''VolumeDevice'')))) ''volumeDevices'',
    Optional ''VolumeMounts'' (GoPtr (GoSlice (GoPtr (GoNamed ''VolumeMount'')))) ''volumeMounts'',
    Optional ''WorkingDir'' (GoPtr GoString) ''workingDir'']"

definition ContainerPort :: structdef where
  [struct_defs]: "ContainerPort = Struct ''ContainerPort'' [
    Required ''ContainerPort'' (GoPtr GoFloat64) ''containerPort'',
    Optional ''HostIp'' (GoPtr GoString) ''hostIp'',
    Optional ''HostPort'' (GoPtr GoFloat64) ''hostPort'',
    Optional ''Name'' (GoPtr GoString) ''name'',
    Optional ''Protocol'' (GoPtr GoString) ''protocol'']"

definition ContainerResourceMetricSourceV2 :: structdef where
  [struct_defs]: "ContainerResourceMetricSourceV2 = Struct ''ContainerResourceMetricSourceV2'' [
    Required ''Container'' (GoPtr GoString) ''container'',
    Required ''Name'' (GoPtr GoString) ''name'',
    Required ''Target'' (GoPtr (GoNamed ''MetricTargetV2'')) ''target'']"

definition ContainerResourceMetricSourceV2Beta2 :: structdef where
  [struct_defs]: "ContainerResourceMetricSourceV2Beta2 = Struct ''ContainerResourceMetricSourceV2Beta2'' [
    Required ''Container'' (GoPtr GoString) ''container'',
    Required ''Name'' (GoPtr GoString) ''name'',
    Required ''Target'' (GoPtr (GoNamed ''MetricTargetV2Beta2'')) ''target'']"

definition CronJobSpec :: structdef where
  [struct_defs]: "CronJobSpec = Struct ''CronJobSpec'' [
    Required ''JobTemplate'' (GoPtr (GoNamed ''JobTemplateSpec'')) ''jobTemplate'',
    Required ''Schedule'' (GoPtr GoString) ''schedule'',
    Optional ''ConcurrencyPolicy'' (GoPtr GoString) ''concurrencyPolicy'',
    Optional ''FailedJobsHistoryLimit'' (GoPtr GoFloat64) ''failedJobsHistoryLimit'',
    Optional ''StartingDeadlineSeconds'' (GoPtr GoFloat64) ''startingDeadlineSeconds'',
    Optional ''SuccessfulJobsHistoryLimit'' (GoPtr GoFloat64) ''successfulJobsHistoryLimit'',
    Optional ''Suspend'' (GoPtr GoBool) ''suspend'',
    Optional ''TimeZone'' (GoPtr GoString) ''timeZone'']"

definition CrossVersionObjectReference :: structdef where
  [struct_defs]: "CrossVersionObjectReference = Struct ''CrossVersionObjectReference'' [
    Required ''Kind'' (GoPtr GoString) ''kind'',
    Required ''Name'' (GoPtr GoString) ''name'',
    Optional ''ApiVersion'' (GoPtr GoString) ''apiVersion'']"

definition CrossVersionObjectReferenceV2 :: structdef where
  [struct_defs]: "CrossVersionObjectReferenceV2 = Struct ''CrossVersionObjectReferenceV2'' [
    Required ''Kind'' (GoPtr GoString) ''kind'',
    Required ''Name'' (GoPtr GoString) ''name'',
    Optional ''ApiVersion'' (GoPtr GoString) ''apiVersion'']"

definition CrossVersionObjectReferenceV2Beta2 :: structdef where
  [struct_defs]: "CrossVersionObjectReferenceV2Beta2 = Struct ''CrossVersionObjectReferenceV2Beta2'' [
    Required ''Kind'' (GoPtr GoString) ''kind'',
    Required ''Name'' (GoPtr GoString) ''name'',
    Optional ''ApiVersion'' (GoPtr GoString) ''apiVersion'']"

definition CsiDriverSpec :: structdef where
  [struct_defs]: "CsiDriverSpec = Struct ''CsiDriverSpec'' [
    Optional ''AttachRequired'' (GoPtr GoBool) ''attachRequired'',
    Optional ''FsGroupPolicy'' (GoPtr GoString) ''fsGroupPolicy'',
    Optional ''PodInfoOnMount'' (GoPtr GoBool) ''podInfoOnMount'',
    Optional ''RequiresRepublish'' (GoPtr GoBool) ''requiresRepublish'',
    Optional ''SeLinuxMount'' (GoPtr GoBool) ''seLinuxMount'',
    Optional ''StorageCapacity'' (GoPtr GoBool) ''storageCapacity'',
    Optional ''TokenRequests'' (GoPtr (GoSlice (GoPtr (GoNamed ''TokenRequest'')))) ''tokenRequests'',
    Optional ''VolumeLifecycleModes'' (GoPtr (GoSlice (GoPtr GoString))) ''volumeLifecycleModes'']"

definition CsiNodeDriver :: structdef where
  [struct_defs]: "CsiNodeDriver = Struct ''CsiNodeDriver'' [
    Required ''Name'' (GoPtr GoString) ''name'',
    Required ''NodeId'' (GoPtr GoString) ''nodeId'',
    Optional ''Allocatable'' (GoPtr (GoNamed ''VolumeNodeResources'')) ''allocatable'',
    Optional ''TopologyKeys'' (GoPtr (GoSlice (GoPtr GoString))) ''topologyKeys'']"

definition CsiNodeSpec :: structdef where
  [struct_defs]: "CsiNodeSpec = Struct ''CsiNodeSpec'' [
    Required ''Drivers'' (GoPtr (GoSlice (GoPtr (GoNamed ''CsiNodeDriver'')))) ''drivers'']"

definition CsiPersistentVolumeSource :: structdef where
  [struct_defs]: "CsiPersistentVolumeSource = Struct ''CsiPersistentVolumeSource'' [
    Required ''Driver'' (GoPtr GoString) ''driver'',
    Required ''VolumeHandle'' (GoPtr GoString) ''volumeHandle'',
    Optional ''ControllerExpandSecretRef'' (GoPtr (GoNamed ''SecretReference'')) ''controllerExpandSecretRef'',
    Optional ''ControllerPublishSecretRef'' (GoPtr (GoNamed ''SecretReference'')) ''controllerPublishSecretRef'',
    Optional ''FsType'' (GoPtr GoString) ''fsType'',
    Optional ''NodeExpandSecretRef'' (GoPtr (GoNamed ''SecretReference'')) ''nodeExpandSecretRef'',
    Optional ''NodePublishSecretRef'' (GoPtr (GoNamed ''SecretReference'')) ''nodePublishSecretRef'',
    Optional ''NodeStageSecretRef'' (GoPtr (GoNamed ''SecretReference'')) ''nodeStageSecretRef'',
    Optional ''ReadOnly'' (GoPtr GoBool) ''readOnly'',
    Optional ''VolumeAttributes'' (GoPtr (GoMap (GoPtr GoString))) ''volumeAttributes'']"

definition CsiVolumeSource :: structdef where
  [struct_defs]: "CsiVolumeSource = Struct ''CsiVolumeSource'' [
    Required ''Driver'' (GoPtr GoString) ''driver'',
    Optional ''FsType'' (GoPtr GoString) ''fsType'',
    Optional ''NodePublishSecretRef'' (GoPtr (GoNamed ''LocalObjectReference'')) ''nodePublishSecretRef'',
    Optional ''ReadOnly'' (GoPtr GoBool) ''readOnly'',
    Optional ''VolumeAttributes'' (GoPtr (GoMap (GoPtr GoString))) ''volumeAttributes'']"

definition CustomResourceColumnDefinition :: structdef where
  [struct_defs]: "CustomResourceColumnDefinition = Struct ''CustomResourceColumnDefinition'' [
    Required ''JsonPath'' (GoPtr GoString) ''jsonPath'',
    Required ''Name'' (GoPtr GoString) ''name'',
    Required ''Type'' (GoPtr GoString) ''type'',
    Optional ''Description'' (GoPtr GoString) ''description'',
    Optional ''Format'' (GoPtr GoString) ''format'',
    Optional ''Priority'' (GoPtr GoFloat64) ''priority'']"

definition CustomResourceConversion :: structdef where
  [struct_defs]: "CustomResourceConversion = Struct ''CustomResourceConversion'' [
    Required ''Strategy'' (GoPtr GoString) ''strategy'',
    Optional ''Webhook'' (GoPtr (GoNamed ''WebhookConversion'')) ''webhook'']"

definition structs_1 :: "structdef list" where
  "structs_1 =
   [Affinity, AggregationRule, ApiServiceSpec, AwsElasticBlockStoreVolumeSource,
    AzureDiskVolumeSource, AzureFilePersistentVolumeSource, AzureFileVolumeSource,
    BoundObjectReference, Capabilities, CephFsPersistentVolumeSource, CephFsVolumeSource,
    CertificateSigningRequestSpec, CinderPersistentVolumeSource, CinderVolumeSource, ClientIpConfig,
    ClusterCidrSpecV1Alpha1, ComponentCondition, ConfigMapEnvSource, ConfigMapKeySelector,
    ConfigMapNodeConfigSource, ConfigMapProjection, ConfigMapVolumeSource, Container, ContainerPort,
    ContainerResourceMetricSourceV2, ContainerResourceMetricSourceV2Beta2, CronJobSpec,
    CrossVersionObjectReference, CrossVersionObjectReferenceV2, CrossVersionObjectReferenceV2Beta2,
    CsiDriverSpec, CsiNodeDriver, CsiNodeSpec, CsiPersistentVolumeSource, CsiVolumeSource,
    CustomResourceColumnDefinition, CustomResourceConversion]"

lemma structs_1_json [json_checks]: "list_all jsonNamed structs_1"
  by (simp add: structs_1_def struct_defs json_simps)

end
