(* ===== verification/K8sTypesB.thy ===== *)
theory K8sTypesB
  imports Structs
begin

text \<open>
  The structs \<open>CustomResourceDefinitionNames\<close> to \<open>FlowDistinguisherMethodV1Beta1\<close> of the Kubernetes bindings, one for each file of that name, in
  the groups of the stretches of \<open>init\<close> that register them.
\<close>

definition CustomResourceDefinitionNames :: structdef where
  [struct_defs]: "CustomResourceDefinitionNames = Struct ''CustomResourceDefinitionNames'' [
    Required ''Kind'' (GoPtr GoString) ''kind'',
    Required ''Plural'' (GoPtr GoString) ''plural'',
    Optional ''Categories'' (GoPtr (GoSlice (GoPtr GoString))) ''categories'',
    Optional ''ListKind'' (GoPtr GoString) ''listKind'',
    Optional ''ShortNames'' (GoPtr (GoSlice (GoPtr GoString))) ''shortNames'',
    Optional ''Singular'' (GoPtr GoString) ''singular'']"

definition CustomResourceDefinitionSpec :: structdef where
  [struct_defs]: "CustomResourceDefinitionSpec = Struct ''CustomResourceDefinitionSpec'' [
    Required ''Group'' (GoPtr GoString) ''group'',
    Required ''Names'' (GoPtr (GoNamed ''CustomResourceDefinitionNames'')) ''names'',
    Required ''Scope'' (GoPtr GoString) ''scope'',
    Required ''Versions'' (GoPtr (GoSlice (GoPtr (GoNamed ''CustomResourceDefinitionVersion'')))) ''versions'',
    Optional ''Conversion'' (GoPtr (GoNamed ''CustomResourceConversion'')) ''conversion'',
    Optional ''PreserveUnknownFields'' (GoPtr GoBool) ''preserveUnknownFields'']"

definition CustomResourceDefinitionVersion :: structdef where
  [struct_defs]: "CustomResourceDefinitionVersion = Struct ''CustomResourceDefinitionVersion'' [
    Required ''Name'' (GoPtr GoString) ''name'',
    Required ''Served'' (GoPtr GoBool) ''served'',
    Required ''Storage'' (GoPtr GoBool) ''storage'',
    Optional ''AdditionalPrinterColumns'' (GoPtr (GoSlice (GoPtr (GoNamed ''CustomResourceColumnDefinition'')))) ''additionalPrinterColumns'',
    Optional ''Deprecated'' (GoPtr GoBool) ''deprecated'',
    Optional ''DeprecationWarning'' (GoPtr GoString) ''deprecationWarning'',
    Optional ''Schema'' (GoPtr (GoNamed ''CustomResourceValidation'')) ''schema'',
    Optional ''Subresources'' (GoPtr (GoNamed ''CustomResourceSubresources'')) ''subresources'']"

definition CustomResourceSubresourceScale :: structdef where
  [struct_defs]: "CustomResourceSubresourceScale = Struct ''CustomResourceSubresourceScale'' [
    Required ''SpecReplicasPath'' (GoPtr GoString) ''specReplicasPath'',
    Required ''StatusReplicasPath'' (GoPtr GoString) ''statusReplicasPath'',
    Optional ''LabelSelectorPath'' (GoPtr GoString) ''labelSelectorPath'']"

definition CustomResourceSubresources :: structdef where
  [struct_defs]: "CustomResourceSubresources = Struct ''CustomResourceSubresources'' [
    Optional ''Scale'' (GoPtr (GoNamed ''CustomResourceSubresourceScale'')) ''scale'',
    Optional ''Status'' GoAny ''status'']"

definition CustomResourceValidation :: structdef where
  [struct_defs]: "CustomResourceValidation = Struct ''CustomResourceValidation'' [
    Optional ''OpenApiv3Schema'' (GoPtr (GoNamed ''JsonSchemaProps'')) ''openApiv3Schema'']"

definition DaemonSetSpec :: structdef where
  [struct_defs]: "DaemonSetSpec = Struct ''DaemonSetSpec'' [
    Required ''Selector'' (GoPtr (GoNamed ''LabelSelector'')) ''selector'',
    Required ''Template'' (GoPtr (GoNamed ''PodTemplateSpec'')) ''template'',
    Optional ''MinReadySeconds'' (GoPtr GoFloat64) ''minReadySeconds'',
    Optional ''RevisionHistoryLimit'' (GoPtr GoFloat64) ''revisionHistoryLimit'',
    Optional ''UpdateStrategy'' (GoPtr (GoNamed ''DaemonSetUpdateStrategy'')) ''updateStrategy'']"

definition DaemonSetUpdateStrategy :: structdef where
  [struct_defs]: "DaemonSetUpdateStrategy = Struct ''DaemonSetUpdateStrategy'' [
    Optional ''RollingUpdate'' (GoPtr (GoNamed ''RollingUpdateDaemonSet'')) ''rollingUpdate'',
    Optional ''Type'' (GoPtr GoString) ''type'']"

definition DeleteOptions :: structdef where
  [struct_defs]: "DeleteOptions = Struct ''DeleteOptions'' [
    Optional ''ApiVersion'' (GoPtr GoString) ''apiVersion'',
    Optional ''DryRun'' (GoPtr (GoSlice (GoPtr GoString))) ''dryRun'',
    Optional ''GracePeriodSeconds'' (GoPtr GoFloat64) ''gracePeriodSeconds'',
    Optional ''Kind'' (GoNamed ''IoK8SApimachineryPkgApisMetaV1DeleteOptionsKind'') ''kind'',
    Optional ''OrphanDependents'' (GoPtr GoBool) ''orphanDependents'',
    Optional ''Preconditions'' (GoPtr (GoNamed ''Preconditions'')) ''preconditions'',
    Optional ''PropagationPolicy'' (GoPtr GoString) ''propagationPolicy'']"

definition DeploymentSpec :: structdef where
  [struct_defs]: "DeploymentSpec = Struct ''DeploymentSpec'' [
    Required ''Selector'' (GoPtr (GoNamed ''LabelSelector'')) ''selector'',
    Required ''Template'' (GoPtr (GoNamed ''PodTemplateSpec'')) ''template'',
    Optional ''MinReadySeconds'' (GoPtr GoFloat64) ''minReadySeconds'',
    Optional ''Paused'' (GoPtr GoBool) ''paused'',
    Optional ''ProgressDeadlineSeconds'' (GoPtr GoFloat64) ''progressDeadlineSeconds'',
    Optional ''Replicas'' (GoPtr GoFloat64) ''replicas'',
    Optional ''RevisionHistoryLimit'' (GoPtr GoFloat64) ''revisionHistoryLimit'',
    Optional ''Strategy'' (GoPtr (GoNamed ''DeploymentStrategy'')) ''strategy'']"

definition DeploymentStrategy :: structdef where
  [struct_defs]: "DeploymentStrategy = Struct ''DeploymentStrategy'' [
    Optional ''RollingUpdate'' (GoPtr (GoNamed ''RollingUpdateDeployment'')) ''rollingUpdate'',
    Optional ''Type'' (GoPtr GoString) ''type'']"

definition DownwardApiProjection :: structdef where
  [struct_defs]: "DownwardApiProjection = Struct ''DownwardApiProjection'' [
    Optional ''Items'' (GoPtr (GoSlice (GoPtr (GoNamed ''DownwardApiVolumeFile'')))) ''items'']"

definition DownwardApiVolumeFile :: structdef where
  [struct_defs]: "DownwardApiVolumeFile = Struct ''DownwardApiVolumeFile'' [
    Required ''Path'' (GoPtr GoString) ''path'',
    Optional ''FieldRef'' (GoPtr (GoNamed ''ObjectFieldSelector'')) ''fieldRef'',
    Optional ''Mode'' (GoPtr GoFloat64) ''mode'',
    Optional ''ResourceFieldRef'' (GoPtr (GoNamed ''ResourceFieldSelector'')) ''resourceFieldRef'']"

definition DownwardApiVolumeSource :: structdef where
  [struct_defs]: "DownwardApiVolumeSource = Struct ''DownwardApiVolumeSource'' [
    Optional ''DefaultMode'' (GoPtr GoFloat64) ''defaultMode'',
    Optional ''Items'' (GoPtr (GoSlice (GoPtr (GoNamed ''DownwardApiVolumeFile'')))) ''items'']"

definition EmptyDirVolumeSource :: structdef where
  [struct_defs]: "EmptyDirVolumeSource = Struct ''EmptyDirVolumeSource'' [
    Optional ''Medium'' (GoPtr GoString) ''medium'',
    Optional ''SizeLimit'' (GoNamed ''Quantity'') ''sizeLimit'']"

definition Endpoint :: structdef where
  [struct_defs]: "Endpoint = Struct ''Endpoint'' [
    Required ''Addresses'' (GoPtr (GoSlice (GoPtr GoString))) ''addresses'',
    Optional ''Conditions'' (GoPtr (GoNamed ''EndpointConditions'')) ''conditions'',
    Optional ''DeprecatedTopology'' (GoPtr (GoMap (GoPtr GoString))) ''deprecatedTopology'',
    Optional ''Hints'' (GoPtr (GoNamed ''EndpointHints'')) ''hints'',
    Optional ''Hostname'' (GoPtr GoString) ''hostname'',
    Optional ''NodeName'' (GoPtr GoString) ''nodeName'',
    Optional ''TargetRef'' (GoPtr (GoNamed ''ObjectReference'')) ''targetRef'',
    Optional ''Zone'' (GoPtr GoString) ''zone'']"

definition EndpointAddress :: structdef where
  [struct_defs]: "EndpointAddress = Struct ''EndpointAddress'' [
    Required ''Ip'' (GoPtr GoString) ''ip'',
    Optional ''Hostname'' (GoPtr GoString) ''hostname'',
    Optional ''NodeName'' (GoPtr GoString) ''nodeName'',
    Optional ''TargetRef'' (GoPtr (GoNamed ''ObjectReference'')) ''targetRef'']"

definition EndpointConditions :: structdef where
  [struct_defs]: "EndpointConditions = Struct ''EndpointConditions'' [
    Optional ''Ready'' (GoPtr GoBool) ''ready'',
    Optional ''Serving'' (GoPtr GoBool) ''serving'',
    Optional ''Terminating'' (GoPtr GoBool) ''terminating'']"

definition EndpointHints :: structdef where
  [struct_defs]: "EndpointHints = Struct ''EndpointHints'' [
    Optional ''ForZones'' (GoPtr (GoSlice (GoPtr (GoNamed ''ForZone'')))) ''forZones'']"

definition EndpointPort :: structdef where
  [struct_defs]: "EndpointPort = Struct ''EndpointPort'' [
    Required ''Port'' (GoPtr GoFloat64) ''port'',
    Optional ''AppProtocol'' (GoPtr GoString) ''appProtocol'',
    Optional ''Name'' (GoPtr GoString) ''name'',
    Optional ''Protocol'' (GoPtr GoString) ''protocol'']"

definition EndpointSubset :: structdef where
  [struct_defs]: "EndpointSubset = Struct ''EndpointSubset'' [
    Optional ''Addresses'' (GoPtr (GoSlice (GoPtr (GoNamed ''EndpointAddress'')))) ''addresses'',
    Optional ''NotReadyAddresses'' (GoPtr (GoSlice (GoPtr (GoNamed ''EndpointAddress'')))) ''notReadyAddresses'',
    Optional ''Ports'' (GoPtr (GoSlice (GoPtr (GoNamed ''EndpointPort'')))) ''ports'']"

definition EnvFromSource :: structdef where
  [struct_defs]: "EnvFromSource = Struct ''EnvFromSource'' [
    Optional ''ConfigMapRef'' (GoPtr (GoNamed ''ConfigMapEnvSource'')) ''configMapRef'',
    Optional ''Prefix'' (GoPtr GoString) ''prefix'',
    Optional ''SecretRef'' (GoPtr (GoNamed ''SecretEnvSource'')) ''secretRef'']"

definition EnvVar :: structdef where
  [struct_defs]: "EnvVar = Struct ''EnvVar'' [
    Required ''Name'' (GoPtr GoString) ''name'',
    Optional ''Value'' (GoPtr GoString) ''value'',
    Optional ''ValueFrom'' (GoPtr (GoNamed ''EnvVarSource'')) ''valueFrom'']"

definition EnvVarSource :: structdef where
  [struct_defs]: "EnvVarSource = Struct ''EnvVarSource'' [
    Optional ''ConfigMapKeyRef'' (GoPtr (GoNamed ''ConfigMapKeySelector'')) ''configMapKeyRef'',
    Optional ''FieldRef'' (GoPtr (GoNamed ''ObjectFieldSelector'')) ''fieldRef'',
    Optional ''ResourceFieldRef'' (GoPtr (GoNamed ''ResourceFieldSelector'')) ''resourceFieldRef'',
    Optional ''SecretKeyRef'' (GoPtr (GoNamed ''SecretKeySelector'')) ''secretKeyRef'']"

definition EphemeralContainer :: structdef where
  [struct_defs]: "EphemeralContainer = Struct ''EphemeralContainer'' [
    Required ''Name'' (GoPtr GoString) ''name'',
    Optional ''Args'' (GoPtr (GoSlice (GoPtr GoString))) ''args'',
    Optional ''Command'' (GoPtr (GoSlice (GoPtr GoString))) ''command'',
    Optional ''Env'' (GoPtr (GoSlice (GoPtr (GoNamed ''EnvVar'')))) ''env'',
    Optional ''EnvFrom'' (GoPtr (GoSlice (GoPtr (GoNamed ''EnvFromSource'')))) ''envFrom'',
    Optional ''Image'' (GoPtr GoString) ''image'',
    Optional ''ImagePullPolicy'' (GoPtr GoString) ''imagePullPolicy'',
    Optional ''Lifecycle'' (GoPtr (GoNamed ''Lifecycle'')) ''lifecycle'',
    Optional ''LivenessProbe'' (GoPtr (GoNamed ''Probe'')) ''livenessProbe'',
    Optional ''Ports'' (GoPtr (GoSlice (GoPtr (GoNamed ''ContainerPort'')))) ''ports'',
    Optional ''ReadinessProbe'' (GoPtr (GoNamed ''Probe'')) ''readinessProbe'',
    Optional ''Resources'' (GoPtr (GoNamed ''ResourceRequirements'')) ''resources'',
    Optional ''SecurityContext'' (GoPtr (GoNamed ''SecurityContext'')) ''securityContext'',
    Optional ''StartupProbe'' (GoPtr (GoNamed ''Probe'')) ''startupProbe'',
    Optional ''Stdin'' (GoPtr GoBool) ''stdin'',
    Optional ''StdinOnce'' (GoPtr GoBool) ''stdinOnce'',
    Optional ''TargetContainerName'' (GoPtr GoString) ''targetContainerName'',
    Optional ''TerminationMessagePath'' (GoPtr GoString) ''terminationMessagePath'',
    Optional ''TerminationMessagePolicy'' (GoPtr GoString) ''terminationMessagePolicy'',
    Optional ''Tty'' (GoPtr GoBool) ''tty'',
    Optional ''VolumeDevices'' (GoPtr (GoSlice (GoPtr (GoNamed ''VolumeDevice'')))) ''volumeDevices'',
    Optional ''VolumeMounts'' (GoPtr (GoSlice (GoPtr (GoNamed ''VolumeMount'')))) ''volumeMounts'',
    Optional ''WorkingDir'' (GoPtr GoString) ''workingDir'']"

definition EphemeralVolumeSource :: structdef where
  [struct_defs]: "EphemeralVolumeSource = Struct ''EphemeralVolumeSource'' [
    Optional ''VolumeClaimTemplate'' (GoPtr (GoNamed ''PersistentVolumeClaimTemplate'')) ''volumeClaimTemplate'']"

definition EventSeries :: structdef where
  [struct_defs]: "EventSeries = Struct ''EventSeries'' [
    Required ''Count'' (GoPtr GoFloat64) ''count'',
    Required ''LastObservedTime'' (GoPtr GoTime) ''lastObservedTime'']"

definition EventSource :: structdef where
  [struct_defs]: "EventSource = Struct ''EventSource'' [
    Optional ''Component'' (GoPtr GoString) ''component'',
    Optional ''Host'' (GoPtr GoString) ''host'']"

definition ExecAction :: structdef where
  [struct_defs]: "ExecAction = Struct ''ExecAction'' [
    Optional ''Command'' (GoPtr (GoSlice (GoPtr GoString))) ''command'']"

definition ExternalDocumentation :: structdef where
  [struct_defs]: "ExternalDocumentation = Struct ''ExternalDocumentation'' [
    Optional ''Description'' (GoPtr GoString) ''description'',
    Optional ''Url'' (GoPtr GoString) ''url'']"

definition ExternalMetricSourceV2 :: structdef where
  [struct_defs]: "ExternalMetricSourceV2 = Struct ''ExternalMetricSourceV2'' [
    Required ''Metric'' (GoPtr (GoNamed ''MetricIdentifierV2'')) ''metric'',
    Required ''Target'' (GoPtr (GoNamed ''MetricTargetV2'')) ''target'']"

definition ExternalMetricSourceV2Beta2 :: structdef where
  [struct_defs]: "ExternalMetricSourceV2Beta2 = Struct ''ExternalMetricSourceV2Beta2'' [
    Required ''Metric'' (GoPtr (GoNamed ''MetricIdentifierV2Beta2'')) ''metric'',
    Required ''Target'' (GoPtr (GoNamed ''MetricTargetV2Beta2'')) ''target'']"

definition FcVolumeSource :: structdef where
  [struct_defs]: "FcVolumeSource = Struct ''FcVolumeSource'' [
    Optional ''FsType'' (GoPtr GoString) ''fsType'',
    Optional ''Lun'' (GoPtr GoFloat64) ''lun'',
    Optional ''ReadOnly'' (GoPtr GoBool) ''readOnly'',
    Optional ''TargetWwNs'' (GoPtr (GoSlice (GoPtr GoString))) ''targetWwNs'',
    Optional ''Wwids'' (GoPtr (GoSlice (GoPtr GoString))) ''wwids'']"

definition FlexPersistentVolumeSource :: structdef where
  [struct_defs]: "FlexPersistentVolumeSource = Struct ''FlexPersistentVolumeSource'' [
    Required ''Driver'' (GoPtr GoString) ''driver'',
    Optional ''FsType'' (GoPtr GoString) ''fsType'',
    Optional ''Options'' (GoPtr (GoMap (GoPtr GoString))) ''options'',
    Optional ''ReadOnly'' (GoPtr GoBool) ''readOnly'',
    Optional ''SecretRef'' (GoPtr (GoNamed ''SecretReference'')) ''secretRef'']"

definition FlexVolumeSource :: structdef where
  [struct_defs]: "FlexVolumeSource = Struct ''FlexVolumeSource'' [
    Required ''Driver'' (GoPtr GoString) ''driver'',
    Optional ''FsType'' (GoPtr GoString) ''fsType'',
    Optional ''Options'' (GoPtr (GoMap (GoPtr GoString))) ''options'',
    Optional ''ReadOnly'' (GoPtr GoBool) ''readOnly'',
    Optional ''SecretRef'' (GoPtr (GoNamed ''LocalObjectReference'')) ''secretRef'']"

definition FlockerVolumeSource :: structdef where
  [struct_defs]: "FlockerVolumeSource = Struct ''FlockerVolumeSource'' [
    Optional ''DatasetName'' (GoPtr GoString) ''datasetName'',
    Optional ''DatasetUuid'' (GoPtr GoString) ''datasetUuid'']"

definition FlowDistinguisherMethodV1Beta1 :: structdef where
  [struct_defs]: "FlowDistinguisherMethodV1Beta1 = Struct ''FlowDistinguisherMethodV1Beta1'' [
    Required ''Type'' (GoPtr GoString) ''type'']"

definition structs_2 :: "structdef list" where
  "structs_2 =
   [CustomResourceDefinitionNames, CustomResourceDefinitionSpec, CustomResourceDefinitionVersion,
    CustomResourceSubresourceScale, CustomResourceSubresources, CustomResourceValidation,
    DaemonSetSpec, DaemonSetUpdateStrategy, DeleteOptions, DeploymentSpec, DeploymentStrategy,
    DownwardApiProjection, DownwardApiVolumeFile, DownwardApiVolumeSource, EmptyDirVolumeSource,
    Endpoint, EndpointAddress, EndpointConditions, EndpointHints, EndpointPort, EndpointSubset,
    EnvFromSource, EnvVar, EnvVarSource, EphemeralContainer, EphemeralVolumeSource, EventSeries,
    EventSource, ExecAction, ExternalDocumentation, ExternalMetricSourceV2,
    ExternalMetricSourceV2Beta2, FcVolumeSource, FlexPersistentVolumeSource, FlexVolumeSource,
    FlockerVolumeSource, FlowDistinguisherMethodV1Beta1]"

lemma structs_2_json [json_checks]: "list_all jsonNamed structs_2"
  by (simp add: structs_2_def struct_defs json_simps)

end
