(* ===== verification/K8sTypesC.thy ===== *)
theory K8sTypesC
  imports Structs
begin

text \<open>
  The structs \<open>FlowDistinguisherMethodV1Beta2\<close> to \<open>KubeConfigMapProps\<close> of the Kubernetes bindings, one for each file of that name, in
  the groups of the stretches of \<open>init\<close> that register them.
\<close>

definition FlowDistinguisherMethodV1Beta2 :: structdef where
  [struct_defs]: "FlowDistinguisherMethodV1Beta2 = Struct ''FlowDistinguisherMethodV1Beta2'' [
    Required ''Type'' (GoPtr GoString) ''type'']"

definition FlowSchemaSpecV1Beta1 :: structdef where
  [struct_defs]: "FlowSchemaSpecV1Beta1 = Struct ''FlowSchemaSpecV1Beta1'' [
    Required ''PriorityLevelConfiguration'' (GoPtr (GoNamed ''PriorityLevelConfigurationReferenceV1Beta1'')) ''priorityLevelConfiguration'',
    Optional ''DistinguisherMethod'' (GoPtr (GoNamed ''FlowDistinguisherMethodV1Beta1'')) ''distinguisherMethod'',
    Optional ''MatchingPrecedence'' (GoPtr GoFloat64) ''matchingPrecedence'',
    Optional ''Rules'' (GoPtr (GoSlice (GoPtr (GoNamed ''PolicyRulesWithSubjectsV1Beta1'')))) ''rules'']"

definition FlowSchemaSpecV1Beta2 :: structdef where
  [struct_defs]: "FlowSchemaSpecV1Beta2 = Struct ''FlowSchemaSpecV1Beta2'' [
    Required ''PriorityLevelConfiguration'' (GoPtr (GoNamed ''PriorityLevelConfigurationReferenceV1Beta2'')) ''priorityLevelConfiguration'',
    Optional ''DistinguisherMethod'' (GoPtr (GoNamed ''FlowDistinguisherMethodV1Beta2'')) ''distinguisherMethod'',
    Optional ''MatchingPrecedence'' (GoPtr GoFloat64) ''matchingPrecedence'',
    Optional ''Rules'' (GoPtr (GoSlice (GoPtr (GoNamed ''PolicyRulesWithSubjectsV1Beta2'')))) ''rules'']"

definition ForZone :: structdef where
  [struct_defs]: "ForZone = Struct ''ForZone'' [
    Required ''Name'' (GoPtr GoString) ''name'']"

definition GcePersistentDiskVolumeSource :: structdef where
  [struct_defs]: "GcePersistentDiskVolumeSource = Struct ''GcePersistentDiskVolumeSource'' [
    Required ''PdName'' (GoPtr GoString) ''pdName'',
    Optional ''FsType'' (GoPtr GoString) ''fsType'',
    Optional ''Partition'' (GoPtr GoFloat64) ''partition'',
    Optional ''ReadOnly'' (GoPtr GoBool) ''readOnly'']"

definition GitRepoVolumeSource :: structdef where
  [struct_defs]: "GitRepoVolumeSource = Struct ''GitRepoVolumeSource'' [
    Required ''Repository'' (GoPtr GoString) ''repository'',
    Optional ''Directory'' (GoPtr GoString) ''directory'',
    Optional ''Revision'' (GoPtr GoString) ''revision'']"

definition GlusterfsPersistentVolumeSource :: structdef where
  [struct_defs]: "GlusterfsPersistentVolumeSource = Struct ''GlusterfsPersistentVolumeSource'' [
    Required ''Endpoints'' (GoPtr GoString) ''endpoints'',
    Required ''Path'' (GoPtr GoString) ''path'',
    Optional ''EndpointsNamespace'' (GoPtr GoString) ''endpointsNamespace'',
    Optional ''ReadOnly'' (GoPtr GoBool) ''readOnly'']"

definition GlusterfsVolumeSource :: structdef where
  [struct_defs]: "GlusterfsVolumeSource = Struct ''GlusterfsVolumeSource'' [
    Required ''Endpoints'' (GoPtr GoString) ''endpoints'',
    Required ''Path'' (GoPtr GoString) ''path'',
    Optional ''ReadOnly'' (GoPtr GoBool) ''readOnly'']"

definition GroupSubjectV1Beta1 :: structdef where
  [struct_defs]: "GroupSubjectV1Beta1 = Struct ''GroupSubjectV1Beta1'' [
    Required ''Name'' (GoPtr GoString) ''name'']"

definition GroupSubjectV1Beta2 :: structdef where
  [struct_defs]: "GroupSubjectV1Beta2 = Struct ''GroupSubjectV1Beta2'' [
    Required ''Name'' (GoPtr GoString) ''name'']"

definition GrpcAction :: structdef where
  [struct_defs]: "GrpcAction = Struct ''GrpcAction'' [
    Required ''Port'' (GoPtr GoFloat64) ''port'',
    Optional ''Service'' (GoPtr GoString) ''service'']"

definition HorizontalPodAutoscalerBehaviorV2 :: structdef where
  [struct_defs]: "HorizontalPodAutoscalerBehaviorV2 = Struct ''HorizontalPodAutoscalerBehaviorV2'' [
    Optional ''ScaleDown'' (GoPtr (GoNamed ''HpaScalingRulesV2'')) ''scaleDown'',
    Optional ''ScaleUp'' (GoPtr (GoNamed ''HpaScalingRulesV2'')) ''scaleUp'']"

definition HorizontalPodAutoscalerBehaviorV2Beta2 :: structdef where
  [struct_defs]: "HorizontalPodAutoscalerBehaviorV2Beta2 = Struct ''HorizontalPodAutoscalerBehaviorV2Beta2'' [
    Optional ''ScaleDown'' (GoPtr (GoNamed ''HpaScalingRulesV2Beta2'')) ''scaleDown'',
    Optional ''ScaleUp'' (GoPtr (GoNamed ''HpaScalingRulesV2Beta2'')) ''scaleUp'']"

definition HorizontalPodAutoscalerSpec :: structdef where
  [struct_defs]: "HorizontalPodAutoscalerSpec = Struct ''HorizontalPodAutoscalerSpec'' [
    Required ''MaxReplicas'' (GoPtr GoFloat64) ''maxReplicas'',
    Required ''ScaleTargetRef'' (GoPtr (GoNamed ''CrossVersionObjectReference'')) ''scaleTargetRef'',
    Optional ''MinReplicas'' (GoPtr GoFloat64) ''minReplicas'',
    Optional ''TargetCpuUtilizationPercentage'' (GoPtr GoFloat64) ''targetCpuUtilizationPercentage'']"

definition HorizontalPodAutoscalerSpecV2 :: structdef where
  [struct_defs]: "HorizontalPodAutoscalerSpecV2 = Struct ''HorizontalPodAutoscalerSpecV2'' [
    Required ''MaxReplicas'' (GoPtr GoFloat64) ''maxReplicas'',
    Required ''ScaleTargetRef'' (GoPtr (GoNamed ''CrossVersionObjectReferenceV2'')) ''scaleTargetRef'',
    Optional ''Behavior'' (GoPtr (GoNamed ''HorizontalPodAutoscalerBehaviorV2'')) ''behavior'',
    Optional ''Metrics'' (GoPtr (GoSlice (GoPtr (GoNamed ''MetricSpecV2'')))) ''metrics'',
    Optional ''MinReplicas'' (GoPtr GoFloat64) ''minReplicas'']"

definition HorizontalPodAutoscalerSpecV2Beta2 :: structdef where
  [struct_defs]: "HorizontalPodAutoscalerSpecV2Beta2 = Struct ''HorizontalPodAutoscalerSpecV2Beta2'' [
    Required ''MaxReplicas'' (GoPtr GoFloat64) ''maxReplicas'',
    Required ''ScaleTargetRef'' (GoPtr (GoNamed ''CrossVersionObjectReferenceV2Beta2'')) ''scaleTargetRef'',
    Optional ''Behavior'' (GoPtr (GoNamed ''HorizontalPodAutoscalerBehaviorV2Beta2'')) ''behavior'',
    Optional ''Metrics'' (GoPtr (GoSlice (GoPtr (GoNamed ''MetricSpecV2Beta2'')))) ''metrics'',
    Optional ''MinReplicas'' (GoPtr GoFloat64) ''minReplicas'']"

definition HostAlias :: structdef where
  [struct_defs]: "HostAlias = Struct ''HostAlias'' [
    Optional ''Hostnames'' (GoPtr (GoSlice (GoPtr GoString))) ''hostnames'',
    Optional ''Ip'' (GoPtr GoString) ''ip'']"

definition HostPathVolumeSource :: structdef where
  [struct_defs]: "HostPathVolumeSource = Struct ''HostPathVolumeSource'' [
    Required ''Path'' (GoPtr GoString) ''path'',
    Optional ''Type'' (GoPtr GoString) ''type'']"

definition HpaScalingPolicyV2 :: structdef where
  [struct_defs]: "HpaScalingPolicyV2 = Struct ''HpaScalingPolicyV2'' [
    Required ''PeriodSeconds'' (GoPtr GoFloat64) ''periodSeconds'',
    Required ''Type'' (GoPtr GoString) ''type'',
    Required ''Value'' (GoPtr GoFloat64) ''value'']"

definition HpaScalingPolicyV2Beta2 :: structdef where
  [struct_defs]: "HpaScalingPolicyV2Beta2 = Struct ''HpaScalingPolicyV2Beta2'' [
    Required ''PeriodSeconds'' (GoPtr GoFloat64) ''periodSeconds'',
    Required ''Type'' (GoPtr GoString) ''type'',
    Required ''Value'' (GoPtr GoFloat64) ''value'']"

definition HpaScalingRulesV2 :: structdef where
  [struct_defs]: "HpaScalingRulesV2 = Struct ''HpaScalingRulesV2'' [
    Optional ''Policies'' (GoPtr (GoSlice (GoPtr (GoNamed ''HpaScalingPolicyV2'')))) ''policies'',
    Optional ''SelectPolicy'' (GoPtr GoString) ''selectPolicy'',
    Optional ''StabilizationWindowSeconds'' (GoPtr GoFloat64) ''stabilizationWindowSeconds'']"

definition HpaScalingRulesV2Beta2 :: structdef where
  [struct_defs]: "HpaScalingRulesV2Beta2 = Struct ''HpaScalingRulesV2Beta2'' [
    Optional ''Policies'' (GoPtr (GoSlice (GoPtr (GoNamed ''HpaScalingPolicyV2Beta2'')))) ''policies'',
    Optional ''SelectPolicy'' (GoPtr GoString) ''selectPolicy'',
    Optional ''StabilizationWindowSeconds'' (GoPtr GoFloat64) ''stabilizationWindowSeconds'']"

definition HttpGetAction :: structdef where
  [struct_defs]: "HttpGetAction = Struct ''HttpGetAction'' [
    Required ''Port'' (GoNamed ''IntOrString'') ''port'',
    Optional ''Host'' (GoPtr GoString) ''host'',
    Optional ''HttpHeaders'' (GoPtr (GoSlice (GoPtr (GoNamed ''HttpHeader'')))) ''httpHeaders'',
    Optional ''Path'' (GoPtr GoString) ''path'',
    Optional ''Scheme'' (GoPtr GoString) ''scheme'']"

definition HttpHeader :: structdef where
  [struct_defs]: "HttpHeader = Struct ''HttpHeader'' [
    Required ''Name'' (GoPtr GoString) ''name'',
    Required ''Value'' (GoPtr GoString) ''value'']"

definition HttpIngressPath :: structdef where
  [struct_defs]: "HttpIngressPath = Struct ''HttpIngressPath'' [
    Required ''Backend'' (GoPtr (GoNamed ''IngressBackend'')) ''backend'',
    Required ''PathType'' (GoPtr GoString) ''pathType'',
    Optional ''Path'' (GoPtr GoString) ''path'']"

definition HttpIngressRuleValue :: structdef where
  [struct_defs]: "HttpIngressRuleValue = Struct ''HttpIngressRuleValue'' [
    Required ''Paths'' (GoPtr (GoSlice (GoPtr (GoNamed ''HttpIngressPath'')))) ''paths'']"

definition IngressBackend :: structdef where
  [struct_defs]: "IngressBackend = Struct ''IngressBackend'' [
    Optional ''Resource'' (GoPtr (GoNamed ''TypedLocalObjectReference'')) ''resource'',
    Optional ''Service'' (GoPtr (GoNamed ''IngressServiceBackend'')) ''service'']"

definition IngressClassParametersReference :: structdef where
  [struct_defs]: "IngressClassParametersReference = Struct ''IngressClassParametersReference'' [
    Required ''Kind'' (GoPtr GoString) ''kind'',
    Required ''Name'' (GoPtr GoString) ''name'',
    Optional ''ApiGroup'' (GoPtr GoString) ''apiGroup'',
    Optional ''Namespace'' (GoPtr GoString) ''namespace'',
    Optional ''Scope'' (GoPtr GoString) ''scope'']"

definition IngressClassSpec :: structdef where
  [struct_defs]: "IngressClassSpec = Struct ''IngressClassSpec'' [
    Optional ''Controller'' (GoPtr GoString) ''controller'',
    Optional ''Parameters'' (GoPtr (GoNamed ''IngressClassParametersReference'')) ''parameters'']"

definition IngressRule :: structdef where
  [struct_defs]: "IngressRule = Struct ''IngressRule'' [
    Optional ''Host'' (GoPtr GoString) ''host'',
    Optional ''Http'' (GoPtr (GoNamed ''HttpIngressRuleValue'')) ''http'']"

definition IngressServiceBackend :: structdef where
  [struct_defs]: "IngressServiceBackend = Struct ''IngressServiceBackend'' [
    Required ''Name'' (GoPtr GoString) ''name'',
    Optional ''Port'' (GoPtr (GoNamed ''ServiceBackendPort'')) ''port'']"

definition IngressSpec :: structdef where
  [struct_defs]: "IngressSpec = Struct ''IngressSpec'' [
    Optional ''DefaultBackend'' (GoPtr (GoNamed ''IngressBackend'')) ''defaultBackend'',
    Optional ''IngressClassName'' (GoPtr GoString) ''ingressClassName'',
    Optional ''Rules'' (GoPtr (GoSlice (GoPtr (GoNamed ''IngressRule'')))) ''rules'',
    Optional ''Tls'' (GoPtr (GoSlice (GoPtr (GoNamed ''IngressTls'')))) ''tls'']"

definition IngressTls :: structdef where
  [struct_defs]: "IngressTls = Struct ''IngressTls'' [
    Optional ''Hosts'' (GoPtr (GoSlice (GoPtr GoString))) ''hosts'',
    Optional ''SecretName'' (GoPtr GoString) ''secretName'']"

definition structs_3 :: "structdef list" where
  "structs_3 =
   [FlowDistinguisherMethodV1Beta2, FlowSchemaSpecV1Beta1, FlowSchemaSpecV1Beta2, ForZone,
    GcePersistentDiskVolumeSource, GitRepoVolumeSource, GlusterfsPersistentVolumeSource,
    GlusterfsVolumeSource, GroupSubjectV1Beta1, GroupSubjectV1Beta2, GrpcAction,
    HorizontalPodAutoscalerBehaviorV2, HorizontalPodAutoscalerBehaviorV2Beta2,
    HorizontalPodAutoscalerSpec, HorizontalPodAutoscalerSpecV2, HorizontalPodAutoscalerSpecV2Beta2,
    HostAlias, HostPathVolumeSource, HpaScalingPolicyV2, HpaScalingPolicyV2Beta2, HpaScalingRulesV2,
    HpaScalingRulesV2Beta2, HttpGetAction, HttpHeader, HttpIngressPath, HttpIngressRuleValue,
    IngressBackend, IngressClassParametersReference, IngressClassSpec, IngressRule,
    IngressServiceBackend, IngressSpec, IngressTls]"

lemma structs_3_json [json_checks]: "list_all jsonNamed structs_3"
  by (simp add: structs_3_def struct_defs json_simps)

definition IpBlock :: structdef where
  [struct_defs]: "IpBlock = Struct ''IpBlock'' [
    Required ''Cidr'' (GoPtr GoString) ''cidr'',
    Optional ''Except'' (GoPtr (GoSlice (GoPtr GoString))) ''except'']"

definition IscsiPersistentVolumeSource :: structdef where
  [struct_defs]: "IscsiPersistentVolumeSource = Struct ''IscsiPersistentVolumeSource'' [
    Required ''Iqn'' (GoPtr GoString) ''iqn'',
    Required ''Lun'' (GoPtr GoFloat64) ''lun'',
    Required ''TargetPortal'' (GoPtr GoString) ''targetPortal'',
    Optional ''ChapAuthDiscovery'' (GoPtr GoBool) ''chapAuthDiscovery'',
    Optional ''ChapAuthSession'' (GoPtr GoBool) ''chapAuthSession'',
    Optional ''FsType'' (GoPtr GoString) ''fsType'',
    Optional ''InitiatorName'' (GoPtr GoString) ''initiatorName'',
    Optional ''IscsiInterface'' (GoPtr GoString) ''iscsiInterface'',
    Optional ''Portals'' (GoPtr (GoSlice (GoPtr GoString))) ''portals'',
    Optional ''ReadOnly'' (GoPtr GoBool) ''readOnly'',
    Optional ''SecretRef'' (GoPtr (GoNamed ''SecretReference'')) ''secretRef'']"

definition IscsiVolumeSource :: structdef where
  [struct_defs]: "IscsiVolumeSource = Struct ''IscsiVolumeSource'' [
    Required ''Iqn'' (GoPtr GoString) ''iqn'',
    Required ''Lun'' (GoPtr GoFloat64) ''lun'',
    Required ''TargetPortal'' (GoPtr GoString) ''targetPortal'',
    Optional ''ChapAuthDiscovery'' (GoPtr GoBool) ''chapAuthDiscovery'',
    Optional ''ChapAuthSession'' (GoPtr GoBool) ''chapAuthSession'',
    Optional ''FsType'' (GoPtr GoString) ''fsType'',
    Optional ''InitiatorName'' (GoPtr GoString) ''initiatorName'',
    Optional ''IscsiInterface'' (GoPtr GoString) ''iscsiInterface'',
    Optional ''Portals'' (GoPtr (GoSlice (GoPtr GoString))) ''portals'',
    Optional ''ReadOnly'' (GoPtr GoBool) ''readOnly'',
    Optional ''SecretRef'' (GoPtr (GoNamed ''LocalObjectReference'')) ''secretRef'']"

definition JobSpec :: structdef where
  [struct_defs]: "JobSpec = Struct ''JobSpec'' [
    Required ''Template'' (GoPtr (GoNamed ''PodTemplateSpec'')) ''template'',
    Optional ''ActiveDeadlineSeconds'' (GoPtr GoFloat64) ''activeDeadlineSeconds'',
    Optional ''BackoffLimit'' (GoPtr GoFloat64) ''backoffLimit'',
    Optional ''CompletionMode'' (GoPtr GoString) ''completionMode'',
    Optional ''Completions'' (GoPtr GoFloat64) ''completions'',
    Optional ''ManualSelector'' (GoPtr GoBool) ''manualSelector'',
    Optional ''Parallelism'' (GoPtr GoFloat64) ''parallelism'',
    Optional ''PodFailurePolicy'' (GoPtr (GoNamed ''PodFailurePolicy'')) ''podFailurePolicy'',
    Optional ''Selector'' (GoPtr (GoNamed ''LabelSelector'')) ''selector'',
    Optional ''Suspend'' (GoPtr GoBool) ''suspend'',
    Optional ''TtlSecondsAfterFinished'' (GoPtr GoFloat64) ''ttlSecondsAfterFinished'']"

definition JobTemplateSpec :: structdef where
  [struct_defs]: "JobTemplateSpec = Struct ''JobTemplateSpec'' [
    Optional ''Metadata'' (GoPtr (GoNamed ''ObjectMeta'')) ''metadata'',
    Optional ''Spec'' (GoPtr (GoNamed ''JobSpec'')) ''spec'']"

definition JsonSchemaProps :: structdef where
  [struct_defs]: "JsonSchemaProps = Struct ''JsonSchemaProps'' [
    Optional ''AdditionalItems'' GoAny ''additionalItems'',
    Optional ''AdditionalProperties'' GoAny ''additionalProperties'',
    Optional ''AllOf'' (GoPtr (GoSlice (GoPtr (GoNamed ''JsonSchemaProps'')))) ''allOf'',
    Optional ''AnyOf'' (GoPtr (GoSlice (GoPtr (GoNamed ''JsonSchemaProps'')))) ''anyOf'',
    Optional ''Default'' GoAny ''default'',
    Optional ''Definitions'' (GoPtr (GoMap (GoPtr (GoNamed ''JsonSchemaProps'')))) ''definitions'',
    Optional ''Dependencies'' (GoPtr (GoMap GoAny)) ''dependencies'',
    Optional ''Description'' (GoPtr GoString) ''description'',
    Optional ''Enum'' (GoPtr (GoSlice GoAny)) ''enum'',
    Optional ''Example'' GoAny ''example'',
    Optional ''ExclusiveMaximum'' (GoPtr GoBool) ''exclusiveMaximum'',
    Optional ''ExclusiveMinimum'' (GoPtr GoBool) ''exclusiveMinimum'',
    Optional ''ExternalDocs'' (GoPtr (GoNamed ''ExternalDocumentation'')) ''externalDocs'',
    Optional ''Format'' (GoPtr GoString) ''format'',
    Optional ''Id'' (GoPtr GoString) ''id'',
    Optional ''Items'' GoAny ''items'',
    Optional ''Maximum'' (GoPtr GoFloat64) ''maximum'',
    Optional ''MaxItems'' (GoPtr GoFloat64) ''maxItems'',
    Optional ''MaxLength'' (GoPtr GoFloat64) ''maxLength'',
    Optional ''MaxProperties'' (GoPtr GoFloat64) ''maxProperties'',
    Optional ''Minimum'' (GoPtr GoFloat64) ''minimum'',
    Optional ''MinItems'' (GoPtr GoFloat64) ''minItems'',
    Optional ''MinLength'' (GoPtr GoFloat64) ''minLength'',
    Optional ''MinProperties'' (GoPtr GoFloat64) ''minProperties'',
    Optional ''MultipleOf'' (GoPtr GoFloat64) ''multipleOf'',
    Optional ''Not'' (GoPtr (GoPtr (GoNamed ''JsonSchemaProps''))) ''not'',
    Optional ''Nullable'' (GoPtr GoBool) ''nullable'',
    Optional ''OneOf'' (GoPtr (GoSlice (GoPtr (GoNamed ''JsonSchemaProps'')))) ''oneOf'',
    Optional ''Pattern'' (GoPtr GoString) ''pattern'',
    Optional ''PatternProperties'' (GoPtr (GoMap (GoPtr (GoNamed ''JsonSchemaProps'')))) ''patternProperties'',
    Optional ''Properties'' (GoPtr (GoMap (GoPtr (GoNamed ''JsonSchemaProps'')))) ''properties'',
    Optional ''Ref'' (GoPtr GoString) ''ref'',
    Optional ''Required'' (GoPtr (GoSlice (GoPtr GoString))) ''required'',
    Optional ''Schema'' (GoPtr GoString) ''schema'',
    Optional ''Title'' (GoPtr GoString) ''title'',
    Optional ''Type'' (GoPtr GoString) ''type'',
    Optional ''UniqueItems'' (GoPtr GoBool) ''uniqueItems'',
    Optional ''XKubernetesEmbeddedResource'' (GoPtr GoBool) ''xKubernetesEmbeddedResource'',
    Optional ''XKubernetesIntOrString'' (GoPtr GoBool) ''xKubernetesIntOrString'',
    Optional ''XKubernetesListMapKeys'' (GoPtr (GoSlice (GoPtr GoString))) ''xKubernetesListMapKeys'',
    Optional ''XKubernetesListType'' (GoPtr GoString) ''xKubernetesListType'',
    Optional ''XKubernetesMapType'' (GoPtr GoString) ''xKubernetesMapType'',
    Optional ''XKubernetesPreserveUnknownFields'' (GoPtr GoBool) ''xKubernetesPreserveUnknownFields'',
    Optional ''XKubernetesValidations'' (GoPtr (GoSlice (GoPtr (GoNamed ''ValidationRule'')))) ''xKubernetesValidations'']"

definition KeyToPath :: structdef where
  [struct_defs]: "KeyToPath = Struct ''KeyToPath'' [
    Required ''Key'' (GoPtr GoString) ''key'',
    Required ''Path'' (GoPtr GoString) ''path'',
    Optional ''Mode'' (GoPtr GoFloat64) ''mode'']"

definition KubeApiServiceListProps :: structdef where
  [struct_defs]: "KubeApiServiceListProps = Struct ''KubeApiServiceListProps'' [
    Required ''Items'' (GoPtr (GoSlice (GoPtr (GoNamed ''KubeApiServiceProps'')))) ''items'',
    Optional ''Metadata'' (GoPtr (GoNamed ''ListMeta'')) ''metadata'']"

definition KubeApiServiceProps :: structdef where
  [struct_defs]: "KubeApiServiceProps = Struct ''KubeApiServiceProps'' [
    Optional ''Metadata'' (GoPtr (GoNamed ''ObjectMeta'')) ''metadata'',
    Optional ''Spec'' (GoPtr (GoNamed ''ApiServiceSpec'')) ''spec'']"

definition KubeBindingProps :: structdef where
  [struct_defs]: "KubeBindingProps = Struct ''KubeBindingProps'' [
    Required ''Target'' (GoPtr (GoNamed ''ObjectReference'')) ''target'',
    Optional ''Metadata'' (GoPtr (GoNamed ''ObjectMeta'')) ''metadata'']"

definition structs_4 :: "structdef list" where
  "structs_4 =
   [IpBlock, IscsiPersistentVolumeSource, IscsiVolumeSource, JobSpec, JobTemplateSpec,
    JsonSchemaProps, KeyToPath, KubeApiServiceListProps, KubeApiServiceProps, KubeBindingProps]"

lemma structs_4_json [json_checks]: "list_all jsonNamed structs_4"
  by (simp add: structs_4_def struct_defs json_simps)

definition KubeCertificateSigningRequestListProps :: structdef where
  [struct_defs]: "KubeCertificateSigningRequestListProps = Struct ''KubeCertificateSigningRequestListProps'' [
    Required ''Items'' (GoPtr (GoSlice (GoPtr (GoNamed ''KubeCertificateSigningRequestProps'')))) ''items'',
    Optional ''Metadata'' (GoPtr (GoNamed ''ListMeta'')) ''metadata'']"

definition KubeCertificateSigningRequestProps :: structdef where
  [struct_defs]: "KubeCertificateSigningRequestProps = Struct ''KubeCertificateSigningRequestProps'' [
    Required ''Spec'' (GoPtr (GoNamed ''CertificateSigningRequestSpec'')) ''spec'',
    Optional ''Metadata'' (GoPtr (GoNamed ''ObjectMeta'')) ''metadata'']"

definition KubeClusterCidrListV1Alpha1Props :: structdef where
  [struct_defs]: "KubeClusterCidrListV1Alpha1Props = Struct ''KubeClusterCidrListV1Alpha1Props'' [
    Required ''Items'' (GoPtr (GoSlice (GoPtr (GoNamed ''KubeClusterCidrv1Alpha1Props'')))) ''items'',
    Optional ''Metadata'' (GoPtr (GoNamed ''ListMeta'')) ''metadata'']"

definition KubeClusterCidrv1Alpha1Props :: structdef where
  [struct_defs]: "KubeClusterCidrv1Alpha1Props = Struct ''KubeClusterCidrv1Alpha1Props'' [
    Optional ''Metadata'' (GoPtr (GoNamed ''ObjectMeta'')) ''metadata'',
    Optional ''Spec'' (GoPtr (GoNamed ''ClusterCidrSpecV1Alpha1'')) ''spec'']"

definition structs_5 :: "structdef list" where
  "structs_5 =
   [KubeCertificateSigningRequestListProps, KubeCertificateSigningRequestProps,
    KubeClusterCidrListV1Alpha1Props, KubeClusterCidrv1Alpha1Props]"

lemma structs_5_json [json_checks]: "list_all jsonNamed structs_5"
  by (simp add: structs_5_def struct_defs json_simps)

definition KubeClusterRoleBindingListProps :: structdef where
  [struct_defs]: "KubeClusterRoleBindingListProps = Struct ''KubeClusterRoleBindingListProps'' [
    Required ''Items'' (GoPtr (GoSlice (GoPtr (GoNamed ''KubeClusterRoleBindingProps'')))) ''items'',
    Optional ''Metadata'' (GoPtr (GoNamed ''ListMeta'')) ''metadata'']"

definition KubeClusterRoleBindingProps :: structdef where
  [struct_defs]: "KubeClusterRoleBindingProps = Struct ''KubeClusterRoleBindingProps'' [
    Required ''RoleRef'' (GoPtr (GoNamed ''RoleRef'')) ''roleRef'',
    Optional ''Metadata'' (GoPtr (GoNamed ''ObjectMeta'')) ''metadata'',
    Optional ''Subjects'' (GoPtr (GoSlice (GoPtr (GoNamed ''Subject'')))) ''subjects'']"

definition KubeClusterRoleListProps :: structdef where
  [struct_defs]: "KubeClusterRoleListProps = Struct ''KubeClusterRoleListProps'' [
    Required ''Items'' (GoPtr (GoSlice (GoPtr (GoNamed ''KubeClusterRoleProps'')))) ''items'',
    Optional ''Metadata'' (GoPtr (GoNamed ''ListMeta'')) ''metadata'']"

definition KubeClusterRoleProps :: structdef where
  [struct_defs]: "KubeClusterRoleProps = Struct ''KubeClusterRoleProps'' [
    Optional ''AggregationRule'' (GoPtr (GoNamed ''AggregationRule'')) ''aggregationRule'',
    Optional ''Metadata'' (GoPtr (GoNamed ''ObjectMeta'')) ''metadata'',
    Optional ''Rules'' (GoPtr (GoSlice (GoPtr (GoNamed ''PolicyRule'')))) ''rules'']"

definition structs_6 :: "structdef list" where
  "structs_6 =
   [KubeClusterRoleBindingListProps, KubeClusterRoleBindingProps, KubeClusterRoleListProps,
    KubeClusterRoleProps]"

lemma structs_6_json [json_checks]: "list_all jsonNamed structs_6"
  by (simp add: structs_6_def struct_defs json_simps)

definition KubeComponentStatusListProps :: structdef where
  [struct_defs]: "KubeComponentStatusListProps = Struct ''KubeComponentStatusListProps'' [
    Required ''Items'' (GoPtr (GoSlice (GoPtr (GoNamed ''KubeComponentStatusProps'')))) ''items'',
    Optional ''Metadata'' (GoPtr (GoNamed ''ListMeta'')) ''metadata'']"

definition KubeComponentStatusProps :: structdef where
  [struct_defs]: "KubeComponentStatusProps = Struct ''KubeComponentStatusProps'' [
    Optional ''Conditions'' (GoPtr (GoSlice (GoPtr (GoNamed ''ComponentCondition'')))) ''conditions'',
    Optional ''Metadata'' (GoPtr (GoNamed ''ObjectMeta'')) ''metadata'']"

definition KubeConfigMapListProps :: structdef where
  [struct_defs]: "KubeConfigMapListProps = Struct ''KubeConfigMapListProps'' [
    Required ''Items'' (GoPtr (GoSlice (GoPtr (GoNamed ''KubeConfigMapProps'')))) ''items'',
    Optional ''Metadata'' (GoPtr (GoNamed ''ListMeta'')) ''metadata'']"

definition KubeConfigMapProps :: structdef where
  [struct_defs]: "KubeConfigMapProps = Struct ''KubeConfigMapProps'' [
    Optional ''BinaryData'' (GoPtr (GoMap (GoPtr GoString))) ''binaryData'',
    Optional ''Data'' (GoPtr (GoMap (GoPtr GoString))) ''data'',
    Optional ''Immutable'' (GoPtr GoBool) ''immutable'',
    Optional ''Metadata'' (GoPtr (GoNamed ''ObjectMeta'')) ''metadata'']"

definition structs_7 :: "structdef list" where
  "structs_7 =
   [KubeComponentStatusListProps, KubeComponentStatusProps, KubeConfigMapListProps,
    KubeConfigMapProps]"

lemma structs_7_json [json_checks]: "list_all jsonNamed structs_7"
  by (simp add: structs_7_def struct_defs json_simps)

end
