(* ===== verification/K8sTypesD.thy ===== *)
theory K8sTypesD
  imports Structs
begin

text \<open>
  The structs \<open>KubeControllerRevisionListProps\<close> to \<open>LimitedPriorityLevelConfigurationV1Beta2\<close> of the Kubernetes bindings, one for each file of that name, in
  the groups of the stretches of \<open>init\<close> that register them.
\<close>

definition KubeControllerRevisionListProps :: structdef where
  [struct_defs]: "KubeControllerRevisionListProps = Struct ''KubeControllerRevisionListProps'' [
    Required ''Items'' (GoPtr (GoSlice (GoPtr (GoNamed ''KubeControllerRevisionProps'')))) ''items'',
    Optional ''Metadata'' (GoPtr (GoNamed ''ListMeta'')) ''metadata'']"

definition KubeControllerRevisionProps :: structdef where
  [struct_defs]: "KubeControllerRevisionProps = Struct ''KubeControllerRevisionProps'' [
    Required ''Revision'' (GoPtr GoFloat64) ''revision'',
    Optional ''Data'' GoAny ''data'',
    Optional ''Metadata'' (GoPtr (GoNamed ''ObjectMeta'')) ''metadata'']"

definition KubeCronJobListProps :: structdef where
  [struct_defs]: "KubeCronJobListProps = Struct ''KubeCronJobListProps'' [
    Required ''Items'' (GoPtr (GoSlice (GoPtr (GoNamed ''KubeCronJobProps'')))) ''items'',
    Optional ''Metadata'' (GoPtr (GoNamed ''ListMeta'')) ''metadata'']"

definition KubeCronJobProps :: structdef where
  [struct_defs]: "KubeCronJobProps = Struct ''KubeCronJobProps'' [
    Optional ''Metadata'' (GoPtr (GoNamed ''ObjectMeta'')) ''metadata'',
    Optional ''Spec'' (GoPtr (GoNamed ''CronJobSpec'')) ''spec'']"

definition structs_8 :: "structdef list" where
  "structs_8 =
   [KubeControllerRevisionListProps, KubeControllerRevisionProps, KubeCronJobListProps,
    KubeCronJobProps]"

lemma structs_8_json [json_checks]: "list_all jsonNamed structs_8"
  by (simp add: structs_8_def struct_defs json_simps)

definition KubeCsiDriverListProps :: structdef where
  [struct_defs]: "KubeCsiDriverListProps = Struct ''KubeCsiDriverListProps'' [
    Required ''Items'' (GoPtr (GoSlice (GoPtr (GoNamed ''KubeCsiDriverProps'')))) ''items'',
    Optional ''Metadata'' (GoPtr (GoNamed ''ListMeta'')) ''metadata'']"

definition KubeCsiDriverProps :: structdef where
  [struct_defs]: "KubeCsiDriverProps = Struct ''KubeCsiDriverProps'' [
    Required ''Spec'' (GoPtr (GoNamed ''CsiDriverSpec'')) ''spec'',
    Optional ''Metadata'' (GoPtr (GoNamed ''ObjectMeta'')) ''metadata'']"

definition KubeCsiNodeListProps :: structdef where
  [struct_defs]: "KubeCsiNodeListProps = Struct ''KubeCsiNodeListProps'' [
    Required ''Items'' (GoPtr (GoSlice (GoPtr (GoNamed ''KubeCsiNodeProps'')))) ''items'',
    Optional ''Metadata'' (GoPtr (GoNamed ''ListMeta'')) ''metadata'']"

definition KubeCsiNodeProps :: structdef where
  [struct_defs]: "KubeCsiNodeProps = Struct ''KubeCsiNodeProps'' [
    Required ''Spec'' (GoPtr (GoNamed ''CsiNodeSpec'')) ''spec'',
    Optional ''Metadata'' (GoPtr (GoNamed ''ObjectMeta'')) ''metadata'']"

definition structs_9 :: "structdef list" where
  "structs_9 =
   [KubeCsiDriverListProps, KubeCsiDriverProps, KubeCsiNodeListProps, KubeCsiNodeProps]"

lemma structs_9_json [json_checks]: "list_all jsonNamed structs_9"
  by (simp add: structs_9_def struct_defs json_simps)

definition KubeCsiStorageCapacityListProps :: structdef where
  [struct_defs]: "KubeCsiStorageCapacityListProps = Struct ''KubeCsiStorageCapacityListProps'' [
    Required ''Items'' (GoPtr (GoSlice (GoPtr (GoNamed ''KubeCsiStorageCapacityProps'')))) ''items'',
    Optional ''Metadata'' (GoPtr (GoNamed ''ListMeta'')) ''metadata'']"

definition KubeCsiStorageCapacityListV1Beta1Props :: structdef where
  [struct_defs]: "KubeCsiStorageCapacityListV1Beta1Props = Struct ''KubeCsiStorageCapacityListV1Beta1Props'' [
    Required ''Items'' (GoPtr (GoSlice (GoPtr (GoNamed ''KubeCsiStorageCapacityV1Beta1Props'')))) ''items'',
    Optional ''Metadata'' (GoPtr (GoNamed ''ListMeta'')) ''metadata'']"

definition KubeCsiStorageCapacityProps :: structdef where
  [struct_defs]: "KubeCsiStorageCapacityProps = Struct ''KubeCsiStorageCapacityProps'' [
    Required ''StorageClassName'' (GoPtr GoString) ''storageClassName'',
    Optional ''Capacity'' (GoNamed ''Quantity'') ''capacity'',
    Optional ''MaximumVolumeSize'' (GoNamed ''Quantity'') ''maximumVolumeSize'',
    Optional ''Metadata'' (GoPtr (GoNamed ''ObjectMeta'')) ''metadata'',
    Optional ''NodeTopology'' (GoPtr (GoNamed ''LabelSelector'')) ''nodeTopology'']"

definition KubeCsiStorageCapacityV1Beta1Props :: structdef where
  [struct_defs]: "KubeCsiStorageCapacityV1Beta1Props = Struct ''KubeCsiStorageCapacityV1Beta1Props'' [
    Required ''StorageClassName'' (GoPtr GoString) ''storageClassName'',
    Optional ''Capacity'' (GoNamed ''Quantity'') ''capacity'',
    Optional ''MaximumVolumeSize'' (GoNamed ''Quantity'') ''maximumVolumeSize'',
    Optional ''Metadata'' (GoPtr (GoNamed ''ObjectMeta'')) ''metadata'',
    Optional ''NodeTopology'' (GoPtr (GoNamed ''LabelSelector'')) ''nodeTopology'']"

definition structs_10 :: "structdef list" where
  "structs_10 =
   [KubeCsiStorageCapacityListProps, KubeCsiStorageCapacityListV1Beta1Props,
    KubeCsiStorageCapacityProps, KubeCsiStorageCapacityV1Beta1Props]"

lemma structs_10_json [json_checks]: "list_all jsonNamed structs_10"
  by (simp add: structs_10_def struct_defs json_simps)

definition KubeCustomResourceDefinitionListProps :: structdef where
  [struct_defs]: "KubeCustomResourceDefinitionListProps = Struct ''KubeCustomResourceDefinitionListProps'' [
    Required ''Items'' (GoPtr (GoSlice (GoPtr (GoNamed ''KubeCustomResourceDefinitionProps'')))) ''items'',
    Optional ''Metadata'' (GoPtr (GoNamed ''ListMeta'')) ''metadata'']"

definition KubeCustomResourceDefinitionProps :: structdef where
  [struct_defs]: "KubeCustomResourceDefinitionProps = Struct ''KubeCustomResourceDefinitionProps'' [
    Required ''Spec'' (GoPtr (GoNamed ''CustomResourceDefinitionSpec'')) ''spec'',
    Optional ''Metadata'' (GoPtr (GoNamed ''ObjectMeta'')) ''metadata'']"

definition KubeDaemonSetListProps :: structdef where
  [struct_defs]: "KubeDaemonSetListProps = Struct ''KubeDaemonSetListProps'' [
    Required ''Items'' (GoPtr (GoSlice (GoPtr (GoNamed ''KubeDaemonSetProps'')))) ''items'',
    Optional ''Metadata'' (GoPtr (GoNamed ''ListMeta'')) ''metadata'']"

definition KubeDaemonSetProps :: structdef where
  [struct_defs]: "KubeDaemonSetProps = Struct ''KubeDaemonSetProps'' [
    Optional ''Metadata'' (GoPtr (GoNamed ''ObjectMeta'')) ''metadata'',
    Optional ''Spec'' (GoPtr (GoNamed ''DaemonSetSpec'')) ''spec'']"

definition structs_11 :: "structdef list" where
  "structs_11 =
   [KubeCustomResourceDefinitionListProps, KubeCustomResourceDefinitionProps,
    KubeDaemonSetListProps, KubeDaemonSetProps]"

lemma structs_11_json [json_checks]: "list_all jsonNamed structs_11"
  by (simp add: structs_11_def struct_defs json_simps)

definition KubeDeploymentListProps :: structdef where
  [struct_defs]: "KubeDeploymentListProps = Struct ''KubeDeploymentListProps'' [
    Required ''Items'' (GoPtr (GoSlice (GoPtr (GoNamed ''KubeDeploymentProps'')))) ''items'',
    Optional ''Metadata'' (GoPtr (GoNamed ''ListMeta'')) ''metadata'']"

definition KubeDeploymentProps :: structdef where
  [struct_defs]: "KubeDeploymentProps = Struct ''KubeDeploymentProps'' [
    Optional ''Metadata'' (GoPtr (GoNamed ''ObjectMeta'')) ''metadata'',
    Optional ''Spec'' (GoPtr (GoNamed ''DeploymentSpec'')) ''spec'']"

definition KubeEndpointSliceListProps :: structdef where
  [struct_defs]: "KubeEndpointSliceListProps = Struct ''KubeEndpointSliceListProps'' [
    Required ''Items'' (GoPtr (GoSlice (GoPtr (GoNamed ''KubeEndpointSliceProps'')))) ''items'',
    Optional ''Metadata'' (GoPtr (GoNamed ''ListMeta'')) ''metadata'']"

definition KubeEndpointSliceProps :: structdef where
  [struct_defs]: "KubeEndpointSliceProps = Struct ''KubeEndpointSliceProps'' [
    Required ''AddressType'' (GoPtr GoString) ''addressType'',
    Required ''Endpoints'' (GoPtr (GoSlice (GoPtr (GoNamed ''Endpoint'')))) ''endpoints'',
    Optional ''Metadata'' (GoPtr (GoNamed ''ObjectMeta'')) ''metadata'',
    Optional ''Ports'' (GoPtr (GoSlice (GoPtr (GoNamed ''EndpointPort'')))) ''ports'']"

definition structs_12 :: "structdef list" where
  "structs_12 =
   [KubeDeploymentListProps, KubeDeploymentProps, KubeEndpointSliceListProps, KubeEndpointSliceProps]"

lemma structs_12_json [json_checks]: "list_all jsonNamed structs_12"
  by (simp add: structs_12_def struct_defs json_simps)

definition KubeEndpointsListProps :: structdef where
  [struct_defs]: "KubeEndpointsListProps = Struct ''KubeEndpointsListProps'' [
    Required ''Items'' (GoPtr (GoSlice (GoPtr (GoNamed ''KubeEndpointsProps'')))) ''items'',
    Optional ''Metadata'' (GoPtr (GoNamed ''ListMeta'')) ''metadata'']"

definition KubeEndpointsProps :: structdef where
  [struct_defs]: "KubeEndpointsProps = Struct ''KubeEndpointsProps'' [
    Optional ''Metadata'' (GoPtr (GoNamed ''ObjectMeta'')) ''metadata'',
    Optional ''Subsets'' (GoPtr (GoSlice (GoPtr (GoNamed ''EndpointSubset'')))) ''subsets'']"

definition KubeEventListProps :: structdef where
  [struct_defs]: "KubeEventListProps = Struct ''KubeEventListProps'' [
    Required ''Items'' (GoPtr (GoSlice (GoPtr (GoNamed ''KubeEventProps'')))) ''items'',
    Optional ''Metadata'' (GoPtr (GoNamed ''ListMeta'')) ''metadata'']"

definition KubeEventProps :: structdef where
  [struct_defs]: "KubeEventProps = Struct ''KubeEventProps'' [
    Required ''EventTime'' (GoPtr GoTime) ''eventTime'',
    Optional ''Action'' (GoPtr GoString) ''action'',
    Optional ''DeprecatedCount'' (GoPtr GoFloat64) ''deprecatedCount'',
    Optional ''DeprecatedFirstTimestamp'' (GoPtr GoTime) ''deprecatedFirstTimestamp'',
    Optional ''DeprecatedLastTimestamp'' (GoPtr GoTime) ''deprecatedLastTimestamp'',
    Optional ''DeprecatedSource'' (GoPtr (GoNamed ''EventSource'')) ''deprecatedSource'',
    Optional ''Metadata'' (GoPtr (GoNamed ''ObjectMeta'')) ''metadata'',
    Optional ''Note'' (GoPtr GoString) ''note'',
    Optional ''Reason'' (GoPtr GoString) ''reason'',
    Optional ''Regarding'' (GoPtr (GoNamed ''ObjectReference'')) ''regarding'',
    Optional ''Related'' (GoPtr (GoNamed ''ObjectReference'')) ''related'',
    Optional ''ReportingController'' (GoPtr GoString) ''reportingController'',
    Optional ''ReportingInstance'' (GoPtr GoString) ''reportingInstance'',
    Optional ''Series'' (GoPtr (GoNamed ''EventSeries'')) ''series'',
    Optional ''Type'' (GoPtr GoString) ''type'']"

definition KubeEvictionProps :: structdef where
  [struct_defs]: "KubeEvictionProps = Struct ''KubeEvictionProps'' [
    Optional ''DeleteOptions'' (GoPtr (GoNamed ''DeleteOptions'')) ''deleteOptions'',
    Optional ''Metadata'' (GoPtr (GoNamed ''ObjectMeta'')) ''metadata'']"

definition structs_13 :: "structdef list" where
  "structs_13 =
   [KubeEndpointsListProps, KubeEndpointsProps, KubeEventListProps, KubeEventProps,
    KubeEvictionProps]"

lemma structs_13_json [json_checks]: "list_all jsonNamed structs_13"
  by (simp add: structs_13_def struct_defs json_simps)

definition KubeFlowSchemaListV1Beta1Props :: structdef where
  [struct_defs]: "KubeFlowSchemaListV1Beta1Props = Struct ''KubeFlowSchemaListV1Beta1Props'' [
    Required ''Items'' (GoPtr (GoSlice (GoPtr (GoNamed ''KubeFlowSchemaV1Beta1Props'')))) ''items'',
    Optional ''Metadata'' (GoPtr (GoNamed ''ListMeta'')) ''metadata'']"

definition KubeFlowSchemaListV1Beta2Props :: structdef where
  [struct_defs]: "KubeFlowSchemaListV1Beta2Props = Struct ''KubeFlowSchemaListV1Beta2Props'' [
    Required ''Items'' (GoPtr (GoSlice (GoPtr (GoNamed ''KubeFlowSchemaV1Beta2Props'')))) ''items'',
    Optional ''Metadata'' (GoPtr (GoNamed ''ListMeta'')) ''metadata'']"

definition KubeFlowSchemaV1Beta1Props :: structdef where
  [struct_defs]: "KubeFlowSchemaV1Beta1Props = Struct ''KubeFlowSchemaV1Beta1Props'' [
    Optional ''Metadata'' (GoPtr (GoNamed ''ObjectMeta'')) ''metadata'',
    Optional ''Spec'' (GoPtr (GoNamed ''FlowSchemaSpecV1Beta1'')) ''spec'']"

definition KubeFlowSchemaV1Beta2Props :: structdef where
  [struct_defs]: "KubeFlowSchemaV1Beta2Props = Struct ''KubeFlowSchemaV1Beta2Props'' [
    Optional ''Metadata'' (GoPtr (GoNamed ''ObjectMeta'')) ''metadata'',
    Optional ''Spec'' (GoPtr (GoNamed ''FlowSchemaSpecV1Beta2'')) ''spec'']"

definition structs_14 :: "structdef list" where
  "structs_14 =
   [KubeFlowSchemaListV1Beta1Props, KubeFlowSchemaListV1Beta2Props, KubeFlowSchemaV1Beta1Props,
    KubeFlowSchemaV1Beta2Props]"

lemma structs_14_json [json_checks]: "list_all jsonNamed structs_14"
  by (simp add: structs_14_def struct_defs json_simps)

definition KubeHorizontalPodAutoscalerListProps :: structdef where
  [struct_defs]: "KubeHorizontalPodAutoscalerListProps = Struct ''KubeHorizontalPodAutoscalerListProps'' [
    Required ''Items'' (GoPtr (GoSlice (GoPtr (GoNamed ''KubeHorizontalPodAutoscalerProps'')))) ''items'',
    Optional ''Metadata'' (GoPtr (GoNamed ''ListMeta'')) ''metadata'']"

definition KubeHorizontalPodAutoscalerListV2Beta2Props :: structdef where
  [struct_defs]: "KubeHorizontalPodAutoscalerListV2Beta2Props = Struct ''KubeHorizontalPodAutoscalerListV2Beta2Props'' [
    Required ''Items'' (GoPtr (GoSlice (GoPtr (GoNamed ''KubeHorizontalPodAutoscalerV2Beta2Props'')))) ''items'',
    Optional ''Metadata'' (GoPtr (GoNamed ''ListMeta'')) ''metadata'']"

definition KubeHorizontalPodAutoscalerListV2Props :: structdef where
  [struct_defs]: "KubeHorizontalPodAutoscalerListV2Props = Struct ''KubeHorizontalPodAutoscalerListV2Props'' [
    Required ''Items'' (GoPtr (GoSlice (GoPtr (GoNamed ''KubeHorizontalPodAutoscalerV2Props'')))) ''items'',
    Optional ''Metadata'' (GoPtr (GoNamed ''ListMeta'')) ''metadata'']"

definition KubeHorizontalPodAutoscalerProps :: structdef where
  [struct_defs]: "KubeHorizontalPodAutoscalerProps = Struct ''KubeHorizontalPodAutoscalerProps'' [
    Optional ''Metadata'' (GoPtr (GoNamed ''ObjectMeta'')) ''metadata'',
    Optional ''Spec'' (GoPtr (GoNamed ''HorizontalPodAutoscalerSpec'')) ''spec'']"

definition structs_15 :: "structdef list" where
  "structs_15 =
   [KubeHorizontalPodAutoscalerListProps, KubeHorizontalPodAutoscalerListV2Beta2Props,
    KubeHorizontalPodAutoscalerListV2Props, KubeHorizontalPodAutoscalerProps]"

lemma structs_15_json [json_checks]: "list_all jsonNamed structs_15"
  by (simp add: structs_15_def struct_defs json_simps)

definition KubeHorizontalPodAutoscalerV2Beta2Props :: structdef where
  [struct_defs]: "KubeHorizontalPodAutoscalerV2Beta2Props = Struct ''KubeHorizontalPodAutoscalerV2Beta2Props'' [
    Optional ''Metadata'' (GoPtr (GoNamed ''ObjectMeta'')) ''metadata'',
    Optional ''Spec'' (GoPtr (GoNamed ''HorizontalPodAutoscalerSpecV2Beta2'')) ''spec'']"

definition KubeHorizontalPodAutoscalerV2Props :: structdef where
  [struct_defs]: "KubeHorizontalPodAutoscalerV2Props = Struct ''KubeHorizontalPodAutoscalerV2Props'' [
    Optional ''Metadata'' (GoPtr (GoNamed ''ObjectMeta'')) ''metadata'',
    Optional ''Spec'' (GoPtr (GoNamed ''HorizontalPodAutoscalerSpecV2'')) ''spec'']"

definition structs_16 :: "structdef list" where
  "structs_16 =
   [KubeHorizontalPodAutoscalerV2Beta2Props, KubeHorizontalPodAutoscalerV2Props]"

lemma structs_16_json [json_checks]: "list_all jsonNamed structs_16"
  by (simp add: structs_16_def struct_defs json_simps)

definition KubeIngressClassListProps :: structdef where
  [struct_defs]: "KubeIngressClassListProps = Struct ''KubeIngressClassListProps'' [
    Required ''Items'' (GoPtr (GoSlice (GoPtr (GoNamed ''KubeIngressClassProps'')))) ''items'',
    Optional ''Metadata'' (GoPtr (GoNamed ''ListMeta'')) ''metadata'']"

definition KubeIngressClassProps :: structdef where
  [struct_defs]: "KubeIngressClassProps = Struct ''KubeIngressClassProps'' [
    Optional ''Metadata'' (GoPtr (GoNamed ''ObjectMeta'')) ''metadata'',
    Optional ''Spec'' (GoPtr (GoNamed ''IngressClassSpec'')) ''spec'']"

definition KubeIngressListProps :: structdef where
  [struct_defs]: "KubeIngressListProps = Struct ''KubeIngressListProps'' [
    Required ''Items'' (GoPtr (GoSlice (GoPtr (GoNamed ''KubeIngressProps'')))) ''items'',
    Optional ''Metadata'' (GoPtr (GoNamed ''ListMeta'')) ''metadata'']"

definition KubeIngressProps :: structdef where
  [struct_defs]: "KubeIngressProps = Struct ''KubeIngressProps'' [
    Optional ''Metadata'' (GoPtr (GoNamed ''ObjectMeta'')) ''metadata'',
    Optional ''Spec'' (GoPtr (GoNamed ''IngressSpec'')) ''spec'']"

definition structs_17 :: "structdef list" where
  "structs_17 =
   [KubeIngressClassListProps, KubeIngressClassProps, KubeIngressListProps, KubeIngressProps]"

lemma structs_17_json [json_checks]: "list_all jsonNamed structs_17"
  by (simp add: structs_17_def struct_defs json_simps)

definition KubeJobListProps :: structdef where
  [struct_defs]: "KubeJobListProps = Struct ''KubeJobListProps'' [
    Required ''Items'' (GoPtr (GoSlice (GoPtr (GoNamed ''KubeJobProps'')))) ''items'',
    Optional ''Metadata'' (GoPtr (GoNamed ''ListMeta'')) ''metadata'']"

definition KubeJobProps :: structdef where
  [struct_defs]: "KubeJobProps = Struct ''KubeJobProps'' [
    Optional ''Metadata'' (GoPtr (GoNamed ''ObjectMeta'')) ''metadata'',
    Optional ''Spec'' (GoPtr (GoNamed ''JobSpec'')) ''spec'']"

definition KubeLeaseListProps :: structdef where
  [struct_defs]: "KubeLeaseListProps = Struct ''KubeLeaseListProps'' [
    Required ''Items'' (GoPtr (GoSlice (GoPtr (GoNamed ''KubeLeaseProps'')))) ''items'',
    Optional ''Metadata'' (GoPtr (GoNamed ''ListMeta'')) ''metadata'']"

definition KubeLeaseProps :: structdef where
  [struct_defs]: "KubeLeaseProps = Struct ''KubeLeaseProps'' [
    Optional ''Metadata'' (GoPtr (GoNamed ''ObjectMeta'')) ''metadata'',
    Optional ''Spec'' (GoPtr (GoNamed ''LeaseSpec'')) ''spec'']"

definition structs_18 :: "structdef list" where
  "structs_18 =
   [KubeJobListProps, KubeJobProps, KubeLeaseListProps, KubeLeaseProps]"

lemma structs_18_json [json_checks]: "list_all jsonNamed structs_18"
  by (simp add: structs_18_def struct_defs json_simps)

definition KubeLimitRangeListProps :: structdef where
  [struct_defs]: "KubeLimitRangeListProps = Struct ''KubeLimitRangeListProps'' [
    Required ''Items'' (GoPtr (GoSlice (GoPtr (GoNamed ''KubeLimitRangeProps'')))) ''items'',
    Optional ''Metadata'' (GoPtr (GoNamed ''ListMeta'')) ''metadata'']"

definition KubeLimitRangeProps :: structdef where
  [struct_defs]: "KubeLimitRangeProps = Struct ''KubeLimitRangeProps'' [
    Optional ''Metadata'' (GoPtr (GoNamed ''ObjectMeta'')) ''metadata'',
    Optional ''Spec'' (GoPtr (GoNamed ''LimitRangeSpec'')) ''spec'']"

definition KubeLocalSubjectAccessReviewProps :: structdef where
  [struct_defs]: "KubeLocalSubjectAccessReviewProps = Struct ''KubeLocalSubjectAccessReviewProps'' [
    Required ''Spec'' (GoPtr (GoNamed ''SubjectAccessReviewSpec'')) ''spec'',
    Optional ''Metadata'' (GoPtr (GoNamed ''ObjectMeta'')) ''metadata'']"

definition KubeMutatingWebhookConfigurationListProps :: structdef where
  [struct_defs]: "KubeMutatingWebhookConfigurationListProps = Struct ''KubeMutatingWebhookConfigurationListProps'' [
    Required ''Items'' (GoPtr (GoSlice (GoPtr (GoNamed ''KubeMutatingWebhookConfigurationProps'')))) ''items'',
    Optional ''Metadata'' (GoPtr (GoNamed ''ListMeta'')) ''metadata'']"

definition KubeMutatingWebhookConfigurationProps :: structdef where
  [struct_defs]: "KubeMutatingWebhookConfigurationProps = Struct ''KubeMutatingWebhookConfigurationProps'' [
    Optional ''Metadata'' (GoPtr (GoNamed ''ObjectMeta'')) ''metadata'',
    Optional ''Webhooks'' (GoPtr (GoSlice (GoPtr (GoNamed ''MutatingWebhook'')))) ''webhooks'']"

definition structs_19 :: "structdef list" where
  "structs_19 =
   [KubeLimitRangeListProps, KubeLimitRangeProps, KubeLocalSubjectAccessReviewProps,
    KubeMutatingWebhookConfigurationListProps, KubeMutatingWebhookConfigurationProps]"

lemma structs_19_json [json_checks]: "list_all jsonNamed structs_19"
  by (simp add: structs_19_def struct_defs json_simps)

definition KubeNamespaceListProps :: structdef where
  [struct_defs]: "KubeNamespaceListProps = Struct ''KubeNamespaceListProps'' [
    Required ''Items'' (GoPtr (GoSlice (GoPtr (GoNamed ''KubeNamespaceProps'')))) ''items'',
    Optional ''Metadata'' (GoPtr (GoNamed ''ListMeta'')) ''metadata'']"

definition KubeNamespaceProps :: structdef where
  [struct_defs]: "KubeNamespaceProps = Struct ''KubeNamespaceProps'' [
    Optional ''Metadata'' (GoPtr (GoNamed ''ObjectMeta'')) ''metadata'',
    Optional ''Spec'' (GoPtr (GoNamed ''NamespaceSpec'')) ''spec'']"

definition KubeNetworkPolicyListProps :: structdef where
  [struct_defs]: "KubeNetworkPolicyListProps = Struct ''KubeNetworkPolicyListProps'' [
    Required ''Items'' (GoPtr (GoSlice (GoPtr (GoNamed ''KubeNetworkPolicyProps'')))) ''items'',
    Optional ''Metadata'' (GoPtr (GoNamed ''ListMeta'')) ''metadata'']"

definition KubeNetworkPolicyProps :: structdef where
  [struct_defs]: "KubeNetworkPolicyProps = Struct ''KubeNetworkPolicyProps'' [
    Optional ''Metadata'' (GoPtr (GoNamed ''ObjectMeta'')) ''metadata'',
    Optional ''Spec'' (GoPtr (GoNamed ''NetworkPolicySpec'')) ''spec'']"

definition structs_20 :: "structdef list" where
  "structs_20 =
   [KubeNamespaceListProps, KubeNamespaceProps, KubeNetworkPolicyListProps, KubeNetworkPolicyProps]"

lemma structs_20_json [json_checks]: "list_all jsonNamed structs_20"
  by (simp add: structs_20_def struct_defs json_simps)

definition KubeNodeListProps :: structdef where
  [struct_defs]: "KubeNodeListProps = Struct ''KubeNodeListProps'' [
    Required ''Items'' (GoPtr (GoSlice (GoPtr (GoNamed ''KubeNodeProps'')))) ''items'',
    Optional ''Metadata'' (GoPtr (GoNamed ''ListMeta'')) ''metadata'']"

definition KubeNodeProps :: structdef where
  [struct_defs]: "KubeNodeProps = Struct ''KubeNodeProps'' [
    Optional ''Metadata'' (GoPtr (GoNamed ''ObjectMeta'')) ''metadata'',
    Optional ''Spec'' (GoPtr (GoNamed ''NodeSpec'')) ''spec'']"

definition structs_21 :: "structdef list" where
  "structs_21 =
   [KubeNodeListProps, KubeNodeProps]"

lemma structs_21_json [json_checks]: "list_all jsonNamed structs_21"
  by (simp add: structs_21_def struct_defs json_simps)

definition KubePersistentVolumeClaimListProps :: structdef where
  [struct_defs]: "KubePersistentVolumeClaimListProps = Struct ''KubePersistentVolumeClaimListProps'' [
    Required ''Items'' (GoPtr (GoSlice (GoPtr (GoNamed ''KubePersistentVolumeClaimProps'')))) ''items'',
    Optional ''Metadata'' (GoPtr (GoNamed ''ListMeta'')) ''metadata'']"

definition KubePersistentVolumeClaimProps :: structdef where
  [struct_defs]: "KubePersistentVolumeClaimProps = Struct ''KubePersistentVolumeClaimProps'' [
    Optional ''Metadata'' (GoPtr (GoNamed ''ObjectMeta'')) ''metadata'',
    Optional ''Spec'' (GoPtr (GoNamed ''PersistentVolumeClaimSpec'')) ''spec'']"

definition KubePersistentVolumeListProps :: structdef where
  [struct_defs]: "KubePersistentVolumeListProps = Struct ''KubePersistentVolumeListProps'' [
    Required ''Items'' (GoPtr (GoSlice (GoPtr (GoNamed ''KubePersistentVolumeProps'')))) ''items'',
    Optional ''Metadata'' (GoPtr (GoNamed ''ListMeta'')) ''metadata'']"

definition KubePersistentVolumeProps :: structdef where
  [struct_defs]: "KubePersistentVolumeProps = Struct ''KubePersistentVolumeProps'' [
    Optional ''Metadata'' (GoPtr (GoNamed ''ObjectMeta'')) ''metadata'',
    Optional ''Spec'' (GoPtr (GoNamed ''PersistentVolumeSpec'')) ''spec'']"

definition structs_22 :: "structdef list" where
  "structs_22 =
   [KubePersistentVolumeClaimListProps, KubePersistentVolumeClaimProps,
    KubePersistentVolumeListProps, KubePersistentVolumeProps]"

lemma structs_22_json [json_checks]: "list_all jsonNamed structs_22"
  by (simp add: structs_22_def struct_defs json_simps)

definition KubePodDisruptionBudgetListProps :: structdef where
  [struct_defs]: "KubePodDisruptionBudgetListProps = Struct ''KubePodDisruptionBudgetListProps'' [
    Required ''Items'' (GoPtr (GoSlice (GoPtr (GoNamed ''KubePodDisruptionBudgetProps'')))) ''items'',
    Optional ''Metadata'' (GoPtr (GoNamed ''ListMeta'')) ''metadata'']"

definition KubePodDisruptionBudgetProps :: structdef where
  [struct_defs]: "KubePodDisruptionBudgetProps = Struct ''KubePodDisruptionBudgetProps'' [
    Optional ''Metadata'' (GoPtr (GoNamed ''ObjectMeta'')) ''metadata'',
    Optional ''Spec'' (GoPtr (GoNamed ''PodDisruptionBudgetSpec'')) ''spec'']"

definition KubePodListProps :: structdef where
  [struct_defs]: "KubePodListProps = Struct ''KubePodListProps'' [
    Required ''Items'' (GoPtr (GoSlice (GoPtr (GoNamed ''KubePodProps'')))) ''items'',
    Optional ''Metadata'' (GoPtr (GoNamed ''ListMeta'')) ''metadata'']"

definition KubePodProps :: structdef where
  [struct_defs]: "KubePodProps = Struct ''KubePodProps'' [
    Optional ''Metadata'' (GoPtr (GoNamed ''ObjectMeta'')) ''metadata'',
    Optional ''Spec'' (GoPtr (GoNamed ''PodSpec'')) ''spec'']"

definition structs_23 :: "structdef list" where
  "structs_23 =
   [KubePodDisruptionBudgetListProps, KubePodDisruptionBudgetProps, KubePodListProps, KubePodProps]"

lemma structs_23_json [json_checks]: "list_all jsonNamed structs_23"
  by (simp add: structs_23_def struct_defs json_simps)

definition KubePodTemplateListProps :: structdef where
  [struct_defs]: "KubePodTemplateListProps = Struct ''KubePodTemplateListProps'' [
    Required ''Items'' (GoPtr (GoSlice (GoPtr (GoNamed ''KubePodTemplateProps'')))) ''items'',
    Optional ''Metadata'' (GoPtr (GoNamed ''ListMeta'')) ''metadata'']"

definition KubePodTemplateProps :: structdef where
  [struct_defs]: "KubePodTemplateProps = Struct ''KubePodTemplateProps'' [
    Optional ''Metadata'' (GoPtr (GoNamed ''ObjectMeta'')) ''metadata'',
    Optional ''Template'' (GoPtr (GoNamed ''PodTemplateSpec'')) ''template'']"

definition KubePriorityClassListProps :: structdef where
  [struct_defs]: "KubePriorityClassListProps = Struct ''KubePriorityClassListProps'' [
    Required ''Items'' (GoPtr (GoSlice (GoPtr (GoNamed ''KubePriorityClassProps'')))) ''items'',
    Optional ''Metadata'' (GoPtr (GoNamed ''ListMeta'')) ''metadata'']"

definition KubePriorityClassProps :: structdef where
  [struct_defs]: "KubePriorityClassProps = Struct ''KubePriorityClassProps'' [
    Required ''Value'' (GoPtr GoFloat64) ''value'',
    Optional ''Description'' (GoPtr GoString) ''description'',
    Optional ''GlobalDefault'' (GoPtr GoBool) ''globalDefault'',
    Optional ''Metadata'' (GoPtr (GoNamed ''ObjectMeta'')) ''metadata'',
    Optional ''PreemptionPolicy'' (GoPtr GoString) ''preemptionPolicy'']"

definition KubePriorityLevelConfigurationListV1Beta1Props :: structdef where
  [struct_defs]: "KubePriorityLevelConfigurationListV1Beta1Props = Struct ''KubePriorityLevelConfigurationListV1Beta1Props'' [
    Required ''Items'' (GoPtr (GoSlice (GoPtr (GoNamed ''KubePriorityLevelConfigurationV1Beta1Props'')))) ''items'',
    Optional ''Metadata'' (GoPtr (GoNamed ''ListMeta'')) ''metadata'']"

definition structs_24 :: "structdef list" where
  "structs_24 =
   [KubePodTemplateListProps, KubePodTemplateProps, KubePriorityClassListProps,
    KubePriorityClassProps, KubePriorityLevelConfigurationListV1Beta1Props]"

lemma structs_24_json [json_checks]: "list_all jsonNamed structs_24"
  by (simp add: structs_24_def struct_defs json_simps)

definition KubePriorityLevelConfigurationListV1Beta2Props :: structdef where
  [struct_defs]: "KubePriorityLevelConfigurationListV1Beta2Props = Struct ''KubePriorityLevelConfigurationListV1Beta2Props'' [
    Required ''Items'' (GoPtr (GoSlice (GoPtr (GoNamed ''KubePriorityLevelConfigurationV1Beta2Props'')))) ''items'',
    Optional ''Metadata'' (GoPtr (GoNamed ''ListMeta'')) ''metadata'']"

definition KubePriorityLevelConfigurationV1Beta1Props :: structdef where
  [struct_defs]: "KubePriorityLevelConfigurationV1Beta1Props = Struct ''KubePriorityLevelConfigurationV1Beta1Props'' [
    Optional ''Metadata'' (GoPtr (GoNamed ''ObjectMeta'')) ''metadata'',
    Optional ''Spec'' (GoPtr (GoNamed ''PriorityLevelConfigurationSpecV1Beta1'')) ''spec'']"

definition KubePriorityLevelConfigurationV1Beta2Props :: structdef where
  [struct_defs]: "KubePriorityLevelConfigurationV1Beta2Props = Struct ''KubePriorityLevelConfigurationV1Beta2Props'' [
    Optional ''Metadata'' (GoPtr (GoNamed ''ObjectMeta'')) ''metadata'',
    Optional ''Spec'' (GoPtr (GoNamed ''PriorityLevelConfigurationSpecV1Beta2'')) ''spec'']"

definition KubeReplicaSetListProps :: structdef where
  [struct_defs]: "KubeReplicaSetListProps = Struct ''KubeReplicaSetListProps'' [
    Required ''Items'' (GoPtr (GoSlice (GoPtr (GoNamed ''KubeReplicaSetProps'')))) ''items'',
    Optional ''Metadata'' (GoPtr (GoNamed ''ListMeta'')) ''metadata'']"

definition KubeReplicaSetProps :: structdef where
  [struct_defs]: "KubeReplicaSetProps = Struct ''KubeReplicaSetProps'' [
    Optional ''Metadata'' (GoPtr (GoNamed ''ObjectMeta'')) ''metadata'',
    Optional ''Spec'' (GoPtr (GoNamed ''ReplicaSetSpec'')) ''spec'']"

definition structs_25 :: "structdef list" where
  "structs_25 =
   [KubePriorityLevelConfigurationListV1Beta2Props, KubePriorityLevelConfigurationV1Beta1Props,
    KubePriorityLevelConfigurationV1Beta2Props, KubeReplicaSetListProps, KubeReplicaSetProps]"

lemma structs_25_json [json_checks]: "list_all jsonNamed structs_25"
  by (simp add: structs_25_def struct_defs json_simps)

definition KubeReplicationControllerListProps :: structdef where
  [struct_defs]: "KubeReplicationControllerListProps = Struct ''KubeReplicationControllerListProps'' [
    Required ''Items'' (GoPtr (GoSlice (GoPtr (GoNamed ''KubeReplicationControllerProps'')))) ''items'',
    Optional ''Metadata'' (GoPtr (GoNamed ''ListMeta'')) ''metadata'']"

definition KubeReplicationControllerProps :: structdef where
  [struct_defs]: "KubeReplicationControllerProps = Struct ''KubeReplicationControllerProps'' [
    Optional ''Metadata'' (GoPtr (GoNamed ''ObjectMeta'')) ''metadata'',
    Optional ''Spec'' (GoPtr (GoNamed ''ReplicationControllerSpec'')) ''spec'']"

definition KubeResourceQuotaListProps :: structdef where
  [struct_defs]: "KubeResourceQuotaListProps = Struct ''KubeResourceQuotaListProps'' [
    Required ''Items'' (GoPtr (GoSlice (GoPtr (GoNamed ''KubeResourceQuotaProps'')))) ''items'',
    Optional ''Metadata'' (GoPtr (GoNamed ''ListMeta'')) ''metadata'']"

definition KubeResourceQuotaProps :: structdef where
  [struct_defs]: "KubeResourceQuotaProps = Struct ''KubeResourceQuotaProps'' [
    Optional ''Metadata'' (GoPtr (GoNamed ''ObjectMeta'')) ''metadata'',
    Optional ''Spec'' (GoPtr (GoNamed ''ResourceQuotaSpec'')) ''spec'']"

definition structs_26 :: "structdef list" where
  "structs_26 =
   [KubeReplicationControllerListProps, KubeReplicationControllerProps, KubeResourceQuotaListProps,
    KubeResourceQuotaProps]"

lemma structs_26_json [json_checks]: "list_all jsonNamed structs_26"
  by (simp add: structs_26_def struct_defs json_simps)

definition KubeRoleBindingListProps :: structdef where
  [struct_defs]: "KubeRoleBindingListProps = Struct ''KubeRoleBindingListProps'' [
    Required ''Items'' (GoPtr (GoSlice (GoPtr (GoNamed ''KubeRoleBindingProps'')))) ''items'',
    Optional ''Metadata'' (GoPtr (GoNamed ''ListMeta'')) ''metadata'']"

definition KubeRoleBindingProps :: structdef where
  [struct_defs]: "KubeRoleBindingProps = Struct ''KubeRoleBindingProps'' [
    Required ''RoleRef'' (GoPtr (GoNamed ''RoleRef'')) ''roleRef'',
    Optional ''Metadata'' (GoPtr (GoNamed ''ObjectMeta'')) ''metadata'',
    Optional ''Subjects'' (GoPtr (GoSlice (GoPtr (GoNamed ''Subject'')))) ''subjects'']"

definition KubeRoleListProps :: structdef where
  [struct_defs]: "KubeRoleListProps = Struct ''KubeRoleListProps'' [
    Required ''Items'' (GoPtr (GoSlice (GoPtr (GoNamed ''KubeRoleProps'')))) ''items'',
    Optional ''Metadata'' (GoPtr (GoNamed ''ListMeta'')) ''metadata'']"

definition KubeRoleProps :: structdef where
  [struct_defs]: "KubeRoleProps = Struct ''KubeRoleProps'' [
    Optional ''Metadata'' (GoPtr (GoNamed ''ObjectMeta'')) ''metadata'',
    Optional ''Rules'' (GoPtr (GoSlice (GoPtr (GoNamed ''PolicyRule'')))) ''rules'']"

definition structs_27 :: "structdef list" where
  "structs_27 =
   [KubeRoleBindingListProps, KubeRoleBindingProps, KubeRoleListProps, KubeRoleProps]"

lemma structs_27_json [json_checks]: "list_all jsonNamed structs_27"
  by (simp add: structs_27_def struct_defs json_simps)

definition KubeRuntimeClassListProps :: structdef where
  [struct_defs]: "KubeRuntimeClassListProps = Struct ''KubeRuntimeClassListProps'' [
    Required ''Items'' (GoPtr (GoSlice (GoPtr (GoNamed ''KubeRuntimeClassProps'')))) ''items'',
    Optional ''Metadata'' (GoPtr (GoNamed ''ListMeta'')) ''metadata'']"

definition KubeRuntimeClassProps :: structdef where
  [struct_defs]: "KubeRuntimeClassProps = Struct ''KubeRuntimeClassProps'' [
    Required ''Handler'' (GoPtr GoString) ''handler'',
    Optional ''Metadata'' (GoPtr (GoNamed ''ObjectMeta'')) ''metadata'',
    Optional ''Overhead'' (GoPtr (GoNamed ''Overhead'')) ''overhead'',
    Optional ''Scheduling'' (GoPtr (GoNamed ''Scheduling'')) ''scheduling'']"

definition KubeScaleProps :: structdef where
  [struct_defs]: "KubeScaleProps = Struct ''KubeScaleProps'' [
    Optional ''Metadata'' (GoPtr (GoNamed ''ObjectMeta'')) ''metadata'',
    Optional ''Spec'' (GoPtr (GoNamed ''ScaleSpec'')) ''spec'']"

definition KubeSecretListProps :: structdef where
  [struct_defs]: "KubeSecretListProps = Struct ''KubeSecretListProps'' [
    Required ''Items'' (GoPtr (GoSlice (GoPtr (GoNamed ''KubeSecretProps'')))) ''items'',
    Optional ''Metadata'' (GoPtr (GoNamed ''ListMeta'')) ''metadata'']"

definition KubeSecretProps :: structdef where
  [struct_defs]: "KubeSecretProps = Struct ''KubeSecretProps'' [
    Optional ''Data'' (GoPtr (GoMap (GoPtr GoString))) ''data'',
    Optional ''Immutable'' (GoPtr GoBool) ''immutable'',
    Optional ''Metadata'' (GoPtr (GoNamed ''ObjectMeta'')) ''metadata'',
    Optional ''StringData'' (GoPtr (GoMap (GoPtr GoString))) ''stringData'',
    Optional ''Type'' (GoPtr GoString) ''type'']"

definition structs_28 :: "structdef list" where
  "structs_28 =
   [KubeRuntimeClassListProps, KubeRuntimeClassProps, KubeScaleProps, KubeSecretListProps,
    KubeSecretProps]"

lemma structs_28_json [json_checks]: "list_all jsonNamed structs_28"
  by (simp add: structs_28_def struct_defs json_simps)

definition KubeSelfSubjectAccessReviewProps :: structdef where
  [struct_defs]: "KubeSelfSubjectAccessReviewProps = Struct ''KubeSelfSubjectAccessReviewProps'' [
    Required ''Spec'' (GoPtr (GoNamed ''SelfSubjectAccessReviewSpec'')) ''spec'',
    Optional ''Metadata'' (GoPtr (GoNamed ''ObjectMeta'')) ''metadata'']"

definition KubeSelfSubjectRulesReviewProps :: structdef where
  [struct_defs]: "KubeSelfSubjectRulesReviewProps = Struct ''KubeSelfSubjectRulesReviewProps'' [
    Required ''Spec'' (GoPtr (GoNamed ''SelfSubjectRulesReviewSpec'')) ''spec'',
    Optional ''Metadata'' (GoPtr (GoNamed ''ObjectMeta'')) ''metadata'']"

definition structs_29 :: "structdef list" where
  "structs_29 =
   [KubeSelfSubjectAccessReviewProps, KubeSelfSubjectRulesReviewProps]"

lemma structs_29_json [json_checks]: "list_all jsonNamed structs_29"
  by (simp add: structs_29_def struct_defs json_simps)

definition KubeServiceAccountListProps :: structdef where
  [struct_defs]: "KubeServiceAccountListProps = Struct ''KubeServiceAccountListProps'' [
    Required ''Items'' (GoPtr (GoSlice (GoPtr (GoNamed ''KubeServiceAccountProps'')))) ''items'',
    Optional ''Metadata'' (GoPtr (GoNamed ''ListMeta'')) ''metadata'']"

definition KubeServiceAccountProps :: structdef where
  [struct_defs]: "KubeServiceAccountProps = Struct ''KubeServiceAccountProps'' [
    Optional ''AutomountServiceAccountToken'' (GoPtr GoBool) ''automountServiceAccountToken'',
    Optional ''ImagePullSecrets'' (GoPtr (GoSlice (GoPtr (GoNamed ''LocalObjectReference'')))) ''imagePullSecrets'',
    Optional ''Metadata'' (GoPtr (GoNamed ''ObjectMeta'')) ''metadata'',
    Optional ''Secrets'' (GoPtr (GoSlice (GoPtr (GoNamed ''ObjectReference'')))) ''secrets'']"

definition KubeServiceListProps :: structdef where
  [struct_defs]: "KubeServiceListProps = Struct ''KubeServiceListProps'' [
    Required ''Items'' (GoPtr (GoSlice (GoPtr (GoNamed ''KubeServiceProps'')))) ''items'',
    Optional ''Metadata'' (GoPtr (GoNamed ''ListMeta'')) ''metadata'']"

definition KubeServiceProps :: structdef where
  [struct_defs]: "KubeServiceProps = Struct ''KubeServiceProps'' [
    Optional ''Metadata'' (GoPtr (GoNamed ''ObjectMeta'')) ''metadata'',
    Optional ''Spec'' (GoPtr (GoNamed ''ServiceSpec'')) ''spec'']"

definition structs_30 :: "structdef list" where
  "structs_30 =
   [KubeServiceAccountListProps, KubeServiceAccountProps, KubeServiceListProps, KubeServiceProps]"

lemma structs_30_json [json_checks]: "list_all jsonNamed structs_30"
  by (simp add: structs_30_def struct_defs json_simps)

definition KubeStatefulSetListProps :: structdef where
  [struct_defs]: "KubeStatefulSetListProps = Struct ''KubeStatefulSetListProps'' [
    Required ''Items'' (GoPtr (GoSlice (GoPtr (GoNamed ''KubeStatefulSetProps'')))) ''items'',
    Optional ''Metadata'' (GoPtr (GoNamed ''ListMeta'')) ''metadata'']"

definition KubeStatefulSetProps :: structdef where
  [struct_defs]: "KubeStatefulSetProps = Struct ''KubeStatefulSetProps'' [
    Optional ''Metadata'' (GoPtr (GoNamed ''ObjectMeta'')) ''metadata'',
    Optional ''Spec'' (GoPtr (GoNamed ''StatefulSetSpec'')) ''spec'']"

definition KubeStatusProps :: structdef where
  [struct_defs]: "KubeStatusProps = Struct ''KubeStatusProps'' [
    Optional ''Code'' (GoPtr GoFloat64) ''code'',
    Optional ''Details'' (GoPtr (GoNamed ''StatusDetails'')) ''details'',
    Optional ''Message'' (GoPtr GoString) ''message'',
    Optional ''Metadata'' (GoPtr (GoNamed ''ListMeta'')) ''metadata'',
    Optional ''Reason'' (GoPtr GoString) ''reason'']"

definition KubeStorageClassListProps :: structdef where
  [struct_defs]: "KubeStorageClassListProps = Struct ''KubeStorageClassListProps'' [
    Required ''Items'' (GoPtr (GoSlice (GoPtr (GoNamed ''KubeStorageClassProps'')))) ''items'',
    Optional ''Metadata'' (GoPtr (GoNamed ''ListMeta'')) ''metadata'']"

definition KubeStorageClassProps :: structdef where
  [struct_defs]: "KubeStorageClassProps = Struct ''KubeStorageClassProps'' [
    Required ''Provisioner'' (GoPtr GoString) ''provisioner'',
    Optional ''AllowedTopologies'' (GoPtr (GoSlice (GoPtr (GoNamed ''TopologySelectorTerm'')))) ''allowedTopologies'',
    Optional ''AllowVolumeExpansion'' (GoPtr GoBool) ''allowVolumeExpansion'',
    Optional ''Metadata'' (GoPtr (GoNamed ''ObjectMeta'')) ''metadata'',
    Optional ''MountOptions'' (GoPtr (GoSlice (GoPtr GoString))) ''mountOptions'',
    Optional ''Parameters'' (GoPtr (GoMap (GoPtr GoString))) ''parameters'',
    Optional ''ReclaimPolicy'' (GoPtr GoString) ''reclaimPolicy'',
    Optional ''VolumeBindingMode'' (GoPtr GoString) ''volumeBindingMode'']"

definition structs_31 :: "structdef list" where
  "structs_31 =
   [KubeStatefulSetListProps, KubeStatefulSetProps, KubeStatusProps, KubeStorageClassListProps,
    KubeStorageClassProps]"

lemma structs_31_json [json_checks]: "list_all jsonNamed structs_31"
  by (simp add: structs_31_def struct_defs json_simps)

definition KubeStorageVersionListV1Alpha1Props :: structdef where
  [struct_defs]: "KubeStorageVersionListV1Alpha1Props = Struct ''KubeStorageVersionListV1Alpha1Props'' [
    Required ''Items'' (GoPtr (GoSlice (GoPtr (GoNamed ''KubeStorageVersionV1Alpha1Props'')))) ''items'',
    Optional ''Metadata'' (GoPtr (GoNamed ''ListMeta'')) ''metadata'']"

definition KubeStorageVersionV1Alpha1Props :: structdef where
  [struct_defs]: "KubeStorageVersionV1Alpha1Props = Struct ''KubeStorageVersionV1Alpha1Props'' [
    Required ''Spec'' GoAny ''spec'',
    Optional ''Metadata'' (GoPtr (GoNamed ''ObjectMeta'')) ''metadata'']"

definition KubeSubjectAccessReviewProps :: structdef where
  [struct_defs]: "KubeSubjectAccessReviewProps = Struct ''KubeSubjectAccessReviewProps'' [
    Required ''Spec'' (GoPtr (GoNamed ''SubjectAccessReviewSpec'')) ''spec'',
    Optional ''Metadata'' (GoPtr (GoNamed ''ObjectMeta'')) ''metadata'']"

definition KubeTokenRequestProps :: structdef where
  [struct_defs]: "KubeTokenRequestProps = Struct ''KubeTokenRequestProps'' [
    Required ''Spec'' (GoPtr (GoNamed ''TokenRequestSpec'')) ''spec'',
    Optional ''Metadata'' (GoPtr (GoNamed ''ObjectMeta'')) ''metadata'']"

definition KubeTokenReviewProps :: structdef where
  [struct_defs]: "KubeTokenReviewProps = Struct ''KubeTokenReviewProps'' [
    Required ''Spec'' (GoPtr (GoNamed ''TokenReviewSpec'')) ''spec'',
    Optional ''Metadata'' (GoPtr (GoNamed ''ObjectMeta'')) ''metadata'']"

definition structs_32 :: "structdef list" where
  "structs_32 =
   [KubeStorageVersionListV1Alpha1Props, KubeStorageVersionV1Alpha1Props,
    KubeSubjectAccessReviewProps, KubeTokenRequestProps, KubeTokenReviewProps]"

lemma structs_32_json [json_checks]: "list_all jsonNamed structs_32"
  by (simp add: structs_32_def struct_defs json_simps)

definition KubeValidatingWebhookConfigurationListProps :: structdef where
  [struct_defs]: "KubeValidatingWebhookConfigurationListProps = Struct ''KubeValidatingWebhookConfigurationListProps'' [
    Required ''Items'' (GoPtr (GoSlice (GoPtr (GoNamed ''KubeValidatingWebhookConfigurationProps'')))) ''items'',
    Optional ''Metadata'' (GoPtr (GoNamed ''ListMeta'')) ''metadata'']"

definition KubeValidatingWebhookConfigurationProps :: structdef where
  [struct_defs]: "KubeValidatingWebhookConfigurationProps = Struct ''KubeValidatingWebhookConfigurationProps'' [
    Optional ''Metadata'' (GoPtr (GoNamed ''ObjectMeta'')) ''metadata'',
    Optional ''Webhooks'' (GoPtr (GoSlice (GoPtr (GoNamed ''ValidatingWebhook'')))) ''webhooks'']"

definition KubeVolumeAttachmentListProps :: structdef where
  [struct_defs]: "KubeVolumeAttachmentListProps = Struct ''KubeVolumeAttachmentListProps'' [
    Required ''Items'' (GoPtr (GoSlice (GoPtr (GoNamed ''KubeVolumeAttachmentProps'')))) ''items'',
    Optional ''Metadata'' (GoPtr (GoNamed ''ListMeta'')) ''metadata'']"

definition KubeVolumeAttachmentProps :: structdef where
  [struct_defs]: "KubeVolumeAttachmentProps = Struct ''KubeVolumeAttachmentProps'' [
    Required ''Spec'' (GoPtr (GoNamed ''VolumeAttachmentSpec'')) ''spec'',
    Optional ''Metadata'' (GoPtr (GoNamed ''ObjectMeta'')) ''metadata'']"

definition LabelSelector :: structdef where
  [struct_defs]: "LabelSelector = Struct ''LabelSelector'' [
    Optional ''MatchExpressions'' (GoPtr (GoSlice (GoPtr (GoNamed ''LabelSelectorRequirement'')))) ''matchExpressions'',
    Optional ''MatchLabels'' (GoPtr (GoMap (GoPtr GoString))) ''matchLabels'']"

definition LabelSelectorRequirement :: structdef where
  [struct_defs]: "LabelSelectorRequirement = Struct ''LabelSelectorRequirement'' [
    Required ''Key'' (GoPtr GoString) ''key'',
    Required ''Operator'' (GoPtr GoString) ''operator'',
    Optional ''Values'' (GoPtr (GoSlice (GoPtr GoString))) ''values'']"

definition LeaseSpec :: structdef where
  [struct_defs]: "LeaseSpec = Struct ''LeaseSpec'' [
    Optional ''AcquireTime'' (GoPtr GoTime) ''acquireTime'',
    Optional ''HolderIdentity'' (GoPtr GoString) ''holderIdentity'',
    Optional ''LeaseDurationSeconds'' (GoPtr GoFloat64) ''leaseDurationSeconds'',
    Optional ''LeaseTransitions'' (GoPtr GoFloat64) ''leaseTransitions'',
    Optional ''RenewTime'' (GoPtr GoTime) ''renewTime'']"

definition Lifecycle :: structdef where
  [struct_defs]: "Lifecycle = Struct ''Lifecycle'' [
    Optional ''PostStart'' (GoPtr (GoNamed ''LifecycleHandler'')) ''postStart'',
    Optional ''PreStop'' (GoPtr (GoNamed ''LifecycleHandler'')) ''preStop'']"

definition LifecycleHandler :: structdef where
  [struct_defs]: "LifecycleHandler = Struct ''LifecycleHandler'' [
    Optional ''Exec'' (GoPtr (GoNamed ''ExecAction'')) ''exec'',
    Optional ''HttpGet'' (GoPtr (GoNamed ''HttpGetAction'')) ''httpGet'',
    Optional ''TcpSocket'' (GoPtr (GoNamed ''TcpSocketAction'')) ''tcpSocket'']"

definition LimitRangeItem :: structdef where
  [struct_defs]: "LimitRangeItem = Struct ''LimitRangeItem'' [
    Required ''Type'' (GoPtr GoString) ''type'',
    Optional ''Default'' (GoPtr (GoMap (GoNamed ''Quantity''))) ''default'',
    Optional ''DefaultRequest'' (GoPtr (GoMap (GoNamed ''Quantity''))) ''defaultRequest'',
    Optional ''Max'' (GoPtr (GoMap (GoNamed ''Quantity''))) ''max'',
    Optional ''MaxLimitRequestRatio'' (GoPtr (GoMap (GoNamed ''Quantity''))) ''maxLimitRequestRatio'',
    Optional ''Min'' (GoPtr (GoMap (GoNamed ''Quantity''))) ''min'']"

definition LimitRangeSpec :: structdef where
  [struct_defs]: "LimitRangeSpec = Struct ''LimitRangeSpec'' [
    Required ''Limits'' (GoPtr (GoSlice (GoPtr (GoNamed ''LimitRangeItem'')))) ''limits'']"

definition LimitResponseV1Beta1 :: structdef where
  [struct_defs]: "LimitResponseV1Beta1 = Struct ''LimitResponseV1Beta1'' [
    Required ''Type'' (GoPtr GoString) ''type'',
    Optional ''Queuing'' (GoPtr (GoNamed ''QueuingConfigurationV1Beta1'')) ''queuing'']"

definition LimitResponseV1Beta2 :: structdef where
  [struct_defs]: "LimitResponseV1Beta2 = Struct ''LimitResponseV1Beta2'' [
    Required ''Type'' (GoPtr GoString) ''type'',
    Optional ''Queuing'' (GoPtr (GoNamed ''QueuingConfigurationV1Beta2'')) ''queuing'']"

definition LimitedPriorityLevelConfigurationV1Beta1 :: structdef where
  [struct_defs]: "LimitedPriorityLevelConfigurationV1Beta1 = Struct ''LimitedPriorityLevelConfigurationV1Beta1'' [
    Optional ''AssuredConcurrencyShares'' (GoPtr GoFloat64) ''assuredConcurrencyShares'',
    Optional ''LimitResponse'' (GoPtr (GoNamed ''LimitResponseV1Beta1'')) ''limitResponse'']"

definition LimitedPriorityLevelConfigurationV1Beta2 :: structdef where
  [struct_defs]: "LimitedPriorityLevelConfigurationV1Beta2 = Struct ''LimitedPriorityLevelConfigurationV1Beta2'' [
    Optional ''AssuredConcurrencyShares'' (GoPtr GoFloat64) ''assuredConcurrencyShares'',
    Optional ''LimitResponse'' (GoPtr (GoNamed ''LimitResponseV1Beta2'')) ''limitResponse'']"

definition structs_33 :: "structdef list" where
  "structs_33 =
   [KubeValidatingWebhookConfigurationListProps, KubeValidatingWebhookConfigurationProps,
    KubeVolumeAttachmentListProps, KubeVolumeAttachmentProps, LabelSelector,
    LabelSelectorRequirement, LeaseSpec, Lifecycle, LifecycleHandler, LimitRangeItem,
    LimitRangeSpec, LimitResponseV1Beta1, LimitResponseV1Beta2,
    LimitedPriorityLevelConfigurationV1Beta1, LimitedPriorityLevelConfigurationV1Beta2]"

lemma structs_33_json [json_checks]: "list_all jsonNamed structs_33"
  by (simp add: structs_33_def struct_defs json_simps)

end
