(* ===== verification/K8sTypesE.thy ===== *)
theory K8sTypesE
  imports Structs
begin

text \<open>
  The structs \<open>ListMeta\<close> to \<open>RbdPersistentVolumeSource\<close> of the Kubernetes bindings, one for each file of that name, in
  the groups of the stretches of \<open>init\<close> that register them.
\<close>

definition ListMeta :: structdef where
  [struct_defs]: "ListMeta = Struct ''ListMeta'' [
    Optional ''Continue'' (GoPtr GoString) ''continue'',
    Optional ''RemainingItemCount'' (GoPtr GoFloat64) ''remainingItemCount'',
    Optional ''ResourceVersion'' (GoPtr GoString) ''resourceVersion'',
    Optional ''SelfLink'' (GoPtr GoString) ''selfLink'']"

definition LocalObjectReference :: structdef where
  [struct_defs]: "LocalObjectReference = Struct ''LocalObjectReference'' [
    Optional ''Name'' (GoPtr GoString) ''name'']"

definition LocalVolumeSource :: structdef where
  [struct_defs]: "LocalVolumeSource = Struct ''LocalVolumeSource'' [
    Required ''Path'' (GoPtr GoString) ''path'',
    Optional ''FsType'' (GoPtr GoString) ''fsType'']"

definition ManagedFieldsEntry :: structdef where
  [struct_defs]: "ManagedFieldsEntry = Struct ''ManagedFieldsEntry'' [
    Optional ''ApiVersion'' (GoPtr GoString) ''apiVersion'',
    Optional ''FieldsType'' (GoPtr GoString) ''fieldsType'',
    Optional ''FieldsV1'' GoAny ''fieldsV1'',
    Optional ''Manager'' (GoPtr GoString) ''manager'',
    Optional ''Operation'' (GoPtr GoString) ''operation'',
    Optional ''Subresource'' (GoPtr GoString) ''subresource'',
    Optional ''Time'' (GoPtr GoTime) ''time'']"

definition MetricIdentifierV2 :: structdef where
  [struct_defs]: "MetricIdentifierV2 = Struct ''MetricIdentifierV2'' [
    Required ''Name'' (GoPtr GoString) ''name'',
    Optional ''Selector'' (GoPtr (GoNamed ''LabelSelector'')) ''selector'']"

definition MetricIdentifierV2Beta2 :: structdef where
  [struct_defs]: "MetricIdentifierV2Beta2 = Struct ''MetricIdentifierV2Beta2'' [
    Required ''Name'' (GoPtr GoString) ''name'',
    Optional ''Selector'' (GoPtr (GoNamed ''LabelSelector'')) ''selector'']"

definition MetricSpecV2 :: structdef where
  [struct_defs]: "MetricSpecV2 = Struct ''MetricSpecV2'' [
    Required ''Type'' (GoPtr GoString) ''type'',
    Optional ''ContainerResource'' (GoPtr (GoNamed ''ContainerResourceMetricSourceV2'')) ''containerResource'',
    Optional ''External'' (GoPtr (GoNamed ''ExternalMetricSourceV2'')) ''external'',
    Optional ''Object'' (GoPtr (GoNamed ''ObjectMetricSourceV2'')) ''object'',
    Optional ''Pods'' (GoPtr (GoNamed ''PodsMetricSourceV2'')) ''pods'',
    Optional ''Resource'' (GoPtr (GoNamed ''ResourceMetricSourceV2'')) ''resource'']"

definition MetricSpecV2Beta2 :: structdef where
  [struct_defs]: "MetricSpecV2Beta2 = Struct ''MetricSpecV2Beta2'' [
    Required ''Type'' (GoPtr GoString) ''type'',
    Optional ''ContainerResource'' (GoPtr (GoNamed ''ContainerResourceMetricSourceV2Beta2'')) ''containerResource'',
    Optional ''External'' (GoPtr (GoNamed ''ExternalMetricSourceV2Beta2'')) ''external'',
    Optional ''Object'' (GoPtr (GoNamed ''ObjectMetricSourceV2Beta2'')) ''object'',
    Optional ''Pods'' (GoPtr (GoNamed ''PodsMetricSourceV2Beta2'')) ''pods'',
    Optional ''Resource'' (GoPtr (GoNamed ''ResourceMetricSourceV2Beta2'')) ''resource'']"

definition MetricTargetV2 :: structdef where
  [struct_defs]: "MetricTargetV2 = Struct ''MetricTargetV2'' [
    Required ''Type'' (GoPtr GoString) ''type'',
    Optional ''AverageUtilization'' (GoPtr GoFloat64) ''averageUtilization'',
    Optional ''AverageValue'' (GoNamed ''Quantity'') ''averageValue'',
    Optional ''Value'' (GoNamed ''Quantity'') ''value'']"

definition MetricTargetV2Beta2 :: structdef where
  [struct_defs]: "MetricTargetV2Beta2 = Struct ''MetricTargetV2Beta2'' [
    Required ''Type'' (GoPtr GoString) ''type'',
    Optional ''AverageUtilization'' (GoPtr GoFloat64) ''averageUtilization'',
    Optional ''AverageValue'' (GoNamed ''Quantity'') ''averageValue'',
    Optional ''Value'' (GoNamed ''Quantity'') ''value'']"

definition MutatingWebhook :: structdef where
  [struct_defs]: "MutatingWebhook = Struct ''MutatingWebhook'' [
    Required ''AdmissionReviewVersions'' (GoPtr (GoSlice (GoPtr GoString))) ''admissionReviewVersions'',
    Required ''ClientConfig'' (GoPtr (GoNamed ''WebhookClientConfig'')) ''clientConfig'',
    Required ''Name'' (GoPtr GoString) ''name'',
    Required ''SideEffects'' (GoPtr GoString) ''sideEffects'',
    Optional ''FailurePolicy'' (GoPtr GoString) ''failurePolicy'',
    Optional ''MatchPolicy'' (GoPtr GoString) ''matchPolicy'',
    Optional ''NamespaceSelector'' (GoPtr (GoNamed ''LabelSelector'')) ''namespaceSelector'',
    Optional ''ObjectSelector'' (GoPtr (GoNamed ''LabelSelector'')) ''objectSelector'',
    Optional ''ReinvocationPolicy'' (GoPtr GoString) ''reinvocationPolicy'',
    Optional ''Rules'' (GoPtr (GoSlice (GoPtr (GoNamed ''RuleWithOperations'')))) ''rules'',
    Optional ''TimeoutSeconds'' (GoPtr GoFloat64) ''timeoutSeconds'']"

definition NamespaceSpec :: structdef where
  [struct_defs]: "NamespaceSpec = Struct ''NamespaceSpec'' [
    Optional ''Finalizers'' (GoPtr (GoSlice (GoPtr GoString))) ''finalizers'']"

definition NetworkPolicyEgressRule :: structdef where
  [struct_defs]: "NetworkPolicyEgressRule = Struct ''NetworkPolicyEgressRule'' [
    Optional ''Ports'' (GoPtr (GoSlice (GoPtr (GoNamed ''NetworkPolicyPort'')))) ''ports'',
    Optional ''To'' (GoPtr (GoSlice (GoPtr (GoNamed ''NetworkPolicyPeer'')))) ''to'']"

definition NetworkPolicyIngressRule :: structdef where
  [struct_defs]: "NetworkPolicyIngressRule = Struct ''NetworkPolicyIngressRule'' [
    Optional ''From'' (GoPtr (GoSlice (GoPtr (GoNamed ''NetworkPolicyPeer'')))) ''from'',
    Optional ''Ports'' (GoPtr (GoSlice (GoPtr (GoNamed ''NetworkPolicyPort'')))) ''ports'']"

definition NetworkPolicyPeer :: structdef where
  [struct_defs]: "NetworkPolicyPeer = Struct ''NetworkPolicyPeer'' [
    Optional ''IpBlock'' (GoPtr (GoNamed ''IpBlock'')) ''ipBlock'',
    Optional ''NamespaceSelector'' (GoPtr (GoNamed ''LabelSelector'')) ''namespaceSelector'',
    Optional ''PodSelector'' (GoPtr (GoNamed ''LabelSelector'')) ''podSelector'']"

definition NetworkPolicyPort :: structdef where
  [struct_defs]: "NetworkPolicyPort = Struct ''NetworkPolicyPort'' [
    Optional ''EndPort'' (GoPtr GoFloat64) ''endPort'',
    Optional ''Port'' (GoNamed ''IntOrString'') ''port'',
    Optional ''Protocol'' (GoPtr GoString) ''protocol'']"

definition NetworkPolicySpec :: structdef where
  [struct_defs]: "NetworkPolicySpec = Struct ''NetworkPolicySpec'' [
    Required ''PodSelector'' (GoPtr (GoNamed ''LabelSelector'')) ''podSelector'',
    Optional ''Egress'' (GoPtr (GoSlice (GoPtr (GoNamed ''NetworkPolicyEgressRule'')))) ''egress'',
    Optional ''Ingress'' (GoPtr (GoSlice (GoPtr (GoNamed ''NetworkPolicyIngressRule'')))) ''ingress'',
    Optional ''PolicyTypes'' (GoPtr (GoSlice (GoPtr GoString))) ''policyTypes'']"

definition NfsVolumeSource :: structdef where
  [struct_defs]: "NfsVolumeSource = Struct ''NfsVolumeSource'' [
    Required ''Path'' (GoPtr GoString) ''path'',
    Required ''Server'' (GoPtr GoString) ''server'',
    Optional ''ReadOnly'' (GoPtr GoBool) ''readOnly'']"

definition NodeAffinity :: structdef where
  [struct_defs]: "NodeAffinity = Struct ''NodeAffinity'' [
    Optional ''PreferredDuringSchedulingIgnoredDuringExecution'' (GoPtr (GoSlice (GoPtr (GoNamed ''PreferredSchedulingTerm'')))) ''preferredDuringSchedulingIgnoredDuringExecution'',
    Optional ''RequiredDuringSchedulingIgnoredDuringExecution'' (GoPtr (GoNamed ''NodeSelector'')) ''requiredDuringSchedulingIgnoredDuringExecution'']"

definition NodeConfigSource :: structdef where
  [struct_defs]: "NodeConfigSource = Struct ''NodeConfigSource'' [
    Optional ''ConfigMap'' (GoPtr (GoNamed ''ConfigMapNodeConfigSource'')) ''configMap'']"

definition NodeSelector :: structdef where
  [struct_defs]: "NodeSelector = Struct ''NodeSelector'' [
    Required ''NodeSelectorTerms'' (GoPtr (GoSlice (GoPtr (GoNamed ''NodeSelectorTerm'')))) ''nodeSelectorTerms'']"

definition NodeSelectorRequirement :: structdef where
  [struct_defs]: "NodeSelectorRequirement = Struct ''NodeSelectorRequirement'' [
    Required ''Key'' (GoPtr GoString) ''key'',
    Required ''Operator'' (GoPtr GoString) ''operator'',
    Optional ''Values'' (GoPtr (GoSlice (GoPtr GoString))) ''values'']"

definition NodeSelectorTerm :: structdef where
  [struct_defs]: "NodeSelectorTerm = Struct ''NodeSelectorTerm'' [
    Optional ''MatchExpressions'' (GoPtr (GoSlice (GoPtr (GoNamed ''NodeSelectorRequirement'')))) ''matchExpressions'',
    Optional ''MatchFields'' (GoPtr (GoSlice (GoPtr (GoNamed ''NodeSelectorRequirement'')))) ''matchFields'']"

definition NodeSpec :: structdef where
  [struct_defs]: "NodeSpec = Struct ''NodeSpec'' [
    Optional ''ConfigSource'' (GoPtr (GoNamed ''NodeConfigSource'')) ''configSource'',
    Optional ''ExternalId'' (GoPtr GoString) ''externalId'',
    Optional ''PodCidr'' (GoPtr GoString) ''podCidr'',
    Optional ''PodCidRs'' (GoPtr (GoSlice (GoPtr GoString))) ''podCidRs'',
    Optional ''ProviderId'' (GoPtr GoString) ''providerId'',
    Optional ''Taints'' (GoPtr (GoSlice (GoPtr (GoNamed ''Taint'')))) ''taints'',
    Optional ''Unschedulable'' (GoPtr GoBool) ''unschedulable'']"

definition NonResourceAttributes :: structdef where
  [struct_defs]: "NonResourceAttributes = Struct ''NonResourceAttributes'' [
    Optional ''Path'' (GoPtr GoString) ''path'',
    Optional ''Verb'' (GoPtr GoString) ''verb'']"

definition NonResourcePolicyRuleV1Beta1 :: structdef where
  [struct_defs]: "NonResourcePolicyRuleV1Beta1 = Struct ''NonResourcePolicyRuleV1Beta1'' [
    Required ''NonResourceUrLs'' (GoPtr (GoSlice (GoPtr GoString))) ''nonResourceUrLs'',
    Required ''Verbs'' (GoPtr (GoSlice (GoPtr GoString))) ''verbs'']"

definition NonResourcePolicyRuleV1Beta2 :: structdef where
  [struct_defs]: "NonResourcePolicyRuleV1Beta2 = Struct ''NonResourcePolicyRuleV1Beta2'' [
    Required ''NonResourceUrLs'' (GoPtr (GoSlice (GoPtr GoString))) ''nonResourceUrLs'',
    Required ''Verbs'' (GoPtr (GoSlice (GoPtr GoString))) ''verbs'']"

definition ObjectFieldSelector :: structdef where
  [struct_defs]: "ObjectFieldSelector = Struct ''ObjectFieldSelector'' [
    Required ''FieldPath'' (GoPtr GoString) ''fieldPath'',
    Optional ''ApiVersion'' (GoPtr GoString) ''apiVersion'']"

definition ObjectMeta :: structdef where
  [struct_defs]: "ObjectMeta = Struct ''ObjectMeta'' [
    Optional ''Annotations'' (GoPtr (GoMap (GoPtr GoString))) ''annotations'',
    Optional ''CreationTimestamp'' (GoPtr GoTime) ''creationTimestamp'',
    Optional ''DeletionGracePeriodSeconds'' (GoPtr GoFloat64) ''deletionGracePeriodSeconds'',
    Optional ''DeletionTimestamp'' (GoPtr GoTime) ''deletionTimestamp'',
    Optional ''Finalizers'' (GoPtr (GoSlice (GoPtr GoString))) ''finalizers'',
    Optional ''GenerateName'' (GoPtr GoString) ''generateName'',
    Optional ''Generation'' (GoPtr GoFloat64) ''generation'',
    Optional ''Labels'' (GoPtr (GoMap (GoPtr GoString))) ''labels'',
    Optional ''ManagedFields'' (GoPtr (GoSlice (GoPtr (GoNamed ''ManagedFieldsEntry'')))) ''managedFields'',
    Optional ''Name'' (GoPtr GoString) ''name'',
    Optional ''Namespace'' (GoPtr GoString) ''namespace'',
    Optional ''OwnerReferences'' (GoPtr (GoSlice (GoPtr (GoNamed ''OwnerReference'')))) ''ownerReferences'',
    Optional ''ResourceVersion'' (GoPtr GoString) ''resourceVersion'',
    Optional ''SelfLink'' (GoPtr GoString) ''selfLink'',
    Optional ''Uid'' (GoPtr GoString) ''uid'']"

definition ObjectMetricSourceV2 :: structdef where
  [struct_defs]: "ObjectMetricSourceV2 = Struct ''ObjectMetricSourceV2'' [
    Required ''DescribedObject'' (GoPtr (GoNamed ''CrossVersionObjectReferenceV2'')) ''describedObject'',
    Required ''Metric'' (GoPtr (GoNamed ''MetricIdentifierV2'')) ''metric'',
    Required ''Target'' (GoPtr (GoNamed ''MetricTargetV2'')) ''target'']"

definition ObjectMetricSourceV2Beta2 :: structdef where
  [struct_defs]: "ObjectMetricSourceV2Beta2 = Struct ''ObjectMetricSourceV2Beta2'' [
    Required ''DescribedObject'' (GoPtr (GoNamed ''CrossVersionObjectReferenceV2Beta2'')) ''describedObject'',
    Required ''Metric'' (GoPtr (GoNamed ''MetricIdentifierV2Beta2'')) ''metric'',
    Required ''Target'' (GoPtr (GoNamed ''MetricTargetV2Beta2'')) ''target'']"

definition ObjectReference :: structdef where
  [struct_defs]: "ObjectReference = Struct ''ObjectReference'' [
    Optional ''ApiVersion'' (GoPtr GoString) ''apiVersion'',
    Optional ''FieldPath'' (GoPtr GoString) ''fieldPath'',
    Optional ''Kind'' (GoPtr GoString) ''kind'',
    Optional ''Name'' (GoPtr GoString) ''name'',
    Optional ''Namespace'' (GoPtr GoString) ''namespace'',
    Optional ''ResourceVersion'' (GoPtr GoString) ''resourceVersion'',
    Optional ''Uid'' (GoPtr GoString) ''uid'']"

definition Overhead :: structdef where
  [struct_defs]: "Overhead = Struct ''Overhead'' [
    Optional ''PodFixed'' (GoPtr (GoMap (GoNamed ''Quantity''))) ''podFixed'']"

definition OwnerReference :: structdef where
  [struct_defs]: "OwnerReference = Struct ''OwnerReference'' [
    Required ''ApiVersion'' (GoPtr GoString) ''apiVersion'',
    Required ''Kind'' (GoPtr GoString) ''kind'',
    Required ''Name'' (GoPtr GoString) ''name'',
    Required ''Uid'' (GoPtr GoString) ''uid'',
    Optional ''BlockOwnerDeletion'' (GoPtr GoBool) ''blockOwnerDeletion'',
    Optional ''Controller'' (GoPtr GoBool) ''controller'']"

definition PersistentVolumeClaimSpec :: structdef where
  [struct_defs]: "PersistentVolumeClaimSpec = Struct ''PersistentVolumeClaimSpec'' [
    Optional ''AccessModes'' (GoPtr (GoSlice (GoPtr GoString))) ''accessModes'',
    Optional ''DataSource'' (GoPtr (GoNamed ''TypedLocalObjectReference'')) ''dataSource'',
    Optional ''DataSourceRef'' (GoPtr (GoNamed ''TypedLocalObjectReference'')) ''dataSourceRef'',
    Optional ''Resources'' (GoPtr (GoNamed ''ResourceRequirements'')) ''resources'',
    Optional ''Selector'' (GoPtr (GoNamed ''LabelSelector'')) ''selector'',
    Optional ''StorageClassName'' (GoPtr GoString) ''storageClassName'',
    Optional ''VolumeMode'' (GoPtr GoString) ''volumeMode'',
    Optional ''VolumeName'' (GoPtr GoString) ''volumeName'']"

definition PersistentVolumeClaimTemplate :: structdef where
  [struct_defs]: "PersistentVolumeClaimTemplate = Struct ''PersistentVolumeClaimTemplate'' [
    Required ''Spec'' (GoPtr (GoNamed ''PersistentVolumeClaimSpec'')) ''spec'',
    Optional ''Metadata'' (GoPtr (GoNamed ''ObjectMeta'')) ''metadata'']"

definition PersistentVolumeClaimVolumeSource :: structdef where
  [struct_defs]: "PersistentVolumeClaimVolumeSource = Struct ''PersistentVolumeClaimVolumeSource'' [
    Required ''ClaimName'' (GoPtr GoString) ''claimName'',
    Optional ''ReadOnly'' (GoPtr GoBool) ''readOnly'']"

definition structs_34 :: "structdef list" where
  "structs_34 =
   [ListMeta, LocalObjectReference, LocalVolumeSource, ManagedFieldsEntry, MetricIdentifierV2,
    MetricIdentifierV2Beta2, MetricSpecV2, MetricSpecV2Beta2, MetricTargetV2, MetricTargetV2Beta2,
    MutatingWebhook, NamespaceSpec, NetworkPolicyEgressRule, NetworkPolicyIngressRule,
    NetworkPolicyPeer, NetworkPolicyPort, NetworkPolicySpec, NfsVolumeSource, NodeAffinity,
    NodeConfigSource, NodeSelector, NodeSelectorRequirement, NodeSelectorTerm, NodeSpec,
    NonResourceAttributes, NonResourcePolicyRuleV1Beta1, NonResourcePolicyRuleV1Beta2,
    ObjectFieldSelector, ObjectMeta, ObjectMetricSourceV2, ObjectMetricSourceV2Beta2,
    ObjectReference, Overhead, OwnerReference, PersistentVolumeClaimSpec,
    PersistentVolumeClaimTemplate, PersistentVolumeClaimVolumeSource]"

lemma structs_34_json [json_checks]: "list_all jsonNamed structs_34"
  by (simp add: structs_34_def struct_defs json_simps)

definition PersistentVolumeSpec :: structdef where
  [struct_defs]: "PersistentVolumeSpec = Struct ''PersistentVolumeSpec'' [
    Optional ''AccessModes'' (GoPtr (GoSlice (GoPtr GoString))) ''accessModes'',
    Optional ''AwsElasticBlockStore'' (GoPtr (GoNamed ''AwsElasticBlockStoreVolumeSource'')) ''awsElasticBlockStore'',
    Optional ''AzureDisk'' (GoPtr (GoNamed ''AzureDiskVolumeSource'')) ''azureDisk'',
    Optional ''AzureFile'' (GoPtr (GoNamed ''AzureFilePersistentVolumeSource'')) ''azureFile'',
    Optional ''Capacity'' (GoPtr (GoMap (GoNamed ''Quantity''))) ''capacity'',
    Optional ''Cephfs'' (GoPtr (GoNamed ''CephFsPersistentVolumeSource'')) ''cephfs'',
    Optional ''Cinder'' (GoPtr (GoNamed ''CinderPersistentVolumeSource'')) ''cinder'',
    Optional ''ClaimRef'' (GoPtr (GoNamed ''ObjectReference'')) ''claimRef'',
    Optional ''Csi'' (GoPtr (GoNamed ''CsiPersistentVolumeSource'')) ''csi'',
    Optional ''Fc'' (GoPtr (GoNamed ''FcVolumeSource'')) ''fc'',
    Optional ''FlexVolume'' (GoPtr (GoNamed ''FlexPersistentVolumeSource'')) ''flexVolume'',
    Optional ''Flocker'' (GoPtr (GoNamed ''FlockerVolumeSource'')) ''flocker'',
    Optional ''GcePersistentDisk'' (GoPtr (GoNamed ''GcePersistentDiskVolumeSource'')) ''gcePersistentDisk'',
    Optional ''Glusterfs'' (GoPtr (GoNamed ''GlusterfsPersistentVolumeSource'')) ''glusterfs'',
    Optional ''HostPath'' (GoPtr (GoNamed ''HostPathVolumeSource'')) ''hostPath'',
    Optional ''Iscsi'' (GoPtr (GoNamed ''IscsiPersistentVolumeSource'')) ''iscsi'',
    Optional ''Local'' (GoPtr (GoNamed ''LocalVolumeSource'')) ''local'',
    Optional ''MountOptions'' (GoPtr (GoSlice (GoPtr GoString))) ''mountOptions'',
    Optional ''Nfs'' (GoPtr (GoNamed ''NfsVolumeSource'')) ''nfs'',
    Optional ''NodeAffinity'' (GoPtr (GoNamed ''VolumeNodeAffinity'')) ''nodeAffinity'',
    Optional ''PersistentVolumeReclaimPolicy'' (GoPtr GoString) ''persistentVolumeReclaimPolicy'',
    Optional ''PhotonPersistentDisk'' (GoPtr (GoNamed ''PhotonPersistentDiskVolumeSource'')) ''photonPersistentDisk'',
    Optional ''PortworxVolume'' (GoPtr (GoNamed ''PortworxVolumeSource'')) ''portworxVolume'',
    Optional ''Quobyte'' (GoPtr (GoNamed ''QuobyteVolumeSource'')) ''quobyte'',
    Optional ''Rbd'' (GoPtr (GoNamed ''RbdPersistentVolumeSource'')) ''rbd'',
    Optional ''ScaleIo'' (GoPtr (GoNamed ''ScaleIoPersistentVolumeSource'')) ''scaleIo'',
    Optional ''StorageClassName'' (GoPtr GoString) ''storageClassName'',
    Optional ''Storageos'' (GoPtr (GoNamed ''StorageOsPersistentVolumeSource'')) ''storageos'',
    Optional ''VolumeMode'' (GoPtr GoString) ''volumeMode'',
    Optional ''VsphereVolume'' (GoPtr (GoNamed ''VsphereVirtualDiskVolumeSource'')) ''vsphereVolume'']"

definition PhotonPersistentDiskVolumeSource :: structdef where
  [struct_defs]: "PhotonPersistentDiskVolumeSource = Struct ''PhotonPersistentDiskVolumeSource'' [
    Required ''PdId'' (GoPtr GoString) ''pdId'',
    Optional ''FsType'' (GoPtr GoString) ''fsType'']"

definition PodAffinity :: structdef where
  [struct_defs]: "PodAffinity = Struct ''PodAffinity'' [
    Optional ''PreferredDuringSchedulingIgnoredDuringExecution'' (GoPtr (GoSlice (GoPtr (GoNamed ''WeightedPodAffinityTerm'')))) ''preferredDuringSchedulingIgnoredDuringExecution'',
    Optional ''RequiredDuringSchedulingIgnoredDuringExecution'' (GoPtr (GoSlice (GoPtr (GoNamed ''PodAffinityTerm'')))) ''requiredDuringSchedulingIgnoredDuringExecution'']"

definition PodAffinityTerm :: structdef where
  [struct_defs]: "PodAffinityTerm = Struct ''PodAffinityTerm'' [
    Required ''TopologyKey'' (GoPtr GoString) ''topologyKey'',
    Optional ''LabelSelector'' (GoPtr (GoNamed ''LabelSelector'')) ''labelSelector'',
    Optional ''Namespaces'' (GoPtr (GoSlice (GoPtr GoString))) ''namespaces'',
    Optional ''NamespaceSelector'' (GoPtr (GoNamed ''LabelSelector'')) ''namespaceSelector'']"

definition PodAntiAffinity :: structdef where
  [struct_defs]: "PodAntiAffinity = Struct ''PodAntiAffinity'' [
    Optional ''PreferredDuringSchedulingIgnoredDuringExecution'' (GoPtr (GoSlice (GoPtr (GoNamed ''WeightedPodAffinityTerm'')))) ''preferredDuringSchedulingIgnoredDuringExecution'',
    Optional ''RequiredDuringSchedulingIgnoredDuringExecution'' (GoPtr (GoSlice (GoPtr (GoNamed ''PodAffinityTerm'')))) ''requiredDuringSchedulingIgnoredDuringExecution'']"

definition PodDisruptionBudgetSpec :: structdef where
  [struct_defs]: "PodDisruptionBudgetSpec = Struct ''PodDisruptionBudgetSpec'' [
    Optional ''MaxUnavailable'' (GoNamed ''IntOrString'') ''maxUnavailable'',
    Optional ''MinAvailable'' (GoNamed ''IntOrString'') ''minAvailable'',
    Optional ''Selector'' (GoPtr (GoNamed ''LabelSelector'')) ''selector'']"

definition PodDnsConfig :: structdef where
  [struct_defs]: "PodDnsConfig = Struct ''PodDnsConfig'' [
    Optional ''Nameservers'' (GoPtr (GoSlice (GoPtr GoString))) ''nameservers'',
    Optional ''Options'' (GoPtr (GoSlice (GoPtr (GoNamed ''PodDnsConfigOption'')))) ''options'',
    Optional ''Searches'' (GoPtr (GoSlice (GoPtr GoString))) ''searches'']"

definition PodDnsConfigOption :: structdef where
  [struct_defs]: "PodDnsConfigOption = Struct ''PodDnsConfigOption'' [
    Optional ''Name'' (GoPtr GoString) ''name'',
    Optional ''Value'' (GoPtr GoString) ''value'']"

definition PodFailurePolicy :: structdef where
  [struct_defs]: "PodFailurePolicy = Struct ''PodFailurePolicy'' [
    Required ''Rules'' (GoPtr (GoSlice (GoPtr (GoNamed ''PodFailurePolicyRule'')))) ''rules'']"

definition PodFailurePolicyOnExitCodesRequirement :: structdef where
  [struct_defs]: "PodFailurePolicyOnExitCodesRequirement = Struct ''PodFailurePolicyOnExitCodesRequirement'' [
    Required ''Operator'' (GoPtr GoString) ''operator'',
    Required ''Values'' (GoPtr (GoSlice (GoPtr GoFloat64))) ''values'',
    Optional ''ContainerName'' (GoPtr GoString) ''containerName'']"

definition PodFailurePolicyOnPodConditionsPattern :: structdef where
  [struct_defs]: "PodFailurePolicyOnPodConditionsPattern = Struct ''PodFailurePolicyOnPodConditionsPattern'' [
    Required ''Status'' (GoPtr GoString) ''status'',
    Required ''Type'' (GoPtr GoString) ''type'']"

definition PodFailurePolicyRule :: structdef where
  [struct_defs]: "PodFailurePolicyRule = Struct ''PodFailurePolicyRule'' [
    Required ''Action'' (GoPtr GoString) ''action'',
    Required ''OnPodConditions'' (GoPtr (GoSlice (GoPtr (GoNamed ''PodFailurePolicyOnPodConditionsPattern'')))) ''onPodConditions'',
    Optional ''OnExitCodes'' (GoPtr (GoNamed ''PodFailurePolicyOnExitCodesRequirement'')) ''onExitCodes'']"

definition PodOs :: structdef where
  [struct_defs]: "PodOs = Struct ''PodOs'' [
    Required ''Name'' (GoPtr GoString) ''name'']"

definition PodReadinessGate :: structdef where
  [struct_defs]: "PodReadinessGate = Struct ''PodReadinessGate'' [
    Required ''ConditionType'' (GoPtr GoString) ''conditionType'']"

definition PodSecurityContext :: structdef where
  [struct_defs]: "PodSecurityContext = Struct ''PodSecurityContext'' [
    Optional ''FsGroup'' (GoPtr GoFloat64) ''fsGroup'',
    Optional ''FsGroupChangePolicy'' (GoPtr GoString) ''fsGroupChangePolicy'',
    Optional ''RunAsGroup'' (GoPtr GoFloat64) ''runAsGroup'',
    Optional ''RunAsNonRoot'' (GoPtr GoBool) ''runAsNonRoot'',
    Optional ''RunAsUser'' (GoPtr GoFloat64) ''runAsUser'',
    Optional ''SeccompProfile'' (GoPtr (GoNamed ''SeccompProfile'')) ''seccompProfile'',
    Optional ''SeLinuxOptions'' (GoPtr (GoNamed ''SeLinuxOptions'')) ''seLinuxOptions'',
    Optional ''SupplementalGroups'' (GoPtr (GoSlice (GoPtr GoFloat64))) ''supplementalGroups'',
    Optional ''Sysctls'' (GoPtr (GoSlice (GoPtr (GoNamed ''Sysctl'')))) ''sysctls'',
    Optional ''WindowsOptions'' (GoPtr (GoNamed ''WindowsSecurityContextOptions'')) ''windowsOptions'']"

definition PodSpec :: structdef where
  [struct_defs]: "PodSpec = Struct ''PodSpec'' [
    Required ''Containers'' (GoPtr (GoSlice (GoPtr (GoNamed ''Container'')))) ''containers'',
    Optional ''ActiveDeadlineSeconds'' (GoPtr GoFloat64) ''activeDeadlineSeconds'',
    Optional ''Affinity'' (GoPtr (GoNamed ''Affinity'')) ''affinity'',
    Optional ''AutomountServiceAccountToken'' (GoPtr GoBool) ''automountServiceAccountToken'',
    Optional ''DnsConfig'' (GoPtr (GoNamed ''PodDnsConfig'')) ''dnsConfig'',
    Optional ''DnsPolicy'' (GoPtr GoString) ''dnsPolicy'',
    Optional ''EnableServiceLinks'' (GoPtr GoBool) ''enableServiceLinks'',
    Optional ''EphemeralContainers'' (GoPtr (GoSlice (GoPtr (GoNamed ''EphemeralContainer'')))) ''ephemeralContainers'',
    Optional ''HostAliases'' (GoPtr (GoSlice (GoPtr (GoNamed ''HostAlias'')))) ''hostAliases'',
    Optional ''HostIpc'' (GoPtr GoBool) ''hostIpc'',
    Optional ''Hostname'' (GoPtr GoString) ''hostname'',
    Optional ''HostNetwork'' (GoPtr GoBool) ''hostNetwork'',
    Optional ''HostPid'' (GoPtr GoBool) ''hostPid'',
    Optional ''HostUsers'' (GoPtr GoBool) ''hostUsers'',
    Optional ''ImagePullSecrets'' (GoPtr (GoSlice (GoPtr (GoNamed ''LocalObjectReference'')))) ''imagePullSecrets'',
    Optional ''InitContainers'' (GoPtr (GoSlice (GoPtr (GoNamed ''Container'')))) ''initContainers'',
    Optional ''NodeName'' (GoPtr GoString) ''nodeName'',
    Optional ''NodeSelector'' (GoPtr (GoMap (GoPtr GoString))) ''nodeSelector'',
    Optional ''Os'' (GoPtr (GoNamed ''PodOs'')) ''os'',
    Optional ''Overhead'' (GoPtr (GoMap (GoNamed ''Quantity''))) ''overhead'',
    Optional ''PreemptionPolicy'' (GoPtr GoString) ''preemptionPolicy'',
    Optional ''Priority'' (GoPtr GoFloat64) ''priority'',
    Optional ''PriorityClassName'' (GoPtr GoString) ''priorityClassName'',
    Optional ''ReadinessGates'' (GoPtr (GoSlice (GoPtr (GoNamed ''PodReadinessGate'')))) ''readinessGates'',
    Optional ''RestartPolicy'' (GoPtr GoString) ''restartPolicy'',
    Optional ''RuntimeClassName'' (GoPtr GoString) ''runtimeClassName'',
    Optional ''SchedulerName'' (GoPtr GoString) ''schedulerName'',
    Optional ''SecurityContext'' (GoPtr (GoNamed ''PodSecurityContext'')) ''securityContext'',
    Optional ''ServiceAccount'' (GoPtr GoString) ''serviceAccount'',
    Optional ''ServiceAccountName'' (GoPtr GoString) ''serviceAccountName'',
    Optional ''SetHostnameAsFqdn'' (GoPtr GoBool) ''setHostnameAsFqdn'',
    Optional ''ShareProcessNamespace'' (GoPtr GoBool) ''shareProcessNamespace'',
    Optional ''Subdomain'' (GoPtr GoString) ''subdomain'',
    Optional ''TerminationGracePeriodSeconds'' (GoPtr GoFloat64) ''terminationGracePeriodSeconds'',
    Optional ''Tolerations'' (GoPtr (GoSlice (GoPtr (GoNamed ''Toleration'')))) ''tolerations'',
    Optional ''TopologySpreadConstraints'' (GoPtr (GoSlice (GoPtr (GoNamed ''TopologySpreadConstraint'')))) ''topologySpreadConstraints'',
    Optional ''Volumes'' (GoPtr (GoSlice (GoPtr (GoNamed ''Volume'')))) ''volumes'']"

definition PodTemplateSpec :: structdef where
  [struct_defs]: "PodTemplateSpec = Struct ''PodTemplateSpec'' [
    Optional ''Metadata'' (GoPtr (GoNamed ''ObjectMeta'')) ''metadata'',
    Optional ''Spec'' (GoPtr (GoNamed ''PodSpec'')) ''spec'']"

definition PodsMetricSourceV2 :: structdef where
  [struct_defs]: "PodsMetricSourceV2 = Struct ''PodsMetricSourceV2'' [
    Required ''Metric'' (GoPtr (GoNamed ''MetricIdentifierV2'')) ''metric'',
    Required ''Target'' (GoPtr (GoNamed ''MetricTargetV2'')) ''target'']"

definition PodsMetricSourceV2Beta2 :: structdef where
  [struct_defs]: "PodsMetricSourceV2Beta2 = Struct ''PodsMetricSourceV2Beta2'' [
    Required ''Metric'' (GoPtr (GoNamed ''MetricIdentifierV2Beta2'')) ''metric'',
    Required ''Target'' (GoPtr (GoNamed ''MetricTargetV2Beta2'')) ''target'']"

definition PolicyRule :: structdef where
  [struct_defs]: "PolicyRule = Struct ''PolicyRule'' [
    Required ''Verbs'' (GoPtr (GoSlice (GoPtr GoString))) ''verbs'',
    Optional ''ApiGroups'' (GoPtr (GoSlice (GoPtr GoString))) ''apiGroups'',
    Optional ''NonResourceUrLs'' (GoPtr (GoSlice (GoPtr GoString))) ''nonResourceUrLs'',
    Optional ''ResourceNames'' (GoPtr (GoSlice (GoPtr GoString))) ''resourceNames'',
    Optional ''Resources'' (GoPtr (GoSlice (GoPtr GoString))) ''resources'']"

definition PolicyRulesWithSubjectsV1Beta1 :: structdef where
  [struct_defs]: "PolicyRulesWithSubjectsV1Beta1 = Struct ''PolicyRulesWithSubjectsV1Beta1'' [
    Required ''Subjects'' (GoPtr (GoSlice (GoPtr (GoNamed ''SubjectV1Beta1'')))) ''subjects'',
    Optional ''NonResourceRules'' (GoPtr (GoSlice (GoPtr (GoNamed ''NonResourcePolicyRuleV1Beta1'')))) ''nonResourceRules'',
    Optional ''ResourceRules'' (GoPtr (GoSlice (GoPtr (GoNamed ''ResourcePolicyRuleV1Beta1'')))) ''resourceRules'']"

definition PolicyRulesWithSubjectsV1Beta2 :: structdef where
  [struct_defs]: "PolicyRulesWithSubjectsV1Beta2 = Struct ''PolicyRulesWithSubjectsV1Beta2'' [
    Required ''Subjects'' (GoPtr (GoSlice (GoPtr (GoNamed ''SubjectV1Beta2'')))) ''subjects'',
    Optional ''NonResourceRules'' (GoPtr (GoSlice (GoPtr (GoNamed ''NonResourcePolicyRuleV1Beta2'')))) ''nonResourceRules'',
    Optional ''ResourceRules'' (GoPtr (GoSlice (GoPtr (GoNamed ''ResourcePolicyRuleV1Beta2'')))) ''resourceRules'']"

definition PortworxVolumeSource :: structdef where
  [struct_defs]: "PortworxVolumeSource = Struct ''PortworxVolumeSource'' [
    Required ''VolumeId'' (GoPtr GoString) ''volumeId'',
    Optional ''FsType'' (GoPtr GoString) ''fsType'',
    Optional ''ReadOnly'' (GoPtr GoBool) ''readOnly'']"

definition Preconditions :: structdef where
  [struct_defs]: "Preconditions = Struct ''Preconditions'' [
    Optional ''ResourceVersion'' (GoPtr GoString) ''resourceVersion'',
    Optional ''Uid'' (GoPtr GoString) ''uid'']"

definition PreferredSchedulingTerm :: structdef where
  [struct_defs]: "PreferredSchedulingTerm = Struct ''PreferredSchedulingTerm'' [
    Required ''Preference'' (GoPtr (GoNamed ''NodeSelectorTerm'')) ''preference'',
    Required ''Weight'' (GoPtr GoFloat64) ''weight'']"

definition PriorityLevelConfigurationReferenceV1Beta1 :: structdef where
  [struct_defs]: "PriorityLevelConfigurationReferenceV1Beta1 = Struct ''PriorityLevelConfigurationReferenceV1Beta1'' [
    Required ''Name'' (GoPtr GoString) ''name'']"

definition PriorityLevelConfigurationReferenceV1Beta2 :: structdef where
  [struct_defs]: "PriorityLevelConfigurationReferenceV1Beta2 = Struct ''PriorityLevelConfigurationReferenceV1Beta2'' [
    Required ''Name'' (GoPtr GoString) ''name'']"

definition PriorityLevelConfigurationSpecV1Beta1 :: structdef where
  [struct_defs]: "PriorityLevelConfigurationSpecV1Beta1 = Struct ''PriorityLevelConfigurationSpecV1Beta1'' [
    Required ''Type'' (GoPtr GoString) ''type'',
    Optional ''Limited'' (GoPtr (GoNamed ''LimitedPriorityLevelConfigurationV1Beta1'')) ''limited'']"

definition PriorityLevelConfigurationSpecV1Beta2 :: structdef where
  [struct_defs]: "PriorityLevelConfigurationSpecV1Beta2 = Struct ''PriorityLevelConfigurationSpecV1Beta2'' [
    Required ''Type'' (GoPtr GoString) ''type'',
    Optional ''Limited'' (GoPtr (GoNamed ''LimitedPriorityLevelConfigurationV1Beta2'')) ''limited'']"

definition Probe :: structdef where
  [struct_defs]: "Probe = Struct ''Probe'' [
    Optional ''Exec'' (GoPtr (GoNamed ''ExecAction'')) ''exec'',
    Optional ''FailureThreshold'' (GoPtr GoFloat64) ''failureThreshold'',
    Optional ''Grpc'' (GoPtr (GoNamed ''GrpcAction'')) ''grpc'',
    Optional ''HttpGet'' (GoPtr (GoNamed ''HttpGetAction'')) ''httpGet'',
    Optional ''InitialDelaySeconds'' (GoPtr GoFloat64) ''initialDelaySeconds'',
    Optional ''PeriodSeconds'' (GoPtr GoFloat64) ''periodSeconds'',
    Optional ''SuccessThreshold'' (GoPtr GoFloat64) ''successThreshold'',
    Optional ''TcpSocket'' (GoPtr (GoNamed ''TcpSocketAction'')) ''tcpSocket'',
    Optional ''TerminationGracePeriodSeconds'' (GoPtr GoFloat64) ''terminationGracePeriodSeconds'',
    Optional ''TimeoutSeconds'' (GoPtr GoFloat64) ''timeoutSeconds'']"

definition ProjectedVolumeSource :: structdef where
  [struct_defs]: "ProjectedVolumeSource = Struct ''ProjectedVolumeSource'' [
    Optional ''DefaultMode'' (GoPtr GoFloat64) ''defaultMode'',
    Optional ''Sources'' (GoPtr (GoSlice (GoPtr (GoNamed ''VolumeProjection'')))) ''sources'']"

definition QueuingConfigurationV1Beta1 :: structdef where
  [struct_defs]: "QueuingConfigurationV1Beta1 = Struct ''QueuingConfigurationV1Beta1'' [
    Optional ''HandSize'' (GoPtr GoFloat64) ''handSize'',
    Optional ''QueueLengthLimit'' (GoPtr GoFloat64) ''queueLengthLimit'',
    Optional ''Queues'' (GoPtr GoFloat64) ''queues'']"

definition QueuingConfigurationV1Beta2 :: structdef where
  [struct_defs]: "QueuingConfigurationV1Beta2 = Struct ''QueuingConfigurationV1Beta2'' [
    Optional ''HandSize'' (GoPtr GoFloat64) ''handSize'',
    Optional ''QueueLengthLimit'' (GoPtr GoFloat64) ''queueLengthLimit'',
    Optional ''Queues'' (GoPtr GoFloat64) ''queues'']"

definition QuobyteVolumeSource :: structdef where
  [struct_defs]: "QuobyteVolumeSource = Struct ''QuobyteVolumeSource'' [
    Required ''Registry'' (GoPtr GoString) ''registry'',
    Required ''Volume'' (GoPtr GoString) ''volume'',
    Optional ''Group'' (GoPtr GoString) ''group'',
    Optional ''ReadOnly'' (GoPtr GoBool) ''readOnly'',
    Optional ''Tenant'' (GoPtr GoString) ''tenant'',
    Optional ''User'' (GoPtr GoString) ''user'']"

definition RbdPersistentVolumeSource :: structdef where
  [struct_defs]: "RbdPersistentVolumeSource = Struct ''RbdPersistentVolumeSource'' [
    Required ''Image'' (GoPtr GoString) ''image'',
    Required ''Monitors'' (GoPtr (GoSlice (GoPtr GoString))) ''monitors'',
    Optional ''FsType'' (GoPtr GoString) ''fsType'',
    Optional ''Keyring'' (GoPtr GoString) ''keyring'',
    Optional ''Pool'' (GoPtr GoString) ''pool'',
    Optional ''ReadOnly'' (GoPtr GoBool) ''readOnly'',
    Optional ''SecretRef'' (GoPtr (GoNamed ''SecretReference'')) ''secretRef'',
    Optional ''User'' (GoPtr GoString) ''user'']"

definition structs_35 :: "structdef list" where
  "structs_35 =
   [PersistentVolumeSpec, PhotonPersistentDiskVolumeSource, PodAffinity, PodAffinityTerm,
    PodAntiAffinity, PodDisruptionBudgetSpec, PodDnsConfig, PodDnsConfigOption, PodFailurePolicy,
    PodFailurePolicyOnExitCodesRequirement, PodFailurePolicyOnPodConditionsPattern,
    PodFailurePolicyRule, PodOs, PodReadinessGate, PodSecurityContext, PodSpec, PodTemplateSpec,
    PodsMetricSourceV2, PodsMetricSourceV2Beta2, PolicyRule, PolicyRulesWithSubjectsV1Beta1,
    PolicyRulesWithSubjectsV1Beta2, PortworxVolumeSource, Preconditions, PreferredSchedulingTerm,
    PriorityLevelConfigurationReferenceV1Beta1, PriorityLevelConfigurationReferenceV1Beta2,
    PriorityLevelConfigurationSpecV1Beta1, PriorityLevelConfigurationSpecV1Beta2, Probe,
    ProjectedVolumeSource, QueuingConfigurationV1Beta1, QueuingConfigurationV1Beta2,
    QuobyteVolumeSource, RbdPersistentVolumeSource]"

lemma structs_35_json [json_checks]: "list_all jsonNamed structs_35"
  by (simp add: structs_35_def struct_defs json_simps)

end
