(* ===== verification/K8sTypesF.thy ===== *)
theory K8sTypesF
  imports Structs
begin

text \<open>
  The structs \<open>RbdVolumeSource\<close> to \<open>WindowsSecurityContextOptions\<close> of the Kubernetes bindings, one for each file of that name, in
  the groups of the stretches of \<open>init\<close> that register them.
\<close>

definition RbdVolumeSource :: structdef where
  [struct_defs]: "RbdVolumeSource = Struct ''RbdVolumeSource'' [
    Required ''Image'' (GoPtr GoString) ''image'',
    Required ''Monitors'' (GoPtr (GoSlice (GoPtr GoString))) ''monitors'',
    Optional ''FsType'' (GoPtr GoString) ''fsType'',
    Optional ''Keyring'' (GoPtr GoString) ''keyring'',
    Optional ''Pool'' (GoPtr GoString) ''pool'',
    Optional ''ReadOnly'' (GoPtr GoBool) ''readOnly'',
    Optional ''SecretRef'' (GoPtr (GoNamed ''LocalObjectReference'')) ''secretRef'',
    Optional ''User'' (GoPtr GoString) ''user'']"

definition ReplicaSetSpec :: structdef where
  [struct_defs]: "ReplicaSetSpec = Struct ''ReplicaSetSpec'' [
    Required ''Selector'' (GoPtr (GoNamed ''LabelSelector'')) ''selector'',
    Optional ''MinReadySeconds'' (GoPtr GoFloat64) ''minReadySeconds'',
    Optional ''Replicas'' (GoPtr GoFloat64) ''replicas'',
    Optional ''Template'' (GoPtr (GoNamed ''PodTemplateSpec'')) ''template'']"

definition ReplicationControllerSpec :: structdef where
  [struct_defs]: "ReplicationControllerSpec = Struct ''ReplicationControllerSpec'' [
    Optional ''MinReadySeconds'' (GoPtr GoFloat64) ''minReadySeconds'',
    Optional ''Replicas'' (GoPtr GoFloat64) ''replicas'',
    Optional ''Selector'' (GoPtr (GoMap (GoPtr GoString))) ''selector'',
    Optional ''Template'' (GoPtr (GoNamed ''PodTemplateSpec'')) ''template'']"

definition ResourceAttributes :: structdef where
  [struct_defs]: "ResourceAttributes = Struct ''ResourceAttributes'' [
    Optional ''Group'' (GoPtr GoString) ''group'',
    Optional ''Name'' (GoPtr GoString) ''name'',
    Optional ''Namespace'' (GoPtr GoString) ''namespace'',
    Optional ''Resource'' (GoPtr GoString) ''resource'',
    Optional ''Subresource'' (GoPtr GoString) ''subresource'',
    Optional ''Verb'' (GoPtr GoString) ''verb'',
    Optional ''Version'' (GoPtr GoString) ''version'']"

definition ResourceFieldSelector :: structdef where
  [struct_defs]: "ResourceFieldSelector = Struct ''ResourceFieldSelector'' [
    Required ''Resource'' (GoPtr GoString) ''resource'',
    Optional ''ContainerName'' (GoPtr GoString) ''containerName'',
    Optional ''Divisor'' (GoNamed ''Quantity'') ''divisor'']"

definition ResourceMetricSourceV2 :: structdef where
  [struct_defs]: "ResourceMetricSourceV2 = Struct ''ResourceMetricSourceV2'' [
    Required ''Name'' (GoPtr GoString) ''name'',
    Required ''Target'' (GoPtr (GoNamed ''MetricTargetV2'')) ''target'']"

definition ResourceMetricSourceV2Beta2 :: structdef where
  [struct_defs]: "ResourceMetricSourceV2Beta2 = Struct ''ResourceMetricSourceV2Beta2'' [
    Required ''Name'' (GoPtr GoString) ''name'',
    Required ''Target'' (GoPtr (GoNamed ''MetricTargetV2Beta2'')) ''target'']"

definition ResourcePolicyRuleV1Beta1 :: structdef where
  [struct_defs]: "ResourcePolicyRuleV1Beta1 = Struct ''ResourcePolicyRuleV1Beta1'' [
    Required ''ApiGroups'' (GoPtr (GoSlice (GoPtr GoString))) ''apiGroups'',
    Required ''Resources'' (GoPtr (GoSlice (GoPtr GoString))) ''resources'',
    Required ''Verbs'' (GoPtr (GoSlice (GoPtr GoString))) ''verbs'',
    Optional ''ClusterScope'' (GoPtr GoBool) ''clusterScope'',
    Optional ''Namespaces'' (GoPtr (GoSlice (GoPtr GoString))) ''namespaces'']"

definition ResourcePolicyRuleV1Beta2 :: structdef where
  [struct_defs]: "ResourcePolicyRuleV1Beta2 = Struct ''ResourcePolicyRuleV1Beta2'' [
    Required ''ApiGroups'' (GoPtr (GoSlice (GoPtr GoString))) ''apiGroups'',
    Required ''Resources'' (GoPtr (GoSlice (GoPtr GoString))) ''resources'',
    Required ''Verbs'' (GoPtr (GoSlice (GoPtr GoString))) ''verbs'',
    Optional ''ClusterScope'' (GoPtr GoBool) ''clusterScope'',
    Optional ''Namespaces'' (GoPtr (GoSlice (GoPtr GoString))) ''namespaces'']"

definition ResourceQuotaSpec :: structdef where
  [struct_defs]: "ResourceQuotaSpec = Struct ''ResourceQuotaSpec'' [
    Optional ''Hard'' (GoPtr (GoMap (GoNamed ''Quantity''))) ''hard'',
    Optional ''Scopes'' (GoPtr (GoSlice (GoPtr GoString))) ''scopes'',
    Optional ''ScopeSelector'' (GoPtr (GoNamed ''ScopeSelector'')) ''scopeSelector'']"

definition ResourceRequirements :: structdef where
  [struct_defs]: "ResourceRequirements = Struct ''ResourceRequirements'' [
    Optional ''Limits'' (GoPtr (GoMap (GoNamed ''Quantity''))) ''limits'',
    Optional ''Requests'' (GoPtr (GoMap (GoNamed ''Quantity''))) ''requests'']"

definition RoleRef :: structdef where
  [struct_defs]: "RoleRef = Struct ''RoleRef'' [
    Required ''ApiGroup'' (GoPtr GoString) ''apiGroup'',
    Required ''Kind'' (GoPtr GoString) ''kind'',
    Required ''Name'' (GoPtr GoString) ''name'']"

definition RollingUpdateDaemonSet :: structdef where
  [struct_defs]: "RollingUpdateDaemonSet = Struct ''RollingUpdateDaemonSet'' [
    Optional ''MaxSurge'' (GoNamed ''IntOrString'') ''maxSurge'',
    Optional ''MaxUnavailable'' (GoNamed ''IntOrString'') ''maxUnavailable'']"

definition RollingUpdateDeployment :: structdef where
  [struct_defs]: "RollingUpdateDeployment = Struct ''RollingUpdateDeployment'' [
    Optional ''MaxSurge'' (GoNamed ''IntOrString'') ''maxSurge'',
    Optional ''MaxUnavailable'' (GoNamed ''IntOrString'') ''maxUnavailable'']"

definition RollingUpdateStatefulSetStrategy :: structdef where
  [struct_defs]: "RollingUpdateStatefulSetStrategy = Struct ''RollingUpdateStatefulSetStrategy'' [
    Optional ''MaxUnavailable'' (GoNamed ''IntOrString'') ''maxUnavailable'',
    Optional ''Partition'' (GoPtr GoFloat64) ''partition'']"

definition RuleWithOperations :: structdef where
  [struct_defs]: "RuleWithOperations = Struct ''RuleWithOperations'' [
    Optional ''ApiGroups'' (GoPtr (GoSlice (GoPtr GoString))) ''apiGroups'',
    Optional ''ApiVersions'' (GoPtr (GoSlice (GoPtr GoString))) ''apiVersions'',
    Optional ''Operations'' (GoPtr (GoSlice (GoPtr GoString))) ''operations'',
    Optional ''Resources'' (GoPtr (GoSlice (GoPtr GoString))) ''resources'',
    Optional ''Scope'' (GoPtr GoString) ''scope'']"

definition ScaleIoPersistentVolumeSource :: structdef where
  [struct_defs]: "ScaleIoPersistentVolumeSource = Struct ''ScaleIoPersistentVolumeSource'' [
    Required ''Gateway'' (GoPtr GoString) ''gateway'',
    Required ''SecretRef'' (GoPtr (GoNamed ''SecretReference'')) ''secretRef'',
    Required ''System'' (GoPtr GoString) ''system'',
    Optional ''FsType'' (GoPtr GoString) ''fsType'',
    Optional ''ProtectionDomain'' (GoPtr GoString) ''protectionDomain'',
    Optional ''ReadOnly'' (GoPtr GoBool) ''readOnly'',
    Optional ''SslEnabled'' (GoPtr GoBool) ''sslEnabled'',
    Optional ''StorageMode'' (GoPtr GoString) ''storageMode'',
    Optional ''StoragePool'' (GoPtr GoString) ''storagePool'',
    Optional ''VolumeName'' (GoPtr GoString) ''volumeName'']"

definition ScaleIoVolumeSource :: structdef where
  [struct_defs]: "ScaleIoVolumeSource = Struct ''ScaleIoVolumeSource'' [
    Required ''Gateway'' (GoPtr GoString) ''gateway'',
    Required ''SecretRef'' (GoPtr (GoNamed ''LocalObjectReference'')) ''secretRef'',
    Required ''System'' (GoPtr GoString) ''system'',
    Optional ''FsType'' (GoPtr GoString) ''fsType'',
    Optional ''ProtectionDomain'' (GoPtr GoString) ''protectionDomain'',
    Optional ''ReadOnly'' (GoPtr GoBool) ''readOnly'',
    Optional ''SslEnabled'' (GoPtr GoBool) ''sslEnabled'',
    Optional ''StorageMode'' (GoPtr GoString) ''storageMode'',
    Optional ''StoragePool'' (GoPtr GoString) ''storagePool'',
    Optional ''VolumeName'' (GoPtr GoString) ''volumeName'']"

definition ScaleSpec :: structdef where
  [struct_defs]: "ScaleSpec = Struct ''ScaleSpec'' [
    Optional ''Replicas'' (GoPtr GoFloat64) ''replicas'']"

definition Scheduling :: structdef where
  [struct_defs]: "Scheduling = Struct ''Scheduling'' [
    Optional ''NodeSelector'' (GoPtr (GoMap (GoPtr GoString))) ''nodeSelector'',
    Optional ''Tolerations'' (GoPtr (GoSlice (GoPtr (GoNamed ''Toleration'')))) ''tolerations'']"

definition ScopeSelector :: structdef where
  [struct_defs]: "ScopeSelector = Struct ''ScopeSelector'' [
    Optional ''MatchExpressions'' (GoPtr (GoSlice (GoPtr (GoNamed ''ScopedResourceSelectorRequirement'')))) ''matchExpressions'']"

definition ScopedResourceSelectorRequirement :: structdef where
  [struct_defs]: "ScopedResourceSelectorRequirement = Struct ''ScopedResourceSelectorRequirement'' [
    Required ''Operator'' (GoPtr GoString) ''operator'',
    Required ''ScopeName'' (GoPtr GoString) ''scopeName'',
    Optional ''Values'' (GoPtr (GoSlice (GoPtr GoString))) ''values'']"

definition SeLinuxOptions :: structdef where
  [struct_defs]: "SeLinuxOptions = Struct ''SeLinuxOptions'' [
    Optional ''Level'' (GoPtr GoString) ''level'',
    Optional ''Role'' (GoPtr GoString) ''role'',
    Optional ''Type'' (GoPtr GoString) ''type'',
    Optional ''User'' (GoPtr GoString) ''user'']"

definition SeccompProfile :: structdef where
  [struct_defs]: "SeccompProfile = Struct ''SeccompProfile'' [
    Required ''Type'' (GoPtr GoString) ''type'',
    Optional ''LocalhostProfile'' (GoPtr GoString) ''localhostProfile'']"

definition SecretEnvSource :: structdef where
  [struct_defs]: "SecretEnvSource = Struct ''SecretEnvSource'' [
    Optional ''Name'' (GoPtr GoString) ''name'',
    Optional ''Optional'' (GoPtr GoBool) ''optional'']"

definition SecretKeySelector :: structdef where
  [struct_defs]: "SecretKeySelector = Struct ''SecretKeySelector'' [
    Required ''Key'' (GoPtr GoString) ''key'',
    Optional ''Name'' (GoPtr GoString) ''name'',
    Optional ''Optional'' (GoPtr GoBool) ''optional'']"

definition SecretProjection :: structdef where
  [struct_defs]: "SecretProjection = Struct ''SecretProjection'' [
    Optional ''Items'' (GoPtr (GoSlice (GoPtr (GoNamed ''KeyToPath'')))) ''items'',
    Optional ''Name'' (GoPtr GoString) ''name'',
    Optional ''Optional'' (GoPtr GoBool) ''optional'']"

definition SecretReference :: structdef where
  [struct_defs]: "SecretReference = Struct ''SecretReference'' [
    Optional ''Name'' (GoPtr GoString) ''name'',
    Optional ''Namespace'' (GoPtr GoString) ''namespace'']"

definition SecretVolumeSource :: structdef where
  [struct_defs]: "SecretVolumeSource = Struct ''SecretVolumeSource'' [
    Optional ''DefaultMode'' (GoPtr GoFloat64) ''defaultMode'',
    Optional ''Items'' (GoPtr (GoSlice (GoPtr (GoNamed ''KeyToPath'')))) ''items'',
    Optional ''Optional'' (GoPtr GoBool) ''optional'',
    Optional ''SecretName'' (GoPtr GoString) ''secretName'']"

definition SecurityContext :: structdef where
  [struct_defs]: "SecurityContext = Struct ''SecurityContext'' [
    Optional ''AllowPrivilegeEscalation'' (GoPtr GoBool) ''allowPrivilegeEscalation'',
    Optional ''Capabilities'' (GoPtr (GoNamed ''Capabilities'')) ''capabilities'',
    Optional ''Privileged'' (GoPtr GoBool) ''privileged'',
    Optional ''ProcMount'' (GoPtr GoString) ''procMount'',
    Optional ''ReadOnlyRootFilesystem'' (GoPtr GoBool) ''readOnlyRootFilesystem'',
    Optional ''RunAsGroup'' (GoPtr GoFloat64) ''runAsGroup'',
    Optional ''RunAsNonRoot'' (GoPtr GoBool) ''runAsNonRoot'',
    Optional ''RunAsUser'' (GoPtr GoFloat64) ''runAsUser'',
    Optional ''SeccompProfile'' (GoPtr (GoNamed ''SeccompProfile'')) ''seccompProfile'',
    Optional ''SeLinuxOptions'' (GoPtr (GoNamed ''SeLinuxOptions'')) ''seLinuxOptions'',
    Optional ''WindowsOptions'' (GoPtr (GoNamed ''WindowsSecurityContextOptions'')) ''windowsOptions'']"

definition SelfSubjectAccessReviewSpec :: structdef where
  [struct_defs]: "SelfSubjectAccessReviewSpec = Struct ''SelfSubjectAccessReviewSpec'' [
    Optional ''NonResourceAttributes'' (GoPtr (GoNamed ''NonResourceAttributes'')) ''nonResourceAttributes'',
    Optional ''ResourceAttributes'' (GoPtr (GoNamed ''ResourceAttributes'')) ''resourceAttributes'']"

definition SelfSubjectRulesReviewSpec :: structdef where
  [struct_defs]: "SelfSubjectRulesReviewSpec = Struct ''SelfSubjectRulesReviewSpec'' [
    Optional ''Namespace'' (GoPtr GoString) ''namespace'']"

definition ServiceAccountSubjectV1Beta1 :: structdef where
  [struct_defs]: "ServiceAccountSubjectV1Beta1 = Struct ''ServiceAccountSubjectV1Beta1'' [
    Required ''Name'' (GoPtr GoString) ''name'',
    Required ''Namespace'' (GoPtr GoString) ''namespace'']"

definition ServiceAccountSubjectV1Beta2 :: structdef where
  [struct_defs]: "ServiceAccountSubjectV1Beta2 = Struct ''ServiceAccountSubjectV1Beta2'' [
    Required ''Name'' (GoPtr GoString) ''name'',
    Required ''Namespace'' (GoPtr GoString) ''namespace'']"

definition ServiceAccountTokenProjection :: structdef where
  [struct_defs]: "ServiceAccountTokenProjection = Struct ''ServiceAccountTokenProjection'' [
    Required ''Path'' (GoPtr GoString) ''path'',
    Optional ''Audience'' (GoPtr GoString) ''audience'',
    Optional ''ExpirationSeconds'' (GoPtr GoFloat64) ''expirationSeconds'']"

definition ServiceBackendPort :: structdef where
  [struct_defs]: "ServiceBackendPort = Struct ''ServiceBackendPort'' [
    Optional ''Name'' (GoPtr GoString) ''name'',
    Optional ''Number'' (GoPtr GoFloat64) ''number'']"

definition ServicePort :: structdef where
  [struct_defs]: "ServicePort = Struct ''ServicePort'' [
    Required ''Port'' (GoPtr GoFloat64) ''port'',
    Optional ''AppProtocol'' (GoPtr GoString) ''appProtocol'',
    Optional ''Name'' (GoPtr GoString) ''name'',
    Optional ''NodePort'' (GoPtr GoFloat64) ''nodePort'',
    Optional ''Protocol'' (GoPtr GoString) ''protocol'',
    Optional ''TargetPort'' (GoNamed ''IntOrString'') ''targetPort'']"

definition structs_36 :: "structdef list" where
  "structs_36 =
   [RbdVolumeSource, ReplicaSetSpec, ReplicationControllerSpec, ResourceAttributes,
    ResourceFieldSelector, ResourceMetricSourceV2, ResourceMetricSourceV2Beta2,
    ResourcePolicyRuleV1Beta1, ResourcePolicyRuleV1Beta2, ResourceQuotaSpec, ResourceRequirements,
    RoleRef, RollingUpdateDaemonSet, RollingUpdateDeployment, RollingUpdateStatefulSetStrategy,
    RuleWithOperations, ScaleIoPersistentVolumeSource, ScaleIoVolumeSource, ScaleSpec, Scheduling,
    ScopeSelector, ScopedResourceSelectorRequirement, SeLinuxOptions, SeccompProfile,
    SecretEnvSource, SecretKeySelector, SecretProjection, SecretReference, SecretVolumeSource,
    SecurityContext, SelfSubjectAccessReviewSpec, SelfSubjectRulesReviewSpec,
    ServiceAccountSubjectV1Beta1, ServiceAccountSubjectV1Beta2, ServiceAccountTokenProjection,
    ServiceBackendPort, ServicePort]"

lemma structs_36_json [json_checks]: "list_all jsonNamed structs_36"
  by (simp add: structs_36_def struct_defs json_simps)

definition ServiceReference :: structdef where
  [struct_defs]: "ServiceReference = Struct ''ServiceReference'' [
    Required ''Name'' (GoPtr GoString) ''name'',
    Required ''Namespace'' (GoPtr GoString) ''namespace'',
    Optional ''Path'' (GoPtr GoString) ''path'',
    Optional ''Port'' (GoPtr GoFloat64) ''port'']"

definition ServiceSpec :: structdef where
  [struct_defs]: "ServiceSpec = Struct ''ServiceSpec'' [
    Optional ''AllocateLoadBalancerNodePorts'' (GoPtr GoBool) ''allocateLoadBalancerNodePorts'',
    Optional ''ClusterIp'' (GoPtr GoString) ''clusterIp'',
    Optional ''ClusterIPs'' (GoPtr (GoSlice (GoPtr GoString))) ''clusterIPs'',
    Optional ''ExternalIPs'' (GoPtr (GoSlice (GoPtr GoString))) ''externalIPs'',
    Optional ''ExternalName'' (GoPtr GoString) ''externalName'',
    Optional ''ExternalTrafficPolicy'' (GoPtr GoString) ''externalTrafficPolicy'',
    Optional ''HealthCheckNodePort'' (GoPtr GoFloat64) ''healthCheckNodePort'',
    Optional ''InternalTrafficPolicy'' (GoPtr GoString) ''internalTrafficPolicy'',
    Optional ''IpFamilies'' (GoPtr (GoSlice (GoPtr GoString))) ''ipFamilies'',
    Optional ''IpFamilyPolicy'' (GoPtr GoString) ''ipFamilyPolicy'',
    Optional ''LoadBalancerClass'' (GoPtr GoString) ''loadBalancerClass'',
    Optional ''LoadBalancerIp'' (GoPtr GoString) ''loadBalancerIp'',
    Optional ''LoadBalancerSourceRanges'' (GoPtr (GoSlice (GoPtr GoString))) ''loadBalancerSourceRanges'',
    Optional ''Ports'' (GoPtr (GoSlice (GoPtr (GoNamed ''ServicePort'')))) ''ports'',
    Optional ''PublishNotReadyAddresses'' (GoPtr GoBool) ''publishNotReadyAddresses'',
    Optional ''Selector'' (GoPtr (GoMap (GoPtr GoString))) ''selector'',
    Optional ''SessionAffinity'' (GoPtr GoString) ''sessionAffinity'',
    Optional ''SessionAffinityConfig'' (GoPtr (GoNamed ''SessionAffinityConfig'')) ''sessionAffinityConfig'',
    Optional ''Type'' (GoPtr GoString) ''type'']"

definition SessionAffinityConfig :: structdef where
  [struct_defs]: "SessionAffinityConfig = Struct ''SessionAffinityConfig'' [
    Optional ''ClientIp'' (GoPtr (GoNamed ''ClientIpConfig'')) ''clientIp'']"

definition StatefulSetPersistentVolumeClaimRetentionPolicy :: structdef where
  [struct_defs]: "StatefulSetPersistentVolumeClaimRetentionPolicy = Struct ''StatefulSetPersistentVolumeClaimRetentionPolicy'' [
    Optional ''WhenDeleted'' (GoPtr GoString) ''whenDeleted'',
    Optional ''WhenScaled'' (GoPtr GoString) ''whenScaled'']"

definition StatefulSetSpec :: structdef where
  [struct_defs]: "StatefulSetSpec = Struct ''StatefulSetSpec'' [
    Required ''Selector'' (GoPtr (GoNamed ''LabelSelector'')) ''selector'',
    Required ''ServiceName'' (GoPtr GoString) ''serviceName'',
    Required ''Template'' (GoPtr (GoNamed ''PodTemplateSpec'')) ''template'',
    Optional ''MinReadySeconds'' (GoPtr GoFloat64) ''minReadySeconds'',
    Optional ''PersistentVolumeClaimRetentionPolicy'' (GoPtr (GoNamed ''StatefulSetPersistentVolumeClaimRetentionPolicy'')) ''persistentVolumeClaimRetentionPolicy'',
    Optional ''PodManagementPolicy'' (GoPtr GoString) ''podManagementPolicy'',
    Optional ''Replicas'' (GoPtr GoFloat64) ''replicas'',
    Optional ''RevisionHistoryLimit'' (GoPtr GoFloat64) ''revisionHistoryLimit'',
    Optional ''UpdateStrategy'' (GoPtr (GoNamed ''StatefulSetUpdateStrategy'')) ''updateStrategy'',
    Optional ''VolumeClaimTemplates'' (GoPtr (GoSlice (GoPtr (GoNamed ''KubePersistentVolumeClaimProps'')))) ''volumeClaimTemplates'']"

definition StatefulSetUpdateStrategy :: structdef where
  [struct_defs]: "StatefulSetUpdateStrategy = Struct ''StatefulSetUpdateStrategy'' [
    Optional ''RollingUpdate'' (GoPtr (GoNamed ''RollingUpdateStatefulSetStrategy'')) ''rollingUpdate'',
    Optional ''Type'' (GoPtr GoString) ''type'']"

definition StatusCause :: structdef where
  [struct_defs]: "StatusCause = Struct ''StatusCause'' [
    Optional ''Field'' (GoPtr GoString) ''field'',
    Optional ''Message'' (GoPtr GoString) ''message'',
    Optional ''Reason'' (GoPtr GoString) ''reason'']"

definition StatusDetails :: structdef where
  [struct_defs]: "StatusDetails = Struct ''StatusDetails'' [
    Optional ''Causes'' (GoPtr (GoSlice (GoPtr (GoNamed ''StatusCause'')))) ''causes'',
    Optional ''Group'' (GoPtr GoString) ''group'',
    Optional ''Kind'' (GoPtr GoString) ''kind'',
    Optional ''Name'' (GoPtr GoString) ''name'',
    Optional ''RetryAfterSeconds'' (GoPtr GoFloat64) ''retryAfterSeconds'',
    Optional ''Uid'' (GoPtr GoString) ''uid'']"

definition StorageOsPersistentVolumeSource :: structdef where
  [struct_defs]: "StorageOsPersistentVolumeSource = Struct ''StorageOsPersistentVolumeSource'' [
    Optional ''FsType'' (GoPtr GoString) ''fsType'',
    Optional ''ReadOnly'' (GoPtr GoBool) ''readOnly'',
    Optional ''SecretRef'' (GoPtr (GoNamed ''ObjectReference'')) ''secretRef'',
    Optional ''VolumeName'' (GoPtr GoString) ''volumeName'',
    Optional ''VolumeNamespace'' (GoPtr GoString) ''volumeNamespace'']"

definition StorageOsVolumeSource :: structdef where
  [struct_defs]: "StorageOsVolumeSource = Struct ''StorageOsVolumeSource'' [
    Optional ''FsType'' (GoPtr GoString) ''fsType'',
    Optional ''ReadOnly'' (GoPtr GoBool) ''readOnly'',
    Optional ''SecretRef'' (GoPtr (GoNamed ''LocalObjectReference'')) ''secretRef'',
    Optional ''VolumeName'' (GoPtr GoString) ''volumeName'',
    Optional ''VolumeNamespace'' (GoPtr GoString) ''volumeNamespace'']"

definition Subject :: structdef where
  [struct_defs]: "Subject = Struct ''Subject'' [
    Required ''Kind'' (GoPtr GoString) ''kind'',
    Required ''Name'' (GoPtr GoString) ''name'',
    Optional ''ApiGroup'' (GoPtr GoString) ''apiGroup'',
    Optional ''Namespace'' (GoPtr GoString) ''namespace'']"

definition SubjectAccessReviewSpec :: structdef where
  [struct_defs]: "SubjectAccessReviewSpec = Struct ''SubjectAccessReviewSpec'' [
    Optional ''Extra'' (GoPtr (GoMap (GoPtr (GoSlice (GoPtr GoString))))) ''extra'',
    Optional ''Groups'' (GoPtr (GoSlice (GoPtr GoString))) ''groups'',
    Optional ''NonResourceAttributes'' (GoPtr (GoNamed ''NonResourceAttributes'')) ''nonResourceAttributes'',
    Optional ''ResourceAttributes'' (GoPtr (GoNamed ''ResourceAttributes'')) ''resourceAttributes'',
    Optional ''Uid'' (GoPtr GoString) ''uid'',
    Optional ''User'' (GoPtr GoString) ''user'']"

definition SubjectV1Beta1 :: structdef where
  [struct_defs]: "SubjectV1Beta1 = Struct ''SubjectV1Beta1'' [
    Required ''Kind'' (GoPtr GoString) ''kind'',
    Optional ''Group'' (GoPtr (GoNamed ''GroupSubjectV1Beta1'')) ''group'',
    Optional ''ServiceAccount'' (GoPtr (GoNamed ''ServiceAccountSubjectV1Beta1'')) ''serviceAccount'',
    Optional ''User'' (GoPtr (GoNamed ''UserSubjectV1Beta1'')) ''user'']"

definition SubjectV1Beta2 :: structdef where
  [struct_defs]: "SubjectV1Beta2 = Struct ''SubjectV1Beta2'' [
    Required ''Kind'' (GoPtr GoString) ''kind'',
    Optional ''Group'' (GoPtr (GoNamed ''GroupSubjectV1Beta2'')) ''group'',
    Optional ''ServiceAccount'' (GoPtr (GoNamed ''ServiceAccountSubjectV1Beta2'')) ''serviceAccount'',
    Optional ''User'' (GoPtr (GoNamed ''UserSubjectV1Beta2'')) ''user'']"

definition Sysctl :: structdef where
  [struct_defs]: "Sysctl = Struct ''Sysctl'' [
    Required ''Name'' (GoPtr GoString) ''name'',
    Required ''Value'' (GoPtr GoString) ''value'']"

definition Taint :: structdef where
  [struct_defs]: "Taint = Struct ''Taint'' [
    Required ''Effect'' (GoPtr GoString) ''effect'',
    Required ''Key'' (GoPtr GoString) ''key'',
    Optional ''TimeAdded'' (GoPtr GoTime) ''timeAdded'',
    Optional ''Value'' (GoPtr GoString) ''value'']"

definition TcpSocketAction :: structdef where
  [struct_defs]: "TcpSocketAction = Struct ''TcpSocketAction'' [
    Required ''Port'' (GoNamed ''IntOrString'') ''port'',
    Optional ''Host'' (GoPtr GoString) ''host'']"

definition TokenRequest :: structdef where
  [struct_defs]: "TokenRequest = Struct ''TokenRequest'' [
    Required ''Audience'' (GoPtr GoString) ''audience'',
    Optional ''ExpirationSeconds'' (GoPtr GoFloat64) ''expirationSeconds'']"

definition TokenRequestSpec :: structdef where
  [struct_defs]: "TokenRequestSpec = Struct ''TokenRequestSpec'' [
    Required ''Audiences'' (GoPtr (GoSlice (GoPtr GoString))) ''audiences'',
    Optional ''BoundObjectRef'' (GoPtr (GoNamed ''BoundObjectReference'')) ''boundObjectRef'',
    Optional ''ExpirationSeconds'' (GoPtr GoFloat64) ''expirationSeconds'']"

definition TokenReviewSpec :: structdef where
  [struct_defs]: "TokenReviewSpec = Struct ''TokenReviewSpec'' [
    Optional ''Audiences'' (GoPtr (GoSlice (GoPtr GoString))) ''audiences'',
    Optional ''Token'' (GoPtr GoString) ''token'']"

definition Toleration :: structdef where
  [struct_defs]: "Toleration = Struct ''Toleration'' [
    Optional ''Effect'' (GoPtr GoString) ''effect'',
    Optional ''Key'' (GoPtr GoString) ''key'',
    Optional ''Operator'' (GoPtr GoString) ''operator'',
    Optional ''TolerationSeconds'' (GoPtr GoFloat64) ''tolerationSeconds'',
    Optional ''Value'' (GoPtr GoString) ''value'']"

definition TopologySelectorLabelRequirement :: structdef where
  [struct_defs]: "TopologySelectorLabelRequirement = Struct ''TopologySelectorLabelRequirement'' [
    Required ''Key'' (GoPtr GoString) ''key'',
    Required ''Values'' (GoPtr (GoSlice (GoPtr GoString))) ''values'']"

definition TopologySelectorTerm :: structdef where
  [struct_defs]: "TopologySelectorTerm = Struct ''TopologySelectorTerm'' [
    Optional ''MatchLabelExpressions'' (GoPtr (GoSlice (GoPtr (GoNamed ''TopologySelectorLabelRequirement'')))) ''matchLabelExpressions'']"

definition TopologySpreadConstraint :: structdef where
  [struct_defs]: "TopologySpreadConstraint = Struct ''TopologySpreadConstraint'' [
    Required ''MaxSkew'' (GoPtr GoFloat64) ''maxSkew'',
    Required ''TopologyKey'' (GoPtr GoString) ''topologyKey'',
    Required ''WhenUnsatisfiable'' (GoPtr GoString) ''whenUnsatisfiable'',
    Optional ''LabelSelector'' (GoPtr (GoNamed ''LabelSelector'')) ''labelSelector'',
    Optional ''MatchLabelKeys'' (GoPtr (GoSlice (GoPtr GoString))) ''matchLabelKeys'',
    Optional ''MinDomains'' (GoPtr GoFloat64) ''minDomains'',
    Optional ''NodeAffinityPolicy'' (GoPtr GoString) ''nodeAffinityPolicy'',
    Optional ''NodeTaintsPolicy'' (GoPtr GoString) ''nodeTaintsPolicy'']"

definition TypedLocalObjectReference :: structdef where
  [struct_defs]: "TypedLocalObjectReference = Struct ''TypedLocalObjectReference'' [
    Required ''Kind'' (GoPtr GoString) ''kind'',
    Required ''Name'' (GoPtr GoString) ''name'',
    Optional ''ApiGroup'' (GoPtr GoString) ''apiGroup'']"

definition UserSubjectV1Beta1 :: structdef where
  [struct_defs]: "UserSubjectV1Beta1 = Struct ''UserSubjectV1Beta1'' [
    Required ''Name'' (GoPtr GoString) ''name'']"

definition UserSubjectV1Beta2 :: structdef where
  [struct_defs]: "UserSubjectV1Beta2 = Struct ''UserSubjectV1Beta2'' [
    Required ''Name'' (GoPtr GoString) ''name'']"

definition ValidatingWebhook :: structdef where
  [struct_defs]: "ValidatingWebhook = Struct ''ValidatingWebhook'' [
    Required ''AdmissionReviewVersions'' (GoPtr (GoSlice (GoPtr GoString))) ''admissionReviewVersions'',
    Required ''ClientConfig'' (GoPtr (GoNamed ''WebhookClientConfig'')) ''clientConfig'',
    Required ''Name'' (GoPtr GoString) ''name'',
    Required ''SideEffects'' (GoPtr GoString) ''sideEffects'',
    Optional ''FailurePolicy'' (GoPtr GoString) ''failurePolicy'',
    Optional ''MatchPolicy'' (GoPtr GoString) ''matchPolicy'',
    Optional ''NamespaceSelector'' (GoPtr (GoNamed ''LabelSelector'')) ''namespaceSelector'',
    Optional ''ObjectSelector'' (GoPtr (GoNamed ''LabelSelector'')) ''objectSelector'',
    Optional ''Rules'' (GoPtr (GoSlice (GoPtr (GoNamed ''RuleWithOperations'')))) ''rules'',
    Optional ''TimeoutSeconds'' (GoPtr GoFloat64) ''timeoutSeconds'']"

definition ValidationRule :: structdef where
  [struct_defs]: "ValidationRule = Struct ''ValidationRule'' [
    Required ''Rule'' (GoPtr GoString) ''rule'',
    Optional ''Message'' (GoPtr GoString) ''message'']"

definition Volume :: structdef where
  [struct_defs]: "Volume = Struct ''Volume'' [
    Required ''Name'' (GoPtr GoString) ''name'',
    Optional ''AwsElasticBlockStore'' (GoPtr (GoNamed ''AwsElasticBlockStoreVolumeSource'')) ''awsElasticBlockStore'',
    Optional ''AzureDisk'' (GoPtr (GoNamed ''AzureDiskVolumeSource'')) ''azureDisk'',
    Optional ''AzureFile'' (GoPtr (GoNamed ''AzureFileVolumeSource'')) ''azureFile'',
    Optional ''Cephfs'' (GoPtr (GoNamed ''CephFsVolumeSource'')) ''cephfs'',
    Optional ''Cinder'' (GoPtr (GoNamed ''CinderVolumeSource'')) ''cinder'',
    Optional ''ConfigMap'' (GoPtr (GoNamed ''ConfigMapVolumeSource'')) ''configMap'',
    Optional ''Csi'' (GoPtr (GoNamed ''CsiVolumeSource'')) ''csi'',
    Optional ''DownwardApi'' (GoPtr (GoNamed ''DownwardApiVolumeSource'')) ''downwardApi'',
    Optional ''EmptyDir'' (GoPtr (GoNamed ''EmptyDirVolumeSource'')) ''emptyDir'',
    Optional ''Ephemeral'' (GoPtr (GoNamed ''EphemeralVolumeSource'')) ''ephemeral'',
    Optional ''Fc'' (GoPtr (GoNamed ''FcVolumeSource'')) ''fc'',
    Optional ''FlexVolume'' (GoPtr (GoNamed ''FlexVolumeSource'')) ''flexVolume'',
    Optional ''Flocker'' (GoPtr (GoNamed ''FlockerVolumeSource'')) ''flocker'',
    Optional ''GcePersistentDisk'' (GoPtr (GoNamed ''GcePersistentDiskVolumeSource'')) ''gcePersistentDisk'',
    Optional ''GitRepo'' (GoPtr (GoNamed ''GitRepoVolumeSource'')) ''gitRepo'',
    Optional ''Glusterfs'' (GoPtr (GoNamed ''GlusterfsVolumeSource'')) ''glusterfs'',
    Optional ''HostPath'' (GoPtr (GoNamed ''HostPathVolumeSource'')) ''hostPath'',
    Optional ''Iscsi'' (GoPtr (GoNamed ''IscsiVolumeSource'')) ''iscsi'',
    Optional ''Nfs'' (GoPtr (GoNamed ''NfsVolumeSource'')) ''nfs'',
    Optional ''PersistentVolumeClaim'' (GoPtr (GoNamed ''PersistentVolumeClaimVolumeSource'')) ''persistentVolumeClaim'',
    Optional ''PhotonPersistentDisk'' (GoPtr (GoNamed ''PhotonPersistentDiskVolumeSource'')) ''photonPersistentDisk'',
    Optional ''PortworxVolume'' (GoPtr (GoNamed ''PortworxVolumeSource'')) ''portworxVolume'',
    Optional ''Projected'' (GoPtr (GoNamed ''ProjectedVolumeSource'')) ''projected'',
    Optional ''Quobyte'' (GoPtr (GoNamed ''QuobyteVolumeSource'')) ''quobyte'',
    Optional ''Rbd'' (GoPtr (GoNamed ''RbdVolumeSource'')) ''rbd'',
    Optional ''ScaleIo'' (GoPtr (GoNamed ''ScaleIoVolumeSource'')) ''scaleIo'',
    Optional ''Secret'' (GoPtr (GoNamed ''SecretVolumeSource'')) ''secret'',
    Optional ''Storageos'' (GoPtr (GoNamed ''StorageOsVolumeSource'')) ''storageos'',
    Optional ''VsphereVolume'' (GoPtr (GoNamed ''VsphereVirtualDiskVolumeSource'')) ''vsphereVolume'']"

definition VolumeAttachmentSource :: structdef where
  [struct_defs]: "VolumeAttachmentSource = Struct ''VolumeAttachmentSource'' [
    Optional ''InlineVolumeSpec'' (GoPtr (GoNamed ''PersistentVolumeSpec'')) ''inlineVolumeSpec'',
    Optional ''PersistentVolumeName'' (GoPtr GoString) ''persistentVolumeName'']"

definition VolumeAttachmentSpec :: structdef where
  [struct_defs]: "VolumeAttachmentSpec = Struct ''VolumeAttachmentSpec'' [
    Required ''Attacher'' (GoPtr GoString) ''attacher'',
    Required ''NodeName'' (GoPtr GoString) ''nodeName'',
    Required ''Source'' (GoPtr (GoNamed ''VolumeAttachmentSource'')) ''source'']"

definition VolumeDevice :: structdef where
  [struct_defs]: "VolumeDevice = Struct ''VolumeDevice'' [
    Required ''DevicePath'' (GoPtr GoString) ''devicePath'',
    Required ''Name'' (GoPtr GoString) ''name'']"

definition VolumeMount :: structdef where
  [struct_defs]: "VolumeMount = Struct ''VolumeMount'' [
    Required ''MountPath'' (GoPtr GoString) ''mountPath'',
    Required ''Name'' (GoPtr GoString) ''name'',
    Optional ''MountPropagation'' (GoPtr GoString) ''mountPropagation'',
    Optional ''ReadOnly'' (GoPtr GoBool) ''readOnly'',
    Optional ''SubPath'' (GoPtr GoString) ''subPath'',
    Optional ''SubPathExpr'' (GoPtr GoString) ''subPathExpr'']"

definition VolumeNodeAffinity :: structdef where
  [struct_defs]: "VolumeNodeAffinity = Struct ''VolumeNodeAffinity'' [
    Optional ''Required'' (GoPtr (GoNamed ''NodeSelector'')) ''required'']"

definition VolumeNodeResources :: structdef where
  [struct_defs]: "VolumeNodeResources = Struct ''VolumeNodeResources'' [
    Optional ''Count'' (GoPtr GoFloat64) ''count'']"

definition VolumeProjection :: structdef where
  [struct_defs]: "VolumeProjection = Struct ''VolumeProjection'' [
    Optional ''ConfigMap'' (GoPtr (GoNamed ''ConfigMapProjection'')) ''configMap'',
    Optional ''DownwardApi'' (GoPtr (GoNamed ''DownwardApiProjection'')) ''downwardApi'',
    Optional ''Secret'' (GoPtr (GoNamed ''SecretProjection'')) ''secret'',
    Optional ''ServiceAccountToken'' (GoPtr (GoNamed ''ServiceAccountTokenProjection'')) ''serviceAccountToken'']"

definition structs_37 :: "structdef list" where
  "structs_37 =
   [ServiceReference, ServiceSpec, SessionAffinityConfig,
    StatefulSetPersistentVolumeClaimRetentionPolicy, StatefulSetSpec, StatefulSetUpdateStrategy,
    StatusCause, StatusDetails, StorageOsPersistentVolumeSource, StorageOsVolumeSource, Subject,
    SubjectAccessReviewSpec, SubjectV1Beta1, SubjectV1Beta2, Sysctl, Taint, TcpSocketAction,
    TokenRequest, TokenRequestSpec, TokenReviewSpec, Toleration, TopologySelectorLabelRequirement,
    TopologySelectorTerm, TopologySpreadConstraint, TypedLocalObjectReference, UserSubjectV1Beta1,
    UserSubjectV1Beta2, ValidatingWebhook, ValidationRule, Volume, VolumeAttachmentSource,
    VolumeAttachmentSpec, VolumeDevice, VolumeMount, VolumeNodeAffinity, VolumeNodeResources,
    VolumeProjection]"

lemma structs_37_json [json_checks]: "list_all jsonNamed structs_37"
  by (simp add: structs_37_def struct_defs json_simps)

definition VsphereVirtualDiskVolumeSource :: structdef where
  [struct_defs]: "VsphereVirtualDiskVolumeSource = Struct ''VsphereVirtualDiskVolumeSource'' [
    Required ''VolumePath'' (GoPtr GoString) ''volumePath'',
    Optional ''FsType'' (GoPtr GoString) ''fsType'',
    Optional ''StoragePolicyId'' (GoPtr GoString) ''storagePolicyId'',
    Optional ''StoragePolicyName'' (GoPtr GoString) ''storagePolicyName'']"

definition WebhookClientConfig :: structdef where
  [struct_defs]: "WebhookClientConfig = Struct ''WebhookClientConfig'' [
    Optional ''CaBundle'' (GoPtr GoString) ''caBundle'',
    Optional ''Service'' (GoPtr (GoNamed ''ServiceReference'')) ''service'',
    Optional ''Url'' (GoPtr GoString) ''url'']"

definition WebhookConversion :: structdef where
  [struct_defs]: "WebhookConversion = Struct ''WebhookConversion'' [
    Required ''ConversionReviewVersions'' (GoPtr (GoSlice (GoPtr GoString))) ''conversionReviewVersions'',
    Optional ''ClientConfig'' (GoPtr (GoNamed ''WebhookClientConfig'')) ''clientConfig'']"

definition WeightedPodAffinityTerm :: structdef where
  [struct_defs]: "WeightedPodAffinityTerm = Struct ''WeightedPodAffinityTerm'' [
    Required ''PodAffinityTerm'' (GoPtr (GoNamed ''PodAffinityTerm'')) ''podAffinityTerm'',
    Required ''Weight'' (GoPtr GoFloat64) ''weight'']"

definition WindowsSecurityContextOptions :: structdef where
  [struct_defs]: "WindowsSecurityContextOptions = Struct ''WindowsSecurityContextOptions'' [
    Optional ''GmsaCredentialSpec'' (GoPtr GoString) ''gmsaCredentialSpec'',
    Optional ''GmsaCredentialSpecName'' (GoPtr GoString) ''gmsaCredentialSpecName'',
    Optional ''HostProcess'' (GoPtr GoBool) ''hostProcess'',
    Optional ''RunAsUserName'' (GoPtr GoString) ''runAsUserName'']"

definition structs_38 :: "structdef list" where
  "structs_38 =
   [VsphereVirtualDiskVolumeSource, WebhookClientConfig, WebhookConversion, WeightedPodAffinityTerm,
    WindowsSecurityContextOptions]"

lemma structs_38_json [json_checks]: "list_all jsonNamed structs_38"
  by (simp add: structs_38_def struct_defs json_simps)

end
