(* ===== verification/K8sTypes.thy ===== *)
theory K8sTypes
  imports K8sInit K8sTypesA K8sTypesB K8sTypesC K8sTypesD K8sTypesE K8sTypesF
begin

text \<open>
  All structs of the Kubernetes bindings of the sample application together with the registrations of
  \<open>K8sInit\<close>: the structs are exactly the types that \<open>init\<close> registers as structs, the types of their
  fields are registered, and every struct has a value with all required fields.
\<close>

definition structTable :: "structdef list" where
  "structTable =
    structs_1 @ structs_2 @ structs_3 @ structs_4 @ structs_5 @ structs_6 @ structs_7 @ structs_8 @
    structs_9 @ structs_10 @ structs_11 @ structs_12 @ structs_13 @ structs_14 @ structs_15 @
    structs_16 @ structs_17 @ structs_18 @ structs_19 @ structs_20 @ structs_21 @ structs_22 @
    structs_23 @ structs_24 @ structs_25 @ structs_26 @ structs_27 @ structs_28 @ structs_29 @
    structs_30 @ structs_31 @ structs_32 @ structs_33 @ structs_34 @ structs_35 @ structs_36 @
    structs_37 @ structs_38"

section \<open>The registered types as rewrite rules\<close>

named_theorems table_members \<open>the members of the table of structs\<close>

named_theorems registered \<open>the members of \<open>init\<close>\<close>

lemma isInterface_append: "isInterface (gs @ hs) t \<longleftrightarrow> isInterface gs t \<or> isInterface hs t"
  by (simp add: isInterface_def)

lemma isInterface_simps:
  "isInterface (RegisterStruct n u # gs) t = isInterface gs t"
  "isInterface (RegisterClass n u ms k # gs) t = (u = t \<or> isInterface gs t)"
  "isInterface (RegisterEnum n t vs # gs) t = True"
  by (simp_all add: isInterface_def isStruct_simps)

lemma init_1_sub: "structsIn init init_1"
  by (auto simp: init_def structsIn_def)

lemma init_2_sub: "structsIn init init_2"
  by (auto simp: init_def structsIn_def)

lemma init_3_sub: "structsIn init init_3"
  by (auto simp: init_def structsIn_def)

lemma init_4_sub: "structsIn init init_4"
  by (auto simp: init_def structsIn_def)

lemma init_5_sub: "structsIn init init_5"
  by (auto simp: init_def structsIn_def)

lemma init_6_sub: "structsIn init init_6"
  by (auto simp: init_def structsIn_def)

lemma init_7_sub: "structsIn init init_7"
  by (auto simp: init_def structsIn_def)

lemma init_8_sub: "structsIn init init_8"
  by (auto simp: init_def structsIn_def)

lemma init_9_sub: "structsIn init init_9"
  by (auto simp: init_def structsIn_def)

lemma init_10_sub: "structsIn init init_10"
  by (auto simp: init_def structsIn_def)

lemma init_11_sub: "structsIn init init_11"
  by (auto simp: init_def structsIn_def)

lemma init_12_sub: "structsIn init init_12"
  by (auto simp: init_def structsIn_def)

lemma init_13_sub: "structsIn init init_13"
  by (auto simp: init_def structsIn_def)

lemma init_14_sub: "structsIn init init_14"
  by (auto simp: init_def structsIn_def)

lemma init_15_sub: "structsIn init init_15"
  by (auto simp: init_def structsIn_def)

lemma init_16_sub: "structsIn init init_16"
  by (auto simp: init_def structsIn_def)

lemma init_17_sub: "structsIn init init_17"
  by (auto simp: init_def structsIn_def)

lemma init_18_sub: "structsIn init init_18"
  by (auto simp: init_def structsIn_def)

lemma init_19_sub: "structsIn init init_19"
  by (auto simp: init_def structsIn_def)

lemma init_20_sub: "structsIn init init_20"
  by (auto simp: init_def structsIn_def)

lemma init_21_sub: "structsIn init init_21"
  by (auto simp: init_def structsIn_def)

lemma init_22_sub: "structsIn init init_22"
  by (auto simp: init_def structsIn_def)

lemma init_23_sub: "structsIn init init_23"
  by (auto simp: init_def structsIn_def)

lemma init_24_sub: "structsIn init init_24"
  by (auto simp: init_def structsIn_def)

lemma init_25_sub: "structsIn init init_25"
  by (auto simp: init_def structsIn_def)

lemma init_26_sub: "structsIn init init_26"
  by (auto simp: init_def structsIn_def)

lemma init_27_sub: "structsIn init init_27"
  by (auto simp: init_def structsIn_def)

lemma init_28_sub: "structsIn init init_28"
  by (auto simp: init_def structsIn_def)

lemma init_29_sub: "structsIn init init_29"
  by (auto simp: init_def structsIn_def)

lemma init_30_sub: "structsIn init init_30"
  by (auto simp: init_def structsIn_def)

lemma init_31_sub: "structsIn init init_31"
  by (auto simp: init_def structsIn_def)

lemma init_32_sub: "structsIn init init_32"
  by (auto simp: init_def structsIn_def)

lemma init_33_sub: "structsIn init init_33"
  by (auto simp: init_def structsIn_def)

lemma init_34_sub: "structsIn init init_34"
  by (auto simp: init_def structsIn_def)

lemma init_35_sub: "structsIn init init_35"
  by (auto simp: init_def structsIn_def)

lemma init_36_sub: "structsIn init init_36"
  by (auto simp: init_def structsIn_def)

lemma init_37_sub: "structsIn init init_37"
  by (auto simp: init_def structsIn_def)

lemma init_38_sub: "structsIn init init_38"
  by (auto simp: init_def structsIn_def)

lemmas init_1_registered [registered] = init_1_sub [unfolded init_1_def structsIn_simps]

lemmas init_2_registered [registered] = init_2_sub [unfolded init_2_def structsIn_simps]

lemmas init_3_registered [registered] = init_3_sub [unfolded init_3_def structsIn_simps]

lemmas init_4_registered [registered] = init_4_sub [unfolded init_4_def structsIn_simps]

lemmas init_5_registered [registered] = init_5_sub [unfolded init_5_def structsIn_simps]

lemmas init_6_registered [registered] = init_6_sub [unfolded init_6_def structsIn_simps]

lemmas init_7_registered [registered] = init_7_sub [unfolded init_7_def structsIn_simps]

lemmas init_8_registered [registered] = init_8_sub [unfolded init_8_def structsIn_simps]

lemmas init_9_registered [registered] = init_9_sub [unfolded init_9_def structsIn_simps]

lemmas init_10_registered [registered] = init_10_sub [unfolded init_10_def structsIn_simps]

lemmas init_11_registered [registered] = init_11_sub [unfolded init_11_def structsIn_simps]

lemmas init_12_registered [registered] = init_12_sub [unfolded init_12_def structsIn_simps]

lemmas init_13_registered [registered] = init_13_sub [unfolded init_13_def structsIn_simps]

lemmas init_14_registered [registered] = init_14_sub [unfolded init_14_def structsIn_simps]

lemmas init_15_registered [registered] = init_15_sub [unfolded init_15_def structsIn_simps]

lemmas init_16_registered [registered] = init_16_sub [unfolded init_16_def structsIn_simps]

lemmas init_17_registered [registered] = init_17_sub [unfolded init_17_def structsIn_simps]

lemmas init_18_registered [registered] = init_18_sub [unfolded init_18_def structsIn_simps]

lemmas init_19_registered [registered] = init_19_sub [unfolded init_19_def structsIn_simps]

lemmas init_20_registered [registered] = init_20_sub [unfolded init_20_def structsIn_simps]

lemmas init_21_registered [registered] = init_21_sub [unfolded init_21_def structsIn_simps]

lemmas init_22_registered [registered] = init_22_sub [unfolded init_22_def structsIn_simps]

lemmas init_23_registered [registered] = init_23_sub [unfolded init_23_def structsIn_simps]

lemmas init_24_registered [registered] = init_24_sub [unfolded init_24_def structsIn_simps]

lemmas init_25_registered [registered] = init_25_sub [unfolded init_25_def structsIn_simps]

lemmas init_26_registered [registered] = init_26_sub [unfolded init_26_def structsIn_simps]

lemmas init_27_registered [registered] = init_27_sub [unfolded init_27_def structsIn_simps]

lemmas init_28_registered [registered] = init_28_sub [unfolded init_28_def structsIn_simps]

lemmas init_29_registered [registered] = init_29_sub [unfolded init_29_def structsIn_simps]

lemmas init_30_registered [registered] = init_30_sub [unfolded init_30_def structsIn_simps]

lemmas init_31_registered [registered] = init_31_sub [unfolded init_31_def structsIn_simps]

lemmas init_32_registered [registered] = init_32_sub [unfolded init_32_def structsIn_simps]

lemmas init_33_registered [registered] = init_33_sub [unfolded init_33_def structsIn_simps]

lemmas init_34_registered [registered] = init_34_sub [unfolded init_34_def structsIn_simps]

lemmas init_35_registered [registered] = init_35_sub [unfolded init_35_def structsIn_simps]

lemmas init_36_registered [registered] = init_36_sub [unfolded init_36_def structsIn_simps]

lemmas init_37_registered [registered] = init_37_sub [unfolded init_37_def structsIn_simps]

lemmas init_38_registered [registered] = init_38_sub [unfolded init_38_def structsIn_simps]

lemma interfaces [registered]:
  "isInterface init ''IntOrString''" "isInterface init ''Quantity''"
  "isInterface init ''IoK8SApimachineryPkgApisMetaV1DeleteOptionsKind''"
  by (simp_all only: isInterface_append init_def init_3_def init_35_def isInterface_simps HOL.simp_thms)

section \<open>The checks of each group\<close>

text \<open>
  The length of the longest chain of required struct values below a value of a struct; the structs
  not listed require none.
\<close>

definition requiredDepth :: "string \<Rightarrow> nat" where
  "requiredDepth n =
    (if n \<in> set [''KubeCustomResourceDefinitionProps'', ''KubeVolumeAttachmentProps''] then 2
     else if n \<in> set
       [''ContainerResourceMetricSourceV2'', ''ContainerResourceMetricSourceV2Beta2'', ''CronJobSpec'',
        ''CustomResourceDefinitionSpec'', ''DaemonSetSpec'', ''DeploymentSpec'',
        ''ExternalMetricSourceV2'', ''ExternalMetricSourceV2Beta2'', ''FlowSchemaSpecV1Beta1'',
        ''FlowSchemaSpecV1Beta2'', ''HorizontalPodAutoscalerSpec'', ''HorizontalPodAutoscalerSpecV2'',
        ''HorizontalPodAutoscalerSpecV2Beta2'', ''HttpGetAction'', ''HttpIngressPath'', ''JobSpec'',
        ''KubeBindingProps'', ''KubeCertificateSigningRequestProps'', ''KubeClusterRoleBindingProps'',
        ''KubeCsiDriverProps'', ''KubeCsiNodeProps'', ''KubeLocalSubjectAccessReviewProps'',
        ''KubeRoleBindingProps'', ''KubeSelfSubjectAccessReviewProps'',
        ''KubeSelfSubjectRulesReviewProps'', ''KubeSubjectAccessReviewProps'',
        ''KubeTokenRequestProps'', ''KubeTokenReviewProps'', ''MutatingWebhook'', ''NetworkPolicySpec'',
        ''ObjectMetricSourceV2'', ''ObjectMetricSourceV2Beta2'', ''PersistentVolumeClaimTemplate'',
        ''PodsMetricSourceV2'', ''PodsMetricSourceV2Beta2'', ''PreferredSchedulingTerm'',
        ''ReplicaSetSpec'', ''ResourceMetricSourceV2'', ''ResourceMetricSourceV2Beta2'',
        ''ScaleIoPersistentVolumeSource'', ''ScaleIoVolumeSource'', ''StatefulSetSpec'',
        ''TcpSocketAction'', ''ValidatingWebhook'', ''VolumeAttachmentSpec'',
        ''WeightedPodAffinityTerm''] then 1
     else 0)"

lemma structs_1_names [names_checks]:
  "map structName structs_1 = map goType (filter isStruct init_1)"
  by (simp only: structs_1_def struct_defs init_1_def table_eval field_eval)

lemma structs_2_names [names_checks]:
  "map structName structs_2 = map goType (filter isStruct init_2)"
  by (simp only: structs_2_def struct_defs init_2_def table_eval field_eval)

lemma structs_3_names [names_checks]:
  "map structName structs_3 = map goType (filter isStruct init_3)"
  by (simp only: structs_3_def struct_defs init_3_def table_eval field_eval)

lemma structs_4_names [names_checks]:
  "map structName structs_4 = map goType (filter isStruct init_4)"
  by (simp only: structs_4_def struct_defs init_4_def table_eval field_eval)

lemma structs_5_names [names_checks]:
  "map structName structs_5 = map goType (filter isStruct init_5)"
  by (simp only: structs_5_def struct_defs init_5_def table_eval field_eval)

lemma structs_6_names [names_checks]:
  "map structName structs_6 = map goType (filter isStruct init_6)"
  by (simp only: structs_6_def struct_defs init_6_def table_eval field_eval)

lemma structs_7_names [names_checks]:
  "map structName structs_7 = map goType (filter isStruct init_7)"
  by (simp only: structs_7_def struct_defs init_7_def table_eval field_eval)

lemma structs_8_names [names_checks]:
  "map structName structs_8 = map goType (filter isStruct init_8)"
  by (simp only: structs_8_def struct_defs init_8_def table_eval field_eval)

lemma structs_9_names [names_checks]:
  "map structName structs_9 = map goType (filter isStruct init_9)"
  by (simp only: structs_9_def struct_defs init_9_def table_eval field_eval)

lemma structs_10_names [names_checks]:
  "map structName structs_10 = map goType (filter isStruct init_10)"
  by (simp only: structs_10_def struct_defs init_10_def table_eval field_eval)

lemma structs_11_names [names_checks]:
  "map structName structs_11 = map goType (filter isStruct init_11)"
  by (simp only: structs_11_def struct_defs init_11_def table_eval field_eval)

lemma structs_12_names [names_checks]:
  "map structName structs_12 = map goType (filter isStruct init_12)"
  by (simp only: structs_12_def struct_defs init_12_def table_eval field_eval)

lemma structs_13_names [names_checks]:
  "map structName structs_13 = map goType (filter isStruct init_13)"
  by (simp only: structs_13_def struct_defs init_13_def table_eval field_eval)

lemma structs_14_names [names_checks]:
  "map structName structs_14 = map goType (filter isStruct init_14)"
  by (simp only: structs_14_def struct_defs init_14_def table_eval field_eval)

lemma structs_15_names [names_checks]:
  "map structName structs_15 = map goType (filter isStruct init_15)"
  by (simp only: structs_15_def struct_defs init_15_def table_eval field_eval)

lemma structs_16_names [names_checks]:
  "map structName structs_16 = map goType (filter isStruct init_16)"
  by (simp only: structs_16_def struct_defs init_16_def table_eval field_eval)

lemma structs_17_names [names_checks]:
  "map structName structs_17 = map goType (filter isStruct init_17)"
  by (simp only: structs_17_def struct_defs init_17_def table_eval field_eval)

lemma structs_18_names [names_checks]:
  "map structName structs_18 = map goType (filter isStruct init_18)"
  by (simp only: structs_18_def struct_defs init_18_def table_eval field_eval)

lemma structs_19_names [names_checks]:
  "map structName structs_19 = map goType (filter isStruct init_19)"
  by (simp only: structs_19_def struct_defs init_19_def table_eval field_eval)

lemma structs_20_names [names_checks]:
  "map structName structs_20 = map goType (filter isStruct init_20)"
  by (simp only: structs_20_def struct_defs init_20_def table_eval field_eval)

lemma structs_21_names [names_checks]:
  "map structName structs_21 = map goType (filter isStruct init_21)"
  by (simp only: structs_21_def struct_defs init_21_def table_eval field_eval)

lemma structs_22_names [names_checks]:
  "map structName structs_22 = map goType (filter isStruct init_22)"
  by (simp only: structs_22_def struct_defs init_22_def table_eval field_eval)

lemma structs_23_names [names_checks]:
  "map structName structs_23 = map goType (filter isStruct init_23)"
  by (simp only: structs_23_def struct_defs init_23_def table_eval field_eval)

lemma structs_24_names [names_checks]:
  "map structName structs_24 = map goType (filter isStruct init_24)"
  by (simp only: structs_24_def struct_defs init_24_def table_eval field_eval)

lemma structs_25_names [names_checks]:
  "map structName structs_25 = map goType (filter isStruct init_25)"
  by (simp only: structs_25_def struct_defs init_25_def table_eval field_eval)

lemma structs_26_names [names_checks]:
  "map structName structs_26 = map goType (filter isStruct init_26)"
  by (simp only: structs_26_def struct_defs init_26_def table_eval field_eval)

lemma structs_27_names [names_checks]:
  "map structName structs_27 = map goType (filter isStruct init_27)"
  by (simp only: structs_27_def struct_defs init_27_def table_eval field_eval)

lemma structs_28_names [names_checks]:
  "map structName structs_28 = map goType (filter isStruct init_28)"
  by (simp only: structs_28_def struct_defs init_28_def table_eval field_eval)

lemma structs_29_names [names_checks]:
  "map structName structs_29 = map goType (filter isStruct init_29)"
  by (simp only: structs_29_def struct_defs init_29_def table_eval field_eval)

lemma structs_30_names [names_checks]:
  "map structName structs_30 = map goType (filter isStruct init_30)"
  by (simp only: structs_30_def struct_defs init_30_def table_eval field_eval)

lemma structs_31_names [names_checks]:
  "map structName structs_31 = map goType (filter isStruct init_31)"
  by (simp only: structs_31_def struct_defs init_31_def table_eval field_eval)

lemma structs_32_names [names_checks]:
  "map structName structs_32 = map goType (filter isStruct init_32)"
  by (simp only: structs_32_def struct_defs init_32_def table_eval field_eval)

lemma structs_33_names [names_checks]:
  "map structName structs_33 = map goType (filter isStruct init_33)"
  by (simp only: structs_33_def struct_defs init_33_def table_eval field_eval)

lemma structs_34_names [names_checks]:
  "map structName structs_34 = map goType (filter isStruct init_34)"
  by (simp only: structs_34_def struct_defs init_34_def table_eval field_eval)

lemma structs_35_names [names_checks]:
  "map structName structs_35 = map goType (filter isStruct init_35)"
  by (simp only: structs_35_def struct_defs init_35_def table_eval field_eval)

lemma structs_36_names [names_checks]:
  "map structName structs_36 = map goType (filter isStruct init_36)"
  by (simp only: structs_36_def struct_defs init_36_def table_eval field_eval)

lemma structs_37_names [names_checks]:
  "map structName structs_37 = map goType (filter isStruct init_37)"
  by (simp only: structs_37_def struct_defs init_37_def table_eval field_eval)

lemma structs_38_names [names_checks]:
  "map structName structs_38 = map goType (filter isStruct init_38)"
  by (simp only: structs_38_def struct_defs init_38_def table_eval field_eval)

lemma structs_A_types [type_checks]:
  "list_all (\<lambda>s. list_all (\<lambda>f. resolves init (fieldType f)) (structFields s))
    (structs_1)"
  by (simp only: structs_1_def
      struct_defs table_eval field_eval registered)

lemma structs_A_ranked [rank_checks]:
  "list_all (ranked requiredDepth)
    (structs_1)"
  by (simp add: structs_1_def
      struct_defs ranked_simps requiredDepth_def)

lemma structs_B_types [type_checks]:
  "list_all (\<lambda>s. list_all (\<lambda>f. resolves init (fieldType f)) (structFields s))
    (structs_2)"
  by (simp only: structs_2_def
      struct_defs table_eval field_eval registered)

lemma structs_B_ranked [rank_checks]:
  "list_all (ranked requiredDepth)
    (structs_2)"
  by (simp add: structs_2_def
      struct_defs ranked_simps requiredDepth_def)

lemma structs_C_types [type_checks]:
  "list_all (\<lambda>s. list_all (\<lambda>f. resolves init (fieldType f)) (structFields s))
    (structs_3 @ structs_4 @ structs_5 @ structs_6 @ structs_7)"
  by (simp only: structs_3_def structs_4_def structs_5_def structs_6_def structs_7_def
      struct_defs table_eval field_eval registered)

lemma structs_C_ranked [rank_checks]:
  "list_all (ranked requiredDepth)
    (structs_3 @ structs_4 @ structs_5 @ structs_6 @ structs_7)"
  by (simp add: structs_3_def structs_4_def structs_5_def structs_6_def structs_7_def
      struct_defs ranked_simps requiredDepth_def)

lemma structs_D_types [type_checks]:
  "list_all (\<lambda>s. list_all (\<lambda>f. resolves init (fieldType f)) (structFields s))
    (structs_8 @ structs_9 @ structs_10 @ structs_11 @ structs_12 @ structs_13 @ structs_14 @
     structs_15 @ structs_16 @ structs_17 @ structs_18 @ structs_19 @ structs_20 @ structs_21 @
     structs_22 @ structs_23 @ structs_24 @ structs_25 @ structs_26 @ structs_27 @ structs_28 @
     structs_29 @ structs_30 @ structs_31 @ structs_32 @ structs_33)"
  by (simp only: structs_8_def structs_9_def structs_10_def structs_11_def structs_12_def structs_13_def
      structs_14_def structs_15_def structs_16_def structs_17_def structs_18_def structs_19_def
      structs_20_def structs_21_def structs_22_def structs_23_def structs_24_def structs_25_def
      structs_26_def structs_27_def structs_28_def structs_29_def structs_30_def structs_31_def
      structs_32_def structs_33_def
      struct_defs table_eval field_eval registered)

lemma structs_D_ranked [rank_checks]:
  "list_all (ranked requiredDepth)
    (structs_8 @ structs_9 @ structs_10 @ structs_11 @ structs_12 @ structs_13 @ structs_14 @
     structs_15 @ structs_16 @ structs_17 @ structs_18 @ structs_19 @ structs_20 @ structs_21 @
     structs_22 @ structs_23 @ structs_24 @ structs_25 @ structs_26 @ structs_27 @ structs_28 @
     structs_29 @ structs_30 @ structs_31 @ structs_32 @ structs_33)"
  by (simp add: structs_8_def structs_9_def structs_10_def structs_11_def structs_12_def structs_13_def
      structs_14_def structs_15_def structs_16_def structs_17_def structs_18_def structs_19_def
      structs_20_def structs_21_def structs_22_def structs_23_def structs_24_def structs_25_def
      structs_26_def structs_27_def structs_28_def structs_29_def structs_30_def structs_31_def
      structs_32_def structs_33_def
      struct_defs ranked_simps requiredDepth_def)

lemma structs_E_types [type_checks]:
  "list_all (\<lambda>s. list_all (\<lambda>f. resolves init (fieldType f)) (structFields s))
    (structs_34 @ structs_35)"
  by (simp only: structs_34_def structs_35_def
      struct_defs table_eval field_eval registered)

lemma structs_E_ranked [rank_checks]:
  "list_all (ranked requiredDepth)
    (structs_34 @ structs_35)"
  by (simp add: structs_34_def structs_35_def
      struct_defs ranked_simps requiredDepth_def)

lemma structs_F_types [type_checks]:
  "list_all (\<lambda>s. list_all (\<lambda>f. resolves init (fieldType f)) (structFields s))
    (structs_36 @ structs_37 @ structs_38)"
  by (simp only: structs_36_def structs_37_def structs_38_def
      struct_defs table_eval field_eval registered)

lemma structs_F_ranked [rank_checks]:
  "list_all (ranked requiredDepth)
    (structs_36 @ structs_37 @ structs_38)"
  by (simp add: structs_36_def structs_37_def structs_38_def
      struct_defs ranked_simps requiredDepth_def)

section \<open>The table\<close>

lemma table_names: "map structName structTable = map goType (filter isStruct init)"
  unfolding structTable_def init_def by (simp only: map_append filter_append names_checks)

lemma table_json: "list_all jsonNamed structTable"
  unfolding structTable_def by (simp only: list_all_append HOL.simp_thms json_checks)

lemma table_types:
  "list_all (\<lambda>s. list_all (\<lambda>f. resolves init (fieldType f)) (structFields s)) structTable"
  unfolding structTable_def by (simp only: list_all_append append_assoc HOL.simp_thms type_checks [unfolded list_all_append])

lemma table_ranked: "list_all (ranked requiredDepth) structTable"
  unfolding structTable_def by (simp only: list_all_append append_assoc HOL.simp_thms rank_checks [unfolded list_all_append])

lemma table_distinct: "distinct (map structName structTable)"
  unfolding table_names using init_distinct(2) by (simp add: distinct_map_filter)

section \<open>The structs as members of the table\<close>

lemma structs_1_in: "list_all (\<lambda>s. s \<in> set structTable) structs_1"
  by (auto simp: structTable_def list_all_iff)

lemma structs_2_in: "list_all (\<lambda>s. s \<in> set structTable) structs_2"
  by (auto simp: structTable_def list_all_iff)

lemma structs_3_in: "list_all (\<lambda>s. s \<in> set structTable) structs_3"
  by (auto simp: structTable_def list_all_iff)

lemma structs_4_in: "list_all (\<lambda>s. s \<in> set structTable) structs_4"
  by (auto simp: structTable_def list_all_iff)

lemma structs_5_in: "list_all (\<lambda>s. s \<in> set structTable) structs_5"
  by (auto simp: structTable_def list_all_iff)

lemma structs_6_in: "list_all (\<lambda>s. s \<in> set structTable) structs_6"
  by (auto simp: structTable_def list_all_iff)

lemma structs_7_in: "list_all (\<lambda>s. s \<in> set structTable) structs_7"
  by (auto simp: structTable_def list_all_iff)

lemma structs_8_in: "list_all (\<lambda>s. s \<in> set structTable) structs_8"
  by (auto simp: structTable_def list_all_iff)

lemma structs_9_in: "list_all (\<lambda>s. s \<in> set structTable) structs_9"
  by (auto simp: structTable_def list_all_iff)

lemma structs_10_in: "list_all (\<lambda>s. s \<in> set structTable) structs_10"
  by (auto simp: structTable_def list_all_iff)

lemma structs_11_in: "list_all (\<lambda>s. s \<in> set structTable) structs_11"
  by (auto simp: structTable_def list_all_iff)

lemma structs_12_in: "list_all (\<lambda>s. s \<in> set structTable) structs_12"
  by (auto simp: structTable_def list_all_iff)

lemma structs_13_in: "list_all (\<lambda>s. s \<in> set structTable) structs_13"
  by (auto simp: structTable_def list_all_iff)

lemma structs_14_in: "list_all (\<lambda>s. s \<in> set structTable) structs_14"
  by (auto simp: structTable_def list_all_iff)

lemma structs_15_in: "list_all (\<lambda>s. s \<in> set structTable) structs_15"
  by (auto simp: structTable_def list_all_iff)

lemma structs_16_in: "list_all (\<lambda>s. s \<in> set structTable) structs_16"
  by (auto simp: structTable_def list_all_iff)

lemma structs_17_in: "list_all (\<lambda>s. s \<in> set structTable) structs_17"
  by (auto simp: structTable_def list_all_iff)

lemma structs_18_in: "list_all (\<lambda>s. s \<in> set structTable) structs_18"
  by (auto simp: structTable_def list_all_iff)

lemma structs_19_in: "list_all (\<lambda>s. s \<in> set structTable) structs_19"
  by (auto simp: structTable_def list_all_iff)

lemma structs_20_in: "list_all (\<lambda>s. s \<in> set structTable) structs_20"
  by (auto simp: structTable_def list_all_iff)

lemma structs_21_in: "list_all (\<lambda>s. s \<in> set structTable) structs_21"
  by (auto simp: structTable_def list_all_iff)

lemma structs_22_in: "list_all (\<lambda>s. s \<in> set structTable) structs_22"
  by (auto simp: structTable_def list_all_iff)

lemma structs_23_in: "list_all (\<lambda>s. s \<in> set structTable) structs_23"
  by (auto simp: structTable_def list_all_iff)

lemma structs_24_in: "list_all (\<lambda>s. s \<in> set structTable) structs_24"
  by (auto simp: structTable_def list_all_iff)

lemma structs_25_in: "list_all (\<lambda>s. s \<in> set structTable) structs_25"
  by (auto simp: structTable_def list_all_iff)

lemma structs_26_in: "list_all (\<lambda>s. s \<in> set structTable) structs_26"
  by (auto simp: structTable_def list_all_iff)

lemma structs_27_in: "list_all (\<lambda>s. s \<in> set structTable) structs_27"
  by (auto simp: structTable_def list_all_iff)

lemma structs_28_in: "list_all (\<lambda>s. s \<in> set structTable) structs_28"
  by (auto simp: structTable_def list_all_iff)

lemma structs_29_in: "list_all (\<lambda>s. s \<in> set structTable) structs_29"
  by (auto simp: structTable_def list_all_iff)

lemma structs_30_in: "list_all (\<lambda>s. s \<in> set structTable) structs_30"
  by (auto simp: structTable_def list_all_iff)

lemma structs_31_in: "list_all (\<lambda>s. s \<in> set structTable) structs_31"
  by (auto simp: structTable_def list_all_iff)

lemma structs_32_in: "list_all (\<lambda>s. s \<in> set structTable) structs_32"
  by (auto simp: structTable_def list_all_iff)

lemma structs_33_in: "list_all (\<lambda>s. s \<in> set structTable) structs_33"
  by (auto simp: structTable_def list_all_iff)

lemma structs_34_in: "list_all (\<lambda>s. s \<in> set structTable) structs_34"
  by (auto simp: structTable_def list_all_iff)

lemma structs_35_in: "list_all (\<lambda>s. s \<in> set structTable) structs_35"
  by (auto simp: structTable_def list_all_iff)

lemma structs_36_in: "list_all (\<lambda>s. s \<in> set structTable) structs_36"
  by (auto simp: structTable_def list_all_iff)

lemma structs_37_in: "list_all (\<lambda>s. s \<in> set structTable) structs_37"
  by (auto simp: structTable_def list_all_iff)

lemma structs_38_in: "list_all (\<lambda>s. s \<in> set structTable) structs_38"
  by (auto simp: structTable_def list_all_iff)

lemmas structs_1_members [table_members] = structs_1_in [unfolded structs_1_def list.pred_inject]

lemmas structs_2_members [table_members] = structs_2_in [unfolded structs_2_def list.pred_inject]

lemmas structs_3_members [table_members] = structs_3_in [unfolded structs_3_def list.pred_inject]

lemmas structs_4_members [table_members] = structs_4_in [unfolded structs_4_def list.pred_inject]

lemmas structs_5_members [table_members] = structs_5_in [unfolded structs_5_def list.pred_inject]

lemmas structs_6_members [table_members] = structs_6_in [unfolded structs_6_def list.pred_inject]

lemmas structs_7_members [table_members] = structs_7_in [unfolded structs_7_def list.pred_inject]

lemmas structs_8_members [table_members] = structs_8_in [unfolded structs_8_def list.pred_inject]

lemmas structs_9_members [table_members] = structs_9_in [unfolded structs_9_def list.pred_inject]

lemmas structs_10_members [table_members] = structs_10_in [unfolded structs_10_def list.pred_inject]

lemmas structs_11_members [table_members] = structs_11_in [unfolded structs_11_def list.pred_inject]

lemmas structs_12_members [table_members] = structs_12_in [unfolded structs_12_def list.pred_inject]

lemmas structs_13_members [table_members] = structs_13_in [unfolded structs_13_def list.pred_inject]

lemmas structs_14_members [table_members] = structs_14_in [unfolded structs_14_def list.pred_inject]

lemmas structs_15_members [table_members] = structs_15_in [unfolded structs_15_def list.pred_inject]

lemmas structs_16_members [table_members] = structs_16_in [unfolded structs_16_def list.pred_inject]

lemmas structs_17_members [table_members] = structs_17_in [unfolded structs_17_def list.pred_inject]

lemmas structs_18_members [table_members] = structs_18_in [unfolded structs_18_def list.pred_inject]

lemmas structs_19_members [table_members] = structs_19_in [unfolded structs_19_def list.pred_inject]

lemmas structs_20_members [table_members] = structs_20_in [unfolded structs_20_def list.pred_inject]

lemmas structs_21_members [table_members] = structs_21_in [unfolded structs_21_def list.pred_inject]

lemmas structs_22_members [table_members] = structs_22_in [unfolded structs_22_def list.pred_inject]

lemmas structs_23_members [table_members] = structs_23_in [unfolded structs_23_def list.pred_inject]

lemmas structs_24_members [table_members] = structs_24_in [unfolded structs_24_def list.pred_inject]

lemmas structs_25_members [table_members] = structs_25_in [unfolded structs_25_def list.pred_inject]

lemmas structs_26_members [table_members] = structs_26_in [unfolded structs_26_def list.pred_inject]

lemmas structs_27_members [table_members] = structs_27_in [unfolded structs_27_def list.pred_inject]

lemmas structs_28_members [table_members] = structs_28_in [unfolded structs_28_def list.pred_inject]

lemmas structs_29_members [table_members] = structs_29_in [unfolded structs_29_def list.pred_inject]

lemmas structs_30_members [table_members] = structs_30_in [unfolded structs_30_def list.pred_inject]

lemmas structs_31_members [table_members] = structs_31_in [unfolded structs_31_def list.pred_inject]

lemmas structs_32_members [table_members] = structs_32_in [unfolded structs_32_def list.pred_inject]

lemmas structs_33_members [table_members] = structs_33_in [unfolded structs_33_def list.pred_inject]

lemmas structs_34_members [table_members] = structs_34_in [unfolded structs_34_def list.pred_inject]

lemmas structs_35_members [table_members] = structs_35_in [unfolded structs_35_def list.pred_inject]

lemmas structs_36_members [table_members] = structs_36_in [unfolded structs_36_def list.pred_inject]

lemmas structs_37_members [table_members] = structs_37_in [unfolded structs_37_def list.pred_inject]

lemmas structs_38_members [table_members] = structs_38_in [unfolded structs_38_def list.pred_inject]

section \<open>Properties\<close>

text \<open>
  C39. The struct types of the package and its registrations agree: \<open>init\<close> registers exactly the structs, in
  the order of their names, and every type that a field of a struct mentions is registered, a pointed-to
  type as a struct and any other as a class or an enum. Within a struct the field names differ, and the
  JSON name of a field is its Go name with a small first letter.
\<close>

theorem struct_table_well_typed:
  "map structName structTable = map goType (filter isStruct init) \<and> distinct (map structName structTable) \<and>
   list_all (\<lambda>s. list_all (\<lambda>f. resolves init (fieldType f)) (structFields s)) structTable \<and>
   list_all jsonNamed structTable"
  using table_names table_distinct table_types table_json by simp

text \<open>
  C40. Every struct of the package can be filled in: there is a finite value of its type in which, at every
  level, all required fields are set. (Required fields are never circular, although the types are,
  for example \<open>JsonSchemaProps\<close>.)
\<close>

theorem every_struct_has_complete_value:
  "\<exists>v. v \<noteq> VNil \<and> hasType structTable (GoNamed n) v \<and> complete structTable v"
  using all_inhabited [OF table_json table_ranked, of n] by (simp add: inhabits_def)

end
