(* ===== verification/Bindings.thy ===== *)
theory Bindings
  imports K8sTypes
begin

text \<open>
  The Go classes of the Kubernetes bindings of the sample application
  (\<open>examples/cdk8s-sample-deployment/imports/k8s/Kube*.go\<close>, \<open>Kube*__checks.go\<close>). Each file declares the
  proxy of one API object class, its getters, constructors, static functions and methods, and
  each of these functions has one of seven bodies, the constructors of \<open>wrapper\<close>:

  \<^item> \<open>Getter p\<close>: \<open>_jsii_.Get(j, p, &returns)\<close>;
  \<^item> \<open>Variadic m\<close>: the arguments are collected and passed to \<open>_jsii_.InvokeVoid(k, m, args)\<close>;
  \<^item> \<open>Plain m\<close>: \<open>_jsii_.Invoke(k, m, nil, &returns)\<close>;
  \<^item> \<open>Construct f ps v\<close>: \<open>_init_.Initialize()\<close>; panic if the validator \<open>v\<close> reports an error on the
    parameters \<open>ps\<close>; \<open>_jsii_.Create(f, ps, &j)\<close> for a new proxy \<open>j\<close>, which is returned;
  \<^item> \<open>ConstructOverride f ps\<close>: \<open>Initialize\<close>, then \<open>Create\<close> for a proxy that the caller provides;
  \<^item> \<open>StaticCall f m ps v\<close>: \<open>Initialize\<close>, validation as above, \<open>_jsii_.StaticInvoke(f, m, ps, &returns)\<close>;
  \<^item> \<open>StaticProp f p\<close>: \<open>Initialize\<close>, \<open>_jsii_.StaticGet(f, p, &returns)\<close>.

  A function is declared with its signature, as a \<open>Method\<close> of the proxy or as a \<open>Func\<close> of the package, and each
  class has an \<open>interface\<close>, the Go type that its users see. A validator is the list of its checks in order,
  and returns the first error. \<open>call\<close> runs a wrapper, \<open>runValidator\<close> a validator. The classes themselves are tables (theories \<open>KubeClassesA\<close> and
  following); \<open>KubeClasses\<close> relates them to the registrations and to the structs. The files
  \<open>Kube*__no_checks.go\<close> declare the validators once more, without checks, for a build with the tag
  \<open>no_runtime_type_checking\<close>.

  The runtime is a record of parameters. The receiver of a call is the proxy of a method, the new
  proxy of a constructor, and irrelevant for the others; \<open>None\<close> is nil.
\<close>

named_theorems class_checks \<open>the evaluated checks of each class\<close>

named_theorems class_interfaces \<open>the interface of each class, and its validators without checks\<close>

named_theorems class_names \<open>the names of the classes, registered and declared\<close>

named_theorems class_tables \<open>the evaluated checks of each group of classes\<close>

section \<open>Values and the runtime\<close>

datatype 'o jval = Ref 'o | Data gval

record ('w, 'o) jsii_env =
  initCdk8s :: "('w, unit outcome) io"
  initConstructs :: "('w, unit outcome) io"
  jsiiLoad :: "string \<Rightarrow> string \<Rightarrow> ('w, unit outcome) io"
  jsiiGet :: "'o \<Rightarrow> string \<Rightarrow> ('w, 'o jval option outcome) io"
  jsiiInvoke :: "'o \<Rightarrow> string \<Rightarrow> 'o jval option list \<Rightarrow> ('w, 'o jval option outcome) io"
  jsiiInvokeVoid :: "'o \<Rightarrow> string \<Rightarrow> 'o jval option list \<Rightarrow> ('w, unit outcome) io"
  jsiiStaticGet :: "string \<Rightarrow> string \<Rightarrow> ('w, 'o jval option outcome) io"
  jsiiStaticInvoke :: "string \<Rightarrow> string \<Rightarrow> 'o jval option list \<Rightarrow> ('w, 'o jval option outcome) io"
  jsiiCreate :: "string \<Rightarrow> 'o jval option list \<Rightarrow> 'o \<Rightarrow> ('w, unit outcome) io"
  jsiiValidateStruct :: "'o jval option \<Rightarrow> string \<Rightarrow> goerr option"

definition thenIO :: "('w, 'a outcome) io \<Rightarrow> ('a \<Rightarrow> ('w, 'b outcome) io) \<Rightarrow> ('w, 'b outcome) io" where
  "thenIO s k w = (case s w of (Panicked, w1) \<Rightarrow> (Panicked, w1) | (Returned a, w1) \<Rightarrow> k a w1)"

text \<open>\<open>Initialize\<close> of \<open>jsii/jsii.go\<close>; the content of the embedded archive is part of \<open>jsiiLoad\<close>.\<close>

definition Initialize :: "('w, 'o) jsii_env \<Rightarrow> ('w, unit outcome) io" where
  "Initialize env =
     thenIO (initCdk8s env) (\<lambda>_.
     thenIO (initConstructs env) (\<lambda>_.
       jsiiLoad env ''k8s'' ''0.0.0''))"

section \<open>Validators\<close>

datatype check = NotNil string | ValidStruct string

type_synonym validators = "(string \<times> check list) list"

definition argument :: "string list \<Rightarrow> 'a option list \<Rightarrow> string \<Rightarrow> 'a option" where
  "argument ps args p = (case map_of (zip ps args) p of None \<Rightarrow> None | Some a \<Rightarrow> a)"

fun runCheck :: "('w, 'o) jsii_env \<Rightarrow> (string \<Rightarrow> 'o jval option) \<Rightarrow> check \<Rightarrow> goerr option" where
  "runCheck env arg (NotNil p) = (if arg p = None then Some (EParameterNil p) else None)"
| "runCheck env arg (ValidStruct p) = jsiiValidateStruct env (arg p) (''parameter '' @ p)"

fun runChecks :: "('w, 'o) jsii_env \<Rightarrow> (string \<Rightarrow> 'o jval option) \<Rightarrow> check list \<Rightarrow> goerr option" where
  "runChecks env arg [] = None"
| "runChecks env arg (c # cs) = (case runCheck env arg c of Some e \<Rightarrow> Some e | None \<Rightarrow> runChecks env arg cs)"

definition runValidator ::
  "('w, 'o) jsii_env \<Rightarrow> validators \<Rightarrow> string \<Rightarrow> string list \<Rightarrow> 'o jval option list \<Rightarrow> goerr option" where
  "runValidator env vs v ps args =
     (case map_of vs v of None \<Rightarrow> None | Some cs \<Rightarrow> runChecks env (argument ps args) cs)"

section \<open>Wrappers\<close>

datatype wrapper =
    Getter string
  | Variadic string
  | Plain string
  | Construct string "string list" string
  | ConstructOverride string "string list"
  | StaticCall string string "string list" string
  | StaticProp string string

text \<open>Signatures: \<open>Rest\<close> is a variadic parameter.\<close>

datatype param = Param string gotype | Rest string gotype

datatype gosig = Sig string "param list" "gotype option"

datatype gofun = Method gosig wrapper | Func gosig wrapper

text \<open>A class: its name, the types embedded in the struct of its proxy, its functions in the order of the file.\<close>

datatype binding = Binding string "string list" "gofun list"

text \<open>An interface type: its name, the interfaces it embeds, its methods.\<close>

datatype interface = Interface string "string list" "gosig list"

fun paramName :: "param \<Rightarrow> string" where
  "paramName (Param n t) = n"
| "paramName (Rest n t) = n"

fun sigName :: "gosig \<Rightarrow> string" where
  "sigName (Sig n ps r) = n"

fun funEntry :: "gofun \<Rightarrow> string \<times> wrapper" where
  "funEntry (Method s wr) = (sigName s, wr)"
| "funEntry (Func s wr) = (sigName s, wr)"

fun bindingName :: "binding \<Rightarrow> string" where
  "bindingName (Binding n es fs) = n"

fun bindingEmbeds :: "binding \<Rightarrow> string list" where
  "bindingEmbeds (Binding n es fs) = es"

fun bindingDecls :: "binding \<Rightarrow> gofun list" where
  "bindingDecls (Binding n es fs) = fs"

definition bindingFuns :: "binding \<Rightarrow> (string \<times> wrapper) list" where
  "bindingFuns b = map funEntry (bindingDecls b)"

fun interfaceName :: "interface \<Rightarrow> string" where
  "interfaceName (Interface n es ms) = n"

fun interfaceEmbeds :: "interface \<Rightarrow> string list" where
  "interfaceEmbeds (Interface n es ms) = es"

fun interfaceMethods :: "interface \<Rightarrow> gosig list" where
  "interfaceMethods (Interface n es ms) = ms"

text \<open>The loop that collects variadic arguments.\<close>

definition collectArgs :: "'a list \<Rightarrow> 'a list" where
  "collectArgs as = fold (\<lambda>a args. args @ [a]) as []"

definition validated ::
  "('w, 'o) jsii_env \<Rightarrow> validators \<Rightarrow> string \<Rightarrow> string list \<Rightarrow> 'o jval option list \<Rightarrow>
   ('w, 'b outcome) io \<Rightarrow> ('w, 'b outcome) io" where
  "validated env vs v ps args k =
     (case runValidator env vs v ps args of Some e \<Rightarrow> (\<lambda>w. (Panicked, w)) | None \<Rightarrow> k)"

fun call ::
  "('w, 'o) jsii_env \<Rightarrow> validators \<Rightarrow> wrapper \<Rightarrow> 'o \<Rightarrow> 'o jval option list \<Rightarrow> ('w, 'o jval option outcome) io"
where
  "call env vs (Getter p) j args = jsiiGet env j p"
| "call env vs (Variadic m) j args =
     thenIO (jsiiInvokeVoid env j m (collectArgs args)) (\<lambda>_ w. (Returned None, w))"
| "call env vs (Plain m) j args = jsiiInvoke env j m []"
| "call env vs (Construct f ps v) j args =
     thenIO (Initialize env) (\<lambda>_.
       validated env vs v ps args
         (thenIO (jsiiCreate env f args j) (\<lambda>_ w. (Returned (Some (Ref j)), w))))"
| "call env vs (ConstructOverride f ps) j args =
     thenIO (Initialize env) (\<lambda>_.
       thenIO (jsiiCreate env f args j) (\<lambda>_ w. (Returned None, w)))"
| "call env vs (StaticCall f m ps v) j args =
     thenIO (Initialize env) (\<lambda>_. validated env vs v ps args (jsiiStaticInvoke env f m args))"
| "call env vs (StaticProp f p) j args =
     thenIO (Initialize env) (\<lambda>_. jsiiStaticGet env f p)"

section \<open>Lemmas\<close>

lemma collectArgs_id [simp]: "collectArgs as = as"
proof -
  have "fold (\<lambda>a args. args @ [a]) as acc = acc @ as" for acc
    by (induction as arbitrary: acc) auto
  then show ?thesis by (simp add: collectArgs_def)
qed

lemma thenIO_Panicked: "fst (s w) = Panicked \<Longrightarrow> thenIO s k w = (Panicked, snd (s w))"
  by (cases "s w") (simp add: thenIO_def)

lemma thenIO_assoc: "thenIO (thenIO s k) l = thenIO s (\<lambda>a. thenIO (k a) l)"
  by (simp add: thenIO_def fun_eq_iff split: prod.splits outcome.splits)

lemma thenIO_Returned [simp]: "thenIO (\<lambda>w. (Returned a, w)) k = k a"
  by (simp add: thenIO_def fun_eq_iff)

lemma runChecks_None_iff: "runChecks env arg cs = None \<longleftrightarrow> list_all (\<lambda>c. runCheck env arg c = None) cs"
  by (induction cs) (auto split: option.splits)

lemma thenIO_stop: "thenIO s (\<lambda>_ w. (Panicked, w)) w = (Panicked, snd (s w))"
  by (simp add: thenIO_def split: prod.splits outcome.splits)

text \<open>
  A constructor is its override with validated parameters: with invalid parameters it panics after the
  initialisation, without a call to create the object.
\<close>

lemma construct_eq:
  "call env vs (Construct f ps v) j args w =
   (if runValidator env vs v ps args = None
    then thenIO (call env vs (ConstructOverride f ps) j args) (\<lambda>_ w. (Returned (Some (Ref j)), w)) w
    else (Panicked, snd (Initialize env w)))"
  by (auto simp: validated_def thenIO_assoc thenIO_stop)

section \<open>The class of an API object\<close>

text \<open>
  The functions and validators of the class \<open>T\<close>: what the generator of the bindings emits for every
  API object. The validators of the properties refuse nil only when \<open>required\<close>, that is, when some
  property is required; otherwise nil stands for no properties.
\<close>

definition apiObjectGetters :: "gofun list" where
  "apiObjectGetters =
    [Method (Sig ''ApiGroup'' [] (Some (GoPtr GoString))) (Getter ''apiGroup''),
     Method (Sig ''ApiVersion'' [] (Some (GoPtr GoString))) (Getter ''apiVersion''),
     Method (Sig ''Chart'' [] (Some (GoNamed ''cdk8s.Chart''))) (Getter ''chart''),
     Method (Sig ''Kind'' [] (Some (GoPtr GoString))) (Getter ''kind''),
     Method (Sig ''Metadata'' [] (Some (GoNamed ''cdk8s.ApiObjectMetadataDefinition''))) (Getter ''metadata''),
     Method (Sig ''Name'' [] (Some (GoPtr GoString))) (Getter ''name''),
     Method (Sig ''Node'' [] (Some (GoNamed ''constructs.Node''))) (Getter ''node'')]"

definition apiObjectMethods :: "gofun list" where
  "apiObjectMethods =
    [Method (Sig ''AddDependency'' [Rest ''dependencies'' (GoNamed ''constructs.IConstruct'')] None)
       (Variadic ''addDependency''),
     Method (Sig ''AddJsonPatch'' [Rest ''ops'' (GoNamed ''cdk8s.JsonPatch'')] None) (Variadic ''addJsonPatch''),
     Method (Sig ''ToJson'' [] (Some GoAny)) (Plain ''toJson''),
     Method (Sig ''ToString'' [] (Some (GoPtr GoString))) (Plain ''toString'')]"

definition apiObjectFunctions :: "string \<Rightarrow> gofun list" where
  "apiObjectFunctions t =
    [Func (Sig (''New'' @ t) [Param ''scope'' (GoNamed ''constructs.Construct''), Param ''id'' (GoPtr GoString),
         Param ''props'' (GoPtr (GoNamed (t @ ''Props'')))] (Some (GoNamed t)))
       (Construct (''k8s.'' @ t) [''scope'', ''id'', ''props''] (''validateNew'' @ t @ ''Parameters'')),
     Func (Sig (''New'' @ t @ ''_Override'') [Param ''k'' (GoNamed t), Param ''scope'' (GoNamed ''constructs.Construct''),
         Param ''id'' (GoPtr GoString), Param ''props'' (GoPtr (GoNamed (t @ ''Props'')))] None)
       (ConstructOverride (''k8s.'' @ t) [''scope'', ''id'', ''props'']),
     Func (Sig (t @ ''_IsApiObject'') [Param ''o'' GoAny] (Some (GoPtr GoBool)))
       (StaticCall (''k8s.'' @ t) ''isApiObject'' [''o''] (''validate'' @ t @ ''_IsApiObjectParameters'')),
     Func (Sig (t @ ''_IsConstruct'') [Param ''x'' GoAny] (Some (GoPtr GoBool)))
       (StaticCall (''k8s.'' @ t) ''isConstruct'' [''x''] (''validate'' @ t @ ''_IsConstructParameters'')),
     Func (Sig (t @ ''_Manifest'') [Param ''props'' (GoPtr (GoNamed (t @ ''Props'')))] (Some GoAny))
       (StaticCall (''k8s.'' @ t) ''manifest'' [''props''] (''validate'' @ t @ ''_ManifestParameters'')),
     Func (Sig (t @ ''_Of'') [Param ''c'' (GoNamed ''constructs.IConstruct'')] (Some (GoNamed ''cdk8s.ApiObject'')))
       (StaticCall (''k8s.'' @ t) ''of'' [''c''] (''validate'' @ t @ ''_OfParameters'')),
     Func (Sig (t @ ''_GVK'') [] (Some (GoPtr (GoNamed ''cdk8s.GroupVersionKind''))))
       (StaticProp (''k8s.'' @ t) ''GVK'')]"

definition apiObjectBinding :: "string \<Rightarrow> binding" where
  "apiObjectBinding t = Binding t [''internal.Type__cdk8sApiObject'']
     (apiObjectGetters @ apiObjectFunctions t @ apiObjectMethods)"

fun methodSig :: "gofun \<Rightarrow> gosig option" where
  "methodSig (Method s wr) = Some s"
| "methodSig (Func s wr) = None"

definition apiObjectInterface :: "string \<Rightarrow> interface" where
  "apiObjectInterface t = Interface t [''cdk8s.ApiObject'']
     [Sig ''ApiGroup'' [] (Some (GoPtr GoString)), Sig ''ApiVersion'' [] (Some (GoPtr GoString)),
      Sig ''Chart'' [] (Some (GoNamed ''cdk8s.Chart'')), Sig ''Kind'' [] (Some (GoPtr GoString)),
      Sig ''Metadata'' [] (Some (GoNamed ''cdk8s.ApiObjectMetadataDefinition'')),
      Sig ''Name'' [] (Some (GoPtr GoString)), Sig ''Node'' [] (Some (GoNamed ''constructs.Node'')),
      Sig ''AddDependency'' [Rest ''dependencies'' (GoNamed ''constructs.IConstruct'')] None,
      Sig ''AddJsonPatch'' [Rest ''ops'' (GoNamed ''cdk8s.JsonPatch'')] None,
      Sig ''ToJson'' [] (Some GoAny), Sig ''ToString'' [] (Some (GoPtr GoString))]"

text \<open>The aliases of \<open>internal/types.go\<close>.\<close>

definition typeAlias :: "string \<Rightarrow> string" where
  "typeAlias t = (if t = ''internal.Type__cdk8sApiObject'' then ''cdk8s.ApiObject'' else t)"

definition propsChecks :: "bool \<Rightarrow> check list" where
  "propsChecks required = (if required then [NotNil ''props''] else []) @ [ValidStruct ''props'']"

definition apiObjectChecks :: "string \<Rightarrow> bool \<Rightarrow> validators" where
  "apiObjectChecks t required =
    [(''validate'' @ t @ ''_IsApiObjectParameters'', [NotNil ''o'']),
     (''validate'' @ t @ ''_IsConstructParameters'', [NotNil ''x'']),
     (''validate'' @ t @ ''_ManifestParameters'', propsChecks required),
     (''validate'' @ t @ ''_OfParameters'', [NotNil ''c'']),
     (''validateNew'' @ t @ ''Parameters'', [NotNil ''scope'', NotNil ''id''] @ propsChecks required)]"

text \<open>The validators of a build without checks.\<close>

definition apiObjectNoChecks :: "string \<Rightarrow> validators" where
  "apiObjectNoChecks t =
    [(''validate'' @ t @ ''_IsApiObjectParameters'', []), (''validate'' @ t @ ''_IsConstructParameters'', []),
     (''validate'' @ t @ ''_ManifestParameters'', []), (''validate'' @ t @ ''_OfParameters'', []),
     (''validateNew'' @ t @ ''Parameters'', [])]"

text \<open>
  The check on a class and its validators: they are those of an API object, and the properties are
  refused when nil exactly if its properties struct has a required field.
\<close>

fun classOk :: "binding \<times> validators \<Rightarrow> bool" where
  "classOk (b, vs) \<longleftrightarrow> b = apiObjectBinding (bindingName b) \<and>
     (\<exists>s\<in>set structTable. structName s = bindingName b @ ''Props'' \<and>
        vs = apiObjectChecks (bindingName b) (anyRequired s))"

lemma classRequired_I:
  "s \<in> set structTable \<Longrightarrow> b = apiObjectBinding (bindingName b) \<Longrightarrow> structName s = bindingName b @ ''Props'' \<Longrightarrow>
   anyRequired s \<Longrightarrow> vs = apiObjectChecks (bindingName b) True \<Longrightarrow> classOk (b, vs)"
  by auto

lemma classOptional_I:
  "s \<in> set structTable \<Longrightarrow> b = apiObjectBinding (bindingName b) \<Longrightarrow> structName s = bindingName b @ ''Props'' \<Longrightarrow>
   \<not> anyRequired s \<Longrightarrow> vs = apiObjectChecks (bindingName b) False \<Longrightarrow> classOk (b, vs)"
  by auto

lemma filter_isApiObject:
  "filter isApiObject [] = []"
  "filter isApiObject (RegisterStruct n t # gs) = filter isApiObject gs"
  "filter isApiObject (RegisterEnum n t vs # gs) = filter isApiObject gs"
  "filter isApiObject (RegisterClass n t ms k # gs) =
     (if hasPrefix t ''Kube'' then RegisterClass n t ms k # filter isApiObject gs else filter isApiObject gs)"
  by (simp_all add: isApiObject_def)

lemmas class_eval =
  apiObjectBinding_def apiObjectGetters_def apiObjectFunctions_def apiObjectMethods_def apiObjectChecks_def propsChecks_def bindingName.simps append.simps structName.simps
  anyRequired_simps if_True if_False simp_thms not_False_eq_True

lemmas declared_eval = apiObjectInterface_def apiObjectNoChecks_def append.simps

end
