(* ===== verification/KubeClassesA.thy ===== *)
theory KubeClassesA
  imports Bindings K8sTypes
begin

text \<open>
  The classes \<open>KubeApiService\<close> to \<open>KubeCsiDriver\<close> of the Kubernetes bindings: from each file \<open>Kube*.go\<close> the
  interface, the getters of the proxy, the package functions and the methods, then the validators of
  \<open>Kube*__checks.go\<close> and \<open>Kube*__no_checks.go\<close>, and the evaluation of the checks of \<open>Bindings\<close> on each.
\<close>

definition KubeApiService_interface :: interface where
  "KubeApiService_interface = Interface ''KubeApiService'' [''cdk8s.ApiObject'']
   [Sig ''ApiGroup'' [] (Some (GoPtr GoString)), Sig ''ApiVersion'' [] (Some (GoPtr GoString)),
    Sig ''Chart'' [] (Some (GoNamed ''cdk8s.Chart'')), Sig ''Kind'' [] (Some (GoPtr GoString)),
    Sig ''Metadata'' [] (Some (GoNamed ''cdk8s.ApiObjectMetadataDefinition'')),
    Sig ''Name'' [] (Some (GoPtr GoString)), Sig ''Node'' [] (Some (GoNamed ''constructs.Node'')),
    Sig ''AddDependency'' [Rest ''dependencies'' (GoNamed ''constructs.IConstruct'')] None,
    Sig ''AddJsonPatch'' [Rest ''ops'' (GoNamed ''cdk8s.JsonPatch'')] None,
    Sig ''ToJson'' [] (Some GoAny), Sig ''ToString'' [] (Some (GoPtr GoString))]"

definition KubeApiService_getters :: "gofun list" where
  "KubeApiService_getters =
   [Method (Sig ''ApiGroup'' [] (Some (GoPtr GoString))) (Getter ''apiGroup''),
    Method (Sig ''ApiVersion'' [] (Some (GoPtr GoString))) (Getter ''apiVersion''),
    Method (Sig ''Chart'' [] (Some (GoNamed ''cdk8s.Chart''))) (Getter ''chart''),
    Method (Sig ''Kind'' [] (Some (GoPtr GoString))) (Getter ''kind''),
    Method (Sig ''Metadata'' [] (Some (GoNamed ''cdk8s.ApiObjectMetadataDefinition'')))
      (Getter ''metadata''),
    Method (Sig ''Name'' [] (Some (GoPtr GoString))) (Getter ''name''),
    Method (Sig ''Node'' [] (Some (GoNamed ''constructs.Node''))) (Getter ''node'')]"

definition KubeApiService_functions :: "gofun list" where
  "KubeApiService_functions =
   [Func (Sig ''NewKubeApiService'' [
         Param ''scope'' (GoNamed ''constructs.Construct''), Param ''id'' (GoPtr GoString),
         Param ''props'' (GoPtr (GoNamed ''KubeApiServiceProps''))] (Some (GoNamed ''KubeApiService'')))
      (Construct ''k8s.KubeApiService'' [''scope'', ''id'', ''props''] ''validateNewKubeApiServiceParameters''),
    Func (Sig ''NewKubeApiService_Override'' [
         Param ''k'' (GoNamed ''KubeApiService''), Param ''scope'' (GoNamed ''constructs.Construct''),
         Param ''id'' (GoPtr GoString), Param ''props'' (GoPtr (GoNamed ''KubeApiServiceProps''))] None)
      (ConstructOverride ''k8s.KubeApiService'' [''scope'', ''id'', ''props'']),
    Func (Sig ''KubeApiService_IsApiObject'' [Param ''o'' GoAny] (Some (GoPtr GoBool)))
      (StaticCall ''k8s.KubeApiService'' ''isApiObject'' [''o''] ''validateKubeApiService_IsApiObjectParameters''),
    Func (Sig ''KubeApiService_IsConstruct'' [Param ''x'' GoAny] (Some (GoPtr GoBool)))
      (StaticCall ''k8s.KubeApiService'' ''isConstruct'' [''x''] ''validateKubeApiService_IsConstructParameters''),
    Func (Sig ''KubeApiService_Manifest'' [Param ''props'' (GoPtr (GoNamed ''KubeApiServiceProps''))] (Some GoAny))
      (StaticCall ''k8s.KubeApiService'' ''manifest'' [''props''] ''validateKubeApiService_ManifestParameters''),
    Func (Sig ''KubeApiService_Of'' [Param ''c'' (GoNamed ''constructs.IConstruct'')] (Some (GoNamed ''cdk8s.ApiObject'')))
      (StaticCall ''k8s.KubeApiService'' ''of'' [''c''] ''validateKubeApiService_OfParameters''),
    Func (Sig ''KubeApiService_GVK'' [] (Some (GoPtr (GoNamed ''cdk8s.GroupVersionKind''))))
      (StaticProp ''k8s.KubeApiService'' ''GVK'')]"

definition KubeApiService_methods :: "gofun list" where
  "KubeApiService_methods =
   [Method (Sig ''AddDependency'' [Rest ''dependencies'' (GoNamed ''constructs.IConstruct'')] None)
      (Variadic ''addDependency''),
    Method (Sig ''AddJsonPatch'' [Rest ''ops'' (GoNamed ''cdk8s.JsonPatch'')] None)
      (Variadic ''addJsonPatch''),
    Method (Sig ''ToJson'' [] (Some GoAny)) (Plain ''toJson''),
    Method (Sig ''ToString'' [] (Some (GoPtr GoString))) (Plain ''toString'')]"

definition KubeApiService :: binding where
  "KubeApiService = Binding ''KubeApiService'' [''internal.Type__cdk8sApiObject'']
     (KubeApiService_getters @ KubeApiService_functions @ KubeApiService_methods)"

definition KubeApiService_checks :: validators where
  "KubeApiService_checks =
   [(''validateKubeApiService_IsApiObjectParameters'', [NotNil ''o'']),
    (''validateKubeApiService_IsConstructParameters'', [NotNil ''x'']),
    (''validateKubeApiService_ManifestParameters'', [ValidStruct ''props'']),
    (''validateKubeApiService_OfParameters'', [NotNil ''c'']),
    (''validateNewKubeApiServiceParameters'', [NotNil ''scope'', NotNil ''id'', ValidStruct ''props''])]"

definition KubeApiService_no_checks :: validators where
  "KubeApiService_no_checks =
   [(''validateKubeApiService_IsApiObjectParameters'', []),
    (''validateKubeApiService_IsConstructParameters'', []),
    (''validateKubeApiService_ManifestParameters'', []),
    (''validateKubeApiService_OfParameters'', []), (''validateNewKubeApiServiceParameters'', [])]"

lemma KubeApiService_ok [class_checks]: "classOk (KubeApiService, KubeApiService_checks)"
  by (rule classOptional_I [where s = KubeApiServiceProps], simp only: table_members)
    (simp_all only: KubeApiService_def KubeApiService_getters_def KubeApiService_functions_def
      KubeApiService_methods_def KubeApiService_checks_def KubeApiServiceProps_def class_eval)

lemma KubeApiService_declared [class_interfaces]:
  "KubeApiService_interface = apiObjectInterface ''KubeApiService''"
  "KubeApiService_no_checks = apiObjectNoChecks ''KubeApiService''"
  by (simp_all only: KubeApiService_interface_def KubeApiService_no_checks_def declared_eval)

definition KubeApiServiceList_interface :: interface where
  "KubeApiServiceList_interface = Interface ''KubeApiServiceList'' [''cdk8s.ApiObject'']
   [Sig ''ApiGroup'' [] (Some (GoPtr GoString)), Sig ''ApiVersion'' [] (Some (GoPtr GoString)),
    Sig ''Chart'' [] (Some (GoNamed ''cdk8s.Chart'')), Sig ''Kind'' [] (Some (GoPtr GoString)),
    Sig ''Metadata'' [] (Some (GoNamed ''cdk8s.ApiObjectMetadataDefinition'')),
    Sig ''Name'' [] (Some (GoPtr GoString)), Sig ''Node'' [] (Some (GoNamed ''constructs.Node'')),
    Sig ''AddDependency'' [Rest ''dependencies'' (GoNamed ''constructs.IConstruct'')] None,
    Sig ''AddJsonPatch'' [Rest ''ops'' (GoNamed ''cdk8s.JsonPatch'')] None,
    Sig ''ToJson'' [] (Some GoAny), Sig ''ToString'' [] (Some (GoPtr GoString))]"

definition KubeApiServiceList_getters :: "gofun list" where
  "KubeApiServiceList_getters =
   [Method (Sig ''ApiGroup'' [] (Some (GoPtr GoString))) (Getter ''apiGroup''),
    Method (Sig ''ApiVersion'' [] (Some (GoPtr GoString))) (Getter ''apiVersion''),
    Method (Sig ''Chart'' [] (Some (GoNamed ''cdk8s.Chart''))) (Getter ''chart''),
    Method (Sig ''Kind'' [] (Some (GoPtr GoString))) (Getter ''kind''),
    Method (Sig ''Metadata'' [] (Some (GoNamed ''cdk8s.ApiObjectMetadataDefinition'')))
      (Getter ''metadata''),
    Method (Sig ''Name'' [] (Some (GoPtr GoString))) (Getter ''name''),
    Method (Sig ''Node'' [] (Some (GoNamed ''constructs.Node''))) (Getter ''node'')]"

definition KubeApiServiceList_functions :: "gofun list" where
  "KubeApiServiceList_functions =
   [Func (Sig ''NewKubeApiServiceList'' [
         Param ''scope'' (GoNamed ''constructs.Construct''), Param ''id'' (GoPtr GoString),
         Param ''props'' (GoPtr (GoNamed ''KubeApiServiceListProps''))] (Some (GoNamed ''KubeApiServiceList'')))
      (Construct ''k8s.KubeApiServiceList'' [''scope'', ''id'', ''props''] ''validateNewKubeApiServiceListParameters''),
    Func (Sig ''NewKubeApiServiceList_Override'' [
         Param ''k'' (GoNamed ''KubeApiServiceList''),
         Param ''scope'' (GoNamed ''constructs.Construct''), Param ''id'' (GoPtr GoString),
         Param ''props'' (GoPtr (GoNamed ''KubeApiServiceListProps''))] None)
      (ConstructOverride ''k8s.KubeApiServiceList'' [''scope'', ''id'', ''props'']),
    Func (Sig ''KubeApiServiceList_IsApiObject'' [Param ''o'' GoAny] (Some (GoPtr GoBool)))
      (StaticCall ''k8s.KubeApiServiceList'' ''isApiObject'' [''o''] ''validateKubeApiServiceList_IsApiObjectParameters''),
    Func (Sig ''KubeApiServiceList_IsConstruct'' [Param ''x'' GoAny] (Some (GoPtr GoBool)))
      (StaticCall ''k8s.KubeApiServiceList'' ''isConstruct'' [''x''] ''validateKubeApiServiceList_IsConstructParameters''),
    Func (Sig ''KubeApiServiceList_Manifest'' [Param ''props'' (GoPtr (GoNamed ''KubeApiServiceListProps''))] (Some GoAny))
      (StaticCall ''k8s.KubeApiServiceList'' ''manifest'' [''props''] ''validateKubeApiServiceList_ManifestParameters''),
    Func (Sig ''KubeApiServiceList_Of'' [Param ''c'' (GoNamed ''constructs.IConstruct'')] (Some (GoNamed ''cdk8s.ApiObject'')))
      (StaticCall ''k8s.KubeApiServiceList'' ''of'' [''c''] ''validateKubeApiServiceList_OfParameters''),
    Func (Sig ''KubeApiServiceList_GVK'' [] (Some (GoPtr (GoNamed ''cdk8s.GroupVersionKind''))))
      (StaticProp ''k8s.KubeApiServiceList'' ''GVK'')]"

definition KubeApiServiceList_methods :: "gofun list" where
  "KubeApiServiceList_methods =
   [Method (Sig ''AddDependency'' [Rest ''dependencies'' (GoNamed ''constructs.IConstruct'')] None)
      (Variadic ''addDependency''),
    Method (Sig ''AddJsonPatch'' [Rest ''ops'' (GoNamed ''cdk8s.JsonPatch'')] None)
      (Variadic ''addJsonPatch''),
    Method (Sig ''ToJson'' [] (Some GoAny)) (Plain ''toJson''),
    Method (Sig ''ToString'' [] (Some (GoPtr GoString))) (Plain ''toString'')]"

definition KubeApiServiceList :: binding where
  "KubeApiServiceList = Binding ''KubeApiServiceList'' [''internal.Type__cdk8sApiObject'']
     (KubeApiServiceList_getters @ KubeApiServiceList_functions @ KubeApiServiceList_methods)"

definition KubeApiServiceList_checks :: validators where
  "KubeApiServiceList_checks =
   [(''validateKubeApiServiceList_IsApiObjectParameters'', [NotNil ''o'']),
    (''validateKubeApiServiceList_IsConstructParameters'', [NotNil ''x'']),
    (''validateKubeApiServiceList_ManifestParameters'', [NotNil ''props'', ValidStruct ''props'']),
    (''validateKubeApiServiceList_OfParameters'', [NotNil ''c'']),
    (''validateNewKubeApiServiceListParameters'', [NotNil ''scope'', NotNil ''id'', NotNil ''props'', ValidStruct ''props''])]"

definition KubeApiServiceList_no_checks :: validators where
  "KubeApiServiceList_no_checks =
   [(''validateKubeApiServiceList_IsApiObjectParameters'', []),
    (''validateKubeApiServiceList_IsConstructParameters'', []),
    (''validateKubeApiServiceList_ManifestParameters'', []),
    (''validateKubeApiServiceList_OfParameters'', []),
    (''validateNewKubeApiServiceListParameters'', [])]"

lemma KubeApiServiceList_ok [class_checks]: "classOk (KubeApiServiceList, KubeApiServiceList_checks)"
  by (rule classRequired_I [where s = KubeApiServiceListProps], simp only: table_members)
    (simp_all only: KubeApiServiceList_def KubeApiServiceList_getters_def KubeApiServiceList_functions_def
      KubeApiServiceList_methods_def KubeApiServiceList_checks_def KubeApiServiceListProps_def class_eval)

lemma KubeApiServiceList_declared [class_interfaces]:
  "KubeApiServiceList_interface = apiObjectInterface ''KubeApiServiceList''"
  "KubeApiServiceList_no_checks = apiObjectNoChecks ''KubeApiServiceList''"
  by (simp_all only: KubeApiServiceList_interface_def KubeApiServiceList_no_checks_def declared_eval)

definition KubeBinding_interface :: interface where
  "KubeBinding_interface = Interface ''KubeBinding'' [''cdk8s.ApiObject'']
   [Sig ''ApiGroup'' [] (Some (GoPtr GoString)), Sig ''ApiVersion'' [] (Some (GoPtr GoString)),
    Sig ''Chart'' [] (Some (GoNamed ''cdk8s.Chart'')), Sig ''Kind'' [] (Some (GoPtr GoString)),
    Sig ''Metadata'' [] (Some (GoNamed ''cdk8s.ApiObjectMetadataDefinition'')),
    Sig ''Name'' [] (Some (GoPtr GoString)), Sig ''Node'' [] (Some (GoNamed ''constructs.Node'')),
    Sig ''AddDependency'' [Rest ''dependencies'' (GoNamed ''constructs.IConstruct'')] None,
    Sig ''AddJsonPatch'' [Rest ''ops'' (GoNamed ''cdk8s.JsonPatch'')] None,
    Sig ''ToJson'' [] (Some GoAny), Sig ''ToString'' [] (Some (GoPtr GoString))]"

definition KubeBinding_getters :: "gofun list" where
  "KubeBinding_getters =
   [Method (Sig ''ApiGroup'' [] (Some (GoPtr GoString))) (Getter ''apiGroup''),
    Method (Sig ''ApiVersion'' [] (Some (GoPtr GoString))) (Getter ''apiVersion''),
    Method (Sig ''Chart'' [] (Some (GoNamed ''cdk8s.Chart''))) (Getter ''chart''),
    Method (Sig ''Kind'' [] (Some (GoPtr GoString))) (Getter ''kind''),
    Method (Sig ''Metadata'' [] (Some (GoNamed ''cdk8s.ApiObjectMetadataDefinition'')))
      (Getter ''metadata''),
    Method (Sig ''Name'' [] (Some (GoPtr GoString))) (Getter ''name''),
    Method (Sig ''Node'' [] (Some (GoNamed ''constructs.Node''))) (Getter ''node'')]"

definition KubeBinding_functions :: "gofun list" where
  "KubeBinding_functions =
   [Func (Sig ''NewKubeBinding'' [
         Param ''scope'' (GoNamed ''constructs.Construct''), Param ''id'' (GoPtr GoString),
         Param ''props'' (GoPtr (GoNamed ''KubeBindingProps''))] (Some (GoNamed ''KubeBinding'')))
      (Construct ''k8s.KubeBinding'' [''scope'', ''id'', ''props''] ''validateNewKubeBindingParameters''),
    Func (Sig ''NewKubeBinding_Override'' [
         Param ''k'' (GoNamed ''KubeBinding''), Param ''scope'' (GoNamed ''constructs.Construct''),
         Param ''id'' (GoPtr GoString), Param ''props'' (GoPtr (GoNamed ''KubeBindingProps''))] None)
      (ConstructOverride ''k8s.KubeBinding'' [''scope'', ''id'', ''props'']),
    Func (Sig ''KubeBinding_IsApiObject'' [Param ''o'' GoAny] (Some (GoPtr GoBool)))
      (StaticCall ''k8s.KubeBinding'' ''isApiObject'' [''o''] ''validateKubeBinding_IsApiObjectParameters''),
    Func (Sig ''KubeBinding_IsConstruct'' [Param ''x'' GoAny] (Some (GoPtr GoBool)))
      (StaticCall ''k8s.KubeBinding'' ''isConstruct'' [''x''] ''validateKubeBinding_IsConstructParameters''),
    Func (Sig ''KubeBinding_Manifest'' [Param ''props'' (GoPtr (GoNamed ''KubeBindingProps''))] (Some GoAny))
      (StaticCall ''k8s.KubeBinding'' ''manifest'' [''props''] ''validateKubeBinding_ManifestParameters''),
    Func (Sig ''KubeBinding_Of'' [Param ''c'' (GoNamed ''constructs.IConstruct'')] (Some (GoNamed ''cdk8s.ApiObject'')))
      (StaticCall ''k8s.KubeBinding'' ''of'' [''c''] ''validateKubeBinding_OfParameters''),
    Func (Sig ''KubeBinding_GVK'' [] (Some (GoPtr (GoNamed ''cdk8s.GroupVersionKind''))))
      (StaticProp ''k8s.KubeBinding'' ''GVK'')]"

definition KubeBinding_methods :: "gofun list" where
  "KubeBinding_methods =
   [Method (Sig ''AddDependency'' [Rest ''dependencies'' (GoNamed ''constructs.IConstruct'')] None)
      (Variadic ''addDependency''),
    Method (Sig ''AddJsonPatch'' [Rest ''ops'' (GoNamed ''cdk8s.JsonPatch'')] None)
      (Variadic ''addJsonPatch''),
    Method (Sig ''ToJson'' [] (Some GoAny)) (Plain ''toJson''),
    Method (Sig ''ToString'' [] (Some (GoPtr GoString))) (Plain ''toString'')]"

definition KubeBinding :: binding where
  "KubeBinding = Binding ''KubeBinding'' [''internal.Type__cdk8sApiObject'']
     (KubeBinding_getters @ KubeBinding_functions @ KubeBinding_methods)"

definition KubeBinding_checks :: validators where
  "KubeBinding_checks =
   [(''validateKubeBinding_IsApiObjectParameters'', [NotNil ''o'']),
    (''validateKubeBinding_IsConstructParameters'', [NotNil ''x'']),
    (''validateKubeBinding_ManifestParameters'', [NotNil ''props'', ValidStruct ''props'']),
    (''validateKubeBinding_OfParameters'', [NotNil ''c'']),
    (''validateNewKubeBindingParameters'', [NotNil ''scope'', NotNil ''id'', NotNil ''props'', ValidStruct ''props''])]"

definition KubeBinding_no_checks :: validators where
  "KubeBinding_no_checks =
   [(''validateKubeBinding_IsApiObjectParameters'', []),
    (''validateKubeBinding_IsConstructParameters'', []),
    (''validateKubeBinding_ManifestParameters'', []), (''validateKubeBinding_OfParameters'', []),
    (''validateNewKubeBindingParameters'', [])]"

lemma KubeBinding_ok [class_checks]: "classOk (KubeBinding, KubeBinding_checks)"
  by (rule classRequired_I [where s = KubeBindingProps], simp only: table_members)
    (simp_all only: KubeBinding_def KubeBinding_getters_def KubeBinding_functions_def
      KubeBinding_methods_def KubeBinding_checks_def KubeBindingProps_def class_eval)

lemma KubeBinding_declared [class_interfaces]:
  "KubeBinding_interface = apiObjectInterface ''KubeBinding''"
  "KubeBinding_no_checks = apiObjectNoChecks ''KubeBinding''"
  by (simp_all only: KubeBinding_interface_def KubeBinding_no_checks_def declared_eval)

definition KubeCertificateSigningRequest_interface :: interface where
  "KubeCertificateSigningRequest_interface = Interface ''KubeCertificateSigningRequest'' [''cdk8s.ApiObject'']
   [Sig ''ApiGroup'' [] (Some (GoPtr GoString)), Sig ''ApiVersion'' [] (Some (GoPtr GoString)),
    Sig ''Chart'' [] (Some (GoNamed ''cdk8s.Chart'')), Sig ''Kind'' [] (Some (GoPtr GoString)),
    Sig ''Metadata'' [] (Some (GoNamed ''cdk8s.ApiObjectMetadataDefinition'')),
    Sig ''Name'' [] (Some (GoPtr GoString)), Sig ''Node'' [] (Some (GoNamed ''constructs.Node'')),
    Sig ''AddDependency'' [Rest ''dependencies'' (GoNamed ''constructs.IConstruct'')] None,
    Sig ''AddJsonPatch'' [Rest ''ops'' (GoNamed ''cdk8s.JsonPatch'')] None,
    Sig ''ToJson'' [] (Some GoAny), Sig ''ToString'' [] (Some (GoPtr GoString))]"

definition KubeCertificateSigningRequest_getters :: "gofun list" where
  "KubeCertificateSigningRequest_getters =
   [Method (Sig ''ApiGroup'' [] (Some (GoPtr GoString))) (Getter ''apiGroup''),
    Method (Sig ''ApiVersion'' [] (Some (GoPtr GoString))) (Getter ''apiVersion''),
    Method (Sig ''Chart'' [] (Some (GoNamed ''cdk8s.Chart''))) (Getter ''chart''),
    Method (Sig ''Kind'' [] (Some (GoPtr GoString))) (Getter ''kind''),
    Method (Sig ''Metadata'' [] (Some (GoNamed ''cdk8s.ApiObjectMetadataDefinition'')))
      (Getter ''metadata''),
    Method (Sig ''Name'' [] (Some (GoPtr GoString))) (Getter ''name''),
    Method (Sig ''Node'' [] (Some (GoNamed ''constructs.Node''))) (Getter ''node'')]"

definition KubeCertificateSigningRequest_functions :: "gofun list" where
  "KubeCertificateSigningRequest_functions =
   [Func (Sig ''NewKubeCertificateSigningRequest'' [
         Param ''scope'' (GoNamed ''constructs.Construct''), Param ''id'' (GoPtr GoString),
         Param ''props'' (GoPtr (GoNamed ''KubeCertificateSigningRequestProps''))] (Some (GoNamed ''KubeCertificateSigningRequest'')))
      (Construct ''k8s.KubeCertificateSigningRequest'' [''scope'', ''id'', ''props''] ''validateNewKubeCertificateSigningRequestParameters''),
    Func (Sig ''NewKubeCertificateSigningRequest_Override'' [
         Param ''k'' (GoNamed ''KubeCertificateSigningRequest''),
         Param ''scope'' (GoNamed ''constructs.Construct''), Param ''id'' (GoPtr GoString),
         Param ''props'' (GoPtr (GoNamed ''KubeCertificateSigningRequestProps''))] None)
      (ConstructOverride ''k8s.KubeCertificateSigningRequest'' [''scope'', ''id'', ''props'']),
    Func (Sig ''KubeCertificateSigningRequest_IsApiObject'' [Param ''o'' GoAny] (Some (GoPtr GoBool)))
      (StaticCall ''k8s.KubeCertificateSigningRequest'' ''isApiObject'' [''o''] ''validateKubeCertificateSigningRequest_IsApiObjectParameters''),
    Func (Sig ''KubeCertificateSigningRequest_IsConstruct'' [Param ''x'' GoAny] (Some (GoPtr GoBool)))
      (StaticCall ''k8s.KubeCertificateSigningRequest'' ''isConstruct'' [''x''] ''validateKubeCertificateSigningRequest_IsConstructParameters''),
    Func (Sig ''KubeCertificateSigningRequest_Manifest'' [Param ''props'' (GoPtr (GoNamed ''KubeCertificateSigningRequestProps''))] (Some GoAny))
      (StaticCall ''k8s.KubeCertificateSigningRequest'' ''manifest'' [''props''] ''validateKubeCertificateSigningRequest_ManifestParameters''),
    Func (Sig ''KubeCertificateSigningRequest_Of'' [Param ''c'' (GoNamed ''constructs.IConstruct'')] (Some (GoNamed ''cdk8s.ApiObject'')))
      (StaticCall ''k8s.KubeCertificateSigningRequest'' ''of'' [''c''] ''validateKubeCertificateSigningRequest_OfParameters''),
    Func (Sig ''KubeCertificateSigningRequest_GVK'' [] (Some (GoPtr (GoNamed ''cdk8s.GroupVersionKind''))))
      (StaticProp ''k8s.KubeCertificateSigningRequest'' ''GVK'')]"

definition KubeCertificateSigningRequest_methods :: "gofun list" where
  "KubeCertificateSigningRequest_methods =
   [Method (Sig ''AddDependency'' [Rest ''dependencies'' (GoNamed ''constructs.IConstruct'')] None)
      (Variadic ''addDependency''),
    Method (Sig ''AddJsonPatch'' [Rest ''ops'' (GoNamed ''cdk8s.JsonPatch'')] None)
      (Variadic ''addJsonPatch''),
    Method (Sig ''ToJson'' [] (Some GoAny)) (Plain ''toJson''),
    Method (Sig ''ToString'' [] (Some (GoPtr GoString))) (Plain ''toString'')]"

definition KubeCertificateSigningRequest :: binding where
  "KubeCertificateSigningRequest = Binding ''KubeCertificateSigningRequest'' [''internal.Type__cdk8sApiObject'']
     (KubeCertificateSigningRequest_getters @ KubeCertificateSigningRequest_functions @ KubeCertificateSigningRequest_methods)"

definition KubeCertificateSigningRequest_checks :: validators where
  "KubeCertificateSigningRequest_checks =
   [(''validateKubeCertificateSigningRequest_IsApiObjectParameters'', [NotNil ''o'']),
    (''validateKubeCertificateSigningRequest_IsConstructParameters'', [NotNil ''x'']),
    (''validateKubeCertificateSigningRequest_ManifestParameters'', [NotNil ''props'', ValidStruct ''props'']),
    (''validateKubeCertificateSigningRequest_OfParameters'', [NotNil ''c'']),
    (''validateNewKubeCertificateSigningRequestParameters'', [NotNil ''scope'', NotNil ''id'', NotNil ''props'', ValidStruct ''props''])]"

definition KubeCertificateSigningRequest_no_checks :: validators where
  "KubeCertificateSigningRequest_no_checks =
   [(''validateKubeCertificateSigningRequest_IsApiObjectParameters'', []),
    (''validateKubeCertificateSigningRequest_IsConstructParameters'', []),
    (''validateKubeCertificateSigningRequest_ManifestParameters'', []),
    (''validateKubeCertificateSigningRequest_OfParameters'', []),
    (''validateNewKubeCertificateSigningRequestParameters'', [])]"

lemma KubeCertificateSigningRequest_ok [class_checks]: "classOk (KubeCertificateSigningRequest, KubeCertificateSigningRequest_checks)"
  by (rule classRequired_I [where s = KubeCertificateSigningRequestProps], simp only: table_members)
    (simp_all only: KubeCertificateSigningRequest_def KubeCertificateSigningRequest_getters_def KubeCertificateSigningRequest_functions_def
      KubeCertificateSigningRequest_methods_def KubeCertificateSigningRequest_checks_def KubeCertificateSigningRequestProps_def class_eval)

lemma KubeCertificateSigningRequest_declared [class_interfaces]:
  "KubeCertificateSigningRequest_interface = apiObjectInterface ''KubeCertificateSigningRequest''"
  "KubeCertificateSigningRequest_no_checks = apiObjectNoChecks ''KubeCertificateSigningRequest''"
  by (simp_all only: KubeCertificateSigningRequest_interface_def KubeCertificateSigningRequest_no_checks_def declared_eval)

definition KubeCertificateSigningRequestList_interface :: interface where
  "KubeCertificateSigningRequestList_interface = Interface ''KubeCertificateSigningRequestList'' [''cdk8s.ApiObject'']
   [Sig ''ApiGroup'' [] (Some (GoPtr GoString)), Sig ''ApiVersion'' [] (Some (GoPtr GoString)),
    Sig ''Chart'' [] (Some (GoNamed ''cdk8s.Chart'')), Sig ''Kind'' [] (Some (GoPtr GoString)),
    Sig ''Metadata'' [] (Some (GoNamed ''cdk8s.ApiObjectMetadataDefinition'')),
    Sig ''Name'' [] (Some (GoPtr GoString)), Sig ''Node'' [] (Some (GoNamed ''constructs.Node'')),
    Sig ''AddDependency'' [Rest ''dependencies'' (GoNamed ''constructs.IConstruct'')] None,
    Sig ''AddJsonPatch'' [Rest ''ops'' (GoNamed ''cdk8s.JsonPatch'')] None,
    Sig ''ToJson'' [] (Some GoAny), Sig ''ToString'' [] (Some (GoPtr GoString))]"

definition KubeCertificateSigningRequestList_getters :: "gofun list" where
  "KubeCertificateSigningRequestList_getters =
   [Method (Sig ''ApiGroup'' [] (Some (GoPtr GoString))) (Getter ''apiGroup''),
    Method (Sig ''ApiVersion'' [] (Some (GoPtr GoString))) (Getter ''apiVersion''),
    Method (Sig ''Chart'' [] (Some (GoNamed ''cdk8s.Chart''))) (Getter ''chart''),
    Method (Sig ''Kind'' [] (Some (GoPtr GoString))) (Getter ''kind''),
    Method (Sig ''Metadata'' [] (Some (GoNamed ''cdk8s.ApiObjectMetadataDefinition'')))
      (Getter ''metadata''),
    Method (Sig ''Name'' [] (Some (GoPtr GoString))) (Getter ''name''),
    Method (Sig ''Node'' [] (Some (GoNamed ''constructs.Node''))) (Getter ''node'')]"

definition KubeCertificateSigningRequestList_functions :: "gofun list" where
  "KubeCertificateSigningRequestList_functions =
   [Func (Sig ''NewKubeCertificateSigningRequestList'' [
         Param ''scope'' (GoNamed ''constructs.Construct''), Param ''id'' (GoPtr GoString),
         Param ''props'' (GoPtr (GoNamed ''KubeCertificateSigningRequestListProps''))] (Some (GoNamed ''KubeCertificateSigningRequestList'')))
      (Construct ''k8s.KubeCertificateSigningRequestList'' [''scope'', ''id'', ''props''] ''validateNewKubeCertificateSigningRequestListParameters''),
    Func (Sig ''NewKubeCertificateSigningRequestList_Override'' [
         Param ''k'' (GoNamed ''KubeCertificateSigningRequestList''),
         Param ''scope'' (GoNamed ''constructs.Construct''), Param ''id'' (GoPtr GoString),
         Param ''props'' (GoPtr (GoNamed ''KubeCertificateSigningRequestListProps''))] None)
      (ConstructOverride ''k8s.KubeCertificateSigningRequestList'' [''scope'', ''id'', ''props'']),
    Func (Sig ''KubeCertificateSigningRequestList_IsApiObject'' [Param ''o'' GoAny] (Some (GoPtr GoBool)))
      (StaticCall ''k8s.KubeCertificateSigningRequestList'' ''isApiObject'' [''o''] ''validateKubeCertificateSigningRequestList_IsApiObjectParameters''),
    Func (Sig ''KubeCertificateSigningRequestList_IsConstruct'' [Param ''x'' GoAny] (Some (GoPtr GoBool)))
      (StaticCall ''k8s.KubeCertificateSigningRequestList'' ''isConstruct'' [''x''] ''validateKubeCertificateSigningRequestList_IsConstructParameters''),
    Func (Sig ''KubeCertificateSigningRequestList_Manifest'' [Param ''props'' (GoPtr (GoNamed ''KubeCertificateSigningRequestListProps''))] (Some GoAny))
      (StaticCall ''k8s.KubeCertificateSigningRequestList'' ''manifest'' [''props''] ''validateKubeCertificateSigningRequestList_ManifestParameters''),
    Func (Sig ''KubeCertificateSigningRequestList_Of'' [Param ''c'' (GoNamed ''constructs.IConstruct'')] (Some (GoNamed ''cdk8s.ApiObject'')))
      (StaticCall ''k8s.KubeCertificateSigningRequestList'' ''of'' [''c''] ''validateKubeCertificateSigningRequestList_OfParameters''),
    Func (Sig ''KubeCertificateSigningRequestList_GVK'' [] (Some (GoPtr (GoNamed ''cdk8s.GroupVersionKind''))))
      (StaticProp ''k8s.KubeCertificateSigningRequestList'' ''GVK'')]"

definition KubeCertificateSigningRequestList_methods :: "gofun list" where
  "KubeCertificateSigningRequestList_methods =
   [Method (Sig ''AddDependency'' [Rest ''dependencies'' (GoNamed ''constructs.IConstruct'')] None)
      (Variadic ''addDependency''),
    Method (Sig ''AddJsonPatch'' [Rest ''ops'' (GoNamed ''cdk8s.JsonPatch'')] None)
      (Variadic ''addJsonPatch''),
    Method (Sig ''ToJson'' [] (Some GoAny)) (Plain ''toJson''),
    Method (Sig ''ToString'' [] (Some (GoPtr GoString))) (Plain ''toString'')]"

definition KubeCertificateSigningRequestList :: binding where
  "KubeCertificateSigningRequestList = Binding ''KubeCertificateSigningRequestList'' [''internal.Type__cdk8sApiObject'']
     (KubeCertificateSigningRequestList_getters @ KubeCertificateSigningRequestList_functions @ KubeCertificateSigningRequestList_methods)"

definition KubeCertificateSigningRequestList_checks :: validators where
  "KubeCertificateSigningRequestList_checks =
   [(''validateKubeCertificateSigningRequestList_IsApiObjectParameters'', [NotNil ''o'']),
    (''validateKubeCertificateSigningRequestList_IsConstructParameters'', [NotNil ''x'']),
    (''validateKubeCertificateSigningRequestList_ManifestParameters'', [NotNil ''props'', ValidStruct ''props'']),
    (''validateKubeCertificateSigningRequestList_OfParameters'', [NotNil ''c'']),
    (''validateNewKubeCertificateSigningRequestListParameters'', [NotNil ''scope'', NotNil ''id'', NotNil ''props'', ValidStruct ''props''])]"

definition KubeCertificateSigningRequestList_no_checks :: validators where
  "KubeCertificateSigningRequestList_no_checks =
   [(''validateKubeCertificateSigningRequestList_IsApiObjectParameters'', []),
    (''validateKubeCertificateSigningRequestList_IsConstructParameters'', []),
    (''validateKubeCertificateSigningRequestList_ManifestParameters'', []),
    (''validateKubeCertificateSigningRequestList_OfParameters'', []),
    (''validateNewKubeCertificateSigningRequestListParameters'', [])]"

lemma KubeCertificateSigningRequestList_ok [class_checks]: "classOk (KubeCertificateSigningRequestList, KubeCertificateSigningRequestList_checks)"
  by (rule classRequired_I [where s = KubeCertificateSigningRequestListProps], simp only: table_members)
    (simp_all only: KubeCertificateSigningRequestList_def KubeCertificateSigningRequestList_getters_def KubeCertificateSigningRequestList_functions_def
      KubeCertificateSigningRequestList_methods_def KubeCertificateSigningRequestList_checks_def KubeCertificateSigningRequestListProps_def class_eval)

lemma KubeCertificateSigningRequestList_declared [class_interfaces]:
  "KubeCertificateSigningRequestList_interface = apiObjectInterface ''KubeCertificateSigningRequestList''"
  "KubeCertificateSigningRequestList_no_checks = apiObjectNoChecks ''KubeCertificateSigningRequestList''"
  by (simp_all only: KubeCertificateSigningRequestList_interface_def KubeCertificateSigningRequestList_no_checks_def declared_eval)

definition KubeClusterCidrListV1Alpha1_interface :: interface where
  "KubeClusterCidrListV1Alpha1_interface = Interface ''KubeClusterCidrListV1Alpha1'' [''cdk8s.ApiObject'']
   [Sig ''ApiGroup'' [] (Some (GoPtr GoString)), Sig ''ApiVersion'' [] (Some (GoPtr GoString)),
    Sig ''Chart'' [] (Some (GoNamed ''cdk8s.Chart'')), Sig ''Kind'' [] (Some (GoPtr GoString)),
    Sig ''Metadata'' [] (Some (GoNamed ''cdk8s.ApiObjectMetadataDefinition'')),
    Sig ''Name'' [] (Some (GoPtr GoString)), Sig ''Node'' [] (Some (GoNamed ''constructs.Node'')),
    Sig ''AddDependency'' [Rest ''dependencies'' (GoNamed ''constructs.IConstruct'')] None,
    Sig ''AddJsonPatch'' [Rest ''ops'' (GoNamed ''cdk8s.JsonPatch'')] None,
    Sig ''ToJson'' [] (Some GoAny), Sig ''ToString'' [] (Some (GoPtr GoString))]"

definition KubeClusterCidrListV1Alpha1_getters :: "gofun list" where
  "KubeClusterCidrListV1Alpha1_getters =
   [Method (Sig ''ApiGroup'' [] (Some (GoPtr GoString))) (Getter ''apiGroup''),
    Method (Sig ''ApiVersion'' [] (Some (GoPtr GoString))) (Getter ''apiVersion''),
    Method (Sig ''Chart'' [] (Some (GoNamed ''cdk8s.Chart''))) (Getter ''chart''),
    Method (Sig ''Kind'' [] (Some (GoPtr GoString))) (Getter ''kind''),
    Method (Sig ''Metadata'' [] (Some (GoNamed ''cdk8s.ApiObjectMetadataDefinition'')))
      (Getter ''metadata''),
    Method (Sig ''Name'' [] (Some (GoPtr GoString))) (Getter ''name''),
    Method (Sig ''Node'' [] (Some (GoNamed ''constructs.Node''))) (Getter ''node'')]"

definition KubeClusterCidrListV1Alpha1_functions :: "gofun list" where
  "KubeClusterCidrListV1Alpha1_functions =
   [Func (Sig ''NewKubeClusterCidrListV1Alpha1'' [
         Param ''scope'' (GoNamed ''constructs.Construct''), Param ''id'' (GoPtr GoString),
         Param ''props'' (GoPtr (GoNamed ''KubeClusterCidrListV1Alpha1Props''))] (Some (GoNamed ''KubeClusterCidrListV1Alpha1'')))
      (Construct ''k8s.KubeClusterCidrListV1Alpha1'' [''scope'', ''id'', ''props''] ''validateNewKubeClusterCidrListV1Alpha1Parameters''),
    Func (Sig ''NewKubeClusterCidrListV1Alpha1_Override'' [
         Param ''k'' (GoNamed ''KubeClusterCidrListV1Alpha1''),
         Param ''scope'' (GoNamed ''constructs.Construct''), Param ''id'' (GoPtr GoString),
         Param ''props'' (GoPtr (GoNamed ''KubeClusterCidrListV1Alpha1Props''))] None)
      (ConstructOverride ''k8s.KubeClusterCidrListV1Alpha1'' [''scope'', ''id'', ''props'']),
    Func (Sig ''KubeClusterCidrListV1Alpha1_IsApiObject'' [Param ''o'' GoAny] (Some (GoPtr GoBool)))
      (StaticCall ''k8s.KubeClusterCidrListV1Alpha1'' ''isApiObject'' [''o''] ''validateKubeClusterCidrListV1Alpha1_IsApiObjectParameters''),
    Func (Sig ''KubeClusterCidrListV1Alpha1_IsConstruct'' [Param ''x'' GoAny] (Some (GoPtr GoBool)))
      (StaticCall ''k8s.KubeClusterCidrListV1Alpha1'' ''isConstruct'' [''x''] ''validateKubeClusterCidrListV1Alpha1_IsConstructParameters''),
    Func (Sig ''KubeClusterCidrListV1Alpha1_Manifest'' [Param ''props'' (GoPtr (GoNamed ''KubeClusterCidrListV1Alpha1Props''))] (Some GoAny))
      (StaticCall ''k8s.KubeClusterCidrListV1Alpha1'' ''manifest'' [''props''] ''validateKubeClusterCidrListV1Alpha1_ManifestParameters''),
    Func (Sig ''KubeClusterCidrListV1Alpha1_Of'' [Param ''c'' (GoNamed ''constructs.IConstruct'')] (Some (GoNamed ''cdk8s.ApiObject'')))
      (StaticCall ''k8s.KubeClusterCidrListV1Alpha1'' ''of'' [''c''] ''validateKubeClusterCidrListV1Alpha1_OfParameters''),
    Func (Sig ''KubeClusterCidrListV1Alpha1_GVK'' [] (Some (GoPtr (GoNamed ''cdk8s.GroupVersionKind''))))
      (StaticProp ''k8s.KubeClusterCidrListV1Alpha1'' ''GVK'')]"

definition KubeClusterCidrListV1Alpha1_methods :: "gofun list" where
  "KubeClusterCidrListV1Alpha1_methods =
   [Method (Sig ''AddDependency'' [Rest ''dependencies'' (GoNamed ''constructs.IConstruct'')] None)
      (Variadic ''addDependency''),
    Method (Sig ''AddJsonPatch'' [Rest ''ops'' (GoNamed ''cdk8s.JsonPatch'')] None)
      (Variadic ''addJsonPatch''),
    Method (Sig ''ToJson'' [] (Some GoAny)) (Plain ''toJson''),
    Method (Sig ''ToString'' [] (Some (GoPtr GoString))) (Plain ''toString'')]"

definition KubeClusterCidrListV1Alpha1 :: binding where
  "KubeClusterCidrListV1Alpha1 = Binding ''KubeClusterCidrListV1Alpha1'' [''internal.Type__cdk8sApiObject'']
     (KubeClusterCidrListV1Alpha1_getters @ KubeClusterCidrListV1Alpha1_functions @ KubeClusterCidrListV1Alpha1_methods)"

definition KubeClusterCidrListV1Alpha1_checks :: validators where
  "KubeClusterCidrListV1Alpha1_checks =
   [(''validateKubeClusterCidrListV1Alpha1_IsApiObjectParameters'', [NotNil ''o'']),
    (''validateKubeClusterCidrListV1Alpha1_IsConstructParameters'', [NotNil ''x'']),
    (''validateKubeClusterCidrListV1Alpha1_ManifestParameters'', [NotNil ''props'', ValidStruct ''props'']),
    (''validateKubeClusterCidrListV1Alpha1_OfParameters'', [NotNil ''c'']),
    (''validateNewKubeClusterCidrListV1Alpha1Parameters'', [NotNil ''scope'', NotNil ''id'', NotNil ''props'', ValidStruct ''props''])]"

definition KubeClusterCidrListV1Alpha1_no_checks :: validators where
  "KubeClusterCidrListV1Alpha1_no_checks =
   [(''validateKubeClusterCidrListV1Alpha1_IsApiObjectParameters'', []),
    (''validateKubeClusterCidrListV1Alpha1_IsConstructParameters'', []),
    (''validateKubeClusterCidrListV1Alpha1_ManifestParameters'', []),
    (''validateKubeClusterCidrListV1Alpha1_OfParameters'', []),
    (''validateNewKubeClusterCidrListV1Alpha1Parameters'', [])]"

lemma KubeClusterCidrListV1Alpha1_ok [class_checks]: "classOk (KubeClusterCidrListV1Alpha1, KubeClusterCidrListV1Alpha1_checks)"
  by (rule classRequired_I [where s = KubeClusterCidrListV1Alpha1Props], simp only: table_members)
    (simp_all only: KubeClusterCidrListV1Alpha1_def KubeClusterCidrListV1Alpha1_getters_def KubeClusterCidrListV1Alpha1_functions_def
      KubeClusterCidrListV1Alpha1_methods_def KubeClusterCidrListV1Alpha1_checks_def KubeClusterCidrListV1Alpha1Props_def class_eval)

lemma KubeClusterCidrListV1Alpha1_declared [class_interfaces]:
  "KubeClusterCidrListV1Alpha1_interface = apiObjectInterface ''KubeClusterCidrListV1Alpha1''"
  "KubeClusterCidrListV1Alpha1_no_checks = apiObjectNoChecks ''KubeClusterCidrListV1Alpha1''"
  by (simp_all only: KubeClusterCidrListV1Alpha1_interface_def KubeClusterCidrListV1Alpha1_no_checks_def declared_eval)

definition KubeClusterCidrv1Alpha1_interface :: interface where
  "KubeClusterCidrv1Alpha1_interface = Interface ''KubeClusterCidrv1Alpha1'' [''cdk8s.ApiObject'']
   [Sig ''ApiGroup'' [] (Some (GoPtr GoString)), Sig ''ApiVersion'' [] (Some (GoPtr GoString)),
    Sig ''Chart'' [] (Some (GoNamed ''cdk8s.Chart'')), Sig ''Kind'' [] (Some (GoPtr GoString)),
    Sig ''Metadata'' [] (Some (GoNamed ''cdk8s.ApiObjectMetadataDefinition'')),
    Sig ''Name'' [] (Some (GoPtr GoString)), Sig ''Node'' [] (Some (GoNamed ''constructs.Node'')),
    Sig ''AddDependency'' [Rest ''dependencies'' (GoNamed ''constructs.IConstruct'')] None,
    Sig ''AddJsonPatch'' [Rest ''ops'' (GoNamed ''cdk8s.JsonPatch'')] None,
    Sig ''ToJson'' [] (Some GoAny), Sig ''ToString'' [] (Some (GoPtr GoString))]"

definition KubeClusterCidrv1Alpha1_getters :: "gofun list" where
  "KubeClusterCidrv1Alpha1_getters =
   [Method (Sig ''ApiGroup'' [] (Some (GoPtr GoString))) (Getter ''apiGroup''),
    Method (Sig ''ApiVersion'' [] (Some (GoPtr GoString))) (Getter ''apiVersion''),
    Method (Sig ''Chart'' [] (Some (GoNamed ''cdk8s.Chart''))) (Getter ''chart''),
    Method (Sig ''Kind'' [] (Some (GoPtr GoString))) (Getter ''kind''),
    Method (Sig ''Metadata'' [] (Some (GoNamed ''cdk8s.ApiObjectMetadataDefinition'')))
      (Getter ''metadata''),
    Method (Sig ''Name'' [] (Some (GoPtr GoString))) (Getter ''name''),
    Method (Sig ''Node'' [] (Some (GoNamed ''constructs.Node''))) (Getter ''node'')]"

definition KubeClusterCidrv1Alpha1_functions :: "gofun list" where
  "KubeClusterCidrv1Alpha1_functions =
   [Func (Sig ''NewKubeClusterCidrv1Alpha1'' [
         Param ''scope'' (GoNamed ''constructs.Construct''), Param ''id'' (GoPtr GoString),
         Param ''props'' (GoPtr (GoNamed ''KubeClusterCidrv1Alpha1Props''))] (Some (GoNamed ''KubeClusterCidrv1Alpha1'')))
      (Construct ''k8s.KubeClusterCidrv1Alpha1'' [''scope'', ''id'', ''props''] ''validateNewKubeClusterCidrv1Alpha1Parameters''),
    Func (Sig ''NewKubeClusterCidrv1Alpha1_Override'' [
         Param ''k'' (GoNamed ''KubeClusterCidrv1Alpha1''),
         Param ''scope'' (GoNamed ''constructs.Construct''), Param ''id'' (GoPtr GoString),
         Param ''props'' (GoPtr (GoNamed ''KubeClusterCidrv1Alpha1Props''))] None)
      (ConstructOverride ''k8s.KubeClusterCidrv1Alpha1'' [''scope'', ''id'', ''props'']),
    Func (Sig ''KubeClusterCidrv1Alpha1_IsApiObject'' [Param ''o'' GoAny] (Some (GoPtr GoBool)))
      (StaticCall ''k8s.KubeClusterCidrv1Alpha1'' ''isApiObject'' [''o''] ''validateKubeClusterCidrv1Alpha1_IsApiObjectParameters''),
    Func (Sig ''KubeClusterCidrv1Alpha1_IsConstruct'' [Param ''x'' GoAny] (Some (GoPtr GoBool)))
      (StaticCall ''k8s.KubeClusterCidrv1Alpha1'' ''isConstruct'' [''x''] ''validateKubeClusterCidrv1Alpha1_IsConstructParameters''),
    Func (Sig ''KubeClusterCidrv1Alpha1_Manifest'' [Param ''props'' (GoPtr (GoNamed ''KubeClusterCidrv1Alpha1Props''))] (Some GoAny))
      (StaticCall ''k8s.KubeClusterCidrv1Alpha1'' ''manifest'' [''props''] ''validateKubeClusterCidrv1Alpha1_ManifestParameters''),
    Func (Sig ''KubeClusterCidrv1Alpha1_Of'' [Param ''c'' (GoNamed ''constructs.IConstruct'')] (Some (GoNamed ''cdk8s.ApiObject'')))
      (StaticCall ''k8s.KubeClusterCidrv1Alpha1'' ''of'' [''c''] ''validateKubeClusterCidrv1Alpha1_OfParameters''),
    Func (Sig ''KubeClusterCidrv1Alpha1_GVK'' [] (Some (GoPtr (GoNamed ''cdk8s.GroupVersionKind''))))
      (StaticProp ''k8s.KubeClusterCidrv1Alpha1'' ''GVK'')]"

definition KubeClusterCidrv1Alpha1_methods :: "gofun list" where
  "KubeClusterCidrv1Alpha1_methods =
   [Method (Sig ''AddDependency'' [Rest ''dependencies'' (GoNamed ''constructs.IConstruct'')] None)
      (Variadic ''addDependency''),
    Method (Sig ''AddJsonPatch'' [Rest ''ops'' (GoNamed ''cdk8s.JsonPatch'')] None)
      (Variadic ''addJsonPatch''),
    Method (Sig ''ToJson'' [] (Some GoAny)) (Plain ''toJson''),
    Method (Sig ''ToString'' [] (Some (GoPtr GoString))) (Plain ''toString'')]"

definition KubeClusterCidrv1Alpha1 :: binding where
  "KubeClusterCidrv1Alpha1 = Binding ''KubeClusterCidrv1Alpha1'' [''internal.Type__cdk8sApiObject'']
     (KubeClusterCidrv1Alpha1_getters @ KubeClusterCidrv1Alpha1_functions @ KubeClusterCidrv1Alpha1_methods)"

definition KubeClusterCidrv1Alpha1_checks :: validators where
  "KubeClusterCidrv1Alpha1_checks =
   [(''validateKubeClusterCidrv1Alpha1_IsApiObjectParameters'', [NotNil ''o'']),
    (''validateKubeClusterCidrv1Alpha1_IsConstructParameters'', [NotNil ''x'']),
    (''validateKubeClusterCidrv1Alpha1_ManifestParameters'', [ValidStruct ''props'']),
    (''validateKubeClusterCidrv1Alpha1_OfParameters'', [NotNil ''c'']),
    (''validateNewKubeClusterCidrv1Alpha1Parameters'', [NotNil ''scope'', NotNil ''id'', ValidStruct ''props''])]"

definition KubeClusterCidrv1Alpha1_no_checks :: validators where
  "KubeClusterCidrv1Alpha1_no_checks =
   [(''validateKubeClusterCidrv1Alpha1_IsApiObjectParameters'', []),
    (''validateKubeClusterCidrv1Alpha1_IsConstructParameters'', []),
    (''validateKubeClusterCidrv1Alpha1_ManifestParameters'', []),
    (''validateKubeClusterCidrv1Alpha1_OfParameters'', []),
    (''validateNewKubeClusterCidrv1Alpha1Parameters'', [])]"

lemma KubeClusterCidrv1Alpha1_ok [class_checks]: "classOk (KubeClusterCidrv1Alpha1, KubeClusterCidrv1Alpha1_checks)"
  by (rule classOptional_I [where s = KubeClusterCidrv1Alpha1Props], simp only: table_members)
    (simp_all only: KubeClusterCidrv1Alpha1_def KubeClusterCidrv1Alpha1_getters_def KubeClusterCidrv1Alpha1_functions_def
      KubeClusterCidrv1Alpha1_methods_def KubeClusterCidrv1Alpha1_checks_def KubeClusterCidrv1Alpha1Props_def class_eval)

lemma KubeClusterCidrv1Alpha1_declared [class_interfaces]:
  "KubeClusterCidrv1Alpha1_interface = apiObjectInterface ''KubeClusterCidrv1Alpha1''"
  "KubeClusterCidrv1Alpha1_no_checks = apiObjectNoChecks ''KubeClusterCidrv1Alpha1''"
  by (simp_all only: KubeClusterCidrv1Alpha1_interface_def KubeClusterCidrv1Alpha1_no_checks_def declared_eval)

definition KubeClusterRole_interface :: interface where
  "KubeClusterRole_interface = Interface ''KubeClusterRole'' [''cdk8s.ApiObject'']
   [Sig ''ApiGroup'' [] (Some (GoPtr GoString)), Sig ''ApiVersion'' [] (Some (GoPtr GoString)),
    Sig ''Chart'' [] (Some (GoNamed ''cdk8s.Chart'')), Sig ''Kind'' [] (Some (GoPtr GoString)),
    Sig ''Metadata'' [] (Some (GoNamed ''cdk8s.ApiObjectMetadataDefinition'')),
    Sig ''Name'' [] (Some (GoPtr GoString)), Sig ''Node'' [] (Some (GoNamed ''constructs.Node'')),
    Sig ''AddDependency'' [Rest ''dependencies'' (GoNamed ''constructs.IConstruct'')] None,
    Sig ''AddJsonPatch'' [Rest ''ops'' (GoNamed ''cdk8s.JsonPatch'')] None,
    Sig ''ToJson'' [] (Some GoAny), Sig ''ToString'' [] (Some (GoPtr GoString))]"

definition KubeClusterRole_getters :: "gofun list" where
  "KubeClusterRole_getters =
   [Method (Sig ''ApiGroup'' [] (Some (GoPtr GoString))) (Getter ''apiGroup''),
    Method (Sig ''ApiVersion'' [] (Some (GoPtr GoString))) (Getter ''apiVersion''),
    Method (Sig ''Chart'' [] (Some (GoNamed ''cdk8s.Chart''))) (Getter ''chart''),
    Method (Sig ''Kind'' [] (Some (GoPtr GoString))) (Getter ''kind''),
    Method (Sig ''Metadata'' [] (Some (GoNamed ''cdk8s.ApiObjectMetadataDefinition'')))
      (Getter ''metadata''),
    Method (Sig ''Name'' [] (Some (GoPtr GoString))) (Getter ''name''),
    Method (Sig ''Node'' [] (Some (GoNamed ''constructs.Node''))) (Getter ''node'')]"

definition KubeClusterRole_functions :: "gofun list" where
  "KubeClusterRole_functions =
   [Func (Sig ''NewKubeClusterRole'' [
         Param ''scope'' (GoNamed ''constructs.Construct''), Param ''id'' (GoPtr GoString),
         Param ''props'' (GoPtr (GoNamed ''KubeClusterRoleProps''))] (Some (GoNamed ''KubeClusterRole'')))
      (Construct ''k8s.KubeClusterRole'' [''scope'', ''id'', ''props''] ''validateNewKubeClusterRoleParameters''),
    Func (Sig ''NewKubeClusterRole_Override'' [
         Param ''k'' (GoNamed ''KubeClusterRole''), Param ''scope'' (GoNamed ''constructs.Construct''),
         Param ''id'' (GoPtr GoString), Param ''props'' (GoPtr (GoNamed ''KubeClusterRoleProps''))] None)
      (ConstructOverride ''k8s.KubeClusterRole'' [''scope'', ''id'', ''props'']),
    Func (Sig ''KubeClusterRole_IsApiObject'' [Param ''o'' GoAny] (Some (GoPtr GoBool)))
      (StaticCall ''k8s.KubeClusterRole'' ''isApiObject'' [''o''] ''validateKubeClusterRole_IsApiObjectParameters''),
    Func (Sig ''KubeClusterRole_IsConstruct'' [Param ''x'' GoAny] (Some (GoPtr GoBool)))
      (StaticCall ''k8s.KubeClusterRole'' ''isConstruct'' [''x''] ''validateKubeClusterRole_IsConstructParameters''),
    Func (Sig ''KubeClusterRole_Manifest'' [Param ''props'' (GoPtr (GoNamed ''KubeClusterRoleProps''))] (Some GoAny))
      (StaticCall ''k8s.KubeClusterRole'' ''manifest'' [''props''] ''validateKubeClusterRole_ManifestParameters''),
    Func (Sig ''KubeClusterRole_Of'' [Param ''c'' (GoNamed ''constructs.IConstruct'')] (Some (GoNamed ''cdk8s.ApiObject'')))
      (StaticCall ''k8s.KubeClusterRole'' ''of'' [''c''] ''validateKubeClusterRole_OfParameters''),
    Func (Sig ''KubeClusterRole_GVK'' [] (Some (GoPtr (GoNamed ''cdk8s.GroupVersionKind''))))
      (StaticProp ''k8s.KubeClusterRole'' ''GVK'')]"

definition KubeClusterRole_methods :: "gofun list" where
  "KubeClusterRole_methods =
   [Method (Sig ''AddDependency'' [Rest ''dependencies'' (GoNamed ''constructs.IConstruct'')] None)
      (Variadic ''addDependency''),
    Method (Sig ''AddJsonPatch'' [Rest ''ops'' (GoNamed ''cdk8s.JsonPatch'')] None)
      (Variadic ''addJsonPatch''),
    Method (Sig ''ToJson'' [] (Some GoAny)) (Plain ''toJson''),
    Method (Sig ''ToString'' [] (Some (GoPtr GoString))) (Plain ''toString'')]"

definition KubeClusterRole :: binding where
  "KubeClusterRole = Binding ''KubeClusterRole'' [''internal.Type__cdk8sApiObject'']
     (KubeClusterRole_getters @ KubeClusterRole_functions @ KubeClusterRole_methods)"

definition KubeClusterRole_checks :: validators where
  "KubeClusterRole_checks =
   [(''validateKubeClusterRole_IsApiObjectParameters'', [NotNil ''o'']),
    (''validateKubeClusterRole_IsConstructParameters'', [NotNil ''x'']),
    (''validateKubeClusterRole_ManifestParameters'', [ValidStruct ''props'']),
    (''validateKubeClusterRole_OfParameters'', [NotNil ''c'']),
    (''validateNewKubeClusterRoleParameters'', [NotNil ''scope'', NotNil ''id'', ValidStruct ''props''])]"

definition KubeClusterRole_no_checks :: validators where
  "KubeClusterRole_no_checks =
   [(''validateKubeClusterRole_IsApiObjectParameters'', []),
    (''validateKubeClusterRole_IsConstructParameters'', []),
    (''validateKubeClusterRole_ManifestParameters'', []),
    (''validateKubeClusterRole_OfParameters'', []), (''validateNewKubeClusterRoleParameters'', [])]"

lemma KubeClusterRole_ok [class_checks]: "classOk (KubeClusterRole, KubeClusterRole_checks)"
  by (rule classOptional_I [where s = KubeClusterRoleProps], simp only: table_members)
    (simp_all only: KubeClusterRole_def KubeClusterRole_getters_def KubeClusterRole_functions_def
      KubeClusterRole_methods_def KubeClusterRole_checks_def KubeClusterRoleProps_def class_eval)

lemma KubeClusterRole_declared [class_interfaces]:
  "KubeClusterRole_interface = apiObjectInterface ''KubeClusterRole''"
  "KubeClusterRole_no_checks = apiObjectNoChecks ''KubeClusterRole''"
  by (simp_all only: KubeClusterRole_interface_def KubeClusterRole_no_checks_def declared_eval)

definition KubeClusterRoleBinding_interface :: interface where
  "KubeClusterRoleBinding_interface = Interface ''KubeClusterRoleBinding'' [''cdk8s.ApiObject'']
   [Sig ''ApiGroup'' [] (Some (GoPtr GoString)), Sig ''ApiVersion'' [] (Some (GoPtr GoString)),
    Sig ''Chart'' [] (Some (GoNamed ''cdk8s.Chart'')), Sig ''Kind'' [] (Some (GoPtr GoString)),
    Sig ''Metadata'' [] (Some (GoNamed ''cdk8s.ApiObjectMetadataDefinition'')),
    Sig ''Name'' [] (Some (GoPtr GoString)), Sig ''Node'' [] (Some (GoNamed ''constructs.Node'')),
    Sig ''AddDependency'' [Rest ''dependencies'' (GoNamed ''constructs.IConstruct'')] None,
    Sig ''AddJsonPatch'' [Rest ''ops'' (GoNamed ''cdk8s.JsonPatch'')] None,
    Sig ''ToJson'' [] (Some GoAny), Sig ''ToString'' [] (Some (GoPtr GoString))]"

definition KubeClusterRoleBinding_getters :: "gofun list" where
  "KubeClusterRoleBinding_getters =
   [Method (Sig ''ApiGroup'' [] (Some (GoPtr GoString))) (Getter ''apiGroup''),
    Method (Sig ''ApiVersion'' [] (Some (GoPtr GoString))) (Getter ''apiVersion''),
    Method (Sig ''Chart'' [] (Some (GoNamed ''cdk8s.Chart''))) (Getter ''chart''),
    Method (Sig ''Kind'' [] (Some (GoPtr GoString))) (Getter ''kind''),
    Method (Sig ''Metadata'' [] (Some (GoNamed ''cdk8s.ApiObjectMetadataDefinition'')))
      (Getter ''metadata''),
    Method (Sig ''Name'' [] (Some (GoPtr GoString))) (Getter ''name''),
    Method (Sig ''Node'' [] (Some (GoNamed ''constructs.Node''))) (Getter ''node'')]"

definition KubeClusterRoleBinding_functions :: "gofun list" where
  "KubeClusterRoleBinding_functions =
   [Func (Sig ''NewKubeClusterRoleBinding'' [
         Param ''scope'' (GoNamed ''constructs.Construct''), Param ''id'' (GoPtr GoString),
         Param ''props'' (GoPtr (GoNamed ''KubeClusterRoleBindingProps''))] (Some (GoNamed ''KubeClusterRoleBinding'')))
      (Construct ''k8s.KubeClusterRoleBinding'' [''scope'', ''id'', ''props''] ''validateNewKubeClusterRoleBindingParameters''),
    Func (Sig ''NewKubeClusterRoleBinding_Override'' [
         Param ''k'' (GoNamed ''KubeClusterRoleBinding''),
         Param ''scope'' (GoNamed ''constructs.Construct''), Param ''id'' (GoPtr GoString),
         Param ''props'' (GoPtr (GoNamed ''KubeClusterRoleBindingProps''))] None)
      (ConstructOverride ''k8s.KubeClusterRoleBinding'' [''scope'', ''id'', ''props'']),
    Func (Sig ''KubeClusterRoleBinding_IsApiObject'' [Param ''o'' GoAny] (Some (GoPtr GoBool)))
      (StaticCall ''k8s.KubeClusterRoleBinding'' ''isApiObject'' [''o''] ''validateKubeClusterRoleBinding_IsApiObjectParameters''),
    Func (Sig ''KubeClusterRoleBinding_IsConstruct'' [Param ''x'' GoAny] (Some (GoPtr GoBool)))
      (StaticCall ''k8s.KubeClusterRoleBinding'' ''isConstruct'' [''x''] ''validateKubeClusterRoleBinding_IsConstructParameters''),
    Func (Sig ''KubeClusterRoleBinding_Manifest'' [Param ''props'' (GoPtr (GoNamed ''KubeClusterRoleBindingProps''))] (Some GoAny))
      (StaticCall ''k8s.KubeClusterRoleBinding'' ''manifest'' [''props''] ''validateKubeClusterRoleBinding_ManifestParameters''),
    Func (Sig ''KubeClusterRoleBinding_Of'' [Param ''c'' (GoNamed ''constructs.IConstruct'')] (Some (GoNamed ''cdk8s.ApiObject'')))
      (StaticCall ''k8s.KubeClusterRoleBinding'' ''of'' [''c''] ''validateKubeClusterRoleBinding_OfParameters''),
    Func (Sig ''KubeClusterRoleBinding_GVK'' [] (Some (GoPtr (GoNamed ''cdk8s.GroupVersionKind''))))
      (StaticProp ''k8s.KubeClusterRoleBinding'' ''GVK'')]"

definition KubeClusterRoleBinding_methods :: "gofun list" where
  "KubeClusterRoleBinding_methods =
   [Method (Sig ''AddDependency'' [Rest ''dependencies'' (GoNamed ''constructs.IConstruct'')] None)
      (Variadic ''addDependency''),
    Method (Sig ''AddJsonPatch'' [Rest ''ops'' (GoNamed ''cdk8s.JsonPatch'')] None)
      (Variadic ''addJsonPatch''),
    Method (Sig ''ToJson'' [] (Some GoAny)) (Plain ''toJson''),
    Method (Sig ''ToString'' [] (Some (GoPtr GoString))) (Plain ''toString'')]"

definition KubeClusterRoleBinding :: binding where
  "KubeClusterRoleBinding = Binding ''KubeClusterRoleBinding'' [''internal.Type__cdk8sApiObject'']
     (KubeClusterRoleBinding_getters @ KubeClusterRoleBinding_functions @ KubeClusterRoleBinding_methods)"

definition KubeClusterRoleBinding_checks :: validators where
  "KubeClusterRoleBinding_checks =
   [(''validateKubeClusterRoleBinding_IsApiObjectParameters'', [NotNil ''o'']),
    (''validateKubeClusterRoleBinding_IsConstructParameters'', [NotNil ''x'']),
    (''validateKubeClusterRoleBinding_ManifestParameters'', [NotNil ''props'', ValidStruct ''props'']),
    (''validateKubeClusterRoleBinding_OfParameters'', [NotNil ''c'']),
    (''validateNewKubeClusterRoleBindingParameters'', [NotNil ''scope'', NotNil ''id'', NotNil ''props'', ValidStruct ''props''])]"

definition KubeClusterRoleBinding_no_checks :: validators where
  "KubeClusterRoleBinding_no_checks =
   [(''validateKubeClusterRoleBinding_IsApiObjectParameters'', []),
    (''validateKubeClusterRoleBinding_IsConstructParameters'', []),
    (''validateKubeClusterRoleBinding_ManifestParameters'', []),
    (''validateKubeClusterRoleBinding_OfParameters'', []),
    (''validateNewKubeClusterRoleBindingParameters'', [])]"

lemma KubeClusterRoleBinding_ok [class_checks]: "classOk (KubeClusterRoleBinding, KubeClusterRoleBinding_checks)"
  by (rule classRequired_I [where s = KubeClusterRoleBindingProps], simp only: table_members)
    (simp_all only: KubeClusterRoleBinding_def KubeClusterRoleBinding_getters_def KubeClusterRoleBinding_functions_def
      KubeClusterRoleBinding_methods_def KubeClusterRoleBinding_checks_def KubeClusterRoleBindingProps_def class_eval)

lemma KubeClusterRoleBinding_declared [class_interfaces]:
  "KubeClusterRoleBinding_interface = apiObjectInterface ''KubeClusterRoleBinding''"
  "KubeClusterRoleBinding_no_checks = apiObjectNoChecks ''KubeClusterRoleBinding''"
  by (simp_all only: KubeClusterRoleBinding_interface_def KubeClusterRoleBinding_no_checks_def declared_eval)

definition KubeClusterRoleBindingList_interface :: interface where
  "KubeClusterRoleBindingList_interface = Interface ''KubeClusterRoleBindingList'' [''cdk8s.ApiObject'']
   [Sig ''ApiGroup'' [] (Some (GoPtr GoString)), Sig ''ApiVersion'' [] (Some (GoPtr GoString)),
    Sig ''Chart'' [] (Some (GoNamed ''cdk8s.Chart'')), Sig ''Kind'' [] (Some (GoPtr GoString)),
    Sig ''Metadata'' [] (Some (GoNamed ''cdk8s.ApiObjectMetadataDefinition'')),
    Sig ''Name'' [] (Some (GoPtr GoString)), Sig ''Node'' [] (Some (GoNamed ''constructs.Node'')),
    Sig ''AddDependency'' [Rest ''dependencies'' (GoNamed ''constructs.IConstruct'')] None,
    Sig ''AddJsonPatch'' [Rest ''ops'' (GoNamed ''cdk8s.JsonPatch'')] None,
    Sig ''ToJson'' [] (Some GoAny), Sig ''ToString'' [] (Some (GoPtr GoString))]"

definition KubeClusterRoleBindingList_getters :: "gofun list" where
  "KubeClusterRoleBindingList_getters =
   [Method (Sig ''ApiGroup'' [] (Some (GoPtr GoString))) (Getter ''apiGroup''),
    Method (Sig ''ApiVersion'' [] (Some (GoPtr GoString))) (Getter ''apiVersion''),
    Method (Sig ''Chart'' [] (Some (GoNamed ''cdk8s.Chart''))) (Getter ''chart''),
    Method (Sig ''Kind'' [] (Some (GoPtr GoString))) (Getter ''kind''),
    Method (Sig ''Metadata'' [] (Some (GoNamed ''cdk8s.ApiObjectMetadataDefinition'')))
      (Getter ''metadata''),
    Method (Sig ''Name'' [] (Some (GoPtr GoString))) (Getter ''name''),
    Method (Sig ''Node'' [] (Some (GoNamed ''constructs.Node''))) (Getter ''node'')]"

definition KubeClusterRoleBindingList_functions :: "gofun list" where
  "KubeClusterRoleBindingList_functions =
   [Func (Sig ''NewKubeClusterRoleBindingList'' [
         Param ''scope'' (GoNamed ''constructs.Construct''), Param ''id'' (GoPtr GoString),
         Param ''props'' (GoPtr (GoNamed ''KubeClusterRoleBindingListProps''))] (Some (GoNamed ''KubeClusterRoleBindingList'')))
      (Construct ''k8s.KubeClusterRoleBindingList'' [''scope'', ''id'', ''props''] ''validateNewKubeClusterRoleBindingListParameters''),
    Func (Sig ''NewKubeClusterRoleBindingList_Override'' [
         Param ''k'' (GoNamed ''KubeClusterRoleBindingList''),
         Param ''scope'' (GoNamed ''constructs.Construct''), Param ''id'' (GoPtr GoString),
         Param ''props'' (GoPtr (GoNamed ''KubeClusterRoleBindingListProps''))] None)
      (ConstructOverride ''k8s.KubeClusterRoleBindingList'' [''scope'', ''id'', ''props'']),
    Func (Sig ''KubeClusterRoleBindingList_IsApiObject'' [Param ''o'' GoAny] (Some (GoPtr GoBool)))
      (StaticCall ''k8s.KubeClusterRoleBindingList'' ''isApiObject'' [''o''] ''validateKubeClusterRoleBindingList_IsApiObjectParameters''),
    Func (Sig ''KubeClusterRoleBindingList_IsConstruct'' [Param ''x'' GoAny] (Some (GoPtr GoBool)))
      (StaticCall ''k8s.KubeClusterRoleBindingList'' ''isConstruct'' [''x''] ''validateKubeClusterRoleBindingList_IsConstructParameters''),
    Func (Sig ''KubeClusterRoleBindingList_Manifest'' [Param ''props'' (GoPtr (GoNamed ''KubeClusterRoleBindingListProps''))] (Some GoAny))
      (StaticCall ''k8s.KubeClusterRoleBindingList'' ''manifest'' [''props''] ''validateKubeClusterRoleBindingList_ManifestParameters''),
    Func (Sig ''KubeClusterRoleBindingList_Of'' [Param ''c'' (GoNamed ''constructs.IConstruct'')] (Some (GoNamed ''cdk8s.ApiObject'')))
      (StaticCall ''k8s.KubeClusterRoleBindingList'' ''of'' [''c''] ''validateKubeClusterRoleBindingList_OfParameters''),
    Func (Sig ''KubeClusterRoleBindingList_GVK'' [] (Some (GoPtr (GoNamed ''cdk8s.GroupVersionKind''))))
      (StaticProp ''k8s.KubeClusterRoleBindingList'' ''GVK'')]"

definition KubeClusterRoleBindingList_methods :: "gofun list" where
  "KubeClusterRoleBindingList_methods =
   [Method (Sig ''AddDependency'' [Rest ''dependencies'' (GoNamed ''constructs.IConstruct'')] None)
      (Variadic ''addDependency''),
    Method (Sig ''AddJsonPatch'' [Rest ''ops'' (GoNamed ''cdk8s.JsonPatch'')] None)
      (Variadic ''addJsonPatch''),
    Method (Sig ''ToJson'' [] (Some GoAny)) (Plain ''toJson''),
    Method (Sig ''ToString'' [] (Some (GoPtr GoString))) (Plain ''toString'')]"

definition KubeClusterRoleBindingList :: binding where
  "KubeClusterRoleBindingList = Binding ''KubeClusterRoleBindingList'' [''internal.Type__cdk8sApiObject'']
     (KubeClusterRoleBindingList_getters @ KubeClusterRoleBindingList_functions @ KubeClusterRoleBindingList_methods)"

definition KubeClusterRoleBindingList_checks :: validators where
  "KubeClusterRoleBindingList_checks =
   [(''validateKubeClusterRoleBindingList_IsApiObjectParameters'', [NotNil ''o'']),
    (''validateKubeClusterRoleBindingList_IsConstructParameters'', [NotNil ''x'']),
    (''validateKubeClusterRoleBindingList_ManifestParameters'', [NotNil ''props'', ValidStruct ''props'']),
    (''validateKubeClusterRoleBindingList_OfParameters'', [NotNil ''c'']),
    (''validateNewKubeClusterRoleBindingListParameters'', [NotNil ''scope'', NotNil ''id'', NotNil ''props'', ValidStruct ''props''])]"

definition KubeClusterRoleBindingList_no_checks :: validators where
  "KubeClusterRoleBindingList_no_checks =
   [(''validateKubeClusterRoleBindingList_IsApiObjectParameters'', []),
    (''validateKubeClusterRoleBindingList_IsConstructParameters'', []),
    (''validateKubeClusterRoleBindingList_ManifestParameters'', []),
    (''validateKubeClusterRoleBindingList_OfParameters'', []),
    (''validateNewKubeClusterRoleBindingListParameters'', [])]"

lemma KubeClusterRoleBindingList_ok [class_checks]: "classOk (KubeClusterRoleBindingList, KubeClusterRoleBindingList_checks)"
  by (rule classRequired_I [where s = KubeClusterRoleBindingListProps], simp only: table_members)
    (simp_all only: KubeClusterRoleBindingList_def KubeClusterRoleBindingList_getters_def KubeClusterRoleBindingList_functions_def
      KubeClusterRoleBindingList_methods_def KubeClusterRoleBindingList_checks_def KubeClusterRoleBindingListProps_def class_eval)

lemma KubeClusterRoleBindingList_declared [class_interfaces]:
  "KubeClusterRoleBindingList_interface = apiObjectInterface ''KubeClusterRoleBindingList''"
  "KubeClusterRoleBindingList_no_checks = apiObjectNoChecks ''KubeClusterRoleBindingList''"
  by (simp_all only: KubeClusterRoleBindingList_interface_def KubeClusterRoleBindingList_no_checks_def declared_eval)

definition KubeClusterRoleList_interface :: interface where
  "KubeClusterRoleList_interface = Interface ''KubeClusterRoleList'' [''cdk8s.ApiObject'']
   [Sig ''ApiGroup'' [] (Some (GoPtr GoString)), Sig ''ApiVersion'' [] (Some (GoPtr GoString)),
    Sig ''Chart'' [] (Some (GoNamed ''cdk8s.Chart'')), Sig ''Kind'' [] (Some (GoPtr GoString)),
    Sig ''Metadata'' [] (Some (GoNamed ''cdk8s.ApiObjectMetadataDefinition'')),
    Sig ''Name'' [] (Some (GoPtr GoString)), Sig ''Node'' [] (Some (GoNamed ''constructs.Node'')),
    Sig ''AddDependency'' [Rest ''dependencies'' (GoNamed ''constructs.IConstruct'')] None,
    Sig ''AddJsonPatch'' [Rest ''ops'' (GoNamed ''cdk8s.JsonPatch'')] None,
    Sig ''ToJson'' [] (Some GoAny), Sig ''ToString'' [] (Some (GoPtr GoString))]"

definition KubeClusterRoleList_getters :: "gofun list" where
  "KubeClusterRoleList_getters =
   [Method (Sig ''ApiGroup'' [] (Some (GoPtr GoString))) (Getter ''apiGroup''),
    Method (Sig ''ApiVersion'' [] (Some (GoPtr GoString))) (Getter ''apiVersion''),
    Method (Sig ''Chart'' [] (Some (GoNamed ''cdk8s.Chart''))) (Getter ''chart''),
    Method (Sig ''Kind'' [] (Some (GoPtr GoString))) (Getter ''kind''),
    Method (Sig ''Metadata'' [] (Some (GoNamed ''cdk8s.ApiObjectMetadataDefinition'')))
      (Getter ''metadata''),
    Method (Sig ''Name'' [] (Some (GoPtr GoString))) (Getter ''name''),
    Method (Sig ''Node'' [] (Some (GoNamed ''constructs.Node''))) (Getter ''node'')]"

definition KubeClusterRoleList_functions :: "gofun list" where
  "KubeClusterRoleList_functions =
   [Func (Sig ''NewKubeClusterRoleList'' [
         Param ''scope'' (GoNamed ''constructs.Construct''), Param ''id'' (GoPtr GoString),
         Param ''props'' (GoPtr (GoNamed ''KubeClusterRoleListProps''))] (Some (GoNamed ''KubeClusterRoleList'')))
      (Construct ''k8s.KubeClusterRoleList'' [''scope'', ''id'', ''props''] ''validateNewKubeClusterRoleListParameters''),
    Func (Sig ''NewKubeClusterRoleList_Override'' [
         Param ''k'' (GoNamed ''KubeClusterRoleList''),
         Param ''scope'' (GoNamed ''constructs.Construct''), Param ''id'' (GoPtr GoString),
         Param ''props'' (GoPtr (GoNamed ''KubeClusterRoleListProps''))] None)
      (ConstructOverride ''k8s.KubeClusterRoleList'' [''scope'', ''id'', ''props'']),
    Func (Sig ''KubeClusterRoleList_IsApiObject'' [Param ''o'' GoAny] (Some (GoPtr GoBool)))
      (StaticCall ''k8s.KubeClusterRoleList'' ''isApiObject'' [''o''] ''validateKubeClusterRoleList_IsApiObjectParameters''),
    Func (Sig ''KubeClusterRoleList_IsConstruct'' [Param ''x'' GoAny] (Some (GoPtr GoBool)))
      (StaticCall ''k8s.KubeClusterRoleList'' ''isConstruct'' [''x''] ''validateKubeClusterRoleList_IsConstructParameters''),
    Func (Sig ''KubeClusterRoleList_Manifest'' [Param ''props'' (GoPtr (GoNamed ''KubeClusterRoleListProps''))] (Some GoAny))
      (StaticCall ''k8s.KubeClusterRoleList'' ''manifest'' [''props''] ''validateKubeClusterRoleList_ManifestParameters''),
    Func (Sig ''KubeClusterRoleList_Of'' [Param ''c'' (GoNamed ''constructs.IConstruct'')] (Some (GoNamed ''cdk8s.ApiObject'')))
      (StaticCall ''k8s.KubeClusterRoleList'' ''of'' [''c''] ''validateKubeClusterRoleList_OfParameters''),
    Func (Sig ''KubeClusterRoleList_GVK'' [] (Some (GoPtr (GoNamed ''cdk8s.GroupVersionKind''))))
      (StaticProp ''k8s.KubeClusterRoleList'' ''GVK'')]"

definition KubeClusterRoleList_methods :: "gofun list" where
  "KubeClusterRoleList_methods =
   [Method (Sig ''AddDependency'' [Rest ''dependencies'' (GoNamed ''constructs.IConstruct'')] None)
      (Variadic ''addDependency''),
    Method (Sig ''AddJsonPatch'' [Rest ''ops'' (GoNamed ''cdk8s.JsonPatch'')] None)
      (Variadic ''addJsonPatch''),
    Method (Sig ''ToJson'' [] (Some GoAny)) (Plain ''toJson''),
    Method (Sig ''ToString'' [] (Some (GoPtr GoString))) (Plain ''toString'')]"

definition KubeClusterRoleList :: binding where
  "KubeClusterRoleList = Binding ''KubeClusterRoleList'' [''internal.Type__cdk8sApiObject'']
     (KubeClusterRoleList_getters @ KubeClusterRoleList_functions @ KubeClusterRoleList_methods)"

definition KubeClusterRoleList_checks :: validators where
  "KubeClusterRoleList_checks =
   [(''validateKubeClusterRoleList_IsApiObjectParameters'', [NotNil ''o'']),
    (''validateKubeClusterRoleList_IsConstructParameters'', [NotNil ''x'']),
    (''validateKubeClusterRoleList_ManifestParameters'', [NotNil ''props'', ValidStruct ''props'']),
    (''validateKubeClusterRoleList_OfParameters'', [NotNil ''c'']),
    (''validateNewKubeClusterRoleListParameters'', [NotNil ''scope'', NotNil ''id'', NotNil ''props'', ValidStruct ''props''])]"

definition KubeClusterRoleList_no_checks :: validators where
  "KubeClusterRoleList_no_checks =
   [(''validateKubeClusterRoleList_IsApiObjectParameters'', []),
    (''validateKubeClusterRoleList_IsConstructParameters'', []),
    (''validateKubeClusterRoleList_ManifestParameters'', []),
    (''validateKubeClusterRoleList_OfParameters'', []),
    (''validateNewKubeClusterRoleListParameters'', [])]"

lemma KubeClusterRoleList_ok [class_checks]: "classOk (KubeClusterRoleList, KubeClusterRoleList_checks)"
  by (rule classRequired_I [where s = KubeClusterRoleListProps], simp only: table_members)
    (simp_all only: KubeClusterRoleList_def KubeClusterRoleList_getters_def KubeClusterRoleList_functions_def
      KubeClusterRoleList_methods_def KubeClusterRoleList_checks_def KubeClusterRoleListProps_def class_eval)

lemma KubeClusterRoleList_declared [class_interfaces]:
  "KubeClusterRoleList_interface = apiObjectInterface ''KubeClusterRoleList''"
  "KubeClusterRoleList_no_checks = apiObjectNoChecks ''KubeClusterRoleList''"
  by (simp_all only: KubeClusterRoleList_interface_def KubeClusterRoleList_no_checks_def declared_eval)

definition KubeComponentStatus_interface :: interface where
  "KubeComponentStatus_interface = Interface ''KubeComponentStatus'' [''cdk8s.ApiObject'']
   [Sig ''ApiGroup'' [] (Some (GoPtr GoString)), Sig ''ApiVersion'' [] (Some (GoPtr GoString)),
    Sig ''Chart'' [] (Some (GoNamed ''cdk8s.Chart'')), Sig ''Kind'' [] (Some (GoPtr GoString)),
    Sig ''Metadata'' [] (Some (GoNamed ''cdk8s.ApiObjectMetadataDefinition'')),
    Sig ''Name'' [] (Some (GoPtr GoString)), Sig ''Node'' [] (Some (GoNamed ''constructs.Node'')),
    Sig ''AddDependency'' [Rest ''dependencies'' (GoNamed ''constructs.IConstruct'')] None,
    Sig ''AddJsonPatch'' [Rest ''ops'' (GoNamed ''cdk8s.JsonPatch'')] None,
    Sig ''ToJson'' [] (Some GoAny), Sig ''ToString'' [] (Some (GoPtr GoString))]"

definition KubeComponentStatus_getters :: "gofun list" where
  "KubeComponentStatus_getters =
   [Method (Sig ''ApiGroup'' [] (Some (GoPtr GoString))) (Getter ''apiGroup''),
    Method (Sig ''ApiVersion'' [] (Some (GoPtr GoString))) (Getter ''apiVersion''),
    Method (Sig ''Chart'' [] (Some (GoNamed ''cdk8s.Chart''))) (Getter ''chart''),
    Method (Sig ''Kind'' [] (Some (GoPtr GoString))) (Getter ''kind''),
    Method (Sig ''Metadata'' [] (Some (GoNamed ''cdk8s.ApiObjectMetadataDefinition'')))
      (Getter ''metadata''),
    Method (Sig ''Name'' [] (Some (GoPtr GoString))) (Getter ''name''),
    Method (Sig ''Node'' [] (Some (GoNamed ''constructs.Node''))) (Getter ''node'')]"

definition KubeComponentStatus_functions :: "gofun list" where
  "KubeComponentStatus_functions =
   [Func (Sig ''NewKubeComponentStatus'' [
         Param ''scope'' (GoNamed ''constructs.Construct''), Param ''id'' (GoPtr GoString),
         Param ''props'' (GoPtr (GoNamed ''KubeComponentStatusProps''))] (Some (GoNamed ''KubeComponentStatus'')))
      (Construct ''k8s.KubeComponentStatus'' [''scope'', ''id'', ''props''] ''validateNewKubeComponentStatusParameters''),
    Func (Sig ''NewKubeComponentStatus_Override'' [
         Param ''k'' (GoNamed ''KubeComponentStatus''),
         Param ''scope'' (GoNamed ''constructs.Construct''), Param ''id'' (GoPtr GoString),
         Param ''props'' (GoPtr (GoNamed ''KubeComponentStatusProps''))] None)
      (ConstructOverride ''k8s.KubeComponentStatus'' [''scope'', ''id'', ''props'']),
    Func (Sig ''KubeComponentStatus_IsApiObject'' [Param ''o'' GoAny] (Some (GoPtr GoBool)))
      (StaticCall ''k8s.KubeComponentStatus'' ''isApiObject'' [''o''] ''validateKubeComponentStatus_IsApiObjectParameters''),
    Func (Sig ''KubeComponentStatus_IsConstruct'' [Param ''x'' GoAny] (Some (GoPtr GoBool)))
      (StaticCall ''k8s.KubeComponentStatus'' ''isConstruct'' [''x''] ''validateKubeComponentStatus_IsConstructParameters''),
    Func (Sig ''KubeComponentStatus_Manifest'' [Param ''props'' (GoPtr (GoNamed ''KubeComponentStatusProps''))] (Some GoAny))
      (StaticCall ''k8s.KubeComponentStatus'' ''manifest'' [''props''] ''validateKubeComponentStatus_ManifestParameters''),
    Func (Sig ''KubeComponentStatus_Of'' [Param ''c'' (GoNamed ''constructs.IConstruct'')] (Some (GoNamed ''cdk8s.ApiObject'')))
      (StaticCall ''k8s.KubeComponentStatus'' ''of'' [''c''] ''validateKubeComponentStatus_OfParameters''),
    Func (Sig ''KubeComponentStatus_GVK'' [] (Some (GoPtr (GoNamed ''cdk8s.GroupVersionKind''))))
      (StaticProp ''k8s.KubeComponentStatus'' ''GVK'')]"

definition KubeComponentStatus_methods :: "gofun list" where
  "KubeComponentStatus_methods =
   [Method (Sig ''AddDependency'' [Rest ''dependencies'' (GoNamed ''constructs.IConstruct'')] None)
      (Variadic ''addDependency''),
    Method (Sig ''AddJsonPatch'' [Rest ''ops'' (GoNamed ''cdk8s.JsonPatch'')] None)
      (Variadic ''addJsonPatch''),
    Method (Sig ''ToJson'' [] (Some GoAny)) (Plain ''toJson''),
    Method (Sig ''ToString'' [] (Some (GoPtr GoString))) (Plain ''toString'')]"

definition KubeComponentStatus :: binding where
  "KubeComponentStatus = Binding ''KubeComponentStatus'' [''internal.Type__cdk8sApiObject'']
     (KubeComponentStatus_getters @ KubeComponentStatus_functions @ KubeComponentStatus_methods)"

definition KubeComponentStatus_checks :: validators where
  "KubeComponentStatus_checks =
   [(''validateKubeComponentStatus_IsApiObjectParameters'', [NotNil ''o'']),
    (''validateKubeComponentStatus_IsConstructParameters'', [NotNil ''x'']),
    (''validateKubeComponentStatus_ManifestParameters'', [ValidStruct ''props'']),
    (''validateKubeComponentStatus_OfParameters'', [NotNil ''c'']),
    (''validateNewKubeComponentStatusParameters'', [NotNil ''scope'', NotNil ''id'', ValidStruct ''props''])]"

definition KubeComponentStatus_no_checks :: validators where
  "KubeComponentStatus_no_checks =
   [(''validateKubeComponentStatus_IsApiObjectParameters'', []),
    (''validateKubeComponentStatus_IsConstructParameters'', []),
    (''validateKubeComponentStatus_ManifestParameters'', []),
    (''validateKubeComponentStatus_OfParameters'', []),
    (''validateNewKubeComponentStatusParameters'', [])]"

lemma KubeComponentStatus_ok [class_checks]: "classOk (KubeComponentStatus, KubeComponentStatus_checks)"
  by (rule classOptional_I [where s = KubeComponentStatusProps], simp only: table_members)
    (simp_all only: KubeComponentStatus_def KubeComponentStatus_getters_def KubeComponentStatus_functions_def
      KubeComponentStatus_methods_def KubeComponentStatus_checks_def KubeComponentStatusProps_def class_eval)

lemma KubeComponentStatus_declared [class_interfaces]:
  "KubeComponentStatus_interface = apiObjectInterface ''KubeComponentStatus''"
  "KubeComponentStatus_no_checks = apiObjectNoChecks ''KubeComponentStatus''"
  by (simp_all only: KubeComponentStatus_interface_def KubeComponentStatus_no_checks_def declared_eval)

definition KubeComponentStatusList_interface :: interface where
  "KubeComponentStatusList_interface = Interface ''KubeComponentStatusList'' [''cdk8s.ApiObject'']
   [Sig ''ApiGroup'' [] (Some (GoPtr GoString)), Sig ''ApiVersion'' [] (Some (GoPtr GoString)),
    Sig ''Chart'' [] (Some (GoNamed ''cdk8s.Chart'')), Sig ''Kind'' [] (Some (GoPtr GoString)),
    Sig ''Metadata'' [] (Some (GoNamed ''cdk8s.ApiObjectMetadataDefinition'')),
    Sig ''Name'' [] (Some (GoPtr GoString)), Sig ''Node'' [] (Some (GoNamed ''constructs.Node'')),
    Sig ''AddDependency'' [Rest ''dependencies'' (GoNamed ''constructs.IConstruct'')] None,
    Sig ''AddJsonPatch'' [Rest ''ops'' (GoNamed ''cdk8s.JsonPatch'')] None,
    Sig ''ToJson'' [] (Some GoAny), Sig ''ToString'' [] (Some (GoPtr GoString))]"

definition KubeComponentStatusList_getters :: "gofun list" where
  "KubeComponentStatusList_getters =
   [Method (Sig ''ApiGroup'' [] (Some (GoPtr GoString))) (Getter ''apiGroup''),
    Method (Sig ''ApiVersion'' [] (Some (GoPtr GoString))) (Getter ''apiVersion''),
    Method (Sig ''Chart'' [] (Some (GoNamed ''cdk8s.Chart''))) (Getter ''chart''),
    Method (Sig ''Kind'' [] (Some (GoPtr GoString))) (Getter ''kind''),
    Method (Sig ''Metadata'' [] (Some (GoNamed ''cdk8s.ApiObjectMetadataDefinition'')))
      (Getter ''metadata''),
    Method (Sig ''Name'' [] (Some (GoPtr GoString))) (Getter ''name''),
    Method (Sig ''Node'' [] (Some (GoNamed ''constructs.Node''))) (Getter ''node'')]"

definition KubeComponentStatusList_functions :: "gofun list" where
  "KubeComponentStatusList_functions =
   [Func (Sig ''NewKubeComponentStatusList'' [
         Param ''scope'' (GoNamed ''constructs.Construct''), Param ''id'' (GoPtr GoString),
         Param ''props'' (GoPtr (GoNamed ''KubeComponentStatusListProps''))] (Some (GoNamed ''KubeComponentStatusList'')))
      (Construct ''k8s.KubeComponentStatusList'' [''scope'', ''id'', ''props''] ''validateNewKubeComponentStatusListParameters''),
    Func (Sig ''NewKubeComponentStatusList_Override'' [
         Param ''k'' (GoNamed ''KubeComponentStatusList''),
         Param ''scope'' (GoNamed ''constructs.Construct''), Param ''id'' (GoPtr GoString),
         Param ''props'' (GoPtr (GoNamed ''KubeComponentStatusListProps''))] None)
      (ConstructOverride ''k8s.KubeComponentStatusList'' [''scope'', ''id'', ''props'']),
    Func (Sig ''KubeComponentStatusList_IsApiObject'' [Param ''o'' GoAny] (Some (GoPtr GoBool)))
      (StaticCall ''k8s.KubeComponentStatusList'' ''isApiObject'' [''o''] ''validateKubeComponentStatusList_IsApiObjectParameters''),
    Func (Sig ''KubeComponentStatusList_IsConstruct'' [Param ''x'' GoAny] (Some (GoPtr GoBool)))
      (StaticCall ''k8s.KubeComponentStatusList'' ''isConstruct'' [''x''] ''validateKubeComponentStatusList_IsConstructParameters''),
    Func (Sig ''KubeComponentStatusList_Manifest'' [Param ''props'' (GoPtr (GoNamed ''KubeComponentStatusListProps''))] (Some GoAny))
      (StaticCall ''k8s.KubeComponentStatusList'' ''manifest'' [''props''] ''validateKubeComponentStatusList_ManifestParameters''),
    Func (Sig ''KubeComponentStatusList_Of'' [Param ''c'' (GoNamed ''constructs.IConstruct'')] (Some (GoNamed ''cdk8s.ApiObject'')))
      (StaticCall ''k8s.KubeComponentStatusList'' ''of'' [''c''] ''validateKubeComponentStatusList_OfParameters''),
    Func (Sig ''KubeComponentStatusList_GVK'' [] (Some (GoPtr (GoNamed ''cdk8s.GroupVersionKind''))))
      (StaticProp ''k8s.KubeComponentStatusList'' ''GVK'')]"

definition KubeComponentStatusList_methods :: "gofun list" where
  "KubeComponentStatusList_methods =
   [Method (Sig ''AddDependency'' [Rest ''dependencies'' (GoNamed ''constructs.IConstruct'')] None)
      (Variadic ''addDependency''),
    Method (Sig ''AddJsonPatch'' [Rest ''ops'' (GoNamed ''cdk8s.JsonPatch'')] None)
      (Variadic ''addJsonPatch''),
    Method (Sig ''ToJson'' [] (Some GoAny)) (Plain ''toJson''),
    Method (Sig ''ToString'' [] (Some (GoPtr GoString))) (Plain ''toString'')]"

definition KubeComponentStatusList :: binding where
  "KubeComponentStatusList = Binding ''KubeComponentStatusList'' [''internal.Type__cdk8sApiObject'']
     (KubeComponentStatusList_getters @ KubeComponentStatusList_functions @ KubeComponentStatusList_methods)"

definition KubeComponentStatusList_checks :: validators where
  "KubeComponentStatusList_checks =
   [(''validateKubeComponentStatusList_IsApiObjectParameters'', [NotNil ''o'']),
    (''validateKubeComponentStatusList_IsConstructParameters'', [NotNil ''x'']),
    (''validateKubeComponentStatusList_ManifestParameters'', [NotNil ''props'', ValidStruct ''props'']),
    (''validateKubeComponentStatusList_OfParameters'', [NotNil ''c'']),
    (''validateNewKubeComponentStatusListParameters'', [NotNil ''scope'', NotNil ''id'', NotNil ''props'', ValidStruct ''props''])]"

definition KubeComponentStatusList_no_checks :: validators where
  "KubeComponentStatusList_no_checks =
   [(''validateKubeComponentStatusList_IsApiObjectParameters'', []),
    (''validateKubeComponentStatusList_IsConstructParameters'', []),
    (''validateKubeComponentStatusList_ManifestParameters'', []),
    (''validateKubeComponentStatusList_OfParameters'', []),
    (''validateNewKubeComponentStatusListParameters'', [])]"

lemma KubeComponentStatusList_ok [class_checks]: "classOk (KubeComponentStatusList, KubeComponentStatusList_checks)"
  by (rule classRequired_I [where s = KubeComponentStatusListProps], simp only: table_members)
    (simp_all only: KubeComponentStatusList_def KubeComponentStatusList_getters_def KubeComponentStatusList_functions_def
      KubeComponentStatusList_methods_def KubeComponentStatusList_checks_def KubeComponentStatusListProps_def class_eval)

lemma KubeComponentStatusList_declared [class_interfaces]:
  "KubeComponentStatusList_interface = apiObjectInterface ''KubeComponentStatusList''"
  "KubeComponentStatusList_no_checks = apiObjectNoChecks ''KubeComponentStatusList''"
  by (simp_all only: KubeComponentStatusList_interface_def KubeComponentStatusList_no_checks_def declared_eval)

definition KubeConfigMap_interface :: interface where
  "KubeConfigMap_interface = Interface ''KubeConfigMap'' [''cdk8s.ApiObject'']
   [Sig ''ApiGroup'' [] (Some (GoPtr GoString)), Sig ''ApiVersion'' [] (Some (GoPtr GoString)),
    Sig ''Chart'' [] (Some (GoNamed ''cdk8s.Chart'')), Sig ''Kind'' [] (Some (GoPtr GoString)),
    Sig ''Metadata'' [] (Some (GoNamed ''cdk8s.ApiObjectMetadataDefinition'')),
    Sig ''Name'' [] (Some (GoPtr GoString)), Sig ''Node'' [] (Some (GoNamed ''constructs.Node'')),
    Sig ''AddDependency'' [Rest ''dependencies'' (GoNamed ''constructs.IConstruct'')] None,
    Sig ''AddJsonPatch'' [Rest ''ops'' (GoNamed ''cdk8s.JsonPatch'')] None,
    Sig ''ToJson'' [] (Some GoAny), Sig ''ToString'' [] (Some (GoPtr GoString))]"

definition KubeConfigMap_getters :: "gofun list" where
  "KubeConfigMap_getters =
   [Method (Sig ''ApiGroup'' [] (Some (GoPtr GoString))) (Getter ''apiGroup''),
    Method (Sig ''ApiVersion'' [] (Some (GoPtr GoString))) (Getter ''apiVersion''),
    Method (Sig ''Chart'' [] (Some (GoNamed ''cdk8s.Chart''))) (Getter ''chart''),
    Method (Sig ''Kind'' [] (Some (GoPtr GoString))) (Getter ''kind''),
    Method (Sig ''Metadata'' [] (Some (GoNamed ''cdk8s.ApiObjectMetadataDefinition'')))
      (Getter ''metadata''),
    Method (Sig ''Name'' [] (Some (GoPtr GoString))) (Getter ''name''),
    Method (Sig ''Node'' [] (Some (GoNamed ''constructs.Node''))) (Getter ''node'')]"

definition KubeConfigMap_functions :: "gofun list" where
  "KubeConfigMap_functions =
   [Func (Sig ''NewKubeConfigMap'' [
         Param ''scope'' (GoNamed ''constructs.Construct''), Param ''id'' (GoPtr GoString),
         Param ''props'' (GoPtr (GoNamed ''KubeConfigMapProps''))] (Some (GoNamed ''KubeConfigMap'')))
      (Construct ''k8s.KubeConfigMap'' [''scope'', ''id'', ''props''] ''validateNewKubeConfigMapParameters''),
    Func (Sig ''NewKubeConfigMap_Override'' [
         Param ''k'' (GoNamed ''KubeConfigMap''), Param ''scope'' (GoNamed ''constructs.Construct''),
         Param ''id'' (GoPtr GoString), Param ''props'' (GoPtr (GoNamed ''KubeConfigMapProps''))] None)
      (ConstructOverride ''k8s.KubeConfigMap'' [''scope'', ''id'', ''props'']),
    Func (Sig ''KubeConfigMap_IsApiObject'' [Param ''o'' GoAny] (Some (GoPtr GoBool)))
      (StaticCall ''k8s.KubeConfigMap'' ''isApiObject'' [''o''] ''validateKubeConfigMap_IsApiObjectParameters''),
    Func (Sig ''KubeConfigMap_IsConstruct'' [Param ''x'' GoAny] (Some (GoPtr GoBool)))
      (StaticCall ''k8s.KubeConfigMap'' ''isConstruct'' [''x''] ''validateKubeConfigMap_IsConstructParameters''),
    Func (Sig ''KubeConfigMap_Manifest'' [Param ''props'' (GoPtr (GoNamed ''KubeConfigMapProps''))] (Some GoAny))
      (StaticCall ''k8s.KubeConfigMap'' ''manifest'' [''props''] ''validateKubeConfigMap_ManifestParameters''),
    Func (Sig ''KubeConfigMap_Of'' [Param ''c'' (GoNamed ''constructs.IConstruct'')] (Some (GoNamed ''cdk8s.ApiObject'')))
      (StaticCall ''k8s.KubeConfigMap'' ''of'' [''c''] ''validateKubeConfigMap_OfParameters''),
    Func (Sig ''KubeConfigMap_GVK'' [] (Some (GoPtr (GoNamed ''cdk8s.GroupVersionKind''))))
      (StaticProp ''k8s.KubeConfigMap'' ''GVK'')]"

definition KubeConfigMap_methods :: "gofun list" where
  "KubeConfigMap_methods =
   [Method (Sig ''AddDependency'' [Rest ''dependencies'' (GoNamed ''constructs.IConstruct'')] None)
      (Variadic ''addDependency''),
    Method (Sig ''AddJsonPatch'' [Rest ''ops'' (GoNamed ''cdk8s.JsonPatch'')] None)
      (Variadic ''addJsonPatch''),
    Method (Sig ''ToJson'' [] (Some GoAny)) (Plain ''toJson''),
    Method (Sig ''ToString'' [] (Some (GoPtr GoString))) (Plain ''toString'')]"

definition KubeConfigMap :: binding where
  "KubeConfigMap = Binding ''KubeConfigMap'' [''internal.Type__cdk8sApiObject'']
     (KubeConfigMap_getters @ KubeConfigMap_functions @ KubeConfigMap_methods)"

definition KubeConfigMap_checks :: validators where
  "KubeConfigMap_checks =
   [(''validateKubeConfigMap_IsApiObjectParameters'', [NotNil ''o'']),
    (''validateKubeConfigMap_IsConstructParameters'', [NotNil ''x'']),
    (''validateKubeConfigMap_ManifestParameters'', [ValidStruct ''props'']),
    (''validateKubeConfigMap_OfParameters'', [NotNil ''c'']),
    (''validateNewKubeConfigMapParameters'', [NotNil ''scope'', NotNil ''id'', ValidStruct ''props''])]"

definition KubeConfigMap_no_checks :: validators where
  "KubeConfigMap_no_checks =
   [(''validateKubeConfigMap_IsApiObjectParameters'', []),
    (''validateKubeConfigMap_IsConstructParameters'', []),
    (''validateKubeConfigMap_ManifestParameters'', []),
    (''validateKubeConfigMap_OfParameters'', []), (''validateNewKubeConfigMapParameters'', [])]"

lemma KubeConfigMap_ok [class_checks]: "classOk (KubeConfigMap, KubeConfigMap_checks)"
  by (rule classOptional_I [where s = KubeConfigMapProps], simp only: table_members)
    (simp_all only: KubeConfigMap_def KubeConfigMap_getters_def KubeConfigMap_functions_def
      KubeConfigMap_methods_def KubeConfigMap_checks_def KubeConfigMapProps_def class_eval)

lemma KubeConfigMap_declared [class_interfaces]:
  "KubeConfigMap_interface = apiObjectInterface ''KubeConfigMap''"
  "KubeConfigMap_no_checks = apiObjectNoChecks ''KubeConfigMap''"
  by (simp_all only: KubeConfigMap_interface_def KubeConfigMap_no_checks_def declared_eval)

definition KubeConfigMapList_interface :: interface where
  "KubeConfigMapList_interface = Interface ''KubeConfigMapList'' [''cdk8s.ApiObject'']
   [Sig ''ApiGroup'' [] (Some (GoPtr GoString)), Sig ''ApiVersion'' [] (Some (GoPtr GoString)),
    Sig ''Chart'' [] (Some (GoNamed ''cdk8s.Chart'')), Sig ''Kind'' [] (Some (GoPtr GoString)),
    Sig ''Metadata'' [] (Some (GoNamed ''cdk8s.ApiObjectMetadataDefinition'')),
    Sig ''Name'' [] (Some (GoPtr GoString)), Sig ''Node'' [] (Some (GoNamed ''constructs.Node'')),
    Sig ''AddDependency'' [Rest ''dependencies'' (GoNamed ''constructs.IConstruct'')] None,
    Sig ''AddJsonPatch'' [Rest ''ops'' (GoNamed ''cdk8s.JsonPatch'')] None,
    Sig ''ToJson'' [] (Some GoAny), Sig ''ToString'' [] (Some (GoPtr GoString))]"

definition KubeConfigMapList_getters :: "gofun list" where
  "KubeConfigMapList_getters =
   [Method (Sig ''ApiGroup'' [] (Some (GoPtr GoString))) (Getter ''apiGroup''),
    Method (Sig ''ApiVersion'' [] (Some (GoPtr GoString))) (Getter ''apiVersion''),
    Method (Sig ''Chart'' [] (Some (GoNamed ''cdk8s.Chart''))) (Getter ''chart''),
    Method (Sig ''Kind'' [] (Some (GoPtr GoString))) (Getter ''kind''),
    Method (Sig ''Metadata'' [] (Some (GoNamed ''cdk8s.ApiObjectMetadataDefinition'')))
      (Getter ''metadata''),
    Method (Sig ''Name'' [] (Some (GoPtr GoString))) (Getter ''name''),
    Method (Sig ''Node'' [] (Some (GoNamed ''constructs.Node''))) (Getter ''node'')]"

definition KubeConfigMapList_functions :: "gofun list" where
  "KubeConfigMapList_functions =
   [Func (Sig ''NewKubeConfigMapList'' [
         Param ''scope'' (GoNamed ''constructs.Construct''), Param ''id'' (GoPtr GoString),
         Param ''props'' (GoPtr (GoNamed ''KubeConfigMapListProps''))] (Some (GoNamed ''KubeConfigMapList'')))
      (Construct ''k8s.KubeConfigMapList'' [''scope'', ''id'', ''props''] ''validateNewKubeConfigMapListParameters''),
    Func (Sig ''NewKubeConfigMapList_Override'' [
         Param ''k'' (GoNamed ''KubeConfigMapList''), Param ''scope'' (GoNamed ''constructs.Construct''),
         Param ''id'' (GoPtr GoString), Param ''props'' (GoPtr (GoNamed ''KubeConfigMapListProps''))] None)
      (ConstructOverride ''k8s.KubeConfigMapList'' [''scope'', ''id'', ''props'']),
    Func (Sig ''KubeConfigMapList_IsApiObject'' [Param ''o'' GoAny] (Some (GoPtr GoBool)))
      (StaticCall ''k8s.KubeConfigMapList'' ''isApiObject'' [''o''] ''validateKubeConfigMapList_IsApiObjectParameters''),
    Func (Sig ''KubeConfigMapList_IsConstruct'' [Param ''x'' GoAny] (Some (GoPtr GoBool)))
      (StaticCall ''k8s.KubeConfigMapList'' ''isConstruct'' [''x''] ''validateKubeConfigMapList_IsConstructParameters''),
    Func (Sig ''KubeConfigMapList_Manifest'' [Param ''props'' (GoPtr (GoNamed ''KubeConfigMapListProps''))] (Some GoAny))
      (StaticCall ''k8s.KubeConfigMapList'' ''manifest'' [''props''] ''validateKubeConfigMapList_ManifestParameters''),
    Func (Sig ''KubeConfigMapList_Of'' [Param ''c'' (GoNamed ''constructs.IConstruct'')] (Some (GoNamed ''cdk8s.ApiObject'')))
      (StaticCall ''k8s.KubeConfigMapList'' ''of'' [''c''] ''validateKubeConfigMapList_OfParameters''),
    Func (Sig ''KubeConfigMapList_GVK'' [] (Some (GoPtr (GoNamed ''cdk8s.GroupVersionKind''))))
      (StaticProp ''k8s.KubeConfigMapList'' ''GVK'')]"

definition KubeConfigMapList_methods :: "gofun list" where
  "KubeConfigMapList_methods =
   [Method (Sig ''AddDependency'' [Rest ''dependencies'' (GoNamed ''constructs.IConstruct'')] None)
      (Variadic ''addDependency''),
    Method (Sig ''AddJsonPatch'' [Rest ''ops'' (GoNamed ''cdk8s.JsonPatch'')] None)
      (Variadic ''addJsonPatch''),
    Method (Sig ''ToJson'' [] (Some GoAny)) (Plain ''toJson''),
    Method (Sig ''ToString'' [] (Some (GoPtr GoString))) (Plain ''toString'')]"

definition KubeConfigMapList :: binding where
  "KubeConfigMapList = Binding ''KubeConfigMapList'' [''internal.Type__cdk8sApiObject'']
     (KubeConfigMapList_getters @ KubeConfigMapList_functions @ KubeConfigMapList_methods)"

definition KubeConfigMapList_checks :: validators where
  "KubeConfigMapList_checks =
   [(''validateKubeConfigMapList_IsApiObjectParameters'', [NotNil ''o'']),
    (''validateKubeConfigMapList_IsConstructParameters'', [NotNil ''x'']),
    (''validateKubeConfigMapList_ManifestParameters'', [NotNil ''props'', ValidStruct ''props'']),
    (''validateKubeConfigMapList_OfParameters'', [NotNil ''c'']),
    (''validateNewKubeConfigMapListParameters'', [NotNil ''scope'', NotNil ''id'', NotNil ''props'', ValidStruct ''props''])]"

definition KubeConfigMapList_no_checks :: validators where
  "KubeConfigMapList_no_checks =
   [(''validateKubeConfigMapList_IsApiObjectParameters'', []),
    (''validateKubeConfigMapList_IsConstructParameters'', []),
    (''validateKubeConfigMapList_ManifestParameters'', []),
    (''validateKubeConfigMapList_OfParameters'', []),
    (''validateNewKubeConfigMapListParameters'', [])]"

lemma KubeConfigMapList_ok [class_checks]: "classOk (KubeConfigMapList, KubeConfigMapList_checks)"
  by (rule classRequired_I [where s = KubeConfigMapListProps], simp only: table_members)
    (simp_all only: KubeConfigMapList_def KubeConfigMapList_getters_def KubeConfigMapList_functions_def
      KubeConfigMapList_methods_def KubeConfigMapList_checks_def KubeConfigMapListProps_def class_eval)

lemma KubeConfigMapList_declared [class_interfaces]:
  "KubeConfigMapList_interface = apiObjectInterface ''KubeConfigMapList''"
  "KubeConfigMapList_no_checks = apiObjectNoChecks ''KubeConfigMapList''"
  by (simp_all only: KubeConfigMapList_interface_def KubeConfigMapList_no_checks_def declared_eval)

definition KubeControllerRevision_interface :: interface where
  "KubeControllerRevision_interface = Interface ''KubeControllerRevision'' [''cdk8s.ApiObject'']
   [Sig ''ApiGroup'' [] (Some (GoPtr GoString)), Sig ''ApiVersion'' [] (Some (GoPtr GoString)),
    Sig ''Chart'' [] (Some (GoNamed ''cdk8s.Chart'')), Sig ''Kind'' [] (Some (GoPtr GoString)),
    Sig ''Metadata'' [] (Some (GoNamed ''cdk8s.ApiObjectMetadataDefinition'')),
    Sig ''Name'' [] (Some (GoPtr GoString)), Sig ''Node'' [] (Some (GoNamed ''constructs.Node'')),
    Sig ''AddDependency'' [Rest ''dependencies'' (GoNamed ''constructs.IConstruct'')] None,
    Sig ''AddJsonPatch'' [Rest ''ops'' (GoNamed ''cdk8s.JsonPatch'')] None,
    Sig ''ToJson'' [] (Some GoAny), Sig ''ToString'' [] (Some (GoPtr GoString))]"

definition KubeControllerRevision_getters :: "gofun list" where
  "KubeControllerRevision_getters =
   [Method (Sig ''ApiGroup'' [] (Some (GoPtr GoString))) (Getter ''apiGroup''),
    Method (Sig ''ApiVersion'' [] (Some (GoPtr GoString))) (Getter ''apiVersion''),
    Method (Sig ''Chart'' [] (Some (GoNamed ''cdk8s.Chart''))) (Getter ''chart''),
    Method (Sig ''Kind'' [] (Some (GoPtr GoString))) (Getter ''kind''),
    Method (Sig ''Metadata'' [] (Some (GoNamed ''cdk8s.ApiObjectMetadataDefinition'')))
      (Getter ''metadata''),
    Method (Sig ''Name'' [] (Some (GoPtr GoString))) (Getter ''name''),
    Method (Sig ''Node'' [] (Some (GoNamed ''constructs.Node''))) (Getter ''node'')]"

definition KubeControllerRevision_functions :: "gofun list" where
  "KubeControllerRevision_functions =
   [Func (Sig ''NewKubeControllerRevision'' [
         Param ''scope'' (GoNamed ''constructs.Construct''), Param ''id'' (GoPtr GoString),
         Param ''props'' (GoPtr (GoNamed ''KubeControllerRevisionProps''))] (Some (GoNamed ''KubeControllerRevision'')))
      (Construct ''k8s.KubeControllerRevision'' [''scope'', ''id'', ''props''] ''validateNewKubeControllerRevisionParameters''),
    Func (Sig ''NewKubeControllerRevision_Override'' [
         Param ''k'' (GoNamed ''KubeControllerRevision''),
         Param ''scope'' (GoNamed ''constructs.Construct''), Param ''id'' (GoPtr GoString),
         Param ''props'' (GoPtr (GoNamed ''KubeControllerRevisionProps''))] None)
      (ConstructOverride ''k8s.KubeControllerRevision'' [''scope'', ''id'', ''props'']),
    Func (Sig ''KubeControllerRevision_IsApiObject'' [Param ''o'' GoAny] (Some (GoPtr GoBool)))
      (StaticCall ''k8s.KubeControllerRevision'' ''isApiObject'' [''o''] ''validateKubeControllerRevision_IsApiObjectParameters''),
    Func (Sig ''KubeControllerRevision_IsConstruct'' [Param ''x'' GoAny] (Some (GoPtr GoBool)))
      (StaticCall ''k8s.KubeControllerRevision'' ''isConstruct'' [''x''] ''validateKubeControllerRevision_IsConstructParameters''),
    Func (Sig ''KubeControllerRevision_Manifest'' [Param ''props'' (GoPtr (GoNamed ''KubeControllerRevisionProps''))] (Some GoAny))
      (StaticCall ''k8s.KubeControllerRevision'' ''manifest'' [''props''] ''validateKubeControllerRevision_ManifestParameters''),
    Func (Sig ''KubeControllerRevision_Of'' [Param ''c'' (GoNamed ''constructs.IConstruct'')] (Some (GoNamed ''cdk8s.ApiObject'')))
      (StaticCall ''k8s.KubeControllerRevision'' ''of'' [''c''] ''validateKubeControllerRevision_OfParameters''),
    Func (Sig ''KubeControllerRevision_GVK'' [] (Some (GoPtr (GoNamed ''cdk8s.GroupVersionKind''))))
      (StaticProp ''k8s.KubeControllerRevision'' ''GVK'')]"

definition KubeControllerRevision_methods :: "gofun list" where
  "KubeControllerRevision_methods =
   [Method (Sig ''AddDependency'' [Rest ''dependencies'' (GoNamed ''constructs.IConstruct'')] None)
      (Variadic ''addDependency''),
    Method (Sig ''AddJsonPatch'' [Rest ''ops'' (GoNamed ''cdk8s.JsonPatch'')] None)
      (Variadic ''addJsonPatch''),
    Method (Sig ''ToJson'' [] (Some GoAny)) (Plain ''toJson''),
    Method (Sig ''ToString'' [] (Some (GoPtr GoString))) (Plain ''toString'')]"

definition KubeControllerRevision :: binding where
  "KubeControllerRevision = Binding ''KubeControllerRevision'' [''internal.Type__cdk8sApiObject'']
     (KubeControllerRevision_getters @ KubeControllerRevision_functions @ KubeControllerRevision_methods)"

definition KubeControllerRevision_checks :: validators where
  "KubeControllerRevision_checks =
   [(''validateKubeControllerRevision_IsApiObjectParameters'', [NotNil ''o'']),
    (''validateKubeControllerRevision_IsConstructParameters'', [NotNil ''x'']),
    (''validateKubeControllerRevision_ManifestParameters'', [NotNil ''props'', ValidStruct ''props'']),
    (''validateKubeControllerRevision_OfParameters'', [NotNil ''c'']),
    (''validateNewKubeControllerRevisionParameters'', [NotNil ''scope'', NotNil ''id'', NotNil ''props'', ValidStruct ''props''])]"

definition KubeControllerRevision_no_checks :: validators where
  "KubeControllerRevision_no_checks =
   [(''validateKubeControllerRevision_IsApiObjectParameters'', []),
    (''validateKubeControllerRevision_IsConstructParameters'', []),
    (''validateKubeControllerRevision_ManifestParameters'', []),
    (''validateKubeControllerRevision_OfParameters'', []),
    (''validateNewKubeControllerRevisionParameters'', [])]"

lemma KubeControllerRevision_ok [class_checks]: "classOk (KubeControllerRevision, KubeControllerRevision_checks)"
  by (rule classRequired_I [where s = KubeControllerRevisionProps], simp only: table_members)
    (simp_all only: KubeControllerRevision_def KubeControllerRevision_getters_def KubeControllerRevision_functions_def
      KubeControllerRevision_methods_def KubeControllerRevision_checks_def KubeControllerRevisionProps_def class_eval)

lemma KubeControllerRevision_declared [class_interfaces]:
  "KubeControllerRevision_interface = apiObjectInterface ''KubeControllerRevision''"
  "KubeControllerRevision_no_checks = apiObjectNoChecks ''KubeControllerRevision''"
  by (simp_all only: KubeControllerRevision_interface_def KubeControllerRevision_no_checks_def declared_eval)

definition KubeControllerRevisionList_interface :: interface where
  "KubeControllerRevisionList_interface = Interface ''KubeControllerRevisionList'' [''cdk8s.ApiObject'']
   [Sig ''ApiGroup'' [] (Some (GoPtr GoString)), Sig ''ApiVersion'' [] (Some (GoPtr GoString)),
    Sig ''Chart'' [] (Some (GoNamed ''cdk8s.Chart'')), Sig ''Kind'' [] (Some (GoPtr GoString)),
    Sig ''Metadata'' [] (Some (GoNamed ''cdk8s.ApiObjectMetadataDefinition'')),
    Sig ''Name'' [] (Some (GoPtr GoString)), Sig ''Node'' [] (Some (GoNamed ''constructs.Node'')),
    Sig ''AddDependency'' [Rest ''dependencies'' (GoNamed ''constructs.IConstruct'')] None,
    Sig ''AddJsonPatch'' [Rest ''ops'' (GoNamed ''cdk8s.JsonPatch'')] None,
    Sig ''ToJson'' [] (Some GoAny), Sig ''ToString'' [] (Some (GoPtr GoString))]"

definition KubeControllerRevisionList_getters :: "gofun list" where
  "KubeControllerRevisionList_getters =
   [Method (Sig ''ApiGroup'' [] (Some (GoPtr GoString))) (Getter ''apiGroup''),
    Method (Sig ''ApiVersion'' [] (Some (GoPtr GoString))) (Getter ''apiVersion''),
    Method (Sig ''Chart'' [] (Some (GoNamed ''cdk8s.Chart''))) (Getter ''chart''),
    Method (Sig ''Kind'' [] (Some (GoPtr GoString))) (Getter ''kind''),
    Method (Sig ''Metadata'' [] (Some (GoNamed ''cdk8s.ApiObjectMetadataDefinition'')))
      (Getter ''metadata''),
    Method (Sig ''Name'' [] (Some (GoPtr GoString))) (Getter ''name''),
    Method (Sig ''Node'' [] (Some (GoNamed ''constructs.Node''))) (Getter ''node'')]"

definition KubeControllerRevisionList_functions :: "gofun list" where
  "KubeControllerRevisionList_functions =
   [Func (Sig ''NewKubeControllerRevisionList'' [
         Param ''scope'' (GoNamed ''constructs.Construct''), Param ''id'' (GoPtr GoString),
         Param ''props'' (GoPtr (GoNamed ''KubeControllerRevisionListProps''))] (Some (GoNamed ''KubeControllerRevisionList'')))
      (Construct ''k8s.KubeControllerRevisionList'' [''scope'', ''id'', ''props''] ''validateNewKubeControllerRevisionListParameters''),
    Func (Sig ''NewKubeControllerRevisionList_Override'' [
         Param ''k'' (GoNamed ''KubeControllerRevisionList''),
         Param ''scope'' (GoNamed ''constructs.Construct''), Param ''id'' (GoPtr GoString),
         Param ''props'' (GoPtr (GoNamed ''KubeControllerRevisionListProps''))] None)
      (ConstructOverride ''k8s.KubeControllerRevisionList'' [''scope'', ''id'', ''props'']),
    Func (Sig ''KubeControllerRevisionList_IsApiObject'' [Param ''o'' GoAny] (Some (GoPtr GoBool)))
      (StaticCall ''k8s.KubeControllerRevisionList'' ''isApiObject'' [''o''] ''validateKubeControllerRevisionList_IsApiObjectParameters''),
    Func (Sig ''KubeControllerRevisionList_IsConstruct'' [Param ''x'' GoAny] (Some (GoPtr GoBool)))
      (StaticCall ''k8s.KubeControllerRevisionList'' ''isConstruct'' [''x''] ''validateKubeControllerRevisionList_IsConstructParameters''),
    Func (Sig ''KubeControllerRevisionList_Manifest'' [Param ''props'' (GoPtr (GoNamed ''KubeControllerRevisionListProps''))] (Some GoAny))
      (StaticCall ''k8s.KubeControllerRevisionList'' ''manifest'' [''props''] ''validateKubeControllerRevisionList_ManifestParameters''),
    Func (Sig ''KubeControllerRevisionList_Of'' [Param ''c'' (GoNamed ''constructs.IConstruct'')] (Some (GoNamed ''cdk8s.ApiObject'')))
      (StaticCall ''k8s.KubeControllerRevisionList'' ''of'' [''c''] ''validateKubeControllerRevisionList_OfParameters''),
    Func (Sig ''KubeControllerRevisionList_GVK'' [] (Some (GoPtr (GoNamed ''cdk8s.GroupVersionKind''))))
      (StaticProp ''k8s.KubeControllerRevisionList'' ''GVK'')]"

definition KubeControllerRevisionList_methods :: "gofun list" where
  "KubeControllerRevisionList_methods =
   [Method (Sig ''AddDependency'' [Rest ''dependencies'' (GoNamed ''constructs.IConstruct'')] None)
      (Variadic ''addDependency''),
    Method (Sig ''AddJsonPatch'' [Rest ''ops'' (GoNamed ''cdk8s.JsonPatch'')] None)
      (Variadic ''addJsonPatch''),
    Method (Sig ''ToJson'' [] (Some GoAny)) (Plain ''toJson''),
    Method (Sig ''ToString'' [] (Some (GoPtr GoString))) (Plain ''toString'')]"

definition KubeControllerRevisionList :: binding where
  "KubeControllerRevisionList = Binding ''KubeControllerRevisionList'' [''internal.Type__cdk8sApiObject'']
     (KubeControllerRevisionList_getters @ KubeControllerRevisionList_functions @ KubeControllerRevisionList_methods)"

definition KubeControllerRevisionList_checks :: validators where
  "KubeControllerRevisionList_checks =
   [(''validateKubeControllerRevisionList_IsApiObjectParameters'', [NotNil ''o'']),
    (''validateKubeControllerRevisionList_IsConstructParameters'', [NotNil ''x'']),
    (''validateKubeControllerRevisionList_ManifestParameters'', [NotNil ''props'', ValidStruct ''props'']),
    (''validateKubeControllerRevisionList_OfParameters'', [NotNil ''c'']),
    (''validateNewKubeControllerRevisionListParameters'', [NotNil ''scope'', NotNil ''id'', NotNil ''props'', ValidStruct ''props''])]"

definition KubeControllerRevisionList_no_checks :: validators where
  "KubeControllerRevisionList_no_checks =
   [(''validateKubeControllerRevisionList_IsApiObjectParameters'', []),
    (''validateKubeControllerRevisionList_IsConstructParameters'', []),
    (''validateKubeControllerRevisionList_ManifestParameters'', []),
    (''validateKubeControllerRevisionList_OfParameters'', []),
    (''validateNewKubeControllerRevisionListParameters'', [])]"

lemma KubeControllerRevisionList_ok [class_checks]: "classOk (KubeControllerRevisionList, KubeControllerRevisionList_checks)"
  by (rule classRequired_I [where s = KubeControllerRevisionListProps], simp only: table_members)
    (simp_all only: KubeControllerRevisionList_def KubeControllerRevisionList_getters_def KubeControllerRevisionList_functions_def
      KubeControllerRevisionList_methods_def KubeControllerRevisionList_checks_def KubeControllerRevisionListProps_def class_eval)

lemma KubeControllerRevisionList_declared [class_interfaces]:
  "KubeControllerRevisionList_interface = apiObjectInterface ''KubeControllerRevisionList''"
  "KubeControllerRevisionList_no_checks = apiObjectNoChecks ''KubeControllerRevisionList''"
  by (simp_all only: KubeControllerRevisionList_interface_def KubeControllerRevisionList_no_checks_def declared_eval)

definition KubeCronJob_interface :: interface where
  "KubeCronJob_interface = Interface ''KubeCronJob'' [''cdk8s.ApiObject'']
   [Sig ''ApiGroup'' [] (Some (GoPtr GoString)), Sig ''ApiVersion'' [] (Some (GoPtr GoString)),
    Sig ''Chart'' [] (Some (GoNamed ''cdk8s.Chart'')), Sig ''Kind'' [] (Some (GoPtr GoString)),
    Sig ''Metadata'' [] (Some (GoNamed ''cdk8s.ApiObjectMetadataDefinition'')),
    Sig ''Name'' [] (Some (GoPtr GoString)), Sig ''Node'' [] (Some (GoNamed ''constructs.Node'')),
    Sig ''AddDependency'' [Rest ''dependencies'' (GoNamed ''constructs.IConstruct'')] None,
    Sig ''AddJsonPatch'' [Rest ''ops'' (GoNamed ''cdk8s.JsonPatch'')] None,
    Sig ''ToJson'' [] (Some GoAny), Sig ''ToString'' [] (Some (GoPtr GoString))]"

definition KubeCronJob_getters :: "gofun list" where
  "KubeCronJob_getters =
   [Method (Sig ''ApiGroup'' [] (Some (GoPtr GoString))) (Getter ''apiGroup''),
    Method (Sig ''ApiVersion'' [] (Some (GoPtr GoString))) (Getter ''apiVersion''),
    Method (Sig ''Chart'' [] (Some (GoNamed ''cdk8s.Chart''))) (Getter ''chart''),
    Method (Sig ''Kind'' [] (Some (GoPtr GoString))) (Getter ''kind''),
    Method (Sig ''Metadata'' [] (Some (GoNamed ''cdk8s.ApiObjectMetadataDefinition'')))
      (Getter ''metadata''),
    Method (Sig ''Name'' [] (Some (GoPtr GoString))) (Getter ''name''),
    Method (Sig ''Node'' [] (Some (GoNamed ''constructs.Node''))) (Getter ''node'')]"

definition KubeCronJob_functions :: "gofun list" where
  "KubeCronJob_functions =
   [Func (Sig ''NewKubeCronJob'' [
         Param ''scope'' (GoNamed ''constructs.Construct''), Param ''id'' (GoPtr GoString),
         Param ''props'' (GoPtr (GoNamed ''KubeCronJobProps''))] (Some (GoNamed ''KubeCronJob'')))
      (Construct ''k8s.KubeCronJob'' [''scope'', ''id'', ''props''] ''validateNewKubeCronJobParameters''),
    Func (Sig ''NewKubeCronJob_Override'' [
         Param ''k'' (GoNamed ''KubeCronJob''), Param ''scope'' (GoNamed ''constructs.Construct''),
         Param ''id'' (GoPtr GoString), Param ''props'' (GoPtr (GoNamed ''KubeCronJobProps''))] None)
      (ConstructOverride ''k8s.KubeCronJob'' [''scope'', ''id'', ''props'']),
    Func (Sig ''KubeCronJob_IsApiObject'' [Param ''o'' GoAny] (Some (GoPtr GoBool)))
      (StaticCall ''k8s.KubeCronJob'' ''isApiObject'' [''o''] ''validateKubeCronJob_IsApiObjectParameters''),
    Func (Sig ''KubeCronJob_IsConstruct'' [Param ''x'' GoAny] (Some (GoPtr GoBool)))
      (StaticCall ''k8s.KubeCronJob'' ''isConstruct'' [''x''] ''validateKubeCronJob_IsConstructParameters''),
    Func (Sig ''KubeCronJob_Manifest'' [Param ''props'' (GoPtr (GoNamed ''KubeCronJobProps''))] (Some GoAny))
      (StaticCall ''k8s.KubeCronJob'' ''manifest'' [''props''] ''validateKubeCronJob_ManifestParameters''),
    Func (Sig ''KubeCronJob_Of'' [Param ''c'' (GoNamed ''constructs.IConstruct'')] (Some (GoNamed ''cdk8s.ApiObject'')))
      (StaticCall ''k8s.KubeCronJob'' ''of'' [''c''] ''validateKubeCronJob_OfParameters''),
    Func (Sig ''KubeCronJob_GVK'' [] (Some (GoPtr (GoNamed ''cdk8s.GroupVersionKind''))))
      (StaticProp ''k8s.KubeCronJob'' ''GVK'')]"

definition KubeCronJob_methods :: "gofun list" where
  "KubeCronJob_methods =
   [Method (Sig ''AddDependency'' [Rest ''dependencies'' (GoNamed ''constructs.IConstruct'')] None)
      (Variadic ''addDependency''),
    Method (Sig ''AddJsonPatch'' [Rest ''ops'' (GoNamed ''cdk8s.JsonPatch'')] None)
      (Variadic ''addJsonPatch''),
    Method (Sig ''ToJson'' [] (Some GoAny)) (Plain ''toJson''),
    Method (Sig ''ToString'' [] (Some (GoPtr GoString))) (Plain ''toString'')]"

definition KubeCronJob :: binding where
  "KubeCronJob = Binding ''KubeCronJob'' [''internal.Type__cdk8sApiObject'']
     (KubeCronJob_getters @ KubeCronJob_functions @ KubeCronJob_methods)"

definition KubeCronJob_checks :: validators where
  "KubeCronJob_checks =
   [(''validateKubeCronJob_IsApiObjectParameters'', [NotNil ''o'']),
    (''validateKubeCronJob_IsConstructParameters'', [NotNil ''x'']),
    (''validateKubeCronJob_ManifestParameters'', [ValidStruct ''props'']),
    (''validateKubeCronJob_OfParameters'', [NotNil ''c'']),
    (''validateNewKubeCronJobParameters'', [NotNil ''scope'', NotNil ''id'', ValidStruct ''props''])]"

definition KubeCronJob_no_checks :: validators where
  "KubeCronJob_no_checks =
   [(''validateKubeCronJob_IsApiObjectParameters'', []),
    (''validateKubeCronJob_IsConstructParameters'', []),
    (''validateKubeCronJob_ManifestParameters'', []), (''validateKubeCronJob_OfParameters'', []),
    (''validateNewKubeCronJobParameters'', [])]"

lemma KubeCronJob_ok [class_checks]: "classOk (KubeCronJob, KubeCronJob_checks)"
  by (rule classOptional_I [where s = KubeCronJobProps], simp only: table_members)
    (simp_all only: KubeCronJob_def KubeCronJob_getters_def KubeCronJob_functions_def
      KubeCronJob_methods_def KubeCronJob_checks_def KubeCronJobProps_def class_eval)

lemma KubeCronJob_declared [class_interfaces]:
  "KubeCronJob_interface = apiObjectInterface ''KubeCronJob''"
  "KubeCronJob_no_checks = apiObjectNoChecks ''KubeCronJob''"
  by (simp_all only: KubeCronJob_interface_def KubeCronJob_no_checks_def declared_eval)

definition KubeCronJobList_interface :: interface where
  "KubeCronJobList_interface = Interface ''KubeCronJobList'' [''cdk8s.ApiObject'']
   [Sig ''ApiGroup'' [] (Some (GoPtr GoString)), Sig ''ApiVersion'' [] (Some (GoPtr GoString)),
    Sig ''Chart'' [] (Some (GoNamed ''cdk8s.Chart'')), Sig ''Kind'' [] (Some (GoPtr GoString)),
    Sig ''Metadata'' [] (Some (GoNamed ''cdk8s.ApiObjectMetadataDefinition'')),
    Sig ''Name'' [] (Some (GoPtr GoString)), Sig ''Node'' [] (Some (GoNamed ''constructs.Node'')),
    Sig ''AddDependency'' [Rest ''dependencies'' (GoNamed ''constructs.IConstruct'')] None,
    Sig ''AddJsonPatch'' [Rest ''ops'' (GoNamed ''cdk8s.JsonPatch'')] None,
    Sig ''ToJson'' [] (Some GoAny), Sig ''ToString'' [] (Some (GoPtr GoString))]"

definition KubeCronJobList_getters :: "gofun list" where
  "KubeCronJobList_getters =
   [Method (Sig ''ApiGroup'' [] (Some (GoPtr GoString))) (Getter ''apiGroup''),
    Method (Sig ''ApiVersion'' [] (Some (GoPtr GoString))) (Getter ''apiVersion''),
    Method (Sig ''Chart'' [] (Some (GoNamed ''cdk8s.Chart''))) (Getter ''chart''),
    Method (Sig ''Kind'' [] (Some (GoPtr GoString))) (Getter ''kind''),
    Method (Sig ''Metadata'' [] (Some (GoNamed ''cdk8s.ApiObjectMetadataDefinition'')))
      (Getter ''metadata''),
    Method (Sig ''Name'' [] (Some (GoPtr GoString))) (Getter ''name''),
    Method (Sig ''Node'' [] (Some (GoNamed ''constructs.Node''))) (Getter ''node'')]"

definition KubeCronJobList_functions :: "gofun list" where
  "KubeCronJobList_functions =
   [Func (Sig ''NewKubeCronJobList'' [
         Param ''scope'' (GoNamed ''constructs.Construct''), Param ''id'' (GoPtr GoString),
         Param ''props'' (GoPtr (GoNamed ''KubeCronJobListProps''))] (Some (GoNamed ''KubeCronJobList'')))
      (Construct ''k8s.KubeCronJobList'' [''scope'', ''id'', ''props''] ''validateNewKubeCronJobListParameters''),
    Func (Sig ''NewKubeCronJobList_Override'' [
         Param ''k'' (GoNamed ''KubeCronJobList''), Param ''scope'' (GoNamed ''constructs.Construct''),
         Param ''id'' (GoPtr GoString), Param ''props'' (GoPtr (GoNamed ''KubeCronJobListProps''))] None)
      (ConstructOverride ''k8s.KubeCronJobList'' [''scope'', ''id'', ''props'']),
    Func (Sig ''KubeCronJobList_IsApiObject'' [Param ''o'' GoAny] (Some (GoPtr GoBool)))
      (StaticCall ''k8s.KubeCronJobList'' ''isApiObject'' [''o''] ''validateKubeCronJobList_IsApiObjectParameters''),
    Func (Sig ''KubeCronJobList_IsConstruct'' [Param ''x'' GoAny] (Some (GoPtr GoBool)))
      (StaticCall ''k8s.KubeCronJobList'' ''isConstruct'' [''x''] ''validateKubeCronJobList_IsConstructParameters''),
    Func (Sig ''KubeCronJobList_Manifest'' [Param ''props'' (GoPtr (GoNamed ''KubeCronJobListProps''))] (Some GoAny))
      (StaticCall ''k8s.KubeCronJobList'' ''manifest'' [''props''] ''validateKubeCronJobList_ManifestParameters''),
    Func (Sig ''KubeCronJobList_Of'' [Param ''c'' (GoNamed ''constructs.IConstruct'')] (Some (GoNamed ''cdk8s.ApiObject'')))
      (StaticCall ''k8s.KubeCronJobList'' ''of'' [''c''] ''validateKubeCronJobList_OfParameters''),
    Func (Sig ''KubeCronJobList_GVK'' [] (Some (GoPtr (GoNamed ''cdk8s.GroupVersionKind''))))
      (StaticProp ''k8s.KubeCronJobList'' ''GVK'')]"

definition KubeCronJobList_methods :: "gofun list" where
  "KubeCronJobList_methods =
   [Method (Sig ''AddDependency'' [Rest ''dependencies'' (GoNamed ''constructs.IConstruct'')] None)
      (Variadic ''addDependency''),
    Method (Sig ''AddJsonPatch'' [Rest ''ops'' (GoNamed ''cdk8s.JsonPatch'')] None)
      (Variadic ''addJsonPatch''),
    Method (Sig ''ToJson'' [] (Some GoAny)) (Plain ''toJson''),
    Method (Sig ''ToString'' [] (Some (GoPtr GoString))) (Plain ''toString'')]"

definition KubeCronJobList :: binding where
  "KubeCronJobList = Binding ''KubeCronJobList'' [''internal.Type__cdk8sApiObject'']
     (KubeCronJobList_getters @ KubeCronJobList_functions @ KubeCronJobList_methods)"

definition KubeCronJobList_checks :: validators where
  "KubeCronJobList_checks =
   [(''validateKubeCronJobList_IsApiObjectParameters'', [NotNil ''o'']),
    (''validateKubeCronJobList_IsConstructParameters'', [NotNil ''x'']),
    (''validateKubeCronJobList_ManifestParameters'', [NotNil ''props'', ValidStruct ''props'']),
    (''validateKubeCronJobList_OfParameters'', [NotNil ''c'']),
    (''validateNewKubeCronJobListParameters'', [NotNil ''scope'', NotNil ''id'', NotNil ''props'', ValidStruct ''props''])]"

definition KubeCronJobList_no_checks :: validators where
  "KubeCronJobList_no_checks =
   [(''validateKubeCronJobList_IsApiObjectParameters'', []),
    (''validateKubeCronJobList_IsConstructParameters'', []),
    (''validateKubeCronJobList_ManifestParameters'', []),
    (''validateKubeCronJobList_OfParameters'', []), (''validateNewKubeCronJobListParameters'', [])]"

lemma KubeCronJobList_ok [class_checks]: "classOk (KubeCronJobList, KubeCronJobList_checks)"
  by (rule classRequired_I [where s = KubeCronJobListProps], simp only: table_members)
    (simp_all only: KubeCronJobList_def KubeCronJobList_getters_def KubeCronJobList_functions_def
      KubeCronJobList_methods_def KubeCronJobList_checks_def KubeCronJobListProps_def class_eval)

lemma KubeCronJobList_declared [class_interfaces]:
  "KubeCronJobList_interface = apiObjectInterface ''KubeCronJobList''"
  "KubeCronJobList_no_checks = apiObjectNoChecks ''KubeCronJobList''"
  by (simp_all only: KubeCronJobList_interface_def KubeCronJobList_no_checks_def declared_eval)

definition KubeCsiDriver_interface :: interface where
  "KubeCsiDriver_interface = Interface ''KubeCsiDriver'' [''cdk8s.ApiObject'']
   [Sig ''ApiGroup'' [] (Some (GoPtr GoString)), Sig ''ApiVersion'' [] (Some (GoPtr GoString)),
    Sig ''Chart'' [] (Some (GoNamed ''cdk8s.Chart'')), Sig ''Kind'' [] (Some (GoPtr GoString)),
    Sig ''Metadata'' [] (Some (GoNamed ''cdk8s.ApiObjectMetadataDefinition'')),
    Sig ''Name'' [] (Some (GoPtr GoString)), Sig ''Node'' [] (Some (GoNamed ''constructs.Node'')),
    Sig ''AddDependency'' [Rest ''dependencies'' (GoNamed ''constructs.IConstruct'')] None,
    Sig ''AddJsonPatch'' [Rest ''ops'' (GoNamed ''cdk8s.JsonPatch'')] None,
    Sig ''ToJson'' [] (Some GoAny), Sig ''ToString'' [] (Some (GoPtr GoString))]"

definition KubeCsiDriver_getters :: "gofun list" where
  "KubeCsiDriver_getters =
   [Method (Sig ''ApiGroup'' [] (Some (GoPtr GoString))) (Getter ''apiGroup''),
    Method (Sig ''ApiVersion'' [] (Some (GoPtr GoString))) (Getter ''apiVersion''),
    Method (Sig ''Chart'' [] (Some (GoNamed ''cdk8s.Chart''))) (Getter ''chart''),
    Method (Sig ''Kind'' [] (Some (GoPtr GoString))) (Getter ''kind''),
    Method (Sig ''Metadata'' [] (Some (GoNamed ''cdk8s.ApiObjectMetadataDefinition'')))
      (Getter ''metadata''),
    Method (Sig ''Name'' [] (Some (GoPtr GoString))) (Getter ''name''),
    Method (Sig ''Node'' [] (Some (GoNamed ''constructs.Node''))) (Getter ''node'')]"

definition KubeCsiDriver_functions :: "gofun list" where
  "KubeCsiDriver_functions =
   [Func (Sig ''NewKubeCsiDriver'' [
         Param ''scope'' (GoNamed ''constructs.Construct''), Param ''id'' (GoPtr GoString),
         Param ''props'' (GoPtr (GoNamed ''KubeCsiDriverProps''))] (Some (GoNamed ''KubeCsiDriver'')))
      (Construct ''k8s.KubeCsiDriver'' [''scope'', ''id'', ''props''] ''validateNewKubeCsiDriverParameters''),
    Func (Sig ''NewKubeCsiDriver_Override'' [
         Param ''k'' (GoNamed ''KubeCsiDriver''), Param ''scope'' (GoNamed ''constructs.Construct''),
         Param ''id'' (GoPtr GoString), Param ''props'' (GoPtr (GoNamed ''KubeCsiDriverProps''))] None)
      (ConstructOverride ''k8s.KubeCsiDriver'' [''scope'', ''id'', ''props'']),
    Func (Sig ''KubeCsiDriver_IsApiObject'' [Param ''o'' GoAny] (Some (GoPtr GoBool)))
      (StaticCall ''k8s.KubeCsiDriver'' ''isApiObject'' [''o''] ''validateKubeCsiDriver_IsApiObjectParameters''),
    Func (Sig ''KubeCsiDriver_IsConstruct'' [Param ''x'' GoAny] (Some (GoPtr GoBool)))
      (StaticCall ''k8s.KubeCsiDriver'' ''isConstruct'' [''x''] ''validateKubeCsiDriver_IsConstructParameters''),
    Func (Sig ''KubeCsiDriver_Manifest'' [Param ''props'' (GoPtr (GoNamed ''KubeCsiDriverProps''))] (Some GoAny))
      (StaticCall ''k8s.KubeCsiDriver'' ''manifest'' [''props''] ''validateKubeCsiDriver_ManifestParameters''),
    Func (Sig ''KubeCsiDriver_Of'' [Param ''c'' (GoNamed ''constructs.IConstruct'')] (Some (GoNamed ''cdk8s.ApiObject'')))
      (StaticCall ''k8s.KubeCsiDriver'' ''of'' [''c''] ''validateKubeCsiDriver_OfParameters''),
    Func (Sig ''KubeCsiDriver_GVK'' [] (Some (GoPtr (GoNamed ''cdk8s.GroupVersionKind''))))
      (StaticProp ''k8s.KubeCsiDriver'' ''GVK'')]"

definition KubeCsiDriver_methods :: "gofun list" where
  "KubeCsiDriver_methods =
   [Method (Sig ''AddDependency'' [Rest ''dependencies'' (GoNamed ''constructs.IConstruct'')] None)
      (Variadic ''addDependency''),
    Method (Sig ''AddJsonPatch'' [Rest ''ops'' (GoNamed ''cdk8s.JsonPatch'')] None)
      (Variadic ''addJsonPatch''),
    Method (Sig ''ToJson'' [] (Some GoAny)) (Plain ''toJson''),
    Method (Sig ''ToString'' [] (Some (GoPtr GoString))) (Plain ''toString'')]"

definition KubeCsiDriver :: binding where
  "KubeCsiDriver = Binding ''KubeCsiDriver'' [''internal.Type__cdk8sApiObject'']
     (KubeCsiDriver_getters @ KubeCsiDriver_functions @ KubeCsiDriver_methods)"

definition KubeCsiDriver_checks :: validators where
  "KubeCsiDriver_checks =
   [(''validateKubeCsiDriver_IsApiObjectParameters'', [NotNil ''o'']),
    (''validateKubeCsiDriver_IsConstructParameters'', [NotNil ''x'']),
    (''validateKubeCsiDriver_ManifestParameters'', [NotNil ''props'', ValidStruct ''props'']),
    (''validateKubeCsiDriver_OfParameters'', [NotNil ''c'']),
    (''validateNewKubeCsiDriverParameters'', [NotNil ''scope'', NotNil ''id'', NotNil ''props'', ValidStruct ''props''])]"

definition KubeCsiDriver_no_checks :: validators where
  "KubeCsiDriver_no_checks =
   [(''validateKubeCsiDriver_IsApiObjectParameters'', []),
    (''validateKubeCsiDriver_IsConstructParameters'', []),
    (''validateKubeCsiDriver_ManifestParameters'', []),
    (''validateKubeCsiDriver_OfParameters'', []), (''validateNewKubeCsiDriverParameters'', [])]"

lemma KubeCsiDriver_ok [class_checks]: "classOk (KubeCsiDriver, KubeCsiDriver_checks)"
  by (rule classRequired_I [where s = KubeCsiDriverProps], simp only: table_members)
    (simp_all only: KubeCsiDriver_def KubeCsiDriver_getters_def KubeCsiDriver_functions_def
      KubeCsiDriver_methods_def KubeCsiDriver_checks_def KubeCsiDriverProps_def class_eval)

lemma KubeCsiDriver_declared [class_interfaces]:
  "KubeCsiDriver_interface = apiObjectInterface ''KubeCsiDriver''"
  "KubeCsiDriver_no_checks = apiObjectNoChecks ''KubeCsiDriver''"
  by (simp_all only: KubeCsiDriver_interface_def KubeCsiDriver_no_checks_def declared_eval)

definition classes_A :: "(binding \<times> validators) list" where
  "classes_A =
   [(KubeApiService, KubeApiService_checks), (KubeApiServiceList, KubeApiServiceList_checks),
    (KubeBinding, KubeBinding_checks),
    (KubeCertificateSigningRequest, KubeCertificateSigningRequest_checks),
    (KubeCertificateSigningRequestList, KubeCertificateSigningRequestList_checks),
    (KubeClusterCidrListV1Alpha1, KubeClusterCidrListV1Alpha1_checks),
    (KubeClusterCidrv1Alpha1, KubeClusterCidrv1Alpha1_checks),
    (KubeClusterRole, KubeClusterRole_checks),
    (KubeClusterRoleBinding, KubeClusterRoleBinding_checks),
    (KubeClusterRoleBindingList, KubeClusterRoleBindingList_checks),
    (KubeClusterRoleList, KubeClusterRoleList_checks),
    (KubeComponentStatus, KubeComponentStatus_checks),
    (KubeComponentStatusList, KubeComponentStatusList_checks),
    (KubeConfigMap, KubeConfigMap_checks), (KubeConfigMapList, KubeConfigMapList_checks),
    (KubeControllerRevision, KubeControllerRevision_checks),
    (KubeControllerRevisionList, KubeControllerRevisionList_checks),
    (KubeCronJob, KubeCronJob_checks), (KubeCronJobList, KubeCronJobList_checks),
    (KubeCsiDriver, KubeCsiDriver_checks)]"

lemma classes_A_ok [class_tables]: "list_all classOk classes_A"
  by (simp only: classes_A_def list.pred_inject class_checks HOL.simp_thms)

lemma classes_A_names [class_names]: "map (\<lambda>c. bindingName (fst c)) classes_A =
    [''KubeApiService'', ''KubeApiServiceList'', ''KubeBinding'', ''KubeCertificateSigningRequest'',
     ''KubeCertificateSigningRequestList'', ''KubeClusterCidrListV1Alpha1'',
     ''KubeClusterCidrv1Alpha1'', ''KubeClusterRole'', ''KubeClusterRoleBinding'',
     ''KubeClusterRoleBindingList'', ''KubeClusterRoleList'', ''KubeComponentStatus'',
     ''KubeComponentStatusList'', ''KubeConfigMap'', ''KubeConfigMapList'',
     ''KubeControllerRevision'', ''KubeControllerRevisionList'', ''KubeCronJob'',
     ''KubeCronJobList'', ''KubeCsiDriver'']"
  by (simp only: classes_A_def list.map fst_conv bindingName.simps
    KubeApiService_def KubeApiServiceList_def KubeBinding_def KubeCertificateSigningRequest_def
      KubeCertificateSigningRequestList_def KubeClusterCidrListV1Alpha1_def
      KubeClusterCidrv1Alpha1_def KubeClusterRole_def KubeClusterRoleBinding_def
      KubeClusterRoleBindingList_def KubeClusterRoleList_def KubeComponentStatus_def
      KubeComponentStatusList_def KubeConfigMap_def KubeConfigMapList_def KubeControllerRevision_def
      KubeControllerRevisionList_def KubeCronJob_def KubeCronJobList_def KubeCsiDriver_def)

definition interfaces_A :: "interface list" where
  "interfaces_A =
   [KubeApiService_interface, KubeApiServiceList_interface, KubeBinding_interface,
    KubeCertificateSigningRequest_interface, KubeCertificateSigningRequestList_interface,
    KubeClusterCidrListV1Alpha1_interface, KubeClusterCidrv1Alpha1_interface,
    KubeClusterRole_interface, KubeClusterRoleBinding_interface,
    KubeClusterRoleBindingList_interface, KubeClusterRoleList_interface,
    KubeComponentStatus_interface, KubeComponentStatusList_interface, KubeConfigMap_interface,
    KubeConfigMapList_interface, KubeControllerRevision_interface,
    KubeControllerRevisionList_interface, KubeCronJob_interface, KubeCronJobList_interface,
    KubeCsiDriver_interface]"

definition unchecked_A :: "(string \<times> validators) list" where
  "unchecked_A =
   [(''KubeApiService'', KubeApiService_no_checks),
    (''KubeApiServiceList'', KubeApiServiceList_no_checks),
    (''KubeBinding'', KubeBinding_no_checks),
    (''KubeCertificateSigningRequest'', KubeCertificateSigningRequest_no_checks),
    (''KubeCertificateSigningRequestList'', KubeCertificateSigningRequestList_no_checks),
    (''KubeClusterCidrListV1Alpha1'', KubeClusterCidrListV1Alpha1_no_checks),
    (''KubeClusterCidrv1Alpha1'', KubeClusterCidrv1Alpha1_no_checks),
    (''KubeClusterRole'', KubeClusterRole_no_checks),
    (''KubeClusterRoleBinding'', KubeClusterRoleBinding_no_checks),
    (''KubeClusterRoleBindingList'', KubeClusterRoleBindingList_no_checks),
    (''KubeClusterRoleList'', KubeClusterRoleList_no_checks),
    (''KubeComponentStatus'', KubeComponentStatus_no_checks),
    (''KubeComponentStatusList'', KubeComponentStatusList_no_checks),
    (''KubeConfigMap'', KubeConfigMap_no_checks),
    (''KubeConfigMapList'', KubeConfigMapList_no_checks),
    (''KubeControllerRevision'', KubeControllerRevision_no_checks),
    (''KubeControllerRevisionList'', KubeControllerRevisionList_no_checks),
    (''KubeCronJob'', KubeCronJob_no_checks), (''KubeCronJobList'', KubeCronJobList_no_checks),
    (''KubeCsiDriver'', KubeCsiDriver_no_checks)]"

lemma interfaces_A [class_tables]:
  "interfaces_A = map (\<lambda>c. apiObjectInterface (bindingName (fst c))) classes_A"
  "unchecked_A = map (\<lambda>c. (bindingName (fst c), apiObjectNoChecks (bindingName (fst c)))) classes_A"
  by (simp_all only: interfaces_A_def unchecked_A_def classes_A_def list.map fst_conv bindingName.simps class_interfaces
    KubeApiService_def KubeApiServiceList_def KubeBinding_def KubeCertificateSigningRequest_def
      KubeCertificateSigningRequestList_def KubeClusterCidrListV1Alpha1_def
      KubeClusterCidrv1Alpha1_def KubeClusterRole_def KubeClusterRoleBinding_def
      KubeClusterRoleBindingList_def KubeClusterRoleList_def KubeComponentStatus_def
      KubeComponentStatusList_def KubeConfigMap_def KubeConfigMapList_def KubeControllerRevision_def
      KubeControllerRevisionList_def KubeCronJob_def KubeCronJobList_def KubeCsiDriver_def)

end
