(* ===== verification/KubeClassesB.thy ===== *)
theory KubeClassesB
  imports Bindings K8sTypes
begin

text \<open>
  The classes \<open>KubeCsiDriverList\<close> to \<open>KubeEviction\<close> of the Kubernetes bindings: from each file \<open>Kube*.go\<close> the
  interface, the getters of the proxy, the package functions and the methods, then the validators of
  \<open>Kube*__checks.go\<close> and \<open>Kube*__no_checks.go\<close>, and the evaluation of the checks of \<open>Bindings\<close> on each.
\<close>

definition KubeCsiDriverList_interface :: interface where
  "KubeCsiDriverList_interface = Interface ''KubeCsiDriverList'' [''cdk8s.ApiObject'']
   [Sig ''ApiGroup'' [] (Some (GoPtr GoString)), Sig ''ApiVersion'' [] (Some (GoPtr GoString)),
    Sig ''Chart'' [] (Some (GoNamed ''cdk8s.Chart'')), Sig ''Kind'' [] (Some (GoPtr GoString)),
    Sig ''Metadata'' [] (Some (GoNamed ''cdk8s.ApiObjectMetadataDefinition'')),
    Sig ''Name'' [] (Some (GoPtr GoString)), Sig ''Node'' [] (Some (GoNamed ''constructs.Node'')),
    Sig ''AddDependency'' [Rest ''dependencies'' (GoNamed ''constructs.IConstruct'')] None,
    Sig ''AddJsonPatch'' [Rest ''ops'' (GoNamed ''cdk8s.JsonPatch'')] None,
    Sig ''ToJson'' [] (Some GoAny), Sig ''ToString'' [] (Some (GoPtr GoString))]"

definition KubeCsiDriverList_getters :: "gofun list" where
  "KubeCsiDriverList_getters =
   [Method (Sig ''ApiGroup'' [] (Some (GoPtr GoString))) (Getter ''apiGroup''),
    Method (Sig ''ApiVersion'' [] (Some (GoPtr GoString))) (Getter ''apiVersion''),
    Method (Sig ''Chart'' [] (Some (GoNamed ''cdk8s.Chart''))) (Getter ''chart''),
    Method (Sig ''Kind'' [] (Some (GoPtr GoString))) (Getter ''kind''),
    Method (Sig ''Metadata'' [] (Some (GoNamed ''cdk8s.ApiObjectMetadataDefinition'')))
      (Getter ''metadata''),
    Method (Sig ''Name'' [] (Some (GoPtr GoString))) (Getter ''name''),
    Method (Sig ''Node'' [] (Some (GoNamed ''constructs.Node''))) (Getter ''node'')]"

definition KubeCsiDriverList_functions :: "gofun list" where
  "KubeCsiDriverList_functions =
   [Func (Sig ''NewKubeCsiDriverList'' [
         Param ''scope'' (GoNamed ''constructs.Construct''), Param ''id'' (GoPtr GoString),
         Param ''props'' (GoPtr (GoNamed ''KubeCsiDriverListProps''))] (Some (GoNamed ''KubeCsiDriverList'')))
      (Construct ''k8s.KubeCsiDriverList'' [''scope'', ''id'', ''props''] ''validateNewKubeCsiDriverListParameters''),
    Func (Sig ''NewKubeCsiDriverList_Override'' [
         Param ''k'' (GoNamed ''KubeCsiDriverList''), Param ''scope'' (GoNamed ''constructs.Construct''),
         Param ''id'' (GoPtr GoString), Param ''props'' (GoPtr (GoNamed ''KubeCsiDriverListProps''))] None)
      (ConstructOverride ''k8s.KubeCsiDriverList'' [''scope'', ''id'', ''props'']),
    Func (Sig ''KubeCsiDriverList_IsApiObject'' [Param ''o'' GoAny] (Some (GoPtr GoBool)))
      (StaticCall ''k8s.KubeCsiDriverList'' ''isApiObject'' [''o''] ''validateKubeCsiDriverList_IsApiObjectParameters''),
    Func (Sig ''KubeCsiDriverList_IsConstruct'' [Param ''x'' GoAny] (Some (GoPtr GoBool)))
      (StaticCall ''k8s.KubeCsiDriverList'' ''isConstruct'' [''x''] ''validateKubeCsiDriverList_IsConstructParameters''),
    Func (Sig ''KubeCsiDriverList_Manifest'' [Param ''props'' (GoPtr (GoNamed ''KubeCsiDriverListProps''))] (Some GoAny))
      (StaticCall ''k8s.KubeCsiDriverList'' ''manifest'' [''props''] ''validateKubeCsiDriverList_ManifestParameters''),
    Func (Sig ''KubeCsiDriverList_Of'' [Param ''c'' (GoNamed ''constructs.IConstruct'')] (Some (GoNamed ''cdk8s.ApiObject'')))
      (StaticCall ''k8s.KubeCsiDriverList'' ''of'' [''c''] ''validateKubeCsiDriverList_OfParameters''),
    Func (Sig ''KubeCsiDriverList_GVK'' [] (Some (GoPtr (GoNamed ''cdk8s.GroupVersionKind''))))
      (StaticProp ''k8s.KubeCsiDriverList'' ''GVK'')]"

definition KubeCsiDriverList_methods :: "gofun list" where
  "KubeCsiDriverList_methods =
   [Method (Sig ''AddDependency'' [Rest ''dependencies'' (GoNamed ''constructs.IConstruct'')] None)
      (Variadic ''addDependency''),
    Method (Sig ''AddJsonPatch'' [Rest ''ops'' (GoNamed ''cdk8s.JsonPatch'')] None)
      (Variadic ''addJsonPatch''),
    Method (Sig ''ToJson'' [] (Some GoAny)) (Plain ''toJson''),
    Method (Sig ''ToString'' [] (Some (GoPtr GoString))) (Plain ''toString'')]"

definition KubeCsiDriverList :: binding where
  "KubeCsiDriverList = Binding ''KubeCsiDriverList'' [''internal.Type__cdk8sApiObject'']
     (KubeCsiDriverList_getters @ KubeCsiDriverList_functions @ KubeCsiDriverList_methods)"

definition KubeCsiDriverList_checks :: validators where
  "KubeCsiDriverList_checks =
   [(''validateKubeCsiDriverList_IsApiObjectParameters'', [NotNil ''o'']),
    (''validateKubeCsiDriverList_IsConstructParameters'', [NotNil ''x'']),
    (''validateKubeCsiDriverList_ManifestParameters'', [NotNil ''props'', ValidStruct ''props'']),
    (''validateKubeCsiDriverList_OfParameters'', [NotNil ''c'']),
    (''validateNewKubeCsiDriverListParameters'', [NotNil ''scope'', NotNil ''id'', NotNil ''props'', ValidStruct ''props''])]"

definition KubeCsiDriverList_no_checks :: validators where
  "KubeCsiDriverList_no_checks =
   [(''validateKubeCsiDriverList_IsApiObjectParameters'', []),
    (''validateKubeCsiDriverList_IsConstructParameters'', []),
    (''validateKubeCsiDriverList_ManifestParameters'', []),
    (''validateKubeCsiDriverList_OfParameters'', []),
    (''validateNewKubeCsiDriverListParameters'', [])]"

lemma KubeCsiDriverList_ok [class_checks]: "classOk (KubeCsiDriverList, KubeCsiDriverList_checks)"
  by (rule classRequired_I [where s = KubeCsiDriverListProps], simp only: table_members)
    (simp_all only: KubeCsiDriverList_def KubeCsiDriverList_getters_def KubeCsiDriverList_functions_def
      KubeCsiDriverList_methods_def KubeCsiDriverList_checks_def KubeCsiDriverListProps_def class_eval)

lemma KubeCsiDriverList_declared [class_interfaces]:
  "KubeCsiDriverList_interface = apiObjectInterface ''KubeCsiDriverList''"
  "KubeCsiDriverList_no_checks = apiObjectNoChecks ''KubeCsiDriverList''"
  by (simp_all only: KubeCsiDriverList_interface_def KubeCsiDriverList_no_checks_def declared_eval)

definition KubeCsiNode_interface :: interface where
  "KubeCsiNode_interface = Interface ''KubeCsiNode'' [''cdk8s.ApiObject'']
   [Sig ''ApiGroup'' [] (Some (GoPtr GoString)), Sig ''ApiVersion'' [] (Some (GoPtr GoString)),
    Sig ''Chart'' [] (Some (GoNamed ''cdk8s.Chart'')), Sig ''Kind'' [] (Some (GoPtr GoString)),
    Sig ''Metadata'' [] (Some (GoNamed ''cdk8s.ApiObjectMetadataDefinition'')),
    Sig ''Name'' [] (Some (GoPtr GoString)), Sig ''Node'' [] (Some (GoNamed ''constructs.Node'')),
    Sig ''AddDependency'' [Rest ''dependencies'' (GoNamed ''constructs.IConstruct'')] None,
    Sig ''AddJsonPatch'' [Rest ''ops'' (GoNamed ''cdk8s.JsonPatch'')] None,
    Sig ''ToJson'' [] (Some GoAny), Sig ''ToString'' [] (Some (GoPtr GoString))]"

definition KubeCsiNode_getters :: "gofun list" where
  "KubeCsiNode_getters =
   [Method (Sig ''ApiGroup'' [] (Some (GoPtr GoString))) (Getter ''apiGroup''),
    Method (Sig ''ApiVersion'' [] (Some (GoPtr GoString))) (Getter ''apiVersion''),
    Method (Sig ''Chart'' [] (Some (GoNamed ''cdk8s.Chart''))) (Getter ''chart''),
    Method (Sig ''Kind'' [] (Some (GoPtr GoString))) (Getter ''kind''),
    Method (Sig ''Metadata'' [] (Some (GoNamed ''cdk8s.ApiObjectMetadataDefinition'')))
      (Getter ''metadata''),
    Method (Sig ''Name'' [] (Some (GoPtr GoString))) (Getter ''name''),
    Method (Sig ''Node'' [] (Some (GoNamed ''constructs.Node''))) (Getter ''node'')]"

definition KubeCsiNode_functions :: "gofun list" where
  "KubeCsiNode_functions =
   [Func (Sig ''NewKubeCsiNode'' [
         Param ''scope'' (GoNamed ''constructs.Construct''), Param ''id'' (GoPtr GoString),
         Param ''props'' (GoPtr (GoNamed ''KubeCsiNodeProps''))] (Some (GoNamed ''KubeCsiNode'')))
      (Construct ''k8s.KubeCsiNode'' [''scope'', ''id'', ''props''] ''validateNewKubeCsiNodeParameters''),
    Func (Sig ''NewKubeCsiNode_Override'' [
         Param ''k'' (GoNamed ''KubeCsiNode''), Param ''scope'' (GoNamed ''constructs.Construct''),
         Param ''id'' (GoPtr GoString), Param ''props'' (GoPtr (GoNamed ''KubeCsiNodeProps''))] None)
      (ConstructOverride ''k8s.KubeCsiNode'' [''scope'', ''id'', ''props'']),
    Func (Sig ''KubeCsiNode_IsApiObject'' [Param ''o'' GoAny] (Some (GoPtr GoBool)))
      (StaticCall ''k8s.KubeCsiNode'' ''isApiObject'' [''o''] ''validateKubeCsiNode_IsApiObjectParameters''),
    Func (Sig ''KubeCsiNode_IsConstruct'' [Param ''x'' GoAny] (Some (GoPtr GoBool)))
      (StaticCall ''k8s.KubeCsiNode'' ''isConstruct'' [''x''] ''validateKubeCsiNode_IsConstructParameters''),
    Func (Sig ''KubeCsiNode_Manifest'' [Param ''props'' (GoPtr (GoNamed ''KubeCsiNodeProps''))] (Some GoAny))
      (StaticCall ''k8s.KubeCsiNode'' ''manifest'' [''props''] ''validateKubeCsiNode_ManifestParameters''),
    Func (Sig ''KubeCsiNode_Of'' [Param ''c'' (GoNamed ''constructs.IConstruct'')] (Some (GoNamed ''cdk8s.ApiObject'')))
      (StaticCall ''k8s.KubeCsiNode'' ''of'' [''c''] ''validateKubeCsiNode_OfParameters''),
    Func (Sig ''KubeCsiNode_GVK'' [] (Some (GoPtr (GoNamed ''cdk8s.GroupVersionKind''))))
      (StaticProp ''k8s.KubeCsiNode'' ''GVK'')]"

definition KubeCsiNode_methods :: "gofun list" where
  "KubeCsiNode_methods =
   [Method (Sig ''AddDependency'' [Rest ''dependencies'' (GoNamed ''constructs.IConstruct'')] None)
      (Variadic ''addDependency''),
    Method (Sig ''AddJsonPatch'' [Rest ''ops'' (GoNamed ''cdk8s.JsonPatch'')] None)
      (Variadic ''addJsonPatch''),
    Method (Sig ''ToJson'' [] (Some GoAny)) (Plain ''toJson''),
    Method (Sig ''ToString'' [] (Some (GoPtr GoString))) (Plain ''toString'')]"

definition KubeCsiNode :: binding where
  "KubeCsiNode = Binding ''KubeCsiNode'' [''internal.Type__cdk8sApiObject'']
     (KubeCsiNode_getters @ KubeCsiNode_functions @ KubeCsiNode_methods)"

definition KubeCsiNode_checks :: validators where
  "KubeCsiNode_checks =
   [(''validateKubeCsiNode_IsApiObjectParameters'', [NotNil ''o'']),
    (''validateKubeCsiNode_IsConstructParameters'', [NotNil ''x'']),
    (''validateKubeCsiNode_ManifestParameters'', [NotNil ''props'', ValidStruct ''props'']),
    (''validateKubeCsiNode_OfParameters'', [NotNil ''c'']),
    (''validateNewKubeCsiNodeParameters'', [NotNil ''scope'', NotNil ''id'', NotNil ''props'', ValidStruct ''props''])]"

definition KubeCsiNode_no_checks :: validators where
  "KubeCsiNode_no_checks =
   [(''validateKubeCsiNode_IsApiObjectParameters'', []),
    (''validateKubeCsiNode_IsConstructParameters'', []),
    (''validateKubeCsiNode_ManifestParameters'', []), (''validateKubeCsiNode_OfParameters'', []),
    (''validateNewKubeCsiNodeParameters'', [])]"

lemma KubeCsiNode_ok [class_checks]: "classOk (KubeCsiNode, KubeCsiNode_checks)"
  by (rule classRequired_I [where s = KubeCsiNodeProps], simp only: table_members)
    (simp_all only: KubeCsiNode_def KubeCsiNode_getters_def KubeCsiNode_functions_def
      KubeCsiNode_methods_def KubeCsiNode_checks_def KubeCsiNodeProps_def class_eval)

lemma KubeCsiNode_declared [class_interfaces]:
  "KubeCsiNode_interface = apiObjectInterface ''KubeCsiNode''"
  "KubeCsiNode_no_checks = apiObjectNoChecks ''KubeCsiNode''"
  by (simp_all only: KubeCsiNode_interface_def KubeCsiNode_no_checks_def declared_eval)

definition KubeCsiNodeList_interface :: interface where
  "KubeCsiNodeList_interface = Interface ''KubeCsiNodeList'' [''cdk8s.ApiObject'']
   [Sig ''ApiGroup'' [] (Some (GoPtr GoString)), Sig ''ApiVersion'' [] (Some (GoPtr GoString)),
    Sig ''Chart'' [] (Some (GoNamed ''cdk8s.Chart'')), Sig ''Kind'' [] (Some (GoPtr GoString)),
    Sig ''Metadata'' [] (Some (GoNamed ''cdk8s.ApiObjectMetadataDefinition'')),
    Sig ''Name'' [] (Some (GoPtr GoString)), Sig ''Node'' [] (Some (GoNamed ''constructs.Node'')),
    Sig ''AddDependency'' [Rest ''dependencies'' (GoNamed ''constructs.IConstruct'')] None,
    Sig ''AddJsonPatch'' [Rest ''ops'' (GoNamed ''cdk8s.JsonPatch'')] None,
    Sig ''ToJson'' [] (Some GoAny), Sig ''ToString'' [] (Some (GoPtr GoString))]"

definition KubeCsiNodeList_getters :: "gofun list" where
  "KubeCsiNodeList_getters =
   [Method (Sig ''ApiGroup'' [] (Some (GoPtr GoString))) (Getter ''apiGroup''),
    Method (Sig ''ApiVersion'' [] (Some (GoPtr GoString))) (Getter ''apiVersion''),
    Method (Sig ''Chart'' [] (Some (GoNamed ''cdk8s.Chart''))) (Getter ''chart''),
    Method (Sig ''Kind'' [] (Some (GoPtr GoString))) (Getter ''kind''),
    Method (Sig ''Metadata'' [] (Some (GoNamed ''cdk8s.ApiObjectMetadataDefinition'')))
      (Getter ''metadata''),
    Method (Sig ''Name'' [] (Some (GoPtr GoString))) (Getter ''name''),
    Method (Sig ''Node'' [] (Some (GoNamed ''constructs.Node''))) (Getter ''node'')]"

definition KubeCsiNodeList_functions :: "gofun list" where
  "KubeCsiNodeList_functions =
   [Func (Sig ''NewKubeCsiNodeList'' [
         Param ''scope'' (GoNamed ''constructs.Construct''), Param ''id'' (GoPtr GoString),
         Param ''props'' (GoPtr (GoNamed ''KubeCsiNodeListProps''))] (Some (GoNamed ''KubeCsiNodeList'')))
      (Construct ''k8s.KubeCsiNodeList'' [''scope'', ''id'', ''props''] ''validateNewKubeCsiNodeListParameters''),
    Func (Sig ''NewKubeCsiNodeList_Override'' [
         Param ''k'' (GoNamed ''KubeCsiNodeList''), Param ''scope'' (GoNamed ''constructs.Construct''),
         Param ''id'' (GoPtr GoString), Param ''props'' (GoPtr (GoNamed ''KubeCsiNodeListProps''))] None)
      (ConstructOverride ''k8s.KubeCsiNodeList'' [''scope'', ''id'', ''props'']),
    Func (Sig ''KubeCsiNodeList_IsApiObject'' [Param ''o'' GoAny] (Some (GoPtr GoBool)))
      (StaticCall ''k8s.KubeCsiNodeList'' ''isApiObject'' [''o''] ''validateKubeCsiNodeList_IsApiObjectParameters''),
    Func (Sig ''KubeCsiNodeList_IsConstruct'' [Param ''x'' GoAny] (Some (GoPtr GoBool)))
      (StaticCall ''k8s.KubeCsiNodeList'' ''isConstruct'' [''x''] ''validateKubeCsiNodeList_IsConstructParameters''),
    Func (Sig ''KubeCsiNodeList_Manifest'' [Param ''props'' (GoPtr (GoNamed ''KubeCsiNodeListProps''))] (Some GoAny))
      (StaticCall ''k8s.KubeCsiNodeList'' ''manifest'' [''props''] ''validateKubeCsiNodeList_ManifestParameters''),
    Func (Sig ''KubeCsiNodeList_Of'' [Param ''c'' (GoNamed ''constructs.IConstruct'')] (Some (GoNamed ''cdk8s.ApiObject'')))
      (StaticCall ''k8s.KubeCsiNodeList'' ''of'' [''c''] ''validateKubeCsiNodeList_OfParameters''),
    Func (Sig ''KubeCsiNodeList_GVK'' [] (Some (GoPtr (GoNamed ''cdk8s.GroupVersionKind''))))
      (StaticProp ''k8s.KubeCsiNodeList'' ''GVK'')]"

definition KubeCsiNodeList_methods :: "gofun list" where
  "KubeCsiNodeList_methods =
   [Method (Sig ''AddDependency'' [Rest ''dependencies'' (GoNamed ''constructs.IConstruct'')] None)
      (Variadic ''addDependency''),
    Method (Sig ''AddJsonPatch'' [Rest ''ops'' (GoNamed ''cdk8s.JsonPatch'')] None)
      (Variadic ''addJsonPatch''),
    Method (Sig ''ToJson'' [] (Some GoAny)) (Plain ''toJson''),
    Method (Sig ''ToString'' [] (Some (GoPtr GoString))) (Plain ''toString'')]"

definition KubeCsiNodeList :: binding where
  "KubeCsiNodeList = Binding ''KubeCsiNodeList'' [''internal.Type__cdk8sApiObject'']
     (KubeCsiNodeList_getters @ KubeCsiNodeList_functions @ KubeCsiNodeList_methods)"

definition KubeCsiNodeList_checks :: validators where
  "KubeCsiNodeList_checks =
   [(''validateKubeCsiNodeList_IsApiObjectParameters'', [NotNil ''o'']),
    (''validateKubeCsiNodeList_IsConstructParameters'', [NotNil ''x'']),
    (''validateKubeCsiNodeList_ManifestParameters'', [NotNil ''props'', ValidStruct ''props'']),
    (''validateKubeCsiNodeList_OfParameters'', [NotNil ''c'']),
    (''validateNewKubeCsiNodeListParameters'', [NotNil ''scope'', NotNil ''id'', NotNil ''props'', ValidStruct ''props''])]"

definition KubeCsiNodeList_no_checks :: validators where
  "KubeCsiNodeList_no_checks =
   [(''validateKubeCsiNodeList_IsApiObjectParameters'', []),
    (''validateKubeCsiNodeList_IsConstructParameters'', []),
    (''validateKubeCsiNodeList_ManifestParameters'', []),
    (''validateKubeCsiNodeList_OfParameters'', []), (''validateNewKubeCsiNodeListParameters'', [])]"

lemma KubeCsiNodeList_ok [class_checks]: "classOk (KubeCsiNodeList, KubeCsiNodeList_checks)"
  by (rule classRequired_I [where s = KubeCsiNodeListProps], simp only: table_members)
    (simp_all only: KubeCsiNodeList_def KubeCsiNodeList_getters_def KubeCsiNodeList_functions_def
      KubeCsiNodeList_methods_def KubeCsiNodeList_checks_def KubeCsiNodeListProps_def class_eval)

lemma KubeCsiNodeList_declared [class_interfaces]:
  "KubeCsiNodeList_interface = apiObjectInterface ''KubeCsiNodeList''"
  "KubeCsiNodeList_no_checks = apiObjectNoChecks ''KubeCsiNodeList''"
  by (simp_all only: KubeCsiNodeList_interface_def KubeCsiNodeList_no_checks_def declared_eval)

definition KubeCsiStorageCapacity_interface :: interface where
  "KubeCsiStorageCapacity_interface = Interface ''KubeCsiStorageCapacity'' [''cdk8s.ApiObject'']
   [Sig ''ApiGroup'' [] (Some (GoPtr GoString)), Sig ''ApiVersion'' [] (Some (GoPtr GoString)),
    Sig ''Chart'' [] (Some (GoNamed ''cdk8s.Chart'')), Sig ''Kind'' [] (Some (GoPtr GoString)),
    Sig ''Metadata'' [] (Some (GoNamed ''cdk8s.ApiObjectMetadataDefinition'')),
    Sig ''Name'' [] (Some (GoPtr GoString)), Sig ''Node'' [] (Some (GoNamed ''constructs.Node'')),
    Sig ''AddDependency'' [Rest ''dependencies'' (GoNamed ''constructs.IConstruct'')] None,
    Sig ''AddJsonPatch'' [Rest ''ops'' (GoNamed ''cdk8s.JsonPatch'')] None,
    Sig ''ToJson'' [] (Some GoAny), Sig ''ToString'' [] (Some (GoPtr GoString))]"

definition KubeCsiStorageCapacity_getters :: "gofun list" where
  "KubeCsiStorageCapacity_getters =
   [Method (Sig ''ApiGroup'' [] (Some (GoPtr GoString))) (Getter ''apiGroup''),
    Method (Sig ''ApiVersion'' [] (Some (GoPtr GoString))) (Getter ''apiVersion''),
    Method (Sig ''Chart'' [] (Some (GoNamed ''cdk8s.Chart''))) (Getter ''chart''),
    Method (Sig ''Kind'' [] (Some (GoPtr GoString))) (Getter ''kind''),
    Method (Sig ''Metadata'' [] (Some (GoNamed ''cdk8s.ApiObjectMetadataDefinition'')))
      (Getter ''metadata''),
    Method (Sig ''Name'' [] (Some (GoPtr GoString))) (Getter ''name''),
    Method (Sig ''Node'' [] (Some (GoNamed ''constructs.Node''))) (Getter ''node'')]"

definition KubeCsiStorageCapacity_functions :: "gofun list" where
  "KubeCsiStorageCapacity_functions =
   [Func (Sig ''NewKubeCsiStorageCapacity'' [
         Param ''scope'' (GoNamed ''constructs.Construct''), Param ''id'' (GoPtr GoString),
         Param ''props'' (GoPtr (GoNamed ''KubeCsiStorageCapacityProps''))] (Some (GoNamed ''KubeCsiStorageCapacity'')))
      (Construct ''k8s.KubeCsiStorageCapacity'' [''scope'', ''id'', ''props''] ''validateNewKubeCsiStorageCapacityParameters''),
    Func (Sig ''NewKubeCsiStorageCapacity_Override'' [
         Param ''k'' (GoNamed ''KubeCsiStorageCapacity''),
         Param ''scope'' (GoNamed ''constructs.Construct''), Param ''id'' (GoPtr GoString),
         Param ''props'' (GoPtr (GoNamed ''KubeCsiStorageCapacityProps''))] None)
      (ConstructOverride ''k8s.KubeCsiStorageCapacity'' [''scope'', ''id'', ''props'']),
    Func (Sig ''KubeCsiStorageCapacity_IsApiObject'' [Param ''o'' GoAny] (Some (GoPtr GoBool)))
      (StaticCall ''k8s.KubeCsiStorageCapacity'' ''isApiObject'' [''o''] ''validateKubeCsiStorageCapacity_IsApiObjectParameters''),
    Func (Sig ''KubeCsiStorageCapacity_IsConstruct'' [Param ''x'' GoAny] (Some (GoPtr GoBool)))
      (StaticCall ''k8s.KubeCsiStorageCapacity'' ''isConstruct'' [''x''] ''validateKubeCsiStorageCapacity_IsConstructParameters''),
    Func (Sig ''KubeCsiStorageCapacity_Manifest'' [Param ''props'' (GoPtr (GoNamed ''KubeCsiStorageCapacityProps''))] (Some GoAny))
      (StaticCall ''k8s.KubeCsiStorageCapacity'' ''manifest'' [''props''] ''validateKubeCsiStorageCapacity_ManifestParameters''),
    Func (Sig ''KubeCsiStorageCapacity_Of'' [Param ''c'' (GoNamed ''constructs.IConstruct'')] (Some (GoNamed ''cdk8s.ApiObject'')))
      (StaticCall ''k8s.KubeCsiStorageCapacity'' ''of'' [''c''] ''validateKubeCsiStorageCapacity_OfParameters''),
    Func (Sig ''KubeCsiStorageCapacity_GVK'' [] (Some (GoPtr (GoNamed ''cdk8s.GroupVersionKind''))))
      (StaticProp ''k8s.KubeCsiStorageCapacity'' ''GVK'')]"

definition KubeCsiStorageCapacity_methods :: "gofun list" where
  "KubeCsiStorageCapacity_methods =
   [Method (Sig ''AddDependency'' [Rest ''dependencies'' (GoNamed ''constructs.IConstruct'')] None)
      (Variadic ''addDependency''),
    Method (Sig ''AddJsonPatch'' [Rest ''ops'' (GoNamed ''cdk8s.JsonPatch'')] None)
      (Variadic ''addJsonPatch''),
    Method (Sig ''ToJson'' [] (Some GoAny)) (Plain ''toJson''),
    Method (Sig ''ToString'' [] (Some (GoPtr GoString))) (Plain ''toString'')]"

definition KubeCsiStorageCapacity :: binding where
  "KubeCsiStorageCapacity = Binding ''KubeCsiStorageCapacity'' [''internal.Type__cdk8sApiObject'']
     (KubeCsiStorageCapacity_getters @ KubeCsiStorageCapacity_functions @ KubeCsiStorageCapacity_methods)"

definition KubeCsiStorageCapacity_checks :: validators where
  "KubeCsiStorageCapacity_checks =
   [(''validateKubeCsiStorageCapacity_IsApiObjectParameters'', [NotNil ''o'']),
    (''validateKubeCsiStorageCapacity_IsConstructParameters'', [NotNil ''x'']),
    (''validateKubeCsiStorageCapacity_ManifestParameters'', [NotNil ''props'', ValidStruct ''props'']),
    (''validateKubeCsiStorageCapacity_OfParameters'', [NotNil ''c'']),
    (''validateNewKubeCsiStorageCapacityParameters'', [NotNil ''scope'', NotNil ''id'', NotNil ''props'', ValidStruct ''props''])]"

definition KubeCsiStorageCapacity_no_checks :: validators where
  "KubeCsiStorageCapacity_no_checks =
   [(''validateKubeCsiStorageCapacity_IsApiObjectParameters'', []),
    (''validateKubeCsiStorageCapacity_IsConstructParameters'', []),
    (''validateKubeCsiStorageCapacity_ManifestParameters'', []),
    (''validateKubeCsiStorageCapacity_OfParameters'', []),
    (''validateNewKubeCsiStorageCapacityParameters'', [])]"

lemma KubeCsiStorageCapacity_ok [class_checks]: "classOk (KubeCsiStorageCapacity, KubeCsiStorageCapacity_checks)"
  by (rule classRequired_I [where s = KubeCsiStorageCapacityProps], simp only: table_members)
    (simp_all only: KubeCsiStorageCapacity_def KubeCsiStorageCapacity_getters_def KubeCsiStorageCapacity_functions_def
      KubeCsiStorageCapacity_methods_def KubeCsiStorageCapacity_checks_def KubeCsiStorageCapacityProps_def class_eval)

lemma KubeCsiStorageCapacity_declared [class_interfaces]:
  "KubeCsiStorageCapacity_interface = apiObjectInterface ''KubeCsiStorageCapacity''"
  "KubeCsiStorageCapacity_no_checks = apiObjectNoChecks ''KubeCsiStorageCapacity''"
  by (simp_all only: KubeCsiStorageCapacity_interface_def KubeCsiStorageCapacity_no_checks_def declared_eval)

definition KubeCsiStorageCapacityList_interface :: interface where
  "KubeCsiStorageCapacityList_interface = Interface ''KubeCsiStorageCapacityList'' [''cdk8s.ApiObject'']
   [Sig ''ApiGroup'' [] (Some (GoPtr GoString)), Sig ''ApiVersion'' [] (Some (GoPtr GoString)),
    Sig ''Chart'' [] (Some (GoNamed ''cdk8s.Chart'')), Sig ''Kind'' [] (Some (GoPtr GoString)),
    Sig ''Metadata'' [] (Some (GoNamed ''cdk8s.ApiObjectMetadataDefinition'')),
    Sig ''Name'' [] (Some (GoPtr GoString)), Sig ''Node'' [] (Some (GoNamed ''constructs.Node'')),
    Sig ''AddDependency'' [Rest ''dependencies'' (GoNamed ''constructs.IConstruct'')] None,
    Sig ''AddJsonPatch'' [Rest ''ops'' (GoNamed ''cdk8s.JsonPatch'')] None,
    Sig ''ToJson'' [] (Some GoAny), Sig ''ToString'' [] (Some (GoPtr GoString))]"

definition KubeCsiStorageCapacityList_getters :: "gofun list" where
  "KubeCsiStorageCapacityList_getters =
   [Method (Sig ''ApiGroup'' [] (Some (GoPtr GoString))) (Getter ''apiGroup''),
    Method (Sig ''ApiVersion'' [] (Some (GoPtr GoString))) (Getter ''apiVersion''),
    Method (Sig ''Chart'' [] (Some (GoNamed ''cdk8s.Chart''))) (Getter ''chart''),
    Method (Sig ''Kind'' [] (Some (GoPtr GoString))) (Getter ''kind''),
    Method (Sig ''Metadata'' [] (Some (GoNamed ''cdk8s.ApiObjectMetadataDefinition'')))
      (Getter ''metadata''),
    Method (Sig ''Name'' [] (Some (GoPtr GoString))) (Getter ''name''),
    Method (Sig ''Node'' [] (Some (GoNamed ''constructs.Node''))) (Getter ''node'')]"

definition KubeCsiStorageCapacityList_functions :: "gofun list" where
  "KubeCsiStorageCapacityList_functions =
   [Func (Sig ''NewKubeCsiStorageCapacityList'' [
         Param ''scope'' (GoNamed ''constructs.Construct''), Param ''id'' (GoPtr GoString),
         Param ''props'' (GoPtr (GoNamed ''KubeCsiStorageCapacityListProps''))] (Some (GoNamed ''KubeCsiStorageCapacityList'')))
      (Construct ''k8s.KubeCsiStorageCapacityList'' [''scope'', ''id'', ''props''] ''validateNewKubeCsiStorageCapacityListParameters''),
    Func (Sig ''NewKubeCsiStorageCapacityList_Override'' [
         Param ''k'' (GoNamed ''KubeCsiStorageCapacityList''),
         Param ''scope'' (GoNamed ''constructs.Construct''), Param ''id'' (GoPtr GoString),
         Param ''props'' (GoPtr (GoNamed ''KubeCsiStorageCapacityListProps''))] None)
      (ConstructOverride ''k8s.KubeCsiStorageCapacityList'' [''scope'', ''id'', ''props'']),
    Func (Sig ''KubeCsiStorageCapacityList_IsApiObject'' [Param ''o'' GoAny] (Some (GoPtr GoBool)))
      (StaticCall ''k8s.KubeCsiStorageCapacityList'' ''isApiObject'' [''o''] ''validateKubeCsiStorageCapacityList_IsApiObjectParameters''),
    Func (Sig ''KubeCsiStorageCapacityList_IsConstruct'' [Param ''x'' GoAny] (Some (GoPtr GoBool)))
      (StaticCall ''k8s.KubeCsiStorageCapacityList'' ''isConstruct'' [''x''] ''validateKubeCsiStorageCapacityList_IsConstructParameters''),
    Func (Sig ''KubeCsiStorageCapacityList_Manifest'' [Param ''props'' (GoPtr (GoNamed ''KubeCsiStorageCapacityListProps''))] (Some GoAny))
      (StaticCall ''k8s.KubeCsiStorageCapacityList'' ''manifest'' [''props''] ''validateKubeCsiStorageCapacityList_ManifestParameters''),
    Func (Sig ''KubeCsiStorageCapacityList_Of'' [Param ''c'' (GoNamed ''constructs.IConstruct'')] (Some (GoNamed ''cdk8s.ApiObject'')))
      (StaticCall ''k8s.KubeCsiStorageCapacityList'' ''of'' [''c''] ''validateKubeCsiStorageCapacityList_OfParameters''),
    Func (Sig ''KubeCsiStorageCapacityList_GVK'' [] (Some (GoPtr (GoNamed ''cdk8s.GroupVersionKind''))))
      (StaticProp ''k8s.KubeCsiStorageCapacityList'' ''GVK'')]"

definition KubeCsiStorageCapacityList_methods :: "gofun list" where
  "KubeCsiStorageCapacityList_methods =
   [Method (Sig ''AddDependency'' [Rest ''dependencies'' (GoNamed ''constructs.IConstruct'')] None)
      (Variadic ''addDependency''),
    Method (Sig ''AddJsonPatch'' [Rest ''ops'' (GoNamed ''cdk8s.JsonPatch'')] None)
      (Variadic ''addJsonPatch''),
    Method (Sig ''ToJson'' [] (Some GoAny)) (Plain ''toJson''),
    Method (Sig ''ToString'' [] (Some (GoPtr GoString))) (Plain ''toString'')]"

definition KubeCsiStorageCapacityList :: binding where
  "KubeCsiStorageCapacityList = Binding ''KubeCsiStorageCapacityList'' [''internal.Type__cdk8sApiObject'']
     (KubeCsiStorageCapacityList_getters @ KubeCsiStorageCapacityList_functions @ KubeCsiStorageCapacityList_methods)"

definition KubeCsiStorageCapacityList_checks :: validators where
  "KubeCsiStorageCapacityList_checks =
   [(''validateKubeCsiStorageCapacityList_IsApiObjectParameters'', [NotNil ''o'']),
    (''validateKubeCsiStorageCapacityList_IsConstructParameters'', [NotNil ''x'']),
    (''validateKubeCsiStorageCapacityList_ManifestParameters'', [NotNil ''props'', ValidStruct ''props'']),
    (''validateKubeCsiStorageCapacityList_OfParameters'', [NotNil ''c'']),
    (''validateNewKubeCsiStorageCapacityListParameters'', [NotNil ''scope'', NotNil ''id'', NotNil ''props'', ValidStruct ''props''])]"

definition KubeCsiStorageCapacityList_no_checks :: validators where
  "KubeCsiStorageCapacityList_no_checks =
   [(''validateKubeCsiStorageCapacityList_IsApiObjectParameters'', []),
    (''validateKubeCsiStorageCapacityList_IsConstructParameters'', []),
    (''validateKubeCsiStorageCapacityList_ManifestParameters'', []),
    (''validateKubeCsiStorageCapacityList_OfParameters'', []),
    (''validateNewKubeCsiStorageCapacityListParameters'', [])]"

lemma KubeCsiStorageCapacityList_ok [class_checks]: "classOk (KubeCsiStorageCapacityList, KubeCsiStorageCapacityList_checks)"
  by (rule classRequired_I [where s = KubeCsiStorageCapacityListProps], simp only: table_members)
    (simp_all only: KubeCsiStorageCapacityList_def KubeCsiStorageCapacityList_getters_def KubeCsiStorageCapacityList_functions_def
      KubeCsiStorageCapacityList_methods_def KubeCsiStorageCapacityList_checks_def KubeCsiStorageCapacityListProps_def class_eval)

lemma KubeCsiStorageCapacityList_declared [class_interfaces]:
  "KubeCsiStorageCapacityList_interface = apiObjectInterface ''KubeCsiStorageCapacityList''"
  "KubeCsiStorageCapacityList_no_checks = apiObjectNoChecks ''KubeCsiStorageCapacityList''"
  by (simp_all only: KubeCsiStorageCapacityList_interface_def KubeCsiStorageCapacityList_no_checks_def declared_eval)

definition KubeCsiStorageCapacityListV1Beta1_interface :: interface where
  "KubeCsiStorageCapacityListV1Beta1_interface = Interface ''KubeCsiStorageCapacityListV1Beta1'' [''cdk8s.ApiObject'']
   [Sig ''ApiGroup'' [] (Some (GoPtr GoString)), Sig ''ApiVersion'' [] (Some (GoPtr GoString)),
    Sig ''Chart'' [] (Some (GoNamed ''cdk8s.Chart'')), Sig ''Kind'' [] (Some (GoPtr GoString)),
    Sig ''Metadata'' [] (Some (GoNamed ''cdk8s.ApiObjectMetadataDefinition'')),
    Sig ''Name'' [] (Some (GoPtr GoString)), Sig ''Node'' [] (Some (GoNamed ''constructs.Node'')),
    Sig ''AddDependency'' [Rest ''dependencies'' (GoNamed ''constructs.IConstruct'')] None,
    Sig ''AddJsonPatch'' [Rest ''ops'' (GoNamed ''cdk8s.JsonPatch'')] None,
    Sig ''ToJson'' [] (Some GoAny), Sig ''ToString'' [] (Some (GoPtr GoString))]"

definition KubeCsiStorageCapacityListV1Beta1_getters :: "gofun list" where
  "KubeCsiStorageCapacityListV1Beta1_getters =
   [Method (Sig ''ApiGroup'' [] (Some (GoPtr GoString))) (Getter ''apiGroup''),
    Method (Sig ''ApiVersion'' [] (Some (GoPtr GoString))) (Getter ''apiVersion''),
    Method (Sig ''Chart'' [] (Some (GoNamed ''cdk8s.Chart''))) (Getter ''chart''),
    Method (Sig ''Kind'' [] (Some (GoPtr GoString))) (Getter ''kind''),
    Method (Sig ''Metadata'' [] (Some (GoNamed ''cdk8s.ApiObjectMetadataDefinition'')))
      (Getter ''metadata''),
    Method (Sig ''Name'' [] (Some (GoPtr GoString))) (Getter ''name''),
    Method (Sig ''Node'' [] (Some (GoNamed ''constructs.Node''))) (Getter ''node'')]"

definition KubeCsiStorageCapacityListV1Beta1_functions :: "gofun list" where
  "KubeCsiStorageCapacityListV1Beta1_functions =
   [Func (Sig ''NewKubeCsiStorageCapacityListV1Beta1'' [
         Param ''scope'' (GoNamed ''constructs.Construct''), Param ''id'' (GoPtr GoString),
         Param ''props'' (GoPtr (GoNamed ''KubeCsiStorageCapacityListV1Beta1Props''))] (Some (GoNamed ''KubeCsiStorageCapacityListV1Beta1'')))
      (Construct ''k8s.KubeCsiStorageCapacityListV1Beta1'' [''scope'', ''id'', ''props''] ''validateNewKubeCsiStorageCapacityListV1Beta1Parameters''),
    Func (Sig ''NewKubeCsiStorageCapacityListV1Beta1_Override'' [
         Param ''k'' (GoNamed ''KubeCsiStorageCapacityListV1Beta1''),
         Param ''scope'' (GoNamed ''constructs.Construct''), Param ''id'' (GoPtr GoString),
         Param ''props'' (GoPtr (GoNamed ''KubeCsiStorageCapacityListV1Beta1Props''))] None)
      (ConstructOverride ''k8s.KubeCsiStorageCapacityListV1Beta1'' [''scope'', ''id'', ''props'']),
    Func (Sig ''KubeCsiStorageCapacityListV1Beta1_IsApiObject'' [Param ''o'' GoAny] (Some (GoPtr GoBool)))
      (StaticCall ''k8s.KubeCsiStorageCapacityListV1Beta1'' ''isApiObject'' [''o''] ''validateKubeCsiStorageCapacityListV1Beta1_IsApiObjectParameters''),
    Func (Sig ''KubeCsiStorageCapacityListV1Beta1_IsConstruct'' [Param ''x'' GoAny] (Some (GoPtr GoBool)))
      (StaticCall ''k8s.KubeCsiStorageCapacityListV1Beta1'' ''isConstruct'' [''x''] ''validateKubeCsiStorageCapacityListV1Beta1_IsConstructParameters''),
    Func (Sig ''KubeCsiStorageCapacityListV1Beta1_Manifest'' [Param ''props'' (GoPtr (GoNamed ''KubeCsiStorageCapacityListV1Beta1Props''))] (Some GoAny))
      (StaticCall ''k8s.KubeCsiStorageCapacityListV1Beta1'' ''manifest'' [''props''] ''validateKubeCsiStorageCapacityListV1Beta1_ManifestParameters''),
    Func (Sig ''KubeCsiStorageCapacityListV1Beta1_Of'' [Param ''c'' (GoNamed ''constructs.IConstruct'')] (Some (GoNamed ''cdk8s.ApiObject'')))
      (StaticCall ''k8s.KubeCsiStorageCapacityListV1Beta1'' ''of'' [''c''] ''validateKubeCsiStorageCapacityListV1Beta1_OfParameters''),
    Func (Sig ''KubeCsiStorageCapacityListV1Beta1_GVK'' [] (Some (GoPtr (GoNamed ''cdk8s.GroupVersionKind''))))
      (StaticProp ''k8s.KubeCsiStorageCapacityListV1Beta1'' ''GVK'')]"

definition KubeCsiStorageCapacityListV1Beta1_methods :: "gofun list" where
  "KubeCsiStorageCapacityListV1Beta1_methods =
   [Method (Sig ''AddDependency'' [Rest ''dependencies'' (GoNamed ''constructs.IConstruct'')] None)
      (Variadic ''addDependency''),
    Method (Sig ''AddJsonPatch'' [Rest ''ops'' (GoNamed ''cdk8s.JsonPatch'')] None)
      (Variadic ''addJsonPatch''),
    Method (Sig ''ToJson'' [] (Some GoAny)) (Plain ''toJson''),
    Method (Sig ''ToString'' [] (Some (GoPtr GoString))) (Plain ''toString'')]"

definition KubeCsiStorageCapacityListV1Beta1 :: binding where
  "KubeCsiStorageCapacityListV1Beta1 = Binding ''KubeCsiStorageCapacityListV1Beta1'' [''internal.Type__cdk8sApiObject'']
     (KubeCsiStorageCapacityListV1Beta1_getters @ KubeCsiStorageCapacityListV1Beta1_functions @ KubeCsiStorageCapacityListV1Beta1_methods)"

definition KubeCsiStorageCapacityListV1Beta1_checks :: validators where
  "KubeCsiStorageCapacityListV1Beta1_checks =
   [(''validateKubeCsiStorageCapacityListV1Beta1_IsApiObjectParameters'', [NotNil ''o'']),
    (''validateKubeCsiStorageCapacityListV1Beta1_IsConstructParameters'', [NotNil ''x'']),
    (''validateKubeCsiStorageCapacityListV1Beta1_ManifestParameters'', [NotNil ''props'', ValidStruct ''props'']),
    (''validateKubeCsiStorageCapacityListV1Beta1_OfParameters'', [NotNil ''c'']),
    (''validateNewKubeCsiStorageCapacityListV1Beta1Parameters'', [NotNil ''scope'', NotNil ''id'', NotNil ''props'', ValidStruct ''props''])]"

definition KubeCsiStorageCapacityListV1Beta1_no_checks :: validators where
  "KubeCsiStorageCapacityListV1Beta1_no_checks =
   [(''validateKubeCsiStorageCapacityListV1Beta1_IsApiObjectParameters'', []),
    (''validateKubeCsiStorageCapacityListV1Beta1_IsConstructParameters'', []),
    (''validateKubeCsiStorageCapacityListV1Beta1_ManifestParameters'', []),
    (''validateKubeCsiStorageCapacityListV1Beta1_OfParameters'', []),
    (''validateNewKubeCsiStorageCapacityListV1Beta1Parameters'', [])]"

lemma KubeCsiStorageCapacityListV1Beta1_ok [class_checks]: "classOk (KubeCsiStorageCapacityListV1Beta1, KubeCsiStorageCapacityListV1Beta1_checks)"
  by (rule classRequired_I [where s = KubeCsiStorageCapacityListV1Beta1Props], simp only: table_members)
    (simp_all only: KubeCsiStorageCapacityListV1Beta1_def KubeCsiStorageCapacityListV1Beta1_getters_def KubeCsiStorageCapacityListV1Beta1_functions_def
      KubeCsiStorageCapacityListV1Beta1_methods_def KubeCsiStorageCapacityListV1Beta1_checks_def KubeCsiStorageCapacityListV1Beta1Props_def class_eval)

lemma KubeCsiStorageCapacityListV1Beta1_declared [class_interfaces]:
  "KubeCsiStorageCapacityListV1Beta1_interface = apiObjectInterface ''KubeCsiStorageCapacityListV1Beta1''"
  "KubeCsiStorageCapacityListV1Beta1_no_checks = apiObjectNoChecks ''KubeCsiStorageCapacityListV1Beta1''"
  by (simp_all only: KubeCsiStorageCapacityListV1Beta1_interface_def KubeCsiStorageCapacityListV1Beta1_no_checks_def declared_eval)

definition KubeCsiStorageCapacityV1Beta1_interface :: interface where
  "KubeCsiStorageCapacityV1Beta1_interface = Interface ''KubeCsiStorageCapacityV1Beta1'' [''cdk8s.ApiObject'']
   [Sig ''ApiGroup'' [] (Some (GoPtr GoString)), Sig ''ApiVersion'' [] (Some (GoPtr GoString)),
    Sig ''Chart'' [] (Some (GoNamed ''cdk8s.Chart'')), Sig ''Kind'' [] (Some (GoPtr GoString)),
    Sig ''Metadata'' [] (Some (GoNamed ''cdk8s.ApiObjectMetadataDefinition'')),
    Sig ''Name'' [] (Some (GoPtr GoString)), Sig ''Node'' [] (Some (GoNamed ''constructs.Node'')),
    Sig ''AddDependency'' [Rest ''dependencies'' (GoNamed ''constructs.IConstruct'')] None,
    Sig ''AddJsonPatch'' [Rest ''ops'' (GoNamed ''cdk8s.JsonPatch'')] None,
    Sig ''ToJson'' [] (Some GoAny), Sig ''ToString'' [] (Some (GoPtr GoString))]"

definition KubeCsiStorageCapacityV1Beta1_getters :: "gofun list" where
  "KubeCsiStorageCapacityV1Beta1_getters =
   [Method (Sig ''ApiGroup'' [] (Some (GoPtr GoString))) (Getter ''apiGroup''),
    Method (Sig ''ApiVersion'' [] (Some (GoPtr GoString))) (Getter ''apiVersion''),
    Method (Sig ''Chart'' [] (Some (GoNamed ''cdk8s.Chart''))) (Getter ''chart''),
    Method (Sig ''Kind'' [] (Some (GoPtr GoString))) (Getter ''kind''),
    Method (Sig ''Metadata'' [] (Some (GoNamed ''cdk8s.ApiObjectMetadataDefinition'')))
      (Getter ''metadata''),
    Method (Sig ''Name'' [] (Some (GoPtr GoString))) (Getter ''name''),
    Method (Sig ''Node'' [] (Some (GoNamed ''constructs.Node''))) (Getter ''node'')]"

definition KubeCsiStorageCapacityV1Beta1_functions :: "gofun list" where
  "KubeCsiStorageCapacityV1Beta1_functions =
   [Func (Sig ''NewKubeCsiStorageCapacityV1Beta1'' [
         Param ''scope'' (GoNamed ''constructs.Construct''), Param ''id'' (GoPtr GoString),
         Param ''props'' (GoPtr (GoNamed ''KubeCsiStorageCapacityV1Beta1Props''))] (Some (GoNamed ''KubeCsiStorageCapacityV1Beta1'')))
      (Construct ''k8s.KubeCsiStorageCapacityV1Beta1'' [''scope'', ''id'', ''props''] ''validateNewKubeCsiStorageCapacityV1Beta1Parameters''),
    Func (Sig ''NewKubeCsiStorageCapacityV1Beta1_Override'' [
         Param ''k'' (GoNamed ''KubeCsiStorageCapacityV1Beta1''),
         Param ''scope'' (GoNamed ''constructs.Construct''), Param ''id'' (GoPtr GoString),
         Param ''props'' (GoPtr (GoNamed ''KubeCsiStorageCapacityV1Beta1Props''))] None)
      (ConstructOverride ''k8s.KubeCsiStorageCapacityV1Beta1'' [''scope'', ''id'', ''props'']),
    Func (Sig ''KubeCsiStorageCapacityV1Beta1_IsApiObject'' [Param ''o'' GoAny] (Some (GoPtr GoBool)))
      (StaticCall ''k8s.KubeCsiStorageCapacityV1Beta1'' ''isApiObject'' [''o''] ''validateKubeCsiStorageCapacityV1Beta1_IsApiObjectParameters''),
    Func (Sig ''KubeCsiStorageCapacityV1Beta1_IsConstruct'' [Param ''x'' GoAny] (Some (GoPtr GoBool)))
      (StaticCall ''k8s.KubeCsiStorageCapacityV1Beta1'' ''isConstruct'' [''x''] ''validateKubeCsiStorageCapacityV1Beta1_IsConstructParameters''),
    Func (Sig ''KubeCsiStorageCapacityV1Beta1_Manifest'' [Param ''props'' (GoPtr (GoNamed ''KubeCsiStorageCapacityV1Beta1Props''))] (Some GoAny))
      (StaticCall ''k8s.KubeCsiStorageCapacityV1Beta1'' ''manifest'' [''props''] ''validateKubeCsiStorageCapacityV1Beta1_ManifestParameters''),
    Func (Sig ''KubeCsiStorageCapacityV1Beta1_Of'' [Param ''c'' (GoNamed ''constructs.IConstruct'')] (Some (GoNamed ''cdk8s.ApiObject'')))
      (StaticCall ''k8s.KubeCsiStorageCapacityV1Beta1'' ''of'' [''c''] ''validateKubeCsiStorageCapacityV1Beta1_OfParameters''),
    Func (Sig ''KubeCsiStorageCapacityV1Beta1_GVK'' [] (Some (GoPtr (GoNamed ''cdk8s.GroupVersionKind''))))
      (StaticProp ''k8s.KubeCsiStorageCapacityV1Beta1'' ''GVK'')]"

definition KubeCsiStorageCapacityV1Beta1_methods :: "gofun list" where
  "KubeCsiStorageCapacityV1Beta1_methods =
   [Method (Sig ''AddDependency'' [Rest ''dependencies'' (GoNamed ''constructs.IConstruct'')] None)
      (Variadic ''addDependency''),
    Method (Sig ''AddJsonPatch'' [Rest ''ops'' (GoNamed ''cdk8s.JsonPatch'')] None)
      (Variadic ''addJsonPatch''),
    Method (Sig ''ToJson'' [] (Some GoAny)) (Plain ''toJson''),
    Method (Sig ''ToString'' [] (Some (GoPtr GoString))) (Plain ''toString'')]"

definition KubeCsiStorageCapacityV1Beta1 :: binding where
  "KubeCsiStorageCapacityV1Beta1 = Binding ''KubeCsiStorageCapacityV1Beta1'' [''internal.Type__cdk8sApiObject'']
     (KubeCsiStorageCapacityV1Beta1_getters @ KubeCsiStorageCapacityV1Beta1_functions @ KubeCsiStorageCapacityV1Beta1_methods)"

definition KubeCsiStorageCapacityV1Beta1_checks :: validators where
  "KubeCsiStorageCapacityV1Beta1_checks =
   [(''validateKubeCsiStorageCapacityV1Beta1_IsApiObjectParameters'', [NotNil ''o'']),
    (''validateKubeCsiStorageCapacityV1Beta1_IsConstructParameters'', [NotNil ''x'']),
    (''validateKubeCsiStorageCapacityV1Beta1_ManifestParameters'', [NotNil ''props'', ValidStruct ''props'']),
    (''validateKubeCsiStorageCapacityV1Beta1_OfParameters'', [NotNil ''c'']),
    (''validateNewKubeCsiStorageCapacityV1Beta1Parameters'', [NotNil ''scope'', NotNil ''id'', NotNil ''props'', ValidStruct ''props''])]"

definition KubeCsiStorageCapacityV1Beta1_no_checks :: validators where
  "KubeCsiStorageCapacityV1Beta1_no_checks =
   [(''validateKubeCsiStorageCapacityV1Beta1_IsApiObjectParameters'', []),
    (''validateKubeCsiStorageCapacityV1Beta1_IsConstructParameters'', []),
    (''validateKubeCsiStorageCapacityV1Beta1_ManifestParameters'', []),
    (''validateKubeCsiStorageCapacityV1Beta1_OfParameters'', []),
    (''validateNewKubeCsiStorageCapacityV1Beta1Parameters'', [])]"

lemma KubeCsiStorageCapacityV1Beta1_ok [class_checks]: "classOk (KubeCsiStorageCapacityV1Beta1, KubeCsiStorageCapacityV1Beta1_checks)"
  by (rule classRequired_I [where s = KubeCsiStorageCapacityV1Beta1Props], simp only: table_members)
    (simp_all only: KubeCsiStorageCapacityV1Beta1_def KubeCsiStorageCapacityV1Beta1_getters_def KubeCsiStorageCapacityV1Beta1_functions_def
      KubeCsiStorageCapacityV1Beta1_methods_def KubeCsiStorageCapacityV1Beta1_checks_def KubeCsiStorageCapacityV1Beta1Props_def class_eval)

lemma KubeCsiStorageCapacityV1Beta1_declared [class_interfaces]:
  "KubeCsiStorageCapacityV1Beta1_interface = apiObjectInterface ''KubeCsiStorageCapacityV1Beta1''"
  "KubeCsiStorageCapacityV1Beta1_no_checks = apiObjectNoChecks ''KubeCsiStorageCapacityV1Beta1''"
  by (simp_all only: KubeCsiStorageCapacityV1Beta1_interface_def KubeCsiStorageCapacityV1Beta1_no_checks_def declared_eval)

definition KubeCustomResourceDefinition_interface :: interface where
  "KubeCustomResourceDefinition_interface = Interface ''KubeCustomResourceDefinition'' [''cdk8s.ApiObject'']
   [Sig ''ApiGroup'' [] (Some (GoPtr GoString)), Sig ''ApiVersion'' [] (Some (GoPtr GoString)),
    Sig ''Chart'' [] (Some (GoNamed ''cdk8s.Chart'')), Sig ''Kind'' [] (Some (GoPtr GoString)),
    Sig ''Metadata'' [] (Some (GoNamed ''cdk8s.ApiObjectMetadataDefinition'')),
    Sig ''Name'' [] (Some (GoPtr GoString)), Sig ''Node'' [] (Some (GoNamed ''constructs.Node'')),
    Sig ''AddDependency'' [Rest ''dependencies'' (GoNamed ''constructs.IConstruct'')] None,
    Sig ''AddJsonPatch'' [Rest ''ops'' (GoNamed ''cdk8s.JsonPatch'')] None,
    Sig ''ToJson'' [] (Some GoAny), Sig ''ToString'' [] (Some (GoPtr GoString))]"

definition KubeCustomResourceDefinition_getters :: "gofun list" where
  "KubeCustomResourceDefinition_getters =
   [Method (Sig ''ApiGroup'' [] (Some (GoPtr GoString))) (Getter ''apiGroup''),
    Method (Sig ''ApiVersion'' [] (Some (GoPtr GoString))) (Getter ''apiVersion''),
    Method (Sig ''Chart'' [] (Some (GoNamed ''cdk8s.Chart''))) (Getter ''chart''),
    Method (Sig ''Kind'' [] (Some (GoPtr GoString))) (Getter ''kind''),
    Method (Sig ''Metadata'' [] (Some (GoNamed ''cdk8s.ApiObjectMetadataDefinition'')))
      (Getter ''metadata''),
    Method (Sig ''Name'' [] (Some (GoPtr GoString))) (Getter ''name''),
    Method (Sig ''Node'' [] (Some (GoNamed ''constructs.Node''))) (Getter ''node'')]"

definition KubeCustomResourceDefinition_functions :: "gofun list" where
  "KubeCustomResourceDefinition_functions =
   [Func (Sig ''NewKubeCustomResourceDefinition'' [
         Param ''scope'' (GoNamed ''constructs.Construct''), Param ''id'' (GoPtr GoString),
         Param ''props'' (GoPtr (GoNamed ''KubeCustomResourceDefinitionProps''))] (Some (GoNamed ''KubeCustomResourceDefinition'')))
      (Construct ''k8s.KubeCustomResourceDefinition'' [''scope'', ''id'', ''props''] ''validateNewKubeCustomResourceDefinitionParameters''),
    Func (Sig ''NewKubeCustomResourceDefinition_Override'' [
         Param ''k'' (GoNamed ''KubeCustomResourceDefinition''),
         Param ''scope'' (GoNamed ''constructs.Construct''), Param ''id'' (GoPtr GoString),
         Param ''props'' (GoPtr (GoNamed ''KubeCustomResourceDefinitionProps''))] None)
      (ConstructOverride ''k8s.KubeCustomResourceDefinition'' [''scope'', ''id'', ''props'']),
    Func (Sig ''KubeCustomResourceDefinition_IsApiObject'' [Param ''o'' GoAny] (Some (GoPtr GoBool)))
      (StaticCall ''k8s.KubeCustomResourceDefinition'' ''isApiObject'' [''o''] ''validateKubeCustomResourceDefinition_IsApiObjectParameters''),
    Func (Sig ''KubeCustomResourceDefinition_IsConstruct'' [Param ''x'' GoAny] (Some (GoPtr GoBool)))
      (StaticCall ''k8s.KubeCustomResourceDefinition'' ''isConstruct'' [''x''] ''validateKubeCustomResourceDefinition_IsConstructParameters''),
    Func (Sig ''KubeCustomResourceDefinition_Manifest'' [Param ''props'' (GoPtr (GoNamed ''KubeCustomResourceDefinitionProps''))] (Some GoAny))
      (StaticCall ''k8s.KubeCustomResourceDefinition'' ''manifest'' [''props''] ''validateKubeCustomResourceDefinition_ManifestParameters''),
    Func (Sig ''KubeCustomResourceDefinition_Of'' [Param ''c'' (GoNamed ''constructs.IConstruct'')] (Some (GoNamed ''cdk8s.ApiObject'')))
      (StaticCall ''k8s.KubeCustomResourceDefinition'' ''of'' [''c''] ''validateKubeCustomResourceDefinition_OfParameters''),
    Func (Sig ''KubeCustomResourceDefinition_GVK'' [] (Some (GoPtr (GoNamed ''cdk8s.GroupVersionKind''))))
      (StaticProp ''k8s.KubeCustomResourceDefinition'' ''GVK'')]"

definition KubeCustomResourceDefinition_methods :: "gofun list" where
  "KubeCustomResourceDefinition_methods =
   [Method (Sig ''AddDependency'' [Rest ''dependencies'' (GoNamed ''constructs.IConstruct'')] None)
      (Variadic ''addDependency''),
    Method (Sig ''AddJsonPatch'' [Rest ''ops'' (GoNamed ''cdk8s.JsonPatch'')] None)
      (Variadic ''addJsonPatch''),
    Method (Sig ''ToJson'' [] (Some GoAny)) (Plain ''toJson''),
    Method (Sig ''ToString'' [] (Some (GoPtr GoString))) (Plain ''toString'')]"

definition KubeCustomResourceDefinition :: binding where
  "KubeCustomResourceDefinition = Binding ''KubeCustomResourceDefinition'' [''internal.Type__cdk8sApiObject'']
     (KubeCustomResourceDefinition_getters @ KubeCustomResourceDefinition_functions @ KubeCustomResourceDefinition_methods)"

definition KubeCustomResourceDefinition_checks :: validators where
  "KubeCustomResourceDefinition_checks =
   [(''validateKubeCustomResourceDefinition_IsApiObjectParameters'', [NotNil ''o'']),
    (''validateKubeCustomResourceDefinition_IsConstructParameters'', [NotNil ''x'']),
    (''validateKubeCustomResourceDefinition_ManifestParameters'', [NotNil ''props'', ValidStruct ''props'']),
    (''validateKubeCustomResourceDefinition_OfParameters'', [NotNil ''c'']),
    (''validateNewKubeCustomResourceDefinitionParameters'', [NotNil ''scope'', NotNil ''id'', NotNil ''props'', ValidStruct ''props''])]"

definition KubeCustomResourceDefinition_no_checks :: validators where
  "KubeCustomResourceDefinition_no_checks =
   [(''validateKubeCustomResourceDefinition_IsApiObjectParameters'', []),
    (''validateKubeCustomResourceDefinition_IsConstructParameters'', []),
    (''validateKubeCustomResourceDefinition_ManifestParameters'', []),
    (''validateKubeCustomResourceDefinition_OfParameters'', []),
    (''validateNewKubeCustomResourceDefinitionParameters'', [])]"

lemma KubeCustomResourceDefinition_ok [class_checks]: "classOk (KubeCustomResourceDefinition, KubeCustomResourceDefinition_checks)"
  by (rule classRequired_I [where s = KubeCustomResourceDefinitionProps], simp only: table_members)
    (simp_all only: KubeCustomResourceDefinition_def KubeCustomResourceDefinition_getters_def KubeCustomResourceDefinition_functions_def
      KubeCustomResourceDefinition_methods_def KubeCustomResourceDefinition_checks_def KubeCustomResourceDefinitionProps_def class_eval)

lemma KubeCustomResourceDefinition_declared [class_interfaces]:
  "KubeCustomResourceDefinition_interface = apiObjectInterface ''KubeCustomResourceDefinition''"
  "KubeCustomResourceDefinition_no_checks = apiObjectNoChecks ''KubeCustomResourceDefinition''"
  by (simp_all only: KubeCustomResourceDefinition_interface_def KubeCustomResourceDefinition_no_checks_def declared_eval)

definition KubeCustomResourceDefinitionList_interface :: interface where
  "KubeCustomResourceDefinitionList_interface = Interface ''KubeCustomResourceDefinitionList'' [''cdk8s.ApiObject'']
   [Sig ''ApiGroup'' [] (Some (GoPtr GoString)), Sig ''ApiVersion'' [] (Some (GoPtr GoString)),
    Sig ''Chart'' [] (Some (GoNamed ''cdk8s.Chart'')), Sig ''Kind'' [] (Some (GoPtr GoString)),
    Sig ''Metadata'' [] (Some (GoNamed ''cdk8s.ApiObjectMetadataDefinition'')),
    Sig ''Name'' [] (Some (GoPtr GoString)), Sig ''Node'' [] (Some (GoNamed ''constructs.Node'')),
    Sig ''AddDependency'' [Rest ''dependencies'' (GoNamed ''constructs.IConstruct'')] None,
    Sig ''AddJsonPatch'' [Rest ''ops'' (GoNamed ''cdk8s.JsonPatch'')] None,
    Sig ''ToJson'' [] (Some GoAny), Sig ''ToString'' [] (Some (GoPtr GoString))]"

definition KubeCustomResourceDefinitionList_getters :: "gofun list" where
  "KubeCustomResourceDefinitionList_getters =
   [Method (Sig ''ApiGroup'' [] (Some (GoPtr GoString))) (Getter ''apiGroup''),
    Method (Sig ''ApiVersion'' [] (Some (GoPtr GoString))) (Getter ''apiVersion''),
    Method (Sig ''Chart'' [] (Some (GoNamed ''cdk8s.Chart''))) (Getter ''chart''),
    Method (Sig ''Kind'' [] (Some (GoPtr GoString))) (Getter ''kind''),
    Method (Sig ''Metadata'' [] (Some (GoNamed ''cdk8s.ApiObjectMetadataDefinition'')))
      (Getter ''metadata''),
    Method (Sig ''Name'' [] (Some (GoPtr GoString))) (Getter ''name''),
    Method (Sig ''Node'' [] (Some (GoNamed ''constructs.Node''))) (Getter ''node'')]"

definition KubeCustomResourceDefinitionList_functions :: "gofun list" where
  "KubeCustomResourceDefinitionList_functions =
   [Func (Sig ''NewKubeCustomResourceDefinitionList'' [
         Param ''scope'' (GoNamed ''constructs.Construct''), Param ''id'' (GoPtr GoString),
         Param ''props'' (GoPtr (GoNamed ''KubeCustomResourceDefinitionListProps''))] (Some (GoNamed ''KubeCustomResourceDefinitionList'')))
      (Construct ''k8s.KubeCustomResourceDefinitionList'' [''scope'', ''id'', ''props''] ''validateNewKubeCustomResourceDefinitionListParameters''),
    Func (Sig ''NewKubeCustomResourceDefinitionList_Override'' [
         Param ''k'' (GoNamed ''KubeCustomResourceDefinitionList''),
         Param ''scope'' (GoNamed ''constructs.Construct''), Param ''id'' (GoPtr GoString),
         Param ''props'' (GoPtr (GoNamed ''KubeCustomResourceDefinitionListProps''))] None)
      (ConstructOverride ''k8s.KubeCustomResourceDefinitionList'' [''scope'', ''id'', ''props'']),
    Func (Sig ''KubeCustomResourceDefinitionList_IsApiObject'' [Param ''o'' GoAny] (Some (GoPtr GoBool)))
      (StaticCall ''k8s.KubeCustomResourceDefinitionList'' ''isApiObject'' [''o''] ''validateKubeCustomResourceDefinitionList_IsApiObjectParameters''),
    Func (Sig ''KubeCustomResourceDefinitionList_IsConstruct'' [Param ''x'' GoAny] (Some (GoPtr GoBool)))
      (StaticCall ''k8s.KubeCustomResourceDefinitionList'' ''isConstruct'' [''x''] ''validateKubeCustomResourceDefinitionList_IsConstructParameters''),
    Func (Sig ''KubeCustomResourceDefinitionList_Manifest'' [Param ''props'' (GoPtr (GoNamed ''KubeCustomResourceDefinitionListProps''))] (Some GoAny))
      (StaticCall ''k8s.KubeCustomResourceDefinitionList'' ''manifest'' [''props''] ''validateKubeCustomResourceDefinitionList_ManifestParameters''),
    Func (Sig ''KubeCustomResourceDefinitionList_Of'' [Param ''c'' (GoNamed ''constructs.IConstruct'')] (Some (GoNamed ''cdk8s.ApiObject'')))
      (StaticCall ''k8s.KubeCustomResourceDefinitionList'' ''of'' [''c''] ''validateKubeCustomResourceDefinitionList_OfParameters''),
    Func (Sig ''KubeCustomResourceDefinitionList_GVK'' [] (Some (GoPtr (GoNamed ''cdk8s.GroupVersionKind''))))
      (StaticProp ''k8s.KubeCustomResourceDefinitionList'' ''GVK'')]"

definition KubeCustomResourceDefinitionList_methods :: "gofun list" where
  "KubeCustomResourceDefinitionList_methods =
   [Method (Sig ''AddDependency'' [Rest ''dependencies'' (GoNamed ''constructs.IConstruct'')] None)
      (Variadic ''addDependency''),
    Method (Sig ''AddJsonPatch'' [Rest ''ops'' (GoNamed ''cdk8s.JsonPatch'')] None)
      (Variadic ''addJsonPatch''),
    Method (Sig ''ToJson'' [] (Some GoAny)) (Plain ''toJson''),
    Method (Sig ''ToString'' [] (Some (GoPtr GoString))) (Plain ''toString'')]"

definition KubeCustomResourceDefinitionList :: binding where
  "KubeCustomResourceDefinitionList = Binding ''KubeCustomResourceDefinitionList'' [''internal.Type__cdk8sApiObject'']
     (KubeCustomResourceDefinitionList_getters @ KubeCustomResourceDefinitionList_functions @ KubeCustomResourceDefinitionList_methods)"

definition KubeCustomResourceDefinitionList_checks :: validators where
  "KubeCustomResourceDefinitionList_checks =
   [(''validateKubeCustomResourceDefinitionList_IsApiObjectParameters'', [NotNil ''o'']),
    (''validateKubeCustomResourceDefinitionList_IsConstructParameters'', [NotNil ''x'']),
    (''validateKubeCustomResourceDefinitionList_ManifestParameters'', [NotNil ''props'', ValidStruct ''props'']),
    (''validateKubeCustomResourceDefinitionList_OfParameters'', [NotNil ''c'']),
    (''validateNewKubeCustomResourceDefinitionListParameters'', [NotNil ''scope'', NotNil ''id'', NotNil ''props'', ValidStruct ''props''])]"

definition KubeCustomResourceDefinitionList_no_checks :: validators where
  "KubeCustomResourceDefinitionList_no_checks =
   [(''validateKubeCustomResourceDefinitionList_IsApiObjectParameters'', []),
    (''validateKubeCustomResourceDefinitionList_IsConstructParameters'', []),
    (''validateKubeCustomResourceDefinitionList_ManifestParameters'', []),
    (''validateKubeCustomResourceDefinitionList_OfParameters'', []),
    (''validateNewKubeCustomResourceDefinitionListParameters'', [])]"

lemma KubeCustomResourceDefinitionList_ok [class_checks]: "classOk (KubeCustomResourceDefinitionList, KubeCustomResourceDefinitionList_checks)"
  by (rule classRequired_I [where s = KubeCustomResourceDefinitionListProps], simp only: table_members)
    (simp_all only: KubeCustomResourceDefinitionList_def KubeCustomResourceDefinitionList_getters_def KubeCustomResourceDefinitionList_functions_def
      KubeCustomResourceDefinitionList_methods_def KubeCustomResourceDefinitionList_checks_def KubeCustomResourceDefinitionListProps_def class_eval)

lemma KubeCustomResourceDefinitionList_declared [class_interfaces]:
  "KubeCustomResourceDefinitionList_interface = apiObjectInterface ''KubeCustomResourceDefinitionList''"
  "KubeCustomResourceDefinitionList_no_checks = apiObjectNoChecks ''KubeCustomResourceDefinitionList''"
  by (simp_all only: KubeCustomResourceDefinitionList_interface_def KubeCustomResourceDefinitionList_no_checks_def declared_eval)

definition KubeDaemonSet_interface :: interface where
  "KubeDaemonSet_interface = Interface ''KubeDaemonSet'' [''cdk8s.ApiObject'']
   [Sig ''ApiGroup'' [] (Some (GoPtr GoString)), Sig ''ApiVersion'' [] (Some (GoPtr GoString)),
    Sig ''Chart'' [] (Some (GoNamed ''cdk8s.Chart'')), Sig ''Kind'' [] (Some (GoPtr GoString)),
    Sig ''Metadata'' [] (Some (GoNamed ''cdk8s.ApiObjectMetadataDefinition'')),
    Sig ''Name'' [] (Some (GoPtr GoString)), Sig ''Node'' [] (Some (GoNamed ''constructs.Node'')),
    Sig ''AddDependency'' [Rest ''dependencies'' (GoNamed ''constructs.IConstruct'')] None,
    Sig ''AddJsonPatch'' [Rest ''ops'' (GoNamed ''cdk8s.JsonPatch'')] None,
    Sig ''ToJson'' [] (Some GoAny), Sig ''ToString'' [] (Some (GoPtr GoString))]"

definition KubeDaemonSet_getters :: "gofun list" where
  "KubeDaemonSet_getters =
   [Method (Sig ''ApiGroup'' [] (Some (GoPtr GoString))) (Getter ''apiGroup''),
    Method (Sig ''ApiVersion'' [] (Some (GoPtr GoString))) (Getter ''apiVersion''),
    Method (Sig ''Chart'' [] (Some (GoNamed ''cdk8s.Chart''))) (Getter ''chart''),
    Method (Sig ''Kind'' [] (Some (GoPtr GoString))) (Getter ''kind''),
    Method (Sig ''Metadata'' [] (Some (GoNamed ''cdk8s.ApiObjectMetadataDefinition'')))
      (Getter ''metadata''),
    Method (Sig ''Name'' [] (Some (GoPtr GoString))) (Getter ''name''),
    Method (Sig ''Node'' [] (Some (GoNamed ''constructs.Node''))) (Getter ''node'')]"

definition KubeDaemonSet_functions :: "gofun list" where
  "KubeDaemonSet_functions =
   [Func (Sig ''NewKubeDaemonSet'' [
         Param ''scope'' (GoNamed ''constructs.Construct''), Param ''id'' (GoPtr GoString),
         Param ''props'' (GoPtr (GoNamed ''KubeDaemonSetProps''))] (Some (GoNamed ''KubeDaemonSet'')))
      (Construct ''k8s.KubeDaemonSet'' [''scope'', ''id'', ''props''] ''validateNewKubeDaemonSetParameters''),
    Func (Sig ''NewKubeDaemonSet_Override'' [
         Param ''k'' (GoNamed ''KubeDaemonSet''), Param ''scope'' (GoNamed ''constructs.Construct''),
         Param ''id'' (GoPtr GoString), Param ''props'' (GoPtr (GoNamed ''KubeDaemonSetProps''))] None)
      (ConstructOverride ''k8s.KubeDaemonSet'' [''scope'', ''id'', ''props'']),
    Func (Sig ''KubeDaemonSet_IsApiObject'' [Param ''o'' GoAny] (Some (GoPtr GoBool)))
      (StaticCall ''k8s.KubeDaemonSet'' ''isApiObject'' [''o''] ''validateKubeDaemonSet_IsApiObjectParameters''),
    Func (Sig ''KubeDaemonSet_IsConstruct'' [Param ''x'' GoAny] (Some (GoPtr GoBool)))
      (StaticCall ''k8s.KubeDaemonSet'' ''isConstruct'' [''x''] ''validateKubeDaemonSet_IsConstructParameters''),
    Func (Sig ''KubeDaemonSet_Manifest'' [Param ''props'' (GoPtr (GoNamed ''KubeDaemonSetProps''))] (Some GoAny))
      (StaticCall ''k8s.KubeDaemonSet'' ''manifest'' [''props''] ''validateKubeDaemonSet_ManifestParameters''),
    Func (Sig ''KubeDaemonSet_Of'' [Param ''c'' (GoNamed ''constructs.IConstruct'')] (Some (GoNamed ''cdk8s.ApiObject'')))
      (StaticCall ''k8s.KubeDaemonSet'' ''of'' [''c''] ''validateKubeDaemonSet_OfParameters''),
    Func (Sig ''KubeDaemonSet_GVK'' [] (Some (GoPtr (GoNamed ''cdk8s.GroupVersionKind''))))
      (StaticProp ''k8s.KubeDaemonSet'' ''GVK'')]"

definition KubeDaemonSet_methods :: "gofun list" where
  "KubeDaemonSet_methods =
   [Method (Sig ''AddDependency'' [Rest ''dependencies'' (GoNamed ''constructs.IConstruct'')] None)
      (Variadic ''addDependency''),
    Method (Sig ''AddJsonPatch'' [Rest ''ops'' (GoNamed ''cdk8s.JsonPatch'')] None)
      (Variadic ''addJsonPatch''),
    Method (Sig ''ToJson'' [] (Some GoAny)) (Plain ''toJson''),
    Method (Sig ''ToString'' [] (Some (GoPtr GoString))) (Plain ''toString'')]"

definition KubeDaemonSet :: binding where
  "KubeDaemonSet = Binding ''KubeDaemonSet'' [''internal.Type__cdk8sApiObject'']
     (KubeDaemonSet_getters @ KubeDaemonSet_functions @ KubeDaemonSet_methods)"

definition KubeDaemonSet_checks :: validators where
  "KubeDaemonSet_checks =
   [(''validateKubeDaemonSet_IsApiObjectParameters'', [NotNil ''o'']),
    (''validateKubeDaemonSet_IsConstructParameters'', [NotNil ''x'']),
    (''validateKubeDaemonSet_ManifestParameters'', [ValidStruct ''props'']),
    (''validateKubeDaemonSet_OfParameters'', [NotNil ''c'']),
    (''validateNewKubeDaemonSetParameters'', [NotNil ''scope'', NotNil ''id'', ValidStruct ''props''])]"

definition KubeDaemonSet_no_checks :: validators where
  "KubeDaemonSet_no_checks =
   [(''validateKubeDaemonSet_IsApiObjectParameters'', []),
    (''validateKubeDaemonSet_IsConstructParameters'', []),
    (''validateKubeDaemonSet_ManifestParameters'', []),
    (''validateKubeDaemonSet_OfParameters'', []), (''validateNewKubeDaemonSetParameters'', [])]"

lemma KubeDaemonSet_ok [class_checks]: "classOk (KubeDaemonSet, KubeDaemonSet_checks)"
  by (rule classOptional_I [where s = KubeDaemonSetProps], simp only: table_members)
    (simp_all only: KubeDaemonSet_def KubeDaemonSet_getters_def KubeDaemonSet_functions_def
      KubeDaemonSet_methods_def KubeDaemonSet_checks_def KubeDaemonSetProps_def class_eval)

lemma KubeDaemonSet_declared [class_interfaces]:
  "KubeDaemonSet_interface = apiObjectInterface ''KubeDaemonSet''"
  "KubeDaemonSet_no_checks = apiObjectNoChecks ''KubeDaemonSet''"
  by (simp_all only: KubeDaemonSet_interface_def KubeDaemonSet_no_checks_def declared_eval)

definition KubeDaemonSetList_interface :: interface where
  "KubeDaemonSetList_interface = Interface ''KubeDaemonSetList'' [''cdk8s.ApiObject'']
   [Sig ''ApiGroup'' [] (Some (GoPtr GoString)), Sig ''ApiVersion'' [] (Some (GoPtr GoString)),
    Sig ''Chart'' [] (Some (GoNamed ''cdk8s.Chart'')), Sig ''Kind'' [] (Some (GoPtr GoString)),
    Sig ''Metadata'' [] (Some (GoNamed ''cdk8s.ApiObjectMetadataDefinition'')),
    Sig ''Name'' [] (Some (GoPtr GoString)), Sig ''Node'' [] (Some (GoNamed ''constructs.Node'')),
    Sig ''AddDependency'' [Rest ''dependencies'' (GoNamed ''constructs.IConstruct'')] None,
    Sig ''AddJsonPatch'' [Rest ''ops'' (GoNamed ''cdk8s.JsonPatch'')] None,
    Sig ''ToJson'' [] (Some GoAny), Sig ''ToString'' [] (Some (GoPtr GoString))]"

definition KubeDaemonSetList_getters :: "gofun list" where
  "KubeDaemonSetList_getters =
   [Method (Sig ''ApiGroup'' [] (Some (GoPtr GoString))) (Getter ''apiGroup''),
    Method (Sig ''ApiVersion'' [] (Some (GoPtr GoString))) (Getter ''apiVersion''),
    Method (Sig ''Chart'' [] (Some (GoNamed ''cdk8s.Chart''))) (Getter ''chart''),
    Method (Sig ''Kind'' [] (Some (GoPtr GoString))) (Getter ''kind''),
    Method (Sig ''Metadata'' [] (Some (GoNamed ''cdk8s.ApiObjectMetadataDefinition'')))
      (Getter ''metadata''),
    Method (Sig ''Name'' [] (Some (GoPtr GoString))) (Getter ''name''),
    Method (Sig ''Node'' [] (Some (GoNamed ''constructs.Node''))) (Getter ''node'')]"

definition KubeDaemonSetList_functions :: "gofun list" where
  "KubeDaemonSetList_functions =
   [Func (Sig ''NewKubeDaemonSetList'' [
         Param ''scope'' (GoNamed ''constructs.Construct''), Param ''id'' (GoPtr GoString),
         Param ''props'' (GoPtr (GoNamed ''KubeDaemonSetListProps''))] (Some (GoNamed ''KubeDaemonSetList'')))
      (Construct ''k8s.KubeDaemonSetList'' [''scope'', ''id'', ''props''] ''validateNewKubeDaemonSetListParameters''),
    Func (Sig ''NewKubeDaemonSetList_Override'' [
         Param ''k'' (GoNamed ''KubeDaemonSetList''), Param ''scope'' (GoNamed ''constructs.Construct''),
         Param ''id'' (GoPtr GoString), Param ''props'' (GoPtr (GoNamed ''KubeDaemonSetListProps''))] None)
      (ConstructOverride ''k8s.KubeDaemonSetList'' [''scope'', ''id'', ''props'']),
    Func (Sig ''KubeDaemonSetList_IsApiObject'' [Param ''o'' GoAny] (Some (GoPtr GoBool)))
      (StaticCall ''k8s.KubeDaemonSetList'' ''isApiObject'' [''o''] ''validateKubeDaemonSetList_IsApiObjectParameters''),
    Func (Sig ''KubeDaemonSetList_IsConstruct'' [Param ''x'' GoAny] (Some (GoPtr GoBool)))
      (StaticCall ''k8s.KubeDaemonSetList'' ''isConstruct'' [''x''] ''validateKubeDaemonSetList_IsConstructParameters''),
    Func (Sig ''KubeDaemonSetList_Manifest'' [Param ''props'' (GoPtr (GoNamed ''KubeDaemonSetListProps''))] (Some GoAny))
      (StaticCall ''k8s.KubeDaemonSetList'' ''manifest'' [''props''] ''validateKubeDaemonSetList_ManifestParameters''),
    Func (Sig ''KubeDaemonSetList_Of'' [Param ''c'' (GoNamed ''constructs.IConstruct'')] (Some (GoNamed ''cdk8s.ApiObject'')))
      (StaticCall ''k8s.KubeDaemonSetList'' ''of'' [''c''] ''validateKubeDaemonSetList_OfParameters''),
    Func (Sig ''KubeDaemonSetList_GVK'' [] (Some (GoPtr (GoNamed ''cdk8s.GroupVersionKind''))))
      (StaticProp ''k8s.KubeDaemonSetList'' ''GVK'')]"

definition KubeDaemonSetList_methods :: "gofun list" where
  "KubeDaemonSetList_methods =
   [Method (Sig ''AddDependency'' [Rest ''dependencies'' (GoNamed ''constructs.IConstruct'')] None)
      (Variadic ''addDependency''),
    Method (Sig ''AddJsonPatch'' [Rest ''ops'' (GoNamed ''cdk8s.JsonPatch'')] None)
      (Variadic ''addJsonPatch''),
    Method (Sig ''ToJson'' [] (Some GoAny)) (Plain ''toJson''),
    Method (Sig ''ToString'' [] (Some (GoPtr GoString))) (Plain ''toString'')]"

definition KubeDaemonSetList :: binding where
  "KubeDaemonSetList = Binding ''KubeDaemonSetList'' [''internal.Type__cdk8sApiObject'']
     (KubeDaemonSetList_getters @ KubeDaemonSetList_functions @ KubeDaemonSetList_methods)"

definition KubeDaemonSetList_checks :: validators where
  "KubeDaemonSetList_checks =
   [(''validateKubeDaemonSetList_IsApiObjectParameters'', [NotNil ''o'']),
    (''validateKubeDaemonSetList_IsConstructParameters'', [NotNil ''x'']),
    (''validateKubeDaemonSetList_ManifestParameters'', [NotNil ''props'', ValidStruct ''props'']),
    (''validateKubeDaemonSetList_OfParameters'', [NotNil ''c'']),
    (''validateNewKubeDaemonSetListParameters'', [NotNil ''scope'', NotNil ''id'', NotNil ''props'', ValidStruct ''props''])]"

definition KubeDaemonSetList_no_checks :: validators where
  "KubeDaemonSetList_no_checks =
   [(''validateKubeDaemonSetList_IsApiObjectParameters'', []),
    (''validateKubeDaemonSetList_IsConstructParameters'', []),
    (''validateKubeDaemonSetList_ManifestParameters'', []),
    (''validateKubeDaemonSetList_OfParameters'', []),
    (''validateNewKubeDaemonSetListParameters'', [])]"

lemma KubeDaemonSetList_ok [class_checks]: "classOk (KubeDaemonSetList, KubeDaemonSetList_checks)"
  by (rule classRequired_I [where s = KubeDaemonSetListProps], simp only: table_members)
    (simp_all only: KubeDaemonSetList_def KubeDaemonSetList_getters_def KubeDaemonSetList_functions_def
      KubeDaemonSetList_methods_def KubeDaemonSetList_checks_def KubeDaemonSetListProps_def class_eval)

lemma KubeDaemonSetList_declared [class_interfaces]:
  "KubeDaemonSetList_interface = apiObjectInterface ''KubeDaemonSetList''"
  "KubeDaemonSetList_no_checks = apiObjectNoChecks ''KubeDaemonSetList''"
  by (simp_all only: KubeDaemonSetList_interface_def KubeDaemonSetList_no_checks_def declared_eval)

definition KubeDeployment_interface :: interface where
  "KubeDeployment_interface = Interface ''KubeDeployment'' [''cdk8s.ApiObject'']
   [Sig ''ApiGroup'' [] (Some (GoPtr GoString)), Sig ''ApiVersion'' [] (Some (GoPtr GoString)),
    Sig ''Chart'' [] (Some (GoNamed ''cdk8s.Chart'')), Sig ''Kind'' [] (Some (GoPtr GoString)),
    Sig ''Metadata'' [] (Some (GoNamed ''cdk8s.ApiObjectMetadataDefinition'')),
    Sig ''Name'' [] (Some (GoPtr GoString)), Sig ''Node'' [] (Some (GoNamed ''constructs.Node'')),
    Sig ''AddDependency'' [Rest ''dependencies'' (GoNamed ''constructs.IConstruct'')] None,
    Sig ''AddJsonPatch'' [Rest ''ops'' (GoNamed ''cdk8s.JsonPatch'')] None,
    Sig ''ToJson'' [] (Some GoAny), Sig ''ToString'' [] (Some (GoPtr GoString))]"

definition KubeDeployment_getters :: "gofun list" where
  "KubeDeployment_getters =
   [Method (Sig ''ApiGroup'' [] (Some (GoPtr GoString))) (Getter ''apiGroup''),
    Method (Sig ''ApiVersion'' [] (Some (GoPtr GoString))) (Getter ''apiVersion''),
    Method (Sig ''Chart'' [] (Some (GoNamed ''cdk8s.Chart''))) (Getter ''chart''),
    Method (Sig ''Kind'' [] (Some (GoPtr GoString))) (Getter ''kind''),
    Method (Sig ''Metadata'' [] (Some (GoNamed ''cdk8s.ApiObjectMetadataDefinition'')))
      (Getter ''metadata''),
    Method (Sig ''Name'' [] (Some (GoPtr GoString))) (Getter ''name''),
    Method (Sig ''Node'' [] (Some (GoNamed ''constructs.Node''))) (Getter ''node'')]"

definition KubeDeployment_functions :: "gofun list" where
  "KubeDeployment_functions =
   [Func (Sig ''NewKubeDeployment'' [
         Param ''scope'' (GoNamed ''constructs.Construct''), Param ''id'' (GoPtr GoString),
         Param ''props'' (GoPtr (GoNamed ''KubeDeploymentProps''))] (Some (GoNamed ''KubeDeployment'')))
      (Construct ''k8s.KubeDeployment'' [''scope'', ''id'', ''props''] ''validateNewKubeDeploymentParameters''),
    Func (Sig ''NewKubeDeployment_Override'' [
         Param ''k'' (GoNamed ''KubeDeployment''), Param ''scope'' (GoNamed ''constructs.Construct''),
         Param ''id'' (GoPtr GoString), Param ''props'' (GoPtr (GoNamed ''KubeDeploymentProps''))] None)
      (ConstructOverride ''k8s.KubeDeployment'' [''scope'', ''id'', ''props'']),
    Func (Sig ''KubeDeployment_IsApiObject'' [Param ''o'' GoAny] (Some (GoPtr GoBool)))
      (StaticCall ''k8s.KubeDeployment'' ''isApiObject'' [''o''] ''validateKubeDeployment_IsApiObjectParameters''),
    Func (Sig ''KubeDeployment_IsConstruct'' [Param ''x'' GoAny] (Some (GoPtr GoBool)))
      (StaticCall ''k8s.KubeDeployment'' ''isConstruct'' [''x''] ''validateKubeDeployment_IsConstructParameters''),
    Func (Sig ''KubeDeployment_Manifest'' [Param ''props'' (GoPtr (GoNamed ''KubeDeploymentProps''))] (Some GoAny))
      (StaticCall ''k8s.KubeDeployment'' ''manifest'' [''props''] ''validateKubeDeployment_ManifestParameters''),
    Func (Sig ''KubeDeployment_Of'' [Param ''c'' (GoNamed ''constructs.IConstruct'')] (Some (GoNamed ''cdk8s.ApiObject'')))
      (StaticCall ''k8s.KubeDeployment'' ''of'' [''c''] ''validateKubeDeployment_OfParameters''),
    Func (Sig ''KubeDeployment_GVK'' [] (Some (GoPtr (GoNamed ''cdk8s.GroupVersionKind''))))
      (StaticProp ''k8s.KubeDeployment'' ''GVK'')]"

definition KubeDeployment_methods :: "gofun list" where
  "KubeDeployment_methods =
   [Method (Sig ''AddDependency'' [Rest ''dependencies'' (GoNamed ''constructs.IConstruct'')] None)
      (Variadic ''addDependency''),
    Method (Sig ''AddJsonPatch'' [Rest ''ops'' (GoNamed ''cdk8s.JsonPatch'')] None)
      (Variadic ''addJsonPatch''),
    Method (Sig ''ToJson'' [] (Some GoAny)) (Plain ''toJson''),
    Method (Sig ''ToString'' [] (Some (GoPtr GoString))) (Plain ''toString'')]"

definition KubeDeployment :: binding where
  "KubeDeployment = Binding ''KubeDeployment'' [''internal.Type__cdk8sApiObject'']
     (KubeDeployment_getters @ KubeDeployment_functions @ KubeDeployment_methods)"

definition KubeDeployment_checks :: validators where
  "KubeDeployment_checks =
   [(''validateKubeDeployment_IsApiObjectParameters'', [NotNil ''o'']),
    (''validateKubeDeployment_IsConstructParameters'', [NotNil ''x'']),
    (''validateKubeDeployment_ManifestParameters'', [ValidStruct ''props'']),
    (''validateKubeDeployment_OfParameters'', [NotNil ''c'']),
    (''validateNewKubeDeploymentParameters'', [NotNil ''scope'', NotNil ''id'', ValidStruct ''props''])]"

definition KubeDeployment_no_checks :: validators where
  "KubeDeployment_no_checks =
   [(''validateKubeDeployment_IsApiObjectParameters'', []),
    (''validateKubeDeployment_IsConstructParameters'', []),
    (''validateKubeDeployment_ManifestParameters'', []),
    (''validateKubeDeployment_OfParameters'', []), (''validateNewKubeDeploymentParameters'', [])]"

lemma KubeDeployment_ok [class_checks]: "classOk (KubeDeployment, KubeDeployment_checks)"
  by (rule classOptional_I [where s = KubeDeploymentProps], simp only: table_members)
    (simp_all only: KubeDeployment_def KubeDeployment_getters_def KubeDeployment_functions_def
      KubeDeployment_methods_def KubeDeployment_checks_def KubeDeploymentProps_def class_eval)

lemma KubeDeployment_declared [class_interfaces]:
  "KubeDeployment_interface = apiObjectInterface ''KubeDeployment''"
  "KubeDeployment_no_checks = apiObjectNoChecks ''KubeDeployment''"
  by (simp_all only: KubeDeployment_interface_def KubeDeployment_no_checks_def declared_eval)

definition KubeDeploymentList_interface :: interface where
  "KubeDeploymentList_interface = Interface ''KubeDeploymentList'' [''cdk8s.ApiObject'']
   [Sig ''ApiGroup'' [] (Some (GoPtr GoString)), Sig ''ApiVersion'' [] (Some (GoPtr GoString)),
    Sig ''Chart'' [] (Some (GoNamed ''cdk8s.Chart'')), Sig ''Kind'' [] (Some (GoPtr GoString)),
    Sig ''Metadata'' [] (Some (GoNamed ''cdk8s.ApiObjectMetadataDefinition'')),
    Sig ''Name'' [] (Some (GoPtr GoString)), Sig ''Node'' [] (Some (GoNamed ''constructs.Node'')),
    Sig ''AddDependency'' [Rest ''dependencies'' (GoNamed ''constructs.IConstruct'')] None,
    Sig ''AddJsonPatch'' [Rest ''ops'' (GoNamed ''cdk8s.JsonPatch'')] None,
    Sig ''ToJson'' [] (Some GoAny), Sig ''ToString'' [] (Some (GoPtr GoString))]"

definition KubeDeploymentList_getters :: "gofun list" where
  "KubeDeploymentList_getters =
   [Method (Sig ''ApiGroup'' [] (Some (GoPtr GoString))) (Getter ''apiGroup''),
    Method (Sig ''ApiVersion'' [] (Some (GoPtr GoString))) (Getter ''apiVersion''),
    Method (Sig ''Chart'' [] (Some (GoNamed ''cdk8s.Chart''))) (Getter ''chart''),
    Method (Sig ''Kind'' [] (Some (GoPtr GoString))) (Getter ''kind''),
    Method (Sig ''Metadata'' [] (Some (GoNamed ''cdk8s.ApiObjectMetadataDefinition'')))
      (Getter ''metadata''),
    Method (Sig ''Name'' [] (Some (GoPtr GoString))) (Getter ''name''),
    Method (Sig ''Node'' [] (Some (GoNamed ''constructs.Node''))) (Getter ''node'')]"

definition KubeDeploymentList_functions :: "gofun list" where
  "KubeDeploymentList_functions =
   [Func (Sig ''NewKubeDeploymentList'' [
         Param ''scope'' (GoNamed ''constructs.Construct''), Param ''id'' (GoPtr GoString),
         Param ''props'' (GoPtr (GoNamed ''KubeDeploymentListProps''))] (Some (GoNamed ''KubeDeploymentList'')))
      (Construct ''k8s.KubeDeploymentList'' [''scope'', ''id'', ''props''] ''validateNewKubeDeploymentListParameters''),
    Func (Sig ''NewKubeDeploymentList_Override'' [
         Param ''k'' (GoNamed ''KubeDeploymentList''),
         Param ''scope'' (GoNamed ''constructs.Construct''), Param ''id'' (GoPtr GoString),
         Param ''props'' (GoPtr (GoNamed ''KubeDeploymentListProps''))] None)
      (ConstructOverride ''k8s.KubeDeploymentList'' [''scope'', ''id'', ''props'']),
    Func (Sig ''KubeDeploymentList_IsApiObject'' [Param ''o'' GoAny] (Some (GoPtr GoBool)))
      (StaticCall ''k8s.KubeDeploymentList'' ''isApiObject'' [''o''] ''validateKubeDeploymentList_IsApiObjectParameters''),
    Func (Sig ''KubeDeploymentList_IsConstruct'' [Param ''x'' GoAny] (Some (GoPtr GoBool)))
      (StaticCall ''k8s.KubeDeploymentList'' ''isConstruct'' [''x''] ''validateKubeDeploymentList_IsConstructParameters''),
    Func (Sig ''KubeDeploymentList_Manifest'' [Param ''props'' (GoPtr (GoNamed ''KubeDeploymentListProps''))] (Some GoAny))
      (StaticCall ''k8s.KubeDeploymentList'' ''manifest'' [''props''] ''validateKubeDeploymentList_ManifestParameters''),
    Func (Sig ''KubeDeploymentList_Of'' [Param ''c'' (GoNamed ''constructs.IConstruct'')] (Some (GoNamed ''cdk8s.ApiObject'')))
      (StaticCall ''k8s.KubeDeploymentList'' ''of'' [''c''] ''validateKubeDeploymentList_OfParameters''),
    Func (Sig ''KubeDeploymentList_GVK'' [] (Some (GoPtr (GoNamed ''cdk8s.GroupVersionKind''))))
      (StaticProp ''k8s.KubeDeploymentList'' ''GVK'')]"

definition KubeDeploymentList_methods :: "gofun list" where
  "KubeDeploymentList_methods =
   [Method (Sig ''AddDependency'' [Rest ''dependencies'' (GoNamed ''constructs.IConstruct'')] None)
      (Variadic ''addDependency''),
    Method (Sig ''AddJsonPatch'' [Rest ''ops'' (GoNamed ''cdk8s.JsonPatch'')] None)
      (Variadic ''addJsonPatch''),
    Method (Sig ''ToJson'' [] (Some GoAny)) (Plain ''toJson''),
    Method (Sig ''ToString'' [] (Some (GoPtr GoString))) (Plain ''toString'')]"

definition KubeDeploymentList :: binding where
  "KubeDeploymentList = Binding ''KubeDeploymentList'' [''internal.Type__cdk8sApiObject'']
     (KubeDeploymentList_getters @ KubeDeploymentList_functions @ KubeDeploymentList_methods)"

definition KubeDeploymentList_checks :: validators where
  "KubeDeploymentList_checks =
   [(''validateKubeDeploymentList_IsApiObjectParameters'', [NotNil ''o'']),
    (''validateKubeDeploymentList_IsConstructParameters'', [NotNil ''x'']),
    (''validateKubeDeploymentList_ManifestParameters'', [NotNil ''props'', ValidStruct ''props'']),
    (''validateKubeDeploymentList_OfParameters'', [NotNil ''c'']),
    (''validateNewKubeDeploymentListParameters'', [NotNil ''scope'', NotNil ''id'', NotNil ''props'', ValidStruct ''props''])]"

definition KubeDeploymentList_no_checks :: validators where
  "KubeDeploymentList_no_checks =
   [(''validateKubeDeploymentList_IsApiObjectParameters'', []),
    (''validateKubeDeploymentList_IsConstructParameters'', []),
    (''validateKubeDeploymentList_ManifestParameters'', []),
    (''validateKubeDeploymentList_OfParameters'', []),
    (''validateNewKubeDeploymentListParameters'', [])]"

lemma KubeDeploymentList_ok [class_checks]: "classOk (KubeDeploymentList, KubeDeploymentList_checks)"
  by (rule classRequired_I [where s = KubeDeploymentListProps], simp only: table_members)
    (simp_all only: KubeDeploymentList_def KubeDeploymentList_getters_def KubeDeploymentList_functions_def
      KubeDeploymentList_methods_def KubeDeploymentList_checks_def KubeDeploymentListProps_def class_eval)

lemma KubeDeploymentList_declared [class_interfaces]:
  "KubeDeploymentList_interface = apiObjectInterface ''KubeDeploymentList''"
  "KubeDeploymentList_no_checks = apiObjectNoChecks ''KubeDeploymentList''"
  by (simp_all only: KubeDeploymentList_interface_def KubeDeploymentList_no_checks_def declared_eval)

definition KubeEndpointSlice_interface :: interface where
  "KubeEndpointSlice_interface = Interface ''KubeEndpointSlice'' [''cdk8s.ApiObject'']
   [Sig ''ApiGroup'' [] (Some (GoPtr GoString)), Sig ''ApiVersion'' [] (Some (GoPtr GoString)),
    Sig ''Chart'' [] (Some (GoNamed ''cdk8s.Chart'')), Sig ''Kind'' [] (Some (GoPtr GoString)),
    Sig ''Metadata'' [] (Some (GoNamed ''cdk8s.ApiObjectMetadataDefinition'')),
    Sig ''Name'' [] (Some (GoPtr GoString)), Sig ''Node'' [] (Some (GoNamed ''constructs.Node'')),
    Sig ''AddDependency'' [Rest ''dependencies'' (GoNamed ''constructs.IConstruct'')] None,
    Sig ''AddJsonPatch'' [Rest ''ops'' (GoNamed ''cdk8s.JsonPatch'')] None,
    Sig ''ToJson'' [] (Some GoAny), Sig ''ToString'' [] (Some (GoPtr GoString))]"

definition KubeEndpointSlice_getters :: "gofun list" where
  "KubeEndpointSlice_getters =
   [Method (Sig ''ApiGroup'' [] (Some (GoPtr GoString))) (Getter ''apiGroup''),
    Method (Sig ''ApiVersion'' [] (Some (GoPtr GoString))) (Getter ''apiVersion''),
    Method (Sig ''Chart'' [] (Some (GoNamed ''cdk8s.Chart''))) (Getter ''chart''),
    Method (Sig ''Kind'' [] (Some (GoPtr GoString))) (Getter ''kind''),
    Method (Sig ''Metadata'' [] (Some (GoNamed ''cdk8s.ApiObjectMetadataDefinition'')))
      (Getter ''metadata''),
    Method (Sig ''Name'' [] (Some (GoPtr GoString))) (Getter ''name''),
    Method (Sig ''Node'' [] (Some (GoNamed ''constructs.Node''))) (Getter ''node'')]"

definition KubeEndpointSlice_functions :: "gofun list" where
  "KubeEndpointSlice_functions =
   [Func (Sig ''NewKubeEndpointSlice'' [
         Param ''scope'' (GoNamed ''constructs.Construct''), Param ''id'' (GoPtr GoString),
         Param ''props'' (GoPtr (GoNamed ''KubeEndpointSliceProps''))] (Some (GoNamed ''KubeEndpointSlice'')))
      (Construct ''k8s.KubeEndpointSlice'' [''scope'', ''id'', ''props''] ''validateNewKubeEndpointSliceParameters''),
    Func (Sig ''NewKubeEndpointSlice_Override'' [
         Param ''k'' (GoNamed ''KubeEndpointSlice''), Param ''scope'' (GoNamed ''constructs.Construct''),
         Param ''id'' (GoPtr GoString), Param ''props'' (GoPtr (GoNamed ''KubeEndpointSliceProps''))] None)
      (ConstructOverride ''k8s.KubeEndpointSlice'' [''scope'', ''id'', ''props'']),
    Func (Sig ''KubeEndpointSlice_IsApiObject'' [Param ''o'' GoAny] (Some (GoPtr GoBool)))
      (StaticCall ''k8s.KubeEndpointSlice'' ''isApiObject'' [''o''] ''validateKubeEndpointSlice_IsApiObjectParameters''),
    Func (Sig ''KubeEndpointSlice_IsConstruct'' [Param ''x'' GoAny] (Some (GoPtr GoBool)))
      (StaticCall ''k8s.KubeEndpointSlice'' ''isConstruct'' [''x''] ''validateKubeEndpointSlice_IsConstructParameters''),
    Func (Sig ''KubeEndpointSlice_Manifest'' [Param ''props'' (GoPtr (GoNamed ''KubeEndpointSliceProps''))] (Some GoAny))
      (StaticCall ''k8s.KubeEndpointSlice'' ''manifest'' [''props''] ''validateKubeEndpointSlice_ManifestParameters''),
    Func (Sig ''KubeEndpointSlice_Of'' [Param ''c'' (GoNamed ''constructs.IConstruct'')] (Some (GoNamed ''cdk8s.ApiObject'')))
      (StaticCall ''k8s.KubeEndpointSlice'' ''of'' [''c''] ''validateKubeEndpointSlice_OfParameters''),
    Func (Sig ''KubeEndpointSlice_GVK'' [] (Some (GoPtr (GoNamed ''cdk8s.GroupVersionKind''))))
      (StaticProp ''k8s.KubeEndpointSlice'' ''GVK'')]"

definition KubeEndpointSlice_methods :: "gofun list" where
  "KubeEndpointSlice_methods =
   [Method (Sig ''AddDependency'' [Rest ''dependencies'' (GoNamed ''constructs.IConstruct'')] None)
      (Variadic ''addDependency''),
    Method (Sig ''AddJsonPatch'' [Rest ''ops'' (GoNamed ''cdk8s.JsonPatch'')] None)
      (Variadic ''addJsonPatch''),
    Method (Sig ''ToJson'' [] (Some GoAny)) (Plain ''toJson''),
    Method (Sig ''ToString'' [] (Some (GoPtr GoString))) (Plain ''toString'')]"

definition KubeEndpointSlice :: binding where
  "KubeEndpointSlice = Binding ''KubeEndpointSlice'' [''internal.Type__cdk8sApiObject'']
     (KubeEndpointSlice_getters @ KubeEndpointSlice_functions @ KubeEndpointSlice_methods)"

definition KubeEndpointSlice_checks :: validators where
  "KubeEndpointSlice_checks =
   [(''validateKubeEndpointSlice_IsApiObjectParameters'', [NotNil ''o'']),
    (''validateKubeEndpointSlice_IsConstructParameters'', [NotNil ''x'']),
    (''validateKubeEndpointSlice_ManifestParameters'', [NotNil ''props'', ValidStruct ''props'']),
    (''validateKubeEndpointSlice_OfParameters'', [NotNil ''c'']),
    (''validateNewKubeEndpointSliceParameters'', [NotNil ''scope'', NotNil ''id'', NotNil ''props'', ValidStruct ''props''])]"

definition KubeEndpointSlice_no_checks :: validators where
  "KubeEndpointSlice_no_checks =
   [(''validateKubeEndpointSlice_IsApiObjectParameters'', []),
    (''validateKubeEndpointSlice_IsConstructParameters'', []),
    (''validateKubeEndpointSlice_ManifestParameters'', []),
    (''validateKubeEndpointSlice_OfParameters'', []),
    (''validateNewKubeEndpointSliceParameters'', [])]"

lemma KubeEndpointSlice_ok [class_checks]: "classOk (KubeEndpointSlice, KubeEndpointSlice_checks)"
  by (rule classRequired_I [where s = KubeEndpointSliceProps], simp only: table_members)
    (simp_all only: KubeEndpointSlice_def KubeEndpointSlice_getters_def KubeEndpointSlice_functions_def
      KubeEndpointSlice_methods_def KubeEndpointSlice_checks_def KubeEndpointSliceProps_def class_eval)

lemma KubeEndpointSlice_declared [class_interfaces]:
  "KubeEndpointSlice_interface = apiObjectInterface ''KubeEndpointSlice''"
  "KubeEndpointSlice_no_checks = apiObjectNoChecks ''KubeEndpointSlice''"
  by (simp_all only: KubeEndpointSlice_interface_def KubeEndpointSlice_no_checks_def declared_eval)

definition KubeEndpointSliceList_interface :: interface where
  "KubeEndpointSliceList_interface = Interface ''KubeEndpointSliceList'' [''cdk8s.ApiObject'']
   [Sig ''ApiGroup'' [] (Some (GoPtr GoString)), Sig ''ApiVersion'' [] (Some (GoPtr GoString)),
    Sig ''Chart'' [] (Some (GoNamed ''cdk8s.Chart'')), Sig ''Kind'' [] (Some (GoPtr GoString)),
    Sig ''Metadata'' [] (Some (GoNamed ''cdk8s.ApiObjectMetadataDefinition'')),
    Sig ''Name'' [] (Some (GoPtr GoString)), Sig ''Node'' [] (Some (GoNamed ''constructs.Node'')),
    Sig ''AddDependency'' [Rest ''dependencies'' (GoNamed ''constructs.IConstruct'')] None,
    Sig ''AddJsonPatch'' [Rest ''ops'' (GoNamed ''cdk8s.JsonPatch'')] None,
    Sig ''ToJson'' [] (Some GoAny), Sig ''ToString'' [] (Some (GoPtr GoString))]"

definition KubeEndpointSliceList_getters :: "gofun list" where
  "KubeEndpointSliceList_getters =
   [Method (Sig ''ApiGroup'' [] (Some (GoPtr GoString))) (Getter ''apiGroup''),
    Method (Sig ''ApiVersion'' [] (Some (GoPtr GoString))) (Getter ''apiVersion''),
    Method (Sig ''Chart'' [] (Some (GoNamed ''cdk8s.Chart''))) (Getter ''chart''),
    Method (Sig ''Kind'' [] (Some (GoPtr GoString))) (Getter ''kind''),
    Method (Sig ''Metadata'' [] (Some (GoNamed ''cdk8s.ApiObjectMetadataDefinition'')))
      (Getter ''metadata''),
    Method (Sig ''Name'' [] (Some (GoPtr GoString))) (Getter ''name''),
    Method (Sig ''Node'' [] (Some (GoNamed ''constructs.Node''))) (Getter ''node'')]"

definition KubeEndpointSliceList_functions :: "gofun list" where
  "KubeEndpointSliceList_functions =
   [Func (Sig ''NewKubeEndpointSliceList'' [
         Param ''scope'' (GoNamed ''constructs.Construct''), Param ''id'' (GoPtr GoString),
         Param ''props'' (GoPtr (GoNamed ''KubeEndpointSliceListProps''))] (Some (GoNamed ''KubeEndpointSliceList'')))
      (Construct ''k8s.KubeEndpointSliceList'' [''scope'', ''id'', ''props''] ''validateNewKubeEndpointSliceListParameters''),
    Func (Sig ''NewKubeEndpointSliceList_Override'' [
         Param ''k'' (GoNamed ''KubeEndpointSliceList''),
         Param ''scope'' (GoNamed ''constructs.Construct''), Param ''id'' (GoPtr GoString),
         Param ''props'' (GoPtr (GoNamed ''KubeEndpointSliceListProps''))] None)
      (ConstructOverride ''k8s.KubeEndpointSliceList'' [''scope'', ''id'', ''props'']),
    Func (Sig ''KubeEndpointSliceList_IsApiObject'' [Param ''o'' GoAny] (Some (GoPtr GoBool)))
      (StaticCall ''k8s.KubeEndpointSliceList'' ''isApiObject'' [''o''] ''validateKubeEndpointSliceList_IsApiObjectParameters''),
    Func (Sig ''KubeEndpointSliceList_IsConstruct'' [Param ''x'' GoAny] (Some (GoPtr GoBool)))
      (StaticCall ''k8s.KubeEndpointSliceList'' ''isConstruct'' [''x''] ''validateKubeEndpointSliceList_IsConstructParameters''),
    Func (Sig ''KubeEndpointSliceList_Manifest'' [Param ''props'' (GoPtr (GoNamed ''KubeEndpointSliceListProps''))] (Some GoAny))
      (StaticCall ''k8s.KubeEndpointSliceList'' ''manifest'' [''props''] ''validateKubeEndpointSliceList_ManifestParameters''),
    Func (Sig ''KubeEndpointSliceList_Of'' [Param ''c'' (GoNamed ''constructs.IConstruct'')] (Some (GoNamed ''cdk8s.ApiObject'')))
      (StaticCall ''k8s.KubeEndpointSliceList'' ''of'' [''c''] ''validateKubeEndpointSliceList_OfParameters''),
    Func (Sig ''KubeEndpointSliceList_GVK'' [] (Some (GoPtr (GoNamed ''cdk8s.GroupVersionKind''))))
      (StaticProp ''k8s.KubeEndpointSliceList'' ''GVK'')]"

definition KubeEndpointSliceList_methods :: "gofun list" where
  "KubeEndpointSliceList_methods =
   [Method (Sig ''AddDependency'' [Rest ''dependencies'' (GoNamed ''constructs.IConstruct'')] None)
      (Variadic ''addDependency''),
    Method (Sig ''AddJsonPatch'' [Rest ''ops'' (GoNamed ''cdk8s.JsonPatch'')] None)
      (Variadic ''addJsonPatch''),
    Method (Sig ''ToJson'' [] (Some GoAny)) (Plain ''toJson''),
    Method (Sig ''ToString'' [] (Some (GoPtr GoString))) (Plain ''toString'')]"

definition KubeEndpointSliceList :: binding where
  "KubeEndpointSliceList = Binding ''KubeEndpointSliceList'' [''internal.Type__cdk8sApiObject'']
     (KubeEndpointSliceList_getters @ KubeEndpointSliceList_functions @ KubeEndpointSliceList_methods)"

definition KubeEndpointSliceList_checks :: validators where
  "KubeEndpointSliceList_checks =
   [(''validateKubeEndpointSliceList_IsApiObjectParameters'', [NotNil ''o'']),
    (''validateKubeEndpointSliceList_IsConstructParameters'', [NotNil ''x'']),
    (''validateKubeEndpointSliceList_ManifestParameters'', [NotNil ''props'', ValidStruct ''props'']),
    (''validateKubeEndpointSliceList_OfParameters'', [NotNil ''c'']),
    (''validateNewKubeEndpointSliceListParameters'', [NotNil ''scope'', NotNil ''id'', NotNil ''props'', ValidStruct ''props''])]"

definition KubeEndpointSliceList_no_checks :: validators where
  "KubeEndpointSliceList_no_checks =
   [(''validateKubeEndpointSliceList_IsApiObjectParameters'', []),
    (''validateKubeEndpointSliceList_IsConstructParameters'', []),
    (''validateKubeEndpointSliceList_ManifestParameters'', []),
    (''validateKubeEndpointSliceList_OfParameters'', []),
    (''validateNewKubeEndpointSliceListParameters'', [])]"

lemma KubeEndpointSliceList_ok [class_checks]: "classOk (KubeEndpointSliceList, KubeEndpointSliceList_checks)"
  by (rule classRequired_I [where s = KubeEndpointSliceListProps], simp only: table_members)
    (simp_all only: KubeEndpointSliceList_def KubeEndpointSliceList_getters_def KubeEndpointSliceList_functions_def
      KubeEndpointSliceList_methods_def KubeEndpointSliceList_checks_def KubeEndpointSliceListProps_def class_eval)

lemma KubeEndpointSliceList_declared [class_interfaces]:
  "KubeEndpointSliceList_interface = apiObjectInterface ''KubeEndpointSliceList''"
  "KubeEndpointSliceList_no_checks = apiObjectNoChecks ''KubeEndpointSliceList''"
  by (simp_all only: KubeEndpointSliceList_interface_def KubeEndpointSliceList_no_checks_def declared_eval)

definition KubeEndpoints_interface :: interface where
  "KubeEndpoints_interface = Interface ''KubeEndpoints'' [''cdk8s.ApiObject'']
   [Sig ''ApiGroup'' [] (Some (GoPtr GoString)), Sig ''ApiVersion'' [] (Some (GoPtr GoString)),
    Sig ''Chart'' [] (Some (GoNamed ''cdk8s.Chart'')), Sig ''Kind'' [] (Some (GoPtr GoString)),
    Sig ''Metadata'' [] (Some (GoNamed ''cdk8s.ApiObjectMetadataDefinition'')),
    Sig ''Name'' [] (Some (GoPtr GoString)), Sig ''Node'' [] (Some (GoNamed ''constructs.Node'')),
    Sig ''AddDependency'' [Rest ''dependencies'' (GoNamed ''constructs.IConstruct'')] None,
    Sig ''AddJsonPatch'' [Rest ''ops'' (GoNamed ''cdk8s.JsonPatch'')] None,
    Sig ''ToJson'' [] (Some GoAny), Sig ''ToString'' [] (Some (GoPtr GoString))]"

definition KubeEndpoints_getters :: "gofun list" where
  "KubeEndpoints_getters =
   [Method (Sig ''ApiGroup'' [] (Some (GoPtr GoString))) (Getter ''apiGroup''),
    Method (Sig ''ApiVersion'' [] (Some (GoPtr GoString))) (Getter ''apiVersion''),
    Method (Sig ''Chart'' [] (Some (GoNamed ''cdk8s.Chart''))) (Getter ''chart''),
    Method (Sig ''Kind'' [] (Some (GoPtr GoString))) (Getter ''kind''),
    Method (Sig ''Metadata'' [] (Some (GoNamed ''cdk8s.ApiObjectMetadataDefinition'')))
      (Getter ''metadata''),
    Method (Sig ''Name'' [] (Some (GoPtr GoString))) (Getter ''name''),
    Method (Sig ''Node'' [] (Some (GoNamed ''constructs.Node''))) (Getter ''node'')]"

definition KubeEndpoints_functions :: "gofun list" where
  "KubeEndpoints_functions =
   [Func (Sig ''NewKubeEndpoints'' [
         Param ''scope'' (GoNamed ''constructs.Construct''), Param ''id'' (GoPtr GoString),
         Param ''props'' (GoPtr (GoNamed ''KubeEndpointsProps''))] (Some (GoNamed ''KubeEndpoints'')))
      (Construct ''k8s.KubeEndpoints'' [''scope'', ''id'', ''props''] ''validateNewKubeEndpointsParameters''),
    Func (Sig ''NewKubeEndpoints_Override'' [
         Param ''k'' (GoNamed ''KubeEndpoints''), Param ''scope'' (GoNamed ''constructs.Construct''),
         Param ''id'' (GoPtr GoString), Param ''props'' (GoPtr (GoNamed ''KubeEndpointsProps''))] None)
      (ConstructOverride ''k8s.KubeEndpoints'' [''scope'', ''id'', ''props'']),
    Func (Sig ''KubeEndpoints_IsApiObject'' [Param ''o'' GoAny] (Some (GoPtr GoBool)))
      (StaticCall ''k8s.KubeEndpoints'' ''isApiObject'' [''o''] ''validateKubeEndpoints_IsApiObjectParameters''),
    Func (Sig ''KubeEndpoints_IsConstruct'' [Param ''x'' GoAny] (Some (GoPtr GoBool)))
      (StaticCall ''k8s.KubeEndpoints'' ''isConstruct'' [''x''] ''validateKubeEndpoints_IsConstructParameters''),
    Func (Sig ''KubeEndpoints_Manifest'' [Param ''props'' (GoPtr (GoNamed ''KubeEndpointsProps''))] (Some GoAny))
      (StaticCall ''k8s.KubeEndpoints'' ''manifest'' [''props''] ''validateKubeEndpoints_ManifestParameters''),
    Func (Sig ''KubeEndpoints_Of'' [Param ''c'' (GoNamed ''constructs.IConstruct'')] (Some (GoNamed ''cdk8s.ApiObject'')))
      (StaticCall ''k8s.KubeEndpoints'' ''of'' [''c''] ''validateKubeEndpoints_OfParameters''),
    Func (Sig ''KubeEndpoints_GVK'' [] (Some (GoPtr (GoNamed ''cdk8s.GroupVersionKind''))))
      (StaticProp ''k8s.KubeEndpoints'' ''GVK'')]"

definition KubeEndpoints_methods :: "gofun list" where
  "KubeEndpoints_methods =
   [Method (Sig ''AddDependency'' [Rest ''dependencies'' (GoNamed ''constructs.IConstruct'')] None)
      (Variadic ''addDependency''),
    Method (Sig ''AddJsonPatch'' [Rest ''ops'' (GoNamed ''cdk8s.JsonPatch'')] None)
      (Variadic ''addJsonPatch''),
    Method (Sig ''ToJson'' [] (Some GoAny)) (Plain ''toJson''),
    Method (Sig ''ToString'' [] (Some (GoPtr GoString))) (Plain ''toString'')]"

definition KubeEndpoints :: binding where
  "KubeEndpoints = Binding ''KubeEndpoints'' [''internal.Type__cdk8sApiObject'']
     (KubeEndpoints_getters @ KubeEndpoints_functions @ KubeEndpoints_methods)"

definition KubeEndpoints_checks :: validators where
  "KubeEndpoints_checks =
   [(''validateKubeEndpoints_IsApiObjectParameters'', [NotNil ''o'']),
    (''validateKubeEndpoints_IsConstructParameters'', [NotNil ''x'']),
    (''validateKubeEndpoints_ManifestParameters'', [ValidStruct ''props'']),
    (''validateKubeEndpoints_OfParameters'', [NotNil ''c'']),
    (''validateNewKubeEndpointsParameters'', [NotNil ''scope'', NotNil ''id'', ValidStruct ''props''])]"

definition KubeEndpoints_no_checks :: validators where
  "KubeEndpoints_no_checks =
   [(''validateKubeEndpoints_IsApiObjectParameters'', []),
    (''validateKubeEndpoints_IsConstructParameters'', []),
    (''validateKubeEndpoints_ManifestParameters'', []),
    (''validateKubeEndpoints_OfParameters'', []), (''validateNewKubeEndpointsParameters'', [])]"

lemma KubeEndpoints_ok [class_checks]: "classOk (KubeEndpoints, KubeEndpoints_checks)"
  by (rule classOptional_I [where s = KubeEndpointsProps], simp only: table_members)
    (simp_all only: KubeEndpoints_def KubeEndpoints_getters_def KubeEndpoints_functions_def
      KubeEndpoints_methods_def KubeEndpoints_checks_def KubeEndpointsProps_def class_eval)

lemma KubeEndpoints_declared [class_interfaces]:
  "KubeEndpoints_interface = apiObjectInterface ''KubeEndpoints''"
  "KubeEndpoints_no_checks = apiObjectNoChecks ''KubeEndpoints''"
  by (simp_all only: KubeEndpoints_interface_def KubeEndpoints_no_checks_def declared_eval)

definition KubeEndpointsList_interface :: interface where
  "KubeEndpointsList_interface = Interface ''KubeEndpointsList'' [''cdk8s.ApiObject'']
   [Sig ''ApiGroup'' [] (Some (GoPtr GoString)), Sig ''ApiVersion'' [] (Some (GoPtr GoString)),
    Sig ''Chart'' [] (Some (GoNamed ''cdk8s.Chart'')), Sig ''Kind'' [] (Some (GoPtr GoString)),
    Sig ''Metadata'' [] (Some (GoNamed ''cdk8s.ApiObjectMetadataDefinition'')),
    Sig ''Name'' [] (Some (GoPtr GoString)), Sig ''Node'' [] (Some (GoNamed ''constructs.Node'')),
    Sig ''AddDependency'' [Rest ''dependencies'' (GoNamed ''constructs.IConstruct'')] None,
    Sig ''AddJsonPatch'' [Rest ''ops'' (GoNamed ''cdk8s.JsonPatch'')] None,
    Sig ''ToJson'' [] (Some GoAny), Sig ''ToString'' [] (Some (GoPtr GoString))]"

definition KubeEndpointsList_getters :: "gofun list" where
  "KubeEndpointsList_getters =
   [Method (Sig ''ApiGroup'' [] (Some (GoPtr GoString))) (Getter ''apiGroup''),
    Method (Sig ''ApiVersion'' [] (Some (GoPtr GoString))) (Getter ''apiVersion''),
    Method (Sig ''Chart'' [] (Some (GoNamed ''cdk8s.Chart''))) (Getter ''chart''),
    Method (Sig ''Kind'' [] (Some (GoPtr GoString))) (Getter ''kind''),
    Method (Sig ''Metadata'' [] (Some (GoNamed ''cdk8s.ApiObjectMetadataDefinition'')))
      (Getter ''metadata''),
    Method (Sig ''Name'' [] (Some (GoPtr GoString))) (Getter ''name''),
    Method (Sig ''Node'' [] (Some (GoNamed ''constructs.Node''))) (Getter ''node'')]"

definition KubeEndpointsList_functions :: "gofun list" where
  "KubeEndpointsList_functions =
   [Func (Sig ''NewKubeEndpointsList'' [
         Param ''scope'' (GoNamed ''constructs.Construct''), Param ''id'' (GoPtr GoString),
         Param ''props'' (GoPtr (GoNamed ''KubeEndpointsListProps''))] (Some (GoNamed ''KubeEndpointsList'')))
      (Construct ''k8s.KubeEndpointsList'' [''scope'', ''id'', ''props''] ''validateNewKubeEndpointsListParameters''),
    Func (Sig ''NewKubeEndpointsList_Override'' [
         Param ''k'' (GoNamed ''KubeEndpointsList''), Param ''scope'' (GoNamed ''constructs.Construct''),
         Param ''id'' (GoPtr GoString), Param ''props'' (GoPtr (GoNamed ''KubeEndpointsListProps''))] None)
      (ConstructOverride ''k8s.KubeEndpointsList'' [''scope'', ''id'', ''props'']),
    Func (Sig ''KubeEndpointsList_IsApiObject'' [Param ''o'' GoAny] (Some (GoPtr GoBool)))
      (StaticCall ''k8s.KubeEndpointsList'' ''isApiObject'' [''o''] ''validateKubeEndpointsList_IsApiObjectParameters''),
    Func (Sig ''KubeEndpointsList_IsConstruct'' [Param ''x'' GoAny] (Some (GoPtr GoBool)))
      (StaticCall ''k8s.KubeEndpointsList'' ''isConstruct'' [''x''] ''validateKubeEndpointsList_IsConstructParameters''),
    Func (Sig ''KubeEndpointsList_Manifest'' [Param ''props'' (GoPtr (GoNamed ''KubeEndpointsListProps''))] (Some GoAny))
      (StaticCall ''k8s.KubeEndpointsList'' ''manifest'' [''props''] ''validateKubeEndpointsList_ManifestParameters''),
    Func (Sig ''KubeEndpointsList_Of'' [Param ''c'' (GoNamed ''constructs.IConstruct'')] (Some (GoNamed ''cdk8s.ApiObject'')))
      (StaticCall ''k8s.KubeEndpointsList'' ''of'' [''c''] ''validateKubeEndpointsList_OfParameters''),
    Func (Sig ''KubeEndpointsList_GVK'' [] (Some (GoPtr (GoNamed ''cdk8s.GroupVersionKind''))))
      (StaticProp ''k8s.KubeEndpointsList'' ''GVK'')]"

definition KubeEndpointsList_methods :: "gofun list" where
  "KubeEndpointsList_methods =
   [Method (Sig ''AddDependency'' [Rest ''dependencies'' (GoNamed ''constructs.IConstruct'')] None)
      (Variadic ''addDependency''),
    Method (Sig ''AddJsonPatch'' [Rest ''ops'' (GoNamed ''cdk8s.JsonPatch'')] None)
      (Variadic ''addJsonPatch''),
    Method (Sig ''ToJson'' [] (Some GoAny)) (Plain ''toJson''),
    Method (Sig ''ToString'' [] (Some (GoPtr GoString))) (Plain ''toString'')]"

definition KubeEndpointsList :: binding where
  "KubeEndpointsList = Binding ''KubeEndpointsList'' [''internal.Type__cdk8sApiObject'']
     (KubeEndpointsList_getters @ KubeEndpointsList_functions @ KubeEndpointsList_methods)"

definition KubeEndpointsList_checks :: validators where
  "KubeEndpointsList_checks =
   [(''validateKubeEndpointsList_IsApiObjectParameters'', [NotNil ''o'']),
    (''validateKubeEndpointsList_IsConstructParameters'', [NotNil ''x'']),
    (''validateKubeEndpointsList_ManifestParameters'', [NotNil ''props'', ValidStruct ''props'']),
    (''validateKubeEndpointsList_OfParameters'', [NotNil ''c'']),
    (''validateNewKubeEndpointsListParameters'', [NotNil ''scope'', NotNil ''id'', NotNil ''props'', ValidStruct ''props''])]"

definition KubeEndpointsList_no_checks :: validators where
  "KubeEndpointsList_no_checks =
   [(''validateKubeEndpointsList_IsApiObjectParameters'', []),
    (''validateKubeEndpointsList_IsConstructParameters'', []),
    (''validateKubeEndpointsList_ManifestParameters'', []),
    (''validateKubeEndpointsList_OfParameters'', []),
    (''validateNewKubeEndpointsListParameters'', [])]"

lemma KubeEndpointsList_ok [class_checks]: "classOk (KubeEndpointsList, KubeEndpointsList_checks)"
  by (rule classRequired_I [where s = KubeEndpointsListProps], simp only: table_members)
    (simp_all only: KubeEndpointsList_def KubeEndpointsList_getters_def KubeEndpointsList_functions_def
      KubeEndpointsList_methods_def KubeEndpointsList_checks_def KubeEndpointsListProps_def class_eval)

lemma KubeEndpointsList_declared [class_interfaces]:
  "KubeEndpointsList_interface = apiObjectInterface ''KubeEndpointsList''"
  "KubeEndpointsList_no_checks = apiObjectNoChecks ''KubeEndpointsList''"
  by (simp_all only: KubeEndpointsList_interface_def KubeEndpointsList_no_checks_def declared_eval)

definition KubeEvent_interface :: interface where
  "KubeEvent_interface = Interface ''KubeEvent'' [''cdk8s.ApiObject'']
   [Sig ''ApiGroup'' [] (Some (GoPtr GoString)), Sig ''ApiVersion'' [] (Some (GoPtr GoString)),
    Sig ''Chart'' [] (Some (GoNamed ''cdk8s.Chart'')), Sig ''Kind'' [] (Some (GoPtr GoString)),
    Sig ''Metadata'' [] (Some (GoNamed ''cdk8s.ApiObjectMetadataDefinition'')),
    Sig ''Name'' [] (Some (GoPtr GoString)), Sig ''Node'' [] (Some (GoNamed ''constructs.Node'')),
    Sig ''AddDependency'' [Rest ''dependencies'' (GoNamed ''constructs.IConstruct'')] None,
    Sig ''AddJsonPatch'' [Rest ''ops'' (GoNamed ''cdk8s.JsonPatch'')] None,
    Sig ''ToJson'' [] (Some GoAny), Sig ''ToString'' [] (Some (GoPtr GoString))]"

definition KubeEvent_getters :: "gofun list" where
  "KubeEvent_getters =
   [Method (Sig ''ApiGroup'' [] (Some (GoPtr GoString))) (Getter ''apiGroup''),
    Method (Sig ''ApiVersion'' [] (Some (GoPtr GoString))) (Getter ''apiVersion''),
    Method (Sig ''Chart'' [] (Some (GoNamed ''cdk8s.Chart''))) (Getter ''chart''),
    Method (Sig ''Kind'' [] (Some (GoPtr GoString))) (Getter ''kind''),
    Method (Sig ''Metadata'' [] (Some (GoNamed ''cdk8s.ApiObjectMetadataDefinition'')))
      (Getter ''metadata''),
    Method (Sig ''Name'' [] (Some (GoPtr GoString))) (Getter ''name''),
    Method (Sig ''Node'' [] (Some (GoNamed ''constructs.Node''))) (Getter ''node'')]"

definition KubeEvent_functions :: "gofun list" where
  "KubeEvent_functions =
   [Func (Sig ''NewKubeEvent'' [
         Param ''scope'' (GoNamed ''constructs.Construct''), Param ''id'' (GoPtr GoString),
         Param ''props'' (GoPtr (GoNamed ''KubeEventProps''))] (Some (GoNamed ''KubeEvent'')))
      (Construct ''k8s.KubeEvent'' [''scope'', ''id'', ''props''] ''validateNewKubeEventParameters''),
    Func (Sig ''NewKubeEvent_Override'' [
         Param ''k'' (GoNamed ''KubeEvent''), Param ''scope'' (GoNamed ''constructs.Construct''),
         Param ''id'' (GoPtr GoString), Param ''props'' (GoPtr (GoNamed ''KubeEventProps''))] None)
      (ConstructOverride ''k8s.KubeEvent'' [''scope'', ''id'', ''props'']),
    Func (Sig ''KubeEvent_IsApiObject'' [Param ''o'' GoAny] (Some (GoPtr GoBool)))
      (StaticCall ''k8s.KubeEvent'' ''isApiObject'' [''o''] ''validateKubeEvent_IsApiObjectParameters''),
    Func (Sig ''KubeEvent_IsConstruct'' [Param ''x'' GoAny] (Some (GoPtr GoBool)))
      (StaticCall ''k8s.KubeEvent'' ''isConstruct'' [''x''] ''validateKubeEvent_IsConstructParameters''),
    Func (Sig ''KubeEvent_Manifest'' [Param ''props'' (GoPtr (GoNamed ''KubeEventProps''))] (Some GoAny))
      (StaticCall ''k8s.KubeEvent'' ''manifest'' [''props''] ''validateKubeEvent_ManifestParameters''),
    Func (Sig ''KubeEvent_Of'' [Param ''c'' (GoNamed ''constructs.IConstruct'')] (Some (GoNamed ''cdk8s.ApiObject'')))
      (StaticCall ''k8s.KubeEvent'' ''of'' [''c''] ''validateKubeEvent_OfParameters''),
    Func (Sig ''KubeEvent_GVK'' [] (Some (GoPtr (GoNamed ''cdk8s.GroupVersionKind''))))
      (StaticProp ''k8s.KubeEvent'' ''GVK'')]"

definition KubeEvent_methods :: "gofun list" where
  "KubeEvent_methods =
   [Method (Sig ''AddDependency'' [Rest ''dependencies'' (GoNamed ''constructs.IConstruct'')] None)
      (Variadic ''addDependency''),
    Method (Sig ''AddJsonPatch'' [Rest ''ops'' (GoNamed ''cdk8s.JsonPatch'')] None)
      (Variadic ''addJsonPatch''),
    Method (Sig ''ToJson'' [] (Some GoAny)) (Plain ''toJson''),
    Method (Sig ''ToString'' [] (Some (GoPtr GoString))) (Plain ''toString'')]"

definition KubeEvent :: binding where
  "KubeEvent = Binding ''KubeEvent'' [''internal.Type__cdk8sApiObject'']
     (KubeEvent_getters @ KubeEvent_functions @ KubeEvent_methods)"

definition KubeEvent_checks :: validators where
  "KubeEvent_checks =
   [(''validateKubeEvent_IsApiObjectParameters'', [NotNil ''o'']),
    (''validateKubeEvent_IsConstructParameters'', [NotNil ''x'']),
    (''validateKubeEvent_ManifestParameters'', [NotNil ''props'', ValidStruct ''props'']),
    (''validateKubeEvent_OfParameters'', [NotNil ''c'']),
    (''validateNewKubeEventParameters'', [NotNil ''scope'', NotNil ''id'', NotNil ''props'', ValidStruct ''props''])]"

definition KubeEvent_no_checks :: validators where
  "KubeEvent_no_checks =
   [(''validateKubeEvent_IsApiObjectParameters'', []),
    (''validateKubeEvent_IsConstructParameters'', []),
    (''validateKubeEvent_ManifestParameters'', []), (''validateKubeEvent_OfParameters'', []),
    (''validateNewKubeEventParameters'', [])]"

lemma KubeEvent_ok [class_checks]: "classOk (KubeEvent, KubeEvent_checks)"
  by (rule classRequired_I [where s = KubeEventProps], simp only: table_members)
    (simp_all only: KubeEvent_def KubeEvent_getters_def KubeEvent_functions_def
      KubeEvent_methods_def KubeEvent_checks_def KubeEventProps_def class_eval)

lemma KubeEvent_declared [class_interfaces]:
  "KubeEvent_interface = apiObjectInterface ''KubeEvent''"
  "KubeEvent_no_checks = apiObjectNoChecks ''KubeEvent''"
  by (simp_all only: KubeEvent_interface_def KubeEvent_no_checks_def declared_eval)

definition KubeEventList_interface :: interface where
  "KubeEventList_interface = Interface ''KubeEventList'' [''cdk8s.ApiObject'']
   [Sig ''ApiGroup'' [] (Some (GoPtr GoString)), Sig ''ApiVersion'' [] (Some (GoPtr GoString)),
    Sig ''Chart'' [] (Some (GoNamed ''cdk8s.Chart'')), Sig ''Kind'' [] (Some (GoPtr GoString)),
    Sig ''Metadata'' [] (Some (GoNamed ''cdk8s.ApiObjectMetadataDefinition'')),
    Sig ''Name'' [] (Some (GoPtr GoString)), Sig ''Node'' [] (Some (GoNamed ''constructs.Node'')),
    Sig ''AddDependency'' [Rest ''dependencies'' (GoNamed ''constructs.IConstruct'')] None,
    Sig ''AddJsonPatch'' [Rest ''ops'' (GoNamed ''cdk8s.JsonPatch'')] None,
    Sig ''ToJson'' [] (Some GoAny), Sig ''ToString'' [] (Some (GoPtr GoString))]"

definition KubeEventList_getters :: "gofun list" where
  "KubeEventList_getters =
   [Method (Sig ''ApiGroup'' [] (Some (GoPtr GoString))) (Getter ''apiGroup''),
    Method (Sig ''ApiVersion'' [] (Some (GoPtr GoString))) (Getter ''apiVersion''),
    Method (Sig ''Chart'' [] (Some (GoNamed ''cdk8s.Chart''))) (Getter ''chart''),
    Method (Sig ''Kind'' [] (Some (GoPtr GoString))) (Getter ''kind''),
    Method (Sig ''Metadata'' [] (Some (GoNamed ''cdk8s.ApiObjectMetadataDefinition'')))
      (Getter ''metadata''),
    Method (Sig ''Name'' [] (Some (GoPtr GoString))) (Getter ''name''),
    Method (Sig ''Node'' [] (Some (GoNamed ''constructs.Node''))) (Getter ''node'')]"

definition KubeEventList_functions :: "gofun list" where
  "KubeEventList_functions =
   [Func (Sig ''NewKubeEventList'' [
         Param ''scope'' (GoNamed ''constructs.Construct''), Param ''id'' (GoPtr GoString),
         Param ''props'' (GoPtr (GoNamed ''KubeEventListProps''))] (Some (GoNamed ''KubeEventList'')))
      (Construct ''k8s.KubeEventList'' [''scope'', ''id'', ''props''] ''validateNewKubeEventListParameters''),
    Func (Sig ''NewKubeEventList_Override'' [
         Param ''k'' (GoNamed ''KubeEventList''), Param ''scope'' (GoNamed ''constructs.Construct''),
         Param ''id'' (GoPtr GoString), Param ''props'' (GoPtr (GoNamed ''KubeEventListProps''))] None)
      (ConstructOverride ''k8s.KubeEventList'' [''scope'', ''id'', ''props'']),
    Func (Sig ''KubeEventList_IsApiObject'' [Param ''o'' GoAny] (Some (GoPtr GoBool)))
      (StaticCall ''k8s.KubeEventList'' ''isApiObject'' [''o''] ''validateKubeEventList_IsApiObjectParameters''),
    Func (Sig ''KubeEventList_IsConstruct'' [Param ''x'' GoAny] (Some (GoPtr GoBool)))
      (StaticCall ''k8s.KubeEventList'' ''isConstruct'' [''x''] ''validateKubeEventList_IsConstructParameters''),
    Func (Sig ''KubeEventList_Manifest'' [Param ''props'' (GoPtr (GoNamed ''KubeEventListProps''))] (Some GoAny))
      (StaticCall ''k8s.KubeEventList'' ''manifest'' [''props''] ''validateKubeEventList_ManifestParameters''),
    Func (Sig ''KubeEventList_Of'' [Param ''c'' (GoNamed ''constructs.IConstruct'')] (Some (GoNamed ''cdk8s.ApiObject'')))
      (StaticCall ''k8s.KubeEventList'' ''of'' [''c''] ''validateKubeEventList_OfParameters''),
    Func (Sig ''KubeEventList_GVK'' [] (Some (GoPtr (GoNamed ''cdk8s.GroupVersionKind''))))
      (StaticProp ''k8s.KubeEventList'' ''GVK'')]"

definition KubeEventList_methods :: "gofun list" where
  "KubeEventList_methods =
   [Method (Sig ''AddDependency'' [Rest ''dependencies'' (GoNamed ''constructs.IConstruct'')] None)
      (Variadic ''addDependency''),
    Method (Sig ''AddJsonPatch'' [Rest ''ops'' (GoNamed ''cdk8s.JsonPatch'')] None)
      (Variadic ''addJsonPatch''),
    Method (Sig ''ToJson'' [] (Some GoAny)) (Plain ''toJson''),
    Method (Sig ''ToString'' [] (Some (GoPtr GoString))) (Plain ''toString'')]"

definition KubeEventList :: binding where
  "KubeEventList = Binding ''KubeEventList'' [''internal.Type__cdk8sApiObject'']
     (KubeEventList_getters @ KubeEventList_functions @ KubeEventList_methods)"

definition KubeEventList_checks :: validators where
  "KubeEventList_checks =
   [(''validateKubeEventList_IsApiObjectParameters'', [NotNil ''o'']),
    (''validateKubeEventList_IsConstructParameters'', [NotNil ''x'']),
    (''validateKubeEventList_ManifestParameters'', [NotNil ''props'', ValidStruct ''props'']),
    (''validateKubeEventList_OfParameters'', [NotNil ''c'']),
    (''validateNewKubeEventListParameters'', [NotNil ''scope'', NotNil ''id'', NotNil ''props'', ValidStruct ''props''])]"

definition KubeEventList_no_checks :: validators where
  "KubeEventList_no_checks =
   [(''validateKubeEventList_IsApiObjectParameters'', []),
    (''validateKubeEventList_IsConstructParameters'', []),
    (''validateKubeEventList_ManifestParameters'', []),
    (''validateKubeEventList_OfParameters'', []), (''validateNewKubeEventListParameters'', [])]"

lemma KubeEventList_ok [class_checks]: "classOk (KubeEventList, KubeEventList_checks)"
  by (rule classRequired_I [where s = KubeEventListProps], simp only: table_members)
    (simp_all only: KubeEventList_def KubeEventList_getters_def KubeEventList_functions_def
      KubeEventList_methods_def KubeEventList_checks_def KubeEventListProps_def class_eval)

lemma KubeEventList_declared [class_interfaces]:
  "KubeEventList_interface = apiObjectInterface ''KubeEventList''"
  "KubeEventList_no_checks = apiObjectNoChecks ''KubeEventList''"
  by (simp_all only: KubeEventList_interface_def KubeEventList_no_checks_def declared_eval)

definition KubeEviction_interface :: interface where
  "KubeEviction_interface = Interface ''KubeEviction'' [''cdk8s.ApiObject'']
   [Sig ''ApiGroup'' [] (Some (GoPtr GoString)), Sig ''ApiVersion'' [] (Some (GoPtr GoString)),
    Sig ''Chart'' [] (Some (GoNamed ''cdk8s.Chart'')), Sig ''Kind'' [] (Some (GoPtr GoString)),
    Sig ''Metadata'' [] (Some (GoNamed ''cdk8s.ApiObjectMetadataDefinition'')),
    Sig ''Name'' [] (Some (GoPtr GoString)), Sig ''Node'' [] (Some (GoNamed ''constructs.Node'')),
    Sig ''AddDependency'' [Rest ''dependencies'' (GoNamed ''constructs.IConstruct'')] None,
    Sig ''AddJsonPatch'' [Rest ''ops'' (GoNamed ''cdk8s.JsonPatch'')] None,
    Sig ''ToJson'' [] (Some GoAny), Sig ''ToString'' [] (Some (GoPtr GoString))]"

definition KubeEviction_getters :: "gofun list" where
  "KubeEviction_getters =
   [Method (Sig ''ApiGroup'' [] (Some (GoPtr GoString))) (Getter ''apiGroup''),
    Method (Sig ''ApiVersion'' [] (Some (GoPtr GoString))) (Getter ''apiVersion''),
    Method (Sig ''Chart'' [] (Some (GoNamed ''cdk8s.Chart''))) (Getter ''chart''),
    Method (Sig ''Kind'' [] (Some (GoPtr GoString))) (Getter ''kind''),
    Method (Sig ''Metadata'' [] (Some (GoNamed ''cdk8s.ApiObjectMetadataDefinition'')))
      (Getter ''metadata''),
    Method (Sig ''Name'' [] (Some (GoPtr GoString))) (Getter ''name''),
    Method (Sig ''Node'' [] (Some (GoNamed ''constructs.Node''))) (Getter ''node'')]"

definition KubeEviction_functions :: "gofun list" where
  "KubeEviction_functions =
   [Func (Sig ''NewKubeEviction'' [
         Param ''scope'' (GoNamed ''constructs.Construct''), Param ''id'' (GoPtr GoString),
         Param ''props'' (GoPtr (GoNamed ''KubeEvictionProps''))] (Some (GoNamed ''KubeEviction'')))
      (Construct ''k8s.KubeEviction'' [''scope'', ''id'', ''props''] ''validateNewKubeEvictionParameters''),
    Func (Sig ''NewKubeEviction_Override'' [
         Param ''k'' (GoNamed ''KubeEviction''), Param ''scope'' (GoNamed ''constructs.Construct''),
         Param ''id'' (GoPtr GoString), Param ''props'' (GoPtr (GoNamed ''KubeEvictionProps''))] None)
      (ConstructOverride ''k8s.KubeEviction'' [''scope'', ''id'', ''props'']),
    Func (Sig ''KubeEviction_IsApiObject'' [Param ''o'' GoAny] (Some (GoPtr GoBool)))
      (StaticCall ''k8s.KubeEviction'' ''isApiObject'' [''o''] ''validateKubeEviction_IsApiObjectParameters''),
    Func (Sig ''KubeEviction_IsConstruct'' [Param ''x'' GoAny] (Some (GoPtr GoBool)))
      (StaticCall ''k8s.KubeEviction'' ''isConstruct'' [''x''] ''validateKubeEviction_IsConstructParameters''),
    Func (Sig ''KubeEviction_Manifest'' [Param ''props'' (GoPtr (GoNamed ''KubeEvictionProps''))] (Some GoAny))
      (StaticCall ''k8s.KubeEviction'' ''manifest'' [''props''] ''validateKubeEviction_ManifestParameters''),
    Func (Sig ''KubeEviction_Of'' [Param ''c'' (GoNamed ''constructs.IConstruct'')] (Some (GoNamed ''cdk8s.ApiObject'')))
      (StaticCall ''k8s.KubeEviction'' ''of'' [''c''] ''validateKubeEviction_OfParameters''),
    Func (Sig ''KubeEviction_GVK'' [] (Some (GoPtr (GoNamed ''cdk8s.GroupVersionKind''))))
      (StaticProp ''k8s.KubeEviction'' ''GVK'')]"

definition KubeEviction_methods :: "gofun list" where
  "KubeEviction_methods =
   [Method (Sig ''AddDependency'' [Rest ''dependencies'' (GoNamed ''constructs.IConstruct'')] None)
      (Variadic ''addDependency''),
    Method (Sig ''AddJsonPatch'' [Rest ''ops'' (GoNamed ''cdk8s.JsonPatch'')] None)
      (Variadic ''addJsonPatch''),
    Method (Sig ''ToJson'' [] (Some GoAny)) (Plain ''toJson''),
    Method (Sig ''ToString'' [] (Some (GoPtr GoString))) (Plain ''toString'')]"

definition KubeEviction :: binding where
  "KubeEviction = Binding ''KubeEviction'' [''internal.Type__cdk8sApiObject'']
     (KubeEviction_getters @ KubeEviction_functions @ KubeEviction_methods)"

definition KubeEviction_checks :: validators where
  "KubeEviction_checks =
   [(''validateKubeEviction_IsApiObjectParameters'', [NotNil ''o'']),
    (''validateKubeEviction_IsConstructParameters'', [NotNil ''x'']),
    (''validateKubeEviction_ManifestParameters'', [ValidStruct ''props'']),
    (''validateKubeEviction_OfParameters'', [NotNil ''c'']),
    (''validateNewKubeEvictionParameters'', [NotNil ''scope'', NotNil ''id'', ValidStruct ''props''])]"

definition KubeEviction_no_checks :: validators where
  "KubeEviction_no_checks =
   [(''validateKubeEviction_IsApiObjectParameters'', []),
    (''validateKubeEviction_IsConstructParameters'', []),
    (''validateKubeEviction_ManifestParameters'', []), (''validateKubeEviction_OfParameters'', []),
    (''validateNewKubeEvictionParameters'', [])]"

lemma KubeEviction_ok [class_checks]: "classOk (KubeEviction, KubeEviction_checks)"
  by (rule classOptional_I [where s = KubeEvictionProps], simp only: table_members)
    (simp_all only: KubeEviction_def KubeEviction_getters_def KubeEviction_functions_def
      KubeEviction_methods_def KubeEviction_checks_def KubeEvictionProps_def class_eval)

lemma KubeEviction_declared [class_interfaces]:
  "KubeEviction_interface = apiObjectInterface ''KubeEviction''"
  "KubeEviction_no_checks = apiObjectNoChecks ''KubeEviction''"
  by (simp_all only: KubeEviction_interface_def KubeEviction_no_checks_def declared_eval)

definition classes_B :: "(binding \<times> validators) list" where
  "classes_B =
   [(KubeCsiDriverList, KubeCsiDriverList_checks), (KubeCsiNode, KubeCsiNode_checks),
    (KubeCsiNodeList, KubeCsiNodeList_checks),
    (KubeCsiStorageCapacity, KubeCsiStorageCapacity_checks),
    (KubeCsiStorageCapacityList, KubeCsiStorageCapacityList_checks),
    (KubeCsiStorageCapacityListV1Beta1, KubeCsiStorageCapacityListV1Beta1_checks),
    (KubeCsiStorageCapacityV1Beta1, KubeCsiStorageCapacityV1Beta1_checks),
    (KubeCustomResourceDefinition, KubeCustomResourceDefinition_checks),
    (KubeCustomResourceDefinitionList, KubeCustomResourceDefinitionList_checks),
    (KubeDaemonSet, KubeDaemonSet_checks), (KubeDaemonSetList, KubeDaemonSetList_checks),
    (KubeDeployment, KubeDeployment_checks), (KubeDeploymentList, KubeDeploymentList_checks),
    (KubeEndpointSlice, KubeEndpointSlice_checks),
    (KubeEndpointSliceList, KubeEndpointSliceList_checks), (KubeEndpoints, KubeEndpoints_checks),
    (KubeEndpointsList, KubeEndpointsList_checks), (KubeEvent, KubeEvent_checks),
    (KubeEventList, KubeEventList_checks), (KubeEviction, KubeEviction_checks)]"

lemma classes_B_ok [class_tables]: "list_all classOk classes_B"
  by (simp only: classes_B_def list.pred_inject class_checks HOL.simp_thms)

lemma classes_B_names [class_names]: "map (\<lambda>c. bindingName (fst c)) classes_B =
    [''KubeCsiDriverList'', ''KubeCsiNode'', ''KubeCsiNodeList'', ''KubeCsiStorageCapacity'',
     ''KubeCsiStorageCapacityList'', ''KubeCsiStorageCapacityListV1Beta1'',
     ''KubeCsiStorageCapacityV1Beta1'', ''KubeCustomResourceDefinition'',
     ''KubeCustomResourceDefinitionList'', ''KubeDaemonSet'', ''KubeDaemonSetList'',
     ''KubeDeployment'', ''KubeDeploymentList'', ''KubeEndpointSlice'', ''KubeEndpointSliceList'',
     ''KubeEndpoints'', ''KubeEndpointsList'', ''KubeEvent'', ''KubeEventList'', ''KubeEviction'']"
  by (simp only: classes_B_def list.map fst_conv bindingName.simps
    KubeCsiDriverList_def KubeCsiNode_def KubeCsiNodeList_def KubeCsiStorageCapacity_def
      KubeCsiStorageCapacityList_def KubeCsiStorageCapacityListV1Beta1_def
      KubeCsiStorageCapacityV1Beta1_def KubeCustomResourceDefinition_def
      KubeCustomResourceDefinitionList_def KubeDaemonSet_def KubeDaemonSetList_def KubeDeployment_def
      KubeDeploymentList_def KubeEndpointSlice_def KubeEndpointSliceList_def KubeEndpoints_def
      KubeEndpointsList_def KubeEvent_def KubeEventList_def KubeEviction_def)

definition interfaces_B :: "interface list" where
  "interfaces_B =
   [KubeCsiDriverList_interface, KubeCsiNode_interface, KubeCsiNodeList_interface,
    KubeCsiStorageCapacity_interface, KubeCsiStorageCapacityList_interface,
    KubeCsiStorageCapacityListV1Beta1_interface, KubeCsiStorageCapacityV1Beta1_interface,
    KubeCustomResourceDefinition_interface, KubeCustomResourceDefinitionList_interface,
    KubeDaemonSet_interface, KubeDaemonSetList_interface, KubeDeployment_interface,
    KubeDeploymentList_interface, KubeEndpointSlice_interface, KubeEndpointSliceList_interface,
    KubeEndpoints_interface, KubeEndpointsList_interface, KubeEvent_interface,
    KubeEventList_interface, KubeEviction_interface]"

definition unchecked_B :: "(string \<times> validators) list" where
  "unchecked_B =
   [(''KubeCsiDriverList'', KubeCsiDriverList_no_checks), (''KubeCsiNode'', KubeCsiNode_no_checks),
    (''KubeCsiNodeList'', KubeCsiNodeList_no_checks),
    (''KubeCsiStorageCapacity'', KubeCsiStorageCapacity_no_checks),
    (''KubeCsiStorageCapacityList'', KubeCsiStorageCapacityList_no_checks),
    (''KubeCsiStorageCapacityListV1Beta1'', KubeCsiStorageCapacityListV1Beta1_no_checks),
    (''KubeCsiStorageCapacityV1Beta1'', KubeCsiStorageCapacityV1Beta1_no_checks),
    (''KubeCustomResourceDefinition'', KubeCustomResourceDefinition_no_checks),
    (''KubeCustomResourceDefinitionList'', KubeCustomResourceDefinitionList_no_checks),
    (''KubeDaemonSet'', KubeDaemonSet_no_checks),
    (''KubeDaemonSetList'', KubeDaemonSetList_no_checks),
    (''KubeDeployment'', KubeDeployment_no_checks),
    (''KubeDeploymentList'', KubeDeploymentList_no_checks),
    (''KubeEndpointSlice'', KubeEndpointSlice_no_checks),
    (''KubeEndpointSliceList'', KubeEndpointSliceList_no_checks),
    (''KubeEndpoints'', KubeEndpoints_no_checks),
    (''KubeEndpointsList'', KubeEndpointsList_no_checks), (''KubeEvent'', KubeEvent_no_checks),
    (''KubeEventList'', KubeEventList_no_checks), (''KubeEviction'', KubeEviction_no_checks)]"

lemma interfaces_B [class_tables]:
  "interfaces_B = map (\<lambda>c. apiObjectInterface (bindingName (fst c))) classes_B"
  "unchecked_B = map (\<lambda>c. (bindingName (fst c), apiObjectNoChecks (bindingName (fst c)))) classes_B"
  by (simp_all only: interfaces_B_def unchecked_B_def classes_B_def list.map fst_conv bindingName.simps class_interfaces
    KubeCsiDriverList_def KubeCsiNode_def KubeCsiNodeList_def KubeCsiStorageCapacity_def
      KubeCsiStorageCapacityList_def KubeCsiStorageCapacityListV1Beta1_def
      KubeCsiStorageCapacityV1Beta1_def KubeCustomResourceDefinition_def
      KubeCustomResourceDefinitionList_def KubeDaemonSet_def KubeDaemonSetList_def KubeDeployment_def
      KubeDeploymentList_def KubeEndpointSlice_def KubeEndpointSliceList_def KubeEndpoints_def
      KubeEndpointsList_def KubeEvent_def KubeEventList_def KubeEviction_def)

end
