(* ===== verification/KubeClassesC.thy ===== *)
theory KubeClassesC
  imports Bindings K8sTypes
begin

text \<open>
  The classes \<open>KubeFlowSchemaListV1Beta1\<close> to \<open>KubeLimitRangeList\<close> of the Kubernetes bindings: from each file \<open>Kube*.go\<close> the
  interface, the getters of the proxy, the package functions and the methods, then the validators of
  \<open>Kube*__checks.go\<close> and \<open>Kube*__no_checks.go\<close>, and the evaluation of the checks of \<open>Bindings\<close> on each.
\<close>

definition KubeFlowSchemaListV1Beta1_interface :: interface where
  "KubeFlowSchemaListV1Beta1_interface = Interface ''KubeFlowSchemaListV1Beta1'' [''cdk8s.ApiObject'']
   [Sig ''ApiGroup'' [] (Some (GoPtr GoString)), Sig ''ApiVersion'' [] (Some (GoPtr GoString)),
    Sig ''Chart'' [] (Some (GoNamed ''cdk8s.Chart'')), Sig ''Kind'' [] (Some (GoPtr GoString)),
    Sig ''Metadata'' [] (Some (GoNamed ''cdk8s.ApiObjectMetadataDefinition'')),
    Sig ''Name'' [] (Some (GoPtr GoString)), Sig ''Node'' [] (Some (GoNamed ''constructs.Node'')),
    Sig ''AddDependency'' [Rest ''dependencies'' (GoNamed ''constructs.IConstruct'')] None,
    Sig ''AddJsonPatch'' [Rest ''ops'' (GoNamed ''cdk8s.JsonPatch'')] None,
    Sig ''ToJson'' [] (Some GoAny), Sig ''ToString'' [] (Some (GoPtr GoString))]"

definition KubeFlowSchemaListV1Beta1_getters :: "gofun list" where
  "KubeFlowSchemaListV1Beta1_getters =
   [Method (Sig ''ApiGroup'' [] (Some (GoPtr GoString))) (Getter ''apiGroup''),
    Method (Sig ''ApiVersion'' [] (Some (GoPtr GoString))) (Getter ''apiVersion''),
    Method (Sig ''Chart'' [] (Some (GoNamed ''cdk8s.Chart''))) (Getter ''chart''),
    Method (Sig ''Kind'' [] (Some (GoPtr GoString))) (Getter ''kind''),
    Method (Sig ''Metadata'' [] (Some (GoNamed ''cdk8s.ApiObjectMetadataDefinition'')))
      (Getter ''metadata''),
    Method (Sig ''Name'' [] (Some (GoPtr GoString))) (Getter ''name''),
    Method (Sig ''Node'' [] (Some (GoNamed ''constructs.Node''))) (Getter ''node'')]"

definition KubeFlowSchemaListV1Beta1_functions :: "gofun list" where
  "KubeFlowSchemaListV1Beta1_functions =
   [Func (Sig ''NewKubeFlowSchemaListV1Beta1'' [
         Param ''scope'' (GoNamed ''constructs.Construct''), Param ''id'' (GoPtr GoString),
         Param ''props'' (GoPtr (GoNamed ''KubeFlowSchemaListV1Beta1Props''))] (Some (GoNamed ''KubeFlowSchemaListV1Beta1'')))
      (Construct ''k8s.KubeFlowSchemaListV1Beta1'' [''scope'', ''id'', ''props''] ''validateNewKubeFlowSchemaListV1Beta1Parameters''),
    Func (Sig ''NewKubeFlowSchemaListV1Beta1_Override'' [
         Param ''k'' (GoNamed ''KubeFlowSchemaListV1Beta1''),
         Param ''scope'' (GoNamed ''constructs.Construct''), Param ''id'' (GoPtr GoString),
         Param ''props'' (GoPtr (GoNamed ''KubeFlowSchemaListV1Beta1Props''))] None)
      (ConstructOverride ''k8s.KubeFlowSchemaListV1Beta1'' [''scope'', ''id'', ''props'']),
    Func (Sig ''KubeFlowSchemaListV1Beta1_IsApiObject'' [Param ''o'' GoAny] (Some (GoPtr GoBool)))
      (StaticCall ''k8s.KubeFlowSchemaListV1Beta1'' ''isApiObject'' [''o''] ''validateKubeFlowSchemaListV1Beta1_IsApiObjectParameters''),
    Func (Sig ''KubeFlowSchemaListV1Beta1_IsConstruct'' [Param ''x'' GoAny] (Some (GoPtr GoBool)))
      (StaticCall ''k8s.KubeFlowSchemaListV1Beta1'' ''isConstruct'' [''x''] ''validateKubeFlowSchemaListV1Beta1_IsConstructParameters''),
    Func (Sig ''KubeFlowSchemaListV1Beta1_Manifest'' [Param ''props'' (GoPtr (GoNamed ''KubeFlowSchemaListV1Beta1Props''))] (Some GoAny))
      (StaticCall ''k8s.KubeFlowSchemaListV1Beta1'' ''manifest'' [''props''] ''validateKubeFlowSchemaListV1Beta1_ManifestParameters''),
    Func (Sig ''KubeFlowSchemaListV1Beta1_Of'' [Param ''c'' (GoNamed ''constructs.IConstruct'')] (Some (GoNamed ''cdk8s.ApiObject'')))
      (StaticCall ''k8s.KubeFlowSchemaListV1Beta1'' ''of'' [''c''] ''validateKubeFlowSchemaListV1Beta1_OfParameters''),
    Func (Sig ''KubeFlowSchemaListV1Beta1_GVK'' [] (Some (GoPtr (GoNamed ''cdk8s.GroupVersionKind''))))
      (StaticProp ''k8s.KubeFlowSchemaListV1Beta1'' ''GVK'')]"

definition KubeFlowSchemaListV1Beta1_methods :: "gofun list" where
  "KubeFlowSchemaListV1Beta1_methods =
   [Method (Sig ''AddDependency'' [Rest ''dependencies'' (GoNamed ''constructs.IConstruct'')] None)
      (Variadic ''addDependency''),
    Method (Sig ''AddJsonPatch'' [Rest ''ops'' (GoNamed ''cdk8s.JsonPatch'')] None)
      (Variadic ''addJsonPatch''),
    Method (Sig ''ToJson'' [] (Some GoAny)) (Plain ''toJson''),
    Method (Sig ''ToString'' [] (Some (GoPtr GoString))) (Plain ''toString'')]"

definition KubeFlowSchemaListV1Beta1 :: binding where
  "KubeFlowSchemaListV1Beta1 = Binding ''KubeFlowSchemaListV1Beta1'' [''internal.Type__cdk8sApiObject'']
     (KubeFlowSchemaListV1Beta1_getters @ KubeFlowSchemaListV1Beta1_functions @ KubeFlowSchemaListV1Beta1_methods)"

definition KubeFlowSchemaListV1Beta1_checks :: validators where
  "KubeFlowSchemaListV1Beta1_checks =
   [(''validateKubeFlowSchemaListV1Beta1_IsApiObjectParameters'', [NotNil ''o'']),
    (''validateKubeFlowSchemaListV1Beta1_IsConstructParameters'', [NotNil ''x'']),
    (''validateKubeFlowSchemaListV1Beta1_ManifestParameters'', [NotNil ''props'', ValidStruct ''props'']),
    (''validateKubeFlowSchemaListV1Beta1_OfParameters'', [NotNil ''c'']),
    (''validateNewKubeFlowSchemaListV1Beta1Parameters'', [NotNil ''scope'', NotNil ''id'', NotNil ''props'', ValidStruct ''props''])]"

definition KubeFlowSchemaListV1Beta1_no_checks :: validators where
  "KubeFlowSchemaListV1Beta1_no_checks =
   [(''validateKubeFlowSchemaListV1Beta1_IsApiObjectParameters'', []),
    (''validateKubeFlowSchemaListV1Beta1_IsConstructParameters'', []),
    (''validateKubeFlowSchemaListV1Beta1_ManifestParameters'', []),
    (''validateKubeFlowSchemaListV1Beta1_OfParameters'', []),
    (''validateNewKubeFlowSchemaListV1Beta1Parameters'', [])]"

lemma KubeFlowSchemaListV1Beta1_ok [class_checks]: "classOk (KubeFlowSchemaListV1Beta1, KubeFlowSchemaListV1Beta1_checks)"
  by (rule classRequired_I [where s = KubeFlowSchemaListV1Beta1Props], simp only: table_members)
    (simp_all only: KubeFlowSchemaListV1Beta1_def KubeFlowSchemaListV1Beta1_getters_def KubeFlowSchemaListV1Beta1_functions_def
      KubeFlowSchemaListV1Beta1_methods_def KubeFlowSchemaListV1Beta1_checks_def KubeFlowSchemaListV1Beta1Props_def class_eval)

lemma KubeFlowSchemaListV1Beta1_declared [class_interfaces]:
  "KubeFlowSchemaListV1Beta1_interface = apiObjectInterface ''KubeFlowSchemaListV1Beta1''"
  "KubeFlowSchemaListV1Beta1_no_checks = apiObjectNoChecks ''KubeFlowSchemaListV1Beta1''"
  by (simp_all only: KubeFlowSchemaListV1Beta1_interface_def KubeFlowSchemaListV1Beta1_no_checks_def declared_eval)

definition KubeFlowSchemaListV1Beta2_interface :: interface where
  "KubeFlowSchemaListV1Beta2_interface = Interface ''KubeFlowSchemaListV1Beta2'' [''cdk8s.ApiObject'']
   [Sig ''ApiGroup'' [] (Some (GoPtr GoString)), Sig ''ApiVersion'' [] (Some (GoPtr GoString)),
    Sig ''Chart'' [] (Some (GoNamed ''cdk8s.Chart'')), Sig ''Kind'' [] (Some (GoPtr GoString)),
    Sig ''Metadata'' [] (Some (GoNamed ''cdk8s.ApiObjectMetadataDefinition'')),
    Sig ''Name'' [] (Some (GoPtr GoString)), Sig ''Node'' [] (Some (GoNamed ''constructs.Node'')),
    Sig ''AddDependency'' [Rest ''dependencies'' (GoNamed ''constructs.IConstruct'')] None,
    Sig ''AddJsonPatch'' [Rest ''ops'' (GoNamed ''cdk8s.JsonPatch'')] None,
    Sig ''ToJson'' [] (Some GoAny), Sig ''ToString'' [] (Some (GoPtr GoString))]"

definition KubeFlowSchemaListV1Beta2_getters :: "gofun list" where
  "KubeFlowSchemaListV1Beta2_getters =
   [Method (Sig ''ApiGroup'' [] (Some (GoPtr GoString))) (Getter ''apiGroup''),
    Method (Sig ''ApiVersion'' [] (Some (GoPtr GoString))) (Getter ''apiVersion''),
    Method (Sig ''Chart'' [] (Some (GoNamed ''cdk8s.Chart''))) (Getter ''chart''),
    Method (Sig ''Kind'' [] (Some (GoPtr GoString))) (Getter ''kind''),
    Method (Sig ''Metadata'' [] (Some (GoNamed ''cdk8s.ApiObjectMetadataDefinition'')))
      (Getter ''metadata''),
    Method (Sig ''Name'' [] (Some (GoPtr GoString))) (Getter ''name''),
    Method (Sig ''Node'' [] (Some (GoNamed ''constructs.Node''))) (Getter ''node'')]"

definition KubeFlowSchemaListV1Beta2_functions :: "gofun list" where
  "KubeFlowSchemaListV1Beta2_functions =
   [Func (Sig ''NewKubeFlowSchemaListV1Beta2'' [
         Param ''scope'' (GoNamed ''constructs.Construct''), Param ''id'' (GoPtr GoString),
         Param ''props'' (GoPtr (GoNamed ''KubeFlowSchemaListV1Beta2Props''))] (Some (GoNamed ''KubeFlowSchemaListV1Beta2'')))
      (Construct ''k8s.KubeFlowSchemaListV1Beta2'' [''scope'', ''id'', ''props''] ''validateNewKubeFlowSchemaListV1Beta2Parameters''),
    Func (Sig ''NewKubeFlowSchemaListV1Beta2_Override'' [
         Param ''k'' (GoNamed ''KubeFlowSchemaListV1Beta2''),
         Param ''scope'' (GoNamed ''constructs.Construct''), Param ''id'' (GoPtr GoString),
         Param ''props'' (GoPtr (GoNamed ''KubeFlowSchemaListV1Beta2Props''))] None)
      (ConstructOverride ''k8s.KubeFlowSchemaListV1Beta2'' [''scope'', ''id'', ''props'']),
    Func (Sig ''KubeFlowSchemaListV1Beta2_IsApiObject'' [Param ''o'' GoAny] (Some (GoPtr GoBool)))
      (StaticCall ''k8s.KubeFlowSchemaListV1Beta2'' ''isApiObject'' [''o''] ''validateKubeFlowSchemaListV1Beta2_IsApiObjectParameters''),
    Func (Sig ''KubeFlowSchemaListV1Beta2_IsConstruct'' [Param ''x'' GoAny] (Some (GoPtr GoBool)))
      (StaticCall ''k8s.KubeFlowSchemaListV1Beta2'' ''isConstruct'' [''x''] ''validateKubeFlowSchemaListV1Beta2_IsConstructParameters''),
    Func (Sig ''KubeFlowSchemaListV1Beta2_Manifest'' [Param ''props'' (GoPtr (GoNamed ''KubeFlowSchemaListV1Beta2Props''))] (Some GoAny))
      (StaticCall ''k8s.KubeFlowSchemaListV1Beta2'' ''manifest'' [''props''] ''validateKubeFlowSchemaListV1Beta2_ManifestParameters''),
    Func (Sig ''KubeFlowSchemaListV1Beta2_Of'' [Param ''c'' (GoNamed ''constructs.IConstruct'')] (Some (GoNamed ''cdk8s.ApiObject'')))
      (StaticCall ''k8s.KubeFlowSchemaListV1Beta2'' ''of'' [''c''] ''validateKubeFlowSchemaListV1Beta2_OfParameters''),
    Func (Sig ''KubeFlowSchemaListV1Beta2_GVK'' [] (Some (GoPtr (GoNamed ''cdk8s.GroupVersionKind''))))
      (StaticProp ''k8s.KubeFlowSchemaListV1Beta2'' ''GVK'')]"

definition KubeFlowSchemaListV1Beta2_methods :: "gofun list" where
  "KubeFlowSchemaListV1Beta2_methods =
   [Method (Sig ''AddDependency'' [Rest ''dependencies'' (GoNamed ''constructs.IConstruct'')] None)
      (Variadic ''addDependency''),
    Method (Sig ''AddJsonPatch'' [Rest ''ops'' (GoNamed ''cdk8s.JsonPatch'')] None)
      (Variadic ''addJsonPatch''),
    Method (Sig ''ToJson'' [] (Some GoAny)) (Plain ''toJson''),
    Method (Sig ''ToString'' [] (Some (GoPtr GoString))) (Plain ''toString'')]"

definition KubeFlowSchemaListV1Beta2 :: binding where
  "KubeFlowSchemaListV1Beta2 = Binding ''KubeFlowSchemaListV1Beta2'' [''internal.Type__cdk8sApiObject'']
     (KubeFlowSchemaListV1Beta2_getters @ KubeFlowSchemaListV1Beta2_functions @ KubeFlowSchemaListV1Beta2_methods)"

definition KubeFlowSchemaListV1Beta2_checks :: validators where
  "KubeFlowSchemaListV1Beta2_checks =
   [(''validateKubeFlowSchemaListV1Beta2_IsApiObjectParameters'', [NotNil ''o'']),
    (''validateKubeFlowSchemaListV1Beta2_IsConstructParameters'', [NotNil ''x'']),
    (''validateKubeFlowSchemaListV1Beta2_ManifestParameters'', [NotNil ''props'', ValidStruct ''props'']),
    (''validateKubeFlowSchemaListV1Beta2_OfParameters'', [NotNil ''c'']),
    (''validateNewKubeFlowSchemaListV1Beta2Parameters'', [NotNil ''scope'', NotNil ''id'', NotNil ''props'', ValidStruct ''props''])]"

definition KubeFlowSchemaListV1Beta2_no_checks :: validators where
  "KubeFlowSchemaListV1Beta2_no_checks =
   [(''validateKubeFlowSchemaListV1Beta2_IsApiObjectParameters'', []),
    (''validateKubeFlowSchemaListV1Beta2_IsConstructParameters'', []),
    (''validateKubeFlowSchemaListV1Beta2_ManifestParameters'', []),
    (''validateKubeFlowSchemaListV1Beta2_OfParameters'', []),
    (''validateNewKubeFlowSchemaListV1Beta2Parameters'', [])]"

lemma KubeFlowSchemaListV1Beta2_ok [class_checks]: "classOk (KubeFlowSchemaListV1Beta2, KubeFlowSchemaListV1Beta2_checks)"
  by (rule classRequired_I [where s = KubeFlowSchemaListV1Beta2Props], simp only: table_members)
    (simp_all only: KubeFlowSchemaListV1Beta2_def KubeFlowSchemaListV1Beta2_getters_def KubeFlowSchemaListV1Beta2_functions_def
      KubeFlowSchemaListV1Beta2_methods_def KubeFlowSchemaListV1Beta2_checks_def KubeFlowSchemaListV1Beta2Props_def class_eval)

lemma KubeFlowSchemaListV1Beta2_declared [class_interfaces]:
  "KubeFlowSchemaListV1Beta2_interface = apiObjectInterface ''KubeFlowSchemaListV1Beta2''"
  "KubeFlowSchemaListV1Beta2_no_checks = apiObjectNoChecks ''KubeFlowSchemaListV1Beta2''"
  by (simp_all only: KubeFlowSchemaListV1Beta2_interface_def KubeFlowSchemaListV1Beta2_no_checks_def declared_eval)

definition KubeFlowSchemaV1Beta1_interface :: interface where
  "KubeFlowSchemaV1Beta1_interface = Interface ''KubeFlowSchemaV1Beta1'' [''cdk8s.ApiObject'']
   [Sig ''ApiGroup'' [] (Some (GoPtr GoString)), Sig ''ApiVersion'' [] (Some (GoPtr GoString)),
    Sig ''Chart'' [] (Some (GoNamed ''cdk8s.Chart'')), Sig ''Kind'' [] (Some (GoPtr GoString)),
    Sig ''Metadata'' [] (Some (GoNamed ''cdk8s.ApiObjectMetadataDefinition'')),
    Sig ''Name'' [] (Some (GoPtr GoString)), Sig ''Node'' [] (Some (GoNamed ''constructs.Node'')),
    Sig ''AddDependency'' [Rest ''dependencies'' (GoNamed ''constructs.IConstruct'')] None,
    Sig ''AddJsonPatch'' [Rest ''ops'' (GoNamed ''cdk8s.JsonPatch'')] None,
    Sig ''ToJson'' [] (Some GoAny), Sig ''ToString'' [] (Some (GoPtr GoString))]"

definition KubeFlowSchemaV1Beta1_getters :: "gofun list" where
  "KubeFlowSchemaV1Beta1_getters =
   [Method (Sig ''ApiGroup'' [] (Some (GoPtr GoString))) (Getter ''apiGroup''),
    Method (Sig ''ApiVersion'' [] (Some (GoPtr GoString))) (Getter ''apiVersion''),
    Method (Sig ''Chart'' [] (Some (GoNamed ''cdk8s.Chart''))) (Getter ''chart''),
    Method (Sig ''Kind'' [] (Some (GoPtr GoString))) (Getter ''kind''),
    Method (Sig ''Metadata'' [] (Some (GoNamed ''cdk8s.ApiObjectMetadataDefinition'')))
      (Getter ''metadata''),
    Method (Sig ''Name'' [] (Some (GoPtr GoString))) (Getter ''name''),
    Method (Sig ''Node'' [] (Some (GoNamed ''constructs.Node''))) (Getter ''node'')]"

definition KubeFlowSchemaV1Beta1_functions :: "gofun list" where
  "KubeFlowSchemaV1Beta1_functions =
   [Func (Sig ''NewKubeFlowSchemaV1Beta1'' [
         Param ''scope'' (GoNamed ''constructs.Construct''), Param ''id'' (GoPtr GoString),
         Param ''props'' (GoPtr (GoNamed ''KubeFlowSchemaV1Beta1Props''))] (Some (GoNamed ''KubeFlowSchemaV1Beta1'')))
      (Construct ''k8s.KubeFlowSchemaV1Beta1'' [''scope'', ''id'', ''props''] ''validateNewKubeFlowSchemaV1Beta1Parameters''),
    Func (Sig ''NewKubeFlowSchemaV1Beta1_Override'' [
         Param ''k'' (GoNamed ''KubeFlowSchemaV1Beta1''),
         Param ''scope'' (GoNamed ''constructs.Construct''), Param ''id'' (GoPtr GoString),
         Param ''props'' (GoPtr (GoNamed ''KubeFlowSchemaV1Beta1Props''))] None)
      (ConstructOverride ''k8s.KubeFlowSchemaV1Beta1'' [''scope'', ''id'', ''props'']),
    Func (Sig ''KubeFlowSchemaV1Beta1_IsApiObject'' [Param ''o'' GoAny] (Some (GoPtr GoBool)))
      (StaticCall ''k8s.KubeFlowSchemaV1Beta1'' ''isApiObject'' [''o''] ''validateKubeFlowSchemaV1Beta1_IsApiObjectParameters''),
    Func (Sig ''KubeFlowSchemaV1Beta1_IsConstruct'' [Param ''x'' GoAny] (Some (GoPtr GoBool)))
      (StaticCall ''k8s.KubeFlowSchemaV1Beta1'' ''isConstruct'' [''x''] ''validateKubeFlowSchemaV1Beta1_IsConstructParameters''),
    Func (Sig ''KubeFlowSchemaV1Beta1_Manifest'' [Param ''props'' (GoPtr (GoNamed ''KubeFlowSchemaV1Beta1Props''))] (Some GoAny))
      (StaticCall ''k8s.KubeFlowSchemaV1Beta1'' ''manifest'' [''props''] ''validateKubeFlowSchemaV1Beta1_ManifestParameters''),
    Func (Sig ''KubeFlowSchemaV1Beta1_Of'' [Param ''c'' (GoNamed ''constructs.IConstruct'')] (Some (GoNamed ''cdk8s.ApiObject'')))
      (StaticCall ''k8s.KubeFlowSchemaV1Beta1'' ''of'' [''c''] ''validateKubeFlowSchemaV1Beta1_OfParameters''),
    Func (Sig ''KubeFlowSchemaV1Beta1_GVK'' [] (Some (GoPtr (GoNamed ''cdk8s.GroupVersionKind''))))
      (StaticProp ''k8s.KubeFlowSchemaV1Beta1'' ''GVK'')]"

definition KubeFlowSchemaV1Beta1_methods :: "gofun list" where
  "KubeFlowSchemaV1Beta1_methods =
   [Method (Sig ''AddDependency'' [Rest ''dependencies'' (GoNamed ''constructs.IConstruct'')] None)
      (Variadic ''addDependency''),
    Method (Sig ''AddJsonPatch'' [Rest ''ops'' (GoNamed ''cdk8s.JsonPatch'')] None)
      (Variadic ''addJsonPatch''),
    Method (Sig ''ToJson'' [] (Some GoAny)) (Plain ''toJson''),
    Method (Sig ''ToString'' [] (Some (GoPtr GoString))) (Plain ''toString'')]"

definition KubeFlowSchemaV1Beta1 :: binding where
  "KubeFlowSchemaV1Beta1 = Binding ''KubeFlowSchemaV1Beta1'' [''internal.Type__cdk8sApiObject'']
     (KubeFlowSchemaV1Beta1_getters @ KubeFlowSchemaV1Beta1_functions @ KubeFlowSchemaV1Beta1_methods)"

definition KubeFlowSchemaV1Beta1_checks :: validators where
  "KubeFlowSchemaV1Beta1_checks =
   [(''validateKubeFlowSchemaV1Beta1_IsApiObjectParameters'', [NotNil ''o'']),
    (''validateKubeFlowSchemaV1Beta1_IsConstructParameters'', [NotNil ''x'']),
    (''validateKubeFlowSchemaV1Beta1_ManifestParameters'', [ValidStruct ''props'']),
    (''validateKubeFlowSchemaV1Beta1_OfParameters'', [NotNil ''c'']),
    (''validateNewKubeFlowSchemaV1Beta1Parameters'', [NotNil ''scope'', NotNil ''id'', ValidStruct ''props''])]"

definition KubeFlowSchemaV1Beta1_no_checks :: validators where
  "KubeFlowSchemaV1Beta1_no_checks =
   [(''validateKubeFlowSchemaV1Beta1_IsApiObjectParameters'', []),
    (''validateKubeFlowSchemaV1Beta1_IsConstructParameters'', []),
    (''validateKubeFlowSchemaV1Beta1_ManifestParameters'', []),
    (''validateKubeFlowSchemaV1Beta1_OfParameters'', []),
    (''validateNewKubeFlowSchemaV1Beta1Parameters'', [])]"

lemma KubeFlowSchemaV1Beta1_ok [class_checks]: "classOk (KubeFlowSchemaV1Beta1, KubeFlowSchemaV1Beta1_checks)"
  by (rule classOptional_I [where s = KubeFlowSchemaV1Beta1Props], simp only: table_members)
    (simp_all only: KubeFlowSchemaV1Beta1_def KubeFlowSchemaV1Beta1_getters_def KubeFlowSchemaV1Beta1_functions_def
      KubeFlowSchemaV1Beta1_methods_def KubeFlowSchemaV1Beta1_checks_def KubeFlowSchemaV1Beta1Props_def class_eval)

lemma KubeFlowSchemaV1Beta1_declared [class_interfaces]:
  "KubeFlowSchemaV1Beta1_interface = apiObjectInterface ''KubeFlowSchemaV1Beta1''"
  "KubeFlowSchemaV1Beta1_no_checks = apiObjectNoChecks ''KubeFlowSchemaV1Beta1''"
  by (simp_all only: KubeFlowSchemaV1Beta1_interface_def KubeFlowSchemaV1Beta1_no_checks_def declared_eval)

definition KubeFlowSchemaV1Beta2_interface :: interface where
  "KubeFlowSchemaV1Beta2_interface = Interface ''KubeFlowSchemaV1Beta2'' [''cdk8s.ApiObject'']
   [Sig ''ApiGroup'' [] (Some (GoPtr GoString)), Sig ''ApiVersion'' [] (Some (GoPtr GoString)),
    Sig ''Chart'' [] (Some (GoNamed ''cdk8s.Chart'')), Sig ''Kind'' [] (Some (GoPtr GoString)),
    Sig ''Metadata'' [] (Some (GoNamed ''cdk8s.ApiObjectMetadataDefinition'')),
    Sig ''Name'' [] (Some (GoPtr GoString)), Sig ''Node'' [] (Some (GoNamed ''constructs.Node'')),
    Sig ''AddDependency'' [Rest ''dependencies'' (GoNamed ''constructs.IConstruct'')] None,
    Sig ''AddJsonPatch'' [Rest ''ops'' (GoNamed ''cdk8s.JsonPatch'')] None,
    Sig ''ToJson'' [] (Some GoAny), Sig ''ToString'' [] (Some (GoPtr GoString))]"

definition KubeFlowSchemaV1Beta2_getters :: "gofun list" where
  "KubeFlowSchemaV1Beta2_getters =
   [Method (Sig ''ApiGroup'' [] (Some (GoPtr GoString))) (Getter ''apiGroup''),
    Method (Sig ''ApiVersion'' [] (Some (GoPtr GoString))) (Getter ''apiVersion''),
    Method (Sig ''Chart'' [] (Some (GoNamed ''cdk8s.Chart''))) (Getter ''chart''),
    Method (Sig ''Kind'' [] (Some (GoPtr GoString))) (Getter ''kind''),
    Method (Sig ''Metadata'' [] (Some (GoNamed ''cdk8s.ApiObjectMetadataDefinition'')))
      (Getter ''metadata''),
    Method (Sig ''Name'' [] (Some (GoPtr GoString))) (Getter ''name''),
    Method (Sig ''Node'' [] (Some (GoNamed ''constructs.Node''))) (Getter ''node'')]"

definition KubeFlowSchemaV1Beta2_functions :: "gofun list" where
  "KubeFlowSchemaV1Beta2_functions =
   [Func (Sig ''NewKubeFlowSchemaV1Beta2'' [
         Param ''scope'' (GoNamed ''constructs.Construct''), Param ''id'' (GoPtr GoString),
         Param ''props'' (GoPtr (GoNamed ''KubeFlowSchemaV1Beta2Props''))] (Some (GoNamed ''KubeFlowSchemaV1Beta2'')))
      (Construct ''k8s.KubeFlowSchemaV1Beta2'' [''scope'', ''id'', ''props''] ''validateNewKubeFlowSchemaV1Beta2Parameters''),
    Func (Sig ''NewKubeFlowSchemaV1Beta2_Override'' [
         Param ''k'' (GoNamed ''KubeFlowSchemaV1Beta2''),
         Param ''scope'' (GoNamed ''constructs.Construct''), Param ''id'' (GoPtr GoString),
         Param ''props'' (GoPtr (GoNamed ''KubeFlowSchemaV1Beta2Props''))] None)
      (ConstructOverride ''k8s.KubeFlowSchemaV1Beta2'' [''scope'', ''id'', ''props'']),
    Func (Sig ''KubeFlowSchemaV1Beta2_IsApiObject'' [Param ''o'' GoAny] (Some (GoPtr GoBool)))
      (StaticCall ''k8s.KubeFlowSchemaV1Beta2'' ''isApiObject'' [''o''] ''validateKubeFlowSchemaV1Beta2_IsApiObjectParameters''),
    Func (Sig ''KubeFlowSchemaV1Beta2_IsConstruct'' [Param ''x'' GoAny] (Some (GoPtr GoBool)))
      (StaticCall ''k8s.KubeFlowSchemaV1Beta2'' ''isConstruct'' [''x''] ''validateKubeFlowSchemaV1Beta2_IsConstructParameters''),
    Func (Sig ''KubeFlowSchemaV1Beta2_Manifest'' [Param ''props'' (GoPtr (GoNamed ''KubeFlowSchemaV1Beta2Props''))] (Some GoAny))
      (StaticCall ''k8s.KubeFlowSchemaV1Beta2'' ''manifest'' [''props''] ''validateKubeFlowSchemaV1Beta2_ManifestParameters''),
    Func (Sig ''KubeFlowSchemaV1Beta2_Of'' [Param ''c'' (GoNamed ''constructs.IConstruct'')] (Some (GoNamed ''cdk8s.ApiObject'')))
      (StaticCall ''k8s.KubeFlowSchemaV1Beta2'' ''of'' [''c''] ''validateKubeFlowSchemaV1Beta2_OfParameters''),
    Func (Sig ''KubeFlowSchemaV1Beta2_GVK'' [] (Some (GoPtr (GoNamed ''cdk8s.GroupVersionKind''))))
      (StaticProp ''k8s.KubeFlowSchemaV1Beta2'' ''GVK'')]"

definition KubeFlowSchemaV1Beta2_methods :: "gofun list" where
  "KubeFlowSchemaV1Beta2_methods =
   [Method (Sig ''AddDependency'' [Rest ''dependencies'' (GoNamed ''constructs.IConstruct'')] None)
      (Variadic ''addDependency''),
    Method (Sig ''AddJsonPatch'' [Rest ''ops'' (GoNamed ''cdk8s.JsonPatch'')] None)
      (Variadic ''addJsonPatch''),
    Method (Sig ''ToJson'' [] (Some GoAny)) (Plain ''toJson''),
    Method (Sig ''ToString'' [] (Some (GoPtr GoString))) (Plain ''toString'')]"

definition KubeFlowSchemaV1Beta2 :: binding where
  "KubeFlowSchemaV1Beta2 = Binding ''KubeFlowSchemaV1Beta2'' [''internal.Type__cdk8sApiObject'']
     (KubeFlowSchemaV1Beta2_getters @ KubeFlowSchemaV1Beta2_functions @ KubeFlowSchemaV1Beta2_methods)"

definition KubeFlowSchemaV1Beta2_checks :: validators where
  "KubeFlowSchemaV1Beta2_checks =
   [(''validateKubeFlowSchemaV1Beta2_IsApiObjectParameters'', [NotNil ''o'']),
    (''validateKubeFlowSchemaV1Beta2_IsConstructParameters'', [NotNil ''x'']),
    (''validateKubeFlowSchemaV1Beta2_ManifestParameters'', [ValidStruct ''props'']),
    (''validateKubeFlowSchemaV1Beta2_OfParameters'', [NotNil ''c'']),
    (''validateNewKubeFlowSchemaV1Beta2Parameters'', [NotNil ''scope'', NotNil ''id'', ValidStruct ''props''])]"

definition KubeFlowSchemaV1Beta2_no_checks :: validators where
  "KubeFlowSchemaV1Beta2_no_checks =
   [(''validateKubeFlowSchemaV1Beta2_IsApiObjectParameters'', []),
    (''validateKubeFlowSchemaV1Beta2_IsConstructParameters'', []),
    (''validateKubeFlowSchemaV1Beta2_ManifestParameters'', []),
    (''validateKubeFlowSchemaV1Beta2_OfParameters'', []),
    (''validateNewKubeFlowSchemaV1Beta2Parameters'', [])]"

lemma KubeFlowSchemaV1Beta2_ok [class_checks]: "classOk (KubeFlowSchemaV1Beta2, KubeFlowSchemaV1Beta2_checks)"
  by (rule classOptional_I [where s = KubeFlowSchemaV1Beta2Props], simp only: table_members)
    (simp_all only: KubeFlowSchemaV1Beta2_def KubeFlowSchemaV1Beta2_getters_def KubeFlowSchemaV1Beta2_functions_def
      KubeFlowSchemaV1Beta2_methods_def KubeFlowSchemaV1Beta2_checks_def KubeFlowSchemaV1Beta2Props_def class_eval)

lemma KubeFlowSchemaV1Beta2_declared [class_interfaces]:
  "KubeFlowSchemaV1Beta2_interface = apiObjectInterface ''KubeFlowSchemaV1Beta2''"
  "KubeFlowSchemaV1Beta2_no_checks = apiObjectNoChecks ''KubeFlowSchemaV1Beta2''"
  by (simp_all only: KubeFlowSchemaV1Beta2_interface_def KubeFlowSchemaV1Beta2_no_checks_def declared_eval)

definition KubeHorizontalPodAutoscaler_interface :: interface where
  "KubeHorizontalPodAutoscaler_interface = Interface ''KubeHorizontalPodAutoscaler'' [''cdk8s.ApiObject'']
   [Sig ''ApiGroup'' [] (Some (GoPtr GoString)), Sig ''ApiVersion'' [] (Some (GoPtr GoString)),
    Sig ''Chart'' [] (Some (GoNamed ''cdk8s.Chart'')), Sig ''Kind'' [] (Some (GoPtr GoString)),
    Sig ''Metadata'' [] (Some (GoNamed ''cdk8s.ApiObjectMetadataDefinition'')),
    Sig ''Name'' [] (Some (GoPtr GoString)), Sig ''Node'' [] (Some (GoNamed ''constructs.Node'')),
    Sig ''AddDependency'' [Rest ''dependencies'' (GoNamed ''constructs.IConstruct'')] None,
    Sig ''AddJsonPatch'' [Rest ''ops'' (GoNamed ''cdk8s.JsonPatch'')] None,
    Sig ''ToJson'' [] (Some GoAny), Sig ''ToString'' [] (Some (GoPtr GoString))]"

definition KubeHorizontalPodAutoscaler_getters :: "gofun list" where
  "KubeHorizontalPodAutoscaler_getters =
   [Method (Sig ''ApiGroup'' [] (Some (GoPtr GoString))) (Getter ''apiGroup''),
    Method (Sig ''ApiVersion'' [] (Some (GoPtr GoString))) (Getter ''apiVersion''),
    Method (Sig ''Chart'' [] (Some (GoNamed ''cdk8s.Chart''))) (Getter ''chart''),
    Method (Sig ''Kind'' [] (Some (GoPtr GoString))) (Getter ''kind''),
    Method (Sig ''Metadata'' [] (Some (GoNamed ''cdk8s.ApiObjectMetadataDefinition'')))
      (Getter ''metadata''),
    Method (Sig ''Name'' [] (Some (GoPtr GoString))) (Getter ''name''),
    Method (Sig ''Node'' [] (Some (GoNamed ''constructs.Node''))) (Getter ''node'')]"

definition KubeHorizontalPodAutoscaler_functions :: "gofun list" where
  "KubeHorizontalPodAutoscaler_functions =
   [Func (Sig ''NewKubeHorizontalPodAutoscaler'' [
         Param ''scope'' (GoNamed ''constructs.Construct''), Param ''id'' (GoPtr GoString),
         Param ''props'' (GoPtr (GoNamed ''KubeHorizontalPodAutoscalerProps''))] (Some (GoNamed ''KubeHorizontalPodAutoscaler'')))
      (Construct ''k8s.KubeHorizontalPodAutoscaler'' [''scope'', ''id'', ''props''] ''validateNewKubeHorizontalPodAutoscalerParameters''),
    Func (Sig ''NewKubeHorizontalPodAutoscaler_Override'' [
         Param ''k'' (GoNamed ''KubeHorizontalPodAutoscaler''),
         Param ''scope'' (GoNamed ''constructs.Construct''), Param ''id'' (GoPtr GoString),
         Param ''props'' (GoPtr (GoNamed ''KubeHorizontalPodAutoscalerProps''))] None)
      (ConstructOverride ''k8s.KubeHorizontalPodAutoscaler'' [''scope'', ''id'', ''props'']),
    Func (Sig ''KubeHorizontalPodAutoscaler_IsApiObject'' [Param ''o'' GoAny] (Some (GoPtr GoBool)))
      (StaticCall ''k8s.KubeHorizontalPodAutoscaler'' ''isApiObject'' [''o''] ''validateKubeHorizontalPodAutoscaler_IsApiObjectParameters''),
    Func (Sig ''KubeHorizontalPodAutoscaler_IsConstruct'' [Param ''x'' GoAny] (Some (GoPtr GoBool)))
      (StaticCall ''k8s.KubeHorizontalPodAutoscaler'' ''isConstruct'' [''x''] ''validateKubeHorizontalPodAutoscaler_IsConstructParameters''),
    Func (Sig ''KubeHorizontalPodAutoscaler_Manifest'' [Param ''props'' (GoPtr (GoNamed ''KubeHorizontalPodAutoscalerProps''))] (Some GoAny))
      (StaticCall ''k8s.KubeHorizontalPodAutoscaler'' ''manifest'' [''props''] ''validateKubeHorizontalPodAutoscaler_ManifestParameters''),
    Func (Sig ''KubeHorizontalPodAutoscaler_Of'' [Param ''c'' (GoNamed ''constructs.IConstruct'')] (Some (GoNamed ''cdk8s.ApiObject'')))
      (StaticCall ''k8s.KubeHorizontalPodAutoscaler'' ''of'' [''c''] ''validateKubeHorizontalPodAutoscaler_OfParameters''),
    Func (Sig ''KubeHorizontalPodAutoscaler_GVK'' [] (Some (GoPtr (GoNamed ''cdk8s.GroupVersionKind''))))
      (StaticProp ''k8s.KubeHorizontalPodAutoscaler'' ''GVK'')]"

definition KubeHorizontalPodAutoscaler_methods :: "gofun list" where
  "KubeHorizontalPodAutoscaler_methods =
   [Method (Sig ''AddDependency'' [Rest ''dependencies'' (GoNamed ''constructs.IConstruct'')] None)
      (Variadic ''addDependency''),
    Method (Sig ''AddJsonPatch'' [Rest ''ops'' (GoNamed ''cdk8s.JsonPatch'')] None)
      (Variadic ''addJsonPatch''),
    Method (Sig ''ToJson'' [] (Some GoAny)) (Plain ''toJson''),
    Method (Sig ''ToString'' [] (Some (GoPtr GoString))) (Plain ''toString'')]"

definition KubeHorizontalPodAutoscaler :: binding where
  "KubeHorizontalPodAutoscaler = Binding ''KubeHorizontalPodAutoscaler'' [''internal.Type__cdk8sApiObject'']
     (KubeHorizontalPodAutoscaler_getters @ KubeHorizontalPodAutoscaler_functions @ KubeHorizontalPodAutoscaler_methods)"

definition KubeHorizontalPodAutoscaler_checks :: validators where
  "KubeHorizontalPodAutoscaler_checks =
   [(''validateKubeHorizontalPodAutoscaler_IsApiObjectParameters'', [NotNil ''o'']),
    (''validateKubeHorizontalPodAutoscaler_IsConstructParameters'', [NotNil ''x'']),
    (''validateKubeHorizontalPodAutoscaler_ManifestParameters'', [ValidStruct ''props'']),
    (''validateKubeHorizontalPodAutoscaler_OfParameters'', [NotNil ''c'']),
    (''validateNewKubeHorizontalPodAutoscalerParameters'', [NotNil ''scope'', NotNil ''id'', ValidStruct ''props''])]"

definition KubeHorizontalPodAutoscaler_no_checks :: validators where
  "KubeHorizontalPodAutoscaler_no_checks =
   [(''validateKubeHorizontalPodAutoscaler_IsApiObjectParameters'', []),
    (''validateKubeHorizontalPodAutoscaler_IsConstructParameters'', []),
    (''validateKubeHorizontalPodAutoscaler_ManifestParameters'', []),
    (''validateKubeHorizontalPodAutoscaler_OfParameters'', []),
    (''validateNewKubeHorizontalPodAutoscalerParameters'', [])]"

lemma KubeHorizontalPodAutoscaler_ok [class_checks]: "classOk (KubeHorizontalPodAutoscaler, KubeHorizontalPodAutoscaler_checks)"
  by (rule classOptional_I [where s = KubeHorizontalPodAutoscalerProps], simp only: table_members)
    (simp_all only: KubeHorizontalPodAutoscaler_def KubeHorizontalPodAutoscaler_getters_def KubeHorizontalPodAutoscaler_functions_def
      KubeHorizontalPodAutoscaler_methods_def KubeHorizontalPodAutoscaler_checks_def KubeHorizontalPodAutoscalerProps_def class_eval)

lemma KubeHorizontalPodAutoscaler_declared [class_interfaces]:
  "KubeHorizontalPodAutoscaler_interface = apiObjectInterface ''KubeHorizontalPodAutoscaler''"
  "KubeHorizontalPodAutoscaler_no_checks = apiObjectNoChecks ''KubeHorizontalPodAutoscaler''"
  by (simp_all only: KubeHorizontalPodAutoscaler_interface_def KubeHorizontalPodAutoscaler_no_checks_def declared_eval)

definition KubeHorizontalPodAutoscalerList_interface :: interface where
  "KubeHorizontalPodAutoscalerList_interface = Interface ''KubeHorizontalPodAutoscalerList'' [''cdk8s.ApiObject'']
   [Sig ''ApiGroup'' [] (Some (GoPtr GoString)), Sig ''ApiVersion'' [] (Some (GoPtr GoString)),
    Sig ''Chart'' [] (Some (GoNamed ''cdk8s.Chart'')), Sig ''Kind'' [] (Some (GoPtr GoString)),
    Sig ''Metadata'' [] (Some (GoNamed ''cdk8s.ApiObjectMetadataDefinition'')),
    Sig ''Name'' [] (Some (GoPtr GoString)), Sig ''Node'' [] (Some (GoNamed ''constructs.Node'')),
    Sig ''AddDependency'' [Rest ''dependencies'' (GoNamed ''constructs.IConstruct'')] None,
    Sig ''AddJsonPatch'' [Rest ''ops'' (GoNamed ''cdk8s.JsonPatch'')] None,
    Sig ''ToJson'' [] (Some GoAny), Sig ''ToString'' [] (Some (GoPtr GoString))]"

definition KubeHorizontalPodAutoscalerList_getters :: "gofun list" where
  "KubeHorizontalPodAutoscalerList_getters =
   [Method (Sig ''ApiGroup'' [] (Some (GoPtr GoString))) (Getter ''apiGroup''),
    Method (Sig ''ApiVersion'' [] (Some (GoPtr GoString))) (Getter ''apiVersion''),
    Method (Sig ''Chart'' [] (Some (GoNamed ''cdk8s.Chart''))) (Getter ''chart''),
    Method (Sig ''Kind'' [] (Some (GoPtr GoString))) (Getter ''kind''),
    Method (Sig ''Metadata'' [] (Some (GoNamed ''cdk8s.ApiObjectMetadataDefinition'')))
      (Getter ''metadata''),
    Method (Sig ''Name'' [] (Some (GoPtr GoString))) (Getter ''name''),
    Method (Sig ''Node'' [] (Some (GoNamed ''constructs.Node''))) (Getter ''node'')]"

definition KubeHorizontalPodAutoscalerList_functions :: "gofun list" where
  "KubeHorizontalPodAutoscalerList_functions =
   [Func (Sig ''NewKubeHorizontalPodAutoscalerList'' [
         Param ''scope'' (GoNamed ''constructs.Construct''), Param ''id'' (GoPtr GoString),
         Param ''props'' (GoPtr (GoNamed ''KubeHorizontalPodAutoscalerListProps''))] (Some (GoNamed ''KubeHorizontalPodAutoscalerList'')))
      (Construct ''k8s.KubeHorizontalPodAutoscalerList'' [''scope'', ''id'', ''props''] ''validateNewKubeHorizontalPodAutoscalerListParameters''),
    Func (Sig ''NewKubeHorizontalPodAutoscalerList_Override'' [
         Param ''k'' (GoNamed ''KubeHorizontalPodAutoscalerList''),
         Param ''scope'' (GoNamed ''constructs.Construct''), Param ''id'' (GoPtr GoString),
         Param ''props'' (GoPtr (GoNamed ''KubeHorizontalPodAutoscalerListProps''))] None)
      (ConstructOverride ''k8s.KubeHorizontalPodAutoscalerList'' [''scope'', ''id'', ''props'']),
    Func (Sig ''KubeHorizontalPodAutoscalerList_IsApiObject'' [Param ''o'' GoAny] (Some (GoPtr GoBool)))
      (StaticCall ''k8s.KubeHorizontalPodAutoscalerList'' ''isApiObject'' [''o''] ''validateKubeHorizontalPodAutoscalerList_IsApiObjectParameters''),
    Func (Sig ''KubeHorizontalPodAutoscalerList_IsConstruct'' [Param ''x'' GoAny] (Some (GoPtr GoBool)))
      (StaticCall ''k8s.KubeHorizontalPodAutoscalerList'' ''isConstruct'' [''x''] ''validateKubeHorizontalPodAutoscalerList_IsConstructParameters''),
    Func (Sig ''KubeHorizontalPodAutoscalerList_Manifest'' [Param ''props'' (GoPtr (GoNamed ''KubeHorizontalPodAutoscalerListProps''))] (Some GoAny))
      (StaticCall ''k8s.KubeHorizontalPodAutoscalerList'' ''manifest'' [''props''] ''validateKubeHorizontalPodAutoscalerList_ManifestParameters''),
    Func (Sig ''KubeHorizontalPodAutoscalerList_Of'' [Param ''c'' (GoNamed ''constructs.IConstruct'')] (Some (GoNamed ''cdk8s.ApiObject'')))
      (StaticCall ''k8s.KubeHorizontalPodAutoscalerList'' ''of'' [''c''] ''validateKubeHorizontalPodAutoscalerList_OfParameters''),
    Func (Sig ''KubeHorizontalPodAutoscalerList_GVK'' [] (Some (GoPtr (GoNamed ''cdk8s.GroupVersionKind''))))
      (StaticProp ''k8s.KubeHorizontalPodAutoscalerList'' ''GVK'')]"

definition KubeHorizontalPodAutoscalerList_methods :: "gofun list" where
  "KubeHorizontalPodAutoscalerList_methods =
   [Method (Sig ''AddDependency'' [Rest ''dependencies'' (GoNamed ''constructs.IConstruct'')] None)
      (Variadic ''addDependency''),
    Method (Sig ''AddJsonPatch'' [Rest ''ops'' (GoNamed ''cdk8s.JsonPatch'')] None)
      (Variadic ''addJsonPatch''),
    Method (Sig ''ToJson'' [] (Some GoAny)) (Plain ''toJson''),
    Method (Sig ''ToString'' [] (Some (GoPtr GoString))) (Plain ''toString'')]"

definition KubeHorizontalPodAutoscalerList :: binding where
  "KubeHorizontalPodAutoscalerList = Binding ''KubeHorizontalPodAutoscalerList'' [''internal.Type__cdk8sApiObject'']
     (KubeHorizontalPodAutoscalerList_getters @ KubeHorizontalPodAutoscalerList_functions @ KubeHorizontalPodAutoscalerList_methods)"

definition KubeHorizontalPodAutoscalerList_checks :: validators where
  "KubeHorizontalPodAutoscalerList_checks =
   [(''validateKubeHorizontalPodAutoscalerList_IsApiObjectParameters'', [NotNil ''o'']),
    (''validateKubeHorizontalPodAutoscalerList_IsConstructParameters'', [NotNil ''x'']),
    (''validateKubeHorizontalPodAutoscalerList_ManifestParameters'', [NotNil ''props'', ValidStruct ''props'']),
    (''validateKubeHorizontalPodAutoscalerList_OfParameters'', [NotNil ''c'']),
    (''validateNewKubeHorizontalPodAutoscalerListParameters'', [NotNil ''scope'', NotNil ''id'', NotNil ''props'', ValidStruct ''props''])]"

definition KubeHorizontalPodAutoscalerList_no_checks :: validators where
  "KubeHorizontalPodAutoscalerList_no_checks =
   [(''validateKubeHorizontalPodAutoscalerList_IsApiObjectParameters'', []),
    (''validateKubeHorizontalPodAutoscalerList_IsConstructParameters'', []),
    (''validateKubeHorizontalPodAutoscalerList_ManifestParameters'', []),
    (''validateKubeHorizontalPodAutoscalerList_OfParameters'', []),
    (''validateNewKubeHorizontalPodAutoscalerListParameters'', [])]"

lemma KubeHorizontalPodAutoscalerList_ok [class_checks]: "classOk (KubeHorizontalPodAutoscalerList, KubeHorizontalPodAutoscalerList_checks)"
  by (rule classRequired_I [where s = KubeHorizontalPodAutoscalerListProps], simp only: table_members)
    (simp_all only: KubeHorizontalPodAutoscalerList_def KubeHorizontalPodAutoscalerList_getters_def KubeHorizontalPodAutoscalerList_functions_def
      KubeHorizontalPodAutoscalerList_methods_def KubeHorizontalPodAutoscalerList_checks_def KubeHorizontalPodAutoscalerListProps_def class_eval)

lemma KubeHorizontalPodAutoscalerList_declared [class_interfaces]:
  "KubeHorizontalPodAutoscalerList_interface = apiObjectInterface ''KubeHorizontalPodAutoscalerList''"
  "KubeHorizontalPodAutoscalerList_no_checks = apiObjectNoChecks ''KubeHorizontalPodAutoscalerList''"
  by (simp_all only: KubeHorizontalPodAutoscalerList_interface_def KubeHorizontalPodAutoscalerList_no_checks_def declared_eval)

definition KubeHorizontalPodAutoscalerListV2_interface :: interface where
  "KubeHorizontalPodAutoscalerListV2_interface = Interface ''KubeHorizontalPodAutoscalerListV2'' [''cdk8s.ApiObject'']
   [Sig ''ApiGroup'' [] (Some (GoPtr GoString)), Sig ''ApiVersion'' [] (Some (GoPtr GoString)),
    Sig ''Chart'' [] (Some (GoNamed ''cdk8s.Chart'')), Sig ''Kind'' [] (Some (GoPtr GoString)),
    Sig ''Metadata'' [] (Some (GoNamed ''cdk8s.ApiObjectMetadataDefinition'')),
    Sig ''Name'' [] (Some (GoPtr GoString)), Sig ''Node'' [] (Some (GoNamed ''constructs.Node'')),
    Sig ''AddDependency'' [Rest ''dependencies'' (GoNamed ''constructs.IConstruct'')] None,
    Sig ''AddJsonPatch'' [Rest ''ops'' (GoNamed ''cdk8s.JsonPatch'')] None,
    Sig ''ToJson'' [] (Some GoAny), Sig ''ToString'' [] (Some (GoPtr GoString))]"

definition KubeHorizontalPodAutoscalerListV2_getters :: "gofun list" where
  "KubeHorizontalPodAutoscalerListV2_getters =
   [Method (Sig ''ApiGroup'' [] (Some (GoPtr GoString))) (Getter ''apiGroup''),
    Method (Sig ''ApiVersion'' [] (Some (GoPtr GoString))) (Getter ''apiVersion''),
    Method (Sig ''Chart'' [] (Some (GoNamed ''cdk8s.Chart''))) (Getter ''chart''),
    Method (Sig ''Kind'' [] (Some (GoPtr GoString))) (Getter ''kind''),
    Method (Sig ''Metadata'' [] (Some (GoNamed ''cdk8s.ApiObjectMetadataDefinition'')))
      (Getter ''metadata''),
    Method (Sig ''Name'' [] (Some (GoPtr GoString))) (Getter ''name''),
    Method (Sig ''Node'' [] (Some (GoNamed ''constructs.Node''))) (Getter ''node'')]"

definition KubeHorizontalPodAutoscalerListV2_functions :: "gofun list" where
  "KubeHorizontalPodAutoscalerListV2_functions =
   [Func (Sig ''NewKubeHorizontalPodAutoscalerListV2'' [
         Param ''scope'' (GoNamed ''constructs.Construct''), Param ''id'' (GoPtr GoString),
         Param ''props'' (GoPtr (GoNamed ''KubeHorizontalPodAutoscalerListV2Props''))] (Some (GoNamed ''KubeHorizontalPodAutoscalerListV2'')))
      (Construct ''k8s.KubeHorizontalPodAutoscalerListV2'' [''scope'', ''id'', ''props''] ''validateNewKubeHorizontalPodAutoscalerListV2Parameters''),
    Func (Sig ''NewKubeHorizontalPodAutoscalerListV2_Override'' [
         Param ''k'' (GoNamed ''KubeHorizontalPodAutoscalerListV2''),
         Param ''scope'' (GoNamed ''constructs.Construct''), Param ''id'' (GoPtr GoString),
         Param ''props'' (GoPtr (GoNamed ''KubeHorizontalPodAutoscalerListV2Props''))] None)
      (ConstructOverride ''k8s.KubeHorizontalPodAutoscalerListV2'' [''scope'', ''id'', ''props'']),
    Func (Sig ''KubeHorizontalPodAutoscalerListV2_IsApiObject'' [Param ''o'' GoAny] (Some (GoPtr GoBool)))
      (StaticCall ''k8s.KubeHorizontalPodAutoscalerListV2'' ''isApiObject'' [''o''] ''validateKubeHorizontalPodAutoscalerListV2_IsApiObjectParameters''),
    Func (Sig ''KubeHorizontalPodAutoscalerListV2_IsConstruct'' [Param ''x'' GoAny] (Some (GoPtr GoBool)))
      (StaticCall ''k8s.KubeHorizontalPodAutoscalerListV2'' ''isConstruct'' [''x''] ''validateKubeHorizontalPodAutoscalerListV2_IsConstructParameters''),
    Func (Sig ''KubeHorizontalPodAutoscalerListV2_Manifest'' [Param ''props'' (GoPtr (GoNamed ''KubeHorizontalPodAutoscalerListV2Props''))] (Some GoAny))
      (StaticCall ''k8s.KubeHorizontalPodAutoscalerListV2'' ''manifest'' [''props''] ''validateKubeHorizontalPodAutoscalerListV2_ManifestParameters''),
    Func (Sig ''KubeHorizontalPodAutoscalerListV2_Of'' [Param ''c'' (GoNamed ''constructs.IConstruct'')] (Some (GoNamed ''cdk8s.ApiObject'')))
      (StaticCall ''k8s.KubeHorizontalPodAutoscalerListV2'' ''of'' [''c''] ''validateKubeHorizontalPodAutoscalerListV2_OfParameters''),
    Func (Sig ''KubeHorizontalPodAutoscalerListV2_GVK'' [] (Some (GoPtr (GoNamed ''cdk8s.GroupVersionKind''))))
      (StaticProp ''k8s.KubeHorizontalPodAutoscalerListV2'' ''GVK'')]"

definition KubeHorizontalPodAutoscalerListV2_methods :: "gofun list" where
  "KubeHorizontalPodAutoscalerListV2_methods =
   [Method (Sig ''AddDependency'' [Rest ''dependencies'' (GoNamed ''constructs.IConstruct'')] None)
      (Variadic ''addDependency''),
    Method (Sig ''AddJsonPatch'' [Rest ''ops'' (GoNamed ''cdk8s.JsonPatch'')] None)
      (Variadic ''addJsonPatch''),
    Method (Sig ''ToJson'' [] (Some GoAny)) (Plain ''toJson''),
    Method (Sig ''ToString'' [] (Some (GoPtr GoString))) (Plain ''toString'')]"

definition KubeHorizontalPodAutoscalerListV2 :: binding where
  "KubeHorizontalPodAutoscalerListV2 = Binding ''KubeHorizontalPodAutoscalerListV2'' [''internal.Type__cdk8sApiObject'']
     (KubeHorizontalPodAutoscalerListV2_getters @ KubeHorizontalPodAutoscalerListV2_functions @ KubeHorizontalPodAutoscalerListV2_methods)"

definition KubeHorizontalPodAutoscalerListV2_checks :: validators where
  "KubeHorizontalPodAutoscalerListV2_checks =
   [(''validateKubeHorizontalPodAutoscalerListV2_IsApiObjectParameters'', [NotNil ''o'']),
    (''validateKubeHorizontalPodAutoscalerListV2_IsConstructParameters'', [NotNil ''x'']),
    (''validateKubeHorizontalPodAutoscalerListV2_ManifestParameters'', [NotNil ''props'', ValidStruct ''props'']),
    (''validateKubeHorizontalPodAutoscalerListV2_OfParameters'', [NotNil ''c'']),
    (''validateNewKubeHorizontalPodAutoscalerListV2Parameters'', [NotNil ''scope'', NotNil ''id'', NotNil ''props'', ValidStruct ''props''])]"

definition KubeHorizontalPodAutoscalerListV2_no_checks :: validators where
  "KubeHorizontalPodAutoscalerListV2_no_checks =
   [(''validateKubeHorizontalPodAutoscalerListV2_IsApiObjectParameters'', []),
    (''validateKubeHorizontalPodAutoscalerListV2_IsConstructParameters'', []),
    (''validateKubeHorizontalPodAutoscalerListV2_ManifestParameters'', []),
    (''validateKubeHorizontalPodAutoscalerListV2_OfParameters'', []),
    (''validateNewKubeHorizontalPodAutoscalerListV2Parameters'', [])]"

lemma KubeHorizontalPodAutoscalerListV2_ok [class_checks]: "classOk (KubeHorizontalPodAutoscalerListV2, KubeHorizontalPodAutoscalerListV2_checks)"
  by (rule classRequired_I [where s = KubeHorizontalPodAutoscalerListV2Props], simp only: table_members)
    (simp_all only: KubeHorizontalPodAutoscalerListV2_def KubeHorizontalPodAutoscalerListV2_getters_def KubeHorizontalPodAutoscalerListV2_functions_def
      KubeHorizontalPodAutoscalerListV2_methods_def KubeHorizontalPodAutoscalerListV2_checks_def KubeHorizontalPodAutoscalerListV2Props_def class_eval)

lemma KubeHorizontalPodAutoscalerListV2_declared [class_interfaces]:
  "KubeHorizontalPodAutoscalerListV2_interface = apiObjectInterface ''KubeHorizontalPodAutoscalerListV2''"
  "KubeHorizontalPodAutoscalerListV2_no_checks = apiObjectNoChecks ''KubeHorizontalPodAutoscalerListV2''"
  by (simp_all only: KubeHorizontalPodAutoscalerListV2_interface_def KubeHorizontalPodAutoscalerListV2_no_checks_def declared_eval)

definition KubeHorizontalPodAutoscalerListV2Beta2_interface :: interface where
  "KubeHorizontalPodAutoscalerListV2Beta2_interface = Interface ''KubeHorizontalPodAutoscalerListV2Beta2'' [''cdk8s.ApiObject'']
   [Sig ''ApiGroup'' [] (Some (GoPtr GoString)), Sig ''ApiVersion'' [] (Some (GoPtr GoString)),
    Sig ''Chart'' [] (Some (GoNamed ''cdk8s.Chart'')), Sig ''Kind'' [] (Some (GoPtr GoString)),
    Sig ''Metadata'' [] (Some (GoNamed ''cdk8s.ApiObjectMetadataDefinition'')),
    Sig ''Name'' [] (Some (GoPtr GoString)), Sig ''Node'' [] (Some (GoNamed ''constructs.Node'')),
    Sig ''AddDependency'' [Rest ''dependencies'' (GoNamed ''constructs.IConstruct'')] None,
    Sig ''AddJsonPatch'' [Rest ''ops'' (GoNamed ''cdk8s.JsonPatch'')] None,
    Sig ''ToJson'' [] (Some GoAny), Sig ''ToString'' [] (Some (GoPtr GoString))]"

definition KubeHorizontalPodAutoscalerListV2Beta2_getters :: "gofun list" where
  "KubeHorizontalPodAutoscalerListV2Beta2_getters =
   [Method (Sig ''ApiGroup'' [] (Some (GoPtr GoString))) (Getter ''apiGroup''),
    Method (Sig ''ApiVersion'' [] (Some (GoPtr GoString))) (Getter ''apiVersion''),
    Method (Sig ''Chart'' [] (Some (GoNamed ''cdk8s.Chart''))) (Getter ''chart''),
    Method (Sig ''Kind'' [] (Some (GoPtr GoString))) (Getter ''kind''),
    Method (Sig ''Metadata'' [] (Some (GoNamed ''cdk8s.ApiObjectMetadataDefinition'')))
      (Getter ''metadata''),
    Method (Sig ''Name'' [] (Some (GoPtr GoString))) (Getter ''name''),
    Method (Sig ''Node'' [] (Some (GoNamed ''constructs.Node''))) (Getter ''node'')]"

definition KubeHorizontalPodAutoscalerListV2Beta2_functions :: "gofun list" where
  "KubeHorizontalPodAutoscalerListV2Beta2_functions =
   [Func (Sig ''NewKubeHorizontalPodAutoscalerListV2Beta2'' [
         Param ''scope'' (GoNamed ''constructs.Construct''), Param ''id'' (GoPtr GoString),
         Param ''props'' (GoPtr (GoNamed ''KubeHorizontalPodAutoscalerListV2Beta2Props''))] (Some (GoNamed ''KubeHorizontalPodAutoscalerListV2Beta2'')))
      (Construct ''k8s.KubeHorizontalPodAutoscalerListV2Beta2'' [''scope'', ''id'', ''props''] ''validateNewKubeHorizontalPodAutoscalerListV2Beta2Parameters''),
    Func (Sig ''NewKubeHorizontalPodAutoscalerListV2Beta2_Override'' [
         Param ''k'' (GoNamed ''KubeHorizontalPodAutoscalerListV2Beta2''),
         Param ''scope'' (GoNamed ''constructs.Construct''), Param ''id'' (GoPtr GoString),
         Param ''props'' (GoPtr (GoNamed ''KubeHorizontalPodAutoscalerListV2Beta2Props''))] None)
      (ConstructOverride ''k8s.KubeHorizontalPodAutoscalerListV2Beta2'' [''scope'', ''id'', ''props'']),
    Func (Sig ''KubeHorizontalPodAutoscalerListV2Beta2_IsApiObject'' [Param ''o'' GoAny] (Some (GoPtr GoBool)))
      (StaticCall ''k8s.KubeHorizontalPodAutoscalerListV2Beta2'' ''isApiObject'' [''o''] ''validateKubeHorizontalPodAutoscalerListV2Beta2_IsApiObjectParameters''),
    Func (Sig ''KubeHorizontalPodAutoscalerListV2Beta2_IsConstruct'' [Param ''x'' GoAny] (Some (GoPtr GoBool)))
      (StaticCall ''k8s.KubeHorizontalPodAutoscalerListV2Beta2'' ''isConstruct'' [''x''] ''validateKubeHorizontalPodAutoscalerListV2Beta2_IsConstructParameters''),
    Func (Sig ''KubeHorizontalPodAutoscalerListV2Beta2_Manifest'' [Param ''props'' (GoPtr (GoNamed ''KubeHorizontalPodAutoscalerListV2Beta2Props''))] (Some GoAny))
      (StaticCall ''k8s.KubeHorizontalPodAutoscalerListV2Beta2'' ''manifest'' [''props''] ''validateKubeHorizontalPodAutoscalerListV2Beta2_ManifestParameters''),
    Func (Sig ''KubeHorizontalPodAutoscalerListV2Beta2_Of'' [Param ''c'' (GoNamed ''constructs.IConstruct'')] (Some (GoNamed ''cdk8s.ApiObject'')))
      (StaticCall ''k8s.KubeHorizontalPodAutoscalerListV2Beta2'' ''of'' [''c''] ''validateKubeHorizontalPodAutoscalerListV2Beta2_OfParameters''),
    Func (Sig ''KubeHorizontalPodAutoscalerListV2Beta2_GVK'' [] (Some (GoPtr (GoNamed ''cdk8s.GroupVersionKind''))))
      (StaticProp ''k8s.KubeHorizontalPodAutoscalerListV2Beta2'' ''GVK'')]"

definition KubeHorizontalPodAutoscalerListV2Beta2_methods :: "gofun list" where
  "KubeHorizontalPodAutoscalerListV2Beta2_methods =
   [Method (Sig ''AddDependency'' [Rest ''dependencies'' (GoNamed ''constructs.IConstruct'')] None)
      (Variadic ''addDependency''),
    Method (Sig ''AddJsonPatch'' [Rest ''ops'' (GoNamed ''cdk8s.JsonPatch'')] None)
      (Variadic ''addJsonPatch''),
    Method (Sig ''ToJson'' [] (Some GoAny)) (Plain ''toJson''),
    Method (Sig ''ToString'' [] (Some (GoPtr GoString))) (Plain ''toString'')]"

definition KubeHorizontalPodAutoscalerListV2Beta2 :: binding where
  "KubeHorizontalPodAutoscalerListV2Beta2 = Binding ''KubeHorizontalPodAutoscalerListV2Beta2'' [''internal.Type__cdk8sApiObject'']
     (KubeHorizontalPodAutoscalerListV2Beta2_getters @ KubeHorizontalPodAutoscalerListV2Beta2_functions @ KubeHorizontalPodAutoscalerListV2Beta2_methods)"

definition KubeHorizontalPodAutoscalerListV2Beta2_checks :: validators where
  "KubeHorizontalPodAutoscalerListV2Beta2_checks =
   [(''validateKubeHorizontalPodAutoscalerListV2Beta2_IsApiObjectParameters'', [NotNil ''o'']),
    (''validateKubeHorizontalPodAutoscalerListV2Beta2_IsConstructParameters'', [NotNil ''x'']),
    (''validateKubeHorizontalPodAutoscalerListV2Beta2_ManifestParameters'', [NotNil ''props'', ValidStruct ''props'']),
    (''validateKubeHorizontalPodAutoscalerListV2Beta2_OfParameters'', [NotNil ''c'']),
    (''validateNewKubeHorizontalPodAutoscalerListV2Beta2Parameters'', [NotNil ''scope'', NotNil ''id'', NotNil ''props'', ValidStruct ''props''])]"

definition KubeHorizontalPodAutoscalerListV2Beta2_no_checks :: validators where
  "KubeHorizontalPodAutoscalerListV2Beta2_no_checks =
   [(''validateKubeHorizontalPodAutoscalerListV2Beta2_IsApiObjectParameters'', []),
    (''validateKubeHorizontalPodAutoscalerListV2Beta2_IsConstructParameters'', []),
    (''validateKubeHorizontalPodAutoscalerListV2Beta2_ManifestParameters'', []),
    (''validateKubeHorizontalPodAutoscalerListV2Beta2_OfParameters'', []),
    (''validateNewKubeHorizontalPodAutoscalerListV2Beta2Parameters'', [])]"

lemma KubeHorizontalPodAutoscalerListV2Beta2_ok [class_checks]: "classOk (KubeHorizontalPodAutoscalerListV2Beta2, KubeHorizontalPodAutoscalerListV2Beta2_checks)"
  by (rule classRequired_I [where s = KubeHorizontalPodAutoscalerListV2Beta2Props], simp only: table_members)
    (simp_all only: KubeHorizontalPodAutoscalerListV2Beta2_def KubeHorizontalPodAutoscalerListV2Beta2_getters_def KubeHorizontalPodAutoscalerListV2Beta2_functions_def
      KubeHorizontalPodAutoscalerListV2Beta2_methods_def KubeHorizontalPodAutoscalerListV2Beta2_checks_def KubeHorizontalPodAutoscalerListV2Beta2Props_def class_eval)

lemma KubeHorizontalPodAutoscalerListV2Beta2_declared [class_interfaces]:
  "KubeHorizontalPodAutoscalerListV2Beta2_interface = apiObjectInterface ''KubeHorizontalPodAutoscalerListV2Beta2''"
  "KubeHorizontalPodAutoscalerListV2Beta2_no_checks = apiObjectNoChecks ''KubeHorizontalPodAutoscalerListV2Beta2''"
  by (simp_all only: KubeHorizontalPodAutoscalerListV2Beta2_interface_def KubeHorizontalPodAutoscalerListV2Beta2_no_checks_def declared_eval)

definition KubeHorizontalPodAutoscalerV2_interface :: interface where
  "KubeHorizontalPodAutoscalerV2_interface = Interface ''KubeHorizontalPodAutoscalerV2'' [''cdk8s.ApiObject'']
   [Sig ''ApiGroup'' [] (Some (GoPtr GoString)), Sig ''ApiVersion'' [] (Some (GoPtr GoString)),
    Sig ''Chart'' [] (Some (GoNamed ''cdk8s.Chart'')), Sig ''Kind'' [] (Some (GoPtr GoString)),
    Sig ''Metadata'' [] (Some (GoNamed ''cdk8s.ApiObjectMetadataDefinition'')),
    Sig ''Name'' [] (Some (GoPtr GoString)), Sig ''Node'' [] (Some (GoNamed ''constructs.Node'')),
    Sig ''AddDependency'' [Rest ''dependencies'' (GoNamed ''constructs.IConstruct'')] None,
    Sig ''AddJsonPatch'' [Rest ''ops'' (GoNamed ''cdk8s.JsonPatch'')] None,
    Sig ''ToJson'' [] (Some GoAny), Sig ''ToString'' [] (Some (GoPtr GoString))]"

definition KubeHorizontalPodAutoscalerV2_getters :: "gofun list" where
  "KubeHorizontalPodAutoscalerV2_getters =
   [Method (Sig ''ApiGroup'' [] (Some (GoPtr GoString))) (Getter ''apiGroup''),
    Method (Sig ''ApiVersion'' [] (Some (GoPtr GoString))) (Getter ''apiVersion''),
    Method (Sig ''Chart'' [] (Some (GoNamed ''cdk8s.Chart''))) (Getter ''chart''),
    Method (Sig ''Kind'' [] (Some (GoPtr GoString))) (Getter ''kind''),
    Method (Sig ''Metadata'' [] (Some (GoNamed ''cdk8s.ApiObjectMetadataDefinition'')))
      (Getter ''metadata''),
    Method (Sig ''Name'' [] (Some (GoPtr GoString))) (Getter ''name''),
    Method (Sig ''Node'' [] (Some (GoNamed ''constructs.Node''))) (Getter ''node'')]"

definition KubeHorizontalPodAutoscalerV2_functions :: "gofun list" where
  "KubeHorizontalPodAutoscalerV2_functions =
   [Func (Sig ''NewKubeHorizontalPodAutoscalerV2'' [
         Param ''scope'' (GoNamed ''constructs.Construct''), Param ''id'' (GoPtr GoString),
         Param ''props'' (GoPtr (GoNamed ''KubeHorizontalPodAutoscalerV2Props''))] (Some (GoNamed ''KubeHorizontalPodAutoscalerV2'')))
      (Construct ''k8s.KubeHorizontalPodAutoscalerV2'' [''scope'', ''id'', ''props''] ''validateNewKubeHorizontalPodAutoscalerV2Parameters''),
    Func (Sig ''NewKubeHorizontalPodAutoscalerV2_Override'' [
         Param ''k'' (GoNamed ''KubeHorizontalPodAutoscalerV2''),
         Param ''scope'' (GoNamed ''constructs.Construct''), Param ''id'' (GoPtr GoString),
         Param ''props'' (GoPtr (GoNamed ''KubeHorizontalPodAutoscalerV2Props''))] None)
      (ConstructOverride ''k8s.KubeHorizontalPodAutoscalerV2'' [''scope'', ''id'', ''props'']),
    Func (Sig ''KubeHorizontalPodAutoscalerV2_IsApiObject'' [Param ''o'' GoAny] (Some (GoPtr GoBool)))
      (StaticCall ''k8s.KubeHorizontalPodAutoscalerV2'' ''isApiObject'' [''o''] ''validateKubeHorizontalPodAutoscalerV2_IsApiObjectParameters''),
    Func (Sig ''KubeHorizontalPodAutoscalerV2_IsConstruct'' [Param ''x'' GoAny] (Some (GoPtr GoBool)))
      (StaticCall ''k8s.KubeHorizontalPodAutoscalerV2'' ''isConstruct'' [''x''] ''validateKubeHorizontalPodAutoscalerV2_IsConstructParameters''),
    Func (Sig ''KubeHorizontalPodAutoscalerV2_Manifest'' [Param ''props'' (GoPtr (GoNamed ''KubeHorizontalPodAutoscalerV2Props''))] (Some GoAny))
      (StaticCall ''k8s.KubeHorizontalPodAutoscalerV2'' ''manifest'' [''props''] ''validateKubeHorizontalPodAutoscalerV2_ManifestParameters''),
    Func (Sig ''KubeHorizontalPodAutoscalerV2_Of'' [Param ''c'' (GoNamed ''constructs.IConstruct'')] (Some (GoNamed ''cdk8s.ApiObject'')))
      (StaticCall ''k8s.KubeHorizontalPodAutoscalerV2'' ''of'' [''c''] ''validateKubeHorizontalPodAutoscalerV2_OfParameters''),
    Func (Sig ''KubeHorizontalPodAutoscalerV2_GVK'' [] (Some (GoPtr (GoNamed ''cdk8s.GroupVersionKind''))))
      (StaticProp ''k8s.KubeHorizontalPodAutoscalerV2'' ''GVK'')]"

definition KubeHorizontalPodAutoscalerV2_methods :: "gofun list" where
  "KubeHorizontalPodAutoscalerV2_methods =
   [Method (Sig ''AddDependency'' [Rest ''dependencies'' (GoNamed ''constructs.IConstruct'')] None)
      (Variadic ''addDependency''),
    Method (Sig ''AddJsonPatch'' [Rest ''ops'' (GoNamed ''cdk8s.JsonPatch'')] None)
      (Variadic ''addJsonPatch''),
    Method (Sig ''ToJson'' [] (Some GoAny)) (Plain ''toJson''),
    Method (Sig ''ToString'' [] (Some (GoPtr GoString))) (Plain ''toString'')]"

definition KubeHorizontalPodAutoscalerV2 :: binding where
  "KubeHorizontalPodAutoscalerV2 = Binding ''KubeHorizontalPodAutoscalerV2'' [''internal.Type__cdk8sApiObject'']
     (KubeHorizontalPodAutoscalerV2_getters @ KubeHorizontalPodAutoscalerV2_functions @ KubeHorizontalPodAutoscalerV2_methods)"

definition KubeHorizontalPodAutoscalerV2_checks :: validators where
  "KubeHorizontalPodAutoscalerV2_checks =
   [(''validateKubeHorizontalPodAutoscalerV2_IsApiObjectParameters'', [NotNil ''o'']),
    (''validateKubeHorizontalPodAutoscalerV2_IsConstructParameters'', [NotNil ''x'']),
    (''validateKubeHorizontalPodAutoscalerV2_ManifestParameters'', [ValidStruct ''props'']),
    (''validateKubeHorizontalPodAutoscalerV2_OfParameters'', [NotNil ''c'']),
    (''validateNewKubeHorizontalPodAutoscalerV2Parameters'', [NotNil ''scope'', NotNil ''id'', ValidStruct ''props''])]"

definition KubeHorizontalPodAutoscalerV2_no_checks :: validators where
  "KubeHorizontalPodAutoscalerV2_no_checks =
   [(''validateKubeHorizontalPodAutoscalerV2_IsApiObjectParameters'', []),
    (''validateKubeHorizontalPodAutoscalerV2_IsConstructParameters'', []),
    (''validateKubeHorizontalPodAutoscalerV2_ManifestParameters'', []),
    (''validateKubeHorizontalPodAutoscalerV2_OfParameters'', []),
    (''validateNewKubeHorizontalPodAutoscalerV2Parameters'', [])]"

lemma KubeHorizontalPodAutoscalerV2_ok [class_checks]: "classOk (KubeHorizontalPodAutoscalerV2, KubeHorizontalPodAutoscalerV2_checks)"
  by (rule classOptional_I [where s = KubeHorizontalPodAutoscalerV2Props], simp only: table_members)
    (simp_all only: KubeHorizontalPodAutoscalerV2_def KubeHorizontalPodAutoscalerV2_getters_def KubeHorizontalPodAutoscalerV2_functions_def
      KubeHorizontalPodAutoscalerV2_methods_def KubeHorizontalPodAutoscalerV2_checks_def KubeHorizontalPodAutoscalerV2Props_def class_eval)

lemma KubeHorizontalPodAutoscalerV2_declared [class_interfaces]:
  "KubeHorizontalPodAutoscalerV2_interface = apiObjectInterface ''KubeHorizontalPodAutoscalerV2''"
  "KubeHorizontalPodAutoscalerV2_no_checks = apiObjectNoChecks ''KubeHorizontalPodAutoscalerV2''"
  by (simp_all only: KubeHorizontalPodAutoscalerV2_interface_def KubeHorizontalPodAutoscalerV2_no_checks_def declared_eval)

definition KubeHorizontalPodAutoscalerV2Beta2_interface :: interface where
  "KubeHorizontalPodAutoscalerV2Beta2_interface = Interface ''KubeHorizontalPodAutoscalerV2Beta2'' [''cdk8s.ApiObject'']
   [Sig ''ApiGroup'' [] (Some (GoPtr GoString)), Sig ''ApiVersion'' [] (Some (GoPtr GoString)),
    Sig ''Chart'' [] (Some (GoNamed ''cdk8s.Chart'')), Sig ''Kind'' [] (Some (GoPtr GoString)),
    Sig ''Metadata'' [] (Some (GoNamed ''cdk8s.ApiObjectMetadataDefinition'')),
    Sig ''Name'' [] (Some (GoPtr GoString)), Sig ''Node'' [] (Some (GoNamed ''constructs.Node'')),
    Sig ''AddDependency'' [Rest ''dependencies'' (GoNamed ''constructs.IConstruct'')] None,
    Sig ''AddJsonPatch'' [Rest ''ops'' (GoNamed ''cdk8s.JsonPatch'')] None,
    Sig ''ToJson'' [] (Some GoAny), Sig ''ToString'' [] (Some (GoPtr GoString))]"

definition KubeHorizontalPodAutoscalerV2Beta2_getters :: "gofun list" where
  "KubeHorizontalPodAutoscalerV2Beta2_getters =
   [Method (Sig ''ApiGroup'' [] (Some (GoPtr GoString))) (Getter ''apiGroup''),
    Method (Sig ''ApiVersion'' [] (Some (GoPtr GoString))) (Getter ''apiVersion''),
    Method (Sig ''Chart'' [] (Some (GoNamed ''cdk8s.Chart''))) (Getter ''chart''),
    Method (Sig ''Kind'' [] (Some (GoPtr GoString))) (Getter ''kind''),
    Method (Sig ''Metadata'' [] (Some (GoNamed ''cdk8s.ApiObjectMetadataDefinition'')))
      (Getter ''metadata''),
    Method (Sig ''Name'' [] (Some (GoPtr GoString))) (Getter ''name''),
    Method (Sig ''Node'' [] (Some (GoNamed ''constructs.Node''))) (Getter ''node'')]"

definition KubeHorizontalPodAutoscalerV2Beta2_functions :: "gofun list" where
  "KubeHorizontalPodAutoscalerV2Beta2_functions =
   [Func (Sig ''NewKubeHorizontalPodAutoscalerV2Beta2'' [
         Param ''scope'' (GoNamed ''constructs.Construct''), Param ''id'' (GoPtr GoString),
         Param ''props'' (GoPtr (GoNamed ''KubeHorizontalPodAutoscalerV2Beta2Props''))] (Some (GoNamed ''KubeHorizontalPodAutoscalerV2Beta2'')))
      (Construct ''k8s.KubeHorizontalPodAutoscalerV2Beta2'' [''scope'', ''id'', ''props''] ''validateNewKubeHorizontalPodAutoscalerV2Beta2Parameters''),
    Func (Sig ''NewKubeHorizontalPodAutoscalerV2Beta2_Override'' [
         Param ''k'' (GoNamed ''KubeHorizontalPodAutoscalerV2Beta2''),
         Param ''scope'' (GoNamed ''constructs.Construct''), Param ''id'' (GoPtr GoString),
         Param ''props'' (GoPtr (GoNamed ''KubeHorizontalPodAutoscalerV2Beta2Props''))] None)
      (ConstructOverride ''k8s.KubeHorizontalPodAutoscalerV2Beta2'' [''scope'', ''id'', ''props'']),
    Func (Sig ''KubeHorizontalPodAutoscalerV2Beta2_IsApiObject'' [Param ''o'' GoAny] (Some (GoPtr GoBool)))
      (StaticCall ''k8s.KubeHorizontalPodAutoscalerV2Beta2'' ''isApiObject'' [''o''] ''validateKubeHorizontalPodAutoscalerV2Beta2_IsApiObjectParameters''),
    Func (Sig ''KubeHorizontalPodAutoscalerV2Beta2_IsConstruct'' [Param ''x'' GoAny] (Some (GoPtr GoBool)))
      (StaticCall ''k8s.KubeHorizontalPodAutoscalerV2Beta2'' ''isConstruct'' [''x''] ''validateKubeHorizontalPodAutoscalerV2Beta2_IsConstructParameters''),
    Func (Sig ''KubeHorizontalPodAutoscalerV2Beta2_Manifest'' [Param ''props'' (GoPtr (GoNamed ''KubeHorizontalPodAutoscalerV2Beta2Props''))] (Some GoAny))
      (StaticCall ''k8s.KubeHorizontalPodAutoscalerV2Beta2'' ''manifest'' [''props''] ''validateKubeHorizontalPodAutoscalerV2Beta2_ManifestParameters''),
    Func (Sig ''KubeHorizontalPodAutoscalerV2Beta2_Of'' [Param ''c'' (GoNamed ''constructs.IConstruct'')] (Some (GoNamed ''cdk8s.ApiObject'')))
      (StaticCall ''k8s.KubeHorizontalPodAutoscalerV2Beta2'' ''of'' [''c''] ''validateKubeHorizontalPodAutoscalerV2Beta2_OfParameters''),
    Func (Sig ''KubeHorizontalPodAutoscalerV2Beta2_GVK'' [] (Some (GoPtr (GoNamed ''cdk8s.GroupVersionKind''))))
      (StaticProp ''k8s.KubeHorizontalPodAutoscalerV2Beta2'' ''GVK'')]"

definition KubeHorizontalPodAutoscalerV2Beta2_methods :: "gofun list" where
  "KubeHorizontalPodAutoscalerV2Beta2_methods =
   [Method (Sig ''AddDependency'' [Rest ''dependencies'' (GoNamed ''constructs.IConstruct'')] None)
      (Variadic ''addDependency''),
    Method (Sig ''AddJsonPatch'' [Rest ''ops'' (GoNamed ''cdk8s.JsonPatch'')] None)
      (Variadic ''addJsonPatch''),
    Method (Sig ''ToJson'' [] (Some GoAny)) (Plain ''toJson''),
    Method (Sig ''ToString'' [] (Some (GoPtr GoString))) (Plain ''toString'')]"

definition KubeHorizontalPodAutoscalerV2Beta2 :: binding where
  "KubeHorizontalPodAutoscalerV2Beta2 = Binding ''KubeHorizontalPodAutoscalerV2Beta2'' [''internal.Type__cdk8sApiObject'']
     (KubeHorizontalPodAutoscalerV2Beta2_getters @ KubeHorizontalPodAutoscalerV2Beta2_functions @ KubeHorizontalPodAutoscalerV2Beta2_methods)"

definition KubeHorizontalPodAutoscalerV2Beta2_checks :: validators where
  "KubeHorizontalPodAutoscalerV2Beta2_checks =
   [(''validateKubeHorizontalPodAutoscalerV2Beta2_IsApiObjectParameters'', [NotNil ''o'']),
    (''validateKubeHorizontalPodAutoscalerV2Beta2_IsConstructParameters'', [NotNil ''x'']),
    (''validateKubeHorizontalPodAutoscalerV2Beta2_ManifestParameters'', [ValidStruct ''props'']),
    (''validateKubeHorizontalPodAutoscalerV2Beta2_OfParameters'', [NotNil ''c'']),
    (''validateNewKubeHorizontalPodAutoscalerV2Beta2Parameters'', [NotNil ''scope'', NotNil ''id'', ValidStruct ''props''])]"

definition KubeHorizontalPodAutoscalerV2Beta2_no_checks :: validators where
  "KubeHorizontalPodAutoscalerV2Beta2_no_checks =
   [(''validateKubeHorizontalPodAutoscalerV2Beta2_IsApiObjectParameters'', []),
    (''validateKubeHorizontalPodAutoscalerV2Beta2_IsConstructParameters'', []),
    (''validateKubeHorizontalPodAutoscalerV2Beta2_ManifestParameters'', []),
    (''validateKubeHorizontalPodAutoscalerV2Beta2_OfParameters'', []),
    (''validateNewKubeHorizontalPodAutoscalerV2Beta2Parameters'', [])]"

lemma KubeHorizontalPodAutoscalerV2Beta2_ok [class_checks]: "classOk (KubeHorizontalPodAutoscalerV2Beta2, KubeHorizontalPodAutoscalerV2Beta2_checks)"
  by (rule classOptional_I [where s = KubeHorizontalPodAutoscalerV2Beta2Props], simp only: table_members)
    (simp_all only: KubeHorizontalPodAutoscalerV2Beta2_def KubeHorizontalPodAutoscalerV2Beta2_getters_def KubeHorizontalPodAutoscalerV2Beta2_functions_def
      KubeHorizontalPodAutoscalerV2Beta2_methods_def KubeHorizontalPodAutoscalerV2Beta2_checks_def KubeHorizontalPodAutoscalerV2Beta2Props_def class_eval)

lemma KubeHorizontalPodAutoscalerV2Beta2_declared [class_interfaces]:
  "KubeHorizontalPodAutoscalerV2Beta2_interface = apiObjectInterface ''KubeHorizontalPodAutoscalerV2Beta2''"
  "KubeHorizontalPodAutoscalerV2Beta2_no_checks = apiObjectNoChecks ''KubeHorizontalPodAutoscalerV2Beta2''"
  by (simp_all only: KubeHorizontalPodAutoscalerV2Beta2_interface_def KubeHorizontalPodAutoscalerV2Beta2_no_checks_def declared_eval)

definition KubeIngress_interface :: interface where
  "KubeIngress_interface = Interface ''KubeIngress'' [''cdk8s.ApiObject'']
   [Sig ''ApiGroup'' [] (Some (GoPtr GoString)), Sig ''ApiVersion'' [] (Some (GoPtr GoString)),
    Sig ''Chart'' [] (Some (GoNamed ''cdk8s.Chart'')), Sig ''Kind'' [] (Some (GoPtr GoString)),
    Sig ''Metadata'' [] (Some (GoNamed ''cdk8s.ApiObjectMetadataDefinition'')),
    Sig ''Name'' [] (Some (GoPtr GoString)), Sig ''Node'' [] (Some (GoNamed ''constructs.Node'')),
    Sig ''AddDependency'' [Rest ''dependencies'' (GoNamed ''constructs.IConstruct'')] None,
    Sig ''AddJsonPatch'' [Rest ''ops'' (GoNamed ''cdk8s.JsonPatch'')] None,
    Sig ''ToJson'' [] (Some GoAny), Sig ''ToString'' [] (Some (GoPtr GoString))]"

definition KubeIngress_getters :: "gofun list" where
  "KubeIngress_getters =
   [Method (Sig ''ApiGroup'' [] (Some (GoPtr GoString))) (Getter ''apiGroup''),
    Method (Sig ''ApiVersion'' [] (Some (GoPtr GoString))) (Getter ''apiVersion''),
    Method (Sig ''Chart'' [] (Some (GoNamed ''cdk8s.Chart''))) (Getter ''chart''),
    Method (Sig ''Kind'' [] (Some (GoPtr GoString))) (Getter ''kind''),
    Method (Sig ''Metadata'' [] (Some (GoNamed ''cdk8s.ApiObjectMetadataDefinition'')))
      (Getter ''metadata''),
    Method (Sig ''Name'' [] (Some (GoPtr GoString))) (Getter ''name''),
    Method (Sig ''Node'' [] (Some (GoNamed ''constructs.Node''))) (Getter ''node'')]"

definition KubeIngress_functions :: "gofun list" where
  "KubeIngress_functions =
   [Func (Sig ''NewKubeIngress'' [
         Param ''scope'' (GoNamed ''constructs.Construct''), Param ''id'' (GoPtr GoString),
         Param ''props'' (GoPtr (GoNamed ''KubeIngressProps''))] (Some (GoNamed ''KubeIngress'')))
      (Construct ''k8s.KubeIngress'' [''scope'', ''id'', ''props''] ''validateNewKubeIngressParameters''),
    Func (Sig ''NewKubeIngress_Override'' [
         Param ''k'' (GoNamed ''KubeIngress''), Param ''scope'' (GoNamed ''constructs.Construct''),
         Param ''id'' (GoPtr GoString), Param ''props'' (GoPtr (GoNamed ''KubeIngressProps''))] None)
      (ConstructOverride ''k8s.KubeIngress'' [''scope'', ''id'', ''props'']),
    Func (Sig ''KubeIngress_IsApiObject'' [Param ''o'' GoAny] (Some (GoPtr GoBool)))
      (StaticCall ''k8s.KubeIngress'' ''isApiObject'' [''o''] ''validateKubeIngress_IsApiObjectParameters''),
    Func (Sig ''KubeIngress_IsConstruct'' [Param ''x'' GoAny] (Some (GoPtr GoBool)))
      (StaticCall ''k8s.KubeIngress'' ''isConstruct'' [''x''] ''validateKubeIngress_IsConstructParameters''),
    Func (Sig ''KubeIngress_Manifest'' [Param ''props'' (GoPtr (GoNamed ''KubeIngressProps''))] (Some GoAny))
      (StaticCall ''k8s.KubeIngress'' ''manifest'' [''props''] ''validateKubeIngress_ManifestParameters''),
    Func (Sig ''KubeIngress_Of'' [Param ''c'' (GoNamed ''constructs.IConstruct'')] (Some (GoNamed ''cdk8s.ApiObject'')))
      (StaticCall ''k8s.KubeIngress'' ''of'' [''c''] ''validateKubeIngress_OfParameters''),
    Func (Sig ''KubeIngress_GVK'' [] (Some (GoPtr (GoNamed ''cdk8s.GroupVersionKind''))))
      (StaticProp ''k8s.KubeIngress'' ''GVK'')]"

definition KubeIngress_methods :: "gofun list" where
  "KubeIngress_methods =
   [Method (Sig ''AddDependency'' [Rest ''dependencies'' (GoNamed ''constructs.IConstruct'')] None)
      (Variadic ''addDependency''),
    Method (Sig ''AddJsonPatch'' [Rest ''ops'' (GoNamed ''cdk8s.JsonPatch'')] None)
      (Variadic ''addJsonPatch''),
    Method (Sig ''ToJson'' [] (Some GoAny)) (Plain ''toJson''),
    Method (Sig ''ToString'' [] (Some (GoPtr GoString))) (Plain ''toString'')]"

definition KubeIngress :: binding where
  "KubeIngress = Binding ''KubeIngress'' [''internal.Type__cdk8sApiObject'']
     (KubeIngress_getters @ KubeIngress_functions @ KubeIngress_methods)"

definition KubeIngress_checks :: validators where
  "KubeIngress_checks =
   [(''validateKubeIngress_IsApiObjectParameters'', [NotNil ''o'']),
    (''validateKubeIngress_IsConstructParameters'', [NotNil ''x'']),
    (''validateKubeIngress_ManifestParameters'', [ValidStruct ''props'']),
    (''validateKubeIngress_OfParameters'', [NotNil ''c'']),
    (''validateNewKubeIngressParameters'', [NotNil ''scope'', NotNil ''id'', ValidStruct ''props''])]"

definition KubeIngress_no_checks :: validators where
  "KubeIngress_no_checks =
   [(''validateKubeIngress_IsApiObjectParameters'', []),
    (''validateKubeIngress_IsConstructParameters'', []),
    (''validateKubeIngress_ManifestParameters'', []), (''validateKubeIngress_OfParameters'', []),
    (''validateNewKubeIngressParameters'', [])]"

lemma KubeIngress_ok [class_checks]: "classOk (KubeIngress, KubeIngress_checks)"
  by (rule classOptional_I [where s = KubeIngressProps], simp only: table_members)
    (simp_all only: KubeIngress_def KubeIngress_getters_def KubeIngress_functions_def
      KubeIngress_methods_def KubeIngress_checks_def KubeIngressProps_def class_eval)

lemma KubeIngress_declared [class_interfaces]:
  "KubeIngress_interface = apiObjectInterface ''KubeIngress''"
  "KubeIngress_no_checks = apiObjectNoChecks ''KubeIngress''"
  by (simp_all only: KubeIngress_interface_def KubeIngress_no_checks_def declared_eval)

definition KubeIngressClass_interface :: interface where
  "KubeIngressClass_interface = Interface ''KubeIngressClass'' [''cdk8s.ApiObject'']
   [Sig ''ApiGroup'' [] (Some (GoPtr GoString)), Sig ''ApiVersion'' [] (Some (GoPtr GoString)),
    Sig ''Chart'' [] (Some (GoNamed ''cdk8s.Chart'')), Sig ''Kind'' [] (Some (GoPtr GoString)),
    Sig ''Metadata'' [] (Some (GoNamed ''cdk8s.ApiObjectMetadataDefinition'')),
    Sig ''Name'' [] (Some (GoPtr GoString)), Sig ''Node'' [] (Some (GoNamed ''constructs.Node'')),
    Sig ''AddDependency'' [Rest ''dependencies'' (GoNamed ''constructs.IConstruct'')] None,
    Sig ''AddJsonPatch'' [Rest ''ops'' (GoNamed ''cdk8s.JsonPatch'')] None,
    Sig ''ToJson'' [] (Some GoAny), Sig ''ToString'' [] (Some (GoPtr GoString))]"

definition KubeIngressClass_getters :: "gofun list" where
  "KubeIngressClass_getters =
   [Method (Sig ''ApiGroup'' [] (Some (GoPtr GoString))) (Getter ''apiGroup''),
    Method (Sig ''ApiVersion'' [] (Some (GoPtr GoString))) (Getter ''apiVersion''),
    Method (Sig ''Chart'' [] (Some (GoNamed ''cdk8s.Chart''))) (Getter ''chart''),
    Method (Sig ''Kind'' [] (Some (GoPtr GoString))) (Getter ''kind''),
    Method (Sig ''Metadata'' [] (Some (GoNamed ''cdk8s.ApiObjectMetadataDefinition'')))
      (Getter ''metadata''),
    Method (Sig ''Name'' [] (Some (GoPtr GoString))) (Getter ''name''),
    Method (Sig ''Node'' [] (Some (GoNamed ''constructs.Node''))) (Getter ''node'')]"

definition KubeIngressClass_functions :: "gofun list" where
  "KubeIngressClass_functions =
   [Func (Sig ''NewKubeIngressClass'' [
         Param ''scope'' (GoNamed ''constructs.Construct''), Param ''id'' (GoPtr GoString),
         Param ''props'' (GoPtr (GoNamed ''KubeIngressClassProps''))] (Some (GoNamed ''KubeIngressClass'')))
      (Construct ''k8s.KubeIngressClass'' [''scope'', ''id'', ''props''] ''validateNewKubeIngressClassParameters''),
    Func (Sig ''NewKubeIngressClass_Override'' [
         Param ''k'' (GoNamed ''KubeIngressClass''), Param ''scope'' (GoNamed ''constructs.Construct''),
         Param ''id'' (GoPtr GoString), Param ''props'' (GoPtr (GoNamed ''KubeIngressClassProps''))] None)
      (ConstructOverride ''k8s.KubeIngressClass'' [''scope'', ''id'', ''props'']),
    Func (Sig ''KubeIngressClass_IsApiObject'' [Param ''o'' GoAny] (Some (GoPtr GoBool)))
      (StaticCall ''k8s.KubeIngressClass'' ''isApiObject'' [''o''] ''validateKubeIngressClass_IsApiObjectParameters''),
    Func (Sig ''KubeIngressClass_IsConstruct'' [Param ''x'' GoAny] (Some (GoPtr GoBool)))
      (StaticCall ''k8s.KubeIngressClass'' ''isConstruct'' [''x''] ''validateKubeIngressClass_IsConstructParameters''),
    Func (Sig ''KubeIngressClass_Manifest'' [Param ''props'' (GoPtr (GoNamed ''KubeIngressClassProps''))] (Some GoAny))
      (StaticCall ''k8s.KubeIngressClass'' ''manifest'' [''props''] ''validateKubeIngressClass_ManifestParameters''),
    Func (Sig ''KubeIngressClass_Of'' [Param ''c'' (GoNamed ''constructs.IConstruct'')] (Some (GoNamed ''cdk8s.ApiObject'')))
      (StaticCall ''k8s.KubeIngressClass'' ''of'' [''c''] ''validateKubeIngressClass_OfParameters''),
    Func (Sig ''KubeIngressClass_GVK'' [] (Some (GoPtr (GoNamed ''cdk8s.GroupVersionKind''))))
      (StaticProp ''k8s.KubeIngressClass'' ''GVK'')]"

definition KubeIngressClass_methods :: "gofun list" where
  "KubeIngressClass_methods =
   [Method (Sig ''AddDependency'' [Rest ''dependencies'' (GoNamed ''constructs.IConstruct'')] None)
      (Variadic ''addDependency''),
    Method (Sig ''AddJsonPatch'' [Rest ''ops'' (GoNamed ''cdk8s.JsonPatch'')] None)
      (Variadic ''addJsonPatch''),
    Method (Sig ''ToJson'' [] (Some GoAny)) (Plain ''toJson''),
    Method (Sig ''ToString'' [] (Some (GoPtr GoString))) (Plain ''toString'')]"

definition KubeIngressClass :: binding where
  "KubeIngressClass = Binding ''KubeIngressClass'' [''internal.Type__cdk8sApiObject'']
     (KubeIngressClass_getters @ KubeIngressClass_functions @ KubeIngressClass_methods)"

definition KubeIngressClass_checks :: validators where
  "KubeIngressClass_checks =
   [(''validateKubeIngressClass_IsApiObjectParameters'', [NotNil ''o'']),
    (''validateKubeIngressClass_IsConstructParameters'', [NotNil ''x'']),
    (''validateKubeIngressClass_ManifestParameters'', [ValidStruct ''props'']),
    (''validateKubeIngressClass_OfParameters'', [NotNil ''c'']),
    (''validateNewKubeIngressClassParameters'', [NotNil ''scope'', NotNil ''id'', ValidStruct ''props''])]"

definition KubeIngressClass_no_checks :: validators where
  "KubeIngressClass_no_checks =
   [(''validateKubeIngressClass_IsApiObjectParameters'', []),
    (''validateKubeIngressClass_IsConstructParameters'', []),
    (''validateKubeIngressClass_ManifestParameters'', []),
    (''validateKubeIngressClass_OfParameters'', []), (''validateNewKubeIngressClassParameters'', [])]"

lemma KubeIngressClass_ok [class_checks]: "classOk (KubeIngressClass, KubeIngressClass_checks)"
  by (rule classOptional_I [where s = KubeIngressClassProps], simp only: table_members)
    (simp_all only: KubeIngressClass_def KubeIngressClass_getters_def KubeIngressClass_functions_def
      KubeIngressClass_methods_def KubeIngressClass_checks_def KubeIngressClassProps_def class_eval)

lemma KubeIngressClass_declared [class_interfaces]:
  "KubeIngressClass_interface = apiObjectInterface ''KubeIngressClass''"
  "KubeIngressClass_no_checks = apiObjectNoChecks ''KubeIngressClass''"
  by (simp_all only: KubeIngressClass_interface_def KubeIngressClass_no_checks_def declared_eval)

definition KubeIngressClassList_interface :: interface where
  "KubeIngressClassList_interface = Interface ''KubeIngressClassList'' [''cdk8s.ApiObject'']
   [Sig ''ApiGroup'' [] (Some (GoPtr GoString)), Sig ''ApiVersion'' [] (Some (GoPtr GoString)),
    Sig ''Chart'' [] (Some (GoNamed ''cdk8s.Chart'')), Sig ''Kind'' [] (Some (GoPtr GoString)),
    Sig ''Metadata'' [] (Some (GoNamed ''cdk8s.ApiObjectMetadataDefinition'')),
    Sig ''Name'' [] (Some (GoPtr GoString)), Sig ''Node'' [] (Some (GoNamed ''constructs.Node'')),
    Sig ''AddDependency'' [Rest ''dependencies'' (GoNamed ''constructs.IConstruct'')] None,
    Sig ''AddJsonPatch'' [Rest ''ops'' (GoNamed ''cdk8s.JsonPatch'')] None,
    Sig ''ToJson'' [] (Some GoAny), Sig ''ToString'' [] (Some (GoPtr GoString))]"

definition KubeIngressClassList_getters :: "gofun list" where
  "KubeIngressClassList_getters =
   [Method (Sig ''ApiGroup'' [] (Some (GoPtr GoString))) (Getter ''apiGroup''),
    Method (Sig ''ApiVersion'' [] (Some (GoPtr GoString))) (Getter ''apiVersion''),
    Method (Sig ''Chart'' [] (Some (GoNamed ''cdk8s.Chart''))) (Getter ''chart''),
    Method (Sig ''Kind'' [] (Some (GoPtr GoString))) (Getter ''kind''),
    Method (Sig ''Metadata'' [] (Some (GoNamed ''cdk8s.ApiObjectMetadataDefinition'')))
      (Getter ''metadata''),
    Method (Sig ''Name'' [] (Some (GoPtr GoString))) (Getter ''name''),
    Method (Sig ''Node'' [] (Some (GoNamed ''constructs.Node''))) (Getter ''node'')]"

definition KubeIngressClassList_functions :: "gofun list" where
  "KubeIngressClassList_functions =
   [Func (Sig ''NewKubeIngressClassList'' [
         Param ''scope'' (GoNamed ''constructs.Construct''), Param ''id'' (GoPtr GoString),
         Param ''props'' (GoPtr (GoNamed ''KubeIngressClassListProps''))] (Some (GoNamed ''KubeIngressClassList'')))
      (Construct ''k8s.KubeIngressClassList'' [''scope'', ''id'', ''props''] ''validateNewKubeIngressClassListParameters''),
    Func (Sig ''NewKubeIngressClassList_Override'' [
         Param ''k'' (GoNamed ''KubeIngressClassList''),
         Param ''scope'' (GoNamed ''constructs.Construct''), Param ''id'' (GoPtr GoString),
         Param ''props'' (GoPtr (GoNamed ''KubeIngressClassListProps''))] None)
      (ConstructOverride ''k8s.KubeIngressClassList'' [''scope'', ''id'', ''props'']),
    Func (Sig ''KubeIngressClassList_IsApiObject'' [Param ''o'' GoAny] (Some (GoPtr GoBool)))
      (StaticCall ''k8s.KubeIngressClassList'' ''isApiObject'' [''o''] ''validateKubeIngressClassList_IsApiObjectParameters''),
    Func (Sig ''KubeIngressClassList_IsConstruct'' [Param ''x'' GoAny] (Some (GoPtr GoBool)))
      (StaticCall ''k8s.KubeIngressClassList'' ''isConstruct'' [''x''] ''validateKubeIngressClassList_IsConstructParameters''),
    Func (Sig ''KubeIngressClassList_Manifest'' [Param ''props'' (GoPtr (GoNamed ''KubeIngressClassListProps''))] (Some GoAny))
      (StaticCall ''k8s.KubeIngressClassList'' ''manifest'' [''props''] ''validateKubeIngressClassList_ManifestParameters''),
    Func (Sig ''KubeIngressClassList_Of'' [Param ''c'' (GoNamed ''constructs.IConstruct'')] (Some (GoNamed ''cdk8s.ApiObject'')))
      (StaticCall ''k8s.KubeIngressClassList'' ''of'' [''c''] ''validateKubeIngressClassList_OfParameters''),
    Func (Sig ''KubeIngressClassList_GVK'' [] (Some (GoPtr (GoNamed ''cdk8s.GroupVersionKind''))))
      (StaticProp ''k8s.KubeIngressClassList'' ''GVK'')]"

definition KubeIngressClassList_methods :: "gofun list" where
  "KubeIngressClassList_methods =
   [Method (Sig ''AddDependency'' [Rest ''dependencies'' (GoNamed ''constructs.IConstruct'')] None)
      (Variadic ''addDependency''),
    Method (Sig ''AddJsonPatch'' [Rest ''ops'' (GoNamed ''cdk8s.JsonPatch'')] None)
      (Variadic ''addJsonPatch''),
    Method (Sig ''ToJson'' [] (Some GoAny)) (Plain ''toJson''),
    Method (Sig ''ToString'' [] (Some (GoPtr GoString))) (Plain ''toString'')]"

definition KubeIngressClassList :: binding where
  "KubeIngressClassList = Binding ''KubeIngressClassList'' [''internal.Type__cdk8sApiObject'']
     (KubeIngressClassList_getters @ KubeIngressClassList_functions @ KubeIngressClassList_methods)"

definition KubeIngressClassList_checks :: validators where
  "KubeIngressClassList_checks =
   [(''validateKubeIngressClassList_IsApiObjectParameters'', [NotNil ''o'']),
    (''validateKubeIngressClassList_IsConstructParameters'', [NotNil ''x'']),
    (''validateKubeIngressClassList_ManifestParameters'', [NotNil ''props'', ValidStruct ''props'']),
    (''validateKubeIngressClassList_OfParameters'', [NotNil ''c'']),
    (''validateNewKubeIngressClassListParameters'', [NotNil ''scope'', NotNil ''id'', NotNil ''props'', ValidStruct ''props''])]"

definition KubeIngressClassList_no_checks :: validators where
  "KubeIngressClassList_no_checks =
   [(''validateKubeIngressClassList_IsApiObjectParameters'', []),
    (''validateKubeIngressClassList_IsConstructParameters'', []),
    (''validateKubeIngressClassList_ManifestParameters'', []),
    (''validateKubeIngressClassList_OfParameters'', []),
    (''validateNewKubeIngressClassListParameters'', [])]"

lemma KubeIngressClassList_ok [class_checks]: "classOk (KubeIngressClassList, KubeIngressClassList_checks)"
  by (rule classRequired_I [where s = KubeIngressClassListProps], simp only: table_members)
    (simp_all only: KubeIngressClassList_def KubeIngressClassList_getters_def KubeIngressClassList_functions_def
      KubeIngressClassList_methods_def KubeIngressClassList_checks_def KubeIngressClassListProps_def class_eval)

lemma KubeIngressClassList_declared [class_interfaces]:
  "KubeIngressClassList_interface = apiObjectInterface ''KubeIngressClassList''"
  "KubeIngressClassList_no_checks = apiObjectNoChecks ''KubeIngressClassList''"
  by (simp_all only: KubeIngressClassList_interface_def KubeIngressClassList_no_checks_def declared_eval)

definition KubeIngressList_interface :: interface where
  "KubeIngressList_interface = Interface ''KubeIngressList'' [''cdk8s.ApiObject'']
   [Sig ''ApiGroup'' [] (Some (GoPtr GoString)), Sig ''ApiVersion'' [] (Some (GoPtr GoString)),
    Sig ''Chart'' [] (Some (GoNamed ''cdk8s.Chart'')), Sig ''Kind'' [] (Some (GoPtr GoString)),
    Sig ''Metadata'' [] (Some (GoNamed ''cdk8s.ApiObjectMetadataDefinition'')),
    Sig ''Name'' [] (Some (GoPtr GoString)), Sig ''Node'' [] (Some (GoNamed ''constructs.Node'')),
    Sig ''AddDependency'' [Rest ''dependencies'' (GoNamed ''constructs.IConstruct'')] None,
    Sig ''AddJsonPatch'' [Rest ''ops'' (GoNamed ''cdk8s.JsonPatch'')] None,
    Sig ''ToJson'' [] (Some GoAny), Sig ''ToString'' [] (Some (GoPtr GoString))]"

definition KubeIngressList_getters :: "gofun list" where
  "KubeIngressList_getters =
   [Method (Sig ''ApiGroup'' [] (Some (GoPtr GoString))) (Getter ''apiGroup''),
    Method (Sig ''ApiVersion'' [] (Some (GoPtr GoString))) (Getter ''apiVersion''),
    Method (Sig ''Chart'' [] (Some (GoNamed ''cdk8s.Chart''))) (Getter ''chart''),
    Method (Sig ''Kind'' [] (Some (GoPtr GoString))) (Getter ''kind''),
    Method (Sig ''Metadata'' [] (Some (GoNamed ''cdk8s.ApiObjectMetadataDefinition'')))
      (Getter ''metadata''),
    Method (Sig ''Name'' [] (Some (GoPtr GoString))) (Getter ''name''),
    Method (Sig ''Node'' [] (Some (GoNamed ''constructs.Node''))) (Getter ''node'')]"

definition KubeIngressList_functions :: "gofun list" where
  "KubeIngressList_functions =
   [Func (Sig ''NewKubeIngressList'' [
         Param ''scope'' (GoNamed ''constructs.Construct''), Param ''id'' (GoPtr GoString),
         Param ''props'' (GoPtr (GoNamed ''KubeIngressListProps''))] (Some (GoNamed ''KubeIngressList'')))
      (Construct ''k8s.KubeIngressList'' [''scope'', ''id'', ''props''] ''validateNewKubeIngressListParameters''),
    Func (Sig ''NewKubeIngressList_Override'' [
         Param ''k'' (GoNamed ''KubeIngressList''), Param ''scope'' (GoNamed ''constructs.Construct''),
         Param ''id'' (GoPtr GoString), Param ''props'' (GoPtr (GoNamed ''KubeIngressListProps''))] None)
      (ConstructOverride ''k8s.KubeIngressList'' [''scope'', ''id'', ''props'']),
    Func (Sig ''KubeIngressList_IsApiObject'' [Param ''o'' GoAny] (Some (GoPtr GoBool)))
      (StaticCall ''k8s.KubeIngressList'' ''isApiObject'' [''o''] ''validateKubeIngressList_IsApiObjectParameters''),
    Func (Sig ''KubeIngressList_IsConstruct'' [Param ''x'' GoAny] (Some (GoPtr GoBool)))
      (StaticCall ''k8s.KubeIngressList'' ''isConstruct'' [''x''] ''validateKubeIngressList_IsConstructParameters''),
    Func (Sig ''KubeIngressList_Manifest'' [Param ''props'' (GoPtr (GoNamed ''KubeIngressListProps''))] (Some GoAny))
      (StaticCall ''k8s.KubeIngressList'' ''manifest'' [''props''] ''validateKubeIngressList_ManifestParameters''),
    Func (Sig ''KubeIngressList_Of'' [Param ''c'' (GoNamed ''constructs.IConstruct'')] (Some (GoNamed ''cdk8s.ApiObject'')))
      (StaticCall ''k8s.KubeIngressList'' ''of'' [''c''] ''validateKubeIngressList_OfParameters''),
    Func (Sig ''KubeIngressList_GVK'' [] (Some (GoPtr (GoNamed ''cdk8s.GroupVersionKind''))))
      (StaticProp ''k8s.KubeIngressList'' ''GVK'')]"

definition KubeIngressList_methods :: "gofun list" where
  "KubeIngressList_methods =
   [Method (Sig ''AddDependency'' [Rest ''dependencies'' (GoNamed ''constructs.IConstruct'')] None)
      (Variadic ''addDependency''),
    Method (Sig ''AddJsonPatch'' [Rest ''ops'' (GoNamed ''cdk8s.JsonPatch'')] None)
      (Variadic ''addJsonPatch''),
    Method (Sig ''ToJson'' [] (Some GoAny)) (Plain ''toJson''),
    Method (Sig ''ToString'' [] (Some (GoPtr GoString))) (Plain ''toString'')]"

definition KubeIngressList :: binding where
  "KubeIngressList = Binding ''KubeIngressList'' [''internal.Type__cdk8sApiObject'']
     (KubeIngressList_getters @ KubeIngressList_functions @ KubeIngressList_methods)"

definition KubeIngressList_checks :: validators where
  "KubeIngressList_checks =
   [(''validateKubeIngressList_IsApiObjectParameters'', [NotNil ''o'']),
    (''validateKubeIngressList_IsConstructParameters'', [NotNil ''x'']),
    (''validateKubeIngressList_ManifestParameters'', [NotNil ''props'', ValidStruct ''props'']),
    (''validateKubeIngressList_OfParameters'', [NotNil ''c'']),
    (''validateNewKubeIngressListParameters'', [NotNil ''scope'', NotNil ''id'', NotNil ''props'', ValidStruct ''props''])]"

definition KubeIngressList_no_checks :: validators where
  "KubeIngressList_no_checks =
   [(''validateKubeIngressList_IsApiObjectParameters'', []),
    (''validateKubeIngressList_IsConstructParameters'', []),
    (''validateKubeIngressList_ManifestParameters'', []),
    (''validateKubeIngressList_OfParameters'', []), (''validateNewKubeIngressListParameters'', [])]"

lemma KubeIngressList_ok [class_checks]: "classOk (KubeIngressList, KubeIngressList_checks)"
  by (rule classRequired_I [where s = KubeIngressListProps], simp only: table_members)
    (simp_all only: KubeIngressList_def KubeIngressList_getters_def KubeIngressList_functions_def
      KubeIngressList_methods_def KubeIngressList_checks_def KubeIngressListProps_def class_eval)

lemma KubeIngressList_declared [class_interfaces]:
  "KubeIngressList_interface = apiObjectInterface ''KubeIngressList''"
  "KubeIngressList_no_checks = apiObjectNoChecks ''KubeIngressList''"
  by (simp_all only: KubeIngressList_interface_def KubeIngressList_no_checks_def declared_eval)

definition KubeJob_interface :: interface where
  "KubeJob_interface = Interface ''KubeJob'' [''cdk8s.ApiObject'']
   [Sig ''ApiGroup'' [] (Some (GoPtr GoString)), Sig ''ApiVersion'' [] (Some (GoPtr GoString)),
    Sig ''Chart'' [] (Some (GoNamed ''cdk8s.Chart'')), Sig ''Kind'' [] (Some (GoPtr GoString)),
    Sig ''Metadata'' [] (Some (GoNamed ''cdk8s.ApiObjectMetadataDefinition'')),
    Sig ''Name'' [] (Some (GoPtr GoString)), Sig ''Node'' [] (Some (GoNamed ''constructs.Node'')),
    Sig ''AddDependency'' [Rest ''dependencies'' (GoNamed ''constructs.IConstruct'')] None,
    Sig ''AddJsonPatch'' [Rest ''ops'' (GoNamed ''cdk8s.JsonPatch'')] None,
    Sig ''ToJson'' [] (Some GoAny), Sig ''ToString'' [] (Some (GoPtr GoString))]"

definition KubeJob_getters :: "gofun list" where
  "KubeJob_getters =
   [Method (Sig ''ApiGroup'' [] (Some (GoPtr GoString))) (Getter ''apiGroup''),
    Method (Sig ''ApiVersion'' [] (Some (GoPtr GoString))) (Getter ''apiVersion''),
    Method (Sig ''Chart'' [] (Some (GoNamed ''cdk8s.Chart''))) (Getter ''chart''),
    Method (Sig ''Kind'' [] (Some (GoPtr GoString))) (Getter ''kind''),
    Method (Sig ''Metadata'' [] (Some (GoNamed ''cdk8s.ApiObjectMetadataDefinition'')))
      (Getter ''metadata''),
    Method (Sig ''Name'' [] (Some (GoPtr GoString))) (Getter ''name''),
    Method (Sig ''Node'' [] (Some (GoNamed ''constructs.Node''))) (Getter ''node'')]"

definition KubeJob_functions :: "gofun list" where
  "KubeJob_functions =
   [Func (Sig ''NewKubeJob'' [
         Param ''scope'' (GoNamed ''constructs.Construct''), Param ''id'' (GoPtr GoString),
         Param ''props'' (GoPtr (GoNamed ''KubeJobProps''))] (Some (GoNamed ''KubeJob'')))
      (Construct ''k8s.KubeJob'' [''scope'', ''id'', ''props''] ''validateNewKubeJobParameters''),
    Func (Sig ''NewKubeJob_Override'' [
         Param ''k'' (GoNamed ''KubeJob''), Param ''scope'' (GoNamed ''constructs.Construct''),
         Param ''id'' (GoPtr GoString), Param ''props'' (GoPtr (GoNamed ''KubeJobProps''))] None)
      (ConstructOverride ''k8s.KubeJob'' [''scope'', ''id'', ''props'']),
    Func (Sig ''KubeJob_IsApiObject'' [Param ''o'' GoAny] (Some (GoPtr GoBool)))
      (StaticCall ''k8s.KubeJob'' ''isApiObject'' [''o''] ''validateKubeJob_IsApiObjectParameters''),
    Func (Sig ''KubeJob_IsConstruct'' [Param ''x'' GoAny] (Some (GoPtr GoBool)))
      (StaticCall ''k8s.KubeJob'' ''isConstruct'' [''x''] ''validateKubeJob_IsConstructParameters''),
    Func (Sig ''KubeJob_Manifest'' [Param ''props'' (GoPtr (GoNamed ''KubeJobProps''))] (Some GoAny))
      (StaticCall ''k8s.KubeJob'' ''manifest'' [''props''] ''validateKubeJob_ManifestParameters''),
    Func (Sig ''KubeJob_Of'' [Param ''c'' (GoNamed ''constructs.IConstruct'')] (Some (GoNamed ''cdk8s.ApiObject'')))
      (StaticCall ''k8s.KubeJob'' ''of'' [''c''] ''validateKubeJob_OfParameters''),
    Func (Sig ''KubeJob_GVK'' [] (Some (GoPtr (GoNamed ''cdk8s.GroupVersionKind''))))
      (StaticProp ''k8s.KubeJob'' ''GVK'')]"

definition KubeJob_methods :: "gofun list" where
  "KubeJob_methods =
   [Method (Sig ''AddDependency'' [Rest ''dependencies'' (GoNamed ''constructs.IConstruct'')] None)
      (Variadic ''addDependency''),
    Method (Sig ''AddJsonPatch'' [Rest ''ops'' (GoNamed ''cdk8s.JsonPatch'')] None)
      (Variadic ''addJsonPatch''),
    Method (Sig ''ToJson'' [] (Some GoAny)) (Plain ''toJson''),
    Method (Sig ''ToString'' [] (Some (GoPtr GoString))) (Plain ''toString'')]"

definition KubeJob :: binding where
  "KubeJob = Binding ''KubeJob'' [''internal.Type__cdk8sApiObject'']
     (KubeJob_getters @ KubeJob_functions @ KubeJob_methods)"

definition KubeJob_checks :: validators where
  "KubeJob_checks =
   [(''validateKubeJob_IsApiObjectParameters'', [NotNil ''o'']),
    (''validateKubeJob_IsConstructParameters'', [NotNil ''x'']),
    (''validateKubeJob_ManifestParameters'', [ValidStruct ''props'']),
    (''validateKubeJob_OfParameters'', [NotNil ''c'']),
    (''validateNewKubeJobParameters'', [NotNil ''scope'', NotNil ''id'', ValidStruct ''props''])]"

definition KubeJob_no_checks :: validators where
  "KubeJob_no_checks =
   [(''validateKubeJob_IsApiObjectParameters'', []),
    (''validateKubeJob_IsConstructParameters'', []), (''validateKubeJob_ManifestParameters'', []),
    (''validateKubeJob_OfParameters'', []), (''validateNewKubeJobParameters'', [])]"

lemma KubeJob_ok [class_checks]: "classOk (KubeJob, KubeJob_checks)"
  by (rule classOptional_I [where s = KubeJobProps], simp only: table_members)
    (simp_all only: KubeJob_def KubeJob_getters_def KubeJob_functions_def
      KubeJob_methods_def KubeJob_checks_def KubeJobProps_def class_eval)

lemma KubeJob_declared [class_interfaces]:
  "KubeJob_interface = apiObjectInterface ''KubeJob''"
  "KubeJob_no_checks = apiObjectNoChecks ''KubeJob''"
  by (simp_all only: KubeJob_interface_def KubeJob_no_checks_def declared_eval)

definition KubeJobList_interface :: interface where
  "KubeJobList_interface = Interface ''KubeJobList'' [''cdk8s.ApiObject'']
   [Sig ''ApiGroup'' [] (Some (GoPtr GoString)), Sig ''ApiVersion'' [] (Some (GoPtr GoString)),
    Sig ''Chart'' [] (Some (GoNamed ''cdk8s.Chart'')), Sig ''Kind'' [] (Some (GoPtr GoString)),
    Sig ''Metadata'' [] (Some (GoNamed ''cdk8s.ApiObjectMetadataDefinition'')),
    Sig ''Name'' [] (Some (GoPtr GoString)), Sig ''Node'' [] (Some (GoNamed ''constructs.Node'')),
    Sig ''AddDependency'' [Rest ''dependencies'' (GoNamed ''constructs.IConstruct'')] None,
    Sig ''AddJsonPatch'' [Rest ''ops'' (GoNamed ''cdk8s.JsonPatch'')] None,
    Sig ''ToJson'' [] (Some GoAny), Sig ''ToString'' [] (Some (GoPtr GoString))]"

definition KubeJobList_getters :: "gofun list" where
  "KubeJobList_getters =
   [Method (Sig ''ApiGroup'' [] (Some (GoPtr GoString))) (Getter ''apiGroup''),
    Method (Sig ''ApiVersion'' [] (Some (GoPtr GoString))) (Getter ''apiVersion''),
    Method (Sig ''Chart'' [] (Some (GoNamed ''cdk8s.Chart''))) (Getter ''chart''),
    Method (Sig ''Kind'' [] (Some (GoPtr GoString))) (Getter ''kind''),
    Method (Sig ''Metadata'' [] (Some (GoNamed ''cdk8s.ApiObjectMetadataDefinition'')))
      (Getter ''metadata''),
    Method (Sig ''Name'' [] (Some (GoPtr GoString))) (Getter ''name''),
    Method (Sig ''Node'' [] (Some (GoNamed ''constructs.Node''))) (Getter ''node'')]"

definition KubeJobList_functions :: "gofun list" where
  "KubeJobList_functions =
   [Func (Sig ''NewKubeJobList'' [
         Param ''scope'' (GoNamed ''constructs.Construct''), Param ''id'' (GoPtr GoString),
         Param ''props'' (GoPtr (GoNamed ''KubeJobListProps''))] (Some (GoNamed ''KubeJobList'')))
      (Construct ''k8s.KubeJobList'' [''scope'', ''id'', ''props''] ''validateNewKubeJobListParameters''),
    Func (Sig ''NewKubeJobList_Override'' [
         Param ''k'' (GoNamed ''KubeJobList''), Param ''scope'' (GoNamed ''constructs.Construct''),
         Param ''id'' (GoPtr GoString), Param ''props'' (GoPtr (GoNamed ''KubeJobListProps''))] None)
      (ConstructOverride ''k8s.KubeJobList'' [''scope'', ''id'', ''props'']),
    Func (Sig ''KubeJobList_IsApiObject'' [Param ''o'' GoAny] (Some (GoPtr GoBool)))
      (StaticCall ''k8s.KubeJobList'' ''isApiObject'' [''o''] ''validateKubeJobList_IsApiObjectParameters''),
    Func (Sig ''KubeJobList_IsConstruct'' [Param ''x'' GoAny] (Some (GoPtr GoBool)))
      (StaticCall ''k8s.KubeJobList'' ''isConstruct'' [''x''] ''validateKubeJobList_IsConstructParameters''),
    Func (Sig ''KubeJobList_Manifest'' [Param ''props'' (GoPtr (GoNamed ''KubeJobListProps''))] (Some GoAny))
      (StaticCall ''k8s.KubeJobList'' ''manifest'' [''props''] ''validateKubeJobList_ManifestParameters''),
    Func (Sig ''KubeJobList_Of'' [Param ''c'' (GoNamed ''constructs.IConstruct'')] (Some (GoNamed ''cdk8s.ApiObject'')))
      (StaticCall ''k8s.KubeJobList'' ''of'' [''c''] ''validateKubeJobList_OfParameters''),
    Func (Sig ''KubeJobList_GVK'' [] (Some (GoPtr (GoNamed ''cdk8s.GroupVersionKind''))))
      (StaticProp ''k8s.KubeJobList'' ''GVK'')]"

definition KubeJobList_methods :: "gofun list" where
  "KubeJobList_methods =
   [Method (Sig ''AddDependency'' [Rest ''dependencies'' (GoNamed ''constructs.IConstruct'')] None)
      (Variadic ''addDependency''),
    Method (Sig ''AddJsonPatch'' [Rest ''ops'' (GoNamed ''cdk8s.JsonPatch'')] None)
      (Variadic ''addJsonPatch''),
    Method (Sig ''ToJson'' [] (Some GoAny)) (Plain ''toJson''),
    Method (Sig ''ToString'' [] (Some (GoPtr GoString))) (Plain ''toString'')]"

definition KubeJobList :: binding where
  "KubeJobList = Binding ''KubeJobList'' [''internal.Type__cdk8sApiObject'']
     (KubeJobList_getters @ KubeJobList_functions @ KubeJobList_methods)"

definition KubeJobList_checks :: validators where
  "KubeJobList_checks =
   [(''validateKubeJobList_IsApiObjectParameters'', [NotNil ''o'']),
    (''validateKubeJobList_IsConstructParameters'', [NotNil ''x'']),
    (''validateKubeJobList_ManifestParameters'', [NotNil ''props'', ValidStruct ''props'']),
    (''validateKubeJobList_OfParameters'', [NotNil ''c'']),
    (''validateNewKubeJobListParameters'', [NotNil ''scope'', NotNil ''id'', NotNil ''props'', ValidStruct ''props''])]"

definition KubeJobList_no_checks :: validators where
  "KubeJobList_no_checks =
   [(''validateKubeJobList_IsApiObjectParameters'', []),
    (''validateKubeJobList_IsConstructParameters'', []),
    (''validateKubeJobList_ManifestParameters'', []), (''validateKubeJobList_OfParameters'', []),
    (''validateNewKubeJobListParameters'', [])]"

lemma KubeJobList_ok [class_checks]: "classOk (KubeJobList, KubeJobList_checks)"
  by (rule classRequired_I [where s = KubeJobListProps], simp only: table_members)
    (simp_all only: KubeJobList_def KubeJobList_getters_def KubeJobList_functions_def
      KubeJobList_methods_def KubeJobList_checks_def KubeJobListProps_def class_eval)

lemma KubeJobList_declared [class_interfaces]:
  "KubeJobList_interface = apiObjectInterface ''KubeJobList''"
  "KubeJobList_no_checks = apiObjectNoChecks ''KubeJobList''"
  by (simp_all only: KubeJobList_interface_def KubeJobList_no_checks_def declared_eval)

definition KubeLease_interface :: interface where
  "KubeLease_interface = Interface ''KubeLease'' [''cdk8s.ApiObject'']
   [Sig ''ApiGroup'' [] (Some (GoPtr GoString)), Sig ''ApiVersion'' [] (Some (GoPtr GoString)),
    Sig ''Chart'' [] (Some (GoNamed ''cdk8s.Chart'')), Sig ''Kind'' [] (Some (GoPtr GoString)),
    Sig ''Metadata'' [] (Some (GoNamed ''cdk8s.ApiObjectMetadataDefinition'')),
    Sig ''Name'' [] (Some (GoPtr GoString)), Sig ''Node'' [] (Some (GoNamed ''constructs.Node'')),
    Sig ''AddDependency'' [Rest ''dependencies'' (GoNamed ''constructs.IConstruct'')] None,
    Sig ''AddJsonPatch'' [Rest ''ops'' (GoNamed ''cdk8s.JsonPatch'')] None,
    Sig ''ToJson'' [] (Some GoAny), Sig ''ToString'' [] (Some (GoPtr GoString))]"

definition KubeLease_getters :: "gofun list" where
  "KubeLease_getters =
   [Method (Sig ''ApiGroup'' [] (Some (GoPtr GoString))) (Getter ''apiGroup''),
    Method (Sig ''ApiVersion'' [] (Some (GoPtr GoString))) (Getter ''apiVersion''),
    Method (Sig ''Chart'' [] (Some (GoNamed ''cdk8s.Chart''))) (Getter ''chart''),
    Method (Sig ''Kind'' [] (Some (GoPtr GoString))) (Getter ''kind''),
    Method (Sig ''Metadata'' [] (Some (GoNamed ''cdk8s.ApiObjectMetadataDefinition'')))
      (Getter ''metadata''),
    Method (Sig ''Name'' [] (Some (GoPtr GoString))) (Getter ''name''),
    Method (Sig ''Node'' [] (Some (GoNamed ''constructs.Node''))) (Getter ''node'')]"

definition KubeLease_functions :: "gofun list" where
  "KubeLease_functions =
   [Func (Sig ''NewKubeLease'' [
         Param ''scope'' (GoNamed ''constructs.Construct''), Param ''id'' (GoPtr GoString),
         Param ''props'' (GoPtr (GoNamed ''KubeLeaseProps''))] (Some (GoNamed ''KubeLease'')))
      (Construct ''k8s.KubeLease'' [''scope'', ''id'', ''props''] ''validateNewKubeLeaseParameters''),
    Func (Sig ''NewKubeLease_Override'' [
         Param ''k'' (GoNamed ''KubeLease''), Param ''scope'' (GoNamed ''constructs.Construct''),
         Param ''id'' (GoPtr GoString), Param ''props'' (GoPtr (GoNamed ''KubeLeaseProps''))] None)
      (ConstructOverride ''k8s.KubeLease'' [''scope'', ''id'', ''props'']),
    Func (Sig ''KubeLease_IsApiObject'' [Param ''o'' GoAny] (Some (GoPtr GoBool)))
      (StaticCall ''k8s.KubeLease'' ''isApiObject'' [''o''] ''validateKubeLease_IsApiObjectParameters''),
    Func (Sig ''KubeLease_IsConstruct'' [Param ''x'' GoAny] (Some (GoPtr GoBool)))
      (StaticCall ''k8s.KubeLease'' ''isConstruct'' [''x''] ''validateKubeLease_IsConstructParameters''),
    Func (Sig ''KubeLease_Manifest'' [Param ''props'' (GoPtr (GoNamed ''KubeLeaseProps''))] (Some GoAny))
      (StaticCall ''k8s.KubeLease'' ''manifest'' [''props''] ''validateKubeLease_ManifestParameters''),
    Func (Sig ''KubeLease_Of'' [Param ''c'' (GoNamed ''constructs.IConstruct'')] (Some (GoNamed ''cdk8s.ApiObject'')))
      (StaticCall ''k8s.KubeLease'' ''of'' [''c''] ''validateKubeLease_OfParameters''),
    Func (Sig ''KubeLease_GVK'' [] (Some (GoPtr (GoNamed ''cdk8s.GroupVersionKind''))))
      (StaticProp ''k8s.KubeLease'' ''GVK'')]"

definition KubeLease_methods :: "gofun list" where
  "KubeLease_methods =
   [Method (Sig ''AddDependency'' [Rest ''dependencies'' (GoNamed ''constructs.IConstruct'')] None)
      (Variadic ''addDependency''),
    Method (Sig ''AddJsonPatch'' [Rest ''ops'' (GoNamed ''cdk8s.JsonPatch'')] None)
      (Variadic ''addJsonPatch''),
    Method (Sig ''ToJson'' [] (Some GoAny)) (Plain ''toJson''),
    Method (Sig ''ToString'' [] (Some (GoPtr GoString))) (Plain ''toString'')]"

definition KubeLease :: binding where
  "KubeLease = Binding ''KubeLease'' [''internal.Type__cdk8sApiObject'']
     (KubeLease_getters @ KubeLease_functions @ KubeLease_methods)"

definition KubeLease_checks :: validators where
  "KubeLease_checks =
   [(''validateKubeLease_IsApiObjectParameters'', [NotNil ''o'']),
    (''validateKubeLease_IsConstructParameters'', [NotNil ''x'']),
    (''validateKubeLease_ManifestParameters'', [ValidStruct ''props'']),
    (''validateKubeLease_OfParameters'', [NotNil ''c'']),
    (''validateNewKubeLeaseParameters'', [NotNil ''scope'', NotNil ''id'', ValidStruct ''props''])]"

definition KubeLease_no_checks :: validators where
  "KubeLease_no_checks =
   [(''validateKubeLease_IsApiObjectParameters'', []),
    (''validateKubeLease_IsConstructParameters'', []),
    (''validateKubeLease_ManifestParameters'', []), (''validateKubeLease_OfParameters'', []),
    (''validateNewKubeLeaseParameters'', [])]"

lemma KubeLease_ok [class_checks]: "classOk (KubeLease, KubeLease_checks)"
  by (rule classOptional_I [where s = KubeLeaseProps], simp only: table_members)
    (simp_all only: KubeLease_def KubeLease_getters_def KubeLease_functions_def
      KubeLease_methods_def KubeLease_checks_def KubeLeaseProps_def class_eval)

lemma KubeLease_declared [class_interfaces]:
  "KubeLease_interface = apiObjectInterface ''KubeLease''"
  "KubeLease_no_checks = apiObjectNoChecks ''KubeLease''"
  by (simp_all only: KubeLease_interface_def KubeLease_no_checks_def declared_eval)

definition KubeLeaseList_interface :: interface where
  "KubeLeaseList_interface = Interface ''KubeLeaseList'' [''cdk8s.ApiObject'']
   [Sig ''ApiGroup'' [] (Some (GoPtr GoString)), Sig ''ApiVersion'' [] (Some (GoPtr GoString)),
    Sig ''Chart'' [] (Some (GoNamed ''cdk8s.Chart'')), Sig ''Kind'' [] (Some (GoPtr GoString)),
    Sig ''Metadata'' [] (Some (GoNamed ''cdk8s.ApiObjectMetadataDefinition'')),
    Sig ''Name'' [] (Some (GoPtr GoString)), Sig ''Node'' [] (Some (GoNamed ''constructs.Node'')),
    Sig ''AddDependency'' [Rest ''dependencies'' (GoNamed ''constructs.IConstruct'')] None,
    Sig ''AddJsonPatch'' [Rest ''ops'' (GoNamed ''cdk8s.JsonPatch'')] None,
    Sig ''ToJson'' [] (Some GoAny), Sig ''ToString'' [] (Some (GoPtr GoString))]"

definition KubeLeaseList_getters :: "gofun list" where
  "KubeLeaseList_getters =
   [Method (Sig ''ApiGroup'' [] (Some (GoPtr GoString))) (Getter ''apiGroup''),
    Method (Sig ''ApiVersion'' [] (Some (GoPtr GoString))) (Getter ''apiVersion''),
    Method (Sig ''Chart'' [] (Some (GoNamed ''cdk8s.Chart''))) (Getter ''chart''),
    Method (Sig ''Kind'' [] (Some (GoPtr GoString))) (Getter ''kind''),
    Method (Sig ''Metadata'' [] (Some (GoNamed ''cdk8s.ApiObjectMetadataDefinition'')))
      (Getter ''metadata''),
    Method (Sig ''Name'' [] (Some (GoPtr GoString))) (Getter ''name''),
    Method (Sig ''Node'' [] (Some (GoNamed ''constructs.Node''))) (Getter ''node'')]"

definition KubeLeaseList_functions :: "gofun list" where
  "KubeLeaseList_functions =
   [Func (Sig ''NewKubeLeaseList'' [
         Param ''scope'' (GoNamed ''constructs.Construct''), Param ''id'' (GoPtr GoString),
         Param ''props'' (GoPtr (GoNamed ''KubeLeaseListProps''))] (Some (GoNamed ''KubeLeaseList'')))
      (Construct ''k8s.KubeLeaseList'' [''scope'', ''id'', ''props''] ''validateNewKubeLeaseListParameters''),
    Func (Sig ''NewKubeLeaseList_Override'' [
         Param ''k'' (GoNamed ''KubeLeaseList''), Param ''scope'' (GoNamed ''constructs.Construct''),
         Param ''id'' (GoPtr GoString), Param ''props'' (GoPtr (GoNamed ''KubeLeaseListProps''))] None)
      (ConstructOverride ''k8s.KubeLeaseList'' [''scope'', ''id'', ''props'']),
    Func (Sig ''KubeLeaseList_IsApiObject'' [Param ''o'' GoAny] (Some (GoPtr GoBool)))
      (StaticCall ''k8s.KubeLeaseList'' ''isApiObject'' [''o''] ''validateKubeLeaseList_IsApiObjectParameters''),
    Func (Sig ''KubeLeaseList_IsConstruct'' [Param ''x'' GoAny] (Some (GoPtr GoBool)))
      (StaticCall ''k8s.KubeLeaseList'' ''isConstruct'' [''x''] ''validateKubeLeaseList_IsConstructParameters''),
    Func (Sig ''KubeLeaseList_Manifest'' [Param ''props'' (GoPtr (GoNamed ''KubeLeaseListProps''))] (Some GoAny))
      (StaticCall ''k8s.KubeLeaseList'' ''manifest'' [''props''] ''validateKubeLeaseList_ManifestParameters''),
    Func (Sig ''KubeLeaseList_Of'' [Param ''c'' (GoNamed ''constructs.IConstruct'')] (Some (GoNamed ''cdk8s.ApiObject'')))
      (StaticCall ''k8s.KubeLeaseList'' ''of'' [''c''] ''validateKubeLeaseList_OfParameters''),
    Func (Sig ''KubeLeaseList_GVK'' [] (Some (GoPtr (GoNamed ''cdk8s.GroupVersionKind''))))
      (StaticProp ''k8s.KubeLeaseList'' ''GVK'')]"

definition KubeLeaseList_methods :: "gofun list" where
  "KubeLeaseList_methods =
   [Method (Sig ''AddDependency'' [Rest ''dependencies'' (GoNamed ''constructs.IConstruct'')] None)
      (Variadic ''addDependency''),
    Method (Sig ''AddJsonPatch'' [Rest ''ops'' (GoNamed ''cdk8s.JsonPatch'')] None)
      (Variadic ''addJsonPatch''),
    Method (Sig ''ToJson'' [] (Some GoAny)) (Plain ''toJson''),
    Method (Sig ''ToString'' [] (Some (GoPtr GoString))) (Plain ''toString'')]"

definition KubeLeaseList :: binding where
  "KubeLeaseList = Binding ''KubeLeaseList'' [''internal.Type__cdk8sApiObject'']
     (KubeLeaseList_getters @ KubeLeaseList_functions @ KubeLeaseList_methods)"

definition KubeLeaseList_checks :: validators where
  "KubeLeaseList_checks =
   [(''validateKubeLeaseList_IsApiObjectParameters'', [NotNil ''o'']),
    (''validateKubeLeaseList_IsConstructParameters'', [NotNil ''x'']),
    (''validateKubeLeaseList_ManifestParameters'', [NotNil ''props'', ValidStruct ''props'']),
    (''validateKubeLeaseList_OfParameters'', [NotNil ''c'']),
    (''validateNewKubeLeaseListParameters'', [NotNil ''scope'', NotNil ''id'', NotNil ''props'', ValidStruct ''props''])]"

definition KubeLeaseList_no_checks :: validators where
  "KubeLeaseList_no_checks =
   [(''validateKubeLeaseList_IsApiObjectParameters'', []),
    (''validateKubeLeaseList_IsConstructParameters'', []),
    (''validateKubeLeaseList_ManifestParameters'', []),
    (''validateKubeLeaseList_OfParameters'', []), (''validateNewKubeLeaseListParameters'', [])]"

lemma KubeLeaseList_ok [class_checks]: "classOk (KubeLeaseList, KubeLeaseList_checks)"
  by (rule classRequired_I [where s = KubeLeaseListProps], simp only: table_members)
    (simp_all only: KubeLeaseList_def KubeLeaseList_getters_def KubeLeaseList_functions_def
      KubeLeaseList_methods_def KubeLeaseList_checks_def KubeLeaseListProps_def class_eval)

lemma KubeLeaseList_declared [class_interfaces]:
  "KubeLeaseList_interface = apiObjectInterface ''KubeLeaseList''"
  "KubeLeaseList_no_checks = apiObjectNoChecks ''KubeLeaseList''"
  by (simp_all only: KubeLeaseList_interface_def KubeLeaseList_no_checks_def declared_eval)

definition KubeLimitRange_interface :: interface where
  "KubeLimitRange_interface = Interface ''KubeLimitRange'' [''cdk8s.ApiObject'']
   [Sig ''ApiGroup'' [] (Some (GoPtr GoString)), Sig ''ApiVersion'' [] (Some (GoPtr GoString)),
    Sig ''Chart'' [] (Some (GoNamed ''cdk8s.Chart'')), Sig ''Kind'' [] (Some (GoPtr GoString)),
    Sig ''Metadata'' [] (Some (GoNamed ''cdk8s.ApiObjectMetadataDefinition'')),
    Sig ''Name'' [] (Some (GoPtr GoString)), Sig ''Node'' [] (Some (GoNamed ''constructs.Node'')),
    Sig ''AddDependency'' [Rest ''dependencies'' (GoNamed ''constructs.IConstruct'')] None,
    Sig ''AddJsonPatch'' [Rest ''ops'' (GoNamed ''cdk8s.JsonPatch'')] None,
    Sig ''ToJson'' [] (Some GoAny), Sig ''ToString'' [] (Some (GoPtr GoString))]"

definition KubeLimitRange_getters :: "gofun list" where
  "KubeLimitRange_getters =
   [Method (Sig ''ApiGroup'' [] (Some (GoPtr GoString))) (Getter ''apiGroup''),
    Method (Sig ''ApiVersion'' [] (Some (GoPtr GoString))) (Getter ''apiVersion''),
    Method (Sig ''Chart'' [] (Some (GoNamed ''cdk8s.Chart''))) (Getter ''chart''),
    Method (Sig ''Kind'' [] (Some (GoPtr GoString))) (Getter ''kind''),
    Method (Sig ''Metadata'' [] (Some (GoNamed ''cdk8s.ApiObjectMetadataDefinition'')))
      (Getter ''metadata''),
    Method (Sig ''Name'' [] (Some (GoPtr GoString))) (Getter ''name''),
    Method (Sig ''Node'' [] (Some (GoNamed ''constructs.Node''))) (Getter ''node'')]"

definition KubeLimitRange_functions :: "gofun list" where
  "KubeLimitRange_functions =
   [Func (Sig ''NewKubeLimitRange'' [
         Param ''scope'' (GoNamed ''constructs.Construct''), Param ''id'' (GoPtr GoString),
         Param ''props'' (GoPtr (GoNamed ''KubeLimitRangeProps''))] (Some (GoNamed ''KubeLimitRange'')))
      (Construct ''k8s.KubeLimitRange'' [''scope'', ''id'', ''props''] ''validateNewKubeLimitRangeParameters''),
    Func (Sig ''NewKubeLimitRange_Override'' [
         Param ''k'' (GoNamed ''KubeLimitRange''), Param ''scope'' (GoNamed ''constructs.Construct''),
         Param ''id'' (GoPtr GoString), Param ''props'' (GoPtr (GoNamed ''KubeLimitRangeProps''))] None)
      (ConstructOverride ''k8s.KubeLimitRange'' [''scope'', ''id'', ''props'']),
    Func (Sig ''KubeLimitRange_IsApiObject'' [Param ''o'' GoAny] (Some (GoPtr GoBool)))
      (StaticCall ''k8s.KubeLimitRange'' ''isApiObject'' [''o''] ''validateKubeLimitRange_IsApiObjectParameters''),
    Func (Sig ''KubeLimitRange_IsConstruct'' [Param ''x'' GoAny] (Some (GoPtr GoBool)))
      (StaticCall ''k8s.KubeLimitRange'' ''isConstruct'' [''x''] ''validateKubeLimitRange_IsConstructParameters''),
    Func (Sig ''KubeLimitRange_Manifest'' [Param ''props'' (GoPtr (GoNamed ''KubeLimitRangeProps''))] (Some GoAny))
      (StaticCall ''k8s.KubeLimitRange'' ''manifest'' [''props''] ''validateKubeLimitRange_ManifestParameters''),
    Func (Sig ''KubeLimitRange_Of'' [Param ''c'' (GoNamed ''constructs.IConstruct'')] (Some (GoNamed ''cdk8s.ApiObject'')))
      (StaticCall ''k8s.KubeLimitRange'' ''of'' [''c''] ''validateKubeLimitRange_OfParameters''),
    Func (Sig ''KubeLimitRange_GVK'' [] (Some (GoPtr (GoNamed ''cdk8s.GroupVersionKind''))))
      (StaticProp ''k8s.KubeLimitRange'' ''GVK'')]"

definition KubeLimitRange_methods :: "gofun list" where
  "KubeLimitRange_methods =
   [Method (Sig ''AddDependency'' [Rest ''dependencies'' (GoNamed ''constructs.IConstruct'')] None)
      (Variadic ''addDependency''),
    Method (Sig ''AddJsonPatch'' [Rest ''ops'' (GoNamed ''cdk8s.JsonPatch'')] None)
      (Variadic ''addJsonPatch''),
    Method (Sig ''ToJson'' [] (Some GoAny)) (Plain ''toJson''),
    Method (Sig ''ToString'' [] (Some (GoPtr GoString))) (Plain ''toString'')]"

definition KubeLimitRange :: binding where
  "KubeLimitRange = Binding ''KubeLimitRange'' [''internal.Type__cdk8sApiObject'']
     (KubeLimitRange_getters @ KubeLimitRange_functions @ KubeLimitRange_methods)"

definition KubeLimitRange_checks :: validators where
  "KubeLimitRange_checks =
   [(''validateKubeLimitRange_IsApiObjectParameters'', [NotNil ''o'']),
    (''validateKubeLimitRange_IsConstructParameters'', [NotNil ''x'']),
    (''validateKubeLimitRange_ManifestParameters'', [ValidStruct ''props'']),
    (''validateKubeLimitRange_OfParameters'', [NotNil ''c'']),
    (''validateNewKubeLimitRangeParameters'', [NotNil ''scope'', NotNil ''id'', ValidStruct ''props''])]"

definition KubeLimitRange_no_checks :: validators where
  "KubeLimitRange_no_checks =
   [(''validateKubeLimitRange_IsApiObjectParameters'', []),
    (''validateKubeLimitRange_IsConstructParameters'', []),
    (''validateKubeLimitRange_ManifestParameters'', []),
    (''validateKubeLimitRange_OfParameters'', []), (''validateNewKubeLimitRangeParameters'', [])]"

lemma KubeLimitRange_ok [class_checks]: "classOk (KubeLimitRange, KubeLimitRange_checks)"
  by (rule classOptional_I [where s = KubeLimitRangeProps], simp only: table_members)
    (simp_all only: KubeLimitRange_def KubeLimitRange_getters_def KubeLimitRange_functions_def
      KubeLimitRange_methods_def KubeLimitRange_checks_def KubeLimitRangeProps_def class_eval)

lemma KubeLimitRange_declared [class_interfaces]:
  "KubeLimitRange_interface = apiObjectInterface ''KubeLimitRange''"
  "KubeLimitRange_no_checks = apiObjectNoChecks ''KubeLimitRange''"
  by (simp_all only: KubeLimitRange_interface_def KubeLimitRange_no_checks_def declared_eval)

definition KubeLimitRangeList_interface :: interface where
  "KubeLimitRangeList_interface = Interface ''KubeLimitRangeList'' [''cdk8s.ApiObject'']
   [Sig ''ApiGroup'' [] (Some (GoPtr GoString)), Sig ''ApiVersion'' [] (Some (GoPtr GoString)),
    Sig ''Chart'' [] (Some (GoNamed ''cdk8s.Chart'')), Sig ''Kind'' [] (Some (GoPtr GoString)),
    Sig ''Metadata'' [] (Some (GoNamed ''cdk8s.ApiObjectMetadataDefinition'')),
    Sig ''Name'' [] (Some (GoPtr GoString)), Sig ''Node'' [] (Some (GoNamed ''constructs.Node'')),
    Sig ''AddDependency'' [Rest ''dependencies'' (GoNamed ''constructs.IConstruct'')] None,
    Sig ''AddJsonPatch'' [Rest ''ops'' (GoNamed ''cdk8s.JsonPatch'')] None,
    Sig ''ToJson'' [] (Some GoAny), Sig ''ToString'' [] (Some (GoPtr GoString))]"

definition KubeLimitRangeList_getters :: "gofun list" where
  "KubeLimitRangeList_getters =
   [Method (Sig ''ApiGroup'' [] (Some (GoPtr GoString))) (Getter ''apiGroup''),
    Method (Sig ''ApiVersion'' [] (Some (GoPtr GoString))) (Getter ''apiVersion''),
    Method (Sig ''Chart'' [] (Some (GoNamed ''cdk8s.Chart''))) (Getter ''chart''),
    Method (Sig ''Kind'' [] (Some (GoPtr GoString))) (Getter ''kind''),
    Method (Sig ''Metadata'' [] (Some (GoNamed ''cdk8s.ApiObjectMetadataDefinition'')))
      (Getter ''metadata''),
    Method (Sig ''Name'' [] (Some (GoPtr GoString))) (Getter ''name''),
    Method (Sig ''Node'' [] (Some (GoNamed ''constructs.Node''))) (Getter ''node'')]"

definition KubeLimitRangeList_functions :: "gofun list" where
  "KubeLimitRangeList_functions =
   [Func (Sig ''NewKubeLimitRangeList'' [
         Param ''scope'' (GoNamed ''constructs.Construct''), Param ''id'' (GoPtr GoString),
         Param ''props'' (GoPtr (GoNamed ''KubeLimitRangeListProps''))] (Some (GoNamed ''KubeLimitRangeList'')))
      (Construct ''k8s.KubeLimitRangeList'' [''scope'', ''id'', ''props''] ''validateNewKubeLimitRangeListParameters''),
    Func (Sig ''NewKubeLimitRangeList_Override'' [
         Param ''k'' (GoNamed ''KubeLimitRangeList''),
         Param ''scope'' (GoNamed ''constructs.Construct''), Param ''id'' (GoPtr GoString),
         Param ''props'' (GoPtr (GoNamed ''KubeLimitRangeListProps''))] None)
      (ConstructOverride ''k8s.KubeLimitRangeList'' [''scope'', ''id'', ''props'']),
    Func (Sig ''KubeLimitRangeList_IsApiObject'' [Param ''o'' GoAny] (Some (GoPtr GoBool)))
      (StaticCall ''k8s.KubeLimitRangeList'' ''isApiObject'' [''o''] ''validateKubeLimitRangeList_IsApiObjectParameters''),
    Func (Sig ''KubeLimitRangeList_IsConstruct'' [Param ''x'' GoAny] (Some (GoPtr GoBool)))
      (StaticCall ''k8s.KubeLimitRangeList'' ''isConstruct'' [''x''] ''validateKubeLimitRangeList_IsConstructParameters''),
    Func (Sig ''KubeLimitRangeList_Manifest'' [Param ''props'' (GoPtr (GoNamed ''KubeLimitRangeListProps''))] (Some GoAny))
      (StaticCall ''k8s.KubeLimitRangeList'' ''manifest'' [''props''] ''validateKubeLimitRangeList_ManifestParameters''),
    Func (Sig ''KubeLimitRangeList_Of'' [Param ''c'' (GoNamed ''constructs.IConstruct'')] (Some (GoNamed ''cdk8s.ApiObject'')))
      (StaticCall ''k8s.KubeLimitRangeList'' ''of'' [''c''] ''validateKubeLimitRangeList_OfParameters''),
    Func (Sig ''KubeLimitRangeList_GVK'' [] (Some (GoPtr (GoNamed ''cdk8s.GroupVersionKind''))))
      (StaticProp ''k8s.KubeLimitRangeList'' ''GVK'')]"

definition KubeLimitRangeList_methods :: "gofun list" where
  "KubeLimitRangeList_methods =
   [Method (Sig ''AddDependency'' [Rest ''dependencies'' (GoNamed ''constructs.IConstruct'')] None)
      (Variadic ''addDependency''),
    Method (Sig ''AddJsonPatch'' [Rest ''ops'' (GoNamed ''cdk8s.JsonPatch'')] None)
      (Variadic ''addJsonPatch''),
    Method (Sig ''ToJson'' [] (Some GoAny)) (Plain ''toJson''),
    Method (Sig ''ToString'' [] (Some (GoPtr GoString))) (Plain ''toString'')]"

definition KubeLimitRangeList :: binding where
  "KubeLimitRangeList = Binding ''KubeLimitRangeList'' [''internal.Type__cdk8sApiObject'']
     (KubeLimitRangeList_getters @ KubeLimitRangeList_functions @ KubeLimitRangeList_methods)"

definition KubeLimitRangeList_checks :: validators where
  "KubeLimitRangeList_checks =
   [(''validateKubeLimitRangeList_IsApiObjectParameters'', [NotNil ''o'']),
    (''validateKubeLimitRangeList_IsConstructParameters'', [NotNil ''x'']),
    (''validateKubeLimitRangeList_ManifestParameters'', [NotNil ''props'', ValidStruct ''props'']),
    (''validateKubeLimitRangeList_OfParameters'', [NotNil ''c'']),
    (''validateNewKubeLimitRangeListParameters'', [NotNil ''scope'', NotNil ''id'', NotNil ''props'', ValidStruct ''props''])]"

definition KubeLimitRangeList_no_checks :: validators where
  "KubeLimitRangeList_no_checks =
   [(''validateKubeLimitRangeList_IsApiObjectParameters'', []),
    (''validateKubeLimitRangeList_IsConstructParameters'', []),
    (''validateKubeLimitRangeList_ManifestParameters'', []),
    (''validateKubeLimitRangeList_OfParameters'', []),
    (''validateNewKubeLimitRangeListParameters'', [])]"

lemma KubeLimitRangeList_ok [class_checks]: "classOk (KubeLimitRangeList, KubeLimitRangeList_checks)"
  by (rule classRequired_I [where s = KubeLimitRangeListProps], simp only: table_members)
    (simp_all only: KubeLimitRangeList_def KubeLimitRangeList_getters_def KubeLimitRangeList_functions_def
      KubeLimitRangeList_methods_def KubeLimitRangeList_checks_def KubeLimitRangeListProps_def class_eval)

lemma KubeLimitRangeList_declared [class_interfaces]:
  "KubeLimitRangeList_interface = apiObjectInterface ''KubeLimitRangeList''"
  "KubeLimitRangeList_no_checks = apiObjectNoChecks ''KubeLimitRangeList''"
  by (simp_all only: KubeLimitRangeList_interface_def KubeLimitRangeList_no_checks_def declared_eval)

definition classes_C :: "(binding \<times> validators) list" where
  "classes_C =
   [(KubeFlowSchemaListV1Beta1, KubeFlowSchemaListV1Beta1_checks),
    (KubeFlowSchemaListV1Beta2, KubeFlowSchemaListV1Beta2_checks),
    (KubeFlowSchemaV1Beta1, KubeFlowSchemaV1Beta1_checks),
    (KubeFlowSchemaV1Beta2, KubeFlowSchemaV1Beta2_checks),
    (KubeHorizontalPodAutoscaler, KubeHorizontalPodAutoscaler_checks),
    (KubeHorizontalPodAutoscalerList, KubeHorizontalPodAutoscalerList_checks),
    (KubeHorizontalPodAutoscalerListV2, KubeHorizontalPodAutoscalerListV2_checks),
    (KubeHorizontalPodAutoscalerListV2Beta2, KubeHorizontalPodAutoscalerListV2Beta2_checks),
    (KubeHorizontalPodAutoscalerV2, KubeHorizontalPodAutoscalerV2_checks),
    (KubeHorizontalPodAutoscalerV2Beta2, KubeHorizontalPodAutoscalerV2Beta2_checks),
    (KubeIngress, KubeIngress_checks), (KubeIngressClass, KubeIngressClass_checks),
    (KubeIngressClassList, KubeIngressClassList_checks), (KubeIngressList, KubeIngressList_checks),
    (KubeJob, KubeJob_checks), (KubeJobList, KubeJobList_checks), (KubeLease, KubeLease_checks),
    (KubeLeaseList, KubeLeaseList_checks), (KubeLimitRange, KubeLimitRange_checks),
    (KubeLimitRangeList, KubeLimitRangeList_checks)]"

lemma classes_C_ok [class_tables]: "list_all classOk classes_C"
  by (simp only: classes_C_def list.pred_inject class_checks HOL.simp_thms)

lemma classes_C_names [class_names]: "map (\<lambda>c. bindingName (fst c)) classes_C =
    [''KubeFlowSchemaListV1Beta1'', ''KubeFlowSchemaListV1Beta2'', ''KubeFlowSchemaV1Beta1'',
     ''KubeFlowSchemaV1Beta2'', ''KubeHorizontalPodAutoscaler'', ''KubeHorizontalPodAutoscalerList'',
     ''KubeHorizontalPodAutoscalerListV2'', ''KubeHorizontalPodAutoscalerListV2Beta2'',
     ''KubeHorizontalPodAutoscalerV2'', ''KubeHorizontalPodAutoscalerV2Beta2'', ''KubeIngress'',
     ''KubeIngressClass'', ''KubeIngressClassList'', ''KubeIngressList'', ''KubeJob'',
     ''KubeJobList'', ''KubeLease'', ''KubeLeaseList'', ''KubeLimitRange'', ''KubeLimitRangeList'']"
  by (simp only: classes_C_def list.map fst_conv bindingName.simps
    KubeFlowSchemaListV1Beta1_def KubeFlowSchemaListV1Beta2_def KubeFlowSchemaV1Beta1_def
      KubeFlowSchemaV1Beta2_def KubeHorizontalPodAutoscaler_def KubeHorizontalPodAutoscalerList_def
      KubeHorizontalPodAutoscalerListV2_def KubeHorizontalPodAutoscalerListV2Beta2_def
      KubeHorizontalPodAutoscalerV2_def KubeHorizontalPodAutoscalerV2Beta2_def KubeIngress_def
      KubeIngressClass_def KubeIngressClassList_def KubeIngressList_def KubeJob_def KubeJobList_def
      KubeLease_def KubeLeaseList_def KubeLimitRange_def KubeLimitRangeList_def)

definition interfaces_C :: "interface list" where
  "interfaces_C =
   [KubeFlowSchemaListV1Beta1_interface, KubeFlowSchemaListV1Beta2_interface,
    KubeFlowSchemaV1Beta1_interface, KubeFlowSchemaV1Beta2_interface,
    KubeHorizontalPodAutoscaler_interface, KubeHorizontalPodAutoscalerList_interface,
    KubeHorizontalPodAutoscalerListV2_interface, KubeHorizontalPodAutoscalerListV2Beta2_interface,
    KubeHorizontalPodAutoscalerV2_interface, KubeHorizontalPodAutoscalerV2Beta2_interface,
    KubeIngress_interface, KubeIngressClass_interface, KubeIngressClassList_interface,
    KubeIngressList_interface, KubeJob_interface, KubeJobList_interface, KubeLease_interface,
    KubeLeaseList_interface, KubeLimitRange_interface, KubeLimitRangeList_interface]"

definition unchecked_C :: "(string \<times> validators) list" where
  "unchecked_C =
   [(''KubeFlowSchemaListV1Beta1'', KubeFlowSchemaListV1Beta1_no_checks),
    (''KubeFlowSchemaListV1Beta2'', KubeFlowSchemaListV1Beta2_no_checks),
    (''KubeFlowSchemaV1Beta1'', KubeFlowSchemaV1Beta1_no_checks),
    (''KubeFlowSchemaV1Beta2'', KubeFlowSchemaV1Beta2_no_checks),
    (''KubeHorizontalPodAutoscaler'', KubeHorizontalPodAutoscaler_no_checks),
    (''KubeHorizontalPodAutoscalerList'', KubeHorizontalPodAutoscalerList_no_checks),
    (''KubeHorizontalPodAutoscalerListV2'', KubeHorizontalPodAutoscalerListV2_no_checks),
    (''KubeHorizontalPodAutoscalerListV2Beta2'', KubeHorizontalPodAutoscalerListV2Beta2_no_checks),
    (''KubeHorizontalPodAutoscalerV2'', KubeHorizontalPodAutoscalerV2_no_checks),
    (''KubeHorizontalPodAutoscalerV2Beta2'', KubeHorizontalPodAutoscalerV2Beta2_no_checks),
    (''KubeIngress'', KubeIngress_no_checks), (''KubeIngressClass'', KubeIngressClass_no_checks),
    (''KubeIngressClassList'', KubeIngressClassList_no_checks),
    (''KubeIngressList'', KubeIngressList_no_checks), (''KubeJob'', KubeJob_no_checks),
    (''KubeJobList'', KubeJobList_no_checks), (''KubeLease'', KubeLease_no_checks),
    (''KubeLeaseList'', KubeLeaseList_no_checks), (''KubeLimitRange'', KubeLimitRange_no_checks),
    (''KubeLimitRangeList'', KubeLimitRangeList_no_checks)]"

lemma interfaces_C [class_tables]:
  "interfaces_C = map (\<lambda>c. apiObjectInterface (bindingName (fst c))) classes_C"
  "unchecked_C = map (\<lambda>c. (bindingName (fst c), apiObjectNoChecks (bindingName (fst c)))) classes_C"
  by (simp_all only: interfaces_C_def unchecked_C_def classes_C_def list.map fst_conv bindingName.simps class_interfaces
    KubeFlowSchemaListV1Beta1_def KubeFlowSchemaListV1Beta2_def KubeFlowSchemaV1Beta1_def
      KubeFlowSchemaV1Beta2_def KubeHorizontalPodAutoscaler_def KubeHorizontalPodAutoscalerList_def
      KubeHorizontalPodAutoscalerListV2_def KubeHorizontalPodAutoscalerListV2Beta2_def
      KubeHorizontalPodAutoscalerV2_def KubeHorizontalPodAutoscalerV2Beta2_def KubeIngress_def
      KubeIngressClass_def KubeIngressClassList_def KubeIngressList_def KubeJob_def KubeJobList_def
      KubeLease_def KubeLeaseList_def KubeLimitRange_def KubeLimitRangeList_def)

end
