(* ===== verification/KubeClassesD.thy ===== *)
theory KubeClassesD
  imports Bindings K8sTypes
begin

text \<open>
  The classes \<open>KubeLocalSubjectAccessReview\<close> to \<open>KubePriorityClass\<close> of the Kubernetes bindings: from each file \<open>Kube*.go\<close> the
  interface, the getters of the proxy, the package functions and the methods, then the validators of
  \<open>Kube*__checks.go\<close> and \<open>Kube*__no_checks.go\<close>, and the evaluation of the checks of \<open>Bindings\<close> on each.
\<close>

definition KubeLocalSubjectAccessReview_interface :: interface where
  "KubeLocalSubjectAccessReview_interface = Interface ''KubeLocalSubjectAccessReview'' [''cdk8s.ApiObject'']
   [Sig ''ApiGroup'' [] (Some (GoPtr GoString)), Sig ''ApiVersion'' [] (Some (GoPtr GoString)),
    Sig ''Chart'' [] (Some (GoNamed ''cdk8s.Chart'')), Sig ''Kind'' [] (Some (GoPtr GoString)),
    Sig ''Metadata'' [] (Some (GoNamed ''cdk8s.ApiObjectMetadataDefinition'')),
    Sig ''Name'' [] (Some (GoPtr GoString)), Sig ''Node'' [] (Some (GoNamed ''constructs.Node'')),
    Sig ''AddDependency'' [Rest ''dependencies'' (GoNamed ''constructs.IConstruct'')] None,
    Sig ''AddJsonPatch'' [Rest ''ops'' (GoNamed ''cdk8s.JsonPatch'')] None,
    Sig ''ToJson'' [] (Some GoAny), Sig ''ToString'' [] (Some (GoPtr GoString))]"

definition KubeLocalSubjectAccessReview_getters :: "gofun list" where
  "KubeLocalSubjectAccessReview_getters =
   [Method (Sig ''ApiGroup'' [] (Some (GoPtr GoString))) (Getter ''apiGroup''),
    Method (Sig ''ApiVersion'' [] (Some (GoPtr GoString))) (Getter ''apiVersion''),
    Method (Sig ''Chart'' [] (Some (GoNamed ''cdk8s.Chart''))) (Getter ''chart''),
    Method (Sig ''Kind'' [] (Some (GoPtr GoString))) (Getter ''kind''),
    Method (Sig ''Metadata'' [] (Some (GoNamed ''cdk8s.ApiObjectMetadataDefinition'')))
      (Getter ''metadata''),
    Method (Sig ''Name'' [] (Some (GoPtr GoString))) (Getter ''name''),
    Method (Sig ''Node'' [] (Some (GoNamed ''constructs.Node''))) (Getter ''node'')]"

definition KubeLocalSubjectAccessReview_functions :: "gofun list" where
  "KubeLocalSubjectAccessReview_functions =
   [Func (Sig ''NewKubeLocalSubjectAccessReview'' [
         Param ''scope'' (GoNamed ''constructs.Construct''), Param ''id'' (GoPtr GoString),
         Param ''props'' (GoPtr (GoNamed ''KubeLocalSubjectAccessReviewProps''))] (Some (GoNamed ''KubeLocalSubjectAccessReview'')))
      (Construct ''k8s.KubeLocalSubjectAccessReview'' [''scope'', ''id'', ''props''] ''validateNewKubeLocalSubjectAccessReviewParameters''),
    Func (Sig ''NewKubeLocalSubjectAccessReview_Override'' [
         Param ''k'' (GoNamed ''KubeLocalSubjectAccessReview''),
         Param ''scope'' (GoNamed ''constructs.Construct''), Param ''id'' (GoPtr GoString),
         Param ''props'' (GoPtr (GoNamed ''KubeLocalSubjectAccessReviewProps''))] None)
      (ConstructOverride ''k8s.KubeLocalSubjectAccessReview'' [''scope'', ''id'', ''props'']),
    Func (Sig ''KubeLocalSubjectAccessReview_IsApiObject'' [Param ''o'' GoAny] (Some (GoPtr GoBool)))
      (StaticCall ''k8s.KubeLocalSubjectAccessReview'' ''isApiObject'' [''o''] ''validateKubeLocalSubjectAccessReview_IsApiObjectParameters''),
    Func (Sig ''KubeLocalSubjectAccessReview_IsConstruct'' [Param ''x'' GoAny] (Some (GoPtr GoBool)))
      (StaticCall ''k8s.KubeLocalSubjectAccessReview'' ''isConstruct'' [''x''] ''validateKubeLocalSubjectAccessReview_IsConstructParameters''),
    Func (Sig ''KubeLocalSubjectAccessReview_Manifest'' [Param ''props'' (GoPtr (GoNamed ''KubeLocalSubjectAccessReviewProps''))] (Some GoAny))
      (StaticCall ''k8s.KubeLocalSubjectAccessReview'' ''manifest'' [''props''] ''validateKubeLocalSubjectAccessReview_ManifestParameters''),
    Func (Sig ''KubeLocalSubjectAccessReview_Of'' [Param ''c'' (GoNamed ''constructs.IConstruct'')] (Some (GoNamed ''cdk8s.ApiObject'')))
      (StaticCall ''k8s.KubeLocalSubjectAccessReview'' ''of'' [''c''] ''validateKubeLocalSubjectAccessReview_OfParameters''),
    Func (Sig ''KubeLocalSubjectAccessReview_GVK'' [] (Some (GoPtr (GoNamed ''cdk8s.GroupVersionKind''))))
      (StaticProp ''k8s.KubeLocalSubjectAccessReview'' ''GVK'')]"

definition KubeLocalSubjectAccessReview_methods :: "gofun list" where
  "KubeLocalSubjectAccessReview_methods =
   [Method (Sig ''AddDependency'' [Rest ''dependencies'' (GoNamed ''constructs.IConstruct'')] None)
      (Variadic ''addDependency''),
    Method (Sig ''AddJsonPatch'' [Rest ''ops'' (GoNamed ''cdk8s.JsonPatch'')] None)
      (Variadic ''addJsonPatch''),
    Method (Sig ''ToJson'' [] (Some GoAny)) (Plain ''toJson''),
    Method (Sig ''ToString'' [] (Some (GoPtr GoString))) (Plain ''toString'')]"

definition KubeLocalSubjectAccessReview :: binding where
  "KubeLocalSubjectAccessReview = Binding ''KubeLocalSubjectAccessReview'' [''internal.Type__cdk8sApiObject'']
     (KubeLocalSubjectAccessReview_getters @ KubeLocalSubjectAccessReview_functions @ KubeLocalSubjectAccessReview_methods)"

definition KubeLocalSubjectAccessReview_checks :: validators where
  "KubeLocalSubjectAccessReview_checks =
   [(''validateKubeLocalSubjectAccessReview_IsApiObjectParameters'', [NotNil ''o'']),
    (''validateKubeLocalSubjectAccessReview_IsConstructParameters'', [NotNil ''x'']),
    (''validateKubeLocalSubjectAccessReview_ManifestParameters'', [NotNil ''props'', ValidStruct ''props'']),
    (''validateKubeLocalSubjectAccessReview_OfParameters'', [NotNil ''c'']),
    (''validateNewKubeLocalSubjectAccessReviewParameters'', [NotNil ''scope'', NotNil ''id'', NotNil ''props'', ValidStruct ''props''])]"

definition KubeLocalSubjectAccessReview_no_checks :: validators where
  "KubeLocalSubjectAccessReview_no_checks =
   [(''validateKubeLocalSubjectAccessReview_IsApiObjectParameters'', []),
    (''validateKubeLocalSubjectAccessReview_IsConstructParameters'', []),
    (''validateKubeLocalSubjectAccessReview_ManifestParameters'', []),
    (''validateKubeLocalSubjectAccessReview_OfParameters'', []),
    (''validateNewKubeLocalSubjectAccessReviewParameters'', [])]"

lemma KubeLocalSubjectAccessReview_ok [class_checks]: "classOk (KubeLocalSubjectAccessReview, KubeLocalSubjectAccessReview_checks)"
  by (rule classRequired_I [where s = KubeLocalSubjectAccessReviewProps], simp only: table_members)
    (simp_all only: KubeLocalSubjectAccessReview_def KubeLocalSubjectAccessReview_getters_def KubeLocalSubjectAccessReview_functions_def
      KubeLocalSubjectAccessReview_methods_def KubeLocalSubjectAccessReview_checks_def KubeLocalSubjectAccessReviewProps_def class_eval)

lemma KubeLocalSubjectAccessReview_declared [class_interfaces]:
  "KubeLocalSubjectAccessReview_interface = apiObjectInterface ''KubeLocalSubjectAccessReview''"
  "KubeLocalSubjectAccessReview_no_checks = apiObjectNoChecks ''KubeLocalSubjectAccessReview''"
  by (simp_all only: KubeLocalSubjectAccessReview_interface_def KubeLocalSubjectAccessReview_no_checks_def declared_eval)

definition KubeMutatingWebhookConfiguration_interface :: interface where
  "KubeMutatingWebhookConfiguration_interface = Interface ''KubeMutatingWebhookConfiguration'' [''cdk8s.ApiObject'']
   [Sig ''ApiGroup'' [] (Some (GoPtr GoString)), Sig ''ApiVersion'' [] (Some (GoPtr GoString)),
    Sig ''Chart'' [] (Some (GoNamed ''cdk8s.Chart'')), Sig ''Kind'' [] (Some (GoPtr GoString)),
    Sig ''Metadata'' [] (Some (GoNamed ''cdk8s.ApiObjectMetadataDefinition'')),
    Sig ''Name'' [] (Some (GoPtr GoString)), Sig ''Node'' [] (Some (GoNamed ''constructs.Node'')),
    Sig ''AddDependency'' [Rest ''dependencies'' (GoNamed ''constructs.IConstruct'')] None,
    Sig ''AddJsonPatch'' [Rest ''ops'' (GoNamed ''cdk8s.JsonPatch'')] None,
    Sig ''ToJson'' [] (Some GoAny), Sig ''ToString'' [] (Some (GoPtr GoString))]"

definition KubeMutatingWebhookConfiguration_getters :: "gofun list" where
  "KubeMutatingWebhookConfiguration_getters =
   [Method (Sig ''ApiGroup'' [] (Some (GoPtr GoString))) (Getter ''apiGroup''),
    Method (Sig ''ApiVersion'' [] (Some (GoPtr GoString))) (Getter ''apiVersion''),
    Method (Sig ''Chart'' [] (Some (GoNamed ''cdk8s.Chart''))) (Getter ''chart''),
    Method (Sig ''Kind'' [] (Some (GoPtr GoString))) (Getter ''kind''),
    Method (Sig ''Metadata'' [] (Some (GoNamed ''cdk8s.ApiObjectMetadataDefinition'')))
      (Getter ''metadata''),
    Method (Sig ''Name'' [] (Some (GoPtr GoString))) (Getter ''name''),
    Method (Sig ''Node'' [] (Some (GoNamed ''constructs.Node''))) (Getter ''node'')]"

definition KubeMutatingWebhookConfiguration_functions :: "gofun list" where
  "KubeMutatingWebhookConfiguration_functions =
   [Func (Sig ''NewKubeMutatingWebhookConfiguration'' [
         Param ''scope'' (GoNamed ''constructs.Construct''), Param ''id'' (GoPtr GoString),
         Param ''props'' (GoPtr (GoNamed ''KubeMutatingWebhookConfigurationProps''))] (Some (GoNamed ''KubeMutatingWebhookConfiguration'')))
      (Construct ''k8s.KubeMutatingWebhookConfiguration'' [''scope'', ''id'', ''props''] ''validateNewKubeMutatingWebhookConfigurationParameters''),
    Func (Sig ''NewKubeMutatingWebhookConfiguration_Override'' [
         Param ''k'' (GoNamed ''KubeMutatingWebhookConfiguration''),
         Param ''scope'' (GoNamed ''constructs.Construct''), Param ''id'' (GoPtr GoString),
         Param ''props'' (GoPtr (GoNamed ''KubeMutatingWebhookConfigurationProps''))] None)
      (ConstructOverride ''k8s.KubeMutatingWebhookConfiguration'' [''scope'', ''id'', ''props'']),
    Func (Sig ''KubeMutatingWebhookConfiguration_IsApiObject'' [Param ''o'' GoAny] (Some (GoPtr GoBool)))
      (StaticCall ''k8s.KubeMutatingWebhookConfiguration'' ''isApiObject'' [''o''] ''validateKubeMutatingWebhookConfiguration_IsApiObjectParameters''),
    Func (Sig ''KubeMutatingWebhookConfiguration_IsConstruct'' [Param ''x'' GoAny] (Some (GoPtr GoBool)))
      (StaticCall ''k8s.KubeMutatingWebhookConfiguration'' ''isConstruct'' [''x''] ''validateKubeMutatingWebhookConfiguration_IsConstructParameters''),
    Func (Sig ''KubeMutatingWebhookConfiguration_Manifest'' [Param ''props'' (GoPtr (GoNamed ''KubeMutatingWebhookConfigurationProps''))] (Some GoAny))
      (StaticCall ''k8s.KubeMutatingWebhookConfiguration'' ''manifest'' [''props''] ''validateKubeMutatingWebhookConfiguration_ManifestParameters''),
    Func (Sig ''KubeMutatingWebhookConfiguration_Of'' [Param ''c'' (GoNamed ''constructs.IConstruct'')] (Some (GoNamed ''cdk8s.ApiObject'')))
      (StaticCall ''k8s.KubeMutatingWebhookConfiguration'' ''of'' [''c''] ''validateKubeMutatingWebhookConfiguration_OfParameters''),
    Func (Sig ''KubeMutatingWebhookConfiguration_GVK'' [] (Some (GoPtr (GoNamed ''cdk8s.GroupVersionKind''))))
      (StaticProp ''k8s.KubeMutatingWebhookConfiguration'' ''GVK'')]"

definition KubeMutatingWebhookConfiguration_methods :: "gofun list" where
  "KubeMutatingWebhookConfiguration_methods =
   [Method (Sig ''AddDependency'' [Rest ''dependencies'' (GoNamed ''constructs.IConstruct'')] None)
      (Variadic ''addDependency''),
    Method (Sig ''AddJsonPatch'' [Rest ''ops'' (GoNamed ''cdk8s.JsonPatch'')] None)
      (Variadic ''addJsonPatch''),
    Method (Sig ''ToJson'' [] (Some GoAny)) (Plain ''toJson''),
    Method (Sig ''ToString'' [] (Some (GoPtr GoString))) (Plain ''toString'')]"

definition KubeMutatingWebhookConfiguration :: binding where
  "KubeMutatingWebhookConfiguration = Binding ''KubeMutatingWebhookConfiguration'' [''internal.Type__cdk8sApiObject'']
     (KubeMutatingWebhookConfiguration_getters @ KubeMutatingWebhookConfiguration_functions @ KubeMutatingWebhookConfiguration_methods)"

definition KubeMutatingWebhookConfiguration_checks :: validators where
  "KubeMutatingWebhookConfiguration_checks =
   [(''validateKubeMutatingWebhookConfiguration_IsApiObjectParameters'', [NotNil ''o'']),
    (''validateKubeMutatingWebhookConfiguration_IsConstructParameters'', [NotNil ''x'']),
    (''validateKubeMutatingWebhookConfiguration_ManifestParameters'', [ValidStruct ''props'']),
    (''validateKubeMutatingWebhookConfiguration_OfParameters'', [NotNil ''c'']),
    (''validateNewKubeMutatingWebhookConfigurationParameters'', [NotNil ''scope'', NotNil ''id'', ValidStruct ''props''])]"

definition KubeMutatingWebhookConfiguration_no_checks :: validators where
  "KubeMutatingWebhookConfiguration_no_checks =
   [(''validateKubeMutatingWebhookConfiguration_IsApiObjectParameters'', []),
    (''validateKubeMutatingWebhookConfiguration_IsConstructParameters'', []),
    (''validateKubeMutatingWebhookConfiguration_ManifestParameters'', []),
    (''validateKubeMutatingWebhookConfiguration_OfParameters'', []),
    (''validateNewKubeMutatingWebhookConfigurationParameters'', [])]"

lemma KubeMutatingWebhookConfiguration_ok [class_checks]: "classOk (KubeMutatingWebhookConfiguration, KubeMutatingWebhookConfiguration_checks)"
  by (rule classOptional_I [where s = KubeMutatingWebhookConfigurationProps], simp only: table_members)
    (simp_all only: KubeMutatingWebhookConfiguration_def KubeMutatingWebhookConfiguration_getters_def KubeMutatingWebhookConfiguration_functions_def
      KubeMutatingWebhookConfiguration_methods_def KubeMutatingWebhookConfiguration_checks_def KubeMutatingWebhookConfigurationProps_def class_eval)

lemma KubeMutatingWebhookConfiguration_declared [class_interfaces]:
  "KubeMutatingWebhookConfiguration_interface = apiObjectInterface ''KubeMutatingWebhookConfiguration''"
  "KubeMutatingWebhookConfiguration_no_checks = apiObjectNoChecks ''KubeMutatingWebhookConfiguration''"
  by (simp_all only: KubeMutatingWebhookConfiguration_interface_def KubeMutatingWebhookConfiguration_no_checks_def declared_eval)

definition KubeMutatingWebhookConfigurationList_interface :: interface where
  "KubeMutatingWebhookConfigurationList_interface = Interface ''KubeMutatingWebhookConfigurationList'' [''cdk8s.ApiObject'']
   [Sig ''ApiGroup'' [] (Some (GoPtr GoString)), Sig ''ApiVersion'' [] (Some (GoPtr GoString)),
    Sig ''Chart'' [] (Some (GoNamed ''cdk8s.Chart'')), Sig ''Kind'' [] (Some (GoPtr GoString)),
    Sig ''Metadata'' [] (Some (GoNamed ''cdk8s.ApiObjectMetadataDefinition'')),
    Sig ''Name'' [] (Some (GoPtr GoString)), Sig ''Node'' [] (Some (GoNamed ''constructs.Node'')),
    Sig ''AddDependency'' [Rest ''dependencies'' (GoNamed ''constructs.IConstruct'')] None,
    Sig ''AddJsonPatch'' [Rest ''ops'' (GoNamed ''cdk8s.JsonPatch'')] None,
    Sig ''ToJson'' [] (Some GoAny), Sig ''ToString'' [] (Some (GoPtr GoString))]"

definition KubeMutatingWebhookConfigurationList_getters :: "gofun list" where
  "KubeMutatingWebhookConfigurationList_getters =
   [Method (Sig ''ApiGroup'' [] (Some (GoPtr GoString))) (Getter ''apiGroup''),
    Method (Sig ''ApiVersion'' [] (Some (GoPtr GoString))) (Getter ''apiVersion''),
    Method (Sig ''Chart'' [] (Some (GoNamed ''cdk8s.Chart''))) (Getter ''chart''),
    Method (Sig ''Kind'' [] (Some (GoPtr GoString))) (Getter ''kind''),
    Method (Sig ''Metadata'' [] (Some (GoNamed ''cdk8s.ApiObjectMetadataDefinition'')))
      (Getter ''metadata''),
    Method (Sig ''Name'' [] (Some (GoPtr GoString))) (Getter ''name''),
    Method (Sig ''Node'' [] (Some (GoNamed ''constructs.Node''))) (Getter ''node'')]"

definition KubeMutatingWebhookConfigurationList_functions :: "gofun list" where
  "KubeMutatingWebhookConfigurationList_functions =
   [Func (Sig ''NewKubeMutatingWebhookConfigurationList'' [
         Param ''scope'' (GoNamed ''constructs.Construct''), Param ''id'' (GoPtr GoString),
         Param ''props'' (GoPtr (GoNamed ''KubeMutatingWebhookConfigurationListProps''))] (Some (GoNamed ''KubeMutatingWebhookConfigurationList'')))
      (Construct ''k8s.KubeMutatingWebhookConfigurationList'' [''scope'', ''id'', ''props''] ''validateNewKubeMutatingWebhookConfigurationListParameters''),
    Func (Sig ''NewKubeMutatingWebhookConfigurationList_Override'' [
         Param ''k'' (GoNamed ''KubeMutatingWebhookConfigurationList''),
         Param ''scope'' (GoNamed ''constructs.Construct''), Param ''id'' (GoPtr GoString),
         Param ''props'' (GoPtr (GoNamed ''KubeMutatingWebhookConfigurationListProps''))] None)
      (ConstructOverride ''k8s.KubeMutatingWebhookConfigurationList'' [''scope'', ''id'', ''props'']),
    Func (Sig ''KubeMutatingWebhookConfigurationList_IsApiObject'' [Param ''o'' GoAny] (Some (GoPtr GoBool)))
      (StaticCall ''k8s.KubeMutatingWebhookConfigurationList'' ''isApiObject'' [''o''] ''validateKubeMutatingWebhookConfigurationList_IsApiObjectParameters''),
    Func (Sig ''KubeMutatingWebhookConfigurationList_IsConstruct'' [Param ''x'' GoAny] (Some (GoPtr GoBool)))
      (StaticCall ''k8s.KubeMutatingWebhookConfigurationList'' ''isConstruct'' [''x''] ''validateKubeMutatingWebhookConfigurationList_IsConstructParameters''),
    Func (Sig ''KubeMutatingWebhookConfigurationList_Manifest'' [Param ''props'' (GoPtr (GoNamed ''KubeMutatingWebhookConfigurationListProps''))] (Some GoAny))
      (StaticCall ''k8s.KubeMutatingWebhookConfigurationList'' ''manifest'' [''props''] ''validateKubeMutatingWebhookConfigurationList_ManifestParameters''),
    Func (Sig ''KubeMutatingWebhookConfigurationList_Of'' [Param ''c'' (GoNamed ''constructs.IConstruct'')] (Some (GoNamed ''cdk8s.ApiObject'')))
      (StaticCall ''k8s.KubeMutatingWebhookConfigurationList'' ''of'' [''c''] ''validateKubeMutatingWebhookConfigurationList_OfParameters''),
    Func (Sig ''KubeMutatingWebhookConfigurationList_GVK'' [] (Some (GoPtr (GoNamed ''cdk8s.GroupVersionKind''))))
      (StaticProp ''k8s.KubeMutatingWebhookConfigurationList'' ''GVK'')]"

definition KubeMutatingWebhookConfigurationList_methods :: "gofun list" where
  "KubeMutatingWebhookConfigurationList_methods =
   [Method (Sig ''AddDependency'' [Rest ''dependencies'' (GoNamed ''constructs.IConstruct'')] None)
      (Variadic ''addDependency''),
    Method (Sig ''AddJsonPatch'' [Rest ''ops'' (GoNamed ''cdk8s.JsonPatch'')] None)
      (Variadic ''addJsonPatch''),
    Method (Sig ''ToJson'' [] (Some GoAny)) (Plain ''toJson''),
    Method (Sig ''ToString'' [] (Some (GoPtr GoString))) (Plain ''toString'')]"

definition KubeMutatingWebhookConfigurationList :: binding where
  "KubeMutatingWebhookConfigurationList = Binding ''KubeMutatingWebhookConfigurationList'' [''internal.Type__cdk8sApiObject'']
     (KubeMutatingWebhookConfigurationList_getters @ KubeMutatingWebhookConfigurationList_functions @ KubeMutatingWebhookConfigurationList_methods)"

definition KubeMutatingWebhookConfigurationList_checks :: validators where
  "KubeMutatingWebhookConfigurationList_checks =
   [(''validateKubeMutatingWebhookConfigurationList_IsApiObjectParameters'', [NotNil ''o'']),
    (''validateKubeMutatingWebhookConfigurationList_IsConstructParameters'', [NotNil ''x'']),
    (''validateKubeMutatingWebhookConfigurationList_ManifestParameters'', [NotNil ''props'', ValidStruct ''props'']),
    (''validateKubeMutatingWebhookConfigurationList_OfParameters'', [NotNil ''c'']),
    (''validateNewKubeMutatingWebhookConfigurationListParameters'', [NotNil ''scope'', NotNil ''id'', NotNil ''props'', ValidStruct ''props''])]"

definition KubeMutatingWebhookConfigurationList_no_checks :: validators where
  "KubeMutatingWebhookConfigurationList_no_checks =
   [(''validateKubeMutatingWebhookConfigurationList_IsApiObjectParameters'', []),
    (''validateKubeMutatingWebhookConfigurationList_IsConstructParameters'', []),
    (''validateKubeMutatingWebhookConfigurationList_ManifestParameters'', []),
    (''validateKubeMutatingWebhookConfigurationList_OfParameters'', []),
    (''validateNewKubeMutatingWebhookConfigurationListParameters'', [])]"

lemma KubeMutatingWebhookConfigurationList_ok [class_checks]: "classOk (KubeMutatingWebhookConfigurationList, KubeMutatingWebhookConfigurationList_checks)"
  by (rule classRequired_I [where s = KubeMutatingWebhookConfigurationListProps], simp only: table_members)
    (simp_all only: KubeMutatingWebhookConfigurationList_def KubeMutatingWebhookConfigurationList_getters_def KubeMutatingWebhookConfigurationList_functions_def
      KubeMutatingWebhookConfigurationList_methods_def KubeMutatingWebhookConfigurationList_checks_def KubeMutatingWebhookConfigurationListProps_def class_eval)

lemma KubeMutatingWebhookConfigurationList_declared [class_interfaces]:
  "KubeMutatingWebhookConfigurationList_interface = apiObjectInterface ''KubeMutatingWebhookConfigurationList''"
  "KubeMutatingWebhookConfigurationList_no_checks = apiObjectNoChecks ''KubeMutatingWebhookConfigurationList''"
  by (simp_all only: KubeMutatingWebhookConfigurationList_interface_def KubeMutatingWebhookConfigurationList_no_checks_def declared_eval)

definition KubeNamespace_interface :: interface where
  "KubeNamespace_interface = Interface ''KubeNamespace'' [''cdk8s.ApiObject'']
   [Sig ''ApiGroup'' [] (Some (GoPtr GoString)), Sig ''ApiVersion'' [] (Some (GoPtr GoString)),
    Sig ''Chart'' [] (Some (GoNamed ''cdk8s.Chart'')), Sig ''Kind'' [] (Some (GoPtr GoString)),
    Sig ''Metadata'' [] (Some (GoNamed ''cdk8s.ApiObjectMetadataDefinition'')),
    Sig ''Name'' [] (Some (GoPtr GoString)), Sig ''Node'' [] (Some (GoNamed ''constructs.Node'')),
    Sig ''AddDependency'' [Rest ''dependencies'' (GoNamed ''constructs.IConstruct'')] None,
    Sig ''AddJsonPatch'' [Rest ''ops'' (GoNamed ''cdk8s.JsonPatch'')] None,
    Sig ''ToJson'' [] (Some GoAny), Sig ''ToString'' [] (Some (GoPtr GoString))]"

definition KubeNamespace_getters :: "gofun list" where
  "KubeNamespace_getters =
   [Method (Sig ''ApiGroup'' [] (Some (GoPtr GoString))) (Getter ''apiGroup''),
    Method (Sig ''ApiVersion'' [] (Some (GoPtr GoString))) (Getter ''apiVersion''),
    Method (Sig ''Chart'' [] (Some (GoNamed ''cdk8s.Chart''))) (Getter ''chart''),
    Method (Sig ''Kind'' [] (Some (GoPtr GoString))) (Getter ''kind''),
    Method (Sig ''Metadata'' [] (Some (GoNamed ''cdk8s.ApiObjectMetadataDefinition'')))
      (Getter ''metadata''),
    Method (Sig ''Name'' [] (Some (GoPtr GoString))) (Getter ''name''),
    Method (Sig ''Node'' [] (Some (GoNamed ''constructs.Node''))) (Getter ''node'')]"

definition KubeNamespace_functions :: "gofun list" where
  "KubeNamespace_functions =
   [Func (Sig ''NewKubeNamespace'' [
         Param ''scope'' (GoNamed ''constructs.Construct''), Param ''id'' (GoPtr GoString),
         Param ''props'' (GoPtr (GoNamed ''KubeNamespaceProps''))] (Some (GoNamed ''KubeNamespace'')))
      (Construct ''k8s.KubeNamespace'' [''scope'', ''id'', ''props''] ''validateNewKubeNamespaceParameters''),
    Func (Sig ''NewKubeNamespace_Override'' [
         Param ''k'' (GoNamed ''KubeNamespace''), Param ''scope'' (GoNamed ''constructs.Construct''),
         Param ''id'' (GoPtr GoString), Param ''props'' (GoPtr (GoNamed ''KubeNamespaceProps''))] None)
      (ConstructOverride ''k8s.KubeNamespace'' [''scope'', ''id'', ''props'']),
    Func (Sig ''KubeNamespace_IsApiObject'' [Param ''o'' GoAny] (Some (GoPtr GoBool)))
      (StaticCall ''k8s.KubeNamespace'' ''isApiObject'' [''o''] ''validateKubeNamespace_IsApiObjectParameters''),
    Func (Sig ''KubeNamespace_IsConstruct'' [Param ''x'' GoAny] (Some (GoPtr GoBool)))
      (StaticCall ''k8s.KubeNamespace'' ''isConstruct'' [''x''] ''validateKubeNamespace_IsConstructParameters''),
    Func (Sig ''KubeNamespace_Manifest'' [Param ''props'' (GoPtr (GoNamed ''KubeNamespaceProps''))] (Some GoAny))
      (StaticCall ''k8s.KubeNamespace'' ''manifest'' [''props''] ''validateKubeNamespace_ManifestParameters''),
    Func (Sig ''KubeNamespace_Of'' [Param ''c'' (GoNamed ''constructs.IConstruct'')] (Some (GoNamed ''cdk8s.ApiObject'')))
      (StaticCall ''k8s.KubeNamespace'' ''of'' [''c''] ''validateKubeNamespace_OfParameters''),
    Func (Sig ''KubeNamespace_GVK'' [] (Some (GoPtr (GoNamed ''cdk8s.GroupVersionKind''))))
      (StaticProp ''k8s.KubeNamespace'' ''GVK'')]"

definition KubeNamespace_methods :: "gofun list" where
  "KubeNamespace_methods =
   [Method (Sig ''AddDependency'' [Rest ''dependencies'' (GoNamed ''constructs.IConstruct'')] None)
      (Variadic ''addDependency''),
    Method (Sig ''AddJsonPatch'' [Rest ''ops'' (GoNamed ''cdk8s.JsonPatch'')] None)
      (Variadic ''addJsonPatch''),
    Method (Sig ''ToJson'' [] (Some GoAny)) (Plain ''toJson''),
    Method (Sig ''ToString'' [] (Some (GoPtr GoString))) (Plain ''toString'')]"

definition KubeNamespace :: binding where
  "KubeNamespace = Binding ''KubeNamespace'' [''internal.Type__cdk8sApiObject'']
     (KubeNamespace_getters @ KubeNamespace_functions @ KubeNamespace_methods)"

definition KubeNamespace_checks :: validators where
  "KubeNamespace_checks =
   [(''validateKubeNamespace_IsApiObjectParameters'', [NotNil ''o'']),
    (''validateKubeNamespace_IsConstructParameters'', [NotNil ''x'']),
    (''validateKubeNamespace_ManifestParameters'', [ValidStruct ''props'']),
    (''validateKubeNamespace_OfParameters'', [NotNil ''c'']),
    (''validateNewKubeNamespaceParameters'', [NotNil ''scope'', NotNil ''id'', ValidStruct ''props''])]"

definition KubeNamespace_no_checks :: validators where
  "KubeNamespace_no_checks =
   [(''validateKubeNamespace_IsApiObjectParameters'', []),
    (''validateKubeNamespace_IsConstructParameters'', []),
    (''validateKubeNamespace_ManifestParameters'', []),
    (''validateKubeNamespace_OfParameters'', []), (''validateNewKubeNamespaceParameters'', [])]"

lemma KubeNamespace_ok [class_checks]: "classOk (KubeNamespace, KubeNamespace_checks)"
  by (rule classOptional_I [where s = KubeNamespaceProps], simp only: table_members)
    (simp_all only: KubeNamespace_def KubeNamespace_getters_def KubeNamespace_functions_def
      KubeNamespace_methods_def KubeNamespace_checks_def KubeNamespaceProps_def class_eval)

lemma KubeNamespace_declared [class_interfaces]:
  "KubeNamespace_interface = apiObjectInterface ''KubeNamespace''"
  "KubeNamespace_no_checks = apiObjectNoChecks ''KubeNamespace''"
  by (simp_all only: KubeNamespace_interface_def KubeNamespace_no_checks_def declared_eval)

definition KubeNamespaceList_interface :: interface where
  "KubeNamespaceList_interface = Interface ''KubeNamespaceList'' [''cdk8s.ApiObject'']
   [Sig ''ApiGroup'' [] (Some (GoPtr GoString)), Sig ''ApiVersion'' [] (Some (GoPtr GoString)),
    Sig ''Chart'' [] (Some (GoNamed ''cdk8s.Chart'')), Sig ''Kind'' [] (Some (GoPtr GoString)),
    Sig ''Metadata'' [] (Some (GoNamed ''cdk8s.ApiObjectMetadataDefinition'')),
    Sig ''Name'' [] (Some (GoPtr GoString)), Sig ''Node'' [] (Some (GoNamed ''constructs.Node'')),
    Sig ''AddDependency'' [Rest ''dependencies'' (GoNamed ''constructs.IConstruct'')] None,
    Sig ''AddJsonPatch'' [Rest ''ops'' (GoNamed ''cdk8s.JsonPatch'')] None,
    Sig ''ToJson'' [] (Some GoAny), Sig ''ToString'' [] (Some (GoPtr GoString))]"

definition KubeNamespaceList_getters :: "gofun list" where
  "KubeNamespaceList_getters =
   [Method (Sig ''ApiGroup'' [] (Some (GoPtr GoString))) (Getter ''apiGroup''),
    Method (Sig ''ApiVersion'' [] (Some (GoPtr GoString))) (Getter ''apiVersion''),
    Method (Sig ''Chart'' [] (Some (GoNamed ''cdk8s.Chart''))) (Getter ''chart''),
    Method (Sig ''Kind'' [] (Some (GoPtr GoString))) (Getter ''kind''),
    Method (Sig ''Metadata'' [] (Some (GoNamed ''cdk8s.ApiObjectMetadataDefinition'')))
      (Getter ''metadata''),
    Method (Sig ''Name'' [] (Some (GoPtr GoString))) (Getter ''name''),
    Method (Sig ''Node'' [] (Some (GoNamed ''constructs.Node''))) (Getter ''node'')]"

definition KubeNamespaceList_functions :: "gofun list" where
  "KubeNamespaceList_functions =
   [Func (Sig ''NewKubeNamespaceList'' [
         Param ''scope'' (GoNamed ''constructs.Construct''), Param ''id'' (GoPtr GoString),
         Param ''props'' (GoPtr (GoNamed ''KubeNamespaceListProps''))] (Some (GoNamed ''KubeNamespaceList'')))
      (Construct ''k8s.KubeNamespaceList'' [''scope'', ''id'', ''props''] ''validateNewKubeNamespaceListParameters''),
    Func (Sig ''NewKubeNamespaceList_Override'' [
         Param ''k'' (GoNamed ''KubeNamespaceList''), Param ''scope'' (GoNamed ''constructs.Construct''),
         Param ''id'' (GoPtr GoString), Param ''props'' (GoPtr (GoNamed ''KubeNamespaceListProps''))] None)
      (ConstructOverride ''k8s.KubeNamespaceList'' [''scope'', ''id'', ''props'']),
    Func (Sig ''KubeNamespaceList_IsApiObject'' [Param ''o'' GoAny] (Some (GoPtr GoBool)))
      (StaticCall ''k8s.KubeNamespaceList'' ''isApiObject'' [''o''] ''validateKubeNamespaceList_IsApiObjectParameters''),
    Func (Sig ''KubeNamespaceList_IsConstruct'' [Param ''x'' GoAny] (Some (GoPtr GoBool)))
      (StaticCall ''k8s.KubeNamespaceList'' ''isConstruct'' [''x''] ''validateKubeNamespaceList_IsConstructParameters''),
    Func (Sig ''KubeNamespaceList_Manifest'' [Param ''props'' (GoPtr (GoNamed ''KubeNamespaceListProps''))] (Some GoAny))
      (StaticCall ''k8s.KubeNamespaceList'' ''manifest'' [''props''] ''validateKubeNamespaceList_ManifestParameters''),
    Func (Sig ''KubeNamespaceList_Of'' [Param ''c'' (GoNamed ''constructs.IConstruct'')] (Some (GoNamed ''cdk8s.ApiObject'')))
      (StaticCall ''k8s.KubeNamespaceList'' ''of'' [''c''] ''validateKubeNamespaceList_OfParameters''),
    Func (Sig ''KubeNamespaceList_GVK'' [] (Some (GoPtr (GoNamed ''cdk8s.GroupVersionKind''))))
      (StaticProp ''k8s.KubeNamespaceList'' ''GVK'')]"

definition KubeNamespaceList_methods :: "gofun list" where
  "KubeNamespaceList_methods =
   [Method (Sig ''AddDependency'' [Rest ''dependencies'' (GoNamed ''constructs.IConstruct'')] None)
      (Variadic ''addDependency''),
    Method (Sig ''AddJsonPatch'' [Rest ''ops'' (GoNamed ''cdk8s.JsonPatch'')] None)
      (Variadic ''addJsonPatch''),
    Method (Sig ''ToJson'' [] (Some GoAny)) (Plain ''toJson''),
    Method (Sig ''ToString'' [] (Some (GoPtr GoString))) (Plain ''toString'')]"

definition KubeNamespaceList :: binding where
  "KubeNamespaceList = Binding ''KubeNamespaceList'' [''internal.Type__cdk8sApiObject'']
     (KubeNamespaceList_getters @ KubeNamespaceList_functions @ KubeNamespaceList_methods)"

definition KubeNamespaceList_checks :: validators where
  "KubeNamespaceList_checks =
   [(''validateKubeNamespaceList_IsApiObjectParameters'', [NotNil ''o'']),
    (''validateKubeNamespaceList_IsConstructParameters'', [NotNil ''x'']),
    (''validateKubeNamespaceList_ManifestParameters'', [NotNil ''props'', ValidStruct ''props'']),
    (''validateKubeNamespaceList_OfParameters'', [NotNil ''c'']),
    (''validateNewKubeNamespaceListParameters'', [NotNil ''scope'', NotNil ''id'', NotNil ''props'', ValidStruct ''props''])]"

definition KubeNamespaceList_no_checks :: validators where
  "KubeNamespaceList_no_checks =
   [(''validateKubeNamespaceList_IsApiObjectParameters'', []),
    (''validateKubeNamespaceList_IsConstructParameters'', []),
    (''validateKubeNamespaceList_ManifestParameters'', []),
    (''validateKubeNamespaceList_OfParameters'', []),
    (''validateNewKubeNamespaceListParameters'', [])]"

lemma KubeNamespaceList_ok [class_checks]: "classOk (KubeNamespaceList, KubeNamespaceList_checks)"
  by (rule classRequired_I [where s = KubeNamespaceListProps], simp only: table_members)
    (simp_all only: KubeNamespaceList_def KubeNamespaceList_getters_def KubeNamespaceList_functions_def
      KubeNamespaceList_methods_def KubeNamespaceList_checks_def KubeNamespaceListProps_def class_eval)

lemma KubeNamespaceList_declared [class_interfaces]:
  "KubeNamespaceList_interface = apiObjectInterface ''KubeNamespaceList''"
  "KubeNamespaceList_no_checks = apiObjectNoChecks ''KubeNamespaceList''"
  by (simp_all only: KubeNamespaceList_interface_def KubeNamespaceList_no_checks_def declared_eval)

definition KubeNetworkPolicy_interface :: interface where
  "KubeNetworkPolicy_interface = Interface ''KubeNetworkPolicy'' [''cdk8s.ApiObject'']
   [Sig ''ApiGroup'' [] (Some (GoPtr GoString)), Sig ''ApiVersion'' [] (Some (GoPtr GoString)),
    Sig ''Chart'' [] (Some (GoNamed ''cdk8s.Chart'')), Sig ''Kind'' [] (Some (GoPtr GoString)),
    Sig ''Metadata'' [] (Some (GoNamed ''cdk8s.ApiObjectMetadataDefinition'')),
    Sig ''Name'' [] (Some (GoPtr GoString)), Sig ''Node'' [] (Some (GoNamed ''constructs.Node'')),
    Sig ''AddDependency'' [Rest ''dependencies'' (GoNamed ''constructs.IConstruct'')] None,
    Sig ''AddJsonPatch'' [Rest ''ops'' (GoNamed ''cdk8s.JsonPatch'')] None,
    Sig ''ToJson'' [] (Some GoAny), Sig ''ToString'' [] (Some (GoPtr GoString))]"

definition KubeNetworkPolicy_getters :: "gofun list" where
  "KubeNetworkPolicy_getters =
   [Method (Sig ''ApiGroup'' [] (Some (GoPtr GoString))) (Getter ''apiGroup''),
    Method (Sig ''ApiVersion'' [] (Some (GoPtr GoString))) (Getter ''apiVersion''),
    Method (Sig ''Chart'' [] (Some (GoNamed ''cdk8s.Chart''))) (Getter ''chart''),
    Method (Sig ''Kind'' [] (Some (GoPtr GoString))) (Getter ''kind''),
    Method (Sig ''Metadata'' [] (Some (GoNamed ''cdk8s.ApiObjectMetadataDefinition'')))
      (Getter ''metadata''),
    Method (Sig ''Name'' [] (Some (GoPtr GoString))) (Getter ''name''),
    Method (Sig ''Node'' [] (Some (GoNamed ''constructs.Node''))) (Getter ''node'')]"

definition KubeNetworkPolicy_functions :: "gofun list" where
  "KubeNetworkPolicy_functions =
   [Func (Sig ''NewKubeNetworkPolicy'' [
         Param ''scope'' (GoNamed ''constructs.Construct''), Param ''id'' (GoPtr GoString),
         Param ''props'' (GoPtr (GoNamed ''KubeNetworkPolicyProps''))] (Some (GoNamed ''KubeNetworkPolicy'')))
      (Construct ''k8s.KubeNetworkPolicy'' [''scope'', ''id'', ''props''] ''validateNewKubeNetworkPolicyParameters''),
    Func (Sig ''NewKubeNetworkPolicy_Override'' [
         Param ''k'' (GoNamed ''KubeNetworkPolicy''), Param ''scope'' (GoNamed ''constructs.Construct''),
         Param ''id'' (GoPtr GoString), Param ''props'' (GoPtr (GoNamed ''KubeNetworkPolicyProps''))] None)
      (ConstructOverride ''k8s.KubeNetworkPolicy'' [''scope'', ''id'', ''props'']),
    Func (Sig ''KubeNetworkPolicy_IsApiObject'' [Param ''o'' GoAny] (Some (GoPtr GoBool)))
      (StaticCall ''k8s.KubeNetworkPolicy'' ''isApiObject'' [''o''] ''validateKubeNetworkPolicy_IsApiObjectParameters''),
    Func (Sig ''KubeNetworkPolicy_IsConstruct'' [Param ''x'' GoAny] (Some (GoPtr GoBool)))
      (StaticCall ''k8s.KubeNetworkPolicy'' ''isConstruct'' [''x''] ''validateKubeNetworkPolicy_IsConstructParameters''),
    Func (Sig ''KubeNetworkPolicy_Manifest'' [Param ''props'' (GoPtr (GoNamed ''KubeNetworkPolicyProps''))] (Some GoAny))
      (StaticCall ''k8s.KubeNetworkPolicy'' ''manifest'' [''props''] ''validateKubeNetworkPolicy_ManifestParameters''),
    Func (Sig ''KubeNetworkPolicy_Of'' [Param ''c'' (GoNamed ''constructs.IConstruct'')] (Some (GoNamed ''cdk8s.ApiObject'')))
      (StaticCall ''k8s.KubeNetworkPolicy'' ''of'' [''c''] ''validateKubeNetworkPolicy_OfParameters''),
    Func (Sig ''KubeNetworkPolicy_GVK'' [] (Some (GoPtr (GoNamed ''cdk8s.GroupVersionKind''))))
      (StaticProp ''k8s.KubeNetworkPolicy'' ''GVK'')]"

definition KubeNetworkPolicy_methods :: "gofun list" where
  "KubeNetworkPolicy_methods =
   [Method (Sig ''AddDependency'' [Rest ''dependencies'' (GoNamed ''constructs.IConstruct'')] None)
      (Variadic ''addDependency''),
    Method (Sig ''AddJsonPatch'' [Rest ''ops'' (GoNamed ''cdk8s.JsonPatch'')] None)
      (Variadic ''addJsonPatch''),
    Method (Sig ''ToJson'' [] (Some GoAny)) (Plain ''toJson''),
    Method (Sig ''ToString'' [] (Some (GoPtr GoString))) (Plain ''toString'')]"

definition KubeNetworkPolicy :: binding where
  "KubeNetworkPolicy = Binding ''KubeNetworkPolicy'' [''internal.Type__cdk8sApiObject'']
     (KubeNetworkPolicy_getters @ KubeNetworkPolicy_functions @ KubeNetworkPolicy_methods)"

definition KubeNetworkPolicy_checks :: validators where
  "KubeNetworkPolicy_checks =
   [(''validateKubeNetworkPolicy_IsApiObjectParameters'', [NotNil ''o'']),
    (''validateKubeNetworkPolicy_IsConstructParameters'', [NotNil ''x'']),
    (''validateKubeNetworkPolicy_ManifestParameters'', [ValidStruct ''props'']),
    (''validateKubeNetworkPolicy_OfParameters'', [NotNil ''c'']),
    (''validateNewKubeNetworkPolicyParameters'', [NotNil ''scope'', NotNil ''id'', ValidStruct ''props''])]"

definition KubeNetworkPolicy_no_checks :: validators where
  "KubeNetworkPolicy_no_checks =
   [(''validateKubeNetworkPolicy_IsApiObjectParameters'', []),
    (''validateKubeNetworkPolicy_IsConstructParameters'', []),
    (''validateKubeNetworkPolicy_ManifestParameters'', []),
    (''validateKubeNetworkPolicy_OfParameters'', []),
    (''validateNewKubeNetworkPolicyParameters'', [])]"

lemma KubeNetworkPolicy_ok [class_checks]: "classOk (KubeNetworkPolicy, KubeNetworkPolicy_checks)"
  by (rule classOptional_I [where s = KubeNetworkPolicyProps], simp only: table_members)
    (simp_all only: KubeNetworkPolicy_def KubeNetworkPolicy_getters_def KubeNetworkPolicy_functions_def
      KubeNetworkPolicy_methods_def KubeNetworkPolicy_checks_def KubeNetworkPolicyProps_def class_eval)

lemma KubeNetworkPolicy_declared [class_interfaces]:
  "KubeNetworkPolicy_interface = apiObjectInterface ''KubeNetworkPolicy''"
  "KubeNetworkPolicy_no_checks = apiObjectNoChecks ''KubeNetworkPolicy''"
  by (simp_all only: KubeNetworkPolicy_interface_def KubeNetworkPolicy_no_checks_def declared_eval)

definition KubeNetworkPolicyList_interface :: interface where
  "KubeNetworkPolicyList_interface = Interface ''KubeNetworkPolicyList'' [''cdk8s.ApiObject'']
   [Sig ''ApiGroup'' [] (Some (GoPtr GoString)), Sig ''ApiVersion'' [] (Some (GoPtr GoString)),
    Sig ''Chart'' [] (Some (GoNamed ''cdk8s.Chart'')), Sig ''Kind'' [] (Some (GoPtr GoString)),
    Sig ''Metadata'' [] (Some (GoNamed ''cdk8s.ApiObjectMetadataDefinition'')),
    Sig ''Name'' [] (Some (GoPtr GoString)), Sig ''Node'' [] (Some (GoNamed ''constructs.Node'')),
    Sig ''AddDependency'' [Rest ''dependencies'' (GoNamed ''constructs.IConstruct'')] None,
    Sig ''AddJsonPatch'' [Rest ''ops'' (GoNamed ''cdk8s.JsonPatch'')] None,
    Sig ''ToJson'' [] (Some GoAny), Sig ''ToString'' [] (Some (GoPtr GoString))]"

definition KubeNetworkPolicyList_getters :: "gofun list" where
  "KubeNetworkPolicyList_getters =
   [Method (Sig ''ApiGroup'' [] (Some (GoPtr GoString))) (Getter ''apiGroup''),
    Method (Sig ''ApiVersion'' [] (Some (GoPtr GoString))) (Getter ''apiVersion''),
    Method (Sig ''Chart'' [] (Some (GoNamed ''cdk8s.Chart''))) (Getter ''chart''),
    Method (Sig ''Kind'' [] (Some (GoPtr GoString))) (Getter ''kind''),
    Method (Sig ''Metadata'' [] (Some (GoNamed ''cdk8s.ApiObjectMetadataDefinition'')))
      (Getter ''metadata''),
    Method (Sig ''Name'' [] (Some (GoPtr GoString))) (Getter ''name''),
    Method (Sig ''Node'' [] (Some (GoNamed ''constructs.Node''))) (Getter ''node'')]"

definition KubeNetworkPolicyList_functions :: "gofun list" where
  "KubeNetworkPolicyList_functions =
   [Func (Sig ''NewKubeNetworkPolicyList'' [
         Param ''scope'' (GoNamed ''constructs.Construct''), Param ''id'' (GoPtr GoString),
         Param ''props'' (GoPtr (GoNamed ''KubeNetworkPolicyListProps''))] (Some (GoNamed ''KubeNetworkPolicyList'')))
      (Construct ''k8s.KubeNetworkPolicyList'' [''scope'', ''id'', ''props''] ''validateNewKubeNetworkPolicyListParameters''),
    Func (Sig ''NewKubeNetworkPolicyList_Override'' [
         Param ''k'' (GoNamed ''KubeNetworkPolicyList''),
         Param ''scope'' (GoNamed ''constructs.Construct''), Param ''id'' (GoPtr GoString),
         Param ''props'' (GoPtr (GoNamed ''KubeNetworkPolicyListProps''))] None)
      (ConstructOverride ''k8s.KubeNetworkPolicyList'' [''scope'', ''id'', ''props'']),
    Func (Sig ''KubeNetworkPolicyList_IsApiObject'' [Param ''o'' GoAny] (Some (GoPtr GoBool)))
      (StaticCall ''k8s.KubeNetworkPolicyList'' ''isApiObject'' [''o''] ''validateKubeNetworkPolicyList_IsApiObjectParameters''),
    Func (Sig ''KubeNetworkPolicyList_IsConstruct'' [Param ''x'' GoAny] (Some (GoPtr GoBool)))
      (StaticCall ''k8s.KubeNetworkPolicyList'' ''isConstruct'' [''x''] ''validateKubeNetworkPolicyList_IsConstructParameters''),
    Func (Sig ''KubeNetworkPolicyList_Manifest'' [Param ''props'' (GoPtr (GoNamed ''KubeNetworkPolicyListProps''))] (Some GoAny))
      (StaticCall ''k8s.KubeNetworkPolicyList'' ''manifest'' [''props''] ''validateKubeNetworkPolicyList_ManifestParameters''),
    Func (Sig ''KubeNetworkPolicyList_Of'' [Param ''c'' (GoNamed ''constructs.IConstruct'')] (Some (GoNamed ''cdk8s.ApiObject'')))
      (StaticCall ''k8s.KubeNetworkPolicyList'' ''of'' [''c''] ''validateKubeNetworkPolicyList_OfParameters''),
    Func (Sig ''KubeNetworkPolicyList_GVK'' [] (Some (GoPtr (GoNamed ''cdk8s.GroupVersionKind''))))
      (StaticProp ''k8s.KubeNetworkPolicyList'' ''GVK'')]"

definition KubeNetworkPolicyList_methods :: "gofun list" where
  "KubeNetworkPolicyList_methods =
   [Method (Sig ''AddDependency'' [Rest ''dependencies'' (GoNamed ''constructs.IConstruct'')] None)
      (Variadic ''addDependency''),
    Method (Sig ''AddJsonPatch'' [Rest ''ops'' (GoNamed ''cdk8s.JsonPatch'')] None)
      (Variadic ''addJsonPatch''),
    Method (Sig ''ToJson'' [] (Some GoAny)) (Plain ''toJson''),
    Method (Sig ''ToString'' [] (Some (GoPtr GoString))) (Plain ''toString'')]"

definition KubeNetworkPolicyList :: binding where
  "KubeNetworkPolicyList = Binding ''KubeNetworkPolicyList'' [''internal.Type__cdk8sApiObject'']
     (KubeNetworkPolicyList_getters @ KubeNetworkPolicyList_functions @ KubeNetworkPolicyList_methods)"

definition KubeNetworkPolicyList_checks :: validators where
  "KubeNetworkPolicyList_checks =
   [(''validateKubeNetworkPolicyList_IsApiObjectParameters'', [NotNil ''o'']),
    (''validateKubeNetworkPolicyList_IsConstructParameters'', [NotNil ''x'']),
    (''validateKubeNetworkPolicyList_ManifestParameters'', [NotNil ''props'', ValidStruct ''props'']),
    (''validateKubeNetworkPolicyList_OfParameters'', [NotNil ''c'']),
    (''validateNewKubeNetworkPolicyListParameters'', [NotNil ''scope'', NotNil ''id'', NotNil ''props'', ValidStruct ''props''])]"

definition KubeNetworkPolicyList_no_checks :: validators where
  "KubeNetworkPolicyList_no_checks =
   [(''validateKubeNetworkPolicyList_IsApiObjectParameters'', []),
    (''validateKubeNetworkPolicyList_IsConstructParameters'', []),
    (''validateKubeNetworkPolicyList_ManifestParameters'', []),
    (''validateKubeNetworkPolicyList_OfParameters'', []),
    (''validateNewKubeNetworkPolicyListParameters'', [])]"

lemma KubeNetworkPolicyList_ok [class_checks]: "classOk (KubeNetworkPolicyList, KubeNetworkPolicyList_checks)"
  by (rule classRequired_I [where s = KubeNetworkPolicyListProps], simp only: table_members)
    (simp_all only: KubeNetworkPolicyList_def KubeNetworkPolicyList_getters_def KubeNetworkPolicyList_functions_def
      KubeNetworkPolicyList_methods_def KubeNetworkPolicyList_checks_def KubeNetworkPolicyListProps_def class_eval)

lemma KubeNetworkPolicyList_declared [class_interfaces]:
  "KubeNetworkPolicyList_interface = apiObjectInterface ''KubeNetworkPolicyList''"
  "KubeNetworkPolicyList_no_checks = apiObjectNoChecks ''KubeNetworkPolicyList''"
  by (simp_all only: KubeNetworkPolicyList_interface_def KubeNetworkPolicyList_no_checks_def declared_eval)

definition KubeNode_interface :: interface where
  "KubeNode_interface = Interface ''KubeNode'' [''cdk8s.ApiObject'']
   [Sig ''ApiGroup'' [] (Some (GoPtr GoString)), Sig ''ApiVersion'' [] (Some (GoPtr GoString)),
    Sig ''Chart'' [] (Some (GoNamed ''cdk8s.Chart'')), Sig ''Kind'' [] (Some (GoPtr GoString)),
    Sig ''Metadata'' [] (Some (GoNamed ''cdk8s.ApiObjectMetadataDefinition'')),
    Sig ''Name'' [] (Some (GoPtr GoString)), Sig ''Node'' [] (Some (GoNamed ''constructs.Node'')),
    Sig ''AddDependency'' [Rest ''dependencies'' (GoNamed ''constructs.IConstruct'')] None,
    Sig ''AddJsonPatch'' [Rest ''ops'' (GoNamed ''cdk8s.JsonPatch'')] None,
    Sig ''ToJson'' [] (Some GoAny), Sig ''ToString'' [] (Some (GoPtr GoString))]"

definition KubeNode_getters :: "gofun list" where
  "KubeNode_getters =
   [Method (Sig ''ApiGroup'' [] (Some (GoPtr GoString))) (Getter ''apiGroup''),
    Method (Sig ''ApiVersion'' [] (Some (GoPtr GoString))) (Getter ''apiVersion''),
    Method (Sig ''Chart'' [] (Some (GoNamed ''cdk8s.Chart''))) (Getter ''chart''),
    Method (Sig ''Kind'' [] (Some (GoPtr GoString))) (Getter ''kind''),
    Method (Sig ''Metadata'' [] (Some (GoNamed ''cdk8s.ApiObjectMetadataDefinition'')))
      (Getter ''metadata''),
    Method (Sig ''Name'' [] (Some (GoPtr GoString))) (Getter ''name''),
    Method (Sig ''Node'' [] (Some (GoNamed ''constructs.Node''))) (Getter ''node'')]"

definition KubeNode_functions :: "gofun list" where
  "KubeNode_functions =
   [Func (Sig ''NewKubeNode'' [
         Param ''scope'' (GoNamed ''constructs.Construct''), Param ''id'' (GoPtr GoString),
         Param ''props'' (GoPtr (GoNamed ''KubeNodeProps''))] (Some (GoNamed ''KubeNode'')))
      (Construct ''k8s.KubeNode'' [''scope'', ''id'', ''props''] ''validateNewKubeNodeParameters''),
    Func (Sig ''NewKubeNode_Override'' [
         Param ''k'' (GoNamed ''KubeNode''), Param ''scope'' (GoNamed ''constructs.Construct''),
         Param ''id'' (GoPtr GoString), Param ''props'' (GoPtr (GoNamed ''KubeNodeProps''))] None)
      (ConstructOverride ''k8s.KubeNode'' [''scope'', ''id'', ''props'']),
    Func (Sig ''KubeNode_IsApiObject'' [Param ''o'' GoAny] (Some (GoPtr GoBool)))
      (StaticCall ''k8s.KubeNode'' ''isApiObject'' [''o''] ''validateKubeNode_IsApiObjectParameters''),
    Func (Sig ''KubeNode_IsConstruct'' [Param ''x'' GoAny] (Some (GoPtr GoBool)))
      (StaticCall ''k8s.KubeNode'' ''isConstruct'' [''x''] ''validateKubeNode_IsConstructParameters''),
    Func (Sig ''KubeNode_Manifest'' [Param ''props'' (GoPtr (GoNamed ''KubeNodeProps''))] (Some GoAny))
      (StaticCall ''k8s.KubeNode'' ''manifest'' [''props''] ''validateKubeNode_ManifestParameters''),
    Func (Sig ''KubeNode_Of'' [Param ''c'' (GoNamed ''constructs.IConstruct'')] (Some (GoNamed ''cdk8s.ApiObject'')))
      (StaticCall ''k8s.KubeNode'' ''of'' [''c''] ''validateKubeNode_OfParameters''),
    Func (Sig ''KubeNode_GVK'' [] (Some (GoPtr (GoNamed ''cdk8s.GroupVersionKind''))))
      (StaticProp ''k8s.KubeNode'' ''GVK'')]"

definition KubeNode_methods :: "gofun list" where
  "KubeNode_methods =
   [Method (Sig ''AddDependency'' [Rest ''dependencies'' (GoNamed ''constructs.IConstruct'')] None)
      (Variadic ''addDependency''),
    Method (Sig ''AddJsonPatch'' [Rest ''ops'' (GoNamed ''cdk8s.JsonPatch'')] None)
      (Variadic ''addJsonPatch''),
    Method (Sig ''ToJson'' [] (Some GoAny)) (Plain ''toJson''),
    Method (Sig ''ToString'' [] (Some (GoPtr GoString))) (Plain ''toString'')]"

definition KubeNode :: binding where
  "KubeNode = Binding ''KubeNode'' [''internal.Type__cdk8sApiObject'']
     (KubeNode_getters @ KubeNode_functions @ KubeNode_methods)"

definition KubeNode_checks :: validators where
  "KubeNode_checks =
   [(''validateKubeNode_IsApiObjectParameters'', [NotNil ''o'']),
    (''validateKubeNode_IsConstructParameters'', [NotNil ''x'']),
    (''validateKubeNode_ManifestParameters'', [ValidStruct ''props'']),
    (''validateKubeNode_OfParameters'', [NotNil ''c'']),
    (''validateNewKubeNodeParameters'', [NotNil ''scope'', NotNil ''id'', ValidStruct ''props''])]"

definition KubeNode_no_checks :: validators where
  "KubeNode_no_checks =
   [(''validateKubeNode_IsApiObjectParameters'', []),
    (''validateKubeNode_IsConstructParameters'', []), (''validateKubeNode_ManifestParameters'', []),
    (''validateKubeNode_OfParameters'', []), (''validateNewKubeNodeParameters'', [])]"

lemma KubeNode_ok [class_checks]: "classOk (KubeNode, KubeNode_checks)"
  by (rule classOptional_I [where s = KubeNodeProps], simp only: table_members)
    (simp_all only: KubeNode_def KubeNode_getters_def KubeNode_functions_def
      KubeNode_methods_def KubeNode_checks_def KubeNodeProps_def class_eval)

lemma KubeNode_declared [class_interfaces]:
  "KubeNode_interface = apiObjectInterface ''KubeNode''"
  "KubeNode_no_checks = apiObjectNoChecks ''KubeNode''"
  by (simp_all only: KubeNode_interface_def KubeNode_no_checks_def declared_eval)

definition KubeNodeList_interface :: interface where
  "KubeNodeList_interface = Interface ''KubeNodeList'' [''cdk8s.ApiObject'']
   [Sig ''ApiGroup'' [] (Some (GoPtr GoString)), Sig ''ApiVersion'' [] (Some (GoPtr GoString)),
    Sig ''Chart'' [] (Some (GoNamed ''cdk8s.Chart'')), Sig ''Kind'' [] (Some (GoPtr GoString)),
    Sig ''Metadata'' [] (Some (GoNamed ''cdk8s.ApiObjectMetadataDefinition'')),
    Sig ''Name'' [] (Some (GoPtr GoString)), Sig ''Node'' [] (Some (GoNamed ''constructs.Node'')),
    Sig ''AddDependency'' [Rest ''dependencies'' (GoNamed ''constructs.IConstruct'')] None,
    Sig ''AddJsonPatch'' [Rest ''ops'' (GoNamed ''cdk8s.JsonPatch'')] None,
    Sig ''ToJson'' [] (Some GoAny), Sig ''ToString'' [] (Some (GoPtr GoString))]"

definition KubeNodeList_getters :: "gofun list" where
  "KubeNodeList_getters =
   [Method (Sig ''ApiGroup'' [] (Some (GoPtr GoString))) (Getter ''apiGroup''),
    Method (Sig ''ApiVersion'' [] (Some (GoPtr GoString))) (Getter ''apiVersion''),
    Method (Sig ''Chart'' [] (Some (GoNamed ''cdk8s.Chart''))) (Getter ''chart''),
    Method (Sig ''Kind'' [] (Some (GoPtr GoString))) (Getter ''kind''),
    Method (Sig ''Metadata'' [] (Some (GoNamed ''cdk8s.ApiObjectMetadataDefinition'')))
      (Getter ''metadata''),
    Method (Sig ''Name'' [] (Some (GoPtr GoString))) (Getter ''name''),
    Method (Sig ''Node'' [] (Some (GoNamed ''constructs.Node''))) (Getter ''node'')]"

definition KubeNodeList_functions :: "gofun list" where
  "KubeNodeList_functions =
   [Func (Sig ''NewKubeNodeList'' [
         Param ''scope'' (GoNamed ''constructs.Construct''), Param ''id'' (GoPtr GoString),
         Param ''props'' (GoPtr (GoNamed ''KubeNodeListProps''))] (Some (GoNamed ''KubeNodeList'')))
      (Construct ''k8s.KubeNodeList'' [''scope'', ''id'', ''props''] ''validateNewKubeNodeListParameters''),
    Func (Sig ''NewKubeNodeList_Override'' [
         Param ''k'' (GoNamed ''KubeNodeList''), Param ''scope'' (GoNamed ''constructs.Construct''),
         Param ''id'' (GoPtr GoString), Param ''props'' (GoPtr (GoNamed ''KubeNodeListProps''))] None)
      (ConstructOverride ''k8s.KubeNodeList'' [''scope'', ''id'', ''props'']),
    Func (Sig ''KubeNodeList_IsApiObject'' [Param ''o'' GoAny] (Some (GoPtr GoBool)))
      (StaticCall ''k8s.KubeNodeList'' ''isApiObject'' [''o''] ''validateKubeNodeList_IsApiObjectParameters''),
    Func (Sig ''KubeNodeList_IsConstruct'' [Param ''x'' GoAny] (Some (GoPtr GoBool)))
      (StaticCall ''k8s.KubeNodeList'' ''isConstruct'' [''x''] ''validateKubeNodeList_IsConstructParameters''),
    Func (Sig ''KubeNodeList_Manifest'' [Param ''props'' (GoPtr (GoNamed ''KubeNodeListProps''))] (Some GoAny))
      (StaticCall ''k8s.KubeNodeList'' ''manifest'' [''props''] ''validateKubeNodeList_ManifestParameters''),
    Func (Sig ''KubeNodeList_Of'' [Param ''c'' (GoNamed ''constructs.IConstruct'')] (Some (GoNamed ''cdk8s.ApiObject'')))
      (StaticCall ''k8s.KubeNodeList'' ''of'' [''c''] ''validateKubeNodeList_OfParameters''),
    Func (Sig ''KubeNodeList_GVK'' [] (Some (GoPtr (GoNamed ''cdk8s.GroupVersionKind''))))
      (StaticProp ''k8s.KubeNodeList'' ''GVK'')]"

definition KubeNodeList_methods :: "gofun list" where
  "KubeNodeList_methods =
   [Method (Sig ''AddDependency'' [Rest ''dependencies'' (GoNamed ''constructs.IConstruct'')] None)
      (Variadic ''addDependency''),
    Method (Sig ''AddJsonPatch'' [Rest ''ops'' (GoNamed ''cdk8s.JsonPatch'')] None)
      (Variadic ''addJsonPatch''),
    Method (Sig ''ToJson'' [] (Some GoAny)) (Plain ''toJson''),
    Method (Sig ''ToString'' [] (Some (GoPtr GoString))) (Plain ''toString'')]"

definition KubeNodeList :: binding where
  "KubeNodeList = Binding ''KubeNodeList'' [''internal.Type__cdk8sApiObject'']
     (KubeNodeList_getters @ KubeNodeList_functions @ KubeNodeList_methods)"

definition KubeNodeList_checks :: validators where
  "KubeNodeList_checks =
   [(''validateKubeNodeList_IsApiObjectParameters'', [NotNil ''o'']),
    (''validateKubeNodeList_IsConstructParameters'', [NotNil ''x'']),
    (''validateKubeNodeList_ManifestParameters'', [NotNil ''props'', ValidStruct ''props'']),
    (''validateKubeNodeList_OfParameters'', [NotNil ''c'']),
    (''validateNewKubeNodeListParameters'', [NotNil ''scope'', NotNil ''id'', NotNil ''props'', ValidStruct ''props''])]"

definition KubeNodeList_no_checks :: validators where
  "KubeNodeList_no_checks =
   [(''validateKubeNodeList_IsApiObjectParameters'', []),
    (''validateKubeNodeList_IsConstructParameters'', []),
    (''validateKubeNodeList_ManifestParameters'', []), (''validateKubeNodeList_OfParameters'', []),
    (''validateNewKubeNodeListParameters'', [])]"

lemma KubeNodeList_ok [class_checks]: "classOk (KubeNodeList, KubeNodeList_checks)"
  by (rule classRequired_I [where s = KubeNodeListProps], simp only: table_members)
    (simp_all only: KubeNodeList_def KubeNodeList_getters_def KubeNodeList_functions_def
      KubeNodeList_methods_def KubeNodeList_checks_def KubeNodeListProps_def class_eval)

lemma KubeNodeList_declared [class_interfaces]:
  "KubeNodeList_interface = apiObjectInterface ''KubeNodeList''"
  "KubeNodeList_no_checks = apiObjectNoChecks ''KubeNodeList''"
  by (simp_all only: KubeNodeList_interface_def KubeNodeList_no_checks_def declared_eval)

definition KubePersistentVolume_interface :: interface where
  "KubePersistentVolume_interface = Interface ''KubePersistentVolume'' [''cdk8s.ApiObject'']
   [Sig ''ApiGroup'' [] (Some (GoPtr GoString)), Sig ''ApiVersion'' [] (Some (GoPtr GoString)),
    Sig ''Chart'' [] (Some (GoNamed ''cdk8s.Chart'')), Sig ''Kind'' [] (Some (GoPtr GoString)),
    Sig ''Metadata'' [] (Some (GoNamed ''cdk8s.ApiObjectMetadataDefinition'')),
    Sig ''Name'' [] (Some (GoPtr GoString)), Sig ''Node'' [] (Some (GoNamed ''constructs.Node'')),
    Sig ''AddDependency'' [Rest ''dependencies'' (GoNamed ''constructs.IConstruct'')] None,
    Sig ''AddJsonPatch'' [Rest ''ops'' (GoNamed ''cdk8s.JsonPatch'')] None,
    Sig ''ToJson'' [] (Some GoAny), Sig ''ToString'' [] (Some (GoPtr GoString))]"

definition KubePersistentVolume_getters :: "gofun list" where
  "KubePersistentVolume_getters =
   [Method (Sig ''ApiGroup'' [] (Some (GoPtr GoString))) (Getter ''apiGroup''),
    Method (Sig ''ApiVersion'' [] (Some (GoPtr GoString))) (Getter ''apiVersion''),
    Method (Sig ''Chart'' [] (Some (GoNamed ''cdk8s.Chart''))) (Getter ''chart''),
    Method (Sig ''Kind'' [] (Some (GoPtr GoString))) (Getter ''kind''),
    Method (Sig ''Metadata'' [] (Some (GoNamed ''cdk8s.ApiObjectMetadataDefinition'')))
      (Getter ''metadata''),
    Method (Sig ''Name'' [] (Some (GoPtr GoString))) (Getter ''name''),
    Method (Sig ''Node'' [] (Some (GoNamed ''constructs.Node''))) (Getter ''node'')]"

definition KubePersistentVolume_functions :: "gofun list" where
  "KubePersistentVolume_functions =
   [Func (Sig ''NewKubePersistentVolume'' [
         Param ''scope'' (GoNamed ''constructs.Construct''), Param ''id'' (GoPtr GoString),
         Param ''props'' (GoPtr (GoNamed ''KubePersistentVolumeProps''))] (Some (GoNamed ''KubePersistentVolume'')))
      (Construct ''k8s.KubePersistentVolume'' [''scope'', ''id'', ''props''] ''validateNewKubePersistentVolumeParameters''),
    Func (Sig ''NewKubePersistentVolume_Override'' [
         Param ''k'' (GoNamed ''KubePersistentVolume''),
         Param ''scope'' (GoNamed ''constructs.Construct''), Param ''id'' (GoPtr GoString),
         Param ''props'' (GoPtr (GoNamed ''KubePersistentVolumeProps''))] None)
      (ConstructOverride ''k8s.KubePersistentVolume'' [''scope'', ''id'', ''props'']),
    Func (Sig ''KubePersistentVolume_IsApiObject'' [Param ''o'' GoAny] (Some (GoPtr GoBool)))
      (StaticCall ''k8s.KubePersistentVolume'' ''isApiObject'' [''o''] ''validateKubePersistentVolume_IsApiObjectParameters''),
    Func (Sig ''KubePersistentVolume_IsConstruct'' [Param ''x'' GoAny] (Some (GoPtr GoBool)))
      (StaticCall ''k8s.KubePersistentVolume'' ''isConstruct'' [''x''] ''validateKubePersistentVolume_IsConstructParameters''),
    Func (Sig ''KubePersistentVolume_Manifest'' [Param ''props'' (GoPtr (GoNamed ''KubePersistentVolumeProps''))] (Some GoAny))
      (StaticCall ''k8s.KubePersistentVolume'' ''manifest'' [''props''] ''validateKubePersistentVolume_ManifestParameters''),
    Func (Sig ''KubePersistentVolume_Of'' [Param ''c'' (GoNamed ''constructs.IConstruct'')] (Some (GoNamed ''cdk8s.ApiObject'')))
      (StaticCall ''k8s.KubePersistentVolume'' ''of'' [''c''] ''validateKubePersistentVolume_OfParameters''),
    Func (Sig ''KubePersistentVolume_GVK'' [] (Some (GoPtr (GoNamed ''cdk8s.GroupVersionKind''))))
      (StaticProp ''k8s.KubePersistentVolume'' ''GVK'')]"

definition KubePersistentVolume_methods :: "gofun list" where
  "KubePersistentVolume_methods =
   [Method (Sig ''AddDependency'' [Rest ''dependencies'' (GoNamed ''constructs.IConstruct'')] None)
      (Variadic ''addDependency''),
    Method (Sig ''AddJsonPatch'' [Rest ''ops'' (GoNamed ''cdk8s.JsonPatch'')] None)
      (Variadic ''addJsonPatch''),
    Method (Sig ''ToJson'' [] (Some GoAny)) (Plain ''toJson''),
    Method (Sig ''ToString'' [] (Some (GoPtr GoString))) (Plain ''toString'')]"

definition KubePersistentVolume :: binding where
  "KubePersistentVolume = Binding ''KubePersistentVolume'' [''internal.Type__cdk8sApiObject'']
     (KubePersistentVolume_getters @ KubePersistentVolume_functions @ KubePersistentVolume_methods)"

definition KubePersistentVolume_checks :: validators where
  "KubePersistentVolume_checks =
   [(''validateKubePersistentVolume_IsApiObjectParameters'', [NotNil ''o'']),
    (''validateKubePersistentVolume_IsConstructParameters'', [NotNil ''x'']),
    (''validateKubePersistentVolume_ManifestParameters'', [ValidStruct ''props'']),
    (''validateKubePersistentVolume_OfParameters'', [NotNil ''c'']),
    (''validateNewKubePersistentVolumeParameters'', [NotNil ''scope'', NotNil ''id'', ValidStruct ''props''])]"

definition KubePersistentVolume_no_checks :: validators where
  "KubePersistentVolume_no_checks =
   [(''validateKubePersistentVolume_IsApiObjectParameters'', []),
    (''validateKubePersistentVolume_IsConstructParameters'', []),
    (''validateKubePersistentVolume_ManifestParameters'', []),
    (''validateKubePersistentVolume_OfParameters'', []),
    (''validateNewKubePersistentVolumeParameters'', [])]"

lemma KubePersistentVolume_ok [class_checks]: "classOk (KubePersistentVolume, KubePersistentVolume_checks)"
  by (rule classOptional_I [where s = KubePersistentVolumeProps], simp only: table_members)
    (simp_all only: KubePersistentVolume_def KubePersistentVolume_getters_def KubePersistentVolume_functions_def
      KubePersistentVolume_methods_def KubePersistentVolume_checks_def KubePersistentVolumeProps_def class_eval)

lemma KubePersistentVolume_declared [class_interfaces]:
  "KubePersistentVolume_interface = apiObjectInterface ''KubePersistentVolume''"
  "KubePersistentVolume_no_checks = apiObjectNoChecks ''KubePersistentVolume''"
  by (simp_all only: KubePersistentVolume_interface_def KubePersistentVolume_no_checks_def declared_eval)

definition KubePersistentVolumeClaim_interface :: interface where
  "KubePersistentVolumeClaim_interface = Interface ''KubePersistentVolumeClaim'' [''cdk8s.ApiObject'']
   [Sig ''ApiGroup'' [] (Some (GoPtr GoString)), Sig ''ApiVersion'' [] (Some (GoPtr GoString)),
    Sig ''Chart'' [] (Some (GoNamed ''cdk8s.Chart'')), Sig ''Kind'' [] (Some (GoPtr GoString)),
    Sig ''Metadata'' [] (Some (GoNamed ''cdk8s.ApiObjectMetadataDefinition'')),
    Sig ''Name'' [] (Some (GoPtr GoString)), Sig ''Node'' [] (Some (GoNamed ''constructs.Node'')),
    Sig ''AddDependency'' [Rest ''dependencies'' (GoNamed ''constructs.IConstruct'')] None,
    Sig ''AddJsonPatch'' [Rest ''ops'' (GoNamed ''cdk8s.JsonPatch'')] None,
    Sig ''ToJson'' [] (Some GoAny), Sig ''ToString'' [] (Some (GoPtr GoString))]"

definition KubePersistentVolumeClaim_getters :: "gofun list" where
  "KubePersistentVolumeClaim_getters =
   [Method (Sig ''ApiGroup'' [] (Some (GoPtr GoString))) (Getter ''apiGroup''),
    Method (Sig ''ApiVersion'' [] (Some (GoPtr GoString))) (Getter ''apiVersion''),
    Method (Sig ''Chart'' [] (Some (GoNamed ''cdk8s.Chart''))) (Getter ''chart''),
    Method (Sig ''Kind'' [] (Some (GoPtr GoString))) (Getter ''kind''),
    Method (Sig ''Metadata'' [] (Some (GoNamed ''cdk8s.ApiObjectMetadataDefinition'')))
      (Getter ''metadata''),
    Method (Sig ''Name'' [] (Some (GoPtr GoString))) (Getter ''name''),
    Method (Sig ''Node'' [] (Some (GoNamed ''constructs.Node''))) (Getter ''node'')]"

definition KubePersistentVolumeClaim_functions :: "gofun list" where
  "KubePersistentVolumeClaim_functions =
   [Func (Sig ''NewKubePersistentVolumeClaim'' [
         Param ''scope'' (GoNamed ''constructs.Construct''), Param ''id'' (GoPtr GoString),
         Param ''props'' (GoPtr (GoNamed ''KubePersistentVolumeClaimProps''))] (Some (GoNamed ''KubePersistentVolumeClaim'')))
      (Construct ''k8s.KubePersistentVolumeClaim'' [''scope'', ''id'', ''props''] ''validateNewKubePersistentVolumeClaimParameters''),
    Func (Sig ''NewKubePersistentVolumeClaim_Override'' [
         Param ''k'' (GoNamed ''KubePersistentVolumeClaim''),
         Param ''scope'' (GoNamed ''constructs.Construct''), Param ''id'' (GoPtr GoString),
         Param ''props'' (GoPtr (GoNamed ''KubePersistentVolumeClaimProps''))] None)
      (ConstructOverride ''k8s.KubePersistentVolumeClaim'' [''scope'', ''id'', ''props'']),
    Func (Sig ''KubePersistentVolumeClaim_IsApiObject'' [Param ''o'' GoAny] (Some (GoPtr GoBool)))
      (StaticCall ''k8s.KubePersistentVolumeClaim'' ''isApiObject'' [''o''] ''validateKubePersistentVolumeClaim_IsApiObjectParameters''),
    Func (Sig ''KubePersistentVolumeClaim_IsConstruct'' [Param ''x'' GoAny] (Some (GoPtr GoBool)))
      (StaticCall ''k8s.KubePersistentVolumeClaim'' ''isConstruct'' [''x''] ''validateKubePersistentVolumeClaim_IsConstructParameters''),
    Func (Sig ''KubePersistentVolumeClaim_Manifest'' [Param ''props'' (GoPtr (GoNamed ''KubePersistentVolumeClaimProps''))] (Some GoAny))
      (StaticCall ''k8s.KubePersistentVolumeClaim'' ''manifest'' [''props''] ''validateKubePersistentVolumeClaim_ManifestParameters''),
    Func (Sig ''KubePersistentVolumeClaim_Of'' [Param ''c'' (GoNamed ''constructs.IConstruct'')] (Some (GoNamed ''cdk8s.ApiObject'')))
      (StaticCall ''k8s.KubePersistentVolumeClaim'' ''of'' [''c''] ''validateKubePersistentVolumeClaim_OfParameters''),
    Func (Sig ''KubePersistentVolumeClaim_GVK'' [] (Some (GoPtr (GoNamed ''cdk8s.GroupVersionKind''))))
      (StaticProp ''k8s.KubePersistentVolumeClaim'' ''GVK'')]"

definition KubePersistentVolumeClaim_methods :: "gofun list" where
  "KubePersistentVolumeClaim_methods =
   [Method (Sig ''AddDependency'' [Rest ''dependencies'' (GoNamed ''constructs.IConstruct'')] None)
      (Variadic ''addDependency''),
    Method (Sig ''AddJsonPatch'' [Rest ''ops'' (GoNamed ''cdk8s.JsonPatch'')] None)
      (Variadic ''addJsonPatch''),
    Method (Sig ''ToJson'' [] (Some GoAny)) (Plain ''toJson''),
    Method (Sig ''ToString'' [] (Some (GoPtr GoString))) (Plain ''toString'')]"

definition KubePersistentVolumeClaim :: binding where
  "KubePersistentVolumeClaim = Binding ''KubePersistentVolumeClaim'' [''internal.Type__cdk8sApiObject'']
     (KubePersistentVolumeClaim_getters @ KubePersistentVolumeClaim_functions @ KubePersistentVolumeClaim_methods)"

definition KubePersistentVolumeClaim_checks :: validators where
  "KubePersistentVolumeClaim_checks =
   [(''validateKubePersistentVolumeClaim_IsApiObjectParameters'', [NotNil ''o'']),
    (''validateKubePersistentVolumeClaim_IsConstructParameters'', [NotNil ''x'']),
    (''validateKubePersistentVolumeClaim_ManifestParameters'', [ValidStruct ''props'']),
    (''validateKubePersistentVolumeClaim_OfParameters'', [NotNil ''c'']),
    (''validateNewKubePersistentVolumeClaimParameters'', [NotNil ''scope'', NotNil ''id'', ValidStruct ''props''])]"

definition KubePersistentVolumeClaim_no_checks :: validators where
  "KubePersistentVolumeClaim_no_checks =
   [(''validateKubePersistentVolumeClaim_IsApiObjectParameters'', []),
    (''validateKubePersistentVolumeClaim_IsConstructParameters'', []),
    (''validateKubePersistentVolumeClaim_ManifestParameters'', []),
    (''validateKubePersistentVolumeClaim_OfParameters'', []),
    (''validateNewKubePersistentVolumeClaimParameters'', [])]"

lemma KubePersistentVolumeClaim_ok [class_checks]: "classOk (KubePersistentVolumeClaim, KubePersistentVolumeClaim_checks)"
  by (rule classOptional_I [where s = KubePersistentVolumeClaimProps], simp only: table_members)
    (simp_all only: KubePersistentVolumeClaim_def KubePersistentVolumeClaim_getters_def KubePersistentVolumeClaim_functions_def
      KubePersistentVolumeClaim_methods_def KubePersistentVolumeClaim_checks_def KubePersistentVolumeClaimProps_def class_eval)

lemma KubePersistentVolumeClaim_declared [class_interfaces]:
  "KubePersistentVolumeClaim_interface = apiObjectInterface ''KubePersistentVolumeClaim''"
  "KubePersistentVolumeClaim_no_checks = apiObjectNoChecks ''KubePersistentVolumeClaim''"
  by (simp_all only: KubePersistentVolumeClaim_interface_def KubePersistentVolumeClaim_no_checks_def declared_eval)

definition KubePersistentVolumeClaimList_interface :: interface where
  "KubePersistentVolumeClaimList_interface = Interface ''KubePersistentVolumeClaimList'' [''cdk8s.ApiObject'']
   [Sig ''ApiGroup'' [] (Some (GoPtr GoString)), Sig ''ApiVersion'' [] (Some (GoPtr GoString)),
    Sig ''Chart'' [] (Some (GoNamed ''cdk8s.Chart'')), Sig ''Kind'' [] (Some (GoPtr GoString)),
    Sig ''Metadata'' [] (Some (GoNamed ''cdk8s.ApiObjectMetadataDefinition'')),
    Sig ''Name'' [] (Some (GoPtr GoString)), Sig ''Node'' [] (Some (GoNamed ''constructs.Node'')),
    Sig ''AddDependency'' [Rest ''dependencies'' (GoNamed ''constructs.IConstruct'')] None,
    Sig ''AddJsonPatch'' [Rest ''ops'' (GoNamed ''cdk8s.JsonPatch'')] None,
    Sig ''ToJson'' [] (Some GoAny), Sig ''ToString'' [] (Some (GoPtr GoString))]"

definition KubePersistentVolumeClaimList_getters :: "gofun list" where
  "KubePersistentVolumeClaimList_getters =
   [Method (Sig ''ApiGroup'' [] (Some (GoPtr GoString))) (Getter ''apiGroup''),
    Method (Sig ''ApiVersion'' [] (Some (GoPtr GoString))) (Getter ''apiVersion''),
    Method (Sig ''Chart'' [] (Some (GoNamed ''cdk8s.Chart''))) (Getter ''chart''),
    Method (Sig ''Kind'' [] (Some (GoPtr GoString))) (Getter ''kind''),
    Method (Sig ''Metadata'' [] (Some (GoNamed ''cdk8s.ApiObjectMetadataDefinition'')))
      (Getter ''metadata''),
    Method (Sig ''Name'' [] (Some (GoPtr GoString))) (Getter ''name''),
    Method (Sig ''Node'' [] (Some (GoNamed ''constructs.Node''))) (Getter ''node'')]"

definition KubePersistentVolumeClaimList_functions :: "gofun list" where
  "KubePersistentVolumeClaimList_functions =
   [Func (Sig ''NewKubePersistentVolumeClaimList'' [
         Param ''scope'' (GoNamed ''constructs.Construct''), Param ''id'' (GoPtr GoString),
         Param ''props'' (GoPtr (GoNamed ''KubePersistentVolumeClaimListProps''))] (Some (GoNamed ''KubePersistentVolumeClaimList'')))
      (Construct ''k8s.KubePersistentVolumeClaimList'' [''scope'', ''id'', ''props''] ''validateNewKubePersistentVolumeClaimListParameters''),
    Func (Sig ''NewKubePersistentVolumeClaimList_Override'' [
         Param ''k'' (GoNamed ''KubePersistentVolumeClaimList''),
         Param ''scope'' (GoNamed ''constructs.Construct''), Param ''id'' (GoPtr GoString),
         Param ''props'' (GoPtr (GoNamed ''KubePersistentVolumeClaimListProps''))] None)
      (ConstructOverride ''k8s.KubePersistentVolumeClaimList'' [''scope'', ''id'', ''props'']),
    Func (Sig ''KubePersistentVolumeClaimList_IsApiObject'' [Param ''o'' GoAny] (Some (GoPtr GoBool)))
      (StaticCall ''k8s.KubePersistentVolumeClaimList'' ''isApiObject'' [''o''] ''validateKubePersistentVolumeClaimList_IsApiObjectParameters''),
    Func (Sig ''KubePersistentVolumeClaimList_IsConstruct'' [Param ''x'' GoAny] (Some (GoPtr GoBool)))
      (StaticCall ''k8s.KubePersistentVolumeClaimList'' ''isConstruct'' [''x''] ''validateKubePersistentVolumeClaimList_IsConstructParameters''),
    Func (Sig ''KubePersistentVolumeClaimList_Manifest'' [Param ''props'' (GoPtr (GoNamed ''KubePersistentVolumeClaimListProps''))] (Some GoAny))
      (StaticCall ''k8s.KubePersistentVolumeClaimList'' ''manifest'' [''props''] ''validateKubePersistentVolumeClaimList_ManifestParameters''),
    Func (Sig ''KubePersistentVolumeClaimList_Of'' [Param ''c'' (GoNamed ''constructs.IConstruct'')] (Some (GoNamed ''cdk8s.ApiObject'')))
      (StaticCall ''k8s.KubePersistentVolumeClaimList'' ''of'' [''c''] ''validateKubePersistentVolumeClaimList_OfParameters''),
    Func (Sig ''KubePersistentVolumeClaimList_GVK'' [] (Some (GoPtr (GoNamed ''cdk8s.GroupVersionKind''))))
      (StaticProp ''k8s.KubePersistentVolumeClaimList'' ''GVK'')]"

definition KubePersistentVolumeClaimList_methods :: "gofun list" where
  "KubePersistentVolumeClaimList_methods =
   [Method (Sig ''AddDependency'' [Rest ''dependencies'' (GoNamed ''constructs.IConstruct'')] None)
      (Variadic ''addDependency''),
    Method (Sig ''AddJsonPatch'' [Rest ''ops'' (GoNamed ''cdk8s.JsonPatch'')] None)
      (Variadic ''addJsonPatch''),
    Method (Sig ''ToJson'' [] (Some GoAny)) (Plain ''toJson''),
    Method (Sig ''ToString'' [] (Some (GoPtr GoString))) (Plain ''toString'')]"

definition KubePersistentVolumeClaimList :: binding where
  "KubePersistentVolumeClaimList = Binding ''KubePersistentVolumeClaimList'' [''internal.Type__cdk8sApiObject'']
     (KubePersistentVolumeClaimList_getters @ KubePersistentVolumeClaimList_functions @ KubePersistentVolumeClaimList_methods)"

definition KubePersistentVolumeClaimList_checks :: validators where
  "KubePersistentVolumeClaimList_checks =
   [(''validateKubePersistentVolumeClaimList_IsApiObjectParameters'', [NotNil ''o'']),
    (''validateKubePersistentVolumeClaimList_IsConstructParameters'', [NotNil ''x'']),
    (''validateKubePersistentVolumeClaimList_ManifestParameters'', [NotNil ''props'', ValidStruct ''props'']),
    (''validateKubePersistentVolumeClaimList_OfParameters'', [NotNil ''c'']),
    (''validateNewKubePersistentVolumeClaimListParameters'', [NotNil ''scope'', NotNil ''id'', NotNil ''props'', ValidStruct ''props''])]"

definition KubePersistentVolumeClaimList_no_checks :: validators where
  "KubePersistentVolumeClaimList_no_checks =
   [(''validateKubePersistentVolumeClaimList_IsApiObjectParameters'', []),
    (''validateKubePersistentVolumeClaimList_IsConstructParameters'', []),
    (''validateKubePersistentVolumeClaimList_ManifestParameters'', []),
    (''validateKubePersistentVolumeClaimList_OfParameters'', []),
    (''validateNewKubePersistentVolumeClaimListParameters'', [])]"

lemma KubePersistentVolumeClaimList_ok [class_checks]: "classOk (KubePersistentVolumeClaimList, KubePersistentVolumeClaimList_checks)"
  by (rule classRequired_I [where s = KubePersistentVolumeClaimListProps], simp only: table_members)
    (simp_all only: KubePersistentVolumeClaimList_def KubePersistentVolumeClaimList_getters_def KubePersistentVolumeClaimList_functions_def
      KubePersistentVolumeClaimList_methods_def KubePersistentVolumeClaimList_checks_def KubePersistentVolumeClaimListProps_def class_eval)

lemma KubePersistentVolumeClaimList_declared [class_interfaces]:
  "KubePersistentVolumeClaimList_interface = apiObjectInterface ''KubePersistentVolumeClaimList''"
  "KubePersistentVolumeClaimList_no_checks = apiObjectNoChecks ''KubePersistentVolumeClaimList''"
  by (simp_all only: KubePersistentVolumeClaimList_interface_def KubePersistentVolumeClaimList_no_checks_def declared_eval)

definition KubePersistentVolumeList_interface :: interface where
  "KubePersistentVolumeList_interface = Interface ''KubePersistentVolumeList'' [''cdk8s.ApiObject'']
   [Sig ''ApiGroup'' [] (Some (GoPtr GoString)), Sig ''ApiVersion'' [] (Some (GoPtr GoString)),
    Sig ''Chart'' [] (Some (GoNamed ''cdk8s.Chart'')), Sig ''Kind'' [] (Some (GoPtr GoString)),
    Sig ''Metadata'' [] (Some (GoNamed ''cdk8s.ApiObjectMetadataDefinition'')),
    Sig ''Name'' [] (Some (GoPtr GoString)), Sig ''Node'' [] (Some (GoNamed ''constructs.Node'')),
    Sig ''AddDependency'' [Rest ''dependencies'' (GoNamed ''constructs.IConstruct'')] None,
    Sig ''AddJsonPatch'' [Rest ''ops'' (GoNamed ''cdk8s.JsonPatch'')] None,
    Sig ''ToJson'' [] (Some GoAny), Sig ''ToString'' [] (Some (GoPtr GoString))]"

definition KubePersistentVolumeList_getters :: "gofun list" where
  "KubePersistentVolumeList_getters =
   [Method (Sig ''ApiGroup'' [] (Some (GoPtr GoString))) (Getter ''apiGroup''),
    Method (Sig ''ApiVersion'' [] (Some (GoPtr GoString))) (Getter ''apiVersion''),
    Method (Sig ''Chart'' [] (Some (GoNamed ''cdk8s.Chart''))) (Getter ''chart''),
    Method (Sig ''Kind'' [] (Some (GoPtr GoString))) (Getter ''kind''),
    Method (Sig ''Metadata'' [] (Some (GoNamed ''cdk8s.ApiObjectMetadataDefinition'')))
      (Getter ''metadata''),
    Method (Sig ''Name'' [] (Some (GoPtr GoString))) (Getter ''name''),
    Method (Sig ''Node'' [] (Some (GoNamed ''constructs.Node''))) (Getter ''node'')]"

definition KubePersistentVolumeList_functions :: "gofun list" where
  "KubePersistentVolumeList_functions =
   [Func (Sig ''NewKubePersistentVolumeList'' [
         Param ''scope'' (GoNamed ''constructs.Construct''), Param ''id'' (GoPtr GoString),
         Param ''props'' (GoPtr (GoNamed ''KubePersistentVolumeListProps''))] (Some (GoNamed ''KubePersistentVolumeList'')))
      (Construct ''k8s.KubePersistentVolumeList'' [''scope'', ''id'', ''props''] ''validateNewKubePersistentVolumeListParameters''),
    Func (Sig ''NewKubePersistentVolumeList_Override'' [
         Param ''k'' (GoNamed ''KubePersistentVolumeList''),
         Param ''scope'' (GoNamed ''constructs.Construct''), Param ''id'' (GoPtr GoString),
         Param ''props'' (GoPtr (GoNamed ''KubePersistentVolumeListProps''))] None)
      (ConstructOverride ''k8s.KubePersistentVolumeList'' [''scope'', ''id'', ''props'']),
    Func (Sig ''KubePersistentVolumeList_IsApiObject'' [Param ''o'' GoAny] (Some (GoPtr GoBool)))
      (StaticCall ''k8s.KubePersistentVolumeList'' ''isApiObject'' [''o''] ''validateKubePersistentVolumeList_IsApiObjectParameters''),
    Func (Sig ''KubePersistentVolumeList_IsConstruct'' [Param ''x'' GoAny] (Some (GoPtr GoBool)))
      (StaticCall ''k8s.KubePersistentVolumeList'' ''isConstruct'' [''x''] ''validateKubePersistentVolumeList_IsConstructParameters''),
    Func (Sig ''KubePersistentVolumeList_Manifest'' [Param ''props'' (GoPtr (GoNamed ''KubePersistentVolumeListProps''))] (Some GoAny))
      (StaticCall ''k8s.KubePersistentVolumeList'' ''manifest'' [''props''] ''validateKubePersistentVolumeList_ManifestParameters''),
    Func (Sig ''KubePersistentVolumeList_Of'' [Param ''c'' (GoNamed ''constructs.IConstruct'')] (Some (GoNamed ''cdk8s.ApiObject'')))
      (StaticCall ''k8s.KubePersistentVolumeList'' ''of'' [''c''] ''validateKubePersistentVolumeList_OfParameters''),
    Func (Sig ''KubePersistentVolumeList_GVK'' [] (Some (GoPtr (GoNamed ''cdk8s.GroupVersionKind''))))
      (StaticProp ''k8s.KubePersistentVolumeList'' ''GVK'')]"

definition KubePersistentVolumeList_methods :: "gofun list" where
  "KubePersistentVolumeList_methods =
   [Method (Sig ''AddDependency'' [Rest ''dependencies'' (GoNamed ''constructs.IConstruct'')] None)
      (Variadic ''addDependency''),
    Method (Sig ''AddJsonPatch'' [Rest ''ops'' (GoNamed ''cdk8s.JsonPatch'')] None)
      (Variadic ''addJsonPatch''),
    Method (Sig ''ToJson'' [] (Some GoAny)) (Plain ''toJson''),
    Method (Sig ''ToString'' [] (Some (GoPtr GoString))) (Plain ''toString'')]"

definition KubePersistentVolumeList :: binding where
  "KubePersistentVolumeList = Binding ''KubePersistentVolumeList'' [''internal.Type__cdk8sApiObject'']
     (KubePersistentVolumeList_getters @ KubePersistentVolumeList_functions @ KubePersistentVolumeList_methods)"

definition KubePersistentVolumeList_checks :: validators where
  "KubePersistentVolumeList_checks =
   [(''validateKubePersistentVolumeList_IsApiObjectParameters'', [NotNil ''o'']),
    (''validateKubePersistentVolumeList_IsConstructParameters'', [NotNil ''x'']),
    (''validateKubePersistentVolumeList_ManifestParameters'', [NotNil ''props'', ValidStruct ''props'']),
    (''validateKubePersistentVolumeList_OfParameters'', [NotNil ''c'']),
    (''validateNewKubePersistentVolumeListParameters'', [NotNil ''scope'', NotNil ''id'', NotNil ''props'', ValidStruct ''props''])]"

definition KubePersistentVolumeList_no_checks :: validators where
  "KubePersistentVolumeList_no_checks =
   [(''validateKubePersistentVolumeList_IsApiObjectParameters'', []),
    (''validateKubePersistentVolumeList_IsConstructParameters'', []),
    (''validateKubePersistentVolumeList_ManifestParameters'', []),
    (''validateKubePersistentVolumeList_OfParameters'', []),
    (''validateNewKubePersistentVolumeListParameters'', [])]"

lemma KubePersistentVolumeList_ok [class_checks]: "classOk (KubePersistentVolumeList, KubePersistentVolumeList_checks)"
  by (rule classRequired_I [where s = KubePersistentVolumeListProps], simp only: table_members)
    (simp_all only: KubePersistentVolumeList_def KubePersistentVolumeList_getters_def KubePersistentVolumeList_functions_def
      KubePersistentVolumeList_methods_def KubePersistentVolumeList_checks_def KubePersistentVolumeListProps_def class_eval)

lemma KubePersistentVolumeList_declared [class_interfaces]:
  "KubePersistentVolumeList_interface = apiObjectInterface ''KubePersistentVolumeList''"
  "KubePersistentVolumeList_no_checks = apiObjectNoChecks ''KubePersistentVolumeList''"
  by (simp_all only: KubePersistentVolumeList_interface_def KubePersistentVolumeList_no_checks_def declared_eval)

definition KubePod_interface :: interface where
  "KubePod_interface = Interface ''KubePod'' [''cdk8s.ApiObject'']
   [Sig ''ApiGroup'' [] (Some (GoPtr GoString)), Sig ''ApiVersion'' [] (Some (GoPtr GoString)),
    Sig ''Chart'' [] (Some (GoNamed ''cdk8s.Chart'')), Sig ''Kind'' [] (Some (GoPtr GoString)),
    Sig ''Metadata'' [] (Some (GoNamed ''cdk8s.ApiObjectMetadataDefinition'')),
    Sig ''Name'' [] (Some (GoPtr GoString)), Sig ''Node'' [] (Some (GoNamed ''constructs.Node'')),
    Sig ''AddDependency'' [Rest ''dependencies'' (GoNamed ''constructs.IConstruct'')] None,
    Sig ''AddJsonPatch'' [Rest ''ops'' (GoNamed ''cdk8s.JsonPatch'')] None,
    Sig ''ToJson'' [] (Some GoAny), Sig ''ToString'' [] (Some (GoPtr GoString))]"

definition KubePod_getters :: "gofun list" where
  "KubePod_getters =
   [Method (Sig ''ApiGroup'' [] (Some (GoPtr GoString))) (Getter ''apiGroup''),
    Method (Sig ''ApiVersion'' [] (Some (GoPtr GoString))) (Getter ''apiVersion''),
    Method (Sig ''Chart'' [] (Some (GoNamed ''cdk8s.Chart''))) (Getter ''chart''),
    Method (Sig ''Kind'' [] (Some (GoPtr GoString))) (Getter ''kind''),
    Method (Sig ''Metadata'' [] (Some (GoNamed ''cdk8s.ApiObjectMetadataDefinition'')))
      (Getter ''metadata''),
    Method (Sig ''Name'' [] (Some (GoPtr GoString))) (Getter ''name''),
    Method (Sig ''Node'' [] (Some (GoNamed ''constructs.Node''))) (Getter ''node'')]"

definition KubePod_functions :: "gofun list" where
  "KubePod_functions =
   [Func (Sig ''NewKubePod'' [
         Param ''scope'' (GoNamed ''constructs.Construct''), Param ''id'' (GoPtr GoString),
         Param ''props'' (GoPtr (GoNamed ''KubePodProps''))] (Some (GoNamed ''KubePod'')))
      (Construct ''k8s.KubePod'' [''scope'', ''id'', ''props''] ''validateNewKubePodParameters''),
    Func (Sig ''NewKubePod_Override'' [
         Param ''k'' (GoNamed ''KubePod''), Param ''scope'' (GoNamed ''constructs.Construct''),
         Param ''id'' (GoPtr GoString), Param ''props'' (GoPtr (GoNamed ''KubePodProps''))] None)
      (ConstructOverride ''k8s.KubePod'' [''scope'', ''id'', ''props'']),
    Func (Sig ''KubePod_IsApiObject'' [Param ''o'' GoAny] (Some (GoPtr GoBool)))
      (StaticCall ''k8s.KubePod'' ''isApiObject'' [''o''] ''validateKubePod_IsApiObjectParameters''),
    Func (Sig ''KubePod_IsConstruct'' [Param ''x'' GoAny] (Some (GoPtr GoBool)))
      (StaticCall ''k8s.KubePod'' ''isConstruct'' [''x''] ''validateKubePod_IsConstructParameters''),
    Func (Sig ''KubePod_Manifest'' [Param ''props'' (GoPtr (GoNamed ''KubePodProps''))] (Some GoAny))
      (StaticCall ''k8s.KubePod'' ''manifest'' [''props''] ''validateKubePod_ManifestParameters''),
    Func (Sig ''KubePod_Of'' [Param ''c'' (GoNamed ''constructs.IConstruct'')] (Some (GoNamed ''cdk8s.ApiObject'')))
      (StaticCall ''k8s.KubePod'' ''of'' [''c''] ''validateKubePod_OfParameters''),
    Func (Sig ''KubePod_GVK'' [] (Some (GoPtr (GoNamed ''cdk8s.GroupVersionKind''))))
      (StaticProp ''k8s.KubePod'' ''GVK'')]"

definition KubePod_methods :: "gofun list" where
  "KubePod_methods =
   [Method (Sig ''AddDependency'' [Rest ''dependencies'' (GoNamed ''constructs.IConstruct'')] None)
      (Variadic ''addDependency''),
    Method (Sig ''AddJsonPatch'' [Rest ''ops'' (GoNamed ''cdk8s.JsonPatch'')] None)
      (Variadic ''addJsonPatch''),
    Method (Sig ''ToJson'' [] (Some GoAny)) (Plain ''toJson''),
    Method (Sig ''ToString'' [] (Some (GoPtr GoString))) (Plain ''toString'')]"

definition KubePod :: binding where
  "KubePod = Binding ''KubePod'' [''internal.Type__cdk8sApiObject'']
     (KubePod_getters @ KubePod_functions @ KubePod_methods)"

definition KubePod_checks :: validators where
  "KubePod_checks =
   [(''validateKubePod_IsApiObjectParameters'', [NotNil ''o'']),
    (''validateKubePod_IsConstructParameters'', [NotNil ''x'']),
    (''validateKubePod_ManifestParameters'', [ValidStruct ''props'']),
    (''validateKubePod_OfParameters'', [NotNil ''c'']),
    (''validateNewKubePodParameters'', [NotNil ''scope'', NotNil ''id'', ValidStruct ''props''])]"

definition KubePod_no_checks :: validators where
  "KubePod_no_checks =
   [(''validateKubePod_IsApiObjectParameters'', []),
    (''validateKubePod_IsConstructParameters'', []), (''validateKubePod_ManifestParameters'', []),
    (''validateKubePod_OfParameters'', []), (''validateNewKubePodParameters'', [])]"

lemma KubePod_ok [class_checks]: "classOk (KubePod, KubePod_checks)"
  by (rule classOptional_I [where s = KubePodProps], simp only: table_members)
    (simp_all only: KubePod_def KubePod_getters_def KubePod_functions_def
      KubePod_methods_def KubePod_checks_def KubePodProps_def class_eval)

lemma KubePod_declared [class_interfaces]:
  "KubePod_interface = apiObjectInterface ''KubePod''"
  "KubePod_no_checks = apiObjectNoChecks ''KubePod''"
  by (simp_all only: KubePod_interface_def KubePod_no_checks_def declared_eval)

definition KubePodDisruptionBudget_interface :: interface where
  "KubePodDisruptionBudget_interface = Interface ''KubePodDisruptionBudget'' [''cdk8s.ApiObject'']
   [Sig ''ApiGroup'' [] (Some (GoPtr GoString)), Sig ''ApiVersion'' [] (Some (GoPtr GoString)),
    Sig ''Chart'' [] (Some (GoNamed ''cdk8s.Chart'')), Sig ''Kind'' [] (Some (GoPtr GoString)),
    Sig ''Metadata'' [] (Some (GoNamed ''cdk8s.ApiObjectMetadataDefinition'')),
    Sig ''Name'' [] (Some (GoPtr GoString)), Sig ''Node'' [] (Some (GoNamed ''constructs.Node'')),
    Sig ''AddDependency'' [Rest ''dependencies'' (GoNamed ''constructs.IConstruct'')] None,
    Sig ''AddJsonPatch'' [Rest ''ops'' (GoNamed ''cdk8s.JsonPatch'')] None,
    Sig ''ToJson'' [] (Some GoAny), Sig ''ToString'' [] (Some (GoPtr GoString))]"

definition KubePodDisruptionBudget_getters :: "gofun list" where
  "KubePodDisruptionBudget_getters =
   [Method (Sig ''ApiGroup'' [] (Some (GoPtr GoString))) (Getter ''apiGroup''),
    Method (Sig ''ApiVersion'' [] (Some (GoPtr GoString))) (Getter ''apiVersion''),
    Method (Sig ''Chart'' [] (Some (GoNamed ''cdk8s.Chart''))) (Getter ''chart''),
    Method (Sig ''Kind'' [] (Some (GoPtr GoString))) (Getter ''kind''),
    Method (Sig ''Metadata'' [] (Some (GoNamed ''cdk8s.ApiObjectMetadataDefinition'')))
      (Getter ''metadata''),
    Method (Sig ''Name'' [] (Some (GoPtr GoString))) (Getter ''name''),
    Method (Sig ''Node'' [] (Some (GoNamed ''constructs.Node''))) (Getter ''node'')]"

definition KubePodDisruptionBudget_functions :: "gofun list" where
  "KubePodDisruptionBudget_functions =
   [Func (Sig ''NewKubePodDisruptionBudget'' [
         Param ''scope'' (GoNamed ''constructs.Construct''), Param ''id'' (GoPtr GoString),
         Param ''props'' (GoPtr (GoNamed ''KubePodDisruptionBudgetProps''))] (Some (GoNamed ''KubePodDisruptionBudget'')))
      (Construct ''k8s.KubePodDisruptionBudget'' [''scope'', ''id'', ''props''] ''validateNewKubePodDisruptionBudgetParameters''),
    Func (Sig ''NewKubePodDisruptionBudget_Override'' [
         Param ''k'' (GoNamed ''KubePodDisruptionBudget''),
         Param ''scope'' (GoNamed ''constructs.Construct''), Param ''id'' (GoPtr GoString),
         Param ''props'' (GoPtr (GoNamed ''KubePodDisruptionBudgetProps''))] None)
      (ConstructOverride ''k8s.KubePodDisruptionBudget'' [''scope'', ''id'', ''props'']),
    Func (Sig ''KubePodDisruptionBudget_IsApiObject'' [Param ''o'' GoAny] (Some (GoPtr GoBool)))
      (StaticCall ''k8s.KubePodDisruptionBudget'' ''isApiObject'' [''o''] ''validateKubePodDisruptionBudget_IsApiObjectParameters''),
    Func (Sig ''KubePodDisruptionBudget_IsConstruct'' [Param ''x'' GoAny] (Some (GoPtr GoBool)))
      (StaticCall ''k8s.KubePodDisruptionBudget'' ''isConstruct'' [''x''] ''validateKubePodDisruptionBudget_IsConstructParameters''),
    Func (Sig ''KubePodDisruptionBudget_Manifest'' [Param ''props'' (GoPtr (GoNamed ''KubePodDisruptionBudgetProps''))] (Some GoAny))
      (StaticCall ''k8s.KubePodDisruptionBudget'' ''manifest'' [''props''] ''validateKubePodDisruptionBudget_ManifestParameters''),
    Func (Sig ''KubePodDisruptionBudget_Of'' [Param ''c'' (GoNamed ''constructs.IConstruct'')] (Some (GoNamed ''cdk8s.ApiObject'')))
      (StaticCall ''k8s.KubePodDisruptionBudget'' ''of'' [''c''] ''validateKubePodDisruptionBudget_OfParameters''),
    Func (Sig ''KubePodDisruptionBudget_GVK'' [] (Some (GoPtr (GoNamed ''cdk8s.GroupVersionKind''))))
      (StaticProp ''k8s.KubePodDisruptionBudget'' ''GVK'')]"

definition KubePodDisruptionBudget_methods :: "gofun list" where
  "KubePodDisruptionBudget_methods =
   [Method (Sig ''AddDependency'' [Rest ''dependencies'' (GoNamed ''constructs.IConstruct'')] None)
      (Variadic ''addDependency''),
    Method (Sig ''AddJsonPatch'' [Rest ''ops'' (GoNamed ''cdk8s.JsonPatch'')] None)
      (Variadic ''addJsonPatch''),
    Method (Sig ''ToJson'' [] (Some GoAny)) (Plain ''toJson''),
    Method (Sig ''ToString'' [] (Some (GoPtr GoString))) (Plain ''toString'')]"

definition KubePodDisruptionBudget :: binding where
  "KubePodDisruptionBudget = Binding ''KubePodDisruptionBudget'' [''internal.Type__cdk8sApiObject'']
     (KubePodDisruptionBudget_getters @ KubePodDisruptionBudget_functions @ KubePodDisruptionBudget_methods)"

definition KubePodDisruptionBudget_checks :: validators where
  "KubePodDisruptionBudget_checks =
   [(''validateKubePodDisruptionBudget_IsApiObjectParameters'', [NotNil ''o'']),
    (''validateKubePodDisruptionBudget_IsConstructParameters'', [NotNil ''x'']),
    (''validateKubePodDisruptionBudget_ManifestParameters'', [ValidStruct ''props'']),
    (''validateKubePodDisruptionBudget_OfParameters'', [NotNil ''c'']),
    (''validateNewKubePodDisruptionBudgetParameters'', [NotNil ''scope'', NotNil ''id'', ValidStruct ''props''])]"

definition KubePodDisruptionBudget_no_checks :: validators where
  "KubePodDisruptionBudget_no_checks =
   [(''validateKubePodDisruptionBudget_IsApiObjectParameters'', []),
    (''validateKubePodDisruptionBudget_IsConstructParameters'', []),
    (''validateKubePodDisruptionBudget_ManifestParameters'', []),
    (''validateKubePodDisruptionBudget_OfParameters'', []),
    (''validateNewKubePodDisruptionBudgetParameters'', [])]"

lemma KubePodDisruptionBudget_ok [class_checks]: "classOk (KubePodDisruptionBudget, KubePodDisruptionBudget_checks)"
  by (rule classOptional_I [where s = KubePodDisruptionBudgetProps], simp only: table_members)
    (simp_all only: KubePodDisruptionBudget_def KubePodDisruptionBudget_getters_def KubePodDisruptionBudget_functions_def
      KubePodDisruptionBudget_methods_def KubePodDisruptionBudget_checks_def KubePodDisruptionBudgetProps_def class_eval)

lemma KubePodDisruptionBudget_declared [class_interfaces]:
  "KubePodDisruptionBudget_interface = apiObjectInterface ''KubePodDisruptionBudget''"
  "KubePodDisruptionBudget_no_checks = apiObjectNoChecks ''KubePodDisruptionBudget''"
  by (simp_all only: KubePodDisruptionBudget_interface_def KubePodDisruptionBudget_no_checks_def declared_eval)

definition KubePodDisruptionBudgetList_interface :: interface where
  "KubePodDisruptionBudgetList_interface = Interface ''KubePodDisruptionBudgetList'' [''cdk8s.ApiObject'']
   [Sig ''ApiGroup'' [] (Some (GoPtr GoString)), Sig ''ApiVersion'' [] (Some (GoPtr GoString)),
    Sig ''Chart'' [] (Some (GoNamed ''cdk8s.Chart'')), Sig ''Kind'' [] (Some (GoPtr GoString)),
    Sig ''Metadata'' [] (Some (GoNamed ''cdk8s.ApiObjectMetadataDefinition'')),
    Sig ''Name'' [] (Some (GoPtr GoString)), Sig ''Node'' [] (Some (GoNamed ''constructs.Node'')),
    Sig ''AddDependency'' [Rest ''dependencies'' (GoNamed ''constructs.IConstruct'')] None,
    Sig ''AddJsonPatch'' [Rest ''ops'' (GoNamed ''cdk8s.JsonPatch'')] None,
    Sig ''ToJson'' [] (Some GoAny), Sig ''ToString'' [] (Some (GoPtr GoString))]"

definition KubePodDisruptionBudgetList_getters :: "gofun list" where
  "KubePodDisruptionBudgetList_getters =
   [Method (Sig ''ApiGroup'' [] (Some (GoPtr GoString))) (Getter ''apiGroup''),
    Method (Sig ''ApiVersion'' [] (Some (GoPtr GoString))) (Getter ''apiVersion''),
    Method (Sig ''Chart'' [] (Some (GoNamed ''cdk8s.Chart''))) (Getter ''chart''),
    Method (Sig ''Kind'' [] (Some (GoPtr GoString))) (Getter ''kind''),
    Method (Sig ''Metadata'' [] (Some (GoNamed ''cdk8s.ApiObjectMetadataDefinition'')))
      (Getter ''metadata''),
    Method (Sig ''Name'' [] (Some (GoPtr GoString))) (Getter ''name''),
    Method (Sig ''Node'' [] (Some (GoNamed ''constructs.Node''))) (Getter ''node'')]"

definition KubePodDisruptionBudgetList_functions :: "gofun list" where
  "KubePodDisruptionBudgetList_functions =
   [Func (Sig ''NewKubePodDisruptionBudgetList'' [
         Param ''scope'' (GoNamed ''constructs.Construct''), Param ''id'' (GoPtr GoString),
         Param ''props'' (GoPtr (GoNamed ''KubePodDisruptionBudgetListProps''))] (Some (GoNamed ''KubePodDisruptionBudgetList'')))
      (Construct ''k8s.KubePodDisruptionBudgetList'' [''scope'', ''id'', ''props''] ''validateNewKubePodDisruptionBudgetListParameters''),
    Func (Sig ''NewKubePodDisruptionBudgetList_Override'' [
         Param ''k'' (GoNamed ''KubePodDisruptionBudgetList''),
         Param ''scope'' (GoNamed ''constructs.Construct''), Param ''id'' (GoPtr GoString),
         Param ''props'' (GoPtr (GoNamed ''KubePodDisruptionBudgetListProps''))] None)
      (ConstructOverride ''k8s.KubePodDisruptionBudgetList'' [''scope'', ''id'', ''props'']),
    Func (Sig ''KubePodDisruptionBudgetList_IsApiObject'' [Param ''o'' GoAny] (Some (GoPtr GoBool)))
      (StaticCall ''k8s.KubePodDisruptionBudgetList'' ''isApiObject'' [''o''] ''validateKubePodDisruptionBudgetList_IsApiObjectParameters''),
    Func (Sig ''KubePodDisruptionBudgetList_IsConstruct'' [Param ''x'' GoAny] (Some (GoPtr GoBool)))
      (StaticCall ''k8s.KubePodDisruptionBudgetList'' ''isConstruct'' [''x''] ''validateKubePodDisruptionBudgetList_IsConstructParameters''),
    Func (Sig ''KubePodDisruptionBudgetList_Manifest'' [Param ''props'' (GoPtr (GoNamed ''KubePodDisruptionBudgetListProps''))] (Some GoAny))
      (StaticCall ''k8s.KubePodDisruptionBudgetList'' ''manifest'' [''props''] ''validateKubePodDisruptionBudgetList_ManifestParameters''),
    Func (Sig ''KubePodDisruptionBudgetList_Of'' [Param ''c'' (GoNamed ''constructs.IConstruct'')] (Some (GoNamed ''cdk8s.ApiObject'')))
      (StaticCall ''k8s.KubePodDisruptionBudgetList'' ''of'' [''c''] ''validateKubePodDisruptionBudgetList_OfParameters''),
    Func (Sig ''KubePodDisruptionBudgetList_GVK'' [] (Some (GoPtr (GoNamed ''cdk8s.GroupVersionKind''))))
      (StaticProp ''k8s.KubePodDisruptionBudgetList'' ''GVK'')]"

definition KubePodDisruptionBudgetList_methods :: "gofun list" where
  "KubePodDisruptionBudgetList_methods =
   [Method (Sig ''AddDependency'' [Rest ''dependencies'' (GoNamed ''constructs.IConstruct'')] None)
      (Variadic ''addDependency''),
    Method (Sig ''AddJsonPatch'' [Rest ''ops'' (GoNamed ''cdk8s.JsonPatch'')] None)
      (Variadic ''addJsonPatch''),
    Method (Sig ''ToJson'' [] (Some GoAny)) (Plain ''toJson''),
    Method (Sig ''ToString'' [] (Some (GoPtr GoString))) (Plain ''toString'')]"

definition KubePodDisruptionBudgetList :: binding where
  "KubePodDisruptionBudgetList = Binding ''KubePodDisruptionBudgetList'' [''internal.Type__cdk8sApiObject'']
     (KubePodDisruptionBudgetList_getters @ KubePodDisruptionBudgetList_functions @ KubePodDisruptionBudgetList_methods)"

definition KubePodDisruptionBudgetList_checks :: validators where
  "KubePodDisruptionBudgetList_checks =
   [(''validateKubePodDisruptionBudgetList_IsApiObjectParameters'', [NotNil ''o'']),
    (''validateKubePodDisruptionBudgetList_IsConstructParameters'', [NotNil ''x'']),
    (''validateKubePodDisruptionBudgetList_ManifestParameters'', [NotNil ''props'', ValidStruct ''props'']),
    (''validateKubePodDisruptionBudgetList_OfParameters'', [NotNil ''c'']),
    (''validateNewKubePodDisruptionBudgetListParameters'', [NotNil ''scope'', NotNil ''id'', NotNil ''props'', ValidStruct ''props''])]"

definition KubePodDisruptionBudgetList_no_checks :: validators where
  "KubePodDisruptionBudgetList_no_checks =
   [(''validateKubePodDisruptionBudgetList_IsApiObjectParameters'', []),
    (''validateKubePodDisruptionBudgetList_IsConstructParameters'', []),
    (''validateKubePodDisruptionBudgetList_ManifestParameters'', []),
    (''validateKubePodDisruptionBudgetList_OfParameters'', []),
    (''validateNewKubePodDisruptionBudgetListParameters'', [])]"

lemma KubePodDisruptionBudgetList_ok [class_checks]: "classOk (KubePodDisruptionBudgetList, KubePodDisruptionBudgetList_checks)"
  by (rule classRequired_I [where s = KubePodDisruptionBudgetListProps], simp only: table_members)
    (simp_all only: KubePodDisruptionBudgetList_def KubePodDisruptionBudgetList_getters_def KubePodDisruptionBudgetList_functions_def
      KubePodDisruptionBudgetList_methods_def KubePodDisruptionBudgetList_checks_def KubePodDisruptionBudgetListProps_def class_eval)

lemma KubePodDisruptionBudgetList_declared [class_interfaces]:
  "KubePodDisruptionBudgetList_interface = apiObjectInterface ''KubePodDisruptionBudgetList''"
  "KubePodDisruptionBudgetList_no_checks = apiObjectNoChecks ''KubePodDisruptionBudgetList''"
  by (simp_all only: KubePodDisruptionBudgetList_interface_def KubePodDisruptionBudgetList_no_checks_def declared_eval)

definition KubePodList_interface :: interface where
  "KubePodList_interface = Interface ''KubePodList'' [''cdk8s.ApiObject'']
   [Sig ''ApiGroup'' [] (Some (GoPtr GoString)), Sig ''ApiVersion'' [] (Some (GoPtr GoString)),
    Sig ''Chart'' [] (Some (GoNamed ''cdk8s.Chart'')), Sig ''Kind'' [] (Some (GoPtr GoString)),
    Sig ''Metadata'' [] (Some (GoNamed ''cdk8s.ApiObjectMetadataDefinition'')),
    Sig ''Name'' [] (Some (GoPtr GoString)), Sig ''Node'' [] (Some (GoNamed ''constructs.Node'')),
    Sig ''AddDependency'' [Rest ''dependencies'' (GoNamed ''constructs.IConstruct'')] None,
    Sig ''AddJsonPatch'' [Rest ''ops'' (GoNamed ''cdk8s.JsonPatch'')] None,
    Sig ''ToJson'' [] (Some GoAny), Sig ''ToString'' [] (Some (GoPtr GoString))]"

definition KubePodList_getters :: "gofun list" where
  "KubePodList_getters =
   [Method (Sig ''ApiGroup'' [] (Some (GoPtr GoString))) (Getter ''apiGroup''),
    Method (Sig ''ApiVersion'' [] (Some (GoPtr GoString))) (Getter ''apiVersion''),
    Method (Sig ''Chart'' [] (Some (GoNamed ''cdk8s.Chart''))) (Getter ''chart''),
    Method (Sig ''Kind'' [] (Some (GoPtr GoString))) (Getter ''kind''),
    Method (Sig ''Metadata'' [] (Some (GoNamed ''cdk8s.ApiObjectMetadataDefinition'')))
      (Getter ''metadata''),
    Method (Sig ''Name'' [] (Some (GoPtr GoString))) (Getter ''name''),
    Method (Sig ''Node'' [] (Some (GoNamed ''constructs.Node''))) (Getter ''node'')]"

definition KubePodList_functions :: "gofun list" where
  "KubePodList_functions =
   [Func (Sig ''NewKubePodList'' [
         Param ''scope'' (GoNamed ''constructs.Construct''), Param ''id'' (GoPtr GoString),
         Param ''props'' (GoPtr (GoNamed ''KubePodListProps''))] (Some (GoNamed ''KubePodList'')))
      (Construct ''k8s.KubePodList'' [''scope'', ''id'', ''props''] ''validateNewKubePodListParameters''),
    Func (Sig ''NewKubePodList_Override'' [
         Param ''k'' (GoNamed ''KubePodList''), Param ''scope'' (GoNamed ''constructs.Construct''),
         Param ''id'' (GoPtr GoString), Param ''props'' (GoPtr (GoNamed ''KubePodListProps''))] None)
      (ConstructOverride ''k8s.KubePodList'' [''scope'', ''id'', ''props'']),
    Func (Sig ''KubePodList_IsApiObject'' [Param ''o'' GoAny] (Some (GoPtr GoBool)))
      (StaticCall ''k8s.KubePodList'' ''isApiObject'' [''o''] ''validateKubePodList_IsApiObjectParameters''),
    Func (Sig ''KubePodList_IsConstruct'' [Param ''x'' GoAny] (Some (GoPtr GoBool)))
      (StaticCall ''k8s.KubePodList'' ''isConstruct'' [''x''] ''validateKubePodList_IsConstructParameters''),
    Func (Sig ''KubePodList_Manifest'' [Param ''props'' (GoPtr (GoNamed ''KubePodListProps''))] (Some GoAny))
      (StaticCall ''k8s.KubePodList'' ''manifest'' [''props''] ''validateKubePodList_ManifestParameters''),
    Func (Sig ''KubePodList_Of'' [Param ''c'' (GoNamed ''constructs.IConstruct'')] (Some (GoNamed ''cdk8s.ApiObject'')))
      (StaticCall ''k8s.KubePodList'' ''of'' [''c''] ''validateKubePodList_OfParameters''),
    Func (Sig ''KubePodList_GVK'' [] (Some (GoPtr (GoNamed ''cdk8s.GroupVersionKind''))))
      (StaticProp ''k8s.KubePodList'' ''GVK'')]"

definition KubePodList_methods :: "gofun list" where
  "KubePodList_methods =
   [Method (Sig ''AddDependency'' [Rest ''dependencies'' (GoNamed ''constructs.IConstruct'')] None)
      (Variadic ''addDependency''),
    Method (Sig ''AddJsonPatch'' [Rest ''ops'' (GoNamed ''cdk8s.JsonPatch'')] None)
      (Variadic ''addJsonPatch''),
    Method (Sig ''ToJson'' [] (Some GoAny)) (Plain ''toJson''),
    Method (Sig ''ToString'' [] (Some (GoPtr GoString))) (Plain ''toString'')]"

definition KubePodList :: binding where
  "KubePodList = Binding ''KubePodList'' [''internal.Type__cdk8sApiObject'']
     (KubePodList_getters @ KubePodList_functions @ KubePodList_methods)"

definition KubePodList_checks :: validators where
  "KubePodList_checks =
   [(''validateKubePodList_IsApiObjectParameters'', [NotNil ''o'']),
    (''validateKubePodList_IsConstructParameters'', [NotNil ''x'']),
    (''validateKubePodList_ManifestParameters'', [NotNil ''props'', ValidStruct ''props'']),
    (''validateKubePodList_OfParameters'', [NotNil ''c'']),
    (''validateNewKubePodListParameters'', [NotNil ''scope'', NotNil ''id'', NotNil ''props'', ValidStruct ''props''])]"

definition KubePodList_no_checks :: validators where
  "KubePodList_no_checks =
   [(''validateKubePodList_IsApiObjectParameters'', []),
    (''validateKubePodList_IsConstructParameters'', []),
    (''validateKubePodList_ManifestParameters'', []), (''validateKubePodList_OfParameters'', []),
    (''validateNewKubePodListParameters'', [])]"

lemma KubePodList_ok [class_checks]: "classOk (KubePodList, KubePodList_checks)"
  by (rule classRequired_I [where s = KubePodListProps], simp only: table_members)
    (simp_all only: KubePodList_def KubePodList_getters_def KubePodList_functions_def
      KubePodList_methods_def KubePodList_checks_def KubePodListProps_def class_eval)

lemma KubePodList_declared [class_interfaces]:
  "KubePodList_interface = apiObjectInterface ''KubePodList''"
  "KubePodList_no_checks = apiObjectNoChecks ''KubePodList''"
  by (simp_all only: KubePodList_interface_def KubePodList_no_checks_def declared_eval)

definition KubePodTemplate_interface :: interface where
  "KubePodTemplate_interface = Interface ''KubePodTemplate'' [''cdk8s.ApiObject'']
   [Sig ''ApiGroup'' [] (Some (GoPtr GoString)), Sig ''ApiVersion'' [] (Some (GoPtr GoString)),
    Sig ''Chart'' [] (Some (GoNamed ''cdk8s.Chart'')), Sig ''Kind'' [] (Some (GoPtr GoString)),
    Sig ''Metadata'' [] (Some (GoNamed ''cdk8s.ApiObjectMetadataDefinition'')),
    Sig ''Name'' [] (Some (GoPtr GoString)), Sig ''Node'' [] (Some (GoNamed ''constructs.Node'')),
    Sig ''AddDependency'' [Rest ''dependencies'' (GoNamed ''constructs.IConstruct'')] None,
    Sig ''AddJsonPatch'' [Rest ''ops'' (GoNamed ''cdk8s.JsonPatch'')] None,
    Sig ''ToJson'' [] (Some GoAny), Sig ''ToString'' [] (Some (GoPtr GoString))]"

definition KubePodTemplate_getters :: "gofun list" where
  "KubePodTemplate_getters =
   [Method (Sig ''ApiGroup'' [] (Some (GoPtr GoString))) (Getter ''apiGroup''),
    Method (Sig ''ApiVersion'' [] (Some (GoPtr GoString))) (Getter ''apiVersion''),
    Method (Sig ''Chart'' [] (Some (GoNamed ''cdk8s.Chart''))) (Getter ''chart''),
    Method (Sig ''Kind'' [] (Some (GoPtr GoString))) (Getter ''kind''),
    Method (Sig ''Metadata'' [] (Some (GoNamed ''cdk8s.ApiObjectMetadataDefinition'')))
      (Getter ''metadata''),
    Method (Sig ''Name'' [] (Some (GoPtr GoString))) (Getter ''name''),
    Method (Sig ''Node'' [] (Some (GoNamed ''constructs.Node''))) (Getter ''node'')]"

definition KubePodTemplate_functions :: "gofun list" where
  "KubePodTemplate_functions =
   [Func (Sig ''NewKubePodTemplate'' [
         Param ''scope'' (GoNamed ''constructs.Construct''), Param ''id'' (GoPtr GoString),
         Param ''props'' (GoPtr (GoNamed ''KubePodTemplateProps''))] (Some (GoNamed ''KubePodTemplate'')))
      (Construct ''k8s.KubePodTemplate'' [''scope'', ''id'', ''props''] ''validateNewKubePodTemplateParameters''),
    Func (Sig ''NewKubePodTemplate_Override'' [
         Param ''k'' (GoNamed ''KubePodTemplate''), Param ''scope'' (GoNamed ''constructs.Construct''),
         Param ''id'' (GoPtr GoString), Param ''props'' (GoPtr (GoNamed ''KubePodTemplateProps''))] None)
      (ConstructOverride ''k8s.KubePodTemplate'' [''scope'', ''id'', ''props'']),
    Func (Sig ''KubePodTemplate_IsApiObject'' [Param ''o'' GoAny] (Some (GoPtr GoBool)))
      (StaticCall ''k8s.KubePodTemplate'' ''isApiObject'' [''o''] ''validateKubePodTemplate_IsApiObjectParameters''),
    Func (Sig ''KubePodTemplate_IsConstruct'' [Param ''x'' GoAny] (Some (GoPtr GoBool)))
      (StaticCall ''k8s.KubePodTemplate'' ''isConstruct'' [''x''] ''validateKubePodTemplate_IsConstructParameters''),
    Func (Sig ''KubePodTemplate_Manifest'' [Param ''props'' (GoPtr (GoNamed ''KubePodTemplateProps''))] (Some GoAny))
      (StaticCall ''k8s.KubePodTemplate'' ''manifest'' [''props''] ''validateKubePodTemplate_ManifestParameters''),
    Func (Sig ''KubePodTemplate_Of'' [Param ''c'' (GoNamed ''constructs.IConstruct'')] (Some (GoNamed ''cdk8s.ApiObject'')))
      (StaticCall ''k8s.KubePodTemplate'' ''of'' [''c''] ''validateKubePodTemplate_OfParameters''),
    Func (Sig ''KubePodTemplate_GVK'' [] (Some (GoPtr (GoNamed ''cdk8s.GroupVersionKind''))))
      (StaticProp ''k8s.KubePodTemplate'' ''GVK'')]"

definition KubePodTemplate_methods :: "gofun list" where
  "KubePodTemplate_methods =
   [Method (Sig ''AddDependency'' [Rest ''dependencies'' (GoNamed ''constructs.IConstruct'')] None)
      (Variadic ''addDependency''),
    Method (Sig ''AddJsonPatch'' [Rest ''ops'' (GoNamed ''cdk8s.JsonPatch'')] None)
      (Variadic ''addJsonPatch''),
    Method (Sig ''ToJson'' [] (Some GoAny)) (Plain ''toJson''),
    Method (Sig ''ToString'' [] (Some (GoPtr GoString))) (Plain ''toString'')]"

definition KubePodTemplate :: binding where
  "KubePodTemplate = Binding ''KubePodTemplate'' [''internal.Type__cdk8sApiObject'']
     (KubePodTemplate_getters @ KubePodTemplate_functions @ KubePodTemplate_methods)"

definition KubePodTemplate_checks :: validators where
  "KubePodTemplate_checks =
   [(''validateKubePodTemplate_IsApiObjectParameters'', [NotNil ''o'']),
    (''validateKubePodTemplate_IsConstructParameters'', [NotNil ''x'']),
    (''validateKubePodTemplate_ManifestParameters'', [ValidStruct ''props'']),
    (''validateKubePodTemplate_OfParameters'', [NotNil ''c'']),
    (''validateNewKubePodTemplateParameters'', [NotNil ''scope'', NotNil ''id'', ValidStruct ''props''])]"

definition KubePodTemplate_no_checks :: validators where
  "KubePodTemplate_no_checks =
   [(''validateKubePodTemplate_IsApiObjectParameters'', []),
    (''validateKubePodTemplate_IsConstructParameters'', []),
    (''validateKubePodTemplate_ManifestParameters'', []),
    (''validateKubePodTemplate_OfParameters'', []), (''validateNewKubePodTemplateParameters'', [])]"

lemma KubePodTemplate_ok [class_checks]: "classOk (KubePodTemplate, KubePodTemplate_checks)"
  by (rule classOptional_I [where s = KubePodTemplateProps], simp only: table_members)
    (simp_all only: KubePodTemplate_def KubePodTemplate_getters_def KubePodTemplate_functions_def
      KubePodTemplate_methods_def KubePodTemplate_checks_def KubePodTemplateProps_def class_eval)

lemma KubePodTemplate_declared [class_interfaces]:
  "KubePodTemplate_interface = apiObjectInterface ''KubePodTemplate''"
  "KubePodTemplate_no_checks = apiObjectNoChecks ''KubePodTemplate''"
  by (simp_all only: KubePodTemplate_interface_def KubePodTemplate_no_checks_def declared_eval)

definition KubePodTemplateList_interface :: interface where
  "KubePodTemplateList_interface = Interface ''KubePodTemplateList'' [''cdk8s.ApiObject'']
   [Sig ''ApiGroup'' [] (Some (GoPtr GoString)), Sig ''ApiVersion'' [] (Some (GoPtr GoString)),
    Sig ''Chart'' [] (Some (GoNamed ''cdk8s.Chart'')), Sig ''Kind'' [] (Some (GoPtr GoString)),
    Sig ''Metadata'' [] (Some (GoNamed ''cdk8s.ApiObjectMetadataDefinition'')),
    Sig ''Name'' [] (Some (GoPtr GoString)), Sig ''Node'' [] (Some (GoNamed ''constructs.Node'')),
    Sig ''AddDependency'' [Rest ''dependencies'' (GoNamed ''constructs.IConstruct'')] None,
    Sig ''AddJsonPatch'' [Rest ''ops'' (GoNamed ''cdk8s.JsonPatch'')] None,
    Sig ''ToJson'' [] (Some GoAny), Sig ''ToString'' [] (Some (GoPtr GoString))]"

definition KubePodTemplateList_getters :: "gofun list" where
  "KubePodTemplateList_getters =
   [Method (Sig ''ApiGroup'' [] (Some (GoPtr GoString))) (Getter ''apiGroup''),
    Method (Sig ''ApiVersion'' [] (Some (GoPtr GoString))) (Getter ''apiVersion''),
    Method (Sig ''Chart'' [] (Some (GoNamed ''cdk8s.Chart''))) (Getter ''chart''),
    Method (Sig ''Kind'' [] (Some (GoPtr GoString))) (Getter ''kind''),
    Method (Sig ''Metadata'' [] (Some (GoNamed ''cdk8s.ApiObjectMetadataDefinition'')))
      (Getter ''metadata''),
    Method (Sig ''Name'' [] (Some (GoPtr GoString))) (Getter ''name''),
    Method (Sig ''Node'' [] (Some (GoNamed ''constructs.Node''))) (Getter ''node'')]"

definition KubePodTemplateList_functions :: "gofun list" where
  "KubePodTemplateList_functions =
   [Func (Sig ''NewKubePodTemplateList'' [
         Param ''scope'' (GoNamed ''constructs.Construct''), Param ''id'' (GoPtr GoString),
         Param ''props'' (GoPtr (GoNamed ''KubePodTemplateListProps''))] (Some (GoNamed ''KubePodTemplateList'')))
      (Construct ''k8s.KubePodTemplateList'' [''scope'', ''id'', ''props''] ''validateNewKubePodTemplateListParameters''),
    Func (Sig ''NewKubePodTemplateList_Override'' [
         Param ''k'' (GoNamed ''KubePodTemplateList''),
         Param ''scope'' (GoNamed ''constructs.Construct''), Param ''id'' (GoPtr GoString),
         Param ''props'' (GoPtr (GoNamed ''KubePodTemplateListProps''))] None)
      (ConstructOverride ''k8s.KubePodTemplateList'' [''scope'', ''id'', ''props'']),
    Func (Sig ''KubePodTemplateList_IsApiObject'' [Param ''o'' GoAny] (Some (GoPtr GoBool)))
      (StaticCall ''k8s.KubePodTemplateList'' ''isApiObject'' [''o''] ''validateKubePodTemplateList_IsApiObjectParameters''),
    Func (Sig ''KubePodTemplateList_IsConstruct'' [Param ''x'' GoAny] (Some (GoPtr GoBool)))
      (StaticCall ''k8s.KubePodTemplateList'' ''isConstruct'' [''x''] ''validateKubePodTemplateList_IsConstructParameters''),
    Func (Sig ''KubePodTemplateList_Manifest'' [Param ''props'' (GoPtr (GoNamed ''KubePodTemplateListProps''))] (Some GoAny))
      (StaticCall ''k8s.KubePodTemplateList'' ''manifest'' [''props''] ''validateKubePodTemplateList_ManifestParameters''),
    Func (Sig ''KubePodTemplateList_Of'' [Param ''c'' (GoNamed ''constructs.IConstruct'')] (Some (GoNamed ''cdk8s.ApiObject'')))
      (StaticCall ''k8s.KubePodTemplateList'' ''of'' [''c''] ''validateKubePodTemplateList_OfParameters''),
    Func (Sig ''KubePodTemplateList_GVK'' [] (Some (GoPtr (GoNamed ''cdk8s.GroupVersionKind''))))
      (StaticProp ''k8s.KubePodTemplateList'' ''GVK'')]"

definition KubePodTemplateList_methods :: "gofun list" where
  "KubePodTemplateList_methods =
   [Method (Sig ''AddDependency'' [Rest ''dependencies'' (GoNamed ''constructs.IConstruct'')] None)
      (Variadic ''addDependency''),
    Method (Sig ''AddJsonPatch'' [Rest ''ops'' (GoNamed ''cdk8s.JsonPatch'')] None)
      (Variadic ''addJsonPatch''),
    Method (Sig ''ToJson'' [] (Some GoAny)) (Plain ''toJson''),
    Method (Sig ''ToString'' [] (Some (GoPtr GoString))) (Plain ''toString'')]"

definition KubePodTemplateList :: binding where
  "KubePodTemplateList = Binding ''KubePodTemplateList'' [''internal.Type__cdk8sApiObject'']
     (KubePodTemplateList_getters @ KubePodTemplateList_functions @ KubePodTemplateList_methods)"

definition KubePodTemplateList_checks :: validators where
  "KubePodTemplateList_checks =
   [(''validateKubePodTemplateList_IsApiObjectParameters'', [NotNil ''o'']),
    (''validateKubePodTemplateList_IsConstructParameters'', [NotNil ''x'']),
    (''validateKubePodTemplateList_ManifestParameters'', [NotNil ''props'', ValidStruct ''props'']),
    (''validateKubePodTemplateList_OfParameters'', [NotNil ''c'']),
    (''validateNewKubePodTemplateListParameters'', [NotNil ''scope'', NotNil ''id'', NotNil ''props'', ValidStruct ''props''])]"

definition KubePodTemplateList_no_checks :: validators where
  "KubePodTemplateList_no_checks =
   [(''validateKubePodTemplateList_IsApiObjectParameters'', []),
    (''validateKubePodTemplateList_IsConstructParameters'', []),
    (''validateKubePodTemplateList_ManifestParameters'', []),
    (''validateKubePodTemplateList_OfParameters'', []),
    (''validateNewKubePodTemplateListParameters'', [])]"

lemma KubePodTemplateList_ok [class_checks]: "classOk (KubePodTemplateList, KubePodTemplateList_checks)"
  by (rule classRequired_I [where s = KubePodTemplateListProps], simp only: table_members)
    (simp_all only: KubePodTemplateList_def KubePodTemplateList_getters_def KubePodTemplateList_functions_def
      KubePodTemplateList_methods_def KubePodTemplateList_checks_def KubePodTemplateListProps_def class_eval)

lemma KubePodTemplateList_declared [class_interfaces]:
  "KubePodTemplateList_interface = apiObjectInterface ''KubePodTemplateList''"
  "KubePodTemplateList_no_checks = apiObjectNoChecks ''KubePodTemplateList''"
  by (simp_all only: KubePodTemplateList_interface_def KubePodTemplateList_no_checks_def declared_eval)

definition KubePriorityClass_interface :: interface where
  "KubePriorityClass_interface = Interface ''KubePriorityClass'' [''cdk8s.ApiObject'']
   [Sig ''ApiGroup'' [] (Some (GoPtr GoString)), Sig ''ApiVersion'' [] (Some (GoPtr GoString)),
    Sig ''Chart'' [] (Some (GoNamed ''cdk8s.Chart'')), Sig ''Kind'' [] (Some (GoPtr GoString)),
    Sig ''Metadata'' [] (Some (GoNamed ''cdk8s.ApiObjectMetadataDefinition'')),
    Sig ''Name'' [] (Some (GoPtr GoString)), Sig ''Node'' [] (Some (GoNamed ''constructs.Node'')),
    Sig ''AddDependency'' [Rest ''dependencies'' (GoNamed ''constructs.IConstruct'')] None,
    Sig ''AddJsonPatch'' [Rest ''ops'' (GoNamed ''cdk8s.JsonPatch'')] None,
    Sig ''ToJson'' [] (Some GoAny), Sig ''ToString'' [] (Some (GoPtr GoString))]"

definition KubePriorityClass_getters :: "gofun list" where
  "KubePriorityClass_getters =
   [Method (Sig ''ApiGroup'' [] (Some (GoPtr GoString))) (Getter ''apiGroup''),
    Method (Sig ''ApiVersion'' [] (Some (GoPtr GoString))) (Getter ''apiVersion''),
    Method (Sig ''Chart'' [] (Some (GoNamed ''cdk8s.Chart''))) (Getter ''chart''),
    Method (Sig ''Kind'' [] (Some (GoPtr GoString))) (Getter ''kind''),
    Method (Sig ''Metadata'' [] (Some (GoNamed ''cdk8s.ApiObjectMetadataDefinition'')))
      (Getter ''metadata''),
    Method (Sig ''Name'' [] (Some (GoPtr GoString))) (Getter ''name''),
    Method (Sig ''Node'' [] (Some (GoNamed ''constructs.Node''))) (Getter ''node'')]"

definition KubePriorityClass_functions :: "gofun list" where
  "KubePriorityClass_functions =
   [Func (Sig ''NewKubePriorityClass'' [
         Param ''scope'' (GoNamed ''constructs.Construct''), Param ''id'' (GoPtr GoString),
         Param ''props'' (GoPtr (GoNamed ''KubePriorityClassProps''))] (Some (GoNamed ''KubePriorityClass'')))
      (Construct ''k8s.KubePriorityClass'' [''scope'', ''id'', ''props''] ''validateNewKubePriorityClassParameters''),
    Func (Sig ''NewKubePriorityClass_Override'' [
         Param ''k'' (GoNamed ''KubePriorityClass''), Param ''scope'' (GoNamed ''constructs.Construct''),
         Param ''id'' (GoPtr GoString), Param ''props'' (GoPtr (GoNamed ''KubePriorityClassProps''))] None)
      (ConstructOverride ''k8s.KubePriorityClass'' [''scope'', ''id'', ''props'']),
    Func (Sig ''KubePriorityClass_IsApiObject'' [Param ''o'' GoAny] (Some (GoPtr GoBool)))
      (StaticCall ''k8s.KubePriorityClass'' ''isApiObject'' [''o''] ''validateKubePriorityClass_IsApiObjectParameters''),
    Func (Sig ''KubePriorityClass_IsConstruct'' [Param ''x'' GoAny] (Some (GoPtr GoBool)))
      (StaticCall ''k8s.KubePriorityClass'' ''isConstruct'' [''x''] ''validateKubePriorityClass_IsConstructParameters''),
    Func (Sig ''KubePriorityClass_Manifest'' [Param ''props'' (GoPtr (GoNamed ''KubePriorityClassProps''))] (Some GoAny))
      (StaticCall ''k8s.KubePriorityClass'' ''manifest'' [''props''] ''validateKubePriorityClass_ManifestParameters''),
    Func (Sig ''KubePriorityClass_Of'' [Param ''c'' (GoNamed ''constructs.IConstruct'')] (Some (GoNamed ''cdk8s.ApiObject'')))
      (StaticCall ''k8s.KubePriorityClass'' ''of'' [''c''] ''validateKubePriorityClass_OfParameters''),
    Func (Sig ''KubePriorityClass_GVK'' [] (Some (GoPtr (GoNamed ''cdk8s.GroupVersionKind''))))
      (StaticProp ''k8s.KubePriorityClass'' ''GVK'')]"

definition KubePriorityClass_methods :: "gofun list" where
  "KubePriorityClass_methods =
   [Method (Sig ''AddDependency'' [Rest ''dependencies'' (GoNamed ''constructs.IConstruct'')] None)
      (Variadic ''addDependency''),
    Method (Sig ''AddJsonPatch'' [Rest ''ops'' (GoNamed ''cdk8s.JsonPatch'')] None)
      (Variadic ''addJsonPatch''),
    Method (Sig ''ToJson'' [] (Some GoAny)) (Plain ''toJson''),
    Method (Sig ''ToString'' [] (Some (GoPtr GoString))) (Plain ''toString'')]"

definition KubePriorityClass :: binding where
  "KubePriorityClass = Binding ''KubePriorityClass'' [''internal.Type__cdk8sApiObject'']
     (KubePriorityClass_getters @ KubePriorityClass_functions @ KubePriorityClass_methods)"

definition KubePriorityClass_checks :: validators where
  "KubePriorityClass_checks =
   [(''validateKubePriorityClass_IsApiObjectParameters'', [NotNil ''o'']),
    (''validateKubePriorityClass_IsConstructParameters'', [NotNil ''x'']),
    (''validateKubePriorityClass_ManifestParameters'', [NotNil ''props'', ValidStruct ''props'']),
    (''validateKubePriorityClass_OfParameters'', [NotNil ''c'']),
    (''validateNewKubePriorityClassParameters'', [NotNil ''scope'', NotNil ''id'', NotNil ''props'', ValidStruct ''props''])]"

definition KubePriorityClass_no_checks :: validators where
  "KubePriorityClass_no_checks =
   [(''validateKubePriorityClass_IsApiObjectParameters'', []),
    (''validateKubePriorityClass_IsConstructParameters'', []),
    (''validateKubePriorityClass_ManifestParameters'', []),
    (''validateKubePriorityClass_OfParameters'', []),
    (''validateNewKubePriorityClassParameters'', [])]"

lemma KubePriorityClass_ok [class_checks]: "classOk (KubePriorityClass, KubePriorityClass_checks)"
  by (rule classRequired_I [where s = KubePriorityClassProps], simp only: table_members)
    (simp_all only: KubePriorityClass_def KubePriorityClass_getters_def KubePriorityClass_functions_def
      KubePriorityClass_methods_def KubePriorityClass_checks_def KubePriorityClassProps_def class_eval)

lemma KubePriorityClass_declared [class_interfaces]:
  "KubePriorityClass_interface = apiObjectInterface ''KubePriorityClass''"
  "KubePriorityClass_no_checks = apiObjectNoChecks ''KubePriorityClass''"
  by (simp_all only: KubePriorityClass_interface_def KubePriorityClass_no_checks_def declared_eval)

definition classes_D :: "(binding \<times> validators) list" where
  "classes_D =
   [(KubeLocalSubjectAccessReview, KubeLocalSubjectAccessReview_checks),
    (KubeMutatingWebhookConfiguration, KubeMutatingWebhookConfiguration_checks),
    (KubeMutatingWebhookConfigurationList, KubeMutatingWebhookConfigurationList_checks),
    (KubeNamespace, KubeNamespace_checks), (KubeNamespaceList, KubeNamespaceList_checks),
    (KubeNetworkPolicy, KubeNetworkPolicy_checks),
    (KubeNetworkPolicyList, KubeNetworkPolicyList_checks), (KubeNode, KubeNode_checks),
    (KubeNodeList, KubeNodeList_checks), (KubePersistentVolume, KubePersistentVolume_checks),
    (KubePersistentVolumeClaim, KubePersistentVolumeClaim_checks),
    (KubePersistentVolumeClaimList, KubePersistentVolumeClaimList_checks),
    (KubePersistentVolumeList, KubePersistentVolumeList_checks), (KubePod, KubePod_checks),
    (KubePodDisruptionBudget, KubePodDisruptionBudget_checks),
    (KubePodDisruptionBudgetList, KubePodDisruptionBudgetList_checks),
    (KubePodList, KubePodList_checks), (KubePodTemplate, KubePodTemplate_checks),
    (KubePodTemplateList, KubePodTemplateList_checks), (KubePriorityClass, KubePriorityClass_checks)]"

lemma classes_D_ok [class_tables]: "list_all classOk classes_D"
  by (simp only: classes_D_def list.pred_inject class_checks HOL.simp_thms)

lemma classes_D_names [class_names]: "map (\<lambda>c. bindingName (fst c)) classes_D =
    [''KubeLocalSubjectAccessReview'', ''KubeMutatingWebhookConfiguration'',
     ''KubeMutatingWebhookConfigurationList'', ''KubeNamespace'', ''KubeNamespaceList'',
     ''KubeNetworkPolicy'', ''KubeNetworkPolicyList'', ''KubeNode'', ''KubeNodeList'',
     ''KubePersistentVolume'', ''KubePersistentVolumeClaim'', ''KubePersistentVolumeClaimList'',
     ''KubePersistentVolumeList'', ''KubePod'', ''KubePodDisruptionBudget'',
     ''KubePodDisruptionBudgetList'', ''KubePodList'', ''KubePodTemplate'', ''KubePodTemplateList'',
     ''KubePriorityClass'']"
  by (simp only: classes_D_def list.map fst_conv bindingName.simps
    KubeLocalSubjectAccessReview_def KubeMutatingWebhookConfiguration_def
      KubeMutatingWebhookConfigurationList_def KubeNamespace_def KubeNamespaceList_def
      KubeNetworkPolicy_def KubeNetworkPolicyList_def KubeNode_def KubeNodeList_def
      KubePersistentVolume_def KubePersistentVolumeClaim_def KubePersistentVolumeClaimList_def
      KubePersistentVolumeList_def KubePod_def KubePodDisruptionBudget_def
      KubePodDisruptionBudgetList_def KubePodList_def KubePodTemplate_def KubePodTemplateList_def
      KubePriorityClass_def)

definition interfaces_D :: "interface list" where
  "interfaces_D =
   [KubeLocalSubjectAccessReview_interface, KubeMutatingWebhookConfiguration_interface,
    KubeMutatingWebhookConfigurationList_interface, KubeNamespace_interface,
    KubeNamespaceList_interface, KubeNetworkPolicy_interface, KubeNetworkPolicyList_interface,
    KubeNode_interface, KubeNodeList_interface, KubePersistentVolume_interface,
    KubePersistentVolumeClaim_interface, KubePersistentVolumeClaimList_interface,
    KubePersistentVolumeList_interface, KubePod_interface, KubePodDisruptionBudget_interface,
    KubePodDisruptionBudgetList_interface, KubePodList_interface, KubePodTemplate_interface,
    KubePodTemplateList_interface, KubePriorityClass_interface]"

definition unchecked_D :: "(string \<times> validators) list" where
  "unchecked_D =
   [(''KubeLocalSubjectAccessReview'', KubeLocalSubjectAccessReview_no_checks),
    (''KubeMutatingWebhookConfiguration'', KubeMutatingWebhookConfiguration_no_checks),
    (''KubeMutatingWebhookConfigurationList'', KubeMutatingWebhookConfigurationList_no_checks),
    (''KubeNamespace'', KubeNamespace_no_checks),
    (''KubeNamespaceList'', KubeNamespaceList_no_checks),
    (''KubeNetworkPolicy'', KubeNetworkPolicy_no_checks),
    (''KubeNetworkPolicyList'', KubeNetworkPolicyList_no_checks),
    (''KubeNode'', KubeNode_no_checks), (''KubeNodeList'', KubeNodeList_no_checks),
    (''KubePersistentVolume'', KubePersistentVolume_no_checks),
    (''KubePersistentVolumeClaim'', KubePersistentVolumeClaim_no_checks),
    (''KubePersistentVolumeClaimList'', KubePersistentVolumeClaimList_no_checks),
    (''KubePersistentVolumeList'', KubePersistentVolumeList_no_checks),
    (''KubePod'', KubePod_no_checks),
    (''KubePodDisruptionBudget'', KubePodDisruptionBudget_no_checks),
    (''KubePodDisruptionBudgetList'', KubePodDisruptionBudgetList_no_checks),
    (''KubePodList'', KubePodList_no_checks), (''KubePodTemplate'', KubePodTemplate_no_checks),
    (''KubePodTemplateList'', KubePodTemplateList_no_checks),
    (''KubePriorityClass'', KubePriorityClass_no_checks)]"

lemma interfaces_D [class_tables]:
  "interfaces_D = map (\<lambda>c. apiObjectInterface (bindingName (fst c))) classes_D"
  "unchecked_D = map (\<lambda>c. (bindingName (fst c), apiObjectNoChecks (bindingName (fst c)))) classes_D"
  by (simp_all only: interfaces_D_def unchecked_D_def classes_D_def list.map fst_conv bindingName.simps class_interfaces
    KubeLocalSubjectAccessReview_def KubeMutatingWebhookConfiguration_def
      KubeMutatingWebhookConfigurationList_def KubeNamespace_def KubeNamespaceList_def
      KubeNetworkPolicy_def KubeNetworkPolicyList_def KubeNode_def KubeNodeList_def
      KubePersistentVolume_def KubePersistentVolumeClaim_def KubePersistentVolumeClaimList_def
      KubePersistentVolumeList_def KubePod_def KubePodDisruptionBudget_def
      KubePodDisruptionBudgetList_def KubePodList_def KubePodTemplate_def KubePodTemplateList_def
      KubePriorityClass_def)

end
