(* ===== verification/KubeClassesE.thy ===== *)
theory KubeClassesE
  imports Bindings K8sTypes
begin

text \<open>
  The classes \<open>KubePriorityClassList\<close> to \<open>KubeSecretList\<close> of the Kubernetes bindings: from each file \<open>Kube*.go\<close> the
  interface, the getters of the proxy, the package functions and the methods, then the validators of
  \<open>Kube*__checks.go\<close> and \<open>Kube*__no_checks.go\<close>, and the evaluation of the checks of \<open>Bindings\<close> on each.
\<close>

definition KubePriorityClassList_interface :: interface where
  "KubePriorityClassList_interface = Interface ''KubePriorityClassList'' [''cdk8s.ApiObject'']
   [Sig ''ApiGroup'' [] (Some (GoPtr GoString)), Sig ''ApiVersion'' [] (Some (GoPtr GoString)),
    Sig ''Chart'' [] (Some (GoNamed ''cdk8s.Chart'')), Sig ''Kind'' [] (Some (GoPtr GoString)),
    Sig ''Metadata'' [] (Some (GoNamed ''cdk8s.ApiObjectMetadataDefinition'')),
    Sig ''Name'' [] (Some (GoPtr GoString)), Sig ''Node'' [] (Some (GoNamed ''constructs.Node'')),
    Sig ''AddDependency'' [Rest ''dependencies'' (GoNamed ''constructs.IConstruct'')] None,
    Sig ''AddJsonPatch'' [Rest ''ops'' (GoNamed ''cdk8s.JsonPatch'')] None,
    Sig ''ToJson'' [] (Some GoAny), Sig ''ToString'' [] (Some (GoPtr GoString))]"

definition KubePriorityClassList_getters :: "gofun list" where
  "KubePriorityClassList_getters =
   [Method (Sig ''ApiGroup'' [] (Some (GoPtr GoString))) (Getter ''apiGroup''),
    Method (Sig ''ApiVersion'' [] (Some (GoPtr GoString))) (Getter ''apiVersion''),
    Method (Sig ''Chart'' [] (Some (GoNamed ''cdk8s.Chart''))) (Getter ''chart''),
    Method (Sig ''Kind'' [] (Some (GoPtr GoString))) (Getter ''kind''),
    Method (Sig ''Metadata'' [] (Some (GoNamed ''cdk8s.ApiObjectMetadataDefinition'')))
      (Getter ''metadata''),
    Method (Sig ''Name'' [] (Some (GoPtr GoString))) (Getter ''name''),
    Method (Sig ''Node'' [] (Some (GoNamed ''constructs.Node''))) (Getter ''node'')]"

definition KubePriorityClassList_functions :: "gofun list" where
  "KubePriorityClassList_functions =
   [Func (Sig ''NewKubePriorityClassList'' [
         Param ''scope'' (GoNamed ''constructs.Construct''), Param ''id'' (GoPtr GoString),
         Param ''props'' (GoPtr (GoNamed ''KubePriorityClassListProps''))] (Some (GoNamed ''KubePriorityClassList'')))
      (Construct ''k8s.KubePriorityClassList'' [''scope'', ''id'', ''props''] ''validateNewKubePriorityClassListParameters''),
    Func (Sig ''NewKubePriorityClassList_Override'' [
         Param ''k'' (GoNamed ''KubePriorityClassList''),
         Param ''scope'' (GoNamed ''constructs.Construct''), Param ''id'' (GoPtr GoString),
         Param ''props'' (GoPtr (GoNamed ''KubePriorityClassListProps''))] None)
      (ConstructOverride ''k8s.KubePriorityClassList'' [''scope'', ''id'', ''props'']),
    Func (Sig ''KubePriorityClassList_IsApiObject'' [Param ''o'' GoAny] (Some (GoPtr GoBool)))
      (StaticCall ''k8s.KubePriorityClassList'' ''isApiObject'' [''o''] ''validateKubePriorityClassList_IsApiObjectParameters''),
    Func (Sig ''KubePriorityClassList_IsConstruct'' [Param ''x'' GoAny] (Some (GoPtr GoBool)))
      (StaticCall ''k8s.KubePriorityClassList'' ''isConstruct'' [''x''] ''validateKubePriorityClassList_IsConstructParameters''),
    Func (Sig ''KubePriorityClassList_Manifest'' [Param ''props'' (GoPtr (GoNamed ''KubePriorityClassListProps''))] (Some GoAny))
      (StaticCall ''k8s.KubePriorityClassList'' ''manifest'' [''props''] ''validateKubePriorityClassList_ManifestParameters''),
    Func (Sig ''KubePriorityClassList_Of'' [Param ''c'' (GoNamed ''constructs.IConstruct'')] (Some (GoNamed ''cdk8s.ApiObject'')))
      (StaticCall ''k8s.KubePriorityClassList'' ''of'' [''c''] ''validateKubePriorityClassList_OfParameters''),
    Func (Sig ''KubePriorityClassList_GVK'' [] (Some (GoPtr (GoNamed ''cdk8s.GroupVersionKind''))))
      (StaticProp ''k8s.KubePriorityClassList'' ''GVK'')]"

definition KubePriorityClassList_methods :: "gofun list" where
  "KubePriorityClassList_methods =
   [Method (Sig ''AddDependency'' [Rest ''dependencies'' (GoNamed ''constructs.IConstruct'')] None)
      (Variadic ''addDependency''),
    Method (Sig ''AddJsonPatch'' [Rest ''ops'' (GoNamed ''cdk8s.JsonPatch'')] None)
      (Variadic ''addJsonPatch''),
    Method (Sig ''ToJson'' [] (Some GoAny)) (Plain ''toJson''),
    Method (Sig ''ToString'' [] (Some (GoPtr GoString))) (Plain ''toString'')]"

definition KubePriorityClassList :: binding where
  "KubePriorityClassList = Binding ''KubePriorityClassList'' [''internal.Type__cdk8sApiObject'']
     (KubePriorityClassList_getters @ KubePriorityClassList_functions @ KubePriorityClassList_methods)"

definition KubePriorityClassList_checks :: validators where
  "KubePriorityClassList_checks =
   [(''validateKubePriorityClassList_IsApiObjectParameters'', [NotNil ''o'']),
    (''validateKubePriorityClassList_IsConstructParameters'', [NotNil ''x'']),
    (''validateKubePriorityClassList_ManifestParameters'', [NotNil ''props'', ValidStruct ''props'']),
    (''validateKubePriorityClassList_OfParameters'', [NotNil ''c'']),
    (''validateNewKubePriorityClassListParameters'', [NotNil ''scope'', NotNil ''id'', NotNil ''props'', ValidStruct ''props''])]"

definition KubePriorityClassList_no_checks :: validators where
  "KubePriorityClassList_no_checks =
   [(''validateKubePriorityClassList_IsApiObjectParameters'', []),
    (''validateKubePriorityClassList_IsConstructParameters'', []),
    (''validateKubePriorityClassList_ManifestParameters'', []),
    (''validateKubePriorityClassList_OfParameters'', []),
    (''validateNewKubePriorityClassListParameters'', [])]"

lemma KubePriorityClassList_ok [class_checks]: "classOk (KubePriorityClassList, KubePriorityClassList_checks)"
  by (rule classRequired_I [where s = KubePriorityClassListProps], simp only: table_members)
    (simp_all only: KubePriorityClassList_def KubePriorityClassList_getters_def KubePriorityClassList_functions_def
      KubePriorityClassList_methods_def KubePriorityClassList_checks_def KubePriorityClassListProps_def class_eval)

lemma KubePriorityClassList_declared [class_interfaces]:
  "KubePriorityClassList_interface = apiObjectInterface ''KubePriorityClassList''"
  "KubePriorityClassList_no_checks = apiObjectNoChecks ''KubePriorityClassList''"
  by (simp_all only: KubePriorityClassList_interface_def KubePriorityClassList_no_checks_def declared_eval)

definition KubePriorityLevelConfigurationListV1Beta1_interface :: interface where
  "KubePriorityLevelConfigurationListV1Beta1_interface = Interface ''KubePriorityLevelConfigurationListV1Beta1'' [''cdk8s.ApiObject'']
   [Sig ''ApiGroup'' [] (Some (GoPtr GoString)), Sig ''ApiVersion'' [] (Some (GoPtr GoString)),
    Sig ''Chart'' [] (Some (GoNamed ''cdk8s.Chart'')), Sig ''Kind'' [] (Some (GoPtr GoString)),
    Sig ''Metadata'' [] (Some (GoNamed ''cdk8s.ApiObjectMetadataDefinition'')),
    Sig ''Name'' [] (Some (GoPtr GoString)), Sig ''Node'' [] (Some (GoNamed ''constructs.Node'')),
    Sig ''AddDependency'' [Rest ''dependencies'' (GoNamed ''constructs.IConstruct'')] None,
    Sig ''AddJsonPatch'' [Rest ''ops'' (GoNamed ''cdk8s.JsonPatch'')] None,
    Sig ''ToJson'' [] (Some GoAny), Sig ''ToString'' [] (Some (GoPtr GoString))]"

definition KubePriorityLevelConfigurationListV1Beta1_getters :: "gofun list" where
  "KubePriorityLevelConfigurationListV1Beta1_getters =
   [Method (Sig ''ApiGroup'' [] (Some (GoPtr GoString))) (Getter ''apiGroup''),
    Method (Sig ''ApiVersion'' [] (Some (GoPtr GoString))) (Getter ''apiVersion''),
    Method (Sig ''Chart'' [] (Some (GoNamed ''cdk8s.Chart''))) (Getter ''chart''),
    Method (Sig ''Kind'' [] (Some (GoPtr GoString))) (Getter ''kind''),
    Method (Sig ''Metadata'' [] (Some (GoNamed ''cdk8s.ApiObjectMetadataDefinition'')))
      (Getter ''metadata''),
    Method (Sig ''Name'' [] (Some (GoPtr GoString))) (Getter ''name''),
    Method (Sig ''Node'' [] (Some (GoNamed ''constructs.Node''))) (Getter ''node'')]"

definition KubePriorityLevelConfigurationListV1Beta1_functions :: "gofun list" where
  "KubePriorityLevelConfigurationListV1Beta1_functions =
   [Func (Sig ''NewKubePriorityLevelConfigurationListV1Beta1'' [
         Param ''scope'' (GoNamed ''constructs.Construct''), Param ''id'' (GoPtr GoString),
         Param ''props'' (GoPtr (GoNamed ''KubePriorityLevelConfigurationListV1Beta1Props''))] (Some (GoNamed ''KubePriorityLevelConfigurationListV1Beta1'')))
      (Construct ''k8s.KubePriorityLevelConfigurationListV1Beta1'' [''scope'', ''id'', ''props''] ''validateNewKubePriorityLevelConfigurationListV1Beta1Parameters''),
    Func (Sig ''NewKubePriorityLevelConfigurationListV1Beta1_Override'' [
         Param ''k'' (GoNamed ''KubePriorityLevelConfigurationListV1Beta1''),
         Param ''scope'' (GoNamed ''constructs.Construct''), Param ''id'' (GoPtr GoString),
         Param ''props'' (GoPtr (GoNamed ''KubePriorityLevelConfigurationListV1Beta1Props''))] None)
      (ConstructOverride ''k8s.KubePriorityLevelConfigurationListV1Beta1'' [''scope'', ''id'', ''props'']),
    Func (Sig ''KubePriorityLevelConfigurationListV1Beta1_IsApiObject'' [Param ''o'' GoAny] (Some (GoPtr GoBool)))
      (StaticCall ''k8s.KubePriorityLevelConfigurationListV1Beta1'' ''isApiObject'' [''o''] ''validateKubePriorityLevelConfigurationListV1Beta1_IsApiObjectParameters''),
    Func (Sig ''KubePriorityLevelConfigurationListV1Beta1_IsConstruct'' [Param ''x'' GoAny] (Some (GoPtr GoBool)))
      (StaticCall ''k8s.KubePriorityLevelConfigurationListV1Beta1'' ''isConstruct'' [''x''] ''validateKubePriorityLevelConfigurationListV1Beta1_IsConstructParameters''),
    Func (Sig ''KubePriorityLevelConfigurationListV1Beta1_Manifest'' [Param ''props'' (GoPtr (GoNamed ''KubePriorityLevelConfigurationListV1Beta1Props''))] (Some GoAny))
      (StaticCall ''k8s.KubePriorityLevelConfigurationListV1Beta1'' ''manifest'' [''props''] ''validateKubePriorityLevelConfigurationListV1Beta1_ManifestParameters''),
    Func (Sig ''KubePriorityLevelConfigurationListV1Beta1_Of'' [Param ''c'' (GoNamed ''constructs.IConstruct'')] (Some (GoNamed ''cdk8s.ApiObject'')))
      (StaticCall ''k8s.KubePriorityLevelConfigurationListV1Beta1'' ''of'' [''c''] ''validateKubePriorityLevelConfigurationListV1Beta1_OfParameters''),
    Func (Sig ''KubePriorityLevelConfigurationListV1Beta1_GVK'' [] (Some (GoPtr (GoNamed ''cdk8s.GroupVersionKind''))))
      (StaticProp ''k8s.KubePriorityLevelConfigurationListV1Beta1'' ''GVK'')]"

definition KubePriorityLevelConfigurationListV1Beta1_methods :: "gofun list" where
  "KubePriorityLevelConfigurationListV1Beta1_methods =
   [Method (Sig ''AddDependency'' [Rest ''dependencies'' (GoNamed ''constructs.IConstruct'')] None)
      (Variadic ''addDependency''),
    Method (Sig ''AddJsonPatch'' [Rest ''ops'' (GoNamed ''cdk8s.JsonPatch'')] None)
      (Variadic ''addJsonPatch''),
    Method (Sig ''ToJson'' [] (Some GoAny)) (Plain ''toJson''),
    Method (Sig ''ToString'' [] (Some (GoPtr GoString))) (Plain ''toString'')]"

definition KubePriorityLevelConfigurationListV1Beta1 :: binding where
  "KubePriorityLevelConfigurationListV1Beta1 = Binding ''KubePriorityLevelConfigurationListV1Beta1'' [''internal.Type__cdk8sApiObject'']
     (KubePriorityLevelConfigurationListV1Beta1_getters @ KubePriorityLevelConfigurationListV1Beta1_functions @ KubePriorityLevelConfigurationListV1Beta1_methods)"

definition KubePriorityLevelConfigurationListV1Beta1_checks :: validators where
  "KubePriorityLevelConfigurationListV1Beta1_checks =
   [(''validateKubePriorityLevelConfigurationListV1Beta1_IsApiObjectParameters'', [NotNil ''o'']),
    (''validateKubePriorityLevelConfigurationListV1Beta1_IsConstructParameters'', [NotNil ''x'']),
    (''validateKubePriorityLevelConfigurationListV1Beta1_ManifestParameters'', [NotNil ''props'', ValidStruct ''props'']),
    (''validateKubePriorityLevelConfigurationListV1Beta1_OfParameters'', [NotNil ''c'']),
    (''validateNewKubePriorityLevelConfigurationListV1Beta1Parameters'', [NotNil ''scope'', NotNil ''id'', NotNil ''props'', ValidStruct ''props''])]"

definition KubePriorityLevelConfigurationListV1Beta1_no_checks :: validators where
  "KubePriorityLevelConfigurationListV1Beta1_no_checks =
   [(''validateKubePriorityLevelConfigurationListV1Beta1_IsApiObjectParameters'', []),
    (''validateKubePriorityLevelConfigurationListV1Beta1_IsConstructParameters'', []),
    (''validateKubePriorityLevelConfigurationListV1Beta1_ManifestParameters'', []),
    (''validateKubePriorityLevelConfigurationListV1Beta1_OfParameters'', []),
    (''validateNewKubePriorityLevelConfigurationListV1Beta1Parameters'', [])]"

lemma KubePriorityLevelConfigurationListV1Beta1_ok [class_checks]: "classOk (KubePriorityLevelConfigurationListV1Beta1, KubePriorityLevelConfigurationListV1Beta1_checks)"
  by (rule classRequired_I [where s = KubePriorityLevelConfigurationListV1Beta1Props], simp only: table_members)
    (simp_all only: KubePriorityLevelConfigurationListV1Beta1_def KubePriorityLevelConfigurationListV1Beta1_getters_def KubePriorityLevelConfigurationListV1Beta1_functions_def
      KubePriorityLevelConfigurationListV1Beta1_methods_def KubePriorityLevelConfigurationListV1Beta1_checks_def KubePriorityLevelConfigurationListV1Beta1Props_def class_eval)

lemma KubePriorityLevelConfigurationListV1Beta1_declared [class_interfaces]:
  "KubePriorityLevelConfigurationListV1Beta1_interface = apiObjectInterface ''KubePriorityLevelConfigurationListV1Beta1''"
  "KubePriorityLevelConfigurationListV1Beta1_no_checks = apiObjectNoChecks ''KubePriorityLevelConfigurationListV1Beta1''"
  by (simp_all only: KubePriorityLevelConfigurationListV1Beta1_interface_def KubePriorityLevelConfigurationListV1Beta1_no_checks_def declared_eval)

definition KubePriorityLevelConfigurationListV1Beta2_interface :: interface where
  "KubePriorityLevelConfigurationListV1Beta2_interface = Interface ''KubePriorityLevelConfigurationListV1Beta2'' [''cdk8s.ApiObject'']
   [Sig ''ApiGroup'' [] (Some (GoPtr GoString)), Sig ''ApiVersion'' [] (Some (GoPtr GoString)),
    Sig ''Chart'' [] (Some (GoNamed ''cdk8s.Chart'')), Sig ''Kind'' [] (Some (GoPtr GoString)),
    Sig ''Metadata'' [] (Some (GoNamed ''cdk8s.ApiObjectMetadataDefinition'')),
    Sig ''Name'' [] (Some (GoPtr GoString)), Sig ''Node'' [] (Some (GoNamed ''constructs.Node'')),
    Sig ''AddDependency'' [Rest ''dependencies'' (GoNamed ''constructs.IConstruct'')] None,
    Sig ''AddJsonPatch'' [Rest ''ops'' (GoNamed ''cdk8s.JsonPatch'')] None,
    Sig ''ToJson'' [] (Some GoAny), Sig ''ToString'' [] (Some (GoPtr GoString))]"

definition KubePriorityLevelConfigurationListV1Beta2_getters :: "gofun list" where
  "KubePriorityLevelConfigurationListV1Beta2_getters =
   [Method (Sig ''ApiGroup'' [] (Some (GoPtr GoString))) (Getter ''apiGroup''),
    Method (Sig ''ApiVersion'' [] (Some (GoPtr GoString))) (Getter ''apiVersion''),
    Method (Sig ''Chart'' [] (Some (GoNamed ''cdk8s.Chart''))) (Getter ''chart''),
    Method (Sig ''Kind'' [] (Some (GoPtr GoString))) (Getter ''kind''),
    Method (Sig ''Metadata'' [] (Some (GoNamed ''cdk8s.ApiObjectMetadataDefinition'')))
      (Getter ''metadata''),
    Method (Sig ''Name'' [] (Some (GoPtr GoString))) (Getter ''name''),
    Method (Sig ''Node'' [] (Some (GoNamed ''constructs.Node''))) (Getter ''node'')]"

definition KubePriorityLevelConfigurationListV1Beta2_functions :: "gofun list" where
  "KubePriorityLevelConfigurationListV1Beta2_functions =
   [Func (Sig ''NewKubePriorityLevelConfigurationListV1Beta2'' [
         Param ''scope'' (GoNamed ''constructs.Construct''), Param ''id'' (GoPtr GoString),
         Param ''props'' (GoPtr (GoNamed ''KubePriorityLevelConfigurationListV1Beta2Props''))] (Some (GoNamed ''KubePriorityLevelConfigurationListV1Beta2'')))
      (Construct ''k8s.KubePriorityLevelConfigurationListV1Beta2'' [''scope'', ''id'', ''props''] ''validateNewKubePriorityLevelConfigurationListV1Beta2Parameters''),
    Func (Sig ''NewKubePriorityLevelConfigurationListV1Beta2_Override'' [
         Param ''k'' (GoNamed ''KubePriorityLevelConfigurationListV1Beta2''),
         Param ''scope'' (GoNamed ''constructs.Construct''), Param ''id'' (GoPtr GoString),
         Param ''props'' (GoPtr (GoNamed ''KubePriorityLevelConfigurationListV1Beta2Props''))] None)
      (ConstructOverride ''k8s.KubePriorityLevelConfigurationListV1Beta2'' [''scope'', ''id'', ''props'']),
    Func (Sig ''KubePriorityLevelConfigurationListV1Beta2_IsApiObject'' [Param ''o'' GoAny] (Some (GoPtr GoBool)))
      (StaticCall ''k8s.KubePriorityLevelConfigurationListV1Beta2'' ''isApiObject'' [''o''] ''validateKubePriorityLevelConfigurationListV1Beta2_IsApiObjectParameters''),
    Func (Sig ''KubePriorityLevelConfigurationListV1Beta2_IsConstruct'' [Param ''x'' GoAny] (Some (GoPtr GoBool)))
      (StaticCall ''k8s.KubePriorityLevelConfigurationListV1Beta2'' ''isConstruct'' [''x''] ''validateKubePriorityLevelConfigurationListV1Beta2_IsConstructParameters''),
    Func (Sig ''KubePriorityLevelConfigurationListV1Beta2_Manifest'' [Param ''props'' (GoPtr (GoNamed ''KubePriorityLevelConfigurationListV1Beta2Props''))] (Some GoAny))
      (StaticCall ''k8s.KubePriorityLevelConfigurationListV1Beta2'' ''manifest'' [''props''] ''validateKubePriorityLevelConfigurationListV1Beta2_ManifestParameters''),
    Func (Sig ''KubePriorityLevelConfigurationListV1Beta2_Of'' [Param ''c'' (GoNamed ''constructs.IConstruct'')] (Some (GoNamed ''cdk8s.ApiObject'')))
      (StaticCall ''k8s.KubePriorityLevelConfigurationListV1Beta2'' ''of'' [''c''] ''validateKubePriorityLevelConfigurationListV1Beta2_OfParameters''),
    Func (Sig ''KubePriorityLevelConfigurationListV1Beta2_GVK'' [] (Some (GoPtr (GoNamed ''cdk8s.GroupVersionKind''))))
      (StaticProp ''k8s.KubePriorityLevelConfigurationListV1Beta2'' ''GVK'')]"

definition KubePriorityLevelConfigurationListV1Beta2_methods :: "gofun list" where
  "KubePriorityLevelConfigurationListV1Beta2_methods =
   [Method (Sig ''AddDependency'' [Rest ''dependencies'' (GoNamed ''constructs.IConstruct'')] None)
      (Variadic ''addDependency''),
    Method (Sig ''AddJsonPatch'' [Rest ''ops'' (GoNamed ''cdk8s.JsonPatch'')] None)
      (Variadic ''addJsonPatch''),
    Method (Sig ''ToJson'' [] (Some GoAny)) (Plain ''toJson''),
    Method (Sig ''ToString'' [] (Some (GoPtr GoString))) (Plain ''toString'')]"

definition KubePriorityLevelConfigurationListV1Beta2 :: binding where
  "KubePriorityLevelConfigurationListV1Beta2 = Binding ''KubePriorityLevelConfigurationListV1Beta2'' [''internal.Type__cdk8sApiObject'']
     (KubePriorityLevelConfigurationListV1Beta2_getters @ KubePriorityLevelConfigurationListV1Beta2_functions @ KubePriorityLevelConfigurationListV1Beta2_methods)"

definition KubePriorityLevelConfigurationListV1Beta2_checks :: validators where
  "KubePriorityLevelConfigurationListV1Beta2_checks =
   [(''validateKubePriorityLevelConfigurationListV1Beta2_IsApiObjectParameters'', [NotNil ''o'']),
    (''validateKubePriorityLevelConfigurationListV1Beta2_IsConstructParameters'', [NotNil ''x'']),
    (''validateKubePriorityLevelConfigurationListV1Beta2_ManifestParameters'', [NotNil ''props'', ValidStruct ''props'']),
    (''validateKubePriorityLevelConfigurationListV1Beta2_OfParameters'', [NotNil ''c'']),
    (''validateNewKubePriorityLevelConfigurationListV1Beta2Parameters'', [NotNil ''scope'', NotNil ''id'', NotNil ''props'', ValidStruct ''props''])]"

definition KubePriorityLevelConfigurationListV1Beta2_no_checks :: validators where
  "KubePriorityLevelConfigurationListV1Beta2_no_checks =
   [(''validateKubePriorityLevelConfigurationListV1Beta2_IsApiObjectParameters'', []),
    (''validateKubePriorityLevelConfigurationListV1Beta2_IsConstructParameters'', []),
    (''validateKubePriorityLevelConfigurationListV1Beta2_ManifestParameters'', []),
    (''validateKubePriorityLevelConfigurationListV1Beta2_OfParameters'', []),
    (''validateNewKubePriorityLevelConfigurationListV1Beta2Parameters'', [])]"

lemma KubePriorityLevelConfigurationListV1Beta2_ok [class_checks]: "classOk (KubePriorityLevelConfigurationListV1Beta2, KubePriorityLevelConfigurationListV1Beta2_checks)"
  by (rule classRequired_I [where s = KubePriorityLevelConfigurationListV1Beta2Props], simp only: table_members)
    (simp_all only: KubePriorityLevelConfigurationListV1Beta2_def KubePriorityLevelConfigurationListV1Beta2_getters_def KubePriorityLevelConfigurationListV1Beta2_functions_def
      KubePriorityLevelConfigurationListV1Beta2_methods_def KubePriorityLevelConfigurationListV1Beta2_checks_def KubePriorityLevelConfigurationListV1Beta2Props_def class_eval)

lemma KubePriorityLevelConfigurationListV1Beta2_declared [class_interfaces]:
  "KubePriorityLevelConfigurationListV1Beta2_interface = apiObjectInterface ''KubePriorityLevelConfigurationListV1Beta2''"
  "KubePriorityLevelConfigurationListV1Beta2_no_checks = apiObjectNoChecks ''KubePriorityLevelConfigurationListV1Beta2''"
  by (simp_all only: KubePriorityLevelConfigurationListV1Beta2_interface_def KubePriorityLevelConfigurationListV1Beta2_no_checks_def declared_eval)

definition KubePriorityLevelConfigurationV1Beta1_interface :: interface where
  "KubePriorityLevelConfigurationV1Beta1_interface = Interface ''KubePriorityLevelConfigurationV1Beta1'' [''cdk8s.ApiObject'']
   [Sig ''ApiGroup'' [] (Some (GoPtr GoString)), Sig ''ApiVersion'' [] (Some (GoPtr GoString)),
    Sig ''Chart'' [] (Some (GoNamed ''cdk8s.Chart'')), Sig ''Kind'' [] (Some (GoPtr GoString)),
    Sig ''Metadata'' [] (Some (GoNamed ''cdk8s.ApiObjectMetadataDefinition'')),
    Sig ''Name'' [] (Some (GoPtr GoString)), Sig ''Node'' [] (Some (GoNamed ''constructs.Node'')),
    Sig ''AddDependency'' [Rest ''dependencies'' (GoNamed ''constructs.IConstruct'')] None,
    Sig ''AddJsonPatch'' [Rest ''ops'' (GoNamed ''cdk8s.JsonPatch'')] None,
    Sig ''ToJson'' [] (Some GoAny), Sig ''ToString'' [] (Some (GoPtr GoString))]"

definition KubePriorityLevelConfigurationV1Beta1_getters :: "gofun list" where
  "KubePriorityLevelConfigurationV1Beta1_getters =
   [Method (Sig ''ApiGroup'' [] (Some (GoPtr GoString))) (Getter ''apiGroup''),
    Method (Sig ''ApiVersion'' [] (Some (GoPtr GoString))) (Getter ''apiVersion''),
    Method (Sig ''Chart'' [] (Some (GoNamed ''cdk8s.Chart''))) (Getter ''chart''),
    Method (Sig ''Kind'' [] (Some (GoPtr GoString))) (Getter ''kind''),
    Method (Sig ''Metadata'' [] (Some (GoNamed ''cdk8s.ApiObjectMetadataDefinition'')))
      (Getter ''metadata''),
    Method (Sig ''Name'' [] (Some (GoPtr GoString))) (Getter ''name''),
    Method (Sig ''Node'' [] (Some (GoNamed ''constructs.Node''))) (Getter ''node'')]"

definition KubePriorityLevelConfigurationV1Beta1_functions :: "gofun list" where
  "KubePriorityLevelConfigurationV1Beta1_functions =
   [Func (Sig ''NewKubePriorityLevelConfigurationV1Beta1'' [
         Param ''scope'' (GoNamed ''constructs.Construct''), Param ''id'' (GoPtr GoString),
         Param ''props'' (GoPtr (GoNamed ''KubePriorityLevelConfigurationV1Beta1Props''))] (Some (GoNamed ''KubePriorityLevelConfigurationV1Beta1'')))
      (Construct ''k8s.KubePriorityLevelConfigurationV1Beta1'' [''scope'', ''id'', ''props''] ''validateNewKubePriorityLevelConfigurationV1Beta1Parameters''),
    Func (Sig ''NewKubePriorityLevelConfigurationV1Beta1_Override'' [
         Param ''k'' (GoNamed ''KubePriorityLevelConfigurationV1Beta1''),
         Param ''scope'' (GoNamed ''constructs.Construct''), Param ''id'' (GoPtr GoString),
         Param ''props'' (GoPtr (GoNamed ''KubePriorityLevelConfigurationV1Beta1Props''))] None)
      (ConstructOverride ''k8s.KubePriorityLevelConfigurationV1Beta1'' [''scope'', ''id'', ''props'']),
    Func (Sig ''KubePriorityLevelConfigurationV1Beta1_IsApiObject'' [Param ''o'' GoAny] (Some (GoPtr GoBool)))
      (StaticCall ''k8s.KubePriorityLevelConfigurationV1Beta1'' ''isApiObject'' [''o''] ''validateKubePriorityLevelConfigurationV1Beta1_IsApiObjectParameters''),
    Func (Sig ''KubePriorityLevelConfigurationV1Beta1_IsConstruct'' [Param ''x'' GoAny] (Some (GoPtr GoBool)))
      (StaticCall ''k8s.KubePriorityLevelConfigurationV1Beta1'' ''isConstruct'' [''x''] ''validateKubePriorityLevelConfigurationV1Beta1_IsConstructParameters''),
    Func (Sig ''KubePriorityLevelConfigurationV1Beta1_Manifest'' [Param ''props'' (GoPtr (GoNamed ''KubePriorityLevelConfigurationV1Beta1Props''))] (Some GoAny))
      (StaticCall ''k8s.KubePriorityLevelConfigurationV1Beta1'' ''manifest'' [''props''] ''validateKubePriorityLevelConfigurationV1Beta1_ManifestParameters''),
    Func (Sig ''KubePriorityLevelConfigurationV1Beta1_Of'' [Param ''c'' (GoNamed ''constructs.IConstruct'')] (Some (GoNamed ''cdk8s.ApiObject'')))
      (StaticCall ''k8s.KubePriorityLevelConfigurationV1Beta1'' ''of'' [''c''] ''validateKubePriorityLevelConfigurationV1Beta1_OfParameters''),
    Func (Sig ''KubePriorityLevelConfigurationV1Beta1_GVK'' [] (Some (GoPtr (GoNamed ''cdk8s.GroupVersionKind''))))
      (StaticProp ''k8s.KubePriorityLevelConfigurationV1Beta1'' ''GVK'')]"

definition KubePriorityLevelConfigurationV1Beta1_methods :: "gofun list" where
  "KubePriorityLevelConfigurationV1Beta1_methods =
   [Method (Sig ''AddDependency'' [Rest ''dependencies'' (GoNamed ''constructs.IConstruct'')] None)
      (Variadic ''addDependency''),
    Method (Sig ''AddJsonPatch'' [Rest ''ops'' (GoNamed ''cdk8s.JsonPatch'')] None)
      (Variadic ''addJsonPatch''),
    Method (Sig ''ToJson'' [] (Some GoAny)) (Plain ''toJson''),
    Method (Sig ''ToString'' [] (Some (GoPtr GoString))) (Plain ''toString'')]"

definition KubePriorityLevelConfigurationV1Beta1 :: binding where
  "KubePriorityLevelConfigurationV1Beta1 = Binding ''KubePriorityLevelConfigurationV1Beta1'' [''internal.Type__cdk8sApiObject'']
     (KubePriorityLevelConfigurationV1Beta1_getters @ KubePriorityLevelConfigurationV1Beta1_functions @ KubePriorityLevelConfigurationV1Beta1_methods)"

definition KubePriorityLevelConfigurationV1Beta1_checks :: validators where
  "KubePriorityLevelConfigurationV1Beta1_checks =
   [(''validateKubePriorityLevelConfigurationV1Beta1_IsApiObjectParameters'', [NotNil ''o'']),
    (''validateKubePriorityLevelConfigurationV1Beta1_IsConstructParameters'', [NotNil ''x'']),
    (''validateKubePriorityLevelConfigurationV1Beta1_ManifestParameters'', [ValidStruct ''props'']),
    (''validateKubePriorityLevelConfigurationV1Beta1_OfParameters'', [NotNil ''c'']),
    (''validateNewKubePriorityLevelConfigurationV1Beta1Parameters'', [NotNil ''scope'', NotNil ''id'', ValidStruct ''props''])]"

definition KubePriorityLevelConfigurationV1Beta1_no_checks :: validators where
  "KubePriorityLevelConfigurationV1Beta1_no_checks =
   [(''validateKubePriorityLevelConfigurationV1Beta1_IsApiObjectParameters'', []),
    (''validateKubePriorityLevelConfigurationV1Beta1_IsConstructParameters'', []),
    (''validateKubePriorityLevelConfigurationV1Beta1_ManifestParameters'', []),
    (''validateKubePriorityLevelConfigurationV1Beta1_OfParameters'', []),
    (''validateNewKubePriorityLevelConfigurationV1Beta1Parameters'', [])]"

lemma KubePriorityLevelConfigurationV1Beta1_ok [class_checks]: "classOk (KubePriorityLevelConfigurationV1Beta1, KubePriorityLevelConfigurationV1Beta1_checks)"
  by (rule classOptional_I [where s = KubePriorityLevelConfigurationV1Beta1Props], simp only: table_members)
    (simp_all only: KubePriorityLevelConfigurationV1Beta1_def KubePriorityLevelConfigurationV1Beta1_getters_def KubePriorityLevelConfigurationV1Beta1_functions_def
      KubePriorityLevelConfigurationV1Beta1_methods_def KubePriorityLevelConfigurationV1Beta1_checks_def KubePriorityLevelConfigurationV1Beta1Props_def class_eval)

lemma KubePriorityLevelConfigurationV1Beta1_declared [class_interfaces]:
  "KubePriorityLevelConfigurationV1Beta1_interface = apiObjectInterface ''KubePriorityLevelConfigurationV1Beta1''"
  "KubePriorityLevelConfigurationV1Beta1_no_checks = apiObjectNoChecks ''KubePriorityLevelConfigurationV1Beta1''"
  by (simp_all only: KubePriorityLevelConfigurationV1Beta1_interface_def KubePriorityLevelConfigurationV1Beta1_no_checks_def declared_eval)

definition KubePriorityLevelConfigurationV1Beta2_interface :: interface where
  "KubePriorityLevelConfigurationV1Beta2_interface = Interface ''KubePriorityLevelConfigurationV1Beta2'' [''cdk8s.ApiObject'']
   [Sig ''ApiGroup'' [] (Some (GoPtr GoString)), Sig ''ApiVersion'' [] (Some (GoPtr GoString)),
    Sig ''Chart'' [] (Some (GoNamed ''cdk8s.Chart'')), Sig ''Kind'' [] (Some (GoPtr GoString)),
    Sig ''Metadata'' [] (Some (GoNamed ''cdk8s.ApiObjectMetadataDefinition'')),
    Sig ''Name'' [] (Some (GoPtr GoString)), Sig ''Node'' [] (Some (GoNamed ''constructs.Node'')),
    Sig ''AddDependency'' [Rest ''dependencies'' (GoNamed ''constructs.IConstruct'')] None,
    Sig ''AddJsonPatch'' [Rest ''ops'' (GoNamed ''cdk8s.JsonPatch'')] None,
    Sig ''ToJson'' [] (Some GoAny), Sig ''ToString'' [] (Some (GoPtr GoString))]"

definition KubePriorityLevelConfigurationV1Beta2_getters :: "gofun list" where
  "KubePriorityLevelConfigurationV1Beta2_getters =
   [Method (Sig ''ApiGroup'' [] (Some (GoPtr GoString))) (Getter ''apiGroup''),
    Method (Sig ''ApiVersion'' [] (Some (GoPtr GoString))) (Getter ''apiVersion''),
    Method (Sig ''Chart'' [] (Some (GoNamed ''cdk8s.Chart''))) (Getter ''chart''),
    Method (Sig ''Kind'' [] (Some (GoPtr GoString))) (Getter ''kind''),
    Method (Sig ''Metadata'' [] (Some (GoNamed ''cdk8s.ApiObjectMetadataDefinition'')))
      (Getter ''metadata''),
    Method (Sig ''Name'' [] (Some (GoPtr GoString))) (Getter ''name''),
    Method (Sig ''Node'' [] (Some (GoNamed ''constructs.Node''))) (Getter ''node'')]"

definition KubePriorityLevelConfigurationV1Beta2_functions :: "gofun list" where
  "KubePriorityLevelConfigurationV1Beta2_functions =
   [Func (Sig ''NewKubePriorityLevelConfigurationV1Beta2'' [
         Param ''scope'' (GoNamed ''constructs.Construct''), Param ''id'' (GoPtr GoString),
         Param ''props'' (GoPtr (GoNamed ''KubePriorityLevelConfigurationV1Beta2Props''))] (Some (GoNamed ''KubePriorityLevelConfigurationV1Beta2'')))
      (Construct ''k8s.KubePriorityLevelConfigurationV1Beta2'' [''scope'', ''id'', ''props''] ''validateNewKubePriorityLevelConfigurationV1Beta2Parameters''),
    Func (Sig ''NewKubePriorityLevelConfigurationV1Beta2_Override'' [
         Param ''k'' (GoNamed ''KubePriorityLevelConfigurationV1Beta2''),
         Param ''scope'' (GoNamed ''constructs.Construct''), Param ''id'' (GoPtr GoString),
         Param ''props'' (GoPtr (GoNamed ''KubePriorityLevelConfigurationV1Beta2Props''))] None)
      (ConstructOverride ''k8s.KubePriorityLevelConfigurationV1Beta2'' [''scope'', ''id'', ''props'']),
    Func (Sig ''KubePriorityLevelConfigurationV1Beta2_IsApiObject'' [Param ''o'' GoAny] (Some (GoPtr GoBool)))
      (StaticCall ''k8s.KubePriorityLevelConfigurationV1Beta2'' ''isApiObject'' [''o''] ''validateKubePriorityLevelConfigurationV1Beta2_IsApiObjectParameters''),
    Func (Sig ''KubePriorityLevelConfigurationV1Beta2_IsConstruct'' [Param ''x'' GoAny] (Some (GoPtr GoBool)))
      (StaticCall ''k8s.KubePriorityLevelConfigurationV1Beta2'' ''isConstruct'' [''x''] ''validateKubePriorityLevelConfigurationV1Beta2_IsConstructParameters''),
    Func (Sig ''KubePriorityLevelConfigurationV1Beta2_Manifest'' [Param ''props'' (GoPtr (GoNamed ''KubePriorityLevelConfigurationV1Beta2Props''))] (Some GoAny))
      (StaticCall ''k8s.KubePriorityLevelConfigurationV1Beta2'' ''manifest'' [''props''] ''validateKubePriorityLevelConfigurationV1Beta2_ManifestParameters''),
    Func (Sig ''KubePriorityLevelConfigurationV1Beta2_Of'' [Param ''c'' (GoNamed ''constructs.IConstruct'')] (Some (GoNamed ''cdk8s.ApiObject'')))
      (StaticCall ''k8s.KubePriorityLevelConfigurationV1Beta2'' ''of'' [''c''] ''validateKubePriorityLevelConfigurationV1Beta2_OfParameters''),
    Func (Sig ''KubePriorityLevelConfigurationV1Beta2_GVK'' [] (Some (GoPtr (GoNamed ''cdk8s.GroupVersionKind''))))
      (StaticProp ''k8s.KubePriorityLevelConfigurationV1Beta2'' ''GVK'')]"

definition KubePriorityLevelConfigurationV1Beta2_methods :: "gofun list" where
  "KubePriorityLevelConfigurationV1Beta2_methods =
   [Method (Sig ''AddDependency'' [Rest ''dependencies'' (GoNamed ''constructs.IConstruct'')] None)
      (Variadic ''addDependency''),
    Method (Sig ''AddJsonPatch'' [Rest ''ops'' (GoNamed ''cdk8s.JsonPatch'')] None)
      (Variadic ''addJsonPatch''),
    Method (Sig ''ToJson'' [] (Some GoAny)) (Plain ''toJson''),
    Method (Sig ''ToString'' [] (Some (GoPtr GoString))) (Plain ''toString'')]"

definition KubePriorityLevelConfigurationV1Beta2 :: binding where
  "KubePriorityLevelConfigurationV1Beta2 = Binding ''KubePriorityLevelConfigurationV1Beta2'' [''internal.Type__cdk8sApiObject'']
     (KubePriorityLevelConfigurationV1Beta2_getters @ KubePriorityLevelConfigurationV1Beta2_functions @ KubePriorityLevelConfigurationV1Beta2_methods)"

definition KubePriorityLevelConfigurationV1Beta2_checks :: validators where
  "KubePriorityLevelConfigurationV1Beta2_checks =
   [(''validateKubePriorityLevelConfigurationV1Beta2_IsApiObjectParameters'', [NotNil ''o'']),
    (''validateKubePriorityLevelConfigurationV1Beta2_IsConstructParameters'', [NotNil ''x'']),
    (''validateKubePriorityLevelConfigurationV1Beta2_ManifestParameters'', [ValidStruct ''props'']),
    (''validateKubePriorityLevelConfigurationV1Beta2_OfParameters'', [NotNil ''c'']),
    (''validateNewKubePriorityLevelConfigurationV1Beta2Parameters'', [NotNil ''scope'', NotNil ''id'', ValidStruct ''props''])]"

definition KubePriorityLevelConfigurationV1Beta2_no_checks :: validators where
  "KubePriorityLevelConfigurationV1Beta2_no_checks =
   [(''validateKubePriorityLevelConfigurationV1Beta2_IsApiObjectParameters'', []),
    (''validateKubePriorityLevelConfigurationV1Beta2_IsConstructParameters'', []),
    (''validateKubePriorityLevelConfigurationV1Beta2_ManifestParameters'', []),
    (''validateKubePriorityLevelConfigurationV1Beta2_OfParameters'', []),
    (''validateNewKubePriorityLevelConfigurationV1Beta2Parameters'', [])]"

lemma KubePriorityLevelConfigurationV1Beta2_ok [class_checks]: "classOk (KubePriorityLevelConfigurationV1Beta2, KubePriorityLevelConfigurationV1Beta2_checks)"
  by (rule classOptional_I [where s = KubePriorityLevelConfigurationV1Beta2Props], simp only: table_members)
    (simp_all only: KubePriorityLevelConfigurationV1Beta2_def KubePriorityLevelConfigurationV1Beta2_getters_def KubePriorityLevelConfigurationV1Beta2_functions_def
      KubePriorityLevelConfigurationV1Beta2_methods_def KubePriorityLevelConfigurationV1Beta2_checks_def KubePriorityLevelConfigurationV1Beta2Props_def class_eval)

lemma KubePriorityLevelConfigurationV1Beta2_declared [class_interfaces]:
  "KubePriorityLevelConfigurationV1Beta2_interface = apiObjectInterface ''KubePriorityLevelConfigurationV1Beta2''"
  "KubePriorityLevelConfigurationV1Beta2_no_checks = apiObjectNoChecks ''KubePriorityLevelConfigurationV1Beta2''"
  by (simp_all only: KubePriorityLevelConfigurationV1Beta2_interface_def KubePriorityLevelConfigurationV1Beta2_no_checks_def declared_eval)

definition KubeReplicaSet_interface :: interface where
  "KubeReplicaSet_interface = Interface ''KubeReplicaSet'' [''cdk8s.ApiObject'']
   [Sig ''ApiGroup'' [] (Some (GoPtr GoString)), Sig ''ApiVersion'' [] (Some (GoPtr GoString)),
    Sig ''Chart'' [] (Some (GoNamed ''cdk8s.Chart'')), Sig ''Kind'' [] (Some (GoPtr GoString)),
    Sig ''Metadata'' [] (Some (GoNamed ''cdk8s.ApiObjectMetadataDefinition'')),
    Sig ''Name'' [] (Some (GoPtr GoString)), Sig ''Node'' [] (Some (GoNamed ''constructs.Node'')),
    Sig ''AddDependency'' [Rest ''dependencies'' (GoNamed ''constructs.IConstruct'')] None,
    Sig ''AddJsonPatch'' [Rest ''ops'' (GoNamed ''cdk8s.JsonPatch'')] None,
    Sig ''ToJson'' [] (Some GoAny), Sig ''ToString'' [] (Some (GoPtr GoString))]"

definition KubeReplicaSet_getters :: "gofun list" where
  "KubeReplicaSet_getters =
   [Method (Sig ''ApiGroup'' [] (Some (GoPtr GoString))) (Getter ''apiGroup''),
    Method (Sig ''ApiVersion'' [] (Some (GoPtr GoString))) (Getter ''apiVersion''),
    Method (Sig ''Chart'' [] (Some (GoNamed ''cdk8s.Chart''))) (Getter ''chart''),
    Method (Sig ''Kind'' [] (Some (GoPtr GoString))) (Getter ''kind''),
    Method (Sig ''Metadata'' [] (Some (GoNamed ''cdk8s.ApiObjectMetadataDefinition'')))
      (Getter ''metadata''),
    Method (Sig ''Name'' [] (Some (GoPtr GoString))) (Getter ''name''),
    Method (Sig ''Node'' [] (Some (GoNamed ''constructs.Node''))) (Getter ''node'')]"

definition KubeReplicaSet_functions :: "gofun list" where
  "KubeReplicaSet_functions =
   [Func (Sig ''NewKubeReplicaSet'' [
         Param ''scope'' (GoNamed ''constructs.Construct''), Param ''id'' (GoPtr GoString),
         Param ''props'' (GoPtr (GoNamed ''KubeReplicaSetProps''))] (Some (GoNamed ''KubeReplicaSet'')))
      (Construct ''k8s.KubeReplicaSet'' [''scope'', ''id'', ''props''] ''validateNewKubeReplicaSetParameters''),
    Func (Sig ''NewKubeReplicaSet_Override'' [
         Param ''k'' (GoNamed ''KubeReplicaSet''), Param ''scope'' (GoNamed ''constructs.Construct''),
         Param ''id'' (GoPtr GoString), Param ''props'' (GoPtr (GoNamed ''KubeReplicaSetProps''))] None)
      (ConstructOverride ''k8s.KubeReplicaSet'' [''scope'', ''id'', ''props'']),
    Func (Sig ''KubeReplicaSet_IsApiObject'' [Param ''o'' GoAny] (Some (GoPtr GoBool)))
      (StaticCall ''k8s.KubeReplicaSet'' ''isApiObject'' [''o''] ''validateKubeReplicaSet_IsApiObjectParameters''),
    Func (Sig ''KubeReplicaSet_IsConstruct'' [Param ''x'' GoAny] (Some (GoPtr GoBool)))
      (StaticCall ''k8s.KubeReplicaSet'' ''isConstruct'' [''x''] ''validateKubeReplicaSet_IsConstructParameters''),
    Func (Sig ''KubeReplicaSet_Manifest'' [Param ''props'' (GoPtr (GoNamed ''KubeReplicaSetProps''))] (Some GoAny))
      (StaticCall ''k8s.KubeReplicaSet'' ''manifest'' [''props''] ''validateKubeReplicaSet_ManifestParameters''),
    Func (Sig ''KubeReplicaSet_Of'' [Param ''c'' (GoNamed ''constructs.IConstruct'')] (Some (GoNamed ''cdk8s.ApiObject'')))
      (StaticCall ''k8s.KubeReplicaSet'' ''of'' [''c''] ''validateKubeReplicaSet_OfParameters''),
    Func (Sig ''KubeReplicaSet_GVK'' [] (Some (GoPtr (GoNamed ''cdk8s.GroupVersionKind''))))
      (StaticProp ''k8s.KubeReplicaSet'' ''GVK'')]"

definition KubeReplicaSet_methods :: "gofun list" where
  "KubeReplicaSet_methods =
   [Method (Sig ''AddDependency'' [Rest ''dependencies'' (GoNamed ''constructs.IConstruct'')] None)
      (Variadic ''addDependency''),
    Method (Sig ''AddJsonPatch'' [Rest ''ops'' (GoNamed ''cdk8s.JsonPatch'')] None)
      (Variadic ''addJsonPatch''),
    Method (Sig ''ToJson'' [] (Some GoAny)) (Plain ''toJson''),
    Method (Sig ''ToString'' [] (Some (GoPtr GoString))) (Plain ''toString'')]"

definition KubeReplicaSet :: binding where
  "KubeReplicaSet = Binding ''KubeReplicaSet'' [''internal.Type__cdk8sApiObject'']
     (KubeReplicaSet_getters @ KubeReplicaSet_functions @ KubeReplicaSet_methods)"

definition KubeReplicaSet_checks :: validators where
  "KubeReplicaSet_checks =
   [(''validateKubeReplicaSet_IsApiObjectParameters'', [NotNil ''o'']),
    (''validateKubeReplicaSet_IsConstructParameters'', [NotNil ''x'']),
    (''validateKubeReplicaSet_ManifestParameters'', [ValidStruct ''props'']),
    (''validateKubeReplicaSet_OfParameters'', [NotNil ''c'']),
    (''validateNewKubeReplicaSetParameters'', [NotNil ''scope'', NotNil ''id'', ValidStruct ''props''])]"

definition KubeReplicaSet_no_checks :: validators where
  "KubeReplicaSet_no_checks =
   [(''validateKubeReplicaSet_IsApiObjectParameters'', []),
    (''validateKubeReplicaSet_IsConstructParameters'', []),
    (''validateKubeReplicaSet_ManifestParameters'', []),
    (''validateKubeReplicaSet_OfParameters'', []), (''validateNewKubeReplicaSetParameters'', [])]"

lemma KubeReplicaSet_ok [class_checks]: "classOk (KubeReplicaSet, KubeReplicaSet_checks)"
  by (rule classOptional_I [where s = KubeReplicaSetProps], simp only: table_members)
    (simp_all only: KubeReplicaSet_def KubeReplicaSet_getters_def KubeReplicaSet_functions_def
      KubeReplicaSet_methods_def KubeReplicaSet_checks_def KubeReplicaSetProps_def class_eval)

lemma KubeReplicaSet_declared [class_interfaces]:
  "KubeReplicaSet_interface = apiObjectInterface ''KubeReplicaSet''"
  "KubeReplicaSet_no_checks = apiObjectNoChecks ''KubeReplicaSet''"
  by (simp_all only: KubeReplicaSet_interface_def KubeReplicaSet_no_checks_def declared_eval)

definition KubeReplicaSetList_interface :: interface where
  "KubeReplicaSetList_interface = Interface ''KubeReplicaSetList'' [''cdk8s.ApiObject'']
   [Sig ''ApiGroup'' [] (Some (GoPtr GoString)), Sig ''ApiVersion'' [] (Some (GoPtr GoString)),
    Sig ''Chart'' [] (Some (GoNamed ''cdk8s.Chart'')), Sig ''Kind'' [] (Some (GoPtr GoString)),
    Sig ''Metadata'' [] (Some (GoNamed ''cdk8s.ApiObjectMetadataDefinition'')),
    Sig ''Name'' [] (Some (GoPtr GoString)), Sig ''Node'' [] (Some (GoNamed ''constructs.Node'')),
    Sig ''AddDependency'' [Rest ''dependencies'' (GoNamed ''constructs.IConstruct'')] None,
    Sig ''AddJsonPatch'' [Rest ''ops'' (GoNamed ''cdk8s.JsonPatch'')] None,
    Sig ''ToJson'' [] (Some GoAny), Sig ''ToString'' [] (Some (GoPtr GoString))]"

definition KubeReplicaSetList_getters :: "gofun list" where
  "KubeReplicaSetList_getters =
   [Method (Sig ''ApiGroup'' [] (Some (GoPtr GoString))) (Getter ''apiGroup''),
    Method (Sig ''ApiVersion'' [] (Some (GoPtr GoString))) (Getter ''apiVersion''),
    Method (Sig ''Chart'' [] (Some (GoNamed ''cdk8s.Chart''))) (Getter ''chart''),
    Method (Sig ''Kind'' [] (Some (GoPtr GoString))) (Getter ''kind''),
    Method (Sig ''Metadata'' [] (Some (GoNamed ''cdk8s.ApiObjectMetadataDefinition'')))
      (Getter ''metadata''),
    Method (Sig ''Name'' [] (Some (GoPtr GoString))) (Getter ''name''),
    Method (Sig ''Node'' [] (Some (GoNamed ''constructs.Node''))) (Getter ''node'')]"

definition KubeReplicaSetList_functions :: "gofun list" where
  "KubeReplicaSetList_functions =
   [Func (Sig ''NewKubeReplicaSetList'' [
         Param ''scope'' (GoNamed ''constructs.Construct''), Param ''id'' (GoPtr GoString),
         Param ''props'' (GoPtr (GoNamed ''KubeReplicaSetListProps''))] (Some (GoNamed ''KubeReplicaSetList'')))
      (Construct ''k8s.KubeReplicaSetList'' [''scope'', ''id'', ''props''] ''validateNewKubeReplicaSetListParameters''),
    Func (Sig ''NewKubeReplicaSetList_Override'' [
         Param ''k'' (GoNamed ''KubeReplicaSetList''),
         Param ''scope'' (GoNamed ''constructs.Construct''), Param ''id'' (GoPtr GoString),
         Param ''props'' (GoPtr (GoNamed ''KubeReplicaSetListProps''))] None)
      (ConstructOverride ''k8s.KubeReplicaSetList'' [''scope'', ''id'', ''props'']),
    Func (Sig ''KubeReplicaSetList_IsApiObject'' [Param ''o'' GoAny] (Some (GoPtr GoBool)))
      (StaticCall ''k8s.KubeReplicaSetList'' ''isApiObject'' [''o''] ''validateKubeReplicaSetList_IsApiObjectParameters''),
    Func (Sig ''KubeReplicaSetList_IsConstruct'' [Param ''x'' GoAny] (Some (GoPtr GoBool)))
      (StaticCall ''k8s.KubeReplicaSetList'' ''isConstruct'' [''x''] ''validateKubeReplicaSetList_IsConstructParameters''),
    Func (Sig ''KubeReplicaSetList_Manifest'' [Param ''props'' (GoPtr (GoNamed ''KubeReplicaSetListProps''))] (Some GoAny))
      (StaticCall ''k8s.KubeReplicaSetList'' ''manifest'' [''props''] ''validateKubeReplicaSetList_ManifestParameters''),
    Func (Sig ''KubeReplicaSetList_Of'' [Param ''c'' (GoNamed ''constructs.IConstruct'')] (Some (GoNamed ''cdk8s.ApiObject'')))
      (StaticCall ''k8s.KubeReplicaSetList'' ''of'' [''c''] ''validateKubeReplicaSetList_OfParameters''),
    Func (Sig ''KubeReplicaSetList_GVK'' [] (Some (GoPtr (GoNamed ''cdk8s.GroupVersionKind''))))
      (StaticProp ''k8s.KubeReplicaSetList'' ''GVK'')]"

definition KubeReplicaSetList_methods :: "gofun list" where
  "KubeReplicaSetList_methods =
   [Method (Sig ''AddDependency'' [Rest ''dependencies'' (GoNamed ''constructs.IConstruct'')] None)
      (Variadic ''addDependency''),
    Method (Sig ''AddJsonPatch'' [Rest ''ops'' (GoNamed ''cdk8s.JsonPatch'')] None)
      (Variadic ''addJsonPatch''),
    Method (Sig ''ToJson'' [] (Some GoAny)) (Plain ''toJson''),
    Method (Sig ''ToString'' [] (Some (GoPtr GoString))) (Plain ''toString'')]"

definition KubeReplicaSetList :: binding where
  "KubeReplicaSetList = Binding ''KubeReplicaSetList'' [''internal.Type__cdk8sApiObject'']
     (KubeReplicaSetList_getters @ KubeReplicaSetList_functions @ KubeReplicaSetList_methods)"

definition KubeReplicaSetList_checks :: validators where
  "KubeReplicaSetList_checks =
   [(''validateKubeReplicaSetList_IsApiObjectParameters'', [NotNil ''o'']),
    (''validateKubeReplicaSetList_IsConstructParameters'', [NotNil ''x'']),
    (''validateKubeReplicaSetList_ManifestParameters'', [NotNil ''props'', ValidStruct ''props'']),
    (''validateKubeReplicaSetList_OfParameters'', [NotNil ''c'']),
    (''validateNewKubeReplicaSetListParameters'', [NotNil ''scope'', NotNil ''id'', NotNil ''props'', ValidStruct ''props''])]"

definition KubeReplicaSetList_no_checks :: validators where
  "KubeReplicaSetList_no_checks =
   [(''validateKubeReplicaSetList_IsApiObjectParameters'', []),
    (''validateKubeReplicaSetList_IsConstructParameters'', []),
    (''validateKubeReplicaSetList_ManifestParameters'', []),
    (''validateKubeReplicaSetList_OfParameters'', []),
    (''validateNewKubeReplicaSetListParameters'', [])]"

lemma KubeReplicaSetList_ok [class_checks]: "classOk (KubeReplicaSetList, KubeReplicaSetList_checks)"
  by (rule classRequired_I [where s = KubeReplicaSetListProps], simp only: table_members)
    (simp_all only: KubeReplicaSetList_def KubeReplicaSetList_getters_def KubeReplicaSetList_functions_def
      KubeReplicaSetList_methods_def KubeReplicaSetList_checks_def KubeReplicaSetListProps_def class_eval)

lemma KubeReplicaSetList_declared [class_interfaces]:
  "KubeReplicaSetList_interface = apiObjectInterface ''KubeReplicaSetList''"
  "KubeReplicaSetList_no_checks = apiObjectNoChecks ''KubeReplicaSetList''"
  by (simp_all only: KubeReplicaSetList_interface_def KubeReplicaSetList_no_checks_def declared_eval)

definition KubeReplicationController_interface :: interface where
  "KubeReplicationController_interface = Interface ''KubeReplicationController'' [''cdk8s.ApiObject'']
   [Sig ''ApiGroup'' [] (Some (GoPtr GoString)), Sig ''ApiVersion'' [] (Some (GoPtr GoString)),
    Sig ''Chart'' [] (Some (GoNamed ''cdk8s.Chart'')), Sig ''Kind'' [] (Some (GoPtr GoString)),
    Sig ''Metadata'' [] (Some (GoNamed ''cdk8s.ApiObjectMetadataDefinition'')),
    Sig ''Name'' [] (Some (GoPtr GoString)), Sig ''Node'' [] (Some (GoNamed ''constructs.Node'')),
    Sig ''AddDependency'' [Rest ''dependencies'' (GoNamed ''constructs.IConstruct'')] None,
    Sig ''AddJsonPatch'' [Rest ''ops'' (GoNamed ''cdk8s.JsonPatch'')] None,
    Sig ''ToJson'' [] (Some GoAny), Sig ''ToString'' [] (Some (GoPtr GoString))]"

definition KubeReplicationController_getters :: "gofun list" where
  "KubeReplicationController_getters =
   [Method (Sig ''ApiGroup'' [] (Some (GoPtr GoString))) (Getter ''apiGroup''),
    Method (Sig ''ApiVersion'' [] (Some (GoPtr GoString))) (Getter ''apiVersion''),
    Method (Sig ''Chart'' [] (Some (GoNamed ''cdk8s.Chart''))) (Getter ''chart''),
    Method (Sig ''Kind'' [] (Some (GoPtr GoString))) (Getter ''kind''),
    Method (Sig ''Metadata'' [] (Some (GoNamed ''cdk8s.ApiObjectMetadataDefinition'')))
      (Getter ''metadata''),
    Method (Sig ''Name'' [] (Some (GoPtr GoString))) (Getter ''name''),
    Method (Sig ''Node'' [] (Some (GoNamed ''constructs.Node''))) (Getter ''node'')]"

definition KubeReplicationController_functions :: "gofun list" where
  "KubeReplicationController_functions =
   [Func (Sig ''NewKubeReplicationController'' [
         Param ''scope'' (GoNamed ''constructs.Construct''), Param ''id'' (GoPtr GoString),
         Param ''props'' (GoPtr (GoNamed ''KubeReplicationControllerProps''))] (Some (GoNamed ''KubeReplicationController'')))
      (Construct ''k8s.KubeReplicationController'' [''scope'', ''id'', ''props''] ''validateNewKubeReplicationControllerParameters''),
    Func (Sig ''NewKubeReplicationController_Override'' [
         Param ''k'' (GoNamed ''KubeReplicationController''),
         Param ''scope'' (GoNamed ''constructs.Construct''), Param ''id'' (GoPtr GoString),
         Param ''props'' (GoPtr (GoNamed ''KubeReplicationControllerProps''))] None)
      (ConstructOverride ''k8s.KubeReplicationController'' [''scope'', ''id'', ''props'']),
    Func (Sig ''KubeReplicationController_IsApiObject'' [Param ''o'' GoAny] (Some (GoPtr GoBool)))
      (StaticCall ''k8s.KubeReplicationController'' ''isApiObject'' [''o''] ''validateKubeReplicationController_IsApiObjectParameters''),
    Func (Sig ''KubeReplicationController_IsConstruct'' [Param ''x'' GoAny] (Some (GoPtr GoBool)))
      (StaticCall ''k8s.KubeReplicationController'' ''isConstruct'' [''x''] ''validateKubeReplicationController_IsConstructParameters''),
    Func (Sig ''KubeReplicationController_Manifest'' [Param ''props'' (GoPtr (GoNamed ''KubeReplicationControllerProps''))] (Some GoAny))
      (StaticCall ''k8s.KubeReplicationController'' ''manifest'' [''props''] ''validateKubeReplicationController_ManifestParameters''),
    Func (Sig ''KubeReplicationController_Of'' [Param ''c'' (GoNamed ''constructs.IConstruct'')] (Some (GoNamed ''cdk8s.ApiObject'')))
      (StaticCall ''k8s.KubeReplicationController'' ''of'' [''c''] ''validateKubeReplicationController_OfParameters''),
    Func (Sig ''KubeReplicationController_GVK'' [] (Some (GoPtr (GoNamed ''cdk8s.GroupVersionKind''))))
      (StaticProp ''k8s.KubeReplicationController'' ''GVK'')]"

definition KubeReplicationController_methods :: "gofun list" where
  "KubeReplicationController_methods =
   [Method (Sig ''AddDependency'' [Rest ''dependencies'' (GoNamed ''constructs.IConstruct'')] None)
      (Variadic ''addDependency''),
    Method (Sig ''AddJsonPatch'' [Rest ''ops'' (GoNamed ''cdk8s.JsonPatch'')] None)
      (Variadic ''addJsonPatch''),
    Method (Sig ''ToJson'' [] (Some GoAny)) (Plain ''toJson''),
    Method (Sig ''ToString'' [] (Some (GoPtr GoString))) (Plain ''toString'')]"

definition KubeReplicationController :: binding where
  "KubeReplicationController = Binding ''KubeReplicationController'' [''internal.Type__cdk8sApiObject'']
     (KubeReplicationController_getters @ KubeReplicationController_functions @ KubeReplicationController_methods)"

definition KubeReplicationController_checks :: validators where
  "KubeReplicationController_checks =
   [(''validateKubeReplicationController_IsApiObjectParameters'', [NotNil ''o'']),
    (''validateKubeReplicationController_IsConstructParameters'', [NotNil ''x'']),
    (''validateKubeReplicationController_ManifestParameters'', [ValidStruct ''props'']),
    (''validateKubeReplicationController_OfParameters'', [NotNil ''c'']),
    (''validateNewKubeReplicationControllerParameters'', [NotNil ''scope'', NotNil ''id'', ValidStruct ''props''])]"

definition KubeReplicationController_no_checks :: validators where
  "KubeReplicationController_no_checks =
   [(''validateKubeReplicationController_IsApiObjectParameters'', []),
    (''validateKubeReplicationController_IsConstructParameters'', []),
    (''validateKubeReplicationController_ManifestParameters'', []),
    (''validateKubeReplicationController_OfParameters'', []),
    (''validateNewKubeReplicationControllerParameters'', [])]"

lemma KubeReplicationController_ok [class_checks]: "classOk (KubeReplicationController, KubeReplicationController_checks)"
  by (rule classOptional_I [where s = KubeReplicationControllerProps], simp only: table_members)
    (simp_all only: KubeReplicationController_def KubeReplicationController_getters_def KubeReplicationController_functions_def
      KubeReplicationController_methods_def KubeReplicationController_checks_def KubeReplicationControllerProps_def class_eval)

lemma KubeReplicationController_declared [class_interfaces]:
  "KubeReplicationController_interface = apiObjectInterface ''KubeReplicationController''"
  "KubeReplicationController_no_checks = apiObjectNoChecks ''KubeReplicationController''"
  by (simp_all only: KubeReplicationController_interface_def KubeReplicationController_no_checks_def declared_eval)

definition KubeReplicationControllerList_interface :: interface where
  "KubeReplicationControllerList_interface = Interface ''KubeReplicationControllerList'' [''cdk8s.ApiObject'']
   [Sig ''ApiGroup'' [] (Some (GoPtr GoString)), Sig ''ApiVersion'' [] (Some (GoPtr GoString)),
    Sig ''Chart'' [] (Some (GoNamed ''cdk8s.Chart'')), Sig ''Kind'' [] (Some (GoPtr GoString)),
    Sig ''Metadata'' [] (Some (GoNamed ''cdk8s.ApiObjectMetadataDefinition'')),
    Sig ''Name'' [] (Some (GoPtr GoString)), Sig ''Node'' [] (Some (GoNamed ''constructs.Node'')),
    Sig ''AddDependency'' [Rest ''dependencies'' (GoNamed ''constructs.IConstruct'')] None,
    Sig ''AddJsonPatch'' [Rest ''ops'' (GoNamed ''cdk8s.JsonPatch'')] None,
    Sig ''ToJson'' [] (Some GoAny), Sig ''ToString'' [] (Some (GoPtr GoString))]"

definition KubeReplicationControllerList_getters :: "gofun list" where
  "KubeReplicationControllerList_getters =
   [Method (Sig ''ApiGroup'' [] (Some (GoPtr GoString))) (Getter ''apiGroup''),
    Method (Sig ''ApiVersion'' [] (Some (GoPtr GoString))) (Getter ''apiVersion''),
    Method (Sig ''Chart'' [] (Some (GoNamed ''cdk8s.Chart''))) (Getter ''chart''),
    Method (Sig ''Kind'' [] (Some (GoPtr GoString))) (Getter ''kind''),
    Method (Sig ''Metadata'' [] (Some (GoNamed ''cdk8s.ApiObjectMetadataDefinition'')))
      (Getter ''metadata''),
    Method (Sig ''Name'' [] (Some (GoPtr GoString))) (Getter ''name''),
    Method (Sig ''Node'' [] (Some (GoNamed ''constructs.Node''))) (Getter ''node'')]"

definition KubeReplicationControllerList_functions :: "gofun list" where
  "KubeReplicationControllerList_functions =
   [Func (Sig ''NewKubeReplicationControllerList'' [
         Param ''scope'' (GoNamed ''constructs.Construct''), Param ''id'' (GoPtr GoString),
         Param ''props'' (GoPtr (GoNamed ''KubeReplicationControllerListProps''))] (Some (GoNamed ''KubeReplicationControllerList'')))
      (Construct ''k8s.KubeReplicationControllerList'' [''scope'', ''id'', ''props''] ''validateNewKubeReplicationControllerListParameters''),
    Func (Sig ''NewKubeReplicationControllerList_Override'' [
         Param ''k'' (GoNamed ''KubeReplicationControllerList''),
         Param ''scope'' (GoNamed ''constructs.Construct''), Param ''id'' (GoPtr GoString),
         Param ''props'' (GoPtr (GoNamed ''KubeReplicationControllerListProps''))] None)
      (ConstructOverride ''k8s.KubeReplicationControllerList'' [''scope'', ''id'', ''props'']),
    Func (Sig ''KubeReplicationControllerList_IsApiObject'' [Param ''o'' GoAny] (Some (GoPtr GoBool)))
      (StaticCall ''k8s.KubeReplicationControllerList'' ''isApiObject'' [''o''] ''validateKubeReplicationControllerList_IsApiObjectParameters''),
    Func (Sig ''KubeReplicationControllerList_IsConstruct'' [Param ''x'' GoAny] (Some (GoPtr GoBool)))
      (StaticCall ''k8s.KubeReplicationControllerList'' ''isConstruct'' [''x''] ''validateKubeReplicationControllerList_IsConstructParameters''),
    Func (Sig ''KubeReplicationControllerList_Manifest'' [Param ''props'' (GoPtr (GoNamed ''KubeReplicationControllerListProps''))] (Some GoAny))
      (StaticCall ''k8s.KubeReplicationControllerList'' ''manifest'' [''props''] ''validateKubeReplicationControllerList_ManifestParameters''),
    Func (Sig ''KubeReplicationControllerList_Of'' [Param ''c'' (GoNamed ''constructs.IConstruct'')] (Some (GoNamed ''cdk8s.ApiObject'')))
      (StaticCall ''k8s.KubeReplicationControllerList'' ''of'' [''c''] ''validateKubeReplicationControllerList_OfParameters''),
    Func (Sig ''KubeReplicationControllerList_GVK'' [] (Some (GoPtr (GoNamed ''cdk8s.GroupVersionKind''))))
      (StaticProp ''k8s.KubeReplicationControllerList'' ''GVK'')]"

definition KubeReplicationControllerList_methods :: "gofun list" where
  "KubeReplicationControllerList_methods =
   [Method (Sig ''AddDependency'' [Rest ''dependencies'' (GoNamed ''constructs.IConstruct'')] None)
      (Variadic ''addDependency''),
    Method (Sig ''AddJsonPatch'' [Rest ''ops'' (GoNamed ''cdk8s.JsonPatch'')] None)
      (Variadic ''addJsonPatch''),
    Method (Sig ''ToJson'' [] (Some GoAny)) (Plain ''toJson''),
    Method (Sig ''ToString'' [] (Some (GoPtr GoString))) (Plain ''toString'')]"

definition KubeReplicationControllerList :: binding where
  "KubeReplicationControllerList = Binding ''KubeReplicationControllerList'' [''internal.Type__cdk8sApiObject'']
     (KubeReplicationControllerList_getters @ KubeReplicationControllerList_functions @ KubeReplicationControllerList_methods)"

definition KubeReplicationControllerList_checks :: validators where
  "KubeReplicationControllerList_checks =
   [(''validateKubeReplicationControllerList_IsApiObjectParameters'', [NotNil ''o'']),
    (''validateKubeReplicationControllerList_IsConstructParameters'', [NotNil ''x'']),
    (''validateKubeReplicationControllerList_ManifestParameters'', [NotNil ''props'', ValidStruct ''props'']),
    (''validateKubeReplicationControllerList_OfParameters'', [NotNil ''c'']),
    (''validateNewKubeReplicationControllerListParameters'', [NotNil ''scope'', NotNil ''id'', NotNil ''props'', ValidStruct ''props''])]"

definition KubeReplicationControllerList_no_checks :: validators where
  "KubeReplicationControllerList_no_checks =
   [(''validateKubeReplicationControllerList_IsApiObjectParameters'', []),
    (''validateKubeReplicationControllerList_IsConstructParameters'', []),
    (''validateKubeReplicationControllerList_ManifestParameters'', []),
    (''validateKubeReplicationControllerList_OfParameters'', []),
    (''validateNewKubeReplicationControllerListParameters'', [])]"

lemma KubeReplicationControllerList_ok [class_checks]: "classOk (KubeReplicationControllerList, KubeReplicationControllerList_checks)"
  by (rule classRequired_I [where s = KubeReplicationControllerListProps], simp only: table_members)
    (simp_all only: KubeReplicationControllerList_def KubeReplicationControllerList_getters_def KubeReplicationControllerList_functions_def
      KubeReplicationControllerList_methods_def KubeReplicationControllerList_checks_def KubeReplicationControllerListProps_def class_eval)

lemma KubeReplicationControllerList_declared [class_interfaces]:
  "KubeReplicationControllerList_interface = apiObjectInterface ''KubeReplicationControllerList''"
  "KubeReplicationControllerList_no_checks = apiObjectNoChecks ''KubeReplicationControllerList''"
  by (simp_all only: KubeReplicationControllerList_interface_def KubeReplicationControllerList_no_checks_def declared_eval)

definition KubeResourceQuota_interface :: interface where
  "KubeResourceQuota_interface = Interface ''KubeResourceQuota'' [''cdk8s.ApiObject'']
   [Sig ''ApiGroup'' [] (Some (GoPtr GoString)), Sig ''ApiVersion'' [] (Some (GoPtr GoString)),
    Sig ''Chart'' [] (Some (GoNamed ''cdk8s.Chart'')), Sig ''Kind'' [] (Some (GoPtr GoString)),
    Sig ''Metadata'' [] (Some (GoNamed ''cdk8s.ApiObjectMetadataDefinition'')),
    Sig ''Name'' [] (Some (GoPtr GoString)), Sig ''Node'' [] (Some (GoNamed ''constructs.Node'')),
    Sig ''AddDependency'' [Rest ''dependencies'' (GoNamed ''constructs.IConstruct'')] None,
    Sig ''AddJsonPatch'' [Rest ''ops'' (GoNamed ''cdk8s.JsonPatch'')] None,
    Sig ''ToJson'' [] (Some GoAny), Sig ''ToString'' [] (Some (GoPtr GoString))]"

definition KubeResourceQuota_getters :: "gofun list" where
  "KubeResourceQuota_getters =
   [Method (Sig ''ApiGroup'' [] (Some (GoPtr GoString))) (Getter ''apiGroup''),
    Method (Sig ''ApiVersion'' [] (Some (GoPtr GoString))) (Getter ''apiVersion''),
    Method (Sig ''Chart'' [] (Some (GoNamed ''cdk8s.Chart''))) (Getter ''chart''),
    Method (Sig ''Kind'' [] (Some (GoPtr GoString))) (Getter ''kind''),
    Method (Sig ''Metadata'' [] (Some (GoNamed ''cdk8s.ApiObjectMetadataDefinition'')))
      (Getter ''metadata''),
    Method (Sig ''Name'' [] (Some (GoPtr GoString))) (Getter ''name''),
    Method (Sig ''Node'' [] (Some (GoNamed ''constructs.Node''))) (Getter ''node'')]"

definition KubeResourceQuota_functions :: "gofun list" where
  "KubeResourceQuota_functions =
   [Func (Sig ''NewKubeResourceQuota'' [
         Param ''scope'' (GoNamed ''constructs.Construct''), Param ''id'' (GoPtr GoString),
         Param ''props'' (GoPtr (GoNamed ''KubeResourceQuotaProps''))] (Some (GoNamed ''KubeResourceQuota'')))
      (Construct ''k8s.KubeResourceQuota'' [''scope'', ''id'', ''props''] ''validateNewKubeResourceQuotaParameters''),
    Func (Sig ''NewKubeResourceQuota_Override'' [
         Param ''k'' (GoNamed ''KubeResourceQuota''), Param ''scope'' (GoNamed ''constructs.Construct''),
         Param ''id'' (GoPtr GoString), Param ''props'' (GoPtr (GoNamed ''KubeResourceQuotaProps''))] None)
      (ConstructOverride ''k8s.KubeResourceQuota'' [''scope'', ''id'', ''props'']),
    Func (Sig ''KubeResourceQuota_IsApiObject'' [Param ''o'' GoAny] (Some (GoPtr GoBool)))
      (StaticCall ''k8s.KubeResourceQuota'' ''isApiObject'' [''o''] ''validateKubeResourceQuota_IsApiObjectParameters''),
    Func (Sig ''KubeResourceQuota_IsConstruct'' [Param ''x'' GoAny] (Some (GoPtr GoBool)))
      (StaticCall ''k8s.KubeResourceQuota'' ''isConstruct'' [''x''] ''validateKubeResourceQuota_IsConstructParameters''),
    Func (Sig ''KubeResourceQuota_Manifest'' [Param ''props'' (GoPtr (GoNamed ''KubeResourceQuotaProps''))] (Some GoAny))
      (StaticCall ''k8s.KubeResourceQuota'' ''manifest'' [''props''] ''validateKubeResourceQuota_ManifestParameters''),
    Func (Sig ''KubeResourceQuota_Of'' [Param ''c'' (GoNamed ''constructs.IConstruct'')] (Some (GoNamed ''cdk8s.ApiObject'')))
      (StaticCall ''k8s.KubeResourceQuota'' ''of'' [''c''] ''validateKubeResourceQuota_OfParameters''),
    Func (Sig ''KubeResourceQuota_GVK'' [] (Some (GoPtr (GoNamed ''cdk8s.GroupVersionKind''))))
      (StaticProp ''k8s.KubeResourceQuota'' ''GVK'')]"

definition KubeResourceQuota_methods :: "gofun list" where
  "KubeResourceQuota_methods =
   [Method (Sig ''AddDependency'' [Rest ''dependencies'' (GoNamed ''constructs.IConstruct'')] None)
      (Variadic ''addDependency''),
    Method (Sig ''AddJsonPatch'' [Rest ''ops'' (GoNamed ''cdk8s.JsonPatch'')] None)
      (Variadic ''addJsonPatch''),
    Method (Sig ''ToJson'' [] (Some GoAny)) (Plain ''toJson''),
    Method (Sig ''ToString'' [] (Some (GoPtr GoString))) (Plain ''toString'')]"

definition KubeResourceQuota :: binding where
  "KubeResourceQuota = Binding ''KubeResourceQuota'' [''internal.Type__cdk8sApiObject'']
     (KubeResourceQuota_getters @ KubeResourceQuota_functions @ KubeResourceQuota_methods)"

definition KubeResourceQuota_checks :: validators where
  "KubeResourceQuota_checks =
   [(''validateKubeResourceQuota_IsApiObjectParameters'', [NotNil ''o'']),
    (''validateKubeResourceQuota_IsConstructParameters'', [NotNil ''x'']),
    (''validateKubeResourceQuota_ManifestParameters'', [ValidStruct ''props'']),
    (''validateKubeResourceQuota_OfParameters'', [NotNil ''c'']),
    (''validateNewKubeResourceQuotaParameters'', [NotNil ''scope'', NotNil ''id'', ValidStruct ''props''])]"

definition KubeResourceQuota_no_checks :: validators where
  "KubeResourceQuota_no_checks =
   [(''validateKubeResourceQuota_IsApiObjectParameters'', []),
    (''validateKubeResourceQuota_IsConstructParameters'', []),
    (''validateKubeResourceQuota_ManifestParameters'', []),
    (''validateKubeResourceQuota_OfParameters'', []),
    (''validateNewKubeResourceQuotaParameters'', [])]"

lemma KubeResourceQuota_ok [class_checks]: "classOk (KubeResourceQuota, KubeResourceQuota_checks)"
  by (rule classOptional_I [where s = KubeResourceQuotaProps], simp only: table_members)
    (simp_all only: KubeResourceQuota_def KubeResourceQuota_getters_def KubeResourceQuota_functions_def
      KubeResourceQuota_methods_def KubeResourceQuota_checks_def KubeResourceQuotaProps_def class_eval)

lemma KubeResourceQuota_declared [class_interfaces]:
  "KubeResourceQuota_interface = apiObjectInterface ''KubeResourceQuota''"
  "KubeResourceQuota_no_checks = apiObjectNoChecks ''KubeResourceQuota''"
  by (simp_all only: KubeResourceQuota_interface_def KubeResourceQuota_no_checks_def declared_eval)

definition KubeResourceQuotaList_interface :: interface where
  "KubeResourceQuotaList_interface = Interface ''KubeResourceQuotaList'' [''cdk8s.ApiObject'']
   [Sig ''ApiGroup'' [] (Some (GoPtr GoString)), Sig ''ApiVersion'' [] (Some (GoPtr GoString)),
    Sig ''Chart'' [] (Some (GoNamed ''cdk8s.Chart'')), Sig ''Kind'' [] (Some (GoPtr GoString)),
    Sig ''Metadata'' [] (Some (GoNamed ''cdk8s.ApiObjectMetadataDefinition'')),
    Sig ''Name'' [] (Some (GoPtr GoString)), Sig ''Node'' [] (Some (GoNamed ''constructs.Node'')),
    Sig ''AddDependency'' [Rest ''dependencies'' (GoNamed ''constructs.IConstruct'')] None,
    Sig ''AddJsonPatch'' [Rest ''ops'' (GoNamed ''cdk8s.JsonPatch'')] None,
    Sig ''ToJson'' [] (Some GoAny), Sig ''ToString'' [] (Some (GoPtr GoString))]"

definition KubeResourceQuotaList_getters :: "gofun list" where
  "KubeResourceQuotaList_getters =
   [Method (Sig ''ApiGroup'' [] (Some (GoPtr GoString))) (Getter ''apiGroup''),
    Method (Sig ''ApiVersion'' [] (Some (GoPtr GoString))) (Getter ''apiVersion''),
    Method (Sig ''Chart'' [] (Some (GoNamed ''cdk8s.Chart''))) (Getter ''chart''),
    Method (Sig ''Kind'' [] (Some (GoPtr GoString))) (Getter ''kind''),
    Method (Sig ''Metadata'' [] (Some (GoNamed ''cdk8s.ApiObjectMetadataDefinition'')))
      (Getter ''metadata''),
    Method (Sig ''Name'' [] (Some (GoPtr GoString))) (Getter ''name''),
    Method (Sig ''Node'' [] (Some (GoNamed ''constructs.Node''))) (Getter ''node'')]"

definition KubeResourceQuotaList_functions :: "gofun list" where
  "KubeResourceQuotaList_functions =
   [Func (Sig ''NewKubeResourceQuotaList'' [
         Param ''scope'' (GoNamed ''constructs.Construct''), Param ''id'' (GoPtr GoString),
         Param ''props'' (GoPtr (GoNamed ''KubeResourceQuotaListProps''))] (Some (GoNamed ''KubeResourceQuotaList'')))
      (Construct ''k8s.KubeResourceQuotaList'' [''scope'', ''id'', ''props''] ''validateNewKubeResourceQuotaListParameters''),
    Func (Sig ''NewKubeResourceQuotaList_Override'' [
         Param ''k'' (GoNamed ''KubeResourceQuotaList''),
         Param ''scope'' (GoNamed ''constructs.Construct''), Param ''id'' (GoPtr GoString),
         Param ''props'' (GoPtr (GoNamed ''KubeResourceQuotaListProps''))] None)
      (ConstructOverride ''k8s.KubeResourceQuotaList'' [''scope'', ''id'', ''props'']),
    Func (Sig ''KubeResourceQuotaList_IsApiObject'' [Param ''o'' GoAny] (Some (GoPtr GoBool)))
      (StaticCall ''k8s.KubeResourceQuotaList'' ''isApiObject'' [''o''] ''validateKubeResourceQuotaList_IsApiObjectParameters''),
    Func (Sig ''KubeResourceQuotaList_IsConstruct'' [Param ''x'' GoAny] (Some (GoPtr GoBool)))
      (StaticCall ''k8s.KubeResourceQuotaList'' ''isConstruct'' [''x''] ''validateKubeResourceQuotaList_IsConstructParameters''),
    Func (Sig ''KubeResourceQuotaList_Manifest'' [Param ''props'' (GoPtr (GoNamed ''KubeResourceQuotaListProps''))] (Some GoAny))
      (StaticCall ''k8s.KubeResourceQuotaList'' ''manifest'' [''props''] ''validateKubeResourceQuotaList_ManifestParameters''),
    Func (Sig ''KubeResourceQuotaList_Of'' [Param ''c'' (GoNamed ''constructs.IConstruct'')] (Some (GoNamed ''cdk8s.ApiObject'')))
      (StaticCall ''k8s.KubeResourceQuotaList'' ''of'' [''c''] ''validateKubeResourceQuotaList_OfParameters''),
    Func (Sig ''KubeResourceQuotaList_GVK'' [] (Some (GoPtr (GoNamed ''cdk8s.GroupVersionKind''))))
      (StaticProp ''k8s.KubeResourceQuotaList'' ''GVK'')]"

definition KubeResourceQuotaList_methods :: "gofun list" where
  "KubeResourceQuotaList_methods =
   [Method (Sig ''AddDependency'' [Rest ''dependencies'' (GoNamed ''constructs.IConstruct'')] None)
      (Variadic ''addDependency''),
    Method (Sig ''AddJsonPatch'' [Rest ''ops'' (GoNamed ''cdk8s.JsonPatch'')] None)
      (Variadic ''addJsonPatch''),
    Method (Sig ''ToJson'' [] (Some GoAny)) (Plain ''toJson''),
    Method (Sig ''ToString'' [] (Some (GoPtr GoString))) (Plain ''toString'')]"

definition KubeResourceQuotaList :: binding where
  "KubeResourceQuotaList = Binding ''KubeResourceQuotaList'' [''internal.Type__cdk8sApiObject'']
     (KubeResourceQuotaList_getters @ KubeResourceQuotaList_functions @ KubeResourceQuotaList_methods)"

definition KubeResourceQuotaList_checks :: validators where
  "KubeResourceQuotaList_checks =
   [(''validateKubeResourceQuotaList_IsApiObjectParameters'', [NotNil ''o'']),
    (''validateKubeResourceQuotaList_IsConstructParameters'', [NotNil ''x'']),
    (''validateKubeResourceQuotaList_ManifestParameters'', [NotNil ''props'', ValidStruct ''props'']),
    (''validateKubeResourceQuotaList_OfParameters'', [NotNil ''c'']),
    (''validateNewKubeResourceQuotaListParameters'', [NotNil ''scope'', NotNil ''id'', NotNil ''props'', ValidStruct ''props''])]"

definition KubeResourceQuotaList_no_checks :: validators where
  "KubeResourceQuotaList_no_checks =
   [(''validateKubeResourceQuotaList_IsApiObjectParameters'', []),
    (''validateKubeResourceQuotaList_IsConstructParameters'', []),
    (''validateKubeResourceQuotaList_ManifestParameters'', []),
    (''validateKubeResourceQuotaList_OfParameters'', []),
    (''validateNewKubeResourceQuotaListParameters'', [])]"

lemma KubeResourceQuotaList_ok [class_checks]: "classOk (KubeResourceQuotaList, KubeResourceQuotaList_checks)"
  by (rule classRequired_I [where s = KubeResourceQuotaListProps], simp only: table_members)
    (simp_all only: KubeResourceQuotaList_def KubeResourceQuotaList_getters_def KubeResourceQuotaList_functions_def
      KubeResourceQuotaList_methods_def KubeResourceQuotaList_checks_def KubeResourceQuotaListProps_def class_eval)

lemma KubeResourceQuotaList_declared [class_interfaces]:
  "KubeResourceQuotaList_interface = apiObjectInterface ''KubeResourceQuotaList''"
  "KubeResourceQuotaList_no_checks = apiObjectNoChecks ''KubeResourceQuotaList''"
  by (simp_all only: KubeResourceQuotaList_interface_def KubeResourceQuotaList_no_checks_def declared_eval)

definition KubeRole_interface :: interface where
  "KubeRole_interface = Interface ''KubeRole'' [''cdk8s.ApiObject'']
   [Sig ''ApiGroup'' [] (Some (GoPtr GoString)), Sig ''ApiVersion'' [] (Some (GoPtr GoString)),
    Sig ''Chart'' [] (Some (GoNamed ''cdk8s.Chart'')), Sig ''Kind'' [] (Some (GoPtr GoString)),
    Sig ''Metadata'' [] (Some (GoNamed ''cdk8s.ApiObjectMetadataDefinition'')),
    Sig ''Name'' [] (Some (GoPtr GoString)), Sig ''Node'' [] (Some (GoNamed ''constructs.Node'')),
    Sig ''AddDependency'' [Rest ''dependencies'' (GoNamed ''constructs.IConstruct'')] None,
    Sig ''AddJsonPatch'' [Rest ''ops'' (GoNamed ''cdk8s.JsonPatch'')] None,
    Sig ''ToJson'' [] (Some GoAny), Sig ''ToString'' [] (Some (GoPtr GoString))]"

definition KubeRole_getters :: "gofun list" where
  "KubeRole_getters =
   [Method (Sig ''ApiGroup'' [] (Some (GoPtr GoString))) (Getter ''apiGroup''),
    Method (Sig ''ApiVersion'' [] (Some (GoPtr GoString))) (Getter ''apiVersion''),
    Method (Sig ''Chart'' [] (Some (GoNamed ''cdk8s.Chart''))) (Getter ''chart''),
    Method (Sig ''Kind'' [] (Some (GoPtr GoString))) (Getter ''kind''),
    Method (Sig ''Metadata'' [] (Some (GoNamed ''cdk8s.ApiObjectMetadataDefinition'')))
      (Getter ''metadata''),
    Method (Sig ''Name'' [] (Some (GoPtr GoString))) (Getter ''name''),
    Method (Sig ''Node'' [] (Some (GoNamed ''constructs.Node''))) (Getter ''node'')]"

definition KubeRole_functions :: "gofun list" where
  "KubeRole_functions =
   [Func (Sig ''NewKubeRole'' [
         Param ''scope'' (GoNamed ''constructs.Construct''), Param ''id'' (GoPtr GoString),
         Param ''props'' (GoPtr (GoNamed ''KubeRoleProps''))] (Some (GoNamed ''KubeRole'')))
      (Construct ''k8s.KubeRole'' [''scope'', ''id'', ''props''] ''validateNewKubeRoleParameters''),
    Func (Sig ''NewKubeRole_Override'' [
         Param ''k'' (GoNamed ''KubeRole''), Param ''scope'' (GoNamed ''constructs.Construct''),
         Param ''id'' (GoPtr GoString), Param ''props'' (GoPtr (GoNamed ''KubeRoleProps''))] None)
      (ConstructOverride ''k8s.KubeRole'' [''scope'', ''id'', ''props'']),
    Func (Sig ''KubeRole_IsApiObject'' [Param ''o'' GoAny] (Some (GoPtr GoBool)))
      (StaticCall ''k8s.KubeRole'' ''isApiObject'' [''o''] ''validateKubeRole_IsApiObjectParameters''),
    Func (Sig ''KubeRole_IsConstruct'' [Param ''x'' GoAny] (Some (GoPtr GoBool)))
      (StaticCall ''k8s.KubeRole'' ''isConstruct'' [''x''] ''validateKubeRole_IsConstructParameters''),
    Func (Sig ''KubeRole_Manifest'' [Param ''props'' (GoPtr (GoNamed ''KubeRoleProps''))] (Some GoAny))
      (StaticCall ''k8s.KubeRole'' ''manifest'' [''props''] ''validateKubeRole_ManifestParameters''),
    Func (Sig ''KubeRole_Of'' [Param ''c'' (GoNamed ''constructs.IConstruct'')] (Some (GoNamed ''cdk8s.ApiObject'')))
      (StaticCall ''k8s.KubeRole'' ''of'' [''c''] ''validateKubeRole_OfParameters''),
    Func (Sig ''KubeRole_GVK'' [] (Some (GoPtr (GoNamed ''cdk8s.GroupVersionKind''))))
      (StaticProp ''k8s.KubeRole'' ''GVK'')]"

definition KubeRole_methods :: "gofun list" where
  "KubeRole_methods =
   [Method (Sig ''AddDependency'' [Rest ''dependencies'' (GoNamed ''constructs.IConstruct'')] None)
      (Variadic ''addDependency''),
    Method (Sig ''AddJsonPatch'' [Rest ''ops'' (GoNamed ''cdk8s.JsonPatch'')] None)
      (Variadic ''addJsonPatch''),
    Method (Sig ''ToJson'' [] (Some GoAny)) (Plain ''toJson''),
    Method (Sig ''ToString'' [] (Some (GoPtr GoString))) (Plain ''toString'')]"

definition KubeRole :: binding where
  "KubeRole = Binding ''KubeRole'' [''internal.Type__cdk8sApiObject'']
     (KubeRole_getters @ KubeRole_functions @ KubeRole_methods)"

definition KubeRole_checks :: validators where
  "KubeRole_checks =
   [(''validateKubeRole_IsApiObjectParameters'', [NotNil ''o'']),
    (''validateKubeRole_IsConstructParameters'', [NotNil ''x'']),
    (''validateKubeRole_ManifestParameters'', [ValidStruct ''props'']),
    (''validateKubeRole_OfParameters'', [NotNil ''c'']),
    (''validateNewKubeRoleParameters'', [NotNil ''scope'', NotNil ''id'', ValidStruct ''props''])]"

definition KubeRole_no_checks :: validators where
  "KubeRole_no_checks =
   [(''validateKubeRole_IsApiObjectParameters'', []),
    (''validateKubeRole_IsConstructParameters'', []), (''validateKubeRole_ManifestParameters'', []),
    (''validateKubeRole_OfParameters'', []), (''validateNewKubeRoleParameters'', [])]"

lemma KubeRole_ok [class_checks]: "classOk (KubeRole, KubeRole_checks)"
  by (rule classOptional_I [where s = KubeRoleProps], simp only: table_members)
    (simp_all only: KubeRole_def KubeRole_getters_def KubeRole_functions_def
      KubeRole_methods_def KubeRole_checks_def KubeRoleProps_def class_eval)

lemma KubeRole_declared [class_interfaces]:
  "KubeRole_interface = apiObjectInterface ''KubeRole''"
  "KubeRole_no_checks = apiObjectNoChecks ''KubeRole''"
  by (simp_all only: KubeRole_interface_def KubeRole_no_checks_def declared_eval)

definition KubeRoleBinding_interface :: interface where
  "KubeRoleBinding_interface = Interface ''KubeRoleBinding'' [''cdk8s.ApiObject'']
   [Sig ''ApiGroup'' [] (Some (GoPtr GoString)), Sig ''ApiVersion'' [] (Some (GoPtr GoString)),
    Sig ''Chart'' [] (Some (GoNamed ''cdk8s.Chart'')), Sig ''Kind'' [] (Some (GoPtr GoString)),
    Sig ''Metadata'' [] (Some (GoNamed ''cdk8s.ApiObjectMetadataDefinition'')),
    Sig ''Name'' [] (Some (GoPtr GoString)), Sig ''Node'' [] (Some (GoNamed ''constructs.Node'')),
    Sig ''AddDependency'' [Rest ''dependencies'' (GoNamed ''constructs.IConstruct'')] None,
    Sig ''AddJsonPatch'' [Rest ''ops'' (GoNamed ''cdk8s.JsonPatch'')] None,
    Sig ''ToJson'' [] (Some GoAny), Sig ''ToString'' [] (Some (GoPtr GoString))]"

definition KubeRoleBinding_getters :: "gofun list" where
  "KubeRoleBinding_getters =
   [Method (Sig ''ApiGroup'' [] (Some (GoPtr GoString))) (Getter ''apiGroup''),
    Method (Sig ''ApiVersion'' [] (Some (GoPtr GoString))) (Getter ''apiVersion''),
    Method (Sig ''Chart'' [] (Some (GoNamed ''cdk8s.Chart''))) (Getter ''chart''),
    Method (Sig ''Kind'' [] (Some (GoPtr GoString))) (Getter ''kind''),
    Method (Sig ''Metadata'' [] (Some (GoNamed ''cdk8s.ApiObjectMetadataDefinition'')))
      (Getter ''metadata''),
    Method (Sig ''Name'' [] (Some (GoPtr GoString))) (Getter ''name''),
    Method (Sig ''Node'' [] (Some (GoNamed ''constructs.Node''))) (Getter ''node'')]"

definition KubeRoleBinding_functions :: "gofun list" where
  "KubeRoleBinding_functions =
   [Func (Sig ''NewKubeRoleBinding'' [
         Param ''scope'' (GoNamed ''constructs.Construct''), Param ''id'' (GoPtr GoString),
         Param ''props'' (GoPtr (GoNamed ''KubeRoleBindingProps''))] (Some (GoNamed ''KubeRoleBinding'')))
      (Construct ''k8s.KubeRoleBinding'' [''scope'', ''id'', ''props''] ''validateNewKubeRoleBindingParameters''),
    Func (Sig ''NewKubeRoleBinding_Override'' [
         Param ''k'' (GoNamed ''KubeRoleBinding''), Param ''scope'' (GoNamed ''constructs.Construct''),
         Param ''id'' (GoPtr GoString), Param ''props'' (GoPtr (GoNamed ''KubeRoleBindingProps''))] None)
      (ConstructOverride ''k8s.KubeRoleBinding'' [''scope'', ''id'', ''props'']),
    Func (Sig ''KubeRoleBinding_IsApiObject'' [Param ''o'' GoAny] (Some (GoPtr GoBool)))
      (StaticCall ''k8s.KubeRoleBinding'' ''isApiObject'' [''o''] ''validateKubeRoleBinding_IsApiObjectParameters''),
    Func (Sig ''KubeRoleBinding_IsConstruct'' [Param ''x'' GoAny] (Some (GoPtr GoBool)))
      (StaticCall ''k8s.KubeRoleBinding'' ''isConstruct'' [''x''] ''validateKubeRoleBinding_IsConstructParameters''),
    Func (Sig ''KubeRoleBinding_Manifest'' [Param ''props'' (GoPtr (GoNamed ''KubeRoleBindingProps''))] (Some GoAny))
      (StaticCall ''k8s.KubeRoleBinding'' ''manifest'' [''props''] ''validateKubeRoleBinding_ManifestParameters''),
    Func (Sig ''KubeRoleBinding_Of'' [Param ''c'' (GoNamed ''constructs.IConstruct'')] (Some (GoNamed ''cdk8s.ApiObject'')))
      (StaticCall ''k8s.KubeRoleBinding'' ''of'' [''c''] ''validateKubeRoleBinding_OfParameters''),
    Func (Sig ''KubeRoleBinding_GVK'' [] (Some (GoPtr (GoNamed ''cdk8s.GroupVersionKind''))))
      (StaticProp ''k8s.KubeRoleBinding'' ''GVK'')]"

definition KubeRoleBinding_methods :: "gofun list" where
  "KubeRoleBinding_methods =
   [Method (Sig ''AddDependency'' [Rest ''dependencies'' (GoNamed ''constructs.IConstruct'')] None)
      (Variadic ''addDependency''),
    Method (Sig ''AddJsonPatch'' [Rest ''ops'' (GoNamed ''cdk8s.JsonPatch'')] None)
      (Variadic ''addJsonPatch''),
    Method (Sig ''ToJson'' [] (Some GoAny)) (Plain ''toJson''),
    Method (Sig ''ToString'' [] (Some (GoPtr GoString))) (Plain ''toString'')]"

definition KubeRoleBinding :: binding where
  "KubeRoleBinding = Binding ''KubeRoleBinding'' [''internal.Type__cdk8sApiObject'']
     (KubeRoleBinding_getters @ KubeRoleBinding_functions @ KubeRoleBinding_methods)"

definition KubeRoleBinding_checks :: validators where
  "KubeRoleBinding_checks =
   [(''validateKubeRoleBinding_IsApiObjectParameters'', [NotNil ''o'']),
    (''validateKubeRoleBinding_IsConstructParameters'', [NotNil ''x'']),
    (''validateKubeRoleBinding_ManifestParameters'', [NotNil ''props'', ValidStruct ''props'']),
    (''validateKubeRoleBinding_OfParameters'', [NotNil ''c'']),
    (''validateNewKubeRoleBindingParameters'', [NotNil ''scope'', NotNil ''id'', NotNil ''props'', ValidStruct ''props''])]"

definition KubeRoleBinding_no_checks :: validators where
  "KubeRoleBinding_no_checks =
   [(''validateKubeRoleBinding_IsApiObjectParameters'', []),
    (''validateKubeRoleBinding_IsConstructParameters'', []),
    (''validateKubeRoleBinding_ManifestParameters'', []),
    (''validateKubeRoleBinding_OfParameters'', []), (''validateNewKubeRoleBindingParameters'', [])]"

lemma KubeRoleBinding_ok [class_checks]: "classOk (KubeRoleBinding, KubeRoleBinding_checks)"
  by (rule classRequired_I [where s = KubeRoleBindingProps], simp only: table_members)
    (simp_all only: KubeRoleBinding_def KubeRoleBinding_getters_def KubeRoleBinding_functions_def
      KubeRoleBinding_methods_def KubeRoleBinding_checks_def KubeRoleBindingProps_def class_eval)

lemma KubeRoleBinding_declared [class_interfaces]:
  "KubeRoleBinding_interface = apiObjectInterface ''KubeRoleBinding''"
  "KubeRoleBinding_no_checks = apiObjectNoChecks ''KubeRoleBinding''"
  by (simp_all only: KubeRoleBinding_interface_def KubeRoleBinding_no_checks_def declared_eval)

definition KubeRoleBindingList_interface :: interface where
  "KubeRoleBindingList_interface = Interface ''KubeRoleBindingList'' [''cdk8s.ApiObject'']
   [Sig ''ApiGroup'' [] (Some (GoPtr GoString)), Sig ''ApiVersion'' [] (Some (GoPtr GoString)),
    Sig ''Chart'' [] (Some (GoNamed ''cdk8s.Chart'')), Sig ''Kind'' [] (Some (GoPtr GoString)),
    Sig ''Metadata'' [] (Some (GoNamed ''cdk8s.ApiObjectMetadataDefinition'')),
    Sig ''Name'' [] (Some (GoPtr GoString)), Sig ''Node'' [] (Some (GoNamed ''constructs.Node'')),
    Sig ''AddDependency'' [Rest ''dependencies'' (GoNamed ''constructs.IConstruct'')] None,
    Sig ''AddJsonPatch'' [Rest ''ops'' (GoNamed ''cdk8s.JsonPatch'')] None,
    Sig ''ToJson'' [] (Some GoAny), Sig ''ToString'' [] (Some (GoPtr GoString))]"

definition KubeRoleBindingList_getters :: "gofun list" where
  "KubeRoleBindingList_getters =
   [Method (Sig ''ApiGroup'' [] (Some (GoPtr GoString))) (Getter ''apiGroup''),
    Method (Sig ''ApiVersion'' [] (Some (GoPtr GoString))) (Getter ''apiVersion''),
    Method (Sig ''Chart'' [] (Some (GoNamed ''cdk8s.Chart''))) (Getter ''chart''),
    Method (Sig ''Kind'' [] (Some (GoPtr GoString))) (Getter ''kind''),
    Method (Sig ''Metadata'' [] (Some (GoNamed ''cdk8s.ApiObjectMetadataDefinition'')))
      (Getter ''metadata''),
    Method (Sig ''Name'' [] (Some (GoPtr GoString))) (Getter ''name''),
    Method (Sig ''Node'' [] (Some (GoNamed ''constructs.Node''))) (Getter ''node'')]"

definition KubeRoleBindingList_functions :: "gofun list" where
  "KubeRoleBindingList_functions =
   [Func (Sig ''NewKubeRoleBindingList'' [
         Param ''scope'' (GoNamed ''constructs.Construct''), Param ''id'' (GoPtr GoString),
         Param ''props'' (GoPtr (GoNamed ''KubeRoleBindingListProps''))] (Some (GoNamed ''KubeRoleBindingList'')))
      (Construct ''k8s.KubeRoleBindingList'' [''scope'', ''id'', ''props''] ''validateNewKubeRoleBindingListParameters''),
    Func (Sig ''NewKubeRoleBindingList_Override'' [
         Param ''k'' (GoNamed ''KubeRoleBindingList''),
         Param ''scope'' (GoNamed ''constructs.Construct''), Param ''id'' (GoPtr GoString),
         Param ''props'' (GoPtr (GoNamed ''KubeRoleBindingListProps''))] None)
      (ConstructOverride ''k8s.KubeRoleBindingList'' [''scope'', ''id'', ''props'']),
    Func (Sig ''KubeRoleBindingList_IsApiObject'' [Param ''o'' GoAny] (Some (GoPtr GoBool)))
      (StaticCall ''k8s.KubeRoleBindingList'' ''isApiObject'' [''o''] ''validateKubeRoleBindingList_IsApiObjectParameters''),
    Func (Sig ''KubeRoleBindingList_IsConstruct'' [Param ''x'' GoAny] (Some (GoPtr GoBool)))
      (StaticCall ''k8s.KubeRoleBindingList'' ''isConstruct'' [''x''] ''validateKubeRoleBindingList_IsConstructParameters''),
    Func (Sig ''KubeRoleBindingList_Manifest'' [Param ''props'' (GoPtr (GoNamed ''KubeRoleBindingListProps''))] (Some GoAny))
      (StaticCall ''k8s.KubeRoleBindingList'' ''manifest'' [''props''] ''validateKubeRoleBindingList_ManifestParameters''),
    Func (Sig ''KubeRoleBindingList_Of'' [Param ''c'' (GoNamed ''constructs.IConstruct'')] (Some (GoNamed ''cdk8s.ApiObject'')))
      (StaticCall ''k8s.KubeRoleBindingList'' ''of'' [''c''] ''validateKubeRoleBindingList_OfParameters''),
    Func (Sig ''KubeRoleBindingList_GVK'' [] (Some (GoPtr (GoNamed ''cdk8s.GroupVersionKind''))))
      (StaticProp ''k8s.KubeRoleBindingList'' ''GVK'')]"

definition KubeRoleBindingList_methods :: "gofun list" where
  "KubeRoleBindingList_methods =
   [Method (Sig ''AddDependency'' [Rest ''dependencies'' (GoNamed ''constructs.IConstruct'')] None)
      (Variadic ''addDependency''),
    Method (Sig ''AddJsonPatch'' [Rest ''ops'' (GoNamed ''cdk8s.JsonPatch'')] None)
      (Variadic ''addJsonPatch''),
    Method (Sig ''ToJson'' [] (Some GoAny)) (Plain ''toJson''),
    Method (Sig ''ToString'' [] (Some (GoPtr GoString))) (Plain ''toString'')]"

definition KubeRoleBindingList :: binding where
  "KubeRoleBindingList = Binding ''KubeRoleBindingList'' [''internal.Type__cdk8sApiObject'']
     (KubeRoleBindingList_getters @ KubeRoleBindingList_functions @ KubeRoleBindingList_methods)"

definition KubeRoleBindingList_checks :: validators where
  "KubeRoleBindingList_checks =
   [(''validateKubeRoleBindingList_IsApiObjectParameters'', [NotNil ''o'']),
    (''validateKubeRoleBindingList_IsConstructParameters'', [NotNil ''x'']),
    (''validateKubeRoleBindingList_ManifestParameters'', [NotNil ''props'', ValidStruct ''props'']),
    (''validateKubeRoleBindingList_OfParameters'', [NotNil ''c'']),
    (''validateNewKubeRoleBindingListParameters'', [NotNil ''scope'', NotNil ''id'', NotNil ''props'', ValidStruct ''props''])]"

definition KubeRoleBindingList_no_checks :: validators where
  "KubeRoleBindingList_no_checks =
   [(''validateKubeRoleBindingList_IsApiObjectParameters'', []),
    (''validateKubeRoleBindingList_IsConstructParameters'', []),
    (''validateKubeRoleBindingList_ManifestParameters'', []),
    (''validateKubeRoleBindingList_OfParameters'', []),
    (''validateNewKubeRoleBindingListParameters'', [])]"

lemma KubeRoleBindingList_ok [class_checks]: "classOk (KubeRoleBindingList, KubeRoleBindingList_checks)"
  by (rule classRequired_I [where s = KubeRoleBindingListProps], simp only: table_members)
    (simp_all only: KubeRoleBindingList_def KubeRoleBindingList_getters_def KubeRoleBindingList_functions_def
      KubeRoleBindingList_methods_def KubeRoleBindingList_checks_def KubeRoleBindingListProps_def class_eval)

lemma KubeRoleBindingList_declared [class_interfaces]:
  "KubeRoleBindingList_interface = apiObjectInterface ''KubeRoleBindingList''"
  "KubeRoleBindingList_no_checks = apiObjectNoChecks ''KubeRoleBindingList''"
  by (simp_all only: KubeRoleBindingList_interface_def KubeRoleBindingList_no_checks_def declared_eval)

definition KubeRoleList_interface :: interface where
  "KubeRoleList_interface = Interface ''KubeRoleList'' [''cdk8s.ApiObject'']
   [Sig ''ApiGroup'' [] (Some (GoPtr GoString)), Sig ''ApiVersion'' [] (Some (GoPtr GoString)),
    Sig ''Chart'' [] (Some (GoNamed ''cdk8s.Chart'')), Sig ''Kind'' [] (Some (GoPtr GoString)),
    Sig ''Metadata'' [] (Some (GoNamed ''cdk8s.ApiObjectMetadataDefinition'')),
    Sig ''Name'' [] (Some (GoPtr GoString)), Sig ''Node'' [] (Some (GoNamed ''constructs.Node'')),
    Sig ''AddDependency'' [Rest ''dependencies'' (GoNamed ''constructs.IConstruct'')] None,
    Sig ''AddJsonPatch'' [Rest ''ops'' (GoNamed ''cdk8s.JsonPatch'')] None,
    Sig ''ToJson'' [] (Some GoAny), Sig ''ToString'' [] (Some (GoPtr GoString))]"

definition KubeRoleList_getters :: "gofun list" where
  "KubeRoleList_getters =
   [Method (Sig ''ApiGroup'' [] (Some (GoPtr GoString))) (Getter ''apiGroup''),
    Method (Sig ''ApiVersion'' [] (Some (GoPtr GoString))) (Getter ''apiVersion''),
    Method (Sig ''Chart'' [] (Some (GoNamed ''cdk8s.Chart''))) (Getter ''chart''),
    Method (Sig ''Kind'' [] (Some (GoPtr GoString))) (Getter ''kind''),
    Method (Sig ''Metadata'' [] (Some (GoNamed ''cdk8s.ApiObjectMetadataDefinition'')))
      (Getter ''metadata''),
    Method (Sig ''Name'' [] (Some (GoPtr GoString))) (Getter ''name''),
    Method (Sig ''Node'' [] (Some (GoNamed ''constructs.Node''))) (Getter ''node'')]"

definition KubeRoleList_functions :: "gofun list" where
  "KubeRoleList_functions =
   [Func (Sig ''NewKubeRoleList'' [
         Param ''scope'' (GoNamed ''constructs.Construct''), Param ''id'' (GoPtr GoString),
         Param ''props'' (GoPtr (GoNamed ''KubeRoleListProps''))] (Some (GoNamed ''KubeRoleList'')))
      (Construct ''k8s.KubeRoleList'' [''scope'', ''id'', ''props''] ''validateNewKubeRoleListParameters''),
    Func (Sig ''NewKubeRoleList_Override'' [
         Param ''k'' (GoNamed ''KubeRoleList''), Param ''scope'' (GoNamed ''constructs.Construct''),
         Param ''id'' (GoPtr GoString), Param ''props'' (GoPtr (GoNamed ''KubeRoleListProps''))] None)
      (ConstructOverride ''k8s.KubeRoleList'' [''scope'', ''id'', ''props'']),
    Func (Sig ''KubeRoleList_IsApiObject'' [Param ''o'' GoAny] (Some (GoPtr GoBool)))
      (StaticCall ''k8s.KubeRoleList'' ''isApiObject'' [''o''] ''validateKubeRoleList_IsApiObjectParameters''),
    Func (Sig ''KubeRoleList_IsConstruct'' [Param ''x'' GoAny] (Some (GoPtr GoBool)))
      (StaticCall ''k8s.KubeRoleList'' ''isConstruct'' [''x''] ''validateKubeRoleList_IsConstructParameters''),
    Func (Sig ''KubeRoleList_Manifest'' [Param ''props'' (GoPtr (GoNamed ''KubeRoleListProps''))] (Some GoAny))
      (StaticCall ''k8s.KubeRoleList'' ''manifest'' [''props''] ''validateKubeRoleList_ManifestParameters''),
    Func (Sig ''KubeRoleList_Of'' [Param ''c'' (GoNamed ''constructs.IConstruct'')] (Some (GoNamed ''cdk8s.ApiObject'')))
      (StaticCall ''k8s.KubeRoleList'' ''of'' [''c''] ''validateKubeRoleList_OfParameters''),
    Func (Sig ''KubeRoleList_GVK'' [] (Some (GoPtr (GoNamed ''cdk8s.GroupVersionKind''))))
      (StaticProp ''k8s.KubeRoleList'' ''GVK'')]"

definition KubeRoleList_methods :: "gofun list" where
  "KubeRoleList_methods =
   [Method (Sig ''AddDependency'' [Rest ''dependencies'' (GoNamed ''constructs.IConstruct'')] None)
      (Variadic ''addDependency''),
    Method (Sig ''AddJsonPatch'' [Rest ''ops'' (GoNamed ''cdk8s.JsonPatch'')] None)
      (Variadic ''addJsonPatch''),
    Method (Sig ''ToJson'' [] (Some GoAny)) (Plain ''toJson''),
    Method (Sig ''ToString'' [] (Some (GoPtr GoString))) (Plain ''toString'')]"

definition KubeRoleList :: binding where
  "KubeRoleList = Binding ''KubeRoleList'' [''internal.Type__cdk8sApiObject'']
     (KubeRoleList_getters @ KubeRoleList_functions @ KubeRoleList_methods)"

definition KubeRoleList_checks :: validators where
  "KubeRoleList_checks =
   [(''validateKubeRoleList_IsApiObjectParameters'', [NotNil ''o'']),
    (''validateKubeRoleList_IsConstructParameters'', [NotNil ''x'']),
    (''validateKubeRoleList_ManifestParameters'', [NotNil ''props'', ValidStruct ''props'']),
    (''validateKubeRoleList_OfParameters'', [NotNil ''c'']),
    (''validateNewKubeRoleListParameters'', [NotNil ''scope'', NotNil ''id'', NotNil ''props'', ValidStruct ''props''])]"

definition KubeRoleList_no_checks :: validators where
  "KubeRoleList_no_checks =
   [(''validateKubeRoleList_IsApiObjectParameters'', []),
    (''validateKubeRoleList_IsConstructParameters'', []),
    (''validateKubeRoleList_ManifestParameters'', []), (''validateKubeRoleList_OfParameters'', []),
    (''validateNewKubeRoleListParameters'', [])]"

lemma KubeRoleList_ok [class_checks]: "classOk (KubeRoleList, KubeRoleList_checks)"
  by (rule classRequired_I [where s = KubeRoleListProps], simp only: table_members)
    (simp_all only: KubeRoleList_def KubeRoleList_getters_def KubeRoleList_functions_def
      KubeRoleList_methods_def KubeRoleList_checks_def KubeRoleListProps_def class_eval)

lemma KubeRoleList_declared [class_interfaces]:
  "KubeRoleList_interface = apiObjectInterface ''KubeRoleList''"
  "KubeRoleList_no_checks = apiObjectNoChecks ''KubeRoleList''"
  by (simp_all only: KubeRoleList_interface_def KubeRoleList_no_checks_def declared_eval)

definition KubeRuntimeClass_interface :: interface where
  "KubeRuntimeClass_interface = Interface ''KubeRuntimeClass'' [''cdk8s.ApiObject'']
   [Sig ''ApiGroup'' [] (Some (GoPtr GoString)), Sig ''ApiVersion'' [] (Some (GoPtr GoString)),
    Sig ''Chart'' [] (Some (GoNamed ''cdk8s.Chart'')), Sig ''Kind'' [] (Some (GoPtr GoString)),
    Sig ''Metadata'' [] (Some (GoNamed ''cdk8s.ApiObjectMetadataDefinition'')),
    Sig ''Name'' [] (Some (GoPtr GoString)), Sig ''Node'' [] (Some (GoNamed ''constructs.Node'')),
    Sig ''AddDependency'' [Rest ''dependencies'' (GoNamed ''constructs.IConstruct'')] None,
    Sig ''AddJsonPatch'' [Rest ''ops'' (GoNamed ''cdk8s.JsonPatch'')] None,
    Sig ''ToJson'' [] (Some GoAny), Sig ''ToString'' [] (Some (GoPtr GoString))]"

definition KubeRuntimeClass_getters :: "gofun list" where
  "KubeRuntimeClass_getters =
   [Method (Sig ''ApiGroup'' [] (Some (GoPtr GoString))) (Getter ''apiGroup''),
    Method (Sig ''ApiVersion'' [] (Some (GoPtr GoString))) (Getter ''apiVersion''),
    Method (Sig ''Chart'' [] (Some (GoNamed ''cdk8s.Chart''))) (Getter ''chart''),
    Method (Sig ''Kind'' [] (Some (GoPtr GoString))) (Getter ''kind''),
    Method (Sig ''Metadata'' [] (Some (GoNamed ''cdk8s.ApiObjectMetadataDefinition'')))
      (Getter ''metadata''),
    Method (Sig ''Name'' [] (Some (GoPtr GoString))) (Getter ''name''),
    Method (Sig ''Node'' [] (Some (GoNamed ''constructs.Node''))) (Getter ''node'')]"

definition KubeRuntimeClass_functions :: "gofun list" where
  "KubeRuntimeClass_functions =
   [Func (Sig ''NewKubeRuntimeClass'' [
         Param ''scope'' (GoNamed ''constructs.Construct''), Param ''id'' (GoPtr GoString),
         Param ''props'' (GoPtr (GoNamed ''KubeRuntimeClassProps''))] (Some (GoNamed ''KubeRuntimeClass'')))
      (Construct ''k8s.KubeRuntimeClass'' [''scope'', ''id'', ''props''] ''validateNewKubeRuntimeClassParameters''),
    Func (Sig ''NewKubeRuntimeClass_Override'' [
         Param ''k'' (GoNamed ''KubeRuntimeClass''), Param ''scope'' (GoNamed ''constructs.Construct''),
         Param ''id'' (GoPtr GoString), Param ''props'' (GoPtr (GoNamed ''KubeRuntimeClassProps''))] None)
      (ConstructOverride ''k8s.KubeRuntimeClass'' [''scope'', ''id'', ''props'']),
    Func (Sig ''KubeRuntimeClass_IsApiObject'' [Param ''o'' GoAny] (Some (GoPtr GoBool)))
      (StaticCall ''k8s.KubeRuntimeClass'' ''isApiObject'' [''o''] ''validateKubeRuntimeClass_IsApiObjectParameters''),
    Func (Sig ''KubeRuntimeClass_IsConstruct'' [Param ''x'' GoAny] (Some (GoPtr GoBool)))
      (StaticCall ''k8s.KubeRuntimeClass'' ''isConstruct'' [''x''] ''validateKubeRuntimeClass_IsConstructParameters''),
    Func (Sig ''KubeRuntimeClass_Manifest'' [Param ''props'' (GoPtr (GoNamed ''KubeRuntimeClassProps''))] (Some GoAny))
      (StaticCall ''k8s.KubeRuntimeClass'' ''manifest'' [''props''] ''validateKubeRuntimeClass_ManifestParameters''),
    Func (Sig ''KubeRuntimeClass_Of'' [Param ''c'' (GoNamed ''constructs.IConstruct'')] (Some (GoNamed ''cdk8s.ApiObject'')))
      (StaticCall ''k8s.KubeRuntimeClass'' ''of'' [''c''] ''validateKubeRuntimeClass_OfParameters''),
    Func (Sig ''KubeRuntimeClass_GVK'' [] (Some (GoPtr (GoNamed ''cdk8s.GroupVersionKind''))))
      (StaticProp ''k8s.KubeRuntimeClass'' ''GVK'')]"

definition KubeRuntimeClass_methods :: "gofun list" where
  "KubeRuntimeClass_methods =
   [Method (Sig ''AddDependency'' [Rest ''dependencies'' (GoNamed ''constructs.IConstruct'')] None)
      (Variadic ''addDependency''),
    Method (Sig ''AddJsonPatch'' [Rest ''ops'' (GoNamed ''cdk8s.JsonPatch'')] None)
      (Variadic ''addJsonPatch''),
    Method (Sig ''ToJson'' [] (Some GoAny)) (Plain ''toJson''),
    Method (Sig ''ToString'' [] (Some (GoPtr GoString))) (Plain ''toString'')]"

definition KubeRuntimeClass :: binding where
  "KubeRuntimeClass = Binding ''KubeRuntimeClass'' [''internal.Type__cdk8sApiObject'']
     (KubeRuntimeClass_getters @ KubeRuntimeClass_functions @ KubeRuntimeClass_methods)"

definition KubeRuntimeClass_checks :: validators where
  "KubeRuntimeClass_checks =
   [(''validateKubeRuntimeClass_IsApiObjectParameters'', [NotNil ''o'']),
    (''validateKubeRuntimeClass_IsConstructParameters'', [NotNil ''x'']),
    (''validateKubeRuntimeClass_ManifestParameters'', [NotNil ''props'', ValidStruct ''props'']),
    (''validateKubeRuntimeClass_OfParameters'', [NotNil ''c'']),
    (''validateNewKubeRuntimeClassParameters'', [NotNil ''scope'', NotNil ''id'', NotNil ''props'', ValidStruct ''props''])]"

definition KubeRuntimeClass_no_checks :: validators where
  "KubeRuntimeClass_no_checks =
   [(''validateKubeRuntimeClass_IsApiObjectParameters'', []),
    (''validateKubeRuntimeClass_IsConstructParameters'', []),
    (''validateKubeRuntimeClass_ManifestParameters'', []),
    (''validateKubeRuntimeClass_OfParameters'', []), (''validateNewKubeRuntimeClassParameters'', [])]"

lemma KubeRuntimeClass_ok [class_checks]: "classOk (KubeRuntimeClass, KubeRuntimeClass_checks)"
  by (rule classRequired_I [where s = KubeRuntimeClassProps], simp only: table_members)
    (simp_all only: KubeRuntimeClass_def KubeRuntimeClass_getters_def KubeRuntimeClass_functions_def
      KubeRuntimeClass_methods_def KubeRuntimeClass_checks_def KubeRuntimeClassProps_def class_eval)

lemma KubeRuntimeClass_declared [class_interfaces]:
  "KubeRuntimeClass_interface = apiObjectInterface ''KubeRuntimeClass''"
  "KubeRuntimeClass_no_checks = apiObjectNoChecks ''KubeRuntimeClass''"
  by (simp_all only: KubeRuntimeClass_interface_def KubeRuntimeClass_no_checks_def declared_eval)

definition KubeRuntimeClassList_interface :: interface where
  "KubeRuntimeClassList_interface = Interface ''KubeRuntimeClassList'' [''cdk8s.ApiObject'']
   [Sig ''ApiGroup'' [] (Some (GoPtr GoString)), Sig ''ApiVersion'' [] (Some (GoPtr GoString)),
    Sig ''Chart'' [] (Some (GoNamed ''cdk8s.Chart'')), Sig ''Kind'' [] (Some (GoPtr GoString)),
    Sig ''Metadata'' [] (Some (GoNamed ''cdk8s.ApiObjectMetadataDefinition'')),
    Sig ''Name'' [] (Some (GoPtr GoString)), Sig ''Node'' [] (Some (GoNamed ''constructs.Node'')),
    Sig ''AddDependency'' [Rest ''dependencies'' (GoNamed ''constructs.IConstruct'')] None,
    Sig ''AddJsonPatch'' [Rest ''ops'' (GoNamed ''cdk8s.JsonPatch'')] None,
    Sig ''ToJson'' [] (Some GoAny), Sig ''ToString'' [] (Some (GoPtr GoString))]"

definition KubeRuntimeClassList_getters :: "gofun list" where
  "KubeRuntimeClassList_getters =
   [Method (Sig ''ApiGroup'' [] (Some (GoPtr GoString))) (Getter ''apiGroup''),
    Method (Sig ''ApiVersion'' [] (Some (GoPtr GoString))) (Getter ''apiVersion''),
    Method (Sig ''Chart'' [] (Some (GoNamed ''cdk8s.Chart''))) (Getter ''chart''),
    Method (Sig ''Kind'' [] (Some (GoPtr GoString))) (Getter ''kind''),
    Method (Sig ''Metadata'' [] (Some (GoNamed ''cdk8s.ApiObjectMetadataDefinition'')))
      (Getter ''metadata''),
    Method (Sig ''Name'' [] (Some (GoPtr GoString))) (Getter ''name''),
    Method (Sig ''Node'' [] (Some (GoNamed ''constructs.Node''))) (Getter ''node'')]"

definition KubeRuntimeClassList_functions :: "gofun list" where
  "KubeRuntimeClassList_functions =
   [Func (Sig ''NewKubeRuntimeClassList'' [
         Param ''scope'' (GoNamed ''constructs.Construct''), Param ''id'' (GoPtr GoString),
         Param ''props'' (GoPtr (GoNamed ''KubeRuntimeClassListProps''))] (Some (GoNamed ''KubeRuntimeClassList'')))
      (Construct ''k8s.KubeRuntimeClassList'' [''scope'', ''id'', ''props''] ''validateNewKubeRuntimeClassListParameters''),
    Func (Sig ''NewKubeRuntimeClassList_Override'' [
         Param ''k'' (GoNamed ''KubeRuntimeClassList''),
         Param ''scope'' (GoNamed ''constructs.Construct''), Param ''id'' (GoPtr GoString),
         Param ''props'' (GoPtr (GoNamed ''KubeRuntimeClassListProps''))] None)
      (ConstructOverride ''k8s.KubeRuntimeClassList'' [''scope'', ''id'', ''props'']),
    Func (Sig ''KubeRuntimeClassList_IsApiObject'' [Param ''o'' GoAny] (Some (GoPtr GoBool)))
      (StaticCall ''k8s.KubeRuntimeClassList'' ''isApiObject'' [''o''] ''validateKubeRuntimeClassList_IsApiObjectParameters''),
    Func (Sig ''KubeRuntimeClassList_IsConstruct'' [Param ''x'' GoAny] (Some (GoPtr GoBool)))
      (StaticCall ''k8s.KubeRuntimeClassList'' ''isConstruct'' [''x''] ''validateKubeRuntimeClassList_IsConstructParameters''),
    Func (Sig ''KubeRuntimeClassList_Manifest'' [Param ''props'' (GoPtr (GoNamed ''KubeRuntimeClassListProps''))] (Some GoAny))
      (StaticCall ''k8s.KubeRuntimeClassList'' ''manifest'' [''props''] ''validateKubeRuntimeClassList_ManifestParameters''),
    Func (Sig ''KubeRuntimeClassList_Of'' [Param ''c'' (GoNamed ''constructs.IConstruct'')] (Some (GoNamed ''cdk8s.ApiObject'')))
      (StaticCall ''k8s.KubeRuntimeClassList'' ''of'' [''c''] ''validateKubeRuntimeClassList_OfParameters''),
    Func (Sig ''KubeRuntimeClassList_GVK'' [] (Some (GoPtr (GoNamed ''cdk8s.GroupVersionKind''))))
      (StaticProp ''k8s.KubeRuntimeClassList'' ''GVK'')]"

definition KubeRuntimeClassList_methods :: "gofun list" where
  "KubeRuntimeClassList_methods =
   [Method (Sig ''AddDependency'' [Rest ''dependencies'' (GoNamed ''constructs.IConstruct'')] None)
      (Variadic ''addDependency''),
    Method (Sig ''AddJsonPatch'' [Rest ''ops'' (GoNamed ''cdk8s.JsonPatch'')] None)
      (Variadic ''addJsonPatch''),
    Method (Sig ''ToJson'' [] (Some GoAny)) (Plain ''toJson''),
    Method (Sig ''ToString'' [] (Some (GoPtr GoString))) (Plain ''toString'')]"

definition KubeRuntimeClassList :: binding where
  "KubeRuntimeClassList = Binding ''KubeRuntimeClassList'' [''internal.Type__cdk8sApiObject'']
     (KubeRuntimeClassList_getters @ KubeRuntimeClassList_functions @ KubeRuntimeClassList_methods)"

definition KubeRuntimeClassList_checks :: validators where
  "KubeRuntimeClassList_checks =
   [(''validateKubeRuntimeClassList_IsApiObjectParameters'', [NotNil ''o'']),
    (''validateKubeRuntimeClassList_IsConstructParameters'', [NotNil ''x'']),
    (''validateKubeRuntimeClassList_ManifestParameters'', [NotNil ''props'', ValidStruct ''props'']),
    (''validateKubeRuntimeClassList_OfParameters'', [NotNil ''c'']),
    (''validateNewKubeRuntimeClassListParameters'', [NotNil ''scope'', NotNil ''id'', NotNil ''props'', ValidStruct ''props''])]"

definition KubeRuntimeClassList_no_checks :: validators where
  "KubeRuntimeClassList_no_checks =
   [(''validateKubeRuntimeClassList_IsApiObjectParameters'', []),
    (''validateKubeRuntimeClassList_IsConstructParameters'', []),
    (''validateKubeRuntimeClassList_ManifestParameters'', []),
    (''validateKubeRuntimeClassList_OfParameters'', []),
    (''validateNewKubeRuntimeClassListParameters'', [])]"

lemma KubeRuntimeClassList_ok [class_checks]: "classOk (KubeRuntimeClassList, KubeRuntimeClassList_checks)"
  by (rule classRequired_I [where s = KubeRuntimeClassListProps], simp only: table_members)
    (simp_all only: KubeRuntimeClassList_def KubeRuntimeClassList_getters_def KubeRuntimeClassList_functions_def
      KubeRuntimeClassList_methods_def KubeRuntimeClassList_checks_def KubeRuntimeClassListProps_def class_eval)

lemma KubeRuntimeClassList_declared [class_interfaces]:
  "KubeRuntimeClassList_interface = apiObjectInterface ''KubeRuntimeClassList''"
  "KubeRuntimeClassList_no_checks = apiObjectNoChecks ''KubeRuntimeClassList''"
  by (simp_all only: KubeRuntimeClassList_interface_def KubeRuntimeClassList_no_checks_def declared_eval)

definition KubeScale_interface :: interface where
  "KubeScale_interface = Interface ''KubeScale'' [''cdk8s.ApiObject'']
   [Sig ''ApiGroup'' [] (Some (GoPtr GoString)), Sig ''ApiVersion'' [] (Some (GoPtr GoString)),
    Sig ''Chart'' [] (Some (GoNamed ''cdk8s.Chart'')), Sig ''Kind'' [] (Some (GoPtr GoString)),
    Sig ''Metadata'' [] (Some (GoNamed ''cdk8s.ApiObjectMetadataDefinition'')),
    Sig ''Name'' [] (Some (GoPtr GoString)), Sig ''Node'' [] (Some (GoNamed ''constructs.Node'')),
    Sig ''AddDependency'' [Rest ''dependencies'' (GoNamed ''constructs.IConstruct'')] None,
    Sig ''AddJsonPatch'' [Rest ''ops'' (GoNamed ''cdk8s.JsonPatch'')] None,
    Sig ''ToJson'' [] (Some GoAny), Sig ''ToString'' [] (Some (GoPtr GoString))]"

definition KubeScale_getters :: "gofun list" where
  "KubeScale_getters =
   [Method (Sig ''ApiGroup'' [] (Some (GoPtr GoString))) (Getter ''apiGroup''),
    Method (Sig ''ApiVersion'' [] (Some (GoPtr GoString))) (Getter ''apiVersion''),
    Method (Sig ''Chart'' [] (Some (GoNamed ''cdk8s.Chart''))) (Getter ''chart''),
    Method (Sig ''Kind'' [] (Some (GoPtr GoString))) (Getter ''kind''),
    Method (Sig ''Metadata'' [] (Some (GoNamed ''cdk8s.ApiObjectMetadataDefinition'')))
      (Getter ''metadata''),
    Method (Sig ''Name'' [] (Some (GoPtr GoString))) (Getter ''name''),
    Method (Sig ''Node'' [] (Some (GoNamed ''constructs.Node''))) (Getter ''node'')]"

definition KubeScale_functions :: "gofun list" where
  "KubeScale_functions =
   [Func (Sig ''NewKubeScale'' [
         Param ''scope'' (GoNamed ''constructs.Construct''), Param ''id'' (GoPtr GoString),
         Param ''props'' (GoPtr (GoNamed ''KubeScaleProps''))] (Some (GoNamed ''KubeScale'')))
      (Construct ''k8s.KubeScale'' [''scope'', ''id'', ''props''] ''validateNewKubeScaleParameters''),
    Func (Sig ''NewKubeScale_Override'' [
         Param ''k'' (GoNamed ''KubeScale''), Param ''scope'' (GoNamed ''constructs.Construct''),
         Param ''id'' (GoPtr GoString), Param ''props'' (GoPtr (GoNamed ''KubeScaleProps''))] None)
      (ConstructOverride ''k8s.KubeScale'' [''scope'', ''id'', ''props'']),
    Func (Sig ''KubeScale_IsApiObject'' [Param ''o'' GoAny] (Some (GoPtr GoBool)))
      (StaticCall ''k8s.KubeScale'' ''isApiObject'' [''o''] ''validateKubeScale_IsApiObjectParameters''),
    Func (Sig ''KubeScale_IsConstruct'' [Param ''x'' GoAny] (Some (GoPtr GoBool)))
      (StaticCall ''k8s.KubeScale'' ''isConstruct'' [''x''] ''validateKubeScale_IsConstructParameters''),
    Func (Sig ''KubeScale_Manifest'' [Param ''props'' (GoPtr (GoNamed ''KubeScaleProps''))] (Some GoAny))
      (StaticCall ''k8s.KubeScale'' ''manifest'' [''props''] ''validateKubeScale_ManifestParameters''),
    Func (Sig ''KubeScale_Of'' [Param ''c'' (GoNamed ''constructs.IConstruct'')] (Some (GoNamed ''cdk8s.ApiObject'')))
      (StaticCall ''k8s.KubeScale'' ''of'' [''c''] ''validateKubeScale_OfParameters''),
    Func (Sig ''KubeScale_GVK'' [] (Some (GoPtr (GoNamed ''cdk8s.GroupVersionKind''))))
      (StaticProp ''k8s.KubeScale'' ''GVK'')]"

definition KubeScale_methods :: "gofun list" where
  "KubeScale_methods =
   [Method (Sig ''AddDependency'' [Rest ''dependencies'' (GoNamed ''constructs.IConstruct'')] None)
      (Variadic ''addDependency''),
    Method (Sig ''AddJsonPatch'' [Rest ''ops'' (GoNamed ''cdk8s.JsonPatch'')] None)
      (Variadic ''addJsonPatch''),
    Method (Sig ''ToJson'' [] (Some GoAny)) (Plain ''toJson''),
    Method (Sig ''ToString'' [] (Some (GoPtr GoString))) (Plain ''toString'')]"

definition KubeScale :: binding where
  "KubeScale = Binding ''KubeScale'' [''internal.Type__cdk8sApiObject'']
     (KubeScale_getters @ KubeScale_functions @ KubeScale_methods)"

definition KubeScale_checks :: validators where
  "KubeScale_checks =
   [(''validateKubeScale_IsApiObjectParameters'', [NotNil ''o'']),
    (''validateKubeScale_IsConstructParameters'', [NotNil ''x'']),
    (''validateKubeScale_ManifestParameters'', [ValidStruct ''props'']),
    (''validateKubeScale_OfParameters'', [NotNil ''c'']),
    (''validateNewKubeScaleParameters'', [NotNil ''scope'', NotNil ''id'', ValidStruct ''props''])]"

definition KubeScale_no_checks :: validators where
  "KubeScale_no_checks =
   [(''validateKubeScale_IsApiObjectParameters'', []),
    (''validateKubeScale_IsConstructParameters'', []),
    (''validateKubeScale_ManifestParameters'', []), (''validateKubeScale_OfParameters'', []),
    (''validateNewKubeScaleParameters'', [])]"

lemma KubeScale_ok [class_checks]: "classOk (KubeScale, KubeScale_checks)"
  by (rule classOptional_I [where s = KubeScaleProps], simp only: table_members)
    (simp_all only: KubeScale_def KubeScale_getters_def KubeScale_functions_def
      KubeScale_methods_def KubeScale_checks_def KubeScaleProps_def class_eval)

lemma KubeScale_declared [class_interfaces]:
  "KubeScale_interface = apiObjectInterface ''KubeScale''"
  "KubeScale_no_checks = apiObjectNoChecks ''KubeScale''"
  by (simp_all only: KubeScale_interface_def KubeScale_no_checks_def declared_eval)

definition KubeSecret_interface :: interface where
  "KubeSecret_interface = Interface ''KubeSecret'' [''cdk8s.ApiObject'']
   [Sig ''ApiGroup'' [] (Some (GoPtr GoString)), Sig ''ApiVersion'' [] (Some (GoPtr GoString)),
    Sig ''Chart'' [] (Some (GoNamed ''cdk8s.Chart'')), Sig ''Kind'' [] (Some (GoPtr GoString)),
    Sig ''Metadata'' [] (Some (GoNamed ''cdk8s.ApiObjectMetadataDefinition'')),
    Sig ''Name'' [] (Some (GoPtr GoString)), Sig ''Node'' [] (Some (GoNamed ''constructs.Node'')),
    Sig ''AddDependency'' [Rest ''dependencies'' (GoNamed ''constructs.IConstruct'')] None,
    Sig ''AddJsonPatch'' [Rest ''ops'' (GoNamed ''cdk8s.JsonPatch'')] None,
    Sig ''ToJson'' [] (Some GoAny), Sig ''ToString'' [] (Some (GoPtr GoString))]"

definition KubeSecret_getters :: "gofun list" where
  "KubeSecret_getters =
   [Method (Sig ''ApiGroup'' [] (Some (GoPtr GoString))) (Getter ''apiGroup''),
    Method (Sig ''ApiVersion'' [] (Some (GoPtr GoString))) (Getter ''apiVersion''),
    Method (Sig ''Chart'' [] (Some (GoNamed ''cdk8s.Chart''))) (Getter ''chart''),
    Method (Sig ''Kind'' [] (Some (GoPtr GoString))) (Getter ''kind''),
    Method (Sig ''Metadata'' [] (Some (GoNamed ''cdk8s.ApiObjectMetadataDefinition'')))
      (Getter ''metadata''),
    Method (Sig ''Name'' [] (Some (GoPtr GoString))) (Getter ''name''),
    Method (Sig ''Node'' [] (Some (GoNamed ''constructs.Node''))) (Getter ''node'')]"

definition KubeSecret_functions :: "gofun list" where
  "KubeSecret_functions =
   [Func (Sig ''NewKubeSecret'' [
         Param ''scope'' (GoNamed ''constructs.Construct''), Param ''id'' (GoPtr GoString),
         Param ''props'' (GoPtr (GoNamed ''KubeSecretProps''))] (Some (GoNamed ''KubeSecret'')))
      (Construct ''k8s.KubeSecret'' [''scope'', ''id'', ''props''] ''validateNewKubeSecretParameters''),
    Func (Sig ''NewKubeSecret_Override'' [
         Param ''k'' (GoNamed ''KubeSecret''), Param ''scope'' (GoNamed ''constructs.Construct''),
         Param ''id'' (GoPtr GoString), Param ''props'' (GoPtr (GoNamed ''KubeSecretProps''))] None)
      (ConstructOverride ''k8s.KubeSecret'' [''scope'', ''id'', ''props'']),
    Func (Sig ''KubeSecret_IsApiObject'' [Param ''o'' GoAny] (Some (GoPtr GoBool)))
      (StaticCall ''k8s.KubeSecret'' ''isApiObject'' [''o''] ''validateKubeSecret_IsApiObjectParameters''),
    Func (Sig ''KubeSecret_IsConstruct'' [Param ''x'' GoAny] (Some (GoPtr GoBool)))
      (StaticCall ''k8s.KubeSecret'' ''isConstruct'' [''x''] ''validateKubeSecret_IsConstructParameters''),
    Func (Sig ''KubeSecret_Manifest'' [Param ''props'' (GoPtr (GoNamed ''KubeSecretProps''))] (Some GoAny))
      (StaticCall ''k8s.KubeSecret'' ''manifest'' [''props''] ''validateKubeSecret_ManifestParameters''),
    Func (Sig ''KubeSecret_Of'' [Param ''c'' (GoNamed ''constructs.IConstruct'')] (Some (GoNamed ''cdk8s.ApiObject'')))
      (StaticCall ''k8s.KubeSecret'' ''of'' [''c''] ''validateKubeSecret_OfParameters''),
    Func (Sig ''KubeSecret_GVK'' [] (Some (GoPtr (GoNamed ''cdk8s.GroupVersionKind''))))
      (StaticProp ''k8s.KubeSecret'' ''GVK'')]"

definition KubeSecret_methods :: "gofun list" where
  "KubeSecret_methods =
   [Method (Sig ''AddDependency'' [Rest ''dependencies'' (GoNamed ''constructs.IConstruct'')] None)
      (Variadic ''addDependency''),
    Method (Sig ''AddJsonPatch'' [Rest ''ops'' (GoNamed ''cdk8s.JsonPatch'')] None)
      (Variadic ''addJsonPatch''),
    Method (Sig ''ToJson'' [] (Some GoAny)) (Plain ''toJson''),
    Method (Sig ''ToString'' [] (Some (GoPtr GoString))) (Plain ''toString'')]"

definition KubeSecret :: binding where
  "KubeSecret = Binding ''KubeSecret'' [''internal.Type__cdk8sApiObject'']
     (KubeSecret_getters @ KubeSecret_functions @ KubeSecret_methods)"

definition KubeSecret_checks :: validators where
  "KubeSecret_checks =
   [(''validateKubeSecret_IsApiObjectParameters'', [NotNil ''o'']),
    (''validateKubeSecret_IsConstructParameters'', [NotNil ''x'']),
    (''validateKubeSecret_ManifestParameters'', [ValidStruct ''props'']),
    (''validateKubeSecret_OfParameters'', [NotNil ''c'']),
    (''validateNewKubeSecretParameters'', [NotNil ''scope'', NotNil ''id'', ValidStruct ''props''])]"

definition KubeSecret_no_checks :: validators where
  "KubeSecret_no_checks =
   [(''validateKubeSecret_IsApiObjectParameters'', []),
    (''validateKubeSecret_IsConstructParameters'', []),
    (''validateKubeSecret_ManifestParameters'', []), (''validateKubeSecret_OfParameters'', []),
    (''validateNewKubeSecretParameters'', [])]"

lemma KubeSecret_ok [class_checks]: "classOk (KubeSecret, KubeSecret_checks)"
  by (rule classOptional_I [where s = KubeSecretProps], simp only: table_members)
    (simp_all only: KubeSecret_def KubeSecret_getters_def KubeSecret_functions_def
      KubeSecret_methods_def KubeSecret_checks_def KubeSecretProps_def class_eval)

lemma KubeSecret_declared [class_interfaces]:
  "KubeSecret_interface = apiObjectInterface ''KubeSecret''"
  "KubeSecret_no_checks = apiObjectNoChecks ''KubeSecret''"
  by (simp_all only: KubeSecret_interface_def KubeSecret_no_checks_def declared_eval)

definition KubeSecretList_interface :: interface where
  "KubeSecretList_interface = Interface ''KubeSecretList'' [''cdk8s.ApiObject'']
   [Sig ''ApiGroup'' [] (Some (GoPtr GoString)), Sig ''ApiVersion'' [] (Some (GoPtr GoString)),
    Sig ''Chart'' [] (Some (GoNamed ''cdk8s.Chart'')), Sig ''Kind'' [] (Some (GoPtr GoString)),
    Sig ''Metadata'' [] (Some (GoNamed ''cdk8s.ApiObjectMetadataDefinition'')),
    Sig ''Name'' [] (Some (GoPtr GoString)), Sig ''Node'' [] (Some (GoNamed ''constructs.Node'')),
    Sig ''AddDependency'' [Rest ''dependencies'' (GoNamed ''constructs.IConstruct'')] None,
    Sig ''AddJsonPatch'' [Rest ''ops'' (GoNamed ''cdk8s.JsonPatch'')] None,
    Sig ''ToJson'' [] (Some GoAny), Sig ''ToString'' [] (Some (GoPtr GoString))]"

definition KubeSecretList_getters :: "gofun list" where
  "KubeSecretList_getters =
   [Method (Sig ''ApiGroup'' [] (Some (GoPtr GoString))) (Getter ''apiGroup''),
    Method (Sig ''ApiVersion'' [] (Some (GoPtr GoString))) (Getter ''apiVersion''),
    Method (Sig ''Chart'' [] (Some (GoNamed ''cdk8s.Chart''))) (Getter ''chart''),
    Method (Sig ''Kind'' [] (Some (GoPtr GoString))) (Getter ''kind''),
    Method (Sig ''Metadata'' [] (Some (GoNamed ''cdk8s.ApiObjectMetadataDefinition'')))
      (Getter ''metadata''),
    Method (Sig ''Name'' [] (Some (GoPtr GoString))) (Getter ''name''),
    Method (Sig ''Node'' [] (Some (GoNamed ''constructs.Node''))) (Getter ''node'')]"

definition KubeSecretList_functions :: "gofun list" where
  "KubeSecretList_functions =
   [Func (Sig ''NewKubeSecretList'' [
         Param ''scope'' (GoNamed ''constructs.Construct''), Param ''id'' (GoPtr GoString),
         Param ''props'' (GoPtr (GoNamed ''KubeSecretListProps''))] (Some (GoNamed ''KubeSecretList'')))
      (Construct ''k8s.KubeSecretList'' [''scope'', ''id'', ''props''] ''validateNewKubeSecretListParameters''),
    Func (Sig ''NewKubeSecretList_Override'' [
         Param ''k'' (GoNamed ''KubeSecretList''), Param ''scope'' (GoNamed ''constructs.Construct''),
         Param ''id'' (GoPtr GoString), Param ''props'' (GoPtr (GoNamed ''KubeSecretListProps''))] None)
      (ConstructOverride ''k8s.KubeSecretList'' [''scope'', ''id'', ''props'']),
    Func (Sig ''KubeSecretList_IsApiObject'' [Param ''o'' GoAny] (Some (GoPtr GoBool)))
      (StaticCall ''k8s.KubeSecretList'' ''isApiObject'' [''o''] ''validateKubeSecretList_IsApiObjectParameters''),
    Func (Sig ''KubeSecretList_IsConstruct'' [Param ''x'' GoAny] (Some (GoPtr GoBool)))
      (StaticCall ''k8s.KubeSecretList'' ''isConstruct'' [''x''] ''validateKubeSecretList_IsConstructParameters''),
    Func (Sig ''KubeSecretList_Manifest'' [Param ''props'' (GoPtr (GoNamed ''KubeSecretListProps''))] (Some GoAny))
      (StaticCall ''k8s.KubeSecretList'' ''manifest'' [''props''] ''validateKubeSecretList_ManifestParameters''),
    Func (Sig ''KubeSecretList_Of'' [Param ''c'' (GoNamed ''constructs.IConstruct'')] (Some (GoNamed ''cdk8s.ApiObject'')))
      (StaticCall ''k8s.KubeSecretList'' ''of'' [''c''] ''validateKubeSecretList_OfParameters''),
    Func (Sig ''KubeSecretList_GVK'' [] (Some (GoPtr (GoNamed ''cdk8s.GroupVersionKind''))))
      (StaticProp ''k8s.KubeSecretList'' ''GVK'')]"

definition KubeSecretList_methods :: "gofun list" where
  "KubeSecretList_methods =
   [Method (Sig ''AddDependency'' [Rest ''dependencies'' (GoNamed ''constructs.IConstruct'')] None)
      (Variadic ''addDependency''),
    Method (Sig ''AddJsonPatch'' [Rest ''ops'' (GoNamed ''cdk8s.JsonPatch'')] None)
      (Variadic ''addJsonPatch''),
    Method (Sig ''ToJson'' [] (Some GoAny)) (Plain ''toJson''),
    Method (Sig ''ToString'' [] (Some (GoPtr GoString))) (Plain ''toString'')]"

definition KubeSecretList :: binding where
  "KubeSecretList = Binding ''KubeSecretList'' [''internal.Type__cdk8sApiObject'']
     (KubeSecretList_getters @ KubeSecretList_functions @ KubeSecretList_methods)"

definition KubeSecretList_checks :: validators where
  "KubeSecretList_checks =
   [(''validateKubeSecretList_IsApiObjectParameters'', [NotNil ''o'']),
    (''validateKubeSecretList_IsConstructParameters'', [NotNil ''x'']),
    (''validateKubeSecretList_ManifestParameters'', [NotNil ''props'', ValidStruct ''props'']),
    (''validateKubeSecretList_OfParameters'', [NotNil ''c'']),
    (''validateNewKubeSecretListParameters'', [NotNil ''scope'', NotNil ''id'', NotNil ''props'', ValidStruct ''props''])]"

definition KubeSecretList_no_checks :: validators where
  "KubeSecretList_no_checks =
   [(''validateKubeSecretList_IsApiObjectParameters'', []),
    (''validateKubeSecretList_IsConstructParameters'', []),
    (''validateKubeSecretList_ManifestParameters'', []),
    (''validateKubeSecretList_OfParameters'', []), (''validateNewKubeSecretListParameters'', [])]"

lemma KubeSecretList_ok [class_checks]: "classOk (KubeSecretList, KubeSecretList_checks)"
  by (rule classRequired_I [where s = KubeSecretListProps], simp only: table_members)
    (simp_all only: KubeSecretList_def KubeSecretList_getters_def KubeSecretList_functions_def
      KubeSecretList_methods_def KubeSecretList_checks_def KubeSecretListProps_def class_eval)

lemma KubeSecretList_declared [class_interfaces]:
  "KubeSecretList_interface = apiObjectInterface ''KubeSecretList''"
  "KubeSecretList_no_checks = apiObjectNoChecks ''KubeSecretList''"
  by (simp_all only: KubeSecretList_interface_def KubeSecretList_no_checks_def declared_eval)

definition classes_E :: "(binding \<times> validators) list" where
  "classes_E =
   [(KubePriorityClassList, KubePriorityClassList_checks),
    (KubePriorityLevelConfigurationListV1Beta1, KubePriorityLevelConfigurationListV1Beta1_checks),
    (KubePriorityLevelConfigurationListV1Beta2, KubePriorityLevelConfigurationListV1Beta2_checks),
    (KubePriorityLevelConfigurationV1Beta1, KubePriorityLevelConfigurationV1Beta1_checks),
    (KubePriorityLevelConfigurationV1Beta2, KubePriorityLevelConfigurationV1Beta2_checks),
    (KubeReplicaSet, KubeReplicaSet_checks), (KubeReplicaSetList, KubeReplicaSetList_checks),
    (KubeReplicationController, KubeReplicationController_checks),
    (KubeReplicationControllerList, KubeReplicationControllerList_checks),
    (KubeResourceQuota, KubeResourceQuota_checks),
    (KubeResourceQuotaList, KubeResourceQuotaList_checks), (KubeRole, KubeRole_checks),
    (KubeRoleBinding, KubeRoleBinding_checks), (KubeRoleBindingList, KubeRoleBindingList_checks),
    (KubeRoleList, KubeRoleList_checks), (KubeRuntimeClass, KubeRuntimeClass_checks),
    (KubeRuntimeClassList, KubeRuntimeClassList_checks), (KubeScale, KubeScale_checks),
    (KubeSecret, KubeSecret_checks), (KubeSecretList, KubeSecretList_checks)]"

lemma classes_E_ok [class_tables]: "list_all classOk classes_E"
  by (simp only: classes_E_def list.pred_inject class_checks HOL.simp_thms)

lemma classes_E_names [class_names]: "map (\<lambda>c. bindingName (fst c)) classes_E =
    [''KubePriorityClassList'', ''KubePriorityLevelConfigurationListV1Beta1'',
     ''KubePriorityLevelConfigurationListV1Beta2'', ''KubePriorityLevelConfigurationV1Beta1'',
     ''KubePriorityLevelConfigurationV1Beta2'', ''KubeReplicaSet'', ''KubeReplicaSetList'',
     ''KubeReplicationController'', ''KubeReplicationControllerList'', ''KubeResourceQuota'',
     ''KubeResourceQuotaList'', ''KubeRole'', ''KubeRoleBinding'', ''KubeRoleBindingList'',
     ''KubeRoleList'', ''KubeRuntimeClass'', ''KubeRuntimeClassList'', ''KubeScale'', ''KubeSecret'',
     ''KubeSecretList'']"
  by (simp only: classes_E_def list.map fst_conv bindingName.simps
    KubePriorityClassList_def KubePriorityLevelConfigurationListV1Beta1_def
      KubePriorityLevelConfigurationListV1Beta2_def KubePriorityLevelConfigurationV1Beta1_def
      KubePriorityLevelConfigurationV1Beta2_def KubeReplicaSet_def KubeReplicaSetList_def
      KubeReplicationController_def KubeReplicationControllerList_def KubeResourceQuota_def
      KubeResourceQuotaList_def KubeRole_def KubeRoleBinding_def KubeRoleBindingList_def
      KubeRoleList_def KubeRuntimeClass_def KubeRuntimeClassList_def KubeScale_def KubeSecret_def
      KubeSecretList_def)

definition interfaces_E :: "interface list" where
  "interfaces_E =
   [KubePriorityClassList_interface, KubePriorityLevelConfigurationListV1Beta1_interface,
    KubePriorityLevelConfigurationListV1Beta2_interface,
    KubePriorityLevelConfigurationV1Beta1_interface,
    KubePriorityLevelConfigurationV1Beta2_interface, KubeReplicaSet_interface,
    KubeReplicaSetList_interface, KubeReplicationController_interface,
    KubeReplicationControllerList_interface, KubeResourceQuota_interface,
    KubeResourceQuotaList_interface, KubeRole_interface, KubeRoleBinding_interface,
    KubeRoleBindingList_interface, KubeRoleList_interface, KubeRuntimeClass_interface,
    KubeRuntimeClassList_interface, KubeScale_interface, KubeSecret_interface,
    KubeSecretList_interface]"

definition unchecked_E :: "(string \<times> validators) list" where
  "unchecked_E =
   [(''KubePriorityClassList'', KubePriorityClassList_no_checks),
    (''KubePriorityLevelConfigurationListV1Beta1'', KubePriorityLevelConfigurationListV1Beta1_no_checks),
    (''KubePriorityLevelConfigurationListV1Beta2'', KubePriorityLevelConfigurationListV1Beta2_no_checks),
    (''KubePriorityLevelConfigurationV1Beta1'', KubePriorityLevelConfigurationV1Beta1_no_checks),
    (''KubePriorityLevelConfigurationV1Beta2'', KubePriorityLevelConfigurationV1Beta2_no_checks),
    (''KubeReplicaSet'', KubeReplicaSet_no_checks),
    (''KubeReplicaSetList'', KubeReplicaSetList_no_checks),
    (''KubeReplicationController'', KubeReplicationController_no_checks),
    (''KubeReplicationControllerList'', KubeReplicationControllerList_no_checks),
    (''KubeResourceQuota'', KubeResourceQuota_no_checks),
    (''KubeResourceQuotaList'', KubeResourceQuotaList_no_checks),
    (''KubeRole'', KubeRole_no_checks), (''KubeRoleBinding'', KubeRoleBinding_no_checks),
    (''KubeRoleBindingList'', KubeRoleBindingList_no_checks),
    (''KubeRoleList'', KubeRoleList_no_checks), (''KubeRuntimeClass'', KubeRuntimeClass_no_checks),
    (''KubeRuntimeClassList'', KubeRuntimeClassList_no_checks),
    (''KubeScale'', KubeScale_no_checks), (''KubeSecret'', KubeSecret_no_checks),
    (''KubeSecretList'', KubeSecretList_no_checks)]"

lemma interfaces_E [class_tables]:
  "interfaces_E = map (\<lambda>c. apiObjectInterface (bindingName (fst c))) classes_E"
  "unchecked_E = map (\<lambda>c. (bindingName (fst c), apiObjectNoChecks (bindingName (fst c)))) classes_E"
  by (simp_all only: interfaces_E_def unchecked_E_def classes_E_def list.map fst_conv bindingName.simps class_interfaces
    KubePriorityClassList_def KubePriorityLevelConfigurationListV1Beta1_def
      KubePriorityLevelConfigurationListV1Beta2_def KubePriorityLevelConfigurationV1Beta1_def
      KubePriorityLevelConfigurationV1Beta2_def KubeReplicaSet_def KubeReplicaSetList_def
      KubeReplicationController_def KubeReplicationControllerList_def KubeResourceQuota_def
      KubeResourceQuotaList_def KubeRole_def KubeRoleBinding_def KubeRoleBindingList_def
      KubeRoleList_def KubeRuntimeClass_def KubeRuntimeClassList_def KubeScale_def KubeSecret_def
      KubeSecretList_def)

end
