(* ===== verification/KubeClassesF.thy ===== *)
theory KubeClassesF
  imports Bindings K8sTypes
begin

text \<open>
  The classes \<open>KubeSelfSubjectAccessReview\<close> to \<open>KubeVolumeAttachmentList\<close> of the Kubernetes bindings: from each file \<open>Kube*.go\<close> the
  interface, the getters of the proxy, the package functions and the methods, then the validators of
  \<open>Kube*__checks.go\<close> and \<open>Kube*__no_checks.go\<close>, and the evaluation of the checks of \<open>Bindings\<close> on each.
\<close>

definition KubeSelfSubjectAccessReview_interface :: interface where
  "KubeSelfSubjectAccessReview_interface = Interface ''KubeSelfSubjectAccessReview'' [''cdk8s.ApiObject'']
   [Sig ''ApiGroup'' [] (Some (GoPtr GoString)), Sig ''ApiVersion'' [] (Some (GoPtr GoString)),
    Sig ''Chart'' [] (Some (GoNamed ''cdk8s.Chart'')), Sig ''Kind'' [] (Some (GoPtr GoString)),
    Sig ''Metadata'' [] (Some (GoNamed ''cdk8s.ApiObjectMetadataDefinition'')),
    Sig ''Name'' [] (Some (GoPtr GoString)), Sig ''Node'' [] (Some (GoNamed ''constructs.Node'')),
    Sig ''AddDependency'' [Rest ''dependencies'' (GoNamed ''constructs.IConstruct'')] None,
    Sig ''AddJsonPatch'' [Rest ''ops'' (GoNamed ''cdk8s.JsonPatch'')] None,
    Sig ''ToJson'' [] (Some GoAny), Sig ''ToString'' [] (Some (GoPtr GoString))]"

definition KubeSelfSubjectAccessReview_getters :: "gofun list" where
  "KubeSelfSubjectAccessReview_getters =
   [Method (Sig ''ApiGroup'' [] (Some (GoPtr GoString))) (Getter ''apiGroup''),
    Method (Sig ''ApiVersion'' [] (Some (GoPtr GoString))) (Getter ''apiVersion''),
    Method (Sig ''Chart'' [] (Some (GoNamed ''cdk8s.Chart''))) (Getter ''chart''),
    Method (Sig ''Kind'' [] (Some (GoPtr GoString))) (Getter ''kind''),
    Method (Sig ''Metadata'' [] (Some (GoNamed ''cdk8s.ApiObjectMetadataDefinition'')))
      (Getter ''metadata''),
    Method (Sig ''Name'' [] (Some (GoPtr GoString))) (Getter ''name''),
    Method (Sig ''Node'' [] (Some (GoNamed ''constructs.Node''))) (Getter ''node'')]"

definition KubeSelfSubjectAccessReview_functions :: "gofun list" where
  "KubeSelfSubjectAccessReview_functions =
   [Func (Sig ''NewKubeSelfSubjectAccessReview'' [
         Param ''scope'' (GoNamed ''constructs.Construct''), Param ''id'' (GoPtr GoString),
         Param ''props'' (GoPtr (GoNamed ''KubeSelfSubjectAccessReviewProps''))] (Some (GoNamed ''KubeSelfSubjectAccessReview'')))
      (Construct ''k8s.KubeSelfSubjectAccessReview'' [''scope'', ''id'', ''props''] ''validateNewKubeSelfSubjectAccessReviewParameters''),
    Func (Sig ''NewKubeSelfSubjectAccessReview_Override'' [
         Param ''k'' (GoNamed ''KubeSelfSubjectAccessReview''),
         Param ''scope'' (GoNamed ''constructs.Construct''), Param ''id'' (GoPtr GoString),
         Param ''props'' (GoPtr (GoNamed ''KubeSelfSubjectAccessReviewProps''))] None)
      (ConstructOverride ''k8s.KubeSelfSubjectAccessReview'' [''scope'', ''id'', ''props'']),
    Func (Sig ''KubeSelfSubjectAccessReview_IsApiObject'' [Param ''o'' GoAny] (Some (GoPtr GoBool)))
      (StaticCall ''k8s.KubeSelfSubjectAccessReview'' ''isApiObject'' [''o''] ''validateKubeSelfSubjectAccessReview_IsApiObjectParameters''),
    Func (Sig ''KubeSelfSubjectAccessReview_IsConstruct'' [Param ''x'' GoAny] (Some (GoPtr GoBool)))
      (StaticCall ''k8s.KubeSelfSubjectAccessReview'' ''isConstruct'' [''x''] ''validateKubeSelfSubjectAccessReview_IsConstructParameters''),
    Func (Sig ''KubeSelfSubjectAccessReview_Manifest'' [Param ''props'' (GoPtr (GoNamed ''KubeSelfSubjectAccessReviewProps''))] (Some GoAny))
      (StaticCall ''k8s.KubeSelfSubjectAccessReview'' ''manifest'' [''props''] ''validateKubeSelfSubjectAccessReview_ManifestParameters''),
    Func (Sig ''KubeSelfSubjectAccessReview_Of'' [Param ''c'' (GoNamed ''constructs.IConstruct'')] (Some (GoNamed ''cdk8s.ApiObject'')))
      (StaticCall ''k8s.KubeSelfSubjectAccessReview'' ''of'' [''c''] ''validateKubeSelfSubjectAccessReview_OfParameters''),
    Func (Sig ''KubeSelfSubjectAccessReview_GVK'' [] (Some (GoPtr (GoNamed ''cdk8s.GroupVersionKind''))))
      (StaticProp ''k8s.KubeSelfSubjectAccessReview'' ''GVK'')]"

definition KubeSelfSubjectAccessReview_methods :: "gofun list" where
  "KubeSelfSubjectAccessReview_methods =
   [Method (Sig ''AddDependency'' [Rest ''dependencies'' (GoNamed ''constructs.IConstruct'')] None)
      (Variadic ''addDependency''),
    Method (Sig ''AddJsonPatch'' [Rest ''ops'' (GoNamed ''cdk8s.JsonPatch'')] None)
      (Variadic ''addJsonPatch''),
    Method (Sig ''ToJson'' [] (Some GoAny)) (Plain ''toJson''),
    Method (Sig ''ToString'' [] (Some (GoPtr GoString))) (Plain ''toString'')]"

definition KubeSelfSubjectAccessReview :: binding where
  "KubeSelfSubjectAccessReview = Binding ''KubeSelfSubjectAccessReview'' [''internal.Type__cdk8sApiObject'']
     (KubeSelfSubjectAccessReview_getters @ KubeSelfSubjectAccessReview_functions @ KubeSelfSubjectAccessReview_methods)"

definition KubeSelfSubjectAccessReview_checks :: validators where
  "KubeSelfSubjectAccessReview_checks =
   [(''validateKubeSelfSubjectAccessReview_IsApiObjectParameters'', [NotNil ''o'']),
    (''validateKubeSelfSubjectAccessReview_IsConstructParameters'', [NotNil ''x'']),
    (''validateKubeSelfSubjectAccessReview_ManifestParameters'', [NotNil ''props'', ValidStruct ''props'']),
    (''validateKubeSelfSubjectAccessReview_OfParameters'', [NotNil ''c'']),
    (''validateNewKubeSelfSubjectAccessReviewParameters'', [NotNil ''scope'', NotNil ''id'', NotNil ''props'', ValidStruct ''props''])]"

definition KubeSelfSubjectAccessReview_no_checks :: validators where
  "KubeSelfSubjectAccessReview_no_checks =
   [(''validateKubeSelfSubjectAccessReview_IsApiObjectParameters'', []),
    (''validateKubeSelfSubjectAccessReview_IsConstructParameters'', []),
    (''validateKubeSelfSubjectAccessReview_ManifestParameters'', []),
    (''validateKubeSelfSubjectAccessReview_OfParameters'', []),
    (''validateNewKubeSelfSubjectAccessReviewParameters'', [])]"

lemma KubeSelfSubjectAccessReview_ok [class_checks]: "classOk (KubeSelfSubjectAccessReview, KubeSelfSubjectAccessReview_checks)"
  by (rule classRequired_I [where s = KubeSelfSubjectAccessReviewProps], simp only: table_members)
    (simp_all only: KubeSelfSubjectAccessReview_def KubeSelfSubjectAccessReview_getters_def KubeSelfSubjectAccessReview_functions_def
      KubeSelfSubjectAccessReview_methods_def KubeSelfSubjectAccessReview_checks_def KubeSelfSubjectAccessReviewProps_def class_eval)

lemma KubeSelfSubjectAccessReview_declared [class_interfaces]:
  "KubeSelfSubjectAccessReview_interface = apiObjectInterface ''KubeSelfSubjectAccessReview''"
  "KubeSelfSubjectAccessReview_no_checks = apiObjectNoChecks ''KubeSelfSubjectAccessReview''"
  by (simp_all only: KubeSelfSubjectAccessReview_interface_def KubeSelfSubjectAccessReview_no_checks_def declared_eval)

definition KubeSelfSubjectRulesReview_interface :: interface where
  "KubeSelfSubjectRulesReview_interface = Interface ''KubeSelfSubjectRulesReview'' [''cdk8s.ApiObject'']
   [Sig ''ApiGroup'' [] (Some (GoPtr GoString)), Sig ''ApiVersion'' [] (Some (GoPtr GoString)),
    Sig ''Chart'' [] (Some (GoNamed ''cdk8s.Chart'')), Sig ''Kind'' [] (Some (GoPtr GoString)),
    Sig ''Metadata'' [] (Some (GoNamed ''cdk8s.ApiObjectMetadataDefinition'')),
    Sig ''Name'' [] (Some (GoPtr GoString)), Sig ''Node'' [] (Some (GoNamed ''constructs.Node'')),
    Sig ''AddDependency'' [Rest ''dependencies'' (GoNamed ''constructs.IConstruct'')] None,
    Sig ''AddJsonPatch'' [Rest ''ops'' (GoNamed ''cdk8s.JsonPatch'')] None,
    Sig ''ToJson'' [] (Some GoAny), Sig ''ToString'' [] (Some (GoPtr GoString))]"

definition KubeSelfSubjectRulesReview_getters :: "gofun list" where
  "KubeSelfSubjectRulesReview_getters =
   [Method (Sig ''ApiGroup'' [] (Some (GoPtr GoString))) (Getter ''apiGroup''),
    Method (Sig ''ApiVersion'' [] (Some (GoPtr GoString))) (Getter ''apiVersion''),
    Method (Sig ''Chart'' [] (Some (GoNamed ''cdk8s.Chart''))) (Getter ''chart''),
    Method (Sig ''Kind'' [] (Some (GoPtr GoString))) (Getter ''kind''),
    Method (Sig ''Metadata'' [] (Some (GoNamed ''cdk8s.ApiObjectMetadataDefinition'')))
      (Getter ''metadata''),
    Method (Sig ''Name'' [] (Some (GoPtr GoString))) (Getter ''name''),
    Method (Sig ''Node'' [] (Some (GoNamed ''constructs.Node''))) (Getter ''node'')]"

definition KubeSelfSubjectRulesReview_functions :: "gofun list" where
  "KubeSelfSubjectRulesReview_functions =
   [Func (Sig ''NewKubeSelfSubjectRulesReview'' [
         Param ''scope'' (GoNamed ''constructs.Construct''), Param ''id'' (GoPtr GoString),
         Param ''props'' (GoPtr (GoNamed ''KubeSelfSubjectRulesReviewProps''))] (Some (GoNamed ''KubeSelfSubjectRulesReview'')))
      (Construct ''k8s.KubeSelfSubjectRulesReview'' [''scope'', ''id'', ''props''] ''validateNewKubeSelfSubjectRulesReviewParameters''),
    Func (Sig ''NewKubeSelfSubjectRulesReview_Override'' [
         Param ''k'' (GoNamed ''KubeSelfSubjectRulesReview''),
         Param ''scope'' (GoNamed ''constructs.Construct''), Param ''id'' (GoPtr GoString),
         Param ''props'' (GoPtr (GoNamed ''KubeSelfSubjectRulesReviewProps''))] None)
      (ConstructOverride ''k8s.KubeSelfSubjectRulesReview'' [''scope'', ''id'', ''props'']),
    Func (Sig ''KubeSelfSubjectRulesReview_IsApiObject'' [Param ''o'' GoAny] (Some (GoPtr GoBool)))
      (StaticCall ''k8s.KubeSelfSubjectRulesReview'' ''isApiObject'' [''o''] ''validateKubeSelfSubjectRulesReview_IsApiObjectParameters''),
    Func (Sig ''KubeSelfSubjectRulesReview_IsConstruct'' [Param ''x'' GoAny] (Some (GoPtr GoBool)))
      (StaticCall ''k8s.KubeSelfSubjectRulesReview'' ''isConstruct'' [''x''] ''validateKubeSelfSubjectRulesReview_IsConstructParameters''),
    Func (Sig ''KubeSelfSubjectRulesReview_Manifest'' [Param ''props'' (GoPtr (GoNamed ''KubeSelfSubjectRulesReviewProps''))] (Some GoAny))
      (StaticCall ''k8s.KubeSelfSubjectRulesReview'' ''manifest'' [''props''] ''validateKubeSelfSubjectRulesReview_ManifestParameters''),
    Func (Sig ''KubeSelfSubjectRulesReview_Of'' [Param ''c'' (GoNamed ''constructs.IConstruct'')] (Some (GoNamed ''cdk8s.ApiObject'')))
      (StaticCall ''k8s.KubeSelfSubjectRulesReview'' ''of'' [''c''] ''validateKubeSelfSubjectRulesReview_OfParameters''),
    Func (Sig ''KubeSelfSubjectRulesReview_GVK'' [] (Some (GoPtr (GoNamed ''cdk8s.GroupVersionKind''))))
      (StaticProp ''k8s.KubeSelfSubjectRulesReview'' ''GVK'')]"

definition KubeSelfSubjectRulesReview_methods :: "gofun list" where
  "KubeSelfSubjectRulesReview_methods =
   [Method (Sig ''AddDependency'' [Rest ''dependencies'' (GoNamed ''constructs.IConstruct'')] None)
      (Variadic ''addDependency''),
    Method (Sig ''AddJsonPatch'' [Rest ''ops'' (GoNamed ''cdk8s.JsonPatch'')] None)
      (Variadic ''addJsonPatch''),
    Method (Sig ''ToJson'' [] (Some GoAny)) (Plain ''toJson''),
    Method (Sig ''ToString'' [] (Some (GoPtr GoString))) (Plain ''toString'')]"

definition KubeSelfSubjectRulesReview :: binding where
  "KubeSelfSubjectRulesReview = Binding ''KubeSelfSubjectRulesReview'' [''internal.Type__cdk8sApiObject'']
     (KubeSelfSubjectRulesReview_getters @ KubeSelfSubjectRulesReview_functions @ KubeSelfSubjectRulesReview_methods)"

definition KubeSelfSubjectRulesReview_checks :: validators where
  "KubeSelfSubjectRulesReview_checks =
   [(''validateKubeSelfSubjectRulesReview_IsApiObjectParameters'', [NotNil ''o'']),
    (''validateKubeSelfSubjectRulesReview_IsConstructParameters'', [NotNil ''x'']),
    (''validateKubeSelfSubjectRulesReview_ManifestParameters'', [NotNil ''props'', ValidStruct ''props'']),
    (''validateKubeSelfSubjectRulesReview_OfParameters'', [NotNil ''c'']),
    (''validateNewKubeSelfSubjectRulesReviewParameters'', [NotNil ''scope'', NotNil ''id'', NotNil ''props'', ValidStruct ''props''])]"

definition KubeSelfSubjectRulesReview_no_checks :: validators where
  "KubeSelfSubjectRulesReview_no_checks =
   [(''validateKubeSelfSubjectRulesReview_IsApiObjectParameters'', []),
    (''validateKubeSelfSubjectRulesReview_IsConstructParameters'', []),
    (''validateKubeSelfSubjectRulesReview_ManifestParameters'', []),
    (''validateKubeSelfSubjectRulesReview_OfParameters'', []),
    (''validateNewKubeSelfSubjectRulesReviewParameters'', [])]"

lemma KubeSelfSubjectRulesReview_ok [class_checks]: "classOk (KubeSelfSubjectRulesReview, KubeSelfSubjectRulesReview_checks)"
  by (rule classRequired_I [where s = KubeSelfSubjectRulesReviewProps], simp only: table_members)
    (simp_all only: KubeSelfSubjectRulesReview_def KubeSelfSubjectRulesReview_getters_def KubeSelfSubjectRulesReview_functions_def
      KubeSelfSubjectRulesReview_methods_def KubeSelfSubjectRulesReview_checks_def KubeSelfSubjectRulesReviewProps_def class_eval)

lemma KubeSelfSubjectRulesReview_declared [class_interfaces]:
  "KubeSelfSubjectRulesReview_interface = apiObjectInterface ''KubeSelfSubjectRulesReview''"
  "KubeSelfSubjectRulesReview_no_checks = apiObjectNoChecks ''KubeSelfSubjectRulesReview''"
  by (simp_all only: KubeSelfSubjectRulesReview_interface_def KubeSelfSubjectRulesReview_no_checks_def declared_eval)

definition KubeService_interface :: interface where
  "KubeService_interface = Interface ''KubeService'' [''cdk8s.ApiObject'']
   [Sig ''ApiGroup'' [] (Some (GoPtr GoString)), Sig ''ApiVersion'' [] (Some (GoPtr GoString)),
    Sig ''Chart'' [] (Some (GoNamed ''cdk8s.Chart'')), Sig ''Kind'' [] (Some (GoPtr GoString)),
    Sig ''Metadata'' [] (Some (GoNamed ''cdk8s.ApiObjectMetadataDefinition'')),
    Sig ''Name'' [] (Some (GoPtr GoString)), Sig ''Node'' [] (Some (GoNamed ''constructs.Node'')),
    Sig ''AddDependency'' [Rest ''dependencies'' (GoNamed ''constructs.IConstruct'')] None,
    Sig ''AddJsonPatch'' [Rest ''ops'' (GoNamed ''cdk8s.JsonPatch'')] None,
    Sig ''ToJson'' [] (Some GoAny), Sig ''ToString'' [] (Some (GoPtr GoString))]"

definition KubeService_getters :: "gofun list" where
  "KubeService_getters =
   [Method (Sig ''ApiGroup'' [] (Some (GoPtr GoString))) (Getter ''apiGroup''),
    Method (Sig ''ApiVersion'' [] (Some (GoPtr GoString))) (Getter ''apiVersion''),
    Method (Sig ''Chart'' [] (Some (GoNamed ''cdk8s.Chart''))) (Getter ''chart''),
    Method (Sig ''Kind'' [] (Some (GoPtr GoString))) (Getter ''kind''),
    Method (Sig ''Metadata'' [] (Some (GoNamed ''cdk8s.ApiObjectMetadataDefinition'')))
      (Getter ''metadata''),
    Method (Sig ''Name'' [] (Some (GoPtr GoString))) (Getter ''name''),
    Method (Sig ''Node'' [] (Some (GoNamed ''constructs.Node''))) (Getter ''node'')]"

definition KubeService_functions :: "gofun list" where
  "KubeService_functions =
   [Func (Sig ''NewKubeService'' [
         Param ''scope'' (GoNamed ''constructs.Construct''), Param ''id'' (GoPtr GoString),
         Param ''props'' (GoPtr (GoNamed ''KubeServiceProps''))] (Some (GoNamed ''KubeService'')))
      (Construct ''k8s.KubeService'' [''scope'', ''id'', ''props''] ''validateNewKubeServiceParameters''),
    Func (Sig ''NewKubeService_Override'' [
         Param ''k'' (GoNamed ''KubeService''), Param ''scope'' (GoNamed ''constructs.Construct''),
         Param ''id'' (GoPtr GoString), Param ''props'' (GoPtr (GoNamed ''KubeServiceProps''))] None)
      (ConstructOverride ''k8s.KubeService'' [''scope'', ''id'', ''props'']),
    Func (Sig ''KubeService_IsApiObject'' [Param ''o'' GoAny] (Some (GoPtr GoBool)))
      (StaticCall ''k8s.KubeService'' ''isApiObject'' [''o''] ''validateKubeService_IsApiObjectParameters''),
    Func (Sig ''KubeService_IsConstruct'' [Param ''x'' GoAny] (Some (GoPtr GoBool)))
      (StaticCall ''k8s.KubeService'' ''isConstruct'' [''x''] ''validateKubeService_IsConstructParameters''),
    Func (Sig ''KubeService_Manifest'' [Param ''props'' (GoPtr (GoNamed ''KubeServiceProps''))] (Some GoAny))
      (StaticCall ''k8s.KubeService'' ''manifest'' [''props''] ''validateKubeService_ManifestParameters''),
    Func (Sig ''KubeService_Of'' [Param ''c'' (GoNamed ''constructs.IConstruct'')] (Some (GoNamed ''cdk8s.ApiObject'')))
      (StaticCall ''k8s.KubeService'' ''of'' [''c''] ''validateKubeService_OfParameters''),
    Func (Sig ''KubeService_GVK'' [] (Some (GoPtr (GoNamed ''cdk8s.GroupVersionKind''))))
      (StaticProp ''k8s.KubeService'' ''GVK'')]"

definition KubeService_methods :: "gofun list" where
  "KubeService_methods =
   [Method (Sig ''AddDependency'' [Rest ''dependencies'' (GoNamed ''constructs.IConstruct'')] None)
      (Variadic ''addDependency''),
    Method (Sig ''AddJsonPatch'' [Rest ''ops'' (GoNamed ''cdk8s.JsonPatch'')] None)
      (Variadic ''addJsonPatch''),
    Method (Sig ''ToJson'' [] (Some GoAny)) (Plain ''toJson''),
    Method (Sig ''ToString'' [] (Some (GoPtr GoString))) (Plain ''toString'')]"

definition KubeService :: binding where
  "KubeService = Binding ''KubeService'' [''internal.Type__cdk8sApiObject'']
     (KubeService_getters @ KubeService_functions @ KubeService_methods)"

definition KubeService_checks :: validators where
  "KubeService_checks =
   [(''validateKubeService_IsApiObjectParameters'', [NotNil ''o'']),
    (''validateKubeService_IsConstructParameters'', [NotNil ''x'']),
    (''validateKubeService_ManifestParameters'', [ValidStruct ''props'']),
    (''validateKubeService_OfParameters'', [NotNil ''c'']),
    (''validateNewKubeServiceParameters'', [NotNil ''scope'', NotNil ''id'', ValidStruct ''props''])]"

definition KubeService_no_checks :: validators where
  "KubeService_no_checks =
   [(''validateKubeService_IsApiObjectParameters'', []),
    (''validateKubeService_IsConstructParameters'', []),
    (''validateKubeService_ManifestParameters'', []), (''validateKubeService_OfParameters'', []),
    (''validateNewKubeServiceParameters'', [])]"

lemma KubeService_ok [class_checks]: "classOk (KubeService, KubeService_checks)"
  by (rule classOptional_I [where s = KubeServiceProps], simp only: table_members)
    (simp_all only: KubeService_def KubeService_getters_def KubeService_functions_def
      KubeService_methods_def KubeService_checks_def KubeServiceProps_def class_eval)

lemma KubeService_declared [class_interfaces]:
  "KubeService_interface = apiObjectInterface ''KubeService''"
  "KubeService_no_checks = apiObjectNoChecks ''KubeService''"
  by (simp_all only: KubeService_interface_def KubeService_no_checks_def declared_eval)

definition KubeServiceAccount_interface :: interface where
  "KubeServiceAccount_interface = Interface ''KubeServiceAccount'' [''cdk8s.ApiObject'']
   [Sig ''ApiGroup'' [] (Some (GoPtr GoString)), Sig ''ApiVersion'' [] (Some (GoPtr GoString)),
    Sig ''Chart'' [] (Some (GoNamed ''cdk8s.Chart'')), Sig ''Kind'' [] (Some (GoPtr GoString)),
    Sig ''Metadata'' [] (Some (GoNamed ''cdk8s.ApiObjectMetadataDefinition'')),
    Sig ''Name'' [] (Some (GoPtr GoString)), Sig ''Node'' [] (Some (GoNamed ''constructs.Node'')),
    Sig ''AddDependency'' [Rest ''dependencies'' (GoNamed ''constructs.IConstruct'')] None,
    Sig ''AddJsonPatch'' [Rest ''ops'' (GoNamed ''cdk8s.JsonPatch'')] None,
    Sig ''ToJson'' [] (Some GoAny), Sig ''ToString'' [] (Some (GoPtr GoString))]"

definition KubeServiceAccount_getters :: "gofun list" where
  "KubeServiceAccount_getters =
   [Method (Sig ''ApiGroup'' [] (Some (GoPtr GoString))) (Getter ''apiGroup''),
    Method (Sig ''ApiVersion'' [] (Some (GoPtr GoString))) (Getter ''apiVersion''),
    Method (Sig ''Chart'' [] (Some (GoNamed ''cdk8s.Chart''))) (Getter ''chart''),
    Method (Sig ''Kind'' [] (Some (GoPtr GoString))) (Getter ''kind''),
    Method (Sig ''Metadata'' [] (Some (GoNamed ''cdk8s.ApiObjectMetadataDefinition'')))
      (Getter ''metadata''),
    Method (Sig ''Name'' [] (Some (GoPtr GoString))) (Getter ''name''),
    Method (Sig ''Node'' [] (Some (GoNamed ''constructs.Node''))) (Getter ''node'')]"

definition KubeServiceAccount_functions :: "gofun list" where
  "KubeServiceAccount_functions =
   [Func (Sig ''NewKubeServiceAccount'' [
         Param ''scope'' (GoNamed ''constructs.Construct''), Param ''id'' (GoPtr GoString),
         Param ''props'' (GoPtr (GoNamed ''KubeServiceAccountProps''))] (Some (GoNamed ''KubeServiceAccount'')))
      (Construct ''k8s.KubeServiceAccount'' [''scope'', ''id'', ''props''] ''validateNewKubeServiceAccountParameters''),
    Func (Sig ''NewKubeServiceAccount_Override'' [
         Param ''k'' (GoNamed ''KubeServiceAccount''),
         Param ''scope'' (GoNamed ''constructs.Construct''), Param ''id'' (GoPtr GoString),
         Param ''props'' (GoPtr (GoNamed ''KubeServiceAccountProps''))] None)
      (ConstructOverride ''k8s.KubeServiceAccount'' [''scope'', ''id'', ''props'']),
    Func (Sig ''KubeServiceAccount_IsApiObject'' [Param ''o'' GoAny] (Some (GoPtr GoBool)))
      (StaticCall ''k8s.KubeServiceAccount'' ''isApiObject'' [''o''] ''validateKubeServiceAccount_IsApiObjectParameters''),
    Func (Sig ''KubeServiceAccount_IsConstruct'' [Param ''x'' GoAny] (Some (GoPtr GoBool)))
      (StaticCall ''k8s.KubeServiceAccount'' ''isConstruct'' [''x''] ''validateKubeServiceAccount_IsConstructParameters''),
    Func (Sig ''KubeServiceAccount_Manifest'' [Param ''props'' (GoPtr (GoNamed ''KubeServiceAccountProps''))] (Some GoAny))
      (StaticCall ''k8s.KubeServiceAccount'' ''manifest'' [''props''] ''validateKubeServiceAccount_ManifestParameters''),
    Func (Sig ''KubeServiceAccount_Of'' [Param ''c'' (GoNamed ''constructs.IConstruct'')] (Some (GoNamed ''cdk8s.ApiObject'')))
      (StaticCall ''k8s.KubeServiceAccount'' ''of'' [''c''] ''validateKubeServiceAccount_OfParameters''),
    Func (Sig ''KubeServiceAccount_GVK'' [] (Some (GoPtr (GoNamed ''cdk8s.GroupVersionKind''))))
      (StaticProp ''k8s.KubeServiceAccount'' ''GVK'')]"

definition KubeServiceAccount_methods :: "gofun list" where
  "KubeServiceAccount_methods =
   [Method (Sig ''AddDependency'' [Rest ''dependencies'' (GoNamed ''constructs.IConstruct'')] None)
      (Variadic ''addDependency''),
    Method (Sig ''AddJsonPatch'' [Rest ''ops'' (GoNamed ''cdk8s.JsonPatch'')] None)
      (Variadic ''addJsonPatch''),
    Method (Sig ''ToJson'' [] (Some GoAny)) (Plain ''toJson''),
    Method (Sig ''ToString'' [] (Some (GoPtr GoString))) (Plain ''toString'')]"

definition KubeServiceAccount :: binding where
  "KubeServiceAccount = Binding ''KubeServiceAccount'' [''internal.Type__cdk8sApiObject'']
     (KubeServiceAccount_getters @ KubeServiceAccount_functions @ KubeServiceAccount_methods)"

definition KubeServiceAccount_checks :: validators where
  "KubeServiceAccount_checks =
   [(''validateKubeServiceAccount_IsApiObjectParameters'', [NotNil ''o'']),
    (''validateKubeServiceAccount_IsConstructParameters'', [NotNil ''x'']),
    (''validateKubeServiceAccount_ManifestParameters'', [ValidStruct ''props'']),
    (''validateKubeServiceAccount_OfParameters'', [NotNil ''c'']),
    (''validateNewKubeServiceAccountParameters'', [NotNil ''scope'', NotNil ''id'', ValidStruct ''props''])]"

definition KubeServiceAccount_no_checks :: validators where
  "KubeServiceAccount_no_checks =
   [(''validateKubeServiceAccount_IsApiObjectParameters'', []),
    (''validateKubeServiceAccount_IsConstructParameters'', []),
    (''validateKubeServiceAccount_ManifestParameters'', []),
    (''validateKubeServiceAccount_OfParameters'', []),
    (''validateNewKubeServiceAccountParameters'', [])]"

lemma KubeServiceAccount_ok [class_checks]: "classOk (KubeServiceAccount, KubeServiceAccount_checks)"
  by (rule classOptional_I [where s = KubeServiceAccountProps], simp only: table_members)
    (simp_all only: KubeServiceAccount_def KubeServiceAccount_getters_def KubeServiceAccount_functions_def
      KubeServiceAccount_methods_def KubeServiceAccount_checks_def KubeServiceAccountProps_def class_eval)

lemma KubeServiceAccount_declared [class_interfaces]:
  "KubeServiceAccount_interface = apiObjectInterface ''KubeServiceAccount''"
  "KubeServiceAccount_no_checks = apiObjectNoChecks ''KubeServiceAccount''"
  by (simp_all only: KubeServiceAccount_interface_def KubeServiceAccount_no_checks_def declared_eval)

definition KubeServiceAccountList_interface :: interface where
  "KubeServiceAccountList_interface = Interface ''KubeServiceAccountList'' [''cdk8s.ApiObject'']
   [Sig ''ApiGroup'' [] (Some (GoPtr GoString)), Sig ''ApiVersion'' [] (Some (GoPtr GoString)),
    Sig ''Chart'' [] (Some (GoNamed ''cdk8s.Chart'')), Sig ''Kind'' [] (Some (GoPtr GoString)),
    Sig ''Metadata'' [] (Some (GoNamed ''cdk8s.ApiObjectMetadataDefinition'')),
    Sig ''Name'' [] (Some (GoPtr GoString)), Sig ''Node'' [] (Some (GoNamed ''constructs.Node'')),
    Sig ''AddDependency'' [Rest ''dependencies'' (GoNamed ''constructs.IConstruct'')] None,
    Sig ''AddJsonPatch'' [Rest ''ops'' (GoNamed ''cdk8s.JsonPatch'')] None,
    Sig ''ToJson'' [] (Some GoAny), Sig ''ToString'' [] (Some (GoPtr GoString))]"

definition KubeServiceAccountList_getters :: "gofun list" where
  "KubeServiceAccountList_getters =
   [Method (Sig ''ApiGroup'' [] (Some (GoPtr GoString))) (Getter ''apiGroup''),
    Method (Sig ''ApiVersion'' [] (Some (GoPtr GoString))) (Getter ''apiVersion''),
    Method (Sig ''Chart'' [] (Some (GoNamed ''cdk8s.Chart''))) (Getter ''chart''),
    Method (Sig ''Kind'' [] (Some (GoPtr GoString))) (Getter ''kind''),
    Method (Sig ''Metadata'' [] (Some (GoNamed ''cdk8s.ApiObjectMetadataDefinition'')))
      (Getter ''metadata''),
    Method (Sig ''Name'' [] (Some (GoPtr GoString))) (Getter ''name''),
    Method (Sig ''Node'' [] (Some (GoNamed ''constructs.Node''))) (Getter ''node'')]"

definition KubeServiceAccountList_functions :: "gofun list" where
  "KubeServiceAccountList_functions =
   [Func (Sig ''NewKubeServiceAccountList'' [
         Param ''scope'' (GoNamed ''constructs.Construct''), Param ''id'' (GoPtr GoString),
         Param ''props'' (GoPtr (GoNamed ''KubeServiceAccountListProps''))] (Some (GoNamed ''KubeServiceAccountList'')))
      (Construct ''k8s.KubeServiceAccountList'' [''scope'', ''id'', ''props''] ''validateNewKubeServiceAccountListParameters''),
    Func (Sig ''NewKubeServiceAccountList_Override'' [
         Param ''k'' (GoNamed ''KubeServiceAccountList''),
         Param ''scope'' (GoNamed ''constructs.Construct''), Param ''id'' (GoPtr GoString),
         Param ''props'' (GoPtr (GoNamed ''KubeServiceAccountListProps''))] None)
      (ConstructOverride ''k8s.KubeServiceAccountList'' [''scope'', ''id'', ''props'']),
    Func (Sig ''KubeServiceAccountList_IsApiObject'' [Param ''o'' GoAny] (Some (GoPtr GoBool)))
      (StaticCall ''k8s.KubeServiceAccountList'' ''isApiObject'' [''o''] ''validateKubeServiceAccountList_IsApiObjectParameters''),
    Func (Sig ''KubeServiceAccountList_IsConstruct'' [Param ''x'' GoAny] (Some (GoPtr GoBool)))
      (StaticCall ''k8s.KubeServiceAccountList'' ''isConstruct'' [''x''] ''validateKubeServiceAccountList_IsConstructParameters''),
    Func (Sig ''KubeServiceAccountList_Manifest'' [Param ''props'' (GoPtr (GoNamed ''KubeServiceAccountListProps''))] (Some GoAny))
      (StaticCall ''k8s.KubeServiceAccountList'' ''manifest'' [''props''] ''validateKubeServiceAccountList_ManifestParameters''),
    Func (Sig ''KubeServiceAccountList_Of'' [Param ''c'' (GoNamed ''constructs.IConstruct'')] (Some (GoNamed ''cdk8s.ApiObject'')))
      (StaticCall ''k8s.KubeServiceAccountList'' ''of'' [''c''] ''validateKubeServiceAccountList_OfParameters''),
    Func (Sig ''KubeServiceAccountList_GVK'' [] (Some (GoPtr (GoNamed ''cdk8s.GroupVersionKind''))))
      (StaticProp ''k8s.KubeServiceAccountList'' ''GVK'')]"

definition KubeServiceAccountList_methods :: "gofun list" where
  "KubeServiceAccountList_methods =
   [Method (Sig ''AddDependency'' [Rest ''dependencies'' (GoNamed ''constructs.IConstruct'')] None)
      (Variadic ''addDependency''),
    Method (Sig ''AddJsonPatch'' [Rest ''ops'' (GoNamed ''cdk8s.JsonPatch'')] None)
      (Variadic ''addJsonPatch''),
    Method (Sig ''ToJson'' [] (Some GoAny)) (Plain ''toJson''),
    Method (Sig ''ToString'' [] (Some (GoPtr GoString))) (Plain ''toString'')]"

definition KubeServiceAccountList :: binding where
  "KubeServiceAccountList = Binding ''KubeServiceAccountList'' [''internal.Type__cdk8sApiObject'']
     (KubeServiceAccountList_getters @ KubeServiceAccountList_functions @ KubeServiceAccountList_methods)"

definition KubeServiceAccountList_checks :: validators where
  "KubeServiceAccountList_checks =
   [(''validateKubeServiceAccountList_IsApiObjectParameters'', [NotNil ''o'']),
    (''validateKubeServiceAccountList_IsConstructParameters'', [NotNil ''x'']),
    (''validateKubeServiceAccountList_ManifestParameters'', [NotNil ''props'', ValidStruct ''props'']),
    (''validateKubeServiceAccountList_OfParameters'', [NotNil ''c'']),
    (''validateNewKubeServiceAccountListParameters'', [NotNil ''scope'', NotNil ''id'', NotNil ''props'', ValidStruct ''props''])]"

definition KubeServiceAccountList_no_checks :: validators where
  "KubeServiceAccountList_no_checks =
   [(''validateKubeServiceAccountList_IsApiObjectParameters'', []),
    (''validateKubeServiceAccountList_IsConstructParameters'', []),
    (''validateKubeServiceAccountList_ManifestParameters'', []),
    (''validateKubeServiceAccountList_OfParameters'', []),
    (''validateNewKubeServiceAccountListParameters'', [])]"

lemma KubeServiceAccountList_ok [class_checks]: "classOk (KubeServiceAccountList, KubeServiceAccountList_checks)"
  by (rule classRequired_I [where s = KubeServiceAccountListProps], simp only: table_members)
    (simp_all only: KubeServiceAccountList_def KubeServiceAccountList_getters_def KubeServiceAccountList_functions_def
      KubeServiceAccountList_methods_def KubeServiceAccountList_checks_def KubeServiceAccountListProps_def class_eval)

lemma KubeServiceAccountList_declared [class_interfaces]:
  "KubeServiceAccountList_interface = apiObjectInterface ''KubeServiceAccountList''"
  "KubeServiceAccountList_no_checks = apiObjectNoChecks ''KubeServiceAccountList''"
  by (simp_all only: KubeServiceAccountList_interface_def KubeServiceAccountList_no_checks_def declared_eval)

definition KubeServiceList_interface :: interface where
  "KubeServiceList_interface = Interface ''KubeServiceList'' [''cdk8s.ApiObject'']
   [Sig ''ApiGroup'' [] (Some (GoPtr GoString)), Sig ''ApiVersion'' [] (Some (GoPtr GoString)),
    Sig ''Chart'' [] (Some (GoNamed ''cdk8s.Chart'')), Sig ''Kind'' [] (Some (GoPtr GoString)),
    Sig ''Metadata'' [] (Some (GoNamed ''cdk8s.ApiObjectMetadataDefinition'')),
    Sig ''Name'' [] (Some (GoPtr GoString)), Sig ''Node'' [] (Some (GoNamed ''constructs.Node'')),
    Sig ''AddDependency'' [Rest ''dependencies'' (GoNamed ''constructs.IConstruct'')] None,
    Sig ''AddJsonPatch'' [Rest ''ops'' (GoNamed ''cdk8s.JsonPatch'')] None,
    Sig ''ToJson'' [] (Some GoAny), Sig ''ToString'' [] (Some (GoPtr GoString))]"

definition KubeServiceList_getters :: "gofun list" where
  "KubeServiceList_getters =
   [Method (Sig ''ApiGroup'' [] (Some (GoPtr GoString))) (Getter ''apiGroup''),
    Method (Sig ''ApiVersion'' [] (Some (GoPtr GoString))) (Getter ''apiVersion''),
    Method (Sig ''Chart'' [] (Some (GoNamed ''cdk8s.Chart''))) (Getter ''chart''),
    Method (Sig ''Kind'' [] (Some (GoPtr GoString))) (Getter ''kind''),
    Method (Sig ''Metadata'' [] (Some (GoNamed ''cdk8s.ApiObjectMetadataDefinition'')))
      (Getter ''metadata''),
    Method (Sig ''Name'' [] (Some (GoPtr GoString))) (Getter ''name''),
    Method (Sig ''Node'' [] (Some (GoNamed ''constructs.Node''))) (Getter ''node'')]"

definition KubeServiceList_functions :: "gofun list" where
  "KubeServiceList_functions =
   [Func (Sig ''NewKubeServiceList'' [
         Param ''scope'' (GoNamed ''constructs.Construct''), Param ''id'' (GoPtr GoString),
         Param ''props'' (GoPtr (GoNamed ''KubeServiceListProps''))] (Some (GoNamed ''KubeServiceList'')))
      (Construct ''k8s.KubeServiceList'' [''scope'', ''id'', ''props''] ''validateNewKubeServiceListParameters''),
    Func (Sig ''NewKubeServiceList_Override'' [
         Param ''k'' (GoNamed ''KubeServiceList''), Param ''scope'' (GoNamed ''constructs.Construct''),
         Param ''id'' (GoPtr GoString), Param ''props'' (GoPtr (GoNamed ''KubeServiceListProps''))] None)
      (ConstructOverride ''k8s.KubeServiceList'' [''scope'', ''id'', ''props'']),
    Func (Sig ''KubeServiceList_IsApiObject'' [Param ''o'' GoAny] (Some (GoPtr GoBool)))
      (StaticCall ''k8s.KubeServiceList'' ''isApiObject'' [''o''] ''validateKubeServiceList_IsApiObjectParameters''),
    Func (Sig ''KubeServiceList_IsConstruct'' [Param ''x'' GoAny] (Some (GoPtr GoBool)))
      (StaticCall ''k8s.KubeServiceList'' ''isConstruct'' [''x''] ''validateKubeServiceList_IsConstructParameters''),
    Func (Sig ''KubeServiceList_Manifest'' [Param ''props'' (GoPtr (GoNamed ''KubeServiceListProps''))] (Some GoAny))
      (StaticCall ''k8s.KubeServiceList'' ''manifest'' [''props''] ''validateKubeServiceList_ManifestParameters''),
    Func (Sig ''KubeServiceList_Of'' [Param ''c'' (GoNamed ''constructs.IConstruct'')] (Some (GoNamed ''cdk8s.ApiObject'')))
      (StaticCall ''k8s.KubeServiceList'' ''of'' [''c''] ''validateKubeServiceList_OfParameters''),
    Func (Sig ''KubeServiceList_GVK'' [] (Some (GoPtr (GoNamed ''cdk8s.GroupVersionKind''))))
      (StaticProp ''k8s.KubeServiceList'' ''GVK'')]"

definition KubeServiceList_methods :: "gofun list" where
  "KubeServiceList_methods =
   [Method (Sig ''AddDependency'' [Rest ''dependencies'' (GoNamed ''constructs.IConstruct'')] None)
      (Variadic ''addDependency''),
    Method (Sig ''AddJsonPatch'' [Rest ''ops'' (GoNamed ''cdk8s.JsonPatch'')] None)
      (Variadic ''addJsonPatch''),
    Method (Sig ''ToJson'' [] (Some GoAny)) (Plain ''toJson''),
    Method (Sig ''ToString'' [] (Some (GoPtr GoString))) (Plain ''toString'')]"

definition KubeServiceList :: binding where
  "KubeServiceList = Binding ''KubeServiceList'' [''internal.Type__cdk8sApiObject'']
     (KubeServiceList_getters @ KubeServiceList_functions @ KubeServiceList_methods)"

definition KubeServiceList_checks :: validators where
  "KubeServiceList_checks =
   [(''validateKubeServiceList_IsApiObjectParameters'', [NotNil ''o'']),
    (''validateKubeServiceList_IsConstructParameters'', [NotNil ''x'']),
    (''validateKubeServiceList_ManifestParameters'', [NotNil ''props'', ValidStruct ''props'']),
    (''validateKubeServiceList_OfParameters'', [NotNil ''c'']),
    (''validateNewKubeServiceListParameters'', [NotNil ''scope'', NotNil ''id'', NotNil ''props'', ValidStruct ''props''])]"

definition KubeServiceList_no_checks :: validators where
  "KubeServiceList_no_checks =
   [(''validateKubeServiceList_IsApiObjectParameters'', []),
    (''validateKubeServiceList_IsConstructParameters'', []),
    (''validateKubeServiceList_ManifestParameters'', []),
    (''validateKubeServiceList_OfParameters'', []), (''validateNewKubeServiceListParameters'', [])]"

lemma KubeServiceList_ok [class_checks]: "classOk (KubeServiceList, KubeServiceList_checks)"
  by (rule classRequired_I [where s = KubeServiceListProps], simp only: table_members)
    (simp_all only: KubeServiceList_def KubeServiceList_getters_def KubeServiceList_functions_def
      KubeServiceList_methods_def KubeServiceList_checks_def KubeServiceListProps_def class_eval)

lemma KubeServiceList_declared [class_interfaces]:
  "KubeServiceList_interface = apiObjectInterface ''KubeServiceList''"
  "KubeServiceList_no_checks = apiObjectNoChecks ''KubeServiceList''"
  by (simp_all only: KubeServiceList_interface_def KubeServiceList_no_checks_def declared_eval)

definition KubeStatefulSet_interface :: interface where
  "KubeStatefulSet_interface = Interface ''KubeStatefulSet'' [''cdk8s.ApiObject'']
   [Sig ''ApiGroup'' [] (Some (GoPtr GoString)), Sig ''ApiVersion'' [] (Some (GoPtr GoString)),
    Sig ''Chart'' [] (Some (GoNamed ''cdk8s.Chart'')), Sig ''Kind'' [] (Some (GoPtr GoString)),
    Sig ''Metadata'' [] (Some (GoNamed ''cdk8s.ApiObjectMetadataDefinition'')),
    Sig ''Name'' [] (Some (GoPtr GoString)), Sig ''Node'' [] (Some (GoNamed ''constructs.Node'')),
    Sig ''AddDependency'' [Rest ''dependencies'' (GoNamed ''constructs.IConstruct'')] None,
    Sig ''AddJsonPatch'' [Rest ''ops'' (GoNamed ''cdk8s.JsonPatch'')] None,
    Sig ''ToJson'' [] (Some GoAny), Sig ''ToString'' [] (Some (GoPtr GoString))]"

definition KubeStatefulSet_getters :: "gofun list" where
  "KubeStatefulSet_getters =
   [Method (Sig ''ApiGroup'' [] (Some (GoPtr GoString))) (Getter ''apiGroup''),
    Method (Sig ''ApiVersion'' [] (Some (GoPtr GoString))) (Getter ''apiVersion''),
    Method (Sig ''Chart'' [] (Some (GoNamed ''cdk8s.Chart''))) (Getter ''chart''),
    Method (Sig ''Kind'' [] (Some (GoPtr GoString))) (Getter ''kind''),
    Method (Sig ''Metadata'' [] (Some (GoNamed ''cdk8s.ApiObjectMetadataDefinition'')))
      (Getter ''metadata''),
    Method (Sig ''Name'' [] (Some (GoPtr GoString))) (Getter ''name''),
    Method (Sig ''Node'' [] (Some (GoNamed ''constructs.Node''))) (Getter ''node'')]"

definition KubeStatefulSet_functions :: "gofun list" where
  "KubeStatefulSet_functions =
   [Func (Sig ''NewKubeStatefulSet'' [
         Param ''scope'' (GoNamed ''constructs.Construct''), Param ''id'' (GoPtr GoString),
         Param ''props'' (GoPtr (GoNamed ''KubeStatefulSetProps''))] (Some (GoNamed ''KubeStatefulSet'')))
      (Construct ''k8s.KubeStatefulSet'' [''scope'', ''id'', ''props''] ''validateNewKubeStatefulSetParameters''),
    Func (Sig ''NewKubeStatefulSet_Override'' [
         Param ''k'' (GoNamed ''KubeStatefulSet''), Param ''scope'' (GoNamed ''constructs.Construct''),
         Param ''id'' (GoPtr GoString), Param ''props'' (GoPtr (GoNamed ''KubeStatefulSetProps''))] None)
      (ConstructOverride ''k8s.KubeStatefulSet'' [''scope'', ''id'', ''props'']),
    Func (Sig ''KubeStatefulSet_IsApiObject'' [Param ''o'' GoAny] (Some (GoPtr GoBool)))
      (StaticCall ''k8s.KubeStatefulSet'' ''isApiObject'' [''o''] ''validateKubeStatefulSet_IsApiObjectParameters''),
    Func (Sig ''KubeStatefulSet_IsConstruct'' [Param ''x'' GoAny] (Some (GoPtr GoBool)))
      (StaticCall ''k8s.KubeStatefulSet'' ''isConstruct'' [''x''] ''validateKubeStatefulSet_IsConstructParameters''),
    Func (Sig ''KubeStatefulSet_Manifest'' [Param ''props'' (GoPtr (GoNamed ''KubeStatefulSetProps''))] (Some GoAny))
      (StaticCall ''k8s.KubeStatefulSet'' ''manifest'' [''props''] ''validateKubeStatefulSet_ManifestParameters''),
    Func (Sig ''KubeStatefulSet_Of'' [Param ''c'' (GoNamed ''constructs.IConstruct'')] (Some (GoNamed ''cdk8s.ApiObject'')))
      (StaticCall ''k8s.KubeStatefulSet'' ''of'' [''c''] ''validateKubeStatefulSet_OfParameters''),
    Func (Sig ''KubeStatefulSet_GVK'' [] (Some (GoPtr (GoNamed ''cdk8s.GroupVersionKind''))))
      (StaticProp ''k8s.KubeStatefulSet'' ''GVK'')]"

definition KubeStatefulSet_methods :: "gofun list" where
  "KubeStatefulSet_methods =
   [Method (Sig ''AddDependency'' [Rest ''dependencies'' (GoNamed ''constructs.IConstruct'')] None)
      (Variadic ''addDependency''),
    Method (Sig ''AddJsonPatch'' [Rest ''ops'' (GoNamed ''cdk8s.JsonPatch'')] None)
      (Variadic ''addJsonPatch''),
    Method (Sig ''ToJson'' [] (Some GoAny)) (Plain ''toJson''),
    Method (Sig ''ToString'' [] (Some (GoPtr GoString))) (Plain ''toString'')]"

definition KubeStatefulSet :: binding where
  "KubeStatefulSet = Binding ''KubeStatefulSet'' [''internal.Type__cdk8sApiObject'']
     (KubeStatefulSet_getters @ KubeStatefulSet_functions @ KubeStatefulSet_methods)"

definition KubeStatefulSet_checks :: validators where
  "KubeStatefulSet_checks =
   [(''validateKubeStatefulSet_IsApiObjectParameters'', [NotNil ''o'']),
    (''validateKubeStatefulSet_IsConstructParameters'', [NotNil ''x'']),
    (''validateKubeStatefulSet_ManifestParameters'', [ValidStruct ''props'']),
    (''validateKubeStatefulSet_OfParameters'', [NotNil ''c'']),
    (''validateNewKubeStatefulSetParameters'', [NotNil ''scope'', NotNil ''id'', ValidStruct ''props''])]"

definition KubeStatefulSet_no_checks :: validators where
  "KubeStatefulSet_no_checks =
   [(''validateKubeStatefulSet_IsApiObjectParameters'', []),
    (''validateKubeStatefulSet_IsConstructParameters'', []),
    (''validateKubeStatefulSet_ManifestParameters'', []),
    (''validateKubeStatefulSet_OfParameters'', []), (''validateNewKubeStatefulSetParameters'', [])]"

lemma KubeStatefulSet_ok [class_checks]: "classOk (KubeStatefulSet, KubeStatefulSet_checks)"
  by (rule classOptional_I [where s = KubeStatefulSetProps], simp only: table_members)
    (simp_all only: KubeStatefulSet_def KubeStatefulSet_getters_def KubeStatefulSet_functions_def
      KubeStatefulSet_methods_def KubeStatefulSet_checks_def KubeStatefulSetProps_def class_eval)

lemma KubeStatefulSet_declared [class_interfaces]:
  "KubeStatefulSet_interface = apiObjectInterface ''KubeStatefulSet''"
  "KubeStatefulSet_no_checks = apiObjectNoChecks ''KubeStatefulSet''"
  by (simp_all only: KubeStatefulSet_interface_def KubeStatefulSet_no_checks_def declared_eval)

definition KubeStatefulSetList_interface :: interface where
  "KubeStatefulSetList_interface = Interface ''KubeStatefulSetList'' [''cdk8s.ApiObject'']
   [Sig ''ApiGroup'' [] (Some (GoPtr GoString)), Sig ''ApiVersion'' [] (Some (GoPtr GoString)),
    Sig ''Chart'' [] (Some (GoNamed ''cdk8s.Chart'')), Sig ''Kind'' [] (Some (GoPtr GoString)),
    Sig ''Metadata'' [] (Some (GoNamed ''cdk8s.ApiObjectMetadataDefinition'')),
    Sig ''Name'' [] (Some (GoPtr GoString)), Sig ''Node'' [] (Some (GoNamed ''constructs.Node'')),
    Sig ''AddDependency'' [Rest ''dependencies'' (GoNamed ''constructs.IConstruct'')] None,
    Sig ''AddJsonPatch'' [Rest ''ops'' (GoNamed ''cdk8s.JsonPatch'')] None,
    Sig ''ToJson'' [] (Some GoAny), Sig ''ToString'' [] (Some (GoPtr GoString))]"

definition KubeStatefulSetList_getters :: "gofun list" where
  "KubeStatefulSetList_getters =
   [Method (Sig ''ApiGroup'' [] (Some (GoPtr GoString))) (Getter ''apiGroup''),
    Method (Sig ''ApiVersion'' [] (Some (GoPtr GoString))) (Getter ''apiVersion''),
    Method (Sig ''Chart'' [] (Some (GoNamed ''cdk8s.Chart''))) (Getter ''chart''),
    Method (Sig ''Kind'' [] (Some (GoPtr GoString))) (Getter ''kind''),
    Method (Sig ''Metadata'' [] (Some (GoNamed ''cdk8s.ApiObjectMetadataDefinition'')))
      (Getter ''metadata''),
    Method (Sig ''Name'' [] (Some (GoPtr GoString))) (Getter ''name''),
    Method (Sig ''Node'' [] (Some (GoNamed ''constructs.Node''))) (Getter ''node'')]"

definition KubeStatefulSetList_functions :: "gofun list" where
  "KubeStatefulSetList_functions =
   [Func (Sig ''NewKubeStatefulSetList'' [
         Param ''scope'' (GoNamed ''constructs.Construct''), Param ''id'' (GoPtr GoString),
         Param ''props'' (GoPtr (GoNamed ''KubeStatefulSetListProps''))] (Some (GoNamed ''KubeStatefulSetList'')))
      (Construct ''k8s.KubeStatefulSetList'' [''scope'', ''id'', ''props''] ''validateNewKubeStatefulSetListParameters''),
    Func (Sig ''NewKubeStatefulSetList_Override'' [
         Param ''k'' (GoNamed ''KubeStatefulSetList''),
         Param ''scope'' (GoNamed ''constructs.Construct''), Param ''id'' (GoPtr GoString),
         Param ''props'' (GoPtr (GoNamed ''KubeStatefulSetListProps''))] None)
      (ConstructOverride ''k8s.KubeStatefulSetList'' [''scope'', ''id'', ''props'']),
    Func (Sig ''KubeStatefulSetList_IsApiObject'' [Param ''o'' GoAny] (Some (GoPtr GoBool)))
      (StaticCall ''k8s.KubeStatefulSetList'' ''isApiObject'' [''o''] ''validateKubeStatefulSetList_IsApiObjectParameters''),
    Func (Sig ''KubeStatefulSetList_IsConstruct'' [Param ''x'' GoAny] (Some (GoPtr GoBool)))
      (StaticCall ''k8s.KubeStatefulSetList'' ''isConstruct'' [''x''] ''validateKubeStatefulSetList_IsConstructParameters''),
    Func (Sig ''KubeStatefulSetList_Manifest'' [Param ''props'' (GoPtr (GoNamed ''KubeStatefulSetListProps''))] (Some GoAny))
      (StaticCall ''k8s.KubeStatefulSetList'' ''manifest'' [''props''] ''validateKubeStatefulSetList_ManifestParameters''),
    Func (Sig ''KubeStatefulSetList_Of'' [Param ''c'' (GoNamed ''constructs.IConstruct'')] (Some (GoNamed ''cdk8s.ApiObject'')))
      (StaticCall ''k8s.KubeStatefulSetList'' ''of'' [''c''] ''validateKubeStatefulSetList_OfParameters''),
    Func (Sig ''KubeStatefulSetList_GVK'' [] (Some (GoPtr (GoNamed ''cdk8s.GroupVersionKind''))))
      (StaticProp ''k8s.KubeStatefulSetList'' ''GVK'')]"

definition KubeStatefulSetList_methods :: "gofun list" where
  "KubeStatefulSetList_methods =
   [Method (Sig ''AddDependency'' [Rest ''dependencies'' (GoNamed ''constructs.IConstruct'')] None)
      (Variadic ''addDependency''),
    Method (Sig ''AddJsonPatch'' [Rest ''ops'' (GoNamed ''cdk8s.JsonPatch'')] None)
      (Variadic ''addJsonPatch''),
    Method (Sig ''ToJson'' [] (Some GoAny)) (Plain ''toJson''),
    Method (Sig ''ToString'' [] (Some (GoPtr GoString))) (Plain ''toString'')]"

definition KubeStatefulSetList :: binding where
  "KubeStatefulSetList = Binding ''KubeStatefulSetList'' [''internal.Type__cdk8sApiObject'']
     (KubeStatefulSetList_getters @ KubeStatefulSetList_functions @ KubeStatefulSetList_methods)"

definition KubeStatefulSetList_checks :: validators where
  "KubeStatefulSetList_checks =
   [(''validateKubeStatefulSetList_IsApiObjectParameters'', [NotNil ''o'']),
    (''validateKubeStatefulSetList_IsConstructParameters'', [NotNil ''x'']),
    (''validateKubeStatefulSetList_ManifestParameters'', [NotNil ''props'', ValidStruct ''props'']),
    (''validateKubeStatefulSetList_OfParameters'', [NotNil ''c'']),
    (''validateNewKubeStatefulSetListParameters'', [NotNil ''scope'', NotNil ''id'', NotNil ''props'', ValidStruct ''props''])]"

definition KubeStatefulSetList_no_checks :: validators where
  "KubeStatefulSetList_no_checks =
   [(''validateKubeStatefulSetList_IsApiObjectParameters'', []),
    (''validateKubeStatefulSetList_IsConstructParameters'', []),
    (''validateKubeStatefulSetList_ManifestParameters'', []),
    (''validateKubeStatefulSetList_OfParameters'', []),
    (''validateNewKubeStatefulSetListParameters'', [])]"

lemma KubeStatefulSetList_ok [class_checks]: "classOk (KubeStatefulSetList, KubeStatefulSetList_checks)"
  by (rule classRequired_I [where s = KubeStatefulSetListProps], simp only: table_members)
    (simp_all only: KubeStatefulSetList_def KubeStatefulSetList_getters_def KubeStatefulSetList_functions_def
      KubeStatefulSetList_methods_def KubeStatefulSetList_checks_def KubeStatefulSetListProps_def class_eval)

lemma KubeStatefulSetList_declared [class_interfaces]:
  "KubeStatefulSetList_interface = apiObjectInterface ''KubeStatefulSetList''"
  "KubeStatefulSetList_no_checks = apiObjectNoChecks ''KubeStatefulSetList''"
  by (simp_all only: KubeStatefulSetList_interface_def KubeStatefulSetList_no_checks_def declared_eval)

definition KubeStatus_interface :: interface where
  "KubeStatus_interface = Interface ''KubeStatus'' [''cdk8s.ApiObject'']
   [Sig ''ApiGroup'' [] (Some (GoPtr GoString)), Sig ''ApiVersion'' [] (Some (GoPtr GoString)),
    Sig ''Chart'' [] (Some (GoNamed ''cdk8s.Chart'')), Sig ''Kind'' [] (Some (GoPtr GoString)),
    Sig ''Metadata'' [] (Some (GoNamed ''cdk8s.ApiObjectMetadataDefinition'')),
    Sig ''Name'' [] (Some (GoPtr GoString)), Sig ''Node'' [] (Some (GoNamed ''constructs.Node'')),
    Sig ''AddDependency'' [Rest ''dependencies'' (GoNamed ''constructs.IConstruct'')] None,
    Sig ''AddJsonPatch'' [Rest ''ops'' (GoNamed ''cdk8s.JsonPatch'')] None,
    Sig ''ToJson'' [] (Some GoAny), Sig ''ToString'' [] (Some (GoPtr GoString))]"

definition KubeStatus_getters :: "gofun list" where
  "KubeStatus_getters =
   [Method (Sig ''ApiGroup'' [] (Some (GoPtr GoString))) (Getter ''apiGroup''),
    Method (Sig ''ApiVersion'' [] (Some (GoPtr GoString))) (Getter ''apiVersion''),
    Method (Sig ''Chart'' [] (Some (GoNamed ''cdk8s.Chart''))) (Getter ''chart''),
    Method (Sig ''Kind'' [] (Some (GoPtr GoString))) (Getter ''kind''),
    Method (Sig ''Metadata'' [] (Some (GoNamed ''cdk8s.ApiObjectMetadataDefinition'')))
      (Getter ''metadata''),
    Method (Sig ''Name'' [] (Some (GoPtr GoString))) (Getter ''name''),
    Method (Sig ''Node'' [] (Some (GoNamed ''constructs.Node''))) (Getter ''node'')]"

definition KubeStatus_functions :: "gofun list" where
  "KubeStatus_functions =
   [Func (Sig ''NewKubeStatus'' [
         Param ''scope'' (GoNamed ''constructs.Construct''), Param ''id'' (GoPtr GoString),
         Param ''props'' (GoPtr (GoNamed ''KubeStatusProps''))] (Some (GoNamed ''KubeStatus'')))
      (Construct ''k8s.KubeStatus'' [''scope'', ''id'', ''props''] ''validateNewKubeStatusParameters''),
    Func (Sig ''NewKubeStatus_Override'' [
         Param ''k'' (GoNamed ''KubeStatus''), Param ''scope'' (GoNamed ''constructs.Construct''),
         Param ''id'' (GoPtr GoString), Param ''props'' (GoPtr (GoNamed ''KubeStatusProps''))] None)
      (ConstructOverride ''k8s.KubeStatus'' [''scope'', ''id'', ''props'']),
    Func (Sig ''KubeStatus_IsApiObject'' [Param ''o'' GoAny] (Some (GoPtr GoBool)))
      (StaticCall ''k8s.KubeStatus'' ''isApiObject'' [''o''] ''validateKubeStatus_IsApiObjectParameters''),
    Func (Sig ''KubeStatus_IsConstruct'' [Param ''x'' GoAny] (Some (GoPtr GoBool)))
      (StaticCall ''k8s.KubeStatus'' ''isConstruct'' [''x''] ''validateKubeStatus_IsConstructParameters''),
    Func (Sig ''KubeStatus_Manifest'' [Param ''props'' (GoPtr (GoNamed ''KubeStatusProps''))] (Some GoAny))
      (StaticCall ''k8s.KubeStatus'' ''manifest'' [''props''] ''validateKubeStatus_ManifestParameters''),
    Func (Sig ''KubeStatus_Of'' [Param ''c'' (GoNamed ''constructs.IConstruct'')] (Some (GoNamed ''cdk8s.ApiObject'')))
      (StaticCall ''k8s.KubeStatus'' ''of'' [''c''] ''validateKubeStatus_OfParameters''),
    Func (Sig ''KubeStatus_GVK'' [] (Some (GoPtr (GoNamed ''cdk8s.GroupVersionKind''))))
      (StaticProp ''k8s.KubeStatus'' ''GVK'')]"

definition KubeStatus_methods :: "gofun list" where
  "KubeStatus_methods =
   [Method (Sig ''AddDependency'' [Rest ''dependencies'' (GoNamed ''constructs.IConstruct'')] None)
      (Variadic ''addDependency''),
    Method (Sig ''AddJsonPatch'' [Rest ''ops'' (GoNamed ''cdk8s.JsonPatch'')] None)
      (Variadic ''addJsonPatch''),
    Method (Sig ''ToJson'' [] (Some GoAny)) (Plain ''toJson''),
    Method (Sig ''ToString'' [] (Some (GoPtr GoString))) (Plain ''toString'')]"

definition KubeStatus :: binding where
  "KubeStatus = Binding ''KubeStatus'' [''internal.Type__cdk8sApiObject'']
     (KubeStatus_getters @ KubeStatus_functions @ KubeStatus_methods)"

definition KubeStatus_checks :: validators where
  "KubeStatus_checks =
   [(''validateKubeStatus_IsApiObjectParameters'', [NotNil ''o'']),
    (''validateKubeStatus_IsConstructParameters'', [NotNil ''x'']),
    (''validateKubeStatus_ManifestParameters'', [ValidStruct ''props'']),
    (''validateKubeStatus_OfParameters'', [NotNil ''c'']),
    (''validateNewKubeStatusParameters'', [NotNil ''scope'', NotNil ''id'', ValidStruct ''props''])]"

definition KubeStatus_no_checks :: validators where
  "KubeStatus_no_checks =
   [(''validateKubeStatus_IsApiObjectParameters'', []),
    (''validateKubeStatus_IsConstructParameters'', []),
    (''validateKubeStatus_ManifestParameters'', []), (''validateKubeStatus_OfParameters'', []),
    (''validateNewKubeStatusParameters'', [])]"

lemma KubeStatus_ok [class_checks]: "classOk (KubeStatus, KubeStatus_checks)"
  by (rule classOptional_I [where s = KubeStatusProps], simp only: table_members)
    (simp_all only: KubeStatus_def KubeStatus_getters_def KubeStatus_functions_def
      KubeStatus_methods_def KubeStatus_checks_def KubeStatusProps_def class_eval)

lemma KubeStatus_declared [class_interfaces]:
  "KubeStatus_interface = apiObjectInterface ''KubeStatus''"
  "KubeStatus_no_checks = apiObjectNoChecks ''KubeStatus''"
  by (simp_all only: KubeStatus_interface_def KubeStatus_no_checks_def declared_eval)

definition KubeStorageClass_interface :: interface where
  "KubeStorageClass_interface = Interface ''KubeStorageClass'' [''cdk8s.ApiObject'']
   [Sig ''ApiGroup'' [] (Some (GoPtr GoString)), Sig ''ApiVersion'' [] (Some (GoPtr GoString)),
    Sig ''Chart'' [] (Some (GoNamed ''cdk8s.Chart'')), Sig ''Kind'' [] (Some (GoPtr GoString)),
    Sig ''Metadata'' [] (Some (GoNamed ''cdk8s.ApiObjectMetadataDefinition'')),
    Sig ''Name'' [] (Some (GoPtr GoString)), Sig ''Node'' [] (Some (GoNamed ''constructs.Node'')),
    Sig ''AddDependency'' [Rest ''dependencies'' (GoNamed ''constructs.IConstruct'')] None,
    Sig ''AddJsonPatch'' [Rest ''ops'' (GoNamed ''cdk8s.JsonPatch'')] None,
    Sig ''ToJson'' [] (Some GoAny), Sig ''ToString'' [] (Some (GoPtr GoString))]"

definition KubeStorageClass_getters :: "gofun list" where
  "KubeStorageClass_getters =
   [Method (Sig ''ApiGroup'' [] (Some (GoPtr GoString))) (Getter ''apiGroup''),
    Method (Sig ''ApiVersion'' [] (Some (GoPtr GoString))) (Getter ''apiVersion''),
    Method (Sig ''Chart'' [] (Some (GoNamed ''cdk8s.Chart''))) (Getter ''chart''),
    Method (Sig ''Kind'' [] (Some (GoPtr GoString))) (Getter ''kind''),
    Method (Sig ''Metadata'' [] (Some (GoNamed ''cdk8s.ApiObjectMetadataDefinition'')))
      (Getter ''metadata''),
    Method (Sig ''Name'' [] (Some (GoPtr GoString))) (Getter ''name''),
    Method (Sig ''Node'' [] (Some (GoNamed ''constructs.Node''))) (Getter ''node'')]"

definition KubeStorageClass_functions :: "gofun list" where
  "KubeStorageClass_functions =
   [Func (Sig ''NewKubeStorageClass'' [
         Param ''scope'' (GoNamed ''constructs.Construct''), Param ''id'' (GoPtr GoString),
         Param ''props'' (GoPtr (GoNamed ''KubeStorageClassProps''))] (Some (GoNamed ''KubeStorageClass'')))
      (Construct ''k8s.KubeStorageClass'' [''scope'', ''id'', ''props''] ''validateNewKubeStorageClassParameters''),
    Func (Sig ''NewKubeStorageClass_Override'' [
         Param ''k'' (GoNamed ''KubeStorageClass''), Param ''scope'' (GoNamed ''constructs.Construct''),
         Param ''id'' (GoPtr GoString), Param ''props'' (GoPtr (GoNamed ''KubeStorageClassProps''))] None)
      (ConstructOverride ''k8s.KubeStorageClass'' [''scope'', ''id'', ''props'']),
    Func (Sig ''KubeStorageClass_IsApiObject'' [Param ''o'' GoAny] (Some (GoPtr GoBool)))
      (StaticCall ''k8s.KubeStorageClass'' ''isApiObject'' [''o''] ''validateKubeStorageClass_IsApiObjectParameters''),
    Func (Sig ''KubeStorageClass_IsConstruct'' [Param ''x'' GoAny] (Some (GoPtr GoBool)))
      (StaticCall ''k8s.KubeStorageClass'' ''isConstruct'' [''x''] ''validateKubeStorageClass_IsConstructParameters''),
    Func (Sig ''KubeStorageClass_Manifest'' [Param ''props'' (GoPtr (GoNamed ''KubeStorageClassProps''))] (Some GoAny))
      (StaticCall ''k8s.KubeStorageClass'' ''manifest'' [''props''] ''validateKubeStorageClass_ManifestParameters''),
    Func (Sig ''KubeStorageClass_Of'' [Param ''c'' (GoNamed ''constructs.IConstruct'')] (Some (GoNamed ''cdk8s.ApiObject'')))
      (StaticCall ''k8s.KubeStorageClass'' ''of'' [''c''] ''validateKubeStorageClass_OfParameters''),
    Func (Sig ''KubeStorageClass_GVK'' [] (Some (GoPtr (GoNamed ''cdk8s.GroupVersionKind''))))
      (StaticProp ''k8s.KubeStorageClass'' ''GVK'')]"

definition KubeStorageClass_methods :: "gofun list" where
  "KubeStorageClass_methods =
   [Method (Sig ''AddDependency'' [Rest ''dependencies'' (GoNamed ''constructs.IConstruct'')] None)
      (Variadic ''addDependency''),
    Method (Sig ''AddJsonPatch'' [Rest ''ops'' (GoNamed ''cdk8s.JsonPatch'')] None)
      (Variadic ''addJsonPatch''),
    Method (Sig ''ToJson'' [] (Some GoAny)) (Plain ''toJson''),
    Method (Sig ''ToString'' [] (Some (GoPtr GoString))) (Plain ''toString'')]"

definition KubeStorageClass :: binding where
  "KubeStorageClass = Binding ''KubeStorageClass'' [''internal.Type__cdk8sApiObject'']
     (KubeStorageClass_getters @ KubeStorageClass_functions @ KubeStorageClass_methods)"

definition KubeStorageClass_checks :: validators where
  "KubeStorageClass_checks =
   [(''validateKubeStorageClass_IsApiObjectParameters'', [NotNil ''o'']),
    (''validateKubeStorageClass_IsConstructParameters'', [NotNil ''x'']),
    (''validateKubeStorageClass_ManifestParameters'', [NotNil ''props'', ValidStruct ''props'']),
    (''validateKubeStorageClass_OfParameters'', [NotNil ''c'']),
    (''validateNewKubeStorageClassParameters'', [NotNil ''scope'', NotNil ''id'', NotNil ''props'', ValidStruct ''props''])]"

definition KubeStorageClass_no_checks :: validators where
  "KubeStorageClass_no_checks =
   [(''validateKubeStorageClass_IsApiObjectParameters'', []),
    (''validateKubeStorageClass_IsConstructParameters'', []),
    (''validateKubeStorageClass_ManifestParameters'', []),
    (''validateKubeStorageClass_OfParameters'', []), (''validateNewKubeStorageClassParameters'', [])]"

lemma KubeStorageClass_ok [class_checks]: "classOk (KubeStorageClass, KubeStorageClass_checks)"
  by (rule classRequired_I [where s = KubeStorageClassProps], simp only: table_members)
    (simp_all only: KubeStorageClass_def KubeStorageClass_getters_def KubeStorageClass_functions_def
      KubeStorageClass_methods_def KubeStorageClass_checks_def KubeStorageClassProps_def class_eval)

lemma KubeStorageClass_declared [class_interfaces]:
  "KubeStorageClass_interface = apiObjectInterface ''KubeStorageClass''"
  "KubeStorageClass_no_checks = apiObjectNoChecks ''KubeStorageClass''"
  by (simp_all only: KubeStorageClass_interface_def KubeStorageClass_no_checks_def declared_eval)

definition KubeStorageClassList_interface :: interface where
  "KubeStorageClassList_interface = Interface ''KubeStorageClassList'' [''cdk8s.ApiObject'']
   [Sig ''ApiGroup'' [] (Some (GoPtr GoString)), Sig ''ApiVersion'' [] (Some (GoPtr GoString)),
    Sig ''Chart'' [] (Some (GoNamed ''cdk8s.Chart'')), Sig ''Kind'' [] (Some (GoPtr GoString)),
    Sig ''Metadata'' [] (Some (GoNamed ''cdk8s.ApiObjectMetadataDefinition'')),
    Sig ''Name'' [] (Some (GoPtr GoString)), Sig ''Node'' [] (Some (GoNamed ''constructs.Node'')),
    Sig ''AddDependency'' [Rest ''dependencies'' (GoNamed ''constructs.IConstruct'')] None,
    Sig ''AddJsonPatch'' [Rest ''ops'' (GoNamed ''cdk8s.JsonPatch'')] None,
    Sig ''ToJson'' [] (Some GoAny), Sig ''ToString'' [] (Some (GoPtr GoString))]"

definition KubeStorageClassList_getters :: "gofun list" where
  "KubeStorageClassList_getters =
   [Method (Sig ''ApiGroup'' [] (Some (GoPtr GoString))) (Getter ''apiGroup''),
    Method (Sig ''ApiVersion'' [] (Some (GoPtr GoString))) (Getter ''apiVersion''),
    Method (Sig ''Chart'' [] (Some (GoNamed ''cdk8s.Chart''))) (Getter ''chart''),
    Method (Sig ''Kind'' [] (Some (GoPtr GoString))) (Getter ''kind''),
    Method (Sig ''Metadata'' [] (Some (GoNamed ''cdk8s.ApiObjectMetadataDefinition'')))
      (Getter ''metadata''),
    Method (Sig ''Name'' [] (Some (GoPtr GoString))) (Getter ''name''),
    Method (Sig ''Node'' [] (Some (GoNamed ''constructs.Node''))) (Getter ''node'')]"

definition KubeStorageClassList_functions :: "gofun list" where
  "KubeStorageClassList_functions =
   [Func (Sig ''NewKubeStorageClassList'' [
         Param ''scope'' (GoNamed ''constructs.Construct''), Param ''id'' (GoPtr GoString),
         Param ''props'' (GoPtr (GoNamed ''KubeStorageClassListProps''))] (Some (GoNamed ''KubeStorageClassList'')))
      (Construct ''k8s.KubeStorageClassList'' [''scope'', ''id'', ''props''] ''validateNewKubeStorageClassListParameters''),
    Func (Sig ''NewKubeStorageClassList_Override'' [
         Param ''k'' (GoNamed ''KubeStorageClassList''),
         Param ''scope'' (GoNamed ''constructs.Construct''), Param ''id'' (GoPtr GoString),
         Param ''props'' (GoPtr (GoNamed ''KubeStorageClassListProps''))] None)
      (ConstructOverride ''k8s.KubeStorageClassList'' [''scope'', ''id'', ''props'']),
    Func (Sig ''KubeStorageClassList_IsApiObject'' [Param ''o'' GoAny] (Some (GoPtr GoBool)))
      (StaticCall ''k8s.KubeStorageClassList'' ''isApiObject'' [''o''] ''validateKubeStorageClassList_IsApiObjectParameters''),
    Func (Sig ''KubeStorageClassList_IsConstruct'' [Param ''x'' GoAny] (Some (GoPtr GoBool)))
      (StaticCall ''k8s.KubeStorageClassList'' ''isConstruct'' [''x''] ''validateKubeStorageClassList_IsConstructParameters''),
    Func (Sig ''KubeStorageClassList_Manifest'' [Param ''props'' (GoPtr (GoNamed ''KubeStorageClassListProps''))] (Some GoAny))
      (StaticCall ''k8s.KubeStorageClassList'' ''manifest'' [''props''] ''validateKubeStorageClassList_ManifestParameters''),
    Func (Sig ''KubeStorageClassList_Of'' [Param ''c'' (GoNamed ''constructs.IConstruct'')] (Some (GoNamed ''cdk8s.ApiObject'')))
      (StaticCall ''k8s.KubeStorageClassList'' ''of'' [''c''] ''validateKubeStorageClassList_OfParameters''),
    Func (Sig ''KubeStorageClassList_GVK'' [] (Some (GoPtr (GoNamed ''cdk8s.GroupVersionKind''))))
      (StaticProp ''k8s.KubeStorageClassList'' ''GVK'')]"

definition KubeStorageClassList_methods :: "gofun list" where
  "KubeStorageClassList_methods =
   [Method (Sig ''AddDependency'' [Rest ''dependencies'' (GoNamed ''constructs.IConstruct'')] None)
      (Variadic ''addDependency''),
    Method (Sig ''AddJsonPatch'' [Rest ''ops'' (GoNamed ''cdk8s.JsonPatch'')] None)
      (Variadic ''addJsonPatch''),
    Method (Sig ''ToJson'' [] (Some GoAny)) (Plain ''toJson''),
    Method (Sig ''ToString'' [] (Some (GoPtr GoString))) (Plain ''toString'')]"

definition KubeStorageClassList :: binding where
  "KubeStorageClassList = Binding ''KubeStorageClassList'' [''internal.Type__cdk8sApiObject'']
     (KubeStorageClassList_getters @ KubeStorageClassList_functions @ KubeStorageClassList_methods)"

definition KubeStorageClassList_checks :: validators where
  "KubeStorageClassList_checks =
   [(''validateKubeStorageClassList_IsApiObjectParameters'', [NotNil ''o'']),
    (''validateKubeStorageClassList_IsConstructParameters'', [NotNil ''x'']),
    (''validateKubeStorageClassList_ManifestParameters'', [NotNil ''props'', ValidStruct ''props'']),
    (''validateKubeStorageClassList_OfParameters'', [NotNil ''c'']),
    (''validateNewKubeStorageClassListParameters'', [NotNil ''scope'', NotNil ''id'', NotNil ''props'', ValidStruct ''props''])]"

definition KubeStorageClassList_no_checks :: validators where
  "KubeStorageClassList_no_checks =
   [(''validateKubeStorageClassList_IsApiObjectParameters'', []),
    (''validateKubeStorageClassList_IsConstructParameters'', []),
    (''validateKubeStorageClassList_ManifestParameters'', []),
    (''validateKubeStorageClassList_OfParameters'', []),
    (''validateNewKubeStorageClassListParameters'', [])]"

lemma KubeStorageClassList_ok [class_checks]: "classOk (KubeStorageClassList, KubeStorageClassList_checks)"
  by (rule classRequired_I [where s = KubeStorageClassListProps], simp only: table_members)
    (simp_all only: KubeStorageClassList_def KubeStorageClassList_getters_def KubeStorageClassList_functions_def
      KubeStorageClassList_methods_def KubeStorageClassList_checks_def KubeStorageClassListProps_def class_eval)

lemma KubeStorageClassList_declared [class_interfaces]:
  "KubeStorageClassList_interface = apiObjectInterface ''KubeStorageClassList''"
  "KubeStorageClassList_no_checks = apiObjectNoChecks ''KubeStorageClassList''"
  by (simp_all only: KubeStorageClassList_interface_def KubeStorageClassList_no_checks_def declared_eval)

definition KubeStorageVersionListV1Alpha1_interface :: interface where
  "KubeStorageVersionListV1Alpha1_interface = Interface ''KubeStorageVersionListV1Alpha1'' [''cdk8s.ApiObject'']
   [Sig ''ApiGroup'' [] (Some (GoPtr GoString)), Sig ''ApiVersion'' [] (Some (GoPtr GoString)),
    Sig ''Chart'' [] (Some (GoNamed ''cdk8s.Chart'')), Sig ''Kind'' [] (Some (GoPtr GoString)),
    Sig ''Metadata'' [] (Some (GoNamed ''cdk8s.ApiObjectMetadataDefinition'')),
    Sig ''Name'' [] (Some (GoPtr GoString)), Sig ''Node'' [] (Some (GoNamed ''constructs.Node'')),
    Sig ''AddDependency'' [Rest ''dependencies'' (GoNamed ''constructs.IConstruct'')] None,
    Sig ''AddJsonPatch'' [Rest ''ops'' (GoNamed ''cdk8s.JsonPatch'')] None,
    Sig ''ToJson'' [] (Some GoAny), Sig ''ToString'' [] (Some (GoPtr GoString))]"

definition KubeStorageVersionListV1Alpha1_getters :: "gofun list" where
  "KubeStorageVersionListV1Alpha1_getters =
   [Method (Sig ''ApiGroup'' [] (Some (GoPtr GoString))) (Getter ''apiGroup''),
    Method (Sig ''ApiVersion'' [] (Some (GoPtr GoString))) (Getter ''apiVersion''),
    Method (Sig ''Chart'' [] (Some (GoNamed ''cdk8s.Chart''))) (Getter ''chart''),
    Method (Sig ''Kind'' [] (Some (GoPtr GoString))) (Getter ''kind''),
    Method (Sig ''Metadata'' [] (Some (GoNamed ''cdk8s.ApiObjectMetadataDefinition'')))
      (Getter ''metadata''),
    Method (Sig ''Name'' [] (Some (GoPtr GoString))) (Getter ''name''),
    Method (Sig ''Node'' [] (Some (GoNamed ''constructs.Node''))) (Getter ''node'')]"

definition KubeStorageVersionListV1Alpha1_functions :: "gofun list" where
  "KubeStorageVersionListV1Alpha1_functions =
   [Func (Sig ''NewKubeStorageVersionListV1Alpha1'' [
         Param ''scope'' (GoNamed ''constructs.Construct''), Param ''id'' (GoPtr GoString),
         Param ''props'' (GoPtr (GoNamed ''KubeStorageVersionListV1Alpha1Props''))] (Some (GoNamed ''KubeStorageVersionListV1Alpha1'')))
      (Construct ''k8s.KubeStorageVersionListV1Alpha1'' [''scope'', ''id'', ''props''] ''validateNewKubeStorageVersionListV1Alpha1Parameters''),
    Func (Sig ''NewKubeStorageVersionListV1Alpha1_Override'' [
         Param ''k'' (GoNamed ''KubeStorageVersionListV1Alpha1''),
         Param ''scope'' (GoNamed ''constructs.Construct''), Param ''id'' (GoPtr GoString),
         Param ''props'' (GoPtr (GoNamed ''KubeStorageVersionListV1Alpha1Props''))] None)
      (ConstructOverride ''k8s.KubeStorageVersionListV1Alpha1'' [''scope'', ''id'', ''props'']),
    Func (Sig ''KubeStorageVersionListV1Alpha1_IsApiObject'' [Param ''o'' GoAny] (Some (GoPtr GoBool)))
      (StaticCall ''k8s.KubeStorageVersionListV1Alpha1'' ''isApiObject'' [''o''] ''validateKubeStorageVersionListV1Alpha1_IsApiObjectParameters''),
    Func (Sig ''KubeStorageVersionListV1Alpha1_IsConstruct'' [Param ''x'' GoAny] (Some (GoPtr GoBool)))
      (StaticCall ''k8s.KubeStorageVersionListV1Alpha1'' ''isConstruct'' [''x''] ''validateKubeStorageVersionListV1Alpha1_IsConstructParameters''),
    Func (Sig ''KubeStorageVersionListV1Alpha1_Manifest'' [Param ''props'' (GoPtr (GoNamed ''KubeStorageVersionListV1Alpha1Props''))] (Some GoAny))
      (StaticCall ''k8s.KubeStorageVersionListV1Alpha1'' ''manifest'' [''props''] ''validateKubeStorageVersionListV1Alpha1_ManifestParameters''),
    Func (Sig ''KubeStorageVersionListV1Alpha1_Of'' [Param ''c'' (GoNamed ''constructs.IConstruct'')] (Some (GoNamed ''cdk8s.ApiObject'')))
      (StaticCall ''k8s.KubeStorageVersionListV1Alpha1'' ''of'' [''c''] ''validateKubeStorageVersionListV1Alpha1_OfParameters''),
    Func (Sig ''KubeStorageVersionListV1Alpha1_GVK'' [] (Some (GoPtr (GoNamed ''cdk8s.GroupVersionKind''))))
      (StaticProp ''k8s.KubeStorageVersionListV1Alpha1'' ''GVK'')]"

definition KubeStorageVersionListV1Alpha1_methods :: "gofun list" where
  "KubeStorageVersionListV1Alpha1_methods =
   [Method (Sig ''AddDependency'' [Rest ''dependencies'' (GoNamed ''constructs.IConstruct'')] None)
      (Variadic ''addDependency''),
    Method (Sig ''AddJsonPatch'' [Rest ''ops'' (GoNamed ''cdk8s.JsonPatch'')] None)
      (Variadic ''addJsonPatch''),
    Method (Sig ''ToJson'' [] (Some GoAny)) (Plain ''toJson''),
    Method (Sig ''ToString'' [] (Some (GoPtr GoString))) (Plain ''toString'')]"

definition KubeStorageVersionListV1Alpha1 :: binding where
  "KubeStorageVersionListV1Alpha1 = Binding ''KubeStorageVersionListV1Alpha1'' [''internal.Type__cdk8sApiObject'']
     (KubeStorageVersionListV1Alpha1_getters @ KubeStorageVersionListV1Alpha1_functions @ KubeStorageVersionListV1Alpha1_methods)"

definition KubeStorageVersionListV1Alpha1_checks :: validators where
  "KubeStorageVersionListV1Alpha1_checks =
   [(''validateKubeStorageVersionListV1Alpha1_IsApiObjectParameters'', [NotNil ''o'']),
    (''validateKubeStorageVersionListV1Alpha1_IsConstructParameters'', [NotNil ''x'']),
    (''validateKubeStorageVersionListV1Alpha1_ManifestParameters'', [NotNil ''props'', ValidStruct ''props'']),
    (''validateKubeStorageVersionListV1Alpha1_OfParameters'', [NotNil ''c'']),
    (''validateNewKubeStorageVersionListV1Alpha1Parameters'', [NotNil ''scope'', NotNil ''id'', NotNil ''props'', ValidStruct ''props''])]"

definition KubeStorageVersionListV1Alpha1_no_checks :: validators where
  "KubeStorageVersionListV1Alpha1_no_checks =
   [(''validateKubeStorageVersionListV1Alpha1_IsApiObjectParameters'', []),
    (''validateKubeStorageVersionListV1Alpha1_IsConstructParameters'', []),
    (''validateKubeStorageVersionListV1Alpha1_ManifestParameters'', []),
    (''validateKubeStorageVersionListV1Alpha1_OfParameters'', []),
    (''validateNewKubeStorageVersionListV1Alpha1Parameters'', [])]"

lemma KubeStorageVersionListV1Alpha1_ok [class_checks]: "classOk (KubeStorageVersionListV1Alpha1, KubeStorageVersionListV1Alpha1_checks)"
  by (rule classRequired_I [where s = KubeStorageVersionListV1Alpha1Props], simp only: table_members)
    (simp_all only: KubeStorageVersionListV1Alpha1_def KubeStorageVersionListV1Alpha1_getters_def KubeStorageVersionListV1Alpha1_functions_def
      KubeStorageVersionListV1Alpha1_methods_def KubeStorageVersionListV1Alpha1_checks_def KubeStorageVersionListV1Alpha1Props_def class_eval)

lemma KubeStorageVersionListV1Alpha1_declared [class_interfaces]:
  "KubeStorageVersionListV1Alpha1_interface = apiObjectInterface ''KubeStorageVersionListV1Alpha1''"
  "KubeStorageVersionListV1Alpha1_no_checks = apiObjectNoChecks ''KubeStorageVersionListV1Alpha1''"
  by (simp_all only: KubeStorageVersionListV1Alpha1_interface_def KubeStorageVersionListV1Alpha1_no_checks_def declared_eval)

definition KubeStorageVersionV1Alpha1_interface :: interface where
  "KubeStorageVersionV1Alpha1_interface = Interface ''KubeStorageVersionV1Alpha1'' [''cdk8s.ApiObject'']
   [Sig ''ApiGroup'' [] (Some (GoPtr GoString)), Sig ''ApiVersion'' [] (Some (GoPtr GoString)),
    Sig ''Chart'' [] (Some (GoNamed ''cdk8s.Chart'')), Sig ''Kind'' [] (Some (GoPtr GoString)),
    Sig ''Metadata'' [] (Some (GoNamed ''cdk8s.ApiObjectMetadataDefinition'')),
    Sig ''Name'' [] (Some (GoPtr GoString)), Sig ''Node'' [] (Some (GoNamed ''constructs.Node'')),
    Sig ''AddDependency'' [Rest ''dependencies'' (GoNamed ''constructs.IConstruct'')] None,
    Sig ''AddJsonPatch'' [Rest ''ops'' (GoNamed ''cdk8s.JsonPatch'')] None,
    Sig ''ToJson'' [] (Some GoAny), Sig ''ToString'' [] (Some (GoPtr GoString))]"

definition KubeStorageVersionV1Alpha1_getters :: "gofun list" where
  "KubeStorageVersionV1Alpha1_getters =
   [Method (Sig ''ApiGroup'' [] (Some (GoPtr GoString))) (Getter ''apiGroup''),
    Method (Sig ''ApiVersion'' [] (Some (GoPtr GoString))) (Getter ''apiVersion''),
    Method (Sig ''Chart'' [] (Some (GoNamed ''cdk8s.Chart''))) (Getter ''chart''),
    Method (Sig ''Kind'' [] (Some (GoPtr GoString))) (Getter ''kind''),
    Method (Sig ''Metadata'' [] (Some (GoNamed ''cdk8s.ApiObjectMetadataDefinition'')))
      (Getter ''metadata''),
    Method (Sig ''Name'' [] (Some (GoPtr GoString))) (Getter ''name''),
    Method (Sig ''Node'' [] (Some (GoNamed ''constructs.Node''))) (Getter ''node'')]"

definition KubeStorageVersionV1Alpha1_functions :: "gofun list" where
  "KubeStorageVersionV1Alpha1_functions =
   [Func (Sig ''NewKubeStorageVersionV1Alpha1'' [
         Param ''scope'' (GoNamed ''constructs.Construct''), Param ''id'' (GoPtr GoString),
         Param ''props'' (GoPtr (GoNamed ''KubeStorageVersionV1Alpha1Props''))] (Some (GoNamed ''KubeStorageVersionV1Alpha1'')))
      (Construct ''k8s.KubeStorageVersionV1Alpha1'' [''scope'', ''id'', ''props''] ''validateNewKubeStorageVersionV1Alpha1Parameters''),
    Func (Sig ''NewKubeStorageVersionV1Alpha1_Override'' [
         Param ''k'' (GoNamed ''KubeStorageVersionV1Alpha1''),
         Param ''scope'' (GoNamed ''constructs.Construct''), Param ''id'' (GoPtr GoString),
         Param ''props'' (GoPtr (GoNamed ''KubeStorageVersionV1Alpha1Props''))] None)
      (ConstructOverride ''k8s.KubeStorageVersionV1Alpha1'' [''scope'', ''id'', ''props'']),
    Func (Sig ''KubeStorageVersionV1Alpha1_IsApiObject'' [Param ''o'' GoAny] (Some (GoPtr GoBool)))
      (StaticCall ''k8s.KubeStorageVersionV1Alpha1'' ''isApiObject'' [''o''] ''validateKubeStorageVersionV1Alpha1_IsApiObjectParameters''),
    Func (Sig ''KubeStorageVersionV1Alpha1_IsConstruct'' [Param ''x'' GoAny] (Some (GoPtr GoBool)))
      (StaticCall ''k8s.KubeStorageVersionV1Alpha1'' ''isConstruct'' [''x''] ''validateKubeStorageVersionV1Alpha1_IsConstructParameters''),
    Func (Sig ''KubeStorageVersionV1Alpha1_Manifest'' [Param ''props'' (GoPtr (GoNamed ''KubeStorageVersionV1Alpha1Props''))] (Some GoAny))
      (StaticCall ''k8s.KubeStorageVersionV1Alpha1'' ''manifest'' [''props''] ''validateKubeStorageVersionV1Alpha1_ManifestParameters''),
    Func (Sig ''KubeStorageVersionV1Alpha1_Of'' [Param ''c'' (GoNamed ''constructs.IConstruct'')] (Some (GoNamed ''cdk8s.ApiObject'')))
      (StaticCall ''k8s.KubeStorageVersionV1Alpha1'' ''of'' [''c''] ''validateKubeStorageVersionV1Alpha1_OfParameters''),
    Func (Sig ''KubeStorageVersionV1Alpha1_GVK'' [] (Some (GoPtr (GoNamed ''cdk8s.GroupVersionKind''))))
      (StaticProp ''k8s.KubeStorageVersionV1Alpha1'' ''GVK'')]"

definition KubeStorageVersionV1Alpha1_methods :: "gofun list" where
  "KubeStorageVersionV1Alpha1_methods =
   [Method (Sig ''AddDependency'' [Rest ''dependencies'' (GoNamed ''constructs.IConstruct'')] None)
      (Variadic ''addDependency''),
    Method (Sig ''AddJsonPatch'' [Rest ''ops'' (GoNamed ''cdk8s.JsonPatch'')] None)
      (Variadic ''addJsonPatch''),
    Method (Sig ''ToJson'' [] (Some GoAny)) (Plain ''toJson''),
    Method (Sig ''ToString'' [] (Some (GoPtr GoString))) (Plain ''toString'')]"

definition KubeStorageVersionV1Alpha1 :: binding where
  "KubeStorageVersionV1Alpha1 = Binding ''KubeStorageVersionV1Alpha1'' [''internal.Type__cdk8sApiObject'']
     (KubeStorageVersionV1Alpha1_getters @ KubeStorageVersionV1Alpha1_functions @ KubeStorageVersionV1Alpha1_methods)"

definition KubeStorageVersionV1Alpha1_checks :: validators where
  "KubeStorageVersionV1Alpha1_checks =
   [(''validateKubeStorageVersionV1Alpha1_IsApiObjectParameters'', [NotNil ''o'']),
    (''validateKubeStorageVersionV1Alpha1_IsConstructParameters'', [NotNil ''x'']),
    (''validateKubeStorageVersionV1Alpha1_ManifestParameters'', [NotNil ''props'', ValidStruct ''props'']),
    (''validateKubeStorageVersionV1Alpha1_OfParameters'', [NotNil ''c'']),
    (''validateNewKubeStorageVersionV1Alpha1Parameters'', [NotNil ''scope'', NotNil ''id'', NotNil ''props'', ValidStruct ''props''])]"

definition KubeStorageVersionV1Alpha1_no_checks :: validators where
  "KubeStorageVersionV1Alpha1_no_checks =
   [(''validateKubeStorageVersionV1Alpha1_IsApiObjectParameters'', []),
    (''validateKubeStorageVersionV1Alpha1_IsConstructParameters'', []),
    (''validateKubeStorageVersionV1Alpha1_ManifestParameters'', []),
    (''validateKubeStorageVersionV1Alpha1_OfParameters'', []),
    (''validateNewKubeStorageVersionV1Alpha1Parameters'', [])]"

lemma KubeStorageVersionV1Alpha1_ok [class_checks]: "classOk (KubeStorageVersionV1Alpha1, KubeStorageVersionV1Alpha1_checks)"
  by (rule classRequired_I [where s = KubeStorageVersionV1Alpha1Props], simp only: table_members)
    (simp_all only: KubeStorageVersionV1Alpha1_def KubeStorageVersionV1Alpha1_getters_def KubeStorageVersionV1Alpha1_functions_def
      KubeStorageVersionV1Alpha1_methods_def KubeStorageVersionV1Alpha1_checks_def KubeStorageVersionV1Alpha1Props_def class_eval)

lemma KubeStorageVersionV1Alpha1_declared [class_interfaces]:
  "KubeStorageVersionV1Alpha1_interface = apiObjectInterface ''KubeStorageVersionV1Alpha1''"
  "KubeStorageVersionV1Alpha1_no_checks = apiObjectNoChecks ''KubeStorageVersionV1Alpha1''"
  by (simp_all only: KubeStorageVersionV1Alpha1_interface_def KubeStorageVersionV1Alpha1_no_checks_def declared_eval)

definition KubeSubjectAccessReview_interface :: interface where
  "KubeSubjectAccessReview_interface = Interface ''KubeSubjectAccessReview'' [''cdk8s.ApiObject'']
   [Sig ''ApiGroup'' [] (Some (GoPtr GoString)), Sig ''ApiVersion'' [] (Some (GoPtr GoString)),
    Sig ''Chart'' [] (Some (GoNamed ''cdk8s.Chart'')), Sig ''Kind'' [] (Some (GoPtr GoString)),
    Sig ''Metadata'' [] (Some (GoNamed ''cdk8s.ApiObjectMetadataDefinition'')),
    Sig ''Name'' [] (Some (GoPtr GoString)), Sig ''Node'' [] (Some (GoNamed ''constructs.Node'')),
    Sig ''AddDependency'' [Rest ''dependencies'' (GoNamed ''constructs.IConstruct'')] None,
    Sig ''AddJsonPatch'' [Rest ''ops'' (GoNamed ''cdk8s.JsonPatch'')] None,
    Sig ''ToJson'' [] (Some GoAny), Sig ''ToString'' [] (Some (GoPtr GoString))]"

definition KubeSubjectAccessReview_getters :: "gofun list" where
  "KubeSubjectAccessReview_getters =
   [Method (Sig ''ApiGroup'' [] (Some (GoPtr GoString))) (Getter ''apiGroup''),
    Method (Sig ''ApiVersion'' [] (Some (GoPtr GoString))) (Getter ''apiVersion''),
    Method (Sig ''Chart'' [] (Some (GoNamed ''cdk8s.Chart''))) (Getter ''chart''),
    Method (Sig ''Kind'' [] (Some (GoPtr GoString))) (Getter ''kind''),
    Method (Sig ''Metadata'' [] (Some (GoNamed ''cdk8s.ApiObjectMetadataDefinition'')))
      (Getter ''metadata''),
    Method (Sig ''Name'' [] (Some (GoPtr GoString))) (Getter ''name''),
    Method (Sig ''Node'' [] (Some (GoNamed ''constructs.Node''))) (Getter ''node'')]"

definition KubeSubjectAccessReview_functions :: "gofun list" where
  "KubeSubjectAccessReview_functions =
   [Func (Sig ''NewKubeSubjectAccessReview'' [
         Param ''scope'' (GoNamed ''constructs.Construct''), Param ''id'' (GoPtr GoString),
         Param ''props'' (GoPtr (GoNamed ''KubeSubjectAccessReviewProps''))] (Some (GoNamed ''KubeSubjectAccessReview'')))
      (Construct ''k8s.KubeSubjectAccessReview'' [''scope'', ''id'', ''props''] ''validateNewKubeSubjectAccessReviewParameters''),
    Func (Sig ''NewKubeSubjectAccessReview_Override'' [
         Param ''k'' (GoNamed ''KubeSubjectAccessReview''),
         Param ''scope'' (GoNamed ''constructs.Construct''), Param ''id'' (GoPtr GoString),
         Param ''props'' (GoPtr (GoNamed ''KubeSubjectAccessReviewProps''))] None)
      (ConstructOverride ''k8s.KubeSubjectAccessReview'' [''scope'', ''id'', ''props'']),
    Func (Sig ''KubeSubjectAccessReview_IsApiObject'' [Param ''o'' GoAny] (Some (GoPtr GoBool)))
      (StaticCall ''k8s.KubeSubjectAccessReview'' ''isApiObject'' [''o''] ''validateKubeSubjectAccessReview_IsApiObjectParameters''),
    Func (Sig ''KubeSubjectAccessReview_IsConstruct'' [Param ''x'' GoAny] (Some (GoPtr GoBool)))
      (StaticCall ''k8s.KubeSubjectAccessReview'' ''isConstruct'' [''x''] ''validateKubeSubjectAccessReview_IsConstructParameters''),
    Func (Sig ''KubeSubjectAccessReview_Manifest'' [Param ''props'' (GoPtr (GoNamed ''KubeSubjectAccessReviewProps''))] (Some GoAny))
      (StaticCall ''k8s.KubeSubjectAccessReview'' ''manifest'' [''props''] ''validateKubeSubjectAccessReview_ManifestParameters''),
    Func (Sig ''KubeSubjectAccessReview_Of'' [Param ''c'' (GoNamed ''constructs.IConstruct'')] (Some (GoNamed ''cdk8s.ApiObject'')))
      (StaticCall ''k8s.KubeSubjectAccessReview'' ''of'' [''c''] ''validateKubeSubjectAccessReview_OfParameters''),
    Func (Sig ''KubeSubjectAccessReview_GVK'' [] (Some (GoPtr (GoNamed ''cdk8s.GroupVersionKind''))))
      (StaticProp ''k8s.KubeSubjectAccessReview'' ''GVK'')]"

definition KubeSubjectAccessReview_methods :: "gofun list" where
  "KubeSubjectAccessReview_methods =
   [Method (Sig ''AddDependency'' [Rest ''dependencies'' (GoNamed ''constructs.IConstruct'')] None)
      (Variadic ''addDependency''),
    Method (Sig ''AddJsonPatch'' [Rest ''ops'' (GoNamed ''cdk8s.JsonPatch'')] None)
      (Variadic ''addJsonPatch''),
    Method (Sig ''ToJson'' [] (Some GoAny)) (Plain ''toJson''),
    Method (Sig ''ToString'' [] (Some (GoPtr GoString))) (Plain ''toString'')]"

definition KubeSubjectAccessReview :: binding where
  "KubeSubjectAccessReview = Binding ''KubeSubjectAccessReview'' [''internal.Type__cdk8sApiObject'']
     (KubeSubjectAccessReview_getters @ KubeSubjectAccessReview_functions @ KubeSubjectAccessReview_methods)"

definition KubeSubjectAccessReview_checks :: validators where
  "KubeSubjectAccessReview_checks =
   [(''validateKubeSubjectAccessReview_IsApiObjectParameters'', [NotNil ''o'']),
    (''validateKubeSubjectAccessReview_IsConstructParameters'', [NotNil ''x'']),
    (''validateKubeSubjectAccessReview_ManifestParameters'', [NotNil ''props'', ValidStruct ''props'']),
    (''validateKubeSubjectAccessReview_OfParameters'', [NotNil ''c'']),
    (''validateNewKubeSubjectAccessReviewParameters'', [NotNil ''scope'', NotNil ''id'', NotNil ''props'', ValidStruct ''props''])]"

definition KubeSubjectAccessReview_no_checks :: validators where
  "KubeSubjectAccessReview_no_checks =
   [(''validateKubeSubjectAccessReview_IsApiObjectParameters'', []),
    (''validateKubeSubjectAccessReview_IsConstructParameters'', []),
    (''validateKubeSubjectAccessReview_ManifestParameters'', []),
    (''validateKubeSubjectAccessReview_OfParameters'', []),
    (''validateNewKubeSubjectAccessReviewParameters'', [])]"

lemma KubeSubjectAccessReview_ok [class_checks]: "classOk (KubeSubjectAccessReview, KubeSubjectAccessReview_checks)"
  by (rule classRequired_I [where s = KubeSubjectAccessReviewProps], simp only: table_members)
    (simp_all only: KubeSubjectAccessReview_def KubeSubjectAccessReview_getters_def KubeSubjectAccessReview_functions_def
      KubeSubjectAccessReview_methods_def KubeSubjectAccessReview_checks_def KubeSubjectAccessReviewProps_def class_eval)

lemma KubeSubjectAccessReview_declared [class_interfaces]:
  "KubeSubjectAccessReview_interface = apiObjectInterface ''KubeSubjectAccessReview''"
  "KubeSubjectAccessReview_no_checks = apiObjectNoChecks ''KubeSubjectAccessReview''"
  by (simp_all only: KubeSubjectAccessReview_interface_def KubeSubjectAccessReview_no_checks_def declared_eval)

definition KubeTokenRequest_interface :: interface where
  "KubeTokenRequest_interface = Interface ''KubeTokenRequest'' [''cdk8s.ApiObject'']
   [Sig ''ApiGroup'' [] (Some (GoPtr GoString)), Sig ''ApiVersion'' [] (Some (GoPtr GoString)),
    Sig ''Chart'' [] (Some (GoNamed ''cdk8s.Chart'')), Sig ''Kind'' [] (Some (GoPtr GoString)),
    Sig ''Metadata'' [] (Some (GoNamed ''cdk8s.ApiObjectMetadataDefinition'')),
    Sig ''Name'' [] (Some (GoPtr GoString)), Sig ''Node'' [] (Some (GoNamed ''constructs.Node'')),
    Sig ''AddDependency'' [Rest ''dependencies'' (GoNamed ''constructs.IConstruct'')] None,
    Sig ''AddJsonPatch'' [Rest ''ops'' (GoNamed ''cdk8s.JsonPatch'')] None,
    Sig ''ToJson'' [] (Some GoAny), Sig ''ToString'' [] (Some (GoPtr GoString))]"

definition KubeTokenRequest_getters :: "gofun list" where
  "KubeTokenRequest_getters =
   [Method (Sig ''ApiGroup'' [] (Some (GoPtr GoString))) (Getter ''apiGroup''),
    Method (Sig ''ApiVersion'' [] (Some (GoPtr GoString))) (Getter ''apiVersion''),
    Method (Sig ''Chart'' [] (Some (GoNamed ''cdk8s.Chart''))) (Getter ''chart''),
    Method (Sig ''Kind'' [] (Some (GoPtr GoString))) (Getter ''kind''),
    Method (Sig ''Metadata'' [] (Some (GoNamed ''cdk8s.ApiObjectMetadataDefinition'')))
      (Getter ''metadata''),
    Method (Sig ''Name'' [] (Some (GoPtr GoString))) (Getter ''name''),
    Method (Sig ''Node'' [] (Some (GoNamed ''constructs.Node''))) (Getter ''node'')]"

definition KubeTokenRequest_functions :: "gofun list" where
  "KubeTokenRequest_functions =
   [Func (Sig ''NewKubeTokenRequest'' [
         Param ''scope'' (GoNamed ''constructs.Construct''), Param ''id'' (GoPtr GoString),
         Param ''props'' (GoPtr (GoNamed ''KubeTokenRequestProps''))] (Some (GoNamed ''KubeTokenRequest'')))
      (Construct ''k8s.KubeTokenRequest'' [''scope'', ''id'', ''props''] ''validateNewKubeTokenRequestParameters''),
    Func (Sig ''NewKubeTokenRequest_Override'' [
         Param ''k'' (GoNamed ''KubeTokenRequest''), Param ''scope'' (GoNamed ''constructs.Construct''),
         Param ''id'' (GoPtr GoString), Param ''props'' (GoPtr (GoNamed ''KubeTokenRequestProps''))] None)
      (ConstructOverride ''k8s.KubeTokenRequest'' [''scope'', ''id'', ''props'']),
    Func (Sig ''KubeTokenRequest_IsApiObject'' [Param ''o'' GoAny] (Some (GoPtr GoBool)))
      (StaticCall ''k8s.KubeTokenRequest'' ''isApiObject'' [''o''] ''validateKubeTokenRequest_IsApiObjectParameters''),
    Func (Sig ''KubeTokenRequest_IsConstruct'' [Param ''x'' GoAny] (Some (GoPtr GoBool)))
      (StaticCall ''k8s.KubeTokenRequest'' ''isConstruct'' [''x''] ''validateKubeTokenRequest_IsConstructParameters''),
    Func (Sig ''KubeTokenRequest_Manifest'' [Param ''props'' (GoPtr (GoNamed ''KubeTokenRequestProps''))] (Some GoAny))
      (StaticCall ''k8s.KubeTokenRequest'' ''manifest'' [''props''] ''validateKubeTokenRequest_ManifestParameters''),
    Func (Sig ''KubeTokenRequest_Of'' [Param ''c'' (GoNamed ''constructs.IConstruct'')] (Some (GoNamed ''cdk8s.ApiObject'')))
      (StaticCall ''k8s.KubeTokenRequest'' ''of'' [''c''] ''validateKubeTokenRequest_OfParameters''),
    Func (Sig ''KubeTokenRequest_GVK'' [] (Some (GoPtr (GoNamed ''cdk8s.GroupVersionKind''))))
      (StaticProp ''k8s.KubeTokenRequest'' ''GVK'')]"

definition KubeTokenRequest_methods :: "gofun list" where
  "KubeTokenRequest_methods =
   [Method (Sig ''AddDependency'' [Rest ''dependencies'' (GoNamed ''constructs.IConstruct'')] None)
      (Variadic ''addDependency''),
    Method (Sig ''AddJsonPatch'' [Rest ''ops'' (GoNamed ''cdk8s.JsonPatch'')] None)
      (Variadic ''addJsonPatch''),
    Method (Sig ''ToJson'' [] (Some GoAny)) (Plain ''toJson''),
    Method (Sig ''ToString'' [] (Some (GoPtr GoString))) (Plain ''toString'')]"

definition KubeTokenRequest :: binding where
  "KubeTokenRequest = Binding ''KubeTokenRequest'' [''internal.Type__cdk8sApiObject'']
     (KubeTokenRequest_getters @ KubeTokenRequest_functions @ KubeTokenRequest_methods)"

definition KubeTokenRequest_checks :: validators where
  "KubeTokenRequest_checks =
   [(''validateKubeTokenRequest_IsApiObjectParameters'', [NotNil ''o'']),
    (''validateKubeTokenRequest_IsConstructParameters'', [NotNil ''x'']),
    (''validateKubeTokenRequest_ManifestParameters'', [NotNil ''props'', ValidStruct ''props'']),
    (''validateKubeTokenRequest_OfParameters'', [NotNil ''c'']),
    (''validateNewKubeTokenRequestParameters'', [NotNil ''scope'', NotNil ''id'', NotNil ''props'', ValidStruct ''props''])]"

definition KubeTokenRequest_no_checks :: validators where
  "KubeTokenRequest_no_checks =
   [(''validateKubeTokenRequest_IsApiObjectParameters'', []),
    (''validateKubeTokenRequest_IsConstructParameters'', []),
    (''validateKubeTokenRequest_ManifestParameters'', []),
    (''validateKubeTokenRequest_OfParameters'', []), (''validateNewKubeTokenRequestParameters'', [])]"

lemma KubeTokenRequest_ok [class_checks]: "classOk (KubeTokenRequest, KubeTokenRequest_checks)"
  by (rule classRequired_I [where s = KubeTokenRequestProps], simp only: table_members)
    (simp_all only: KubeTokenRequest_def KubeTokenRequest_getters_def KubeTokenRequest_functions_def
      KubeTokenRequest_methods_def KubeTokenRequest_checks_def KubeTokenRequestProps_def class_eval)

lemma KubeTokenRequest_declared [class_interfaces]:
  "KubeTokenRequest_interface = apiObjectInterface ''KubeTokenRequest''"
  "KubeTokenRequest_no_checks = apiObjectNoChecks ''KubeTokenRequest''"
  by (simp_all only: KubeTokenRequest_interface_def KubeTokenRequest_no_checks_def declared_eval)

definition KubeTokenReview_interface :: interface where
  "KubeTokenReview_interface = Interface ''KubeTokenReview'' [''cdk8s.ApiObject'']
   [Sig ''ApiGroup'' [] (Some (GoPtr GoString)), Sig ''ApiVersion'' [] (Some (GoPtr GoString)),
    Sig ''Chart'' [] (Some (GoNamed ''cdk8s.Chart'')), Sig ''Kind'' [] (Some (GoPtr GoString)),
    Sig ''Metadata'' [] (Some (GoNamed ''cdk8s.ApiObjectMetadataDefinition'')),
    Sig ''Name'' [] (Some (GoPtr GoString)), Sig ''Node'' [] (Some (GoNamed ''constructs.Node'')),
    Sig ''AddDependency'' [Rest ''dependencies'' (GoNamed ''constructs.IConstruct'')] None,
    Sig ''AddJsonPatch'' [Rest ''ops'' (GoNamed ''cdk8s.JsonPatch'')] None,
    Sig ''ToJson'' [] (Some GoAny), Sig ''ToString'' [] (Some (GoPtr GoString))]"

definition KubeTokenReview_getters :: "gofun list" where
  "KubeTokenReview_getters =
   [Method (Sig ''ApiGroup'' [] (Some (GoPtr GoString))) (Getter ''apiGroup''),
    Method (Sig ''ApiVersion'' [] (Some (GoPtr GoString))) (Getter ''apiVersion''),
    Method (Sig ''Chart'' [] (Some (GoNamed ''cdk8s.Chart''))) (Getter ''chart''),
    Method (Sig ''Kind'' [] (Some (GoPtr GoString))) (Getter ''kind''),
    Method (Sig ''Metadata'' [] (Some (GoNamed ''cdk8s.ApiObjectMetadataDefinition'')))
      (Getter ''metadata''),
    Method (Sig ''Name'' [] (Some (GoPtr GoString))) (Getter ''name''),
    Method (Sig ''Node'' [] (Some (GoNamed ''constructs.Node''))) (Getter ''node'')]"

definition KubeTokenReview_functions :: "gofun list" where
  "KubeTokenReview_functions =
   [Func (Sig ''NewKubeTokenReview'' [
         Param ''scope'' (GoNamed ''constructs.Construct''), Param ''id'' (GoPtr GoString),
         Param ''props'' (GoPtr (GoNamed ''KubeTokenReviewProps''))] (Some (GoNamed ''KubeTokenReview'')))
      (Construct ''k8s.KubeTokenReview'' [''scope'', ''id'', ''props''] ''validateNewKubeTokenReviewParameters''),
    Func (Sig ''NewKubeTokenReview_Override'' [
         Param ''k'' (GoNamed ''KubeTokenReview''), Param ''scope'' (GoNamed ''constructs.Construct''),
         Param ''id'' (GoPtr GoString), Param ''props'' (GoPtr (GoNamed ''KubeTokenReviewProps''))] None)
      (ConstructOverride ''k8s.KubeTokenReview'' [''scope'', ''id'', ''props'']),
    Func (Sig ''KubeTokenReview_IsApiObject'' [Param ''o'' GoAny] (Some (GoPtr GoBool)))
      (StaticCall ''k8s.KubeTokenReview'' ''isApiObject'' [''o''] ''validateKubeTokenReview_IsApiObjectParameters''),
    Func (Sig ''KubeTokenReview_IsConstruct'' [Param ''x'' GoAny] (Some (GoPtr GoBool)))
      (StaticCall ''k8s.KubeTokenReview'' ''isConstruct'' [''x''] ''validateKubeTokenReview_IsConstructParameters''),
    Func (Sig ''KubeTokenReview_Manifest'' [Param ''props'' (GoPtr (GoNamed ''KubeTokenReviewProps''))] (Some GoAny))
      (StaticCall ''k8s.KubeTokenReview'' ''manifest'' [''props''] ''validateKubeTokenReview_ManifestParameters''),
    Func (Sig ''KubeTokenReview_Of'' [Param ''c'' (GoNamed ''constructs.IConstruct'')] (Some (GoNamed ''cdk8s.ApiObject'')))
      (StaticCall ''k8s.KubeTokenReview'' ''of'' [''c''] ''validateKubeTokenReview_OfParameters''),
    Func (Sig ''KubeTokenReview_GVK'' [] (Some (GoPtr (GoNamed ''cdk8s.GroupVersionKind''))))
      (StaticProp ''k8s.KubeTokenReview'' ''GVK'')]"

definition KubeTokenReview_methods :: "gofun list" where
  "KubeTokenReview_methods =
   [Method (Sig ''AddDependency'' [Rest ''dependencies'' (GoNamed ''constructs.IConstruct'')] None)
      (Variadic ''addDependency''),
    Method (Sig ''AddJsonPatch'' [Rest ''ops'' (GoNamed ''cdk8s.JsonPatch'')] None)
      (Variadic ''addJsonPatch''),
    Method (Sig ''ToJson'' [] (Some GoAny)) (Plain ''toJson''),
    Method (Sig ''ToString'' [] (Some (GoPtr GoString))) (Plain ''toString'')]"

definition KubeTokenReview :: binding where
  "KubeTokenReview = Binding ''KubeTokenReview'' [''internal.Type__cdk8sApiObject'']
     (KubeTokenReview_getters @ KubeTokenReview_functions @ KubeTokenReview_methods)"

definition KubeTokenReview_checks :: validators where
  "KubeTokenReview_checks =
   [(''validateKubeTokenReview_IsApiObjectParameters'', [NotNil ''o'']),
    (''validateKubeTokenReview_IsConstructParameters'', [NotNil ''x'']),
    (''validateKubeTokenReview_ManifestParameters'', [NotNil ''props'', ValidStruct ''props'']),
    (''validateKubeTokenReview_OfParameters'', [NotNil ''c'']),
    (''validateNewKubeTokenReviewParameters'', [NotNil ''scope'', NotNil ''id'', NotNil ''props'', ValidStruct ''props''])]"

definition KubeTokenReview_no_checks :: validators where
  "KubeTokenReview_no_checks =
   [(''validateKubeTokenReview_IsApiObjectParameters'', []),
    (''validateKubeTokenReview_IsConstructParameters'', []),
    (''validateKubeTokenReview_ManifestParameters'', []),
    (''validateKubeTokenReview_OfParameters'', []), (''validateNewKubeTokenReviewParameters'', [])]"

lemma KubeTokenReview_ok [class_checks]: "classOk (KubeTokenReview, KubeTokenReview_checks)"
  by (rule classRequired_I [where s = KubeTokenReviewProps], simp only: table_members)
    (simp_all only: KubeTokenReview_def KubeTokenReview_getters_def KubeTokenReview_functions_def
      KubeTokenReview_methods_def KubeTokenReview_checks_def KubeTokenReviewProps_def class_eval)

lemma KubeTokenReview_declared [class_interfaces]:
  "KubeTokenReview_interface = apiObjectInterface ''KubeTokenReview''"
  "KubeTokenReview_no_checks = apiObjectNoChecks ''KubeTokenReview''"
  by (simp_all only: KubeTokenReview_interface_def KubeTokenReview_no_checks_def declared_eval)

definition KubeValidatingWebhookConfiguration_interface :: interface where
  "KubeValidatingWebhookConfiguration_interface = Interface ''KubeValidatingWebhookConfiguration'' [''cdk8s.ApiObject'']
   [Sig ''ApiGroup'' [] (Some (GoPtr GoString)), Sig ''ApiVersion'' [] (Some (GoPtr GoString)),
    Sig ''Chart'' [] (Some (GoNamed ''cdk8s.Chart'')), Sig ''Kind'' [] (Some (GoPtr GoString)),
    Sig ''Metadata'' [] (Some (GoNamed ''cdk8s.ApiObjectMetadataDefinition'')),
    Sig ''Name'' [] (Some (GoPtr GoString)), Sig ''Node'' [] (Some (GoNamed ''constructs.Node'')),
    Sig ''AddDependency'' [Rest ''dependencies'' (GoNamed ''constructs.IConstruct'')] None,
    Sig ''AddJsonPatch'' [Rest ''ops'' (GoNamed ''cdk8s.JsonPatch'')] None,
    Sig ''ToJson'' [] (Some GoAny), Sig ''ToString'' [] (Some (GoPtr GoString))]"

definition KubeValidatingWebhookConfiguration_getters :: "gofun list" where
  "KubeValidatingWebhookConfiguration_getters =
   [Method (Sig ''ApiGroup'' [] (Some (GoPtr GoString))) (Getter ''apiGroup''),
    Method (Sig ''ApiVersion'' [] (Some (GoPtr GoString))) (Getter ''apiVersion''),
    Method (Sig ''Chart'' [] (Some (GoNamed ''cdk8s.Chart''))) (Getter ''chart''),
    Method (Sig ''Kind'' [] (Some (GoPtr GoString))) (Getter ''kind''),
    Method (Sig ''Metadata'' [] (Some (GoNamed ''cdk8s.ApiObjectMetadataDefinition'')))
      (Getter ''metadata''),
    Method (Sig ''Name'' [] (Some (GoPtr GoString))) (Getter ''name''),
    Method (Sig ''Node'' [] (Some (GoNamed ''constructs.Node''))) (Getter ''node'')]"

definition KubeValidatingWebhookConfiguration_functions :: "gofun list" where
  "KubeValidatingWebhookConfiguration_functions =
   [Func (Sig ''NewKubeValidatingWebhookConfiguration'' [
         Param ''scope'' (GoNamed ''constructs.Construct''), Param ''id'' (GoPtr GoString),
         Param ''props'' (GoPtr (GoNamed ''KubeValidatingWebhookConfigurationProps''))] (Some (GoNamed ''KubeValidatingWebhookConfiguration'')))
      (Construct ''k8s.KubeValidatingWebhookConfiguration'' [''scope'', ''id'', ''props''] ''validateNewKubeValidatingWebhookConfigurationParameters''),
    Func (Sig ''NewKubeValidatingWebhookConfiguration_Override'' [
         Param ''k'' (GoNamed ''KubeValidatingWebhookConfiguration''),
         Param ''scope'' (GoNamed ''constructs.Construct''), Param ''id'' (GoPtr GoString),
         Param ''props'' (GoPtr (GoNamed ''KubeValidatingWebhookConfigurationProps''))] None)
      (ConstructOverride ''k8s.KubeValidatingWebhookConfiguration'' [''scope'', ''id'', ''props'']),
    Func (Sig ''KubeValidatingWebhookConfiguration_IsApiObject'' [Param ''o'' GoAny] (Some (GoPtr GoBool)))
      (StaticCall ''k8s.KubeValidatingWebhookConfiguration'' ''isApiObject'' [''o''] ''validateKubeValidatingWebhookConfiguration_IsApiObjectParameters''),
    Func (Sig ''KubeValidatingWebhookConfiguration_IsConstruct'' [Param ''x'' GoAny] (Some (GoPtr GoBool)))
      (StaticCall ''k8s.KubeValidatingWebhookConfiguration'' ''isConstruct'' [''x''] ''validateKubeValidatingWebhookConfiguration_IsConstructParameters''),
    Func (Sig ''KubeValidatingWebhookConfiguration_Manifest'' [Param ''props'' (GoPtr (GoNamed ''KubeValidatingWebhookConfigurationProps''))] (Some GoAny))
      (StaticCall ''k8s.KubeValidatingWebhookConfiguration'' ''manifest'' [''props''] ''validateKubeValidatingWebhookConfiguration_ManifestParameters''),
    Func (Sig ''KubeValidatingWebhookConfiguration_Of'' [Param ''c'' (GoNamed ''constructs.IConstruct'')] (Some (GoNamed ''cdk8s.ApiObject'')))
      (StaticCall ''k8s.KubeValidatingWebhookConfiguration'' ''of'' [''c''] ''validateKubeValidatingWebhookConfiguration_OfParameters''),
    Func (Sig ''KubeValidatingWebhookConfiguration_GVK'' [] (Some (GoPtr (GoNamed ''cdk8s.GroupVersionKind''))))
      (StaticProp ''k8s.KubeValidatingWebhookConfiguration'' ''GVK'')]"

definition KubeValidatingWebhookConfiguration_methods :: "gofun list" where
  "KubeValidatingWebhookConfiguration_methods =
   [Method (Sig ''AddDependency'' [Rest ''dependencies'' (GoNamed ''constructs.IConstruct'')] None)
      (Variadic ''addDependency''),
    Method (Sig ''AddJsonPatch'' [Rest ''ops'' (GoNamed ''cdk8s.JsonPatch'')] None)
      (Variadic ''addJsonPatch''),
    Method (Sig ''ToJson'' [] (Some GoAny)) (Plain ''toJson''),
    Method (Sig ''ToString'' [] (Some (GoPtr GoString))) (Plain ''toString'')]"

definition KubeValidatingWebhookConfiguration :: binding where
  "KubeValidatingWebhookConfiguration = Binding ''KubeValidatingWebhookConfiguration'' [''internal.Type__cdk8sApiObject'']
     (KubeValidatingWebhookConfiguration_getters @ KubeValidatingWebhookConfiguration_functions @ KubeValidatingWebhookConfiguration_methods)"

definition KubeValidatingWebhookConfiguration_checks :: validators where
  "KubeValidatingWebhookConfiguration_checks =
   [(''validateKubeValidatingWebhookConfiguration_IsApiObjectParameters'', [NotNil ''o'']),
    (''validateKubeValidatingWebhookConfiguration_IsConstructParameters'', [NotNil ''x'']),
    (''validateKubeValidatingWebhookConfiguration_ManifestParameters'', [ValidStruct ''props'']),
    (''validateKubeValidatingWebhookConfiguration_OfParameters'', [NotNil ''c'']),
    (''validateNewKubeValidatingWebhookConfigurationParameters'', [NotNil ''scope'', NotNil ''id'', ValidStruct ''props''])]"

definition KubeValidatingWebhookConfiguration_no_checks :: validators where
  "KubeValidatingWebhookConfiguration_no_checks =
   [(''validateKubeValidatingWebhookConfiguration_IsApiObjectParameters'', []),
    (''validateKubeValidatingWebhookConfiguration_IsConstructParameters'', []),
    (''validateKubeValidatingWebhookConfiguration_ManifestParameters'', []),
    (''validateKubeValidatingWebhookConfiguration_OfParameters'', []),
    (''validateNewKubeValidatingWebhookConfigurationParameters'', [])]"

lemma KubeValidatingWebhookConfiguration_ok [class_checks]: "classOk (KubeValidatingWebhookConfiguration, KubeValidatingWebhookConfiguration_checks)"
  by (rule classOptional_I [where s = KubeValidatingWebhookConfigurationProps], simp only: table_members)
    (simp_all only: KubeValidatingWebhookConfiguration_def KubeValidatingWebhookConfiguration_getters_def KubeValidatingWebhookConfiguration_functions_def
      KubeValidatingWebhookConfiguration_methods_def KubeValidatingWebhookConfiguration_checks_def KubeValidatingWebhookConfigurationProps_def class_eval)

lemma KubeValidatingWebhookConfiguration_declared [class_interfaces]:
  "KubeValidatingWebhookConfiguration_interface = apiObjectInterface ''KubeValidatingWebhookConfiguration''"
  "KubeValidatingWebhookConfiguration_no_checks = apiObjectNoChecks ''KubeValidatingWebhookConfiguration''"
  by (simp_all only: KubeValidatingWebhookConfiguration_interface_def KubeValidatingWebhookConfiguration_no_checks_def declared_eval)

definition KubeValidatingWebhookConfigurationList_interface :: interface where
  "KubeValidatingWebhookConfigurationList_interface = Interface ''KubeValidatingWebhookConfigurationList'' [''cdk8s.ApiObject'']
   [Sig ''ApiGroup'' [] (Some (GoPtr GoString)), Sig ''ApiVersion'' [] (Some (GoPtr GoString)),
    Sig ''Chart'' [] (Some (GoNamed ''cdk8s.Chart'')), Sig ''Kind'' [] (Some (GoPtr GoString)),
    Sig ''Metadata'' [] (Some (GoNamed ''cdk8s.ApiObjectMetadataDefinition'')),
    Sig ''Name'' [] (Some (GoPtr GoString)), Sig ''Node'' [] (Some (GoNamed ''constructs.Node'')),
    Sig ''AddDependency'' [Rest ''dependencies'' (GoNamed ''constructs.IConstruct'')] None,
    Sig ''AddJsonPatch'' [Rest ''ops'' (GoNamed ''cdk8s.JsonPatch'')] None,
    Sig ''ToJson'' [] (Some GoAny), Sig ''ToString'' [] (Some (GoPtr GoString))]"

definition KubeValidatingWebhookConfigurationList_getters :: "gofun list" where
  "KubeValidatingWebhookConfigurationList_getters =
   [Method (Sig ''ApiGroup'' [] (Some (GoPtr GoString))) (Getter ''apiGroup''),
    Method (Sig ''ApiVersion'' [] (Some (GoPtr GoString))) (Getter ''apiVersion''),
    Method (Sig ''Chart'' [] (Some (GoNamed ''cdk8s.Chart''))) (Getter ''chart''),
    Method (Sig ''Kind'' [] (Some (GoPtr GoString))) (Getter ''kind''),
    Method (Sig ''Metadata'' [] (Some (GoNamed ''cdk8s.ApiObjectMetadataDefinition'')))
      (Getter ''metadata''),
    Method (Sig ''Name'' [] (Some (GoPtr GoString))) (Getter ''name''),
    Method (Sig ''Node'' [] (Some (GoNamed ''constructs.Node''))) (Getter ''node'')]"

definition KubeValidatingWebhookConfigurationList_functions :: "gofun list" where
  "KubeValidatingWebhookConfigurationList_functions =
   [Func (Sig ''NewKubeValidatingWebhookConfigurationList'' [
         Param ''scope'' (GoNamed ''constructs.Construct''), Param ''id'' (GoPtr GoString),
         Param ''props'' (GoPtr (GoNamed ''KubeValidatingWebhookConfigurationListProps''))] (Some (GoNamed ''KubeValidatingWebhookConfigurationList'')))
      (Construct ''k8s.KubeValidatingWebhookConfigurationList'' [''scope'', ''id'', ''props''] ''validateNewKubeValidatingWebhookConfigurationListParameters''),
    Func (Sig ''NewKubeValidatingWebhookConfigurationList_Override'' [
         Param ''k'' (GoNamed ''KubeValidatingWebhookConfigurationList''),
         Param ''scope'' (GoNamed ''constructs.Construct''), Param ''id'' (GoPtr GoString),
         Param ''props'' (GoPtr (GoNamed ''KubeValidatingWebhookConfigurationListProps''))] None)
      (ConstructOverride ''k8s.KubeValidatingWebhookConfigurationList'' [''scope'', ''id'', ''props'']),
    Func (Sig ''KubeValidatingWebhookConfigurationList_IsApiObject'' [Param ''o'' GoAny] (Some (GoPtr GoBool)))
      (StaticCall ''k8s.KubeValidatingWebhookConfigurationList'' ''isApiObject'' [''o''] ''validateKubeValidatingWebhookConfigurationList_IsApiObjectParameters''),
    Func (Sig ''KubeValidatingWebhookConfigurationList_IsConstruct'' [Param ''x'' GoAny] (Some (GoPtr GoBool)))
      (StaticCall ''k8s.KubeValidatingWebhookConfigurationList'' ''isConstruct'' [''x''] ''validateKubeValidatingWebhookConfigurationList_IsConstructParameters''),
    Func (Sig ''KubeValidatingWebhookConfigurationList_Manifest'' [Param ''props'' (GoPtr (GoNamed ''KubeValidatingWebhookConfigurationListProps''))] (Some GoAny))
      (StaticCall ''k8s.KubeValidatingWebhookConfigurationList'' ''manifest'' [''props''] ''validateKubeValidatingWebhookConfigurationList_ManifestParameters''),
    Func (Sig ''KubeValidatingWebhookConfigurationList_Of'' [Param ''c'' (GoNamed ''constructs.IConstruct'')] (Some (GoNamed ''cdk8s.ApiObject'')))
      (StaticCall ''k8s.KubeValidatingWebhookConfigurationList'' ''of'' [''c''] ''validateKubeValidatingWebhookConfigurationList_OfParameters''),
    Func (Sig ''KubeValidatingWebhookConfigurationList_GVK'' [] (Some (GoPtr (GoNamed ''cdk8s.GroupVersionKind''))))
      (StaticProp ''k8s.KubeValidatingWebhookConfigurationList'' ''GVK'')]"

definition KubeValidatingWebhookConfigurationList_methods :: "gofun list" where
  "KubeValidatingWebhookConfigurationList_methods =
   [Method (Sig ''AddDependency'' [Rest ''dependencies'' (GoNamed ''constructs.IConstruct'')] None)
      (Variadic ''addDependency''),
    Method (Sig ''AddJsonPatch'' [Rest ''ops'' (GoNamed ''cdk8s.JsonPatch'')] None)
      (Variadic ''addJsonPatch''),
    Method (Sig ''ToJson'' [] (Some GoAny)) (Plain ''toJson''),
    Method (Sig ''ToString'' [] (Some (GoPtr GoString))) (Plain ''toString'')]"

definition KubeValidatingWebhookConfigurationList :: binding where
  "KubeValidatingWebhookConfigurationList = Binding ''KubeValidatingWebhookConfigurationList'' [''internal.Type__cdk8sApiObject'']
     (KubeValidatingWebhookConfigurationList_getters @ KubeValidatingWebhookConfigurationList_functions @ KubeValidatingWebhookConfigurationList_methods)"

definition KubeValidatingWebhookConfigurationList_checks :: validators where
  "KubeValidatingWebhookConfigurationList_checks =
   [(''validateKubeValidatingWebhookConfigurationList_IsApiObjectParameters'', [NotNil ''o'']),
    (''validateKubeValidatingWebhookConfigurationList_IsConstructParameters'', [NotNil ''x'']),
    (''validateKubeValidatingWebhookConfigurationList_ManifestParameters'', [NotNil ''props'', ValidStruct ''props'']),
    (''validateKubeValidatingWebhookConfigurationList_OfParameters'', [NotNil ''c'']),
    (''validateNewKubeValidatingWebhookConfigurationListParameters'', [NotNil ''scope'', NotNil ''id'', NotNil ''props'', ValidStruct ''props''])]"

definition KubeValidatingWebhookConfigurationList_no_checks :: validators where
  "KubeValidatingWebhookConfigurationList_no_checks =
   [(''validateKubeValidatingWebhookConfigurationList_IsApiObjectParameters'', []),
    (''validateKubeValidatingWebhookConfigurationList_IsConstructParameters'', []),
    (''validateKubeValidatingWebhookConfigurationList_ManifestParameters'', []),
    (''validateKubeValidatingWebhookConfigurationList_OfParameters'', []),
    (''validateNewKubeValidatingWebhookConfigurationListParameters'', [])]"

lemma KubeValidatingWebhookConfigurationList_ok [class_checks]: "classOk (KubeValidatingWebhookConfigurationList, KubeValidatingWebhookConfigurationList_checks)"
  by (rule classRequired_I [where s = KubeValidatingWebhookConfigurationListProps], simp only: table_members)
    (simp_all only: KubeValidatingWebhookConfigurationList_def KubeValidatingWebhookConfigurationList_getters_def KubeValidatingWebhookConfigurationList_functions_def
      KubeValidatingWebhookConfigurationList_methods_def KubeValidatingWebhookConfigurationList_checks_def KubeValidatingWebhookConfigurationListProps_def class_eval)

lemma KubeValidatingWebhookConfigurationList_declared [class_interfaces]:
  "KubeValidatingWebhookConfigurationList_interface = apiObjectInterface ''KubeValidatingWebhookConfigurationList''"
  "KubeValidatingWebhookConfigurationList_no_checks = apiObjectNoChecks ''KubeValidatingWebhookConfigurationList''"
  by (simp_all only: KubeValidatingWebhookConfigurationList_interface_def KubeValidatingWebhookConfigurationList_no_checks_def declared_eval)

definition KubeVolumeAttachment_interface :: interface where
  "KubeVolumeAttachment_interface = Interface ''KubeVolumeAttachment'' [''cdk8s.ApiObject'']
   [Sig ''ApiGroup'' [] (Some (GoPtr GoString)), Sig ''ApiVersion'' [] (Some (GoPtr GoString)),
    Sig ''Chart'' [] (Some (GoNamed ''cdk8s.Chart'')), Sig ''Kind'' [] (Some (GoPtr GoString)),
    Sig ''Metadata'' [] (Some (GoNamed ''cdk8s.ApiObjectMetadataDefinition'')),
    Sig ''Name'' [] (Some (GoPtr GoString)), Sig ''Node'' [] (Some (GoNamed ''constructs.Node'')),
    Sig ''AddDependency'' [Rest ''dependencies'' (GoNamed ''constructs.IConstruct'')] None,
    Sig ''AddJsonPatch'' [Rest ''ops'' (GoNamed ''cdk8s.JsonPatch'')] None,
    Sig ''ToJson'' [] (Some GoAny), Sig ''ToString'' [] (Some (GoPtr GoString))]"

definition KubeVolumeAttachment_getters :: "gofun list" where
  "KubeVolumeAttachment_getters =
   [Method (Sig ''ApiGroup'' [] (Some (GoPtr GoString))) (Getter ''apiGroup''),
    Method (Sig ''ApiVersion'' [] (Some (GoPtr GoString))) (Getter ''apiVersion''),
    Method (Sig ''Chart'' [] (Some (GoNamed ''cdk8s.Chart''))) (Getter ''chart''),
    Method (Sig ''Kind'' [] (Some (GoPtr GoString))) (Getter ''kind''),
    Method (Sig ''Metadata'' [] (Some (GoNamed ''cdk8s.ApiObjectMetadataDefinition'')))
      (Getter ''metadata''),
    Method (Sig ''Name'' [] (Some (GoPtr GoString))) (Getter ''name''),
    Method (Sig ''Node'' [] (Some (GoNamed ''constructs.Node''))) (Getter ''node'')]"

definition KubeVolumeAttachment_functions :: "gofun list" where
  "KubeVolumeAttachment_functions =
   [Func (Sig ''NewKubeVolumeAttachment'' [
         Param ''scope'' (GoNamed ''constructs.Construct''), Param ''id'' (GoPtr GoString),
         Param ''props'' (GoPtr (GoNamed ''KubeVolumeAttachmentProps''))] (Some (GoNamed ''KubeVolumeAttachment'')))
      (Construct ''k8s.KubeVolumeAttachment'' [''scope'', ''id'', ''props''] ''validateNewKubeVolumeAttachmentParameters''),
    Func (Sig ''NewKubeVolumeAttachment_Override'' [
         Param ''k'' (GoNamed ''KubeVolumeAttachment''),
         Param ''scope'' (GoNamed ''constructs.Construct''), Param ''id'' (GoPtr GoString),
         Param ''props'' (GoPtr (GoNamed ''KubeVolumeAttachmentProps''))] None)
      (ConstructOverride ''k8s.KubeVolumeAttachment'' [''scope'', ''id'', ''props'']),
    Func (Sig ''KubeVolumeAttachment_IsApiObject'' [Param ''o'' GoAny] (Some (GoPtr GoBool)))
      (StaticCall ''k8s.KubeVolumeAttachment'' ''isApiObject'' [''o''] ''validateKubeVolumeAttachment_IsApiObjectParameters''),
    Func (Sig ''KubeVolumeAttachment_IsConstruct'' [Param ''x'' GoAny] (Some (GoPtr GoBool)))
      (StaticCall ''k8s.KubeVolumeAttachment'' ''isConstruct'' [''x''] ''validateKubeVolumeAttachment_IsConstructParameters''),
    Func (Sig ''KubeVolumeAttachment_Manifest'' [Param ''props'' (GoPtr (GoNamed ''KubeVolumeAttachmentProps''))] (Some GoAny))
      (StaticCall ''k8s.KubeVolumeAttachment'' ''manifest'' [''props''] ''validateKubeVolumeAttachment_ManifestParameters''),
    Func (Sig ''KubeVolumeAttachment_Of'' [Param ''c'' (GoNamed ''constructs.IConstruct'')] (Some (GoNamed ''cdk8s.ApiObject'')))
      (StaticCall ''k8s.KubeVolumeAttachment'' ''of'' [''c''] ''validateKubeVolumeAttachment_OfParameters''),
    Func (Sig ''KubeVolumeAttachment_GVK'' [] (Some (GoPtr (GoNamed ''cdk8s.GroupVersionKind''))))
      (StaticProp ''k8s.KubeVolumeAttachment'' ''GVK'')]"

definition KubeVolumeAttachment_methods :: "gofun list" where
  "KubeVolumeAttachment_methods =
   [Method (Sig ''AddDependency'' [Rest ''dependencies'' (GoNamed ''constructs.IConstruct'')] None)
      (Variadic ''addDependency''),
    Method (Sig ''AddJsonPatch'' [Rest ''ops'' (GoNamed ''cdk8s.JsonPatch'')] None)
      (Variadic ''addJsonPatch''),
    Method (Sig ''ToJson'' [] (Some GoAny)) (Plain ''toJson''),
    Method (Sig ''ToString'' [] (Some (GoPtr GoString))) (Plain ''toString'')]"

definition KubeVolumeAttachment :: binding where
  "KubeVolumeAttachment = Binding ''KubeVolumeAttachment'' [''internal.Type__cdk8sApiObject'']
     (KubeVolumeAttachment_getters @ KubeVolumeAttachment_functions @ KubeVolumeAttachment_methods)"

definition KubeVolumeAttachment_checks :: validators where
  "KubeVolumeAttachment_checks =
   [(''validateKubeVolumeAttachment_IsApiObjectParameters'', [NotNil ''o'']),
    (''validateKubeVolumeAttachment_IsConstructParameters'', [NotNil ''x'']),
    (''validateKubeVolumeAttachment_ManifestParameters'', [NotNil ''props'', ValidStruct ''props'']),
    (''validateKubeVolumeAttachment_OfParameters'', [NotNil ''c'']),
    (''validateNewKubeVolumeAttachmentParameters'', [NotNil ''scope'', NotNil ''id'', NotNil ''props'', ValidStruct ''props''])]"

definition KubeVolumeAttachment_no_checks :: validators where
  "KubeVolumeAttachment_no_checks =
   [(''validateKubeVolumeAttachment_IsApiObjectParameters'', []),
    (''validateKubeVolumeAttachment_IsConstructParameters'', []),
    (''validateKubeVolumeAttachment_ManifestParameters'', []),
    (''validateKubeVolumeAttachment_OfParameters'', []),
    (''validateNewKubeVolumeAttachmentParameters'', [])]"

lemma KubeVolumeAttachment_ok [class_checks]: "classOk (KubeVolumeAttachment, KubeVolumeAttachment_checks)"
  by (rule classRequired_I [where s = KubeVolumeAttachmentProps], simp only: table_members)
    (simp_all only: KubeVolumeAttachment_def KubeVolumeAttachment_getters_def KubeVolumeAttachment_functions_def
      KubeVolumeAttachment_methods_def KubeVolumeAttachment_checks_def KubeVolumeAttachmentProps_def class_eval)

lemma KubeVolumeAttachment_declared [class_interfaces]:
  "KubeVolumeAttachment_interface = apiObjectInterface ''KubeVolumeAttachment''"
  "KubeVolumeAttachment_no_checks = apiObjectNoChecks ''KubeVolumeAttachment''"
  by (simp_all only: KubeVolumeAttachment_interface_def KubeVolumeAttachment_no_checks_def declared_eval)

definition KubeVolumeAttachmentList_interface :: interface where
  "KubeVolumeAttachmentList_interface = Interface ''KubeVolumeAttachmentList'' [''cdk8s.ApiObject'']
   [Sig ''ApiGroup'' [] (Some (GoPtr GoString)), Sig ''ApiVersion'' [] (Some (GoPtr GoString)),
    Sig ''Chart'' [] (Some (GoNamed ''cdk8s.Chart'')), Sig ''Kind'' [] (Some (GoPtr GoString)),
    Sig ''Metadata'' [] (Some (GoNamed ''cdk8s.ApiObjectMetadataDefinition'')),
    Sig ''Name'' [] (Some (GoPtr GoString)), Sig ''Node'' [] (Some (GoNamed ''constructs.Node'')),
    Sig ''AddDependency'' [Rest ''dependencies'' (GoNamed ''constructs.IConstruct'')] None,
    Sig ''AddJsonPatch'' [Rest ''ops'' (GoNamed ''cdk8s.JsonPatch'')] None,
    Sig ''ToJson'' [] (Some GoAny), Sig ''ToString'' [] (Some (GoPtr GoString))]"

definition KubeVolumeAttachmentList_getters :: "gofun list" where
  "KubeVolumeAttachmentList_getters =
   [Method (Sig ''ApiGroup'' [] (Some (GoPtr GoString))) (Getter ''apiGroup''),
    Method (Sig ''ApiVersion'' [] (Some (GoPtr GoString))) (Getter ''apiVersion''),
    Method (Sig ''Chart'' [] (Some (GoNamed ''cdk8s.Chart''))) (Getter ''chart''),
    Method (Sig ''Kind'' [] (Some (GoPtr GoString))) (Getter ''kind''),
    Method (Sig ''Metadata'' [] (Some (GoNamed ''cdk8s.ApiObjectMetadataDefinition'')))
      (Getter ''metadata''),
    Method (Sig ''Name'' [] (Some (GoPtr GoString))) (Getter ''name''),
    Method (Sig ''Node'' [] (Some (GoNamed ''constructs.Node''))) (Getter ''node'')]"

definition KubeVolumeAttachmentList_functions :: "gofun list" where
  "KubeVolumeAttachmentList_functions =
   [Func (Sig ''NewKubeVolumeAttachmentList'' [
         Param ''scope'' (GoNamed ''constructs.Construct''), Param ''id'' (GoPtr GoString),
         Param ''props'' (GoPtr (GoNamed ''KubeVolumeAttachmentListProps''))] (Some (GoNamed ''KubeVolumeAttachmentList'')))
      (Construct ''k8s.KubeVolumeAttachmentList'' [''scope'', ''id'', ''props''] ''validateNewKubeVolumeAttachmentListParameters''),
    Func (Sig ''NewKubeVolumeAttachmentList_Override'' [
         Param ''k'' (GoNamed ''KubeVolumeAttachmentList''),
         Param ''scope'' (GoNamed ''constructs.Construct''), Param ''id'' (GoPtr GoString),
         Param ''props'' (GoPtr (GoNamed ''KubeVolumeAttachmentListProps''))] None)
      (ConstructOverride ''k8s.KubeVolumeAttachmentList'' [''scope'', ''id'', ''props'']),
    Func (Sig ''KubeVolumeAttachmentList_IsApiObject'' [Param ''o'' GoAny] (Some (GoPtr GoBool)))
      (StaticCall ''k8s.KubeVolumeAttachmentList'' ''isApiObject'' [''o''] ''validateKubeVolumeAttachmentList_IsApiObjectParameters''),
    Func (Sig ''KubeVolumeAttachmentList_IsConstruct'' [Param ''x'' GoAny] (Some (GoPtr GoBool)))
      (StaticCall ''k8s.KubeVolumeAttachmentList'' ''isConstruct'' [''x''] ''validateKubeVolumeAttachmentList_IsConstructParameters''),
    Func (Sig ''KubeVolumeAttachmentList_Manifest'' [Param ''props'' (GoPtr (GoNamed ''KubeVolumeAttachmentListProps''))] (Some GoAny))
      (StaticCall ''k8s.KubeVolumeAttachmentList'' ''manifest'' [''props''] ''validateKubeVolumeAttachmentList_ManifestParameters''),
    Func (Sig ''KubeVolumeAttachmentList_Of'' [Param ''c'' (GoNamed ''constructs.IConstruct'')] (Some (GoNamed ''cdk8s.ApiObject'')))
      (StaticCall ''k8s.KubeVolumeAttachmentList'' ''of'' [''c''] ''validateKubeVolumeAttachmentList_OfParameters''),
    Func (Sig ''KubeVolumeAttachmentList_GVK'' [] (Some (GoPtr (GoNamed ''cdk8s.GroupVersionKind''))))
      (StaticProp ''k8s.KubeVolumeAttachmentList'' ''GVK'')]"

definition KubeVolumeAttachmentList_methods :: "gofun list" where
  "KubeVolumeAttachmentList_methods =
   [Method (Sig ''AddDependency'' [Rest ''dependencies'' (GoNamed ''constructs.IConstruct'')] None)
      (Variadic ''addDependency''),
    Method (Sig ''AddJsonPatch'' [Rest ''ops'' (GoNamed ''cdk8s.JsonPatch'')] None)
      (Variadic ''addJsonPatch''),
    Method (Sig ''ToJson'' [] (Some GoAny)) (Plain ''toJson''),
    Method (Sig ''ToString'' [] (Some (GoPtr GoString))) (Plain ''toString'')]"

definition KubeVolumeAttachmentList :: binding where
  "KubeVolumeAttachmentList = Binding ''KubeVolumeAttachmentList'' [''internal.Type__cdk8sApiObject'']
     (KubeVolumeAttachmentList_getters @ KubeVolumeAttachmentList_functions @ KubeVolumeAttachmentList_methods)"

definition KubeVolumeAttachmentList_checks :: validators where
  "KubeVolumeAttachmentList_checks =
   [(''validateKubeVolumeAttachmentList_IsApiObjectParameters'', [NotNil ''o'']),
    (''validateKubeVolumeAttachmentList_IsConstructParameters'', [NotNil ''x'']),
    (''validateKubeVolumeAttachmentList_ManifestParameters'', [NotNil ''props'', ValidStruct ''props'']),
    (''validateKubeVolumeAttachmentList_OfParameters'', [NotNil ''c'']),
    (''validateNewKubeVolumeAttachmentListParameters'', [NotNil ''scope'', NotNil ''id'', NotNil ''props'', ValidStruct ''props''])]"

definition KubeVolumeAttachmentList_no_checks :: validators where
  "KubeVolumeAttachmentList_no_checks =
   [(''validateKubeVolumeAttachmentList_IsApiObjectParameters'', []),
    (''validateKubeVolumeAttachmentList_IsConstructParameters'', []),
    (''validateKubeVolumeAttachmentList_ManifestParameters'', []),
    (''validateKubeVolumeAttachmentList_OfParameters'', []),
    (''validateNewKubeVolumeAttachmentListParameters'', [])]"

lemma KubeVolumeAttachmentList_ok [class_checks]: "classOk (KubeVolumeAttachmentList, KubeVolumeAttachmentList_checks)"
  by (rule classRequired_I [where s = KubeVolumeAttachmentListProps], simp only: table_members)
    (simp_all only: KubeVolumeAttachmentList_def KubeVolumeAttachmentList_getters_def KubeVolumeAttachmentList_functions_def
      KubeVolumeAttachmentList_methods_def KubeVolumeAttachmentList_checks_def KubeVolumeAttachmentListProps_def class_eval)

lemma KubeVolumeAttachmentList_declared [class_interfaces]:
  "KubeVolumeAttachmentList_interface = apiObjectInterface ''KubeVolumeAttachmentList''"
  "KubeVolumeAttachmentList_no_checks = apiObjectNoChecks ''KubeVolumeAttachmentList''"
  by (simp_all only: KubeVolumeAttachmentList_interface_def KubeVolumeAttachmentList_no_checks_def declared_eval)

definition classes_F :: "(binding \<times> validators) list" where
  "classes_F =
   [(KubeSelfSubjectAccessReview, KubeSelfSubjectAccessReview_checks),
    (KubeSelfSubjectRulesReview, KubeSelfSubjectRulesReview_checks),
    (KubeService, KubeService_checks), (KubeServiceAccount, KubeServiceAccount_checks),
    (KubeServiceAccountList, KubeServiceAccountList_checks),
    (KubeServiceList, KubeServiceList_checks), (KubeStatefulSet, KubeStatefulSet_checks),
    (KubeStatefulSetList, KubeStatefulSetList_checks), (KubeStatus, KubeStatus_checks),
    (KubeStorageClass, KubeStorageClass_checks),
    (KubeStorageClassList, KubeStorageClassList_checks),
    (KubeStorageVersionListV1Alpha1, KubeStorageVersionListV1Alpha1_checks),
    (KubeStorageVersionV1Alpha1, KubeStorageVersionV1Alpha1_checks),
    (KubeSubjectAccessReview, KubeSubjectAccessReview_checks),
    (KubeTokenRequest, KubeTokenRequest_checks), (KubeTokenReview, KubeTokenReview_checks),
    (KubeValidatingWebhookConfiguration, KubeValidatingWebhookConfiguration_checks),
    (KubeValidatingWebhookConfigurationList, KubeValidatingWebhookConfigurationList_checks),
    (KubeVolumeAttachment, KubeVolumeAttachment_checks),
    (KubeVolumeAttachmentList, KubeVolumeAttachmentList_checks)]"

lemma classes_F_ok [class_tables]: "list_all classOk classes_F"
  by (simp only: classes_F_def list.pred_inject class_checks HOL.simp_thms)

lemma classes_F_names [class_names]: "map (\<lambda>c. bindingName (fst c)) classes_F =
    [''KubeSelfSubjectAccessReview'', ''KubeSelfSubjectRulesReview'', ''KubeService'',
     ''KubeServiceAccount'', ''KubeServiceAccountList'', ''KubeServiceList'', ''KubeStatefulSet'',
     ''KubeStatefulSetList'', ''KubeStatus'', ''KubeStorageClass'', ''KubeStorageClassList'',
     ''KubeStorageVersionListV1Alpha1'', ''KubeStorageVersionV1Alpha1'', ''KubeSubjectAccessReview'',
     ''KubeTokenRequest'', ''KubeTokenReview'', ''KubeValidatingWebhookConfiguration'',
     ''KubeValidatingWebhookConfigurationList'', ''KubeVolumeAttachment'',
     ''KubeVolumeAttachmentList'']"
  by (simp only: classes_F_def list.map fst_conv bindingName.simps
    KubeSelfSubjectAccessReview_def KubeSelfSubjectRulesReview_def KubeService_def
      KubeServiceAccount_def KubeServiceAccountList_def KubeServiceList_def KubeStatefulSet_def
      KubeStatefulSetList_def KubeStatus_def KubeStorageClass_def KubeStorageClassList_def
      KubeStorageVersionListV1Alpha1_def KubeStorageVersionV1Alpha1_def KubeSubjectAccessReview_def
      KubeTokenRequest_def KubeTokenReview_def KubeValidatingWebhookConfiguration_def
      KubeValidatingWebhookConfigurationList_def KubeVolumeAttachment_def KubeVolumeAttachmentList_def)

definition interfaces_F :: "interface list" where
  "interfaces_F =
   [KubeSelfSubjectAccessReview_interface, KubeSelfSubjectRulesReview_interface,
    KubeService_interface, KubeServiceAccount_interface, KubeServiceAccountList_interface,
    KubeServiceList_interface, KubeStatefulSet_interface, KubeStatefulSetList_interface,
    KubeStatus_interface, KubeStorageClass_interface, KubeStorageClassList_interface,
    KubeStorageVersionListV1Alpha1_interface, KubeStorageVersionV1Alpha1_interface,
    KubeSubjectAccessReview_interface, KubeTokenRequest_interface, KubeTokenReview_interface,
    KubeValidatingWebhookConfiguration_interface, KubeValidatingWebhookConfigurationList_interface,
    KubeVolumeAttachment_interface, KubeVolumeAttachmentList_interface]"

definition unchecked_F :: "(string \<times> validators) list" where
  "unchecked_F =
   [(''KubeSelfSubjectAccessReview'', KubeSelfSubjectAccessReview_no_checks),
    (''KubeSelfSubjectRulesReview'', KubeSelfSubjectRulesReview_no_checks),
    (''KubeService'', KubeService_no_checks),
    (''KubeServiceAccount'', KubeServiceAccount_no_checks),
    (''KubeServiceAccountList'', KubeServiceAccountList_no_checks),
    (''KubeServiceList'', KubeServiceList_no_checks),
    (''KubeStatefulSet'', KubeStatefulSet_no_checks),
    (''KubeStatefulSetList'', KubeStatefulSetList_no_checks),
    (''KubeStatus'', KubeStatus_no_checks), (''KubeStorageClass'', KubeStorageClass_no_checks),
    (''KubeStorageClassList'', KubeStorageClassList_no_checks),
    (''KubeStorageVersionListV1Alpha1'', KubeStorageVersionListV1Alpha1_no_checks),
    (''KubeStorageVersionV1Alpha1'', KubeStorageVersionV1Alpha1_no_checks),
    (''KubeSubjectAccessReview'', KubeSubjectAccessReview_no_checks),
    (''KubeTokenRequest'', KubeTokenRequest_no_checks),
    (''KubeTokenReview'', KubeTokenReview_no_checks),
    (''KubeValidatingWebhookConfiguration'', KubeValidatingWebhookConfiguration_no_checks),
    (''KubeValidatingWebhookConfigurationList'', KubeValidatingWebhookConfigurationList_no_checks),
    (''KubeVolumeAttachment'', KubeVolumeAttachment_no_checks),
    (''KubeVolumeAttachmentList'', KubeVolumeAttachmentList_no_checks)]"

lemma interfaces_F [class_tables]:
  "interfaces_F = map (\<lambda>c. apiObjectInterface (bindingName (fst c))) classes_F"
  "unchecked_F = map (\<lambda>c. (bindingName (fst c), apiObjectNoChecks (bindingName (fst c)))) classes_F"
  by (simp_all only: interfaces_F_def unchecked_F_def classes_F_def list.map fst_conv bindingName.simps class_interfaces
    KubeSelfSubjectAccessReview_def KubeSelfSubjectRulesReview_def KubeService_def
      KubeServiceAccount_def KubeServiceAccountList_def KubeServiceList_def KubeStatefulSet_def
      KubeStatefulSetList_def KubeStatus_def KubeStorageClass_def KubeStorageClassList_def
      KubeStorageVersionListV1Alpha1_def KubeStorageVersionV1Alpha1_def KubeSubjectAccessReview_def
      KubeTokenRequest_def KubeTokenReview_def KubeValidatingWebhookConfiguration_def
      KubeValidatingWebhookConfigurationList_def KubeVolumeAttachment_def KubeVolumeAttachmentList_def)

end
