(* ===== verification/KubeClasses.thy ===== *)
theory KubeClasses
  imports KubeClassesA KubeClassesB KubeClassesC KubeClassesD KubeClassesE KubeClassesF
begin

text \<open>
  All API object classes of the Kubernetes bindings of the sample application, and how they agree with
  the registrations of \<open>K8sInit\<close> and the structs of \<open>K8sTypes\<close>.
\<close>

definition kubeClasses :: "(binding \<times> validators) list" where
  "kubeClasses = classes_A @ classes_B @ classes_C @ classes_D @ classes_E @ classes_F"

definition kubeInterfaces :: "interface list" where
  "kubeInterfaces = interfaces_A @ interfaces_B @ interfaces_C @ interfaces_D @ interfaces_E @ interfaces_F"

definition kubeUnchecked :: "(string \<times> validators) list" where
  "kubeUnchecked = unchecked_A @ unchecked_B @ unchecked_C @ unchecked_D @ unchecked_E @ unchecked_F"

section \<open>The groups together\<close>

lemma kubeClasses_ok: "list_all classOk kubeClasses"
  unfolding kubeClasses_def by (simp only: list_all_append HOL.simp_thms class_tables)

lemma init_1_classes [class_names]:
  "map goType (filter isApiObject init_1) = []"
  by (simp only: init_1_def filter_isApiObject hasPrefix_Kube if_True if_False list.map goType.simps)

lemma init_2_classes [class_names]:
  "map goType (filter isApiObject init_2) = []"
  by (simp only: init_2_def filter_isApiObject hasPrefix_Kube if_True if_False list.map goType.simps)

lemma init_3_classes [class_names]:
  "map goType (filter isApiObject init_3) = []"
  by (simp only: init_3_def filter_isApiObject hasPrefix_Kube if_True if_False list.map goType.simps)

lemma init_4_classes [class_names]:
  "map goType (filter isApiObject init_4) = [''KubeApiService'', ''KubeApiServiceList'', ''KubeBinding'']"
  by (simp only: init_4_def filter_isApiObject hasPrefix_Kube if_True if_False list.map goType.simps)

lemma init_5_classes [class_names]:
  "map goType (filter isApiObject init_5) = [''KubeCertificateSigningRequest'', ''KubeCertificateSigningRequestList'',
     ''KubeClusterCidrListV1Alpha1'', ''KubeClusterCidrv1Alpha1'']"
  by (simp only: init_5_def filter_isApiObject hasPrefix_Kube if_True if_False list.map goType.simps)

lemma init_6_classes [class_names]:
  "map goType (filter isApiObject init_6) = [''KubeClusterRole'', ''KubeClusterRoleBinding'', ''KubeClusterRoleBindingList'',
     ''KubeClusterRoleList'']"
  by (simp only: init_6_def filter_isApiObject hasPrefix_Kube if_True if_False list.map goType.simps)

lemma init_7_classes [class_names]:
  "map goType (filter isApiObject init_7) = [''KubeComponentStatus'', ''KubeComponentStatusList'', ''KubeConfigMap'', ''KubeConfigMapList'']"
  by (simp only: init_7_def filter_isApiObject hasPrefix_Kube if_True if_False list.map goType.simps)

lemma init_8_classes [class_names]:
  "map goType (filter isApiObject init_8) = [''KubeControllerRevision'', ''KubeControllerRevisionList'', ''KubeCronJob'', ''KubeCronJobList'']"
  by (simp only: init_8_def filter_isApiObject hasPrefix_Kube if_True if_False list.map goType.simps)

lemma init_9_classes [class_names]:
  "map goType (filter isApiObject init_9) = [''KubeCsiDriver'', ''KubeCsiDriverList'', ''KubeCsiNode'', ''KubeCsiNodeList'']"
  by (simp only: init_9_def filter_isApiObject hasPrefix_Kube if_True if_False list.map goType.simps)

lemma init_10_classes [class_names]:
  "map goType (filter isApiObject init_10) = [''KubeCsiStorageCapacity'', ''KubeCsiStorageCapacityList'',
     ''KubeCsiStorageCapacityListV1Beta1'', ''KubeCsiStorageCapacityV1Beta1'']"
  by (simp only: init_10_def filter_isApiObject hasPrefix_Kube if_True if_False list.map goType.simps)

lemma init_11_classes [class_names]:
  "map goType (filter isApiObject init_11) = [''KubeCustomResourceDefinition'', ''KubeCustomResourceDefinitionList'', ''KubeDaemonSet'',
     ''KubeDaemonSetList'']"
  by (simp only: init_11_def filter_isApiObject hasPrefix_Kube if_True if_False list.map goType.simps)

lemma init_12_classes [class_names]:
  "map goType (filter isApiObject init_12) = [''KubeDeployment'', ''KubeDeploymentList'', ''KubeEndpointSlice'', ''KubeEndpointSliceList'']"
  by (simp only: init_12_def filter_isApiObject hasPrefix_Kube if_True if_False list.map goType.simps)

lemma init_13_classes [class_names]:
  "map goType (filter isApiObject init_13) = [''KubeEndpoints'', ''KubeEndpointsList'', ''KubeEvent'', ''KubeEventList'', ''KubeEviction'']"
  by (simp only: init_13_def filter_isApiObject hasPrefix_Kube if_True if_False list.map goType.simps)

lemma init_14_classes [class_names]:
  "map goType (filter isApiObject init_14) = [''KubeFlowSchemaListV1Beta1'', ''KubeFlowSchemaListV1Beta2'', ''KubeFlowSchemaV1Beta1'',
     ''KubeFlowSchemaV1Beta2'']"
  by (simp only: init_14_def filter_isApiObject hasPrefix_Kube if_True if_False list.map goType.simps)

lemma init_15_classes [class_names]:
  "map goType (filter isApiObject init_15) = [''KubeHorizontalPodAutoscaler'', ''KubeHorizontalPodAutoscalerList'',
     ''KubeHorizontalPodAutoscalerListV2'', ''KubeHorizontalPodAutoscalerListV2Beta2'']"
  by (simp only: init_15_def filter_isApiObject hasPrefix_Kube if_True if_False list.map goType.simps)

lemma init_16_classes [class_names]:
  "map goType (filter isApiObject init_16) = [''KubeHorizontalPodAutoscalerV2'', ''KubeHorizontalPodAutoscalerV2Beta2'']"
  by (simp only: init_16_def filter_isApiObject hasPrefix_Kube if_True if_False list.map goType.simps)

lemma init_17_classes [class_names]:
  "map goType (filter isApiObject init_17) = [''KubeIngress'', ''KubeIngressClass'', ''KubeIngressClassList'', ''KubeIngressList'']"
  by (simp only: init_17_def filter_isApiObject hasPrefix_Kube if_True if_False list.map goType.simps)

lemma init_18_classes [class_names]:
  "map goType (filter isApiObject init_18) = [''KubeJob'', ''KubeJobList'', ''KubeLease'', ''KubeLeaseList'']"
  by (simp only: init_18_def filter_isApiObject hasPrefix_Kube if_True if_False list.map goType.simps)

lemma init_19_classes [class_names]:
  "map goType (filter isApiObject init_19) = [''KubeLimitRange'', ''KubeLimitRangeList'', ''KubeLocalSubjectAccessReview'',
     ''KubeMutatingWebhookConfiguration'', ''KubeMutatingWebhookConfigurationList'']"
  by (simp only: init_19_def filter_isApiObject hasPrefix_Kube if_True if_False list.map goType.simps)

lemma init_20_classes [class_names]:
  "map goType (filter isApiObject init_20) = [''KubeNamespace'', ''KubeNamespaceList'', ''KubeNetworkPolicy'', ''KubeNetworkPolicyList'']"
  by (simp only: init_20_def filter_isApiObject hasPrefix_Kube if_True if_False list.map goType.simps)

lemma init_21_classes [class_names]:
  "map goType (filter isApiObject init_21) = [''KubeNode'', ''KubeNodeList'']"
  by (simp only: init_21_def filter_isApiObject hasPrefix_Kube if_True if_False list.map goType.simps)

lemma init_22_classes [class_names]:
  "map goType (filter isApiObject init_22) = [''KubePersistentVolume'', ''KubePersistentVolumeClaim'', ''KubePersistentVolumeClaimList'',
     ''KubePersistentVolumeList'']"
  by (simp only: init_22_def filter_isApiObject hasPrefix_Kube if_True if_False list.map goType.simps)

lemma init_23_classes [class_names]:
  "map goType (filter isApiObject init_23) = [''KubePod'', ''KubePodDisruptionBudget'', ''KubePodDisruptionBudgetList'', ''KubePodList'']"
  by (simp only: init_23_def filter_isApiObject hasPrefix_Kube if_True if_False list.map goType.simps)

lemma init_24_classes [class_names]:
  "map goType (filter isApiObject init_24) = [''KubePodTemplate'', ''KubePodTemplateList'', ''KubePriorityClass'', ''KubePriorityClassList'',
     ''KubePriorityLevelConfigurationListV1Beta1'']"
  by (simp only: init_24_def filter_isApiObject hasPrefix_Kube if_True if_False list.map goType.simps)

lemma init_25_classes [class_names]:
  "map goType (filter isApiObject init_25) = [''KubePriorityLevelConfigurationListV1Beta2'', ''KubePriorityLevelConfigurationV1Beta1'',
     ''KubePriorityLevelConfigurationV1Beta2'', ''KubeReplicaSet'', ''KubeReplicaSetList'']"
  by (simp only: init_25_def filter_isApiObject hasPrefix_Kube if_True if_False list.map goType.simps)

lemma init_26_classes [class_names]:
  "map goType (filter isApiObject init_26) = [''KubeReplicationController'', ''KubeReplicationControllerList'', ''KubeResourceQuota'',
     ''KubeResourceQuotaList'']"
  by (simp only: init_26_def filter_isApiObject hasPrefix_Kube if_True if_False list.map goType.simps)

lemma init_27_classes [class_names]:
  "map goType (filter isApiObject init_27) = [''KubeRole'', ''KubeRoleBinding'', ''KubeRoleBindingList'', ''KubeRoleList'']"
  by (simp only: init_27_def filter_isApiObject hasPrefix_Kube if_True if_False list.map goType.simps)

lemma init_28_classes [class_names]:
  "map goType (filter isApiObject init_28) = [''KubeRuntimeClass'', ''KubeRuntimeClassList'', ''KubeScale'', ''KubeSecret'',
     ''KubeSecretList'']"
  by (simp only: init_28_def filter_isApiObject hasPrefix_Kube if_True if_False list.map goType.simps)

lemma init_29_classes [class_names]:
  "map goType (filter isApiObject init_29) = [''KubeSelfSubjectAccessReview'', ''KubeSelfSubjectRulesReview'']"
  by (simp only: init_29_def filter_isApiObject hasPrefix_Kube if_True if_False list.map goType.simps)

lemma init_30_classes [class_names]:
  "map goType (filter isApiObject init_30) = [''KubeService'', ''KubeServiceAccount'', ''KubeServiceAccountList'', ''KubeServiceList'']"
  by (simp only: init_30_def filter_isApiObject hasPrefix_Kube if_True if_False list.map goType.simps)

lemma init_31_classes [class_names]:
  "map goType (filter isApiObject init_31) = [''KubeStatefulSet'', ''KubeStatefulSetList'', ''KubeStatus'', ''KubeStorageClass'',
     ''KubeStorageClassList'']"
  by (simp only: init_31_def filter_isApiObject hasPrefix_Kube if_True if_False list.map goType.simps)

lemma init_32_classes [class_names]:
  "map goType (filter isApiObject init_32) = [''KubeStorageVersionListV1Alpha1'', ''KubeStorageVersionV1Alpha1'', ''KubeSubjectAccessReview'',
     ''KubeTokenRequest'', ''KubeTokenReview'']"
  by (simp only: init_32_def filter_isApiObject hasPrefix_Kube if_True if_False list.map goType.simps)

lemma init_33_classes [class_names]:
  "map goType (filter isApiObject init_33) = [''KubeValidatingWebhookConfiguration'', ''KubeValidatingWebhookConfigurationList'',
     ''KubeVolumeAttachment'', ''KubeVolumeAttachmentList'']"
  by (simp only: init_33_def filter_isApiObject hasPrefix_Kube if_True if_False list.map goType.simps)

lemma init_34_classes [class_names]:
  "map goType (filter isApiObject init_34) = []"
  by (simp only: init_34_def filter_isApiObject hasPrefix_Kube if_True if_False list.map goType.simps)

lemma init_35_classes [class_names]:
  "map goType (filter isApiObject init_35) = []"
  by (simp only: init_35_def filter_isApiObject hasPrefix_Kube if_True if_False list.map goType.simps)

lemma init_36_classes [class_names]:
  "map goType (filter isApiObject init_36) = []"
  by (simp only: init_36_def filter_isApiObject hasPrefix_Kube if_True if_False list.map goType.simps)

lemma init_37_classes [class_names]:
  "map goType (filter isApiObject init_37) = []"
  by (simp only: init_37_def filter_isApiObject hasPrefix_Kube if_True if_False list.map goType.simps)

lemma init_38_classes [class_names]:
  "map goType (filter isApiObject init_38) = []"
  by (simp only: init_38_def filter_isApiObject hasPrefix_Kube if_True if_False list.map goType.simps)

lemma kubeClasses_names: "map (\<lambda>c. bindingName (fst c)) kubeClasses = map goType (filter isApiObject init)"
  unfolding kubeClasses_def init_def
  by (simp only: map_append filter_append class_names append.simps)

lemma isApiObject_prefix: "isApiObject g \<Longrightarrow> hasPrefix (goType g) ''Kube''"
  by (cases g) (simp_all add: isApiObject_def)

lemma kubeClasses_D:
  assumes "(b, vs) \<in> set kubeClasses"
  shows "b = apiObjectBinding (bindingName b)" and "hasPrefix (bindingName b) ''Kube''"
    and "s \<in> set structTable \<Longrightarrow> structName s = bindingName b @ ''Props'' \<Longrightarrow>
      vs = apiObjectChecks (bindingName b) (anyRequired s)"
proof -
  have ok: "classOk (b, vs)" using kubeClasses_ok assms by (auto simp: list_all_iff)
  then show "b = apiObjectBinding (bindingName b)" by simp
  have "bindingName b \<in> set (map goType (filter isApiObject init))"
    unfolding kubeClasses_names [symmetric] using assms by force
  then show "hasPrefix (bindingName b) ''Kube''" using isApiObject_prefix by auto
  assume s: "s \<in> set structTable" "structName s = bindingName b @ ''Props''"
  obtain s' where s': "s' \<in> set structTable" "structName s' = bindingName b @ ''Props''"
      "vs = apiObjectChecks (bindingName b) (anyRequired s')"
    using ok by auto
  have "s = s'" using table_distinct s s'(1,2) by (metis distinct_map inj_onD)
  then show "vs = apiObjectChecks (bindingName b) (anyRequired s)" using s'(3) by simp
qed

section \<open>Classes and registrations\<close>

fun memberFun :: "member \<Rightarrow> (string \<times> wrapper) list" where
  "memberFun (MemberProperty js go) = [(go, Getter js)]"
| "memberFun (MemberMethod js go) = [(go, Variadic js), (go, Plain js)]"

fun wrapperClass :: "wrapper \<Rightarrow> string option" where
  "wrapperClass (Construct f ps v) = Some f"
| "wrapperClass (ConstructOverride f ps) = Some f"
| "wrapperClass (StaticCall f m ps v) = Some f"
| "wrapperClass (StaticProp f p) = Some f"
| "wrapperClass _ = None"

definition matches :: "binding \<Rightarrow> registration \<Rightarrow> bool" where
  "matches b g = (case g of
      RegisterClass n t ms k \<Rightarrow> t = bindingName b \<and>
        list_all (\<lambda>m. list_ex (\<lambda>f. f \<in> set (bindingFuns b)) (memberFun m)) ms \<and>
        list_all (\<lambda>f. wrapperClass (snd f) \<in> {None, Some n}) (bindingFuns b)
    | _ \<Rightarrow> False)"

lemma apiObject_entries:
  "bindingFuns (apiObjectBinding t) =
    [(''ApiGroup'', Getter ''apiGroup''), (''ApiVersion'', Getter ''apiVersion''), (''Chart'', Getter ''chart''),
     (''Kind'', Getter ''kind''), (''Metadata'', Getter ''metadata''), (''Name'', Getter ''name''),
     (''Node'', Getter ''node''),
     (''New'' @ t, Construct (''k8s.'' @ t) [''scope'', ''id'', ''props''] (''validateNew'' @ t @ ''Parameters'')),
     (''New'' @ t @ ''_Override'', ConstructOverride (''k8s.'' @ t) [''scope'', ''id'', ''props'']),
     (t @ ''_IsApiObject'', StaticCall (''k8s.'' @ t) ''isApiObject'' [''o'']
        (''validate'' @ t @ ''_IsApiObjectParameters'')),
     (t @ ''_IsConstruct'', StaticCall (''k8s.'' @ t) ''isConstruct'' [''x'']
        (''validate'' @ t @ ''_IsConstructParameters'')),
     (t @ ''_Manifest'', StaticCall (''k8s.'' @ t) ''manifest'' [''props'']
        (''validate'' @ t @ ''_ManifestParameters'')),
     (t @ ''_Of'', StaticCall (''k8s.'' @ t) ''of'' [''c''] (''validate'' @ t @ ''_OfParameters'')),
     (t @ ''_GVK'', StaticProp (''k8s.'' @ t) ''GVK''),
     (''AddDependency'', Variadic ''addDependency''), (''AddJsonPatch'', Variadic ''addJsonPatch''),
     (''ToJson'', Plain ''toJson''), (''ToString'', Plain ''toString'')]"
  by (simp only: bindingFuns_def apiObjectBinding_def apiObjectGetters_def apiObjectFunctions_def
    apiObjectMethods_def bindingDecls.simps append.simps list.map funEntry.simps sigName.simps)

lemma apiObject_funs:
  "(''AddDependency'', Variadic ''addDependency'') \<in> set (bindingFuns (apiObjectBinding t))"
  "(''AddJsonPatch'', Variadic ''addJsonPatch'') \<in> set (bindingFuns (apiObjectBinding t))"
  "(''ApiGroup'', Getter ''apiGroup'') \<in> set (bindingFuns (apiObjectBinding t))"
  "(''ApiVersion'', Getter ''apiVersion'') \<in> set (bindingFuns (apiObjectBinding t))"
  "(''Chart'', Getter ''chart'') \<in> set (bindingFuns (apiObjectBinding t))"
  "(''Kind'', Getter ''kind'') \<in> set (bindingFuns (apiObjectBinding t))"
  "(''Metadata'', Getter ''metadata'') \<in> set (bindingFuns (apiObjectBinding t))"
  "(''Name'', Getter ''name'') \<in> set (bindingFuns (apiObjectBinding t))"
  "(''Node'', Getter ''node'') \<in> set (bindingFuns (apiObjectBinding t))"
  "(''ToJson'', Plain ''toJson'') \<in> set (bindingFuns (apiObjectBinding t))"
  "(''ToString'', Plain ''toString'') \<in> set (bindingFuns (apiObjectBinding t))"
  unfolding apiObject_entries by (rule list.set_intros)+

lemma apiObject_classes:
  "list_all (\<lambda>f. wrapperClass (snd f) \<in> {None, Some (''k8s.'' @ t)}) (bindingFuns (apiObjectBinding t))"
  unfolding apiObject_entries
  by (simp only: list.pred_inject snd_conv wrapperClass.simps insert_iff empty_iff simp_thms)

lemma list_ex_short: "list_ex P [x] = P x" "list_ex P [x, y] = (P x \<or> P y)"
  by simp_all

lemma apiObject_members:
  "list_all (\<lambda>m. list_ex (\<lambda>f. f \<in> set (bindingFuns (apiObjectBinding t))) (memberFun m)) apiObjectMembers"
  unfolding apiObjectMembers_def
  by (simp only: list.pred_inject memberFun.simps list_ex_short apiObject_funs simp_thms)

lemma apiObject_matches:
  assumes "wellNamed g" and "wellMade g" and "isApiObject g"
  shows "matches (apiObjectBinding (goType g)) g"
proof (cases g)
  case (RegisterClass n t ms k)
  obtain p es where "k = NewProxy p es" by (cases k)
  then have "ms = apiObjectMembers"
    using assms(2,3) unfolding RegisterClass wellMade_def by (simp only: registration.case maker.case if_True)
  moreover have "n = ''k8s.'' @ t" using assms(1) RegisterClass by (simp add: wellNamed_def)
  moreover have "bindingName (apiObjectBinding t) = t" by (simp add: apiObjectBinding_def)
  ultimately show ?thesis
    using apiObject_members [of t] apiObject_classes [of t] by (simp only: RegisterClass matches_def
        registration.case goType.simps simp_thms)
qed (use assms(3) in \<open>simp_all add: isApiObject_def\<close>)

section \<open>The two value classes\<close>

definition IntOrString :: binding where
  "IntOrString = Binding ''IntOrString'' []
   [Method (Sig ''Value'' [] (Some GoAny)) (Getter ''value''),
    Func (Sig ''IntOrString_FromNumber'' [Param ''value'' (GoPtr GoFloat64)] (Some (GoNamed ''IntOrString'')))
      (StaticCall ''k8s.IntOrString'' ''fromNumber'' [''value''] ''validateIntOrString_FromNumberParameters''),
    Func (Sig ''IntOrString_FromString'' [Param ''value'' (GoPtr GoString)] (Some (GoNamed ''IntOrString'')))
      (StaticCall ''k8s.IntOrString'' ''fromString'' [''value''] ''validateIntOrString_FromStringParameters'')]"

definition IntOrString_interface :: interface where
  "IntOrString_interface = Interface ''IntOrString'' [] [Sig ''Value'' [] (Some GoAny)]"

definition IntOrString_no_checks :: validators where
  "IntOrString_no_checks =
   [(''validateIntOrString_FromNumberParameters'', []), (''validateIntOrString_FromStringParameters'', [])]"

definition IntOrString_checks :: validators where
  "IntOrString_checks =
   [(''validateIntOrString_FromNumberParameters'', [NotNil ''value'']),
    (''validateIntOrString_FromStringParameters'', [NotNil ''value''])]"

definition Quantity :: binding where
  "Quantity = Binding ''Quantity'' []
   [Method (Sig ''Value'' [] (Some GoAny)) (Getter ''value''),
    Func (Sig ''Quantity_FromNumber'' [Param ''value'' (GoPtr GoFloat64)] (Some (GoNamed ''Quantity'')))
      (StaticCall ''k8s.Quantity'' ''fromNumber'' [''value''] ''validateQuantity_FromNumberParameters''),
    Func (Sig ''Quantity_FromString'' [Param ''value'' (GoPtr GoString)] (Some (GoNamed ''Quantity'')))
      (StaticCall ''k8s.Quantity'' ''fromString'' [''value''] ''validateQuantity_FromStringParameters'')]"

definition Quantity_interface :: interface where
  "Quantity_interface = Interface ''Quantity'' [] [Sig ''Value'' [] (Some GoAny)]"

definition Quantity_no_checks :: validators where
  "Quantity_no_checks =
   [(''validateQuantity_FromNumberParameters'', []), (''validateQuantity_FromStringParameters'', [])]"

definition Quantity_checks :: validators where
  "Quantity_checks =
   [(''validateQuantity_FromNumberParameters'', [NotNil ''value'']),
    (''validateQuantity_FromStringParameters'', [NotNil ''value''])]"

definition valueClasses :: "(binding \<times> validators) list" where
  "valueClasses = [(IntOrString, IntOrString_checks), (Quantity, Quantity_checks)]"

definition valueInterfaces :: "interface list" where
  "valueInterfaces = [IntOrString_interface, Quantity_interface]"

lemma value_registrations:
  "RegisterClass ''k8s.IntOrString'' ''IntOrString'' [MemberProperty ''value'' ''Value'']
     (NewProxy ''jsiiProxy_IntOrString'' []) \<in> set init"
  "RegisterClass ''k8s.Quantity'' ''Quantity'' [MemberProperty ''value'' ''Value'']
     (NewProxy ''jsiiProxy_Quantity'' []) \<in> set init"
proof -
  have "RegisterClass ''k8s.IntOrString'' ''IntOrString'' [MemberProperty ''value'' ''Value'']
      (NewProxy ''jsiiProxy_IntOrString'' []) \<in> set init_3"
    unfolding init_3_def by (rule list.set_intros)+
  then show "RegisterClass ''k8s.IntOrString'' ''IntOrString'' [MemberProperty ''value'' ''Value'']
      (NewProxy ''jsiiProxy_IntOrString'' []) \<in> set init" by (simp add: init_def)
  have "RegisterClass ''k8s.Quantity'' ''Quantity'' [MemberProperty ''value'' ''Value'']
      (NewProxy ''jsiiProxy_Quantity'' []) \<in> set init_35"
    unfolding init_35_def by (rule list.set_intros)+
  then show "RegisterClass ''k8s.Quantity'' ''Quantity'' [MemberProperty ''value'' ''Value'']
      (NewProxy ''jsiiProxy_Quantity'' []) \<in> set init" by (simp add: init_def)
qed

lemma value_classes_match: "list_all (\<lambda>c. list_ex (matches (fst c)) init) valueClasses"
proof -
  have "list_ex (matches IntOrString) init"
    unfolding list_ex_iff by (rule bexI [OF _ value_registrations(1)]) (simp add: matches_def IntOrString_def bindingFuns_def)
  moreover have "list_ex (matches Quantity) init"
    unfolding list_ex_iff by (rule bexI [OF _ value_registrations(2)]) (simp add: matches_def Quantity_def bindingFuns_def)
  ultimately show ?thesis by (simp add: valueClasses_def)
qed

section \<open>Validation of the constructors\<close>

lemma validator_lookup:
  "map_of (apiObjectChecks (''Kube'' @ u) r) (''validateNew'' @ ''Kube'' @ u @ ''Parameters'') =
    Some ([NotNil ''scope'', NotNil ''id''] @ propsChecks r)"
  by (simp add: apiObjectChecks_def)

lemma construct_argument:
  "argument [''scope'', ''id'', ''props''] [a, b, c] ''scope'' = a"
  "argument [''scope'', ''id'', ''props''] [a, b, c] ''id'' = b"
  "argument [''scope'', ''id'', ''props''] [a, b, c] ''props'' = c"
  by (simp_all add: argument_def)

lemma construct_validator:
  assumes "hasPrefix t ''Kube''"
  shows "runValidator env (apiObjectChecks t r) (''validateNew'' @ t @ ''Parameters'') [''scope'', ''id'', ''props''] [scope, i, props]
     = None \<longleftrightarrow>
    scope \<noteq> None \<and> i \<noteq> None \<and> (r \<longrightarrow> props \<noteq> None) \<and> jsiiValidateStruct env props ''parameter props'' = None"
proof -
  obtain u where "t = ''Kube'' @ u" using assms by (auto simp: hasPrefix_def prefix_def)
  then show ?thesis
    unfolding runValidator_def by (simp only: validator_lookup append_assoc option.case)
      (simp add: propsChecks_def construct_argument split: option.split)
qed

lemma new_wrapper:
  "map_of (bindingFuns (apiObjectBinding t)) (''New'' @ t) =
    Some (Construct (''k8s.'' @ t) [''scope'', ''id'', ''props''] (''validateNew'' @ t @ ''Parameters''))"
  by (simp add: apiObject_entries)

section \<open>Properties\<close>

text \<open>
  The API object classes declared in Go are those that \<open>init\<close> registers, in the same order, and these and
  the two value classes fit their registrations: each
  registered member of a class is implemented by the Go function of that name, which calls the runtime with the
  JavaScript name of the member, and the constructors and static functions name the class as it is
  registered.
\<close>

theorem classes_match_registrations:
  "list_all2 (\<lambda>c g. matches (fst c) g) kubeClasses (filter isApiObject init) \<and>
   list_all (\<lambda>c. list_ex (matches (fst c)) init) valueClasses"
proof -
  have names: "list_all2 (\<lambda>c g. bindingName (fst c) = goType g) kubeClasses (filter isApiObject init)"
    using kubeClasses_names by (simp add: list_all2_conv_all_nth list_eq_iff_nth_eq)
  have "list_all2 (\<lambda>c g. matches (fst c) g) kubeClasses (filter isApiObject init)"
  proof (rule list.rel_mono_strong [OF names])
    fix c g
    assume *: "c \<in> set kubeClasses" "g \<in> set (filter isApiObject init)" "bindingName (fst c) = goType g"
    then have "fst c = apiObjectBinding (goType g)"
      using kubeClasses_D(1) by (metis prod.collapse)
    moreover have "matches (apiObjectBinding (goType g)) g"
      using *(2) init_named init_made by (intro apiObject_matches) (auto simp: list_all_iff)
    ultimately show "matches (fst c) g" by simp
  qed
  then show ?thesis using value_classes_match by simp
qed

text \<open>
  C33. The constructor of every API object class: after the initialisation it panics, without a call to
  create an object, exactly if scope or id is nil, if the properties are nil and one of them is
  required, or if the runtime rejects the properties; otherwise it creates the object of its class from
  these arguments, and returns its proxy.
\<close>

theorem constructor_validates:
  assumes "(b, vs) \<in> set kubeClasses"
    and "s \<in> set structTable" and "structName s = bindingName b @ ''Props''"
    and "map_of (bindingFuns b) (''New'' @ bindingName b) = Some wr"
  shows "call env vs wr j [scope, i, props] w =
    (if scope = None \<or> i = None \<or> (props = None \<and> anyRequired s) \<or>
        jsiiValidateStruct env props ''parameter props'' \<noteq> None
     then (Panicked, snd (Initialize env w))
     else thenIO (Initialize env) (\<lambda>_.
       thenIO (jsiiCreate env (''k8s.'' @ bindingName b) [scope, i, props] j)
         (\<lambda>_ w. (Returned (Some (Ref j)), w))) w)"
proof -
  let ?t = "bindingName b"
  have wr: "wr = Construct (''k8s.'' @ ?t) [''scope'', ''id'', ''props''] (''validateNew'' @ ?t @ ''Parameters'')"
    using assms(4) kubeClasses_D(1) [OF assms(1)] new_wrapper [of ?t] by simp
  have vs: "vs = apiObjectChecks ?t (anyRequired s)" by (rule kubeClasses_D(3) [OF assms(1-3)])
  show ?thesis
    unfolding wr vs construct_eq construct_validator [OF kubeClasses_D(2) [OF assms(1)]]
    by (simp add: thenIO_assoc)
qed

text \<open>A runtime that records the calls made to it, and rejects nil for a struct.\<close>

definition recordingEnv :: "(string list, nat) jsii_env" where
  "recordingEnv = \<lparr>
     initCdk8s = (\<lambda>w. (Returned (), w @ [''cdk8s''])),
     initConstructs = (\<lambda>w. (Returned (), w @ [''constructs''])),
     jsiiLoad = (\<lambda>p v w. (Returned (), w @ [p])),
     jsiiGet = (\<lambda>j p w. (Returned None, w @ [p])),
     jsiiInvoke = (\<lambda>j m as w. (Returned None, w @ [m])),
     jsiiInvokeVoid = (\<lambda>j m as w. (Returned (), w @ [m])),
     jsiiStaticGet = (\<lambda>f p w. (Returned None, w @ [f, p])),
     jsiiStaticInvoke = (\<lambda>f m as w. (Returned None, w @ [f, m])),
     jsiiCreate = (\<lambda>f as j w. (Returned (), w @ [f])),
     jsiiValidateStruct = (\<lambda>v d. if v = None then Some (EParameterNil d) else None)\<rparr>"

lemma Initialize_recording [simp]: "Initialize recordingEnv w = (Returned (), w @ [''cdk8s'', ''constructs'', ''k8s''])"
  by (simp add: Initialize_def recordingEnv_def thenIO_def)

lemma validate_recording [simp]:
  "jsiiValidateStruct recordingEnv v d = (if v = None then Some (EParameterNil d) else None)"
  by (simp add: recordingEnv_def)

theorem constructor_validates_witness:
  "call recordingEnv KubeLease_checks
     (Construct ''k8s.KubeLease'' [''scope'', ''id'', ''props''] ''validateNewKubeLeaseParameters'') 7
     [Some (Ref 1), Some (Data (VPtr (VString ''l''))), None] [] =
   (Panicked, [''cdk8s'', ''constructs'', ''k8s''])"
proof -
  have m: "(KubeLease, KubeLease_checks) \<in> set kubeClasses"
    by (simp add: kubeClasses_def classes_C_def)
  have s: "KubeLeaseProps \<in> set structTable" by (simp only: table_members)
  have n: "structName KubeLeaseProps = bindingName KubeLease @ ''Props''"
    by (simp add: KubeLeaseProps_def KubeLease_def)
  have w: "map_of (bindingFuns KubeLease) (''New'' @ bindingName KubeLease) =
      Some (Construct ''k8s.KubeLease'' [''scope'', ''id'', ''props''] ''validateNewKubeLeaseParameters'')"
    by (simp add: KubeLease_def KubeLease_getters_def KubeLease_functions_def bindingFuns_def)
  show ?thesis
    using constructor_validates [OF m s n w, of recordingEnv 7 "Some (Ref 1)" _ None "[]"] by simp
qed

end
