(* ===== verification/KubeInterfaces.thy ===== *)
theory KubeInterfaces
  imports KubeClasses
begin

text \<open>
  What a Go compiler checks of the Kubernetes bindings of the sample application, and more: the proxy of every
  class implements the interface that its users see (\<open>Kube*.go\<close>, \<open>IntOrString.go\<close>, \<open>Quantity.go\<close>,
  \<open>internal/types.go\<close>), bodies fit signatures, interfaces agree with the registrations, and a build
  without parameter checks (\<open>Kube*__no_checks.go\<close>) differs from the normal one only where a check
  fails. The enum type of the bindings is here as well.
\<close>

section \<open>Interfaces\<close>

fun methodSig :: "gofun \<Rightarrow> gosig option" where
  "methodSig (Method s wr) = Some s"
| "methodSig (Func s wr) = None"

text \<open>
  A proxy implements an interface when it has the methods of the interface, with the same signatures, and
  embeds what the interface embeds.
\<close>

definition implements :: "binding \<Rightarrow> interface \<Rightarrow> bool" where
  "implements b i \<longleftrightarrow> bindingName b = interfaceName i \<and>
     list_all (\<lambda>e. e \<in> set (map typeAlias (bindingEmbeds b))) (interfaceEmbeds i) \<and>
     list_all (\<lambda>s. Some s \<in> set (map methodSig (bindingDecls b))) (interfaceMethods i)"

text \<open>
  A body fits its signature: it passes on the parameters in order, and returns a result if there is one. The
  override of a constructor passes on all but the first, the proxy.
\<close>

fun fits :: "wrapper \<Rightarrow> param list \<Rightarrow> gotype option \<Rightarrow> bool" where
  "fits (Getter p) ps r \<longleftrightarrow> ps = [] \<and> r \<noteq> None"
| "fits (Variadic m) ps r \<longleftrightarrow> (case ps of [Rest n t] \<Rightarrow> r = None | _ \<Rightarrow> False)"
| "fits (Plain m) ps r \<longleftrightarrow> ps = [] \<and> r \<noteq> None"
| "fits (Construct f xs v) ps r \<longleftrightarrow> map paramName ps = xs \<and> r \<noteq> None"
| "fits (ConstructOverride f xs) ps r \<longleftrightarrow> ps \<noteq> [] \<and> map paramName (tl ps) = xs \<and> r = None"
| "fits (StaticCall f m xs v) ps r \<longleftrightarrow> map paramName ps = xs \<and> r \<noteq> None"
| "fits (StaticProp f p) ps r \<longleftrightarrow> ps = [] \<and> r \<noteq> None"

fun bodyFits :: "gofun \<Rightarrow> bool" where
  "bodyFits (Method (Sig n ps r) wr) \<longleftrightarrow> fits wr ps r \<and> wrapperClass wr = None"
| "bodyFits (Func (Sig n ps r) wr) \<longleftrightarrow> fits wr ps r \<and> wrapperClass wr \<noteq> None"

text \<open>The members that are registered for a class are the methods of its interface.\<close>

fun describes :: "registration \<Rightarrow> interface \<Rightarrow> bool" where
  "describes (RegisterClass n t ms k) i \<longleftrightarrow> t = interfaceName i \<and>
     set (map goMember ms) = set (map sigName (interfaceMethods i))"
| "describes _ i \<longleftrightarrow> False"

definition valueInterfaces :: "interface list" where
  "valueInterfaces = [IntOrString_interface, Quantity_interface]"

definition valueUnchecked :: "(string \<times> validators) list" where
  "valueUnchecked = [(''IntOrString'', IntOrString_no_checks), (''Quantity'', Quantity_no_checks)]"

section \<open>API objects\<close>

lemma kubeInterfaces_eq: "kubeInterfaces = map (\<lambda>c. apiObjectInterface (bindingName (fst c))) kubeClasses"
  unfolding kubeInterfaces_def kubeClasses_def by (simp only: class_tables map_append)

lemma kubeUnchecked_eq:
  "kubeUnchecked = map (\<lambda>c. (bindingName (fst c), apiObjectNoChecks (bindingName (fst c)))) kubeClasses"
  unfolding kubeUnchecked_def kubeClasses_def by (simp only: class_tables map_append)


lemma apiObject_implements: "b = apiObjectBinding t \<Longrightarrow> implements b (apiObjectInterface t)"
  by (simp add: implements_def apiObjectBinding_def apiObjectInterface_def typeAlias_def
      apiObjectGetters_def apiObjectMethods_def apiObjectFunctions_def)

lemma apiObject_fits: "b = apiObjectBinding t \<Longrightarrow> list_all bodyFits (bindingDecls b)"
  by (simp add: apiObjectBinding_def apiObjectGetters_def apiObjectMethods_def apiObjectFunctions_def)

lemma apiObject_described:
  assumes "wellMade g" and "isApiObject g"
  shows "describes g (apiObjectInterface (goType g))"
proof (cases g)
  case (RegisterClass n t ms k)
  obtain p es where "k = NewProxy p es" by (cases k)
  then have ms: "ms = apiObjectMembers"
    using assms unfolding RegisterClass wellMade_def by (simp only: registration.case maker.case if_True)
  have "set (map goMember apiObjectMembers) = set (map sigName (interfaceMethods (apiObjectInterface t)))"
    unfolding apiObjectMembers_def apiObjectInterface_def interfaceMethods.simps list.map goMember.simps sigName.simps
      list.set by (simp only: insert_commute)
  then show ?thesis by (simp add: RegisterClass ms apiObjectInterface_def del: list.map list.set)
qed (use assms(2) in \<open>simp_all add: isApiObject_def\<close>)

lemma described: "list_all2 describes (filter isApiObject init) kubeInterfaces"
proof -
  have eq: "kubeInterfaces = map (\<lambda>g. apiObjectInterface (goType g)) (filter isApiObject init)"
    using kubeClasses_names unfolding kubeInterfaces_eq by (metis (no_types, lifting) map_map comp_def map_eq_conv)
  have "describes g (apiObjectInterface (goType g))" if "g \<in> set (filter isApiObject init)" for g
    using init_made that by (intro apiObject_described) (auto simp: list_all_iff)
  then show ?thesis unfolding eq list_all2_map2 list_all2_same by blast
qed

section \<open>Builds without checks\<close>

fun wrapperValidator :: "wrapper \<Rightarrow> string option" where
  "wrapperValidator (Construct f ps v) = Some v"
| "wrapperValidator (StaticCall f m ps v) = Some v"
| "wrapperValidator _ = None"

text \<open>The validators of a class accept the arguments of a call.\<close>

fun accepted :: "('w, 'o) jsii_env \<Rightarrow> validators \<Rightarrow> wrapper \<Rightarrow> 'o jval option list \<Rightarrow> bool" where
  "accepted env vs (Construct f ps v) args \<longleftrightarrow> runValidator env vs v ps args = None"
| "accepted env vs (StaticCall f m ps v) args \<longleftrightarrow> runValidator env vs v ps args = None"
| "accepted env vs _ args \<longleftrightarrow> True"

lemma runValidator_unchecked:
  assumes "list_all (\<lambda>v. snd v = []) us"
  shows "runValidator env us v ps args = None"
  using assms map_of_SomeD [of us v] by (fastforce simp: runValidator_def list_all_iff split: option.splits)

lemma call_unchecked:
  assumes "list_all (\<lambda>v. snd v = []) us"
  shows "call env vs wr j args w =
    (if accepted env vs wr args then call env us wr j args w else (Panicked, snd (Initialize env w)))"
  by (cases wr) (auto simp: validated_def runValidator_unchecked [OF assms] thenIO_stop)

lemma noChecks_empty: "list_all (\<lambda>v. snd v = []) (apiObjectNoChecks t)"
  by (simp add: apiObjectNoChecks_def)

lemma noChecks_names: "map fst (apiObjectNoChecks t) = map fst (apiObjectChecks t r)"
  by (simp add: apiObjectNoChecks_def apiObjectChecks_def)

lemma apiObject_validators:
  "List.map_filter (\<lambda>f. wrapperValidator (snd f)) (bindingFuns (apiObjectBinding t)) =
   [''validateNew'' @ t @ ''Parameters'', ''validate'' @ t @ ''_IsApiObjectParameters'',
    ''validate'' @ t @ ''_IsConstructParameters'', ''validate'' @ t @ ''_ManifestParameters'',
    ''validate'' @ t @ ''_OfParameters'']"
  unfolding apiObject_entries by (simp add: List.map_filter_simps)

section \<open>The enum type\<close>

text \<open>The constants of an enum type: names and values.\<close>

datatype goenum = Enum string "(string \<times> string) list"

definition IoK8SApimachineryPkgApisMetaV1DeleteOptionsKind :: goenum where
  "IoK8SApimachineryPkgApisMetaV1DeleteOptionsKind = Enum ''IoK8SApimachineryPkgApisMetaV1DeleteOptionsKind''
     [(''IoK8SApimachineryPkgApisMetaV1DeleteOptionsKind_DELETE_OPTIONS'', ''DELETE_OPTIONS'')]"

text \<open>The registered values of an enum type are its constants, each under its value.\<close>

fun enumRegistered :: "goenum \<Rightarrow> registration \<Rightarrow> bool" where
  "enumRegistered (Enum t cs) (RegisterEnum n u vs) \<longleftrightarrow> u = t \<and> vs = map (\<lambda>(c, v). (v, c)) cs"
| "enumRegistered e _ \<longleftrightarrow> False"

section \<open>Properties\<close>

text \<open>
  C38. The proxies of all API object classes and of the two value classes implement the interfaces that the
  users of the bindings see, and every body fits the signature of its function. \<open>init\<close> registers exactly
  these API objects, in the order of the tables, each under its name and with the methods of its interface
  as members, and the Go function of a member calls the runtime with the JavaScript name of the member.
\<close>

theorem interfaces_implemented:
  "list_all2 (\<lambda>c i. implements (fst c) i) (kubeClasses @ valueClasses) (kubeInterfaces @ valueInterfaces) \<and>
   list_all (\<lambda>c. list_all bodyFits (bindingDecls (fst c))) (kubeClasses @ valueClasses) \<and>
   list_all2 describes (filter isApiObject init) kubeInterfaces \<and>
   list_all2 (\<lambda>c g. matches (fst c) g) kubeClasses (filter isApiObject init) \<and>
   list_all2 (\<lambda>c i. list_ex (\<lambda>g. matches (fst c) g \<and> describes g i) init) valueClasses valueInterfaces"
proof -
  have "implements (fst c) (apiObjectInterface (bindingName (fst c)))" "list_all bodyFits (bindingDecls (fst c))"
    if "c \<in> set kubeClasses" for c
  proof -
    have "fst c = apiObjectBinding (bindingName (fst c))" using kubeClasses_D(1) that by (metis prod.collapse)
    then show "implements (fst c) (apiObjectInterface (bindingName (fst c)))" "list_all bodyFits (bindingDecls (fst c))"
      by (rule apiObject_implements apiObject_fits)+
  qed
  then have kube: "list_all2 (\<lambda>c i. implements (fst c) i) kubeClasses kubeInterfaces"
      "list_all (\<lambda>c. list_all bodyFits (bindingDecls (fst c))) kubeClasses"
    unfolding kubeInterfaces_eq list_all2_map2 list_all2_same list_all_iff [where xs = kubeClasses] by blast+
  have vals: "list_all2 (\<lambda>c i. implements (fst c) i) valueClasses valueInterfaces"
      "list_all (\<lambda>c. list_all bodyFits (bindingDecls (fst c))) valueClasses"
    by (simp_all add: valueClasses_def valueInterfaces_def implements_def IntOrString_def Quantity_def
        IntOrString_interface_def Quantity_interface_def)
  have "list_ex (\<lambda>g. matches IntOrString g \<and> describes g IntOrString_interface) init"
      "list_ex (\<lambda>g. matches Quantity g \<and> describes g Quantity_interface) init"
    unfolding list_ex_iff by (rule bexI [OF _ value_registrations(1)] bexI [OF _ value_registrations(2)],
        simp add: matches_def bindingFuns_def IntOrString_def Quantity_def IntOrString_interface_def Quantity_interface_def)+
  then have "list_all2 (\<lambda>c i. list_ex (\<lambda>g. matches (fst c) g \<and> describes g i) init) valueClasses valueInterfaces"
    by (simp add: valueClasses_def valueInterfaces_def)
  with kube vals described classes_match_registrations show ?thesis by (simp add: list_all2_appendI)
qed

text \<open>
  A build without parameter checks declares the same validators, among them every one that is called,
  and a call has the result and the effects it has in the normal build unless a check fails: there the normal build
  panics after the initialisation.
\<close>

theorem unchecked_build_agrees:
  assumes "(b, vs) \<in> set kubeClasses" and "(bindingName b, us) \<in> set kubeUnchecked"
  shows "map fst us = map fst vs \<and>
    set (List.map_filter (\<lambda>f. wrapperValidator (snd f)) (bindingFuns b)) = set (map fst us) \<and>
    call env vs wr j args w =
      (if accepted env vs wr args then call env us wr j args w else (Panicked, snd (Initialize env w)))"
proof -
  have b: "b = apiObjectBinding (bindingName b)" by (rule kubeClasses_D(1) [OF assms(1)])
  have us: "us = apiObjectNoChecks (bindingName b)" using assms(2) by (auto simp: kubeUnchecked_eq)
  obtain r where vs: "vs = apiObjectChecks (bindingName b) r"
    using kubeClasses_ok assms(1) by (fastforce simp: list_all_iff)
  have called: "set (List.map_filter (\<lambda>f. wrapperValidator (snd f)) (bindingFuns b)) = set (map fst us)"
    by (subst b) (auto simp: us apiObject_validators apiObjectNoChecks_def)
  have "call env vs wr j args w =
      (if accepted env vs wr args then call env us wr j args w else (Panicked, snd (Initialize env w)))"
    unfolding us by (rule call_unchecked [OF noChecks_empty])
  with called show ?thesis using noChecks_names us vs by blast
qed

theorem unchecked_build_agrees_witness:
  "call recordingEnv KubeLease_no_checks
     (Construct ''k8s.KubeLease'' [''scope'', ''id'', ''props''] ''validateNewKubeLeaseParameters'') 7
     [Some (Ref 1), None, Some (Data (VPtr (VString ''p'')))] [] =
     (Returned (Some (Ref 7)), [''cdk8s'', ''constructs'', ''k8s'', ''k8s.KubeLease'']) \<and>
   call recordingEnv KubeLease_checks
     (Construct ''k8s.KubeLease'' [''scope'', ''id'', ''props''] ''validateNewKubeLeaseParameters'') 7
     [Some (Ref 1), None, Some (Data (VPtr (VString ''p'')))] [] =
     (Panicked, [''cdk8s'', ''constructs'', ''k8s''])"
proof -
  let ?wr = "Construct ''k8s.KubeLease'' [''scope'', ''id'', ''props''] ''validateNewKubeLeaseParameters''"
  let ?args = "[Some (Ref 1), None, Some (Data (VPtr (VString ''p'')))]"
  have m: "(KubeLease, KubeLease_checks) \<in> set kubeClasses"
    by (simp add: kubeClasses_def classes_C_def)
  have u: "(bindingName KubeLease, KubeLease_no_checks) \<in> set kubeUnchecked"
    by (simp add: kubeUnchecked_def unchecked_C_def KubeLease_def)
  have "\<not> accepted recordingEnv KubeLease_checks ?wr ?args"
    by (simp add: runValidator_def KubeLease_checks_def argument_def)
  moreover have "call recordingEnv KubeLease_no_checks ?wr 7 ?args [] =
      (Returned (Some (Ref 7)), [''cdk8s'', ''constructs'', ''k8s'', ''k8s.KubeLease''])"
    by (simp add: validated_def runValidator_def KubeLease_no_checks_def thenIO_def) (simp add: recordingEnv_def)
  ultimately show ?thesis
    using unchecked_build_agrees [OF m u, of recordingEnv ?wr 7 ?args "[]"] by simp
qed

text \<open>
  The enum type of the bindings is registered with its constants.
\<close>

lemma enum_registered:
  "list_ex (enumRegistered IoK8SApimachineryPkgApisMetaV1DeleteOptionsKind) init"
proof -
  have "RegisterEnum ''k8s.IoK8SApimachineryPkgApisMetaV1DeleteOptionsKind'' ''IoK8SApimachineryPkgApisMetaV1DeleteOptionsKind''
      [(''DELETE_OPTIONS'', ''IoK8SApimachineryPkgApisMetaV1DeleteOptionsKind_DELETE_OPTIONS'')] \<in> set init_3"
    unfolding init_3_def by (rule list.set_intros)+
  then have "list_ex (enumRegistered IoK8SApimachineryPkgApisMetaV1DeleteOptionsKind) init_3"
    unfolding list_ex_iff by (rule bexI [rotated]) (simp add: IoK8SApimachineryPkgApisMetaV1DeleteOptionsKind_def)
  then show ?thesis by (simp add: init_def)
qed

end
