(* ===== verification/SampleApp.thy ===== *)
theory SampleApp
  imports KubeClasses
begin

text \<open>
  The sample application that the operator deploys in its examples
  (\<open>examples/cdk8s-sample-deployment/main.go\<close>): \<open>NewChart\<close> builds a chart with one deployment through the
  Kubernetes bindings, \<open>main\<close> creates the application, the chart, and synthesizes it. The composite
  literal of the deployment is a value of \<open>Structs.gval\<close>; the variable \<open>labels\<close> occurs in it twice by
  address (nothing changes the map afterwards). The functions of \<open>cdk8s\<close> are parameters, and so is the
  proxy that \<open>NewKubeDeployment\<close> allocates.
\<close>

record ('w, 'o) app_env =
  jsii :: "('w, 'o) jsii_env"
  newApp :: "('w, 'o outcome) io"
  cdk8sNewChart :: "'o option \<Rightarrow> string \<Rightarrow> string \<Rightarrow> ('w, 'o outcome) io"
  appSynth :: "'o \<Rightarrow> ('w, unit outcome) io"
  deploymentProxy :: 'o

definition jsString :: "string \<Rightarrow> gval" where
  "jsString s = VPtr (VString s)"

definition jsNumber :: "int \<Rightarrow> gval" where
  "jsNumber n = VPtr (VFloat64 n)"

text \<open>A call of a function of a class by its Go name, with the validators of the class.\<close>

definition callClass ::
  "('w, 'o) jsii_env \<Rightarrow> binding \<Rightarrow> validators \<Rightarrow> string \<Rightarrow> 'o \<Rightarrow> 'o jval option list \<Rightarrow>
   ('w, 'o jval option outcome) io" where
  "callClass env b vs f j args =
     (case map_of (bindingFuns b) f of None \<Rightarrow> (\<lambda>w. (Panicked, w)) | Some wr \<Rightarrow> call env vs wr j args)"

definition podLabels :: "string \<Rightarrow> gval" where
  "podLabels appLabel = VMap [(''app'', jsString appLabel)]"

definition deploymentProps :: "string \<Rightarrow> gval" where
  "deploymentProps appLabel =
     (let labels = podLabels appLabel in
      VPtr (VStruct ''KubeDeploymentProps'' [
        (''Spec'', VPtr (VStruct ''DeploymentSpec'' [
           (''Replicas'', jsNumber 1),
           (''Selector'', VPtr (VStruct ''LabelSelector'' [(''MatchLabels'', VPtr labels)])),
           (''Template'', VPtr (VStruct ''PodTemplateSpec'' [
              (''Metadata'', VPtr (VStruct ''ObjectMeta'' [(''Labels'', VPtr labels)])),
              (''Spec'', VPtr (VStruct ''PodSpec'' [
                 (''Containers'', VPtr (VSlice [VPtr (VStruct ''Container'' [
                    (''Name'', jsString ''app-container''),
                    (''Image'', jsString ''nginx:1.19.10''),
                    (''Ports'', VPtr (VSlice [VPtr (VStruct ''ContainerPort'' [
                       (''ContainerPort'', jsNumber 80)])]))])]))]))]))]))]))"

definition NewChart ::
  "('w, 'o) app_env \<Rightarrow> 'o option \<Rightarrow> string \<Rightarrow> string \<Rightarrow> string \<Rightarrow> ('w, 'o outcome) io" where
  "NewChart env scope i ns appLabel =
     thenIO (cdk8sNewChart env scope i ns) (\<lambda>chart.
       thenIO (callClass (jsii env) KubeDeployment KubeDeployment_checks ''NewKubeDeployment'' (deploymentProxy env)
           [Some (Ref chart), Some (Data (jsString ''deployment'')), Some (Data (deploymentProps appLabel))])
         (\<lambda>_ w. (Returned chart, w)))"

definition main :: "('w, 'o) app_env \<Rightarrow> ('w, unit outcome) io" where
  "main env =
     thenIO (newApp env) (\<lambda>app.
     thenIO (NewChart env (Some app) ''getting-started'' ''default'' ''my-app'') (\<lambda>_.
       appSynth env app))"

section \<open>Looking into a value\<close>

text \<open>The value at a path of field names, through pointers.\<close>

fun fieldAt :: "string list \<Rightarrow> gval \<Rightarrow> gval option" where
  "fieldAt ps (VPtr v) = fieldAt ps v"
| "fieldAt [] v = Some v"
| "fieldAt (p # ps) (VStruct n fvs) = (case map_of fvs p of None \<Rightarrow> None | Some v \<Rightarrow> fieldAt ps v)"
| "fieldAt (p # ps) v = None"

text \<open>A selector with these labels selects the objects whose labels contain them (and none when empty or nil).\<close>

fun selectsLabels :: "gval option \<Rightarrow> gval option \<Rightarrow> bool" where
  "selectsLabels (Some (VMap sel)) (Some (VMap ls)) \<longleftrightarrow> sel \<noteq> [] \<and> list_all (\<lambda>(k, v). map_of ls k = Some v) sel"
| "selectsLabels _ _ = False"

section \<open>Lemmas\<close>

lemma fieldsOf_member:
  "s \<in> set structTable \<Longrightarrow> structName s = n \<Longrightarrow> fieldsOf structTable n = Some (structFields s)"
  unfolding fieldsOf_def using table_distinct by (intro map_of_is_SomeI) (auto simp: comp_def)

lemma sample_fields:
  "fieldsOf structTable ''KubeDeploymentProps'' = Some (structFields KubeDeploymentProps)"
  "fieldsOf structTable ''DeploymentSpec'' = Some (structFields DeploymentSpec)"
  "fieldsOf structTable ''LabelSelector'' = Some (structFields LabelSelector)"
  "fieldsOf structTable ''PodTemplateSpec'' = Some (structFields PodTemplateSpec)"
  "fieldsOf structTable ''ObjectMeta'' = Some (structFields ObjectMeta)"
  "fieldsOf structTable ''PodSpec'' = Some (structFields PodSpec)"
  "fieldsOf structTable ''Container'' = Some (structFields Container)"
  "fieldsOf structTable ''ContainerPort'' = Some (structFields ContainerPort)"
  by (rule fieldsOf_member, simp only: table_members, simp only: KubeDeploymentProps_def DeploymentSpec_def
      LabelSelector_def PodTemplateSpec_def ObjectMeta_def PodSpec_def Container_def ContainerPort_def
      structName.simps)+

lemmas sample_simps =
  sample_fields Let_def deploymentProps_def podLabels_def jsString_def jsNumber_def fieldOf_def present_def
  KubeDeploymentProps_def DeploymentSpec_def LabelSelector_def PodTemplateSpec_def ObjectMeta_def PodSpec_def
  Container_def ContainerPort_def

lemma sample_typed: "hasType structTable (GoPtr (GoNamed ''KubeDeploymentProps'')) (deploymentProps l)"
  by (simp add: sample_simps)

lemma sample_complete: "complete structTable (deploymentProps l)"
  by (simp add: sample_simps)

text \<open>
  What the runtime is documented to do with a struct: a well-typed one that has all its required
  fields is valid.
\<close>

definition acceptsComplete :: "('w, 'o) jsii_env \<Rightarrow> bool" where
  "acceptsComplete env \<longleftrightarrow> (\<forall>n v d. hasType structTable (GoPtr (GoNamed n)) v \<longrightarrow> complete structTable v \<longrightarrow>
     jsiiValidateStruct env (Some (Data v)) d = None)"

lemma deployment_class: "(KubeDeployment, KubeDeployment_checks) \<in> set kubeClasses"
  by (simp add: kubeClasses_def classes_B_def)

lemma deployment_new:
  assumes "jsiiValidateStruct env (Some p) ''parameter props'' = None"
  shows "callClass env KubeDeployment KubeDeployment_checks ''NewKubeDeployment'' j [Some s, Some i, Some p] =
    thenIO (Initialize env) (\<lambda>_.
      thenIO (jsiiCreate env ''k8s.KubeDeployment'' [Some s, Some i, Some p] j)
        (\<lambda>_ w. (Returned (Some (Ref j)), w)))"
proof -
  have n: "bindingName KubeDeployment = ''KubeDeployment''" by (simp add: KubeDeployment_def)
  have "KubeDeployment = apiObjectBinding ''KubeDeployment''"
    using kubeClasses_D(1) [OF deployment_class] n by simp
  then have new: "map_of (bindingFuns KubeDeployment) ''NewKubeDeployment'' =
      Some (Construct ''k8s.KubeDeployment'' [''scope'', ''id'', ''props''] ''validateNewKubeDeploymentParameters'')"
    using new_wrapper [of "''KubeDeployment''"] by simp
  have "KubeDeployment_checks = apiObjectChecks ''KubeDeployment'' False"
    by (simp only: KubeDeployment_checks_def class_eval)
  moreover have "runValidator env (apiObjectChecks ''KubeDeployment'' False) ''validateNewKubeDeploymentParameters''
      [''scope'', ''id'', ''props''] [Some s, Some i, Some p] = None"
    using construct_validator [of "''KubeDeployment''" env False "Some s" "Some i" "Some p"] assms
    by (simp add: hasPrefix_Kube)
  ultimately show ?thesis
    by (simp add: callClass_def new fun_eq_iff construct_eq thenIO_assoc del: call.simps(4))
qed

section \<open>Properties\<close>


text \<open>
  With a runtime that accepts complete structs the sample application never panics of its own: it
  creates the application, the chart and exactly one object, the deployment, in that chart, and
  synthesizes the application.
\<close>

theorem sample_main_calls:
  assumes "acceptsComplete (jsii env)"
  shows "main env =
    thenIO (newApp env) (\<lambda>app.
    thenIO (cdk8sNewChart env (Some app) ''getting-started'' ''default'') (\<lambda>chart.
    thenIO (Initialize (jsii env)) (\<lambda>_.
    thenIO (jsiiCreate (jsii env) ''k8s.KubeDeployment''
        [Some (Ref chart), Some (Data (jsString ''deployment'')), Some (Data (deploymentProps ''my-app''))]
        (deploymentProxy env)) (\<lambda>_.
      appSynth env app))))"
proof -
  have "jsiiValidateStruct (jsii env) (Some (Data (deploymentProps ''my-app''))) ''parameter props'' = None"
    using assms sample_typed sample_complete by (auto simp: acceptsComplete_def)
  from deployment_new [OF this] show ?thesis
    by (simp add: main_def NewChart_def [abs_def] thenIO_assoc)
qed

definition sampleAppEnv :: "(string list, nat) app_env" where
  "sampleAppEnv = \<lparr>
     jsii = recordingEnv\<lparr>jsiiValidateStruct := \<lambda>v d. None\<rparr>,
     newApp = (\<lambda>w. (Returned 1, w @ [''app''])),
     cdk8sNewChart = (\<lambda>s i ns w. (Returned 2, w @ [i, ns])),
     appSynth = (\<lambda>a w. (Returned (), w @ [''synth''])),
     deploymentProxy = 3\<rparr>"

theorem sample_main_calls_witness:
  "main sampleAppEnv [] = (Returned (),
     [''app'', ''getting-started'', ''default'', ''cdk8s'', ''constructs'', ''k8s'', ''k8s.KubeDeployment'', ''synth''])"
  by (subst sample_main_calls)
    (simp_all add: acceptsComplete_def sampleAppEnv_def recordingEnv_def Initialize_def thenIO_def)

end
