(* ===== verification/Spec2Isabelle.thy ===== *)
theory Spec2Isabelle
  imports Webhook Credentials Git Provider Synthesizer Resourcer Controller Generator Previews
    Delivery Recovery PullRequests Concurrency DeepCopy Startup Events K8sTypes KubeClasses KubeInterfaces
    SampleApp
begin

text \<open>
  Verification library for the Cluster API add-on provider for cdk8s (CAAPC), a Kubernetes operator in
  Go. A \<open>Cdk8sAppProxy\<close> object names a git repository with a cdk8s application and a label selector
  for clusters; the operator clones the repository, synthesizes the application's manifests and applies
  them to the selected clusters. A \<open>Cdk8sAppProxyGenerator\<close> object creates one such proxy for each
  open pull request of a repository.

  \<^bold>\<open>Parts, theories and sources\<close> (paths under \<open>src/\<close>)

  \<^item> \<open>GoPrelude\<close>: what the program uses of the language and its standard library: calls that may panic
    (\<open>outcome\<close>), functions on an abstract world (\<open>io\<close>), byte slices that may be nil, the errors of the
    program as a datatype \<open>goerr\<close>, packages \<open>strings\<close>, \<open>strconv\<close> and \<open>filepath\<close>, with the lemmas shared by
    all components and the collection \<open>go_simps\<close> of evaluation rules.
  \<^item> \<open>ApiTypes\<close>: the custom resources (\<open>api/v1alpha1/cdk8sappproxy_types.go\<close>,
    \<open>cdk8sappproxygenerator_types.go\<close>) and the constants of \<open>condition_consts.go\<close>.
  \<^item> \<open>Admission\<close>: the protocol between an API server and an admission webhook, as an inductive step
    relation on stores and a locale \<open>admission\<close> with the laws a webhook must obey.
  \<^item> \<open>Webhook\<close>: the webhook of the proxies (\<open>api/v1alpha1/cdk8sappproxy_webook.go\<close>), shown to obey them.
  \<^item> \<open>Credentials\<close>: \<open>FetchSecret\<close>, \<open>FetchKnownHosts\<close> (\<open>controllers/utils/utils.go\<close>); locale
    \<open>credential_source\<close>.
  \<^item> \<open>Git\<close>: \<open>Clone\<close>, \<open>CheckAccess\<close>, \<open>Hash\<close>, \<open>Poll\<close>, \<open>getAuth\<close> and the host-key callback
    (\<open>controllers/git/git.go\<close>); locale \<open>access_checker\<close>.
  \<^item> \<open>Provider\<close>: \<open>ListPullRequests\<close> for GitHub, GitLab and Bitbucket, URL parsing, decoding of responses
    (\<open>controllers/git/provider_client.go\<close>, the end of \<open>git.go\<close>); locale \<open>pr_fetcher\<close>, interpreted
    for the three providers.
  \<^item> \<open>Synthesizer\<close>: \<open>Synthesize\<close>, \<open>findManifests\<close>, \<open>parseManifests\<close>, \<open>parseKustomization\<close>, \<open>cdk8sType\<close>
    (\<open>controllers/synthesizer/synthesizer.go\<close>) on a file tree.
  \<^item> \<open>Resourcer\<close>: \<open>Apply\<close>, \<open>Check\<close>, \<open>clusterList\<close>, \<open>clusterClient\<close>
    (\<open>controllers/resourcer/resourcer.go\<close>); locale \<open>cluster_operation\<close>, interpreted for both operations.
  \<^item> \<open>Controller\<close>: \<open>Reconcile\<close> and the mapper of cluster events (\<open>controllers/controller.go\<close>).
  \<^item> \<open>Generator\<close>: \<open>Reconcile\<close> and \<open>reconcilePR\<close> of the generator (\<open>controllers/generator_controller.go\<close>).
  \<^item> \<open>Previews\<close>: the proxies in the API server over several polls of a generator, with a specification
    of each.
  \<^item> \<open>Delivery\<close>: the operator as a whole while the outside works: a reconciliation as a function on situations
    (clones, resources on the clusters, stored proxies), and the previews of a generator.
  \<^item> \<open>Recovery\<close>: histories of reconciliations that fail and succeed; locale \<open>untouched\<close> for what is out of the
    reach of every call.
  \<^item> \<open>PullRequests\<close>: from the API of GitHub over the generator and the proxies to the clusters.
  \<^item> \<open>Concurrency\<close>: several reconciliations of \<open>controllers/controller.go\<close> at once, as an inductive step
    relation whose steps are the calls of the other components.
  \<^item> \<open>Startup\<close>: flags, wiring and start of the process (\<open>main.go\<close>, the \<open>SetupWithManager\<close> functions),
    \<open>version/version.go\<close>, the registration of the types (\<open>api/v1alpha1/groupversion_info.go\<close>).
  \<^item> \<open>Events\<close>: what the wiring achieves when the manager serves the event of a cluster.
  \<^item> \<open>GoHeap\<close>, \<open>DeepCopy\<close>: a memory with pointers and slices, and the generated copy functions
    (\<open>api/v1alpha1/zz_generated.deepcopy.go\<close>) on it.
  \<^item> The Go bindings of the Kubernetes API that the sample application uses
    (\<open>examples/cdk8s-sample-deployment/imports/k8s\<close>): \<open>Registry\<close> and \<open>K8sInit\<close>, \<open>K8sInitA\<close> to \<open>K8sInitD\<close> for
    the registrations of \<open>main.go\<close>; \<open>Structs\<close> and \<open>K8sTypes\<close>, \<open>K8sTypesA\<close> to \<open>K8sTypesF\<close> for the 396 structs;
    \<open>Bindings\<close> and \<open>KubeClasses\<close>, \<open>KubeClassesA\<close> to \<open>KubeClassesF\<close> for the 120 classes of API objects
    with their interfaces and parameter checks (\<open>Kube*.go\<close>, \<open>Kube*__checks.go\<close>, \<open>Kube*__no_checks.go\<close>);
    \<open>KubeInterfaces\<close> for what ties interfaces, classes and builds together; \<open>SampleApp\<close> for the
    application itself (\<open>examples/cdk8s-sample-deployment/main.go\<close>).
  \<^item> this theory: properties of several components together.

  \<^bold>\<open>State and operations.\<close> Everything outside \<open>src/\<close> (go-git, the Kubernetes clients, the network, commands,
  YAML and JSON readers, the clock) is a field of an environment record (\<open>git_env\<close>, \<open>http_env\<close>,
  \<open>synth_env\<close>, \<open>resource_env\<close>, \<open>controller_env\<close>, \<open>generator_env\<close>) that the operations take as their first
  argument. A call that has effects transforms a world of arbitrary type, so a theorem holds for every
  behaviour of the outside that its hypotheses allow, failures in any order included. An operation has
  the name of the Go function; a nil pointer that is dereferenced gives \<open>Panicked\<close>; an error
  is \<open>Inl e\<close> or \<open>Some e\<close>; a deferred call is written out on every path it runs on. Log messages and contexts
  are left out. Loops range over lists and are structural recursions, so no fuel is needed and every
  operation returns for every input. Integers from JSON are checked against 64 bits where they are
  decoded; durations are saturated where the program computes one from two instants.

  \<^bold>\<open>Sharing.\<close> The generator renders proxies from a template whose maps and repository it shares with them by
  pointer. \<open>Generator.shareBack\<close> threads what a rendered proxy became back into the template. That the copies the
  program makes with \<open>DeepCopy\<close> share nothing with their originals is shown in \<open>DeepCopy\<close>, where pointers
  are addresses of a finite heap.

  \<^bold>\<open>The bindings as data.\<close> The registrations, the structs and the classes are what a generator emitted from the
  API description, in a few fixed forms. A definition of the model lists what a file declares, the
  interpreters \<open>registerAll\<close>, \<open>hasType\<close> and \<open>Bindings.call\<close> give the forms their meaning, and
  every law is checked on each entry by evaluation, collected by the \<open>named_theorems\<close> of \<open>Registry\<close>, \<open>Structs\<close>
  and \<open>Bindings\<close>. The jsii runtime and the modules it loads are parameters.

  \<^bold>\<open>What the lemmas show.\<close> Safety of the whole (\<open>reconcile_never_panics\<close>), the refinement of \<open>Reconcile\<close> to an
  abstract pipeline of stages (\<open>Controller\<close>), the invariant of stored objects (\<open>Webhook\<close>), completeness
  and soundness of \<open>Apply\<close> and \<open>Check\<close> (\<open>Resourcer\<close>), the irrelevance of the sharing and the confinement of
  effects (\<open>Generator\<close>), the lifetime of previews (\<open>Previews\<close>), the protection of credentials and host keys
  (\<open>Git\<close>, \<open>Provider\<close>, \<open>Credentials\<close>), the completeness of the manifests found and parsed (\<open>Synthesizer\<close>), isolation of concurrent
  reconciliations with different work directories and the failure of it for equal ones (\<open>Concurrency\<close>),
  independence of copies (\<open>DeepCopy\<close>), the order of the start-up (\<open>Startup\<close>), well-typedness of the
  tables of the bindings, finite values for every struct, agreement of classes, interfaces, checks and
  registrations, and the validity of the deployment that the sample application declares.
  While the outside works, \<open>Reconcile\<close> refines a function on situations and is idempotent, previews
  overwrite each other on shared clusters (\<open>Delivery\<close>), the open pull requests of a repository reach the
  clusters (\<open>PullRequests\<close>), and an event of a cluster deploys the proxies of its namespace that select it
  (\<open>Events\<close>). After failures of any kind two reconciliations suffice (\<open>Recovery\<close>). Confinement properties are stated
  by replacement: exchanging the outside for any other that agrees on the permitted calls changes
  nothing.

  \<^bold>\<open>Hypotheses on the outside\<close> are named where they are used: reads do not change the clusters
  (\<open>Resourcer.readOnly\<close>), the API server defaults objects by the webhook and echoes what it is sent
  (\<open>Generator.admitting\<close>), it stores what is admitted (\<open>Previews.servesProxies\<close>), concurrent calls keep to their
  directories (\<open>Concurrency.confined\<close>), calls do what they are documented to do when nothing fails
  (\<open>Delivery.faultless\<close>, \<open>Events.listsProxies\<close>, \<open>Events.matchedBy\<close>, the laws of \<open>PullRequests\<close>), failing
  calls leave the specifications of objects alone (\<open>Recovery.untouched\<close>), the copies of library types are deep (\<open>DeepCopy.copyLaws\<close>),
  \<open>RetryOnConflict\<close> returns the first success, \<open>RemoveAll\<close> establishes what it is documented to. The values of the condition constants of the libraries are fields of \<open>condition_names\<close>.

  \<^bold>\<open>Not modelled:\<close> the tests, the pinned build tools (blank imports) and the TypeScript sample application. The
  queues of the controller runtime are only modelled as far as \<open>Concurrency\<close> and \<open>Events\<close> say. The synthesizer runs the applications as external commands; the sample
  application is modelled by itself, not as the command's behaviour.

  \<^bold>\<open>Plan.\<close> Next: delivery from the other two providers; recovery in the presence of several workers.
\<close>

section \<open>Lemmas that span components\<close>

lemma Synthesize_no_panic: "GitRepository (proxySpec p) = Some r \<Longrightarrow> fst (Synthesize env dir p w) \<noteq> Panicked"
  by (simp add: Synthesize_def Let_def split: prod.splits option.splits)

lemma andThen_no_panic:
  assumes "fst (s w) \<noteq> Panicked" and "\<And>a v. fst (k a v) \<noteq> Panicked"
  shows "fst (andThen s k w) \<noteq> Panicked"
  using assms by (auto simp: andThen_def split: prod.splits outcome.splits sum.splits)

lemma pipeline_no_panic:
  assumes "GitRepository (proxySpec p) = Some r"
    and "\<And>ns n v. fst (clusterClient (resOps env) ns n v) \<noteq> Inr None"
  shows "fst (pipeline env p repo dir w) \<noteq> Panicked"
  unfolding pipeline_def deployStages_def
  using Synthesize_no_panic [OF assms(1), of "synthOps env" dir] no_panic [OF assms(2)]
  by (intro andThen_no_panic)
    (simp_all add: ioStage_def accessStage_def cloneStage_def synthStage_def applyStage_def checkStage_def
      split: prod.splits outcome.splits, (metis fst_conv)+)

text \<open>The name of a generated proxy and a branch determine each other's place in the work directory.\<close>

lemma showInt_nonneg_digits: "0 \<le> n \<Longrightarrow> CHR ''-'' \<notin> set (showInt n)"
  using showNat_no_minus [of "nat n"] by (simp add: showInt_def)

lemma digits_prefix_unique:
  assumes "CHR ''-'' \<notin> set a" and "CHR ''-'' \<notin> set b" and "a @ ''-'' @ s = b @ ''-'' @ t"
  shows "a = b \<and> s = t"
proof -
  have "takeWhile (\<lambda>c. c \<noteq> CHR ''-'') (x @ ''-'' @ y) = x" if "CHR ''-'' \<notin> set x" for x y :: string
    using that by (induction x) auto
  from this [OF assms(1)] this [OF assms(2)] assms(3) show ?thesis by (metis append_same_eq same_append_eq)
qed

section \<open>Properties that span components\<close>



text \<open>
  The proxies that generators create for the pull requests of one namespace and generator never
  share a work directory, although work directories in general are not unique: with non-negative pull
  request numbers the directory determines the number and the branch.
\<close>

theorem generated_work_directories_disjoint:
  assumes "0 \<le> n" and "0 \<le> m"
    and "workDirectory ns (genProxyName g n) b = workDirectory ns (genProxyName g m) c"
  shows "n = m \<and> b = c"
proof -
  have "showInt n @ ''-'' @ b = showInt m @ ''-'' @ c"
    using assms(3) by (simp add: workDirectory_def genProxyName_def)
  from digits_prefix_unique [OF showInt_nonneg_digits [OF assms(1)] showInt_nonneg_digits [OF assms(2)] this]
  show ?thesis by (auto dest: showInt_inject)
qed

theorem generated_work_directories_disjoint_witness:
  "workDirectory ''default'' (genProxyName ''preview'' 1) ''b'' \<noteq> workDirectory ''default'' (genProxyName ''preview'' 11) ''b''"
  using generated_work_directories_disjoint [of 1 11 "''default''" "''preview''" "''b''" "''b''"] by auto

end
